(* ===== verification/Prelude.thy ===== *)
theory Prelude
  imports Complex_Main "HOL-Library.AList" "HOL-Library.Char_ord" "HOL-Library.List_Lexorder"
    "HOL-Library.Product_Lexorder"
begin

text \<open>
  Shared vocabulary of the development: the number and time types, the exceptions of the Python
  code as values, dictionaries in insertion order, Python's rounding, and the interfaces (locales)
  the components are plugged into: a system of steps with an invariant, a system with a safety
  latch, and a refinement between a detailed and an abstract system.

  Python's \<open>float\<close> and \<open>Decimal\<close> values are finite rationals and are modelled as \<open>rat\<close> with exact
  arithmetic: the formulas, branches and rounding calls of the source are kept, the representation
  error of a single floating point operation (and the 28 digit context of \<open>Decimal\<close>) is not.
  A \<open>datetime\<close> is the number of microseconds since 1970-01-01 UTC, the resolution Python has.
  Values that the code reads from its environment (the clock, fresh uuids) are arguments.
\<close>

section \<open>Numbers, time, errors\<close>

type_synonym float = rat
type_synonym decimal = rat
type_synonym datetime = int

definition total_seconds :: "int \<Rightarrow> float" where
  "total_seconds d = of_int d / 1000000"

definition seconds :: "int \<Rightarrow> int" where
  "seconds n = n * 1000000"

text \<open>The exceptions the modelled code raises; the payload is what the message is built from.\<close>

datatype precision_fault =
    Increment_not_positive
  | Quantity_below_minimum rat rat string
  | Notional_below_minimum rat rat string
  | Quantity_not_positive
  | Quantity_not_aligned rat rat string
  | Price_not_positive
  | Price_not_aligned rat rat string

datatype pyerr =
    ValueError string
  | KeyError string
  | RuntimeError string
  | TypeError string
  | IndexError string
  | StructError string
  | AttributeError string
  | InvalidOperation string
  | TransportError string
  | CoinstoreValidationError string
  | ZeroDivisionError
  | NoResultFound
  | MultipleResultsFound
  | IntegrityError
  | PrecisionError precision_fault
  | RiskViolationError "string list"
  | KillSwitchActiveError string
  | RateLimitExceededError string
  | ExchangeError string
  | NonRetryableExchangeExecutionError string
  | CoinstoreSafetyError string
  | HTTPException int string
  | RetryError pyerr

type_synonym 'a res = "pyerr + 'a"

named_theorems op_defs "definitions of the operations of a component"

fun bindr :: "'a res \<Rightarrow> ('a \<Rightarrow> 'b res) \<Rightarrow> 'b res" where
  "bindr (Inl e) f = Inl e"
| "bindr (Inr x) f = f x"

lemma bindr_Inr_iff: "bindr r f = Inr y \<longleftrightarrow> (\<exists>x. r = Inr x \<and> f x = Inr y)"
  by (cases r) auto

lemma bindr_Inl_iff: "bindr r f = Inl e \<longleftrightarrow> r = Inl e \<or> (\<exists>x. r = Inr x \<and> f x = Inl e)"
  by (cases r) auto

definition py_div :: "rat \<Rightarrow> rat \<Rightarrow> rat res" where
  "py_div a b = (if b = 0 then Inl ZeroDivisionError else Inr (a / b))"

lemma py_div_nz [simp]: "b \<noteq> 0 \<Longrightarrow> py_div a b = Inr (a / b)"
  by (simp add: py_div_def)

section \<open>Python's rounding\<close>

text \<open>\<open>round(x, n)\<close> rounds half to even; \<open>to_integral_value(ROUND_DOWN)\<close> truncates.\<close>

definition round_half_even :: "rat \<Rightarrow> int" where
  "round_half_even x =
     (let f = \<lfloor>x\<rfloor>; d = x - of_int f
      in if d < 1/2 then f else if d > 1/2 then f + 1 else if even f then f else f + 1)"

definition py_round :: "rat \<Rightarrow> nat \<Rightarrow> rat" where
  "py_round x n = of_int (round_half_even (x * 10 ^ n)) / 10 ^ n"

definition round_down :: "rat \<Rightarrow> int" where
  "round_down x = (if x \<ge> 0 then \<lfloor>x\<rfloor> else \<lceil>x\<rceil>)"

text \<open>Floors of literal fractions, so that the simplifier evaluates roundings of literals.\<close>

lemma floor_numeral_fractions [simp]:
  "\<lfloor>(numeral a / numeral b :: rat)\<rfloor> = numeral a div numeral b"
  "\<lfloor>(1 / numeral b :: rat)\<rfloor> = 1 div numeral b"
  "\<lfloor>(- numeral a / numeral b :: rat)\<rfloor> = - numeral a div numeral b"
  "\<lfloor>- (numeral a / numeral b :: rat)\<rfloor> = - numeral a div numeral b"
  using floor_divide_of_int_eq[of "numeral a" "numeral b", where 'a = rat]
    floor_divide_of_int_eq[of 1 "numeral b", where 'a = rat]
    floor_divide_of_int_eq[of "- numeral a" "numeral b", where 'a = rat]
  by simp_all

lemma round_half_even_of_int [simp]: "round_half_even (of_int n) = n"
  by (simp add: round_half_even_def)

lemma round_half_even_bounds: "\<lfloor>x\<rfloor> \<le> round_half_even x" "round_half_even x \<le> \<lfloor>x\<rfloor> + 1"
  by (auto simp: round_half_even_def Let_def)

lemma round_half_even_error: "\<bar>of_int (round_half_even x) - x\<bar> \<le> 1/2"
  by (auto simp: round_half_even_def Let_def abs_if) linarith+

lemma round_half_even_mono:
  assumes "x \<le> y"
  shows "round_half_even x \<le> round_half_even y"
proof (cases "\<lfloor>x\<rfloor> = \<lfloor>y\<rfloor>")
  case True
  with assms show ?thesis by (auto simp: round_half_even_def Let_def)
next
  case False
  with assms have "\<lfloor>x\<rfloor> + 1 \<le> \<lfloor>y\<rfloor>" using floor_mono[OF assms] by linarith
  then show ?thesis using round_half_even_bounds(2)[of x] round_half_even_bounds(1)[of y] by linarith
qed

lemma py_round_mono: "x \<le> y \<Longrightarrow> py_round x n \<le> py_round y n"
  by (simp add: py_round_def divide_right_mono round_half_even_mono mult_right_mono)

lemma py_round_idem: "py_round (py_round x n) n = py_round x n"
  by (simp add: py_round_def)

lemma py_round_0 [simp]: "py_round 0 n = 0"
  using round_half_even_of_int[of 0] by (simp add: py_round_def)

lemma py_round_error: "\<bar>py_round x n - x\<bar> \<le> 1 / (2 * 10 ^ n)"
proof -
  have "\<bar>py_round x n - x\<bar> * 10 ^ n = \<bar>(py_round x n - x) * 10 ^ n\<bar>"
    by (simp add: abs_mult)
  also have "(py_round x n - x) * 10 ^ n = of_int (round_half_even (x * 10 ^ n)) - x * 10 ^ n"
    by (simp add: py_round_def left_diff_distrib)
  finally show ?thesis
    using round_half_even_error[of "x * 10 ^ n"] by (simp add: field_simps)
qed

lemma py_round_nonneg: "0 \<le> x \<Longrightarrow> 0 \<le> py_round x n"
  using py_round_mono[of 0 x n] by simp

lemma py_round_le_of_int: "x \<le> of_int k \<Longrightarrow> py_round x n \<le> of_int k"
proof -
  assume "x \<le> of_int k"
  then have "py_round x n \<le> py_round (of_int k) n" by (rule py_round_mono)
  also have "py_round (of_int k) n = of_int k"
    using round_half_even_of_int[of "k * 10 ^ n"] by (simp add: py_round_def)
  finally show ?thesis .
qed

lemma round_down_of_int [simp]: "round_down (of_int n) = n"
  by (simp add: round_down_def)

lemma round_down_le: "0 \<le> x \<Longrightarrow> of_int (round_down x) \<le> x"
  by (simp add: round_down_def)

lemma round_down_gt: "0 \<le> x \<Longrightarrow> x < of_int (round_down x) + 1"
  by (simp add: round_down_def) linarith

lemma round_down_nonneg: "0 \<le> x \<Longrightarrow> 0 \<le> round_down x"
  by (simp add: round_down_def)

section \<open>Strings and lists\<close>

text \<open>\<open>s.replace(c, "")\<close> for a one character \<open>c\<close>, ASCII \<open>lower\<close> and \<open>upper\<close>, decimal \<open>str(n)\<close>.\<close>

definition remove_char :: "char \<Rightarrow> string \<Rightarrow> string" where
  "remove_char c s = filter (\<lambda>x. x \<noteq> c) s"

definition to_lower :: "char \<Rightarrow> char" where
  "to_lower c = (if CHR ''A'' \<le> c \<and> c \<le> CHR ''Z'' then char_of ((of_char c :: nat) + 32) else c)"

definition to_upper :: "char \<Rightarrow> char" where
  "to_upper c = (if CHR ''a'' \<le> c \<and> c \<le> CHR ''z'' then char_of ((of_char c :: nat) - 32) else c)"

definition lower :: "string \<Rightarrow> string" where
  "lower s = map to_lower s"

definition upper :: "string \<Rightarrow> string" where
  "upper s = map to_upper s"

fun str_nat :: "nat \<Rightarrow> string" where
  "str_nat n = (if n < 10 then [char_of (48 + n)] else str_nat (n div 10) @ [char_of (48 + n mod 10)])"

declare str_nat.simps [simp del]

lemma str_nat_numeral: "str_nat (numeral k) =
    (if numeral k < (10 :: nat) then [char_of (48 + numeral k :: nat)] else str_nat (numeral k div 10) @ [char_of (48 + numeral k mod 10 :: nat)])"
  by (rule str_nat.simps)

definition zfill :: "nat \<Rightarrow> string \<Rightarrow> string" where
  "zfill n s = replicate (n - length s) CHR ''0'' @ s"

definition str_int :: "int \<Rightarrow> string" where
  "str_int n = (if n < 0 then ''-'' @ str_nat (nat (- n)) else str_nat (nat n))"

text \<open>Reading decimal digits.\<close>

definition digits_value :: "string \<Rightarrow> int" where
  "digits_value s = foldl (\<lambda>n c. n * 10 + (of_char c - 48)) 0 s"

definition is_digits :: "string \<Rightarrow> bool" where
  "is_digits s \<longleftrightarrow> s \<noteq> [] \<and> (\<forall>c \<in> set s. CHR ''0'' \<le> c \<and> c \<le> CHR ''9'')"

fun max_list :: "'a::linorder list \<Rightarrow> 'a option" where
  "max_list [] = None"
| "max_list (x # xs) = Some (fold max xs x)"

fun min_list_opt :: "'a::linorder list \<Rightarrow> 'a option" where
  "min_list_opt [] = None"
| "min_list_opt (x # xs) = Some (fold min xs x)"

lemma fold_max_Max: "fold max xs x = Max (insert x (set xs))" for x :: "'a::linorder"
  using Max.set_eq_fold[of x xs] by simp

lemma fold_min_Min: "fold min xs x = Min (insert x (set xs))" for x :: "'a::linorder"
  using Min.set_eq_fold[of x xs] by simp

lemma max_list_None [simp]: "max_list xs = None \<longleftrightarrow> xs = []"
  by (cases xs) auto

lemma min_list_opt_None [simp]: "min_list_opt xs = None \<longleftrightarrow> xs = []"
  by (cases xs) auto

lemma max_list_Max: "xs \<noteq> [] \<Longrightarrow> max_list xs = Some (Max (set xs))" for xs :: "'a::linorder list"
  by (cases xs) (auto simp: fold_max_Max)

lemma min_list_opt_Min: "xs \<noteq> [] \<Longrightarrow> min_list_opt xs = Some (Min (set xs))" for xs :: "'a::linorder list"
  by (cases xs) (auto simp: fold_min_Min)

lemma max_list_SomeD:
  assumes "max_list xs = Some m"
  shows "m \<in> set xs" "x \<in> set xs \<Longrightarrow> x \<le> m"
proof -
  from assms have "xs \<noteq> []" by (cases xs) auto
  with assms have "m = Max (set xs)" by (simp add: max_list_Max)
  with \<open>xs \<noteq> []\<close> show "m \<in> set xs" "x \<in> set xs \<Longrightarrow> x \<le> m" by auto
qed

lemma min_list_opt_SomeD:
  assumes "min_list_opt xs = Some m"
  shows "m \<in> set xs" "x \<in> set xs \<Longrightarrow> m \<le> x"
proof -
  from assms have "xs \<noteq> []" by (cases xs) auto
  with assms have "m = Min (set xs)" by (simp add: min_list_opt_Min)
  with \<open>xs \<noteq> []\<close> show "m \<in> set xs" "x \<in> set xs \<Longrightarrow> m \<le> x" by auto
qed

lemma sum_list_nonneg_map: "(\<And>x. x \<in> set xs \<Longrightarrow> 0 \<le> f x) \<Longrightarrow> 0 \<le> (\<Sum>x \<leftarrow> xs. f x :: rat)"
  by (induction xs) auto

lemma sum_list_filter_le:
  "(\<And>x. x \<in> set xs \<Longrightarrow> 0 \<le> f x) \<Longrightarrow> (\<Sum>x \<leftarrow> filter P xs. f x) \<le> (\<Sum>x \<leftarrow> xs. f x :: rat)"
proof (induction xs)
  case (Cons a xs)
  then have "0 \<le> f a" and "(\<Sum>x \<leftarrow> filter P xs. f x) \<le> (\<Sum>x \<leftarrow> xs. f x)" by auto
  then show ?case by auto
qed simp

section \<open>Dictionaries in insertion order\<close>

text \<open>
  A Python \<open>dict\<close> iterates in insertion order: assigning an existing key keeps its position,
  a new key goes to the end. \<open>AList.update\<close> and \<open>AList.delete\<close> do exactly this.
\<close>

type_synonym ('k, 'v) dict = "('k \<times> 'v) list"

abbreviation dict_get :: "('k, 'v) dict \<Rightarrow> 'k \<Rightarrow> 'v option" where
  "dict_get \<equiv> map_of"

abbreviation dict_set :: "'k \<Rightarrow> 'v \<Rightarrow> ('k, 'v) dict \<Rightarrow> ('k, 'v) dict" where
  "dict_set \<equiv> AList.update"

abbreviation dict_pop :: "'k \<Rightarrow> ('k, 'v) dict \<Rightarrow> ('k, 'v) dict" where
  "dict_pop \<equiv> AList.delete"

abbreviation dict_keys :: "('k, 'v) dict \<Rightarrow> 'k list" where
  "dict_keys d \<equiv> map fst d"

definition dict_get_or :: "('k, 'v) dict \<Rightarrow> 'k \<Rightarrow> 'v \<Rightarrow> 'v" where
  "dict_get_or d k v = (case dict_get d k of None \<Rightarrow> v | Some x \<Rightarrow> x)"

text \<open>The interface of a dictionary and what follows from its laws alone.\<close>

locale dictionary =
  fixes get :: "'d \<Rightarrow> 'k \<Rightarrow> 'v option"
    and put :: "'k \<Rightarrow> 'v \<Rightarrow> 'd \<Rightarrow> 'd"
    and pop :: "'k \<Rightarrow> 'd \<Rightarrow> 'd"
    and wf :: "'d \<Rightarrow> bool"
  assumes get_put: "get (put k v d) k' = (if k' = k then Some v else get d k')"
    and get_pop: "wf d \<Longrightarrow> get (pop k d) k' = (if k' = k then None else get d k')"
    and wf_put: "wf d \<Longrightarrow> wf (put k v d)"
    and wf_pop: "wf d \<Longrightarrow> wf (pop k d)"
begin

lemma wf_pops: "wf d \<Longrightarrow> wf (fold pop ks d)"
  by (induction ks arbitrary: d) (auto intro: wf_pop)

lemma get_pops: "wf d \<Longrightarrow> get (fold pop ks d) k = (if k \<in> set ks then None else get d k)"
  by (induction ks arbitrary: d) (auto simp: get_pop wf_pop)

lemma pop_put_get: "wf d \<Longrightarrow> get d k = None \<Longrightarrow> get (pop k (put k v d)) k' = get d k'"
  by (simp add: get_pop get_put wf_put)

end

interpretation adict: dictionary map_of AList.update AList.delete "\<lambda>d. distinct (map fst d)"
  by unfold_locales (auto simp: update_conv' delete_conv' distinct_update distinct_delete)

lemma dict_values_update: "snd ` set (dict_set k v d) \<subseteq> insert v (snd ` set d)"
  by (induction d) auto

lemma dict_pop_subset: "set (dict_pop k d) \<subseteq> set d"
  by (induction d) auto

lemma dict_set_mem: "(k', v') \<in> set (dict_set k v d) \<Longrightarrow> (k' = k \<and> v' = v) \<or> (k', v') \<in> set d"
  by (induction d) (auto split: if_splits)

section \<open>Systems of steps\<close>

text \<open>
  A component with state is a step function over its events; \<open>run\<close> plays a sequence of events.
  \<open>step_system\<close> is the contract ``every step keeps the invariant''; \<open>latch_system\<close> adds a safety
  latch that only designated events may open; \<open>refinement\<close> relates a detailed system to an
  abstract one through an abstraction function.
\<close>

definition run :: "('e \<Rightarrow> 's \<Rightarrow> 's) \<Rightarrow> 'e list \<Rightarrow> 's \<Rightarrow> 's" where
  "run step es s = fold step es s"

lemma run_Nil [simp]: "run step [] s = s"
  by (simp add: run_def)

lemma run_Cons [simp]: "run step (e # es) s = run step es (step e s)"
  by (simp add: run_def)

lemma run_append [simp]: "run step (es @ fs) s = run step fs (run step es s)"
  by (simp add: run_def)

locale step_system =
  fixes step :: "'e \<Rightarrow> 's \<Rightarrow> 's" and inv :: "'s \<Rightarrow> bool"
  assumes step_inv: "inv s \<Longrightarrow> inv (step e s)"
begin

lemma run_inv: "inv s \<Longrightarrow> inv (run step es s)"
  by (induction es arbitrary: s) (auto intro: step_inv)

end

locale latch_system = step_system step inv for step :: "'e \<Rightarrow> 's \<Rightarrow> 's" and inv +
  fixes latched :: "'s \<Rightarrow> bool" and opens :: "'e \<Rightarrow> bool"
  assumes latch_kept: "inv s \<Longrightarrow> latched s \<Longrightarrow> \<not> opens e \<Longrightarrow> latched (step e s)"
begin

lemma run_latched:
  "inv s \<Longrightarrow> latched s \<Longrightarrow> (\<And>e. e \<in> set es \<Longrightarrow> \<not> opens e) \<Longrightarrow> latched (run step es s)"
  by (induction es arbitrary: s) (auto intro: step_inv latch_kept)

end

locale refinement = step_system cstep inv for cstep :: "'e \<Rightarrow> 'c \<Rightarrow> 'c" and inv +
  fixes astep :: "'e \<Rightarrow> 'a \<Rightarrow> 'a" and absn :: "'c \<Rightarrow> 'a"
  assumes sim: "inv s \<Longrightarrow> absn (cstep e s) = astep e (absn s)"
begin

lemma run_sim: "inv s \<Longrightarrow> absn (run cstep es s) = run astep es (absn s)"
  by (induction es arbitrary: s) (auto simp: sim step_inv)

end

end
