(* ===== verification/Effects.thy ===== *)
theory Effects
  imports Prelude
begin

text \<open>
  Stateful operations that may raise: a state transformer that returns an error or a value. The
  state is kept when an exception is raised, as Python keeps the mutations made before the raise.
  \<open>keeps\<close> is the proof rule set for invariants of such operations, \<open>loop\<close> the Python \<open>for\<close> loop.
\<close>

type_synonym ('s, 'a) op = "'s \<Rightarrow> 'a res \<times> 's"

definition ret :: "'a \<Rightarrow> ('s, 'a) op" where
  "ret x = (\<lambda>s. (Inr x, s))"

definition raise_err :: "pyerr \<Rightarrow> ('s, 'a) op" where
  "raise_err e = (\<lambda>s. (Inl e, s))"

definition bindm :: "('s, 'a) op \<Rightarrow> ('a \<Rightarrow> ('s, 'b) op) \<Rightarrow> ('s, 'b) op" where
  "bindm m f = (\<lambda>s. case m s of (Inl e, s') \<Rightarrow> (Inl e, s') | (Inr x, s') \<Rightarrow> f x s')"

definition seqm :: "('s, 'a) op \<Rightarrow> ('s, 'b) op \<Rightarrow> ('s, 'b) op" where
  "seqm m n = bindm m (\<lambda>_. n)"

definition reads :: "('s \<Rightarrow> 'a) \<Rightarrow> ('s, 'a) op" where
  "reads f = (\<lambda>s. (Inr (f s), s))"

definition modifies :: "('s \<Rightarrow> 's) \<Rightarrow> ('s, unit) op" where
  "modifies f = (\<lambda>s. (Inr (), f s))"

definition lift_res :: "'a res \<Rightarrow> ('s, 'a) op" where
  "lift_res r = (\<lambda>s. (r, s))"

text \<open>\<open>for x in xs: body(x)\<close>, and the same collecting the results.\<close>

fun loop :: "('a \<Rightarrow> ('s, 'b) op) \<Rightarrow> 'a list \<Rightarrow> ('s, unit) op" where
  "loop f [] = ret ()"
| "loop f (x # xs) = seqm (f x) (loop f xs)"

fun collect :: "('a \<Rightarrow> ('s, 'b) op) \<Rightarrow> 'a list \<Rightarrow> ('s, 'b list) op" where
  "collect f [] = ret []"
| "collect f (x # xs) = bindm (f x) (\<lambda>y. bindm (collect f xs) (\<lambda>ys. ret (y # ys)))"

text \<open>\<open>try: m except Exception as exc: h(exc)\<close>.\<close>

definition catch :: "('s, 'a) op \<Rightarrow> (pyerr \<Rightarrow> ('s, 'a) op) \<Rightarrow> ('s, 'a) op" where
  "catch m h = (\<lambda>s. case m s of (Inl e, s') \<Rightarrow> h e s' | (Inr x, s') \<Rightarrow> (Inr x, s'))"

text \<open>Running an operation on a part of the state.\<close>

definition zoom :: "('s \<Rightarrow> 't) \<Rightarrow> ('t \<Rightarrow> 's \<Rightarrow> 's) \<Rightarrow> ('t, 'a) op \<Rightarrow> ('s, 'a) op" where
  "zoom get put m = (\<lambda>s. case m (get s) of (r, t) \<Rightarrow> (r, put t s))"

named_theorems eff "how the effect combinators run"

lemma ret_run [eff, simp]: "ret x s = (Inr x, s)"
  by (simp add: ret_def)

lemma raise_run [eff, simp]: "raise_err e s = (Inl e, s)"
  by (simp add: raise_err_def)

lemma reads_run [eff, simp]: "reads f s = (Inr (f s), s)"
  by (simp add: reads_def)

lemma modifies_run [eff, simp]: "modifies f s = (Inr (), f s)"
  by (simp add: modifies_def)

lemma lift_res_run [eff, simp]: "lift_res r s = (r, s)"
  by (simp add: lift_res_def)

lemma bindm_ret [simp]: "bindm (ret x) f = f x"
  by (simp add: bindm_def ret_def)

lemma bindm_Inr: "m s = (Inr x, s') \<Longrightarrow> bindm m f s = f x s'"
  by (simp add: bindm_def)

lemma bindm_Inl: "m s = (Inl e, s') \<Longrightarrow> bindm m f s = (Inl e, s')"
  by (simp add: bindm_def)

lemma bindm_reads [simp]: "bindm (reads f) g s = g (f s) s"
  by (simp add: bindm_def)

lemma bindm_modifies [simp]: "bindm (modifies f) g s = g () (f s)"
  by (simp add: bindm_def)

lemma seqm_modifies [simp]: "seqm (modifies f) n s = n (f s)"
  by (simp add: seqm_def)

lemma bindm_raise [simp]: "bindm (raise_err e) f = raise_err e"
  by (simp add: bindm_def raise_err_def)

lemma bindm_lift_Inr [simp]: "bindm (lift_res (Inr x)) f s = f x s"
  by (simp add: bindm_def)

lemma bindm_lift_Inl [simp]: "bindm (lift_res (Inl e)) f s = (Inl e, s)"
  by (simp add: bindm_def)

lemma bindm_InrE:
  assumes "bindm m f s = (Inr y, s')"
  obtains x t where "m s = (Inr x, t)" "f x t = (Inr y, s')"
  using assms by (auto simp: bindm_def split: prod.splits sum.splits)

section \<open>Invariants of operations\<close>

definition keeps :: "('s \<Rightarrow> bool) \<Rightarrow> ('s, 'a) op \<Rightarrow> bool" where
  "keeps P m \<longleftrightarrow> (\<forall>s. P s \<longrightarrow> P (snd (m s)))"

lemma keepsI: "(\<And>s. P s \<Longrightarrow> P (snd (m s))) \<Longrightarrow> keeps P m"
  by (simp add: keeps_def)

lemma keepsD: "keeps P m \<Longrightarrow> P s \<Longrightarrow> P (snd (m s))"
  by (simp add: keeps_def)

named_theorems kept "operations that keep an invariant"

lemma keeps_ret [kept]: "keeps P (ret x)"
  by (simp add: keeps_def)

lemma keeps_raise [kept]: "keeps P (raise_err e)"
  by (simp add: keeps_def)

lemma keeps_reads [kept]: "keeps P (reads f)"
  by (simp add: keeps_def)

lemma keeps_lift [kept]: "keeps P (lift_res r)"
  by (simp add: keeps_def)

lemma keeps_modifies: "(\<And>s. P s \<Longrightarrow> P (f s)) \<Longrightarrow> keeps P (modifies f)"
  by (simp add: keeps_def)

lemma keeps_bind [kept]: "keeps P m \<Longrightarrow> (\<And>x. keeps P (f x)) \<Longrightarrow> keeps P (bindm m f)"
  by (fastforce simp: keeps_def bindm_def split: prod.splits sum.splits)

lemma keeps_bind_result:
  assumes "keeps P m" "\<And>s x t. m s = (Inr x, t) \<Longrightarrow> keeps P (f x)"
  shows "keeps P (bindm m f)"
proof (rule keepsI)
  fix s assume "P s"
  obtain r t where m: "m s = (r, t)" by (cases "m s")
  then have "P t" using keepsD[OF assms(1) \<open>P s\<close>] by simp
  then show "P (snd (bindm m f s))"
    using assms(2)[of s _ t] m by (cases r) (auto simp: bindm_def keepsD)
qed

text \<open>Total correctness: the operation returns, in a state where \<open>Q\<close> holds of the result.\<close>

definition total :: "('s \<Rightarrow> bool) \<Rightarrow> ('s, 'a) op \<Rightarrow> ('a \<Rightarrow> 's \<Rightarrow> bool) \<Rightarrow> bool" where
  "total P m Q \<longleftrightarrow> (\<forall>s. P s \<longrightarrow> (\<exists>x t. m s = (Inr x, t) \<and> Q x t))"

lemma totalI: "(\<And>s. P s \<Longrightarrow> \<exists>x t. m s = (Inr x, t) \<and> Q x t) \<Longrightarrow> total P m Q"
  by (simp add: total_def)

lemma totalE:
  assumes "total P m Q" "P s"
  obtains x t where "m s = (Inr x, t)" "Q x t"
  using assms by (auto simp: total_def)

lemma total_bind: "total P m Q \<Longrightarrow> (\<And>x. total (Q x) (f x) R) \<Longrightarrow> total P (bindm m f) R"
  by (fastforce simp: total_def bindm_def)

lemma total_seq: "total P m (\<lambda>_. Q) \<Longrightarrow> total Q n R \<Longrightarrow> total P (seqm m n) R"
  unfolding seqm_def by (rule total_bind)

lemma total_ret: "(\<And>s. P s \<Longrightarrow> Q x s) \<Longrightarrow> total P (ret x) Q"
  by (simp add: total_def)

lemma total_modifies: "(\<And>s. P s \<Longrightarrow> Q () (f s)) \<Longrightarrow> total P (modifies f) Q"
  by (simp add: total_def)

lemma total_reads: "(\<And>s. P s \<Longrightarrow> Q (f s) s) \<Longrightarrow> total P (reads f) Q"
  by (simp add: total_def)

lemma total_conseq: "total P m Q \<Longrightarrow> (\<And>s. P' s \<Longrightarrow> P s) \<Longrightarrow> (\<And>x s. Q x s \<Longrightarrow> Q' x s) \<Longrightarrow> total P' m Q'"
  by (fastforce simp: total_def)

lemma total_collect:
  assumes "\<And>x. x \<in> set xs \<Longrightarrow> total P (f x) (\<lambda>_. P)"
  shows "total P (collect f xs) (\<lambda>_. P)"
  using assms by (induction xs) (auto intro!: total_bind total_ret)

lemma keeps_seq [kept]: "keeps P m \<Longrightarrow> keeps P n \<Longrightarrow> keeps P (seqm m n)"
  unfolding seqm_def by (rule keeps_bind)

lemma keeps_catch [kept]: "keeps P m \<Longrightarrow> (\<And>e. keeps P (h e)) \<Longrightarrow> keeps P (catch m h)"
  by (fastforce simp: keeps_def catch_def split: prod.splits sum.splits)

lemma keeps_loop [kept]: "(\<And>x. x \<in> set xs \<Longrightarrow> keeps P (f x)) \<Longrightarrow> keeps P (loop f xs)"
  by (induction xs) (auto intro: kept)

lemma keeps_collect [kept]: "(\<And>x. x \<in> set xs \<Longrightarrow> keeps P (f x)) \<Longrightarrow> keeps P (collect f xs)"
  by (induction xs) (auto intro: kept)

lemma keeps_if [kept]: "keeps P m \<Longrightarrow> keeps P n \<Longrightarrow> keeps P (if b then m else n)"
  by simp

lemma keeps_option [kept]:
  "keeps P m \<Longrightarrow> (\<And>x. keeps P (f x)) \<Longrightarrow> keeps P (case v of None \<Rightarrow> m | Some x \<Rightarrow> f x)"
  by (cases v) auto

lemma keeps_zoom:
  "(\<And>s t r. P s \<Longrightarrow> m (get s) = (r, t) \<Longrightarrow> P (put t s)) \<Longrightarrow> keeps P (zoom get put m)"
  by (auto simp: keeps_def zoom_def split: prod.splits)

end
