(* ===== verification/Exec_Models.thy ===== *)
theory Exec_Models
  imports Prelude
begin

text \<open>
  The data of the execution layer (\<open>execution/models.py\<close>): venues, sides, order types, order
  intents with their symbol precision, and the normalisation of venue order states
  (\<open>execution/status.py\<close>). Enumerations are datatypes with the source's members; the functions
  named \<open>value_of_\<dots>\<close> give the string value of a member.
\<close>

datatype ExecutionVenue =
  Venue_coinstore | Venue_mexc | Venue_gate | Venue_bitmart | Venue_kucoin | Venue_binance

datatype ExecutionSide = Side_buy | Side_sell

datatype ExecutionOrderType = Type_limit | Type_market | Type_post_only | Type_ioc | Type_fok

datatype TimeInForce = TIF_gtc | TIF_ioc | TIF_fok | TIF_post_only

datatype NormalizedOrderStatus =
    Status_new | Status_open | Status_partially_filled | Status_filled
  | Status_cancelled | Status_rejected | Status_expired | Status_unknown

fun value_of_side :: "ExecutionSide \<Rightarrow> string" where
  "value_of_side Side_buy = ''buy''"
| "value_of_side Side_sell = ''sell''"

fun opposite :: "ExecutionSide \<Rightarrow> ExecutionSide" where
  "opposite Side_buy = Side_sell"
| "opposite Side_sell = Side_buy"

lemma opposite_opposite [simp]: "opposite (opposite s) = s"
  by (cases s) auto

lemma opposite_neq [simp]: "opposite s \<noteq> s" "s \<noteq> opposite s"
  by (cases s, auto)+

record SymbolPrecision =
  sp_symbol :: string
  sp_venue_symbol :: string
  sp_price_tick :: decimal
  sp_quantity_step :: decimal
  sp_min_quantity :: decimal
  sp_min_notional :: decimal
  sp_price_precision :: int
  sp_quantity_precision :: int

text \<open>The metadata stored with intents and rows: strings, integers and flags under string keys.\<close>

datatype meta_value = MStr string | MInt int | MBool bool

type_synonym metadata = "(string, meta_value) dict"

record OrderIntent =
  oi_venue :: ExecutionVenue
  oi_symbol :: string
  oi_side :: ExecutionSide
  oi_order_type :: ExecutionOrderType
  oi_quantity :: decimal
  oi_price :: "decimal option"
  oi_client_order_id :: string
  oi_time_in_force :: TimeInForce
  oi_reduce_only :: bool
  oi_metadata :: metadata

text \<open>\<open>intent.price or Decimal("0")\<close>: the price of an order without a limit counts as zero.\<close>

definition price_or_zero :: "OrderIntent \<Rightarrow> decimal" where
  "price_or_zero i = (case oi_price i of None \<Rightarrow> 0 | Some p \<Rightarrow> p)"

record OrderBookLevel =
  level_price :: float
  level_size :: float

record OrderBookSnapshot =
  ob_exchange :: string
  ob_symbol :: string
  ob_bids :: "OrderBookLevel list"
  ob_asks :: "OrderBookLevel list"
  ob_source_timestamp :: datetime
  ob_sequence :: "string option"

section \<open>Venue order states\<close>

definition STATUS_MAP :: "(string, NormalizedOrderStatus) dict" where
  "STATUS_MAP =
    [(''NEW'', Status_open),
     (''PARTIALLY_FILLED'', Status_partially_filled),
     (''FILLED'', Status_filled),
     (''CANCELED'', Status_cancelled),
     (''CANCELLED'', Status_cancelled),
     (''REJECTED'', Status_rejected),
     (''EXPIRED'', Status_expired),
     (''open'', Status_open),
     (''closed'', Status_filled),
     (''cancelled'', Status_cancelled),
     (''canceled'', Status_cancelled),
     (''done'', Status_filled),
     (''active'', Status_open),
     (''success'', Status_open),
     (''SUBMITTED'', Status_open),
     (''PENDING'', Status_open),
     (''PARTIAL_FILLED'', Status_partially_filled),
     (''PARTIAL_CANCELED'', Status_cancelled),
     (''PARTIAL_CANCELLED'', Status_cancelled),
     (''CANCELING'', Status_open),
     (''CANCELLING'', Status_open),
     (''COMPLETE'', Status_filled),
     (''COMPLETED'', Status_filled)]"

text \<open>The argument is \<open>str(value)\<close>, or \<open>None\<close>.\<close>

definition normalize_status :: "string option \<Rightarrow> NormalizedOrderStatus" where
  "normalize_status v =
     (case v of
        None \<Rightarrow> Status_unknown
      | Some s \<Rightarrow> dict_get_or STATUS_MAP s (dict_get_or STATUS_MAP (upper s) Status_unknown))"

text \<open>Every key of the table is returned as the table says, so no entry is shadowed.\<close>

lemma distinct_STATUS_MAP: "distinct (map fst STATUS_MAP)"
  by (simp add: STATUS_MAP_def)

lemma normalize_status_table: "(s, r) \<in> set STATUS_MAP \<Longrightarrow> normalize_status (Some s) = r"
  using distinct_STATUS_MAP by (simp add: normalize_status_def dict_get_or_def)

lemma normalize_status_never_new: "normalize_status v \<noteq> Status_new"
proof -
  have "r \<noteq> Status_new" if "map_of STATUS_MAP s = Some r" for s r
    using map_of_SomeD[OF that] by (auto simp: STATUS_MAP_def)
  then show ?thesis
    by (auto simp: normalize_status_def dict_get_or_def split: option.splits)
qed

end
