(* ===== verification/Json.thy ===== *)
theory Json
  imports Prelude
begin

text \<open>
  The dynamic values the venues' messages are made of, and what the code does with them: \<open>dict.get\<close>,
  chains of \<open>or\<close>, \<open>str\<close>, \<open>int\<close>, \<open>float\<close> and \<open>Decimal\<close> conversions. Python's printing of floats and of
  containers is an argument (\<open>printer\<close>) where \<open>str\<close> is applied to a value of unknown type; the
  non-finite numbers (\<open>nan\<close>, \<open>inf\<close>) are not values of the model, their texts are not numbers here.
\<close>

section \<open>Values\<close>

datatype json =
    JNull
  | JBool bool
  | JInt int
  | JFloat float
  | JStr string
  | JList "json list"
  | JDict "(string \<times> json) list"

type_synonym obj = "(string \<times> json) list"
type_synonym printer = "json \<Rightarrow> string"

fun json_truthy :: "json \<Rightarrow> bool" where
  "json_truthy JNull = False"
| "json_truthy (JBool b) = b"
| "json_truthy (JInt n) = (n \<noteq> 0)"
| "json_truthy (JFloat x) = (x \<noteq> 0)"
| "json_truthy (JStr s) = (s \<noteq> [])"
| "json_truthy (JList xs) = (xs \<noteq> [])"
| "json_truthy (JDict d) = (d \<noteq> [])"

fun is_dict :: "json \<Rightarrow> bool" where
  "is_dict (JDict d) = True"
| "is_dict _ = False"

fun is_list :: "json \<Rightarrow> bool" where
  "is_list (JList xs) = True"
| "is_list _ = False"

text \<open>\<open>d.get(k)\<close> on a dict, and \<open>v.get(k)\<close> on a value of unknown type.\<close>

definition jget :: "obj \<Rightarrow> string \<Rightarrow> json" where
  "jget d k = (case dict_get d k of None \<Rightarrow> JNull | Some v \<Rightarrow> v)"

definition has_key :: "obj \<Rightarrow> string \<Rightarrow> bool" where
  "has_key d k \<longleftrightarrow> k \<in> set (dict_keys d)"

fun as_dict :: "json \<Rightarrow> obj res" where
  "as_dict (JDict d) = Inr d"
| "as_dict _ = Inl (AttributeError ''get'')"

text \<open>\<open>d.get(k1) or ... or d.get(kn) or last\<close>.\<close>

fun get_or :: "obj \<Rightarrow> string list \<Rightarrow> json \<Rightarrow> json" where
  "get_or d [] last_value = last_value"
| "get_or d (k # ks) last_value = (if json_truthy (jget d k) then jget d k else get_or d ks last_value)"

section \<open>Conversions\<close>

fun py_str :: "printer \<Rightarrow> json \<Rightarrow> string" where
  "py_str printer JNull = ''None''"
| "py_str printer (JBool b) = (if b then ''True'' else ''False'')"
| "py_str printer (JInt n) = str_int n"
| "py_str printer (JFloat x) = printer (JFloat x)"
| "py_str printer (JStr s) = s"
| "py_str printer (JList xs) = printer (JList xs)"
| "py_str printer (JDict d) = printer (JDict d)"

definition is_space :: "char \<Rightarrow> bool" where
  "is_space c \<longleftrightarrow> (of_char c :: nat) \<in> {9, 10, 11, 12, 13, 28, 29, 30, 31, 32}"

definition strip :: "string \<Rightarrow> string" where
  "strip s = rev (dropWhile is_space (rev (dropWhile is_space s)))"

definition is_digit :: "char \<Rightarrow> bool" where
  "is_digit c \<longleftrightarrow> CHR ''0'' \<le> c \<and> c \<le> CHR ''9''"

fun split_sign :: "string \<Rightarrow> int \<times> string" where
  "split_sign [] = (1, [])"
| "split_sign (c # s) = (if c = CHR ''-'' then (-1, s) else if c = CHR ''+'' then (1, s) else (1, c # s))"

definition ten_to :: "int \<Rightarrow> rat" where
  "ten_to e = (if 0 \<le> e then 10 ^ nat e else 1 / 10 ^ nat (- e))"

text \<open>The exponent part of a number: absent, or \<open>e\<close> with a sign and digits.\<close>

definition parse_exponent :: "string \<Rightarrow> int option" where
  "parse_exponent s =
     (if s = [] then Some 0
      else if hd s = CHR ''e'' \<or> hd s = CHR ''E'' then
        (case split_sign (tl s) of (sign, t) \<Rightarrow> if is_digits t then Some (sign * digits_value t) else None)
      else None)"

text \<open>
  The number grammar that \<open>Decimal\<close> and \<open>float\<close> share: sign, digits with an optional point, exponent.
  The result is the value and its decimal exponent, as in \<open>as_tuple().exponent\<close>.
\<close>

definition parse_number :: "string \<Rightarrow> (rat \<times> int) option" where
  "parse_number s =
     (case split_sign s of (sign, t) \<Rightarrow>
       (let int_part = takeWhile is_digit t; rest = dropWhile is_digit t;
            frac = (if rest \<noteq> [] \<and> hd rest = CHR ''.'' then takeWhile is_digit (tl rest) else []);
            rest2 = (if rest \<noteq> [] \<and> hd rest = CHR ''.'' then dropWhile is_digit (tl rest) else rest)
        in if int_part = [] \<and> frac = [] then None
           else (case parse_exponent rest2 of
                   None \<Rightarrow> None
                 | Some e \<Rightarrow> (let e' = e - int (length frac)
                              in Some (of_int (sign * digits_value (int_part @ frac)) * ten_to e', e')))))"

definition parse_decimal :: "string \<Rightarrow> (rat \<times> int) res" where
  "parse_decimal s =
     (case parse_number (filter (\<lambda>c. c \<noteq> CHR ''_'') (strip s)) of
        None \<Rightarrow> Inl (InvalidOperation s)
      | Some r \<Rightarrow> Inr r)"

text \<open>\<open>float(v)\<close> and \<open>int(v)\<close>; of texts with underscores only those without are read.\<close>

fun py_float :: "json \<Rightarrow> float res" where
  "py_float (JBool b) = Inr (if b then 1 else 0)"
| "py_float (JInt n) = Inr (of_int n)"
| "py_float (JFloat x) = Inr x"
| "py_float (JStr s) = (case parse_number (strip s) of None \<Rightarrow> Inl (ValueError s) | Some r \<Rightarrow> Inr (fst r))"
| "py_float _ = Inl (TypeError ''float() argument must be a string or a real number'')"

definition parse_int :: "string \<Rightarrow> int option" where
  "parse_int s = (case split_sign (strip s) of (sign, t) \<Rightarrow> if is_digits t then Some (sign * digits_value t) else None)"

fun py_int :: "json \<Rightarrow> int res" where
  "py_int (JBool b) = Inr (if b then 1 else 0)"
| "py_int (JInt n) = Inr n"
| "py_int (JFloat x) = Inr (round_down x)"
| "py_int (JStr s) = (case parse_int s of None \<Rightarrow> Inl (ValueError s) | Some n \<Rightarrow> Inr n)"
| "py_int _ = Inl (TypeError ''int() argument must be a string or a real number'')"

text \<open>\<open>token in text\<close>.\<close>

fun contains_text :: "string \<Rightarrow> string \<Rightarrow> bool" where
  "contains_text token [] \<longleftrightarrow> token = []"
| "contains_text token (c # cs) \<longleftrightarrow> take (length token) (c # cs) = token \<or> contains_text token cs"

section \<open>Printing decimals\<close>

text \<open>
  \<open>format(value.normalize(), "f")\<close>: the shortest plain notation. \<open>decimal_places\<close> looks for the number of
  places among the first \<open>fuel\<close>; \<open>Decimal\<close> has 28 significant digits, so that many are enough.
\<close>

fun decimal_places :: "nat \<Rightarrow> rat \<Rightarrow> nat option" where
  "decimal_places 0 x = (if of_int \<lfloor>x\<rfloor> = x then Some 0 else None)"
| "decimal_places (Suc fuel) x = (if of_int \<lfloor>x\<rfloor> = x then Some 0 else map_option Suc (decimal_places fuel (x * 10)))"

definition decimal_text :: "decimal \<Rightarrow> string" where
  "decimal_text x =
     (let n = (case decimal_places 28 x of Some n \<Rightarrow> n | None \<Rightarrow> 28);
          ds = zfill (n + 1) (str_nat (nat (round_half_even (\<bar>x\<bar> * 10 ^ n))));
          k = length ds - n
      in (if x < 0 then ''-'' else []) @ take k ds @ (if n = 0 then [] else CHR ''.'' # drop k ds))"

section \<open>Digits\<close>

lemma is_digit_iff: "is_digit c \<longleftrightarrow> 48 \<le> (of_char c :: nat) \<and> (of_char c :: nat) \<le> 57"
  by (simp add: is_digit_def less_eq_char_def)

lemma is_digits_iff: "is_digits s \<longleftrightarrow> s \<noteq> [] \<and> (\<forall>c \<in> set s. is_digit c)"
  by (simp add: is_digits_def is_digit_def)

lemma str_nat_nonempty [simp]: "str_nat n \<noteq> []"
  by (subst str_nat.simps) simp

lemma str_nat_digits: "c \<in> set (str_nat n) \<Longrightarrow> is_digit c"
proof (induction n rule: str_nat.induct)
  case (1 n)
  have m: "n mod 10 < 10" by simp
  show ?case
  proof (cases "n < 10")
    case True
    then show ?thesis using "1.prems" by (auto simp: str_nat.simps[of n] is_digit_iff)
  next
    case False
    then show ?thesis using 1 m by (auto simp: str_nat.simps[of n] is_digit_iff)
  qed
qed

lemma digits_value_snoc: "digits_value (s @ [c]) = digits_value s * 10 + (of_char c - 48)"
  by (simp add: digits_value_def)

lemma of_char_digit: "m < 10 \<Longrightarrow> (of_char (char_of (48 + m :: nat) :: char) :: int) = 48 + int m"
  using of_nat_of_char[of "char_of (48 + m) :: char", where 'a = int] by simp

lemma digits_value_str_nat: "digits_value (str_nat n) = int n"
proof (induction n rule: str_nat.induct)
  case (1 n)
  show ?case
  proof (cases "n < 10")
    case True
    then show ?thesis by (simp add: str_nat.simps[of n] digits_value_def of_char_digit)
  next
    case False
    have "int (n div 10) * 10 + int (n mod 10) = int n" by presburger
    then show ?thesis using 1 False of_char_digit[of "n mod 10"] by (simp add: str_nat.simps[of n] digits_value_snoc)
  qed
qed

lemma digits_value_zeros: "digits_value (replicate k CHR ''0'' @ s) = digits_value s"
  by (induction k) (simp_all add: digits_value_def)

lemma zfill_facts:
  "digits_value (zfill n s) = digits_value s" "n \<le> length (zfill n s)"
  "(\<And>c. c \<in> set s \<Longrightarrow> is_digit c) \<Longrightarrow> c \<in> set (zfill n s) \<Longrightarrow> is_digit c"
  by (auto simp: zfill_def digits_value_zeros is_digit_iff)

section \<open>Printing and reading decimals\<close>

lemma decimal_places_int: "decimal_places fuel x = Some n \<Longrightarrow> \<exists>k. x * 10 ^ n = of_int k"
proof (induction fuel arbitrary: x n)
  case (Suc fuel)
  show ?case
  proof (cases "of_int \<lfloor>x\<rfloor> = x")
    case True
    then have "n = 0" using Suc.prems by simp
    then show ?thesis using True by (auto intro: exI[of _ "\<lfloor>x\<rfloor>"])
  next
    case False
    then obtain m where m: "n = Suc m" "decimal_places fuel (x * 10) = Some m" using Suc.prems by auto
    obtain k where "x * 10 * 10 ^ m = of_int k" using Suc.IH[OF m(2)] by blast
    then show ?thesis by (auto simp: m mult.assoc)
  qed
qed (auto split: if_splits)

lemma decimal_places_exists: "x * 10 ^ n = of_int k \<Longrightarrow> n \<le> fuel \<Longrightarrow> \<exists>m. decimal_places fuel x = Some m"
proof (induction fuel arbitrary: x n)
  case (Suc fuel)
  show ?case
  proof (cases n)
    case 0
    then show ?thesis using Suc.prems by simp
  next
    case (Suc m)
    then have "x * 10 * 10 ^ m = of_int k" "m \<le> fuel" using Suc.prems by (simp_all add: mult.assoc)
    then show ?thesis using Suc.IH by fastforce
  qed
qed simp

lemma decimal_places_bound: "decimal_places fuel x = Some n \<Longrightarrow> n \<le> fuel"
  by (induction fuel arbitrary: x n) (auto split: if_splits)

text \<open>A multiple of a number with finitely many places has finitely many places.\<close>

lemma decimal_places_multiple:
  assumes "decimal_places fuel x = Some n"
  shows "\<exists>m. decimal_places fuel (of_int k * x) = Some m"
proof -
  obtain j where "x * 10 ^ n = of_int j" using decimal_places_int[OF assms] by blast
  then have "of_int k * x * 10 ^ n = of_int (k * j)" by (simp add: mult.assoc)
  then show ?thesis using decimal_places_exists decimal_places_bound[OF assms] by blast
qed

text \<open>Reading a text of digits, with or without a point.\<close>

definition point_text :: "string \<Rightarrow> string \<Rightarrow> string" where
  "point_text a b = a @ (if b = [] then [] else CHR ''.'' # b)"

lemma parse_point_text:
  assumes digits: "\<And>c. c \<in> set (a @ b) \<Longrightarrow> is_digit c" and "a \<noteq> []"
  shows "parse_number (point_text a b) = Some (of_int (digits_value (a @ b)) * ten_to (- int (length b)), - int (length b))"
    "parse_number (CHR ''-'' # point_text a b) = Some (- of_int (digits_value (a @ b)) * ten_to (- int (length b)), - int (length b))"
proof -
  let ?t = "point_text a b"
  have "is_digit (hd a)" using assms by simp
  then have "hd a \<noteq> CHR ''-''" "hd a \<noteq> CHR ''+''" by (auto simp: is_digit_iff)
  then have sign: "split_sign ?t = (1, ?t)" using assms(2) by (cases a) (auto simp: point_text_def)
  have dot: "\<not> is_digit CHR ''.''" by (simp add: is_digit_def)
  have a: "takeWhile is_digit ?t = a" "dropWhile is_digit ?t = (if b = [] then [] else CHR ''.'' # b)"
    using digits dot by (auto simp: point_text_def takeWhile_append2 dropWhile_append2 takeWhile_eq_all_conv)
  have b: "dropWhile is_digit b = []" "takeWhile is_digit b = b"
    using digits by (auto simp: takeWhile_eq_all_conv)
  have e: "parse_exponent [] = Some 0" by (simp add: parse_exponent_def)
  have "parse_number s = Some (of_int (sgn * digits_value (a @ b)) * ten_to (- int (length b)), - int (length b))"
    if "split_sign s = (sgn, ?t)" for s sgn
    unfolding parse_number_def that prod.case Let_def a b if_True if_False list.sel
    using assms(2) by (cases "b = []") (simp_all only: if_True if_False list.sel b e refl simp_thms option.case append_Nil2 list.size list.distinct, simp_all)
  from this[OF sign] this[of "CHR ''-'' # ?t" "-1"]
  show "parse_number ?t = Some (of_int (digits_value (a @ b)) * ten_to (- int (length b)), - int (length b))"
    "parse_number (CHR ''-'' # ?t) = Some (- of_int (digits_value (a @ b)) * ten_to (- int (length b)), - int (length b))"
    by simp_all
qed

text \<open>Texts without white space and underscores are read as they are.\<close>

lemma parse_decimal_plain:
  assumes "\<And>c. c \<in> set s \<Longrightarrow> is_digit c \<or> c = CHR ''.'' \<or> c = CHR ''-''"
  shows "parse_decimal s = (case parse_number s of None \<Rightarrow> Inl (InvalidOperation s) | Some r \<Rightarrow> Inr r)"
proof -
  have no_space: "\<not> is_space c" if "c \<in> set s" for c
    using assms[OF that] by (auto simp: is_space_def is_digit_iff)
  have drop: "dropWhile is_space xs = xs" if "set xs \<subseteq> set s" for xs
    using that no_space by (cases xs) auto
  have "strip s = s" by (simp add: strip_def drop)
  moreover have "CHR ''_'' \<notin> set s" using assms[of "CHR ''_''"] by (auto simp: is_digit_iff)
  then have "filter (\<lambda>c. c \<noteq> CHR ''_'') s = s" by (auto simp: filter_id_conv)
  ultimately show ?thesis by (simp add: parse_decimal_def)
qed

lemma decimal_text_point:
  assumes "decimal_places 28 x = Some n"
  obtains a b where "decimal_text x = (if x < 0 then ''-'' else []) @ point_text a b" "a \<noteq> []" "length b = n"
    "\<And>c. c \<in> set (a @ b) \<Longrightarrow> is_digit c" "of_int (digits_value (a @ b)) = \<bar>x\<bar> * 10 ^ n"
proof -
  obtain k where k: "x * 10 ^ n = of_int k" using decimal_places_int[OF assms] by blast
  define m where "m = nat \<bar>k\<bar>"
  have "\<bar>x\<bar> * 10 ^ n = \<bar>x * 10 ^ n\<bar>" by (simp add: abs_mult)
  then have x: "\<bar>x\<bar> * 10 ^ n = of_int (int m)" by (simp add: k m_def)
  then have m: "round_half_even (\<bar>x\<bar> * 10 ^ n) = int m" "of_int (int m) = \<bar>x\<bar> * 10 ^ n"
    using round_half_even_of_int[of "int m"] by simp_all
  let ?ds = "zfill (n + 1) (str_nat m)" and ?k = "length (zfill (n + 1) (str_nat m)) - n"
  have len: "n + 1 \<le> length ?ds" by (rule zfill_facts)
  show thesis
  proof (rule that[of "take ?k ?ds" "drop ?k ?ds"])
    show "length (drop ?k ?ds) = n" using len by simp
    then show "decimal_text x = (if x < 0 then ''-'' else []) @ point_text (take ?k ?ds) (drop ?k ?ds)"
      using assms m(1) by (auto simp: decimal_text_def point_text_def Let_def)
    show "take ?k ?ds \<noteq> []" using len by auto
    show "is_digit c" if "c \<in> set (take ?k ?ds @ drop ?k ?ds)" for c
      using that zfill_facts(3)[of "str_nat m" c "n + 1"] str_nat_digits by (auto dest: in_set_takeD in_set_dropD)
    show "of_int (digits_value (take ?k ?ds @ drop ?k ?ds)) = \<bar>x\<bar> * 10 ^ n"
      using m(2) by (simp add: zfill_facts(1) digits_value_str_nat)
  qed
qed

lemma parse_decimal_text:
  assumes "decimal_places 28 x = Some n"
  shows "parse_decimal (decimal_text x) = Inr (x, - int n)"
proof -
  obtain a b where ab: "decimal_text x = (if x < 0 then ''-'' else []) @ point_text a b" "a \<noteq> []" "length b = n"
    "\<And>c. c \<in> set (a @ b) \<Longrightarrow> is_digit c" "of_int (digits_value (a @ b)) = \<bar>x\<bar> * 10 ^ n"
    using decimal_text_point[OF assms] by metis
  have plain: "is_digit c \<or> c = CHR ''.'' \<or> c = CHR ''-''" if "c \<in> set (decimal_text x)" for c
    using that ab(4)[of c] by (auto simp: ab(1) point_text_def split: if_splits)
  have ten: "\<bar>x\<bar> * 10 ^ n * ten_to (- int n) = \<bar>x\<bar>" by (simp add: ten_to_def)
  show ?thesis
    using parse_decimal_plain[of "decimal_text x", OF plain] parse_point_text[of a b, OF ab(4,2)] ten
    by (cases "x < 0") (simp_all add: ab(1,3,5))
qed

end
