(* ===== verification/Db.thy ===== *)
theory Db
  imports Effects Exec_Models Json
begin

text \<open>
  The database tables the trading code reads and writes (\<open>db/models.py\<close>) as lists of rows, and the
  session operations it uses on them: adding a row, changing the rows a query selects, and the
  result accessors \<open>scalar_one_or_none\<close> and \<open>scalar_one\<close>. Every statement is flushed at once, as
  the code does, and the session itself does not fail; a fresh uuid is the next number of a supply
  kept in the session. \<open>models.OrderSide\<close> has the two members of \<open>ExecutionSide\<close> and is that type.
  The entry \<open>raw\<close> of the metadata, a message of the venue, is a field of its own.
\<close>

type_synonym uuid = nat

datatype OrderStatus =
    OS_created | OS_submitted | OS_open | OS_partially_filled | OS_filled
  | OS_cancel_pending | OS_cancelled | OS_rejected | OS_expired | OS_failed

datatype PositionSide = PS_long | PS_short | PS_flat

datatype RiskSeverity = RS_low | RS_medium | RS_high | RS_critical

record ExchangeAccountRow =
  ea_id :: uuid
  ea_exchange_name :: string
  ea_account_alias :: string
  ea_environment :: string
  ea_api_key_ciphertext :: string
  ea_api_secret_ciphertext :: string
  ea_passphrase_ciphertext :: "string option"
  ea_encryption_key_id :: string
  ea_permissions :: "json list"
  ea_is_enabled :: bool
  ea_rest_connected :: bool
  ea_websocket_connected :: bool
  ea_private_ws_connected :: bool
  ea_connection_status :: string
  ea_last_tested_at :: "datetime option"
  ea_last_success_at :: "datetime option"
  ea_last_failure_at :: "datetime option"
  ea_last_error_message :: "string option"
  ea_created_at :: datetime
  ea_updated_at :: datetime

text \<open>A new row has the defaults of the columns.\<close>

definition ExchangeAccount_new :: "uuid \<Rightarrow> datetime \<Rightarrow> string \<Rightarrow> string \<Rightarrow> string \<Rightarrow> string \<Rightarrow> string \<Rightarrow> string option \<Rightarrow> string \<Rightarrow> json list \<Rightarrow> bool
    \<Rightarrow> ExchangeAccountRow" where
  "ExchangeAccount_new u now exchange_name account_alias environment api_key api_secret passphrase key_id permissions enabled =
     \<lparr>ea_id = u, ea_exchange_name = exchange_name, ea_account_alias = account_alias, ea_environment = environment,
      ea_api_key_ciphertext = api_key, ea_api_secret_ciphertext = api_secret, ea_passphrase_ciphertext = passphrase,
      ea_encryption_key_id = key_id, ea_permissions = permissions, ea_is_enabled = enabled, ea_rest_connected = False,
      ea_websocket_connected = False, ea_private_ws_connected = False, ea_connection_status = ''disconnected'',
      ea_last_tested_at = None, ea_last_success_at = None, ea_last_failure_at = None, ea_last_error_message = None,
      ea_created_at = now, ea_updated_at = now\<rparr>"

record TradingPairRow =
  tp_id :: uuid
  tp_exchange_name :: string
  tp_base_asset :: string
  tp_quote_asset :: string
  tp_normalized_symbol :: string
  tp_venue_symbol :: string
  tp_price_precision :: int
  tp_quantity_precision :: int
  tp_min_order_size :: "decimal option"
  tp_min_notional :: "decimal option"
  tp_tick_size :: "decimal option"
  tp_lot_size :: "decimal option"
  tp_is_enabled :: bool

record OrderRow =
  or_id :: uuid
  or_client_order_id :: string
  or_exchange_order_id :: "string option"
  or_exchange_account_id :: uuid
  or_trading_pair_id :: uuid
  or_side :: ExecutionSide
  or_order_type :: ExecutionOrderType
  or_status :: OrderStatus
  or_price :: "decimal option"
  or_quantity :: decimal
  or_filled_quantity :: decimal
  or_average_fill_price :: "decimal option"
  or_fee_amount :: decimal
  or_metadata_json :: metadata
  or_metadata_raw :: "obj option"
  or_created_at :: datetime
  or_updated_at :: datetime

record TradeRow =
  tr_id :: uuid
  tr_order_id :: uuid
  tr_exchange_trade_id :: string
  tr_exchange_account_id :: uuid
  tr_trading_pair_id :: uuid
  tr_side :: ExecutionSide
  tr_price :: decimal
  tr_quantity :: decimal
  tr_fee_amount :: decimal
  tr_fee_asset :: "string option"
  tr_traded_at :: datetime
  tr_metadata_json :: metadata
  tr_metadata_raw :: "obj option"

record PositionRow =
  po_id :: uuid
  po_exchange_account_id :: uuid
  po_trading_pair_id :: uuid
  po_asset :: string
  po_side :: PositionSide
  po_quantity :: decimal
  po_average_entry_price :: "decimal option"
  po_realized_pnl :: decimal
  po_unrealized_pnl :: decimal
  po_mark_price :: "decimal option"

record InventorySnapshotRow =
  is_id :: uuid
  is_exchange_account_id :: uuid
  is_asset :: string
  is_total_balance :: decimal
  is_available_balance :: decimal
  is_reserved_balance :: decimal
  is_valuation_asset :: string
  is_valuation_price :: "decimal option"
  is_valuation_amount :: "decimal option"
  is_captured_at :: datetime
  is_metadata_json :: metadata
  is_metadata_raw :: "obj option"

text \<open>The message of a risk event: a text, or the text of an exception.\<close>

datatype event_message = Message string | Exception_message pyerr

record RiskEventRow =
  re_id :: uuid
  re_severity :: RiskSeverity
  re_event_type :: string
  re_source_component :: string
  re_message :: event_message
  re_is_circuit_breaker_triggered :: bool
  re_is_kill_switch_triggered :: bool
  re_metadata_json :: obj

record session =
  tbl_exchange_accounts :: "ExchangeAccountRow list"
  tbl_trading_pairs :: "TradingPairRow list"
  tbl_orders :: "OrderRow list"
  tbl_trades :: "TradeRow list"
  tbl_positions :: "PositionRow list"
  tbl_inventory_snapshots :: "InventorySnapshotRow list"
  tbl_risk_events :: "RiskEventRow list"
  uuid_supply :: nat

definition empty_session :: session where
  "empty_session = \<lparr>tbl_exchange_accounts = [], tbl_trading_pairs = [], tbl_orders = [], tbl_trades = [],
     tbl_positions = [], tbl_inventory_snapshots = [], tbl_risk_events = [], uuid_supply = 0\<rparr>"

definition uuid4 :: "(session, uuid) op" where
  "uuid4 s = (Inr (uuid_supply s), s\<lparr>uuid_supply := Suc (uuid_supply s)\<rparr>)"

fun scalar_one_or_none :: "'a list \<Rightarrow> 'a option res" where
  "scalar_one_or_none [] = Inr None"
| "scalar_one_or_none [r] = Inr (Some r)"
| "scalar_one_or_none (r # r' # rs) = Inl MultipleResultsFound"

fun scalar_one :: "'a list \<Rightarrow> 'a res" where
  "scalar_one [] = Inl NoResultFound"
| "scalar_one [r] = Inr r"
| "scalar_one (r # r' # rs) = Inl MultipleResultsFound"

text \<open>Changing the columns of the rows that satisfy \<open>P\<close>, in place.\<close>

definition update_rows :: "('r \<Rightarrow> bool) \<Rightarrow> ('r \<Rightarrow> 'r) \<Rightarrow> 'r list \<Rightarrow> 'r list" where
  "update_rows P f rs = map (\<lambda>r. if P r then f r else r) rs"

text \<open>\<open>{**a, **b}\<close>: the entries of \<open>b\<close> override and extend those of \<open>a\<close>.\<close>

definition dict_merge :: "('k, 'v) dict \<Rightarrow> ('k, 'v) dict \<Rightarrow> ('k, 'v) dict" where
  "dict_merge a b = fold (\<lambda>(k, v). dict_set k v) b a"

definition active_statuses :: "OrderStatus list" where
  "active_statuses = [OS_open, OS_submitted, OS_partially_filled]"

section \<open>Facts about rows\<close>

lemma dict_get_merge:
  "distinct (dict_keys b) \<Longrightarrow> dict_get (dict_merge a b) k = (case dict_get b k of Some v \<Rightarrow> Some v | None \<Rightarrow> dict_get a k)"
  unfolding dict_merge_def
proof (induction b arbitrary: a)
  case (Cons p b)
  then have "k = fst p \<Longrightarrow> dict_get b k = None" by (simp add: map_of_eq_None_iff)
  with Cons show ?case by (cases p) (auto simp: update_conv' split: option.splits)
qed simp

text \<open>Rows with distinct keys: a query for one key returns at most one row.\<close>

lemma scalar_one_or_none_key:
  assumes "distinct (map key rs)"
  shows "scalar_one_or_none (filter (\<lambda>r. key r = k) rs) = Inr (find (\<lambda>r. key r = k) rs)"
  using assms
proof (induction rs)
  case (Cons r rs)
  have "key r = k \<Longrightarrow> filter (\<lambda>r. key r = k) rs = []"
    using Cons.prems by (auto simp: filter_empty_conv) (metis image_eqI)
  with Cons show ?case by auto
qed simp

lemma scalar_one_key:
  assumes "distinct (map key rs)" "r \<in> set rs" "key r = k"
  shows "scalar_one (filter (\<lambda>r. key r = k) rs) = Inr r"
  using assms
proof (induction rs)
  case (Cons a rs)
  have "key a = k \<Longrightarrow> filter (\<lambda>r. key r = k) rs = []"
    using Cons.prems(1) by (auto simp: filter_empty_conv) (metis image_eqI)
  with Cons show ?case by auto
qed simp

lemma update_rows_keys: "(\<And>r. key (f r) = key r) \<Longrightarrow> map key (update_rows P f rs) = map key rs"
  by (simp add: update_rows_def)

lemma find_update_rows:
  assumes "\<And>r. key (f r) = key r"
  shows "find (\<lambda>r. key r = k) (update_rows (\<lambda>r. key r = k') f rs) =
         (if k = k' then map_option f (find (\<lambda>r. key r = k) rs) else find (\<lambda>r. key r = k) rs)"
  using assms by (induction rs) (auto simp: update_rows_def)

lemma find_append: "find P (xs @ ys) = (case find P xs of Some x \<Rightarrow> Some x | None \<Rightarrow> find P ys)"
  by (induction xs) auto

end
