(* ===== verification/Venue_Spec.thy ===== *)
theory Venue_Spec
  imports Json Exec_Models
begin

text \<open>
  \<open>execution/specs.py\<close> and \<open>execution/signing.py\<close>: the venues' endpoints and how a request is signed.
  The hash functions are arguments (a \<open>crypto\<close> record, from bytes to bytes), the clock too; hex and base64
  encoding, \<open>urlencode\<close> and compact \<open>json.dumps\<close> are defined as Python has them, on ASCII texts.
\<close>

section \<open>Endpoints\<close>

datatype SigningStyle =
    Style_binance_query | Style_mexc_query | Style_gate_v4 | Style_kucoin_v2 | Style_bitmart_v2 | Style_coinstore_hmac

record VenueExecutionSpec =
  vs_venue :: ExecutionVenue
  vs_signing_style :: SigningStyle
  vs_place_order_path :: string
  vs_cancel_order_path :: string
  vs_cancel_all_path :: string
  vs_order_status_path :: string
  vs_account_balances_path :: string
  vs_exchange_info_path :: string
  vs_order_replace_path :: "string option"
  vs_bulk_order_path :: "string option"
  vs_bulk_cancel_path :: "string option"
  vs_open_orders_path :: "string option"
  vs_account_trades_path :: "string option"
  vs_symbol_separator :: string

definition venue_spec :: "ExecutionVenue \<Rightarrow> SigningStyle \<Rightarrow> string list \<Rightarrow> string option \<Rightarrow> string option \<Rightarrow> string option \<Rightarrow> string \<Rightarrow> VenueExecutionSpec" where
  "venue_spec venue style paths replace_path open_orders_path account_trades_path separator =
     \<lparr>vs_venue = venue, vs_signing_style = style, vs_place_order_path = paths ! 0, vs_cancel_order_path = paths ! 1,
      vs_cancel_all_path = paths ! 2, vs_order_status_path = paths ! 3, vs_account_balances_path = paths ! 4,
      vs_exchange_info_path = paths ! 5, vs_order_replace_path = replace_path, vs_bulk_order_path = None,
      vs_bulk_cancel_path = None, vs_open_orders_path = open_orders_path, vs_account_trades_path = account_trades_path,
      vs_symbol_separator = separator\<rparr>"

fun EXECUTION_SPECS :: "ExecutionVenue \<Rightarrow> VenueExecutionSpec" where
  "EXECUTION_SPECS Venue_binance = venue_spec Venue_binance Style_binance_query
     [''/api/v3/order'', ''/api/v3/order'', ''/api/v3/openOrders'', ''/api/v3/order'', ''/api/v3/account'', ''/api/v3/exchangeInfo'']
     (Some ''/api/v3/order/cancelReplace'') None None []"
| "EXECUTION_SPECS Venue_mexc = venue_spec Venue_mexc Style_mexc_query
     [''/api/v3/order'', ''/api/v3/order'', ''/api/v3/openOrders'', ''/api/v3/order'', ''/api/v3/account'', ''/api/v3/exchangeInfo'']
     None None None []"
| "EXECUTION_SPECS Venue_gate = venue_spec Venue_gate Style_gate_v4
     [''/spot/orders'', ''/spot/orders/{order_id}'', ''/spot/orders'', ''/spot/orders/{order_id}'', ''/spot/accounts'', ''/spot/currency_pairs'']
     None None None ''_''"
| "EXECUTION_SPECS Venue_bitmart = venue_spec Venue_bitmart Style_bitmart_v2
     [''/spot/v2/submit_order'', ''/spot/v3/cancel_order'', ''/spot/v1/cancel_orders'', ''/spot/v1/order_detail'', ''/spot/v1/wallet'', ''/spot/v1/symbols/details'']
     (Some ''/spot/v1/cancel_order'') None None []"
| "EXECUTION_SPECS Venue_kucoin = venue_spec Venue_kucoin Style_kucoin_v2
     [''/api/v1/orders'', ''/api/v1/orders/{order_id}'', ''/api/v1/orders'', ''/api/v1/orders/{order_id}'', ''/api/v1/accounts'', ''/api/v2/symbols'']
     None None None ''-''"
| "EXECUTION_SPECS Venue_coinstore = venue_spec Venue_coinstore Style_coinstore_hmac
     [''/api/trade/order/place'', ''/api/trade/order/cancel'', ''/api/trade/order/cancelAll'', ''/api/trade/order/orderInfo'', ''/api/spot/accountList'', ''/api/v1/market/tickers'']
     None (Some ''/api/trade/order/active'') (Some ''/api/trade/match/accountMatches'') []"

section \<open>Encodings\<close>

definition hex_digit :: "nat \<Rightarrow> char" where
  "hex_digit n = (if n < 10 then char_of (48 + n) else char_of (87 + n))"

definition hex_byte :: "char \<Rightarrow> string" where
  "hex_byte c = (let n = of_char c :: nat in [hex_digit (n div 16), hex_digit (n mod 16)])"

definition hex :: "string \<Rightarrow> string" where
  "hex s = concat (map hex_byte s)"

lemma length_hex: "length (hex s) = 2 * length s"
  by (induction s) (simp_all add: hex_def hex_byte_def Let_def)

definition b64_char :: "nat \<Rightarrow> char" where
  "b64_char n = (if n < 26 then char_of (65 + n) else if n < 52 then char_of (71 + n) else if n < 62 then char_of (n - 4)
     else if n = 62 then CHR ''+'' else CHR ''/'')"

fun b64encode :: "string \<Rightarrow> string" where
  "b64encode [] = []"
| "b64encode [a] = (let n = of_char a * 65536 :: nat in [b64_char (n div 262144), b64_char (n div 4096 mod 64), CHR ''='', CHR ''=''])"
| "b64encode [a, b] = (let n = of_char a * 65536 + of_char b * 256 :: nat
     in [b64_char (n div 262144), b64_char (n div 4096 mod 64), b64_char (n div 64 mod 64), CHR ''=''])"
| "b64encode (a # b # c # s) = (let n = of_char a * 65536 + of_char b * 256 + of_char c :: nat
     in [b64_char (n div 262144), b64_char (n div 4096 mod 64), b64_char (n div 64 mod 64), b64_char (n mod 64)] @ b64encode s)"

text \<open>\<open>urllib.parse.urlencode\<close> of a dict.\<close>

definition unreserved :: "char \<Rightarrow> bool" where
  "unreserved c = (let n = of_char c :: nat
     in n \<in> {48..57} \<or> n \<in> {65..90} \<or> n \<in> {97..122} \<or> n \<in> {45, 46, 95, 126})"

definition quote_char :: "char \<Rightarrow> string" where
  "quote_char c = (if unreserved c then [c] else if c = CHR '' '' then ''+'' else CHR ''%'' # upper (hex_byte c))"

definition quote_plus :: "string \<Rightarrow> string" where
  "quote_plus s = concat (map quote_char s)"

fun join_with :: "string \<Rightarrow> string list \<Rightarrow> string" where
  "join_with sep [] = []"
| "join_with sep [x] = x"
| "join_with sep (x # xs) = x @ sep @ join_with sep xs"

definition urlencode :: "printer \<Rightarrow> obj \<Rightarrow> string" where
  "urlencode printer d = join_with ''&'' (map (\<lambda>(k, v). quote_plus k @ ''='' @ quote_plus (py_str printer v)) d)"

text \<open>\<open>json.dumps(v, separators=(",", ":"))\<close>.\<close>

definition json_char :: "char \<Rightarrow> string" where
  "json_char c =
     (let n = of_char c :: nat
      in if c = CHR 0x22 then [CHR 0x5C, CHR 0x22] else if c = CHR 0x5C then [CHR 0x5C, CHR 0x5C]
         else if n = 10 then [CHR 0x5C, CHR ''n''] else if n = 13 then [CHR 0x5C, CHR ''r''] else if n = 9 then [CHR 0x5C, CHR ''t'']
         else if n = 8 then [CHR 0x5C, CHR ''b''] else if n = 12 then [CHR 0x5C, CHR ''f'']
         else if n < 32 \<or> 126 < n then [CHR 0x5C, CHR ''u'', CHR ''0'', CHR ''0''] @ hex_byte c
         else [c])"

definition json_string :: "string \<Rightarrow> string" where
  "json_string s = CHR 0x22 # concat (map json_char s) @ [CHR 0x22]"

fun dumps :: "printer \<Rightarrow> json \<Rightarrow> string"
  and dumps_list :: "printer \<Rightarrow> json list \<Rightarrow> string list"
  and dumps_items :: "printer \<Rightarrow> (string \<times> json) list \<Rightarrow> string list" where
  "dumps printer JNull = ''null''"
| "dumps printer (JBool b) = (if b then ''true'' else ''false'')"
| "dumps printer (JInt n) = str_int n"
| "dumps printer (JFloat x) = printer (JFloat x)"
| "dumps printer (JStr s) = json_string s"
| "dumps printer (JList xs) = ''['' @ join_with '','' (dumps_list printer xs) @ '']''"
| "dumps printer (JDict d) = ''{'' @ join_with '','' (dumps_items printer d) @ ''}''"
| "dumps_list printer [] = []"
| "dumps_list printer (x # xs) = dumps printer x # dumps_list printer xs"
| "dumps_items printer [] = []"
| "dumps_items printer (kv # d) = (case kv of (k, v) \<Rightarrow> json_string k @ '':'' @ dumps printer v) # dumps_items printer d"

section \<open>Signing\<close>

record crypto =
  hmac_sha256 :: "string \<Rightarrow> string \<Rightarrow> string"
  hmac_sha512 :: "string \<Rightarrow> string \<Rightarrow> string"
  sha512 :: "string \<Rightarrow> string"

record ExecutionCredentials =
  ec_api_key :: string
  ec_api_secret :: string
  ec_passphrase :: "string option"
  ec_memo :: "string option"

record SignedRequest =
  sq_path :: string
  sq_params :: obj
  sq_body :: "obj option"
  sq_headers :: "(string, string) dict"

definition present :: "obj \<Rightarrow> obj" where
  "present params = filter (\<lambda>(k, v). v \<noteq> JNull) params"

definition sign_binance_like :: "crypto \<Rightarrow> printer \<Rightarrow> int \<Rightarrow> string \<Rightarrow> obj \<Rightarrow> obj option \<Rightarrow> ExecutionCredentials \<Rightarrow> SignedRequest" where
  "sign_binance_like cr printer now_ms path params body credentials =
     (let p1 = dict_set ''timestamp'' (JInt now_ms) (present params);
          p2 = (if has_key p1 ''recvWindow'' then p1 else dict_set ''recvWindow'' (JInt 5000) p1);
          query = urlencode printer p2;
          signature = hex (hmac_sha256 cr (ec_api_secret credentials) query)
      in \<lparr>sq_path = path, sq_params = dict_set ''signature'' (JStr signature) p2, sq_body = body,
          sq_headers = [(''X-MBX-APIKEY'', ec_api_key credentials)]\<rparr>)"

text \<open>\<open>json.dumps(body or {}) if body else ""\<close>.\<close>

definition body_text :: "printer \<Rightarrow> obj option \<Rightarrow> string" where
  "body_text printer body = (case body of Some (kv # d) \<Rightarrow> dumps printer (JDict (kv # d)) | _ \<Rightarrow> [])"

text \<open>\<open>json.dumps(body or params or {})\<close>.\<close>

definition payload_text :: "printer \<Rightarrow> obj option \<Rightarrow> obj \<Rightarrow> string" where
  "payload_text printer body params = dumps printer (JDict (case body of Some (kv # d) \<Rightarrow> kv # d | _ \<Rightarrow> params))"

definition newline_text :: string where
  "newline_text = [char_of (10 :: nat)]"

definition sign_gate :: "crypto \<Rightarrow> printer \<Rightarrow> int \<Rightarrow> string \<Rightarrow> string \<Rightarrow> obj \<Rightarrow> obj option \<Rightarrow> ExecutionCredentials \<Rightarrow> SignedRequest" where
  "sign_gate cr printer now_ms method path params body credentials =
     (let timestamp = str_int (now_ms div 1000);
          query = urlencode printer (present params);
          hashed_payload = hex (sha512 cr (body_text printer body));
          message = join_with newline_text [upper method, path, query, hashed_payload, timestamp];
          signature = hex (hmac_sha512 cr (ec_api_secret credentials) message)
      in \<lparr>sq_path = path, sq_params = params, sq_body = body,
          sq_headers = [(''KEY'', ec_api_key credentials), (''Timestamp'', timestamp), (''SIGN'', signature)]\<rparr>)"

definition sign_kucoin :: "crypto \<Rightarrow> printer \<Rightarrow> int \<Rightarrow> string \<Rightarrow> string \<Rightarrow> obj \<Rightarrow> obj option \<Rightarrow> ExecutionCredentials \<Rightarrow> SignedRequest" where
  "sign_kucoin cr printer now_ms method path params body credentials =
     (let timestamp = str_int now_ms;
          query = urlencode printer (present params);
          endpoint = (if query \<noteq> [] then path @ ''?'' @ query else path);
          prehash = timestamp @ upper method @ endpoint @ body_text printer body;
          signature = b64encode (hmac_sha256 cr (ec_api_secret credentials) prehash);
          headers = [(''KC-API-KEY'', ec_api_key credentials), (''KC-API-SIGN'', signature), (''KC-API-TIMESTAMP'', timestamp), (''KC-API-KEY-VERSION'', ''2'')];
          headers' = (case ec_passphrase credentials of
                        Some (c # cs) \<Rightarrow> headers @ [(''KC-API-PASSPHRASE'', b64encode (hmac_sha256 cr (ec_api_secret credentials) (c # cs)))]
                      | _ \<Rightarrow> headers)
      in \<lparr>sq_path = path, sq_params = params, sq_body = body, sq_headers = headers'\<rparr>)"

fun text_or :: "string option \<Rightarrow> string \<Rightarrow> string" where
  "text_or (Some (c # cs)) other = c # cs"
| "text_or _ other = other"

definition sign_bitmart :: "crypto \<Rightarrow> printer \<Rightarrow> int \<Rightarrow> string \<Rightarrow> obj \<Rightarrow> obj option \<Rightarrow> ExecutionCredentials \<Rightarrow> SignedRequest" where
  "sign_bitmart cr printer now_ms path params body credentials =
     (let timestamp = str_int now_ms;
          memo = text_or (ec_memo credentials) (text_or (ec_passphrase credentials) []);
          message = timestamp @ ''#'' @ memo @ ''#'' @ payload_text printer body params;
          signature = hex (hmac_sha256 cr (ec_api_secret credentials) message)
      in \<lparr>sq_path = path, sq_params = params, sq_body = body,
          sq_headers = [(''X-BM-KEY'', ec_api_key credentials), (''X-BM-TIMESTAMP'', timestamp), (''X-BM-SIGN'', signature)]\<rparr>)"

text \<open>\<open>int(int(expires) / 30000)\<close> on the millisecond clock, which is not negative.\<close>

definition coinstore_signature :: "crypto \<Rightarrow> string \<Rightarrow> int \<Rightarrow> string \<Rightarrow> string" where
  "coinstore_signature cr api_secret expires payload =
     (let time_slot = str_int (round_down (of_int expires / 30000));
          key = hmac_sha256 cr api_secret time_slot
      in hex (hmac_sha256 cr key payload))"

definition sign_coinstore :: "crypto \<Rightarrow> printer \<Rightarrow> int \<Rightarrow> string \<Rightarrow> obj \<Rightarrow> obj option \<Rightarrow> ExecutionCredentials \<Rightarrow> SignedRequest" where
  "sign_coinstore cr printer now_ms path params body credentials =
     (let timestamp = str_int now_ms;
          signature = coinstore_signature cr (ec_api_secret credentials) now_ms (payload_text printer body params)
      in \<lparr>sq_path = path, sq_params = params, sq_body = body,
          sq_headers = [(''X-CS-APIKEY'', ec_api_key credentials), (''X-CS-EXPIRES'', timestamp), (''X-CS-SIGN'', signature)]\<rparr>)"

definition sign_request :: "crypto \<Rightarrow> printer \<Rightarrow> int \<Rightarrow> SigningStyle \<Rightarrow> string \<Rightarrow> string \<Rightarrow> obj \<Rightarrow> obj option \<Rightarrow> ExecutionCredentials \<Rightarrow> SignedRequest" where
  "sign_request cr printer now_ms style method path params body credentials =
     (case style of
        Style_binance_query \<Rightarrow> sign_binance_like cr printer now_ms path params body credentials
      | Style_mexc_query \<Rightarrow> sign_binance_like cr printer now_ms path params body credentials
      | Style_gate_v4 \<Rightarrow> sign_gate cr printer now_ms method path params body credentials
      | Style_kucoin_v2 \<Rightarrow> sign_kucoin cr printer now_ms method path params body credentials
      | Style_bitmart_v2 \<Rightarrow> sign_bitmart cr printer now_ms path params body credentials
      | Style_coinstore_hmac \<Rightarrow> sign_coinstore cr printer now_ms path params body credentials)"

section \<open>What signing keeps\<close>

text \<open>The path and the body are sent as they were given, and so is every parameter with a value.\<close>

lemma sign_request_keeps:
  "sq_path (sign_request cr printer now_ms style method path params body credentials) = path"
  "sq_body (sign_request cr printer now_ms style method path params body credentials) = body"
  by (cases style; simp add: sign_request_def sign_binance_like_def sign_gate_def sign_kucoin_def sign_bitmart_def sign_coinstore_def Let_def)+

lemma dict_get_present: "distinct (dict_keys d) \<Longrightarrow> dict_get (present d) k = (if jget d k = JNull then None else dict_get d k)"
proof (induction d)
  case (Cons kv d)
  then have "dict_get d (fst kv) = None" by (simp add: map_of_eq_None_iff)
  with Cons show ?case by (cases kv) (auto simp: present_def jget_def split: option.splits)
qed (simp add: present_def jget_def)

lemma has_key_iff: "has_key d k \<longleftrightarrow> dict_get d k \<noteq> None"
  by (simp add: has_key_def map_of_eq_None_iff)

lemma sign_binance_params:
  assumes "dict_get (present params) k = Some v" "k \<noteq> ''timestamp''" "k \<noteq> ''signature''"
  shows "dict_get (sq_params (sign_binance_like cr printer now_ms path params body credentials)) k = Some v"
proof (cases "k = ''recvWindow''")
  case True
  then have "has_key (dict_set ''timestamp'' (JInt now_ms) (present params)) ''recvWindow''"
    using assms by (simp add: has_key_iff update_conv')
  then show ?thesis using assms True by (simp add: sign_binance_like_def Let_def update_conv')
next
  case False
  then show ?thesis using assms by (simp add: sign_binance_like_def Let_def update_conv')
qed

lemma sign_request_params:
  assumes "distinct (dict_keys params)" "dict_get params k = Some v" "v \<noteq> JNull" "k \<noteq> ''timestamp''" "k \<noteq> ''signature''"
  shows "dict_get (sq_params (sign_request cr printer now_ms style method path params body credentials)) k = Some v"
proof -
  have "dict_get (present params) k = Some v" using assms(2,3) by (simp only: dict_get_present[OF assms(1)] jget_def option.case if_False)
  note b = sign_binance_params[OF this assms(4,5)]
  show ?thesis
    by (cases style) (simp_all only: sign_request_def SigningStyle.case b,
      simp_all add: sign_gate_def sign_kucoin_def sign_bitmart_def sign_coinstore_def Let_def assms(2) del: map_of_eq_Some_iff)
qed

end
