(* ===== verification/Store.thy ===== *)
theory Store
  imports Db Venue_Spec
begin

text \<open>
  What the control plane keeps: the configuration, audit and event tables of \<open>db/models.py\<close> beside the
  tables of \<open>Db\<close>, the session scope of \<open>db/session.py\<close> with its audit hook, the repositories of
  \<open>db/repositories.py\<close> that write them, and the commands it sends to Redis.

  Redis is a service outside the program: what it answers to a command is an argument (\<open>av_redis\<close>, of the
  commands sent before and the command), and the state keeps the commands that were sent. A value that
  the code stores with \<open>json.dumps\<close> is the JSON value. Every change of a row is flushed at once.
  The clock is read once per request; how dates and floats are printed is an argument.
\<close>

section \<open>Identifiers\<close>

text \<open>\<open>str(u)\<close> and \<open>uuid.UUID(text)\<close>: 32 hexadecimal digits in groups of 8, 4, 4, 4 and 12.\<close>

fun hex_digits :: "nat \<Rightarrow> nat \<Rightarrow> string" where
  "hex_digits 0 n = []"
| "hex_digits (Suc k) n = hex_digits k (n div 16) @ [hex_digit (n mod 16)]"

definition uuid_text :: "uuid \<Rightarrow> string" where
  "uuid_text u = (let d = hex_digits 32 u in take 8 d @ ''-'' @ take 4 (drop 8 d) @ ''-'' @ take 4 (drop 12 d) @ ''-'' @ take 4 (drop 16 d)
     @ ''-'' @ drop 20 d)"

definition hex_value :: "char \<Rightarrow> nat option" where
  "hex_value c = (let n = of_char c :: nat in if 48 \<le> n \<and> n \<le> 57 then Some (n - 48) else if 97 \<le> n \<and> n \<le> 102 then Some (n - 87)
     else if 65 \<le> n \<and> n \<le> 70 then Some (n - 55) else None)"

fun read_hex :: "string \<Rightarrow> nat \<Rightarrow> nat option" where
  "read_hex [] n = Some n"
| "read_hex (c # s) n = (case hex_value c of None \<Rightarrow> None | Some d \<Rightarrow> read_hex s (16 * n + d))"

text \<open>The prefixes \<open>urn:\<close> and \<open>uuid:\<close> and the braces around an identifier are not modelled.\<close>

definition parse_uuid :: "string \<Rightarrow> uuid option" where
  "parse_uuid s = (let d = filter (\<lambda>c. c \<noteq> CHR ''-'') s in if length d = 32 then read_hex d 0 else None)"

section \<open>Tables\<close>

datatype BotStatus = BS_draft | BS_disabled | BS_enabled | BS_suspended | BS_archived

record BotConfigRow =
  bc_id :: uuid
  bc_name :: string
  bc_version :: int
  bc_status :: BotStatus
  bc_config :: obj
  bc_risk_limits :: obj
  bc_created_by :: "uuid option"
  bc_approved_by :: "uuid option"
  bc_approved_at :: "datetime option"

record AuditLogRow =
  al_id :: uuid
  al_actor_user_id :: "uuid option"
  al_actor_service :: string
  al_action :: string
  al_resource_type :: string
  al_resource_id :: "uuid option"
  al_before_state :: "obj option"
  al_after_state :: "obj option"
  al_metadata_json :: obj
  al_occurred_at :: datetime

record RuntimeEventRow =
  ev_id :: uuid
  ev_event_type :: string
  ev_source_component :: string
  ev_status :: string
  ev_command_id :: "string option"
  ev_config_domain :: "string option"
  ev_config_version :: "int option"
  ev_correlation_id :: "string option"
  ev_payload :: obj
  ev_acknowledged_at :: "datetime option"
  ev_created_at :: datetime
  ev_metadata_json :: obj

section \<open>State and environment\<close>

datatype redis_command =
    Redis_set string json "int option"
  | Redis_get string
  | Redis_delete string
  | Redis_publish string json
  | Redis_scan string
  | Redis_ping

text \<open>A text reply comes with what \<open>json.loads\<close> makes of it.\<close>

datatype redis_reply = Nil_reply | Text_reply string "json res" | Int_reply int | Keys_reply "string list"

record store =
  st_session :: session
  st_bot_configs :: "BotConfigRow list"
  st_audit_logs :: "AuditLogRow list"
  st_runtime_events :: "RuntimeEventRow list"
  st_actor_service :: "string option"
  st_redis :: "redis_command list"

type_synonym 'a st_op = "(store, 'a) op"

definition store_init :: "session \<Rightarrow> store" where
  "store_init d = \<lparr>st_session = d, st_bot_configs = [], st_audit_logs = [], st_runtime_events = [], st_actor_service = None, st_redis = []\<rparr>"

record api_env =
  av_redis :: "redis_command list \<Rightarrow> redis_command \<Rightarrow> redis_reply res"
  av_now :: datetime
  av_time :: float
  av_isoformat :: "datetime \<Rightarrow> string"
  av_printer :: printer
  av_commit :: "unit res"

definition redis :: "api_env \<Rightarrow> redis_command \<Rightarrow> redis_reply st_op" where
  "redis env c =
     bindm (reads st_redis) (\<lambda>sent.
     seqm (modifies (\<lambda>s. s\<lparr>st_redis := st_redis s @ [c]\<rparr>)) (lift_res (av_redis env sent c)))"

definition redis_do :: "api_env \<Rightarrow> redis_command \<Rightarrow> unit st_op" where
  "redis_do env c = seqm (redis env c) (ret ())"

text \<open>\<open>_loads_json(await redis.client.get(key))\<close>.\<close>

definition redis_get_json :: "api_env \<Rightarrow> string \<Rightarrow> json option st_op" where
  "redis_get_json env key =
     bindm (redis env (Redis_get key)) (\<lambda>r. case r of
       Text_reply _ parsed \<Rightarrow> bindm (lift_res parsed) (\<lambda>v. ret (Some v))
     | _ \<Rightarrow> ret None)"

section \<open>The session scope\<close>

definition on_session :: "(session, 'a) op \<Rightarrow> 'a st_op" where
  "on_session m = zoom st_session (\<lambda>d s. s\<lparr>st_session := d\<rparr>) m"

definition store_uuid :: "uuid st_op" where
  "store_uuid = on_session uuid4"

text \<open>The listener of \<open>after_flush\<close>: a row for every changed instance that is not an audit row itself.\<close>

definition audit_flush :: "api_env \<Rightarrow> string \<Rightarrow> string \<Rightarrow> uuid \<Rightarrow> unit st_op" where
  "audit_flush env action table identifier =
     bindm (reads st_actor_service) (\<lambda>actor. case actor of
       None \<Rightarrow> ret ()
     | Some actor_service \<Rightarrow>
         if actor_service = [] then ret ()
         else bindm store_uuid (\<lambda>u. modifies (\<lambda>s. s\<lparr>st_audit_logs := st_audit_logs s @
           [\<lparr>al_id = u, al_actor_user_id = None, al_actor_service = actor_service, al_action = action, al_resource_type = table,
             al_resource_id = Some identifier, al_before_state = None, al_after_state = None,
             al_metadata_json = [(''hook'', JStr ''after_flush'')], al_occurred_at = av_now env\<rparr>]\<rparr>)))"

text \<open>\<open>async with database.session(actor_service)\<close>: the tables of a session that fails are those from before
  it, only fresh identifiers stay used, and what went to Redis.\<close>

definition rolled_back :: "store \<Rightarrow> store \<Rightarrow> store" where
  "rolled_back before s = before\<lparr>st_session := (st_session before)\<lparr>uuid_supply := uuid_supply (st_session s)\<rparr>, st_redis := st_redis s\<rparr>"

definition database_session :: "api_env \<Rightarrow> string \<Rightarrow> 'a st_op \<Rightarrow> 'a st_op" where
  "database_session env actor_service m s =
     (case bindm (seqm (modifies (\<lambda>s. s\<lparr>st_actor_service := Some actor_service\<rparr>)) m) (\<lambda>x. seqm (lift_res (av_commit env)) (ret x)) s of
        (Inl e, t) \<Rightarrow> (Inl e, rolled_back s t)
      | (Inr x, t) \<Rightarrow> (Inr x, t\<lparr>st_actor_service := st_actor_service s\<rparr>))"

section \<open>Repositories\<close>

definition audit_record ::
  "api_env \<Rightarrow> string \<Rightarrow> string \<Rightarrow> string \<Rightarrow> uuid option \<Rightarrow> obj \<Rightarrow> uuid option \<Rightarrow> obj option \<Rightarrow> obj option \<Rightarrow> AuditLogRow st_op" where
  "audit_record env actor_service action resource_type resource_id meta actor_user_id before_state after_state =
     bindm store_uuid (\<lambda>u.
     let row = \<lparr>al_id = u, al_actor_user_id = actor_user_id, al_actor_service = actor_service, al_action = action,
           al_resource_type = resource_type, al_resource_id = resource_id, al_before_state = before_state, al_after_state = after_state,
           al_metadata_json = meta, al_occurred_at = av_now env\<rparr>
     in seqm (modifies (\<lambda>s. s\<lparr>st_audit_logs := st_audit_logs s @ [row]\<rparr>)) (ret row))"

definition runtime_event_record ::
  "api_env \<Rightarrow> string \<Rightarrow> string \<Rightarrow> string \<Rightarrow> obj \<Rightarrow> string option \<Rightarrow> string option \<Rightarrow> int option \<Rightarrow> string option \<Rightarrow> datetime option \<Rightarrow> obj
     \<Rightarrow> RuntimeEventRow st_op" where
  "runtime_event_record env event_type source_component status payload command_id config_domain config_version correlation_id acknowledged_at meta =
     bindm store_uuid (\<lambda>u.
     let row = \<lparr>ev_id = u, ev_event_type = event_type, ev_source_component = source_component, ev_status = status, ev_command_id = command_id,
           ev_config_domain = config_domain, ev_config_version = config_version, ev_correlation_id = correlation_id, ev_payload = payload,
           ev_acknowledged_at = acknowledged_at, ev_created_at = av_now env, ev_metadata_json = meta\<rparr>
     in seqm (modifies (\<lambda>s. s\<lparr>st_runtime_events := st_runtime_events s @ [row]\<rparr>)) (seqm (audit_flush env ''INSERT'' ''runtime_events'' u) (ret row)))"

text \<open>\<open>order_by(desc(created_at)).limit(limit)\<close>.\<close>

definition newest_first :: "nat \<Rightarrow> ('r \<Rightarrow> datetime) \<Rightarrow> 'r list \<Rightarrow> 'r list" where
  "newest_first n time rows = take n (sort_key (\<lambda>r. - time r) rows)"

definition recent_events :: "nat \<Rightarrow> RuntimeEventRow list st_op" where
  "recent_events n = reads (\<lambda>s. newest_first n ev_created_at (st_runtime_events s))"

definition positions_by_account :: "uuid \<Rightarrow> PositionRow list st_op" where
  "positions_by_account account_id = reads (\<lambda>s. filter (\<lambda>row. po_exchange_account_id row = account_id) (tbl_positions (st_session s)))"

definition risk_event_add :: "api_env \<Rightarrow> RiskSeverity \<Rightarrow> string \<Rightarrow> string \<Rightarrow> bool \<Rightarrow> bool \<Rightarrow> obj \<Rightarrow> unit st_op" where
  "risk_event_add env severity event_type message kill_switch circuit_breaker meta =
     bindm store_uuid (\<lambda>u.
     seqm (on_session (modifies (\<lambda>d. d\<lparr>tbl_risk_events := tbl_risk_events d @
       [\<lparr>re_id = u, re_severity = severity, re_event_type = event_type, re_source_component = ''operations-api'', re_message = Message message,
         re_is_circuit_breaker_triggered = circuit_breaker, re_is_kill_switch_triggered = kill_switch, re_metadata_json = meta\<rparr>]\<rparr>)))
       (audit_flush env ''INSERT'' ''risk_events'' u))"

end
