(* ===== verification/Access.thy ===== *)
theory Access
  imports Store
begin

text \<open>
  Who may do what: \<open>core/security.py\<close>, the checks of \<open>api/routes.py\<close> on top of it, and the tokens of \<open>cli/auth.py\<close>.
  PyJWT is an argument: \<open>jwt_decode\<close> gives the payload of a token whose signature and times it accepts,
  \<open>jwt_encode\<close> makes a token. The log messages are not modelled.
\<close>

section \<open>Tokens\<close>

record jwt =
  jwt_decode :: "string \<Rightarrow> obj res"
  jwt_encode :: "obj \<Rightarrow> string"

text \<open>\<open>datetime.fromtimestamp(float(expires)) < now\<close>: the time stamp is rounded to microseconds.\<close>

definition decode_token :: "jwt \<Rightarrow> datetime \<Rightarrow> string \<Rightarrow> obj res" where
  "decode_token j now token =
     (case jwt_decode j token of
        Inl _ \<Rightarrow> Inl (HTTPException 401 ''invalid token'')
      | Inr payload \<Rightarrow>
          (case jget payload ''exp'' of
             JNull \<Rightarrow> Inr payload
           | expires \<Rightarrow> bindr (py_float expires) (\<lambda>x.
               if round_half_even (x * 1000000) < now then Inl (HTTPException 401 ''token expired'') else Inr payload)))"

text \<open>\<open>set(payload.get(key, []))\<close>: the texts in it. A text is the set of its characters, and a value that
  cannot be iterated or has an entry that cannot be hashed is a \<open>TypeError\<close>.\<close>

fun json_text :: "json \<Rightarrow> string option" where
  "json_text (JStr s) = Some s"
| "json_text _ = None"

fun json_set :: "json \<Rightarrow> string list res" where
  "json_set (JList xs) = (if list_ex (\<lambda>x. is_list x \<or> is_dict x) xs then Inl (TypeError ''unhashable type'') else Inr (List.map_filter json_text xs))"
| "json_set (JStr s) = Inr (map (\<lambda>c. [c]) s)"
| "json_set (JDict d) = Inr (dict_keys d)"
| "json_set _ = Inl (TypeError ''object is not iterable'')"

definition claim_set :: "obj \<Rightarrow> string \<Rightarrow> string list res" where
  "claim_set payload key = (case dict_get payload key of None \<Rightarrow> Inr [] | Some v \<Rightarrow> json_set v)"

section \<open>The checks of a request\<close>

definition intersects :: "string list \<Rightarrow> string list \<Rightarrow> bool" where
  "intersects xs ys \<longleftrightarrow> list_ex (\<lambda>x. x \<in> set ys) xs"

definition require_access :: "jwt \<Rightarrow> datetime \<Rightarrow> string list \<Rightarrow> string list \<Rightarrow> string option \<Rightarrow> obj res" where
  "require_access j now allowed_roles allowed_permissions credentials =
     (case credentials of
        None \<Rightarrow> Inl (HTTPException 401 ''invalid token'')
      | Some token \<Rightarrow>
          bindr (decode_token j now token) (\<lambda>payload.
          bindr (claim_set payload ''permissions'') (\<lambda>permissions.
          bindr (claim_set payload ''roles'') (\<lambda>roles.
          if \<not> intersects roles allowed_roles \<and> \<not> intersects permissions allowed_permissions
          then Inl (HTTPException 403 ''insufficient permissions'') else Inr payload))))"

text \<open>\<open>require_admin\<close> is written out in the source, with the same steps.\<close>

definition require_admin :: "jwt \<Rightarrow> datetime \<Rightarrow> string option \<Rightarrow> obj res" where
  "require_admin j now credentials =
     (case credentials of
        None \<Rightarrow> Inl (HTTPException 401 ''invalid token'')
      | Some token \<Rightarrow>
          bindr (decode_token j now token) (\<lambda>payload.
          bindr (claim_set payload ''permissions'') (\<lambda>permissions.
          bindr (claim_set payload ''roles'') (\<lambda>roles.
          if ''platform_admin'' \<notin> set roles \<and> ''config:write'' \<notin> set permissions
          then Inl (HTTPException 403 ''insufficient permissions'') else Inr payload))))"

definition require_operations_access :: "jwt \<Rightarrow> datetime \<Rightarrow> string option \<Rightarrow> obj res" where
  "require_operations_access j now =
     require_access j now [''platform_admin'', ''risk_manager'', ''trader_operator'', ''incident_responder'', ''read_only_analyst'']
       [''operations:read'', ''config:read'', ''risk:read'']"

definition require_config_write :: "jwt \<Rightarrow> datetime \<Rightarrow> string option \<Rightarrow> obj res" where
  "require_config_write j now = require_access j now [''platform_admin'', ''risk_manager'', ''trader_operator''] [''config:write'']"

definition require_risk_write :: "jwt \<Rightarrow> datetime \<Rightarrow> string option \<Rightarrow> obj res" where
  "require_risk_write j now = require_access j now [''platform_admin'', ''risk_manager''] [''risk:write'']"

definition require_trading_control :: "jwt \<Rightarrow> datetime \<Rightarrow> string option \<Rightarrow> obj res" where
  "require_trading_control j now = require_access j now [''platform_admin'', ''trader_operator''] [''trading:write'', ''config:write'']"

definition require_incident_response :: "jwt \<Rightarrow> datetime \<Rightarrow> string option \<Rightarrow> obj res" where
  "require_incident_response j now =
     require_access j now [''platform_admin'', ''incident_responder'', ''risk_manager''] [''incident:write'', ''risk:write'']"

text \<open>The web socket of the operations page; \<open>None\<close> is a connection closed with code 1008. An error that is not an
  \<open>HTTPException\<close> leaves the handler.\<close>

definition operations_stream_access :: "jwt \<Rightarrow> datetime \<Rightarrow> string option \<Rightarrow> obj option res" where
  "operations_stream_access j now token =
     (case token of
        None \<Rightarrow> Inr None
      | Some t \<Rightarrow>
          if t = [] then Inr None
          else (case decode_token j now t of
              Inl (HTTPException _ _) \<Rightarrow> Inr None
            | Inl e \<Rightarrow> Inl e
            | Inr actor \<Rightarrow>
                bindr (claim_set actor ''roles'') (\<lambda>roles.
                bindr (claim_set actor ''permissions'') (\<lambda>permissions.
                if \<not> intersects roles [''platform_admin'', ''risk_manager'', ''incident_responder'', ''read_only_analyst'']
                   \<and> \<not> intersects permissions [''operations:read'', ''config:read'', ''risk:read'']
                then Inr None else Inr (Some actor)))))"

section \<open>Checks of the routes\<close>

text \<open>\<open>expected.lower() in value.lower()\<close>.\<close>

definition require_confirmation :: "string \<Rightarrow> string \<Rightarrow> unit res" where
  "require_confirmation v expected =
     (if contains_text (lower expected) (lower v) then Inr () else Inl (HTTPException 400 (''confirmation must include '' @ expected)))"

definition require_config_domain_actor :: "string \<Rightarrow> obj \<Rightarrow> unit res" where
  "require_config_domain_actor domain actor =
     bindr (claim_set actor ''roles'') (\<lambda>roles.
     bindr (claim_set actor ''permissions'') (\<lambda>permissions.
     if ''platform_admin'' \<in> set roles then Inr ()
     else if domain = ''risk'' \<and> ''risk_manager'' \<notin> set roles \<and> ''risk:write'' \<notin> set permissions
     then Inl (HTTPException 403 ''risk config requires risk_manager or risk:write'')
     else if domain \<in> {''strategy'', ''spread'', ''order_layers'', ''order_size'', ''volume'', ''liquidity'', ''inventory''}
         \<and> \<not> intersects roles [''trader_operator'', ''risk_manager''] \<and> ''config:write'' \<notin> set permissions
     then Inl (HTTPException 403 ''trading config requires trader_operator/risk_manager/config:write'')
     else Inr ()))"

section \<open>Issuing tokens\<close>

definition token_payload :: "int \<Rightarrow> string \<Rightarrow> string list \<Rightarrow> string list \<Rightarrow> int \<Rightarrow> obj" where
  "token_payload now subject roles permissions expires_in_seconds =
     [(''sub'', JStr subject), (''roles'', JList (map JStr roles)), (''permissions'', JList (map JStr permissions)),
      (''iat'', JInt now), (''exp'', JInt (now + expires_in_seconds))]"

definition issue_token :: "jwt \<Rightarrow> int \<Rightarrow> string \<Rightarrow> string list \<Rightarrow> string list \<Rightarrow> int \<Rightarrow> string" where
  "issue_token j now subject roles permissions expires_in_seconds = jwt_encode j (token_payload now subject roles permissions expires_in_seconds)"

text \<open>\<open>value.split(",")\<close> and the items of \<open>_csv\<close>.\<close>

fun split_char :: "char \<Rightarrow> string \<Rightarrow> string list" where
  "split_char c [] = [[]]"
| "split_char c (x # s) = (if x = c then [] # split_char c s else (case split_char c s of [] \<Rightarrow> [[x]] | p # ps \<Rightarrow> (x # p) # ps))"

definition csv :: "string \<Rightarrow> string list" where
  "csv v = filter (\<lambda>item. item \<noteq> []) (map strip (split_char CHR '','' v))"

definition DEFAULT_ROLES :: "string list" where "DEFAULT_ROLES = [''platform_admin'']"

definition DEFAULT_PERMISSIONS :: "string list" where
  "DEFAULT_PERMISSIONS = [''operations:read'', ''config:write'', ''risk:read'', ''risk:write'', ''incident:write'', ''trading:write'']"

definition auth_main :: "jwt \<Rightarrow> int \<Rightarrow> string \<Rightarrow> string \<Rightarrow> string \<Rightarrow> int \<Rightarrow> string" where
  "auth_main j now subject roles permissions expires_in_seconds = issue_token j now subject (csv roles) (csv permissions) expires_in_seconds"

section \<open>What the checks let through\<close>

definition claims :: "obj \<Rightarrow> string \<Rightarrow> string set" where
  "claims payload key = (case claim_set payload key of Inl _ \<Rightarrow> {} | Inr xs \<Rightarrow> set xs)"

text \<open>A token that proves its payload at a time, with claims that can be read.\<close>

definition token_valid :: "jwt \<Rightarrow> datetime \<Rightarrow> string \<Rightarrow> obj \<Rightarrow> bool" where
  "token_valid j now token payload \<longleftrightarrow> jwt_decode j token = Inr payload
     \<and> (jget payload ''exp'' = JNull \<or> (\<exists>x. py_float (jget payload ''exp'') = Inr x \<and> now \<le> round_half_even (x * 1000000)))
     \<and> (\<exists>roles permissions. claim_set payload ''roles'' = Inr roles \<and> claim_set payload ''permissions'' = Inr permissions)"

lemma decode_token_iff:
  "decode_token j now token = Inr payload \<longleftrightarrow> jwt_decode j token = Inr payload
     \<and> (jget payload ''exp'' = JNull \<or> (\<exists>x. py_float (jget payload ''exp'') = Inr x \<and> now \<le> round_half_even (x * 1000000)))"
proof (cases "jwt_decode j token")
  case (Inr p)
  then show ?thesis
    by (cases "jget p ''exp''"; cases "py_float (jget p ''exp'')") (auto simp: decode_token_def not_less bindr_Inr_iff)
qed (simp add: decode_token_def)

lemma intersects_iff: "intersects xs ys \<longleftrightarrow> set xs \<inter> set ys \<noteq> {}"
  by (auto simp: intersects_def list_ex_iff)

lemma access_iff:
  "require_access j now allowed_roles allowed_permissions credentials = Inr payload \<longleftrightarrow>
     (\<exists>token. credentials = Some token \<and> token_valid j now token payload
        \<and> (claims payload ''roles'' \<inter> set allowed_roles \<noteq> {} \<or> claims payload ''permissions'' \<inter> set allowed_permissions \<noteq> {}))"
proof (cases credentials)
  case (Some token)
  have valid: "token_valid j now token q \<longleftrightarrow> decode_token j now token = Inr q
      \<and> (\<exists>roles permissions. claim_set q ''roles'' = Inr roles \<and> claim_set q ''permissions'' = Inr permissions)" for q
    by (simp add: token_valid_def decode_token_iff)
  show ?thesis
  proof (cases "decode_token j now token")
    case (Inr p)
    then show ?thesis
      by (cases "claim_set p ''roles''"; cases "claim_set p ''permissions''")
        (auto simp: Some require_access_def valid claims_def intersects_iff)
  qed (simp add: Some require_access_def valid)
qed (simp add: require_access_def)


lemma require_admin_access: "require_admin j now = require_access j now [''platform_admin''] [''config:write'']"
  by (rule ext) (simp add: require_admin_def require_access_def intersects_iff split: option.split)

lemmas access_checks = require_admin_access require_operations_access_def require_config_write_def require_risk_write_def
  require_trading_control_def require_incident_response_def

text \<open>
  Duties are separated: who may only read (the role of an analyst and the permissions to read) passes the check of the
  operations pages and no other one; an incident responder without permissions may stop trading but neither release the
  stop nor change a configuration; and a trader may change trading configurations but not those of the risk.
\<close>

theorem duties_separated:
  assumes "token_valid j now token payload"
  shows "(claims payload ''roles'' = {''read_only_analyst''} \<and> claims payload ''permissions'' \<subseteq> {''operations:read'', ''config:read'', ''risk:read''} \<longrightarrow>
      require_operations_access j now (Some token) = Inr payload
      \<and> (\<forall>check \<in> {require_admin, require_config_write, require_risk_write, require_trading_control, require_incident_response}.
           \<forall>p. check j now (Some token) \<noteq> Inr p))
    \<and> (claims payload ''roles'' = {''incident_responder''} \<and> claims payload ''permissions'' = {} \<longrightarrow>
      require_incident_response j now (Some token) = Inr payload
      \<and> (\<forall>check \<in> {require_admin, require_config_write, require_risk_write, require_trading_control}. \<forall>p. check j now (Some token) \<noteq> Inr p))
    \<and> (claims payload ''roles'' = {''trader_operator''} \<and> claims payload ''permissions'' = {} \<longrightarrow>
      require_config_write j now (Some token) = Inr payload \<and> require_config_domain_actor ''spread'' payload = Inr ()
      \<and> (\<forall>r. require_config_domain_actor ''risk'' payload \<noteq> Inr r) \<and> (\<forall>p. require_risk_write j now (Some token) \<noteq> Inr p))"
proof -
  have same: "token_valid j now token p \<longleftrightarrow> p = payload" for p using assms by (auto simp: token_valid_def)
  have claims: "claim_set payload ''roles'' = Inr roles \<Longrightarrow> claims payload ''roles'' = set roles"
    "claim_set payload ''permissions'' = Inr permissions \<Longrightarrow> claims payload ''permissions'' = set permissions" for roles permissions
    by (simp_all add: claims_def)
  obtain roles permissions where cl: "claim_set payload ''roles'' = Inr roles" "claim_set payload ''permissions'' = Inr permissions"
    using assms by (auto simp: token_valid_def)
  have reader: "x \<notin> claims payload ''permissions''" if "claims payload ''permissions'' \<subseteq> {''operations:read'', ''config:read'', ''risk:read''}"
    "x \<notin> {''operations:read'', ''config:read'', ''risk:read''}" for x using that by blast
  note checks = access_checks access_iff same
  show ?thesis
  proof (intro conjI impI, goal_cases)
    case 1
    then show ?case by (simp add: checks)
  next
    case 2
    then show ?case using reader by (simp add: checks)
  next
    case 6
    then show ?case using cl by (simp add: require_config_domain_actor_def intersects_iff claims(1)[OF cl(1)])
  next
    case 7
    then have "set roles = {''trader_operator''}" "set permissions = {}" using claims(1)[OF cl(1)] claims(2)[OF cl(2)] by simp_all
    then show ?case using cl by (simp add: require_config_domain_actor_def)
  qed (simp_all add: checks)
qed

text \<open>
  The web socket lets through no one whom the pages refuse, but it closes on a trader, whom they let through.
\<close>

theorem operations_stream_narrower:
  "(operations_stream_access j now (Some token) = Inr (Some actor) \<longrightarrow> require_operations_access j now (Some token) = Inr actor)
   \<and> (token_valid j now token payload \<and> token \<noteq> [] \<and> claims payload ''roles'' = {''trader_operator''} \<and> claims payload ''permissions'' = {} \<longrightarrow>
        require_operations_access j now (Some token) = Inr payload \<and> operations_stream_access j now (Some token) = Inr None)"
proof (intro conjI impI)
  assume granted: "operations_stream_access j now (Some token) = Inr (Some actor)"
  then obtain p where p: "decode_token j now token = Inr p"
    by (auto simp: operations_stream_access_def split: if_splits sum.splits pyerr.splits)
  with granted show "require_operations_access j now (Some token) = Inr actor"
    by (auto simp: operations_stream_access_def require_operations_access_def require_access_def bindr_Inr_iff intersects_iff split: if_splits)
next
  assume trader: "token_valid j now token payload \<and> token \<noteq> [] \<and> claims payload ''roles'' = {''trader_operator''} \<and> claims payload ''permissions'' = {}"
  then show "require_operations_access j now (Some token) = Inr payload" by (simp add: require_operations_access_def access_iff)
  obtain roles permissions where "claim_set payload ''roles'' = Inr roles" "claim_set payload ''permissions'' = Inr permissions"
    "set roles = {''trader_operator''}" "set permissions = {}" using trader by (auto simp: token_valid_def claims_def)
  moreover have "decode_token j now token = Inr payload" using trader by (simp add: token_valid_def decode_token_iff)
  ultimately show "operations_stream_access j now (Some token) = Inr None"
    using trader by (simp add: operations_stream_access_def intersects_iff)
qed

section \<open>Issued tokens\<close>

lemma map_filter_texts: "List.map_filter json_text (map JStr xs) = xs"
  by (induction xs) (simp_all add: map_filter_simps)

lemma strip_plain: "\<not> list_ex is_space s \<Longrightarrow> strip s = s"
proof -
  assume plain: "\<not> list_ex is_space s"
  have "dropWhile is_space xs = xs" if "set xs \<subseteq> set s" for xs using that plain by (cases xs) (auto simp: list_ex_iff)
  then show "strip s = s" by (simp add: strip_def)
qed

lemma split_char_item: "c \<notin> set s \<Longrightarrow> split_char c s = [s]"
  by (induction s) auto

lemma split_char_append: "c \<notin> set s \<Longrightarrow> split_char c (s @ c # rest) = s # split_char c rest"
  by (induction s) auto

definition csv_item :: "string \<Rightarrow> bool" where
  "csv_item s \<longleftrightarrow> s \<noteq> [] \<and> CHR '','' \<notin> set s \<and> \<not> list_ex is_space s"

lemma csv_join: "list_all csv_item items \<Longrightarrow> csv (join_with '','' items) = items"
proof (induction items)
  case (Cons x xs)
  then show ?case
    by (cases xs) (auto simp: csv_def csv_item_def split_char_item split_char_append strip_plain)
qed (simp add: csv_def strip_def)

text \<open>
  A token issued by the command line for a list of roles and permissions is accepted by exactly the checks that ask for one of
  them, until it expires, provided that decoding inverts encoding.
\<close>

theorem issued_token_accepted:
  assumes "list_all csv_item roles" "list_all csv_item permissions"
    "jwt_decode j (jwt_encode j (token_payload issued subject roles permissions lifetime)) = Inr (token_payload issued subject roles permissions lifetime)"
    "now \<le> seconds (issued + lifetime)"
  shows "(\<exists>payload. require_access j now allowed_roles allowed_permissions
        (Some (auth_main j issued subject (join_with '','' roles) (join_with '','' permissions) lifetime)) = Inr payload)
    \<longleftrightarrow> set roles \<inter> set allowed_roles \<noteq> {} \<or> set permissions \<inter> set allowed_permissions \<noteq> {}"
proof -
  let ?p = "token_payload issued subject roles permissions lifetime"
  let ?token = "auth_main j issued subject (join_with '','' roles) (join_with '','' permissions) lifetime"
  have token: "?token = jwt_encode j ?p" using assms(1,2) by (simp add: auth_main_def issue_token_def csv_join)
  have "round_half_even (of_int (issued + lifetime) * 1000000) = seconds (issued + lifetime)"
    using round_half_even_of_int[of "(issued + lifetime) * 1000000"] by (simp add: seconds_def)
  moreover have claims: "claim_set ?p ''roles'' = Inr roles" "claim_set ?p ''permissions'' = Inr permissions"
    by (simp_all add: token_payload_def claim_set_def map_filter_texts list_ex_iff)
  ultimately have "token_valid j now ?token q \<longleftrightarrow> q = ?p" for q
    using assms(3,4) by (auto simp: token token_valid_def jget_def token_payload_def)
  then show ?thesis using claims by (auto simp: access_iff claims_def)
qed

section \<open>Instances\<close>

definition plain_jwt :: jwt where
  "plain_jwt = \<lparr>jwt_decode = (\<lambda>t. Inr [(''roles'', JList [JStr t])]), jwt_encode = (\<lambda>_. ''token'')\<rparr>"

theorem duties_separated_witness:
  "(\<forall>p. require_admin plain_jwt 0 (Some ''read_only_analyst'') \<noteq> Inr p \<and> require_incident_response plain_jwt 0 (Some ''read_only_analyst'') \<noteq> Inr p)
   \<and> (\<forall>p. require_risk_write plain_jwt 0 (Some ''trader_operator'') \<noteq> Inr p)"
proof -
  have valid: "token_valid plain_jwt 0 role [(''roles'', JList [JStr role])]" for role
    by (simp add: token_valid_def plain_jwt_def jget_def claim_set_def)
  have "claims [(''roles'', JList [JStr role])] ''roles'' = {role}" "claims [(''roles'', JList [JStr role])] ''permissions'' = {}" for role
    by (simp_all add: claims_def claim_set_def map_filter_simps)
  then show ?thesis using duties_separated[OF valid[of "''read_only_analyst''"]] duties_separated[OF valid[of "''trader_operator''"]] by simp
qed


theorem issued_token_accepted_witness:
  "let j = \<lparr>jwt_decode = (\<lambda>_. Inr (token_payload 100 ''operator'' [''risk_manager''] [''risk:read''] 60)), jwt_encode = (\<lambda>_. ''token'')\<rparr>
   in \<exists>payload. require_access j (seconds 160) [''risk_manager''] [] (Some (auth_main j 100 ''operator'' ''risk_manager'' ''risk:read'' 60)) = Inr payload"
  using issued_token_accepted[of "[''risk_manager'']" "[''risk:read'']"
      "\<lparr>jwt_decode = (\<lambda>_. Inr (token_payload 100 ''operator'' [''risk_manager''] [''risk:read''] 60)), jwt_encode = (\<lambda>_. ''token'')\<rparr>"
      100 "''operator''" 60 "seconds 160" "[''risk_manager'']" "[]"]
  by (simp add: csv_item_def is_space_def Let_def)

end
