(* ===== verification/Config_Store.thy ===== *)
theory Config_Store
  imports Store
begin

text \<open>
  The versioned configuration: \<open>ConfigRepository\<close> of \<open>db/repositories.py\<close>, \<open>runtime/config_service.py\<close>, which
  validates, stores and announces a change, and \<open>runtime/events.py\<close>, the acknowledgements of the engines.
  The models of pydantic are arguments: \<open>cv_defaults\<close> is the dump of the default configuration, a dict per domain,
  \<open>cv_validate\<close> validates a domain and dumps it, \<open>cv_validate_runtime\<close> the whole configuration.
\<close>

section \<open>Merging\<close>

text \<open>\<open>_deep_merge\<close>: dicts are merged entry by entry, anything else is replaced.\<close>

function deep_merge :: "obj \<Rightarrow> obj \<Rightarrow> obj" where
  "deep_merge merged [] = merged"
| "deep_merge merged ((key, v) # rest) =
     deep_merge (dict_set key (case v of
        JDict overlay \<Rightarrow> (case dict_get merged key of Some (JDict base) \<Rightarrow> JDict (deep_merge base overlay) | _ \<Rightarrow> v)
      | _ \<Rightarrow> v) merged) rest"
  by pat_completeness auto

termination
  by (relation "measure (\<lambda>(merged, overlay). size_list (size_prod (\<lambda>_. 0) size) overlay)") auto

section \<open>The configuration repository\<close>

record config_env =
  cv_defaults :: "(string \<times> obj) list"
  cv_validate :: "string \<Rightarrow> obj \<Rightarrow> obj res"
  cv_validate_runtime :: "obj \<Rightarrow> obj res"

definition latest_config :: "string \<Rightarrow> BotConfigRow list \<Rightarrow> BotConfigRow option" where
  "latest_config name rows = (case sort_key (\<lambda>row. - bc_version row) (filter (\<lambda>row. bc_name row = name) rows) of [] \<Rightarrow> None | row # _ \<Rightarrow> Some row)"

definition get_latest :: "string \<Rightarrow> BotConfigRow option st_op" where
  "get_latest name = reads (\<lambda>s. latest_config name (st_bot_configs s))"

text \<open>The insertion of a row checks the unique constraint on name and version.\<close>

definition upsert_domain :: "api_env \<Rightarrow> string \<Rightarrow> obj \<Rightarrow> uuid option \<Rightarrow> BotConfigRow st_op" where
  "upsert_domain env domain config actor_user_id =
     bindm (get_latest domain) (\<lambda>current.
     let version = (case current of None \<Rightarrow> 1 | Some row \<Rightarrow> bc_version row + 1)
     in bindm store_uuid (\<lambda>u.
     let row = \<lparr>bc_id = u, bc_name = domain, bc_version = version, bc_status = BS_enabled, bc_config = config, bc_risk_limits = [],
           bc_created_by = actor_user_id, bc_approved_by = actor_user_id, bc_approved_at = Some (av_now env)\<rparr>
     in bindm (reads (\<lambda>s. \<exists>r \<in> set (st_bot_configs s). bc_name r = domain \<and> bc_version r = version)) (\<lambda>taken.
     if taken then raise_err IntegrityError
     else seqm (modifies (\<lambda>s. s\<lparr>st_bot_configs := st_bot_configs s @ [row]\<rparr>)) (
          seqm (audit_flush env ''INSERT'' ''bot_configs'' u) (ret row)))))"

definition effective_domain_config :: "config_env \<Rightarrow> string \<Rightarrow> obj option \<Rightarrow> obj st_op" where
  "effective_domain_config cfg domain overlay =
     (case dict_get (cv_defaults cfg) domain of
        None \<Rightarrow> raise_err (KeyError domain)
      | Some baseline \<Rightarrow>
          bindm (get_latest domain) (\<lambda>row.
          let merged = (case row of None \<Rightarrow> baseline | Some r \<Rightarrow> deep_merge baseline (bc_config r));
              merged = (case overlay of None \<Rightarrow> merged | Some v \<Rightarrow> deep_merge merged v)
          in ret merged))"

definition stored_config :: "BotConfigRow list \<Rightarrow> string \<times> obj \<Rightarrow> obj" where
  "stored_config rows entry = (case latest_config (fst entry) rows of None \<Rightarrow> snd entry | Some row \<Rightarrow> deep_merge (snd entry) (bc_config row))"

definition runtime_config :: "config_env \<Rightarrow> obj st_op" where
  "runtime_config cfg =
     bindm (reads (\<lambda>s. map (\<lambda>entry. (fst entry, JDict (stored_config (st_bot_configs s) entry))) (cv_defaults cfg))) (\<lambda>baseline.
     lift_res (cv_validate_runtime cfg baseline))"

section \<open>The configuration service\<close>

definition RUNTIME_CONFIG_UPDATED_CHANNEL :: string where "RUNTIME_CONFIG_UPDATED_CHANNEL = ''runtime.config.updated''"
definition RUNTIME_EVENTS_CHANNEL :: string where "RUNTIME_EVENTS_CHANNEL = ''runtime.events''"
definition MARKET_MAKER_COMMAND_CHANNEL :: string where "MARKET_MAKER_COMMAND_CHANNEL = ''engine.commands.market-maker-engine''"
definition MARKET_DATA_COMMAND_CHANNEL :: string where "MARKET_DATA_COMMAND_CHANNEL = ''engine.commands.market-data-engine''"

definition domain_channel :: "string \<Rightarrow> string" where
  "domain_channel domain = ''runtime.config.'' @ domain @ ''.updated''"

definition actor_uuid :: "printer \<Rightarrow> obj \<Rightarrow> uuid option" where
  "actor_uuid printer actor = (let v = jget actor ''sub'' in if json_truthy v then parse_uuid (py_str printer v) else None)"

definition config_event :: "api_env \<Rightarrow> string \<Rightarrow> string \<Rightarrow> int \<Rightarrow> obj \<Rightarrow> obj \<Rightarrow> uuid \<Rightarrow> json \<Rightarrow> obj" where
  "config_event env command_id domain version config runtime audit_id actor =
     [(''event_type'', JStr ''runtime_config_updated''), (''command_id'', JStr command_id), (''domain'', JStr domain), (''version'', JInt version),
      (''config'', JDict config), (''runtime_config'', JDict runtime), (''audit_log_id'', JStr (uuid_text audit_id)), (''actor'', actor),
      (''published_at'', JFloat (av_time env))]"

definition reload_command :: "api_env \<Rightarrow> string \<Rightarrow> obj \<Rightarrow> json" where
  "reload_command env command_id event =
     JDict [(''command_id'', JStr command_id), (''command_type'', JStr ''CONFIG_RELOAD''), (''payload'', JDict event), (''published_at'', JFloat (av_time env))]"

definition announce_config :: "api_env \<Rightarrow> string \<Rightarrow> string \<Rightarrow> obj \<Rightarrow> obj \<Rightarrow> obj \<Rightarrow> redis_command list" where
  "announce_config env command_id domain config runtime event =
     [Redis_set ''runtime:config:latest'' (JDict runtime) None,
      Redis_set (''runtime:config:'' @ domain @ '':latest'') (JDict config) None,
      Redis_publish RUNTIME_CONFIG_UPDATED_CHANNEL (JDict event),
      Redis_publish (domain_channel domain) (JDict event),
      Redis_publish RUNTIME_EVENTS_CHANNEL (JDict event),
      Redis_publish MARKET_MAKER_COMMAND_CHANNEL (reload_command env command_id event)]
     @ (if domain \<in> {''exchange'', ''liquidity''} then [Redis_publish MARKET_DATA_COMMAND_CHANNEL (reload_command env command_id event)] else [])"

text \<open>\<open>update_domain\<close>: the rows first, then the announcement.\<close>

definition store_domain :: "api_env \<Rightarrow> config_env \<Rightarrow> string \<Rightarrow> obj \<Rightarrow> obj \<Rightarrow> (string \<times> BotConfigRow \<times> obj \<times> obj) st_op" where
  "store_domain env cfg domain payload actor =
     bindm (get_latest domain) (\<lambda>before.
     bindm (effective_domain_config cfg domain (Some payload)) (\<lambda>effective.
     bindm (lift_res (cv_validate cfg domain effective)) (\<lambda>validated.
     let actor_user_id = actor_uuid (av_printer env) actor
     in bindm (upsert_domain env domain validated actor_user_id) (\<lambda>row.
     bindm (runtime_config cfg) (\<lambda>runtime.
     bindm (audit_record env ''api'' ''CONFIG_UPDATE'' ''bot_configs'' (Some (bc_id row))
        [(''domain'', JStr domain), (''version'', JInt (bc_version row)), (''actor'', jget actor ''sub'')] actor_user_id
        (map_option bc_config before) (Some validated)) (\<lambda>audit.
     bindm store_uuid (\<lambda>command_uuid.
     let command_id = uuid_text command_uuid;
         event = config_event env command_id domain (bc_version row) validated runtime (al_id audit) (jget actor ''sub'')
     in bindm (runtime_event_record env ''runtime_config_updated'' ''api'' ''published'' event (Some command_id) (Some domain) (Some (bc_version row))
          (Some (uuid_text (al_id audit))) None
          [(''redis_channels'', JList (map JStr [RUNTIME_CONFIG_UPDATED_CHANNEL, domain_channel domain, RUNTIME_EVENTS_CHANNEL, MARKET_MAKER_COMMAND_CHANNEL]))])
        (\<lambda>runtime_event.
     ret (command_id, row, runtime, dict_set ''runtime_event_id'' (JStr (uuid_text (ev_id runtime_event))) event)))))))))"

definition update_domain :: "api_env \<Rightarrow> config_env \<Rightarrow> string \<Rightarrow> obj \<Rightarrow> obj \<Rightarrow> (int \<times> obj) st_op" where
  "update_domain env cfg domain payload actor =
     bindm (store_domain env cfg domain payload actor) (\<lambda>(command_id, row, runtime, event).
     seqm (loop (redis_do env) (announce_config env command_id domain (bc_config row) runtime event))
       (ret (bc_version row, bc_config row)))"

text \<open>\<open>publish_runtime_command\<close>; \<open>payload | {...}\<close> is a merge of dicts.\<close>

definition command_event :: "api_env \<Rightarrow> string \<Rightarrow> string \<Rightarrow> obj \<Rightarrow> uuid \<Rightarrow> json \<Rightarrow> obj" where
  "command_event env command_id command_type payload audit_id actor =
     [(''command_id'', JStr command_id), (''command_type'', JStr command_type),
      (''payload'', JDict (dict_merge payload [(''audit_log_id'', JStr (uuid_text audit_id)), (''actor'', actor)])),
      (''published_at'', JFloat (av_time env))]"

definition publish_runtime_command :: "api_env \<Rightarrow> obj \<Rightarrow> string \<Rightarrow> obj \<Rightarrow> string \<Rightarrow> string \<Rightarrow> string option \<Rightarrow> obj st_op" where
  "publish_runtime_command env actor command_type payload channel resource_type action_arg =
     bindm (audit_record env ''api'' (case action_arg of Some a \<Rightarrow> if a \<noteq> [] then a else command_type | None \<Rightarrow> command_type) resource_type None
        (dict_merge [(''command_type'', JStr command_type), (''actor'', jget actor ''sub'')] payload) (actor_uuid (av_printer env) actor) None (Some payload)) (\<lambda>audit.
     bindm store_uuid (\<lambda>command_uuid.
     let command_id = uuid_text command_uuid;
         event = command_event env command_id command_type payload (al_id audit) (jget actor ''sub'')
     in bindm (runtime_event_record env ''runtime_command'' ''api'' ''published'' event (Some command_id) None None (Some (uuid_text (al_id audit))) None
          [(''redis_channel'', JStr channel)]) (\<lambda>runtime_event.
     let event = dict_set ''runtime_event_id'' (JStr (uuid_text (ev_id runtime_event))) event
     in seqm (redis_do env (Redis_publish channel (JDict event))) (
        seqm (redis_do env (Redis_publish RUNTIME_EVENTS_CHANNEL (JDict (dict_merge [(''event_type'', JStr ''runtime_command'')] event))))
          (ret event)))))"

section \<open>Acknowledgements\<close>

definition RUNTIME_ACK_CHANNEL :: string where "RUNTIME_ACK_CHANNEL = ''runtime.acks''"

text \<open>\<open>publish_runtime_ack\<close>; the flag says whether the engine has a session.\<close>

definition publish_runtime_ack :: "api_env \<Rightarrow> bool \<Rightarrow> string \<Rightarrow> string option \<Rightarrow> string \<Rightarrow> string \<Rightarrow> obj \<Rightarrow> obj st_op" where
  "publish_runtime_ack env has_session component command_id event_type status payload =
     (let ack = [(''event_type'', JStr event_type), (''component'', JStr component),
          (''command_id'', case command_id of None \<Rightarrow> JNull | Some c \<Rightarrow> JStr c), (''status'', JStr status), (''payload'', JDict payload),
          (''acknowledged_at'', JStr (av_isoformat env (av_now env))), (''published_at'', JFloat (av_time env))]
      in bindm (if has_session
           then bindm (runtime_event_record env event_type component status payload command_id None None None (Some (av_now env)) []) (\<lambda>row.
                ret (dict_set ''runtime_event_id'' (JStr (uuid_text (ev_id row))) ack))
           else ret ack) (\<lambda>ack.
         seqm (case command_id of
             Some c \<Rightarrow> if c \<noteq> [] then redis_do env (Redis_set (''runtime:ack:'' @ c @ '':'' @ component) (JDict ack) (Some 86400)) else ret ()
           | None \<Rightarrow> ret ()) (
         seqm (redis_do env (Redis_publish RUNTIME_ACK_CHANNEL (JDict ack))) (ret ack))))"

section \<open>Merging, path by path\<close>

fun lookup_path :: "json \<Rightarrow> string list \<Rightarrow> json option" where
  "lookup_path j [] = Some j"
| "lookup_path (JDict d) (k # ks) = (case dict_get d k of None \<Rightarrow> None | Some v \<Rightarrow> lookup_path v ks)"
| "lookup_path _ (k # ks) = None"

text \<open>An overlay is silent about a path that leaves it at a missing key.\<close>

fun silent :: "obj \<Rightarrow> string list \<Rightarrow> bool" where
  "silent d [] = False"
| "silent d (k # ks) = (case dict_get d k of None \<Rightarrow> True | Some (JDict d') \<Rightarrow> silent d' ks | Some _ \<Rightarrow> False)"

text \<open>The keys of a dict are distinct, at every level.\<close>

fun dict_wf :: "json \<Rightarrow> bool" where
  "dict_wf (JDict d) = (distinct (dict_keys d) \<and> (\<forall>v \<in> snd ` set d. dict_wf v))"
| "dict_wf (JList xs) = (\<forall>v \<in> set xs. dict_wf v)"
| "dict_wf _ = True"

definition merge_value :: "json option \<Rightarrow> json \<Rightarrow> json" where
  "merge_value base v = (case v of JDict overlay \<Rightarrow> (case base of Some (JDict b) \<Rightarrow> JDict (deep_merge b overlay) | _ \<Rightarrow> v) | _ \<Rightarrow> v)"

lemma deep_merge_get:
  assumes "distinct (dict_keys overlay)"
  shows "dict_get (deep_merge base overlay) k =
    (case dict_get overlay k of None \<Rightarrow> dict_get base k | Some v \<Rightarrow> Some (merge_value (dict_get base k) v))"
  using assms
proof (induction overlay arbitrary: base)
  case (Cons p rest)
  obtain key v where p: "p = (key, v)" by (cases p)
  have step: "deep_merge base (p # rest) = deep_merge (dict_set key (merge_value (dict_get base key) v) base) rest"
    by (simp add: p merge_value_def)
  from Cons.prems p have "dict_get rest key = None" by (simp add: map_of_eq_None_iff)
  with Cons show ?case unfolding step by (cases "k = key") (simp_all add: p update_conv' split: option.split)
qed simp

lemma dict_wf_get: "dict_wf (JDict d) \<Longrightarrow> dict_get d k = Some v \<Longrightarrow> dict_wf v"
  by (auto dest: map_of_SomeD intro: rev_image_eqI)

text \<open>
  A merge takes exactly what the overlay says: a value of the overlay that is not a dict stands in the result under
  the same path, and where the overlay says nothing the result is the base.
\<close>

theorem deep_merge_paths:
  assumes "dict_wf (JDict overlay)"
  shows "(lookup_path (JDict overlay) path = Some v \<and> \<not> is_dict v \<longrightarrow> lookup_path (JDict (deep_merge base overlay)) path = Some v)
    \<and> (silent overlay path \<longrightarrow> lookup_path (JDict (deep_merge base overlay)) path = lookup_path (JDict base) path)"
  using assms
proof (induction path arbitrary: base overlay)
  case (Cons k ks)
  have get: "dict_get (deep_merge base overlay) k =
      (case dict_get overlay k of None \<Rightarrow> dict_get base k | Some v \<Rightarrow> Some (merge_value (dict_get base k) v))"
    using Cons.prems by (intro deep_merge_get) simp
  show ?case
  proof (cases "dict_get overlay k")
    case (Some w)
    show ?thesis
    proof (cases w)
      case (JDict d)
      have wf: "dict_wf (JDict d)" by (rule dict_wf_get[OF Cons.prems, of k]) (simp add: Some JDict)
      have quiet: "silent d ks \<Longrightarrow> lookup_path (JDict d) ks = None"
        by (induction d ks rule: silent.induct) (auto split: option.splits json.splits)
      have b: "(\<exists>b'. dict_get base k = Some (JDict b') \<and> merge_value (dict_get base k) w = JDict (deep_merge b' d))
          \<or> (\<forall>b'. dict_get base k \<noteq> Some (JDict b')) \<and> merge_value (dict_get base k) w = JDict d"
      proof (cases "dict_get base k")
        case (Some c)
        then show ?thesis by (cases c) (simp_all add: merge_value_def JDict)
      qed (simp add: merge_value_def JDict)
      have flat: "lookup_path c ks = None" if "ks \<noteq> []" "\<And>b'. c \<noteq> JDict b'" for c
        using that by (cases ks; cases c) auto
      have base_none: "lookup_path (JDict base) (k # ks) = None" if "\<forall>b'. dict_get base k \<noteq> Some (JDict b')" "ks \<noteq> []"
        using that flat by (auto split: option.split)
      have "silent d ks \<Longrightarrow> ks \<noteq> []" by auto
      with b Some JDict get show ?thesis
        using Cons.IH[OF wf] quiet base_none by (elim disjE exE conjE) auto
    qed (use Some get in \<open>auto simp: merge_value_def\<close>)
  qed (simp add: get)
qed auto

theorem deep_merge_paths_witness:
  "lookup_path (JDict (deep_merge [(''a'', JDict [(''x'', JInt 1), (''y'', JInt 2)])] [(''a'', JDict [(''x'', JInt 3)])])) [''a'', ''x''] = Some (JInt 3)"
  using deep_merge_paths[of "[(''a'', JDict [(''x'', JInt 3)])]" "[''a'', ''x'']" "JInt 3" "[(''a'', JDict [(''x'', JInt 1), (''y'', JInt 2)])]"]
  by simp

section \<open>Versions\<close>

definition domain_rows :: "string \<Rightarrow> store \<Rightarrow> BotConfigRow list" where
  "domain_rows domain s = filter (\<lambda>row. bc_name row = domain) (st_bot_configs s)"

definition versions_ok :: "store \<Rightarrow> bool" where
  "versions_ok s \<longleftrightarrow> (\<forall>domain. map bc_version (domain_rows domain s) = map (\<lambda>i. int i + 1) [0..<length (domain_rows domain s)])"

lemma sort_key_least_last: "(\<And>y. y \<in> set xs \<Longrightarrow> f x < f y) \<Longrightarrow> sort_key f (xs @ [x]) = x # sort_key f xs"
proof (induction xs)
  case (Cons a xs)
  then have "\<not> f a \<le> f x" by (simp add: not_le)
  with Cons show ?case by simp
qed simp

lemma latest_is_last:
  assumes "versions_ok s"
  shows "latest_config domain (st_bot_configs s) = (if domain_rows domain s = [] then None else Some (last (domain_rows domain s)))"
proof (cases "domain_rows domain s" rule: rev_cases)
  case (snoc rows row)
  have "map bc_version (domain_rows domain s) = map (\<lambda>i. int i + 1) [0..<length (domain_rows domain s)]"
    using assms by (simp add: versions_ok_def)
  then have "map bc_version rows = map (\<lambda>i. int i + 1) [0..<length rows]" "bc_version row = int (length rows) + 1"
    by (simp_all add: snoc)
  then have "set (map bc_version rows) \<subseteq> {..<bc_version row}" by (simp del: set_map) auto
  then have "sort_key (\<lambda>row. - bc_version row) (rows @ [row]) = row # sort_key (\<lambda>row. - bc_version row) rows"
    by (intro sort_key_least_last) auto
  with snoc show ?thesis by (simp add: latest_config_def domain_rows_def)
qed (simp add: latest_config_def domain_rows_def)

lemma next_version:
  assumes "versions_ok s"
  shows "(case latest_config domain (st_bot_configs s) of None \<Rightarrow> 1 | Some row \<Rightarrow> bc_version row + 1) = int (length (domain_rows domain s)) + 1"
proof -
  have vs: "map bc_version (domain_rows domain s) = map (\<lambda>i. int i + 1) [0..<length (domain_rows domain s)]"
    using assms by (simp add: versions_ok_def)
  show ?thesis using arg_cong[OF vs, of last]
    by (cases "domain_rows domain s" rule: rev_cases) (simp_all add: latest_is_last[OF assms])
qed

lemma version_fresh:
  assumes "versions_ok s"
  shows "\<not> (\<exists>r \<in> set (st_bot_configs s). bc_name r = domain \<and> bc_version r = int (length (domain_rows domain s)) + 1)"
proof
  assume "\<exists>r \<in> set (st_bot_configs s). bc_name r = domain \<and> bc_version r = int (length (domain_rows domain s)) + 1"
  then obtain r where "r \<in> set (domain_rows domain s)" "bc_version r = int (length (domain_rows domain s)) + 1"
    by (auto simp: domain_rows_def)
  then have "int (length (domain_rows domain s)) + 1 \<in> set (map bc_version (domain_rows domain s))" by force
  with assms show False by (simp add: versions_ok_def del: set_map) auto
qed

lemma versions_ok_append:
  assumes "versions_ok s" "bc_version row = int (length (domain_rows (bc_name row) s)) + 1" "st_bot_configs t = st_bot_configs s @ [row]"
  shows "versions_ok t"
  using assms by (auto simp: versions_ok_def domain_rows_def)

lemma versions_ok_cong: "st_bot_configs t = st_bot_configs s \<Longrightarrow> versions_ok t = versions_ok s"
  by (simp add: versions_ok_def domain_rows_def)

end
