(* ===== verification/Config_Safety.thy ===== *)
theory Config_Safety
  imports Config_Store "HOL-Library.Sublist"
begin

text \<open>
  What the configuration service guarantees: the versions of a domain count up from one, a change is stored and
  announced exactly when the merged configuration validates, a change that fails leaves the tables as they
  were, and what can still be announced although nothing is stored.
\<close>

section \<open>Rows of the log tables\<close>

text \<open>An operation that only writes log rows and takes fresh identifiers.\<close>

definition logged :: "store \<Rightarrow> store \<Rightarrow> bool" where
  "logged s t \<longleftrightarrow> (\<exists>n logs events. t = s\<lparr>st_session := (st_session s)\<lparr>uuid_supply := n\<rparr>, st_audit_logs := st_audit_logs s @ logs,
     st_runtime_events := st_runtime_events s @ events\<rparr>)"

lemma loggedI: "t = s\<lparr>st_session := (st_session s)\<lparr>uuid_supply := n\<rparr>, st_audit_logs := st_audit_logs s @ logs,
     st_runtime_events := st_runtime_events s @ events\<rparr> \<Longrightarrow> logged s t"
  by (auto simp: logged_def)

lemma logged_refl: "logged s s"
  by (rule loggedI[where n = "uuid_supply (st_session s)" and logs = "[]" and events = "[]"]) simp

lemma logged_trans: "logged s t \<Longrightarrow> logged t u \<Longrightarrow> logged s u"
  unfolding logged_def by (elim exE) (simp, blast)

lemma loggedD:
  assumes "logged s t"
  shows "st_bot_configs t = st_bot_configs s" "st_redis t = st_redis s" "st_actor_service t = st_actor_service s"
    "tbl_exchange_accounts (st_session t) = tbl_exchange_accounts (st_session s)"
    "tbl_risk_events (st_session t) = tbl_risk_events (st_session s)"
    "set (st_audit_logs s) \<subseteq> set (st_audit_logs t)" "set (st_runtime_events s) \<subseteq> set (st_runtime_events t)"
  using assms by (auto simp: logged_def)

lemma store_uuid_run: "store_uuid s = (Inr (uuid_supply (st_session s)), s\<lparr>st_session := (st_session s)\<lparr>uuid_supply := Suc (uuid_supply (st_session s))\<rparr>\<rparr>)"
  by (simp add: store_uuid_def on_session_def zoom_def uuid4_def)

lemma store_uuid_logged: "\<exists>t. store_uuid s = (Inr (uuid_supply (st_session s)), t) \<and> logged s t"
  unfolding store_uuid_run
  by (rule exI, rule conjI, rule refl) (rule loggedI[where n = "Suc (uuid_supply (st_session s))" and logs = "[]" and events = "[]"], simp)

lemma audit_flush_logged: "\<exists>t. audit_flush env action table u s = (Inr (), t) \<and> logged s t"
proof (cases "st_actor_service s")
  case None
  then show ?thesis by (auto simp: audit_flush_def intro: logged_refl)
next
  case (Some a)
  show ?thesis
  proof (cases "a = []")
    case True
    then show ?thesis by (auto simp: audit_flush_def Some intro: logged_refl)
  next
    case False
    let ?row = "\<lparr>al_id = uuid_supply (st_session s), al_actor_user_id = None, al_actor_service = a, al_action = action, al_resource_type = table,
             al_resource_id = Some u, al_before_state = None, al_after_state = None,
             al_metadata_json = [(''hook'', JStr ''after_flush'')], al_occurred_at = av_now env\<rparr>"
    have "audit_flush env action table u s =
        (Inr (), s\<lparr>st_session := (st_session s)\<lparr>uuid_supply := Suc (uuid_supply (st_session s))\<rparr>, st_audit_logs := st_audit_logs s @ [?row]\<rparr>)"
      by (simp add: audit_flush_def Some False bindm_def store_uuid_run)
    moreover have "logged s (s\<lparr>st_session := (st_session s)\<lparr>uuid_supply := Suc (uuid_supply (st_session s))\<rparr>, st_audit_logs := st_audit_logs s @ [?row]\<rparr>)"
      by (rule loggedI[where n = "Suc (uuid_supply (st_session s))" and logs = "[?row]" and events = "[]"]) simp
    ultimately show ?thesis by blast
  qed
qed

lemma audit_record_logged:
  "\<exists>row t. audit_record env service action resource_type resource_id meta user before_state after_state s = (Inr row, t) \<and> logged s t
     \<and> row \<in> set (st_audit_logs t) \<and> al_action row = action \<and> al_actor_service row = service \<and> al_actor_user_id row = user
     \<and> al_before_state row = before_state \<and> al_after_state row = after_state \<and> al_metadata_json row = meta
     \<and> al_resource_type row = resource_type \<and> al_resource_id row = resource_id \<and> al_occurred_at row = av_now env"
  (is "\<exists>row t. ?run = (Inr row, t) \<and> ?facts row t")
proof -
  let ?row = "\<lparr>al_id = uuid_supply (st_session s), al_actor_user_id = user, al_actor_service = service, al_action = action,
           al_resource_type = resource_type, al_resource_id = resource_id, al_before_state = before_state, al_after_state = after_state,
           al_metadata_json = meta, al_occurred_at = av_now env\<rparr>"
  let ?t = "s\<lparr>st_session := (st_session s)\<lparr>uuid_supply := Suc (uuid_supply (st_session s))\<rparr>, st_audit_logs := st_audit_logs s @ [?row]\<rparr>"
  have "?run = (Inr ?row, ?t)"
    by (simp add: audit_record_def bindm_def seqm_def store_uuid_run Let_def)
  moreover have "logged s ?t" by (rule loggedI[where n = "Suc (uuid_supply (st_session s))" and logs = "[?row]" and events = "[]"]) simp
  ultimately show ?thesis by (intro exI[of _ ?row] exI[of _ ?t]) simp
qed

lemma runtime_event_logged:
  "\<exists>row t. runtime_event_record env event_type source status payload command_id domain version correlation ack meta s = (Inr row, t) \<and> logged s t
     \<and> row \<in> set (st_runtime_events t) \<and> ev_payload row = payload \<and> ev_command_id row = command_id \<and> ev_status row = status"
proof -
  let ?row = "\<lparr>ev_id = uuid_supply (st_session s), ev_event_type = event_type, ev_source_component = source, ev_status = status, ev_command_id = command_id,
           ev_config_domain = domain, ev_config_version = version, ev_correlation_id = correlation, ev_payload = payload,
           ev_acknowledged_at = ack, ev_created_at = av_now env, ev_metadata_json = meta\<rparr>"
  let ?t = "s\<lparr>st_session := (st_session s)\<lparr>uuid_supply := Suc (uuid_supply (st_session s))\<rparr>, st_runtime_events := st_runtime_events s @ [?row]\<rparr>"
  obtain t where t: "audit_flush env ''INSERT'' ''runtime_events'' (uuid_supply (st_session s)) ?t = (Inr (), t)" "logged ?t t"
    using audit_flush_logged by blast
  have "logged s ?t" by (rule loggedI[where n = "Suc (uuid_supply (st_session s))" and logs = "[]" and events = "[?row]"]) simp
  then have "logged s t" using t(2) by (rule logged_trans)
  moreover have "?row \<in> set (st_runtime_events t)" using loggedD(7)[OF t(2)] by auto
  moreover have "runtime_event_record env event_type source status payload command_id domain version correlation ack meta s = (Inr ?row, t)"
    using t(1) by (simp add: runtime_event_record_def bindm_def seqm_def store_uuid_run Let_def)
  ultimately show ?thesis by (intro exI[of _ ?row] exI[of _ t]) simp
qed

section \<open>Redis commands\<close>

lemma redis_do_run: "redis_do env c s = (case av_redis env (st_redis s) c of Inl e \<Rightarrow> Inl e | Inr _ \<Rightarrow> Inr (), s\<lparr>st_redis := st_redis s @ [c]\<rparr>)"
  by (simp add: redis_do_def redis_def seqm_def bindm_def split: sum.split)

lemma loop_redis:
  "\<exists>sent. prefix sent cs \<and> snd (loop (redis_do env) cs s) = s\<lparr>st_redis := st_redis s @ sent\<rparr>
     \<and> (fst (loop (redis_do env) cs s) = Inr () \<longrightarrow> sent = cs)"
proof (induction cs arbitrary: s)
  case (Cons c cs)
  let ?s = "s\<lparr>st_redis := st_redis s @ [c]\<rparr>"
  obtain sent where "prefix sent cs" "snd (loop (redis_do env) cs ?s) = ?s\<lparr>st_redis := st_redis ?s @ sent\<rparr>"
    "fst (loop (redis_do env) cs ?s) = Inr () \<longrightarrow> sent = cs" using Cons.IH by blast
  then have "av_redis env (st_redis s) c = Inr r \<Longrightarrow> ?case" for r
    by (intro exI[of _ "c # sent"]) (auto simp: seqm_def bindm_def redis_do_run[of env c s])
  moreover have "av_redis env (st_redis s) c = Inl e \<Longrightarrow> ?case" for e
    by (intro exI[of _ "[c]"]) (simp add: seqm_def bindm_def redis_do_run[of env c s])
  ultimately show ?case by (cases "av_redis env (st_redis s) c") blast+
qed simp

lemma loop_redis_answered:
  assumes "\<And>sent c. \<exists>x. av_redis env sent c = Inr x"
  shows "fst (loop (redis_do env) cs s) = Inr ()"
proof (induction cs arbitrary: s)
  case (Cons c cs)
  obtain x where "av_redis env (st_redis s) c = Inr x" using assms by blast
  then show ?case using Cons.IH by (simp add: seqm_def bindm_def redis_do_run[of env c s])
qed simp

section \<open>A change of a domain\<close>

text \<open>The configuration a change leads to, and the whole configuration with it, if both validate.\<close>

definition merged_runtime :: "config_env \<Rightarrow> string \<Rightarrow> obj \<Rightarrow> BotConfigRow list \<Rightarrow> obj" where
  "merged_runtime cfg domain config rows =
     map (\<lambda>entry. (fst entry, JDict (if fst entry = domain then deep_merge (snd entry) config else stored_config rows entry))) (cv_defaults cfg)"

definition valid_change :: "config_env \<Rightarrow> string \<Rightarrow> obj \<Rightarrow> store \<Rightarrow> (obj \<times> obj) option" where
  "valid_change cfg domain payload s =
     (case dict_get (cv_defaults cfg) domain of
        None \<Rightarrow> None
      | Some base \<Rightarrow> (case cv_validate cfg domain (deep_merge (stored_config (st_bot_configs s) (domain, base)) payload) of
            Inl _ \<Rightarrow> None
          | Inr config \<Rightarrow> (case cv_validate_runtime cfg (merged_runtime cfg domain config (st_bot_configs s)) of
                Inl _ \<Rightarrow> None
              | Inr runtime \<Rightarrow> Some (config, runtime))))"

lemma upsert_domain_run:
  assumes "versions_ok s"
  shows "\<exists>row t. upsert_domain env domain config user s = (Inr row, t) \<and> logged (s\<lparr>st_bot_configs := st_bot_configs s @ [row]\<rparr>) t
    \<and> bc_name row = domain \<and> bc_config row = config \<and> bc_version row = int (length (domain_rows domain s)) + 1"
proof -
  let ?row = "\<lparr>bc_id = uuid_supply (st_session s), bc_name = domain, bc_version = int (length (domain_rows domain s)) + 1, bc_status = BS_enabled,
     bc_config = config, bc_risk_limits = [], bc_created_by = user, bc_approved_by = user, bc_approved_at = Some (av_now env)\<rparr>"
  let ?s = "s\<lparr>st_bot_configs := st_bot_configs s @ [?row]\<rparr>"
  let ?t = "s\<lparr>st_session := (st_session s)\<lparr>uuid_supply := Suc (uuid_supply (st_session s))\<rparr>, st_bot_configs := st_bot_configs s @ [?row]\<rparr>"
  have "logged ?s ?t"
    by (rule loggedI[where n = "Suc (uuid_supply (st_session s))" and logs = "[]" and events = "[]"]) simp
  moreover obtain t where t: "audit_flush env ''INSERT'' ''bot_configs'' (uuid_supply (st_session s)) ?t = (Inr (), t)" "logged ?t t"
    using audit_flush_logged by blast
  ultimately have "logged ?s t" by (blast intro: logged_trans)
  moreover have "upsert_domain env domain config user s = (Inr ?row, t)"
    using t(1) version_fresh[OF assms, of domain]
    by (simp add: upsert_domain_def get_latest_def next_version[OF assms] bindm_def store_uuid_run Let_def seqm_def)
  ultimately show ?thesis by (intro exI[of _ ?row] exI[of _ t]) simp
qed

lemma stored_config_append:
  assumes "versions_ok s" "bc_version row = int (length (domain_rows (bc_name row) s)) + 1"
  shows "stored_config (st_bot_configs s @ [row]) entry =
    (if fst entry = bc_name row then deep_merge (snd entry) (bc_config row) else stored_config (st_bot_configs s) entry)"
proof -
  let ?s = "s\<lparr>st_bot_configs := st_bot_configs s @ [row]\<rparr>"
  have "versions_ok ?s" by (rule versions_ok_append[OF assms]) simp
  from latest_is_last[OF this, of "fst entry"] latest_is_last[OF assms(1), of "fst entry"]
  show ?thesis by (auto simp: stored_config_def domain_rows_def)
qed

lemma runtime_config_stored:
  assumes "versions_ok s" "bc_version row = int (length (domain_rows (bc_name row) s)) + 1" "st_bot_configs t = st_bot_configs s @ [row]"
  shows "runtime_config cfg t = (cv_validate_runtime cfg (merged_runtime cfg (bc_name row) (bc_config row) (st_bot_configs s)), t)"
  by (simp add: runtime_config_def merged_runtime_def assms(3) stored_config_append[OF assms(1,2)])

lemma effective_run:
  "dict_get (cv_defaults cfg) domain = Some base \<Longrightarrow>
   effective_domain_config cfg domain (Some payload) s = (Inr (deep_merge (stored_config (st_bot_configs s) (domain, base)) payload), s)"
  by (simp add: effective_domain_config_def get_latest_def stored_config_def Let_def split: option.split)

lemma store_actor_simps:
  "st_bot_configs (s\<lparr>st_actor_service := a\<rparr>) = st_bot_configs s" "st_redis (s\<lparr>st_actor_service := a\<rparr>) = st_redis s"
  by simp_all

text \<open>What a stored change looks like: the row, the event that is announced and the audit row.\<close>

definition stored_change :: "string \<Rightarrow> obj \<Rightarrow> obj \<Rightarrow> store \<Rightarrow> BotConfigRow \<Rightarrow> obj \<Rightarrow> store \<Rightarrow> bool" where
  "stored_change domain config runtime s row event t \<longleftrightarrow>
     bc_name row = domain \<and> bc_config row = config \<and> bc_version row = int (length (domain_rows domain s)) + 1
     \<and> st_bot_configs t = st_bot_configs s @ [row]
     \<and> jget event ''version'' = JInt (bc_version row) \<and> jget event ''config'' = JDict config \<and> jget event ''runtime_config'' = JDict runtime
     \<and> (\<exists>a \<in> set (st_audit_logs t). al_action a = ''CONFIG_UPDATE'' \<and> al_before_state a = map_option bc_config (latest_config domain (st_bot_configs s))
          \<and> al_after_state a = Some config)"

lemma stored_change_simps [simp]:
  "stored_change domain config runtime (s\<lparr>st_actor_service := x\<rparr>) row event t = stored_change domain config runtime s row event t"
  "stored_change domain config runtime s row event (t\<lparr>st_actor_service := x\<rparr>) = stored_change domain config runtime s row event t"
  "stored_change domain config runtime s row event (t\<lparr>st_redis := y\<rparr>) = stored_change domain config runtime s row event t"
  by (simp_all add: stored_change_def domain_rows_def)

lemma store_domain_valid:
  assumes "versions_ok s" "valid_change cfg domain payload s = Some (config, runtime)"
  shows "\<exists>command_id row event t. store_domain env cfg domain payload actor s = (Inr (command_id, row, runtime, event), t)
    \<and> st_redis t = st_redis s \<and> stored_change domain config runtime s row event t"
proof -
  obtain base where base: "dict_get (cv_defaults cfg) domain = Some base"
    "cv_validate cfg domain (deep_merge (stored_config (st_bot_configs s) (domain, base)) payload) = Inr config"
    "cv_validate_runtime cfg (merged_runtime cfg domain config (st_bot_configs s)) = Inr runtime"
    using assms(2) by (auto simp: valid_change_def split: option.splits sum.splits)
  let ?user = "actor_uuid (av_printer env) actor"
  obtain row t1 where row: "upsert_domain env domain config ?user s = (Inr row, t1)" "logged (s\<lparr>st_bot_configs := st_bot_configs s @ [row]\<rparr>) t1"
    "bc_name row = domain" "bc_config row = config" "bc_version row = int (length (domain_rows domain s)) + 1"
    using upsert_domain_run[OF assms(1)] by blast
  note effective = effective_run[OF base(1)]
  have "st_bot_configs t1 = st_bot_configs s @ [row]" using loggedD(1)[OF row(2)] by simp
  then have runtime: "runtime_config cfg t1 = (Inr runtime, t1)"
    using runtime_config_stored[OF assms(1), of row t1 cfg] base(3) row(3-5) by simp
  obtain audit t2 where audit: "audit_record env ''api'' ''CONFIG_UPDATE'' ''bot_configs'' (Some (bc_id row))
      [(''domain'', JStr domain), (''version'', JInt (bc_version row)), (''actor'', jget actor ''sub'')] ?user
      (map_option bc_config (latest_config domain (st_bot_configs s))) (Some config) t1 = (Inr audit, t2)" "logged t1 t2"
      "audit \<in> set (st_audit_logs t2)" "al_action audit = ''CONFIG_UPDATE''"
      "al_before_state audit = map_option bc_config (latest_config domain (st_bot_configs s))" "al_after_state audit = Some config"
    using audit_record_logged[of env "''api''" "''CONFIG_UPDATE''" "''bot_configs''" "Some (bc_id row)" _ ?user _ "Some config" t1] by blast
  obtain u t3 where u: "store_uuid t2 = (Inr u, t3)" "logged t2 t3" using store_uuid_logged by blast
  let ?event = "config_event env (uuid_text u) domain (bc_version row) config runtime (al_id audit) (jget actor ''sub'')"
  let ?meta = "[(''redis_channels'', JList (map JStr [RUNTIME_CONFIG_UPDATED_CHANNEL, domain_channel domain, RUNTIME_EVENTS_CHANNEL, MARKET_MAKER_COMMAND_CHANNEL]))]"
  obtain ev t4 where ev: "runtime_event_record env ''runtime_config_updated'' ''api'' ''published'' ?event (Some (uuid_text u)) (Some domain)
      (Some (bc_version row)) (Some (uuid_text (al_id audit))) None ?meta t3 = (Inr ev, t4)" "logged t3 t4"
    using runtime_event_logged by blast
  have "store_domain env cfg domain payload actor s =
      (Inr (uuid_text u, row, runtime, dict_set ''runtime_event_id'' (JStr (uuid_text (ev_id ev))) ?event), t4)"
    using base(2) row effective runtime audit u ev
    by (simp add: store_domain_def get_latest_def Let_def bindm_Inr bindm_Inr[OF effective])
  moreover have "logged (s\<lparr>st_bot_configs := st_bot_configs s @ [row]\<rparr>) t4"
    using row(2) audit(2) u(2) ev(2) by (blast intro: logged_trans)
  then have "st_redis t4 = st_redis s" "st_bot_configs t4 = st_bot_configs s @ [row]" by (simp_all add: loggedD)
  moreover have "audit \<in> set (st_audit_logs t4)" using audit(3) loggedD(6)[OF u(2)] loggedD(6)[OF ev(2)] by blast
  then have "\<exists>a \<in> set (st_audit_logs t4). al_action a = ''CONFIG_UPDATE''
      \<and> al_before_state a = map_option bc_config (latest_config domain (st_bot_configs s)) \<and> al_after_state a = Some config"
    using audit(4-6) by blast
  then have "stored_change domain config runtime s row (dict_set ''runtime_event_id'' (JStr (uuid_text (ev_id ev))) ?event) t4"
    using row(3-5) \<open>st_bot_configs t4 = st_bot_configs s @ [row]\<close> by (simp add: stored_change_def config_event_def jget_def)
  ultimately show ?thesis by blast
qed

lemma store_domain_invalid:
  assumes "versions_ok s" "valid_change cfg domain payload s = None"
  shows "\<exists>e t. store_domain env cfg domain payload actor s = (Inl e, t) \<and> st_redis t = st_redis s"
proof (cases "dict_get (cv_defaults cfg) domain")
  case None
  then show ?thesis by (simp add: store_domain_def get_latest_def effective_domain_config_def)
next
  case (Some base)
  let ?merged = "deep_merge (stored_config (st_bot_configs s) (domain, base)) payload"
  note effective = effective_run[OF Some]
  show ?thesis
  proof (cases "cv_validate cfg domain ?merged")
    case (Inl e)
    then show ?thesis by (simp add: store_domain_def get_latest_def bindm_Inr[OF effective])
  next
    case (Inr config)
    then obtain e where e: "cv_validate_runtime cfg (merged_runtime cfg domain config (st_bot_configs s)) = Inl e"
      using assms(2) Some by (auto simp: valid_change_def split: sum.splits)
    obtain row t1 where row: "upsert_domain env domain config (actor_uuid (av_printer env) actor) s = (Inr row, t1)"
      "logged (s\<lparr>st_bot_configs := st_bot_configs s @ [row]\<rparr>) t1"
      "bc_name row = domain" "bc_config row = config" "bc_version row = int (length (domain_rows domain s)) + 1"
      using upsert_domain_run[OF assms(1)] by blast
    have "st_bot_configs t1 = st_bot_configs s @ [row]" using loggedD(1)[OF row(2)] by simp
    then have "runtime_config cfg t1 = (Inl e, t1)"
      using runtime_config_stored[OF assms(1), of row t1 cfg] e row(3-5) by simp
    then show ?thesis using row loggedD(2)[OF row(2)] Inr
      by (simp add: store_domain_def get_latest_def bindm_Inr[OF effective] Let_def bindm_Inr bindm_Inl)
  qed
qed

lemma update_domain_valid:
  assumes "versions_ok s" "valid_change cfg domain payload s = Some (config, runtime)"
  shows "\<exists>command_id row event r u. update_domain env cfg domain payload actor s = (r, u)
    \<and> stored_change domain config runtime s row event u
    \<and> (\<forall>x. r = Inr x \<longrightarrow> x = (bc_version row, config) \<and> st_redis u = st_redis s @ announce_config env command_id domain config runtime event)
    \<and> ((\<forall>sent c. \<exists>x. av_redis env sent c = Inr x) \<longrightarrow> r = Inr (bc_version row, config))"
proof -
  obtain command_id row event t where stored: "store_domain env cfg domain payload actor s = (Inr (command_id, row, runtime, event), t)"
      "st_redis t = st_redis s" "stored_change domain config runtime s row event t"
    using store_domain_valid[OF assms, of env actor] by blast
  let ?cs = "announce_config env command_id domain config runtime event"
  let ?loop = "loop (redis_do env) ?cs t"
  obtain sent where sent: "snd ?loop = t\<lparr>st_redis := st_redis t @ sent\<rparr>" "fst ?loop = Inr () \<longrightarrow> sent = ?cs" using loop_redis by blast
  let ?r = "case fst ?loop of Inl e \<Rightarrow> Inl e | Inr _ \<Rightarrow> Inr (bc_version row, config)"
  have "bc_config row = config" using stored(3) by (simp add: stored_change_def)
  then have "update_domain env cfg domain payload actor s = (?r, t\<lparr>st_redis := st_redis t @ sent\<rparr>)"
    using stored(1) sent(1) by (cases ?loop) (auto simp: update_domain_def bindm_def seqm_def split: sum.split)
  moreover have "(\<forall>sent c. \<exists>x. av_redis env sent c = Inr x) \<Longrightarrow> fst ?loop = Inr ()"
    by (rule loop_redis_answered) blast
  ultimately show ?thesis
    using stored(2,3) sent(2) by (intro exI[of _ command_id] exI[of _ row] exI[of _ event] exI[of _ ?r] exI[of _ "t\<lparr>st_redis := st_redis t @ sent\<rparr>"])
      (auto split: sum.split)
qed

section \<open>Requests\<close>

definition config_request :: "api_env \<Rightarrow> config_env \<Rightarrow> string \<Rightarrow> obj \<Rightarrow> obj \<Rightarrow> (int \<times> obj) st_op" where
  "config_request env cfg domain payload actor = database_session env ''api'' (update_domain env cfg domain payload actor)"

lemma rolled_back_tables:
  "st_bot_configs (rolled_back s t) = st_bot_configs s" "st_audit_logs (rolled_back s t) = st_audit_logs s"
  "st_runtime_events (rolled_back s t) = st_runtime_events s" "st_redis (rolled_back s t) = st_redis t"
  "tbl_exchange_accounts (st_session (rolled_back s t)) = tbl_exchange_accounts (st_session s)"
  "tbl_risk_events (st_session (rolled_back s t)) = tbl_risk_events (st_session s)"
  "tbl_inventory_snapshots (st_session (rolled_back s t)) = tbl_inventory_snapshots (st_session s)"
  by (simp_all add: rolled_back_def)

lemma database_session_failed: "database_session env service m s = (Inl e, t) \<Longrightarrow> \<exists>u. t = rolled_back s u"
  by (auto simp: database_session_def split: prod.splits sum.splits)

lemma database_session_done:
  "database_session env service m s = (Inr x, t) \<Longrightarrow> \<exists>u. m (s\<lparr>st_actor_service := Some service\<rparr>) = (Inr x, u) \<and> t = u\<lparr>st_actor_service := st_actor_service s\<rparr>"
  by (auto simp: database_session_def seqm_def elim!: bindm_InrE split: prod.splits sum.splits)

lemma valid_change_actor [simp]: "valid_change cfg domain payload (s\<lparr>st_actor_service := a\<rparr>) = valid_change cfg domain payload s"
  by (simp add: valid_change_def split: option.split sum.split)

lemma versions_ok_actor [simp]: "versions_ok (s\<lparr>st_actor_service := a\<rparr>) = versions_ok s" "domain_rows d (s\<lparr>st_actor_service := a\<rparr>) = domain_rows d s"
  by (simp_all add: versions_ok_def domain_rows_def)

lemma domain_rows_append:
  "st_bot_configs t = st_bot_configs s @ [row] \<Longrightarrow> domain_rows d t = (if bc_name row = d then domain_rows d s @ [row] else domain_rows d s)"
  by (simp add: domain_rows_def)

lemma config_change_cases:
  assumes "versions_ok s" "config_request env cfg domain payload actor s = (r, t)"
  shows "(\<forall>version config. r = Inr (version, config) \<longrightarrow>
      (\<exists>runtime command_id event row. valid_change cfg domain payload s = Some (config, runtime)
        \<and> stored_change domain config runtime s row event t \<and> version = bc_version row
        \<and> st_redis t = st_redis s @ announce_config env command_id domain config runtime event))
    \<and> (\<forall>e. r = Inl e \<longrightarrow> st_bot_configs t = st_bot_configs s \<and> st_audit_logs t = st_audit_logs s \<and> st_runtime_events t = st_runtime_events s)
    \<and> (valid_change cfg domain payload s = None \<longrightarrow> (\<exists>e. r = Inl e) \<and> st_redis t = st_redis s)
    \<and> (valid_change cfg domain payload s \<noteq> None \<and> (\<forall>sent c. \<exists>x. av_redis env sent c = Inr x) \<and> av_commit env = Inr () \<longrightarrow> (\<exists>x. r = Inr x))"
proof -
  let ?s = "s\<lparr>st_actor_service := Some ''api''\<rparr>"
  have ok: "versions_ok ?s" using assms(1) by simp
  have request: "database_session env ''api'' (update_domain env cfg domain payload actor) s = (r, t)"
    using assms(2) by (simp add: config_request_def)
  show ?thesis
  proof (cases "valid_change cfg domain payload s")
    case None
    then obtain e u where "store_domain env cfg domain payload actor ?s = (Inl e, u)" "st_redis u = st_redis s"
      using store_domain_invalid[OF ok, of cfg domain payload env actor] by auto
    then have "r = Inl e \<and> t = rolled_back s u"
      using request by (simp add: database_session_def update_domain_def bindm_Inl)
    then show ?thesis using \<open>st_redis u = st_redis s\<close> None by (simp add: rolled_back_tables)
  next
    case (Some change)
    obtain config runtime where c: "change = (config, runtime)" by (cases change)
    from Some have "valid_change cfg domain payload ?s = Some (config, runtime)" by (simp add: c)
    from update_domain_valid[OF ok this, of env actor, unfolded stored_change_simps store_actor_simps] obtain command_id row event r' u where
      u: "update_domain env cfg domain payload actor ?s = (r', u)" "stored_change domain config runtime s row event u"
      and announced: "\<forall>x. r' = Inr x \<longrightarrow> x = (bc_version row, config) \<and> st_redis u = st_redis s @ announce_config env command_id domain config runtime event"
      and live: "(\<forall>sent c. \<exists>x. av_redis env sent c = Inr x) \<longrightarrow> r' = Inr (bc_version row, config)"
      by blast
    have "av_commit env = Inr () \<Longrightarrow> r' = Inr x \<Longrightarrow> r = Inr x" for x
      using request u(1) by (simp add: database_session_def bindm_def seqm_def)
    then have "(\<forall>sent c. \<exists>x. av_redis env sent c = Inr x) \<and> av_commit env = Inr () \<longrightarrow> (\<exists>x. r = Inr x)" using live by blast
    moreover
    have "r = Inr x \<Longrightarrow> r' = Inr x \<and> t = u\<lparr>st_actor_service := st_actor_service s\<rparr>" for x
      using database_session_done[of env "''api''" _ s x t] request u(1) by fastforce
    moreover have "r = Inl e \<Longrightarrow> \<exists>v. t = rolled_back s v" for e using database_session_failed request by blast
    ultimately show ?thesis using announced u(2) Some c by (fastforce simp: rolled_back_tables)
  qed
qed


section \<open>Histories\<close>

record config_change =
  cc_env :: api_env
  cc_cfg :: config_env
  cc_domain :: string
  cc_payload :: obj
  cc_actor :: obj

definition config_step :: "config_change \<Rightarrow> store \<Rightarrow> store" where
  "config_step c s = snd (config_request (cc_env c) (cc_cfg c) (cc_domain c) (cc_payload c) (cc_actor c) s)"

lemma config_step_versions: "versions_ok s \<Longrightarrow> versions_ok (config_step c s)"
proof -
  assume ok: "versions_ok s"
  obtain r t where rt: "config_request (cc_env c) (cc_cfg c) (cc_domain c) (cc_payload c) (cc_actor c) s = (r, t)" by (cases "config_request (cc_env c) (cc_cfg c) (cc_domain c) (cc_payload c) (cc_actor c) s")
  have "st_bot_configs t = st_bot_configs s \<or> (\<exists>row. st_bot_configs t = st_bot_configs s @ [row] \<and> bc_version row = int (length (domain_rows (bc_name row) s)) + 1)"
  proof (cases r)
    case (Inr x)
    then obtain runtime row event where "stored_change (cc_domain c) (snd x) runtime s row event t"
      using config_change_cases[OF ok rt] by (cases x) auto
    then show ?thesis unfolding stored_change_def by metis
  qed (use config_change_cases[OF ok rt] in simp)
  then have "versions_ok t" using versions_ok_append[OF ok] versions_ok_cong[of t s] ok by blast
  then show ?thesis using rt by (simp add: config_step_def)
qed

interpretation configs: step_system config_step versions_ok
  by unfold_locales (rule config_step_versions)

text \<open>
  C28. Over any history of changes, failed ones included, the versions of every domain are 1, 2, 3, ... in the order of
  their rows, so that the unique constraint on name and version is never violated and the latest configuration of a domain is
  the last one stored.
\<close>

theorem config_versions_contiguous:
  assumes "st_bot_configs s = []"
  shows "let t = run config_step changes s in
    map bc_version (domain_rows domain t) = map (\<lambda>i. int i + 1) [0..<length (domain_rows domain t)]
    \<and> latest_config domain (st_bot_configs t) = (if domain_rows domain t = [] then None else Some (last (domain_rows domain t)))"
proof -
  have "versions_ok s" using assms by (simp add: versions_ok_def domain_rows_def)
  then have "versions_ok (run config_step changes s)" by (rule configs.run_inv)
  then show ?thesis using latest_is_last by (simp add: versions_ok_def Let_def)
qed

text \<open>
  A change is announced before it is committed: when the commit fails, every message and both cached configurations are
  out, with a version that the tables do not have.
\<close>

theorem announced_without_being_stored:
  assumes "versions_ok s" "valid_change cfg domain payload s = Some (config, runtime)" "\<forall>sent c. \<exists>x. av_redis env sent c = Inr x"
    "av_commit env = Inl e"
  shows "\<exists>command_id event t. config_request env cfg domain payload actor s = (Inl e, t)
    \<and> st_redis t = st_redis s @ announce_config env command_id domain config runtime event
    \<and> jget event ''version'' = JInt (int (length (domain_rows domain s)) + 1) \<and> st_bot_configs t = st_bot_configs s"
proof -
  let ?s = "s\<lparr>st_actor_service := Some ''api''\<rparr>"
  have "versions_ok ?s" "valid_change cfg domain payload ?s = Some (config, runtime)" using assms(1,2) by simp_all
  from update_domain_valid[OF this, of env actor, unfolded stored_change_simps store_actor_simps] assms(3) obtain command_id row event u where
    u: "update_domain env cfg domain payload actor ?s = (Inr (bc_version row, config), u)" "stored_change domain config runtime s row event u"
      "st_redis u = st_redis s @ announce_config env command_id domain config runtime event" by blast
  then have "config_request env cfg domain payload actor s = (Inl e, rolled_back s u)"
    using assms(4) by (simp add: config_request_def database_session_def bindm_def seqm_def)
  moreover have "jget event ''version'' = JInt (int (length (domain_rows domain s)) + 1)" using u(2) by (auto simp: stored_change_def)
  ultimately show ?thesis using u(3) by (metis rolled_back_tables(1,4))
qed

text \<open>A stored configuration is what the next reader of the domain gets, on top of the defaults.\<close>

theorem stored_config_read_back:
  assumes "versions_ok s" "config_request env cfg domain payload actor s = (Inr (version, config), t)" "dict_get (cv_defaults cfg) domain = Some base"
  shows "fst (effective_domain_config cfg domain None t) = Inr (deep_merge base config)
    \<and> (\<forall>d base'. d \<noteq> domain \<longrightarrow> dict_get (cv_defaults cfg) d = Some base' \<longrightarrow>
         fst (effective_domain_config cfg d None t) = fst (effective_domain_config cfg d None s))"
proof -
  obtain runtime event row where "stored_change domain config runtime s row event t"
    using config_change_cases[OF assms(1,2)] by auto
  then have row: "st_bot_configs t = st_bot_configs s @ [row]" "bc_name row = domain" "bc_config row = config"
    "bc_version row = int (length (domain_rows (bc_name row) s)) + 1" by (auto simp: stored_change_def)
  have eff: "fst (effective_domain_config cfg d None u) = Inr (stored_config (st_bot_configs u) (d, b))"
    if "dict_get (cv_defaults cfg) d = Some b" for d b u
    by (simp add: effective_domain_config_def get_latest_def that stored_config_def Let_def split: option.split)
  show ?thesis using assms(3) row stored_config_append[OF assms(1) row(4)] by (auto simp: eff)
qed

section \<open>Identifiers as texts\<close>

lemma hex_value_digit: "d < 16 \<Longrightarrow> hex_value (hex_digit d) = Some d"
  by (simp add: hex_digit_def hex_value_def)

lemma length_hex_digits [simp]: "length (hex_digits k n) = k"
  by (induction k arbitrary: n) auto

lemma read_hex_append: "read_hex (a @ b) n = (case read_hex a n of None \<Rightarrow> None | Some m \<Rightarrow> read_hex b m)"
  by (induction a arbitrary: n) (auto split: option.split)

lemma read_hex_digits: "n < 16 ^ k \<Longrightarrow> read_hex (hex_digits k n) m = Some (m * 16 ^ k + n)"
proof (induction k arbitrary: n m)
  case (Suc k)
  then have "n div 16 < 16 ^ k" by (simp add: less_mult_imp_div_less mult.commute)
  then show ?case using Suc.IH[of "n div 16" m] by (simp add: read_hex_append hex_value_digit)
qed simp

lemma hex_digits_no_dash: "CHR ''-'' \<notin> set (hex_digits k n)"
proof (induction k arbitrary: n)
  case (Suc k)
  have "hex_digit d \<noteq> CHR ''-''" if "d < 16" for d
    using hex_value_digit[OF that] by (auto simp: hex_value_def)
  from this[of "n mod 16"] show ?case using Suc by auto
qed simp

text \<open>The text of an identifier is read back as the identifier; so an actor whose subject is the text of a user id is recorded as that user.\<close>

theorem uuid_text_roundtrip:
  assumes "u < 2 ^ 128"
  shows "parse_uuid (uuid_text u) = Some u \<and> (jget actor ''sub'' = JStr (uuid_text u) \<longrightarrow> actor_uuid printer actor = Some u)"
proof -
  let ?d = "hex_digits 32 u"
  have dash: "filter (\<lambda>c. c \<noteq> CHR ''-'') xs = xs" if "set xs \<subseteq> set ?d" for xs
    using hex_digits_no_dash[of 32 u] that by (auto simp: filter_id_conv)
  have "take 8 ?d @ take 4 (drop 8 ?d) @ take 4 (drop 12 ?d) @ take 4 (drop 16 ?d) @ drop 20 ?d = ?d"
    using append_take_drop_id[of 4 "drop 16 ?d"] append_take_drop_id[of 4 "drop 12 ?d"] append_take_drop_id[of 4 "drop 8 ?d"] by simp
  moreover have "filter (\<lambda>c. c \<noteq> CHR ''-'') (uuid_text u) = take 8 ?d @ take 4 (drop 8 ?d) @ take 4 (drop 12 ?d) @ take 4 (drop 16 ?d) @ drop 20 ?d"
    using dash[of "take 8 ?d"] dash[of "drop 20 ?d"] dash[of "take 4 (drop 8 ?d)"] dash[of "take 4 (drop 12 ?d)"] dash[of "take 4 (drop 16 ?d)"]
    by (simp add: uuid_text_def Let_def set_take_subset set_drop_subset subset_trans[OF set_take_subset set_drop_subset])
  ultimately have "filter (\<lambda>c. c \<noteq> CHR ''-'') (uuid_text u) = ?d" by simp
  moreover have "read_hex ?d 0 = Some u" using assms read_hex_digits[of u 32 0] by simp
  ultimately have "parse_uuid (uuid_text u) = Some u" by (simp add: parse_uuid_def)
  moreover have "uuid_text u \<noteq> []" by (simp add: uuid_text_def Let_def)
  ultimately show ?thesis by (simp add: actor_uuid_def)
qed

section \<open>Instances\<close>

definition example_api_env :: api_env where
  "example_api_env = \<lparr>av_redis = (\<lambda>_ _. Inr Nil_reply), av_now = 0, av_time = 0, av_isoformat = (\<lambda>_. ''1970-01-01T00:00:00+00:00''),
     av_printer = (\<lambda>_. []), av_commit = Inr ()\<rparr>"

definition example_config_env :: config_env where
  "example_config_env = \<lparr>cv_defaults = [(''spread'', [(''min_bps'', JInt 5), (''max_bps'', JInt 50)])],
     cv_validate = (\<lambda>_ c. if jget c ''min_bps'' = JInt 0 then Inl (ValueError ''min_bps'') else Inr c), cv_validate_runtime = Inr\<rparr>"

definition example_actor :: obj where "example_actor = [(''sub'', JStr ''operator''), (''roles'', JList [JStr ''platform_admin''])]"

lemma example_answers: "\<forall>sent c. \<exists>x. av_redis example_api_env sent c = Inr x"
  by (simp add: example_api_env_def)

lemma example_valid:
  "valid_change example_config_env ''spread'' [(''min_bps'', JInt 7)] (store_init empty_session)
     = Some ([(''min_bps'', JInt 7), (''max_bps'', JInt 50)], [(''spread'', JDict [(''min_bps'', JInt 7), (''max_bps'', JInt 50)])])"
  by (simp add: valid_change_def example_config_env_def stored_config_def latest_config_def store_init_def merged_runtime_def jget_def)

lemma versions_ok_init: "versions_ok (store_init d)"
  by (simp add: versions_ok_def domain_rows_def store_init_def)


theorem config_versions_contiguous_witness:
  "let t = run config_step [\<lparr>cc_env = example_api_env, cc_cfg = example_config_env, cc_domain = ''spread'', cc_payload = [(''min_bps'', JInt 7)],
       cc_actor = example_actor\<rparr>] (store_init empty_session)
   in map bc_version (domain_rows ''spread'' t) = map (\<lambda>i. int i + 1) [0..<length (domain_rows ''spread'' t)]"
  using config_versions_contiguous[of "store_init empty_session" "[\<lparr>cc_env = example_api_env, cc_cfg = example_config_env,
    cc_domain = ''spread'', cc_payload = [(''min_bps'', JInt 7)], cc_actor = example_actor\<rparr>]" "''spread''"]
  by (simp add: Let_def store_init_def)

theorem announced_without_being_stored_witness:
  "\<exists>command_id event t. config_request (example_api_env\<lparr>av_commit := Inl IntegrityError\<rparr>) example_config_env ''spread'' [(''min_bps'', JInt 7)] example_actor
      (store_init empty_session) = (Inl IntegrityError, t)
    \<and> st_redis t = announce_config (example_api_env\<lparr>av_commit := Inl IntegrityError\<rparr>) command_id ''spread'' [(''min_bps'', JInt 7), (''max_bps'', JInt 50)]
        [(''spread'', JDict [(''min_bps'', JInt 7), (''max_bps'', JInt 50)])] event
    \<and> jget event ''version'' = JInt 1 \<and> st_bot_configs t = []"
  using announced_without_being_stored[OF versions_ok_init example_valid, of "example_api_env\<lparr>av_commit := Inl IntegrityError\<rparr>" IntegrityError example_actor]
  by (simp add: example_api_env_def store_init_def domain_rows_def)

theorem uuid_text_roundtrip_witness: "parse_uuid (uuid_text 255) = Some 255 \<and> actor_uuid (\<lambda>_. []) [(''sub'', JStr (uuid_text 255))] = Some 255"
  using uuid_text_roundtrip[of 255 "[(''sub'', JStr (uuid_text 255))]" "\<lambda>_. []"] by (simp add: jget_def)

theorem stored_config_read_back_witness:
  "\<exists>version t. config_request example_api_env example_config_env ''spread'' [(''min_bps'', JInt 7)] example_actor (store_init empty_session)
       = (Inr (version, [(''min_bps'', JInt 7), (''max_bps'', JInt 50)]), t)
    \<and> fst (effective_domain_config example_config_env ''spread'' None t) = Inr [(''min_bps'', JInt 7), (''max_bps'', JInt 50)]"
proof -
  let ?request = "config_request example_api_env example_config_env ''spread'' [(''min_bps'', JInt 7)] example_actor (store_init empty_session)"
  obtain version config where "fst ?request = Inr (version, config)"
    using config_change_cases[OF versions_ok_init prod.collapse[symmetric],
      of example_api_env example_config_env "''spread''" "[(''min_bps'', JInt 7)]" example_actor empty_session] example_valid example_answers
    by (auto simp: example_api_env_def)
  then have r: "?request = (Inr (version, config), snd ?request)" by (metis prod.collapse)
  moreover have "config = [(''min_bps'', JInt 7), (''max_bps'', JInt 50)]"
    using config_change_cases[OF versions_ok_init r] example_valid by auto
  moreover have "dict_get (cv_defaults example_config_env) ''spread'' = Some [(''min_bps'', JInt 5), (''max_bps'', JInt 50)]"
    by (simp add: example_config_env_def)
  ultimately show ?thesis using stored_config_read_back[OF versions_ok_init r] by fastforce
qed

end
