(* ===== verification/Control_Api.thy ===== *)
theory Control_Api
  imports Config_Safety Access
begin

text \<open>
  The routes of \<open>api/routes.py\<close> that change the configuration or control trading, with their request schemas
  (\<open>api/schemas.py\<close>): the check of the token comes first, then the validation of the body, then the handler
  inside a database session that is committed at the end. A route returns the answer or raises.
\<close>

section \<open>Requests\<close>

record route_env =
  rt_api :: api_env
  rt_jwt :: jwt
  rt_cfg :: config_env

type_synonym check = "jwt \<Rightarrow> datetime \<Rightarrow> string option \<Rightarrow> obj res"

definition guarded :: "route_env \<Rightarrow> check \<Rightarrow> string option \<Rightarrow> (obj \<Rightarrow> 'a st_op) \<Rightarrow> 'a st_op" where
  "guarded env check credentials handler =
     bindm (lift_res (check (rt_jwt env) (av_now (rt_api env)) credentials)) (\<lambda>actor.
     database_session (rt_api env) ''api'' (handler actor))"

record ConfirmedActionRequest =
  rq_confirmation :: string
  rq_reason :: string

text \<open>\<open>Field(min_length=3)\<close>; a body that does not fit is answered with 422.\<close>

definition validate_confirmed :: "ConfirmedActionRequest \<Rightarrow> unit res" where
  "validate_confirmed request =
     (if length (rq_confirmation request) < 3 \<or> length (rq_reason request) < 3 then Inl (HTTPException 422 ''string_too_short'') else Inr ())"

definition confirmed :: "ConfirmedActionRequest \<Rightarrow> string \<Rightarrow> unit st_op" where
  "confirmed request expected =
     seqm (lift_res (validate_confirmed request)) (lift_res (require_confirmation (rq_confirmation request) expected))"

datatype strategy_command = Cmd_start | Cmd_pause | Cmd_resume | Cmd_stop

fun command_text :: "strategy_command \<Rightarrow> string" where
  "command_text Cmd_start = ''start''"
| "command_text Cmd_pause = ''pause''"
| "command_text Cmd_resume = ''resume''"
| "command_text Cmd_stop = ''stop''"

definition DOMAIN_MODELS :: "string list" where
  "DOMAIN_MODELS = [''strategy'', ''spread'', ''order_layers'', ''order_size'', ''volume'', ''inventory'', ''risk'', ''exchange'', ''liquidity'', ''alert'']"

section \<open>Configuration\<close>

definition get_runtime_config :: "route_env \<Rightarrow> string option \<Rightarrow> obj st_op" where
  "get_runtime_config env credentials = guarded env require_admin credentials (\<lambda>_. runtime_config (rt_cfg env))"

definition operations_runtime_config :: "route_env \<Rightarrow> string option \<Rightarrow> obj st_op" where
  "operations_runtime_config env credentials = guarded env require_operations_access credentials (\<lambda>_. runtime_config (rt_cfg env))"

definition get_domain_config :: "route_env \<Rightarrow> string option \<Rightarrow> string \<Rightarrow> (int \<times> obj) st_op" where
  "get_domain_config env credentials domain = guarded env require_admin credentials (\<lambda>_.
     if domain \<notin> set DOMAIN_MODELS then raise_err (HTTPException 404 ''unknown configuration domain'')
     else bindm (get_latest domain) (\<lambda>row.
          bindm (effective_domain_config (rt_cfg env) domain None) (\<lambda>config.
          ret (case row of None \<Rightarrow> 0 | Some r \<Rightarrow> bc_version r, config))))"

definition update_domain_config :: "route_env \<Rightarrow> string option \<Rightarrow> string \<Rightarrow> obj \<Rightarrow> (int \<times> obj) st_op" where
  "update_domain_config env credentials domain config = guarded env require_config_write credentials (\<lambda>actor.
     if domain \<notin> set DOMAIN_MODELS then raise_err (HTTPException 404 ''unknown configuration domain'')
     else seqm (lift_res (require_config_domain_actor domain actor)) (update_domain (rt_api env) (rt_cfg env) domain config actor))"

section \<open>The strategy\<close>

definition strategy_state :: "strategy_command \<Rightarrow> string" where
  "strategy_state command = (if command \<in> {Cmd_start, Cmd_resume} then ''running'' else if command = Cmd_pause then ''paused'' else ''stopped'')"

definition admin_strategy_command :: "route_env \<Rightarrow> string option \<Rightarrow> strategy_command \<Rightarrow> ConfirmedActionRequest \<Rightarrow> obj st_op" where
  "admin_strategy_command env credentials command request = guarded env require_trading_control credentials (\<lambda>actor.
     let state = [(''state'', JStr (strategy_state command)), (''reason'', JStr (rq_reason request)), (''actor'', jget actor ''sub''),
           (''updated_at'', JStr (av_isoformat (rt_api env) (av_now (rt_api env))))]
     in seqm (confirmed request (command_text command)) (
        seqm (redis_do (rt_api env) (Redis_set ''runtime:strategy:state'' (JDict state) None)) (
        bindm (publish_runtime_command (rt_api env) actor ''STRATEGY_COMMAND''
            [(''action'', JStr (command_text command)), (''reason'', JStr (rq_reason request)), (''state'', JDict state)]
            MARKET_MAKER_COMMAND_CHANNEL ''runtime_command'' (Some (''STRATEGY_'' @ upper (command_text command)))) (\<lambda>event.
        ret [(''state'', JDict state), (''event'', JDict event)]))))"

section \<open>The kill switch\<close>

definition kill_switch_key :: string where "kill_switch_key = ''risk:kill_switch''"

definition kill_switch_state :: "route_env \<Rightarrow> obj \<Rightarrow> string \<Rightarrow> obj" where
  "kill_switch_state env actor reason =
     [(''active'', JBool True), (''reason'', JStr reason), (''actor'', jget actor ''sub''),
      (''activated_at'', JStr (av_isoformat (rt_api env) (av_now (rt_api env))))]"

definition actor_meta :: "obj \<Rightarrow> obj" where "actor_meta actor = [(''actor'', jget actor ''sub'')]"

text \<open>\<open>_loads_json(...) or {"active": False}\<close>.\<close>

definition read_kill_switch :: "route_env \<Rightarrow> json st_op" where
  "read_kill_switch env =
     bindm (redis_get_json (rt_api env) kill_switch_key) (\<lambda>state.
     ret (case state of Some v \<Rightarrow> if json_truthy v then v else JDict [(''active'', JBool False)] | None \<Rightarrow> JDict [(''active'', JBool False)]))"

definition operations_kill_switch_status :: "route_env \<Rightarrow> string option \<Rightarrow> json st_op" where
  "operations_kill_switch_status env credentials =
     bindm (lift_res (require_operations_access (rt_jwt env) (av_now (rt_api env)) credentials)) (\<lambda>_. read_kill_switch env)"

definition admin_kill_switch_status :: "route_env \<Rightarrow> string option \<Rightarrow> json st_op" where
  "admin_kill_switch_status env credentials =
     bindm (lift_res (require_admin (rt_jwt env) (av_now (rt_api env)) credentials)) (\<lambda>_. read_kill_switch env)"

definition admin_kill_switch_enable :: "route_env \<Rightarrow> string option \<Rightarrow> obj \<Rightarrow> obj st_op" where
  "admin_kill_switch_enable env credentials request = guarded env require_admin credentials (\<lambda>actor.
     let reason = py_str (av_printer (rt_api env)) (get_or request [''reason''] (JStr ''operator_request''));
         state = kill_switch_state env actor reason
     in seqm (redis_do (rt_api env) (Redis_set kill_switch_key (JDict state) None)) (
        seqm (risk_event_add (rt_api env) RS_critical ''KILL_SWITCH_ACTIVATED'' reason True False (actor_meta actor))
          (ret state)))"

definition admin_kill_switch_disable :: "route_env \<Rightarrow> string option \<Rightarrow> obj st_op" where
  "admin_kill_switch_disable env credentials = guarded env require_admin credentials (\<lambda>actor.
     seqm (redis_do (rt_api env) (Redis_delete kill_switch_key)) (
     seqm (risk_event_add (rt_api env) RS_high ''KILL_SWITCH_CLEARED'' ''operator_clear'' False False (actor_meta actor))
       (ret [(''active'', JBool False)])))"

section \<open>Emergencies\<close>

definition runtime_command :: "route_env \<Rightarrow> obj \<Rightarrow> string \<Rightarrow> obj \<Rightarrow> string \<Rightarrow> obj st_op" where
  "runtime_command env actor command_type payload action =
     publish_runtime_command (rt_api env) actor command_type payload MARKET_MAKER_COMMAND_CHANNEL ''runtime_command'' (Some action)"

definition emergency_cancel_all_orders :: "route_env \<Rightarrow> string option \<Rightarrow> ConfirmedActionRequest \<Rightarrow> obj st_op" where
  "emergency_cancel_all_orders env credentials request = guarded env require_incident_response credentials (\<lambda>actor.
     seqm (confirmed request ''cancel'') (
     bindm (runtime_command env actor ''CANCEL_ALL_ORDERS'' [(''reason'', JStr (rq_reason request)), (''confirmed'', JBool True)] ''EMERGENCY_CANCEL_ALL_ORDERS'') (\<lambda>event.
     seqm (risk_event_add (rt_api env) RS_high ''EMERGENCY_CANCEL_ALL_ORDERS'' (rq_reason request) False False (actor_meta actor))
       (ret [(''accepted'', JBool True), (''event'', JDict event)]))))"

definition emergency_disable_trading :: "route_env \<Rightarrow> string option \<Rightarrow> ConfirmedActionRequest \<Rightarrow> obj st_op" where
  "emergency_disable_trading env credentials request = guarded env require_incident_response credentials (\<lambda>actor.
     let state = kill_switch_state env actor (rq_reason request)
     in seqm (confirmed request ''disable'') (
        seqm (redis_do (rt_api env) (Redis_set kill_switch_key (JDict state) None)) (
        bindm (runtime_command env actor ''DISABLE_TRADING'' [(''reason'', JStr (rq_reason request)), (''kill_switch'', JDict state)] ''EMERGENCY_DISABLE_TRADING'') (\<lambda>event.
        seqm (risk_event_add (rt_api env) RS_critical ''TRADING_DISABLED'' (rq_reason request) True False (actor_meta actor))
          (ret [(''accepted'', JBool True), (''kill_switch'', JDict state), (''event'', JDict event)])))))"

definition emergency_enable_trading :: "route_env \<Rightarrow> string option \<Rightarrow> ConfirmedActionRequest \<Rightarrow> obj st_op" where
  "emergency_enable_trading env credentials request = guarded env require_risk_write credentials (\<lambda>actor.
     seqm (confirmed request ''enable'') (
     seqm (redis_do (rt_api env) (Redis_delete kill_switch_key)) (
     bindm (runtime_command env actor ''ENABLE_TRADING'' [(''reason'', JStr (rq_reason request))] ''EMERGENCY_ENABLE_TRADING'') (\<lambda>event.
     seqm (risk_event_add (rt_api env) RS_high ''TRADING_ENABLED'' (rq_reason request) False False (actor_meta actor))
       (ret [(''accepted'', JBool True), (''event'', JDict event)])))))"

definition emergency_close_positions :: "route_env \<Rightarrow> string option \<Rightarrow> ConfirmedActionRequest \<Rightarrow> obj st_op" where
  "emergency_close_positions env credentials request = guarded env require_incident_response credentials (\<lambda>actor.
     seqm (confirmed request ''close'') (
     bindm (runtime_command env actor ''CLOSE_POSITIONS'' [(''reason'', JStr (rq_reason request)), (''reduce_only'', JBool True)] ''EMERGENCY_CLOSE_POSITIONS'') (\<lambda>event.
     seqm (risk_event_add (rt_api env) RS_critical ''CLOSE_POSITIONS_REQUESTED'' (rq_reason request) False False (actor_meta actor))
       (ret [(''accepted'', JBool True), (''event'', JDict event)]))))"

definition emergency_runtime_restart :: "route_env \<Rightarrow> string option \<Rightarrow> ConfirmedActionRequest \<Rightarrow> obj st_op" where
  "emergency_runtime_restart env credentials request = guarded env require_incident_response credentials (\<lambda>actor.
     seqm (confirmed request ''restart'') (
     bindm (runtime_command env actor ''RUNTIME_RESTART'' [(''reason'', JStr (rq_reason request))] ''EMERGENCY_RUNTIME_RESTART'') (\<lambda>event.
     seqm (risk_event_add (rt_api env) RS_high ''RUNTIME_RESTART_REQUESTED'' (rq_reason request) False False (actor_meta actor))
       (ret [(''accepted'', JBool True), (''event'', JDict event)]))))"

definition emergency_shutdown_route :: "route_env \<Rightarrow> string option \<Rightarrow> ConfirmedActionRequest \<Rightarrow> obj st_op" where
  "emergency_shutdown_route env credentials request = guarded env require_incident_response credentials (\<lambda>actor.
     let state = kill_switch_state env actor (rq_reason request) @ [(''shutdown'', JBool True)]
     in seqm (confirmed request ''shutdown'') (
        seqm (redis_do (rt_api env) (Redis_set kill_switch_key (JDict state) None)) (
        bindm (runtime_command env actor ''EMERGENCY_SHUTDOWN'' [(''reason'', JStr (rq_reason request)), (''kill_switch'', JDict state)] ''EMERGENCY_SHUTDOWN'') (\<lambda>event.
        seqm (risk_event_add (rt_api env) RS_critical ''EMERGENCY_SHUTDOWN'' (rq_reason request) True True (actor_meta actor))
          (ret [(''accepted'', JBool True), (''kill_switch'', JDict state), (''event'', JDict event)])))))"

section \<open>Requests as steps\<close>

datatype control_request =
    Config_update string obj
  | Strategy strategy_command ConfirmedActionRequest
  | Kill_switch_enable obj
  | Kill_switch_disable
  | Cancel_all_orders ConfirmedActionRequest
  | Disable_trading ConfirmedActionRequest
  | Enable_trading ConfirmedActionRequest
  | Close_positions ConfirmedActionRequest
  | Runtime_restart ConfirmedActionRequest
  | Shutdown ConfirmedActionRequest

fun control :: "route_env \<Rightarrow> string option \<Rightarrow> control_request \<Rightarrow> store \<Rightarrow> bool \<times> store" where
  "control env cr (Config_update d c) s = map_prod (\<lambda>r. \<not> isl r) id (update_domain_config env cr d c s)"
| "control env cr (Strategy cmd rq) s = map_prod (\<lambda>r. \<not> isl r) id (admin_strategy_command env cr cmd rq s)"
| "control env cr (Kill_switch_enable rq) s = map_prod (\<lambda>r. \<not> isl r) id (admin_kill_switch_enable env cr rq s)"
| "control env cr Kill_switch_disable s = map_prod (\<lambda>r. \<not> isl r) id (admin_kill_switch_disable env cr s)"
| "control env cr (Cancel_all_orders rq) s = map_prod (\<lambda>r. \<not> isl r) id (emergency_cancel_all_orders env cr rq s)"
| "control env cr (Disable_trading rq) s = map_prod (\<lambda>r. \<not> isl r) id (emergency_disable_trading env cr rq s)"
| "control env cr (Enable_trading rq) s = map_prod (\<lambda>r. \<not> isl r) id (emergency_enable_trading env cr rq s)"
| "control env cr (Close_positions rq) s = map_prod (\<lambda>r. \<not> isl r) id (emergency_close_positions env cr rq s)"
| "control env cr (Runtime_restart rq) s = map_prod (\<lambda>r. \<not> isl r) id (emergency_runtime_restart env cr rq s)"
| "control env cr (Shutdown rq) s = map_prod (\<lambda>r. \<not> isl r) id (emergency_shutdown_route env cr rq s)"

end
