(* ===== verification/Precision.thy ===== *)
theory Precision
  imports Exec_Models
begin

text \<open>
  Venue precision filters (\<open>execution/precision.py\<close>): truncation of prices and quantities to the
  venue's increments, the rewriting of an intent before it is sent, and its validation. The locale
  \<open>quantizer\<close> states what the truncation promises; the filter's properties rest on it.
\<close>

definition quantize_down :: "decimal \<Rightarrow> decimal \<Rightarrow> decimal res" where
  "quantize_down value increment =
     (if increment \<le> 0 then Inl (PrecisionError Increment_not_positive)
      else Inr (of_int (round_down (value / increment)) * increment))"

definition apply_symbol_precision :: "OrderIntent \<Rightarrow> SymbolPrecision \<Rightarrow> OrderIntent res" where
  "apply_symbol_precision intent precision =
     bindr (quantize_down (oi_quantity intent) (sp_quantity_step precision)) (\<lambda>quantity.
       if quantity < sp_min_quantity precision
       then Inl (PrecisionError (Quantity_below_minimum quantity (sp_min_quantity precision) (sp_symbol precision)))
       else bindr
         (case oi_price intent of
            None \<Rightarrow> Inr None
          | Some p \<Rightarrow> bindr (quantize_down p (sp_price_tick precision)) (\<lambda>q. Inr (Some q))) (\<lambda>price.
            let notional = quantity * (case price of None \<Rightarrow> 0 | Some p \<Rightarrow> p)
            in if price \<noteq> None \<and> notional < sp_min_notional precision
               then Inl (PrecisionError (Notional_below_minimum notional (sp_min_notional precision) (sp_symbol precision)))
               else Inr (intent\<lparr>oi_quantity := quantity, oi_price := price\<rparr>)))"

definition validate_symbol_precision :: "OrderIntent \<Rightarrow> SymbolPrecision \<Rightarrow> unit res" where
  "validate_symbol_precision intent precision =
     (if oi_quantity intent \<le> 0 then Inl (PrecisionError Quantity_not_positive)
      else if oi_quantity intent < sp_min_quantity precision
      then Inl (PrecisionError (Quantity_below_minimum (oi_quantity intent) (sp_min_quantity precision) (sp_symbol precision)))
      else bindr (quantize_down (oi_quantity intent) (sp_quantity_step precision)) (\<lambda>q.
        if q \<noteq> oi_quantity intent
        then Inl (PrecisionError (Quantity_not_aligned (oi_quantity intent) (sp_quantity_step precision) (sp_symbol precision)))
        else (case oi_price intent of
            None \<Rightarrow> Inr ()
          | Some price \<Rightarrow>
              if price \<le> 0 then Inl (PrecisionError Price_not_positive)
              else bindr (quantize_down price (sp_price_tick precision)) (\<lambda>p.
                if p \<noteq> price
                then Inl (PrecisionError (Price_not_aligned price (sp_price_tick precision) (sp_symbol precision)))
                else let notional = oi_quantity intent * price
                     in if notional < sp_min_notional precision
                        then Inl (PrecisionError (Notional_below_minimum notional (sp_min_notional precision) (sp_symbol precision)))
                        else Inr ()))))"

section \<open>What truncation promises\<close>

locale quantizer =
  fixes quant :: "rat \<Rightarrow> rat \<Rightarrow> rat res"
  assumes quant_total: "0 < i \<Longrightarrow> \<exists>y. quant x i = Inr y"
    and quant_refuses: "quant x i = Inr y \<Longrightarrow> 0 < i"
    and quant_multiple: "quant x i = Inr y \<Longrightarrow> \<exists>n::int. y = of_int n * i"
    and quant_le: "0 \<le> x \<Longrightarrow> quant x i = Inr y \<Longrightarrow> y \<le> x"
    and quant_near: "0 \<le> x \<Longrightarrow> quant x i = Inr y \<Longrightarrow> x < y + i"
    and quant_nonneg: "0 \<le> x \<Longrightarrow> quant x i = Inr y \<Longrightarrow> 0 \<le> y"
    and quant_fix: "0 < i \<Longrightarrow> quant (of_int n * i) i = Inr (of_int n * i)"
begin

lemma quant_idem: "quant x i = Inr y \<Longrightarrow> quant y i = Inr y"
  by (frule quant_refuses, drule quant_multiple) (auto simp: quant_fix)

lemma quant_aligned_iff: "quant x i = Inr x \<longleftrightarrow> 0 < i \<and> (\<exists>n::int. x = of_int n * i)"
proof
  assume "quant x i = Inr x"
  then show "0 < i \<and> (\<exists>n::int. x = of_int n * i)" by (simp add: quant_refuses quant_multiple)
next
  assume "0 < i \<and> (\<exists>n::int. x = of_int n * i)"
  then show "quant x i = Inr x" by (auto simp: quant_fix)
qed

text \<open>Everything a caller may use about a truncated non-negative value, as one forward rule.\<close>

lemma quant_facts:
  assumes "quant x i = Inr y" "0 \<le> x"
  shows "quant y i = Inr y \<and> 0 \<le> y \<and> y \<le> x \<and> x < y + i"
  using quant_idem[OF assms(1)] quant_le[OF assms(2,1)] quant_near[OF assms(2,1)] quant_nonneg[OF assms(2,1)]
  by (intro conjI)

lemma quant_mono_notional:
  assumes "0 \<le> q" "0 \<le> p" "quant q i = Inr q'" "quant p j = Inr p'"
  shows "q' * p' \<le> q * p"
  using quant_facts[OF assms(3,1)] quant_facts[OF assms(4,2)] assms(1,2) by (simp add: mult_mono)

end

interpretation qd: quantizer quantize_down
proof
  fix x i y :: rat
  assume x: "0 \<le> x" and y: "quantize_down x i = Inr y"
  then have i: "0 < i" and yi: "y = of_int (round_down (x / i)) * i"
    by (auto simp: quantize_down_def split: if_splits)
  have xi: "0 \<le> x / i" using x i by simp
  show "y \<le> x" using round_down_le[OF xi] i by (simp add: yi field_simps)
  show "x < y + i" using round_down_gt[OF xi] i by (simp add: yi field_simps)
  show "0 \<le> y" using round_down_nonneg[OF xi] i by (simp add: yi)
qed (auto simp: quantize_down_def split: if_splits)

section \<open>The filter\<close>

definition aligned :: "decimal \<Rightarrow> decimal \<Rightarrow> bool" where
  "aligned x i \<longleftrightarrow> quantize_down x i = Inr x"

lemma aligned_iff: "aligned x i \<longleftrightarrow> 0 < i \<and> (\<exists>n::int. x = of_int n * i)"
  unfolding aligned_def by (rule qd.quant_aligned_iff)

text \<open>What a successful \<open>apply_symbol_precision\<close> computed, field by field.\<close>

lemma apply_symbol_precision_Inr:
  "apply_symbol_precision intent precision = Inr out \<longleftrightarrow>
     (\<exists>q price. quantize_down (oi_quantity intent) (sp_quantity_step precision) = Inr q
        \<and> sp_min_quantity precision \<le> q
        \<and> (case oi_price intent of
             None \<Rightarrow> price = None
           | Some p \<Rightarrow> \<exists>p'. price = Some p' \<and> quantize_down p (sp_price_tick precision) = Inr p'
               \<and> sp_min_notional precision \<le> q * p')
        \<and> out = intent\<lparr>oi_quantity := q, oi_price := price\<rparr>)"
  unfolding apply_symbol_precision_def
  by (auto simp: bindr_Inr_iff Let_def not_less split: option.splits if_splits)

lemma validate_symbol_precision_Inr:
  "validate_symbol_precision intent precision = Inr () \<longleftrightarrow>
     0 < oi_quantity intent \<and> sp_min_quantity precision \<le> oi_quantity intent
     \<and> aligned (oi_quantity intent) (sp_quantity_step precision)
     \<and> (\<forall>p. oi_price intent = Some p \<longrightarrow>
          0 < p \<and> aligned p (sp_price_tick precision) \<and> sp_min_notional precision \<le> oi_quantity intent * p)"
  unfolding validate_symbol_precision_def aligned_def
  by (auto simp: bindr_Inr_iff Let_def not_less not_le split: option.splits if_splits)

text \<open>
  An intent the precision filter lets through is on the venue's grid and inside its limits:
  quantity and price are multiples of the step and the tick, never above what was asked and less
  than one increment below it, the minimum quantity and notional hold, and every other field of
  the order is the one the caller gave.
\<close>

theorem apply_symbol_precision_sound:
  assumes "apply_symbol_precision intent precision = Inr out"
    and "0 \<le> oi_quantity intent" and "\<And>p. oi_price intent = Some p \<Longrightarrow> 0 \<le> p"
  shows "aligned (oi_quantity out) (sp_quantity_step precision)
    \<and> sp_min_quantity precision \<le> oi_quantity out \<and> oi_quantity out \<le> oi_quantity intent
    \<and> oi_quantity intent < oi_quantity out + sp_quantity_step precision
    \<and> (case oi_price intent of
         None \<Rightarrow> oi_price out = None
       | Some p \<Rightarrow> \<exists>p'. oi_price out = Some p' \<and> aligned p' (sp_price_tick precision) \<and> p' \<le> p
           \<and> p < p' + sp_price_tick precision \<and> sp_min_notional precision \<le> oi_quantity out * p')
    \<and> out = intent\<lparr>oi_quantity := oi_quantity out, oi_price := oi_price out\<rparr>"
proof -
  from assms(1) obtain q price where
    q: "quantize_down (oi_quantity intent) (sp_quantity_step precision) = Inr q" "sp_min_quantity precision \<le> q" and
    price: "case oi_price intent of None \<Rightarrow> price = None
      | Some p \<Rightarrow> \<exists>p'. price = Some p' \<and> quantize_down p (sp_price_tick precision) = Inr p' \<and> sp_min_notional precision \<le> q * p'" and
    out: "out = intent\<lparr>oi_quantity := q, oi_price := price\<rparr>"
    unfolding apply_symbol_precision_Inr by blast
  show ?thesis
  proof (cases "oi_price intent")
    case None
    with q price show ?thesis using qd.quant_facts[OF q(1) assms(2)] by (simp add: out aligned_def)
  next
    case (Some p)
    with price obtain p' where "price = Some p'" "quantize_down p (sp_price_tick precision) = Inr p'"
      "sp_min_notional precision \<le> q * p'" by auto
    with Some q show ?thesis
      using qd.quant_facts[OF q(1) assms(2)] qd.quant_facts[OF \<open>quantize_down p _ = _\<close> assms(3)[OF Some]]
      by (simp add: out aligned_def)
  qed
qed

text \<open>
  An order that passed \<open>validate_symbol_precision\<close> goes out unchanged: the rewriting that the
  execution client applies afterwards is the identity on it. Validation and rewriting agree.
\<close>

theorem validated_order_sent_unchanged:
  assumes "validate_symbol_precision intent precision = Inr ()"
  shows "apply_symbol_precision intent precision = Inr intent"
  using assms unfolding validate_symbol_precision_Inr apply_symbol_precision_Inr aligned_def
  by (cases "oi_price intent") (auto intro!: exI[of _ "oi_quantity intent"])

text \<open>
  The rewriting reaches a fixed point in one step, and with a positive price and a positive
  minimum quantity its result passes the validation.
\<close>

theorem apply_symbol_precision_validates:
  assumes "apply_symbol_precision intent precision = Inr out"
    and "0 < sp_min_quantity precision" and "\<And>p. oi_price out = Some p \<Longrightarrow> 0 < p"
  shows "validate_symbol_precision out precision = Inr () \<and> apply_symbol_precision out precision = Inr out"
proof -
  have v: "validate_symbol_precision out precision = Inr ()"
    using assms unfolding apply_symbol_precision_Inr validate_symbol_precision_Inr aligned_def
    by (auto dest: qd.quant_idem split: option.splits)
  moreover have "apply_symbol_precision out precision = Inr out"
    using v unfolding validate_symbol_precision_Inr apply_symbol_precision_Inr aligned_def
    by (cases "oi_price out") (auto intro!: exI[of _ "oi_quantity out"])
  ultimately show ?thesis by simp
qed

definition btc_precision :: SymbolPrecision where
  "btc_precision = \<lparr>sp_symbol = ''BTC/USDT'', sp_venue_symbol = ''BTCUSDT'', sp_price_tick = 1/100,
     sp_quantity_step = 1/1000, sp_min_quantity = 1/1000, sp_min_notional = 5, sp_price_precision = 2, sp_quantity_precision = 3\<rparr>"

definition btc_order :: "decimal \<Rightarrow> decimal \<Rightarrow> OrderIntent" where
  "btc_order quantity price = \<lparr>oi_venue = Venue_coinstore, oi_symbol = ''BTC/USDT'', oi_side = Side_buy,
     oi_order_type = Type_limit, oi_quantity = quantity, oi_price = Some price, oi_client_order_id = ''a'',
     oi_time_in_force = TIF_gtc, oi_reduce_only = False, oi_metadata = []\<rparr>"

lemma btc_order_filtered:
  "apply_symbol_precision (btc_order (12345/1000000) (10000123/1000)) btc_precision = Inr (btc_order (12/1000) (1000012/100))"
  by (simp add: apply_symbol_precision_def quantize_down_def round_down_def btc_order_def btc_precision_def Let_def)

theorem apply_symbol_precision_sound_witness:
  "aligned (12/1000) (1/1000) \<and> (12/1000 :: rat) \<le> 12345/1000000"
  using apply_symbol_precision_sound[OF btc_order_filtered]
  by (simp add: btc_order_def btc_precision_def)

theorem validated_order_sent_unchanged_witness:
  "apply_symbol_precision (btc_order (12/1000) 10000) btc_precision = Inr (btc_order (12/1000) 10000)"
  by (rule validated_order_sent_unchanged)
    (simp add: validate_symbol_precision_def quantize_down_def round_down_def btc_order_def btc_precision_def Let_def)

theorem apply_symbol_precision_validates_witness:
  "validate_symbol_precision (btc_order (12/1000) (1000012/100)) btc_precision = Inr ()"
  using apply_symbol_precision_validates[OF btc_order_filtered]
  by (simp add: btc_order_def btc_precision_def)

end
