(* ===== verification/Rate_Limit.thy ===== *)
theory Rate_Limit
  imports Prelude
begin

text \<open>
  \<open>exchanges/rate_limit.py\<close>: the token bucket in front of an exchange. The lemmas bound what it lets
  through in every interval of time. The lock makes one \<open>acquire\<close> one step; \<open>time.monotonic\<close> is an
  argument.
\<close>

section \<open>Model\<close>

record RateLimitRule =
  rr_requests :: int
  rr_window_seconds :: int

record TokenBucket =
  tb_capacity :: int
  tb_refill_window_seconds :: int
  tb_tokens :: float
  tb_updated_at :: float

definition AsyncRateLimiter_init :: "float \<Rightarrow> RateLimitRule \<Rightarrow> TokenBucket" where
  "AsyncRateLimiter_init now rule = \<lparr>tb_capacity = rr_requests rule, tb_refill_window_seconds = rr_window_seconds rule,
     tb_tokens = of_int (rr_requests rule), tb_updated_at = now\<rparr>"

definition acquire :: "float \<Rightarrow> int \<Rightarrow> TokenBucket \<Rightarrow> unit res \<times> TokenBucket" where
  "acquire now tokens b =
     (let elapsed = now - tb_updated_at b
      in case py_div (of_int (tb_capacity b)) (of_int (tb_refill_window_seconds b)) of
           Inl e \<Rightarrow> (Inl e, b)
         | Inr rate \<Rightarrow>
             (let refill = elapsed * rate;
                  b1 = b\<lparr>tb_tokens := min (of_int (tb_capacity b)) (tb_tokens b + refill), tb_updated_at := now\<rparr>
              in if tb_tokens b1 < of_int tokens then (Inl (RateLimitExceededError ''exchange local rate limit exceeded''), b1)
                 else (Inr (), b1\<lparr>tb_tokens := tb_tokens b1 - of_int tokens\<rparr>)))"

section \<open>The bound\<close>

text \<open>A request is a moment and a number of tokens; \<open>granted\<close> adds up the tokens of those let through.\<close>

type_synonym request = "float \<times> int"

definition limiter_step :: "request \<Rightarrow> TokenBucket \<Rightarrow> TokenBucket" where
  "limiter_step r b = snd (acquire (fst r) (snd r) b)"

fun granted :: "request list \<Rightarrow> TokenBucket \<Rightarrow> int" where
  "granted [] b = 0"
| "granted (r # rs) b = (if fst (acquire (fst r) (snd r) b) = Inr () then snd r else 0) + granted rs (limiter_step r b)"

definition bucket_rate :: "TokenBucket \<Rightarrow> float" where
  "bucket_rate b = of_int (tb_capacity b) / of_int (tb_refill_window_seconds b)"

definition bucket_ok :: "TokenBucket \<Rightarrow> bool" where
  "bucket_ok b \<longleftrightarrow> 0 \<le> tb_capacity b \<and> 0 < tb_refill_window_seconds b
     \<and> 0 \<le> tb_tokens b \<and> tb_tokens b \<le> of_int (tb_capacity b)"

text \<open>Requests in the order of time, none of them for a negative number of tokens.\<close>

fun ordered_from :: "float \<Rightarrow> request list \<Rightarrow> bool" where
  "ordered_from t [] \<longleftrightarrow> True"
| "ordered_from t (r # rs) \<longleftrightarrow> t \<le> fst r \<and> 0 \<le> snd r \<and> ordered_from (fst r) rs"

lemma acquire_eq:
  assumes "bucket_ok b"
  shows "acquire now n b =
    (let tokens = min (of_int (tb_capacity b)) (tb_tokens b + (now - tb_updated_at b) * bucket_rate b) in
     if tokens < of_int n then (Inl (RateLimitExceededError ''exchange local rate limit exceeded''), b\<lparr>tb_tokens := tokens, tb_updated_at := now\<rparr>)
     else (Inr (), b\<lparr>tb_tokens := tokens - of_int n, tb_updated_at := now\<rparr>))"
  using assms by (simp add: acquire_def bucket_ok_def bucket_rate_def Let_def)

lemma limiter_step_fields:
  "tb_capacity (limiter_step r b) = tb_capacity b"
  "tb_refill_window_seconds (limiter_step r b) = tb_refill_window_seconds b"
  "bucket_ok b \<Longrightarrow> tb_updated_at (limiter_step r b) = fst r"
  by (simp_all add: limiter_step_def acquire_def py_div_def bucket_ok_def Let_def)

lemma bucket_rate_nonneg: "bucket_ok b \<Longrightarrow> 0 \<le> bucket_rate b"
  by (simp add: bucket_ok_def bucket_rate_def)

lemma limiter_step_ok:
  assumes "bucket_ok b" "0 \<le> snd r" "tb_updated_at b \<le> fst r"
  shows "bucket_ok (limiter_step r b)"
proof -
  have "0 \<le> (fst r - tb_updated_at b) * bucket_rate b" using assms bucket_rate_nonneg[of b] by simp
  then show ?thesis
    using assms limiter_step_fields[where r = r and b = b] by (auto simp: bucket_ok_def limiter_step_def acquire_eq Let_def)
qed

lemma step_budget:
  assumes "bucket_ok b" "0 \<le> snd r"
  shows "of_int (if fst (acquire (fst r) (snd r) b) = Inr () then snd r else 0) + tb_tokens (limiter_step r b)
    \<le> min (of_int (tb_capacity b)) (tb_tokens b + (fst r - tb_updated_at b) * bucket_rate b)"
  using assms by (simp add: acquire_eq limiter_step_def Let_def)

text \<open>What is let through from now on is paid from the tokens in the bucket and the refill until the last request.\<close>

lemma granted_budget:
  assumes "bucket_ok b" "ordered_from (tb_updated_at b) rs" "rs \<noteq> []"
  shows "of_int (granted rs b) + tb_tokens (run limiter_step rs b) \<le> tb_tokens b + (fst (last rs) - tb_updated_at b) * bucket_rate b"
  using assms
proof (induction rs arbitrary: b)
  case (Cons r rs)
  let ?b = "limiter_step r b"
  have step: "of_int (if fst (acquire (fst r) (snd r) b) = Inr () then snd r else 0) + tb_tokens ?b
      \<le> tb_tokens b + (fst r - tb_updated_at b) * bucket_rate b"
    using step_budget[of b r] Cons.prems by simp
  show ?case
  proof (cases "rs = []")
    case True
    then show ?thesis using step by simp
  next
    case False
    have ok: "bucket_ok ?b" "tb_updated_at ?b = fst r" "bucket_rate ?b = bucket_rate b"
      using Cons.prems limiter_step_ok[of b r] limiter_step_fields[where r = r and b = b] by (auto simp: bucket_rate_def)
    then have "of_int (granted rs ?b) + tb_tokens (run limiter_step rs ?b) \<le> tb_tokens ?b + (fst (last rs) - fst r) * bucket_rate b"
      using Cons.IH[OF ok(1)] Cons.prems False by simp
    then show ?thesis using step False by (simp add: algebra_simps)
  qed
qed simp

lemma run_ok:
  "bucket_ok b \<Longrightarrow> ordered_from (tb_updated_at b) (rs @ qs) \<Longrightarrow>
   bucket_ok (run limiter_step rs b) \<and> ordered_from (tb_updated_at (run limiter_step rs b)) qs
   \<and> tb_capacity (run limiter_step rs b) = tb_capacity b \<and> bucket_rate (run limiter_step rs b) = bucket_rate b"
proof (induction rs arbitrary: b)
  case (Cons r rs)
  have r: "bucket_rate (limiter_step r b) = bucket_rate b" by (simp add: bucket_rate_def limiter_step_fields)
  have "bucket_ok (limiter_step r b)" using Cons.prems by (auto intro: limiter_step_ok)
  moreover have "ordered_from (tb_updated_at (limiter_step r b)) (rs @ qs)" using Cons.prems by (simp add: limiter_step_fields)
  ultimately show ?case using Cons.IH[of "limiter_step r b"] by (simp add: r limiter_step_fields)
qed simp

text \<open>
  C38. The exchange limit holds on every interval: out of any consecutive requests, in whatever
  history they stand, at most one full bucket plus the refill of the time they span is let through.
\<close>

theorem token_bucket_rate_bound:
  assumes "0 \<le> rr_requests rule" "0 < rr_window_seconds rule" "ordered_from now (before @ r # rs)"
    and "b = run limiter_step before (AsyncRateLimiter_init now rule)"
  shows "of_int (granted (r # rs) b)
    \<le> of_int (rr_requests rule) + (fst (last (r # rs)) - fst r) * (of_int (rr_requests rule) / of_int (rr_window_seconds rule) :: rat)"
proof -
  let ?i = "AsyncRateLimiter_init now rule" and ?c = "limiter_step r b"
  have "bucket_ok ?i" using assms by (simp add: bucket_ok_def AsyncRateLimiter_init_def)
  then have b: "bucket_ok b" "ordered_from (tb_updated_at b) (r # rs)" "tb_capacity b = rr_requests rule"
    "bucket_rate b = of_int (rr_requests rule) / of_int (rr_window_seconds rule)"
    using run_ok[of ?i before "r # rs"] assms(3,4) by (auto simp: AsyncRateLimiter_init_def bucket_rate_def)
  have first: "of_int (if fst (acquire (fst r) (snd r) b) = Inr () then snd r else 0) + tb_tokens ?c \<le> of_int (rr_requests rule)"
    using step_budget[of b r] b by simp
  have c: "bucket_ok ?c" "tb_updated_at ?c = fst r" "bucket_rate ?c = bucket_rate b"
    using b limiter_step_ok[of b r] limiter_step_fields[where r = r and b = b] by (auto simp: bucket_rate_def)
  show ?thesis
  proof (cases "rs = []")
    case True
    then show ?thesis using first c(1) by (simp add: bucket_ok_def)
  next
    case False
    have end_ok: "bucket_ok (run limiter_step rs ?c)" using run_ok[of ?c rs "[]"] c b(2) by simp
    have "of_int (granted rs ?c) + tb_tokens (run limiter_step rs ?c) \<le> tb_tokens ?c + (fst (last rs) - fst r) * bucket_rate b"
      using granted_budget[OF c(1)] c b(2) False by simp
    then show ?thesis using first False end_ok by (simp add: bucket_ok_def b(4))
  qed
qed

theorem token_bucket_rate_bound_witness:
  "(of_int (granted [(1, 3), (2, 4)] (run limiter_step [(0, 5)] (AsyncRateLimiter_init 0 \<lparr>rr_requests = 5, rr_window_seconds = 10\<rparr>))) :: rat) \<le> 5 + 1/2"
  using token_bucket_rate_bound[of "\<lparr>rr_requests = 5, rr_window_seconds = 10\<rparr>" 0 "[(0, 5)]" "(1, 3)" "[(2, 4)]", OF _ _ _ refl]
  by simp

end
