(* ===== verification/Exec_Client.thy ===== *)
theory Exec_Client
  imports Venue_Spec Precision Rate_Limit Effects
begin

text \<open>
  \<open>execution/errors.py\<close> and \<open>execution/client.py\<close>: the private REST client of a venue. A request takes a
  token, is signed, sent and its answer parsed; the state is the token bucket and the log of the
  requests that went out. What is outside is in \<open>http_env\<close>: the venue's answers (any function of the
  requests so far), the clocks, the hash functions, Python's printing of values, and the retry
  decorator of the \<open>tenacity\<close> package, whose documented behaviour is the predicate \<open>tenacity\<close>.
\<close>

section \<open>Data\<close>

fun value_of_venue :: "ExecutionVenue \<Rightarrow> string" where
  "value_of_venue Venue_coinstore = ''coinstore''"
| "value_of_venue Venue_mexc = ''mexc''"
| "value_of_venue Venue_gate = ''gate''"
| "value_of_venue Venue_bitmart = ''bitmart''"
| "value_of_venue Venue_kucoin = ''kucoin''"
| "value_of_venue Venue_binance = ''binance''"

fun value_of_type :: "ExecutionOrderType \<Rightarrow> string" where
  "value_of_type Type_limit = ''limit''"
| "value_of_type Type_market = ''market''"
| "value_of_type Type_post_only = ''post_only''"
| "value_of_type Type_ioc = ''ioc''"
| "value_of_type Type_fok = ''fok''"

fun value_of_tif :: "TimeInForce \<Rightarrow> string" where
  "value_of_tif TIF_gtc = ''GTC''"
| "value_of_tif TIF_ioc = ''IOC''"
| "value_of_tif TIF_fok = ''FOK''"
| "value_of_tif TIF_post_only = ''POST_ONLY''"

record CancelIntent =
  ci_venue :: ExecutionVenue
  ci_symbol :: string
  ci_client_order_id :: "string option"
  ci_exchange_order_id :: "string option"

record ReplaceIntent =
  ri_cancel :: CancelIntent
  ri_replacement :: OrderIntent

text \<open>The time at which an order object was made is not kept.\<close>

record ExecutionOrder =
  eo_venue :: ExecutionVenue
  eo_symbol :: string
  eo_client_order_id :: "string option"
  eo_exchange_order_id :: "string option"
  eo_status :: NormalizedOrderStatus
  eo_side :: "ExecutionSide option"
  eo_order_type :: "ExecutionOrderType option"
  eo_price :: "decimal option"
  eo_quantity :: "decimal option"
  eo_filled_quantity :: decimal
  eo_average_price :: "decimal option"
  eo_fee :: "decimal option"
  eo_raw :: obj

record Balance =
  bl_venue :: ExecutionVenue
  bl_asset :: string
  bl_total :: decimal
  bl_available :: decimal
  bl_reserved :: decimal
  bl_raw :: obj

record Position =
  ps_venue :: ExecutionVenue
  ps_symbol :: string
  ps_asset :: string
  ps_quantity :: decimal
  ps_notional :: decimal
  ps_mark_price :: "decimal option"
  ps_raw :: obj

record 'i BulkExecutionResult =
  be_accepted :: "ExecutionOrder list"
  be_rejected :: "('i \<times> pyerr) list"

record ExecutionErrorContext =
  ex_venue :: ExecutionVenue
  ex_code :: string
  ex_message :: string
  ex_retryable :: bool

section \<open>Error normalisation\<close>

record VenueErrorRule =
  er_code :: string
  er_normalized :: string
  er_retryable :: bool

text \<open>The table is the same for every venue.\<close>

definition ERROR_RULES :: "(string, VenueErrorRule) dict" where
  "ERROR_RULES = map (\<lambda>(code, normalized, retryable). (code, \<lparr>er_code = code, er_normalized = normalized, er_retryable = retryable\<rparr>))
     [(''429'', ''rate_limited'', True), (''418'', ''ip_banned'', False), (''500'', ''venue_internal'', True),
      (''502'', ''bad_gateway'', True), (''503'', ''service_unavailable'', True), (''504'', ''gateway_timeout'', True),
      (''INSUFFICIENT_BALANCE'', ''insufficient_balance'', False), (''MIN_NOTIONAL'', ''min_notional'', False),
      (''PRECISION'', ''precision'', False)]"

fun payload_code :: "printer \<Rightarrow> json \<Rightarrow> string option" where
  "payload_code printer (JDict d) =
     (let v = get_or d [''code'', ''err-code'', ''errorCode''] (jget d ''label'') in if v = JNull then None else Some (py_str printer v))"
| "payload_code printer _ = None"

fun payload_message :: "printer \<Rightarrow> json \<Rightarrow> string" where
  "payload_message printer (JDict d) = py_str printer (get_or d [''msg'', ''message'', ''errorMessage'', ''detail''] (JDict d))"
| "payload_message printer v = py_str printer v"

definition normalize_exchange_error :: "printer \<Rightarrow> ExecutionVenue \<Rightarrow> int option \<Rightarrow> json \<Rightarrow> ExecutionErrorContext" where
  "normalize_exchange_error printer venue status_code payload =
     (let code = (case status_code of
                    Some n \<Rightarrow> if n \<noteq> 0 then str_int n else text_or (payload_code printer payload) ''UNKNOWN''
                  | None \<Rightarrow> text_or (payload_code printer payload) ''UNKNOWN'');
          message = payload_message printer payload;
          rule = (case dict_get ERROR_RULES code of Some r \<Rightarrow> Some r | None \<Rightarrow> dict_get ERROR_RULES (upper message))
      in (case rule of
            None \<Rightarrow> \<lparr>ex_venue = venue, ex_code = code, ex_message = message,
                      ex_retryable = (case status_code of Some n \<Rightarrow> n \<ge> 500 | None \<Rightarrow> False)\<rparr>
          | Some r \<Rightarrow> \<lparr>ex_venue = venue, ex_code = er_normalized r, ex_message = message, ex_retryable = er_retryable r\<rparr>))"

definition raise_normalized_error :: "ExecutionErrorContext \<Rightarrow> pyerr" where
  "raise_normalized_error context =
     (if ex_code context = ''rate_limited'' then RateLimitExceededError (value_of_venue (ex_venue context) @ '': '' @ ex_message context)
      else if \<not> ex_retryable context
      then NonRetryableExchangeExecutionError (value_of_venue (ex_venue context) @ '':'' @ ex_code context @ '': '' @ ex_message context)
      else ExchangeError (value_of_venue (ex_venue context) @ '':'' @ ex_code context @ '': '' @ ex_message context))"

section \<open>Requests\<close>

datatype http_body = Body_empty | Body_json json | Body_text string

record http_response =
  hp_status_code :: int
  hp_body :: http_body

record http_request =
  hq_method :: string
  hq_path :: string
  hq_params :: "obj option"
  hq_json :: "obj option"
  hq_headers :: "(string, string) dict"

record client =
  cl_venue :: ExecutionVenue
  cl_credentials :: ExecutionCredentials
  cl_bucket :: TokenBucket
  cl_attempts :: nat
  cl_sent :: "http_request list"

type_synonym 'a client_op = "(client, 'a) op"

record http_env =
  he_answer :: "http_request list \<Rightarrow> http_request \<Rightarrow> http_response res"
  he_monotonic :: "nat \<Rightarrow> float"
  he_time_ms :: "nat \<Rightarrow> int"
  he_crypto :: crypto
  he_printer :: printer
  he_retrying :: "(pyerr \<Rightarrow> bool) \<Rightarrow> nat \<Rightarrow> json client_op \<Rightarrow> json client_op"

text \<open>What \<open>retry(retry=..., stop=stop_after_attempt(n), reraise=True)\<close> is documented to do.\<close>

definition tenacity :: "((pyerr \<Rightarrow> bool) \<Rightarrow> nat \<Rightarrow> ('s, 'a) op \<Rightarrow> ('s, 'a) op) \<Rightarrow> bool" where
  "tenacity retrying \<longleftrightarrow> (\<forall>p n m s. retrying p (Suc n) m s =
     (case m s of
        (Inr x, t) \<Rightarrow> (Inr x, t)
      | (Inl e, t) \<Rightarrow> if p e \<and> n \<noteq> 0 then retrying p n m t else (Inl e, t)))"

fun retry_op :: "(pyerr \<Rightarrow> bool) \<Rightarrow> nat \<Rightarrow> ('s, 'a) op \<Rightarrow> ('s, 'a) op" where
  "retry_op p 0 m s = m s"
| "retry_op p (Suc n) m s =
     (case m s of
        (Inr x, t) \<Rightarrow> (Inr x, t)
      | (Inl e, t) \<Rightarrow> if p e \<and> n \<noteq> 0 then retry_op p n m t else (Inl e, t))"

lemma tenacity_retry_op: "tenacity retry_op"
  by (simp add: tenacity_def)

text \<open>
  \<open>retry_if_exception_type((ExchangeError, RateLimitExceededError, httpx.TransportError))\<close>; the class
  \<open>NonRetryableExchangeExecutionError\<close> is a subclass of \<open>ExchangeError\<close>.
\<close>

fun is_retried :: "pyerr \<Rightarrow> bool" where
  "is_retried (ExchangeError _) = True"
| "is_retried (NonRetryableExchangeExecutionError _) = True"
| "is_retried (RateLimitExceededError _) = True"
| "is_retried (TransportError _) = True"
| "is_retried _ = False"

definition acquire_token :: "http_env \<Rightarrow> unit client_op" where
  "acquire_token env s =
     (case acquire (he_monotonic env (cl_attempts s)) 1 (cl_bucket s) of
        (r, b) \<Rightarrow> (r, s\<lparr>cl_bucket := b, cl_attempts := cl_attempts s + 1\<rparr>))"

definition build_request :: "http_env \<Rightarrow> string \<Rightarrow> string \<Rightarrow> obj \<Rightarrow> obj option \<Rightarrow> bool \<Rightarrow> client \<Rightarrow> http_request" where
  "build_request env method path params body signed s =
     (let request_params = present params;
          sr = (if signed
                then sign_request (he_crypto env) (he_printer env) (he_time_ms env (cl_attempts s))
                       (vs_signing_style (EXECUTION_SPECS (cl_venue s))) method path request_params body (cl_credentials s)
                else \<lparr>sq_path = path, sq_params = request_params, sq_body = body, sq_headers = []\<rparr>)
      in \<lparr>hq_method = method, hq_path = sq_path sr,
          hq_params = (if upper method \<in> {''GET'', ''DELETE''} \<or> sq_body sr \<in> {None, Some []} then Some (sq_params sr) else None),
          hq_json = sq_body sr, hq_headers = sq_headers sr\<rparr>)"

fun body_payload :: "http_body \<Rightarrow> json" where
  "body_payload Body_empty = JDict []"
| "body_payload (Body_json v) = v"
| "body_payload (Body_text t) = JStr t"

text \<open>The decorated function, one attempt of it.\<close>

definition request_attempt :: "http_env \<Rightarrow> string \<Rightarrow> string \<Rightarrow> obj \<Rightarrow> obj option \<Rightarrow> bool \<Rightarrow> json client_op" where
  "request_attempt env method path params body signed =
     seqm (acquire_token env) (
     bindm (reads (build_request env method path params body signed)) (\<lambda>request.
     bindm (reads (\<lambda>s. he_answer env (cl_sent s) request)) (\<lambda>answer.
     seqm (modifies (\<lambda>s. s\<lparr>cl_sent := cl_sent s @ [request]\<rparr>)) (
     bindm (lift_res answer) (\<lambda>response.
     let payload = body_payload (hp_body response)
     in if hp_status_code response \<ge> 400
        then bindm (reads cl_venue) (\<lambda>venue.
             raise_err (raise_normalized_error (normalize_exchange_error (he_printer env) venue (Some (hp_status_code response)) payload)))
        else ret payload)))))"

definition signed_request :: "http_env \<Rightarrow> string \<Rightarrow> string \<Rightarrow> obj \<Rightarrow> obj option \<Rightarrow> bool \<Rightarrow> json client_op" where
  "signed_request env method path params body signed =
     he_retrying env is_retried 3 (request_attempt env method path params body signed)"

section \<open>Payloads\<close>

definition decimal_to_exchange :: "decimal option \<Rightarrow> json" where
  "decimal_to_exchange v = (case v of None \<Rightarrow> JNull | Some x \<Rightarrow> JStr (decimal_text x))"

definition venue_symbol :: "ExecutionVenue \<Rightarrow> string option \<Rightarrow> string" where
  "venue_symbol venue symbol =
     (case symbol of
        None \<Rightarrow> []
      | Some s \<Rightarrow> upper (concat (map (\<lambda>c. if c = CHR ''/'' then vs_symbol_separator (EXECUTION_SPECS venue) else [c]) s)))"

definition venue_order_type :: "OrderIntent \<Rightarrow> string" where
  "venue_order_type intent = (if oi_order_type intent = Type_post_only then ''LIMIT_MAKER'' else upper (value_of_type (oi_order_type intent)))"

definition order_payload :: "ExecutionVenue \<Rightarrow> OrderIntent \<Rightarrow> obj" where
  "order_payload venue intent =
     (let symbol = JStr (venue_symbol venue (Some (oi_symbol intent)));
          side = value_of_side (oi_side intent); order_type = JStr (value_of_type (oi_order_type intent));
          quantity = decimal_to_exchange (Some (oi_quantity intent)); price = decimal_to_exchange (oi_price intent);
          cid = JStr (oi_client_order_id intent)
      in case venue of
           Venue_gate \<Rightarrow> [(''currency_pair'', symbol), (''side'', JStr side), (''type'', order_type), (''amount'', quantity),
             (''price'', price), (''text'', cid), (''time_in_force'', JStr (lower (value_of_tif (oi_time_in_force intent))))]
         | Venue_kucoin \<Rightarrow> [(''clientOid'', cid), (''symbol'', symbol), (''side'', JStr side), (''type'', order_type),
             (''size'', quantity), (''price'', price), (''timeInForce'', JStr (value_of_tif (oi_time_in_force intent)))]
         | Venue_bitmart \<Rightarrow> [(''client_order_id'', cid), (''symbol'', symbol), (''side'', JStr side), (''type'', order_type),
             (''size'', quantity), (''price'', price)]
         | Venue_coinstore \<Rightarrow> [(''clientOrderId'', cid), (''symbol'', symbol), (''side'', JStr (upper side)), (''ordType'', order_type),
             (''ordQty'', quantity), (''ordPrice'', price)]
         | _ \<Rightarrow> [(''symbol'', symbol), (''side'', JStr (upper side)), (''type'', JStr (venue_order_type intent)),
             (''quantity'', quantity), (''newClientOrderId'', cid)]
             @ (if oi_price intent \<noteq> None then [(''price'', price)] else [])
             @ (if oi_time_in_force intent \<noteq> TIF_post_only \<and> oi_order_type intent = Type_limit
                then [(''timeInForce'', JStr (value_of_tif (oi_time_in_force intent)))] else []))"

fun opt_text :: "string option \<Rightarrow> json" where
  "opt_text None = JNull"
| "opt_text (Some s) = JStr s"

definition replace_payload :: "ExecutionVenue \<Rightarrow> ReplaceIntent \<Rightarrow> OrderIntent \<Rightarrow> obj" where
  "replace_payload venue intent replacement =
     (let payload = order_payload venue replacement
      in if venue = Venue_binance
         then payload @ [(''cancelReplaceMode'', JStr ''STOP_ON_FAILURE''), (''cancelOrigClientOrderId'', opt_text (ci_client_order_id (ri_cancel intent))),
                (''cancelOrderId'', opt_text (ci_exchange_order_id (ri_cancel intent)))]
         else payload)"

definition cancel_payload :: "ExecutionVenue \<Rightarrow> CancelIntent \<Rightarrow> obj" where
  "cancel_payload venue intent =
     (let symbol = JStr (venue_symbol venue (Some (ci_symbol intent)));
          cid = opt_text (ci_client_order_id intent); oid = opt_text (ci_exchange_order_id intent)
      in case venue of
           Venue_gate \<Rightarrow> [(''currency_pair'', symbol)]
         | Venue_kucoin \<Rightarrow> [(''symbol'', symbol), (''clientOid'', cid)]
         | Venue_bitmart \<Rightarrow> [(''symbol'', symbol), (''order_id'', oid), (''client_order_id'', cid)]
         | Venue_coinstore \<Rightarrow> [(''symbol'', symbol), (''ordId'', oid), (''clientOrderId'', cid)]
         | _ \<Rightarrow> [(''symbol'', symbol), (''orderId'', oid), (''origClientOrderId'', cid)])"

function replace_all :: "string \<Rightarrow> string \<Rightarrow> string \<Rightarrow> string" where
  "replace_all old new [] = []"
| "replace_all old new (c # s) =
     (if old \<noteq> [] \<and> take (length old) (c # s) = old then new @ replace_all old new (drop (length old) (c # s))
      else c # replace_all old new s)"
  by pat_completeness auto
termination by (relation "measure (\<lambda>(old, new, s). length s)") (auto simp: neq_Nil_conv)

definition format_path :: "string \<Rightarrow> string option \<Rightarrow> string" where
  "format_path path order_id = replace_all ''{order_id}'' (text_or order_id []) path"

definition body_signed :: "ExecutionVenue \<Rightarrow> bool" where
  "body_signed venue \<longleftrightarrow> venue \<in> {Venue_gate, Venue_kucoin, Venue_bitmart, Venue_coinstore}"

section \<open>Parsing answers\<close>

fun unwrap :: "json \<Rightarrow> json" where
  "unwrap (JDict d) = (if is_dict (jget d ''data'') then jget d ''data'' else JDict d)"
| "unwrap (JList xs) = JList xs"
| "unwrap v = JDict [(''value'', v)]"

fun list_items :: "json \<Rightarrow> json list" where
  "list_items (JList xs) = xs"
| "list_items _ = []"

definition extract_list :: "json \<Rightarrow> json list" where
  "extract_list data =
     (case unwrap data of
        JList xs \<Rightarrow> xs
      | JDict d \<Rightarrow> (case find (\<lambda>key. is_list (jget d key)) [''orders'', ''data'', ''result''] of
                      Some key \<Rightarrow> list_items (jget d key)
                    | None \<Rightarrow> [JDict d])
      | v \<Rightarrow> [v])"

definition opt_decimal :: "printer \<Rightarrow> json \<Rightarrow> (decimal \<times> int) option res" where
  "opt_decimal printer v = (if v = JNull \<or> v = JStr [] then Inr None else bindr (parse_decimal (py_str printer v)) (\<lambda>r. Inr (Some r)))"

text \<open>\<open>self._decimal(v) or default\<close>: absent and zero values give the default.\<close>

fun value_or :: "(decimal \<times> int) option \<Rightarrow> decimal \<times> int \<Rightarrow> decimal \<times> int" where
  "value_or None other = other"
| "value_or (Some r) other = (if fst r = 0 then other else r)"

definition parse_side :: "printer \<Rightarrow> json \<Rightarrow> ExecutionSide option" where
  "parse_side printer v =
     (let normalized = lower (py_str printer v)
      in if normalized \<in> {''1'', ''buy'', ''bid'', ''b''} then Some Side_buy
         else if normalized \<in> {''-1'', ''sell'', ''ask'', ''s''} then Some Side_sell
         else None)"

definition parse_order_type :: "printer \<Rightarrow> json \<Rightarrow> ExecutionOrderType option" where
  "parse_order_type printer v =
     (let normalized = lower (py_str printer v)
      in if normalized \<in> {''1'', ''limit''} then Some Type_limit
         else if normalized \<in> {''3'', ''market''} then Some Type_market
         else if normalized \<in> {''post_only'', ''post-only''} then Some Type_post_only
         else find (\<lambda>t. value_of_type t = normalized) [Type_limit, Type_market, Type_post_only, Type_ioc, Type_fok])"

definition numeric_status :: "int \<Rightarrow> NormalizedOrderStatus" where
  "numeric_status n = dict_get_or [(0, Status_new), (1, Status_open), (2, Status_open), (3, Status_partially_filled), (4, Status_filled),
     (5, Status_cancelled), (6, Status_cancelled), (7, Status_open), (8, Status_rejected), (11, Status_rejected), (12, Status_rejected)]
     n Status_unknown"

definition parse_status :: "printer \<Rightarrow> json \<Rightarrow> NormalizedOrderStatus" where
  "parse_status printer v =
     (case py_int v of
        Inr n \<Rightarrow> numeric_status n
      | Inl _ \<Rightarrow> normalize_status (if v = JNull then None else Some (py_str printer v)))"

text \<open>\<open>str(...) or None\<close>.\<close>

definition text_or_none :: "string \<Rightarrow> string option" where
  "text_or_none s = (if s = [] then None else Some s)"

fun of_intent :: "(OrderIntent \<Rightarrow> 'a) \<Rightarrow> 'a \<Rightarrow> OrderIntent option \<Rightarrow> 'a" where
  "of_intent f other (Some i) = f i"
| "of_intent f other None = other"

text \<open>\<open>self._decimal(d.get(k1) or ... or d.get(kn) or last)\<close> with a last value that is a decimal or absent.\<close>

definition dec_chain :: "printer \<Rightarrow> obj \<Rightarrow> string list \<Rightarrow> decimal option \<Rightarrow> decimal option res" where
  "dec_chain printer d ks last_value =
     (let v = get_or d ks JNull
      in if json_truthy v then bindr (opt_decimal printer v) (\<lambda>r. Inr (map_option fst r)) else Inr last_value)"

definition parse_order :: "printer \<Rightarrow> ExecutionVenue \<Rightarrow> json \<Rightarrow> OrderIntent option \<Rightarrow> ExecutionOrder res" where
  "parse_order printer venue data intent =
     bindr (as_dict (unwrap data)) (\<lambda>raw.
     bindr (dec_chain printer raw [''price'', ''orderPrice''] (of_intent oi_price None intent)) (\<lambda>price.
     bindr (dec_chain printer raw [''origQty'', ''size'', ''amount'', ''ordQty'', ''orderQty'', ''quantity'']
       (of_intent (\<lambda>i. Some (oi_quantity i)) None intent)) (\<lambda>quantity.
     bindr (dec_chain printer raw [''executedQty'', ''filled_size'', ''filled_amount'', ''cumExecQty'', ''matchQty''] (Some 0)) (\<lambda>filled.
     bindr (opt_decimal printer (get_or raw [''avgPrice'', ''deal_avg_price''] (jget raw ''average_price''))) (\<lambda>average.
     bindr (opt_decimal printer (jget raw ''fee'')) (\<lambda>fee.
     Inr \<lparr>eo_venue = venue,
          eo_symbol = py_str printer (get_or raw [''symbol'', ''currency_pair'', ''currencyPair''] (JStr (of_intent oi_symbol [] intent))),
          eo_client_order_id = text_or_none (py_str printer (get_or raw [''clientOrderId'', ''client_order_id'', ''clientOid'', ''clOrdId'', ''text'']
             (JStr (of_intent oi_client_order_id [] intent)))),
          eo_exchange_order_id = text_or_none (py_str printer (get_or raw [''orderId'', ''order_id'', ''id'', ''ordId''] (JStr []))),
          eo_status = parse_status printer (get_or raw [''status'', ''state''] (jget raw ''orderStatus'')),
          eo_side = parse_side printer (get_or raw [''side''] (of_intent (\<lambda>i. JStr (value_of_side (oi_side i))) JNull intent)),
          eo_order_type = parse_order_type printer (get_or raw [''type'', ''ordType'', ''orderType'']
             (of_intent (\<lambda>i. JStr (value_of_type (oi_order_type i))) JNull intent)),
          eo_price = price, eo_quantity = quantity,
          eo_filled_quantity = (case filled of None \<Rightarrow> 0 | Some x \<Rightarrow> x), eo_average_price = map_option fst average,
          eo_fee = map_option fst fee, eo_raw = raw\<rparr>))))))"

text \<open>
  The expression \<open>a or ... or payload if isinstance(payload, list) else []\<close>: the conditional expression
  binds weaker than \<open>or\<close>, so the whole chain is evaluated on a list only.
\<close>

definition payload_rows :: "string list \<Rightarrow> json \<Rightarrow> json list res" where
  "payload_rows keys payload =
     (if is_list payload then bindr (as_dict payload) (\<lambda>d. Inr (list_items (get_or d keys payload))) else Inr [])"

fun collect_res :: "('a \<Rightarrow> 'b res) \<Rightarrow> 'a list \<Rightarrow> 'b list res" where
  "collect_res f [] = Inr []"
| "collect_res f (x # xs) = bindr (f x) (\<lambda>y. bindr (collect_res f xs) (\<lambda>ys. Inr (y # ys)))"

definition parse_balance :: "printer \<Rightarrow> ExecutionVenue \<Rightarrow> json \<Rightarrow> Balance option res" where
  "parse_balance printer venue item =
     bindr (as_dict item) (\<lambda>row.
     let asset = get_or row [''asset'', ''currency'', ''coinName''] (jget row ''coin'')
     in if \<not> json_truthy asset then Inr None
        else bindr (opt_decimal printer (get_or row [''free'', ''available'', ''available_balance'', ''availableBalance''] (JInt 0))) (\<lambda>free.
             bindr (opt_decimal printer (get_or row [''locked'', ''hold'', ''frozen'', ''reserved''] (JInt 0))) (\<lambda>locked.
             bindr (opt_decimal printer (get_or row [''total'', ''balance''] (jget row ''totalBalance''))) (\<lambda>total.
             let available = fst (value_or free (0, 0)); reserved = fst (value_or locked (0, 0))
             in Inr (Some \<lparr>bl_venue = venue, bl_asset = py_str printer asset, bl_total = fst (value_or total (available + reserved, 0)),
                           bl_available = available, bl_reserved = reserved, bl_raw = row\<rparr>)))))"

definition parse_balances :: "printer \<Rightarrow> ExecutionVenue \<Rightarrow> json \<Rightarrow> Balance list res" where
  "parse_balances printer venue data =
     bindr (payload_rows [''balances'', ''data'', ''accounts''] (unwrap data)) (\<lambda>rows.
     bindr (collect_res (parse_balance printer venue) rows) (\<lambda>bs. Inr (List.map_filter id bs)))"

definition parse_precision_row :: "printer \<Rightarrow> json \<Rightarrow> (string \<times> SymbolPrecision) option res" where
  "parse_precision_row printer item =
     bindr (as_dict item) (\<lambda>row.
     let symbol = py_str printer (get_or row [''symbol'', ''id'', ''currency_pair'', ''symbolName''] (JStr []));
         tiny = (1 / 10 ^ 8, - 8)
     in if symbol = [] then Inr None
        else bindr (opt_decimal printer (get_or row [''tickSize'', ''priceIncrement'', ''price_tick'', ''price_min_precision''] (JStr ''0.00000001''))) (\<lambda>tick.
             bindr (opt_decimal printer (get_or row [''stepSize'', ''baseIncrement'', ''amount_precision'', ''quantity_min_precision''] (JStr ''0.00000001''))) (\<lambda>step.
             bindr (opt_decimal printer (get_or row [''minQty'', ''baseMinSize'', ''min_base_amount'', ''min_amount''] (JStr ''0''))) (\<lambda>min_qty.
             bindr (opt_decimal printer (get_or row [''minNotional'', ''quoteMinSize'', ''min_quote_amount'', ''min_buy_amount''] (JStr ''0''))) (\<lambda>min_notional.
             let normalized = map (\<lambda>c. if c = CHR ''_'' \<or> c = CHR ''-'' then CHR ''/'' else c) symbol
             in Inr (Some (normalized, \<lparr>sp_symbol = normalized, sp_venue_symbol = symbol,
                  sp_price_tick = fst (value_or tick tiny), sp_quantity_step = fst (value_or step tiny),
                  sp_min_quantity = fst (value_or min_qty (0, 0)), sp_min_notional = fst (value_or min_notional (0, 0)),
                  sp_price_precision = \<bar>snd (value_or tick tiny)\<bar>, sp_quantity_precision = \<bar>snd (value_or step tiny)\<bar>\<rparr>)))))))"

definition parse_symbol_precision :: "printer \<Rightarrow> json \<Rightarrow> (string, SymbolPrecision) dict res" where
  "parse_symbol_precision printer data =
     bindr (payload_rows [''symbols'', ''data'', ''currency_pairs''] (unwrap data)) (\<lambda>rows.
     bindr (collect_res (parse_precision_row printer) rows) (\<lambda>ps. Inr (fold (\<lambda>(k, v). dict_set k v) (List.map_filter id ps) [])))"

section \<open>Operations\<close>

definition client_place_order :: "http_env \<Rightarrow> OrderIntent \<Rightarrow> SymbolPrecision \<Rightarrow> ExecutionOrder client_op" where
  "client_place_order env intent precision =
     bindm (lift_res (apply_symbol_precision intent precision)) (\<lambda>precise.
     bindm (reads cl_venue) (\<lambda>venue.
     let payload = order_payload venue precise in
     bindm (signed_request env ''POST'' (vs_place_order_path (EXECUTION_SPECS venue)) (if body_signed venue then [] else payload)
       (if body_signed venue then Some payload else None) True) (\<lambda>data.
     lift_res (parse_order (he_printer env) venue data (Some precise)))))"

definition client_cancel_order :: "http_env \<Rightarrow> CancelIntent \<Rightarrow> ExecutionOrder client_op" where
  "client_cancel_order env intent =
     bindm (reads cl_venue) (\<lambda>venue.
     let path = format_path (vs_cancel_order_path (EXECUTION_SPECS venue)) (ci_exchange_order_id intent);
         params = cancel_payload venue intent
     in bindm (signed_request env ''DELETE'' path params (if body_signed venue then Some params else None) True) (\<lambda>data.
        lift_res (parse_order (he_printer env) venue data None)))"

definition client_replace_order :: "http_env \<Rightarrow> ReplaceIntent \<Rightarrow> SymbolPrecision \<Rightarrow> ExecutionOrder client_op" where
  "client_replace_order env intent precision =
     bindm (reads cl_venue) (\<lambda>venue.
     case vs_order_replace_path (EXECUTION_SPECS venue) of
       Some path \<Rightarrow>
         bindm (lift_res (apply_symbol_precision (ri_replacement intent) precision)) (\<lambda>replacement.
         let payload = replace_payload venue intent replacement in
         bindm (signed_request env ''POST'' path (if \<not> body_signed venue then payload else []) (if body_signed venue then Some payload else None) True) (\<lambda>data.
         lift_res (parse_order (he_printer env) venue data (Some replacement))))
     | None \<Rightarrow>
         seqm (client_cancel_order env (ri_cancel intent)) (client_place_order env (ri_replacement intent) precision))"

text \<open>\<open>try: accepted.append(...) except Exception: rejected.append(...)\<close> over the intents.\<close>

fun bulk :: "('i \<Rightarrow> ExecutionOrder client_op) \<Rightarrow> 'i list \<Rightarrow> 'i BulkExecutionResult client_op" where
  "bulk f [] = ret \<lparr>be_accepted = [], be_rejected = []\<rparr>"
| "bulk f (i # is) =
     bindm (catch (bindm (f i) (\<lambda>order. ret (Inr order))) (\<lambda>exc. ret (Inl exc))) (\<lambda>r.
     bindm (bulk f is) (\<lambda>rest. ret (case r of
         Inr order \<Rightarrow> rest\<lparr>be_accepted := order # be_accepted rest\<rparr>
       | Inl exc \<Rightarrow> rest\<lparr>be_rejected := (i, exc) # be_rejected rest\<rparr>)))"

definition bulk_place_orders :: "http_env \<Rightarrow> OrderIntent list \<Rightarrow> (string, SymbolPrecision) dict \<Rightarrow> OrderIntent BulkExecutionResult client_op" where
  "bulk_place_orders env intents precision_by_symbol =
     bulk (\<lambda>intent. case dict_get precision_by_symbol (oi_symbol intent) of
         None \<Rightarrow> raise_err (KeyError (oi_symbol intent))
       | Some precision \<Rightarrow> client_place_order env intent precision) intents"

definition bulk_cancel_orders :: "http_env \<Rightarrow> CancelIntent list \<Rightarrow> CancelIntent BulkExecutionResult client_op" where
  "bulk_cancel_orders env intents =
     bindm (reads cl_venue) (\<lambda>venue.
     case vs_bulk_cancel_path (EXECUTION_SPECS venue) of
       Some path \<Rightarrow>
         bindm (signed_request env ''POST'' path [] (Some [(''orders'', JList (map (\<lambda>i. JDict (cancel_payload venue i)) intents))]) True) (\<lambda>data.
         bindm (lift_res (collect_res (\<lambda>item. parse_order (he_printer env) venue item None) (extract_list data))) (\<lambda>orders.
         ret \<lparr>be_accepted = orders, be_rejected = []\<rparr>))
     | None \<Rightarrow> bulk (client_cancel_order env) intents)"

definition symbol_params :: "ExecutionVenue \<Rightarrow> string option \<Rightarrow> obj" where
  "symbol_params venue symbol =
     (case symbol of Some (c # cs) \<Rightarrow> [(''symbol'', JStr (venue_symbol venue (Some (c # cs))))] | _ \<Rightarrow> [])"

definition client_cancel_all_orders :: "http_env \<Rightarrow> string option \<Rightarrow> ExecutionOrder list client_op" where
  "client_cancel_all_orders env symbol =
     bindm (reads cl_venue) (\<lambda>venue.
     let params = symbol_params venue symbol in
     bindm (signed_request env ''DELETE'' (vs_cancel_all_path (EXECUTION_SPECS venue)) params (if body_signed venue then Some params else None) True) (\<lambda>data.
     lift_res (collect_res (\<lambda>item. parse_order (he_printer env) venue item None) (extract_list data))))"

definition client_get_order_status :: "http_env \<Rightarrow> CancelIntent \<Rightarrow> ExecutionOrder client_op" where
  "client_get_order_status env intent =
     bindm (reads cl_venue) (\<lambda>venue.
     let path = format_path (vs_order_status_path (EXECUTION_SPECS venue)) (ci_exchange_order_id intent) in
     bindm (signed_request env ''GET'' path (cancel_payload venue intent) None True) (\<lambda>data.
     lift_res (parse_order (he_printer env) venue data None)))"

definition sync_open_orders :: "http_env \<Rightarrow> string option \<Rightarrow> ExecutionOrder list client_op" where
  "sync_open_orders env symbol =
     bindm (reads cl_venue) (\<lambda>venue.
     case vs_open_orders_path (EXECUTION_SPECS venue) of
       None \<Rightarrow> raise_err (ExchangeError (value_of_venue venue @ '' does not define open-orders endpoint''))
     | Some path \<Rightarrow>
         bindm (signed_request env ''GET'' path (symbol_params venue symbol) None True) (\<lambda>data.
         lift_res (collect_res (\<lambda>item. parse_order (he_printer env) venue item None) (extract_list data))))"

definition dict_items :: "json list \<Rightarrow> obj list" where
  "dict_items xs = List.map_filter (\<lambda>v. case v of JDict d \<Rightarrow> Some d | _ \<Rightarrow> None) xs"

definition sync_trade_fills :: "http_env \<Rightarrow> string option \<Rightarrow> obj list client_op" where
  "sync_trade_fills env symbol =
     bindm (reads cl_venue) (\<lambda>venue.
     case vs_account_trades_path (EXECUTION_SPECS venue) of
       None \<Rightarrow> raise_err (ExchangeError (value_of_venue venue @ '' does not define account-trades endpoint''))
     | Some path \<Rightarrow>
         bindm (signed_request env ''GET'' path (symbol_params venue symbol) None True) (\<lambda>data. ret (dict_items (extract_list data))))"

definition sync_balances :: "http_env \<Rightarrow> Balance list client_op" where
  "sync_balances env =
     bindm (reads cl_venue) (\<lambda>venue.
     bindm (signed_request env ''GET'' (vs_account_balances_path (EXECUTION_SPECS venue)) [] None True) (\<lambda>data.
     lift_res (parse_balances (he_printer env) venue data)))"

definition sync_positions :: "http_env \<Rightarrow> (string, decimal) dict \<Rightarrow> Position list client_op" where
  "sync_positions env mark_prices =
     bindm (reads cl_venue) (\<lambda>venue.
     bindm (sync_balances env) (\<lambda>balances.
     ret (map (\<lambda>balance. let price = dict_get_or mark_prices (bl_asset balance) 0
        in \<lparr>ps_venue = venue, ps_symbol = bl_asset balance @ ''/ACCOUNT'', ps_asset = bl_asset balance, ps_quantity = bl_total balance,
            ps_notional = bl_total balance * price, ps_mark_price = (if price \<noteq> 0 then Some price else None), ps_raw = bl_raw balance\<rparr>) balances)))"

definition discover_symbol_precision :: "http_env \<Rightarrow> (string, SymbolPrecision) dict client_op" where
  "discover_symbol_precision env =
     bindm (reads cl_venue) (\<lambda>venue.
     bindm (signed_request env ''GET'' (vs_exchange_info_path (EXECUTION_SPECS venue)) [] None False) (\<lambda>data.
     lift_res (parse_symbol_precision (he_printer env) data)))"

end
