(* ===== verification/Connectors.thy ===== *)
theory Connectors
  imports Exec_Client
begin

text \<open>
  \<open>websocket/connectors.py\<close>: the public market streams. Sequence numbers, the reconstruction of order
  books from snapshots and deltas, the venues' subscription messages, and the connector's loop over
  the messages of a connection with its reconnection delays. What arrives on the socket is a list of
  decoded messages (undecodable ones are errors), the handler and the snapshot recovery are
  arguments; sending on the socket does not fail.
\<close>

section \<open>Subscriptions\<close>

datatype StreamKind =
    Kind_orderbook | Kind_trades | Kind_ticker | Kind_kline | Kind_user_data | Kind_balance_updates | Kind_order_updates | Kind_execution_reports

fun value_of_kind :: "StreamKind \<Rightarrow> string" where
  "value_of_kind Kind_orderbook = ''orderbook''"
| "value_of_kind Kind_trades = ''trades''"
| "value_of_kind Kind_ticker = ''ticker''"
| "value_of_kind Kind_kline = ''kline''"
| "value_of_kind Kind_user_data = ''user_data''"
| "value_of_kind Kind_balance_updates = ''balance_updates''"
| "value_of_kind Kind_order_updates = ''order_updates''"
| "value_of_kind Kind_execution_reports = ''execution_reports''"

record StreamSubscription =
  su_venue :: ExecutionVenue
  su_symbol :: "string option"
  su_kind :: StreamKind
  su_interval :: "string option"
  su_auth_stream_token :: "string option"

section \<open>Sequence numbers\<close>

record SequenceState =
  last_sequence :: "int option"
  gaps_detected :: nat

definition SequenceState_init :: "int option \<Rightarrow> SequenceState" where
  "SequenceState_init sequence = \<lparr>last_sequence = sequence, gaps_detected = 0\<rparr>"

definition validate_sequence :: "int option \<Rightarrow> int option \<Rightarrow> SequenceState \<Rightarrow> bool \<times> SequenceState" where
  "validate_sequence sequence previous_sequence st =
     (case sequence of
        None \<Rightarrow> (True, st)
      | Some n \<Rightarrow>
          (case last_sequence st of
             None \<Rightarrow> (True, st\<lparr>last_sequence := Some n\<rparr>)
           | Some l \<Rightarrow>
               (let expected_previous = (case previous_sequence of None \<Rightarrow> l | Some p \<Rightarrow> p)
                in if expected_previous \<noteq> l \<or> n \<le> l then (False, st\<lparr>gaps_detected := gaps_detected st + 1\<rparr>)
                   else (True, st\<lparr>last_sequence := Some n\<rparr>))))"

section \<open>Order books\<close>

type_synonym level_dict = "(decimal, decimal) dict"

record ReconstructedOrderBook =
  rb_bids :: level_dict
  rb_asks :: level_dict
  rb_sequence :: "int option"

definition book_levels :: "level_dict \<Rightarrow> OrderBookLevel list" where
  "book_levels d = map (\<lambda>(price, size). \<lparr>level_price = price, level_size = size\<rparr>) (filter (\<lambda>(price, size). size > 0) d)"

definition book_snapshot :: "datetime \<Rightarrow> string \<Rightarrow> string \<Rightarrow> ReconstructedOrderBook \<Rightarrow> OrderBookSnapshot" where
  "book_snapshot now venue symbol book =
     \<lparr>ob_exchange = venue, ob_symbol = symbol, ob_bids = book_levels (sort_key (\<lambda>(price, size). - price) (rb_bids book)),
      ob_asks = book_levels (sort_key fst (rb_asks book)), ob_source_timestamp = now, ob_sequence = map_option str_int (rb_sequence book)\<rparr>"

text \<open>\<open>price, size, *_ = item\<close>; texts and dicts are iterated over their characters and keys.\<close>

fun unpack_pair :: "json \<Rightarrow> (json \<times> json) res" where
  "unpack_pair (JList (p # s # rest)) = Inr (p, s)"
| "unpack_pair (JStr (p # s # rest)) = Inr (JStr [p], JStr [s])"
| "unpack_pair (JDict ((p, v) # (s, w) # rest)) = Inr (JStr p, JStr s)"
| "unpack_pair (JList xs) = Inl (ValueError ''not enough values to unpack'')"
| "unpack_pair (JStr xs) = Inl (ValueError ''not enough values to unpack'')"
| "unpack_pair (JDict xs) = Inl (ValueError ''not enough values to unpack'')"
| "unpack_pair _ = Inl (TypeError ''cannot unpack non-iterable object'')"

definition decimal_level :: "printer \<Rightarrow> json \<Rightarrow> (decimal \<times> decimal) res" where
  "decimal_level printer item =
     bindr (unpack_pair item) (\<lambda>(p, s).
     bindr (parse_decimal (py_str printer p)) (\<lambda>price.
     bindr (parse_decimal (py_str printer s)) (\<lambda>size. Inr (fst price, fst size))))"

type_synonym book_key = "ExecutionVenue \<times> string"

record OrderBookReconstructor =
  rc_books :: "(book_key, ReconstructedOrderBook) dict"
  rc_sequences :: "(book_key, SequenceState) dict"

type_synonym 'a rc_op = "(OrderBookReconstructor, 'a) op"

definition level_table :: "(decimal \<times> decimal) list \<Rightarrow> level_dict" where
  "level_table levels = fold (\<lambda>(price, size). dict_set price size) levels []"

definition apply_snapshot :: "printer \<Rightarrow> datetime \<Rightarrow> ExecutionVenue \<Rightarrow> string \<Rightarrow> json list \<Rightarrow> json list \<Rightarrow> int option \<Rightarrow> OrderBookSnapshot rc_op" where
  "apply_snapshot printer now venue symbol bids asks sequence =
     bindm (lift_res (collect_res (decimal_level printer) bids)) (\<lambda>bid_levels.
     bindm (lift_res (collect_res (decimal_level printer) asks)) (\<lambda>ask_levels.
     let book = \<lparr>rb_bids = level_table bid_levels, rb_asks = level_table ask_levels, rb_sequence = sequence\<rparr>
     in seqm (modifies (\<lambda>s. s\<lparr>rc_books := dict_set (venue, symbol) book (rc_books s),
                              rc_sequences := dict_set (venue, symbol) (SequenceState_init sequence) (rc_sequences s)\<rparr>))
             (ret (book_snapshot now (value_of_venue venue) symbol book))))"

definition put_level :: "decimal \<times> decimal \<Rightarrow> level_dict \<Rightarrow> level_dict" where
  "put_level level d = (case level of (price, amount) \<Rightarrow> if amount = 0 then dict_pop price d else dict_set price amount d)"

text \<open>The loop over the levels of a delta; the levels before one that cannot be read are applied.\<close>

fun apply_levels :: "printer \<Rightarrow> json list \<Rightarrow> level_dict \<Rightarrow> unit res \<times> level_dict" where
  "apply_levels printer [] d = (Inr (), d)"
| "apply_levels printer (item # items) d =
     (case decimal_level printer item of
        Inl e \<Rightarrow> (Inl e, d)
      | Inr level \<Rightarrow> apply_levels printer items (put_level level d))"

definition update_book :: "book_key \<Rightarrow> (ReconstructedOrderBook \<Rightarrow> 'a res \<times> ReconstructedOrderBook) \<Rightarrow> 'a rc_op" where
  "update_book key f s =
     (case dict_get (rc_books s) key of
        None \<Rightarrow> (Inl (KeyError ''book''), s)
      | Some book \<Rightarrow> (case f book of (r, book') \<Rightarrow> (r, s\<lparr>rc_books := dict_set key book' (rc_books s)\<rparr>)))"

definition validate_key :: "book_key \<Rightarrow> int option \<Rightarrow> int option \<Rightarrow> bool rc_op" where
  "validate_key key sequence previous_sequence s =
     (let st = dict_get_or (rc_sequences s) key (SequenceState_init None);
          (valid, st') = validate_sequence sequence previous_sequence st
      in (Inr valid, s\<lparr>rc_sequences := dict_set key st' (rc_sequences s)\<rparr>))"

definition write_delta :: "printer \<Rightarrow> datetime \<Rightarrow> ExecutionVenue \<Rightarrow> string \<Rightarrow> json list \<Rightarrow> json list \<Rightarrow> int option \<Rightarrow> OrderBookSnapshot rc_op" where
  "write_delta printer now venue symbol bids asks sequence =
     (let key = (venue, symbol) in
      seqm (update_book key (\<lambda>book. case apply_levels printer bids (rb_bids book) of (r, d) \<Rightarrow> (r, book\<lparr>rb_bids := d\<rparr>))) (
      seqm (update_book key (\<lambda>book. case apply_levels printer asks (rb_asks book) of (r, d) \<Rightarrow> (r, book\<lparr>rb_asks := d\<rparr>))) (
      update_book key (\<lambda>book. let book = book\<lparr>rb_sequence := sequence\<rparr>
        in (Inr (book_snapshot now (value_of_venue venue) symbol book), book)))))"

definition apply_delta :: "printer \<Rightarrow> datetime \<Rightarrow> ExecutionVenue \<Rightarrow> string \<Rightarrow> json list \<Rightarrow> json list \<Rightarrow> int option \<Rightarrow> int option
    \<Rightarrow> (bool \<times> OrderBookSnapshot option) rc_op" where
  "apply_delta printer now venue symbol bids asks sequence previous_sequence =
     bindm (reads (\<lambda>s. dict_get (rc_books s) (venue, symbol))) (\<lambda>known.
     if known = None then ret (False, None)
     else
       bindm (validate_key (venue, symbol) sequence previous_sequence) (\<lambda>valid.
       if \<not> valid then ret (False, None)
       else
         bindm (write_delta printer now venue symbol bids asks sequence) (\<lambda>snapshot. ret (True, Some snapshot))))"

section \<open>Venue messages\<close>

definition stream_symbol :: "StreamSubscription \<Rightarrow> string" where
  "stream_symbol subscription =
     (let symbol = text_or (su_symbol subscription) [];
          put = (\<lambda>sep. concat (map (\<lambda>c. if c = CHR ''/'' then sep else [c]) symbol))
      in case su_venue subscription of
           Venue_gate \<Rightarrow> upper (put ''_'')
         | Venue_bitmart \<Rightarrow> upper (put ''_'')
         | Venue_kucoin \<Rightarrow> upper (put ''-'')
         | Venue_binance \<Rightarrow> lower (put [])
         | _ \<Rightarrow> upper (put []))"

text \<open>\<open>{...}[subscription.kind]\<close>: the entry of a stream kind, or the \<open>KeyError\<close>.\<close>

definition kind_entry :: "(StreamKind \<times> string) list \<Rightarrow> StreamKind \<Rightarrow> string res" where
  "kind_entry table kind = (case dict_get table kind of None \<Rightarrow> Inl (KeyError (value_of_kind kind)) | Some v \<Rightarrow> Inr v)"

definition binance_stream :: "StreamSubscription \<Rightarrow> string \<Rightarrow> string res" where
  "binance_stream subscription symbol =
     (if text_or (su_auth_stream_token subscription) [] \<noteq> [] then Inr (text_or (su_auth_stream_token subscription) [])
      else kind_entry [(Kind_orderbook, symbol @ ''@depth@100ms''), (Kind_trades, symbol @ ''@trade''), (Kind_ticker, symbol @ ''@ticker''),
             (Kind_kline, symbol @ ''@kline_'' @ text_or (su_interval subscription) ''1m'')] (su_kind subscription))"

definition mexc_stream :: "StreamSubscription \<Rightarrow> string \<Rightarrow> string" where
  "mexc_stream subscription symbol =
     dict_get_or [(Kind_orderbook, ''spot@public.limit.depth.v3.api@'' @ symbol @ ''@20''), (Kind_trades, ''spot@public.deals.v3.api@'' @ symbol),
       (Kind_ticker, ''spot@public.ticker.v3.api@'' @ symbol),
       (Kind_kline, ''spot@public.kline.v3.api@'' @ symbol @ ''@'' @ text_or (su_interval subscription) ''Min1'')]
       (su_kind subscription) ''spot@private.orders.v3.api''"

definition gate_channel :: "StreamSubscription \<Rightarrow> string res" where
  "gate_channel subscription =
     kind_entry [(Kind_orderbook, ''spot.order_book_update''), (Kind_trades, ''spot.trades''), (Kind_ticker, ''spot.tickers''),
       (Kind_kline, ''spot.candlesticks''), (Kind_user_data, ''spot.usertrades''), (Kind_order_updates, ''spot.orders''),
       (Kind_balance_updates, ''spot.balances''), (Kind_execution_reports, ''spot.usertrades'')] (su_kind subscription)"

definition gate_payload :: "StreamSubscription \<Rightarrow> string \<Rightarrow> json" where
  "gate_payload subscription symbol =
     (if su_kind subscription = Kind_kline then JList [JStr (text_or (su_interval subscription) ''1m''), JStr symbol] else JList [JStr symbol])"

definition bitmart_stream :: "StreamSubscription \<Rightarrow> string \<Rightarrow> string res" where
  "bitmart_stream subscription symbol =
     kind_entry [(Kind_orderbook, ''spot/depth50:'' @ symbol), (Kind_trades, ''spot/trade:'' @ symbol), (Kind_ticker, ''spot/ticker:'' @ symbol),
       (Kind_kline, ''spot/kline'' @ text_or (su_interval subscription) ''1m'' @ '':'' @ symbol), (Kind_order_updates, ''spot/user/order''),
       (Kind_balance_updates, ''spot/user/balance''), (Kind_execution_reports, ''spot/user/trade'')] (su_kind subscription)"

definition kucoin_topic :: "StreamSubscription \<Rightarrow> string \<Rightarrow> string res" where
  "kucoin_topic subscription symbol =
     kind_entry [(Kind_orderbook, ''/market/level2:'' @ symbol), (Kind_trades, ''/market/match:'' @ symbol), (Kind_ticker, ''/market/ticker:'' @ symbol),
       (Kind_kline, ''/market/candles:'' @ symbol @ ''_'' @ text_or (su_interval subscription) ''1min''), (Kind_order_updates, ''/spotMarket/tradeOrders''),
       (Kind_balance_updates, ''/account/balance''), (Kind_execution_reports, ''/spotMarket/tradeOrders'')] (su_kind subscription)"

definition coinstore_channel :: "StreamSubscription \<Rightarrow> string \<Rightarrow> string" where
  "coinstore_channel subscription symbol =
     dict_get_or [(Kind_orderbook, symbol @ ''@depth''), (Kind_trades, symbol @ ''@trade''), (Kind_ticker, symbol @ ''@ticker''),
       (Kind_kline, symbol @ ''@kline_'' @ text_or (su_interval subscription) ''1m'')]
       (su_kind subscription) (symbol @ ''@'' @ value_of_kind (su_kind subscription))"

definition subscribe_payload :: "int \<Rightarrow> StreamSubscription \<Rightarrow> json res" where
  "subscribe_payload now_ms subscription =
     (let symbol = stream_symbol subscription; now = JInt (now_ms div 1000)
      in case su_venue subscription of
           Venue_binance \<Rightarrow> bindr (binance_stream subscription symbol) (\<lambda>stream.
             Inr (JDict [(''method'', JStr ''SUBSCRIBE''), (''params'', JList [JStr stream]), (''id'', now)]))
         | Venue_mexc \<Rightarrow> Inr (JDict [(''method'', JStr ''SUBSCRIPTION''), (''params'', JList [JStr (mexc_stream subscription symbol)])])
         | Venue_gate \<Rightarrow> bindr (gate_channel subscription) (\<lambda>channel.
             Inr (JDict [(''time'', now), (''channel'', JStr channel), (''event'', JStr ''subscribe''), (''payload'', gate_payload subscription symbol)]))
         | Venue_bitmart \<Rightarrow> bindr (bitmart_stream subscription symbol) (\<lambda>stream.
             Inr (JDict [(''op'', JStr ''subscribe''), (''args'', JList [JStr stream])]))
         | Venue_kucoin \<Rightarrow> bindr (kucoin_topic subscription symbol) (\<lambda>topic.
             Inr (JDict [(''id'', JStr (str_int now_ms)), (''type'', JStr ''subscribe''), (''topic'', JStr topic),
               (''privateChannel'', JBool (su_kind subscription \<in> {Kind_user_data, Kind_balance_updates, Kind_order_updates, Kind_execution_reports})),
               (''response'', JBool True)]))
         | Venue_coinstore \<Rightarrow> Inr (JDict [(''op'', JStr ''SUB''), (''channel'', JList [JStr (coinstore_channel subscription symbol)]), (''id'', now)]))"

text \<open>\<open>_int\<close>, and \<open>message.get(key, default).get(...)\<close>.\<close>

definition int_or_none :: "json \<Rightarrow> int option" where
  "int_or_none v = (if v = JNull \<or> v = JStr [] then None else (case py_int v of Inr n \<Rightarrow> Some n | Inl _ \<Rightarrow> None))"

definition get_default :: "obj \<Rightarrow> string \<Rightarrow> json \<Rightarrow> json" where
  "get_default d k other = (case dict_get d k of Some v \<Rightarrow> v | None \<Rightarrow> other)"

definition parse_sequence :: "ExecutionVenue \<Rightarrow> obj \<Rightarrow> (int option \<times> int option) res" where
  "parse_sequence venue message =
     (case venue of
        Venue_gate \<Rightarrow> bindr (as_dict (get_default message ''result'' (JDict []))) (\<lambda>d.
          Inr (int_or_none (get_or d [''u''] (jget d ''last_update_id'')), int_or_none (jget d ''U'')))
      | Venue_kucoin \<Rightarrow> bindr (as_dict (get_default message ''data'' (JDict []))) (\<lambda>d.
          Inr (int_or_none (get_or d [''sequenceEnd''] (jget d ''sequence'')), int_or_none (jget d ''sequenceStart'')))
      | Venue_bitmart \<Rightarrow>
          (let data = get_default message ''data'' (JList [JDict []]);
               row = (case data of JList (r # _) \<Rightarrow> r | _ \<Rightarrow> data)
           in bindr (as_dict row) (\<lambda>d. Inr (int_or_none (get_or d [''ms_t''] (jget d ''sequence'')), None)))
      | Venue_coinstore \<Rightarrow> Inr (int_or_none (get_or message [''sequence''] (jget message ''seq'')), int_or_none (jget message ''prevSeq''))
      | _ \<Rightarrow> Inr (int_or_none (get_or message [''u''] (jget message ''lastUpdateId'')), int_or_none (get_or message [''pu''] (jget message ''U''))))"

section \<open>The connector\<close>

text \<open>
  A frame is a text with its decoding or a binary message with its hex digits; a connection is refused,
  or gives frames until it is closed (by an error, or normally). The state \<open>'h\<close> is the handler's.
\<close>

datatype frame = Text_frame "json res" | Binary_frame string

record connection =
  cn_send :: "nat \<Rightarrow> json \<Rightarrow> unit res"
  cn_frames :: "frame list"
  cn_closed :: "unit res"

record 'h VenueWebSocketConnector =
  wc_venue :: ExecutionVenue
  wc_max_reconnect_delay_seconds :: float
  wc_reconstructor :: OrderBookReconstructor
  wc_stopped :: bool
  wc_connected :: bool
  wc_connection_attempts :: nat
  wc_messages_received :: nat
  wc_callback_invocations :: nat
  wc_subscriptions_sent :: nat
  wc_raw_message_samples :: "obj list"
  wc_delay :: float
  wc_slept :: "float list"
  wc_handler :: 'h

type_synonym ('h, 'a) wc_op = "('h VenueWebSocketConnector, 'a) op"

definition VenueWebSocketConnector_init :: "ExecutionVenue \<Rightarrow> float \<Rightarrow> 'h \<Rightarrow> 'h VenueWebSocketConnector" where
  "VenueWebSocketConnector_init venue max_delay h =
     \<lparr>wc_venue = venue, wc_max_reconnect_delay_seconds = max_delay, wc_reconstructor = \<lparr>rc_books = [], rc_sequences = []\<rparr>,
      wc_stopped = False, wc_connected = False, wc_connection_attempts = 0, wc_messages_received = 0, wc_callback_invocations = 0,
      wc_subscriptions_sent = 0, wc_raw_message_samples = [], wc_delay = 1, wc_slept = [], wc_handler = h\<rparr>"

record 'h stream_env =
  se_now_ms :: "nat \<Rightarrow> int"
  se_printer :: printer
  se_subscriptions :: "StreamSubscription list"
  se_handle :: "obj \<Rightarrow> ('h, unit) op"
  se_recover_snapshot :: "(StreamSubscription \<Rightarrow> ('h, unit) op) option"

definition on_handler :: "('h, 'a) op \<Rightarrow> ('h, 'a) wc_op" where
  "on_handler = zoom wc_handler (\<lambda>h c. c\<lparr>wc_handler := h\<rparr>)"

definition capture_raw_sample :: "obj \<Rightarrow> ('h, unit) wc_op" where
  "capture_raw_sample message = modifies (\<lambda>c.
     if length (wc_raw_message_samples c) \<ge> 20 then c else c\<lparr>wc_raw_message_samples := wc_raw_message_samples c @ [message]\<rparr>)"

definition coinstore_established :: "printer \<Rightarrow> obj \<Rightarrow> bool" where
  "coinstore_established printer message \<longleftrightarrow>
     lower (py_str printer (get_or message [''T''] (JStr []))) \<in> {''req'', ''resp''}
     \<and> lower (py_str printer (get_or message [''M''] (JStr []))) = ''established''"

definition send_subscription :: "'h stream_env \<Rightarrow> connection \<Rightarrow> StreamSubscription \<Rightarrow> ('h, unit) wc_op" where
  "send_subscription env conn subscription =
     bindm (reads wc_subscriptions_sent) (\<lambda>n.
     bindm (lift_res (subscribe_payload (se_now_ms env n) subscription)) (\<lambda>payload.
     seqm (lift_res (cn_send conn n payload)) (modifies (\<lambda>c. c\<lparr>wc_subscriptions_sent := wc_subscriptions_sent c + 1\<rparr>))))"

definition subscribe_all :: "'h stream_env \<Rightarrow> connection \<Rightarrow> ('h, unit) wc_op" where
  "subscribe_all env conn = loop (send_subscription env conn) (se_subscriptions env)"

definition validate_stream :: "string \<Rightarrow> int option \<Rightarrow> int option \<Rightarrow> ('h, bool) wc_op" where
  "validate_stream symbol sequence previous c =
     (case validate_key (wc_venue c, symbol) sequence previous (wc_reconstructor c) of
        (r, s) \<Rightarrow> (r, c\<lparr>wc_reconstructor := s\<rparr>))"

text \<open>The loop over the subscriptions stops at the first order book stream with a symbol.\<close>

definition is_book_stream :: "StreamSubscription \<Rightarrow> bool" where
  "is_book_stream subscription \<longleftrightarrow> su_kind subscription = Kind_orderbook \<and> text_or (su_symbol subscription) [] \<noteq> []"

definition gap_detected :: "'h stream_env \<Rightarrow> obj \<Rightarrow> ('h, bool) wc_op" where
  "gap_detected env message =
     bindm (reads wc_venue) (\<lambda>venue.
     bindm (lift_res (parse_sequence venue message)) (\<lambda>(sequence, previous).
     if sequence = None then ret False
     else (case find is_book_stream (se_subscriptions env) of
             None \<Rightarrow> ret False
           | Some subscription \<Rightarrow>
               bindm (validate_stream (text_or (su_symbol subscription) []) sequence previous) (\<lambda>valid.
               if valid then ret False
               else seqm (case se_recover_snapshot env of None \<Rightarrow> ret () | Some recover \<Rightarrow> on_handler (recover subscription)) (ret True)))))"

definition invoke_handler :: "'h stream_env \<Rightarrow> obj \<Rightarrow> ('h, unit) wc_op" where
  "invoke_handler env message =
     seqm (modifies (\<lambda>c. c\<lparr>wc_callback_invocations := wc_callback_invocations c + 1\<rparr>)) (on_handler (se_handle env message))"

definition decode_frame :: "frame \<Rightarrow> json res" where
  "decode_frame raw = (case raw of Text_frame r \<Rightarrow> r | Binary_frame hex_digits \<Rightarrow> Inr (JDict [(''binary'', JStr hex_digits)]))"

definition dispatch_message :: "'h stream_env \<Rightarrow> connection \<Rightarrow> obj \<Rightarrow> ('h, unit) wc_op" where
  "dispatch_message env conn message =
     bindm (reads wc_venue) (\<lambda>venue.
     if venue = Venue_coinstore \<and> coinstore_established (se_printer env) message
     then seqm (subscribe_all env conn) (invoke_handler env message)
     else bindm (gap_detected env message) (\<lambda>gap.
          if gap then subscribe_all env conn else invoke_handler env message))"

definition receive_frame :: "'h stream_env \<Rightarrow> connection \<Rightarrow> frame \<Rightarrow> ('h, unit) wc_op" where
  "receive_frame env conn raw =
     bindm (lift_res (decode_frame raw)) (\<lambda>decoded.
     seqm (modifies (\<lambda>c. c\<lparr>wc_messages_received := wc_messages_received c + 1\<rparr>)) (
     bindm (lift_res (as_dict decoded)) (\<lambda>message.
     seqm (capture_raw_sample message) (dispatch_message env conn message))))"

definition serve_connection :: "'h stream_env \<Rightarrow> connection \<Rightarrow> ('h, unit) wc_op" where
  "serve_connection env conn =
     seqm (modifies (\<lambda>c. c\<lparr>wc_connected := True\<rparr>)) (
     bindm (reads wc_venue) (\<lambda>venue.
     seqm (if venue \<noteq> Venue_coinstore then subscribe_all env conn else ret ()) (
     seqm (modifies (\<lambda>c. c\<lparr>wc_delay := 1\<rparr>)) (
     seqm (loop (receive_frame env conn) (cn_frames conn)) (lift_res (cn_closed conn))))))"

text \<open>An iteration of the loop of \<open>connect\<close>: the connection attempt, and the sleep after an exception.\<close>

definition connect_once :: "'h stream_env \<Rightarrow> connection res \<Rightarrow> ('h, unit) wc_op" where
  "connect_once env attempt =
     catch (seqm (modifies (\<lambda>c. c\<lparr>wc_connection_attempts := wc_connection_attempts c + 1\<rparr>))
             (bindm (lift_res attempt) (serve_connection env)))
       (\<lambda>e. modifies (\<lambda>c. c\<lparr>wc_connected := False, wc_slept := wc_slept c @ [wc_delay c],
                             wc_delay := min (wc_max_reconnect_delay_seconds c) (wc_delay c * 2)\<rparr>))"

text \<open>\<open>stop\<close> may be called at any time; the loop looks at the flag before an attempt.\<close>

datatype ws_event = Ws_stop | Ws_attempt "connection res"

definition stop_connector :: "'h VenueWebSocketConnector \<Rightarrow> 'h VenueWebSocketConnector" where
  "stop_connector c = c\<lparr>wc_stopped := True\<rparr>"

fun connect_step :: "'h stream_env \<Rightarrow> ws_event \<Rightarrow> 'h VenueWebSocketConnector \<Rightarrow> 'h VenueWebSocketConnector" where
  "connect_step env Ws_stop c = stop_connector c"
| "connect_step env (Ws_attempt attempt) c = (if wc_stopped c then c else snd (connect_once env attempt c))"

end
