(* ===== verification/Reconnect.thy ===== *)
theory Reconnect
  imports Effects
begin

text \<open>
  The reconnection scheme the stream clients share (\<open>websocket/connectors.py\<close>, \<open>execution/coinstore_ws.py\<close>,
  \<open>exchanges/client.py\<close>): a failed connection sleeps for the current delay and doubles it up to a
  limit, an established connection resets it to one second. The locale states what one attempt may do to
  delay, limit and the sleeps so far; the bounds and the sequence of delays follow.
\<close>

lemma catch_modifies:
  assumes "keeps P m" "P c"
  shows "P (snd (catch m (\<lambda>e. modifies f) c)) \<or> (\<exists>u. P u \<and> snd (catch m (\<lambda>e. modifies f) c) = f u)"
  using keepsD[OF assms] by (auto simp: catch_def split: prod.splits sum.splits)

locale reconnector =
  fixes step :: "'e \<Rightarrow> 's \<Rightarrow> 's"
    and fails :: "'e \<Rightarrow> bool"
    and active :: "'s \<Rightarrow> bool"
    and delay :: "'s \<Rightarrow> rat"
    and limit :: "'s \<Rightarrow> rat"
    and slept :: "'s \<Rightarrow> rat list"
  assumes attempt: "slept (step e s) = slept s \<and> delay (step e s) \<in> {delay s, 1}
      \<or> (\<exists>d \<in> {delay s, 1}. slept (step e s) = slept s @ [d] \<and> delay (step e s) = min (limit s) (d * 2))"
    and limit_kept: "limit (step e s) = limit s"
    and refused: "fails e \<Longrightarrow> active s \<Longrightarrow> active (step e s) \<and> slept (step e s) = slept s @ [delay s]
      \<and> delay (step e s) = min (limit s) (delay s * 2)"
begin

definition delays_ok :: "'s \<Rightarrow> bool" where
  "delays_ok s \<longleftrightarrow> 1 \<le> limit s \<and> 1 \<le> delay s \<and> delay s \<le> limit s \<and> list_all (\<lambda>d. 1 \<le> d \<and> d \<le> limit s) (slept s)"

lemma step_delays_ok: "delays_ok s \<Longrightarrow> delays_ok (step e s)"
  using attempt[of e s] limit_kept[of e s] by (auto simp: delays_ok_def)

lemma run_delays_ok: "delays_ok s \<Longrightarrow> delays_ok (run step es s)"
  by (induction es arbitrary: s) (auto intro: step_delays_ok)

lemma run_limit: "limit (run step es s) = limit s"
  by (induction es arbitrary: s) (auto simp: limit_kept)

lemma run_bounded:
  assumes "1 \<le> limit s" "delay s = 1" "slept s = []" "d \<in> set (slept (run step es s))"
  shows "1 \<le> d \<and> d \<le> limit s"
  using run_delays_ok[of s es] assms by (auto simp: delays_ok_def list_all_iff run_limit)

lemma run_doubles:
  assumes "active s" "1 \<le> limit s" "delay s = min (limit s) (2 ^ k)" "list_all fails es"
  shows "slept (run step es s) = slept s @ map (\<lambda>i. min (limit s) (2 ^ i)) [k..<k + length es]"
  using assms
proof (induction es arbitrary: s k)
  case (Cons e es)
  then have e: "active (step e s)" "slept (step e s) = slept s @ [min (limit s) (2 ^ k)]" "delay (step e s) = min (limit s) (delay s * 2)"
    using refused[of e s] by auto
  have "delay (step e s) = min (limit (step e s)) (2 ^ Suc k)"
    using e(3) Cons.prems(2,3) by (auto simp: limit_kept min_def)
  with Cons.IH[of "step e s" "Suc k"] Cons.prems e show ?case
    by (simp add: limit_kept upt_conv_Cons del: upt_Suc)
qed simp

end

end
