(* ===== verification/Rest_Client.thy ===== *)
theory Rest_Client
  imports Exec_Client Connectors Reconnect
begin

text \<open>
  The exchange adapters: the registry of venues (\<open>exchanges/registry.py\<close>, \<open>exchanges/types.py\<close>), the signer
  (\<open>exchanges/auth.py\<close>), the REST and stream clients (\<open>exchanges/client.py\<close>) and the adapters that hold
  them (\<open>exchanges/adapters.py\<close>). The transport, the clock, the hash functions and the retry decorator are
  arguments, as in \<open>Exec_Client\<close>.
\<close>

section \<open>The registry\<close>

record ExchangeCapabilities =
  xc_rest :: bool
  xc_websocket :: bool
  xc_orderbook_stream :: bool
  xc_trades_stream :: bool
  xc_ticker_stream :: bool
  xc_kline_stream :: bool
  xc_private_trading :: bool
  xc_signed_requests :: bool

record ExchangeDefinition =
  xd_name :: ExecutionVenue
  xd_rest_base_url :: string
  xd_websocket_url :: string
  xd_rate_limit :: RateLimitRule
  xd_capabilities :: ExchangeCapabilities
  xd_health_path :: string

definition all_capabilities :: ExchangeCapabilities where
  "all_capabilities = \<lparr>xc_rest = True, xc_websocket = True, xc_orderbook_stream = True, xc_trades_stream = True, xc_ticker_stream = True,
     xc_kline_stream = True, xc_private_trading = True, xc_signed_requests = True\<rparr>"

definition exchange_definition :: "ExecutionVenue \<Rightarrow> string \<Rightarrow> string \<Rightarrow> int \<Rightarrow> string \<Rightarrow> string \<times> ExchangeDefinition" where
  "exchange_definition venue rest ws requests health =
     (value_of_venue venue, \<lparr>xd_name = venue, xd_rest_base_url = rest, xd_websocket_url = ws,
        xd_rate_limit = \<lparr>rr_requests = requests, rr_window_seconds = 60\<rparr>, xd_capabilities = all_capabilities, xd_health_path = health\<rparr>)"

definition EXCHANGE_DEFINITIONS :: "(string, ExchangeDefinition) dict" where
  "EXCHANGE_DEFINITIONS =
     [exchange_definition Venue_binance ''https://api.binance.com'' ''wss://stream.binance.com:9443/ws'' 1200 ''/api/v3/ping'',
      exchange_definition Venue_coinstore ''https://api.coinstore.com'' ''wss://ws.coinstore.com/s/ws'' 300 ''/api/v1/public/time'',
      exchange_definition Venue_mexc ''https://api.mexc.com'' ''wss://wbs.mexc.com/ws'' 1200 ''/api/v3/ping'',
      exchange_definition Venue_gate ''https://api.gateio.ws/api/v4'' ''wss://api.gateio.ws/ws/v4/'' 600 ''/spot/time'',
      exchange_definition Venue_bitmart ''https://api-cloud.bitmart.com'' ''wss://ws-manager-compress.bitmart.com/api?protocol=1.1'' 600 ''/system/time'',
      exchange_definition Venue_kucoin ''https://api.kucoin.com'' ''wss://ws-api-spot.kucoin.com'' 1800 ''/api/v1/timestamp'']"

definition get_exchange_definition :: "string \<Rightarrow> ExchangeDefinition res" where
  "get_exchange_definition name = (case dict_get EXCHANGE_DEFINITIONS (lower name) of None \<Rightarrow> Inl (KeyError (lower name)) | Some d \<Rightarrow> Inr d)"

definition supported_exchanges :: "(string, ExchangeDefinition) dict" where
  "supported_exchanges = EXCHANGE_DEFINITIONS"

section \<open>Signing\<close>

record Credentials =
  cd_api_key :: string
  cd_api_secret :: string
  cd_passphrase :: "string option"

text \<open>\<open>HmacSigner\<close> with its defaults: SHA-256 in hexadecimal digits.\<close>

definition signer_sign :: "crypto \<Rightarrow> Credentials \<Rightarrow> string \<Rightarrow> string" where
  "signer_sign cr credentials payload = hmac_sha256 cr (cd_api_secret credentials) payload"

definition signer_headers :: "crypto \<Rightarrow> Credentials \<Rightarrow> string \<Rightarrow> (string, string) dict" where
  "signer_headers cr credentials payload = [(''X-API-KEY'', cd_api_key credentials), (''X-SIGNATURE'', signer_sign cr credentials payload)]"

text \<open>\<open>json.dumps(v, separators=(",", ":"), sort_keys=True)\<close>.\<close>

fun sort_keys :: "json \<Rightarrow> json"
  and sort_keys_list :: "json list \<Rightarrow> json list"
  and sort_keys_items :: "(string \<times> json) list \<Rightarrow> (string \<times> json) list" where
  "sort_keys (JList xs) = JList (sort_keys_list xs)"
| "sort_keys (JDict d) = JDict (sort_key fst (sort_keys_items d))"
| "sort_keys v = v"
| "sort_keys_list [] = []"
| "sort_keys_list (x # xs) = sort_keys x # sort_keys_list xs"
| "sort_keys_items [] = []"
| "sort_keys_items (kv # d) = (case kv of (k, v) \<Rightarrow> (k, sort_keys v)) # sort_keys_items d"

section \<open>REST\<close>

record RestClient =
  rl_definition :: ExchangeDefinition
  rl_signer :: "Credentials option"
  rl_bucket :: TokenBucket
  rl_attempts :: nat
  rl_sent :: "http_request list"

type_synonym 'a rest_op = "(RestClient, 'a) op"

text \<open>The retry decorator without \<open>retry=\<close> and \<open>reraise=\<close>: any exception is retried, and the last failure is wrapped.\<close>

definition tenacity_wrapping :: "(nat \<Rightarrow> ('s, 'a) op \<Rightarrow> ('s, 'a) op) \<Rightarrow> bool" where
  "tenacity_wrapping retrying \<longleftrightarrow> (\<forall>n m s. retrying (Suc n) m s =
     (case m s of
        (Inr x, t) \<Rightarrow> (Inr x, t)
      | (Inl e, t) \<Rightarrow> if n \<noteq> 0 then retrying n m t else (Inl (RetryError e), t)))"

fun retry_wrapping :: "nat \<Rightarrow> ('s, 'a) op \<Rightarrow> ('s, 'a) op" where
  "retry_wrapping 0 m s = m s"
| "retry_wrapping (Suc n) m s =
     (case m s of
        (Inr x, t) \<Rightarrow> (Inr x, t)
      | (Inl e, t) \<Rightarrow> if n \<noteq> 0 then retry_wrapping n m t else (Inl (RetryError e), t))"

lemma tenacity_retry_wrapping: "tenacity_wrapping retry_wrapping"
  by (simp add: tenacity_wrapping_def)

record rest_env =
  ra_answer :: "http_request list \<Rightarrow> http_request \<Rightarrow> http_response res"
  ra_monotonic :: "nat \<Rightarrow> float"
  ra_crypto :: crypto
  ra_printer :: printer
  ra_retrying :: "nat \<Rightarrow> json rest_op \<Rightarrow> json rest_op"

definition RestClient_init :: "float \<Rightarrow> ExchangeDefinition \<Rightarrow> Credentials option \<Rightarrow> RestClient" where
  "RestClient_init now definition signer =
     \<lparr>rl_definition = definition, rl_signer = signer, rl_bucket = AsyncRateLimiter_init now (xd_rate_limit definition), rl_attempts = 0, rl_sent = []\<rparr>"

text \<open>\<open>json_body or params or {}\<close>.\<close>

definition signed_payload :: "obj option \<Rightarrow> obj option \<Rightarrow> obj" where
  "signed_payload body params = (case body of Some (x # xs) \<Rightarrow> x # xs | _ \<Rightarrow> (case params of Some d \<Rightarrow> d | None \<Rightarrow> []))"

definition rest_acquire :: "rest_env \<Rightarrow> unit rest_op" where
  "rest_acquire env s =
     (case acquire (ra_monotonic env (rl_attempts s)) 1 (rl_bucket s) of (r, b) \<Rightarrow> (r, s\<lparr>rl_bucket := b, rl_attempts := rl_attempts s + 1\<rparr>))"

definition rest_headers :: "rest_env \<Rightarrow> bool \<Rightarrow> obj option \<Rightarrow> obj option \<Rightarrow> RestClient \<Rightarrow> (string, string) dict res" where
  "rest_headers env signed params body s =
     (if \<not> signed then Inr []
      else case rl_signer s of
        None \<Rightarrow> Inl (ExchangeError ''signed request requires credentials'')
      | Some c \<Rightarrow> Inr (signer_headers (ra_crypto env) c (dumps (ra_printer env) (sort_keys (JDict (signed_payload body params))))))"

fun rest_payload :: "http_body \<Rightarrow> json" where
  "rest_payload Body_empty = JNull"
| "rest_payload (Body_json v) = v"
| "rest_payload (Body_text t) = JStr t"

definition rest_attempt :: "rest_env \<Rightarrow> string \<Rightarrow> string \<Rightarrow> obj option \<Rightarrow> obj option \<Rightarrow> bool \<Rightarrow> json rest_op" where
  "rest_attempt env verb path params body signed =
     seqm (rest_acquire env) (
     bindm (reads (rest_headers env signed params body)) (\<lambda>r.
     bindm (lift_res r) (\<lambda>headers.
     let request = \<lparr>hq_method = verb, hq_path = path, hq_params = params, hq_json = body, hq_headers = headers\<rparr> in
     bindm (reads (\<lambda>s. ra_answer env (rl_sent s) request)) (\<lambda>answer.
     seqm (modifies (\<lambda>s. s\<lparr>rl_sent := rl_sent s @ [request]\<rparr>)) (
     bindm (lift_res answer) (\<lambda>response.
     bindm (reads (\<lambda>s. value_of_venue (xd_name (rl_definition s)))) (\<lambda>name.
     if hp_status_code response \<ge> 400 then raise_err (ExchangeError (name @ '' REST error '' @ str_int (hp_status_code response)))
     else ret (rest_payload (hp_body response)))))))))"

definition rest_request :: "rest_env \<Rightarrow> string \<Rightarrow> string \<Rightarrow> obj option \<Rightarrow> obj option \<Rightarrow> bool \<Rightarrow> json rest_op" where
  "rest_request env verb path params body signed = ra_retrying env 3 (rest_attempt env verb path params body signed)"

definition rest_health :: "rest_env \<Rightarrow> bool rest_op" where
  "rest_health env =
     bindm (reads (\<lambda>s. xd_health_path (rl_definition s))) (\<lambda>path.
     seqm (rest_request env ''GET'' path None None False) (ret True))"

section \<open>Streams\<close>

text \<open>
  \<open>WebSocketClient.run\<close>: the messages of \<open>stream\<close> go to the handler. What the handler raises is not caught by the
  generator and ends the run (\<open>ws_raised\<close>).
\<close>

record 'h WebSocketClient =
  ws_definition :: ExchangeDefinition
  ws_max_reconnect_delay_seconds :: float
  ws_stopped :: bool
  ws_raised :: "pyerr option"
  ws_sent :: "json list"
  ws_delay :: float
  ws_slept :: "float list"
  ws_handler :: 'h

type_synonym ('h, 'a) ws_op = "('h WebSocketClient, 'a) op"

definition WebSocketClient_init :: "ExchangeDefinition \<Rightarrow> float \<Rightarrow> 'h \<Rightarrow> 'h WebSocketClient" where
  "WebSocketClient_init definition max_delay h =
     \<lparr>ws_definition = definition, ws_max_reconnect_delay_seconds = max_delay, ws_stopped = False, ws_raised = None, ws_sent = [], ws_delay = 1,
      ws_slept = [], ws_handler = h\<rparr>"

definition ws_send :: "connection \<Rightarrow> json \<Rightarrow> ('h, unit) ws_op" where
  "ws_send conn payload =
     bindm (reads (\<lambda>c. length (ws_sent c))) (\<lambda>n.
     seqm (lift_res (cn_send conn n payload)) (modifies (\<lambda>c. c\<lparr>ws_sent := ws_sent c @ [payload]\<rparr>)))"

text \<open>One message: nothing more is read once the handler has raised.\<close>

definition ws_message :: "(json \<Rightarrow> ('h, unit) op) \<Rightarrow> frame \<Rightarrow> ('h, unit) ws_op" where
  "ws_message handler raw =
     bindm (reads ws_raised) (\<lambda>raised.
     if raised \<noteq> None then ret ()
     else bindm (lift_res (decode_frame raw)) (\<lambda>message c.
       case handler message (ws_handler c) of
         (Inr _, h) \<Rightarrow> (Inr (), c\<lparr>ws_handler := h\<rparr>)
       | (Inl e, h) \<Rightarrow> (Inr (), c\<lparr>ws_handler := h, ws_raised := Some e\<rparr>)))"

definition ws_connection :: "json list \<Rightarrow> (json \<Rightarrow> ('h, unit) op) \<Rightarrow> connection \<Rightarrow> ('h, unit) ws_op" where
  "ws_connection payloads handler conn =
     seqm (loop (ws_send conn) payloads) (
     seqm (modifies (\<lambda>c. c\<lparr>ws_delay := 1\<rparr>)) (
     seqm (loop (ws_message handler) (cn_frames conn)) (
     bindm (reads ws_raised) (\<lambda>raised. if raised \<noteq> None then ret () else lift_res (cn_closed conn)))))"

definition ws_attempt :: "json list \<Rightarrow> (json \<Rightarrow> ('h, unit) op) \<Rightarrow> connection res \<Rightarrow> ('h, unit) ws_op" where
  "ws_attempt payloads handler att =
     catch (bindm (lift_res att) (ws_connection payloads handler))
       (\<lambda>e. modifies (\<lambda>c. c\<lparr>ws_slept := ws_slept c @ [ws_delay c], ws_delay := min (ws_max_reconnect_delay_seconds c) (ws_delay c * 2)\<rparr>))"

datatype stream_event = Stream_attempt "connection res" | Stream_stop

fun ws_run :: "json list \<Rightarrow> (json \<Rightarrow> ('h, unit) op) \<Rightarrow> stream_event \<Rightarrow> 'h WebSocketClient \<Rightarrow> 'h WebSocketClient" where
  "ws_run payloads handler Stream_stop c = c\<lparr>ws_stopped := True\<rparr>"
| "ws_run payloads handler (Stream_attempt att) c = (if ws_stopped c \<or> ws_raised c \<noteq> None then c else snd (ws_attempt payloads handler att c))"

section \<open>Adapters\<close>

record adapter_settings =
  as_api_keys :: "(string, string) dict"
  as_api_secrets :: "(string, string) dict"
  as_max_reconnect_delay_seconds :: float

record ExchangeAdapter =
  xa_definition :: ExchangeDefinition
  xa_rest :: RestClient
  xa_websocket :: "unit WebSocketClient"

definition exchange_credentials :: "adapter_settings \<Rightarrow> string \<Rightarrow> (string \<times> string) res" where
  "exchange_credentials settings alias =
     (case dict_get (as_api_keys settings) alias of None \<Rightarrow> Inl (KeyError alias)
      | Some key \<Rightarrow> (case dict_get (as_api_secrets settings) alias of None \<Rightarrow> Inl (KeyError alias) | Some secret \<Rightarrow> Inr (key, secret)))"

definition BaseExchangeAdapter_init :: "float \<Rightarrow> ExchangeDefinition \<Rightarrow> adapter_settings \<Rightarrow> string option \<Rightarrow> ExchangeAdapter res" where
  "BaseExchangeAdapter_init now definition settings credential_alias =
     bindr (case credential_alias of
         Some alias \<Rightarrow> if dict_get (as_api_keys settings) alias = None then Inr None
           else bindr (exchange_credentials settings alias) (\<lambda>(key, secret). Inr (Some \<lparr>cd_api_key = key, cd_api_secret = secret, cd_passphrase = None\<rparr>))
       | None \<Rightarrow> Inr None) (\<lambda>signer.
     Inr \<lparr>xa_definition = definition, xa_rest = RestClient_init now definition signer,
          xa_websocket = WebSocketClient_init definition (as_max_reconnect_delay_seconds settings) ()\<rparr>)"

text \<open>\<open>ADAPTERS\<close> has a class per venue, each with the venue's definition.\<close>

definition create_adapter :: "float \<Rightarrow> string \<Rightarrow> adapter_settings \<Rightarrow> string option \<Rightarrow> ExchangeAdapter res" where
  "create_adapter now name settings credential_alias =
     bindr (get_exchange_definition name) (\<lambda>definition.
     BaseExchangeAdapter_init now definition settings
       (Some (case credential_alias of Some a \<Rightarrow> if a = [] then lower name else a | None \<Rightarrow> lower name)))"

definition on_rest :: "'a rest_op \<Rightarrow> (ExchangeAdapter, 'a) op" where
  "on_rest = zoom xa_rest (\<lambda>r a. a\<lparr>xa_rest := r\<rparr>)"

definition discover_capabilities :: "rest_env \<Rightarrow> (ExchangeAdapter, ExchangeCapabilities) op" where
  "discover_capabilities env = seqm (on_rest (rest_health env)) (reads (\<lambda>a. xd_capabilities (xa_definition a)))"

definition adapter_rest_request :: "rest_env \<Rightarrow> string \<Rightarrow> string \<Rightarrow> obj option \<Rightarrow> obj option \<Rightarrow> bool \<Rightarrow> (ExchangeAdapter, json) op" where
  "adapter_rest_request env verb path params body signed = on_rest (rest_request env verb path params body signed)"

section \<open>Delays\<close>

definition ws_at :: "'h WebSocketClient \<Rightarrow> 'h WebSocketClient \<Rightarrow> bool" where
  "ws_at s c \<longleftrightarrow> ws_max_reconnect_delay_seconds c = ws_max_reconnect_delay_seconds s \<and> ws_slept c = ws_slept s \<and> ws_delay c \<in> {ws_delay s, 1}"

lemma keeps_ws_modifies: "(\<And>c. ws_at s c \<Longrightarrow> ws_at s (f c)) \<Longrightarrow> keeps (ws_at s) (modifies f)"
  by (rule keeps_modifies)

lemma keeps_ws_message: "keeps (ws_at s) (ws_message handler raw)"
proof -
  have "keeps (ws_at s) (\<lambda>c. case handler m (ws_handler c) of (Inr _, h) \<Rightarrow> (Inr (), c\<lparr>ws_handler := h\<rparr>)
      | (Inl e, h) \<Rightarrow> (Inr (), c\<lparr>ws_handler := h, ws_raised := Some e\<rparr>))" for m
    by (rule keepsI) (simp add: ws_at_def split: prod.split sum.split)
  then show ?thesis unfolding ws_message_def by (intro kept)
qed

lemma ws_attempt_at:
  "ws_at c (snd (ws_attempt payloads handler att c)) \<or> (\<exists>u. ws_at c u \<and> snd (ws_attempt payloads handler att c) =
     u\<lparr>ws_slept := ws_slept u @ [ws_delay u], ws_delay := min (ws_max_reconnect_delay_seconds u) (ws_delay u * 2)\<rparr>)"
  unfolding ws_attempt_def
proof (rule catch_modifies)
  show "keeps (ws_at c) (bindm (lift_res att) (ws_connection payloads handler))"
    unfolding ws_connection_def ws_send_def by (intro kept keeps_ws_modifies keeps_ws_message) (simp_all add: ws_at_def)
qed (simp add: ws_at_def)

interpretation ws_delays: reconnector "ws_run payloads handler" "\<lambda>e. \<exists>x. e = Stream_attempt (Inl x)" "\<lambda>c. \<not> ws_stopped c \<and> ws_raised c = None"
  ws_delay ws_max_reconnect_delay_seconds ws_slept for payloads handler
proof
  fix e and c :: "'a WebSocketClient"
  let ?c = "ws_run payloads handler e c"
  show "ws_slept ?c = ws_slept c \<and> ws_delay ?c \<in> {ws_delay c, 1}
      \<or> (\<exists>d \<in> {ws_delay c, 1}. ws_slept ?c = ws_slept c @ [d] \<and> ws_delay ?c = min (ws_max_reconnect_delay_seconds c) (d * 2))"
    by (cases e) (use ws_attempt_at[of c payloads handler] in \<open>force simp: ws_at_def\<close>)+
  show "ws_max_reconnect_delay_seconds ?c = ws_max_reconnect_delay_seconds c"
    by (cases e) (use ws_attempt_at[of c payloads handler] in \<open>force simp: ws_at_def\<close>)+
qed (auto simp: ws_attempt_def catch_def bindm_def)

text \<open>A venue that refuses every connection is tried after 1, 2, 4, ... seconds up to the maximum.\<close>

theorem stream_retries_back_off:
  assumes "1 \<le> max_delay"
  shows "ws_slept (run (ws_run payloads handler) (map (\<lambda>e. Stream_attempt (Inl e)) es) (WebSocketClient_init definition max_delay h))
    = map (\<lambda>i. min max_delay (2 ^ i)) [0..<length es]"
  using ws_delays.run_doubles[of "WebSocketClient_init definition max_delay h" 0 "map (\<lambda>e. Stream_attempt (Inl e)) es" payloads handler] assms
  by (simp add: WebSocketClient_init_def list_all_iff)

theorem stream_retries_back_off_witness:
  "ws_slept (run (ws_run [] (\<lambda>_. ret ())) (map (\<lambda>e. Stream_attempt (Inl e)) [ZeroDivisionError, ZeroDivisionError, ZeroDivisionError])
      (WebSocketClient_init (snd (hd EXCHANGE_DEFINITIONS)) 3 ())) = [1, 2, 3]"
  using stream_retries_back_off[of 3 "[]" "\<lambda>_. ret ()" "[ZeroDivisionError, ZeroDivisionError, ZeroDivisionError]" "snd (hd EXCHANGE_DEFINITIONS)" "()"]
  by (simp add: upt_rec)

section \<open>Requests\<close>

text \<open>The registry: every venue has exactly one definition, under its own name, which the lookup finds in any case.\<close>

lemma registry_complete: "\<exists>d. get_exchange_definition (value_of_venue venue) = Inr d \<and> xd_name d = venue"
  by (cases venue) (simp_all add: get_exchange_definition_def EXCHANGE_DEFINITIONS_def exchange_definition_def lower_def to_lower_def)

lemma tenacity_wrappingD:
  "tenacity_wrapping r \<Longrightarrow> r (Suc n) m s = (case m s of (Inr x, t) \<Rightarrow> (Inr x, t) | (Inl e, t) \<Rightarrow> if n \<noteq> 0 then r n m t else (Inl (RetryError e), t))"
  by (simp add: tenacity_wrapping_def)

text \<open>A request is sent at most three times, each time the same, and never unsigned when it was to be signed.\<close>

definition rest_sent_since :: "RestClient \<Rightarrow> (http_request \<Rightarrow> bool) \<Rightarrow> nat \<Rightarrow> RestClient \<Rightarrow> bool" where
  "rest_sent_since s good n t \<longleftrightarrow> rl_signer t = rl_signer s \<and> rl_definition t = rl_definition s
     \<and> (\<exists>new. rl_sent t = rl_sent s @ new \<and> length new \<le> n \<and> list_all good new)"

definition same_request :: "rest_env \<Rightarrow> RestClient \<Rightarrow> string \<Rightarrow> string \<Rightarrow> obj option \<Rightarrow> obj option \<Rightarrow> bool \<Rightarrow> http_request \<Rightarrow> bool" where
  "same_request env s verb path params body signed q \<longleftrightarrow> hq_method q = verb \<and> hq_path q = path \<and> hq_params q = params \<and> hq_json q = body
     \<and> Inr (hq_headers q) = rest_headers env signed params body s"

lemma rest_attempt_sent:
  assumes "rest_sent_since s (same_request env s verb path params body signed) n t"
  shows "rest_sent_since s (same_request env s verb path params body signed) (Suc n) (snd (rest_attempt env verb path params body signed t))"
proof -
  obtain new where new: "rl_sent t = rl_sent s @ new" "length new \<le> n" "list_all (same_request env s verb path params body signed) new"
    "rl_signer t = rl_signer s" "rl_definition t = rl_definition s" using assms by (auto simp: rest_sent_since_def)
  have more: "\<exists>m. rl_sent s @ new @ [q] = rl_sent s @ m \<and> length m \<le> Suc n \<and> list_all (same_request env s verb path params body signed) m"
    if "same_request env s verb path params body signed q" for q
    using new that by (intro exI[of _ "new @ [q]"]) simp
  show ?thesis
    using new more
    by (auto simp: rest_attempt_def rest_acquire_def rest_sent_since_def rest_headers_def same_request_def seqm_def bindm_def Let_def
        split: prod.splits sum.splits option.splits if_splits)
qed

lemma rest_retried_sent:
  assumes "tenacity_wrapping (ra_retrying env)" "rest_sent_since s (same_request env s verb path params body signed) n t"
  shows "rest_sent_since s (same_request env s verb path params body signed) (n + Suc k)
      (snd (ra_retrying env (Suc k) (rest_attempt env verb path params body signed) t))
    \<and> (\<forall>e. fst (ra_retrying env (Suc k) (rest_attempt env verb path params body signed) t) = Inl e \<longrightarrow> (\<exists>e'. e = RetryError e'))"
  using assms(2)
proof (induction k arbitrary: n t)
  case 0
  then show ?case using rest_attempt_sent[OF 0]
    by (simp add: tenacity_wrappingD[OF assms(1)] split: prod.splits sum.splits) auto
next
  case (Suc k)
  obtain x u where u: "rest_attempt env verb path params body signed t = (x, u)" by (cases "rest_attempt env verb path params body signed t")
  have sent: "rest_sent_since s (same_request env s verb path params body signed) (Suc n) u" using rest_attempt_sent[OF Suc.prems] u by simp
  show ?case
  proof (cases x)
    case (Inl e)
    then show ?thesis using Suc.IH[OF sent] u by (simp add: tenacity_wrappingD[OF assms(1), of "Suc k"])
  next
    case (Inr v)
    have "rest_sent_since s (same_request env s verb path params body signed) (n + Suc (Suc k)) u"
      using sent by (auto simp: rest_sent_since_def)
    then show ?thesis using Inr u by (simp add: tenacity_wrappingD[OF assms(1), of "Suc k"])
  qed
qed

text \<open>A request of an adapter is sent at most three times, every time with the same verb, path, parameters, body and headers, signed over the sorted
  body exactly when it was asked for; a request that fails raises the decorator's \<open>RetryError\<close> and never the venue's error itself.\<close>

theorem rest_request_bounded:
  assumes "tenacity_wrapping (ra_retrying env)"
  shows "rest_sent_since s (same_request env s verb path params body signed) 3 (snd (rest_request env verb path params body signed s))
    \<and> (\<forall>e. fst (rest_request env verb path params body signed s) = Inl e \<longrightarrow> (\<exists>e'. e = RetryError e'))"
proof -
  have "rest_sent_since s (same_request env s verb path params body signed) 0 s" by (simp add: rest_sent_since_def)
  from rest_retried_sent[OF assms this, of 2] show ?thesis by (simp add: rest_request_def numeral_3_eq_3 numeral_2_eq_2)
qed

definition example_rest_env :: rest_env where
  "example_rest_env = \<lparr>ra_answer = (\<lambda>_ _. Inr \<lparr>hp_status_code = 500, hp_body = Body_empty\<rparr>), ra_monotonic = (\<lambda>_. 0),
     ra_crypto = \<lparr>hmac_sha256 = (\<lambda>_ _. []), hmac_sha512 = (\<lambda>_ _. []), sha512 = (\<lambda>_. [])\<rparr>, ra_printer = (\<lambda>_. []), ra_retrying = retry_wrapping\<rparr>"

theorem rest_request_bounded_witness:
  "length (rl_sent (snd (rest_request example_rest_env ''GET'' ''/'' None None False (RestClient_init 0 (snd (hd EXCHANGE_DEFINITIONS)) None)))) \<le> 3"
proof -
  have "tenacity_wrapping (ra_retrying example_rest_env)" using tenacity_retry_wrapping by (simp add: example_rest_env_def)
  from rest_request_bounded[OF this, of "RestClient_init 0 (snd (hd EXCHANGE_DEFINITIONS)) None" "''GET''" "''/''" None None False]
  show ?thesis by (auto simp: rest_sent_since_def RestClient_init_def)
qed

end
