(* ===== verification/Reconciliation.thy ===== *)
theory Reconciliation
  imports Exec_Models
begin

text \<open>
  \<open>reconciliation/engine.py\<close>: the comparison of an exchange snapshot with an internal one. The
  printed values of a mismatch are kept as the values themselves (\<open>shown\<close>); the alert texts take
  Python's \<open>str\<close> as a parameter. The lemmas give the exact condition under which two snapshots
  reconcile and show that the report does not depend on which side is called the exchange.
\<close>

section \<open>Model\<close>

datatype ReconciliationSeverity = RSev_info | RSev_warning | RSev_critical

record BalanceRecord =
  br_asset :: string
  br_total :: decimal
  br_available :: decimal
  br_reserved :: decimal

record PositionRecord =
  pr_symbol :: string
  pr_asset :: string
  pr_quantity :: decimal
  pr_notional :: decimal

record OrderRecord =
  orr_client_order_id :: string
  orr_exchange_order_id :: "string option"
  orr_symbol :: string
  orr_status :: string
  orr_filled_quantity :: decimal
  orr_remaining_quantity :: decimal

record FillRecord =
  fr_trade_id :: string
  fr_order_id :: string
  fr_symbol :: string
  fr_quantity :: decimal
  fr_price :: decimal
  fr_fee :: decimal

record PnlRecord =
  pnl_realized :: decimal
  pnl_unrealized :: decimal
  pnl_fees :: decimal

record ReconciliationSnapshot =
  rs_balances :: "BalanceRecord list"
  rs_positions :: "PositionRecord list"
  rs_orders :: "OrderRecord list"
  rs_fills :: "FillRecord list"
  rs_pnl :: "PnlRecord option"

datatype shown =
    ShownText string
  | ShownDecimal decimal
  | ShownBool bool
  | ShownBalance "BalanceRecord option"
  | ShownPosition "PositionRecord option"
  | ShownOrder "OrderRecord option"
  | ShownPnl "PnlRecord option"

record ReconciliationMismatch =
  mm_category :: string
  mm_key :: string
  mm_severity :: ReconciliationSeverity
  mm_message :: string
  mm_exchange_value :: shown
  mm_internal_value :: shown

record ReconciliationEngine =
  balance_tolerance :: decimal
  notional_tolerance :: decimal

definition default_reconciliation_engine :: ReconciliationEngine where
  "default_reconciliation_engine = \<lparr>balance_tolerance = 1 / 100000000, notional_tolerance = 1 / 100\<rparr>"

definition mismatch :: "string \<Rightarrow> string \<Rightarrow> ReconciliationSeverity \<Rightarrow> string \<Rightarrow> shown \<Rightarrow> shown \<Rightarrow> ReconciliationMismatch" where
  "mismatch category key severity message ev iv =
     \<lparr>mm_category = category, mm_key = key, mm_severity = severity, mm_message = message,
      mm_exchange_value = ev, mm_internal_value = iv\<rparr>"

text \<open>\<open>{key(item): item for item in items}\<close>: the last item of a key wins.\<close>

definition dict_by :: "('a \<Rightarrow> 'k) \<Rightarrow> 'a list \<Rightarrow> ('k, 'a) dict" where
  "dict_by key items = fold (\<lambda>item. dict_set (key item) item) items []"

definition sorted_keys :: "('k::linorder, 'a) dict \<Rightarrow> ('k, 'b) dict \<Rightarrow> 'k list" where
  "sorted_keys a b = sort (remdups (dict_keys a @ dict_keys b))"

text \<open>The loop the three keyed comparisons share: both sides' entry for every key, in order.\<close>

definition compare_keyed ::
  "('a \<Rightarrow> 'k::linorder) \<Rightarrow> ('k \<Rightarrow> 'a option \<Rightarrow> 'a option \<Rightarrow> 'm) \<Rightarrow> ('k \<Rightarrow> 'a \<Rightarrow> 'a \<Rightarrow> 'm list) \<Rightarrow> 'a list \<Rightarrow> 'a list \<Rightarrow> 'm list" where
  "compare_keyed key missing differences exchange internal =
     (let exchange_map = dict_by key exchange; internal_map = dict_by key internal
      in concat (map (\<lambda>k. case (dict_get exchange_map k, dict_get internal_map k) of
             (Some left, Some right) \<Rightarrow> differences k left right
           | (left, right) \<Rightarrow> [missing k left right])
           (sorted_keys exchange_map internal_map)))"

definition compare_balances :: "ReconciliationEngine \<Rightarrow> BalanceRecord list \<Rightarrow> BalanceRecord list \<Rightarrow> ReconciliationMismatch list" where
  "compare_balances self = compare_keyed br_asset
     (\<lambda>asset left right. mismatch ''balance'' asset RSev_critical ''missing balance record'' (ShownBalance left) (ShownBalance right))
     (\<lambda>asset left right.
        (if \<bar>br_total left - br_total right\<bar> > balance_tolerance self
         then [mismatch ''balance'' asset RSev_critical ''total balance mismatch'' (ShownDecimal (br_total left)) (ShownDecimal (br_total right))]
         else []) @
        (if \<bar>br_available left - br_available right\<bar> > balance_tolerance self
         then [mismatch ''balance'' asset RSev_warning ''available balance mismatch'' (ShownDecimal (br_available left)) (ShownDecimal (br_available right))]
         else []))"

definition position_key :: "PositionRecord \<Rightarrow> string \<times> string" where
  "position_key p = (pr_symbol p, pr_asset p)"

definition join_key :: "string \<times> string \<Rightarrow> string" where
  "join_key k = fst k @ ''/'' @ snd k"

definition compare_positions :: "ReconciliationEngine \<Rightarrow> PositionRecord list \<Rightarrow> PositionRecord list \<Rightarrow> ReconciliationMismatch list" where
  "compare_positions self = compare_keyed position_key
     (\<lambda>key left right. mismatch ''position'' (join_key key) RSev_critical ''missing position record'' (ShownPosition left) (ShownPosition right))
     (\<lambda>key left right.
        (if \<bar>pr_quantity left - pr_quantity right\<bar> > balance_tolerance self
         then [mismatch ''position'' (join_key key) RSev_critical ''position quantity mismatch'' (ShownDecimal (pr_quantity left)) (ShownDecimal (pr_quantity right))]
         else []) @
        (if \<bar>pr_notional left - pr_notional right\<bar> > notional_tolerance self
         then [mismatch ''position'' (join_key key) RSev_warning ''position notional mismatch'' (ShownDecimal (pr_notional left)) (ShownDecimal (pr_notional right))]
         else []))"

definition compare_orders :: "ReconciliationEngine \<Rightarrow> OrderRecord list \<Rightarrow> OrderRecord list \<Rightarrow> ReconciliationMismatch list" where
  "compare_orders self = compare_keyed orr_client_order_id
     (\<lambda>key left right. mismatch ''order'' key RSev_critical ''missing order record'' (ShownOrder left) (ShownOrder right))
     (\<lambda>key left right.
        (if orr_status left \<noteq> orr_status right
         then [mismatch ''order'' key RSev_critical ''order status mismatch'' (ShownText (orr_status left)) (ShownText (orr_status right))]
         else []) @
        (if \<bar>orr_filled_quantity left - orr_filled_quantity right\<bar> > balance_tolerance self
         then [mismatch ''order'' key RSev_warning ''filled quantity mismatch'' (ShownDecimal (orr_filled_quantity left)) (ShownDecimal (orr_filled_quantity right))]
         else []))"

definition compare_fills :: "FillRecord list \<Rightarrow> FillRecord list \<Rightarrow> ReconciliationMismatch list" where
  "compare_fills exchange internal =
     (let exchange_ids = map fr_trade_id exchange; internal_ids = map fr_trade_id internal;
          one_sided = filter (\<lambda>t. t \<notin> set exchange_ids \<or> t \<notin> set internal_ids) (exchange_ids @ internal_ids)
      in map (\<lambda>trade_id. mismatch ''fill'' trade_id RSev_critical ''fill missing from one side''
                 (ShownBool (trade_id \<in> set exchange_ids)) (ShownBool (trade_id \<in> set internal_ids)))
           (sort (remdups one_sided)))"

definition pnl_fields :: "(string \<times> (PnlRecord \<Rightarrow> decimal)) list" where
  "pnl_fields = [(''realized'', pnl_realized), (''unrealized'', pnl_unrealized), (''fees'', pnl_fees)]"

fun compare_pnl :: "ReconciliationEngine \<Rightarrow> PnlRecord option \<Rightarrow> PnlRecord option \<Rightarrow> ReconciliationMismatch list" where
  "compare_pnl self None None = []"
| "compare_pnl self (Some left) (Some right) =
     concat (map (\<lambda>(field_name, get).
       if \<bar>get left - get right\<bar> > notional_tolerance self
       then [mismatch ''pnl'' field_name RSev_warning ''pnl component mismatch'' (ShownDecimal (get left)) (ShownDecimal (get right))]
       else []) pnl_fields)"
| "compare_pnl self exchange internal =
     [mismatch ''pnl'' ''summary'' RSev_critical ''missing pnl record'' (ShownPnl exchange) (ShownPnl internal)]"

definition reconcile :: "ReconciliationEngine \<Rightarrow> ReconciliationSnapshot \<Rightarrow> ReconciliationSnapshot \<Rightarrow> ReconciliationMismatch list" where
  "reconcile self exchange internal =
     compare_balances self (rs_balances exchange) (rs_balances internal)
     @ compare_positions self (rs_positions exchange) (rs_positions internal)
     @ compare_orders self (rs_orders exchange) (rs_orders internal)
     @ compare_fills (rs_fills exchange) (rs_fills internal)
     @ compare_pnl self (rs_pnl exchange) (rs_pnl internal)"

record recon_alert =
  ra_severity :: string
  ra_title :: string
  ra_body :: string

fun value_of_severity :: "ReconciliationSeverity \<Rightarrow> string" where
  "value_of_severity RSev_info = ''info''"
| "value_of_severity RSev_warning = ''warning''"
| "value_of_severity RSev_critical = ''critical''"

definition generate_alerts :: "(shown \<Rightarrow> string) \<Rightarrow> ReconciliationMismatch list \<Rightarrow> recon_alert list" where
  "generate_alerts str_of mismatches = map (\<lambda>m.
     \<lparr>ra_severity = value_of_severity (mm_severity m),
      ra_title = ''Reconciliation mismatch: '' @ mm_category m,
      ra_body = mm_key m @ '': '' @ mm_message m @ '' exchange='' @ str_of (mm_exchange_value m)
                @ '' internal='' @ str_of (mm_internal_value m)\<rparr>) mismatches"

section \<open>Keyed comparisons\<close>

lemma dict_by_distinct: "distinct (dict_keys (dict_by key items))"
proof -
  have "distinct (dict_keys d) \<Longrightarrow> distinct (dict_keys (fold (\<lambda>item. dict_set (key item) item) items d))" for d
    by (induction items arbitrary: d) (auto intro: adict.wf_put)
  then show ?thesis by (simp add: dict_by_def)
qed

lemma dict_by_get:
  "dict_get (dict_by key items) k = (if k \<in> key ` set items then Some (last (filter (\<lambda>i. key i = k) items)) else None)"
proof (induction items rule: rev_induct)
  case (snoc x xs)
  then show ?case by (auto simp: dict_by_def update_conv' filter_empty_conv)
qed (simp add: dict_by_def)

lemma dict_by_keys: "set (dict_keys (dict_by key items)) = key ` set items"
  using dict_by_get[of key items] by (auto simp: set_eq_iff dom_map_of_conv_image_fst[symmetric] dom_def split: if_splits)

lemma sorted_keys_set: "set (sorted_keys a b) = set (dict_keys a) \<union> set (dict_keys b)"
  by (simp add: sorted_keys_def)

lemma sorted_keys_commute: "sorted_keys a b = sorted_keys b a"
  by (rule sorted_distinct_set_unique) (auto simp: sorted_keys_def)

text \<open>The entry a snapshot holds for a key: its last record.\<close>

definition entry :: "('a \<Rightarrow> 'k) \<Rightarrow> 'a list \<Rightarrow> 'k \<Rightarrow> 'a option" where
  "entry key items k = dict_get (dict_by key items) k"

lemma entry_None: "entry key items k = None \<longleftrightarrow> k \<notin> key ` set items"
  by (simp add: entry_def dict_by_get)

definition agree_on :: "('k \<Rightarrow> 'a option) \<Rightarrow> ('k \<Rightarrow> 'a option) \<Rightarrow> ('a \<Rightarrow> 'a \<Rightarrow> bool) \<Rightarrow> bool" where
  "agree_on f g same \<longleftrightarrow> (\<forall>k. rel_option same (f k) (g k))"

lemma compare_keyed_Nil_iff:
  assumes "\<And>k l r. differences k l r = [] \<longleftrightarrow> same l r"
  shows "compare_keyed key missing differences xs ys = [] \<longleftrightarrow> agree_on (entry key xs) (entry key ys) same"
proof -
  let ?item = "\<lambda>k. case (entry key xs k, entry key ys k) of
    (Some left, Some right) \<Rightarrow> differences k left right | (left, right) \<Rightarrow> [missing k left right]"
  have keys: "set (sorted_keys (dict_by key xs) (dict_by key ys)) = key ` set xs \<union> key ` set ys"
    by (simp only: sorted_keys_set dict_by_keys)
  have step: "?item k = [] \<longleftrightarrow> rel_option same (entry key xs k) (entry key ys k)"
    if "k \<in> key ` set xs \<union> key ` set ys" for k
    using that assms entry_None[of key xs k] entry_None[of key ys k]
    by (cases "entry key xs k"; cases "entry key ys k") auto
  have "compare_keyed key missing differences xs ys = [] \<longleftrightarrow> (\<forall>k \<in> key ` set xs \<union> key ` set ys. ?item k = [])"
    by (simp add: compare_keyed_def Let_def keys entry_def)
  also have "\<dots> \<longleftrightarrow> (\<forall>k \<in> key ` set xs \<union> key ` set ys. rel_option same (entry key xs k) (entry key ys k))"
    using step by (intro ball_cong refl)
  also have "\<dots> \<longleftrightarrow> agree_on (entry key xs) (entry key ys) same"
    unfolding agree_on_def by (metis UnCI entry_None option.rel_inject(1))
  finally show ?thesis .
qed

lemma compare_keyed_flip:
  assumes "\<And>k l r. f (missing k l r) = missing k r l" "\<And>k l r. map f (differences k l r) = differences k r l"
  shows "map f (compare_keyed key missing differences xs ys) = compare_keyed key missing differences ys xs"
  using assms unfolding compare_keyed_def Let_def map_concat map_map sorted_keys_commute[of "dict_by key ys"]
  by (intro arg_cong[where f = concat] map_cong refl) (auto split: option.splits)

lemma compare_fills_Nil_iff:
  "compare_fills xs ys = [] \<longleftrightarrow> fr_trade_id ` set xs = fr_trade_id ` set ys"
proof -
  have "compare_fills xs ys = [] \<longleftrightarrow>
      set (sort (remdups (filter (\<lambda>t. t \<notin> set (map fr_trade_id xs) \<or> t \<notin> set (map fr_trade_id ys))
        (map fr_trade_id xs @ map fr_trade_id ys)))) = {}"
    unfolding compare_fills_def Let_def set_empty by simp
  also have "\<dots> \<longleftrightarrow> fr_trade_id ` set xs = fr_trade_id ` set ys"
    unfolding set_sort set_remdups set_filter set_append set_map by blast
  finally show ?thesis .
qed

section \<open>Properties\<close>

definition within_tol :: "decimal \<Rightarrow> decimal \<Rightarrow> decimal \<Rightarrow> bool" where
  "within_tol tol a b \<longleftrightarrow> \<bar>a - b\<bar> \<le> tol"

text \<open>What it means that two snapshots agree up to the tolerances.\<close>

definition snapshots_agree :: "ReconciliationEngine \<Rightarrow> ReconciliationSnapshot \<Rightarrow> ReconciliationSnapshot \<Rightarrow> bool" where
  "snapshots_agree e a b \<longleftrightarrow>
     agree_on (entry br_asset (rs_balances a)) (entry br_asset (rs_balances b))
       (\<lambda>x y. within_tol (balance_tolerance e) (br_total x) (br_total y) \<and> within_tol (balance_tolerance e) (br_available x) (br_available y))
   \<and> agree_on (entry position_key (rs_positions a)) (entry position_key (rs_positions b))
       (\<lambda>x y. within_tol (balance_tolerance e) (pr_quantity x) (pr_quantity y) \<and> within_tol (notional_tolerance e) (pr_notional x) (pr_notional y))
   \<and> agree_on (entry orr_client_order_id (rs_orders a)) (entry orr_client_order_id (rs_orders b))
       (\<lambda>x y. orr_status x = orr_status y \<and> within_tol (balance_tolerance e) (orr_filled_quantity x) (orr_filled_quantity y))
   \<and> fr_trade_id ` set (rs_fills a) = fr_trade_id ` set (rs_fills b)
   \<and> rel_option (\<lambda>x y. within_tol (notional_tolerance e) (pnl_realized x) (pnl_realized y)
        \<and> within_tol (notional_tolerance e) (pnl_unrealized x) (pnl_unrealized y)
        \<and> within_tol (notional_tolerance e) (pnl_fees x) (pnl_fees y)) (rs_pnl a) (rs_pnl b)"

lemma compare_pnl_Nil_iff:
  "compare_pnl e p q = [] \<longleftrightarrow> rel_option (\<lambda>x y. within_tol (notional_tolerance e) (pnl_realized x) (pnl_realized y)
        \<and> within_tol (notional_tolerance e) (pnl_unrealized x) (pnl_unrealized y)
        \<and> within_tol (notional_tolerance e) (pnl_fees x) (pnl_fees y)) p q"
  by (cases p; cases q) (auto simp: pnl_fields_def within_tol_def)

text \<open>
  C34. Reconciliation reports nothing if and only if the snapshots agree: for every asset, position
  and client order id both sides have a record or neither has, the compared figures differ by at
  most the tolerances, order states are equal, the same trades are known and the pnl figures match.
  Nothing else is compared, and nothing of this is missed.
\<close>

theorem reconcile_clean_iff: "reconcile e a b = [] \<longleftrightarrow> snapshots_agree e a b"
proof -
  have "compare_balances e x y = [] \<longleftrightarrow> agree_on (entry br_asset x) (entry br_asset y)
       (\<lambda>x y. within_tol (balance_tolerance e) (br_total x) (br_total y) \<and> within_tol (balance_tolerance e) (br_available x) (br_available y))" for x y
    unfolding compare_balances_def by (rule compare_keyed_Nil_iff) (auto simp: within_tol_def)
  moreover have "compare_positions e x y = [] \<longleftrightarrow> agree_on (entry position_key x) (entry position_key y)
       (\<lambda>x y. within_tol (balance_tolerance e) (pr_quantity x) (pr_quantity y) \<and> within_tol (notional_tolerance e) (pr_notional x) (pr_notional y))" for x y
    unfolding compare_positions_def by (rule compare_keyed_Nil_iff) (auto simp: within_tol_def)
  moreover have "compare_orders e x y = [] \<longleftrightarrow> agree_on (entry orr_client_order_id x) (entry orr_client_order_id y)
       (\<lambda>x y. orr_status x = orr_status y \<and> within_tol (balance_tolerance e) (orr_filled_quantity x) (orr_filled_quantity y))" for x y
    unfolding compare_orders_def by (rule compare_keyed_Nil_iff) (auto simp: within_tol_def)
  ultimately show ?thesis
    by (simp add: reconcile_def snapshots_agree_def compare_fills_Nil_iff compare_pnl_Nil_iff)
qed

definition flip :: "ReconciliationMismatch \<Rightarrow> ReconciliationMismatch" where
  "flip m = m\<lparr>mm_exchange_value := mm_internal_value m, mm_internal_value := mm_exchange_value m\<rparr>"

lemma flip_mismatch [simp]: "flip (mismatch c k sev msg x y) = mismatch c k sev msg y x"
  by (simp add: flip_def mismatch_def)

lemma compare_fills_flip: "map flip (compare_fills xs ys) = compare_fills ys xs"
proof -
  have "sort (remdups (filter (\<lambda>t. t \<notin> A \<or> t \<notin> B) (as @ bs))) = sort (remdups (filter (\<lambda>t. t \<notin> B \<or> t \<notin> A) (bs @ as)))"
    for A B and as bs :: "string list"
    by (rule sorted_distinct_set_unique) (auto simp del: filter_append)
  then show ?thesis by (simp add: compare_fills_def Let_def comp_def)
qed

lemma compare_pnl_flip: "map flip (compare_pnl e p q) = compare_pnl e q p"
  by (cases p; cases q) (simp_all add: pnl_fields_def abs_minus_commute)

text \<open>
  The report is symmetric: exchanging the two snapshots gives the same mismatches in the same
  order, with the two printed values of each exchanged; category, key, severity and message do not
  depend on the side.
\<close>

theorem reconcile_symmetric: "map flip (reconcile e a b) = reconcile e b a"
proof -
  have "map flip (compare_balances e x y) = compare_balances e y x" for x y
    unfolding compare_balances_def by (rule compare_keyed_flip) (simp_all add: abs_minus_commute)
  moreover have "map flip (compare_positions e x y) = compare_positions e y x" for x y
    unfolding compare_positions_def by (rule compare_keyed_flip) (simp_all add: abs_minus_commute)
  moreover have "map flip (compare_orders e x y) = compare_orders e y x" for x y
    unfolding compare_orders_def by (rule compare_keyed_flip) (simp_all add: abs_minus_commute)
  ultimately show ?thesis by (simp add: reconcile_def compare_fills_flip compare_pnl_flip)
qed

end
