(* ===== verification/Coinstore_Checks.thy ===== *)
theory Coinstore_Checks
  imports Exec_Client Db Reconciliation
begin

text \<open>
  The three helpers of the Coinstore service: the validation of endpoints, signatures and answers
  (\<open>execution/coinstore_validation.py\<close>), the safety checks on orders and fills
  (\<open>execution/coinstore_safety.py\<close>) and the comparison of the venue's books with the database
  (\<open>execution/coinstore_reconciliation.py\<close>). They read the session and never write it. The texts of
  uuids are an argument.
\<close>

section \<open>Validation\<close>

definition is_api_path :: "string option \<Rightarrow> bool" where
  "is_api_path path = (case path of Some p \<Rightarrow> take 5 p = ''/api/'' | None \<Rightarrow> False)"

definition required_paths :: "VenueExecutionSpec \<Rightarrow> (string \<times> string option) list" where
  "required_paths spec =
     [(''place_order_path'', Some (vs_place_order_path spec)), (''cancel_order_path'', Some (vs_cancel_order_path spec)),
      (''cancel_all_path'', Some (vs_cancel_all_path spec)), (''order_status_path'', Some (vs_order_status_path spec)),
      (''account_balances_path'', Some (vs_account_balances_path spec)), (''exchange_info_path'', Some (vs_exchange_info_path spec)),
      (''open_orders_path'', vs_open_orders_path spec), (''account_trades_path'', vs_account_trades_path spec)]"

definition verify_endpoints :: "unit res" where
  "verify_endpoints =
     (case find (\<lambda>(field, path). \<not> is_api_path path) (required_paths (EXECUTION_SPECS Venue_coinstore)) of
        Some (field, _) \<Rightarrow> Inl (CoinstoreValidationError (''Coinstore endpoint '' @ field @ '' is not configured''))
      | None \<Rightarrow> Inr ())"

definition verify_signing :: "crypto \<Rightarrow> printer \<Rightarrow> int \<Rightarrow> ExecutionCredentials \<Rightarrow> unit res" where
  "verify_signing cr printer now_ms credentials =
     (let signed = sign_request cr printer now_ms Style_coinstore_hmac ''POST'' (vs_place_order_path (EXECUTION_SPECS Venue_coinstore)) []
            (Some [(''symbol'', JStr ''BTCUSDT'')]) credentials;
          missing = filter (\<lambda>k. k \<notin> set (dict_keys (sq_headers signed))) [''X-CS-APIKEY'', ''X-CS-EXPIRES'', ''X-CS-SIGN'']
      in if missing \<noteq> []
         then Inl (CoinstoreValidationError (''Coinstore signing headers missing: '' @ py_str printer (JList (map JStr missing))))
         else if dict_get (sq_headers signed) ''X-CS-APIKEY'' \<noteq> Some (ec_api_key credentials)
              \<or> map_option length (dict_get (sq_headers signed) ''X-CS-SIGN'') \<noteq> Some 64
         then Inl (CoinstoreValidationError ''Coinstore signing output is invalid'')
         else Inr ())"

definition any_key :: "obj \<Rightarrow> string list \<Rightarrow> bool" where
  "any_key d ks \<longleftrightarrow> (\<exists>k \<in> set ks. has_key d k)"

definition verify_order_response :: "obj \<Rightarrow> unit res" where
  "verify_order_response payload =
     (let candidate = (case jget payload ''data'' of JDict d \<Rightarrow> d | _ \<Rightarrow> payload)
      in if any_key candidate [''orderId'', ''order_id'', ''id'', ''ordId''] then Inr ()
         else Inl (CoinstoreValidationError ''Coinstore order response is missing order identifier''))"

text \<open>\<open>CoinstoreValidationLayer._rows\<close>.\<close>

fun rows_of :: "json \<Rightarrow> obj list" where
  "rows_of (JList xs) = dict_items xs"
| "rows_of (JDict d) =
     (case find (\<lambda>k. is_list (jget d k)) [''data'', ''balances'', ''accounts'', ''items'', ''list'', ''result''] of
        Some k \<Rightarrow> dict_items (list_items (jget d k))
      | None \<Rightarrow> [d])"
| "rows_of _ = []"

fun verify_each :: "(string list \<times> string) list \<Rightarrow> obj list \<Rightarrow> unit res" where
  "verify_each rules [] = Inr ()"
| "verify_each rules (row # rows) =
     (case find (\<lambda>(ks, message). \<not> any_key row ks) rules of
        Some (_, message) \<Rightarrow> Inl (CoinstoreValidationError message)
      | None \<Rightarrow> verify_each rules rows)"

definition verify_balance_response :: "json \<Rightarrow> unit res" where
  "verify_balance_response payload =
     (let rows = rows_of payload
      in if rows = [] then Inl (CoinstoreValidationError ''Coinstore balance response is empty'')
         else verify_each
           [([''asset'', ''currency'', ''coin'', ''coinName''], ''Coinstore balance row is missing asset''),
            ([''available'', ''available_balance'', ''availableBalance'', ''free'', ''normal''], ''Coinstore balance row is missing available balance'')]
           rows)"

definition verify_trade_response :: "json \<Rightarrow> unit res" where
  "verify_trade_response payload =
     verify_each
       [([''tradeId'', ''trade_id'', ''matchId'', ''match_id''], ''Coinstore trade row is missing trade identifier''),
        ([''execQty'', ''matchQty'', ''quantity'', ''filledQty''], ''Coinstore trade row is missing execution quantity'')]
       (rows_of payload)"

definition verify_runtime_ready :: "crypto \<Rightarrow> printer \<Rightarrow> int \<Rightarrow> ExecutionCredentials \<Rightarrow> SymbolPrecision \<Rightarrow> OrderIntent \<Rightarrow> unit res" where
  "verify_runtime_ready cr printer now_ms credentials precision intent =
     bindr verify_endpoints (\<lambda>_. bindr (verify_signing cr printer now_ms credentials) (\<lambda>_. validate_symbol_precision intent precision))"

section \<open>Safety\<close>

definition live_orders :: "uuid \<Rightarrow> OrderStatus list \<Rightarrow> session \<Rightarrow> OrderRow list" where
  "live_orders account_id statuses d = filter (\<lambda>row. or_exchange_account_id row = account_id \<and> or_status row \<in> set statuses) (tbl_orders d)"

definition assert_duplicate_order :: "uuid \<Rightarrow> OrderIntent \<Rightarrow> session \<Rightarrow> unit res" where
  "assert_duplicate_order account_id intent d =
     bindr (scalar_one_or_none (filter (\<lambda>row. or_client_order_id row = oi_client_order_id intent)
         (live_orders account_id (active_statuses @ [OS_created]) d))) (\<lambda>found.
     if found \<noteq> None then Inl (CoinstoreSafetyError (''duplicate_client_order_id:'' @ oi_client_order_id intent)) else Inr ())"

fun crosses :: "ExecutionSide \<Rightarrow> decimal \<Rightarrow> decimal option \<Rightarrow> bool" where
  "crosses _ _ None = False"
| "crosses Side_buy price (Some existing) = (price \<ge> existing)"
| "crosses Side_sell price (Some existing) = (price \<le> existing)"

definition assert_no_self_trade :: "uuid \<Rightarrow> OrderIntent \<Rightarrow> session \<Rightarrow> unit res" where
  "assert_no_self_trade account_id intent d =
     (case oi_price intent of
        None \<Rightarrow> Inr ()
      | Some price \<Rightarrow>
          (case find (\<lambda>row. crosses (oi_side intent) price (or_price row))
                  (filter (\<lambda>row. or_side row = opposite (oi_side intent)) (live_orders account_id active_statuses d)) of
             None \<Rightarrow> Inr ()
           | Some row \<Rightarrow> Inl (CoinstoreSafetyError (''self_trade_prevention:'' @ oi_client_order_id intent @ '':'' @ or_client_order_id row))))"

definition assert_order_safe :: "uuid \<Rightarrow> OrderIntent \<Rightarrow> session \<Rightarrow> unit res" where
  "assert_order_safe account_id intent d =
     bindr (assert_duplicate_order account_id intent d) (\<lambda>_. assert_no_self_trade account_id intent d)"

definition assert_fill_safe :: "printer \<Rightarrow> string \<Rightarrow> obj \<Rightarrow> unit res" where
  "assert_fill_safe printer account_text payload =
     (let counterparty = get_or payload [''counterpartyAccountId''] (jget payload ''counterparty_account_id'')
      in if counterparty \<noteq> JNull \<and> py_str printer counterparty = account_text then Inl (CoinstoreSafetyError ''wash_trade_detected'')
         else if lower (py_str printer (get_or payload [''selfTrade'', ''self_trade''] (JStr []))) \<in> {''true'', ''1'', ''yes''}
         then Inl (CoinstoreSafetyError ''self_trade_fill_detected'')
         else Inr ())"

record CoinstoreSafetyReport =
  csr_stale_order_ids :: "string list"
  csr_orphan_order_ids :: "string list"

definition detect_stale_and_orphan_orders :: "datetime \<Rightarrow> int \<Rightarrow> uuid \<Rightarrow> string list \<Rightarrow> session \<Rightarrow> CoinstoreSafetyReport" where
  "detect_stale_and_orphan_orders now stale_after_seconds account_id exchange_orders d =
     (let cutoff = now - stale_after_seconds * 1000000;
          rows = live_orders account_id active_statuses d;
          exchange_ids = filter (\<lambda>i. i \<noteq> []) exchange_orders
      in \<lparr>csr_stale_order_ids = map or_client_order_id (filter (\<lambda>row. or_updated_at row < cutoff) rows),
          csr_orphan_order_ids = map or_client_order_id
            (filter (\<lambda>row. text_or (or_exchange_order_id row) [] \<noteq> [] \<and> the (or_exchange_order_id row) \<notin> set exchange_ids) rows)\<rparr>)"

section \<open>Reconciliation with the database\<close>

fun value_of_normalized :: "NormalizedOrderStatus \<Rightarrow> string" where
  "value_of_normalized Status_new = ''new''"
| "value_of_normalized Status_open = ''open''"
| "value_of_normalized Status_partially_filled = ''partially_filled''"
| "value_of_normalized Status_filled = ''filled''"
| "value_of_normalized Status_cancelled = ''cancelled''"
| "value_of_normalized Status_rejected = ''rejected''"
| "value_of_normalized Status_expired = ''expired''"
| "value_of_normalized Status_unknown = ''unknown''"

fun value_of_order_status :: "OrderStatus \<Rightarrow> string" where
  "value_of_order_status OS_created = ''created''"
| "value_of_order_status OS_submitted = ''submitted''"
| "value_of_order_status OS_open = ''open''"
| "value_of_order_status OS_partially_filled = ''partially_filled''"
| "value_of_order_status OS_filled = ''filled''"
| "value_of_order_status OS_cancel_pending = ''cancel_pending''"
| "value_of_order_status OS_cancelled = ''cancelled''"
| "value_of_order_status OS_rejected = ''rejected''"
| "value_of_order_status OS_expired = ''expired''"
| "value_of_order_status OS_failed = ''failed''"

record CoinstoreReconciliationReport =
  crr_exchange :: ReconciliationSnapshot
  crr_internal :: ReconciliationSnapshot
  crr_mismatches :: "ReconciliationMismatch list"
  crr_stale_order_ids :: "string list"
  crr_orphan_order_ids :: "string list"

text \<open>\<open>Decimal(str(d.get(k1) or ... or last))\<close> with a decimal last.\<close>

definition decimal_of :: "printer \<Rightarrow> obj \<Rightarrow> string list \<Rightarrow> decimal \<Rightarrow> decimal res" where
  "decimal_of printer d ks last_value =
     (let v = get_or d ks JNull
      in if json_truthy v then bindr (parse_decimal (py_str printer v)) (\<lambda>r. Inr (fst r)) else Inr last_value)"

definition trade_id_of :: "printer \<Rightarrow> obj \<Rightarrow> string" where
  "trade_id_of printer payload = py_str printer (get_or payload [''tradeId'', ''trade_id'', ''matchId'', ''match_id''] (JStr []))"

definition fill_record :: "printer \<Rightarrow> obj \<Rightarrow> FillRecord res" where
  "fill_record printer payload =
     bindr (decimal_of printer payload [''execQty'', ''matchQty'', ''quantity'', ''filledQty''] 0) (\<lambda>quantity.
     bindr (decimal_of printer payload [''price'', ''avgPrice'', ''orderPrice''] 0) (\<lambda>price.
     bindr (decimal_of printer payload [''fee''] 0) (\<lambda>fee.
     Inr \<lparr>fr_trade_id = trade_id_of printer payload,
          fr_order_id = py_str printer (get_or payload [''orderId'', ''order_id'', ''clientOrderId'', ''clOrdId''] (JStr [])),
          fr_symbol = py_str printer (get_or payload [''symbol'', ''currencyPair''] (JStr [])),
          fr_quantity = quantity, fr_price = price, fr_fee = fee\<rparr>)))"

definition exchange_order_record :: "ExecutionOrder \<Rightarrow> OrderRecord" where
  "exchange_order_record item =
     \<lparr>orr_client_order_id = text_or (eo_client_order_id item) (text_or (eo_exchange_order_id item) []),
      orr_exchange_order_id = eo_exchange_order_id item, orr_symbol = eo_symbol item,
      orr_status = value_of_normalized (eo_status item), orr_filled_quantity = eo_filled_quantity item,
      orr_remaining_quantity = max 0 ((case eo_quantity item of Some q \<Rightarrow> q | None \<Rightarrow> 0) - eo_filled_quantity item)\<rparr>"

definition exchange_snapshot :: "printer \<Rightarrow> Balance list \<Rightarrow> ExecutionOrder list \<Rightarrow> obj list \<Rightarrow> ReconciliationSnapshot res" where
  "exchange_snapshot printer balances orders fills =
     bindr (collect_res (fill_record printer) fills) (\<lambda>fs.
     Inr \<lparr>rs_balances = map (\<lambda>b. \<lparr>br_asset = bl_asset b, br_total = bl_total b, br_available = bl_available b, br_reserved = bl_reserved b\<rparr>) balances,
          rs_positions = [], rs_orders = map exchange_order_record orders, rs_fills = fs, rs_pnl = None\<rparr>)"

text \<open>The newest snapshot of every asset, in the order the assets were first seen.\<close>

definition latest_balances :: "InventorySnapshotRow list \<Rightarrow> (string, InventorySnapshotRow) dict" where
  "latest_balances rows =
     fold (\<lambda>row latest. case dict_get latest (is_asset row) of
         None \<Rightarrow> dict_set (is_asset row) row latest
       | Some current \<Rightarrow> if is_captured_at row > is_captured_at current then dict_set (is_asset row) row latest else latest) rows []"

definition pair_symbol :: "(uuid \<Rightarrow> string) \<Rightarrow> session \<Rightarrow> uuid \<Rightarrow> string" where
  "pair_symbol uuid_text d pair_id =
     dict_get_or (fold (\<lambda>row. dict_set (tp_id row) (tp_normalized_symbol row)) (tbl_trading_pairs d) []) pair_id (uuid_text pair_id)"

definition internal_snapshot :: "(uuid \<Rightarrow> string) \<Rightarrow> ExchangeAccountRow \<Rightarrow> session \<Rightarrow> ReconciliationSnapshot" where
  "internal_snapshot uuid_text account d =
     \<lparr>rs_balances = map (\<lambda>(_, row). \<lparr>br_asset = is_asset row, br_total = is_total_balance row, br_available = is_available_balance row,
          br_reserved = is_reserved_balance row\<rparr>)
        (latest_balances (filter (\<lambda>row. is_exchange_account_id row = ea_id account) (tbl_inventory_snapshots d))),
      rs_positions = [],
      rs_orders = map (\<lambda>row. \<lparr>orr_client_order_id = or_client_order_id row, orr_exchange_order_id = or_exchange_order_id row,
          orr_symbol = pair_symbol uuid_text d (or_trading_pair_id row), orr_status = value_of_order_status (or_status row),
          orr_filled_quantity = or_filled_quantity row, orr_remaining_quantity = max 0 (or_quantity row - or_filled_quantity row)\<rparr>)
        (filter (\<lambda>row. or_exchange_account_id row = ea_id account) (tbl_orders d)),
      rs_fills = map (\<lambda>row. \<lparr>fr_trade_id = tr_exchange_trade_id row, fr_order_id = uuid_text (tr_order_id row),
          fr_symbol = pair_symbol uuid_text d (tr_trading_pair_id row), fr_quantity = tr_quantity row, fr_price = tr_price row,
          fr_fee = tr_fee_amount row\<rparr>)
        (filter (\<lambda>row. tr_exchange_account_id row = ea_id account) (tbl_trades d)),
      rs_pnl = None\<rparr>"

definition reconcile_books ::
  "printer \<Rightarrow> (uuid \<Rightarrow> string) \<Rightarrow> ExchangeAccountRow \<Rightarrow> Balance list \<Rightarrow> ExecutionOrder list \<Rightarrow> obj list \<Rightarrow> string list \<Rightarrow> string list
     \<Rightarrow> session \<Rightarrow> CoinstoreReconciliationReport res" where
  "reconcile_books printer uuid_text account balances orders fills stale_order_ids orphan_order_ids d =
     bindr (exchange_snapshot printer balances orders fills) (\<lambda>ex.
     let internal = internal_snapshot uuid_text account d;
         mismatches = reconcile default_reconciliation_engine ex internal
           @ map (\<lambda>order_id. mismatch ''order'' order_id RSev_warning ''local order is stale'' (ShownText ''fresh'') (ShownText ''stale'')) stale_order_ids
           @ map (\<lambda>order_id. mismatch ''order'' order_id RSev_critical ''local order missing from exchange active order set''
               (ShownText ''missing'') (ShownText ''present'')) orphan_order_ids
     in Inr \<lparr>crr_exchange = ex, crr_internal = internal, crr_mismatches = mismatches, crr_stale_order_ids = stale_order_ids,
             crr_orphan_order_ids = orphan_order_ids\<rparr>)"

end
