(* ===== verification/Coinstore.thy ===== *)
theory Coinstore
  imports Coinstore_Checks
begin

text \<open>
  \<open>execution/coinstore.py\<close>: the service that trades on Coinstore. It composes the REST client, the
  validation and safety checks and the database: every order it places, cancels or hears of on the
  private stream becomes a row. The state is the session, the client once it is made, and the two
  caches. The environment has the client's environment, the decryption of stored secrets
  (\<open>security/secrets.py\<close> calls the \<open>cryptography\<close> package), the clock (one reading per operation) and
  the texts of uuids.
\<close>

section \<open>State\<close>

record coinstore_env =
  ce_http :: http_env
  ce_decrypt :: "string \<Rightarrow> string res"
  ce_now :: datetime
  ce_now_ms :: int
  ce_monotonic :: float
  ce_uuid_text :: "uuid \<Rightarrow> string"
  ce_uuid_hex :: "uuid \<Rightarrow> string"

record CoinstoreExecutionService =
  cs_session :: session
  cs_client :: "client option"
  cs_account :: "ExchangeAccountRow option"
  cs_precision :: "(string, SymbolPrecision) dict option"

type_synonym 'a cs_op = "(CoinstoreExecutionService, 'a) op"

definition CoinstoreExecutionService_init :: "session \<Rightarrow> CoinstoreExecutionService" where
  "CoinstoreExecutionService_init session = \<lparr>cs_session = session, cs_client = None, cs_account = None, cs_precision = None\<rparr>"

definition db :: "(session, 'a) op \<Rightarrow> 'a cs_op" where
  "db = zoom cs_session (\<lambda>d s. s\<lparr>cs_session := d\<rparr>)"

definition checks :: "(session \<Rightarrow> 'a res) \<Rightarrow> 'a cs_op" where
  "checks f = bindm (reads (\<lambda>s. f (cs_session s))) lift_res"

text \<open>\<open>order_by(updated_at.desc()).limit(1)\<close>; of rows with the same time the first is taken.\<close>

definition newest_account :: "session \<Rightarrow> ExchangeAccountRow option" where
  "newest_account d =
     (case sort_key (\<lambda>row. - ea_updated_at row) (filter (\<lambda>row. ea_exchange_name row = ''coinstore'' \<and> ea_is_enabled row) (tbl_exchange_accounts d)) of
        [] \<Rightarrow> None
      | row # _ \<Rightarrow> Some row)"

definition account :: "ExchangeAccountRow cs_op" where
  "account =
     bindm (reads cs_account) (\<lambda>known. case known of
       Some row \<Rightarrow> ret row
     | None \<Rightarrow>
         bindm (reads (\<lambda>s. newest_account (cs_session s))) (\<lambda>found. case found of
           None \<Rightarrow> raise_err (RuntimeError ''no enabled Coinstore exchange account'')
         | Some row \<Rightarrow> seqm (modifies (\<lambda>s. s\<lparr>cs_account := Some row\<rparr>)) (ret row)))"

text \<open>\<open>SecretCipher.decrypt\<close>: nothing is the decryption of nothing.\<close>

definition decrypt_secret :: "coinstore_env \<Rightarrow> string option \<Rightarrow> string option res" where
  "decrypt_secret env secret = (case secret of None \<Rightarrow> Inr None | Some c \<Rightarrow> bindr (ce_decrypt env c) (\<lambda>t. Inr (Some t)))"

definition coinstore_rate_limit :: RateLimitRule where
  "coinstore_rate_limit = \<lparr>rr_requests = 300, rr_window_seconds = 60\<rparr>"

definition new_client :: "coinstore_env \<Rightarrow> ExecutionCredentials \<Rightarrow> client" where
  "new_client env credentials =
     \<lparr>cl_venue = Venue_coinstore, cl_credentials = credentials, cl_bucket = AsyncRateLimiter_init (ce_monotonic env) coinstore_rate_limit,
      cl_attempts = 0, cl_sent = []\<rparr>"

definition service_client :: "coinstore_env \<Rightarrow> client cs_op" where
  "service_client env =
     bindm (reads cs_client) (\<lambda>known. case known of
       Some c \<Rightarrow> ret c
     | None \<Rightarrow>
         bindm account (\<lambda>acc.
         bindm (lift_res (decrypt_secret env (Some (ea_api_key_ciphertext acc)))) (\<lambda>api_key.
         bindm (lift_res (decrypt_secret env (Some (ea_api_secret_ciphertext acc)))) (\<lambda>api_secret.
         if text_or api_key [] = [] \<or> text_or api_secret [] = []
         then raise_err (RuntimeError ''enabled Coinstore account is missing API credentials'')
         else
           bindm (lift_res (decrypt_secret env (ea_passphrase_ciphertext acc))) (\<lambda>passphrase.
           let c = new_client env \<lparr>ec_api_key = text_or api_key [], ec_api_secret = text_or api_secret [], ec_passphrase = passphrase, ec_memo = None\<rparr>
           in seqm (modifies (\<lambda>s. s\<lparr>cs_client := Some c\<rparr>)) (ret c))))))"

text \<open>A call on the service's client: the client is made first and keeps its own state.\<close>

definition on_client :: "'a client_op \<Rightarrow> 'a cs_op" where
  "on_client m s =
     (case cs_client s of
        Some c \<Rightarrow> (case m c of (r, c') \<Rightarrow> (r, s\<lparr>cs_client := Some c'\<rparr>))
      | None \<Rightarrow> (Inl (AttributeError ''client''), s))"

definition with_client :: "coinstore_env \<Rightarrow> 'a client_op \<Rightarrow> 'a cs_op" where
  "with_client env m = seqm (service_client env) (on_client m)"

section \<open>Symbols\<close>

definition normalize_symbol :: "string \<Rightarrow> string" where
  "normalize_symbol symbol = map (\<lambda>c. if c = CHR ''-'' \<or> c = CHR ''_'' then CHR ''/'' else c) (upper symbol)"

definition compact_symbol :: "string \<Rightarrow> string" where
  "compact_symbol s = filter (\<lambda>c. c \<noteq> CHR ''/'') s"

definition pair_rows :: "string \<Rightarrow> session \<Rightarrow> TradingPairRow list" where
  "pair_rows symbol d =
     filter (\<lambda>row. tp_exchange_name row = ''coinstore''
       \<and> (tp_normalized_symbol row = normalize_symbol symbol \<or> tp_venue_symbol row = compact_symbol (normalize_symbol symbol))) (tbl_trading_pairs d)"

definition trading_pair :: "string \<Rightarrow> TradingPairRow cs_op" where
  "trading_pair symbol =
     bindm (checks (\<lambda>d. scalar_one_or_none (pair_rows symbol d))) (\<lambda>found. case found of
       None \<Rightarrow> raise_err (RuntimeError (''Coinstore trading pair '' @ symbol @ '' is not configured''))
     | Some row \<Rightarrow> ret row)"

definition precision :: "coinstore_env \<Rightarrow> (string, SymbolPrecision) dict cs_op" where
  "precision env =
     bindm (reads cs_precision) (\<lambda>known. case known of
       Some p \<Rightarrow> ret p
     | None \<Rightarrow> bindm (with_client env (discover_symbol_precision (ce_http env))) (\<lambda>p.
               seqm (modifies (\<lambda>s. s\<lparr>cs_precision := Some p\<rparr>)) (ret p)))"

definition precision_of_row :: "TradingPairRow \<Rightarrow> SymbolPrecision option" where
  "precision_of_row row =
     (case (tp_tick_size row, tp_lot_size row) of
        (Some tick, Some lot) \<Rightarrow>
          Some \<lparr>sp_symbol = tp_normalized_symbol row, sp_venue_symbol = tp_venue_symbol row, sp_price_tick = tick, sp_quantity_step = lot,
                sp_min_quantity = (case tp_min_order_size row of Some x \<Rightarrow> x | None \<Rightarrow> 0),
                sp_min_notional = (case tp_min_notional row of Some x \<Rightarrow> x | None \<Rightarrow> 0),
                sp_price_precision = tp_price_precision row, sp_quantity_precision = tp_quantity_precision row\<rparr>
      | _ \<Rightarrow> None)"

definition precision_for_symbol :: "coinstore_env \<Rightarrow> string \<Rightarrow> SymbolPrecision cs_op" where
  "precision_for_symbol env symbol =
     bindm (precision env) (\<lambda>known.
     let normalized = normalize_symbol symbol; compact = compact_symbol normalized in
     case dict_get known normalized of
       Some p \<Rightarrow> ret p
     | None \<Rightarrow>
         (case find (\<lambda>p. upper (sp_venue_symbol p) = compact \<or> compact_symbol (upper (sp_symbol p)) = compact) (map snd known) of
            Some p \<Rightarrow> ret p
          | None \<Rightarrow>
              bindm (trading_pair symbol) (\<lambda>row. case precision_of_row row of
                None \<Rightarrow> raise_err (RuntimeError (''Coinstore precision unavailable for '' @ symbol))
              | Some p \<Rightarrow> ret p)))"

definition ensure_live_pair :: "coinstore_env \<Rightarrow> string \<Rightarrow> TradingPairRow cs_op" where
  "ensure_live_pair env symbol =
     (let normalized = normalize_symbol symbol in
      bindm (checks (\<lambda>d. scalar_one_or_none (pair_rows symbol d))) (\<lambda>found. case found of
        Some row \<Rightarrow> ret row
      | None \<Rightarrow>
          if CHR ''/'' \<notin> set normalized then raise_err (RuntimeError (''Coinstore order symbol '' @ symbol @ '' is not normalized''))
          else
            bindm (precision_for_symbol env normalized) (\<lambda>p.
            bindm (db uuid4) (\<lambda>u.
            let row = \<lparr>tp_id = u, tp_exchange_name = ''coinstore'', tp_base_asset = takeWhile (\<lambda>c. c \<noteq> CHR ''/'') normalized,
                  tp_quote_asset = tl (dropWhile (\<lambda>c. c \<noteq> CHR ''/'') normalized), tp_normalized_symbol = normalized,
                  tp_venue_symbol = sp_venue_symbol p, tp_price_precision = sp_price_precision p,
                  tp_quantity_precision = sp_quantity_precision p, tp_min_order_size = Some (sp_min_quantity p),
                  tp_min_notional = Some (sp_min_notional p), tp_tick_size = Some (sp_price_tick p), tp_lot_size = Some (sp_quantity_step p),
                  tp_is_enabled = True\<rparr>
            in seqm (db (modifies (\<lambda>d. d\<lparr>tbl_trading_pairs := tbl_trading_pairs d @ [row]\<rparr>))) (ret row)))))"

section \<open>Rows\<close>

fun order_status :: "NormalizedOrderStatus \<Rightarrow> OrderStatus" where
  "order_status Status_new = OS_created"
| "order_status Status_open = OS_open"
| "order_status Status_partially_filled = OS_partially_filled"
| "order_status Status_filled = OS_filled"
| "order_status Status_cancelled = OS_cancelled"
| "order_status Status_rejected = OS_rejected"
| "order_status Status_expired = OS_expired"
| "order_status Status_unknown = OS_submitted"

text \<open>\<open>order.client_order_id or intent.client_order_id or f"coinstore-..."\<close>; a fresh uuid only when there is no identifier.\<close>

definition live_client_order_id :: "coinstore_env \<Rightarrow> ExecutionOrder \<Rightarrow> OrderIntent option \<Rightarrow> string cs_op" where
  "live_client_order_id env order intent =
     (let cid = text_or (eo_client_order_id order) (of_intent oi_client_order_id [] intent)
      in if cid \<noteq> [] then ret cid
         else (case text_or (eo_exchange_order_id order) [] of
                 [] \<Rightarrow> bindm (db uuid4) (\<lambda>u. ret (''coinstore-'' @ ce_uuid_hex env u))
               | oid \<Rightarrow> ret (''coinstore-'' @ oid)))"

definition live_order_row :: "datetime \<Rightarrow> uuid \<Rightarrow> string \<Rightarrow> uuid \<Rightarrow> uuid \<Rightarrow> ExecutionOrder \<Rightarrow> OrderIntent option \<Rightarrow> OrderRow" where
  "live_order_row now u cid account_id pair_id order intent =
     \<lparr>or_id = u, or_client_order_id = cid, or_exchange_order_id = eo_exchange_order_id order, or_exchange_account_id = account_id,
      or_trading_pair_id = pair_id,
      or_side = (case eo_side order of Some x \<Rightarrow> x | None \<Rightarrow> of_intent oi_side Side_buy intent),
      or_order_type = (case eo_order_type order of Some x \<Rightarrow> x | None \<Rightarrow> of_intent oi_order_type Type_limit intent),
      or_status = order_status (eo_status order),
      or_price = (case eo_price order of Some x \<Rightarrow> Some x | None \<Rightarrow> of_intent oi_price None intent),
      or_quantity = (case eo_quantity order of Some x \<Rightarrow> x | None \<Rightarrow> of_intent oi_quantity 0 intent),
      or_filled_quantity = eo_filled_quantity order, or_average_fill_price = eo_average_price order,
      or_fee_amount = (case eo_fee order of Some x \<Rightarrow> x | None \<Rightarrow> 0),
      or_metadata_json = [(''mode'', MStr ''live''), (''venue'', MStr ''coinstore'')], or_metadata_raw = Some (eo_raw order),
      or_created_at = now, or_updated_at = now\<rparr>"

text \<open>The columns the update assigns; the time of the update is set when a column changed.\<close>

definition live_row_update :: "datetime \<Rightarrow> ExecutionOrder \<Rightarrow> OrderRow \<Rightarrow> OrderRow" where
  "live_row_update now order row =
     (let row' = row\<lparr>or_exchange_order_id := (case eo_exchange_order_id order of Some (c # cs) \<Rightarrow> Some (c # cs) | _ \<Rightarrow> or_exchange_order_id row),
           or_status := order_status (eo_status order), or_filled_quantity := eo_filled_quantity order,
           or_average_fill_price := eo_average_price order,
           or_fee_amount := (case eo_fee order of Some x \<Rightarrow> if x \<noteq> 0 then x else or_fee_amount row | None \<Rightarrow> or_fee_amount row),
           or_metadata_json := dict_set ''venue'' (MStr ''coinstore'') (or_metadata_json row), or_metadata_raw := Some (eo_raw order)\<rparr>
      in if row' = row then row else row'\<lparr>or_updated_at := now\<rparr>)"

definition upsert_order :: "coinstore_env \<Rightarrow> ExecutionOrder \<Rightarrow> OrderIntent option \<Rightarrow> uuid \<Rightarrow> uuid \<Rightarrow> string \<Rightarrow> OrderRow cs_op" where
  "upsert_order env order intent acc pair cid =
     bindm (checks (\<lambda>d. scalar_one_or_none (filter (\<lambda>row. or_client_order_id row = cid) (tbl_orders d)))) (\<lambda>found. case found of
       None \<Rightarrow>
         bindm (db uuid4) (\<lambda>u.
         let row = live_order_row (ce_now env) u cid acc pair order intent
         in seqm (db (modifies (\<lambda>d. d\<lparr>tbl_orders := tbl_orders d @ [row]\<rparr>))) (ret row))
     | Some row \<Rightarrow>
         seqm (db (modifies (\<lambda>d. d\<lparr>tbl_orders := update_rows (\<lambda>row. or_client_order_id row = cid) (live_row_update (ce_now env) order) (tbl_orders d)\<rparr>)))
              (ret (live_row_update (ce_now env) order row)))"

definition persist_live_order :: "coinstore_env \<Rightarrow> ExecutionOrder \<Rightarrow> OrderIntent option \<Rightarrow> OrderRow cs_op" where
  "persist_live_order env order intent =
     bindm account (\<lambda>acc.
     let symbol = (if eo_symbol order \<noteq> [] then eo_symbol order else of_intent oi_symbol [] intent) in
     bindm (ensure_live_pair env symbol) (\<lambda>pair.
     bindm (live_client_order_id env order intent) (\<lambda>cid.
     upsert_order env order intent (ea_id acc) (tp_id pair) cid)))"

definition persist_balance_update :: "coinstore_env \<Rightarrow> Balance \<Rightarrow> InventorySnapshotRow cs_op" where
  "persist_balance_update env balance =
     bindm account (\<lambda>acc.
     bindm (db uuid4) (\<lambda>u.
     let row = \<lparr>is_id = u, is_exchange_account_id = ea_id acc, is_asset = bl_asset balance, is_total_balance = bl_total balance,
           is_available_balance = bl_available balance, is_reserved_balance = bl_reserved balance, is_valuation_asset = ''USDT'',
           is_valuation_price = None, is_valuation_amount = None, is_captured_at = ce_now env,
           is_metadata_json = [(''source'', MStr ''coinstore_private_websocket'')], is_metadata_raw = Some (bl_raw balance)\<rparr>
     in seqm (db (modifies (\<lambda>d. d\<lparr>tbl_inventory_snapshots := tbl_inventory_snapshots d @ [row]\<rparr>))) (ret row)))"

section \<open>Messages of the private stream\<close>

definition opt_int :: "json \<Rightarrow> int option" where
  "opt_int v = (case py_int v of Inr n \<Rightarrow> Some n | Inl _ \<Rightarrow> None)"

definition is_balance_payload :: "obj \<Rightarrow> bool" where
  "is_balance_payload payload \<longleftrightarrow> opt_int (jget payload ''messageType'') = Some 3002
     \<or> any_key payload [''totalBalance'', ''available'', ''availableBalance'', ''frozenInitMargin'']"

definition is_order_payload :: "obj \<Rightarrow> bool" where
  "is_order_payload payload \<longleftrightarrow> opt_int (jget payload ''messageType'') = Some 3004
     \<or> any_key payload [''orderId'', ''clientOrderId'', ''clOrdId'', ''orderStatus'']"

definition is_fill_payload :: "obj \<Rightarrow> bool" where
  "is_fill_payload payload \<longleftrightarrow> any_key payload [''tradeId'', ''trade_id'', ''matchId'', ''match_id'']
     \<and> any_key payload [''execQty'', ''matchQty'', ''filledQty'']"

definition balance_from_payload :: "printer \<Rightarrow> obj \<Rightarrow> Balance res" where
  "balance_from_payload printer payload =
     (let asset = upper (py_str printer (get_or payload [''asset'', ''currency'', ''coin'', ''currencyId''] (JStr []))) in
      if asset = [] then Inl (RuntimeError ''Coinstore balance update is missing asset/currency'')
      else bindr (decimal_of printer payload [''available'', ''availableBalance''] 0) (\<lambda>available.
           bindr (decimal_of printer payload [''totalBalance'', ''total'', ''balance''] available) (\<lambda>total.
           bindr (decimal_of printer payload [''reserved'', ''locked'', ''frozenInitMargin''] (max 0 (total - available))) (\<lambda>reserved.
           Inr \<lparr>bl_venue = Venue_coinstore, bl_asset = asset, bl_total = total, bl_available = available, bl_reserved = reserved,
                bl_raw = payload\<rparr>))))"

definition coinstore_order_status :: "printer \<Rightarrow> json \<Rightarrow> NormalizedOrderStatus" where
  "coinstore_order_status printer v =
     (case opt_int v of
        Some n \<Rightarrow> numeric_status n
      | None \<Rightarrow> normalize_status (if v = JNull then None else Some (py_str printer v)))"

definition side_from :: "printer \<Rightarrow> json \<Rightarrow> ExecutionSide option" where
  "side_from printer v =
     (let normalized = lower (py_str printer v)
      in if normalized \<in> {''1'', ''buy'', ''bid'', ''b''} then Some Side_buy
         else if normalized \<in> {''-1'', ''sell'', ''ask'', ''s''} then Some Side_sell
         else None)"

definition order_type_from :: "printer \<Rightarrow> json \<Rightarrow> ExecutionOrderType option" where
  "order_type_from printer v =
     (let normalized = lower (py_str printer v)
      in if normalized \<in> {''1'', ''limit''} then Some Type_limit
         else if normalized \<in> {''3'', ''market''} then Some Type_market
         else if normalized \<in> {''post_only'', ''post-only''} then Some Type_post_only
         else None)"

definition symbol_from_payload :: "printer \<Rightarrow> obj \<Rightarrow> string res" where
  "symbol_from_payload printer payload =
     (let raw = get_or payload [''symbol'', ''currencyPair'', ''instrumentId''] (jget payload ''contractId'')
      in if raw = JNull then Inl (RuntimeError ''Coinstore private update is missing symbol/instrument'')
         else Inr (normalize_symbol (py_str printer raw)))"

definition execution_order_from_payload :: "printer \<Rightarrow> obj \<Rightarrow> ExecutionOrder res" where
  "execution_order_from_payload printer payload =
     bindr (symbol_from_payload printer payload) (\<lambda>symbol.
     bindr (decimal_of printer payload [''quantity'', ''orderQty'', ''ordQty'', ''execQty'', ''matchQty''] 0) (\<lambda>quantity.
     bindr (decimal_of printer payload [''matchQty'', ''execQty'', ''filledQty''] 0) (\<lambda>filled.
     bindr (decimal_of printer payload [''price'', ''orderPrice'', ''avgPrice''] 0) (\<lambda>price.
     bindr (decimal_of printer payload [''avgPrice'', ''averagePrice''] 0) (\<lambda>average.
     bindr (decimal_of printer payload [''fee''] 0) (\<lambda>fee.
     Inr \<lparr>eo_venue = Venue_coinstore, eo_symbol = symbol,
          eo_client_order_id = text_or_none (py_str printer (get_or payload [''clientOrderId'', ''clOrdId'', ''client_order_id''] (JStr []))),
          eo_exchange_order_id = text_or_none (py_str printer (get_or payload [''orderId'', ''order_id'', ''ordId''] (JStr []))),
          eo_status = coinstore_order_status printer (get_or payload [''orderStatus'', ''status''] (jget payload ''state'')),
          eo_side = side_from printer (jget payload ''side''),
          eo_order_type = order_type_from printer (get_or payload [''orderType'', ''ordType''] (jget payload ''type'')),
          eo_price = (if price > 0 then Some price else None), eo_quantity = Some quantity, eo_filled_quantity = filled,
          eo_average_price = (if average \<noteq> 0 then Some average else None), eo_fee = Some fee, eo_raw = payload\<rparr>))))))"

text \<open>\<open>datetime.fromtimestamp\<close> in microseconds, rounded half to even.\<close>

definition timestamp_of :: "datetime \<Rightarrow> json \<Rightarrow> datetime res" where
  "timestamp_of now v =
     (if v = JNull \<or> v = JStr [] then Inr now
      else bindr (py_float v) (\<lambda>number.
        let seconds = (if number > 10000000000 then number / 1000 else number) in Inr (round_half_even (seconds * 1000000))))"

definition live_trade_row :: "coinstore_env \<Rightarrow> uuid \<Rightarrow> uuid \<Rightarrow> OrderRow \<Rightarrow> obj \<Rightarrow> TradeRow res" where
  "live_trade_row env u account_id order payload =
     (let printer = he_printer (ce_http env) in
      bindr (decimal_of printer payload [''price'', ''avgPrice'', ''orderPrice''] 0) (\<lambda>price.
      bindr (decimal_of printer payload [''execQty'', ''matchQty'', ''quantity'', ''filledQty''] 0) (\<lambda>quantity.
      bindr (decimal_of printer payload [''fee''] 0) (\<lambda>fee.
      bindr (timestamp_of (ce_now env) (get_or payload [''matchTime'', ''time''] (jget payload ''ts''))) (\<lambda>traded_at.
      Inr \<lparr>tr_id = u, tr_order_id = or_id order, tr_exchange_trade_id = trade_id_of printer payload, tr_exchange_account_id = account_id,
           tr_trading_pair_id = or_trading_pair_id order,
           tr_side = (case side_from printer (jget payload ''side'') of Some side \<Rightarrow> side | None \<Rightarrow> or_side order),
           tr_price = price, tr_quantity = quantity, tr_fee_amount = fee,
           tr_fee_asset = Some (py_str printer (get_or payload [''feeAsset'', ''feeCurrency''] (JStr []))), tr_traded_at = traded_at,
           tr_metadata_json = [(''source'', MStr ''coinstore_private_websocket'')], tr_metadata_raw = Some payload\<rparr>)))))"

definition book_trade :: "coinstore_env \<Rightarrow> uuid \<Rightarrow> OrderRow \<Rightarrow> obj \<Rightarrow> TradeRow cs_op" where
  "book_trade env account_id order payload =
     (let trade_id = trade_id_of (he_printer (ce_http env)) payload in
      bindm (checks (\<lambda>d. scalar_one_or_none (filter (\<lambda>row. tr_exchange_account_id row = account_id \<and> tr_exchange_trade_id row = trade_id) (tbl_trades d)))) (\<lambda>found.
      case found of
        Some row \<Rightarrow> ret row
      | None \<Rightarrow>
          bindm (db uuid4) (\<lambda>u.
          bindm (lift_res (live_trade_row env u account_id order payload)) (\<lambda>row.
          seqm (db (modifies (\<lambda>d. d\<lparr>tbl_trades := tbl_trades d @ [row]\<rparr>))) (ret row)))))"

definition persist_fill_update :: "coinstore_env \<Rightarrow> obj \<Rightarrow> TradeRow cs_op" where
  "persist_fill_update env payload =
     (let printer = he_printer (ce_http env) in
      bindm account (\<lambda>acc.
      seqm (lift_res (assert_fill_safe printer (ce_uuid_text env (ea_id acc)) payload)) (
      bindm (lift_res (execution_order_from_payload printer payload)) (\<lambda>parsed.
      bindm (persist_live_order env parsed None) (\<lambda>order.
      if trade_id_of printer payload = [] then raise_err (RuntimeError ''Coinstore fill update is missing tradeId/matchId'')
      else book_trade env (ea_id acc) order payload)))))"

subsection \<open>Unpacking a message\<close>

definition nested_of :: "obj \<Rightarrow> json" where
  "nested_of d = get_or d [''data'', ''items'', ''orders'', ''matches''] (jget d ''balances'')"

lemma jget_size: "size (jget d k) \<le> size_list (size_prod (\<lambda>_. 0) size) d"
proof (cases "dict_get d k")
  case (Some v)
  then have "(k, v) \<in> set d" by (simp add: map_of_SomeD)
  then have "size_prod (\<lambda>_. 0) size (k, v) \<le> size_list (size_prod (\<lambda>_. 0) size) d" by (rule size_list_estimation') simp
  then show ?thesis using Some by (simp add: jget_def)
qed (simp add: jget_def)

lemma nested_size: "size (nested_of d) < size (JDict d)"
  using jget_size[of d] by (auto simp: nested_of_def le_imp_less_Suc)

lemma size_list_append: "size_list f (xs @ ys) = size_list f xs + size_list f ys"
  by (induction xs) auto

lemma nested_list_size: "nested_of d = JList xs \<Longrightarrow> size_list size xs < size_list (size_prod (\<lambda>_. 0) size) d"
  using nested_size[of d] by simp

text \<open>The work list: lists are opened behind the other candidates, dicts with a list inside too.\<close>

function unpack :: "json list \<Rightarrow> obj list" where
  "unpack [] = []"
| "unpack (JList xs # ws) = unpack (ws @ xs)"
| "unpack (JDict d # ws) = (case nested_of d of JList xs \<Rightarrow> unpack (ws @ xs) | _ \<Rightarrow> d # unpack ws)"
| "unpack (JNull # ws) = unpack ws"
| "unpack (JBool b # ws) = unpack ws"
| "unpack (JInt n # ws) = unpack ws"
| "unpack (JFloat x # ws) = unpack ws"
| "unpack (JStr t # ws) = unpack ws"
  by pat_completeness auto

termination
  by (relation "measure (size_list size)") (auto simp: size_list_append dest: nested_list_size)

definition private_payloads :: "obj \<Rightarrow> obj list" where
  "private_payloads message =
     unpack (JDict message # filter (\<lambda>v. v \<noteq> JNull) (map (jget message) [''body'', ''data'', ''result'', ''payload'']))"

section \<open>Operations\<close>

text \<open>The first half of \<open>place_order\<close>, up to the last check, and the second half, from the request on.\<close>

definition order_gate :: "coinstore_env \<Rightarrow> OrderIntent \<Rightarrow> SymbolPrecision cs_op" where
  "order_gate env intent =
     (if oi_venue intent \<noteq> Venue_coinstore then raise_err (ValueError ''CoinstoreExecutionService only accepts coinstore intents'')
      else
        bindm account (\<lambda>acc.
        bindm (precision_for_symbol env (oi_symbol intent)) (\<lambda>p.
        bindm (service_client env) (\<lambda>client.
        seqm (lift_res (verify_runtime_ready (he_crypto (ce_http env)) (he_printer (ce_http env)) (ce_now_ms env) (cl_credentials client) p intent)) (
        seqm (checks (assert_order_safe (ea_id acc) intent)) (ret p))))))"

definition send_order :: "coinstore_env \<Rightarrow> OrderIntent \<Rightarrow> SymbolPrecision \<Rightarrow> ExecutionOrder cs_op" where
  "send_order env intent p =
     bindm (on_client (client_place_order (ce_http env) intent p)) (\<lambda>order.
     seqm (lift_res (verify_order_response (eo_raw order))) (
     seqm (persist_live_order env order (Some intent)) (ret order)))"

definition cs_place_order :: "coinstore_env \<Rightarrow> OrderIntent \<Rightarrow> ExecutionOrder cs_op" where
  "cs_place_order env intent = bindm (order_gate env intent) (send_order env intent)"

definition verified :: "coinstore_env \<Rightarrow> ExecutionOrder \<Rightarrow> ExecutionOrder cs_op" where
  "verified env order =
     seqm (lift_res (verify_order_response (eo_raw order))) (seqm (persist_live_order env order None) (ret order))"

definition cs_cancel_order :: "coinstore_env \<Rightarrow> CancelIntent \<Rightarrow> ExecutionOrder cs_op" where
  "cs_cancel_order env intent = bindm (with_client env (client_cancel_order (ce_http env) intent)) (verified env)"

definition cs_cancel_all_orders :: "coinstore_env \<Rightarrow> string option \<Rightarrow> ExecutionOrder list cs_op" where
  "cs_cancel_all_orders env symbol =
     bindm (with_client env (client_cancel_all_orders (ce_http env) symbol)) (\<lambda>orders. seqm (loop (verified env) orders) (ret orders))"

definition cs_get_order_status :: "coinstore_env \<Rightarrow> CancelIntent \<Rightarrow> ExecutionOrder cs_op" where
  "cs_get_order_status env intent = bindm (with_client env (client_get_order_status (ce_http env) intent)) (verified env)"

definition fetch_symbol :: "coinstore_env \<Rightarrow> string \<Rightarrow> (ExecutionOrder list \<times> obj list) cs_op" where
  "fetch_symbol env symbol =
     bindm (on_client (sync_open_orders (ce_http env) (Some symbol))) (\<lambda>orders.
     bindm (on_client (sync_trade_fills (ce_http env) (Some symbol))) (\<lambda>fills.
     seqm (lift_res (verify_trade_response (JList (map JDict fills)))) (ret (orders, fills))))"

definition reconcile_live :: "coinstore_env \<Rightarrow> string list \<Rightarrow> CoinstoreReconciliationReport cs_op" where
  "reconcile_live env symbols =
     bindm (service_client env) (\<lambda>_.
     bindm account (\<lambda>acc.
     bindm (on_client (sync_balances (ce_http env))) (\<lambda>balances.
     seqm (lift_res (verify_balance_response (JList (map (\<lambda>b. JDict (bl_raw b)) balances)))) (
     bindm (collect (fetch_symbol env) symbols) (\<lambda>answers.
     let orders = concat (map fst answers); fills = concat (map snd answers) in
     seqm (loop (persist_balance_update env) balances) (
     seqm (loop (\<lambda>order. persist_live_order env order None) orders) (
     seqm (loop (persist_fill_update env) fills) (
     checks (\<lambda>d. let sr = detect_stale_and_orphan_orders (ce_now env) 300 (ea_id acc) (map (\<lambda>order. text_or (eo_exchange_order_id order) []) orders) d
       in reconcile_books (he_printer (ce_http env)) (ce_uuid_text env) acc balances orders fills
            (csr_stale_order_ids sr) (csr_orphan_order_ids sr) d)))))))))"

record message_counts =
  mc_orders :: int
  mc_trades :: int
  mc_fills :: int
  mc_balances :: int

definition handle_payload :: "coinstore_env \<Rightarrow> obj \<Rightarrow> message_counts \<Rightarrow> message_counts cs_op" where
  "handle_payload env payload counts =
     (let printer = he_printer (ce_http env) in
      bindm (if is_balance_payload payload
             then bindm (lift_res (balance_from_payload printer payload)) (\<lambda>b.
                  seqm (persist_balance_update env b) (ret (counts\<lparr>mc_balances := mc_balances counts + 1\<rparr>)))
             else ret counts) (\<lambda>counts.
      bindm (if is_order_payload payload
             then bindm (lift_res (execution_order_from_payload printer payload)) (\<lambda>order.
                  seqm (persist_live_order env order None) (ret (counts\<lparr>mc_orders := mc_orders counts + 1\<rparr>)))
             else ret counts) (\<lambda>counts.
      if is_fill_payload payload
      then seqm (persist_fill_update env payload)
             (ret (counts\<lparr>mc_trades := mc_trades counts + 1, mc_fills := mc_fills counts + 1\<rparr>))
      else ret counts)))"

fun handle_payloads :: "coinstore_env \<Rightarrow> obj list \<Rightarrow> message_counts \<Rightarrow> message_counts cs_op" where
  "handle_payloads env [] counts = ret counts"
| "handle_payloads env (payload # payloads) counts = bindm (handle_payload env payload counts) (handle_payloads env payloads)"

definition handle_private_message :: "coinstore_env \<Rightarrow> obj \<Rightarrow> message_counts cs_op" where
  "handle_private_message env message =
     handle_payloads env (private_payloads message) \<lparr>mc_orders = 0, mc_trades = 0, mc_fills = 0, mc_balances = 0\<rparr>"

end
