(* ===== verification/Client_Safety.thy ===== *)
theory Client_Safety
  imports Exec_Client
begin

text \<open>
  What the REST client guarantees: how often a request goes out, that the decimals of an order are
  printed exactly, and what its parsers return. The locale \<open>retrier\<close> is the contract of the retry
  decorator, interpreted for the recursion \<open>retry_op\<close>.
\<close>

section \<open>Retries\<close>

locale retrier =
  fixes retrying :: "(pyerr \<Rightarrow> bool) \<Rightarrow> nat \<Rightarrow> ('s, 'a) op \<Rightarrow> ('s, 'a) op"
  assumes tenacious: "tenacity retrying"
begin

lemma retrying_Suc:
  "retrying p (Suc n) m s =
     (case m s of (Inr x, t) \<Rightarrow> (Inr x, t) | (Inl e, t) \<Rightarrow> if p e \<and> n \<noteq> 0 then retrying p n m t else (Inl e, t))"
  using tenacious by (simp add: tenacity_def)

text \<open>A measured operation is run between one and \<open>n\<close> times, and fewer times only for a final answer.\<close>

lemma retrying_count:
  assumes "\<And>s. f (snd (m s)) = Suc (f s)" "n \<noteq> 0"
  shows "\<exists>k. 1 \<le> k \<and> k \<le> n \<and> f (snd (retrying p n m s)) = f s + k
    \<and> (k < n \<longrightarrow> (case fst (retrying p n m s) of Inr _ \<Rightarrow> True | Inl e \<Rightarrow> \<not> p e))"
  using assms(2)
proof (induction n arbitrary: s)
  case (Suc n)
  obtain r t where m: "m s = (r, t)" by (cases "m s")
  then have t: "f t = Suc (f s)" using assms(1)[of s] by simp
  show ?case
  proof (cases "\<exists>e. r = Inl e \<and> p e \<and> n \<noteq> 0")
    case True
    then have eq: "retrying p (Suc n) m s = retrying p n m t" using m by (auto simp: retrying_Suc)
    obtain k where "1 \<le> k" "k \<le> n" "f (snd (retrying p n m t)) = f t + k"
      "k < n \<longrightarrow> (case fst (retrying p n m t) of Inr _ \<Rightarrow> True | Inl e \<Rightarrow> \<not> p e)"
      using Suc.IH[of t] True by auto
    then show ?thesis using t eq by (intro exI[of _ "Suc k"]) auto
  next
    case False
    then have "retrying p (Suc n) m s = (r, t)" using m by (auto simp: retrying_Suc split: sum.splits)
    then show ?thesis using t False by (intro exI[of _ 1]) (auto split: sum.splits)
  qed
qed simp

text \<open>Whatever every attempt keeps is kept.\<close>

lemma retrying_keeps: "keeps P m \<Longrightarrow> keeps P (retrying p (Suc n) m)"
proof (induction n)
  case 0
  then show ?case by (fastforce simp: keeps_def retrying_Suc split: prod.splits sum.splits)
next
  case (Suc n)
  then show ?case by (fastforce simp: keeps_def retrying_Suc[of _ "Suc n"] split: prod.splits sum.splits)
qed

end

interpretation recursive: retrier retry_op
  by unfold_locales (rule tenacity_retry_op)

lemma attempt_counts: "cl_attempts (snd (request_attempt env verb path params body signed s)) = Suc (cl_attempts s)"
proof -
  obtain r b where "acquire (he_monotonic env (cl_attempts s)) 1 (cl_bucket s) = (r, b)"
    by (cases "acquire (he_monotonic env (cl_attempts s)) 1 (cl_bucket s)")
  then show ?thesis
    by (cases r) (auto simp: request_attempt_def acquire_token_def seqm_def bindm_def Let_def split: sum.splits)
qed

text \<open>The requests of an attempt: none, or one that carries the method and the body that were given.\<close>

lemma attempt_sends:
  "\<exists>new. cl_sent (snd (request_attempt env verb path params body signed s)) = cl_sent s @ new \<and> length new \<le> 1
     \<and> (\<forall>q \<in> set new. hq_method q = verb \<and> hq_path q = path \<and> hq_json q = body)"
proof -
  obtain r b where a: "acquire (he_monotonic env (cl_attempts s)) 1 (cl_bucket s) = (r, b)"
    by (cases "acquire (he_monotonic env (cl_attempts s)) 1 (cl_bucket s)")
  have q: "hq_method (build_request env verb path params body signed t) = verb
      \<and> hq_path (build_request env verb path params body signed t) = path
      \<and> hq_json (build_request env verb path params body signed t) = body" for t
    by (simp add: build_request_def Let_def sign_request_keeps)
  show ?thesis
  proof (cases r)
    case (Inl e)
    then show ?thesis using a by (simp add: request_attempt_def acquire_token_def seqm_def bindm_def)
  next
    case (Inr u)
    then show ?thesis
      using a q by (auto simp: request_attempt_def acquire_token_def seqm_def bindm_def Let_def split: sum.splits)
  qed
qed

definition sent_since :: "string \<Rightarrow> string \<Rightarrow> obj option \<Rightarrow> client \<Rightarrow> client \<Rightarrow> bool" where
  "sent_since verb path body s t \<longleftrightarrow> (\<exists>new. cl_sent t = cl_sent s @ new \<and> cl_attempts s + length new \<le> cl_attempts t
     \<and> (\<forall>q \<in> set new. hq_method q = verb \<and> hq_path q = path \<and> hq_json q = body))"

lemma sent_since_refl: "sent_since verb path body s s"
  by (simp add: sent_since_def)

lemma attempt_keeps_sent: "keeps (sent_since verb path body s) (request_attempt env verb path params body signed)"
proof (rule keepsI)
  fix t assume "sent_since verb path body s t"
  then obtain old where old: "cl_sent t = cl_sent s @ old" "cl_attempts s + length old \<le> cl_attempts t"
    "\<forall>q \<in> set old. hq_method q = verb \<and> hq_path q = path \<and> hq_json q = body"
    by (auto simp: sent_since_def)
  obtain new where "cl_sent (snd (request_attempt env verb path params body signed t)) = cl_sent t @ new" "length new \<le> 1"
    "\<forall>q \<in> set new. hq_method q = verb \<and> hq_path q = path \<and> hq_json q = body"
    using attempt_sends[of env verb path params body signed t] by auto
  then show "sent_since verb path body s (snd (request_attempt env verb path params body signed t))"
    unfolding sent_since_def using old
    by (intro exI[of _ "old @ new"]) (auto simp: attempt_counts)
qed

lemma signed_request_sends:
  assumes "tenacity (he_retrying env)" "(r, t) = signed_request env verb path params body signed s"
  shows "\<exists>k new. 1 \<le> k \<and> k \<le> 3 \<and> cl_attempts t = cl_attempts s + k \<and> cl_sent t = cl_sent s @ new \<and> length new \<le> k
    \<and> (\<forall>q \<in> set new. hq_method q = verb \<and> hq_path q = path \<and> hq_json q = body)
    \<and> (k < 3 \<longrightarrow> (case r of Inr _ \<Rightarrow> True | Inl e \<Rightarrow> \<not> is_retried e))"
proof -
  let ?m = "request_attempt env verb path params body signed"
  have rt: "retrier (he_retrying env)" using assms(1) by (simp add: retrier_def)
  have run: "he_retrying env is_retried 3 ?m s = (r, t)" using assms(2) by (simp add: signed_request_def)
  obtain k where k: "1 \<le> k" "k \<le> 3" "cl_attempts t = cl_attempts s + k"
    "k < 3 \<longrightarrow> (case r of Inr _ \<Rightarrow> True | Inl e \<Rightarrow> \<not> is_retried e)"
    using retrier.retrying_count[OF rt, of cl_attempts ?m 3 is_retried s, OF attempt_counts] unfolding run by auto
  have "sent_since verb path body s t"
    using keepsD[of "sent_since verb path body s" "he_retrying env is_retried (Suc 2) ?m" s]
      retrier.retrying_keeps[OF rt attempt_keeps_sent] sent_since_refl run
    by (simp add: numeral_3_eq_3 numeral_2_eq_2)
  then show ?thesis using k by (auto simp: sent_since_def)
qed

text \<open>
  A call of the client makes between one and three attempts, fewer than three only when it ends
  with an answer or with an error that is not retried; every attempt sends at most one request, with
  the method, path and body of the call.
\<close>

theorem request_attempts_bounded:
  assumes "tenacity (he_retrying env)" "(r, t) = signed_request env verb path params body signed s"
  shows "\<exists>k new. 1 \<le> k \<and> k \<le> 3 \<and> cl_attempts t = cl_attempts s + k \<and> cl_sent t = cl_sent s @ new \<and> length new \<le> k
    \<and> (\<forall>q \<in> set new. hq_method q = verb \<and> hq_path q = path \<and> hq_json q = body)
    \<and> (k < 3 \<longrightarrow> (case r of Inr _ \<Rightarrow> True | Inl e \<Rightarrow> \<not> is_retried e))"
  using assms by (rule signed_request_sends)

text \<open>An environment whose venue gives one answer to everything, for the examples.\<close>

definition one_answer :: "http_response \<Rightarrow> http_env" where
  "one_answer response = \<lparr>he_answer = (\<lambda>_ _. Inr response), he_monotonic = (\<lambda>_. 0), he_time_ms = (\<lambda>_. 0),
     he_crypto = \<lparr>hmac_sha256 = (\<lambda>_ _. []), hmac_sha512 = (\<lambda>_ _. []), sha512 = (\<lambda>_. [])\<rparr>,
     he_printer = (\<lambda>_. []), he_retrying = retry_op\<rparr>"

definition fresh_client :: client where
  "fresh_client = \<lparr>cl_venue = Venue_mexc, cl_credentials = \<lparr>ec_api_key = ''k'', ec_api_secret = ''s'', ec_passphrase = None, ec_memo = None\<rparr>,
     cl_bucket = AsyncRateLimiter_init 0 \<lparr>rr_requests = 20, rr_window_seconds = 1\<rparr>, cl_attempts = 0, cl_sent = []\<rparr>"

text \<open>An attempt the venue refuses, with tokens left.\<close>

lemma refused_error:
  assumes "n \<in> {400, 401, 403, 404}" "dict_get ERROR_RULES (upper (payload_message printer payload)) = None"
  shows "\<exists>m. raise_normalized_error (normalize_exchange_error printer venue (Some n) payload) = NonRetryableExchangeExecutionError m"
proof -
  have digits: "str_int 400 = ''400''" "str_int 401 = ''401''" "str_int 403 = ''403''" "str_int 404 = ''404''"
    by (simp_all add: str_int_def str_nat_numeral char_of_def bit_0)
  have n: "str_int n \<in> {''400'', ''401'', ''403'', ''404''}"
    using assms(1) digits by (metis insert_iff singletonD)
  then have code: "dict_get ERROR_RULES (str_int n) = None" "str_int n \<noteq> ''rate_limited''"
    by (auto simp: ERROR_RULES_def)
  have "\<not> n \<ge> 500" "n \<noteq> 0" using assms(1) by auto
  then show ?thesis
    using code assms(2) by (simp add: normalize_exchange_error_def raise_normalized_error_def Let_def)
qed

definition tokens_left :: "http_env \<Rightarrow> nat \<Rightarrow> client \<Rightarrow> bool" where
  "tokens_left env n s \<longleftrightarrow> bucket_ok (cl_bucket s) \<and> of_nat n \<le> tb_tokens (cl_bucket s)
     \<and> tb_updated_at (cl_bucket s) \<le> he_monotonic env (cl_attempts s)"

lemma token_granted:
  assumes "tokens_left env (Suc n) s"
  shows "\<exists>b. acquire (he_monotonic env (cl_attempts s)) 1 (cl_bucket s) = (Inr (), b) \<and> bucket_ok b
    \<and> of_nat n \<le> tb_tokens b \<and> tb_updated_at b = he_monotonic env (cl_attempts s)"
proof -
  let ?b = "cl_bucket s" and ?now = "he_monotonic env (cl_attempts s)"
  have ok: "bucket_ok ?b" "of_nat (Suc n) \<le> tb_tokens ?b" "tb_updated_at ?b \<le> ?now"
    using assms by (auto simp: tokens_left_def)
  define k where "k = min (of_int (tb_capacity ?b)) (tb_tokens ?b + (?now - tb_updated_at ?b) * bucket_rate ?b)"
  have "0 \<le> (?now - tb_updated_at ?b) * bucket_rate ?b"
    using ok by (auto simp: bucket_ok_def bucket_rate_def intro!: mult_nonneg_nonneg divide_nonneg_nonneg)
  then have k: "of_nat (Suc n) \<le> k" "k \<le> of_int (tb_capacity ?b)" using ok by (auto simp: k_def bucket_ok_def)
  then have "acquire ?now 1 ?b = (Inr (), ?b\<lparr>tb_tokens := k - 1, tb_updated_at := ?now\<rparr>)"
    using acquire_eq[OF ok(1), of ?now 1] by (simp add: k_def[symmetric] Let_def)
  then show ?thesis using k ok(1) by (auto simp: bucket_ok_def)
qed

lemma attempt_sent:
  assumes "tokens_left env (Suc n) s"
  shows "\<exists>q. cl_sent (snd (request_attempt env verb path params body signed s)) = cl_sent s @ [q]"
proof -
  obtain b where "acquire (he_monotonic env (cl_attempts s)) 1 (cl_bucket s) = (Inr (), b)"
    using token_granted[OF assms] by blast
  then show ?thesis
    by (auto simp: request_attempt_def acquire_token_def seqm_def bindm_def Let_def split: sum.splits)
qed

lemma refused_attempt:
  assumes "\<And>sent q. he_answer env sent q = Inr response" "hp_status_code response \<in> {400, 401, 403, 404}"
    "dict_get ERROR_RULES (upper (payload_message (he_printer env) (body_payload (hp_body response)))) = None"
    "mono (he_monotonic env)" "tokens_left env (Suc n) s"
  shows "\<exists>m t. request_attempt env verb path params body signed s = (Inl (NonRetryableExchangeExecutionError m), t)
    \<and> length (cl_sent t) = Suc (length (cl_sent s)) \<and> tokens_left env n t"
proof -
  obtain b where b: "acquire (he_monotonic env (cl_attempts s)) 1 (cl_bucket s) = (Inr (), b)" "bucket_ok b"
    "of_nat n \<le> tb_tokens b" "tb_updated_at b = he_monotonic env (cl_attempts s)"
    using token_granted[OF assms(5)] by blast
  obtain m where m: "raise_normalized_error (normalize_exchange_error (he_printer env) (cl_venue s)
      (Some (hp_status_code response)) (body_payload (hp_body response))) = NonRetryableExchangeExecutionError m"
    using refused_error[OF assms(2,3)] by blast
  have "hp_status_code response \<ge> 400" using assms(2) by auto
  then show ?thesis
    using b m assms(4)
    by (simp add: request_attempt_def acquire_token_def seqm_def bindm_def assms(1) Let_def tokens_left_def mono_def)
qed

text \<open>With a token left, a call sends at least one request.\<close>

lemma signed_request_sent:
  assumes "tenacity (he_retrying env)" "tokens_left env (Suc n) s"
  shows "length (cl_sent s) < length (cl_sent (snd (signed_request env verb path params body signed s)))"
proof -
  let ?m = "request_attempt env verb path params body signed" and ?P = "\<lambda>t. length (cl_sent s) < length (cl_sent t)"
  have rt: "retrier (he_retrying env)" using assms(1) by (simp add: retrier_def)
  have "keeps ?P ?m"
  proof (rule keepsI)
    fix t :: client
    assume "?P t"
    then show "?P (snd (?m t))" using attempt_sends[of env verb path params body signed t] by auto
  qed
  from retrier.retrying_keeps[OF rt this, of is_retried 1] have k: "keeps ?P (he_retrying env is_retried 2 ?m)"
    by (simp add: numeral_2_eq_2)
  obtain r t where m: "?m s = (r, t)" by (cases "?m s")
  then have "?P t" using attempt_sent[OF assms(2), of verb path params body signed] by auto
  then show ?thesis
    using retrier.retrying_Suc[OF rt, of is_retried 2 ?m s] m keepsD[OF k, of t]
    by (auto simp: signed_request_def numeral_3_eq_3 split: sum.splits)
qed

lemma refused_retries:
  assumes "tenacity (he_retrying env)" "\<And>sent q. he_answer env sent q = Inr response"
    "hp_status_code response \<in> {400, 401, 403, 404}"
    "dict_get ERROR_RULES (upper (payload_message (he_printer env) (body_payload (hp_body response)))) = None"
    "mono (he_monotonic env)" "tokens_left env (Suc n) s"
  shows "\<exists>m t. he_retrying env is_retried (Suc n) (request_attempt env verb path params body signed) s
      = (Inl (NonRetryableExchangeExecutionError m), t) \<and> length (cl_sent t) = length (cl_sent s) + Suc n"
  using assms(6)
proof (induction n arbitrary: s)
  case 0
  then show ?case
    using refused_attempt[OF assms(2-5), of 0 s verb path params body signed] assms(1)
    by (fastforce simp: tenacity_def)
next
  case (Suc n)
  obtain m t where "request_attempt env verb path params body signed s = (Inl (NonRetryableExchangeExecutionError m), t)"
    "length (cl_sent t) = Suc (length (cl_sent s))" "tokens_left env (Suc n) t"
    using refused_attempt[OF assms(2-5) Suc.prems] by blast
  then show ?case using Suc.IH[of t] assms(1)[unfolded tenacity_def, rule_format, of is_retried "Suc n"] by auto
qed

text \<open>
  An order the venue refuses for good is sent three times: the error is
  \<open>NonRetryableExchangeExecutionError\<close>, but that class is an \<open>ExchangeError\<close> and so is retried.
\<close>

theorem refused_request_sent_three_times:
  assumes "tenacity (he_retrying env)" "\<And>sent q. he_answer env sent q = Inr response"
    "hp_status_code response \<in> {400, 401, 403, 404}"
    "dict_get ERROR_RULES (upper (payload_message (he_printer env) (body_payload (hp_body response)))) = None"
    "mono (he_monotonic env)" "tokens_left env 3 s"
  shows "\<exists>m t. signed_request env verb path params body signed s = (Inl (NonRetryableExchangeExecutionError m), t)
    \<and> length (cl_sent t) = length (cl_sent s) + 3"
  using refused_retries[OF assms(1-5), of 2 s] assms(6) by (simp add: signed_request_def numeral_3_eq_3)

section \<open>Decimals of an order\<close>

text \<open>Where a venue reads the quantity and the price of an order.\<close>

fun quantity_key :: "ExecutionVenue \<Rightarrow> string" where
  "quantity_key Venue_gate = ''amount''"
| "quantity_key Venue_kucoin = ''size''"
| "quantity_key Venue_bitmart = ''size''"
| "quantity_key Venue_coinstore = ''ordQty''"
| "quantity_key _ = ''quantity''"

fun price_key :: "ExecutionVenue \<Rightarrow> string" where
  "price_key Venue_coinstore = ''ordPrice''"
| "price_key _ = ''price''"

definition carries :: "obj \<Rightarrow> string \<Rightarrow> decimal \<Rightarrow> bool" where
  "carries payload key x \<longleftrightarrow> (case jget payload key of JStr s \<Rightarrow> (case parse_decimal s of Inr (y, _) \<Rightarrow> y = x | _ \<Rightarrow> False) | _ \<Rightarrow> False)"

lemma payload_entries:
  "jget (order_payload venue intent) (quantity_key venue) = decimal_to_exchange (Some (oi_quantity intent))"
  "jget (order_payload venue intent) (price_key venue) = decimal_to_exchange (oi_price intent)"
  by (cases venue; auto simp: order_payload_def jget_def decimal_to_exchange_def Let_def split: option.splits)+

lemma aligned_text:
  assumes "quantize_down x i = Inr y" "decimal_places 28 i \<noteq> None"
  shows "\<exists>e. parse_decimal (decimal_text y) = Inr (y, e)"
proof -
  have "aligned y i" using assms(1) qd.quant_idem by (auto simp: aligned_def)
  then obtain n :: int where "y = of_int n * i" by (auto simp: aligned_iff)
  then show ?thesis using assms(2) decimal_places_multiple parse_decimal_text by blast
qed

text \<open>
  C37. The decimals of an order are printed exactly: for a venue whose tick and step are decimal
  fractions, the quantity and the price of the payload of an order that passed the precision filter
  read back as the numbers that were filtered.
\<close>

theorem order_decimals_exact:
  assumes "apply_symbol_precision intent precision = Inr out"
    "decimal_places 28 (sp_quantity_step precision) \<noteq> None" "decimal_places 28 (sp_price_tick precision) \<noteq> None"
  shows "carries (order_payload venue out) (quantity_key venue) (oi_quantity out)
    \<and> (case oi_price out of Some p \<Rightarrow> carries (order_payload venue out) (price_key venue) p
       | None \<Rightarrow> jget (order_payload venue out) (price_key venue) = JNull)"
  using assms by (auto simp: apply_symbol_precision_Inr payload_entries carries_def decimal_to_exchange_def
      split: option.splits dest!: aligned_text)

section \<open>Parsing\<close>

lemma payload_rows_unwrap:
  "payload_rows keys (unwrap data) = (case data of JList _ \<Rightarrow> Inl (AttributeError ''get'') | _ \<Rightarrow> Inr [])"
proof -
  have "is_list v \<Longrightarrow> \<not> is_dict v" for v by (cases v) auto
  then show ?thesis by (cases data) (auto simp: payload_rows_def)
qed

lemma parse_balances_empty: "parse_balances printer venue data = Inr bs \<Longrightarrow> bs = []"
  unfolding parse_balances_def payload_rows_unwrap by (cases data) (simp_all add: List.map_filter_def)

lemma parse_symbol_precision_empty: "parse_symbol_precision printer data = Inr ps \<Longrightarrow> ps = []"
  unfolding parse_symbol_precision_def payload_rows_unwrap by (cases data) (simp_all add: List.map_filter_def)

text \<open>
  The parsers of balances and of symbol precisions never return an entry: a payload that is a
  list is asked for its entry \<open>balances\<close> or \<open>symbols\<close> and raises, everything else is read as empty.
\<close>

theorem parsers_never_return_entries:
  "parse_balances printer venue data = (case data of JList _ \<Rightarrow> Inl (AttributeError ''get'') | _ \<Rightarrow> Inr [])
   \<and> parse_symbol_precision printer data = (case data of JList _ \<Rightarrow> Inl (AttributeError ''get'') | _ \<Rightarrow> Inr [])"
  unfolding parse_balances_def parse_symbol_precision_def payload_rows_unwrap
  by (cases data) (simp_all add: List.map_filter_def)

section \<open>Witnesses\<close>

definition refusal :: http_env where
  "refusal = one_answer \<lparr>hp_status_code = 400, hp_body = Body_text []\<rparr>"

lemma refusal_facts: "tenacity (he_retrying refusal)" "mono (he_monotonic refusal)" "tokens_left refusal 3 fresh_client"
  by (simp_all add: refusal_def one_answer_def tenacity_retry_op mono_def tokens_left_def fresh_client_def AsyncRateLimiter_init_def bucket_ok_def)

theorem request_attempts_bounded_witness:
  "\<exists>k. 1 \<le> k \<and> k \<le> 3 \<and> cl_attempts (snd (signed_request refusal ''GET'' ''/x'' [] None True fresh_client)) = cl_attempts fresh_client + k"
  using request_attempts_bounded[OF refusal_facts(1) prod.collapse] by fast

theorem refused_request_sent_three_times_witness:
  "\<exists>m t. signed_request refusal ''POST'' ''/x'' [] None True fresh_client = (Inl (NonRetryableExchangeExecutionError m), t)
     \<and> length (cl_sent t) = 3"
  using refused_request_sent_three_times[OF refusal_facts(1) _ _ _ refusal_facts(2,3),
      of "\<lparr>hp_status_code = 400, hp_body = Body_text []\<rparr>" "''POST''" "''/x''" "[]" None True]
  by (simp add: refusal_def one_answer_def fresh_client_def ERROR_RULES_def upper_def)

lemma btc_precision_places:
  "decimal_places 28 (sp_quantity_step btc_precision) \<noteq> None" "decimal_places 28 (sp_price_tick btc_precision) \<noteq> None"
  by (simp_all add: btc_precision_def eval_nat_numeral)

theorem order_decimals_exact_witness:
  "carries (order_payload Venue_gate (btc_order (12/1000) (1000012/100))) ''amount'' (12/1000)
     \<and> carries (order_payload Venue_gate (btc_order (12/1000) (1000012/100))) ''price'' (1000012/100)"
  using order_decimals_exact[OF btc_order_filtered btc_precision_places, of Venue_gate] by (simp add: btc_order_def)

end
