(* ===== verification/Coinstore_Safety.thy ===== *)
theory Coinstore_Safety
  imports Coinstore Client_Safety "HOL-Library.Multiset"
begin

text \<open>
  What the Coinstore service guarantees: which orders leave the process, that the rows stay unique,
  and what happens to a message of the private stream.
\<close>

section \<open>Quiet operations\<close>

text \<open>The orders sent so far: requests with method \<open>POST\<close>. A quiet operation sends none.\<close>

definition posts :: "client \<Rightarrow> http_request list" where
  "posts c = filter (\<lambda>q. hq_method q = ''POST'') (cl_sent c)"

definition sent_posts :: "CoinstoreExecutionService \<Rightarrow> http_request list" where
  "sent_posts s = (case cs_client s of None \<Rightarrow> [] | Some c \<Rightarrow> posts c)"

definition venue_ok :: "CoinstoreExecutionService \<Rightarrow> bool" where
  "venue_ok s \<longleftrightarrow> (case cs_client s of None \<Rightarrow> True | Some c \<Rightarrow> cl_venue c = Venue_coinstore)"

definition quiet :: "http_request list \<Rightarrow> CoinstoreExecutionService \<Rightarrow> bool" where
  "quiet X s \<longleftrightarrow> sent_posts s = X \<and> venue_ok s"

definition framed :: "session \<Rightarrow> http_request list \<Rightarrow> CoinstoreExecutionService \<Rightarrow> bool" where
  "framed d X s \<longleftrightarrow> cs_session s = d \<and> quiet X s"

lemma keeps_request:
  assumes "tenacity (he_retrying env)" "keeps P (request_attempt env verb path params body signed)"
  shows "keeps P (signed_request env verb path params body signed)"
proof -
  have "retrier (he_retrying env)" using assms(1) by (simp add: retrier_def)
  from retrier.retrying_keeps[OF this assms(2), of is_retried 2] show ?thesis
    by (simp add: signed_request_def numeral_3_eq_3 numeral_2_eq_2)
qed

lemma attempt_venue: "cl_venue (snd (request_attempt env verb path params body signed c)) = cl_venue c"
proof -
  obtain r b where "acquire (he_monotonic env (cl_attempts c)) 1 (cl_bucket c) = (r, b)"
    by (cases "acquire (he_monotonic env (cl_attempts c)) 1 (cl_bucket c)")
  then show ?thesis
    by (cases r) (auto simp: request_attempt_def acquire_token_def seqm_def bindm_def Let_def split: sum.splits)
qed

lemma attempt_quiet:
  assumes "verb \<noteq> ''POST''"
  shows "keeps (\<lambda>c. posts c = X \<and> cl_venue c = v) (request_attempt env verb path params body signed)"
proof (rule keepsI)
  fix c assume c: "posts c = X \<and> cl_venue c = v"
  obtain new where "cl_sent (snd (request_attempt env verb path params body signed c)) = cl_sent c @ new"
    "\<forall>q \<in> set new. hq_method q = verb"
    using attempt_sends[of env verb path params body signed c] by blast
  then show "posts (snd (request_attempt env verb path params body signed c)) = X
      \<and> cl_venue (snd (request_attempt env verb path params body signed c)) = v"
    using c assms attempt_venue[of env verb path params body signed c] by (auto simp: posts_def)
qed

text \<open>The client's reading operations.\<close>

lemma discover_quiet:
  "tenacity (he_retrying env) \<Longrightarrow> keeps (\<lambda>c. posts c = X \<and> cl_venue c = v) (discover_symbol_precision env)"
  unfolding discover_symbol_precision_def by (intro kept keeps_request attempt_quiet) auto

lemma account_run: "\<exists>a. snd (account s) = s\<lparr>cs_account := a\<rparr>"
proof (cases "cs_account s")
  case None
  then show ?thesis by (cases "newest_account (cs_session s)") (auto simp: account_def seqm_def intro: exI[of _ "cs_account s"])
next
  case (Some a)
  then show ?thesis by (auto simp: account_def intro: exI[of _ "Some a"])
qed

lemma service_client_run:
  "\<exists>a. snd (service_client env s) = s\<lparr>cs_account := a\<rparr>
     \<or> cs_client s = None \<and> (\<exists>cr. snd (service_client env s) = s\<lparr>cs_account := a, cs_client := Some (new_client env cr)\<rparr>)"
proof (cases "cs_client s")
  case (Some c)
  then show ?thesis by (auto simp: service_client_def intro: exI[of _ "cs_account s"])
next
  case None
  obtain a where a: "snd (account s) = s\<lparr>cs_account := a\<rparr>" using account_run by blast
  obtain r t where rt: "account s = (r, t)" by (cases "account s")
  show ?thesis
  proof (cases r)
    case (Inl e)
    then show ?thesis using None a rt by (auto simp: service_client_def bindm_Inl)
  next
    case (Inr acc)
    then show ?thesis
      using None a rt
      by (auto simp: service_client_def bindm_def seqm_def Let_def split: sum.splits intro!: exI[of _ a])
  qed
qed

lemma framed_account [kept]: "keeps (framed d X) account"
proof (rule keepsI)
  fix s assume "framed d X s"
  then show "framed d X (snd (account s))"
    using account_run[of s] by (auto simp: framed_def quiet_def sent_posts_def venue_ok_def)
qed

lemma framed_client [kept]: "keeps (framed d X) (service_client env)"
proof (rule keepsI)
  fix s assume "framed d X s"
  then show "framed d X (snd (service_client env s))"
    using service_client_run[of env s] by (auto simp: framed_def quiet_def sent_posts_def venue_ok_def posts_def new_client_def)
qed

lemma framed_on_client:
  "(\<And>X v. keeps (\<lambda>c. posts c = X \<and> cl_venue c = v) m) \<Longrightarrow> keeps (framed d X) (on_client m)"
  unfolding keeps_def
  by (auto simp: framed_def quiet_def sent_posts_def venue_ok_def on_client_def split: option.splits prod.splits) (metis snd_conv)+

lemma framed_checks [kept]: "keeps P (checks f)"
  unfolding checks_def by (intro kept)

lemma framed_precision:
  assumes "tenacity (he_retrying (ce_http env))"
  shows "keeps (framed d X) (precision_for_symbol env symbol)"
  unfolding precision_for_symbol_def precision_def with_client_def trading_pair_def Let_def
  by (intro kept framed_on_client discover_quiet assms keeps_modifies)
    (auto simp: framed_def quiet_def sent_posts_def venue_ok_def)

text \<open>An operation that keeps the session's part of a frame may still write the session.\<close>

lemma quiet_of_framed: "(\<And>d. keeps (framed d X) m) \<Longrightarrow> keeps (quiet X) m"
  by (auto simp: keeps_def framed_def)

lemma quiet_db [kept]: "keeps (quiet X) (db m)"
  unfolding db_def by (rule keeps_zoom) (simp add: quiet_def sent_posts_def venue_ok_def)

lemma quiet_persist_order:
  assumes "tenacity (he_retrying (ce_http env))"
  shows "keeps (quiet X) (persist_live_order env order intent)"
proof -
  have [kept]: "keeps (quiet X) (precision_for_symbol env symbol)" "keeps (quiet X) account" for symbol
    by (rule quiet_of_framed, rule framed_precision[OF assms]) (rule quiet_of_framed, rule framed_account)
  show ?thesis
    unfolding persist_live_order_def ensure_live_pair_def live_client_order_id_def upsert_order_def Let_def
    by (intro kept) (auto split: list.splits intro!: kept)
qed

section \<open>Which orders are sent\<close>

text \<open>An order that neither repeats an open order's identifier nor could trade with an order of the account.\<close>

definition order_safe :: "uuid \<Rightarrow> OrderIntent \<Rightarrow> session \<Rightarrow> bool" where
  "order_safe account_id intent d \<longleftrightarrow>
     (\<forall>row \<in> set (tbl_orders d). or_exchange_account_id row = account_id \<longrightarrow>
        (or_client_order_id row = oi_client_order_id intent \<longrightarrow> or_status row \<notin> {OS_open, OS_submitted, OS_partially_filled, OS_created})
      \<and> (case oi_price intent of
           None \<Rightarrow> True
         | Some price \<Rightarrow> or_side row = opposite (oi_side intent) \<and> or_status row \<in> {OS_open, OS_submitted, OS_partially_filled}
             \<longrightarrow> \<not> crosses (oi_side intent) price (or_price row)))"

lemma scalar_one_or_none_None: "scalar_one_or_none rows = Inr None \<longleftrightarrow> rows = []"
  by (cases rows rule: scalar_one_or_none.cases) auto

lemma no_find: "(case find P xs of None \<Rightarrow> Inr () | Some x \<Rightarrow> Inl (f x)) = Inr () \<longleftrightarrow> (\<forall>x \<in> set xs. \<not> P x)"
  by (induction xs) auto

lemma assert_order_safe_iff: "assert_order_safe account_id intent d = Inr () \<longleftrightarrow> order_safe account_id intent d"
proof -
  have 1: "assert_duplicate_order account_id intent d = Inr () \<longleftrightarrow>
      (\<forall>row \<in> set (tbl_orders d). or_exchange_account_id row = account_id \<longrightarrow> or_client_order_id row = oi_client_order_id intent \<longrightarrow>
         or_status row \<notin> {OS_open, OS_submitted, OS_partially_filled, OS_created})"
    by (auto simp: assert_duplicate_order_def bindr_Inr_iff scalar_one_or_none_None live_orders_def active_statuses_def
        filter_empty_conv split: if_splits)
  have 2: "assert_no_self_trade account_id intent d = Inr () \<longleftrightarrow>
      (\<forall>row \<in> set (tbl_orders d). or_exchange_account_id row = account_id \<longrightarrow>
        (case oi_price intent of
           None \<Rightarrow> True
         | Some price \<Rightarrow> or_side row = opposite (oi_side intent) \<and> or_status row \<in> {OS_open, OS_submitted, OS_partially_filled}
             \<longrightarrow> \<not> crosses (oi_side intent) price (or_price row)))"
    by (cases "oi_price intent") (auto simp: assert_no_self_trade_def no_find live_orders_def active_statuses_def)
  have "assert_order_safe account_id intent d = Inr () \<longleftrightarrow>
      assert_duplicate_order account_id intent d = Inr () \<and> assert_no_self_trade account_id intent d = Inr ()"
    by (auto simp: assert_order_safe_def bindr_Inr_iff)
  then show ?thesis unfolding 1 2 order_safe_def by blast
qed

text \<open>What placing a validated order on the client sends.\<close>

lemma validated_unchanged: "validate_symbol_precision intent p = Inr () \<Longrightarrow> apply_symbol_precision intent p = Inr intent"
  unfolding validate_symbol_precision_Inr apply_symbol_precision_Inr aligned_def
  by (cases "oi_price intent") (auto intro!: exI[of _ "oi_quantity intent"])

definition order_request :: "OrderIntent \<Rightarrow> http_request \<Rightarrow> bool" where
  "order_request intent q \<longleftrightarrow> hq_method q = ''POST'' \<and> hq_path q = vs_place_order_path (EXECUTION_SPECS Venue_coinstore)
     \<and> hq_json q = Some (order_payload Venue_coinstore intent)"

lemma client_place_sends:
  assumes "tenacity (he_retrying env)" "validate_symbol_precision intent p = Inr ()" "cl_venue c = Venue_coinstore"
    "client_place_order env intent p c = (r, c')"
  shows "\<exists>new. posts c' = posts c @ new \<and> length new \<le> 3 \<and> (\<forall>q \<in> set new. order_request intent q) \<and> cl_venue c' = Venue_coinstore
    \<and> (tokens_left env (Suc 0) c \<longrightarrow> new \<noteq> [])"
proof -
  let ?path = "vs_place_order_path (EXECUTION_SPECS Venue_coinstore)" and ?body = "Some (order_payload Venue_coinstore intent)"
  let ?m = "signed_request env ''POST'' ?path [] ?body True"
  obtain r1 c1 where run: "?m c = (r1, c1)" by (cases "?m c")
  have "c' = c1"
    using assms(3,4) run by (simp add: client_place_order_def validated_unchanged[OF assms(2)] Let_def body_signed_def bindm_def split: sum.splits)
  moreover have "keeps (\<lambda>c. cl_venue c = Venue_coinstore) ?m"
    by (intro keeps_request assms(1) keepsI) (simp add: attempt_venue)
  then have "cl_venue c1 = Venue_coinstore" using keepsD[of _ ?m c] assms(3) run by fastforce
  moreover obtain k new where "k \<le> 3" "cl_sent c1 = cl_sent c @ new" "length new \<le> k"
    "\<forall>q \<in> set new. hq_method q = ''POST'' \<and> hq_path q = ?path \<and> hq_json q = ?body"
    using signed_request_sends[OF assms(1) run[symmetric]] by blast
  moreover have "tokens_left env (Suc 0) c \<Longrightarrow> length (cl_sent c) < length (cl_sent c1)"
    using signed_request_sent[OF assms(1), of 0 c "''POST''" ?path "[]" ?body True] run by simp
  ultimately show ?thesis by (auto simp: posts_def order_request_def intro!: exI[of _ new])
qed

text \<open>A step of a sequence either ends it in a kept state or hands a kept state on.\<close>

lemma bindm_keptE:
  assumes "bindm m f s = (r, t)" "keeps P m" "P s" "\<not> P t"
  obtains x u where "m s = (Inr x, u)" "P u" "f x u = (r, t)"
proof -
  obtain q u where m: "m s = (q, u)" by (cases "m s")
  then have "P u" using keepsD[OF assms(2,3)] by simp
  then show thesis using assms(1,4) m that by (cases q) (auto simp: bindm_def)
qed

lemma kept_run: "keeps P m \<Longrightarrow> P s \<Longrightarrow> m s = (r, t) \<Longrightarrow> P t"
  using keepsD[of P m s] by simp

lemma gate_framed: "tenacity (he_retrying (ce_http env)) \<Longrightarrow> keeps (framed d X) (order_gate env intent)"
  unfolding order_gate_def by (intro kept framed_precision)

lemma seqm_InrE:
  assumes "seqm m n s = (Inr y, t)"
  obtains x u where "m s = (Inr x, u)" "n u = (Inr y, t)"
  using bindm_InrE[of m "\<lambda>_. n"] assms unfolding seqm_def by metis

text \<open>What the checks established when they let an order through.\<close>

lemma gate_passed:
  assumes "tenacity (he_retrying (ce_http env))" "framed d X s" "order_gate env intent s = (Inr p, t)"
  shows "oi_venue intent = Venue_coinstore \<and> validate_symbol_precision intent p = Inr ()
    \<and> (\<exists>acc. fst (account s) = Inr acc \<and> order_safe (ea_id acc) intent d)"
proof -
  have venue: "oi_venue intent = Venue_coinstore" using assms(3) by (auto simp: order_gate_def split: if_splits)
  obtain acc s1 p' s2 client s3 where run: "account s = (Inr acc, s1)" "precision_for_symbol env (oi_symbol intent) s1 = (Inr p', s2)"
      "service_client env s2 = (Inr client, s3)"
      "verify_runtime_ready (he_crypto (ce_http env)) (he_printer (ce_http env)) (ce_now_ms env) (cl_credentials client) p' intent = Inr ()"
      "assert_order_safe (ea_id acc) intent (cs_session s3) = Inr ()" "p' = p"
    using assms(3) venue by (auto simp: order_gate_def checks_def elim!: bindm_InrE seqm_InrE)
  have "framed d X s3"
    by (rule kept_run[OF framed_client kept_run[OF framed_precision[OF assms(1)] kept_run[OF framed_account assms(2) run(1)] run(2)] run(3)])
  then have "cs_session s3 = d" by (simp add: framed_def)
  then have "order_safe (ea_id acc) intent d" using run(5) by (simp add: assert_order_safe_iff)
  then show ?thesis using run venue by (auto simp: verify_runtime_ready_def bindr_Inr_iff)
qed

lemma send_order_sends:
  assumes "tenacity (he_retrying (ce_http env))" "venue_ok s" "validate_symbol_precision intent p = Inr ()" "send_order env intent p s = (r, t)"
  shows "\<exists>new. sent_posts t = sent_posts s @ new \<and> length new \<le> 3 \<and> (\<forall>q \<in> set new. order_request intent q)
    \<and> (\<forall>c. cs_client s = Some c \<longrightarrow> tokens_left (ce_http env) (Suc 0) c \<longrightarrow> new \<noteq> [])"
proof -
  let ?m = "on_client (client_place_order (ce_http env) intent p)"
  obtain q u where m: "?m s = (q, u)" by (cases "?m s")
  obtain new where new: "quiet (sent_posts s @ new) u" "length new \<le> 3" "\<forall>q \<in> set new. order_request intent q"
    "\<forall>c. cs_client s = Some c \<longrightarrow> tokens_left (ce_http env) (Suc 0) c \<longrightarrow> new \<noteq> []"
  proof (cases "cs_client s")
    case None
    then show thesis using m assms(2) that[of "[]"] by (auto simp: on_client_def quiet_def sent_posts_def venue_ok_def)
  next
    case (Some c)
    obtain r' c' where c': "client_place_order (ce_http env) intent p c = (r', c')" by (cases "client_place_order (ce_http env) intent p c")
    then show thesis
      using client_place_sends[OF assms(1,3) _ c'] assms(2) Some m that
      by (auto simp: on_client_def quiet_def sent_posts_def venue_ok_def)
  qed
  have "keeps (quiet Y) (seqm (lift_res (verify_order_response (eo_raw order))) (seqm (persist_live_order env order (Some intent)) (ret order)))" for order Y
    by (intro kept quiet_persist_order assms(1))
  then have "quiet (sent_posts s @ new) t"
    using assms(4) m new(1) kept_run[of "quiet (sent_posts s @ new)" _ u r t]
    by (cases q) (auto simp: send_order_def bindm_Inl bindm_Inr)
  then show ?thesis using new by (auto simp: quiet_def)
qed


lemma gated_order_sent:
  assumes "tenacity (he_retrying (ce_http env))" "venue_ok s" "order_gate env intent s = (Inr p, u)"
    "cs_client u = Some c" "tokens_left (ce_http env) 1 c"
  shows "\<exists>new. sent_posts (snd (cs_place_order env intent s)) = sent_posts s @ new \<and> new \<noteq> [] \<and> (\<forall>q \<in> set new. order_request intent q)"
proof -
  have f: "framed (cs_session s) (sent_posts s) s" using assms(2) by (simp add: framed_def quiet_def)
  then have "framed (cs_session s) (sent_posts s) u" by (rule kept_run[OF gate_framed[OF assms(1)] _ assms(3)])
  then have u: "venue_ok u" "sent_posts u = sent_posts s" by (simp_all add: framed_def quiet_def)
  have valid: "validate_symbol_precision intent p = Inr ()" using gate_passed[OF assms(1) f assms(3)] by simp
  obtain r t where run: "send_order env intent p u = (r, t)" by (cases "send_order env intent p u")
  then have "snd (cs_place_order env intent s) = t" using assms(3) by (simp add: cs_place_order_def bindm_Inr)
  then show ?thesis using send_order_sends[OF assms(1) u(1) valid run] u(2) assms(4,5) by auto
qed

text \<open>
  C17. An order that passed the checks is sent: with a token left in the client's bucket, at least one
  request with exactly that order goes out.
\<close>

theorem safe_live_order_is_sent:
  assumes "tenacity (he_retrying (ce_http env))" "venue_ok s" "order_gate env intent s = (Inr p, u)"
    "cs_client u = Some c" "tokens_left (ce_http env) 1 c"
  shows "\<exists>new. sent_posts (snd (cs_place_order env intent s)) = sent_posts s @ new \<and> new \<noteq> [] \<and> (\<forall>q \<in> set new. order_request intent q)"
  using assms by (rule gated_order_sent)

section \<open>Consequences of the empty parsers\<close>

lemma sync_balances_empty: "sync_balances env c = (Inr bs, c') \<Longrightarrow> bs = []"
  by (auto simp: sync_balances_def elim!: bindm_InrE dest: parse_balances_empty)

lemma on_client_InrE:
  assumes "on_client m s = (Inr x, t)"
  obtains c c' where "m c = (Inr x, c')"
  using assms by (auto simp: on_client_def split: option.splits prod.splits)

text \<open>
  The live reconciliation never produces a report: the client reads no balance out of any answer
  of the venue, and the service rejects an empty list of balances.
\<close>

theorem reconcile_live_never_reports: "\<exists>e. fst (reconcile_live env symbols s) = Inl e"
proof (rule ccontr)
  assume "\<nexists>e. fst (reconcile_live env symbols s) = Inl e"
  then obtain x where "fst (reconcile_live env symbols s) = Inr x" by (metis obj_sumE)
  then obtain t where "reconcile_live env symbols s = (Inr x, t)" by (metis prod.collapse)
  then show False
    unfolding reconcile_live_def
    by (auto simp: verify_balance_response_def dict_items_def List.map_filter_def
        elim!: bindm_InrE seqm_InrE on_client_InrE dest!: sync_balances_empty)
qed

text \<open>Predicates of the session and the cached precisions, and of the session alone.\<close>

definition core_only :: "(CoinstoreExecutionService \<Rightarrow> bool) \<Rightarrow> bool" where
  "core_only P \<longleftrightarrow> (\<forall>s t. cs_session t = cs_session s \<longrightarrow> cs_precision t = cs_precision s \<longrightarrow> P s \<longrightarrow> P t)"

definition session_only :: "(CoinstoreExecutionService \<Rightarrow> bool) \<Rightarrow> bool" where
  "session_only P \<longleftrightarrow> (\<forall>s t. cs_session t = cs_session s \<longrightarrow> P s \<longrightarrow> P t)"

lemma session_only_core: "session_only P \<Longrightarrow> core_only P"
  by (auto simp: session_only_def core_only_def)

lemma core_account: "core_only P \<Longrightarrow> keeps P account"
proof (rule keepsI)
  fix s assume "core_only P" "P s"
  moreover have "cs_session (snd (account s)) = cs_session s" "cs_precision (snd (account s)) = cs_precision s"
    using account_run[of s] by auto
  ultimately show "P (snd (account s))" by (auto simp: core_only_def)
qed

lemma core_client: "core_only P \<Longrightarrow> keeps P (service_client env)"
proof (rule keepsI)
  fix s assume "core_only P" "P s"
  moreover have "cs_session (snd (service_client env s)) = cs_session s" "cs_precision (snd (service_client env s)) = cs_precision s"
    using service_client_run[of env s] by auto
  ultimately show "P (snd (service_client env s))" by (auto simp: core_only_def)
qed

lemma core_on_client: "core_only P \<Longrightarrow> keeps P (on_client m)"
  by (auto simp: core_only_def keeps_def on_client_def split: option.splits prod.splits)

lemmas core = core_account core_client core_on_client
lemmas session_core = core[OF session_only_core]

lemma session_precision: "session_only P \<Longrightarrow> keeps P (precision_for_symbol env symbol)"
  unfolding precision_for_symbol_def precision_def with_client_def trading_pair_def Let_def
  by (intro kept session_core keeps_modifies) (auto simp: session_only_def)

text \<open>The cached precisions are empty, so a pair that is not in the table is not found elsewhere.\<close>

definition no_precision :: "CoinstoreExecutionService \<Rightarrow> bool" where
  "no_precision s \<longleftrightarrow> cs_precision s \<in> {None, Some []}"

lemma discover_empty: "discover_symbol_precision env c = (Inr ps, c') \<Longrightarrow> ps = []"
  by (auto simp: discover_symbol_precision_def elim!: bindm_InrE dest: parse_symbol_precision_empty)

lemma precision_empty:
  assumes "precision env s = (r, t)" "no_precision s"
  shows "no_precision t \<and> cs_session t = cs_session s \<and> (\<forall>p. r = Inr p \<longrightarrow> p = [])"
proof -
  let ?Q = "\<lambda>t. no_precision t \<and> cs_session t = cs_session s"
  have "core_only ?Q" by (auto simp: core_only_def no_precision_def)
  then have k: "keeps ?Q (with_client env m)" for m :: "'a client_op"
    unfolding with_client_def by (intro kept core)
  show ?thesis
  proof (cases "cs_precision s")
    case None
    obtain q u where u: "with_client env (discover_symbol_precision (ce_http env)) s = (q, u)"
      by (cases "with_client env (discover_symbol_precision (ce_http env)) s")
    have "?Q u" using kept_run[OF k _ u] assms(2) by simp
    moreover have "q = Inr p \<Longrightarrow> p = []" for p
      using u by (auto simp: with_client_def elim!: seqm_InrE on_client_InrE dest: discover_empty)
    ultimately show ?thesis using assms(1) None u by (cases q) (auto simp: precision_def bindm_def seqm_def no_precision_def)
  next
    case (Some p)
    then show ?thesis using assms by (auto simp: precision_def no_precision_def)
  qed
qed

lemma to_upper_idem: "to_upper (to_upper c) = to_upper c"
proof (cases "CHR ''a'' \<le> c \<and> c \<le> CHR ''z''")
  case True
  then have "(of_char c :: nat) \<le> 122" "97 \<le> (of_char c :: nat)" by (simp_all add: less_eq_char_def)
  then have "(of_char (char_of ((of_char c :: nat) - 32) :: char) :: nat) < 97" by (simp add: of_char_of)
  then show ?thesis using True by (simp add: to_upper_def less_eq_char_def)
next
  case False
  then have "to_upper c = c" by (auto simp: to_upper_def)
  then show ?thesis by simp
qed

lemma normalize_symbol_idem: "normalize_symbol (normalize_symbol symbol) = normalize_symbol symbol"
proof -
  have "to_upper CHR ''/'' = CHR ''/''" by (simp add: to_upper_def less_eq_char_def)
  then show ?thesis by (simp add: normalize_symbol_def upper_def to_upper_idem)
qed

lemma unconfigured_precision:
  assumes "no_precision s" "pair_rows symbol (cs_session s) = []" "precision_for_symbol env (normalize_symbol symbol) s = (r, t)"
  shows "\<exists>e. r = Inl e"
proof -
  obtain q u where u: "precision env s = (q, u)" by (cases "precision env s")
  note e = precision_empty[OF u assms(1)]
  have "pair_rows (normalize_symbol symbol) (cs_session u) = []"
    using e assms(2) by (simp add: pair_rows_def normalize_symbol_idem)
  then show ?thesis
    using assms(3) e u by (cases q) (auto simp: precision_for_symbol_def bindm_def trading_pair_def checks_def Let_def)
qed

definition pairs_kept :: "TradingPairRow list \<Rightarrow> CoinstoreExecutionService \<Rightarrow> bool" where
  "pairs_kept ps s \<longleftrightarrow> tbl_trading_pairs (cs_session s) = ps \<and> no_precision s"

lemma pairs_core [intro!, simp]: "core_only (pairs_kept ps)"
  by (auto simp: core_only_def pairs_kept_def no_precision_def)

lemma pairs_precision [kept]: "keeps (pairs_kept ps) (precision_for_symbol env symbol)"
proof -
  have "keeps (pairs_kept ps) (precision env)"
    using precision_empty[of env] by (auto simp: keeps_def pairs_kept_def) (metis prod.collapse)+
  then show ?thesis unfolding precision_for_symbol_def trading_pair_def Let_def by (intro kept)
qed

lemma pairs_ensure [kept]: "keeps (pairs_kept ps) (ensure_live_pair env symbol)"
proof (rule keepsI)
  fix s assume s: "pairs_kept ps s"
  let ?m = "precision_for_symbol env (normalize_symbol symbol)"
  obtain r t where m: "?m s = (r, t)" by (cases "?m s")
  have "pairs_kept ps t" by (rule kept_run[OF pairs_precision s m])
  moreover have "pair_rows symbol (cs_session s) = [] \<Longrightarrow> \<exists>e. r = Inl e"
    using unconfigured_precision[OF _ _ m] s by (auto simp: pairs_kept_def)
  ultimately show "pairs_kept ps (snd (ensure_live_pair env symbol s))"
    using s m
    by (cases "pair_rows symbol (cs_session s)" rule: scalar_one_or_none.cases)
      (auto simp: ensure_live_pair_def checks_def Let_def bindm_def)
qed

lemma pairs_db:
  assumes "\<And>d. tbl_trading_pairs (snd (m d)) = tbl_trading_pairs d"
  shows "keeps (pairs_kept ps) (db m)"
  unfolding db_def
proof (rule keeps_zoom)
  fix s t r assume "pairs_kept ps s" "m (cs_session s) = (r, t)"
  then show "pairs_kept ps (s\<lparr>cs_session := t\<rparr>)"
    using assms[of "cs_session s"] by (simp add: pairs_kept_def no_precision_def)
qed

lemma pairs_uuid [kept]: "keeps (pairs_kept ps) (db uuid4)"
  by (rule pairs_db) (simp add: uuid4_def)

lemma pairs_persist_order [kept]: "keeps (pairs_kept ps) (persist_live_order env order intent)"
  unfolding persist_live_order_def live_client_order_id_def upsert_order_def Let_def
  by (intro kept core_account pairs_db pairs_core) (auto split: list.splits intro!: kept)

lemma pairs_persist_balance [kept]: "keeps (pairs_kept ps) (persist_balance_update env balance)"
  unfolding persist_balance_update_def Let_def by (intro kept core_account pairs_db pairs_core) auto

lemma pairs_persist_fill [kept]: "keeps (pairs_kept ps) (persist_fill_update env payload)"
  unfolding persist_fill_update_def book_trade_def Let_def by (intro kept core_account pairs_db pairs_core) auto

text \<open>The events of the service: every operation its users call.\<close>

datatype cs_event =
    CS_place coinstore_env OrderIntent
  | CS_cancel coinstore_env CancelIntent
  | CS_cancel_all coinstore_env "string option"
  | CS_status coinstore_env CancelIntent
  | CS_reconcile coinstore_env "string list"
  | CS_message coinstore_env obj

fun cs_step :: "cs_event \<Rightarrow> CoinstoreExecutionService \<Rightarrow> CoinstoreExecutionService" where
  "cs_step (CS_place env intent) s = snd (cs_place_order env intent s)"
| "cs_step (CS_cancel env intent) s = snd (cs_cancel_order env intent s)"
| "cs_step (CS_cancel_all env symbol) s = snd (cs_cancel_all_orders env symbol s)"
| "cs_step (CS_status env intent) s = snd (cs_get_order_status env intent s)"
| "cs_step (CS_reconcile env symbols) s = snd (reconcile_live env symbols s)"
| "cs_step (CS_message env message) s = snd (handle_private_message env message s)"

text \<open>The contract of an invariant of the service: the writing operations keep it, and so every event does.\<close>

locale service_invariant =
  fixes P :: "CoinstoreExecutionService \<Rightarrow> bool"
  assumes core: "core_only P"
    and precision: "keeps P (precision_for_symbol env symbol)"
    and order_row: "keeps P (persist_live_order env order intent)"
    and balance_row: "keeps P (persist_balance_update env balance)"
    and fill_row: "keeps P (persist_fill_update env payload)"
begin

lemma client_kept: "keeps P (with_client env m)"
  unfolding with_client_def by (intro kept core_client core_on_client core)

lemma verified_kept: "keeps P (verified env order)"
  unfolding verified_def by (intro kept order_row)

lemma message_kept: "keeps P (handle_payloads env payloads counts)"
proof (induction payloads arbitrary: counts)
  case (Cons p ps)
  have "keeps P (handle_payload env p counts)"
    unfolding handle_payload_def Let_def by (intro kept balance_row order_row fill_row)
  then show ?case using Cons by (simp add: kept)
qed (simp add: kept)

lemma step_kept: "P s \<Longrightarrow> P (cs_step e s)"
proof -
  have "keeps P (cs_place_order env intent)" for env intent
    unfolding cs_place_order_def order_gate_def send_order_def
    by (intro kept precision order_row core_account core_client core_on_client core)
  moreover have "keeps P (cs_cancel_order env intent')" "keeps P (cs_cancel_all_orders env symbol)" "keeps P (cs_get_order_status env intent')"
    for env intent' symbol
    unfolding cs_cancel_order_def cs_cancel_all_orders_def cs_get_order_status_def by (intro kept client_kept verified_kept)+
  moreover have "keeps P (reconcile_live env symbols)" for env symbols
    unfolding reconcile_live_def fetch_symbol_def Let_def
    by (intro kept balance_row order_row fill_row core_account core_client core_on_client core)
  moreover have "keeps P (handle_private_message env message)" for env message
    unfolding handle_private_message_def by (rule message_kept)
  ultimately show "P s \<Longrightarrow> P (cs_step e s)" by (cases e) (simp_all add: keepsD)
qed

lemma run_kept: "P s \<Longrightarrow> P (fold cs_step es s)"
  by (induction es arbitrary: s) (auto intro: step_kept)

end

interpretation pairs: service_invariant "pairs_kept ps" for ps
  by unfold_locales (rule pairs_core pairs_precision pairs_persist_order pairs_persist_balance pairs_persist_fill)+

text \<open>
  The service never configures a trading pair: whatever orders, answers and messages it handles,
  the table of pairs stays as it was. An order or a message for a symbol that is not in the table fails.
\<close>

theorem service_never_adds_pairs:
  "tbl_trading_pairs (cs_session (fold cs_step es (CoinstoreExecutionService_init d))) = tbl_trading_pairs d"
  using pairs.run_kept[of "tbl_trading_pairs d" "CoinstoreExecutionService_init d" es]
  by (simp add: pairs_kept_def no_precision_def CoinstoreExecutionService_init_def)

section \<open>Rows stay unique\<close>

definition trade_key :: "TradeRow \<Rightarrow> uuid \<times> string" where
  "trade_key row = (tr_exchange_account_id row, tr_exchange_trade_id row)"

definition rows_unique :: "CoinstoreExecutionService \<Rightarrow> bool" where
  "rows_unique s \<longleftrightarrow> distinct (map or_client_order_id (tbl_orders (cs_session s)))
     \<and> distinct (map trade_key (tbl_trades (cs_session s)))"

lemma unique_session [intro!, simp]: "session_only rows_unique"
  by (auto simp: session_only_def rows_unique_def)

lemma trades_session [intro!, simp]: "session_only (\<lambda>s. tbl_trades (cs_session s) = T)"
  by (auto simp: session_only_def)

text \<open>Writing the database: what the write keeps of its tables, the service keeps.\<close>

lemma keeps_on_db: "(\<And>s. P s \<Longrightarrow> P (s\<lparr>cs_session := snd (m (cs_session s))\<rparr>)) \<Longrightarrow> keeps P (db m)"
  unfolding db_def by (rule keeps_zoom) (metis snd_conv)

lemma session_ensure:
  assumes "session_only P" "\<And>d row s. P s \<Longrightarrow> P (s\<lparr>cs_session := (cs_session s)\<lparr>tbl_trading_pairs := tbl_trading_pairs (cs_session s) @ [row]\<rparr>\<rparr>)"
    "\<And>s n. P s \<Longrightarrow> P (s\<lparr>cs_session := (cs_session s)\<lparr>uuid_supply := n\<rparr>\<rparr>)"
  shows "keeps P (ensure_live_pair env symbol)"
  unfolding ensure_live_pair_def Let_def
  by (intro kept session_precision keeps_on_db) (auto simp: assms uuid4_def)

lemma unique_ensure [kept]: "keeps rows_unique (ensure_live_pair env symbol)"
  by (rule session_ensure) (auto simp: rows_unique_def)

lemma trades_ensure [kept]: "keeps (\<lambda>s. tbl_trades (cs_session s) = T) (ensure_live_pair env symbol)"
  by (rule session_ensure) auto

lemma unique_uuid [kept]: "keeps rows_unique (db uuid4)" "keeps (\<lambda>s. tbl_trades (cs_session s) = T) (db uuid4)"
  by (rule keeps_on_db, simp add: rows_unique_def uuid4_def)+

lemma db_modifies_run: "db (modifies f) s = (Inr (), s\<lparr>cs_session := f (cs_session s)\<rparr>)"
  by (simp add: db_def zoom_def)

lemma db_uuid_run: "db uuid4 s = (Inr (uuid_supply (cs_session s)), s\<lparr>cs_session := (cs_session s)\<lparr>uuid_supply := Suc (uuid_supply (cs_session s))\<rparr>\<rparr>)"
  by (simp add: db_def zoom_def uuid4_def)

lemma bindm_db [simp]:
  "bindm (db uuid4) f s = f (uuid_supply (cs_session s)) (s\<lparr>cs_session := (cs_session s)\<lparr>uuid_supply := Suc (uuid_supply (cs_session s))\<rparr>\<rparr>)"
  "seqm (db (modifies g)) n s = n (s\<lparr>cs_session := g (cs_session s)\<rparr>)"
  "bindm (checks h) k s = bindm (lift_res (h (cs_session s))) k s"
  by (simp_all add: bindm_def seqm_def db_modifies_run db_uuid_run checks_def)

lemma live_row_update_id: "or_client_order_id (live_row_update now order row) = or_client_order_id row"
  by (simp add: live_row_update_def Let_def)

lemma unique_upsert [kept]: "keeps rows_unique (upsert_order env order intent acc pair cid)"
proof (rule keepsI)
  fix s assume u: "rows_unique s"
  let ?rows = "filter (\<lambda>row. or_client_order_id row = cid) (tbl_orders (cs_session s))"
  have "map or_client_order_id (update_rows (\<lambda>row. or_client_order_id row = cid) (live_row_update (ce_now env) order) (tbl_orders (cs_session s)))
      = map or_client_order_id (tbl_orders (cs_session s))"
    by (rule update_rows_keys) (rule live_row_update_id)
  then show "rows_unique (snd (upsert_order env order intent acc pair cid s))"
    using u
    by (cases ?rows rule: scalar_one_or_none.cases)
      (auto simp: upsert_order_def rows_unique_def Let_def live_order_row_def filter_empty_conv)
qed

lemma trades_upsert [kept]: "keeps (\<lambda>s. tbl_trades (cs_session s) = T) (upsert_order env order intent acc pair cid)"
proof (rule keepsI)
  fix s :: CoinstoreExecutionService
  assume "tbl_trades (cs_session s) = T"
  then show "tbl_trades (cs_session (snd (upsert_order env order intent acc pair cid s))) = T"
    by (cases "filter (\<lambda>row. or_client_order_id row = cid) (tbl_orders (cs_session s))" rule: scalar_one_or_none.cases)
      (auto simp: upsert_order_def Let_def)
qed

lemma order_id_kept: "keeps P (db uuid4) \<Longrightarrow> keeps P (live_client_order_id env order intent)"
  unfolding live_client_order_id_def Let_def by (intro kept) (auto split: list.splits intro!: kept)

lemma unique_persist_order [kept]: "keeps rows_unique (persist_live_order env order intent)"
  unfolding persist_live_order_def Let_def by (intro kept session_core unique_session order_id_kept)

lemma trades_persist_order [kept]: "keeps (\<lambda>s. tbl_trades (cs_session s) = T) (persist_live_order env order intent)"
  unfolding persist_live_order_def Let_def by (intro kept session_core trades_session order_id_kept)

lemma live_trade_row_key:
  "live_trade_row env u account_id order payload = Inr row \<Longrightarrow> trade_key row = (account_id, trade_id_of (he_printer (ce_http env)) payload)"
  by (auto simp: live_trade_row_def bindr_Inr_iff Let_def trade_key_def)

lemma trade_rows: "filter (\<lambda>row. tr_exchange_account_id row = a \<and> tr_exchange_trade_id row = i) rows = filter (\<lambda>row. trade_key row = (a, i)) rows"
  by (simp add: trade_key_def)

lemma unique_book [kept]: "keeps rows_unique (book_trade env account_id order payload)"
proof (rule keepsI)
  fix s assume u: "rows_unique s"
  let ?key = "(account_id, trade_id_of (he_printer (ce_http env)) payload)"
  show "rows_unique (snd (book_trade env account_id order payload s))"
    using u
    by (cases "filter (\<lambda>row. trade_key row = ?key) (tbl_trades (cs_session s))" rule: scalar_one_or_none.cases;
        cases "live_trade_row env (uuid_supply (cs_session s)) account_id order payload")
      (auto simp: book_trade_def trade_rows rows_unique_def Let_def filter_empty_conv dest!: live_trade_row_key)
qed

lemma unique_persist_fill [kept]: "keeps rows_unique (persist_fill_update env payload)"
  unfolding persist_fill_update_def Let_def by (intro kept session_core unique_session)

lemma unique_persist_balance [kept]: "keeps rows_unique (persist_balance_update env balance)"
  unfolding persist_balance_update_def Let_def
  by (intro kept session_core unique_session keeps_on_db) (auto simp: rows_unique_def)

interpretation unique: service_invariant rows_unique
  by unfold_locales
    (rule session_only_core[OF unique_session] session_precision[OF unique_session] unique_persist_order unique_persist_balance unique_persist_fill)+

text \<open>
  C7. Whatever the venue answers and sends, in whatever order the service's operations run, the
  orders table has one row per client order id and the trades table one row per account and trade id.
\<close>

theorem live_rows_unique:
  assumes "distinct (map or_client_order_id (tbl_orders d))" "distinct (map trade_key (tbl_trades d))"
  shows "rows_unique (fold cs_step es (CoinstoreExecutionService_init d))"
  using unique.run_kept[of "CoinstoreExecutionService_init d" es] assms
  by (simp add: rows_unique_def CoinstoreExecutionService_init_def)

text \<open>The account, once read, is cached.\<close>

lemma account_cached: "account s = (Inr acc, t) \<Longrightarrow> cs_account t = Some acc \<and> account t = (Inr acc, t)"
  by (cases "cs_account s"; cases "newest_account (cs_session s)") (auto simp: account_def seqm_def)

lemma cached_account [kept]: "keeps (\<lambda>s. cs_account s = Some acc) account"
  by (auto simp: keeps_def account_def)

lemma cached_db [kept]: "keeps (\<lambda>s. cs_account s = Some acc) (db m)"
  by (rule keeps_on_db) simp

lemma cached_client [kept]: "keeps (\<lambda>s. cs_account s = Some acc) (service_client env)"
  unfolding service_client_def Let_def by (intro kept keeps_modifies) auto

lemma cached_on_client [kept]: "keeps (\<lambda>s. cs_account s = Some acc) (on_client m)"
  by (auto simp: keeps_def on_client_def split: option.splits prod.splits)

lemma cached_persist_order [kept]: "keeps (\<lambda>s. cs_account s = Some acc) (persist_live_order env order intent)"
  unfolding persist_live_order_def upsert_order_def ensure_live_pair_def precision_for_symbol_def precision_def with_client_def
    trading_pair_def Let_def
  by (intro kept keeps_modifies order_id_kept) auto

text \<open>A booked fill has a row, and a fill with a row is not booked.\<close>

lemma book_trade_found:
  assumes "rows_unique s" "row \<in> set (tbl_trades (cs_session s))"
    "trade_key row = (account_id, trade_id_of (he_printer (ce_http env)) payload)"
  shows "book_trade env account_id order payload s = (Inr row, s)"
proof -
  have "distinct (map trade_key (tbl_trades (cs_session s)))" using assms(1) by (simp add: rows_unique_def)
  from scalar_one_or_none_key[OF this] scalar_one_key[OF this assms(2,3)] show ?thesis
    using assms(2,3)
    by (cases "filter (\<lambda>r. trade_key r = (account_id, trade_id_of (he_printer (ce_http env)) payload)) (tbl_trades (cs_session s))" rule: scalar_one.cases)
      (auto simp: book_trade_def trade_rows Let_def)
qed

lemma book_trade_books:
  assumes "book_trade env account_id order payload s = (Inr row, t)"
  shows "row \<in> set (tbl_trades (cs_session t)) \<and> trade_key row = (account_id, trade_id_of (he_printer (ce_http env)) payload)
    \<and> cs_account t = cs_account s"
proof -
  let ?rows = "filter (\<lambda>r. trade_key r = (account_id, trade_id_of (he_printer (ce_http env)) payload)) (tbl_trades (cs_session s))"
  have "set ?rows \<subseteq> {r \<in> set (tbl_trades (cs_session s)). trade_key r = (account_id, trade_id_of (he_printer (ce_http env)) payload)}" by auto
  then show ?thesis
    using assms
    by (cases ?rows rule: scalar_one_or_none.cases;
        cases "live_trade_row env (uuid_supply (cs_session s)) account_id order payload")
      (auto simp: book_trade_def trade_rows Let_def dest: live_trade_row_key)
qed

lemma fill_booked:
  assumes "rows_unique s" "persist_fill_update env payload s = (Inr row, t)"
  shows "\<exists>acc. row \<in> set (tbl_trades (cs_session t)) \<and> trade_key row = (ea_id acc, trade_id_of (he_printer (ce_http env)) payload)
    \<and> cs_account t = Some acc \<and> rows_unique t"
proof -
  obtain acc s1 parsed order s2 where r: "account s = (Inr acc, s1)" "persist_live_order env parsed None s1 = (Inr order, s2)"
      "book_trade env (ea_id acc) order payload s2 = (Inr row, t)"
    using assms(2) by (auto simp: persist_fill_update_def Let_def elim!: bindm_InrE seqm_InrE split: if_splits)
  have "cs_account s2 = Some acc"
    using kept_run[OF cached_persist_order _ r(2)] account_cached[OF r(1)] by simp
  moreover have "rows_unique t" by (rule kept_run[OF unique_persist_fill assms])
  ultimately show ?thesis using book_trade_books[OF r(3)] by auto
qed

text \<open>
  C14. A fill is booked once: after a fill update was booked, another update with the same trade id,
  whatever else it says, leaves the trades table as it is.
\<close>

theorem fill_booked_once:
  assumes "rows_unique s" "persist_fill_update env payload s = (Inr row, t)" "persist_fill_update env' payload' t = (r, u)"
    "trade_id_of (he_printer (ce_http env')) payload' = trade_id_of (he_printer (ce_http env)) payload"
  shows "tbl_trades (cs_session u) = tbl_trades (cs_session t)"
proof -
  obtain acc where row: "row \<in> set (tbl_trades (cs_session t))" "cs_account t = Some acc" "rows_unique t"
    "trade_key row = (ea_id acc, trade_id_of (he_printer (ce_http env)) payload)"
    using fill_booked[OF assms(1,2)] by blast
  let ?P = "\<lambda>s. rows_unique s \<and> tbl_trades (cs_session s) = tbl_trades (cs_session t)"
  have k: "keeps ?P (persist_live_order env' parsed None)" for parsed
    using unique_persist_order trades_persist_order by (auto simp: keeps_def)
  have b: "keeps ?P (book_trade env' (ea_id acc) order payload')" for order
    using book_trade_found[of _ row "ea_id acc" env' payload' order] row assms(4) by (auto simp: keeps_def)
  let ?m = "seqm (lift_res (assert_fill_safe (he_printer (ce_http env')) (ce_uuid_text env' (ea_id acc)) payload')) (
      bindm (lift_res (execution_order_from_payload (he_printer (ce_http env')) payload')) (\<lambda>parsed.
      bindm (persist_live_order env' parsed None) (\<lambda>order.
      if trade_id_of (he_printer (ce_http env')) payload' = [] then raise_err (RuntimeError ''Coinstore fill update is missing tradeId/matchId'')
      else book_trade env' (ea_id acc) order payload')))"
  have "keeps ?P ?m" by (intro kept k b)
  moreover have "account t = (Inr acc, t)" using row(2) by (simp add: account_def)
  then have "?m t = (r, u)" using assms(3) by (simp add: persist_fill_update_def Let_def bindm_Inr[where m = account])
  ultimately show ?thesis using kept_run[of ?P ?m t] row(3) by blast
qed

section \<open>Messages of the private stream\<close>

lemma size_in_list: "x \<in> set xs \<Longrightarrow> size x < size_list size xs" for x :: json
  by (induction xs) auto

text \<open>The payloads a value holds, read recursively instead of with a work list.\<close>

function leaves :: "json \<Rightarrow> obj list" where
  "leaves (JList xs) = concat (map leaves xs)"
| "leaves (JDict d) = (case nested_of d of JList xs \<Rightarrow> concat (map leaves xs) | _ \<Rightarrow> [d])"
| "leaves JNull = []"
| "leaves (JBool b) = []"
| "leaves (JInt n) = []"
| "leaves (JFloat x) = []"
| "leaves (JStr t) = []"
  by pat_completeness auto

termination
  by (relation "measure size") (auto dest!: size_in_list nested_list_size)

lemma unpack_leaves: "mset (unpack ws) = mset (concat (map leaves ws))"
  by (induction ws rule: unpack.induct) (auto split: json.splits)

text \<open>
  C36. Unpacking a private message ends, and what it yields are exactly the payloads of the message
  and of its entries \<open>body\<close>, \<open>data\<close>, \<open>result\<close> and \<open>payload\<close>, each as often as it occurs there.
\<close>

theorem private_payloads_exact:
  "mset (private_payloads message) =
     mset (leaves (JDict message)) + (\<Sum>k \<leftarrow> [''body'', ''data'', ''result'', ''payload'']. mset (leaves (jget message k)))"
proof -
  have "mset (concat (map leaves (filter (\<lambda>v. v \<noteq> JNull) vs))) = (\<Sum>v \<leftarrow> vs. mset (leaves v))" for vs
    by (induction vs) auto
  from this[of "map (jget message) [''body'', ''data'', ''result'', ''payload'']"] show ?thesis
    unfolding private_payloads_def unpack_leaves by (simp only: list.map concat.simps mset_append list.map_comp comp_def)
qed

text \<open>
  A payload that arrives in the list \<open>data\<close> of a message is processed twice: once with the
  message and once with its entry.
\<close>

theorem data_payloads_processed_twice:
  assumes "jget message ''data'' = JList xs" "xs \<noteq> []"
    "jget message ''body'' = JNull" "jget message ''result'' = JNull" "jget message ''payload'' = JNull"
  shows "mset (private_payloads message) = mset (concat (map leaves xs)) + mset (concat (map leaves xs))"
  using assms by (simp add: private_payloads_def unpack_leaves nested_of_def)

section \<open>Witnesses\<close>

definition example_cs_env :: coinstore_env where
  "example_cs_env = \<lparr>ce_http = (one_answer \<lparr>hp_status_code = 200, hp_body = Body_json (JDict [])\<rparr>)
       \<lparr>he_crypto := \<lparr>hmac_sha256 = (\<lambda>_ _. replicate 32 CHR ''a''), hmac_sha512 = (\<lambda>_ _. []), sha512 = (\<lambda>_. [])\<rparr>\<rparr>,
     ce_decrypt = Inr, ce_now = 0, ce_now_ms = 0, ce_monotonic = 0, ce_uuid_text = str_nat, ce_uuid_hex = str_nat\<rparr>"

definition example_cs_session :: session where
  "example_cs_session = empty_session\<lparr>
     tbl_exchange_accounts := [ExchangeAccount_new 0 0 ''coinstore'' ''a'' ''live'' ''k'' ''s'' None ''key'' [] True],
     tbl_trading_pairs := [\<lparr>tp_id = 1, tp_exchange_name = ''coinstore'', tp_base_asset = ''BTC'', tp_quote_asset = ''USDT'',
        tp_normalized_symbol = ''BTC/USDT'', tp_venue_symbol = ''BTCUSDT'', tp_price_precision = 2, tp_quantity_precision = 3,
        tp_min_order_size = Some (1/1000), tp_min_notional = Some 5, tp_tick_size = Some (1/100), tp_lot_size = Some (1/1000), tp_is_enabled = True\<rparr>],
     uuid_supply := 2\<rparr>"

definition example_service :: CoinstoreExecutionService where
  "example_service = \<lparr>cs_session = example_cs_session,
     cs_client = Some (new_client example_cs_env \<lparr>ec_api_key = ''k'', ec_api_secret = ''s'', ec_passphrase = None, ec_memo = None\<rparr>),
     cs_account = newest_account example_cs_session, cs_precision = Some []\<rparr>"

lemma example_tenacity: "tenacity (he_retrying (ce_http example_cs_env))"
  by (simp add: example_cs_env_def one_answer_def tenacity_retry_op)

lemma example_venue: "venue_ok example_service"
  by (simp add: example_service_def venue_ok_def new_client_def)

lemma example_gate: "fst (order_gate example_cs_env (btc_order (12/1000) 10000) example_service) = Inr btc_precision"
  by code_simp

lemma example_gate_client: "cs_client (snd (order_gate example_cs_env (btc_order (12/1000) 10000) example_service)) = cs_client example_service"
  by code_simp

lemma example_tokens: "cs_client example_service = Some c \<Longrightarrow> tokens_left (ce_http example_cs_env) 1 c"
  by (auto simp: example_service_def new_client_def example_cs_env_def one_answer_def tokens_left_def AsyncRateLimiter_init_def
      coinstore_rate_limit_def bucket_ok_def)

lemma example_gate_run:
  "order_gate example_cs_env (btc_order (12/1000) 10000) example_service =
     (Inr btc_precision, snd (order_gate example_cs_env (btc_order (12/1000) 10000) example_service))"
  using example_gate by (metis prod.collapse)

lemma example_client: "\<exists>c. cs_client (snd (order_gate example_cs_env (btc_order (12/1000) 10000) example_service)) = Some c
    \<and> tokens_left (ce_http example_cs_env) 1 c"
  unfolding example_gate_client using example_tokens by (simp add: example_service_def)

theorem safe_live_order_is_sent_witness:
  "\<exists>new. sent_posts (snd (cs_place_order example_cs_env (btc_order (12/1000) 10000) example_service)) = sent_posts example_service @ new \<and> new \<noteq> []"
  using safe_live_order_is_sent[OF example_tenacity example_venue example_gate_run] example_client by blast

lemma example_sent: "sent_posts (snd (cs_place_order example_cs_env (btc_order (12/1000) 10000) example_service)) \<noteq> sent_posts example_service"
  using gated_order_sent[OF example_tenacity example_venue example_gate_run] example_client by (metis append_self_conv)


theorem live_rows_unique_witness: "rows_unique (fold cs_step [CS_message example_cs_env [(''orderId'', JStr ''7'')]] (CoinstoreExecutionService_init example_cs_session))"
  by (rule live_rows_unique) (simp_all add: example_cs_session_def empty_session_def)

definition example_fill :: obj where
  "example_fill = [(''tradeId'', JStr ''t''), (''execQty'', JStr ''1''), (''orderId'', JStr ''7''), (''symbol'', JStr ''BTC/USDT''), (''price'', JInt 9)]"

lemma example_fill_booked: "map_sum id (\<lambda>_. ()) (fst (persist_fill_update example_cs_env example_fill example_service)) = Inr ()"
  by code_simp

theorem fill_booked_once_witness:
  "tbl_trades (cs_session (snd (persist_fill_update example_cs_env example_fill (snd (persist_fill_update example_cs_env example_fill example_service)))))
     = tbl_trades (cs_session (snd (persist_fill_update example_cs_env example_fill example_service)))"
proof -
  obtain row where "fst (persist_fill_update example_cs_env example_fill example_service) = Inr row"
    using example_fill_booked by (cases "fst (persist_fill_update example_cs_env example_fill example_service)") auto
  then have "persist_fill_update example_cs_env example_fill example_service = (Inr row, snd (persist_fill_update example_cs_env example_fill example_service))"
    by (metis prod.collapse)
  moreover have "rows_unique example_service" by (simp add: rows_unique_def example_service_def example_cs_session_def empty_session_def)
  ultimately show ?thesis using fill_booked_once[OF _ _ prod.collapse[symmetric] refl] by blast
qed

theorem data_payloads_processed_twice_witness:
  "mset (private_payloads [(''data'', JList [JDict [(''asset'', JStr ''BTC'')]])]) = {#[(''asset'', JStr ''BTC'')], [(''asset'', JStr ''BTC'')]#}"
  using data_payloads_processed_twice[of "[(''data'', JList [JDict [(''asset'', JStr ''BTC'')]])]" "[JDict [(''asset'', JStr ''BTC'')]]"]
  by (simp add: jget_def nested_of_def)

end
