(* ===== verification/Private_Stream.thy ===== *)
theory Private_Stream
  imports Connectors Reconnect Coinstore_Safety
begin

text \<open>
  \<open>execution/coinstore_ws.py\<close>: the private stream of Coinstore. Each connection is authenticated with a signed
  message and subscribed, heartbeats are answered, everything else goes to the handler; a failed
  connection is tried again after a delay. Frames and connections are those of \<open>Connectors\<close>; what
  is sent is kept in a log. The clock in milliseconds is read once per message sent.
\<close>

section \<open>State\<close>

record 'h CoinstorePrivateWebSocketClient =
  pw_credentials :: ExecutionCredentials
  pw_max_reconnect_delay_seconds :: float
  pw_stopped :: bool
  pw_connected :: bool
  pw_connection_attempts :: nat
  pw_subscriptions_sent :: nat
  pw_messages_received :: nat
  pw_sent :: "json list"
  pw_delay :: float
  pw_slept :: "float list"
  pw_handler :: 'h

type_synonym ('h, 'a) pw_op = "('h CoinstorePrivateWebSocketClient, 'a) op"

record 'h private_env =
  pv_time_ms :: "nat \<Rightarrow> int"
  pv_crypto :: crypto
  pv_printer :: printer
  pv_handle :: "obj \<Rightarrow> ('h, unit) op"

definition CoinstorePrivateWebSocketClient_init :: "ExecutionCredentials \<Rightarrow> float \<Rightarrow> 'h \<Rightarrow> 'h CoinstorePrivateWebSocketClient" where
  "CoinstorePrivateWebSocketClient_init credentials max_delay h =
     \<lparr>pw_credentials = credentials, pw_max_reconnect_delay_seconds = max_delay, pw_stopped = False, pw_connected = False,
      pw_connection_attempts = 0, pw_subscriptions_sent = 0, pw_messages_received = 0, pw_sent = [], pw_delay = 1, pw_slept = [],
      pw_handler = h\<rparr>"

section \<open>Messages\<close>

definition private_signature :: "crypto \<Rightarrow> ExecutionCredentials \<Rightarrow> int \<Rightarrow> string" where
  "private_signature cr credentials expires = coinstore_signature cr (ec_api_secret credentials) expires (str_int expires)"

text \<open>\<open>expires or now\<close>.\<close>

definition auth_payload :: "crypto \<Rightarrow> ExecutionCredentials \<Rightarrow> int \<Rightarrow> int option \<Rightarrow> json" where
  "auth_payload cr credentials now_ms expires_arg =
     (let expires = (case expires_arg of Some e \<Rightarrow> if e \<noteq> 0 then e else now_ms | None \<Rightarrow> now_ms)
      in JList [JStr ''auth'', JDict [(''header'', JDict [(''type'', JInt 1001)]),
           (''body'', JDict [(''apiKey'', JStr (ec_api_key credentials)), (''expires'', JStr (str_int expires)),
              (''signature'', JStr (private_signature cr credentials expires))])]])"

definition private_subscribe_payload :: json where
  "private_subscribe_payload =
     JList [JStr ''subscribe'', JDict [(''header'', JDict [(''type'', JInt 1003)]),
       (''body'', JDict [(''topics'', JList [JDict [(''topic'', JStr ''match'')]])])]]"

definition is_heartbeat :: "printer \<Rightarrow> obj \<Rightarrow> bool" where
  "is_heartbeat printer message \<longleftrightarrow>
     lower (py_str printer (get_or message [''op'', ''event'', ''type'', ''T''] (JStr []))) \<in> {''ping'', ''pong'', ''heartbeat''}"

definition is_ping :: "printer \<Rightarrow> obj \<Rightarrow> bool" where
  "is_ping printer message \<longleftrightarrow> lower (py_str printer (get_or message [''op'', ''event'', ''type''] (JStr []))) = ''ping''"

definition pong :: "int \<Rightarrow> obj \<Rightarrow> json" where
  "pong now_ms message = JDict [(''op'', JStr ''pong''), (''ts'', get_or message [''ts''] (JInt now_ms))]"

section \<open>Connections\<close>

definition private_send :: "connection \<Rightarrow> json \<Rightarrow> ('h, unit) pw_op" where
  "private_send conn message =
     bindm (reads (\<lambda>c. length (pw_sent c))) (\<lambda>n.
     seqm (lift_res (cn_send conn n message)) (modifies (\<lambda>c. c\<lparr>pw_sent := pw_sent c @ [message]\<rparr>)))"

definition authenticate_and_subscribe :: "'h private_env \<Rightarrow> connection \<Rightarrow> ('h, unit) pw_op" where
  "authenticate_and_subscribe env conn =
     bindm (reads id) (\<lambda>c.
     seqm (private_send conn (auth_payload (pv_crypto env) (pw_credentials c) (pv_time_ms env (length (pw_sent c))) None)) (
     seqm (private_send conn private_subscribe_payload)
       (modifies (\<lambda>c. c\<lparr>pw_subscriptions_sent := pw_subscriptions_sent c + 1\<rparr>))))"

definition heartbeat_response :: "'h private_env \<Rightarrow> connection \<Rightarrow> obj \<Rightarrow> ('h, unit) pw_op" where
  "heartbeat_response env conn message =
     (if is_ping (pv_printer env) message
      then bindm (reads (\<lambda>c. pv_time_ms env (length (pw_sent c)))) (\<lambda>now_ms. private_send conn (pong now_ms message))
      else ret ())"

definition private_frame :: "'h private_env \<Rightarrow> connection \<Rightarrow> frame \<Rightarrow> ('h, unit) pw_op" where
  "private_frame env conn raw =
     bindm (lift_res (decode_frame raw)) (\<lambda>decoded.
     seqm (modifies (\<lambda>c. c\<lparr>pw_messages_received := pw_messages_received c + 1\<rparr>)) (
     bindm (lift_res (as_dict decoded)) (\<lambda>message.
     if is_heartbeat (pv_printer env) message then heartbeat_response env conn message
     else zoom pw_handler (\<lambda>h c. c\<lparr>pw_handler := h\<rparr>) (pv_handle env message))))"

definition private_session :: "'h private_env \<Rightarrow> connection \<Rightarrow> ('h, unit) pw_op" where
  "private_session env conn =
     seqm (modifies (\<lambda>c. c\<lparr>pw_connected := True\<rparr>)) (
     seqm (authenticate_and_subscribe env conn) (
     seqm (modifies (\<lambda>c. c\<lparr>pw_delay := 1\<rparr>)) (
     seqm (loop (private_frame env conn) (cn_frames conn)) (lift_res (cn_closed conn)))))"

definition private_attempt :: "'h private_env \<Rightarrow> connection res \<Rightarrow> ('h, unit) pw_op" where
  "private_attempt env att =
     catch (seqm (modifies (\<lambda>c. c\<lparr>pw_connection_attempts := pw_connection_attempts c + 1\<rparr>)) (bindm (lift_res att) (private_session env)))
       (\<lambda>e. modifies (\<lambda>c. c\<lparr>pw_connected := False, pw_slept := pw_slept c @ [pw_delay c],
                             pw_delay := min (pw_max_reconnect_delay_seconds c) (pw_delay c * 2)\<rparr>))"

fun private_run :: "'h private_env \<Rightarrow> ws_event \<Rightarrow> 'h CoinstorePrivateWebSocketClient \<Rightarrow> 'h CoinstorePrivateWebSocketClient" where
  "private_run env Ws_stop c = c\<lparr>pw_stopped := True\<rparr>"
| "private_run env (Ws_attempt att) c = (if pw_stopped c then c else snd (private_attempt env att c))"

text \<open>\<open>test_connection\<close>: a connection of its own; a frame that does not come in time is a \<open>TimeoutError\<close>.\<close>

definition receive_in_time :: "frame list \<Rightarrow> nat \<Rightarrow> frame res" where
  "receive_in_time frames n = (if n < length frames then Inr (frames ! n) else Inl (RuntimeError ''TimeoutError''))"

definition test_connection :: "'h private_env \<Rightarrow> ExecutionCredentials \<Rightarrow> connection res \<Rightarrow> obj res" where
  "test_connection env credentials att =
     bindr att (\<lambda>conn.
     bindr (cn_send conn 0 (auth_payload (pv_crypto env) credentials (pv_time_ms env 0) None)) (\<lambda>_.
     bindr (receive_in_time (cn_frames conn) 0) (\<lambda>auth_frame.
     bindr (cn_send conn 1 private_subscribe_payload) (\<lambda>_.
     bindr (receive_in_time (cn_frames conn) 1) (\<lambda>subscribe_frame.
     bindr (decode_frame auth_frame) (\<lambda>auth_response.
     bindr (decode_frame subscribe_frame) (\<lambda>subscribe_response.
     Inr [(''connected'', JBool True), (''auth_response'', auth_response), (''subscribe_response'', subscribe_response)])))))))"

section \<open>The log of a connection\<close>

text \<open>What the client sends on a connection: the signed authentication, the subscription, then answers to pings.\<close>

definition is_pong :: "json \<Rightarrow> bool" where
  "is_pong message \<longleftrightarrow> (\<exists>ts. message = JDict [(''op'', JStr ''pong''), (''ts'', ts)])"

definition answers_since :: "json list \<Rightarrow> 'h CoinstorePrivateWebSocketClient \<Rightarrow> bool" where
  "answers_since sent c \<longleftrightarrow> (\<exists>answers. pw_sent c = sent @ answers \<and> list_all is_pong answers)"

lemma keeps_answers_modifies: "(\<And>c. pw_sent (f c) = pw_sent c) \<Longrightarrow> keeps (answers_since sent) (modifies f)"
  by (rule keeps_modifies) (simp add: answers_since_def)

lemma keeps_answers_frame: "keeps (answers_since sent) (private_frame env conn raw)"
proof -
  have pong: "keeps (answers_since sent) (private_send conn (pong now_ms message))" for now_ms message
    unfolding private_send_def
    by (intro kept keeps_modifies) (auto simp: answers_since_def is_pong_def pong_def)
  have "keeps (answers_since sent) (zoom pw_handler (\<lambda>h c. c\<lparr>pw_handler := h\<rparr>) m)" for m :: "('a, unit) op"
    by (rule keeps_zoom) (simp add: answers_since_def)
  then show ?thesis
    unfolding private_frame_def heartbeat_response_def by (intro kept pong keeps_answers_modifies) simp_all
qed

lemma sent_after_opening:
  assumes "\<And>n m. cn_send conn n m = Inr ()"
  shows "\<exists>c'. authenticate_and_subscribe env conn c = (Inr (), c') \<and> pw_sent c' = pw_sent c @
    [auth_payload (pv_crypto env) (pw_credentials c) (pv_time_ms env (length (pw_sent c))) None, private_subscribe_payload]"
  using assms by (simp add: authenticate_and_subscribe_def private_send_def seqm_def bindm_def)

text \<open>
  On every connection that can send, the first two messages are the authentication, signed over its own expiry, and the
  subscription; after them the client sends nothing but answers to pings.
\<close>

theorem private_connection_opens_authenticated:
  assumes "\<forall>n m. cn_send conn n m = Inr ()" "\<not> pw_stopped c"
  shows "\<exists>expires answers. list_all is_pong answers
    \<and> pw_sent (private_run env (Ws_attempt (Inr conn)) c) = pw_sent c
        @ [JList [JStr ''auth'', JDict [(''header'', JDict [(''type'', JInt 1001)]),
             (''body'', JDict [(''apiKey'', JStr (ec_api_key (pw_credentials c))), (''expires'', JStr (str_int expires)),
                (''signature'', JStr (coinstore_signature (pv_crypto env) (ec_api_secret (pw_credentials c)) expires (str_int expires)))])]],
           private_subscribe_payload] @ answers"
proof -
  let ?c = "c\<lparr>pw_connection_attempts := pw_connection_attempts c + 1, pw_connected := True\<rparr>"
  let ?auth = "auth_payload (pv_crypto env) (pw_credentials c) (pv_time_ms env (length (pw_sent c))) None"
  obtain c1 where c1: "authenticate_and_subscribe env conn ?c = (Inr (), c1)" "pw_sent c1 = pw_sent c @ [?auth, private_subscribe_payload]"
    using sent_after_opening[of conn env ?c] assms(1) by auto
  let ?sent = "pw_sent c @ [?auth, private_subscribe_payload]"
  let ?rest = "seqm (modifies (\<lambda>c. c\<lparr>pw_delay := 1\<rparr>)) (seqm (loop (private_frame env conn) (cn_frames conn)) (lift_res (cn_closed conn)))"
  have "keeps (answers_since ?sent) ?rest"
    by (intro kept keeps_answers_modifies keeps_answers_frame) simp
  moreover have "answers_since ?sent c1" by (auto simp: answers_since_def c1 intro: exI[of _ "[]"])
  ultimately have "answers_since ?sent (snd (?rest c1))" by (rule keepsD)
  moreover have "private_session env conn (c\<lparr>pw_connection_attempts := pw_connection_attempts c + 1\<rparr>) = ?rest c1"
    using c1(1) by (simp add: private_session_def seqm_def bindm_def)
  then have "pw_sent (private_run env (Ws_attempt (Inr conn)) c) = pw_sent (snd (?rest c1))"
    using assms(2) by (cases "?rest c1") (auto simp: private_attempt_def catch_def seqm_def bindm_def split: sum.splits)
  ultimately obtain answers where "list_all is_pong answers" "pw_sent (private_run env (Ws_attempt (Inr conn)) c) = ?sent @ answers"
    by (auto simp: answers_since_def)
  then show ?thesis
    by (intro exI[of _ "pv_time_ms env (length (pw_sent c))"] exI[of _ answers]) (simp add: auth_payload_def private_signature_def Let_def del: private_run.simps)
qed

section \<open>Heartbeats and messages\<close>

text \<open>The messages a connection brings, and those of them that are for the handler.\<close>

definition for_handler :: "printer \<Rightarrow> frame \<Rightarrow> obj option" where
  "for_handler printer raw = (case decode_frame raw of Inr (JDict m) \<Rightarrow> if is_heartbeat printer m then None else Some m | _ \<Rightarrow> None)"

definition object_frame :: "frame \<Rightarrow> bool" where
  "object_frame raw \<longleftrightarrow> (\<exists>m. decode_frame raw = Inr (JDict m))"

lemma private_frame_run:
  assumes "object_frame raw" "\<And>n m. cn_send conn n m = Inr ()" "\<And>m h. fst (pv_handle env m h) = Inr ()"
  shows "\<exists>c'. private_frame env conn raw c = (Inr (), c') \<and> pw_messages_received c' = pw_messages_received c + 1
    \<and> pw_handler c' = (case for_handler (pv_printer env) raw of None \<Rightarrow> pw_handler c | Some m \<Rightarrow> snd (pv_handle env m (pw_handler c)))"
proof -
  obtain m where m: "decode_frame raw = Inr (JDict m)" using assms(1) by (auto simp: object_frame_def)
  show ?thesis
  proof (cases "is_heartbeat (pv_printer env) m")
    case True
    then show ?thesis using m assms(2)
      by (auto simp: private_frame_def heartbeat_response_def private_send_def for_handler_def seqm_def bindm_def)
  next
    case False
    moreover obtain h' where "pv_handle env m (pw_handler c) = (Inr (), h')" using assms(3)[of m "pw_handler c"] by (metis prod.collapse)
    ultimately show ?thesis using m by (auto simp: private_frame_def for_handler_def zoom_def seqm_def bindm_def)
  qed
qed

lemma private_frames_run:
  assumes "list_all object_frame frames" "\<And>n m. cn_send conn n m = Inr ()" "\<And>m h. fst (pv_handle env m h) = Inr ()"
  shows "\<exists>c'. loop (private_frame env conn) frames c = (Inr (), c') \<and> pw_messages_received c' = pw_messages_received c + length frames
    \<and> pw_handler c' = fold (\<lambda>m h. snd (pv_handle env m h)) (List.map_filter (for_handler (pv_printer env)) frames) (pw_handler c)"
  using assms(1)
proof (induction frames arbitrary: c)
  case (Cons raw frames)
  then obtain c1 where c1: "private_frame env conn raw c = (Inr (), c1)" "pw_messages_received c1 = pw_messages_received c + 1"
    "pw_handler c1 = (case for_handler (pv_printer env) raw of None \<Rightarrow> pw_handler c | Some m \<Rightarrow> snd (pv_handle env m (pw_handler c)))"
    using private_frame_run[of raw conn env c] assms(2,3) by auto
  with Cons.IH[of c1] Cons.prems show ?case
    by (auto simp: seqm_def bindm_def map_filter_simps split: option.split)
qed (simp add: map_filter_simps)

text \<open>
  On a connection that works, every message that is not a heartbeat reaches the handler, once and in order, no
  heartbeat does, and every message is counted.
\<close>

theorem private_messages_handled_in_order:
  assumes "list_all object_frame frames" "\<forall>n m. send n m = Inr ()" "\<forall>m h. fst (pv_handle env m h) = Inr ()" "\<not> pw_stopped c"
  shows "let c' = private_run env (Ws_attempt (Inr \<lparr>cn_send = send, cn_frames = frames, cn_closed = ending\<rparr>)) c
    in pw_handler c' = fold (\<lambda>m h. snd (pv_handle env m h)) (List.map_filter (for_handler (pv_printer env)) frames) (pw_handler c)
     \<and> pw_messages_received c' = pw_messages_received c + length frames"
proof -
  let ?conn = "\<lparr>cn_send = send, cn_frames = frames, cn_closed = ending\<rparr>"
  have send: "cn_send ?conn n m = Inr ()" for n m using assms(2) by simp
  let ?c = "c\<lparr>pw_connection_attempts := pw_connection_attempts c + 1, pw_connected := True\<rparr>"
  obtain c1 where c1: "authenticate_and_subscribe env ?conn ?c = (Inr (), c1)" "pw_handler c1 = pw_handler c" "pw_messages_received c1 = pw_messages_received c"
    using assms(2) by (simp add: authenticate_and_subscribe_def private_send_def seqm_def bindm_def)
  obtain c2 where c2: "loop (private_frame env ?conn) frames (c1\<lparr>pw_delay := 1\<rparr>) = (Inr (), c2)"
    "pw_messages_received c2 = pw_messages_received c + length frames"
    "pw_handler c2 = fold (\<lambda>m h. snd (pv_handle env m h)) (List.map_filter (for_handler (pv_printer env)) frames) (pw_handler c)"
    using private_frames_run[of frames ?conn env "c1\<lparr>pw_delay := 1\<rparr>"] assms(1,3) send c1 by auto
  have "private_session env ?conn (c\<lparr>pw_connection_attempts := pw_connection_attempts c + 1\<rparr>) = (ending, c2)"
    using c1 c2 by (simp add: private_session_def seqm_def bindm_def)
  then show ?thesis using assms(4) c2 by (cases ending) (auto simp: private_attempt_def catch_def seqm_def bindm_def Let_def)
qed

section \<open>Reconnection\<close>

definition private_at :: "'h CoinstorePrivateWebSocketClient \<Rightarrow> 'h CoinstorePrivateWebSocketClient \<Rightarrow> bool" where
  "private_at s c \<longleftrightarrow> pw_max_reconnect_delay_seconds c = pw_max_reconnect_delay_seconds s \<and> pw_slept c = pw_slept s
     \<and> pw_delay c \<in> {pw_delay s, 1}"

lemma keeps_modifies_private_at: "(\<And>c. private_at s c \<Longrightarrow> private_at s (f c)) \<Longrightarrow> keeps (private_at s) (modifies f)"
  by (rule keeps_modifies)

lemma keeps_zoom_private_at: "keeps (private_at s) (zoom pw_handler (\<lambda>h c. c\<lparr>pw_handler := h\<rparr>) m)"
  by (rule keeps_zoom) (simp add: private_at_def)

lemma keeps_send_private_at: "keeps (private_at s) (private_send conn message)"
  unfolding private_send_def by (intro kept keeps_modifies_private_at) (simp add: private_at_def)

lemma keeps_session_private_at: "keeps (private_at s) (private_session env conn)"
  unfolding private_session_def authenticate_and_subscribe_def private_frame_def heartbeat_response_def
  by (intro kept keeps_modifies_private_at keeps_zoom_private_at keeps_send_private_at) (auto simp: private_at_def)

lemma private_attempt_at:
  "private_at c (snd (private_attempt env att c)) \<or> (\<exists>u. private_at c u \<and> snd (private_attempt env att c) =
     u\<lparr>pw_connected := False, pw_slept := pw_slept u @ [pw_delay u], pw_delay := min (pw_max_reconnect_delay_seconds u) (pw_delay u * 2)\<rparr>)"
  unfolding private_attempt_def
proof (rule catch_modifies)
  show "keeps (private_at c) (seqm (modifies (\<lambda>c. c\<lparr>pw_connection_attempts := pw_connection_attempts c + 1\<rparr>))
      (bindm (lift_res att) (private_session env)))"
    by (intro kept keeps_modifies_private_at keeps_session_private_at) (simp add: private_at_def)
qed (simp add: private_at_def)

interpretation private_delays: reconnector "private_run env" "\<lambda>e. \<exists>x. e = Ws_attempt (Inl x)" "\<lambda>c. \<not> pw_stopped c"
  pw_delay pw_max_reconnect_delay_seconds pw_slept for env
proof
  fix e and c :: "'a CoinstorePrivateWebSocketClient"
  let ?c = "private_run env e c"
  show "pw_slept ?c = pw_slept c \<and> pw_delay ?c \<in> {pw_delay c, 1}
      \<or> (\<exists>d \<in> {pw_delay c, 1}. pw_slept ?c = pw_slept c @ [d] \<and> pw_delay ?c = min (pw_max_reconnect_delay_seconds c) (d * 2))"
    by (cases e) (use private_attempt_at[of c env] in \<open>force simp: private_at_def\<close>)+
  show "pw_max_reconnect_delay_seconds ?c = pw_max_reconnect_delay_seconds c"
    by (cases e) (use private_attempt_at[of c env] in \<open>force simp: private_at_def\<close>)+
qed (auto simp: private_attempt_def catch_def seqm_def bindm_def)

text \<open>
  Whatever the venue does, the private stream waits at least one second and at most its maximum before it connects again.
\<close>

lemma private_delays_bounded:
  assumes "1 \<le> max_delay" "d \<in> set (pw_slept (run (private_run env) events (CoinstorePrivateWebSocketClient_init credentials max_delay h)))"
  shows "1 \<le> d \<and> d \<le> max_delay"
  using private_delays.run_bounded[of "CoinstorePrivateWebSocketClient_init credentials max_delay h" d env events] assms
  by (simp add: CoinstorePrivateWebSocketClient_init_def)

section \<open>The Coinstore service behind the stream\<close>

text \<open>The handler the market maker gives to the stream: the service's message handler; its counts are added to the metrics in \<open>Market_Link\<close>.\<close>

definition service_stream :: "(nat \<Rightarrow> int) \<Rightarrow> coinstore_env \<Rightarrow> CoinstoreExecutionService private_env" where
  "service_stream clock env = \<lparr>pv_time_ms = clock, pv_crypto = he_crypto (ce_http env), pv_printer = he_printer (ce_http env),
     pv_handle = (\<lambda>m. seqm (handle_private_message env m) (ret ()))\<rparr>"

lemma keeps_private_run_handler:
  assumes "\<And>m. keeps P (pv_handle env m)" "P (pw_handler c)"
  shows "P (pw_handler (private_run env e c))"
proof (cases e)
  case (Ws_attempt att)
  define Q where "Q = (\<lambda>c :: 'a CoinstorePrivateWebSocketClient. P (pw_handler c))"
  have modifies: "keeps Q (modifies f)" if "\<And>c. pw_handler (f c) = pw_handler c" for f
    by (rule keeps_modifies) (simp add: that Q_def)
  have send: "keeps Q (private_send conn message)" for conn message
    unfolding private_send_def by (intro kept modifies) simp
  have handle: "keeps Q (zoom pw_handler (\<lambda>h c. c\<lparr>pw_handler := h\<rparr>) (pv_handle env m))" for m
    using assms(1)[of m] by (intro keeps_zoom) (auto simp: keeps_def Q_def)
  have "keeps Q (private_attempt env att)"
    unfolding private_attempt_def private_session_def authenticate_and_subscribe_def private_frame_def heartbeat_response_def
    by (intro kept modifies send handle) simp_all
  then show ?thesis using assms(2) Ws_attempt by (auto simp: Q_def dest: keepsD)
qed (use assms(2) in simp)

text \<open>
  Whatever arrives on the private stream, over any number of connections, broken ones included, the stored live orders
  keep distinct client order ids and the stored trades distinct keys: a replayed fill is not booked again.
\<close>

theorem private_stream_keeps_rows_unique:
  assumes "distinct (map or_client_order_id (tbl_orders d))" "distinct (map trade_key (tbl_trades d))"
  shows "rows_unique (pw_handler (run (private_run (service_stream clock env)) events
    (CoinstorePrivateWebSocketClient_init credentials max_delay (CoinstoreExecutionService_init d))))"
proof -
  have "keeps rows_unique (pv_handle (service_stream clock env) m)" for m
    unfolding service_stream_def private_env.simps handle_private_message_def by (intro kept unique.message_kept)
  then have "rows_unique (pw_handler c) \<Longrightarrow> rows_unique (pw_handler (run (private_run (service_stream clock env)) events c))" for c
    by (induction events arbitrary: c) (auto intro: keeps_private_run_handler simp del: private_run.simps)
  then show ?thesis using assms by (simp add: rows_unique_def CoinstorePrivateWebSocketClient_init_def CoinstoreExecutionService_init_def)
qed

text \<open>A heartbeat in the venue's short form \<open>{"T": "ping"}\<close> is recognised and then not answered.\<close>

theorem short_ping_unanswered:
  "snd (private_frame env conn (Text_frame (Inr (JDict [(''T'', JStr ''ping'')]))) c) = c\<lparr>pw_messages_received := pw_messages_received c + 1\<rparr>"
  by (simp add: private_frame_def decode_frame_def heartbeat_response_def is_heartbeat_def is_ping_def jget_def seqm_def bindm_def lower_def
      to_lower_def)

section \<open>Instances\<close>

definition example_private_env :: "obj list private_env" where
  "example_private_env = \<lparr>pv_time_ms = (\<lambda>n. 1700000000000 + int n), pv_crypto = he_crypto (ce_http example_cs_env), pv_printer = (\<lambda>_. []),
     pv_handle = (\<lambda>m. modifies (\<lambda>ms. ms @ [m]))\<rparr>"

definition example_private_client :: "obj list CoinstorePrivateWebSocketClient" where
  "example_private_client = CoinstorePrivateWebSocketClient_init
     \<lparr>ec_api_key = ''key'', ec_api_secret = ''secret'', ec_passphrase = None, ec_memo = None\<rparr> 30 []"

theorem private_connection_opens_authenticated_witness:
  "\<exists>expires answers. list_all is_pong answers
    \<and> pw_sent (private_run example_private_env (Ws_attempt (Inr \<lparr>cn_send = (\<lambda>_ _. Inr ()),
          cn_frames = [Text_frame (Inr (JDict [(''op'', JStr ''ping'')]))], cn_closed = Inr ()\<rparr>)) example_private_client)
      = [JList [JStr ''auth'', JDict [(''header'', JDict [(''type'', JInt 1001)]),
           (''body'', JDict [(''apiKey'', JStr ''key''), (''expires'', JStr (str_int expires)),
              (''signature'', JStr (coinstore_signature (pv_crypto example_private_env) ''secret'' expires (str_int expires)))])]],
         private_subscribe_payload] @ answers"
  using private_connection_opens_authenticated[of "\<lparr>cn_send = (\<lambda>_ _. Inr ()),
    cn_frames = [Text_frame (Inr (JDict [(''op'', JStr ''ping'')]))], cn_closed = Inr ()\<rparr>" example_private_client example_private_env]
  by (simp add: example_private_client_def CoinstorePrivateWebSocketClient_init_def del: private_run.simps)

theorem private_messages_handled_in_order_witness:
  "let ping = [(''op'', JStr ''ping'')]; m = [(''orderId'', JInt 7)];
       c' = private_run example_private_env (Ws_attempt (Inr \<lparr>cn_send = (\<lambda>_ _. Inr ()),
          cn_frames = map (\<lambda>x. Text_frame (Inr (JDict x))) [m, ping, m], cn_closed = Inr ()\<rparr>)) example_private_client
   in pw_handler c' = [m, m] \<and> pw_messages_received c' = 3"
  using private_messages_handled_in_order[of "map (\<lambda>x. Text_frame (Inr (JDict x))) [[(''orderId'', JInt 7)], [(''op'', JStr ''ping'')], [(''orderId'', JInt 7)]]"
    "\<lambda>_ _. Inr ()" example_private_env example_private_client "Inr ()"]
  by (simp add: object_frame_def decode_frame_def example_private_client_def CoinstorePrivateWebSocketClient_init_def example_private_env_def
      for_handler_def is_heartbeat_def jget_def lower_def to_lower_def map_filter_simps Let_def del: private_run.simps)

theorem private_stream_keeps_rows_unique_witness:
  "rows_unique (pw_handler (run (private_run (service_stream (\<lambda>n. int n) example_cs_env))
     [Ws_attempt (Inr \<lparr>cn_send = (\<lambda>_ _. Inr ()), cn_frames = [Text_frame (Inr (JDict [(''orderId'', JStr ''7'')]))], cn_closed = Inr ()\<rparr>)]
     (CoinstorePrivateWebSocketClient_init \<lparr>ec_api_key = ''key'', ec_api_secret = ''secret'', ec_passphrase = None, ec_memo = None\<rparr> 30
       (CoinstoreExecutionService_init example_cs_session))))"
  by (rule private_stream_keeps_rows_unique) (simp_all add: example_cs_session_def empty_session_def)

end
