(* ===== verification/Accounts_Api.thy ===== *)
theory Accounts_Api
  imports Control_Api Rest_Client Private_Stream
begin

text \<open>
  The exchange accounts of the API: the encryption of secrets (\<open>security/secrets.py\<close>), the request schemas
  (\<open>api/schemas.py\<close>) and the routes of \<open>api/routes.py\<close> that store, show, test, synchronise and remove accounts.
  The cipher of the \<open>cryptography\<close> package is an argument: encrypting uses fresh randomness, here a number per
  call, and \<open>None\<close> is \<open>InvalidToken\<close>. The text of an exception is an argument, closing a client does not fail.
\<close>

section \<open>Secrets\<close>

record SecretCipher =
  sc_key_id :: string
  sc_fernet_encrypt :: "nat \<Rightarrow> string \<Rightarrow> string"
  sc_fernet_decrypt :: "string \<Rightarrow> string option"

text \<open>The key is the digest of the secret of the tokens; \<open>fernet\<close> makes the two functions from the encoded key.\<close>

definition SecretCipher_init :: "(string \<Rightarrow> string) \<Rightarrow> (string \<Rightarrow> string) \<Rightarrow> (string \<Rightarrow> (nat \<Rightarrow> string \<Rightarrow> string) \<times> (string \<Rightarrow> string option)) \<Rightarrow> string \<Rightarrow> SecretCipher" where
  "SecretCipher_init sha256 hexdigest fernet jwt_secret =
     (let digest = sha256 jwt_secret; f = fernet digest
      in \<lparr>sc_key_id = take 16 (hexdigest digest), sc_fernet_encrypt = fst f, sc_fernet_decrypt = snd f\<rparr>)"

definition cipher_encrypt :: "SecretCipher \<Rightarrow> nat \<Rightarrow> string option \<Rightarrow> string option" where
  "cipher_encrypt c n secret = (case secret of None \<Rightarrow> None | Some s \<Rightarrow> Some (sc_fernet_encrypt c n s))"

definition cipher_decrypt :: "SecretCipher \<Rightarrow> string option \<Rightarrow> string option res" where
  "cipher_decrypt c stored =
     (case stored of None \<Rightarrow> Inr None
      | Some t \<Rightarrow> (case sc_fernet_decrypt c t of
          None \<Rightarrow> Inl (ValueError ''stored secret cannot be decrypted with the active key'')
        | Some s \<Rightarrow> Inr (Some s)))"

definition mask_secret :: "string option \<Rightarrow> string option" where
  "mask_secret secret =
     (case secret of None \<Rightarrow> None
      | Some s \<Rightarrow>
          if s = [] then None
          else if length s \<le> 8 then Some (take 2 s @ ''****'' @ drop (length s - 2) s)
          else Some (take 4 s @ ''********'' @ drop (length s - 4) s))"

section \<open>Requests\<close>

record ExchangeConnectRequest =
  xq_exchange_name :: string
  xq_account_alias :: string
  xq_environment :: string
  xq_api_key :: string
  xq_api_secret :: string
  xq_passphrase :: "string option"
  xq_permissions :: "string list"
  xq_enabled :: bool

record ExchangeAccountCreateRequest =
  cq_account_alias :: string
  cq_environment :: string
  cq_api_key :: string
  cq_api_secret :: string
  cq_passphrase :: "string option"
  cq_permissions :: "string list"
  cq_is_enabled :: bool

record ExchangeTestRequest =
  tq_exchange_name :: string
  tq_account_alias :: string
  tq_environment :: string

record ExchangeRemoveRequest = ExchangeTestRequest +
  tq_confirmation :: string

record ExchangeSyncRequest =
  yq_account_alias :: string
  yq_environment :: string

record ExchangeAccountStatusRequest =
  uq_is_enabled :: bool
  uq_confirmation :: string
  uq_reason :: string

definition unprocessable :: "bool \<Rightarrow> unit res" where
  "unprocessable valid = (if valid then Inr () else Inl (HTTPException 422 ''unprocessable''))"

definition known_exchange :: "string \<Rightarrow> bool" where
  "known_exchange name \<longleftrightarrow> name \<in> {''coinstore'', ''mexc'', ''gate'', ''bitmart'', ''kucoin'', ''binance''}"

definition known_environment :: "string \<Rightarrow> bool" where
  "known_environment name \<longleftrightarrow> name \<in> {''sandbox'', ''staging'', ''production''}"

definition validate_connect :: "ExchangeConnectRequest \<Rightarrow> unit res" where
  "validate_connect q = unprocessable (known_exchange (xq_exchange_name q) \<and> xq_account_alias q \<noteq> [] \<and> known_environment (xq_environment q)
     \<and> xq_api_key q \<noteq> [] \<and> xq_api_secret q \<noteq> [])"

definition validate_create :: "ExchangeAccountCreateRequest \<Rightarrow> unit res" where
  "validate_create q = unprocessable (cq_account_alias q \<noteq> [] \<and> known_environment (cq_environment q) \<and> cq_api_key q \<noteq> [] \<and> cq_api_secret q \<noteq> [])"

definition validate_test :: "'a ExchangeTestRequest_scheme \<Rightarrow> unit res" where
  "validate_test q = unprocessable (known_exchange (tq_exchange_name q) \<and> tq_account_alias q \<noteq> [] \<and> known_environment (tq_environment q))"

section \<open>Environment\<close>

record account_env =
  ac_route :: route_env
  ac_cipher :: SecretCipher
  ac_rest :: rest_env
  ac_socket :: "string \<Rightarrow> unit res"
  ac_http :: http_env
  ac_private :: "unit private_env"
  ac_private_connection :: "connection res"
  ac_monotonic :: float
  ac_now_ms :: int
  ac_uuid_hex :: "uuid \<Rightarrow> string"
  ac_exc_text :: "pyerr \<Rightarrow> string"
  ac_base_asset :: string

abbreviation ac_api :: "account_env \<Rightarrow> api_env" where "ac_api env \<equiv> rt_api (ac_route env)"

definition service_env :: "account_env \<Rightarrow> coinstore_env" where
  "service_env env =
     \<lparr>ce_http = ac_http env,
      ce_decrypt = (\<lambda>t. case sc_fernet_decrypt (ac_cipher env) t of
          None \<Rightarrow> Inl (ValueError ''stored secret cannot be decrypted with the active key'') | Some s \<Rightarrow> Inr s),
      ce_now = av_now (ac_api env), ce_now_ms = ac_now_ms env, ce_monotonic = ac_monotonic env, ce_uuid_text = uuid_text, ce_uuid_hex = ac_uuid_hex env\<rparr>"

fun class_name :: "pyerr \<Rightarrow> string" where
  "class_name (ValueError _) = ''ValueError''"
| "class_name (KeyError _) = ''KeyError''"
| "class_name (RuntimeError _) = ''RuntimeError''"
| "class_name (TypeError _) = ''TypeError''"
| "class_name (IndexError _) = ''IndexError''"
| "class_name (StructError _) = ''error''"
| "class_name (AttributeError _) = ''AttributeError''"
| "class_name (InvalidOperation _) = ''InvalidOperation''"
| "class_name (TransportError _) = ''TransportError''"
| "class_name (CoinstoreValidationError _) = ''CoinstoreValidationError''"
| "class_name ZeroDivisionError = ''ZeroDivisionError''"
| "class_name NoResultFound = ''NoResultFound''"
| "class_name MultipleResultsFound = ''MultipleResultsFound''"
| "class_name IntegrityError = ''IntegrityError''"
| "class_name (PrecisionError _) = ''PrecisionError''"
| "class_name (RiskViolationError _) = ''RiskViolationError''"
| "class_name (KillSwitchActiveError _) = ''KillSwitchActiveError''"
| "class_name (RateLimitExceededError _) = ''RateLimitExceededError''"
| "class_name (ExchangeError _) = ''ExchangeError''"
| "class_name (NonRetryableExchangeExecutionError _) = ''NonRetryableExchangeExecutionError''"
| "class_name (CoinstoreSafetyError _) = ''CoinstoreSafetyError''"
| "class_name (HTTPException _ _) = ''HTTPException''"
| "class_name (RetryError _) = ''RetryError''"

definition error_line :: "account_env \<Rightarrow> string \<Rightarrow> pyerr \<Rightarrow> string" where
  "error_line env label e = label @ '':'' @ class_name e @ '':'' @ ac_exc_text env e"

section \<open>Payloads\<close>

definition iso :: "api_env \<Rightarrow> datetime option \<Rightarrow> json" where
  "iso env t = (case t of None \<Rightarrow> JNull | Some t \<Rightarrow> JStr (av_isoformat env t))"

text \<open>\<open>_float\<close> on a column that may be \<open>NULL\<close>.\<close>

definition float_or_zero :: "float option \<Rightarrow> float" where
  "float_or_zero v = (case v of None \<Rightarrow> 0 | Some x \<Rightarrow> x)"

definition opt_str :: "string option \<Rightarrow> json" where
  "opt_str s = (case s of None \<Rightarrow> JNull | Some s \<Rightarrow> JStr s)"

definition connected_text :: "bool \<Rightarrow> json" where
  "connected_text b = JStr (if b then ''connected'' else ''disconnected'')"

definition masked_api_key :: "SecretCipher option \<Rightarrow> ExchangeAccountRow \<Rightarrow> string option" where
  "masked_api_key cipher row =
     (case cipher of None \<Rightarrow> None
      | Some c \<Rightarrow>
          if ea_api_key_ciphertext row = [] then None
          else (case cipher_decrypt c (Some (ea_api_key_ciphertext row)) of Inl _ \<Rightarrow> None | Inr s \<Rightarrow> mask_secret s))"

definition exchange_account_payload :: "api_env \<Rightarrow> SecretCipher option \<Rightarrow> ExchangeAccountRow \<Rightarrow> obj" where
  "exchange_account_payload env cipher row =
     [(''id'', JStr (uuid_text (ea_id row))), (''exchange_name'', JStr (ea_exchange_name row)), (''account_alias'', JStr (ea_account_alias row)),
      (''environment'', JStr (ea_environment row)), (''permissions'', JList (ea_permissions row)), (''is_enabled'', JBool (ea_is_enabled row)),
      (''enabled'', JBool (ea_is_enabled row)), (''api_key_masked'', opt_str (masked_api_key cipher row)),
      (''has_api_key'', JBool (ea_api_key_ciphertext row \<noteq> [])), (''has_api_secret'', JBool (ea_api_secret_ciphertext row \<noteq> [])),
      (''has_passphrase'', JBool (ea_passphrase_ciphertext row \<noteq> None \<and> ea_passphrase_ciphertext row \<noteq> Some [])),
      (''encryption_key_id'', JStr (ea_encryption_key_id row)), (''rest_status'', connected_text (ea_rest_connected row)),
      (''websocket_status'', connected_text (ea_websocket_connected row)), (''private_ws_status'', connected_text (ea_private_ws_connected row)),
      (''connection_status'', JStr (ea_connection_status row)), (''last_tested_at'', iso env (ea_last_tested_at row)),
      (''last_success_at'', iso env (ea_last_success_at row)), (''last_failure_at'', iso env (ea_last_failure_at row)),
      (''last_error_message'', opt_str (ea_last_error_message row)), (''created_at'', iso env (Some (ea_created_at row))),
      (''updated_at'', iso env (Some (ea_updated_at row)))]"

section \<open>Queries and changes\<close>

definition account_key :: "ExchangeAccountRow \<Rightarrow> string \<times> string \<times> string" where
  "account_key row = (ea_exchange_name row, ea_account_alias row, ea_environment row)"

definition exchange_accounts :: "ExchangeAccountRow list st_op" where
  "exchange_accounts = reads (\<lambda>s. sort_key (\<lambda>row. (ea_exchange_name row, ea_account_alias row)) (tbl_exchange_accounts (st_session s)))"

definition exchange_account :: "string \<Rightarrow> string \<Rightarrow> string \<Rightarrow> ExchangeAccountRow option st_op" where
  "exchange_account exchange_name account_alias environment =
     bindm (reads (\<lambda>s. filter (\<lambda>row. account_key row = (exchange_name, account_alias, environment)) (tbl_exchange_accounts (st_session s)))) (\<lambda>rows.
     lift_res (scalar_one_or_none rows))"

text \<open>A flush that inserts, and one that updates a row; an update that changes a column sets \<open>updated_at\<close>.\<close>

definition account_insert :: "api_env \<Rightarrow> (uuid \<Rightarrow> ExchangeAccountRow) \<Rightarrow> ExchangeAccountRow st_op" where
  "account_insert env new =
     bindm store_uuid (\<lambda>u.
     seqm (on_session (modifies (\<lambda>d. d\<lparr>tbl_exchange_accounts := tbl_exchange_accounts d @ [new u]\<rparr>))) (
     seqm (audit_flush env ''INSERT'' ''exchange_accounts'' u) (ret (new u))))"

definition account_update :: "api_env \<Rightarrow> (ExchangeAccountRow \<Rightarrow> ExchangeAccountRow) \<Rightarrow> ExchangeAccountRow \<Rightarrow> ExchangeAccountRow st_op" where
  "account_update env f row =
     (let new = (if f row = row then row else (f row)\<lparr>ea_updated_at := av_now env\<rparr>)
      in seqm (on_session (modifies (\<lambda>d. d\<lparr>tbl_exchange_accounts := update_rows (\<lambda>r. ea_id r = ea_id row) (\<lambda>_. new) (tbl_exchange_accounts d)\<rparr>))) (
         seqm (audit_flush env ''UPDATE'' ''exchange_accounts'' (ea_id row)) (ret new)))"

text \<open>
  The foreign keys to \<open>exchange_accounts.id\<close>: orders, trades, positions and snapshots have one without \<open>ondelete\<close>, so that
  the database refuses to delete a row they refer to. The program writes no risk event or profit row with an account.
\<close>

definition account_references :: "session \<Rightarrow> uuid list" where
  "account_references d = map or_exchange_account_id (tbl_orders d) @ map tr_exchange_account_id (tbl_trades d)
     @ map po_exchange_account_id (tbl_positions d) @ map is_exchange_account_id (tbl_inventory_snapshots d)"

definition account_delete :: "api_env \<Rightarrow> ExchangeAccountRow \<Rightarrow> unit st_op" where
  "account_delete env row =
     bindm (reads (\<lambda>s. account_references (st_session s))) (\<lambda>references.
     if ea_id row \<in> set references then raise_err IntegrityError
     else seqm (on_session (modifies (\<lambda>d. d\<lparr>tbl_exchange_accounts := filter (\<lambda>r. ea_id r \<noteq> ea_id row) (tbl_exchange_accounts d)\<rparr>)))
       (audit_flush env ''DELETE'' ''exchange_accounts'' (ea_id row)))"

definition found :: "int \<Rightarrow> string \<Rightarrow> 'a option \<Rightarrow> 'a st_op" where
  "found code detail r = (case r of None \<Rightarrow> raise_err (HTTPException code detail) | Some x \<Rightarrow> ret x)"

definition aggregate_exchange_status :: "ExchangeAccountRow list \<Rightarrow> string" where
  "aggregate_exchange_status accounts =
     (let any = (\<lambda>status. list_ex (\<lambda>row. ea_connection_status row = status) accounts)
      in if accounts = [] then ''disconnected'' else if any ''connected'' then ''connected''
         else if any ''invalid_credentials'' then ''invalid_credentials'' else if any ''testing'' then ''testing''
         else if any ''error'' then ''error'' else ''disconnected'')"

section \<open>Testing a connection\<close>

definition test_credentials :: "string \<Rightarrow> string \<Rightarrow> string option \<Rightarrow> ExecutionCredentials" where
  "test_credentials api_key api_secret passphrase = \<lparr>ec_api_key = api_key, ec_api_secret = api_secret, ec_passphrase = passphrase, ec_memo = None\<rparr>"

text \<open>The checks of a Coinstore account: the authenticated balance query, then the private stream.\<close>

definition test_private :: "account_env \<Rightarrow> ExecutionCredentials \<Rightarrow> obj \<Rightarrow> obj" where
  "test_private env credentials result =
     (case fst (sync_balances (ac_http env) (new_client (service_env env) credentials)) of
        Inl e \<Rightarrow> dict_merge result
          [(''private_ws_status'', JStr ''not_tested''),
           (''status'', JStr (if contains_text ''signature'' (lower (ac_exc_text env e)) \<or> contains_text ''401'' (ac_exc_text env e)
              then ''invalid_credentials'' else ''rest_failed'')),
           (''error'', JStr (error_line env ''AUTH_REST_FAILED'' e))]
      | Inr balances \<Rightarrow>
          (let result = dict_merge result [(''authenticated_rest_status'', JStr ''connected''), (''account_assets_seen'', JInt (int (length balances)))]
           in case test_connection (ac_private env) credentials (ac_private_connection env) of
                Inl e \<Rightarrow> dict_merge result [(''private_ws_status'', JStr ''error''), (''status'', JStr ''private_ws_failed''),
                  (''error'', JStr (error_line env ''PRIVATE_WS_FAILED'' e))]
              | Inr private_result \<Rightarrow> dict_merge result
                  [(''private_ws_status'', JStr (if json_truthy (jget private_result ''connected'') then ''connected'' else ''error'')),
                   (''private_ws_auth_response'', jget private_result ''auth_response''),
                   (''private_ws_subscribe_response'', jget private_result ''subscribe_response''), (''status'', JStr ''connected'')]))"

text \<open>The row is changed by \<open>_apply_exchange_test_result\<close> only: what the test itself writes to the row is overwritten there.\<close>

definition test_start :: "account_env \<Rightarrow> ExchangeAccountRow \<Rightarrow> obj" where
  "test_start env row =
     [(''exchange_name'', JStr (ea_exchange_name row)), (''account_alias'', JStr (ea_account_alias row)), (''environment'', JStr (ea_environment row)),
      (''status'', JStr ''testing''), (''rest_status'', JStr ''testing''), (''websocket_status'', JStr ''testing''),
      (''private_ws_status'', JStr ''not_supported''), (''last_tested_at'', JStr (av_isoformat (ac_api env) (av_now (ac_api env)))), (''error'', JNull)]"

definition test_exchange_connection :: "account_env \<Rightarrow> ExchangeAccountRow \<Rightarrow> obj res" where
  "test_exchange_connection env row =
     bindr (get_exchange_definition (ea_exchange_name row)) (\<lambda>definition.
     let result = test_start env row
     in case fst (rest_health (ac_rest env) (RestClient_init (ac_monotonic env) definition None)) of
          Inl e \<Rightarrow> Inr (dict_merge result [(''rest_status'', JStr ''error''), (''status'', JStr ''network_error''), (''error'', JStr (error_line env ''REST_FAILED'' e))])
        | Inr _ \<Rightarrow>
            (let result = dict_set ''rest_status'' (JStr ''connected'') result
             in case ac_socket env (xd_websocket_url definition) of
                  Inl e \<Rightarrow> Inr (dict_merge result [(''websocket_status'', JStr ''error''), (''status'', JStr ''network_error''),
                    (''error'', JStr (error_line env ''WEBSOCKET_FAILED'' e))])
                | Inr _ \<Rightarrow>
                    (let result = dict_set ''websocket_status'' (JStr ''connected'') result
                     in if ea_exchange_name row \<noteq> ''coinstore'' then Inr (dict_set ''status'' (JStr ''connected'') result)
                        else
                          bindr (cipher_decrypt (ac_cipher env) (Some (ea_api_key_ciphertext row))) (\<lambda>api_key.
                          bindr (cipher_decrypt (ac_cipher env) (Some (ea_api_secret_ciphertext row))) (\<lambda>api_secret.
                          if text_or api_key [] = [] \<or> text_or api_secret [] = []
                          then Inr (dict_merge result [(''private_ws_status'', JStr ''invalid_credentials''), (''status'', JStr ''invalid_credentials''),
                            (''error'', JStr ''INVALID_CREDENTIALS:missing_api_key_or_secret'')])
                          else
                            bindr (cipher_decrypt (ac_cipher env) (ea_passphrase_ciphertext row)) (\<lambda>passphrase.
                            Inr (test_private env (test_credentials (text_or api_key []) (text_or api_secret []) passphrase) result)))))))"

definition apply_exchange_test_result :: "account_env \<Rightarrow> obj \<Rightarrow> ExchangeAccountRow \<Rightarrow> ExchangeAccountRow" where
  "apply_exchange_test_result env result row =
     (let now = Some (av_now (ac_api env)); status = py_str (av_printer (ac_api env)) (get_or result [''status''] (JStr ''error''));
          tested = row\<lparr>ea_last_tested_at := now, ea_rest_connected := (jget result ''rest_status'' = JStr ''connected''),
            ea_websocket_connected := (jget result ''websocket_status'' = JStr ''connected''),
            ea_private_ws_connected := (jget result ''private_ws_status'' = JStr ''connected'' \<or> jget result ''private_ws_status'' = JStr ''not_supported''),
            ea_connection_status := status\<rparr>
      in if status = ''connected'' then tested\<lparr>ea_last_success_at := now, ea_last_error_message := None\<rparr>
         else tested\<lparr>ea_last_failure_at := now,
           ea_last_error_message := Some (py_str (av_printer (ac_api env)) (get_or result [''error''] (JStr status)))\<rparr>)"

section \<open>Balances\<close>

definition exchange_balance_payload :: "api_env \<Rightarrow> InventorySnapshotRow \<Rightarrow> obj" where
  "exchange_balance_payload env row =
     [(''asset'', JStr (is_asset row)), (''available_balance'', JFloat (is_available_balance row)), (''locked_balance'', JFloat (is_reserved_balance row)),
      (''reserved_balance'', JFloat (is_reserved_balance row)), (''total_balance'', JFloat (is_total_balance row)),
      (''valuation_asset'', JStr (is_valuation_asset row)), (''valuation_price'', JFloat (float_or_zero (is_valuation_price row))),
      (''valuation_amount'', JFloat (float_or_zero (is_valuation_amount row))), (''captured_at'', iso env (Some (is_captured_at row)))]"

text \<open>The newest snapshot of every asset, in the order of the query.\<close>

definition latest_snapshots :: "uuid \<Rightarrow> InventorySnapshotRow list \<Rightarrow> InventorySnapshotRow list" where
  "latest_snapshots account_id rows =
     map snd (fold (\<lambda>row d. if dict_get d (is_asset row) = None then dict_set (is_asset row) row d else d)
       (sort_key (\<lambda>row. - is_captured_at row) (filter (\<lambda>row. is_exchange_account_id row = account_id) rows)) [])"

definition portfolio_value :: "InventorySnapshotRow list \<Rightarrow> float" where
  "portfolio_value items =
     (let valued = sum_list (map (\<lambda>row. float_or_zero (is_valuation_amount row)) items)
      in if valued \<le> 0 then sum_list (map is_total_balance (filter (\<lambda>row. is_asset row \<in> {''USDT'', ''USD'', ''USDC''}) items)) else valued)"

definition exchange_balances_payload :: "account_env \<Rightarrow> ExchangeAccountRow \<Rightarrow> obj st_op" where
  "exchange_balances_payload env row =
     bindm (reads (\<lambda>s. latest_snapshots (ea_id row) (tbl_inventory_snapshots (st_session s)))) (\<lambda>items.
     let value = portfolio_value items;
         base_value = sum_list (map (\<lambda>r. float_or_zero (is_valuation_amount r)) (filter (\<lambda>r. is_asset r = upper (ac_base_asset env)) items))
     in ret [(''exchange_name'', JStr (ea_exchange_name row)), (''account_alias'', JStr (ea_account_alias row)), (''environment'', JStr (ea_environment row)),
          (''portfolio_value'', JFloat value), (''inventory_ratio'', JFloat (if value \<le> 0 then 0 else base_value / value)),
          (''balances'', JList (map (\<lambda>r. JDict (exchange_balance_payload (ac_api env) r
             @ [(''exposure_percent'', JFloat (if value \<le> 0 then 0 else py_round (float_or_zero (is_valuation_amount r) / value * 100) 6))])) items))])"

text \<open>A Coinstore service on the session of the request, with the row as its account.\<close>

definition on_service :: "ExchangeAccountRow \<Rightarrow> 'a cs_op \<Rightarrow> 'a st_op" where
  "on_service row m s =
     (case m \<lparr>cs_session = st_session s, cs_client = None, cs_account = Some row, cs_precision = None\<rparr> of
        (r, t) \<Rightarrow> (r, s\<lparr>st_session := cs_session t\<rparr>))"

definition sync_exchange_balances :: "account_env \<Rightarrow> ExchangeAccountRow \<Rightarrow> obj st_op" where
  "sync_exchange_balances env row =
     (if ea_exchange_name row \<noteq> ''coinstore'' then raise_err (HTTPException 400 ''balance sync is currently supported for coinstore'')
      else
        bindm (on_service row (
          bindm (with_client (service_env env) (sync_balances (ac_http env))) (\<lambda>balances.
          seqm (lift_res (verify_balance_response (JList (map (\<lambda>b. JDict (bl_raw b)) balances))))
            (collect (persist_balance_update (service_env env)) balances)))) (\<lambda>snapshots.
        seqm (loop (\<lambda>snapshot. audit_flush (ac_api env) ''INSERT'' ''inventory_snapshots'' (is_id snapshot)) snapshots) (
        bindm (exchange_balances_payload env row) (\<lambda>payload.
        ret (payload @ [(''rows_written'', JInt (int (length snapshots))),
               (''synced_at'', JStr (av_isoformat (ac_api env) (av_now (ac_api env))))])))))"

section \<open>Routes\<close>

definition definition_payload :: "ExchangeDefinition \<Rightarrow> obj" where
  "definition_payload d =
     [(''name'', JStr (value_of_venue (xd_name d))), (''rest_base_url'', JStr (xd_rest_base_url d)), (''websocket_url'', JStr (xd_websocket_url d)),
      (''rate_limit'', JDict [(''requests'', JInt (rr_requests (xd_rate_limit d))), (''window_seconds'', JInt (rr_window_seconds (xd_rate_limit d)))]),
      (''capabilities'', JDict [(''rest'', JBool (xc_rest (xd_capabilities d))), (''websocket'', JBool (xc_websocket (xd_capabilities d))),
         (''orderbook_stream'', JBool (xc_orderbook_stream (xd_capabilities d))), (''trades_stream'', JBool (xc_trades_stream (xd_capabilities d))),
         (''ticker_stream'', JBool (xc_ticker_stream (xd_capabilities d))), (''kline_stream'', JBool (xc_kline_stream (xd_capabilities d))),
         (''private_trading'', JBool (xc_private_trading (xd_capabilities d))), (''signed_requests'', JBool (xc_signed_requests (xd_capabilities d)))]),
      (''health_path'', JStr (xd_health_path d))]"

definition exchange_capabilities :: "account_env \<Rightarrow> string option \<Rightarrow> obj st_op" where
  "exchange_capabilities env credentials =
     bindm (lift_res (require_admin (rt_jwt (ac_route env)) (av_now (ac_api env)) credentials)) (\<lambda>_.
     ret (map (\<lambda>(name, d). (name, JDict (definition_payload d))) supported_exchanges))"

definition exchanges :: "account_env \<Rightarrow> string option \<Rightarrow> obj st_op" where
  "exchanges env credentials = guarded (ac_route env) require_operations_access credentials (\<lambda>_.
     bindm exchange_accounts (\<lambda>accounts.
     ret [(''items'', JList (map (\<lambda>(name, d).
       let own = filter (\<lambda>row. ea_exchange_name row = name) accounts
       in JDict [(''exchange_name'', JStr name), (''capabilities'', JDict (definition_payload d)),
            (''accounts'', JList (map (\<lambda>row. JDict (exchange_account_payload (ac_api env) (Some (ac_cipher env)) row)) own)),
            (''status'', JStr (aggregate_exchange_status own))]) supported_exchanges))]))"

definition exchanges_status :: "account_env \<Rightarrow> string option \<Rightarrow> obj st_op" where
  "exchanges_status env credentials = guarded (ac_route env) require_operations_access credentials (\<lambda>_.
     bindm exchange_accounts (\<lambda>accounts.
     ret [(''items'', JList (map (\<lambda>row. JDict (exchange_account_payload (ac_api env) (Some (ac_cipher env)) row)) accounts))]))"

text \<open>\<open>cipher.encrypt(secret) or b""\<close> for the keys, the passphrase as it is.\<close>

definition stored_secrets :: "SecretCipher \<Rightarrow> string \<Rightarrow> string \<Rightarrow> string option \<Rightarrow> ExchangeAccountRow \<Rightarrow> ExchangeAccountRow" where
  "stored_secrets c api_key api_secret passphrase row =
     row\<lparr>ea_api_key_ciphertext := text_or (cipher_encrypt c 0 (Some api_key)) [], ea_api_secret_ciphertext := text_or (cipher_encrypt c 1 (Some api_secret)) [],
         ea_passphrase_ciphertext := cipher_encrypt c 2 passphrase, ea_encryption_key_id := sc_key_id c\<rparr>"

definition new_account :: "account_env \<Rightarrow> string \<Rightarrow> string \<Rightarrow> string \<Rightarrow> string \<Rightarrow> string \<Rightarrow> string option \<Rightarrow> string list \<Rightarrow> bool \<Rightarrow> uuid \<Rightarrow> ExchangeAccountRow" where
  "new_account env exchange_name account_alias environment api_key api_secret passphrase permissions enabled u =
     stored_secrets (ac_cipher env) api_key api_secret passphrase
       (ExchangeAccount_new u (av_now (ac_api env)) exchange_name account_alias environment [] [] None [] (map JStr permissions) enabled)"

text \<open>What follows a change of an account: the audit row with both states, and the command to the market data engine.\<close>

definition announce_account :: "account_env \<Rightarrow> obj \<Rightarrow> string \<Rightarrow> string \<Rightarrow> string \<Rightarrow> uuid \<Rightarrow> obj \<Rightarrow> obj option \<Rightarrow> obj option \<Rightarrow> obj \<Rightarrow> unit st_op" where
  "announce_account env actor action command_type resource_type u meta before after payload =
     seqm (audit_record (ac_api env) ''api'' action resource_type (Some u) ((''actor'', jget actor ''sub'') # meta) None before after) (
     seqm (publish_runtime_command (ac_api env) actor command_type payload MARKET_DATA_COMMAND_CHANNEL resource_type None)
       (ret ()))"

definition exchanges_connect :: "account_env \<Rightarrow> string option \<Rightarrow> ExchangeConnectRequest \<Rightarrow> obj st_op" where
  "exchanges_connect env credentials q = guarded (ac_route env) require_config_write credentials (\<lambda>actor.
     seqm (lift_res (validate_connect q)) (
     if dict_get supported_exchanges (xq_exchange_name q) = None then raise_err (HTTPException 404 ''unsupported exchange'')
     else
       bindm (exchange_account (xq_exchange_name q) (xq_account_alias q) (xq_environment q)) (\<lambda>known.
       let show_row = exchange_account_payload (ac_api env) (Some (ac_cipher env)) in
       bindm (case known of
           None \<Rightarrow> account_insert (ac_api env) (new_account env (xq_exchange_name q) (xq_account_alias q) (xq_environment q)
             (xq_api_key q) (xq_api_secret q) (xq_passphrase q) (xq_permissions q) (xq_enabled q))
         | Some row \<Rightarrow> account_update (ac_api env) (\<lambda>row. (stored_secrets (ac_cipher env) (xq_api_key q) (xq_api_secret q) (xq_passphrase q) row)
             \<lparr>ea_permissions := map JStr (xq_permissions q), ea_is_enabled := xq_enabled q, ea_connection_status := ''disconnected'',
              ea_rest_connected := False, ea_websocket_connected := False, ea_private_ws_connected := False, ea_last_error_message := None\<rparr>) row) (\<lambda>row.
       seqm (announce_account env actor ''EXCHANGE_CONNECT'' ''EXCHANGE_ACCOUNT_UPDATED'' ''exchange_accounts'' (ea_id row)
           [(''exchange_name'', JStr (ea_exchange_name row)), (''account_alias'', JStr (ea_account_alias row))] (map_option show_row known) (Some (show_row row))
           [(''account_id'', JStr (uuid_text (ea_id row))), (''exchange_name'', JStr (ea_exchange_name row)), (''account_alias'', JStr (ea_account_alias row))])
         (ret (show_row row))))))"

definition exchanges_test :: "account_env \<Rightarrow> string option \<Rightarrow> ExchangeTestRequest \<Rightarrow> obj st_op" where
  "exchanges_test env credentials q = guarded (ac_route env) require_config_write credentials (\<lambda>_.
     seqm (lift_res (validate_test q)) (
     bindm (exchange_account (tq_exchange_name q) (tq_account_alias q) (tq_environment q)) (\<lambda>known.
     bindm (found 404 ''exchange account not found'' known) (\<lambda>row.
     bindm (lift_res (test_exchange_connection env row)) (\<lambda>result.
     bindm (account_update (ac_api env) (apply_exchange_test_result env result) row) (\<lambda>row.
     ret (exchange_account_payload (ac_api env) (Some (ac_cipher env)) row @ [(''test_result'', JDict result)])))))))"

definition exchanges_remove :: "account_env \<Rightarrow> string option \<Rightarrow> ExchangeRemoveRequest \<Rightarrow> obj st_op" where
  "exchanges_remove env credentials q = guarded (ac_route env) require_config_write credentials (\<lambda>actor.
     seqm (lift_res (validate_test q)) (
     seqm (lift_res (unprocessable (length (tq_confirmation q) \<ge> 3))) (
     seqm (lift_res (require_confirmation (tq_confirmation q) ''remove'')) (
     bindm (exchange_account (tq_exchange_name q) (tq_account_alias q) (tq_environment q)) (\<lambda>known.
     bindm (found 404 ''exchange account not found'' known) (\<lambda>row.
     seqm (account_delete (ac_api env) row) (
     let meta = [(''exchange_name'', JStr (tq_exchange_name q)), (''account_alias'', JStr (tq_account_alias q))] in
     seqm (announce_account env actor ''EXCHANGE_REMOVE'' ''EXCHANGE_ACCOUNT_REMOVED'' ''exchange_accounts'' (ea_id row) meta
         (Some (exchange_account_payload (ac_api env) (Some (ac_cipher env)) row)) None meta)
       (ret ((''removed'', JBool True) # meta)))))))))"

definition exchange_balances :: "account_env \<Rightarrow> string option \<Rightarrow> string \<Rightarrow> string \<Rightarrow> string \<Rightarrow> obj st_op" where
  "exchange_balances env credentials exchange_name account_alias environment = guarded (ac_route env) require_operations_access credentials (\<lambda>_.
     bindm (exchange_account (lower exchange_name) account_alias environment) (\<lambda>known.
     bindm (found 404 ''exchange account not found'' known) (exchange_balances_payload env)))"

definition exchange_balance_sync :: "account_env \<Rightarrow> string option \<Rightarrow> string \<Rightarrow> ExchangeSyncRequest \<Rightarrow> obj st_op" where
  "exchange_balance_sync env credentials exchange_name q = guarded (ac_route env) require_config_write credentials (\<lambda>actor.
     seqm (lift_res (unprocessable (yq_account_alias q \<noteq> [] \<and> known_environment (yq_environment q)))) (
     bindm (exchange_account (lower exchange_name) (yq_account_alias q) (yq_environment q)) (\<lambda>known.
     bindm (found 404 ''exchange account not found'' known) (\<lambda>row.
     bindm (sync_exchange_balances env row) (\<lambda>result.
     let meta = [(''exchange_name'', JStr (ea_exchange_name row)), (''account_alias'', JStr (ea_account_alias row)), (''rows_written'', jget result ''rows_written'')] in
     seqm (announce_account env actor ''EXCHANGE_BALANCE_SYNC'' ''EXCHANGE_BALANCE_SYNC'' ''inventory_snapshots'' (ea_id row) meta None None
         ((''account_id'', JStr (uuid_text (ea_id row))) # meta))
       (ret result))))))"

definition coinstore_accounts :: "account_env \<Rightarrow> string option \<Rightarrow> obj st_op" where
  "coinstore_accounts env credentials = guarded (ac_route env) require_operations_access credentials (\<lambda>_.
     bindm (reads (\<lambda>s. sort_key (\<lambda>row. - ea_updated_at row) (filter (\<lambda>row. ea_exchange_name row = ''coinstore'') (tbl_exchange_accounts (st_session s))))) (\<lambda>rows.
     ret [(''items'', JList (map (\<lambda>row. JDict (exchange_account_payload (ac_api env) None row)) rows))]))"

definition coinstore_account_upsert :: "account_env \<Rightarrow> string option \<Rightarrow> ExchangeAccountCreateRequest \<Rightarrow> obj st_op" where
  "coinstore_account_upsert env credentials q = guarded (ac_route env) require_config_write credentials (\<lambda>actor.
     seqm (lift_res (validate_create q)) (
     bindm (exchange_account ''coinstore'' (cq_account_alias q) (cq_environment q)) (\<lambda>known.
     let show_row = exchange_account_payload (ac_api env) None in
     bindm (case known of
         None \<Rightarrow> account_insert (ac_api env) (new_account env ''coinstore'' (cq_account_alias q) (cq_environment q)
           (cq_api_key q) (cq_api_secret q) (cq_passphrase q) (cq_permissions q) (cq_is_enabled q))
       | Some row \<Rightarrow> account_update (ac_api env) (\<lambda>row. (stored_secrets (ac_cipher env) (cq_api_key q) (cq_api_secret q) (cq_passphrase q) row)
           \<lparr>ea_permissions := map JStr (cq_permissions q), ea_is_enabled := cq_is_enabled q\<rparr>) row) (\<lambda>row.
     seqm (announce_account env actor ''COINSTORE_ACCOUNT_UPSERT'' ''COINSTORE_ACCOUNT_UPDATED'' ''exchange_accounts'' (ea_id row)
         [(''account_alias'', JStr (ea_account_alias row))] (map_option show_row known) (Some (show_row row))
         [(''account_id'', JStr (uuid_text (ea_id row))), (''account_alias'', JStr (ea_account_alias row))])
       (ret (show_row row))))))"

definition coinstore_account_status :: "account_env \<Rightarrow> string option \<Rightarrow> uuid \<Rightarrow> ExchangeAccountStatusRequest \<Rightarrow> obj st_op" where
  "coinstore_account_status env credentials account_id q = guarded (ac_route env) require_config_write credentials (\<lambda>actor.
     seqm (lift_res (unprocessable (length (uq_confirmation q) \<ge> 3 \<and> length (uq_reason q) \<ge> 3))) (
     seqm (lift_res (require_confirmation (uq_confirmation q) (if uq_is_enabled q then ''enable'' else ''disable''))) (
     bindm (reads (\<lambda>s. find (\<lambda>row. ea_id row = account_id) (tbl_exchange_accounts (st_session s)))) (\<lambda>known.
     bindm (found 404 ''coinstore account not found'' (case known of Some row \<Rightarrow> if ea_exchange_name row = ''coinstore'' then Some row else None | None \<Rightarrow> None)) (\<lambda>old.
     bindm (account_update (ac_api env) (\<lambda>row. row\<lparr>ea_is_enabled := uq_is_enabled q\<rparr>) old) (\<lambda>row.
     let show_row = exchange_account_payload (ac_api env) None in
     seqm (announce_account env actor ''COINSTORE_ACCOUNT_STATUS'' ''COINSTORE_ACCOUNT_STATUS'' ''exchange_accounts'' (ea_id row)
         [(''reason'', JStr (uq_reason q))] (Some (show_row old)) (Some (show_row row))
         [(''account_id'', JStr (uuid_text (ea_id row))), (''is_enabled'', JBool (ea_is_enabled row)), (''reason'', JStr (uq_reason q))])
       (ret (show_row row))))))))"

definition coinstore_balance_sync :: "account_env \<Rightarrow> string option \<Rightarrow> ConfirmedActionRequest \<Rightarrow> obj st_op" where
  "coinstore_balance_sync env credentials q = guarded (ac_route env) require_config_write credentials (\<lambda>actor.
     seqm (confirmed q ''sync'') (
     bindm (reads (\<lambda>s. newest_account (st_session s))) (\<lambda>known.
     bindm (found 409 ''no enabled coinstore account'' known) (\<lambda>row.
     bindm (sync_exchange_balances env row) (\<lambda>payload.
     seqm (announce_account env actor ''COINSTORE_BALANCE_SYNC'' ''COINSTORE_BALANCE_SYNC'' ''inventory_snapshots'' (ea_id row)
         [(''rows_written'', jget payload ''rows_written''), (''reason'', JStr (rq_reason q))] None None
         [(''account_id'', JStr (uuid_text (ea_id row))), (''rows_written'', jget payload ''rows_written'')])
       (ret payload))))))"

end
