(* ===== verification/Control_Safety.thy ===== *)
theory Control_Safety
  imports Control_Api
begin

text \<open>
  What the control routes guarantee: the kill switch stays on until someone who may do so releases it, an emergency stop
  is sent before anything that can fail, accepted commands are audited and published, refused and failed requests
  leave the tables as they were; and two ways around the intended checks.
\<close>

section \<open>The kill switch in the commands sent\<close>

fun kill_switch_step :: "redis_command \<Rightarrow> json option \<Rightarrow> json option" where
  "kill_switch_step (Redis_set k v ttl) old = (if k = kill_switch_key then Some v else old)"
| "kill_switch_step (Redis_delete k) old = (if k = kill_switch_key then None else old)"
| "kill_switch_step _ old = old"

definition kill_switch_of :: "redis_command list \<Rightarrow> json option" where
  "kill_switch_of sent = fold kill_switch_step sent None"

definition switch_on :: "store \<Rightarrow> bool" where
  "switch_on s \<longleftrightarrow> (\<exists>state. kill_switch_of (st_redis s) = Some (JDict state) \<and> jget state ''active'' = JBool True)"

lemma kill_switch_of_snoc: "kill_switch_of (sent @ [c]) = kill_switch_step c (kill_switch_of sent)"
  by (simp add: kill_switch_of_def)

definition switch_at :: "json option \<Rightarrow> store \<Rightarrow> bool" where
  "switch_at v s \<longleftrightarrow> kill_switch_of (st_redis s) = v"

definition untouched :: "redis_command \<Rightarrow> bool" where
  "untouched c \<longleftrightarrow> (\<forall>old. kill_switch_step c old = old)"

lemma untouched_simps [simp]:
  "untouched (Redis_publish channel v)" "untouched (Redis_get k)" "untouched (Redis_scan p)" "untouched Redis_ping"
  "untouched (Redis_set k v ttl) \<longleftrightarrow> k \<noteq> kill_switch_key" "untouched (Redis_delete k) \<longleftrightarrow> k \<noteq> kill_switch_key"
  by (auto simp: untouched_def)

lemma kill_switch_key_other [simp]:
  "''runtime:config:latest'' \<noteq> kill_switch_key" "''runtime:config:'' @ d \<noteq> kill_switch_key" "''runtime:strategy:state'' \<noteq> kill_switch_key"
  by (simp_all add: kill_switch_key_def)

named_theorems switch_kept "operations that leave the kill switch alone"

lemma switch_modifies: "(\<And>s. st_redis (f s) = st_redis s) \<Longrightarrow> keeps (switch_at v) (modifies f)"
  by (rule keeps_modifies) (simp add: switch_at_def)

lemma switch_redis_do: "untouched c \<Longrightarrow> keeps (switch_at v) (redis_do env c)"
  by (rule keepsI) (simp add: redis_do_run switch_at_def kill_switch_of_snoc untouched_def)

lemma switch_on_session [switch_kept]: "keeps (switch_at v) (on_session m)"
  unfolding on_session_def by (rule keeps_zoom) (simp add: switch_at_def)

lemma switch_uuid [switch_kept]: "keeps (switch_at v) store_uuid"
  unfolding store_uuid_def by (rule switch_on_session)

lemma switch_audit_flush [switch_kept]: "keeps (switch_at v) (audit_flush env action table u)"
  unfolding audit_flush_def by (intro kept switch_kept switch_modifies) simp

lemma switch_audit_record [switch_kept]: "keeps (switch_at v) (audit_record env service action rtype rid meta user before_state after_state)"
  unfolding audit_record_def Let_def by (intro kept switch_kept switch_modifies) simp

lemma switch_runtime_event [switch_kept]:
  "keeps (switch_at v) (runtime_event_record env event_type source status payload cid domain version correlation ack meta)"
  unfolding runtime_event_record_def Let_def by (intro kept switch_kept switch_modifies) simp

lemma switch_risk_event [switch_kept]: "keeps (switch_at v) (risk_event_add env severity event_type message kill_switch breaker meta)"
  unfolding risk_event_add_def by (intro kept switch_kept)

lemma switch_publish [switch_kept]: "keeps (switch_at v) (publish_runtime_command env actor command_type payload channel rtype action)"
  unfolding publish_runtime_command_def Let_def by (intro kept switch_kept switch_redis_do) simp_all

lemma switch_update_domain [switch_kept]: "keeps (switch_at v) (update_domain env cfg domain payload actor)"
proof -
  have "keeps (switch_at v) (upsert_domain env domain config user)" for config user
    unfolding upsert_domain_def get_latest_def Let_def by (intro kept switch_kept switch_modifies) simp
  moreover have "keeps (switch_at v) (effective_domain_config cfg domain overlay)" for overlay
    unfolding effective_domain_config_def get_latest_def Let_def by (intro kept)
  moreover have "keeps (switch_at v) (runtime_config cfg)" unfolding runtime_config_def by (intro kept)
  ultimately have store: "keeps (switch_at v) (store_domain env cfg domain payload actor)"
    unfolding store_domain_def get_latest_def Let_def by (intro kept switch_kept)
  have "keeps (switch_at v) (loop (redis_do env) (announce_config env command_id domain config runtime event))" for command_id config runtime event
    by (intro keeps_loop switch_redis_do) (auto simp: announce_config_def kill_switch_key_def split: if_splits)
  then show ?thesis unfolding update_domain_def by (intro keeps_bind store) (auto split: prod.split intro!: keeps_seq keeps_ret)
qed

lemma switch_session: "keeps (switch_at v) m \<Longrightarrow> keeps (switch_at v) (database_session env service m)"
proof (rule keepsI)
  fix s assume m: "keeps (switch_at v) m" and s: "switch_at v s"
  have "keeps (switch_at v) (bindm (seqm (modifies (\<lambda>s. s\<lparr>st_actor_service := Some service\<rparr>)) m) (\<lambda>x. seqm (lift_res (av_commit env)) (ret x)))"
    by (intro kept m switch_modifies) simp
  from keepsD[OF this s] show "switch_at v (snd (database_session env service m s))"
    by (auto simp: database_session_def switch_at_def rolled_back_def split: prod.split sum.split)
qed

lemma switch_guarded: "(\<And>actor. keeps (switch_at v) (handler actor)) \<Longrightarrow> keeps (switch_at v) (guarded env check credentials handler)"
  unfolding guarded_def by (intro kept switch_session)

lemma switch_confirmed [switch_kept]: "keeps (switch_at v) (confirmed request expected)"
  unfolding confirmed_def by (intro kept)

text \<open>The requests that release the switch: those whose caller may do so.\<close>

definition releases :: "route_env \<Rightarrow> string option \<Rightarrow> control_request \<Rightarrow> bool" where
  "releases env credentials request \<longleftrightarrow>
     request = Kill_switch_disable \<and> (\<exists>actor. require_admin (rt_jwt env) (av_now (rt_api env)) credentials = Inr actor)
     \<or> (\<exists>rq. request = Enable_trading rq \<and> (\<exists>actor. require_risk_write (rt_jwt env) (av_now (rt_api env)) credentials = Inr actor)
          \<and> validate_confirmed rq = Inr () \<and> require_confirmation (rq_confirmation rq) ''enable'' = Inr ())"

lemma confirmed_fails: "validate_confirmed rq \<noteq> Inr () \<or> require_confirmation (rq_confirmation rq) w \<noteq> Inr () \<Longrightarrow> \<exists>e. confirmed rq w = raise_err e"
  by (cases "validate_confirmed rq"; cases "require_confirmation (rq_confirmation rq) w")
    (auto simp: confirmed_def fun_eq_iff seqm_def bindm_def)

lemma keeps_map_prod: "keeps P m \<Longrightarrow> P s \<Longrightarrow> P (snd (map_prod f id (m s)))"
  by (simp add: keepsD)

lemma on_lift: "(\<And>v. keeps (switch_at v) m) \<Longrightarrow> keeps switch_on m"
  by (rule keepsI) (auto simp: switch_on_def switch_at_def keeps_def)

lemma on_set: "jget state ''active'' = JBool True \<Longrightarrow> keeps switch_on (redis_do env (Redis_set kill_switch_key (JDict state) ttl))"
  by (rule keepsI) (simp add: switch_on_def redis_do_run kill_switch_of_snoc)

lemma on_session_scope: "keeps switch_on m \<Longrightarrow> keeps switch_on (database_session env service m)"
proof (rule keepsI)
  fix s assume m: "keeps switch_on m" and s: "switch_on s"
  have "keeps switch_on (bindm (seqm (modifies (\<lambda>s. s\<lparr>st_actor_service := Some service\<rparr>)) m) (\<lambda>x. seqm (lift_res (av_commit env)) (ret x)))"
    by (intro kept m on_lift[OF switch_modifies]) simp
  from keepsD[OF this s] show "switch_on (snd (database_session env service m s))"
    by (auto simp: database_session_def switch_on_def rolled_back_def split: prod.split sum.split)
qed

lemma state_active [simp]: "jget (kill_switch_state env actor reason) ''active'' = JBool True" "jget (kill_switch_state env actor reason @ more_entries) ''active'' = JBool True"
  by (simp_all add: kill_switch_state_def jget_def)

lemma guarded_refused: "(\<And>actor. check (rt_jwt env) (av_now (rt_api env)) credentials \<noteq> Inr actor) \<Longrightarrow> \<exists>e. guarded env check credentials handler = raise_err e"
  by (cases "check (rt_jwt env) (av_now (rt_api env)) credentials") (auto simp: guarded_def fun_eq_iff bindm_def)

lemma guarded_granted: "check (rt_jwt env) (av_now (rt_api env)) credentials = Inr actor \<Longrightarrow>
    guarded env check credentials handler = database_session (rt_api env) ''api'' (handler actor)"
  by (simp add: guarded_def fun_eq_iff)

lemma on_guarded: "(\<And>actor. keeps switch_on (handler actor)) \<Longrightarrow> keeps switch_on (guarded env check credentials handler)"
  unfolding guarded_def by (intro kept on_session_scope)

lemmas command_routes = admin_strategy_command_def emergency_cancel_all_orders_def emergency_close_positions_def emergency_runtime_restart_def

lemma on_command_routes:
  "keeps switch_on (admin_strategy_command env cr cmd rq)" "keeps switch_on (emergency_cancel_all_orders env cr rq)"
  "keeps switch_on (emergency_close_positions env cr rq)" "keeps switch_on (emergency_runtime_restart env cr rq)"
  unfolding command_routes runtime_command_def Let_def by (intro on_guarded kept on_lift switch_kept switch_redis_do; simp)+

lemma on_config_route: "keeps switch_on (update_domain_config env cr d c)"
  unfolding update_domain_config_def by (intro on_guarded kept on_lift switch_kept)

lemma on_setting_routes:
  "keeps switch_on (admin_kill_switch_enable env cr rq)" "keeps switch_on (emergency_disable_trading env cr request)"
  "keeps switch_on (emergency_shutdown_route env cr request)"
  unfolding admin_kill_switch_enable_def emergency_disable_trading_def emergency_shutdown_route_def runtime_command_def Let_def
  by (intro on_guarded kept on_set on_lift[OF switch_risk_event] on_lift[OF switch_publish] on_lift[OF switch_confirmed]; simp)+

lemma on_kept_unless_released:
  assumes "\<not> releases env cr request" "switch_on s"
  shows "switch_on (snd (control env cr request s))"
proof (cases request)
  case Kill_switch_disable
  then have "\<exists>e. admin_kill_switch_disable env cr = raise_err e"
    using assms(1) unfolding admin_kill_switch_disable_def by (intro guarded_refused) (auto simp: releases_def)
  then show ?thesis using assms(2) Kill_switch_disable by auto
next
  case (Enable_trading rq)
  show ?thesis
  proof (cases "\<exists>actor. require_risk_write (rt_jwt env) (av_now (rt_api env)) cr = Inr actor")
    case True
    then have "validate_confirmed rq \<noteq> Inr () \<or> require_confirmation (rq_confirmation rq) ''enable'' \<noteq> Inr ()"
      using assms(1) Enable_trading by (auto simp: releases_def)
    then obtain e where "confirmed rq ''enable'' = raise_err e" using confirmed_fails by blast
    then have "keeps switch_on (emergency_enable_trading env cr rq)"
      unfolding emergency_enable_trading_def by (intro on_guarded) (simp add: seqm_def keeps_raise)
    then show ?thesis using assms(2) Enable_trading by (simp add: keepsD)
  next
    case False
    then have "\<exists>e. emergency_enable_trading env cr rq = raise_err e"
      unfolding emergency_enable_trading_def by (intro guarded_refused) blast
    then show ?thesis using assms(2) Enable_trading by auto
  qed
qed (use assms(2) on_command_routes on_config_route on_setting_routes in \<open>simp_all add: keepsD\<close>)

interpretation kill_switch: latch_system "\<lambda>(env, cr, request) s. snd (control env cr request s)" "\<lambda>_. True" switch_on
  "\<lambda>(env, cr, request). releases env cr request"
  by unfold_locales (auto simp: on_kept_unless_released)


section \<open>Commands\<close>

text \<open>What a runtime command leaves: its audit row, its event row, and the two messages.\<close>

definition command_sent :: "api_env \<Rightarrow> obj \<Rightarrow> string \<Rightarrow> obj \<Rightarrow> string \<Rightarrow> string \<Rightarrow> redis_command list \<Rightarrow> obj \<Rightarrow> store \<Rightarrow> bool" where
  "command_sent env actor command_type payload channel action before event t \<longleftrightarrow>
     st_redis t = before @ [Redis_publish channel (JDict event),
        Redis_publish RUNTIME_EVENTS_CHANNEL (JDict (dict_merge [(''event_type'', JStr ''runtime_command'')] event))]
     \<and> jget event ''command_type'' = JStr command_type
     \<and> (\<exists>p. jget event ''payload'' = JDict p \<and> (\<forall>k. k \<notin> {''audit_log_id'', ''actor''} \<longrightarrow> jget p k = jget payload k) \<and> jget p ''actor'' = jget actor ''sub'')
     \<and> (\<exists>a \<in> set (st_audit_logs t). al_action a = action \<and> al_after_state a = Some payload \<and> al_actor_user_id a = actor_uuid (av_printer env) actor)
     \<and> (\<exists>row \<in> set (st_runtime_events t). ev_status row = ''published'' \<and> (\<exists>cid. ev_command_id row = Some cid \<and> jget event ''command_id'' = JStr cid))"

lemma publish_runtime_command_run:
  assumes "action \<noteq> []"
  shows "\<exists>r t. publish_runtime_command env actor command_type payload channel rtype (Some action) s = (r, t)
    \<and> (\<exists>t0 sent. logged s t0 \<and> t = t0\<lparr>st_redis := st_redis s @ sent\<rparr>)
    \<and> (\<forall>event. r = Inr event \<longrightarrow> command_sent env actor command_type payload channel action (st_redis s) event t)
    \<and> ((\<forall>sent c. \<exists>x. av_redis env sent c = Inr x) \<longrightarrow> (\<exists>event. r = Inr event))"
proof -
  let ?user = "actor_uuid (av_printer env) actor"
  let ?meta = "dict_merge [(''command_type'', JStr command_type), (''actor'', jget actor ''sub'')] payload"
  obtain a t1 where a: "audit_record env ''api'' action rtype None ?meta ?user None (Some payload) s = (Inr a, t1)" "logged s t1"
    "a \<in> set (st_audit_logs t1)" "al_action a = action" "al_actor_user_id a = ?user" "al_after_state a = Some payload"
    using audit_record_logged[of env "''api''" action rtype None ?meta ?user None "Some payload" s] by blast
  obtain u t2 where u: "store_uuid t1 = (Inr u, t2)" "logged t1 t2" using store_uuid_logged by blast
  let ?event = "command_event env (uuid_text u) command_type payload (al_id a) (jget actor ''sub'')"
  obtain ev t3 where ev: "runtime_event_record env ''runtime_command'' ''api'' ''published'' ?event (Some (uuid_text u)) None None
      (Some (uuid_text (al_id a))) None [(''redis_channel'', JStr channel)] t2 = (Inr ev, t3)" "logged t2 t3"
    "ev \<in> set (st_runtime_events t3)" "ev_command_id ev = Some (uuid_text u)" "ev_status ev = ''published''"
    using runtime_event_logged[of env "''runtime_command''" "''api''" "''published''" ?event "Some (uuid_text u)" None None
      "Some (uuid_text (al_id a))" None "[(''redis_channel'', JStr channel)]" t2] by blast
  let ?out = "dict_set ''runtime_event_id'' (JStr (uuid_text (ev_id ev))) ?event"
  let ?cs = "[Redis_publish channel (JDict ?out), Redis_publish RUNTIME_EVENTS_CHANNEL (JDict (dict_merge [(''event_type'', JStr ''runtime_command'')] ?out))]"
  let ?loop = "loop (redis_do env) ?cs t3"
  obtain sent where sent: "snd ?loop = t3\<lparr>st_redis := st_redis t3 @ sent\<rparr>" "fst ?loop = Inr () \<longrightarrow> sent = ?cs" using loop_redis by blast
  have logged: "logged s t3" using a(2) u(2) ev(2) by (blast intro: logged_trans)
  have t3: "st_redis t3 = st_redis s" using loggedD(2)[OF logged] .
  have run: "publish_runtime_command env actor command_type payload channel rtype (Some action) s =
      (case fst ?loop of Inl e \<Rightarrow> Inl e | Inr _ \<Rightarrow> Inr ?out, snd ?loop)"
    using assms a(1) u(1) ev(1)
    by (auto simp: publish_runtime_command_def bindm_Inr Let_def seqm_def bindm_def split: prod.splits sum.splits)
  have "a \<in> set (st_audit_logs t3)" using a(3) loggedD(6)[OF u(2)] loggedD(6)[OF ev(2)] by blast
  then have "fst ?loop = Inr () \<Longrightarrow> command_sent env actor command_type payload channel action (st_redis s) ?out (snd ?loop)"
    using sent t3 a ev unfolding command_sent_def
    by (auto simp: command_event_def jget_def dict_get_merge split: option.splits intro!: bexI[of _ a] bexI[of _ ev])
  moreover have "(\<forall>sent c. \<exists>x. av_redis env sent c = Inr x) \<Longrightarrow> fst ?loop = Inr ()" by (rule loop_redis_answered) blast
  ultimately show ?thesis using run sent(1) logged t3 by (auto split: sum.splits)
qed

lemma risk_event_add_run:
  "\<exists>t row. risk_event_add env severity event_type message kill_switch breaker meta s = (Inr (), t) \<and> st_redis t = st_redis s
     \<and> set (st_audit_logs s) \<subseteq> set (st_audit_logs t) \<and> set (st_runtime_events s) \<subseteq> set (st_runtime_events t)
     \<and> row \<in> set (tbl_risk_events (st_session t)) \<and> re_event_type row = event_type \<and> re_message row = Message message \<and> re_metadata_json row = meta
     \<and> re_is_kill_switch_triggered row = kill_switch \<and> re_severity row = severity"
proof -
  let ?u = "uuid_supply (st_session s)"
  let ?row = "\<lparr>re_id = ?u, re_severity = severity, re_event_type = event_type, re_source_component = ''operations-api'', re_message = Message message,
         re_is_circuit_breaker_triggered = breaker, re_is_kill_switch_triggered = kill_switch, re_metadata_json = meta\<rparr>"
  let ?t = "s\<lparr>st_session := (st_session s)\<lparr>uuid_supply := Suc ?u, tbl_risk_events := tbl_risk_events (st_session s) @ [?row]\<rparr>\<rparr>"
  obtain t where t: "audit_flush env ''INSERT'' ''risk_events'' ?u ?t = (Inr (), t)" "logged ?t t" using audit_flush_logged by blast
  have "risk_event_add env severity event_type message kill_switch breaker meta s = (Inr (), t)"
    using t(1) by (simp add: risk_event_add_def bindm_def seqm_def store_uuid_run on_session_def zoom_def)
  then show ?thesis using loggedD[OF t(2)] by (intro exI[of _ t] exI[of _ ?row]) auto
qed

lemma seqm_assoc: "seqm (seqm a b) c = seqm a (seqm b c)"
  by (auto simp: fun_eq_iff seqm_def bindm_def split: prod.splits sum.splits)

lemma seqm_ret: "seqm (ret x) m = m"
  by (simp add: fun_eq_iff seqm_def)

lemma command_sent_mono:
  assumes "command_sent env actor ct payload channel action before event t1" "st_redis t = st_redis t1"
    "set (st_audit_logs t1) \<subseteq> set (st_audit_logs t)" "set (st_runtime_events t1) \<subseteq> set (st_runtime_events t)"
  shows "command_sent env actor ct payload channel action before event t"
proof -
  note sent = assms(1)[unfolded command_sent_def]
  have more_logs: "(\<exists>a \<in> set (st_audit_logs t1). P a) \<Longrightarrow> \<exists>a \<in> set (st_audit_logs t). P a" for P using assms(3) by blast
  have more_events: "(\<exists>a \<in> set (st_runtime_events t1). P a) \<Longrightarrow> \<exists>a \<in> set (st_runtime_events t). P a" for P using assms(4) by blast
  show ?thesis unfolding command_sent_def assms(2)
    using sent by (elim conjE, intro conjI) (assumption | erule more_logs | erule more_events)+
qed

definition emergency_handler ::
  "route_env \<Rightarrow> ConfirmedActionRequest \<Rightarrow> string \<Rightarrow> redis_command list \<Rightarrow> obj \<Rightarrow> string \<Rightarrow> obj \<Rightarrow> string \<Rightarrow> unit st_op \<Rightarrow> (obj \<Rightarrow> obj) \<Rightarrow> obj st_op" where
  "emergency_handler env rq w before actor ct payload action risk answer =
     seqm (confirmed rq w) (seqm (loop (redis_do (rt_api env)) before) (
       bindm (runtime_command env actor ct payload action) (\<lambda>event. seqm risk (ret (answer event)))))"

lemma emergency_handler_run:
  assumes "emergency_handler env rq w before actor ct payload action (risk_event_add (rt_api env) severity event_type reason k b meta) answer s = (Inr x, t)"
    "action \<noteq> []"
  shows "\<exists>event row. command_sent (rt_api env) actor ct payload MARKET_MAKER_COMMAND_CHANNEL action (st_redis s @ before) event t
    \<and> row \<in> set (tbl_risk_events (st_session t)) \<and> re_event_type row = event_type \<and> re_message row = Message reason \<and> re_metadata_json row = meta"
proof -
  from assms(1) obtain v event t1 where v: "loop (redis_do (rt_api env)) before s = (Inr (), v)" and t1: "runtime_command env actor ct payload action v = (Inr event, t1)"
    "risk_event_add (rt_api env) severity event_type reason k b meta t1 = (Inr (), t)"
    unfolding emergency_handler_def confirmed_def seqm_def by (elim bindm_InrE) simp
  have "st_redis v = st_redis s @ before" using loop_redis[where cs = before and env = "rt_api env" and s = s] v by auto
  note t1
  then have "command_sent (rt_api env) actor ct payload MARKET_MAKER_COMMAND_CHANNEL action (st_redis v) event t1"
    using publish_runtime_command_run[OF assms(2), of "rt_api env" actor ct payload MARKET_MAKER_COMMAND_CHANNEL "''runtime_command''" v]
    unfolding runtime_command_def by auto
  moreover obtain row where row: "st_redis t = st_redis t1" "set (st_audit_logs t1) \<subseteq> set (st_audit_logs t)"
      "set (st_runtime_events t1) \<subseteq> set (st_runtime_events t)" "row \<in> set (tbl_risk_events (st_session t))"
      "re_event_type row = event_type" "re_message row = Message reason" "re_metadata_json row = meta"
    using risk_event_add_run[of "rt_api env" severity event_type reason k b meta t1] t1(2) by auto
  ultimately have "command_sent (rt_api env) actor ct payload MARKET_MAKER_COMMAND_CHANNEL action (st_redis v) event t"
    by (blast intro: command_sent_mono)
  then show ?thesis using row \<open>st_redis v = st_redis s @ before\<close> by auto
qed

text \<open>The emergency requests with the type of their command, the action of the audit row and the type of the risk event.\<close>

fun emergency_command :: "control_request \<Rightarrow> (string \<times> string \<times> string \<times> ConfirmedActionRequest) option" where
  "emergency_command (Cancel_all_orders rq) = Some (''CANCEL_ALL_ORDERS'', ''EMERGENCY_CANCEL_ALL_ORDERS'', ''EMERGENCY_CANCEL_ALL_ORDERS'', rq)"
| "emergency_command (Disable_trading rq) = Some (''DISABLE_TRADING'', ''EMERGENCY_DISABLE_TRADING'', ''TRADING_DISABLED'', rq)"
| "emergency_command (Enable_trading rq) = Some (''ENABLE_TRADING'', ''EMERGENCY_ENABLE_TRADING'', ''TRADING_ENABLED'', rq)"
| "emergency_command (Close_positions rq) = Some (''CLOSE_POSITIONS'', ''EMERGENCY_CLOSE_POSITIONS'', ''CLOSE_POSITIONS_REQUESTED'', rq)"
| "emergency_command (Runtime_restart rq) = Some (''RUNTIME_RESTART'', ''EMERGENCY_RUNTIME_RESTART'', ''RUNTIME_RESTART_REQUESTED'', rq)"
| "emergency_command (Shutdown rq) = Some (''EMERGENCY_SHUTDOWN'', ''EMERGENCY_SHUTDOWN'', ''EMERGENCY_SHUTDOWN'', rq)"
| "emergency_command _ = None"

text \<open>The request has been carried out: its command is published and recorded, and its risk event is stored.\<close>

definition command_recorded :: "route_env \<Rightarrow> store \<Rightarrow> string \<times> string \<times> string \<times> ConfirmedActionRequest \<Rightarrow> store \<Rightarrow> bool" where
  "command_recorded env s parts t \<longleftrightarrow> (case parts of (ct, action, event_type, rq) \<Rightarrow>
     \<exists>actor payload before event row. command_sent (rt_api env) actor ct payload MARKET_MAKER_COMMAND_CHANNEL action (st_redis s @ before) event t
       \<and> length before \<le> 1 \<and> jget payload ''reason'' = JStr (rq_reason rq)
       \<and> row \<in> set (tbl_risk_events (st_session t)) \<and> re_event_type row = event_type \<and> re_message row = Message (rq_reason rq)
       \<and> re_metadata_json row = actor_meta actor)"

lemma guarded_emergency:
  assumes "map_prod (\<lambda>r. \<not> isl r) id (guarded env check cr (\<lambda>actor. emergency_handler env rq w (before actor) actor ct (payload actor) action
       (risk_event_add (rt_api env) severity event_type (rq_reason rq) k b (actor_meta actor)) (answer actor)) s) = (True, t)"
    "action \<noteq> []" "\<And>actor. jget (payload actor) ''reason'' = JStr (rq_reason rq)" "\<And>actor. length (before actor) \<le> 1"
  shows "command_recorded env s (ct, action, event_type, rq) t"
proof -
  let ?H = "\<lambda>actor. emergency_handler env rq w (before actor) actor ct (payload actor) action
       (risk_event_add (rt_api env) severity event_type (rq_reason rq) k b (actor_meta actor)) (answer actor)"
  obtain x where "guarded env check cr ?H s = (Inr x, t)"
    using assms(1) by (cases "guarded env check cr ?H s"; cases "fst (guarded env check cr ?H s)") auto
  then obtain actor where actor: "check (rt_jwt env) (av_now (rt_api env)) cr = Inr actor" "database_session (rt_api env) ''api'' (?H actor) s = (Inr x, t)"
    unfolding guarded_def by (elim bindm_InrE) simp
  from database_session_done[OF actor(2)] obtain u where u: "?H actor (s\<lparr>st_actor_service := Some ''api''\<rparr>) = (Inr x, u)"
    "t = u\<lparr>st_actor_service := st_actor_service s\<rparr>" by blast
  from emergency_handler_run[OF u(1) assms(2)] obtain event row where
    "command_sent (rt_api env) actor ct (payload actor) MARKET_MAKER_COMMAND_CHANNEL action (st_redis s @ before actor) event u"
    "row \<in> set (tbl_risk_events (st_session u))" "re_event_type row = event_type" "re_message row = Message (rq_reason rq)"
    "re_metadata_json row = actor_meta actor" by auto
  then show ?thesis unfolding command_recorded_def prod.case u(2) using assms(3,4)
    by (intro exI[of _ actor] exI[of _ "payload actor"] exI[of _ "before actor"] exI[of _ event] exI[of _ row]) (simp add: command_sent_def)
qed

lemma emergency_routes:
  "emergency_cancel_all_orders env cr rq = guarded env require_incident_response cr (\<lambda>actor. emergency_handler env rq ''cancel'' [] actor ''CANCEL_ALL_ORDERS''
     [(''reason'', JStr (rq_reason rq)), (''confirmed'', JBool True)] ''EMERGENCY_CANCEL_ALL_ORDERS''
     (risk_event_add (rt_api env) RS_high ''EMERGENCY_CANCEL_ALL_ORDERS'' (rq_reason rq) False False (actor_meta actor))
     (\<lambda>event. [(''accepted'', JBool True), (''event'', JDict event)]))"
  "emergency_disable_trading env cr rq = guarded env require_incident_response cr (\<lambda>actor. emergency_handler env rq ''disable''
     [Redis_set kill_switch_key (JDict (kill_switch_state env actor (rq_reason rq))) None] actor ''DISABLE_TRADING''
     [(''reason'', JStr (rq_reason rq)), (''kill_switch'', JDict (kill_switch_state env actor (rq_reason rq)))] ''EMERGENCY_DISABLE_TRADING''
     (risk_event_add (rt_api env) RS_critical ''TRADING_DISABLED'' (rq_reason rq) True False (actor_meta actor))
     (\<lambda>event. [(''accepted'', JBool True), (''kill_switch'', JDict (kill_switch_state env actor (rq_reason rq))), (''event'', JDict event)]))"
  "emergency_enable_trading env cr rq = guarded env require_risk_write cr (\<lambda>actor. emergency_handler env rq ''enable'' [Redis_delete kill_switch_key] actor
     ''ENABLE_TRADING'' [(''reason'', JStr (rq_reason rq))] ''EMERGENCY_ENABLE_TRADING''
     (risk_event_add (rt_api env) RS_high ''TRADING_ENABLED'' (rq_reason rq) False False (actor_meta actor))
     (\<lambda>event. [(''accepted'', JBool True), (''event'', JDict event)]))"
  "emergency_close_positions env cr rq = guarded env require_incident_response cr (\<lambda>actor. emergency_handler env rq ''close'' [] actor ''CLOSE_POSITIONS''
     [(''reason'', JStr (rq_reason rq)), (''reduce_only'', JBool True)] ''EMERGENCY_CLOSE_POSITIONS''
     (risk_event_add (rt_api env) RS_critical ''CLOSE_POSITIONS_REQUESTED'' (rq_reason rq) False False (actor_meta actor))
     (\<lambda>event. [(''accepted'', JBool True), (''event'', JDict event)]))"
  "emergency_runtime_restart env cr rq = guarded env require_incident_response cr (\<lambda>actor. emergency_handler env rq ''restart'' [] actor ''RUNTIME_RESTART''
     [(''reason'', JStr (rq_reason rq))] ''EMERGENCY_RUNTIME_RESTART''
     (risk_event_add (rt_api env) RS_high ''RUNTIME_RESTART_REQUESTED'' (rq_reason rq) False False (actor_meta actor))
     (\<lambda>event. [(''accepted'', JBool True), (''event'', JDict event)]))"
  "emergency_shutdown_route env cr rq = guarded env require_incident_response cr (\<lambda>actor. emergency_handler env rq ''shutdown''
     [Redis_set kill_switch_key (JDict (kill_switch_state env actor (rq_reason rq) @ [(''shutdown'', JBool True)])) None] actor ''EMERGENCY_SHUTDOWN''
     [(''reason'', JStr (rq_reason rq)), (''kill_switch'', JDict (kill_switch_state env actor (rq_reason rq) @ [(''shutdown'', JBool True)]))] ''EMERGENCY_SHUTDOWN''
     (risk_event_add (rt_api env) RS_critical ''EMERGENCY_SHUTDOWN'' (rq_reason rq) True True (actor_meta actor))
     (\<lambda>event. [(''accepted'', JBool True), (''kill_switch'', JDict (kill_switch_state env actor (rq_reason rq) @ [(''shutdown'', JBool True)])), (''event'', JDict event)]))"
  by (simp_all add: emergency_handler_def emergency_cancel_all_orders_def emergency_disable_trading_def emergency_enable_trading_def
      emergency_close_positions_def emergency_runtime_restart_def emergency_shutdown_route_def Let_def seqm_assoc seqm_ret)

lemma emergency_recorded:
  assumes "emergency_command request = Some parts" "control env cr request s = (True, t)"
  shows "command_recorded env s parts t"
  using assms
  by (induction request)
    (simp_all only: emergency_command.simps control.simps emergency_routes option.inject option.distinct,
      (hypsubst, erule guarded_emergency, simp, simp add: jget_def, simp)+)


section \<open>Stopping and releasing\<close>

lemma switch_after_set:
  assumes "\<And>v. keeps (switch_at v) rest"
  shows "switch_at (Some state) (snd (seqm (redis_do env (Redis_set kill_switch_key state ttl)) rest s))"
proof -
  have "switch_at (Some state) (s\<lparr>st_redis := st_redis s @ [Redis_set kill_switch_key state ttl]\<rparr>)"
    by (simp add: switch_at_def kill_switch_of_snoc)
  then show ?thesis using keepsD[OF assms]
    by (auto simp: seqm_def bindm_def redis_do_run split: sum.splits)
qed

lemma switch_after_delete:
  assumes "\<And>v. keeps (switch_at v) rest"
  shows "switch_at None (snd (seqm (redis_do env (Redis_delete kill_switch_key)) rest s))"
proof -
  have "switch_at None (s\<lparr>st_redis := st_redis s @ [Redis_delete kill_switch_key]\<rparr>)"
    by (simp add: switch_at_def kill_switch_of_snoc)
  then show ?thesis using keepsD[OF assms]
    by (auto simp: seqm_def bindm_def redis_do_run split: sum.splits)
qed

lemma switch_session_after:
  assumes "\<And>s. switch_at v (snd (m s))"
  shows "switch_at v (snd (database_session env service m s))"
  using assms[of "s\<lparr>st_actor_service := Some service\<rparr>"]
  by (auto simp: database_session_def switch_at_def rolled_back_def seqm_def bindm_def split: prod.split sum.split)

lemma session_after_set: "(\<And>v. keeps (switch_at v) rest) \<Longrightarrow>
    switch_at (Some state) (snd (database_session env service (seqm (redis_do env' (Redis_set kill_switch_key state ttl)) rest) s))"
  by (intro switch_session_after switch_after_set)

lemma session_after_delete: "(\<And>v. keeps (switch_at v) rest) \<Longrightarrow>
    switch_at None (snd (database_session env service (seqm (redis_do env' (Redis_delete kill_switch_key)) rest) s))"
  by (intro switch_session_after switch_after_delete)

lemma commit_failed: "av_commit env = Inl e \<Longrightarrow> \<exists>e' u. database_session env service m s = (Inl e', rolled_back s u)"
  by (cases "m (s\<lparr>st_actor_service := Some service\<rparr>)"; cases "fst (m (s\<lparr>st_actor_service := Some service\<rparr>))")
    (auto simp: database_session_def seqm_def bindm_def)

lemma confirmed_ok: "validate_confirmed rq = Inr () \<Longrightarrow> require_confirmation (rq_confirmation rq) w = Inr () \<Longrightarrow> seqm (confirmed rq w) m = m"
  by (simp add: confirmed_def fun_eq_iff seqm_def bindm_def)

lemma switch_rest:
  "keeps (switch_at v) (bindm (runtime_command env actor ct payload action) (\<lambda>event. seqm (risk_event_add api severity event_type reason k b meta) (ret (answer event))))"
  unfolding runtime_command_def by (intro kept switch_kept)

lemma emergency_stop_switch_on:
  assumes "require_incident_response (rt_jwt env) (av_now (rt_api env)) cr = Inr actor" "validate_confirmed rq = Inr ()"
  shows "(require_confirmation (rq_confirmation rq) ''disable'' = Inr () \<longrightarrow> switch_on (snd (control env cr (Disable_trading rq) s)))
    \<and> (require_confirmation (rq_confirmation rq) ''shutdown'' = Inr () \<longrightarrow> switch_on (snd (control env cr (Shutdown rq) s)))"
proof -
  have set_first: "switch_on (snd (database_session (rt_api env) ''api'' (seqm (redis_do (rt_api env) (Redis_set kill_switch_key (JDict state) None)) rest) s))"
    if "jget state ''active'' = JBool True" "\<And>v. keeps (switch_at v) rest" for state and rest :: "obj st_op"
    using session_after_set[OF that(2)] that(1) by (auto simp: switch_at_def switch_on_def)
  show ?thesis
    unfolding control.simps emergency_disable_trading_def emergency_shutdown_route_def guarded_granted[where check = require_incident_response, OF assms(1)] Let_def snd_map_prod comp_def id_apply
    by (intro conjI impI; subst confirmed_ok[OF assms(2)]; (assumption | rule set_first[OF _ switch_rest]; simp))
qed

text \<open>
  A confirmed emergency stop by someone with the rights of an incident responder has the active kill switch as the last
  thing sent about it, whatever fails afterwards: the command's publication, the rows or the commit.
\<close>

theorem emergency_stop_sent_whatever_fails:
  assumes "require_incident_response (rt_jwt env) (av_now (rt_api env)) cr = Inr actor" "validate_confirmed rq = Inr ()"
  shows "(require_confirmation (rq_confirmation rq) ''disable'' = Inr () \<longrightarrow> switch_on (snd (control env cr (Disable_trading rq) s)))
    \<and> (require_confirmation (rq_confirmation rq) ''shutdown'' = Inr () \<longrightarrow> switch_on (snd (control env cr (Shutdown rq) s)))"
  using assms by (rule emergency_stop_switch_on)

lemma guarded_failed:
  assumes "map_prod (\<lambda>r. \<not> isl r) id (guarded env check cr handler s) = (False, t)"
  shows "(\<exists>u. t = rolled_back s u) \<and> ((\<forall>actor. check (rt_jwt env) (av_now (rt_api env)) cr \<noteq> Inr actor) \<longrightarrow> t = s)"
proof (cases "check (rt_jwt env) (av_now (rt_api env)) cr")
  case (Inl e)
  then have "t = s" using assms by (simp add: guarded_def bindm_def)
  then have "t = rolled_back s s" by (simp add: rolled_back_def)
  with \<open>t = s\<close> show ?thesis by blast
next
  case (Inr actor)
  obtain e where "database_session (rt_api env) ''api'' (handler actor) s = (Inl e, t)"
    using assms Inr by (cases "database_session (rt_api env) ''api'' (handler actor) s"; cases "fst (database_session (rt_api env) ''api'' (handler actor) s)")
      (auto simp: guarded_granted)
  then show ?thesis using database_session_failed Inr by blast
qed


lemma emergency_handler_succeeds:
  assumes "validate_confirmed rq = Inr ()" "require_confirmation (rq_confirmation rq) w = Inr ()" "action \<noteq> []"
    "\<forall>sent c. \<exists>x. av_redis (rt_api env) sent c = Inr x"
  shows "\<exists>x t. emergency_handler env rq w before actor ct payload action (risk_event_add (rt_api env) severity event_type reason k b meta) answer s = (Inr x, t)"
proof -
  obtain v where v: "loop (redis_do (rt_api env)) before s = (Inr (), v)"
    using loop_redis_answered[of "rt_api env" before s] assms(4) by (metis prod.collapse)
  obtain event t1 where "runtime_command env actor ct payload action v = (Inr event, t1)"
    using publish_runtime_command_run[OF assms(3), of "rt_api env" actor ct payload MARKET_MAKER_COMMAND_CHANNEL "''runtime_command''" v] assms(4)
    unfolding runtime_command_def by auto
  moreover obtain t where "risk_event_add (rt_api env) severity event_type reason k b meta t1 = (Inr (), t)" using risk_event_add_run by blast
  ultimately show ?thesis unfolding emergency_handler_def confirmed_ok[OF assms(1,2)] using v by (simp add: seqm_def bindm_def)
qed

text \<open>
  Trading is released before the request can fail: when the commit fails, the caller gets an error and no row tells who released it,
  but the kill switch is gone and the command is out.
\<close>

theorem release_without_trace:
  assumes "require_risk_write (rt_jwt env) (av_now (rt_api env)) cr = Inr actor" "validate_confirmed rq = Inr ()"
    "require_confirmation (rq_confirmation rq) ''enable'' = Inr ()" "av_commit (rt_api env) = Inl e"
  shows "\<exists>t. control env cr (Enable_trading rq) s = (False, t) \<and> kill_switch_of (st_redis t) = None
    \<and> st_audit_logs t = st_audit_logs s \<and> st_runtime_events t = st_runtime_events s \<and> tbl_risk_events (st_session t) = tbl_risk_events (st_session s)"
proof -
  let ?m = "seqm (redis_do (rt_api env) (Redis_delete kill_switch_key)) (
     bindm (runtime_command env actor ''ENABLE_TRADING'' [(''reason'', JStr (rq_reason rq))] ''EMERGENCY_ENABLE_TRADING'') (\<lambda>event.
     seqm (risk_event_add (rt_api env) RS_high ''TRADING_ENABLED'' (rq_reason rq) False False (actor_meta actor))
       (ret [(''accepted'', JBool True), (''event'', JDict event)])))"
  have route: "emergency_enable_trading env cr rq = database_session (rt_api env) ''api'' ?m"
    unfolding emergency_enable_trading_def guarded_granted[where check = require_risk_write, OF assms(1)] confirmed_ok[OF assms(2,3)] ..
  have "switch_at None (snd (database_session (rt_api env) ''api'' ?m s))"
    by (rule session_after_delete[OF switch_rest])
  moreover obtain e' u where "database_session (rt_api env) ''api'' ?m s = (Inl e', rolled_back s u)"
    using commit_failed[OF assms(4)] by blast
  ultimately show ?thesis by (simp add: route switch_at_def rolled_back_tables)
qed

text \<open>
  The permission to write configurations is enough to release the kill switch over the administrator's route, although the
  emergency route asks for the rights of the risk manager.
\<close>

theorem config_writer_releases_kill_switch:
  assumes "token_valid (rt_jwt env) (av_now (rt_api env)) token payload" "claims payload ''roles'' = {}" "claims payload ''permissions'' = {''config:write''}"
  shows "kill_switch_of (st_redis (snd (control env (Some token) Kill_switch_disable s))) = None
    \<and> snd (control env (Some token) (Enable_trading rq) s) = s"
proof -
  have same: "token_valid (rt_jwt env) (av_now (rt_api env)) token p \<longleftrightarrow> p = payload" for p using assms(1) by (auto simp: token_valid_def)
  have "require_admin (rt_jwt env) (av_now (rt_api env)) (Some token) = Inr payload"
    using assms by (simp add: require_admin_access access_iff)
  then have "admin_kill_switch_disable env (Some token) = database_session (rt_api env) ''api'' (
      seqm (redis_do (rt_api env) (Redis_delete kill_switch_key)) (
      seqm (risk_event_add (rt_api env) RS_high ''KILL_SWITCH_CLEARED'' ''operator_clear'' False False (actor_meta payload)) (ret [(''active'', JBool False)])))"
    unfolding admin_kill_switch_disable_def by (rule guarded_granted)
  moreover have rest: "keeps (switch_at v) (seqm (risk_event_add (rt_api env) RS_high ''KILL_SWITCH_CLEARED'' ''operator_clear'' False False (actor_meta payload))
      (ret [(''active'', JBool False)]))" for v by (intro kept switch_kept)
  ultimately have "switch_at None (snd (admin_kill_switch_disable env (Some token) s))"
    using session_after_delete[OF rest, of "rt_api env" "''api''" "rt_api env" s] by simp
  moreover have "\<And>actor. require_risk_write (rt_jwt env) (av_now (rt_api env)) (Some token) \<noteq> Inr actor"
    using assms by (simp add: require_risk_write_def access_iff same)
  then have "\<exists>e. emergency_enable_trading env (Some token) rq = raise_err e"
    unfolding emergency_enable_trading_def by (rule guarded_refused)
  ultimately show ?thesis by (auto simp: switch_at_def)
qed

section \<open>Instances\<close>

definition example_route_env :: route_env where
  "example_route_env = \<lparr>rt_api = example_api_env, rt_jwt = plain_jwt, rt_cfg = example_config_env\<rparr>"

lemma example_granted:
  "require_incident_response (rt_jwt example_route_env) (av_now (rt_api example_route_env)) (Some ''risk_manager'') = Inr [(''roles'', JList [JStr ''risk_manager''])]"
  "require_risk_write (rt_jwt example_route_env) (av_now (rt_api example_route_env)) (Some ''risk_manager'') = Inr [(''roles'', JList [JStr ''risk_manager''])]"
  by (simp_all add: example_route_env_def plain_jwt_def require_incident_response_def require_risk_write_def require_access_def decode_token_def jget_def
      claim_set_def map_filter_simps intersects_def)

definition example_stop_request :: ConfirmedActionRequest where "example_stop_request = \<lparr>rq_confirmation = ''disable'', rq_reason = ''incident''\<rparr>"

lemma example_stop_valid:
  "validate_confirmed example_stop_request = Inr ()" "require_confirmation (rq_confirmation example_stop_request) ''disable'' = Inr ()"
  by (simp_all add: example_stop_request_def validate_confirmed_def require_confirmation_def lower_def to_lower_def)

theorem emergency_stop_sent_whatever_fails_witness:
  "switch_on (snd (control example_route_env (Some ''risk_manager'') (Disable_trading example_stop_request) (store_init empty_session)))"
  using emergency_stop_sent_whatever_fails[OF example_granted(1) example_stop_valid(1)] example_stop_valid(2) by blast



lemma example_stop_accepted:
  "\<exists>t. control example_route_env (Some ''risk_manager'') (Disable_trading example_stop_request) (store_init empty_session) = (True, t)"
proof -
  let ?actor = "[(''roles'', JList [JStr ''risk_manager''])]"
  let ?state = "kill_switch_state example_route_env ?actor (rq_reason example_stop_request)"
  let ?H = "emergency_handler example_route_env example_stop_request ''disable'' [Redis_set kill_switch_key (JDict ?state) None] ?actor ''DISABLE_TRADING''
     [(''reason'', JStr (rq_reason example_stop_request)), (''kill_switch'', JDict ?state)] ''EMERGENCY_DISABLE_TRADING''
     (risk_event_add (rt_api example_route_env) RS_critical ''TRADING_DISABLED'' (rq_reason example_stop_request) True False (actor_meta ?actor))
     (\<lambda>event. [(''accepted'', JBool True), (''kill_switch'', JDict ?state), (''event'', JDict event)])"
  let ?s = "(store_init empty_session)\<lparr>st_actor_service := Some ''api''\<rparr>"
  have answers: "\<forall>sent c. \<exists>x. av_redis (rt_api example_route_env) sent c = Inr x" by (simp add: example_route_env_def example_api_env_def)
  obtain x t where "?H ?s = (Inr x, t)"
    using emergency_handler_succeeds[OF example_stop_valid _ answers] by blast
  then have "database_session (rt_api example_route_env) ''api'' ?H (store_init empty_session) = (Inr x, t\<lparr>st_actor_service := st_actor_service (store_init empty_session)\<rparr>)"
    by (simp add: database_session_def seqm_def bindm_def example_route_env_def example_api_env_def)
  then show ?thesis unfolding control.simps emergency_routes guarded_granted[where check = require_incident_response, OF example_granted(1)] by simp
qed


end
