(* ===== verification/Accounts_Safety.thy ===== *)
theory Accounts_Safety
  imports Accounts_Api Control_Safety Coinstore_Safety
begin

text \<open>
  What the account routes guarantee over any history of requests: keys and identifiers stay unique, no row refers to a
  missing account, the shown state of a connection agrees with its checks, what was stored can be read back, and lists
  show of the secrets no more than the masks; and where the code falls short of its intent.
\<close>

section \<open>The requests\<close>

datatype account_request =
    Connect ExchangeConnectRequest
  | Test ExchangeTestRequest
  | Remove ExchangeRemoveRequest
  | Sync string ExchangeSyncRequest
  | Upsert ExchangeAccountCreateRequest
  | Set_status uuid ExchangeAccountStatusRequest
  | Balance_sync ConfirmedActionRequest
  | List_exchanges
  | List_status
  | List_coinstore
  | Balances string string string

fun serve :: "account_env \<Rightarrow> string option \<Rightarrow> account_request \<Rightarrow> obj st_op" where
  "serve env cr (Connect q) = exchanges_connect env cr q"
| "serve env cr (Test q) = exchanges_test env cr q"
| "serve env cr (Remove q) = exchanges_remove env cr q"
| "serve env cr (Sync name q) = exchange_balance_sync env cr name q"
| "serve env cr (Upsert q) = coinstore_account_upsert env cr q"
| "serve env cr (Set_status u q) = coinstore_account_status env cr u q"
| "serve env cr (Balance_sync q) = coinstore_balance_sync env cr q"
| "serve env cr List_exchanges = exchanges env cr"
| "serve env cr List_status = exchanges_status env cr"
| "serve env cr List_coinstore = coinstore_accounts env cr"
| "serve env cr (Balances name alias environment) = exchange_balances env cr name alias environment"

definition serve_step :: "account_env \<times> string option \<times> account_request \<Rightarrow> store \<Rightarrow> store" where
  "serve_step = (\<lambda>(env, cr, request) s. snd (serve env cr request s))"

section \<open>Balances are never synchronised\<close>

lemma verify_empty: "verify_balance_response (JList []) = Inl (CoinstoreValidationError ''Coinstore balance response is empty'')"
  by (simp add: verify_balance_response_def dict_items_def List.map_filter_def)

lemma keeps_cs_session_client: "keeps (\<lambda>t. cs_session t = d) (with_client env m)"
proof -
  have "keeps (\<lambda>t. cs_session t = d) (on_client m)" by (rule keepsI) (auto simp: on_client_def split: option.splits prod.splits)
  then show ?thesis unfolding with_client_def service_client_def account_def Let_def by (intro kept keeps_modifies) auto
qed

text \<open>The client reads no balance out of any answer, and the check rejects the empty list.\<close>

lemma sync_raises:
  "\<exists>e. on_service row (bindm (with_client (service_env env) (sync_balances http)) (\<lambda>balances.
      seqm (lift_res (verify_balance_response (JList (map (\<lambda>b. JDict (bl_raw b)) balances)))) (f balances))) s = (Inl e, s)"
proof -
  let ?c = "\<lparr>cs_session = st_session s, cs_client = None, cs_account = Some row, cs_precision = None\<rparr>"
  obtain r t where rt: "with_client (service_env env) (sync_balances http) ?c = (r, t)" by (meson surj_pair)
  have "cs_session t = st_session s" using keepsD[OF keeps_cs_session_client, of ?c "st_session s" "service_env env" "sync_balances http"] rt by simp
  moreover have "r = Inr bs \<Longrightarrow> bs = []" for bs
    using rt by (auto simp: with_client_def elim!: seqm_InrE on_client_InrE dest!: sync_balances_empty)
  ultimately show ?thesis using rt by (cases r) (auto simp: on_service_def bindm_def seqm_def verify_empty)
qed

lemma sync_exchange_balances_raises: "\<exists>e. sync_exchange_balances env row s = (Inl e, s)"
proof (cases "ea_exchange_name row = ''coinstore''")
  case True
  obtain e where "on_service row (bindm (with_client (service_env env) (sync_balances (ac_http env))) (\<lambda>balances.
      seqm (lift_res (verify_balance_response (JList (map (\<lambda>b. JDict (bl_raw b)) balances))))
        (collect (persist_balance_update (service_env env)) balances))) s = (Inl e, s)"
    using sync_raises by blast
  then show ?thesis using True by (simp add: sync_exchange_balances_def bindm_def)
qed (simp add: sync_exchange_balances_def)

section \<open>The invariant of the accounts\<close>

text \<open>The shown state of the connection: connected exactly if the last test passed all its checks.\<close>

definition status_ok :: "ExchangeAccountRow \<Rightarrow> bool" where
  "status_ok row \<longleftrightarrow> (ea_connection_status row = ''connected'' \<longleftrightarrow> ea_rest_connected row \<and> ea_websocket_connected row \<and> ea_private_ws_connected row)
     \<and> (ea_connection_status row = ''connected'' \<longrightarrow> ea_last_error_message row = None)"

definition accounts_ok :: "ExchangeAccountRow list \<Rightarrow> uuid list \<Rightarrow> nat \<Rightarrow> bool" where
  "accounts_ok rows references n \<longleftrightarrow> distinct (map ea_id rows) \<and> distinct (map account_key rows) \<and> list_all (\<lambda>row. ea_id row < n) rows
     \<and> list_all (\<lambda>row. status_ok row \<and> known_exchange (ea_exchange_name row)) rows \<and> set references \<subseteq> ea_id ` set rows"

definition accounts_inv :: "store \<Rightarrow> bool" where
  "accounts_inv s \<longleftrightarrow> accounts_ok (tbl_exchange_accounts (st_session s)) (account_references (st_session s)) (uuid_supply (st_session s))"

lemma accounts_ok_mono: "accounts_ok rows references n \<Longrightarrow> n \<le> m \<Longrightarrow> accounts_ok rows references m"
  by (auto simp: accounts_ok_def list_all_iff)

lemma references_supply [simp]: "account_references (uuid_supply_update f d) = account_references d"
  by (simp add: account_references_def)

lemma references_accounts [simp]: "account_references (tbl_exchange_accounts_update f d) = account_references d"
  by (simp add: account_references_def)

text \<open>The invariant with a bound on the identifiers handed out, which a rollback keeps.\<close>

definition accounts_since :: "nat \<Rightarrow> store \<Rightarrow> bool" where
  "accounts_since n s \<longleftrightarrow> accounts_inv s \<and> n \<le> uuid_supply (st_session s)"

named_theorems accounts_kept "operations that keep the invariant of the accounts"

lemma accounts_modifies: "(\<And>s. st_session (f s) = st_session s) \<Longrightarrow> keeps (accounts_since n) (modifies f)"
  by (rule keeps_modifies) (simp add: accounts_since_def accounts_inv_def)

lemma accounts_uuid [accounts_kept]: "keeps (accounts_since n) store_uuid"
  by (rule keepsI) (auto simp: store_uuid_run accounts_since_def accounts_inv_def intro: accounts_ok_mono)

lemma accounts_audit_flush [accounts_kept]: "keeps (accounts_since n) (audit_flush env action table u)"
  unfolding audit_flush_def by (intro kept accounts_kept accounts_modifies) simp

lemma accounts_audit_record [accounts_kept]: "keeps (accounts_since n) (audit_record env service action rtype rid meta user before_state after_state)"
  unfolding audit_record_def Let_def by (intro kept accounts_kept accounts_modifies) simp

lemma accounts_runtime_event [accounts_kept]:
  "keeps (accounts_since n) (runtime_event_record env event_type source status payload cid domain version correlation ack meta)"
  unfolding runtime_event_record_def Let_def by (intro kept accounts_kept accounts_modifies) simp

lemma accounts_redis [accounts_kept]: "keeps (accounts_since n) (redis_do env c)"
  unfolding redis_do_def redis_def by (intro kept accounts_modifies) simp

lemma accounts_publish [accounts_kept]: "keeps (accounts_since n) (publish_runtime_command env actor command_type payload channel rtype action)"
  unfolding publish_runtime_command_def Let_def by (intro kept accounts_kept)

lemma accounts_announce [accounts_kept]: "keeps (accounts_since n) (announce_account env actor action ct rtype u meta before after payload)"
  unfolding announce_account_def by (intro kept accounts_kept)

lemma accounts_session: "(\<And>n. keeps (accounts_since n) m) \<Longrightarrow> keeps accounts_inv (database_session env service m)"
proof (rule keepsI)
  fix s assume m: "\<And>n. keeps (accounts_since n) m" and s: "accounts_inv s"
  let ?n = "uuid_supply (st_session s)"
  let ?body = "bindm (seqm (modifies (\<lambda>s. s\<lparr>st_actor_service := Some service\<rparr>)) m) (\<lambda>x. seqm (lift_res (av_commit env)) (ret x))"
  have "keeps (accounts_since ?n) ?body" by (intro kept m accounts_modifies) simp
  moreover have "accounts_since ?n s" using s by (simp add: accounts_since_def)
  ultimately have "accounts_since ?n (snd (?body s))" by (rule keepsD)
  moreover obtain r t where body: "?body s = (r, t)" by (meson surj_pair)
  ultimately have t: "accounts_inv t" "?n \<le> uuid_supply (st_session t)" by (simp_all add: accounts_since_def)
  show "accounts_inv (snd (database_session env service m s))"
  proof (cases r)
    case (Inl e)
    then have "snd (database_session env service m s) = rolled_back s t" using body by (simp add: database_session_def)
    then show ?thesis using s t(2) accounts_ok_mono by (simp add: accounts_inv_def rolled_back_def)
  next
    case (Inr x)
    then have "snd (database_session env service m s) = t\<lparr>st_actor_service := st_actor_service s\<rparr>" using body by (simp add: database_session_def)
    then show ?thesis using t(1) by (simp add: accounts_inv_def)
  qed
qed

lemma accounts_guarded: "(\<And>actor n. keeps (accounts_since n) (handler actor)) \<Longrightarrow> keeps accounts_inv (guarded env check credentials handler)"
  unfolding guarded_def by (intro kept accounts_session)

section \<open>Changes of the table\<close>

lemma accounts_insert:
  assumes "\<And>u. ea_id (new u) = u" "\<And>u. status_ok (new u)" "\<And>u. account_key (new u) = k" "\<And>u. known_exchange (ea_exchange_name (new u))"
    "accounts_since n s" "k \<notin> account_key ` set (tbl_exchange_accounts (st_session s))"
  shows "accounts_since n (snd (account_insert env new s))"
proof -
  let ?u = "uuid_supply (st_session s)"
  let ?t = "s\<lparr>st_session := (st_session s)\<lparr>uuid_supply := Suc ?u, tbl_exchange_accounts := tbl_exchange_accounts (st_session s) @ [new ?u]\<rparr>\<rparr>"
  have "accounts_since n ?t" using assms unfolding accounts_since_def accounts_inv_def accounts_ok_def by (auto simp: list_all_iff)
  then have "accounts_since n (snd (audit_flush env ''INSERT'' ''exchange_accounts'' ?u ?t))" by (rule keepsD[OF accounts_audit_flush])
  then show ?thesis by (auto simp: account_insert_def bindm_def seqm_def store_uuid_run on_session_def zoom_def split: prod.split sum.split)
qed

lemma accounts_update:
  assumes "ea_id (f row) = ea_id row" "status_ok (f row)" "account_key (f row) = account_key row"
    "accounts_since n s" "row \<in> set (tbl_exchange_accounts (st_session s))"
  shows "accounts_since n (snd (account_update env f row s))"
proof -
  let ?new = "if f row = row then row else (f row)\<lparr>ea_updated_at := av_now env\<rparr>"
  let ?rows = "tbl_exchange_accounts (st_session s)"
  let ?t = "s\<lparr>st_session := (st_session s)\<lparr>tbl_exchange_accounts := update_rows (\<lambda>r. ea_id r = ea_id row) (\<lambda>_. ?new) ?rows\<rparr>\<rparr>"
  have unique: "r \<in> set ?rows \<Longrightarrow> ea_id r = ea_id row \<Longrightarrow> r = row" for r
    using assms(4,5) by (auto simp: accounts_since_def accounts_inv_def accounts_ok_def dest: inj_onD[OF distinct_map[THEN iffD1, THEN conjunct2]])
  have new: "ea_id ?new = ea_id row" "account_key ?new = account_key row" "status_ok ?new"
    using assms(1-3) by (auto simp: account_key_def status_ok_def)
  have keys: "map ea_id (update_rows (\<lambda>r. ea_id r = ea_id row) (\<lambda>_. ?new) ?rows) = map ea_id ?rows"
    "map account_key (update_rows (\<lambda>r. ea_id r = ea_id row) (\<lambda>_. ?new) ?rows) = map account_key ?rows"
    unfolding update_rows_def map_map o_def using new(1,2) by (auto intro!: map_cong dest: unique simp del: map_map)
  have "set (update_rows (\<lambda>r. ea_id r = ea_id row) (\<lambda>_. ?new) ?rows) \<subseteq> insert ?new (set ?rows)" by (auto simp: update_rows_def)
  then have all: "list_all P (update_rows (\<lambda>r. ea_id r = ea_id row) (\<lambda>_. ?new) ?rows)" if "list_all P ?rows" "P ?new" for P
    using that unfolding list_all_iff by blast
  have ids: "ea_id ` set (update_rows (\<lambda>r. ea_id r = ea_id row) (\<lambda>_. ?new) ?rows) = ea_id ` set ?rows" using keys(1) by (metis set_map)
  have old: "accounts_ok ?rows (account_references (st_session s)) (uuid_supply (st_session s))" "n \<le> uuid_supply (st_session s)"
    using assms(4) by (simp_all add: accounts_since_def accounts_inv_def)
  have "ea_exchange_name ?new = ea_exchange_name row" using new(2) by (simp add: account_key_def del: if_split)
  then have "ea_id ?new < uuid_supply (st_session s)" "known_exchange (ea_exchange_name ?new)"
    using old(1) assms(5) unfolding new(1) by (auto simp: accounts_ok_def list_all_iff simp del: if_split)
  then have "accounts_ok (update_rows (\<lambda>r. ea_id r = ea_id row) (\<lambda>_. ?new) ?rows) (account_references (st_session s)) (uuid_supply (st_session s))"
    using old(1) new(3) unfolding accounts_ok_def keys ids by (intro conjI all) (auto simp del: if_split)
  then have "accounts_since n ?t" using old(2) by (simp add: accounts_since_def accounts_inv_def)
  then have "accounts_since n (snd (audit_flush env ''UPDATE'' ''exchange_accounts'' (ea_id row) ?t))" by (rule keepsD[OF accounts_audit_flush])
  then show ?thesis by (auto simp: account_update_def Let_def bindm_def seqm_def on_session_def zoom_def split: prod.split sum.split)
qed

lemma accounts_delete: "keeps (accounts_since n) (account_delete env row)"
proof (rule keepsI)
  fix s assume s: "accounts_since n s"
  let ?t = "s\<lparr>st_session := (st_session s)\<lparr>tbl_exchange_accounts := filter (\<lambda>r. ea_id r \<noteq> ea_id row) (tbl_exchange_accounts (st_session s))\<rparr>\<rparr>"
  show "accounts_since n (snd (account_delete env row s))"
  proof (cases "ea_id row \<in> set (account_references (st_session s))")
    case False
    then have "set (account_references (st_session s)) \<subseteq> ea_id ` set (filter (\<lambda>r. ea_id r \<noteq> ea_id row) (tbl_exchange_accounts (st_session s)))"
      using s unfolding accounts_since_def accounts_inv_def accounts_ok_def by fastforce
    then have "accounts_since n ?t" using s unfolding accounts_since_def accounts_inv_def accounts_ok_def
      by (auto simp: list_all_iff distinct_map_filter)
    then have "accounts_since n (snd (audit_flush env ''DELETE'' ''exchange_accounts'' (ea_id row) ?t))" by (rule keepsD[OF accounts_audit_flush])
    then show ?thesis using False by (simp add: account_delete_def bindm_def seqm_def on_session_def zoom_def)
  qed (use s in \<open>simp add: account_delete_def bindm_def\<close>)
qed

text \<open>A handler that looks an account up by its key, and one that goes on with a step that keeps the invariant in the present state.\<close>

lemma accounts_looked_up:
  assumes "\<And>row s. accounts_since n s \<Longrightarrow> row \<in> set (tbl_exchange_accounts (st_session s)) \<Longrightarrow> account_key row = (a, b, c) \<Longrightarrow> accounts_since n (snd (f (Some row) s))"
    "\<And>s. accounts_since n s \<Longrightarrow> (a, b, c) \<notin> account_key ` set (tbl_exchange_accounts (st_session s)) \<Longrightarrow> accounts_since n (snd (f None s))"
  shows "keeps (accounts_since n) (bindm (exchange_account a b c) f)"
proof (rule keepsI)
  fix s assume s: "accounts_since n s"
  let ?rows = "tbl_exchange_accounts (st_session s)"
  have "distinct (map account_key ?rows)" using s by (simp add: accounts_since_def accounts_inv_def accounts_ok_def)
  then have run: "exchange_account a b c s = (Inr (find (\<lambda>row. account_key row = (a, b, c)) ?rows), s)"
    by (simp add: exchange_account_def bindm_def scalar_one_or_none_key)
  show "accounts_since n (snd (bindm (exchange_account a b c) f s))"
  proof (cases "find (\<lambda>row. account_key row = (a, b, c)) ?rows")
    case None
    then have "(a, b, c) \<notin> account_key ` set ?rows" by (auto simp: find_None_iff)
    then show ?thesis using assms(2)[OF s] run None by (simp add: bindm_def)
  next
    case (Some row)
    then have "row \<in> set ?rows" "account_key row = (a, b, c)" by (auto simp: find_Some_iff)
    then show ?thesis using assms(1)[OF s] run Some by (simp add: bindm_def)
  qed
qed

lemma accounts_then: "accounts_since n (snd (m s)) \<Longrightarrow> (\<And>x. keeps (accounts_since n) (f x)) \<Longrightarrow> accounts_since n (snd (bindm m f s))"
  by (auto simp: bindm_def split: prod.split sum.split intro: keepsD)

lemma new_account_simps [simp]:
  "ea_id (new_account env a b c k sec p perms en u) = u" "account_key (new_account env a b c k sec p perms en u) = (a, b, c)"
  "ea_exchange_name (new_account env a b c k sec p perms en u) = a" "status_ok (new_account env a b c k sec p perms en u)"
  by (simp_all add: new_account_def stored_secrets_def ExchangeAccount_new_def account_key_def status_ok_def)

lemma jget_set: "jget (dict_set k v d) k' = (if k' = k then v else jget d k')"
  by (simp add: jget_def update_conv')

lemma jget_merge: "distinct (dict_keys b) \<Longrightarrow> jget (dict_merge a b) k = (case dict_get b k of Some v \<Rightarrow> v | None \<Rightarrow> jget a k)"
  by (simp add: jget_def dict_get_merge split: option.split)

text \<open>The outcome of a test: connected exactly if no check failed, and with an error text exactly otherwise.\<close>

definition test_outcome :: "obj \<Rightarrow> bool" where
  "test_outcome result \<longleftrightarrow> (\<exists>status. jget result ''status'' = JStr status \<and> status \<noteq> [] \<and> (status = ''connected'' \<longleftrightarrow>
     jget result ''rest_status'' = JStr ''connected'' \<and> jget result ''websocket_status'' = JStr ''connected''
     \<and> (jget result ''private_ws_status'' = JStr ''connected'' \<or> jget result ''private_ws_status'' = JStr ''not_supported'')))"

lemma test_connection_connected: "test_connection env cr att = Inr result \<Longrightarrow> jget result ''connected'' = JBool True"
  by (auto simp: test_connection_def jget_def bindr_Inr_iff)

lemma test_private_outcome:
  assumes "jget result ''rest_status'' = JStr ''connected''" "jget result ''websocket_status'' = JStr ''connected''"
  shows "test_outcome (test_private env credentials result)"
  using assms unfolding test_private_def Let_def test_outcome_def
  by (auto simp: jget_merge dest: test_connection_connected split: sum.split)

lemma test_exchange_outcome:
  assumes "test_exchange_connection env row = Inr result"
  shows "test_outcome result"
proof -
  have outcomes: "test_outcome (dict_merge d [(''rest_status'', JStr ''error''), (''status'', JStr ''network_error''), (''error'', e)])"
    "test_outcome (dict_merge d [(''websocket_status'', JStr ''error''), (''status'', JStr ''network_error''), (''error'', e)])"
    "test_outcome (dict_merge d [(''private_ws_status'', JStr ''invalid_credentials''), (''status'', JStr ''invalid_credentials''), (''error'', e)])"
    "jget d ''private_ws_status'' = JStr ''not_supported'' \<Longrightarrow>
      test_outcome (dict_set ''status'' (JStr ''connected'') (dict_set ''websocket_status'' (JStr ''connected'') (dict_set ''rest_status'' (JStr ''connected'') d)))"
    for d e by (simp_all add: test_outcome_def jget_merge jget_set)
  have signed: "test_outcome (test_private env cr (dict_set ''websocket_status'' (JStr ''connected'') (dict_set ''rest_status'' (JStr ''connected'') d)))" for cr d
    by (rule test_private_outcome) (simp_all add: jget_set)
  have start: "jget (test_start env row) ''private_ws_status'' = JStr ''not_supported''" by (simp add: test_start_def jget_def)
  obtain venue where d: "get_exchange_definition (ea_exchange_name row) = Inr venue"
    using assms by (auto simp: test_exchange_connection_def bindr_Inr_iff)
  show ?thesis
  proof (cases "fst (rest_health (ac_rest env) (RestClient_init (ac_monotonic env) venue None))")
    case (Inr answer)
    then show ?thesis using assms unfolding test_exchange_connection_def Let_def d
      by (cases "ac_socket env (xd_websocket_url venue)")
        (auto simp: bindr_Inr_iff split: if_splits intro: outcomes(2,3) outcomes(4)[OF start] signed)
  qed (use assms d in \<open>auto simp: test_exchange_connection_def intro: outcomes(1)\<close>)
qed

text \<open>What a test writes to the row.\<close>

lemma tested_row:
  assumes "test_outcome result"
  shows "status_ok (apply_exchange_test_result env result row)" "ea_id (apply_exchange_test_result env result row) = ea_id row"
    "account_key (apply_exchange_test_result env result row) = account_key row"
  using assms by (auto simp: apply_exchange_test_result_def Let_def status_ok_def account_key_def test_outcome_def)

section \<open>Every route keeps the invariant\<close>

lemma keeps_checked: "(r = Inr x \<Longrightarrow> keeps P m) \<Longrightarrow> keeps P (seqm (lift_res r) m)" for r :: "unit res"
  by (cases r) (auto simp: seqm_def bindm_def keeps_def)

lemma accounts_lifted: "accounts_since n s \<Longrightarrow> (\<And>x. r = Inr x \<Longrightarrow> accounts_since n (snd (f x s))) \<Longrightarrow> accounts_since n (snd (bindm (lift_res r) f s))"
  by (cases r) (auto simp: bindm_def)

lemma accounts_found: "accounts_since n s \<Longrightarrow> (\<And>x. r = Some x \<Longrightarrow> accounts_since n (snd (f x s))) \<Longrightarrow> accounts_since n (snd (bindm (found code detail r) f s))"
  by (cases r) (auto simp: bindm_def found_def)

text \<open>Storing an account under a key: a new row, or a change of the row with that key.\<close>

lemma accounts_upsert:
  assumes "\<And>u. ea_id (new u) = u" "\<And>u. status_ok (new u)" "\<And>u. account_key (new u) = (a, b, c)" "\<And>u. known_exchange (ea_exchange_name (new u))"
    and change: "\<And>row. ea_id (f row) = ea_id row" "\<And>row. account_key (f row) = account_key row" "\<And>row. status_ok row \<Longrightarrow> status_ok (f row)"
    and after: "\<And>known row. keeps (accounts_since n) (g known row)"
  shows "keeps (accounts_since n) (bindm (exchange_account a b c) (\<lambda>known.
      bindm (case known of None \<Rightarrow> account_insert env new | Some row \<Rightarrow> account_update env f row) (g known)))"
proof (rule accounts_looked_up)
  fix row s assume s: "accounts_since n s" "row \<in> set (tbl_exchange_accounts (st_session s))"
  then have "status_ok (f row)" using change(3) by (auto simp: accounts_since_def accounts_inv_def accounts_ok_def list_all_iff)
  then show "accounts_since n (snd (bindm (case Some row of None \<Rightarrow> account_insert env new | Some row \<Rightarrow> account_update env f row) (g (Some row)) s))"
    using s change after by (auto intro!: accounts_then accounts_update)
next
  fix s assume "accounts_since n s" "(a, b, c) \<notin> account_key ` set (tbl_exchange_accounts (st_session s))"
  then have "accounts_since n (snd (account_insert env new s))" using assms(1-4) by (intro accounts_insert)
  then show "accounts_since n (snd (bindm (case None of None \<Rightarrow> account_insert env new | Some row \<Rightarrow> account_update env f row) (g None) s))"
    using after by (auto intro: accounts_then)
qed

lemma stored_row [simp]:
  "ea_id (stored_secrets c k sec p row) = ea_id row"
  "account_key (stored_secrets c k sec p row\<lparr>ea_permissions := ps, ea_is_enabled := en\<rparr>) = account_key row"
  "account_key (stored_secrets c k sec p row\<lparr>ea_permissions := ps, ea_is_enabled := en, ea_connection_status := st, ea_rest_connected := r,
     ea_websocket_connected := w, ea_private_ws_connected := pw, ea_last_error_message := e\<rparr>) = account_key row"
  "status_ok (stored_secrets c k sec p row\<lparr>ea_permissions := ps, ea_is_enabled := en\<rparr>) = status_ok row"
  "status_ok (stored_secrets c k sec p row\<lparr>ea_permissions := ps, ea_is_enabled := en, ea_connection_status := ''disconnected'', ea_rest_connected := False,
     ea_websocket_connected := w, ea_private_ws_connected := pw, ea_last_error_message := e\<rparr>)"
  by (simp_all add: stored_secrets_def account_key_def status_ok_def)

lemma accounts_connect: "keeps accounts_inv (exchanges_connect env cr q)"
  unfolding exchanges_connect_def Let_def
  by (intro accounts_guarded keeps_checked keeps_if keeps_raise accounts_upsert kept accounts_kept)
    (auto simp: validate_connect_def unprocessable_def split: if_splits)

lemma accounts_upserted: "keeps accounts_inv (coinstore_account_upsert env cr q)"
  unfolding coinstore_account_upsert_def Let_def
  by (intro accounts_guarded keeps_checked keeps_if keeps_raise accounts_upsert kept accounts_kept) (auto simp: known_exchange_def)

lemma accounts_tested: "keeps accounts_inv (exchanges_test env cr q)"
  unfolding exchanges_test_def
proof (intro accounts_guarded keeps_seq keeps_lift accounts_looked_up)
  fix n s row
  assume s: "accounts_since n s" "row \<in> set (tbl_exchange_accounts (st_session s))"
  let ?rest = "\<lambda>result row. ret (exchange_account_payload (ac_api env) (Some (ac_cipher env)) row @ [(''test_result'', JDict result)])"
  show "accounts_since n (snd (bindm (found 404 ''exchange account not found'' (Some row)) (\<lambda>row.
     bindm (lift_res (test_exchange_connection env row)) (\<lambda>result.
     bindm (account_update (ac_api env) (apply_exchange_test_result env result) row) (?rest result))) s))"
    by (rule accounts_found[OF s(1)], rule accounts_lifted[OF s(1)], rule accounts_then, rule accounts_update)
      (use s in \<open>auto simp: tested_row dest: test_exchange_outcome intro: kept\<close>)
qed (auto intro: accounts_found)

lemma accounts_removed: "keeps accounts_inv (exchanges_remove env cr q)"
  unfolding exchanges_remove_def exchange_account_def found_def Let_def by (intro accounts_guarded kept accounts_kept accounts_delete)

lemma accounts_by_id:
  assumes f: "\<And>old row. keeps (accounts_since n) (f old row)"
  shows "keeps (accounts_since n) (bindm (reads (\<lambda>s. find (\<lambda>row. ea_id row = u) (tbl_exchange_accounts (st_session s)))) (\<lambda>known.
      bindm (found code detail (case known of None \<Rightarrow> None | Some row \<Rightarrow> if P row then Some row else None)) (\<lambda>old.
      bindm (account_update env (\<lambda>row. row\<lparr>ea_is_enabled := b\<rparr>) old) (f old))))"
proof (rule keepsI)
  fix s assume s: "accounts_since n s"
  let ?known = "find (\<lambda>row. ea_id row = u) (tbl_exchange_accounts (st_session s))"
  have "accounts_since n (snd (bindm (account_update env (\<lambda>row. row\<lparr>ea_is_enabled := b\<rparr>) old) (f old) s))" if "?known = Some old" for old
  proof -
    have "old \<in> set (tbl_exchange_accounts (st_session s)) \<and> status_ok old"
      using that s by (auto simp: find_Some_iff accounts_since_def accounts_inv_def accounts_ok_def list_all_iff)
    then show ?thesis using s f by (intro accounts_then accounts_update) (auto simp: account_key_def status_ok_def)
  qed
  then have "accounts_since n (snd (bindm (found code detail (case ?known of None \<Rightarrow> None | Some row \<Rightarrow> if P row then Some row else None)) (\<lambda>old.
      bindm (account_update env (\<lambda>row. row\<lparr>ea_is_enabled := b\<rparr>) old) (f old)) s))"
    by (intro accounts_found[OF s]) (auto split: option.splits if_splits)
  then show "accounts_since n (snd (bindm (reads (\<lambda>s. find (\<lambda>row. ea_id row = u) (tbl_exchange_accounts (st_session s)))) (\<lambda>known.
      bindm (found code detail (case known of None \<Rightarrow> None | Some row \<Rightarrow> if P row then Some row else None)) (\<lambda>old.
      bindm (account_update env (\<lambda>row. row\<lparr>ea_is_enabled := b\<rparr>) old) (f old))) s))" by simp
qed

lemma accounts_status_set: "keeps accounts_inv (coinstore_account_status env cr u q)"
  unfolding coinstore_account_status_def Let_def by (intro accounts_guarded keeps_seq keeps_lift accounts_by_id kept accounts_kept)

lemma accounts_synced: "keeps accounts_inv (exchange_balance_sync env cr name q)" "keeps accounts_inv (coinstore_balance_sync env cr rq)"
proof -
  have sync: "keeps (accounts_since n) (sync_exchange_balances env row)" for n row
    by (rule keepsI) (metis sync_exchange_balances_raises snd_conv)
  show "keeps accounts_inv (exchange_balance_sync env cr name q)" "keeps accounts_inv (coinstore_balance_sync env cr rq)"
    unfolding exchange_balance_sync_def coinstore_balance_sync_def exchange_account_def found_def confirmed_def Let_def
    by (intro accounts_guarded kept accounts_kept sync)+
qed

lemma accounts_listed:
  "keeps accounts_inv (exchanges env cr)" "keeps accounts_inv (exchanges_status env cr)" "keeps accounts_inv (coinstore_accounts env cr)"
  "keeps accounts_inv (exchange_balances env cr name alias environment)"
  unfolding exchanges_def exchanges_status_def coinstore_accounts_def exchange_balances_def exchange_accounts_def exchange_account_def
    exchange_balances_payload_def found_def Let_def by (intro accounts_guarded kept)+

lemmas accounts_routes = accounts_connect accounts_upserted accounts_tested accounts_removed accounts_status_set accounts_synced accounts_listed

interpretation account_system: step_system serve_step accounts_inv
proof
  fix s and e :: "account_env \<times> string option \<times> account_request" assume s: "accounts_inv s"
  obtain env cr request where e: "e = (env, cr, request)" by (meson prod_cases3)
  have "keeps accounts_inv (serve env cr request)" by (cases request) (simp_all add: accounts_routes)
  then show "accounts_inv (serve_step e s)" using s e by (simp add: serve_step_def keepsD)
qed


section \<open>Storing an account\<close>

text \<open>Documented behaviour of \<open>Fernet\<close>: a token is not empty and decrypts to what was encrypted.\<close>

definition fernet_ok :: "SecretCipher \<Rightarrow> bool" where
  "fernet_ok c \<longleftrightarrow> (\<forall>n s. sc_fernet_encrypt c n s \<noteq> [] \<and> sc_fernet_decrypt c (sc_fernet_encrypt c n s) = Some s)"

text \<open>Operations that leave the table of accounts alone.\<close>

definition rows_at :: "ExchangeAccountRow list \<Rightarrow> store \<Rightarrow> bool" where
  "rows_at rows s \<longleftrightarrow> tbl_exchange_accounts (st_session s) = rows"

lemma rows_announce: "keeps (rows_at rows) (announce_account env actor action ct rtype u meta before after payload)"
proof -
  have uuid: "keeps (rows_at rows) store_uuid" by (rule keepsI) (simp add: store_uuid_run rows_at_def)
  have unchanged: "keeps (rows_at rows) (modifies f)" if "\<And>s. st_session (f s) = st_session s" for f
    by (rule keeps_modifies) (simp add: rows_at_def that)
  have flush: "keeps (rows_at rows) (audit_flush e a t u)" for e a t u unfolding audit_flush_def by (intro kept uuid unchanged) simp
  have "keeps (rows_at rows) (audit_record e sv a rt ri m us b af)" for e sv a rt ri m us b af
    unfolding audit_record_def Let_def by (intro kept uuid unchanged) simp
  moreover have "keeps (rows_at rows) (runtime_event_record e et so st p c d v co ack m)" for e et so st p c d v co ack m
    unfolding runtime_event_record_def Let_def by (intro kept uuid unchanged flush) simp
  moreover have "keeps (rows_at rows) (redis_do e c)" for e c unfolding redis_do_def redis_def by (intro kept unchanged) simp
  ultimately show ?thesis unfolding announce_account_def publish_runtime_command_def Let_def by (intro kept uuid)
qed

lemma account_insert_run:
  "\<exists>t. account_insert env new s = (Inr (new (uuid_supply (st_session s))), t)
     \<and> tbl_exchange_accounts (st_session t) = tbl_exchange_accounts (st_session s) @ [new (uuid_supply (st_session s))]"
proof -
  let ?u = "uuid_supply (st_session s)"
  let ?t = "s\<lparr>st_session := (st_session s)\<lparr>uuid_supply := Suc ?u, tbl_exchange_accounts := tbl_exchange_accounts (st_session s) @ [new ?u]\<rparr>\<rparr>"
  obtain t where "audit_flush env ''INSERT'' ''exchange_accounts'' ?u ?t = (Inr (), t)" "logged ?t t" using audit_flush_logged by blast
  then show ?thesis using loggedD(4) by (force simp: account_insert_def bindm_def seqm_def store_uuid_run on_session_def zoom_def)
qed

lemma account_update_run:
  "\<exists>t. account_update env f row s = (Inr (if f row = row then row else (f row)\<lparr>ea_updated_at := av_now env\<rparr>), t)
     \<and> tbl_exchange_accounts (st_session t) = update_rows (\<lambda>r. ea_id r = ea_id row)
         (\<lambda>_. if f row = row then row else (f row)\<lparr>ea_updated_at := av_now env\<rparr>) (tbl_exchange_accounts (st_session s))"
  (is "\<exists>t. _ = (Inr ?new, t) \<and> _")
proof -
  let ?t = "s\<lparr>st_session := (st_session s)\<lparr>tbl_exchange_accounts := update_rows (\<lambda>r. ea_id r = ea_id row) (\<lambda>_. ?new) (tbl_exchange_accounts (st_session s))\<rparr>\<rparr>"
  obtain t where t: "audit_flush env ''UPDATE'' ''exchange_accounts'' (ea_id row) ?t = (Inr (), t)" "logged ?t t" using audit_flush_logged by blast
  have "account_update env f row s = (Inr ?new, t)" using t(1) by (simp add: account_update_def Let_def bindm_def seqm_def on_session_def zoom_def del: if_split)
  then show ?thesis using loggedD(4)[OF t(2)] by (simp del: if_split)
qed

lemma rows_replaced:
  assumes "key new = k"
  shows "filter (\<lambda>r. key r \<noteq> k) (update_rows (\<lambda>r. key r = k) (\<lambda>_. new) rows) = filter (\<lambda>r. key r \<noteq> k) rows"
    "old \<in> set rows \<Longrightarrow> key old = k \<Longrightarrow> find (\<lambda>r. key r = k) (update_rows (\<lambda>r. key r = k) (\<lambda>_. new) rows) = Some new"
  using assms by (induction rows) (auto simp: update_rows_def)

text \<open>What storing under a key leaves: one row with the key, made from nothing or from the row before, and every other row as it was.\<close>

lemma upsert_run:
  assumes inv: "accounts_inv s"
    and run: "bindm (exchange_account a b c) (\<lambda>known. bindm (case known of None \<Rightarrow> account_insert env new | Some row \<Rightarrow> account_update env f row)
      (\<lambda>row. seqm (announce_account e actor action ct rtype (u row) (meta row) (before known) (after row) (payload row)) (ret (answer row)))) s = (Inr p, t)"
    and new: "\<And>u. account_key (new u) = (a, b, c)" and change: "\<And>row. account_key (f row) = account_key row" "\<And>row. ea_id (f row) = ea_id row"
  obtains row now where "find (\<lambda>r. account_key r = (a, b, c)) (tbl_exchange_accounts (st_session t)) = Some row" "p = answer row"
    "(\<exists>u. row = new u \<and> (a, b, c) \<notin> account_key ` set (tbl_exchange_accounts (st_session s)))
     \<or> (\<exists>old. old \<in> set (tbl_exchange_accounts (st_session s)) \<and> account_key old = (a, b, c)
       \<and> (row = f old \<or> row = (f old)\<lparr>ea_updated_at := now\<rparr>))"
    "filter (\<lambda>r. account_key r \<noteq> (a, b, c)) (tbl_exchange_accounts (st_session t)) = filter (\<lambda>r. account_key r \<noteq> (a, b, c)) (tbl_exchange_accounts (st_session s))"
proof -
  let ?rows = "tbl_exchange_accounts (st_session s)"
  have keys: "distinct (map account_key ?rows)" "distinct (map ea_id ?rows)" using inv by (simp_all add: accounts_inv_def accounts_ok_def)
  let ?known = "find (\<lambda>row. account_key row = (a, b, c)) ?rows"
  have lookup: "exchange_account a b c s = (Inr ?known, s)"
    using keys(1) by (simp add: exchange_account_def bindm_def scalar_one_or_none_key)
  obtain row v where v: "(case ?known of None \<Rightarrow> account_insert env new | Some row \<Rightarrow> account_update env f row) s = (Inr row, v)"
    "seqm (announce_account e actor action ct rtype (u row) (meta row) (before ?known) (after row) (payload row)) (ret (answer row)) v = (Inr p, t)"
    using run unfolding bindm_Inr[where m = "exchange_account a b c", OF lookup] by (elim bindm_InrE) blast
  have "keeps (rows_at (tbl_exchange_accounts (st_session v)))
      (seqm (announce_account e actor action ct rtype (u row) (meta row) (before ?known) (after row) (payload row)) (ret (answer row)))"
    by (intro kept rows_announce)
  from keepsD[OF this, of v] have t: "tbl_exchange_accounts (st_session t) = tbl_exchange_accounts (st_session v)" using v(2) by (simp add: rows_at_def)
  have p: "p = answer row" using v(2) by (auto elim!: seqm_InrE)
  show ?thesis
  proof (cases ?known)
    case None
    then have fresh: "(a, b, c) \<notin> account_key ` set ?rows" by (auto simp: find_None_iff)
    then have old: "filter (\<lambda>r. account_key r \<noteq> (a, b, c)) ?rows = ?rows" unfolding filter_id_conv by (metis imageI)
    obtain n where "row = new n" "tbl_exchange_accounts (st_session v) = ?rows @ [row]"
      using account_insert_run[of env new s] v(1) None by auto
    then show ?thesis using new old None fresh by (intro that[where row = row and now = 0]) (auto simp: t p find_append)
  next
    case (Some old)
    let ?new = "if f old = old then old else (f old)\<lparr>ea_updated_at := av_now env\<rparr>"
    have old: "old \<in> set ?rows" "account_key old = (a, b, c)" using Some by (auto simp: find_Some_iff)
    have row: "row = ?new" and rows: "tbl_exchange_accounts (st_session v) = update_rows (\<lambda>r. ea_id r = ea_id old) (\<lambda>_. ?new) ?rows"
      using account_update_run[of env f old s] v(1) Some by (auto simp del: if_split)
    have same: "ea_id r = ea_id old \<longleftrightarrow> account_key r = (a, b, c)" if "r \<in> set ?rows" for r
      using that old keys unfolding distinct_map by (metis inj_onD)
    have key: "account_key ?new = (a, b, c)" using change(1)[of old] old(2) by (simp add: account_key_def)
    have "update_rows (\<lambda>r. ea_id r = ea_id old) (\<lambda>_. ?new) ?rows = update_rows (\<lambda>r. account_key r = (a, b, c)) (\<lambda>_. ?new) ?rows"
      unfolding update_rows_def using same by (intro map_cong) (auto simp del: if_split)
    note rows = rows[unfolded this]
    have "row = f old \<or> row = (f old)\<lparr>ea_updated_at := av_now env\<rparr>" unfolding row by auto
    then have "\<exists>old. old \<in> set ?rows \<and> account_key old = (a, b, c) \<and> (row = f old \<or> row = (f old)\<lparr>ea_updated_at := av_now env\<rparr>)" using old by blast
    then show ?thesis using rows_replaced[where key = account_key, OF key[folded row]] old
      by (intro that[where row = row and now = "av_now env", OF _ p disjI2]) (simp_all only: t rows[folded row])
  qed
qed

text \<open>The row holds the given secrets, readable with the cipher and only as ciphertexts.\<close>

definition holds_secrets :: "SecretCipher \<Rightarrow> string \<Rightarrow> string \<Rightarrow> string option \<Rightarrow> ExchangeAccountRow \<Rightarrow> bool" where
  "holds_secrets c api_key api_secret passphrase row \<longleftrightarrow>
     cipher_decrypt c (Some (ea_api_key_ciphertext row)) = Inr (Some api_key) \<and> cipher_decrypt c (Some (ea_api_secret_ciphertext row)) = Inr (Some api_secret)
     \<and> cipher_decrypt c (ea_passphrase_ciphertext row) = Inr passphrase \<and> ea_encryption_key_id row = sc_key_id c"

lemma text_or_some [simp]: "text_or (Some s) [] = s"
  by (cases s) simp_all

lemma holds_stored: "fernet_ok c \<Longrightarrow> holds_secrets c k sec p (stored_secrets c k sec p row)"
  by (simp add: holds_secrets_def stored_secrets_def cipher_encrypt_def cipher_decrypt_def fernet_ok_def split: option.split)

lemma guarded_InrE:
  assumes "guarded env check credentials handler s = (Inr x, t)"
  obtains actor u where "check (rt_jwt env) (av_now (rt_api env)) credentials = Inr actor"
    "handler actor (s\<lparr>st_actor_service := Some ''api''\<rparr>) = (Inr x, u)" "t = u\<lparr>st_actor_service := st_actor_service s\<rparr>"
  using assms unfolding guarded_def by (elim bindm_InrE) (auto dest!: database_session_done)

lemma accounts_inv_actor [simp]: "accounts_inv (s\<lparr>st_actor_service := a\<rparr>) = accounts_inv s"
  by (simp add: accounts_inv_def)

text \<open>
  C23. A request to connect that is answered has stored the account: the table has the row of the key, the keys and the passphrase given are
  what its ciphertexts decrypt to, it is shown as disconnected until it is tested, the answer shows this row with the key masked, and
  every other account is as it was.
\<close>

theorem connected_account_reads_back:
  assumes "fernet_ok (ac_cipher env)" "accounts_inv s" "exchanges_connect env cr q s = (Inr answer, t)"
  shows "\<exists>row. find (\<lambda>r. account_key r = (xq_exchange_name q, xq_account_alias q, xq_environment q)) (tbl_exchange_accounts (st_session t)) = Some row
    \<and> holds_secrets (ac_cipher env) (xq_api_key q) (xq_api_secret q) (xq_passphrase q) row
    \<and> ea_is_enabled row = xq_enabled q \<and> ea_permissions row = map JStr (xq_permissions q)
    \<and> ea_connection_status row = ''disconnected'' \<and> \<not> ea_rest_connected row \<and> \<not> ea_websocket_connected row \<and> \<not> ea_private_ws_connected row
    \<and> answer = exchange_account_payload (ac_api env) (Some (ac_cipher env)) row
    \<and> jget answer ''api_key_masked'' = opt_str (mask_secret (Some (xq_api_key q)))
    \<and> filter (\<lambda>r. account_key r \<noteq> (xq_exchange_name q, xq_account_alias q, xq_environment q)) (tbl_exchange_accounts (st_session t))
      = filter (\<lambda>r. account_key r \<noteq> (xq_exchange_name q, xq_account_alias q, xq_environment q)) (tbl_exchange_accounts (st_session s))"
proof -
  let ?shape = "\<lambda>row. holds_secrets (ac_cipher env) (xq_api_key q) (xq_api_secret q) (xq_passphrase q) row \<and> ea_api_key_ciphertext row \<noteq> []
    \<and> ea_is_enabled row = xq_enabled q \<and> ea_permissions row = map JStr (xq_permissions q)
    \<and> ea_connection_status row = ''disconnected'' \<and> \<not> ea_rest_connected row \<and> \<not> ea_websocket_connected row \<and> \<not> ea_private_ws_connected row"
  let ?f = "\<lambda>row. (stored_secrets (ac_cipher env) (xq_api_key q) (xq_api_secret q) (xq_passphrase q) row)
             \<lparr>ea_permissions := map JStr (xq_permissions q), ea_is_enabled := xq_enabled q, ea_connection_status := ''disconnected'',
              ea_rest_connected := False, ea_websocket_connected := False, ea_private_ws_connected := False, ea_last_error_message := None\<rparr>"
  let ?new = "new_account env (xq_exchange_name q) (xq_account_alias q) (xq_environment q) (xq_api_key q) (xq_api_secret q) (xq_passphrase q) (xq_permissions q) (xq_enabled q)"
  have shapes: "?shape (?new u)" "?shape (?f row)" "?shape ((?f row)\<lparr>ea_updated_at := now\<rparr>)" for u row now
    using holds_stored[OF assms(1), of "xq_api_key q" "xq_api_secret q" "xq_passphrase q"] assms(1)
    by (auto simp: new_account_def holds_secrets_def stored_secrets_def ExchangeAccount_new_def cipher_encrypt_def fernet_ok_def)
  obtain u where u: "accounts_inv (s\<lparr>st_actor_service := Some ''api''\<rparr>)" "t = u\<lparr>st_actor_service := st_actor_service s\<rparr>"
    and run: "\<exists>actor. bindm (exchange_account (xq_exchange_name q) (xq_account_alias q) (xq_environment q)) (\<lambda>known.
      bindm (case known of None \<Rightarrow> account_insert (ac_api env) ?new | Some row \<Rightarrow> account_update (ac_api env) ?f row) (\<lambda>row.
      seqm (announce_account env actor ''EXCHANGE_CONNECT'' ''EXCHANGE_ACCOUNT_UPDATED'' ''exchange_accounts'' (ea_id row)
           [(''exchange_name'', JStr (ea_exchange_name row)), (''account_alias'', JStr (ea_account_alias row))]
           (map_option (exchange_account_payload (ac_api env) (Some (ac_cipher env))) known) (Some (exchange_account_payload (ac_api env) (Some (ac_cipher env)) row))
           [(''account_id'', JStr (uuid_text (ea_id row))), (''exchange_name'', JStr (ea_exchange_name row)), (''account_alias'', JStr (ea_account_alias row))])
         (ret (exchange_account_payload (ac_api env) (Some (ac_cipher env)) row)))) (s\<lparr>st_actor_service := Some ''api''\<rparr>) = (Inr answer, u)"
    using assms(2,3) unfolding exchanges_connect_def Let_def by (elim guarded_InrE seqm_InrE) (auto split: if_splits)
  obtain row now where row: "find (\<lambda>r. account_key r = (xq_exchange_name q, xq_account_alias q, xq_environment q)) (tbl_exchange_accounts (st_session t)) = Some row"
    "answer = exchange_account_payload (ac_api env) (Some (ac_cipher env)) row"
    "(\<exists>u. row = ?new u) \<or> (\<exists>old. row = ?f old \<or> row = (?f old)\<lparr>ea_updated_at := now\<rparr>)"
    "filter (\<lambda>r. account_key r \<noteq> (xq_exchange_name q, xq_account_alias q, xq_environment q)) (tbl_exchange_accounts (st_session t))
      = filter (\<lambda>r. account_key r \<noteq> (xq_exchange_name q, xq_account_alias q, xq_environment q)) (tbl_exchange_accounts (st_session s))"
    using run by (elim exE) (erule upsert_run[OF u(1)]; auto simp: u(2))
  have shape: "?shape row" using row(3) shapes by blast
  then have "jget answer ''api_key_masked'' = opt_str (mask_secret (Some (xq_api_key q)))"
    unfolding row(2) by (simp add: exchange_account_payload_def jget_def masked_api_key_def holds_secrets_def)
  then show ?thesis using row shape by blast
qed

text \<open>
  The other route that stores a Coinstore account leaves the result of the last test in place: after new keys were stored for a
  connected account it still counts as connected, although nobody has tried the new keys.
\<close>

theorem new_keys_keep_old_status:
  assumes "fernet_ok (ac_cipher env)" "accounts_inv s" "coinstore_account_upsert env cr q s = (Inr answer, t)"
    and old: "old \<in> set (tbl_exchange_accounts (st_session s))" "account_key old = (''coinstore'', cq_account_alias q, cq_environment q)"
  shows "\<exists>row. find (\<lambda>r. account_key r = (''coinstore'', cq_account_alias q, cq_environment q)) (tbl_exchange_accounts (st_session t)) = Some row
    \<and> holds_secrets (ac_cipher env) (cq_api_key q) (cq_api_secret q) (cq_passphrase q) row
    \<and> ea_connection_status row = ea_connection_status old \<and> ea_rest_connected row = ea_rest_connected old
    \<and> ea_private_ws_connected row = ea_private_ws_connected old \<and> ea_last_tested_at row = ea_last_tested_at old"
proof -
  let ?k = "(''coinstore'', cq_account_alias q, cq_environment q)"
  let ?f = "\<lambda>row. (stored_secrets (ac_cipher env) (cq_api_key q) (cq_api_secret q) (cq_passphrase q) row)
             \<lparr>ea_permissions := map JStr (cq_permissions q), ea_is_enabled := cq_is_enabled q\<rparr>"
  let ?new = "new_account env ''coinstore'' (cq_account_alias q) (cq_environment q) (cq_api_key q) (cq_api_secret q) (cq_passphrase q) (cq_permissions q) (cq_is_enabled q)"
  let ?show = "exchange_account_payload (ac_api env) None"
  obtain u where u: "accounts_inv (s\<lparr>st_actor_service := Some ''api''\<rparr>)" "t = u\<lparr>st_actor_service := st_actor_service s\<rparr>"
    and run: "\<exists>actor. bindm (exchange_account ''coinstore'' (cq_account_alias q) (cq_environment q)) (\<lambda>known.
      bindm (case known of None \<Rightarrow> account_insert (ac_api env) ?new | Some row \<Rightarrow> account_update (ac_api env) ?f row) (\<lambda>row.
      seqm (announce_account env actor ''COINSTORE_ACCOUNT_UPSERT'' ''COINSTORE_ACCOUNT_UPDATED'' ''exchange_accounts'' (ea_id row)
         [(''account_alias'', JStr (ea_account_alias row))] (map_option ?show known) (Some (?show row))
         [(''account_id'', JStr (uuid_text (ea_id row))), (''account_alias'', JStr (ea_account_alias row))])
         (ret (?show row)))) (s\<lparr>st_actor_service := Some ''api''\<rparr>) = (Inr answer, u)"
    using assms(2,3) unfolding coinstore_account_upsert_def Let_def by (elim guarded_InrE seqm_InrE) auto
  obtain row now where row: "find (\<lambda>r. account_key r = ?k) (tbl_exchange_accounts (st_session t)) = Some row"
    "(\<exists>u. row = ?new u \<and> ?k \<notin> account_key ` set (tbl_exchange_accounts (st_session s)))
     \<or> (\<exists>old. old \<in> set (tbl_exchange_accounts (st_session s)) \<and> account_key old = ?k \<and> (row = ?f old \<or> row = (?f old)\<lparr>ea_updated_at := now\<rparr>))"
    using run by (elim exE) (erule upsert_run[OF u(1)]; auto simp: u(2))
  have "old' = old" if "old' \<in> set (tbl_exchange_accounts (st_session s))" "account_key old' = ?k" for old'
    using that old assms(2) unfolding accounts_inv_def accounts_ok_def distinct_map by (metis inj_onD)
  moreover have "?k \<in> account_key ` set (tbl_exchange_accounts (st_session s))" using old by force
  ultimately have "row = ?f old \<or> row = (?f old)\<lparr>ea_updated_at := now\<rparr>" using row(2) by blast
  then show ?thesis using row(1) holds_stored[OF assms(1), of "cq_api_key q" "cq_api_secret q" "cq_passphrase q" old]
    by (auto simp: holds_secrets_def stored_secrets_def)
qed

section \<open>What lists show\<close>

text \<open>Two keys that cannot be told apart: equal, or both long with the same four characters at either end.\<close>

definition same_mask :: "string \<Rightarrow> string \<Rightarrow> bool" where
  "same_mask k k' \<longleftrightarrow> k = k' \<or> length k > 8 \<and> length k' > 8 \<and> take 4 k = take 4 k' \<and> drop (length k - 4) k = drop (length k' - 4) k'"

definition alike :: "SecretCipher \<Rightarrow> ExchangeAccountRow \<Rightarrow> ExchangeAccountRow \<Rightarrow> bool" where
  "alike c r r' \<longleftrightarrow>
     (\<exists>x y z. r' = r\<lparr>ea_api_key_ciphertext := x, ea_api_secret_ciphertext := y, ea_passphrase_ciphertext := z\<rparr>)
     \<and> (\<exists>k k'. cipher_decrypt c (Some (ea_api_key_ciphertext r)) = Inr (Some k) \<and> cipher_decrypt c (Some (ea_api_key_ciphertext r')) = Inr (Some k') \<and> same_mask k k')
     \<and> ea_api_key_ciphertext r \<noteq> [] \<and> ea_api_key_ciphertext r' \<noteq> [] \<and> ea_api_secret_ciphertext r \<noteq> [] \<and> ea_api_secret_ciphertext r' \<noteq> []
     \<and> (ea_passphrase_ciphertext r \<noteq> None \<and> ea_passphrase_ciphertext r \<noteq> Some [] \<longleftrightarrow> ea_passphrase_ciphertext r' \<noteq> None \<and> ea_passphrase_ciphertext r' \<noteq> Some [])"

lemma same_mask_masked: "same_mask k k' \<Longrightarrow> mask_secret (Some k) = mask_secret (Some k')"
  by (auto simp: same_mask_def mask_secret_def)

lemma alike_payload:
  assumes "alike c r r'"
  shows "exchange_account_payload env (Some c) r' = exchange_account_payload env (Some c) r" "exchange_account_payload env None r' = exchange_account_payload env None r"
    "ea_exchange_name r' = ea_exchange_name r" "ea_account_alias r' = ea_account_alias r" "ea_updated_at r' = ea_updated_at r"
    "ea_connection_status r' = ea_connection_status r"
proof -
  obtain x y z where r': "r' = r\<lparr>ea_api_key_ciphertext := x, ea_api_secret_ciphertext := y, ea_passphrase_ciphertext := z\<rparr>"
    using assms by (auto simp: alike_def)
  have "masked_api_key (Some c) r' = masked_api_key (Some c) r"
    using assms by (auto simp: alike_def masked_api_key_def dest: same_mask_masked)
  then show "exchange_account_payload env (Some c) r' = exchange_account_payload env (Some c) r" "exchange_account_payload env None r' = exchange_account_payload env None r"
    using assms unfolding alike_def exchange_account_payload_def r' by (simp_all add: masked_api_key_def)
qed (use assms in \<open>auto simp: alike_def\<close>)

text \<open>Sorting and filtering by what two rows share.\<close>

lemma insort_alike: "list_all2 R xs ys \<Longrightarrow> R x y \<Longrightarrow> (\<And>x y. R x y \<Longrightarrow> k x = k y) \<Longrightarrow> list_all2 R (insort_key k x xs) (insort_key k y ys)"
  by (induction rule: list_all2_induct) auto

lemma sort_alike: "list_all2 R xs ys \<Longrightarrow> (\<And>x y. R x y \<Longrightarrow> k x = k y) \<Longrightarrow> list_all2 R (sort_key k xs) (sort_key k ys)"
  by (induction rule: list_all2_induct) (auto simp: insort_alike)

lemma filter_alike: "list_all2 R xs ys \<Longrightarrow> (\<And>x y. R x y \<Longrightarrow> P x = P y) \<Longrightarrow> list_all2 R (filter P xs) (filter P ys)"
  by (induction rule: list_all2_induct) auto

lemma map_alike: "list_all2 R xs ys \<Longrightarrow> (\<And>x y. R x y \<Longrightarrow> f x = f y) \<Longrightarrow> map f xs = map f ys"
  by (induction rule: list_all2_induct) auto

lemma status_alike: "list_all2 (alike c) xs ys \<Longrightarrow> aggregate_exchange_status xs = aggregate_exchange_status ys"
proof -
  assume a: "list_all2 (alike c) xs ys"
  then have "list_ex (\<lambda>row. ea_connection_status row = st) xs = list_ex (\<lambda>row. ea_connection_status row = st) ys" for st
    by (induction rule: list_all2_induct) (auto simp: alike_payload)
  moreover have "xs = [] \<longleftrightarrow> ys = []" using a by auto
  ultimately show ?thesis by (simp add: aggregate_exchange_status_def Let_def)
qed

lemma guarded_answer:
  assumes "\<And>actor. fst (handler actor (s\<lparr>st_actor_service := Some ''api''\<rparr>)) = fst (handler' actor (s'\<lparr>st_actor_service := Some ''api''\<rparr>))"
  shows "fst (guarded env check credentials handler s) = fst (guarded env check credentials handler' s')"
proof (cases "check (rt_jwt env) (av_now (rt_api env)) credentials")
  case (Inr actor)
  obtain r t r' t' where "handler actor (s\<lparr>st_actor_service := Some ''api''\<rparr>) = (r, t)" "handler' actor (s'\<lparr>st_actor_service := Some ''api''\<rparr>) = (r', t')"
    by (meson surj_pair)
  then show ?thesis using assms[of actor] Inr
    by (cases r'; cases "av_commit (rt_api env)") (auto simp: guarded_granted database_session_def seqm_def bindm_def)
qed (simp add: guarded_def)


section \<open>Shortcomings\<close>

lemma guarded_raises:
  assumes "\<And>actor s x t. handler actor s \<noteq> (Inr x, t)"
  shows "\<exists>e u. guarded env check cr handler s = (Inl e, u) \<and> tbl_inventory_snapshots (st_session u) = tbl_inventory_snapshots (st_session s)"
proof -
  obtain r u where run: "guarded env check cr handler s = (r, u)" by (meson surj_pair)
  then obtain e where e: "r = Inl e" using assms by (cases r) (auto elim!: guarded_InrE)
  then have "u = s \<or> (\<exists>v. u = rolled_back s v)"
    using run by (cases "check (rt_jwt env) (av_now (rt_api env)) cr") (auto simp: guarded_def dest!: database_session_failed)
  then show ?thesis using run e by (auto simp: rolled_back_tables)
qed

text \<open>
  No balance is ever synchronised: both routes that ask a venue for the balances of an account answer with an error, whatever
  the venue says, and leave the snapshots as they were.
\<close>

theorem balance_sync_never_succeeds:
  "(\<exists>e u. serve env cr (Sync name q) s = (Inl e, u) \<and> tbl_inventory_snapshots (st_session u) = tbl_inventory_snapshots (st_session s))
   \<and> (\<exists>e u. serve env cr (Balance_sync rq) s = (Inl e, u) \<and> tbl_inventory_snapshots (st_session u) = tbl_inventory_snapshots (st_session s))"
proof -
  have sync: "sync_exchange_balances env row s = (Inr x, t) \<Longrightarrow> False" for row s x t using sync_exchange_balances_raises[of env row s] by auto
  show ?thesis unfolding serve.simps exchange_balance_sync_def coinstore_balance_sync_def Let_def
    by (intro conjI guarded_raises notI) (elim bindm_InrE seqm_InrE sync)+
qed

text \<open>
  An account that was ever used cannot be removed: once an order, a trade, a position or a snapshot belongs to it, the confirmed request
  of someone with the right to do so ends in a database error instead of an answer, and the account stays.
\<close>

theorem used_account_not_removable:
  assumes "accounts_inv s" "require_config_write (rt_jwt (ac_route env)) (av_now (ac_api env)) cr = Inr actor"
    "validate_test q = Inr ()" "length (tq_confirmation q) \<ge> 3" "require_confirmation (tq_confirmation q) ''remove'' = Inr ()"
    "row \<in> set (tbl_exchange_accounts (st_session s))" "account_key row = (tq_exchange_name q, tq_account_alias q, tq_environment q)"
    "ea_id row \<in> set (account_references (st_session s))"
  shows "\<exists>t. serve env cr (Remove q) s = (Inl IntegrityError, t) \<and> tbl_exchange_accounts (st_session t) = tbl_exchange_accounts (st_session s)"
proof -
  let ?s = "s\<lparr>st_actor_service := Some ''api''\<rparr>" and ?rows = "tbl_exchange_accounts (st_session s)"
  have keys: "distinct (map account_key ?rows)" using assms(1) by (simp add: accounts_inv_def accounts_ok_def)
  have "find (\<lambda>r. account_key r = account_key row) rows = Some row" if "row \<in> set rows" "distinct (map account_key rows)" for rows
    using that by (induction rows) auto
  then have "exchange_account (tq_exchange_name q) (tq_account_alias q) (tq_environment q) ?s = (Inr (Some row), ?s)"
    using keys assms(6,7) by (auto simp: exchange_account_def bindm_def scalar_one_or_none_key)
  then show ?thesis using assms(3-5,8) unfolding serve.simps exchanges_remove_def guarded_granted[where check = require_config_write, OF assms(2)]
    by (simp add: database_session_def seqm_def bindm_def unprocessable_def found_def account_delete_def Let_def rolled_back_tables)
qed

text \<open>The test of an account when the private stream answers the login with the given frame.\<close>

definition answering :: "account_env \<Rightarrow> connection \<Rightarrow> frame \<Rightarrow> frame list \<Rightarrow> account_env" where
  "answering env conn answer frames = env\<lparr>ac_private_connection := Inr (conn\<lparr>cn_frames := answer # frames\<rparr>)\<rparr>"

definition tested :: "account_env \<Rightarrow> ExchangeAccountRow \<Rightarrow> ExchangeAccountRow res" where
  "tested env row = bindr (test_exchange_connection env row) (\<lambda>result. Inr (apply_exchange_test_result env result row))"

lemma answering_same [simp]:
  "ac_route (answering env conn answer frames) = ac_route env" "ac_cipher (answering env conn answer frames) = ac_cipher env"
  "ac_rest (answering env conn answer frames) = ac_rest env" "ac_socket (answering env conn answer frames) = ac_socket env"
  "ac_http (answering env conn answer frames) = ac_http env" "ac_private (answering env conn answer frames) = ac_private env"
  "ac_monotonic (answering env conn answer frames) = ac_monotonic env" "ac_exc_text (answering env conn answer frames) = ac_exc_text env"
  "service_env (answering env conn answer frames) = service_env env" "test_start (answering env conn answer frames) row = test_start env row"
  "error_line (answering env conn answer frames) = error_line env"
  "apply_exchange_test_result (answering env conn answer frames) = apply_exchange_test_result env"
  by (simp_all add: answering_def service_env_def test_start_def error_line_def apply_exchange_test_result_def Let_def fun_eq_iff)

lemma apply_result_cong:
  "jget d ''status'' = jget d' ''status'' \<Longrightarrow> jget d ''rest_status'' = jget d' ''rest_status'' \<Longrightarrow> jget d ''websocket_status'' = jget d' ''websocket_status''
    \<Longrightarrow> jget d ''private_ws_status'' = jget d' ''private_ws_status'' \<Longrightarrow> jget d ''error'' = jget d' ''error''
    \<Longrightarrow> apply_exchange_test_result env d row = apply_exchange_test_result env d' row"
  by (simp add: apply_exchange_test_result_def Let_def)

lemma test_connection_answer:
  assumes "decode_frame answer = Inr v" "decode_frame answer' = Inr v'"
  shows "rel_sum (=) (\<lambda>d d'. jget d ''connected'' = jget d' ''connected'')
    (test_connection env cr (ac_private_connection (answering a conn answer frames))) (test_connection env cr (ac_private_connection (answering a conn answer' frames)))"
proof (cases frames)
  case Nil
  then show ?thesis using assms
    by (cases "cn_send conn 0 (auth_payload (pv_crypto env) cr (pv_time_ms env 0) None)"; cases "cn_send conn 1 private_subscribe_payload")
      (auto simp: test_connection_def answering_def receive_in_time_def)
next
  case (Cons frame more_frames)
  then show ?thesis using assms
    by (cases "cn_send conn 0 (auth_payload (pv_crypto env) cr (pv_time_ms env 0) None)"; cases "cn_send conn 1 private_subscribe_payload"; cases "decode_frame frame")
      (auto simp: test_connection_def answering_def receive_in_time_def jget_def)
qed

lemma test_private_answer:
  assumes "decode_frame answer = Inr v" "decode_frame answer' = Inr v'"
  shows "apply_exchange_test_result env (test_private (answering env conn answer frames) cr result) row
    = apply_exchange_test_result env (test_private (answering env conn answer' frames) cr result) row"
proof (cases "fst (sync_balances (ac_http env) (new_client (service_env env) cr))")
  case (Inr balances)
  from test_connection_answer[OF assms, of "ac_private env" cr env conn frames] Inr show ?thesis
    by (cases rule: rel_sum.cases) (auto simp: test_private_def Let_def jget_merge intro!: apply_result_cong)
qed (simp add: test_private_def)

text \<open>
  The test of a Coinstore account does not look at the answer to the login on the private stream: whatever the venue says to it, a refusal
  included, the account ends in the same state.
\<close>

theorem login_answer_ignored:
  assumes "decode_frame answer = Inr v" "decode_frame answer' = Inr v'"
  shows "tested (answering env conn answer frames) row = tested (answering env conn answer' frames) row"
  unfolding tested_def test_exchange_connection_def Let_def
  by (cases "get_exchange_definition (ea_exchange_name row)"; cases "cipher_decrypt (ac_cipher env) (Some (ea_api_key_ciphertext row))";
      cases "cipher_decrypt (ac_cipher env) (Some (ea_api_secret_ciphertext row))"; cases "cipher_decrypt (ac_cipher env) (ea_passphrase_ciphertext row)")
    (auto simp: test_private_answer[OF assms, of env conn frames _ _ row] split: sum.split)

section \<open>Instances\<close>

definition example_cipher :: SecretCipher where
  "example_cipher = \<lparr>sc_key_id = ''key'', sc_fernet_encrypt = (\<lambda>n s. replicate n CHR ''-'' @ ''#'' @ s),
     sc_fernet_decrypt = (\<lambda>t. case dropWhile (\<lambda>c. c = CHR ''-'') t of [] \<Rightarrow> None | _ # s \<Rightarrow> Some s)\<rparr>"

definition example_account_env :: account_env where
  "example_account_env = \<lparr>ac_route = example_route_env, ac_cipher = example_cipher, ac_rest = example_rest_env, ac_socket = (\<lambda>_. Inr ()),
     ac_http = ce_http example_cs_env, ac_private = \<lparr>pv_time_ms = (\<lambda>n. int n), pv_crypto = he_crypto (ce_http example_cs_env), pv_printer = (\<lambda>_. []), pv_handle = (\<lambda>_. ret ())\<rparr>,
     ac_private_connection = Inl (TransportError ''refused''), ac_monotonic = 0, ac_now_ms = 0, ac_uuid_hex = (\<lambda>_. []), ac_exc_text = (\<lambda>_. []), ac_base_asset = ''SOAR''\<rparr>"

definition example_connect :: ExchangeConnectRequest where
  "example_connect = \<lparr>xq_exchange_name = ''coinstore'', xq_account_alias = ''primary'', xq_environment = ''production'', xq_api_key = ''abcdefghijkl'',
     xq_api_secret = ''secret'', xq_passphrase = None, xq_permissions = [''trade''], xq_enabled = True\<rparr>"

lemma example_fernet: "fernet_ok example_cipher"
proof -
  have "dropWhile (\<lambda>c. c = CHR ''-'') (replicate n CHR ''-'' @ CHR ''#'' # s) = CHR ''#'' # s" for n s by (induction n) auto
  then show ?thesis by (simp add: fernet_ok_def example_cipher_def)
qed

lemma example_store: "accounts_inv (store_init empty_session)"
  by (simp add: accounts_inv_def accounts_ok_def store_init_def empty_session_def account_references_def)

text \<open>While Redis answers, announcing a change succeeds, and so does connecting an account.\<close>

definition succeeds :: "('s, 'a) op \<Rightarrow> bool" where
  "succeeds m \<longleftrightarrow> (\<forall>s. \<exists>x t. m s = (Inr x, t))"

lemma succeeds_bind: "succeeds m \<Longrightarrow> (\<And>x. succeeds (f x)) \<Longrightarrow> succeeds (bindm m f)"
  unfolding succeeds_def by (metis bindm_Inr)

lemma succeeds_basic: "succeeds (ret x)" "succeeds (modifies f)" "succeeds (reads g)"
  by (simp_all add: succeeds_def)

lemma succeeds_announce:
  assumes "\<And>sent c. \<exists>x. av_redis (ac_api env) sent c = Inr x"
  shows "succeeds (announce_account env actor action ct rtype u meta before after payload)"
proof -
  have uuid: "succeeds store_uuid" by (simp add: succeeds_def store_uuid_run)
  have audit: "succeeds (audit_record (ac_api env) sv a rt ri m us b af)" for sv a rt ri m us b af
    using audit_record_logged[of "ac_api env" sv a rt ri m us b af] unfolding succeeds_def by blast
  have event: "succeeds (runtime_event_record (ac_api env) et so st p c d v co ack m)" for et so st p c d v co ack m
    using runtime_event_logged[of "ac_api env" et so st p c d v co ack m] unfolding succeeds_def by blast
  have redis: "succeeds (redis_do (ac_api env) c)" for c
    unfolding succeeds_def redis_do_run using assms by (metis sum.case(2))
  show ?thesis unfolding announce_account_def publish_runtime_command_def Let_def seqm_def
    by (intro succeeds_bind succeeds_basic uuid audit event redis)
qed

lemma succeeds_store: "succeeds (account_insert env new)" "succeeds (account_update env f row)"
  using account_insert_run account_update_run unfolding succeeds_def by blast+

lemma database_session_commits:
  "\<exists>x t. m (s\<lparr>st_actor_service := Some service\<rparr>) = (Inr x, t) \<Longrightarrow> av_commit env = Inr () \<Longrightarrow> \<exists>x t. database_session env service m s = (Inr x, t)"
  by (auto simp: database_session_def seqm_def bindm_def)

lemma stored_when_new:
  assumes "r = Inr ()" "known \<noteq> None" "succeeds (f None)" "tbl_exchange_accounts (st_session s) = []"
  shows "\<exists>x t. seqm (lift_res r) (if known = None then m else bindm (exchange_account a b c) f) (s\<lparr>st_actor_service := v\<rparr>) = (Inr x, t)"
proof -
  let ?s = "s\<lparr>st_actor_service := v\<rparr>"
  have "bindm (exchange_account a b c) f ?s = f None ?s" by (rule bindm_Inr) (simp add: exchange_account_def bindm_def assms(4))
  then show ?thesis using assms(1-3) by (auto simp: seqm_def succeeds_def)
qed

lemma connect_answered:
  assumes "\<And>sent c. \<exists>x. av_redis (ac_api env) sent c = Inr x" "av_commit (ac_api env) = Inr ()" "validate_connect q = Inr ()"
    "require_config_write (rt_jwt (ac_route env)) (av_now (ac_api env)) cr = Inr actor" "dict_get supported_exchanges (xq_exchange_name q) \<noteq> None"
    "tbl_exchange_accounts (st_session s) = []"
  shows "\<exists>answer t. exchanges_connect env cr q s = (Inr answer, t)"
  unfolding exchanges_connect_def guarded_granted[where check = require_config_write, OF assms(4)] Let_def
  by (rule database_session_commits[OF _ assms(2)], rule stored_when_new[OF assms(3,5) _ assms(6)])
    (auto intro!: succeeds_bind succeeds_store succeeds_announce succeeds_basic assms(1) simp: seqm_def)

lemma example_access: "require_config_write (rt_jwt example_route_env) (av_now (rt_api example_route_env)) (Some ''platform_admin'') = Inr [(''roles'', JList [JStr ''platform_admin''])]"
  by (simp add: example_route_env_def plain_jwt_def require_config_write_def require_access_def decode_token_def jget_def claim_set_def map_filter_simps intersects_def)

lemma example_supported: "dict_get supported_exchanges ''coinstore'' \<noteq> None"
  by code_simp

lemma example_connect_answered:
  "\<exists>answer t. exchanges_connect example_account_env (Some ''platform_admin'') example_connect (store_init empty_session) = (Inr answer, t)"
  using example_access example_supported
  by (intro connect_answered) (auto simp: example_account_env_def example_route_env_def example_api_env_def example_connect_def store_init_def empty_session_def
      validate_connect_def unprocessable_def known_exchange_def known_environment_def)


theorem connected_account_reads_back_witness:
  "\<exists>answer t row. exchanges_connect example_account_env (Some ''platform_admin'') example_connect (store_init empty_session) = (Inr answer, t)
     \<and> find (\<lambda>r. account_key r = (''coinstore'', ''primary'', ''production'')) (tbl_exchange_accounts (st_session t)) = Some row
     \<and> holds_secrets example_cipher ''abcdefghijkl'' ''secret'' None row"
proof -
  obtain answer t where run: "exchanges_connect example_account_env (Some ''platform_admin'') example_connect (store_init empty_session) = (Inr answer, t)"
    using example_connect_answered by blast
  have "fernet_ok (ac_cipher example_account_env)" using example_fernet by (simp add: example_account_env_def)
  from connected_account_reads_back[OF this example_store run] have "\<exists>row. find (\<lambda>r. account_key r = (''coinstore'', ''primary'', ''production''))
      (tbl_exchange_accounts (st_session t)) = Some row \<and> holds_secrets example_cipher ''abcdefghijkl'' ''secret'' None row"
    by (elim exE conjE) (simp add: example_account_env_def example_connect_def)
  then show ?thesis using run by blast
qed

definition example_row :: "string \<Rightarrow> ExchangeAccountRow" where
  "example_row secret = new_account example_account_env ''coinstore'' ''primary'' ''production'' ''abcdefghijkl'' secret None [] True 0"


definition used_store :: store where
  "used_store = store_init (empty_session\<lparr>tbl_exchange_accounts := [example_row ''one''], uuid_supply := 2, tbl_inventory_snapshots :=
     [\<lparr>is_id = 1, is_exchange_account_id = 0, is_asset = ''USDT'', is_total_balance = 5, is_available_balance = 5, is_reserved_balance = 0, is_valuation_asset = ''USDT'',
       is_valuation_price = None, is_valuation_amount = None, is_captured_at = 0, is_metadata_json = [], is_metadata_raw = None\<rparr>]\<rparr>)"

lemma used_store_inv: "accounts_inv used_store"
  by (simp add: accounts_inv_def accounts_ok_def used_store_def store_init_def empty_session_def account_references_def example_row_def known_exchange_def)

theorem used_account_not_removable_witness:
  "\<exists>t. serve example_account_env (Some ''platform_admin'') (Remove \<lparr>tq_exchange_name = ''coinstore'', tq_account_alias = ''primary'', tq_environment = ''production'',
      tq_confirmation = ''remove''\<rparr>) used_store = (Inl IntegrityError, t) \<and> tbl_exchange_accounts (st_session t) = [example_row ''one'']"
proof -
  let ?q = "\<lparr>tq_exchange_name = ''coinstore'', tq_account_alias = ''primary'', tq_environment = ''production'', tq_confirmation = ''remove''\<rparr>"
  have "\<exists>t. serve example_account_env (Some ''platform_admin'') (Remove ?q) used_store = (Inl IntegrityError, t)
      \<and> tbl_exchange_accounts (st_session t) = tbl_exchange_accounts (st_session used_store)"
    by (rule used_account_not_removable[OF used_store_inv, where actor = "[(''roles'', JList [JStr ''platform_admin''])]" and row = "example_row ''one''"])
      (use example_access in \<open>simp_all add: example_account_env_def validate_test_def unprocessable_def known_exchange_def known_environment_def require_confirmation_def
        lower_def to_lower_def used_store_def store_init_def empty_session_def account_references_def example_row_def\<close>)
  then show ?thesis by (simp add: used_store_def store_init_def)
qed

theorem login_answer_ignored_witness:
  "tested (answering example_account_env \<lparr>cn_send = (\<lambda>_ _. Inr ()), cn_frames = [], cn_closed = Inr ()\<rparr> (Text_frame (Inr (JDict [(''code'', JInt 401)]))) []) (example_row ''one'')
   = tested (answering example_account_env \<lparr>cn_send = (\<lambda>_ _. Inr ()), cn_frames = [], cn_closed = Inr ()\<rparr> (Text_frame (Inr (JDict [(''code'', JInt 0)]))) []) (example_row ''one'')"
  by (rule login_answer_ignored) (simp_all add: decode_frame_def)

end
