(* ===== verification/Alerts.thy ===== *)
theory Alerts
  imports Effects Exec_Models
begin

text \<open>
  \<open>alerts/delivery.py\<close>: the notifiers, the router and the escalation policy. The HTTP and mail calls of
  the notifiers are arguments (\<open>post\<close>, \<open>smtp\<close>), a notifier in a route is its class name and its
  \<open>send\<close>. The router refines the list of its registrations.
\<close>

section \<open>Severities\<close>

datatype AlertSeverity = Sev_info | Sev_warning | Sev_critical | Sev_emergency

fun value_of_alert :: "AlertSeverity \<Rightarrow> string" where
  "value_of_alert Sev_info = ''info''"
| "value_of_alert Sev_warning = ''warning''"
| "value_of_alert Sev_critical = ''critical''"
| "value_of_alert Sev_emergency = ''emergency''"

text \<open>\<open>list(AlertSeverity)\<close>: the members in the order of their declaration, which orders them.\<close>

definition all_severities :: "AlertSeverity list" where
  "all_severities = [Sev_info, Sev_warning, Sev_critical, Sev_emergency]"

fun severity_rank :: "AlertSeverity \<Rightarrow> nat" where
  "severity_rank Sev_info = 0"
| "severity_rank Sev_warning = 1"
| "severity_rank Sev_critical = 2"
| "severity_rank Sev_emergency = 3"

lemma severity_rank_inj: "severity_rank a = severity_rank b \<Longrightarrow> a = b"
  by (cases a; cases b) simp_all

instantiation AlertSeverity :: linorder
begin

definition less_eq_AlertSeverity :: "AlertSeverity \<Rightarrow> AlertSeverity \<Rightarrow> bool" where
  "less_eq_AlertSeverity a b \<longleftrightarrow> severity_rank a \<le> severity_rank b"

definition less_AlertSeverity :: "AlertSeverity \<Rightarrow> AlertSeverity \<Rightarrow> bool" where
  "less_AlertSeverity a b \<longleftrightarrow> severity_rank a < severity_rank b"

instance
  by standard (auto simp: less_eq_AlertSeverity_def less_AlertSeverity_def dest: severity_rank_inj)

end

section \<open>Model\<close>

record AlertMessage =
  am_severity :: AlertSeverity
  am_title :: string
  am_body :: string
  am_metadata :: metadata

record DeliveryResult =
  dr_channel :: string
  dr_delivered :: bool
  dr_response :: string

subsection \<open>Notifiers\<close>

definition tagged_title :: "AlertMessage \<Rightarrow> string" where
  "tagged_title alert = ''['' @ upper (value_of_alert (am_severity alert)) @ ''] '' @ am_title alert"

definition newline :: string where
  "newline = [char_of (10 :: nat)]"

text \<open>\<open>post url payload\<close> answers with a status code and a text, or raises.\<close>

type_synonym post = "string \<Rightarrow> (string \<times> string) list \<Rightarrow> (int \<times> string) res"

definition telegram_send :: "post \<Rightarrow> string \<Rightarrow> string \<Rightarrow> AlertMessage \<Rightarrow> DeliveryResult res" where
  "telegram_send post bot_token chat_id alert =
     (let url = ''https://api.telegram.org/bot'' @ bot_token @ ''/sendMessage'';
          text = tagged_title alert @ newline @ am_body alert
      in bindr (post url [(''chat_id'', chat_id), (''text'', text), (''disable_web_page_preview'', ''true'')]) (\<lambda>(status_code, body).
         Inr \<lparr>dr_channel = ''telegram'', dr_delivered = status_code < 400, dr_response = take 500 body\<rparr>))"

definition discord_send :: "post \<Rightarrow> string \<Rightarrow> AlertMessage \<Rightarrow> DeliveryResult res" where
  "discord_send post webhook_url alert =
     bindr (post webhook_url [(''content'', ''**'' @ tagged_title alert @ ''**'' @ newline @ am_body alert)]) (\<lambda>(status_code, body).
     Inr \<lparr>dr_channel = ''discord'', dr_delivered = status_code < 400, dr_response = take 500 body\<rparr>)"

record EmailMessage =
  em_from :: string
  em_to :: string
  em_subject :: string
  em_content :: string

fun join_comma :: "string list \<Rightarrow> string" where
  "join_comma [] = []"
| "join_comma [x] = x"
| "join_comma (x # xs) = x @ '', '' @ join_comma xs"

definition email_send :: "(EmailMessage \<Rightarrow> unit res) \<Rightarrow> string \<Rightarrow> string list \<Rightarrow> AlertMessage \<Rightarrow> DeliveryResult res" where
  "email_send smtp sender recipients alert =
     bindr (smtp \<lparr>em_from = sender, em_to = join_comma recipients, em_subject = tagged_title alert, em_content = am_body alert\<rparr>) (\<lambda>_.
     Inr \<lparr>dr_channel = ''email'', dr_delivered = True, dr_response = ''sent''\<rparr>)"

subsection \<open>Router\<close>

record notifier =
  nt_class :: string
  nt_send :: "AlertMessage \<Rightarrow> DeliveryResult res"

record AlertRouter =
  routes :: "(AlertSeverity, notifier list) dict"

definition AlertRouter_init :: AlertRouter where
  "AlertRouter_init = \<lparr>routes = map (\<lambda>severity. (severity, [])) all_severities\<rparr>"

definition add_to_route :: "notifier \<Rightarrow> AlertSeverity \<Rightarrow> (AlertRouter, unit) op" where
  "add_to_route notifier severity =
     bindm (reads (\<lambda>r. dict_get (routes r) severity)) (\<lambda>found. case found of
       None \<Rightarrow> raise_err (KeyError (value_of_alert severity))
     | Some ns \<Rightarrow> modifies (\<lambda>r. r\<lparr>routes := dict_set severity (ns @ [notifier]) (routes r)\<rparr>))"

definition add_route :: "AlertSeverity \<Rightarrow> notifier \<Rightarrow> (AlertRouter, unit) op" where
  "add_route minimum_severity notifier =
     loop (add_to_route notifier) (dropWhile (\<lambda>severity. severity \<noteq> minimum_severity) all_severities)"

text \<open>One iteration of the loop of \<open>route\<close>; \<open>str_of\<close> prints the exception.\<close>

definition attempt :: "(pyerr \<Rightarrow> string) \<Rightarrow> AlertMessage \<Rightarrow> notifier \<Rightarrow> DeliveryResult" where
  "attempt str_of alert notifier =
     (case nt_send notifier alert of
        Inr result \<Rightarrow> result
      | Inl exc \<Rightarrow> \<lparr>dr_channel = nt_class notifier, dr_delivered = False, dr_response = str_of exc\<rparr>)"

definition route :: "(pyerr \<Rightarrow> string) \<Rightarrow> AlertMessage \<Rightarrow> AlertRouter \<Rightarrow> DeliveryResult list" where
  "route str_of alert r = map (attempt str_of alert) (dict_get_or (routes r) (am_severity alert) [])"

subsection \<open>Escalation\<close>

record AlertEscalationPolicy =
  critical_after_failures :: int
  escalation_failures :: "(string, int) dict"

definition escalate :: "AlertMessage \<Rightarrow> DeliveryResult list \<Rightarrow> AlertEscalationPolicy \<Rightarrow> AlertMessage \<times> AlertEscalationPolicy" where
  "escalate alert delivery_results p =
     (let failed = filter (\<lambda>result. \<not> dr_delivered result) delivery_results
      in if failed = [] then (alert, p)
         else (let key = am_title alert;
                   n = dict_get_or (escalation_failures p) key 0 + int (length failed);
                   p' = p\<lparr>escalation_failures := dict_set key n (escalation_failures p)\<rparr>
               in if n \<ge> critical_after_failures p \<and> am_severity alert \<in> {Sev_info, Sev_warning}
                  then (\<lparr>am_severity = Sev_critical, am_title = am_title alert,
                         am_body = ''Escalated after delivery failures.'' @ newline @ am_body alert, am_metadata = am_metadata alert\<rparr>, p')
                  else (alert, p')))"

section \<open>The router refines its registrations\<close>

definition router_step :: "AlertSeverity \<times> notifier \<Rightarrow> AlertRouter \<Rightarrow> AlertRouter" where
  "router_step e r = snd (add_route (fst e) (snd e) r)"

definition router_inv :: "AlertRouter \<Rightarrow> bool" where
  "router_inv r \<longleftrightarrow> dict_keys (routes r) = all_severities"

definition routed :: "AlertRouter \<Rightarrow> AlertSeverity \<Rightarrow> notifier list" where
  "routed r severity = dict_get_or (routes r) severity []"

text \<open>The abstract router: registering appends the notifier for every severity from the minimum up.\<close>

definition register :: "AlertSeverity \<times> notifier \<Rightarrow> (AlertSeverity \<Rightarrow> notifier list) \<Rightarrow> AlertSeverity \<Rightarrow> notifier list" where
  "register e f = (\<lambda>severity. f severity @ (if fst e \<le> severity then [snd e] else []))"

lemma add_to_route_ok:
  assumes "router_inv r"
  shows "\<exists>r'. add_to_route n severity r = (Inr (), r') \<and> router_inv r'
    \<and> routed r' = (routed r)(severity := routed r severity @ [n])"
proof -
  have mem: "severity \<in> set all_severities" by (cases severity) (simp_all add: all_severities_def)
  then have "severity \<in> set (dict_keys (routes r))" using assms by (simp only: router_inv_def)
  then obtain ns where ns: "dict_get (routes r) severity = Some ns"
    by (cases "dict_get (routes r) severity") (auto simp: map_of_eq_None_iff)
  show ?thesis
    using ns mem assms by (simp add: add_to_route_def router_inv_def routed_def dict_get_or_def update_conv' fun_eq_iff update_keys)
qed

lemma add_to_routes_ok:
  assumes "router_inv r" "distinct ss"
  shows "\<exists>r'. loop (add_to_route n) ss r = (Inr (), r') \<and> router_inv r'
    \<and> routed r' = (\<lambda>s. routed r s @ (if s \<in> set ss then [n] else []))"
  using assms
proof (induction ss arbitrary: r)
  case (Cons s ss)
  obtain r1 where r1: "add_to_route n s r = (Inr (), r1)" "router_inv r1" "routed r1 = (routed r)(s := routed r s @ [n])"
    using add_to_route_ok[OF Cons.prems(1)] by blast
  obtain r2 where r2: "loop (add_to_route n) ss r1 = (Inr (), r2)" "router_inv r2"
    "routed r2 = (\<lambda>s. routed r1 s @ (if s \<in> set ss then [n] else []))"
    using Cons.IH[OF r1(2)] Cons.prems(2) by auto
  show ?case
    using r1 r2 Cons.prems(2) by (auto simp: seqm_def bindm_def fun_eq_iff)
qed (simp add: fun_eq_iff)

lemma severities_from: "set (dropWhile (\<lambda>s. s \<noteq> m) all_severities) = {s. m \<le> s}"
proof -
  have "x \<in> set (dropWhile (\<lambda>s. s \<noteq> m) all_severities) \<longleftrightarrow> m \<le> x" for x
    by (cases m; cases x) (simp_all add: all_severities_def less_eq_AlertSeverity_def)
  then show ?thesis by blast
qed

lemma router_step_ok:
  assumes "router_inv r"
  shows "router_inv (router_step e r) \<and> routed (router_step e r) = register e (routed r)"
proof -
  let ?ss = "dropWhile (\<lambda>s. s \<noteq> fst e) all_severities"
  have "distinct ?ss" by (rule distinct_dropWhile) (simp add: all_severities_def)
  then obtain r' where "loop (add_to_route (snd e)) ?ss r = (Inr (), r')" "router_inv r'"
    "routed r' = (\<lambda>s. routed r s @ (if s \<in> set ?ss then [snd e] else []))"
    using add_to_routes_ok[OF assms] by meson
  then show ?thesis by (simp add: router_step_def add_route_def register_def severities_from)
qed

interpretation router: refinement router_step router_inv register routed
  by unfold_locales (simp_all add: router_step_ok)

lemma run_register: "run register regs f severity = f severity @ map snd (filter (\<lambda>e. fst e \<le> severity) regs)"
  by (induction regs arbitrary: f) (simp_all add: register_def)

text \<open>
  Alerts reach everyone who asked for them: after any registrations an alert is delivered to
  exactly the notifiers registered with a minimum severity not above its own, in the order of
  registration, one result per notifier, and a notifier that raises only turns its own result into
  a failure.
\<close>

theorem alert_routing_exact:
  "route str_of alert (run router_step registrations AlertRouter_init) =
     map (\<lambda>e. attempt str_of alert (snd e)) (filter (\<lambda>e. fst e \<le> am_severity alert) registrations)"
proof -
  have init: "router_inv AlertRouter_init" "routed AlertRouter_init = (\<lambda>_. [])"
    by (auto simp: router_inv_def AlertRouter_init_def routed_def dict_get_or_def all_severities_def comp_def split: option.split)
  have "routed (run router_step registrations AlertRouter_init) (am_severity alert) =
      map snd (filter (\<lambda>e. fst e \<le> am_severity alert) registrations)"
    using router.run_sim[OF init(1)] by (simp add: init(2) run_register)
  then show ?thesis by (simp add: route_def routed_def)
qed

section \<open>Escalation counts failures\<close>

definition escalation_step :: "AlertMessage \<times> DeliveryResult list \<Rightarrow> AlertEscalationPolicy \<Rightarrow> AlertEscalationPolicy" where
  "escalation_step e p = snd (escalate (fst e) (snd e) p)"

definition failures_of :: "string \<Rightarrow> (AlertMessage \<times> DeliveryResult list) list \<Rightarrow> int" where
  "failures_of title es = (\<Sum>e \<leftarrow> es. if am_title (fst e) = title then int (length (filter (\<lambda>r. \<not> dr_delivered r) (snd e))) else 0)"

lemma escalation_counts:
  "critical_after_failures (run escalation_step es p) = critical_after_failures p
   \<and> dict_get_or (escalation_failures (run escalation_step es p)) title 0 = dict_get_or (escalation_failures p) title 0 + failures_of title es"
proof (induction es arbitrary: p)
  case (Cons e es)
  have "critical_after_failures (escalation_step e p) = critical_after_failures p"
    "dict_get_or (escalation_failures (escalation_step e p)) title 0 = dict_get_or (escalation_failures p) title 0 + failures_of title [e]"
    by (auto simp: escalation_step_def escalate_def failures_of_def Let_def dict_get_or_def update_conv')
  then show ?case using Cons.IH[of "escalation_step e p"] by (simp add: failures_of_def)
qed (simp add: failures_of_def)

text \<open>
  Escalation is exact: after any history of deliveries an alert is raised to critical if and
  only if this delivery failed somewhere, its own severity is below critical, and the failures
  counted for its title, this delivery included, reach the threshold. It is never lowered.
\<close>

theorem escalation_exact:
  fixes alert :: AlertMessage
  assumes "a = fst (escalate alert results (run escalation_step es \<lparr>critical_after_failures = n, escalation_failures = []\<rparr>))"
  shows "am_severity alert \<le> am_severity a \<and> am_title a = am_title alert
    \<and> (a \<noteq> alert \<longleftrightarrow> (\<exists>r \<in> set results. \<not> dr_delivered r) \<and> am_severity alert < Sev_critical
         \<and> n \<le> failures_of (am_title alert) (es @ [(alert, results)]))
    \<and> (a \<noteq> alert \<longrightarrow> am_severity a = Sev_critical)"
proof -
  let ?p = "run escalation_step es \<lparr>critical_after_failures = n, escalation_failures = []\<rparr>"
  let ?n = "dict_get_or (escalation_failures ?p) (am_title alert) 0 + int (length (filter (\<lambda>r. \<not> dr_delivered r) results))"
  have n: "?n = failures_of (am_title alert) (es @ [(alert, results)])" "critical_after_failures ?p = n"
    using escalation_counts[of es "\<lparr>critical_after_failures = n, escalation_failures = []\<rparr>" "am_title alert"]
    by (simp_all add: failures_of_def dict_get_or_def)
  have low: "am_severity alert < Sev_critical \<longleftrightarrow> am_severity alert \<in> {Sev_info, Sev_warning}"
    by (cases "am_severity alert") (simp_all add: less_AlertSeverity_def)
  have le: "am_severity alert \<in> {Sev_info, Sev_warning} \<Longrightarrow> am_severity alert \<le> Sev_critical"
    using low by simp
  have failed: "filter (\<lambda>r. \<not> dr_delivered r) results = [] \<longleftrightarrow> \<not> (\<exists>r \<in> set results. \<not> dr_delivered r)"
    by (auto simp: filter_empty_conv)
  have a: "a = (if filter (\<lambda>r. \<not> dr_delivered r) results \<noteq> [] \<and> n \<le> ?n \<and> am_severity alert \<in> {Sev_info, Sev_warning}
      then \<lparr>am_severity = Sev_critical, am_title = am_title alert,
             am_body = ''Escalated after delivery failures.'' @ newline @ am_body alert, am_metadata = am_metadata alert\<rparr> else alert)"
    unfolding assms escalate_def Let_def n(2) by (cases "filter (\<lambda>r. \<not> dr_delivered r) results = []") (auto simp del: append.simps)
  show ?thesis
  proof (cases "filter (\<lambda>r. \<not> dr_delivered r) results \<noteq> [] \<and> n \<le> ?n \<and> am_severity alert \<in> {Sev_info, Sev_warning}")
    case True
    then have "am_severity a = Sev_critical" "am_title a = am_title alert" by (simp_all add: a)
    moreover from this True have "a \<noteq> alert" by auto
    ultimately show ?thesis using True failed le by (simp add: low n(1))
  next
    case False
    then have "a = alert" unfolding a by (rule if_not_P)
    then show ?thesis using False failed by (auto simp: low n(1))
  qed
qed

section \<open>Witness\<close>

theorem escalation_exact_witness:
  "am_severity (fst (escalate \<lparr>am_severity = Sev_info, am_title = ''t'', am_body = ''b'', am_metadata = []\<rparr>
       [\<lparr>dr_channel = ''telegram'', dr_delivered = False, dr_response = ''''\<rparr>]
       (run escalation_step [(\<lparr>am_severity = Sev_info, am_title = ''t'', am_body = ''b'', am_metadata = []\<rparr>,
           [\<lparr>dr_channel = ''telegram'', dr_delivered = False, dr_response = ''''\<rparr>])]
         \<lparr>critical_after_failures = 2, escalation_failures = []\<rparr>))) = Sev_critical"
proof -
  let ?alert = "\<lparr>am_severity = Sev_info, am_title = ''t'', am_body = ''b'', am_metadata = []\<rparr>"
  let ?r = "\<lparr>dr_channel = ''telegram'', dr_delivered = False, dr_response = []\<rparr>"
  have "failures_of ''t'' [(?alert, [?r]), (?alert, [?r])] = 2" "Sev_info < Sev_critical"
    by (simp_all add: failures_of_def less_AlertSeverity_def)
  then show ?thesis
    using escalation_exact[OF refl, of ?alert "[?r]" "[(?alert, [?r])]" 2] by (simp del: run_Cons)
qed

end
