(* ===== verification/Audit_Chain.thy ===== *)
theory Audit_Chain
  imports Prelude
begin

text \<open>
  The signed audit chain and the tamper evident log of \<open>security/hardening.py\<close>. \<open>hmac\<close> (SHA-256, hex
  digest, by key and text) and \<open>dumps\<close> (the canonical JSON of sequence number, payload and previous
  signature) are arguments. The lemmas show what the chain detects and what it does not.
\<close>

section \<open>Model\<close>

type_synonym mac = "string \<Rightarrow> string \<Rightarrow> string"
type_synonym 'p dumps = "int \<Rightarrow> 'p \<Rightarrow> string \<Rightarrow> string"

record 'p SignedAuditRecord =
  ar_sequence :: int
  ar_payload :: 'p
  ar_previous_signature :: string
  ar_signature :: string

record SignedAuditChain =
  ac_signing_key :: string
  ac_previous_signature :: string
  ac_sequence :: int

definition SignedAuditChain_init :: "string \<Rightarrow> SignedAuditChain" where
  "SignedAuditChain_init key = \<lparr>ac_signing_key = key, ac_previous_signature = ''GENESIS'', ac_sequence = 0\<rparr>"

definition chain_append :: "mac \<Rightarrow> 'p dumps \<Rightarrow> 'p \<Rightarrow> SignedAuditChain \<Rightarrow> 'p SignedAuditRecord \<times> SignedAuditChain" where
  "chain_append hmac dumps payload c =
     (let sequence = ac_sequence c + 1;
          canonical = dumps sequence payload (ac_previous_signature c);
          signature = hmac (ac_signing_key c) canonical
      in (\<lparr>ar_sequence = sequence, ar_payload = payload, ar_previous_signature = ac_previous_signature c, ar_signature = signature\<rparr>,
          c\<lparr>ac_sequence := sequence, ac_previous_signature := signature\<rparr>))"

fun verify_from :: "mac \<Rightarrow> 'p dumps \<Rightarrow> string \<Rightarrow> string \<Rightarrow> 'p SignedAuditRecord list \<Rightarrow> bool" where
  "verify_from hmac dumps key previous [] = True"
| "verify_from hmac dumps key previous (r # rs) =
     (let canonical = dumps (ar_sequence r) (ar_payload r) previous; expected = hmac key canonical
      in if expected \<noteq> ar_signature r then False else verify_from hmac dumps key (ar_signature r) rs)"

definition chain_verify :: "mac \<Rightarrow> 'p dumps \<Rightarrow> SignedAuditChain \<Rightarrow> 'p SignedAuditRecord list \<Rightarrow> bool" where
  "chain_verify hmac dumps c records = verify_from hmac dumps (ac_signing_key c) ''GENESIS'' records"

record 'p TamperEvidentLog =
  tl_chain :: SignedAuditChain
  tl_records :: "'p SignedAuditRecord list"

definition TamperEvidentLog_init :: "string \<Rightarrow> 'p TamperEvidentLog" where
  "TamperEvidentLog_init key = \<lparr>tl_chain = SignedAuditChain_init key, tl_records = []\<rparr>"

definition log_write :: "mac \<Rightarrow> 'p dumps \<Rightarrow> 'p \<Rightarrow> 'p TamperEvidentLog \<Rightarrow> 'p TamperEvidentLog" where
  "log_write hmac dumps event l =
     (case chain_append hmac dumps event (tl_chain l) of (r, c) \<Rightarrow> l\<lparr>tl_chain := c, tl_records := tl_records l @ [r]\<rparr>)"

definition log_verify :: "mac \<Rightarrow> 'p dumps \<Rightarrow> 'p TamperEvidentLog \<Rightarrow> bool" where
  "log_verify hmac dumps l = chain_verify hmac dumps (SignedAuditChain_init (ac_signing_key (tl_chain l))) (tl_records l)"

section \<open>What was written verifies\<close>

text \<open>The signature a record list ends in.\<close>

definition last_signature :: "string \<Rightarrow> 'p SignedAuditRecord list \<Rightarrow> string" where
  "last_signature previous rs = (if rs = [] then previous else ar_signature (last rs))"

lemma last_signature_Cons [simp]: "last_signature previous (r # rs) = last_signature (ar_signature r) rs"
  by (simp add: last_signature_def)

lemma last_signature_snoc [simp]: "last_signature previous (rs @ [r]) = ar_signature r"
  by (simp add: last_signature_def)

lemma last_signature_Nil [simp]: "last_signature previous [] = previous"
  by (simp add: last_signature_def)

lemma verify_from_append:
  "verify_from h d key previous (rs @ qs) \<longleftrightarrow> verify_from h d key previous rs \<and> verify_from h d key (last_signature previous rs) qs"
  by (induction rs arbitrary: previous) (auto simp: Let_def)

definition log_inv :: "mac \<Rightarrow> 'p dumps \<Rightarrow> string \<Rightarrow> 'p TamperEvidentLog \<Rightarrow> bool" where
  "log_inv h d key l \<longleftrightarrow> ac_signing_key (tl_chain l) = key \<and> verify_from h d key ''GENESIS'' (tl_records l)
     \<and> ac_previous_signature (tl_chain l) = last_signature ''GENESIS'' (tl_records l)
     \<and> ac_sequence (tl_chain l) = int (length (tl_records l))
     \<and> map ar_sequence (tl_records l) = [1 .. int (length (tl_records l))]"

lemma log_inv_init: "log_inv h d key (TamperEvidentLog_init key)"
  by (simp add: log_inv_def TamperEvidentLog_init_def SignedAuditChain_init_def)

lemma log_write_inv: "log_inv h d key l \<Longrightarrow> log_inv h d key (log_write h d ev l)"
  by (auto simp: log_inv_def log_write_def chain_append_def Let_def verify_from_append upto_rec2[of 1 "1 + int (length _)"])

interpretation audit_log: step_system "log_write h d" "log_inv h d key" for h :: mac and d :: "'p dumps" and key
  by unfold_locales (rule log_write_inv)

lemma log_payloads: "map ar_payload (tl_records (run (log_write h d) events l)) = map ar_payload (tl_records l) @ events"
  by (induction events arbitrary: l) (simp_all add: log_write_def chain_append_def Let_def)

text \<open>
  The audit log round trip: whatever events are written, the log verifies, holds exactly the
  events in the order of writing, and numbers them from 1 without gaps. It still verifies when
  records are removed from its end, which the chain does not detect.
\<close>

theorem audit_log_verifies:
  fixes hmac :: mac and dumps :: "'p dumps"
  shows "let l = run (log_write hmac dumps) events (TamperEvidentLog_init key) in
      log_verify hmac dumps l \<and> map ar_payload (tl_records l) = events
      \<and> map ar_sequence (tl_records l) = [1 .. int (length events)]
      \<and> (\<forall>n. chain_verify hmac dumps (SignedAuditChain_init key) (take n (tl_records l)))"
proof -
  let ?l = "run (log_write hmac dumps) events (TamperEvidentLog_init key)"
  let ?rs = "tl_records ?l"
  have "log_inv hmac dumps key (TamperEvidentLog_init key)" by (rule log_inv_init)
  from audit_log.run_inv[OF this] have inv: "log_inv hmac dumps key ?l" .
  have payloads: "map ar_payload ?rs = events"
    using log_payloads[of hmac dumps events "TamperEvidentLog_init key"] by (simp add: TamperEvidentLog_init_def)
  then have "length ?rs = length events" by (metis length_map)
  moreover have "verify_from hmac dumps key ''GENESIS'' (take n ?rs)" for n
    using inv verify_from_append[of hmac dumps key "''GENESIS''" "take n ?rs" "drop n ?rs"] by (simp add: log_inv_def)
  ultimately show ?thesis
    using inv payloads by (simp add: log_inv_def log_verify_def chain_verify_def SignedAuditChain_init_def Let_def)
qed

section \<open>What was not written is found out\<close>

text \<open>The text that the signature of record \<open>i\<close> covers.\<close>

definition signed_text :: "'p dumps \<Rightarrow> string \<Rightarrow> 'p SignedAuditRecord list \<Rightarrow> nat \<Rightarrow> string" where
  "signed_text dumps previous rs i = dumps (ar_sequence (rs ! i)) (ar_payload (rs ! i)) (last_signature previous (take i rs))"

definition content :: "'p SignedAuditRecord \<Rightarrow> int \<times> 'p \<times> string" where
  "content r = (ar_sequence r, ar_payload r, ar_signature r)"

text \<open>A collision: a position at which the two lists have different texts under the same signature.\<close>

definition collision :: "mac \<Rightarrow> 'p dumps \<Rightarrow> string \<Rightarrow> 'p SignedAuditRecord list \<Rightarrow> 'p SignedAuditRecord list \<Rightarrow> bool" where
  "collision hmac dumps key rs qs \<longleftrightarrow> (\<exists>i < length rs.
     signed_text dumps ''GENESIS'' rs i \<noteq> signed_text dumps ''GENESIS'' qs i
     \<and> hmac key (signed_text dumps ''GENESIS'' rs i) = hmac key (signed_text dumps ''GENESIS'' qs i))"

lemma signed_text_snoc:
  "signed_text d p (rs @ [r]) (length rs) = d (ar_sequence r) (ar_payload r) (last_signature p rs)"
  "i < length rs \<Longrightarrow> signed_text d p (rs @ [r]) i = signed_text d p rs i"
  by (simp_all add: signed_text_def nth_append)

lemma collision_snoc: "collision h d key rs qs \<Longrightarrow> length rs = length qs \<Longrightarrow> collision h d key (rs @ [r]) (qs @ [q])"
  unfolding collision_def by (metis signed_text_snoc(2) length_append_singleton less_SucI)

lemma same_end_same_log:
  assumes inj: "\<And>s p t s' p' t'. d s p t = d s' p' t' \<Longrightarrow> s = s' \<and> p = p' \<and> t = t'"
    and "verify_from h d key ''GENESIS'' rs" "verify_from h d key ''GENESIS'' qs" "length rs = length qs"
    and "last_signature ''GENESIS'' rs = last_signature ''GENESIS'' qs"
  shows "map content rs = map content qs \<or> collision h d key rs qs"
  using assms(4,2,3,5)
proof (induction rs arbitrary: qs rule: rev_induct)
  case (snoc r rs)
  then obtain q qs' where qs: "qs = qs' @ [q]" by (cases qs rule: rev_cases) auto
  have len: "length rs = length qs'" using snoc.prems qs by simp
  have v: "verify_from h d key ''GENESIS'' rs" "verify_from h d key ''GENESIS'' qs'"
    "h key (d (ar_sequence r) (ar_payload r) (last_signature ''GENESIS'' rs)) = ar_signature r"
    "h key (d (ar_sequence q) (ar_payload q) (last_signature ''GENESIS'' qs')) = ar_signature q"
    using snoc.prems qs by (auto simp: verify_from_append Let_def split: if_splits)
  have sig: "ar_signature r = ar_signature q" using snoc.prems qs by simp
  show ?case
  proof (cases "d (ar_sequence r) (ar_payload r) (last_signature ''GENESIS'' rs) = d (ar_sequence q) (ar_payload q) (last_signature ''GENESIS'' qs')")
    case True
    then have "ar_sequence r = ar_sequence q" "ar_payload r = ar_payload q" "last_signature ''GENESIS'' rs = last_signature ''GENESIS'' qs'"
      using inj by blast+
    then show ?thesis
      using snoc.IH[OF len v(1,2)] sig collision_snoc[OF _ len, of h d key r q] by (auto simp: qs content_def)
  next
    case False
    then have "collision h d key (rs @ [r]) qs"
      unfolding collision_def qs using v(3,4) sig signed_text_snoc(1)[of d "''GENESIS''" rs r] signed_text_snoc(1)[of d "''GENESIS''" qs' q] len
      by (intro exI[of _ "length rs"]) simp
    then show ?thesis ..
  qed
qed simp

text \<open>
  Tampering is found out: when the canonical JSON is injective, a list of records as long as the
  written log, ending in the signature the log ends in, that the verifier accepts, has the same
  sequence numbers, payloads and signatures as the log, unless it exhibits a collision of the
  signature function at one of its positions.
\<close>

theorem audit_tampering_detected:
  fixes hmac :: mac and dumps :: "'p dumps"
  assumes "\<And>s p t s' p' t'. dumps s p t = dumps s' p' t' \<Longrightarrow> s = s' \<and> p = p' \<and> t = t'"
    and "written = tl_records (run (log_write hmac dumps) events (TamperEvidentLog_init key))"
    and "chain_verify hmac dumps (SignedAuditChain_init key) records" "length records = length written"
    and "last_signature ''GENESIS'' records = last_signature ''GENESIS'' written"
  shows "map content records = map content written \<or> collision hmac dumps key records written"
proof -
  have "log_inv hmac dumps key (TamperEvidentLog_init key)" by (rule log_inv_init)
  from audit_log.run_inv[OF this, of events] have w: "verify_from hmac dumps key ''GENESIS'' written"
    by (simp add: assms(2) log_inv_def)
  have "verify_from hmac dumps key ''GENESIS'' records"
    using assms(3) by (simp add: chain_verify_def SignedAuditChain_init_def)
  from same_end_same_log[OF assms(1) this w assms(4,5)] show ?thesis .
qed

text \<open>The stored previous signature of a record is not looked at.\<close>

lemma previous_signature_ignored:
  "chain_verify h d c (map (\<lambda>r. r\<lparr>ar_previous_signature := f r\<rparr>) rs) = chain_verify h d c rs"
proof -
  have "verify_from h d key previous (map (\<lambda>r. r\<lparr>ar_previous_signature := f r\<rparr>) rs) = verify_from h d key previous rs" for key previous
    by (induction rs arbitrary: previous) (simp_all add: Let_def)
  then show ?thesis by (simp add: chain_verify_def)
qed

section \<open>Witness\<close>

text \<open>An injective encoding and a signature function.\<close>

definition example_dumps :: "bool dumps" where
  "example_dumps s p t = (if p then CHR ''t'' else CHR ''f'') # (if s < 0 then CHR ''-'' else CHR ''+'') #
     replicate (nat \<bar>s\<bar>) CHR ''1'' @ CHR '','' # t"

definition example_mac :: mac where
  "example_mac key text = key @ text"

lemma replicate_comma: "replicate m CHR ''1'' @ CHR '','' # t = replicate n CHR ''1'' @ CHR '','' # u \<Longrightarrow> m = n \<and> t = u"
proof (induction m arbitrary: n)
  case 0
  then show ?case by (cases n) auto
next
  case (Suc m)
  then show ?case by (cases n) auto
qed

lemma example_dumps_inj: "example_dumps s p t = example_dumps s' p' t' \<Longrightarrow> s = s' \<and> p = p' \<and> t = t'"
  using replicate_comma[of "nat \<bar>s\<bar>" t "nat \<bar>s'\<bar>" t'] by (auto simp: example_dumps_def split: if_splits)

theorem audit_tampering_detected_witness:
  "let written = tl_records (run (log_write example_mac example_dumps) [True, False] (TamperEvidentLog_init ''k''));
       records = map (\<lambda>r. r\<lparr>ar_previous_signature := ''''\<rparr>) written
   in map content records = map content written \<or> collision example_mac example_dumps ''k'' records written"
proof -
  let ?written = "tl_records (run (log_write example_mac example_dumps) [True, False] (TamperEvidentLog_init ''k''))"
  let ?records = "map (\<lambda>r. r\<lparr>ar_previous_signature := ''''\<rparr>) ?written"
  have "chain_verify example_mac example_dumps (SignedAuditChain_init ''k'') ?records" by code_simp
  moreover have "last_signature ''GENESIS'' ?records = last_signature ''GENESIS'' ?written" by (simp add: last_signature_def last_map)
  ultimately show ?thesis
    unfolding Let_def by (intro audit_tampering_detected[OF example_dumps_inj refl]) (simp_all only: length_map)
qed

end
