(* ===== verification/Config.thy ===== *)
theory Config
  imports Prelude
begin

text \<open>
  Runtime configuration (\<open>core/config.py\<close>): one record per pydantic settings class, and for each
  class the validation that construction performs, field constraints first and the class's
  \<open>model_validator\<close> after them. A rejected configuration is a \<open>ValueError\<close>. The \<open>Settings\<close>
  validators over plain strings (log level, database URL, JWT secret) are here too.
\<close>

record SpreadSettings =
  base_spread_bps :: float
  min_spread_bps :: float
  max_spread_bps :: float
  volatility_multiplier :: float

definition validate_spread_bounds :: "SpreadSettings \<Rightarrow> SpreadSettings res" where
  "validate_spread_bounds s =
     (if \<not> (0 < base_spread_bps s \<and> 0 < min_spread_bps s \<and> 0 < max_spread_bps s \<and> 0 \<le> volatility_multiplier s)
      then Inl (ValueError ''spread field constraint'')
      else if \<not> (min_spread_bps s \<le> base_spread_bps s \<and> base_spread_bps s \<le> max_spread_bps s)
      then Inl (ValueError ''spread must satisfy min_spread_bps <= base_spread_bps <= max_spread_bps'')
      else Inr s)"

record StrategySettings =
  cfg_trading_enabled :: bool
  cfg_quoting_enabled :: bool
  cfg_passive_only :: bool
  cfg_cancel_replace_enabled :: bool
  quote_refresh_seconds :: float
  stale_market_data_seconds :: float
  max_order_age_seconds :: float

definition validate_strategy :: "StrategySettings \<Rightarrow> StrategySettings res" where
  "validate_strategy s =
     (if 0 < quote_refresh_seconds s \<and> 0 < stale_market_data_seconds s \<and> 0 < max_order_age_seconds s
      then Inr s else Inl (ValueError ''strategy field constraint''))"

record OrderSizeSettings =
  base_order_size :: float
  min_order_size :: float
  max_order_size :: float
  ladder_levels :: int
  ladder_size_multiplier :: float

definition validate_order_size_bounds :: "OrderSizeSettings \<Rightarrow> OrderSizeSettings res" where
  "validate_order_size_bounds s =
     (if \<not> (0 < base_order_size s \<and> 0 < min_order_size s \<and> 0 < max_order_size s
            \<and> 1 \<le> ladder_levels s \<and> ladder_levels s \<le> 50 \<and> 0 < ladder_size_multiplier s)
      then Inl (ValueError ''order size field constraint'')
      else if \<not> (min_order_size s \<le> base_order_size s \<and> base_order_size s \<le> max_order_size s)
      then Inl (ValueError ''order size must satisfy min_order_size <= base_order_size <= max_order_size'')
      else Inr s)"

record OrderLayerSettings =
  enabled_levels :: int
  spacing_bps :: float
  outer_level_multiplier :: float
  refresh_threshold_bps :: float
  max_active_orders_per_side :: int

definition validate_order_layers :: "OrderLayerSettings \<Rightarrow> OrderLayerSettings res" where
  "validate_order_layers s =
     (if 1 \<le> enabled_levels s \<and> enabled_levels s \<le> 50 \<and> 0 < spacing_bps s \<and> 1 \<le> outer_level_multiplier s
         \<and> 0 < refresh_threshold_bps s \<and> 1 \<le> max_active_orders_per_side s \<and> max_active_orders_per_side s \<le> 100
      then Inr s else Inl (ValueError ''order layer field constraint''))"

record InventorySettings =
  cfg_target_base_ratio :: float
  skew_intensity :: float
  max_asset_exposure :: float
  alert_threshold_ratio :: float

definition validate_inventory :: "InventorySettings \<Rightarrow> InventorySettings res" where
  "validate_inventory s =
     (if 0 \<le> cfg_target_base_ratio s \<and> cfg_target_base_ratio s \<le> 1 \<and> 0 \<le> skew_intensity s
         \<and> 0 < max_asset_exposure s \<and> 0 < alert_threshold_ratio s \<and> alert_threshold_ratio s \<le> 1
      then Inr s else Inl (ValueError ''inventory field constraint''))"

record RiskSettings =
  max_position_notional :: float
  max_total_exposure :: float
  max_order_notional :: float
  max_open_orders :: int
  max_daily_loss :: float
  max_position_quantity :: float
  circuit_breaker_enabled :: bool
  circuit_breaker_error_threshold :: int
  circuit_breaker_cooldown_seconds :: int
  auto_recovery_enabled :: bool
  auto_recovery_cooldown_seconds :: int

definition validate_risk_hierarchy :: "RiskSettings \<Rightarrow> RiskSettings res" where
  "validate_risk_hierarchy s =
     (if \<not> (0 < max_position_notional s \<and> 0 < max_total_exposure s \<and> 0 < max_order_notional s
            \<and> 1 \<le> max_open_orders s \<and> 0 < max_daily_loss s \<and> 0 < max_position_quantity s
            \<and> 1 \<le> circuit_breaker_error_threshold s \<and> 1 \<le> circuit_breaker_cooldown_seconds s
            \<and> 1 \<le> auto_recovery_cooldown_seconds s)
      then Inl (ValueError ''risk field constraint'')
      else if max_order_notional s > max_position_notional s
      then Inl (ValueError ''max_order_notional cannot exceed max_position_notional'')
      else if max_position_notional s > max_total_exposure s
      then Inl (ValueError ''max_position_notional cannot exceed max_total_exposure'')
      else Inr s)"

record LiquiditySettings =
  depth_levels :: int
  imbalance_threshold :: float
  min_top_of_book_depth :: float
  target_depth_notional :: float
  build_liquidity :: bool

definition validate_liquidity :: "LiquiditySettings \<Rightarrow> LiquiditySettings res" where
  "validate_liquidity s =
     (if 1 \<le> depth_levels s \<and> depth_levels s \<le> 200 \<and> 0 < imbalance_threshold s \<and> imbalance_threshold s \<le> 1
         \<and> 0 \<le> min_top_of_book_depth s \<and> 0 < target_depth_notional s
      then Inr s else Inl (ValueError ''liquidity field constraint''))"

record VolumeSettings =
  volume_enabled :: bool
  hourly_target_notional :: float
  daily_target_notional :: float
  weekly_target_notional :: float
  max_participation_rate :: float
  pressure_threshold :: float
  max_size_multiplier :: float
  min_seconds_between_pressure_orders :: int
  external_volume_required :: bool

definition validate_volume_targets :: "VolumeSettings \<Rightarrow> VolumeSettings res" where
  "validate_volume_targets s =
     (if \<not> (0 \<le> hourly_target_notional s \<and> 0 \<le> daily_target_notional s \<and> 0 \<le> weekly_target_notional s
            \<and> 0 < max_participation_rate s \<and> max_participation_rate s \<le> 1/5
            \<and> 0 < pressure_threshold s \<and> pressure_threshold s \<le> 1
            \<and> 1 \<le> max_size_multiplier s \<and> max_size_multiplier s \<le> 5
            \<and> 1 \<le> min_seconds_between_pressure_orders s)
      then Inl (ValueError ''volume field constraint'')
      else if daily_target_notional s \<noteq> 0 \<and> hourly_target_notional s > daily_target_notional s
      then Inl (ValueError ''hourly_target_notional cannot exceed daily_target_notional'')
      else if weekly_target_notional s \<noteq> 0 \<and> daily_target_notional s > weekly_target_notional s
      then Inl (ValueError ''daily_target_notional cannot exceed weekly_target_notional'')
      else Inr s)"

record ExchangeSettings =
  enabled_exchanges :: "string list"
  default_timeout_seconds :: float
  max_reconnect_delay_seconds :: float
  heartbeat_interval_seconds :: float

definition validate_exchange :: "ExchangeSettings \<Rightarrow> ExchangeSettings res" where
  "validate_exchange s =
     (if 0 < default_timeout_seconds s \<and> 0 < max_reconnect_delay_seconds s \<and> 0 < heartbeat_interval_seconds s
      then Inr s else Inl (ValueError ''exchange field constraint''))"

record AlertSettings =
  enabled_channels :: "string list"
  min_severity :: string
  telegram_enabled :: bool

definition validate_alert :: "AlertSettings \<Rightarrow> AlertSettings res" where
  "validate_alert s =
     (if min_severity s \<in> {''info'', ''warning'', ''critical'', ''emergency''}
      then Inr s else Inl (ValueError ''min_severity''))"

record RuntimeConfig =
  rc_strategy :: StrategySettings
  rc_spread :: SpreadSettings
  rc_order_layers :: OrderLayerSettings
  rc_order_size :: OrderSizeSettings
  rc_volume :: VolumeSettings
  rc_inventory :: InventorySettings
  rc_risk :: RiskSettings
  rc_exchange :: ExchangeSettings
  rc_liquidity :: LiquiditySettings
  rc_alert :: AlertSettings

text \<open>\<open>RuntimeConfig.model_validate\<close>: every section is validated.\<close>

definition model_validate :: "RuntimeConfig \<Rightarrow> RuntimeConfig res" where
  "model_validate c =
     bindr (validate_strategy (rc_strategy c)) (\<lambda>_.
     bindr (validate_spread_bounds (rc_spread c)) (\<lambda>_.
     bindr (validate_order_layers (rc_order_layers c)) (\<lambda>_.
     bindr (validate_order_size_bounds (rc_order_size c)) (\<lambda>_.
     bindr (validate_volume_targets (rc_volume c)) (\<lambda>_.
     bindr (validate_inventory (rc_inventory c)) (\<lambda>_.
     bindr (validate_risk_hierarchy (rc_risk c)) (\<lambda>_.
     bindr (validate_exchange (rc_exchange c)) (\<lambda>_.
     bindr (validate_liquidity (rc_liquidity c)) (\<lambda>_.
     bindr (validate_alert (rc_alert c)) (\<lambda>_. Inr c))))))))))"

definition default_runtime_config :: RuntimeConfig where
  "default_runtime_config = \<lparr>
     rc_strategy = \<lparr>cfg_trading_enabled = True, cfg_quoting_enabled = True, cfg_passive_only = True,
       cfg_cancel_replace_enabled = True, quote_refresh_seconds = 5, stale_market_data_seconds = 30, max_order_age_seconds = 60\<rparr>,
     rc_spread = \<lparr>base_spread_bps = 20, min_spread_bps = 5, max_spread_bps = 200, volatility_multiplier = 3/2\<rparr>,
     rc_order_layers = \<lparr>enabled_levels = 3, spacing_bps = 20, outer_level_multiplier = 5/4, refresh_threshold_bps = 5,
       max_active_orders_per_side = 3\<rparr>,
     rc_order_size = \<lparr>base_order_size = 1/100, min_order_size = 1/1000, max_order_size = 1, ladder_levels = 3,
       ladder_size_multiplier = 5/4\<rparr>,
     rc_volume = \<lparr>volume_enabled = False, hourly_target_notional = 0, daily_target_notional = 0, weekly_target_notional = 0,
       max_participation_rate = 1/20, pressure_threshold = 1/5, max_size_multiplier = 2,
       min_seconds_between_pressure_orders = 30, external_volume_required = True\<rparr>,
     rc_inventory = \<lparr>cfg_target_base_ratio = 1/2, skew_intensity = 3/4, max_asset_exposure = 100000, alert_threshold_ratio = 4/5\<rparr>,
     rc_risk = \<lparr>max_position_notional = 100000, max_total_exposure = 250000, max_order_notional = 25000, max_open_orders = 100,
       max_daily_loss = 10000, max_position_quantity = 100, circuit_breaker_enabled = True, circuit_breaker_error_threshold = 5,
       circuit_breaker_cooldown_seconds = 300, auto_recovery_enabled = False, auto_recovery_cooldown_seconds = 900\<rparr>,
     rc_exchange = \<lparr>enabled_exchanges = [''binance'', ''coinstore'', ''mexc'', ''gate'', ''bitmart'', ''kucoin''],
       default_timeout_seconds = 10, max_reconnect_delay_seconds = 30, heartbeat_interval_seconds = 20\<rparr>,
     rc_liquidity = \<lparr>depth_levels = 20, imbalance_threshold = 7/20, min_top_of_book_depth = 0, target_depth_notional = 50000,
       build_liquidity = True\<rparr>,
     rc_alert = \<lparr>enabled_channels = [''telegram'', ''dashboard''], min_severity = ''warning'', telegram_enabled = True\<rparr>\<rparr>"

section \<open>What the validations guarantee\<close>

text \<open>The contract the engines rely on, read off the validators.\<close>

definition spread_ok :: "SpreadSettings \<Rightarrow> bool" where
  "spread_ok s \<longleftrightarrow> validate_spread_bounds s = Inr s"

definition risk_ok :: "RiskSettings \<Rightarrow> bool" where
  "risk_ok s \<longleftrightarrow> validate_risk_hierarchy s = Inr s"

definition volume_ok :: "VolumeSettings \<Rightarrow> bool" where
  "volume_ok s \<longleftrightarrow> validate_volume_targets s = Inr s"

definition order_size_ok :: "OrderSizeSettings \<Rightarrow> bool" where
  "order_size_ok s \<longleftrightarrow> validate_order_size_bounds s = Inr s"

definition layers_ok :: "OrderLayerSettings \<Rightarrow> bool" where
  "layers_ok s \<longleftrightarrow> validate_order_layers s = Inr s"

lemma spread_okD:
  assumes "spread_ok s"
  shows "0 < min_spread_bps s" "min_spread_bps s \<le> base_spread_bps s" "base_spread_bps s \<le> max_spread_bps s"
    "0 < base_spread_bps s" "min_spread_bps s \<le> max_spread_bps s" "0 \<le> volatility_multiplier s"
  using assms by (auto simp: spread_ok_def validate_spread_bounds_def split: if_splits)

lemma order_size_okD:
  assumes "order_size_ok s"
  shows "0 < min_order_size s" "min_order_size s \<le> base_order_size s" "base_order_size s \<le> max_order_size s"
    "min_order_size s \<le> max_order_size s" "1 \<le> ladder_levels s" "0 < ladder_size_multiplier s"
  using assms by (auto simp: order_size_ok_def validate_order_size_bounds_def split: if_splits)

lemma layers_okD:
  assumes "layers_ok s"
  shows "1 \<le> enabled_levels s" "0 < spacing_bps s" "1 \<le> outer_level_multiplier s" "0 < refresh_threshold_bps s"
    "1 \<le> max_active_orders_per_side s"
  using assms by (auto simp: layers_ok_def validate_order_layers_def split: if_splits)

lemma risk_okD:
  assumes "risk_ok s"
  shows "0 < max_order_notional s" "0 < max_position_notional s" "0 < max_total_exposure s" "0 < max_daily_loss s"
    "0 < max_position_quantity s" "1 \<le> max_open_orders s" "1 \<le> circuit_breaker_error_threshold s"
    "1 \<le> circuit_breaker_cooldown_seconds s" "max_order_notional s \<le> max_position_notional s"
    "max_position_notional s \<le> max_total_exposure s"
  using assms by (auto simp: risk_ok_def validate_risk_hierarchy_def split: if_splits)

lemma volume_okD:
  assumes "volume_ok s"
  shows "1 \<le> max_size_multiplier s" "max_size_multiplier s \<le> 5" "0 < pressure_threshold s" "pressure_threshold s \<le> 1"
    "0 \<le> hourly_target_notional s" "0 \<le> daily_target_notional s" "0 \<le> weekly_target_notional s"
    "0 < max_participation_rate s" "1 \<le> min_seconds_between_pressure_orders s"
  using assms by (auto simp: volume_ok_def validate_volume_targets_def split: if_splits)

lemma model_validate_sections:
  assumes "model_validate c = Inr c'"
  shows "c' = c" "spread_ok (rc_spread c)" "order_size_ok (rc_order_size c)" "layers_ok (rc_order_layers c)"
    "risk_ok (rc_risk c)" "volume_ok (rc_volume c)"
  using assms
  by (auto simp: model_validate_def bindr_Inr_iff spread_ok_def order_size_ok_def layers_ok_def risk_ok_def volume_ok_def
      validate_spread_bounds_def validate_order_size_bounds_def validate_order_layers_def validate_risk_hierarchy_def
      validate_volume_targets_def split: if_splits)

lemma default_runtime_config_valid: "model_validate default_runtime_config = Inr default_runtime_config"
  by (simp add: model_validate_def default_runtime_config_def validate_strategy_def validate_spread_bounds_def
      validate_order_layers_def validate_order_size_bounds_def validate_volume_targets_def validate_inventory_def
      validate_risk_hierarchy_def validate_exchange_def validate_liquidity_def validate_alert_def)

lemmas default_config_ok = model_validate_sections(2-)[OF default_runtime_config_valid]

section \<open>String validators of Settings\<close>

definition starts_with :: "string \<Rightarrow> string \<Rightarrow> bool" where
  "starts_with p s \<longleftrightarrow> take (length p) s = p"

definition validate_log_level :: "string \<Rightarrow> string res" where
  "validate_log_level value =
     (let normalized = upper value
      in if normalized \<notin> {''TRACE'', ''DEBUG'', ''INFO'', ''WARNING'', ''WARN'', ''ERROR'', ''CRITICAL''}
         then Inl (ValueError ''LOG_LEVEL'') else Inr normalized)"

definition normalize_database_url :: "string \<Rightarrow> string res" where
  "normalize_database_url url =
     (if starts_with ''postgresql://'' url then Inr (''postgresql+asyncpg://'' @ drop 13 url)
      else if starts_with ''postgres://'' url then Inr (''postgresql+asyncpg://'' @ drop 11 url)
      else if starts_with ''postgresql+psycopg2://'' url \<or> starts_with ''postgresql+psycopg://'' url
      then Inl (ValueError ''DATABASE_URL must use an async driver: postgresql+asyncpg://'')
      else Inr url)"

definition validate_jwt_secret :: "string \<Rightarrow> string res" where
  "validate_jwt_secret value =
     (if length value < 32 then Inl (ValueError ''JWT_SECRET must contain at least 32 characters'') else Inr value)"

lemma asyncpg_url_stable: "normalize_database_url (''postgresql+asyncpg://'' @ r) = Inr (''postgresql+asyncpg://'' @ r)"
  by (simp add: normalize_database_url_def starts_with_def)

lemma normalize_database_url_cases:
  assumes "normalize_database_url u = Inr v"
  obtains r where "v = ''postgresql+asyncpg://'' @ r" | "v = u"
  using assms unfolding normalize_database_url_def by (metis Inr_inject Inl_Inr_False)

lemma normalize_database_url_idem:
  assumes "normalize_database_url u = Inr v"
  shows "normalize_database_url v = Inr v"
  using assms by (cases rule: normalize_database_url_cases[OF assms]) (simp_all only: asyncpg_url_stable)

end
