(* ===== verification/Risk.thy ===== *)
theory Risk
  imports Config
begin

text \<open>
  The pre-trade risk engine (\<open>engines/risk/engine.py\<close>): order limits, circuit breakers, the kill
  switch, emergency shutdown and recovery. Methods that change the engine return its new state
  beside their result; the clock is the argument \<open>now\<close>, read once per call. Reading
  \<open>is_open\<close> may close a breaker, so evaluation changes state too.
\<close>

record RiskOrderIntent =
  ro_symbol :: string
  ro_side :: string
  ro_price :: float
  ro_quantity :: float

definition notional :: "RiskOrderIntent \<Rightarrow> float" where
  "notional i = ro_price i * ro_quantity i"

record RiskEvaluation =
  ev_accepted :: bool
  ev_score :: float
  ev_violations :: "string list"

section \<open>Circuit breakers\<close>

record CircuitBreaker =
  cb_name :: string
  cb_threshold :: int
  cb_cooldown_seconds :: int
  cb_failures :: int
  cb_opened_at :: "datetime option"

definition CircuitBreaker_init :: "string \<Rightarrow> int \<Rightarrow> int \<Rightarrow> CircuitBreaker" where
  "CircuitBreaker_init name threshold cooldown =
     \<lparr>cb_name = name, cb_threshold = threshold, cb_cooldown_seconds = cooldown, cb_failures = 0, cb_opened_at = None\<rparr>"

definition cb_record_success :: "CircuitBreaker \<Rightarrow> CircuitBreaker" where
  "cb_record_success b = b\<lparr>cb_failures := 0, cb_opened_at := None\<rparr>"

definition cb_record_failure :: "datetime \<Rightarrow> CircuitBreaker \<Rightarrow> CircuitBreaker" where
  "cb_record_failure now b =
     (let b = b\<lparr>cb_failures := cb_failures b + 1\<rparr>
      in if cb_failures b \<ge> cb_threshold b then b\<lparr>cb_opened_at := Some now\<rparr> else b)"

definition cb_is_open :: "datetime \<Rightarrow> CircuitBreaker \<Rightarrow> bool \<times> CircuitBreaker" where
  "cb_is_open now b =
     (case cb_opened_at b of
        None \<Rightarrow> (False, b)
      | Some t \<Rightarrow> if now - t \<ge> seconds (cb_cooldown_seconds b) then (False, cb_record_success b) else (True, b))"

section \<open>The engine\<close>

record KillSwitch =
  ks_active :: bool
  ks_reason :: "string option"
  ks_activated_at :: "datetime option"

definition ks_activate :: "datetime \<Rightarrow> string \<Rightarrow> KillSwitch \<Rightarrow> KillSwitch" where
  "ks_activate now reason k = k\<lparr>ks_active := True, ks_reason := Some reason, ks_activated_at := Some now\<rparr>"

definition ks_deactivate :: "KillSwitch \<Rightarrow> KillSwitch" where
  "ks_deactivate k = k\<lparr>ks_active := False, ks_reason := None, ks_activated_at := None\<rparr>"

record EmergencyShutdownState =
  es_active :: bool
  es_reason :: "string option"
  es_started_at :: "datetime option"
  es_completed_steps :: "string list"

record RiskEngine =
  re_settings :: RiskSettings
  re_kill_switch :: KillSwitch
  re_breakers :: "(string, CircuitBreaker) dict"
  re_shutdown_state :: EmergencyShutdownState

definition RiskEngine_init :: "RiskSettings \<Rightarrow> RiskEngine" where
  "RiskEngine_init s =
     \<lparr>re_settings = s,
      re_kill_switch = \<lparr>ks_active = False, ks_reason = None, ks_activated_at = None\<rparr>,
      re_breakers = map (\<lambda>n. (n, CircuitBreaker_init n (circuit_breaker_error_threshold s) (circuit_breaker_cooldown_seconds s)))
        [''exchange_errors'', ''market_data_stale'', ''dependency_unavailable''],
      re_shutdown_state = \<lparr>es_active = False, es_reason = None, es_started_at = None, es_completed_steps = []\<rparr>\<rparr>"

definition risk_score :: "RiskSettings \<Rightarrow> RiskOrderIntent \<Rightarrow> float \<Rightarrow> float \<Rightarrow> string list \<Rightarrow> float res" where
  "risk_score s intent total_exposure daily_pnl violations =
     bindr (py_div (notional intent) (max_order_notional s)) (\<lambda>o1.
     bindr (py_div \<bar>total_exposure\<bar> (max_total_exposure s)) (\<lambda>e1.
     bindr (py_div \<bar>min 0 daily_pnl\<bar> (max_daily_loss s)) (\<lambda>l1.
       let order_component = min 1 o1;
           exposure_component = min 1 e1;
           loss_component = min 1 l1;
           violation_component = min 1 (of_nat (length violations) / 5)
       in Inr (py_round ((order_component * (25/100) + exposure_component * (3/10) + loss_component * (25/100)
                + violation_component * (2/10)) * 100) 4))))"

text \<open>The limit checks in the order the source makes them.\<close>

definition limit_violations :: "RiskSettings \<Rightarrow> RiskOrderIntent \<Rightarrow> float \<Rightarrow> float \<Rightarrow> int \<Rightarrow> float \<Rightarrow> string list" where
  "limit_violations s intent position_notional total_exposure open_orders daily_pnl =
     (if notional intent > max_order_notional s then [''max_order_notional''] else [])
   @ (if ro_quantity intent > max_position_quantity s then [''max_position_quantity''] else [])
   @ (if \<bar>position_notional\<bar> + notional intent > max_position_notional s then [''max_position_notional''] else [])
   @ (if \<bar>total_exposure\<bar> + notional intent > max_total_exposure s then [''max_total_exposure''] else [])
   @ (if open_orders + 1 > max_open_orders s then [''max_open_orders''] else [])
   @ (if daily_pnl \<le> - \<bar>max_daily_loss s\<bar> then [''max_daily_loss''] else [])"

text \<open>The loop over the breakers: every breaker is asked, and asking may close it.\<close>

fun breaker_violations :: "datetime \<Rightarrow> (string, CircuitBreaker) dict \<Rightarrow> string list \<times> (string, CircuitBreaker) dict" where
  "breaker_violations now [] = ([], [])"
| "breaker_violations now ((k, b) # rest) =
     (let (op, b') = cb_is_open now b;
          (vs, rest') = breaker_violations now rest
      in ((if op then [''circuit_breaker:'' @ cb_name b'] else []) @ vs, (k, b') # rest'))"

definition evaluate_order :: "datetime \<Rightarrow> RiskEngine \<Rightarrow> RiskOrderIntent \<Rightarrow> float \<Rightarrow> float \<Rightarrow> int \<Rightarrow> float \<Rightarrow> RiskEvaluation res \<times> RiskEngine" where
  "evaluate_order now e intent position_notional total_exposure open_orders daily_pnl =
     (if ks_active (re_kill_switch e)
      then (Inl (KillSwitchActiveError (case ks_reason (re_kill_switch e) of
                   None \<Rightarrow> ''kill switch active'' | Some r \<Rightarrow> if r = [] then ''kill switch active'' else r)), e)
      else let violations = limit_violations (re_settings e) intent position_notional total_exposure open_orders daily_pnl;
               (bv, breakers) = (if circuit_breaker_enabled (re_settings e) then breaker_violations now (re_breakers e)
                                 else ([], re_breakers e));
               violations = violations @ bv;
               e = e\<lparr>re_breakers := breakers\<rparr>
           in (bindr (risk_score (re_settings e) intent total_exposure daily_pnl violations) (\<lambda>score.
                 Inr \<lparr>ev_accepted = (violations = []), ev_score = score, ev_violations = violations\<rparr>), e))"

definition assert_order_allowed :: "datetime \<Rightarrow> RiskEngine \<Rightarrow> RiskOrderIntent \<Rightarrow> float \<Rightarrow> float \<Rightarrow> int \<Rightarrow> float \<Rightarrow> RiskEvaluation res \<times> RiskEngine" where
  "assert_order_allowed now e intent position_notional total_exposure open_orders daily_pnl =
     (let (r, e') = evaluate_order now e intent position_notional total_exposure open_orders daily_pnl
      in (bindr r (\<lambda>evaluation. if \<not> ev_accepted evaluation then Inl (RiskViolationError (ev_violations evaluation)) else Inr evaluation), e'))"

definition record_failure :: "datetime \<Rightarrow> string \<Rightarrow> RiskEngine \<Rightarrow> unit res \<times> RiskEngine" where
  "record_failure now name e =
     (case dict_get (re_breakers e) name of
        None \<Rightarrow> (Inl (KeyError name), e)
      | Some b \<Rightarrow> (Inr (), e\<lparr>re_breakers := dict_set name (cb_record_failure now b) (re_breakers e)\<rparr>))"

definition record_success :: "string \<Rightarrow> RiskEngine \<Rightarrow> unit res \<times> RiskEngine" where
  "record_success name e =
     (case dict_get (re_breakers e) name of
        None \<Rightarrow> (Inl (KeyError name), e)
      | Some b \<Rightarrow> (Inr (), e\<lparr>re_breakers := dict_set name (cb_record_success b) (re_breakers e)\<rparr>))"

definition activate_kill_switch :: "datetime \<Rightarrow> string \<Rightarrow> RiskEngine \<Rightarrow> RiskEngine" where
  "activate_kill_switch now reason e = e\<lparr>re_kill_switch := ks_activate now reason (re_kill_switch e)\<rparr>"

definition deactivate_kill_switch :: "RiskEngine \<Rightarrow> RiskEngine" where
  "deactivate_kill_switch e = e\<lparr>re_kill_switch := ks_deactivate (re_kill_switch e)\<rparr>"

definition emergency_shutdown :: "datetime \<Rightarrow> string \<Rightarrow> RiskEngine \<Rightarrow> RiskEngine" where
  "emergency_shutdown now reason e =
     e\<lparr>re_kill_switch := ks_activate now reason (re_kill_switch e),
       re_shutdown_state := \<lparr>es_active = True, es_reason = Some reason, es_started_at = Some now,
         es_completed_steps = [''stop_order_creation'', ''freeze_strategy_state'', ''emit_alerts'']\<rparr>\<rparr>"

text \<open>\<open>all(not breaker.is_open() ...)\<close> stops at the first open breaker.\<close>

fun all_closed :: "datetime \<Rightarrow> (string, CircuitBreaker) dict \<Rightarrow> bool \<times> (string, CircuitBreaker) dict" where
  "all_closed now [] = (True, [])"
| "all_closed now ((k, b) # rest) =
     (let (op, b') = cb_is_open now b
      in if op then (False, (k, b') # rest)
         else let (r, rest') = all_closed now rest in (r, (k, b') # rest'))"

definition recovery_ready :: "datetime \<Rightarrow> RiskEngine \<Rightarrow> bool \<times> RiskEngine" where
  "recovery_ready now e =
     (if es_active (re_shutdown_state e) \<and> ks_active (re_kill_switch e)
      then let (r, bs) = all_closed now (re_breakers e) in (r, e\<lparr>re_breakers := bs\<rparr>)
      else (False, e))"

definition recover :: "datetime \<Rightarrow> RiskEngine \<Rightarrow> EmergencyShutdownState res \<times> RiskEngine" where
  "recover now e =
     (let (ready, e) = recovery_ready now e
      in if \<not> ready then (Inl (RiskViolationError [''recovery prerequisites are not satisfied'']), e)
         else let st = (re_shutdown_state e)\<lparr>es_completed_steps := es_completed_steps (re_shutdown_state e) @ [''recovery_approved''],
                         es_active := False\<rparr>
              in (Inr st, e\<lparr>re_shutdown_state := st, re_kill_switch := ks_deactivate (re_kill_switch e)\<rparr>))"

section \<open>Breaker facts\<close>

text \<open>Whether a breaker blocks at a moment, without the side effect of asking.\<close>

definition blocks :: "datetime \<Rightarrow> CircuitBreaker \<Rightarrow> bool" where
  "blocks now b \<longleftrightarrow> (\<exists>t. cb_opened_at b = Some t \<and> now - t < seconds (cb_cooldown_seconds b))"

definition breaker_inv :: "CircuitBreaker \<Rightarrow> bool" where
  "breaker_inv b \<longleftrightarrow> 1 \<le> cb_threshold b \<and> 0 \<le> cb_failures b \<and> (cb_opened_at b \<noteq> None \<longleftrightarrow> cb_threshold b \<le> cb_failures b)"

lemma cb_is_open_blocks: "fst (cb_is_open now b) = blocks now b"
  by (auto simp: cb_is_open_def blocks_def split: option.splits)

lemma cb_is_open_state: "snd (cb_is_open now b) = (if cb_opened_at b \<noteq> None \<and> \<not> blocks now b then cb_record_success b else b)"
  by (auto simp: cb_is_open_def blocks_def split: option.splits)

lemma cb_name_kept [simp]:
  "cb_name (cb_record_success b) = cb_name b" "cb_name (cb_record_failure now b) = cb_name b" "cb_name (snd (cb_is_open now b)) = cb_name b"
  by (simp_all add: cb_record_success_def cb_record_failure_def Let_def cb_is_open_state)

lemma cb_config_kept [simp]:
  "cb_threshold (cb_record_success b) = cb_threshold b" "cb_threshold (cb_record_failure now b) = cb_threshold b"
  "cb_cooldown_seconds (cb_record_success b) = cb_cooldown_seconds b" "cb_cooldown_seconds (cb_record_failure now b) = cb_cooldown_seconds b"
  by (simp_all add: cb_record_success_def cb_record_failure_def Let_def)

lemma breaker_inv_steps:
  assumes "breaker_inv b"
  shows "breaker_inv (cb_record_success b)" "breaker_inv (cb_record_failure now b)" "breaker_inv (snd (cb_is_open now b))"
  using assms by (auto simp: breaker_inv_def cb_record_success_def cb_record_failure_def Let_def cb_is_open_state)

lemma breaker_violations_spec:
  "breaker_violations now bs =
     (map (\<lambda>p. ''circuit_breaker:'' @ cb_name (snd p)) (filter (\<lambda>p. blocks now (snd p)) bs),
      map (\<lambda>p. (fst p, snd (cb_is_open now (snd p)))) bs)"
proof (induction bs)
  case (Cons p bs)
  then show ?case by (cases p) (simp add: case_prod_unfold Let_def cb_is_open_blocks)
qed simp

lemma all_closed_spec:
  "fst (all_closed now bs) \<longleftrightarrow> (\<forall>(k, b) \<in> set bs. \<not> blocks now b)"
proof (induction bs)
  case (Cons p bs)
  then show ?case using cb_is_open_blocks[of now "snd p"]
    by (cases p) (auto split: prod.splits)
qed simp

lemma all_closed_state:
  assumes "\<And>k b. (k, b) \<in> set bs \<Longrightarrow> P k b" "\<And>k b. P k b \<Longrightarrow> P k (snd (cb_is_open now b))"
  shows "(k, b) \<in> set (snd (all_closed now bs)) \<Longrightarrow> P k b" "map fst (snd (all_closed now bs)) = map fst bs"
proof -
  have "(\<forall>(k, b) \<in> set (snd (all_closed now bs)). P k b) \<and> map fst (snd (all_closed now bs)) = map fst bs"
    using assms(1)
  proof (induction bs)
    case (Cons p bs)
    obtain k b where p: "p = (k, b)" by (cases p)
    have "P k (snd (cb_is_open now b))" using Cons.prems[of k b] assms(2) by (simp add: p)
    with Cons show ?case by (auto simp: p split: prod.splits)
  qed simp
  then show "(k, b) \<in> set (snd (all_closed now bs)) \<Longrightarrow> P k b" "map fst (snd (all_closed now bs)) = map fst bs" by auto
qed

section \<open>Order evaluation\<close>

definition within_limits :: "RiskSettings \<Rightarrow> RiskOrderIntent \<Rightarrow> float \<Rightarrow> float \<Rightarrow> int \<Rightarrow> float \<Rightarrow> bool" where
  "within_limits s intent position_notional total_exposure open_orders daily_pnl \<longleftrightarrow>
     notional intent \<le> max_order_notional s \<and> ro_quantity intent \<le> max_position_quantity s
   \<and> \<bar>position_notional\<bar> + notional intent \<le> max_position_notional s
   \<and> \<bar>total_exposure\<bar> + notional intent \<le> max_total_exposure s
   \<and> open_orders < max_open_orders s \<and> - max_daily_loss s < daily_pnl"

lemma limit_violations_Nil:
  "0 < max_daily_loss s \<Longrightarrow>
   limit_violations s intent pn te oo pnl = [] \<longleftrightarrow> within_limits s intent pn te oo pnl"
  by (auto simp: limit_violations_def within_limits_def)

lemma risk_score_total: "risk_ok s \<Longrightarrow> \<exists>x. risk_score s intent te pnl vs = Inr x"
  using risk_okD[of s] by (simp add: risk_score_def Let_def)

lemma evaluate_order_state:
  "snd (evaluate_order now e intent pn te oo pnl) =
     (if ks_active (re_kill_switch e) \<or> \<not> circuit_breaker_enabled (re_settings e) then e
      else e\<lparr>re_breakers := map (\<lambda>p. (fst p, snd (cb_is_open now (snd p)))) (re_breakers e)\<rparr>)"
  by (simp add: evaluate_order_def Let_def breaker_violations_spec)

lemma assert_order_allowed_state:
  "snd (assert_order_allowed now e intent pn te oo pnl) = snd (evaluate_order now e intent pn te oo pnl)"
  by (simp add: assert_order_allowed_def case_prod_unfold Let_def)

definition all_violations :: "datetime \<Rightarrow> RiskEngine \<Rightarrow> RiskOrderIntent \<Rightarrow> float \<Rightarrow> float \<Rightarrow> int \<Rightarrow> float \<Rightarrow> string list" where
  "all_violations now e intent pn te oo pnl = limit_violations (re_settings e) intent pn te oo pnl
     @ (if circuit_breaker_enabled (re_settings e) then fst (breaker_violations now (re_breakers e)) else [])"

lemma assert_order_allowed_result:
  assumes "\<not> ks_active (re_kill_switch e)"
    and "risk_score (re_settings e) intent te pnl (all_violations now e intent pn te oo pnl) = Inr sc"
  shows "fst (assert_order_allowed now e intent pn te oo pnl) =
    (if all_violations now e intent pn te oo pnl = []
     then Inr \<lparr>ev_accepted = True, ev_score = sc, ev_violations = []\<rparr>
     else Inl (RiskViolationError (all_violations now e intent pn te oo pnl)))"
  using assms
  by (cases "circuit_breaker_enabled (re_settings e)")
    (auto simp: assert_order_allowed_def evaluate_order_def all_violations_def case_prod_unfold Let_def)

text \<open>
  C31. The gate is exact: with validated limits an order is let through if and only if the kill
  switch is off, every one of the six limits holds for the position, exposure, order count and
  daily result it was given, and no circuit breaker blocks at that moment.
\<close>

theorem order_allowed_iff:
  assumes "risk_ok (re_settings e)"
  shows "(\<exists>ev. fst (assert_order_allowed now e intent position_notional total_exposure open_orders daily_pnl) = Inr ev)
    \<longleftrightarrow> \<not> ks_active (re_kill_switch e)
      \<and> within_limits (re_settings e) intent position_notional total_exposure open_orders daily_pnl
      \<and> (circuit_breaker_enabled (re_settings e) \<longrightarrow> (\<forall>b \<in> set (map snd (re_breakers e)). \<not> blocks now b))"
proof (cases "ks_active (re_kill_switch e)")
  case True
  then show ?thesis by (simp add: assert_order_allowed_def evaluate_order_def)
next
  case False
  obtain sc where sc: "risk_score (re_settings e) intent total_exposure daily_pnl
      (all_violations now e intent position_notional total_exposure open_orders daily_pnl) = Inr sc"
    using risk_score_total[OF assms] by blast
  show ?thesis
    using False limit_violations_Nil[OF risk_okD(4)[OF assms], of intent position_notional total_exposure open_orders daily_pnl]
    by (auto simp: assert_order_allowed_result[OF False sc] all_violations_def breaker_violations_spec filter_empty_conv split: if_splits)
qed

lemma unit_component: "0 \<le> min 1 x \<longleftrightarrow> 0 \<le> (x::rat)" "min 1 x \<le> (1::rat)"
  by auto

text \<open>
  The risk score is a percentage: with validated limits and an order of non-negative notional
  it always exists and lies between 0 and 100.
\<close>

theorem risk_score_bounds:
  assumes "risk_ok s" "0 \<le> notional intent"
  shows "\<exists>x. risk_score s intent total_exposure daily_pnl violations = Inr x \<and> 0 \<le> x \<and> x \<le> 100"
proof -
  define a b c d where "a = min 1 (notional intent / max_order_notional s)" and "b = min 1 (\<bar>total_exposure\<bar> / max_total_exposure s)"
    and "c = min 1 (\<bar>min 0 daily_pnl\<bar> / max_daily_loss s)" and "d = min 1 (of_nat (length violations) / (5::rat))"
  define w where "w = (a * (25/100) + b * (3/10) + c * (25/100) + d * (2/10)) * 100"
  have "0 \<le> a" "0 \<le> b" "0 \<le> c" "0 \<le> d" "a \<le> 1" "b \<le> 1" "c \<le> 1" "d \<le> 1"
    using risk_okD[OF assms(1)] assms(2) by (auto simp: a_def b_def c_def d_def unit_component divide_nonpos_pos)
  then have "0 \<le> w" "w \<le> of_int 100" by (auto simp: w_def)
  then have "0 \<le> py_round w 4" "py_round w 4 \<le> of_int 100"
    by (auto intro: py_round_nonneg py_round_le_of_int simp del: of_int_numeral)
  moreover have "risk_score s intent total_exposure daily_pnl violations = Inr (py_round w 4)"
    using risk_okD[OF assms(1)] by (simp add: risk_score_def Let_def w_def a_def b_def c_def d_def)
  ultimately show ?thesis by simp
qed

section \<open>The engine as a system of steps\<close>

datatype risk_event =
    Ev_failure datetime string
  | Ev_success string
  | Ev_activate datetime string
  | Ev_deactivate
  | Ev_shutdown datetime string
  | Ev_recover datetime
  | Ev_evaluate datetime RiskOrderIntent float float int float

fun risk_step :: "risk_event \<Rightarrow> RiskEngine \<Rightarrow> RiskEngine" where
  "risk_step (Ev_failure now name) e = snd (record_failure now name e)"
| "risk_step (Ev_success name) e = snd (record_success name e)"
| "risk_step (Ev_activate now reason) e = activate_kill_switch now reason e"
| "risk_step Ev_deactivate e = deactivate_kill_switch e"
| "risk_step (Ev_shutdown now reason) e = emergency_shutdown now reason e"
| "risk_step (Ev_recover now) e = snd (recover now e)"
| "risk_step (Ev_evaluate now i pn te oo pnl) e = snd (assert_order_allowed now e i pn te oo pnl)"

fun unlocks :: "risk_event \<Rightarrow> bool" where
  "unlocks Ev_deactivate = True"
| "unlocks (Ev_recover now) = True"
| "unlocks _ = False"

text \<open>
  The invariant: a breaker is open exactly when its failure count has reached the threshold, it
  stands under its own name, and thresholds and cooldowns are the configured ones.
\<close>

definition risk_inv :: "RiskEngine \<Rightarrow> bool" where
  "risk_inv e \<longleftrightarrow> risk_ok (re_settings e) \<and> distinct (map fst (re_breakers e))
     \<and> (\<forall>(k, b) \<in> set (re_breakers e). breaker_inv b \<and> cb_name b = k
          \<and> cb_threshold b = circuit_breaker_error_threshold (re_settings e)
          \<and> cb_cooldown_seconds b = circuit_breaker_cooldown_seconds (re_settings e))"

lemma risk_inv_init: "risk_ok s \<Longrightarrow> risk_inv (RiskEngine_init s)"
  using risk_okD[of s] by (simp add: risk_inv_def RiskEngine_init_def CircuitBreaker_init_def breaker_inv_def)

lemma cb_config_is_open [simp]:
  "cb_threshold (snd (cb_is_open now b)) = cb_threshold b" "cb_cooldown_seconds (snd (cb_is_open now b)) = cb_cooldown_seconds b"
  by (simp_all add: cb_is_open_state)

lemma risk_inv_set:
  assumes "risk_inv e" "dict_get (re_breakers e) name = Some b" "breaker_inv b'" "cb_name b' = cb_name b"
    "cb_threshold b' = cb_threshold b" "cb_cooldown_seconds b' = cb_cooldown_seconds b"
  shows "risk_inv (e\<lparr>re_breakers := dict_set name b' (re_breakers e)\<rparr>)"
  using assms map_of_SomeD[OF assms(2)]
  by (auto simp: risk_inv_def distinct_update dest!: dict_set_mem)

lemma risk_inv_evaluate: "risk_inv e \<Longrightarrow> risk_inv (snd (assert_order_allowed now e i pn te oo pnl))"
  by (auto simp: assert_order_allowed_state evaluate_order_state risk_inv_def comp_def breaker_inv_steps)

lemma recovery_ready_state:
  "snd (recovery_ready now e) = (if es_active (re_shutdown_state e) \<and> ks_active (re_kill_switch e)
     then e\<lparr>re_breakers := snd (all_closed now (re_breakers e))\<rparr> else e)"
  by (simp add: recovery_ready_def case_prod_unfold Let_def)

lemma risk_inv_ready: "risk_inv e \<Longrightarrow> risk_inv (snd (recovery_ready now e))"
proof -
  assume inv: "risk_inv e"
  let ?P = "\<lambda>k b. breaker_inv b \<and> cb_name b = k \<and> cb_threshold b = circuit_breaker_error_threshold (re_settings e)
          \<and> cb_cooldown_seconds b = circuit_breaker_cooldown_seconds (re_settings e)"
  have P: "\<And>k b. (k, b) \<in> set (re_breakers e) \<Longrightarrow> ?P k b" using inv by (auto simp: risk_inv_def)
  have Q: "\<And>k b. ?P k b \<Longrightarrow> ?P k (snd (cb_is_open now b))" by (simp add: breaker_inv_steps)
  have "\<forall>(k, b) \<in> set (snd (all_closed now (re_breakers e))). ?P k b"
    using all_closed_state(1)[of "re_breakers e" ?P now, OF P Q] by blast
  moreover have "map fst (snd (all_closed now (re_breakers e))) = map fst (re_breakers e)"
    by (rule all_closed_state(2)[of "re_breakers e" ?P now, OF P Q])
  ultimately show ?thesis
    using inv by (simp add: recovery_ready_state risk_inv_def)
qed

lemma risk_inv_recover: "risk_inv e \<Longrightarrow> risk_inv (snd (recover now e))"
  using risk_inv_ready[of e now]
  by (auto simp: recover_def case_prod_unfold Let_def risk_inv_def)

lemma risk_inv_step: "risk_inv e \<Longrightarrow> risk_inv (risk_step ev e)"
proof (cases ev)
  case (Ev_failure now name)
  assume "risk_inv e"
  moreover have "breaker_inv b" if "dict_get (re_breakers e) name = Some b" for b
    using \<open>risk_inv e\<close> map_of_SomeD[OF that] by (auto simp: risk_inv_def)
  ultimately show ?thesis
    by (auto simp: Ev_failure record_failure_def breaker_inv_steps split: option.splits intro!: risk_inv_set)
next
  case (Ev_success name)
  assume "risk_inv e"
  moreover have "breaker_inv b" if "dict_get (re_breakers e) name = Some b" for b
    using \<open>risk_inv e\<close> map_of_SomeD[OF that] by (auto simp: risk_inv_def)
  ultimately show ?thesis
    by (auto simp: Ev_success record_success_def breaker_inv_steps split: option.splits intro!: risk_inv_set)
qed (auto simp: risk_inv_evaluate risk_inv_recover, auto simp: risk_inv_def activate_kill_switch_def deactivate_kill_switch_def emergency_shutdown_def)

interpretation risk_sys: latch_system risk_step risk_inv "\<lambda>e. ks_active (re_kill_switch e)" unlocks
proof
  show "risk_inv e \<Longrightarrow> risk_inv (risk_step ev e)" for ev e by (rule risk_inv_step)
  show "ks_active (re_kill_switch e) \<Longrightarrow> \<not> unlocks ev \<Longrightarrow> ks_active (re_kill_switch (risk_step ev e))" for ev e
    by (cases ev) (auto simp: record_failure_def record_success_def activate_kill_switch_def emergency_shutdown_def ks_activate_def
        assert_order_allowed_state evaluate_order_state split: option.splits)
qed

text \<open>
  The kill switch is a latch. From the moment it is active, whatever sequence of failures,
  successes, further activations, shutdowns and order evaluations follows, as long as nobody calls
  \<open>deactivate_kill_switch\<close> or \<open>recover\<close>, every order is refused with \<open>KillSwitchActiveError\<close>.
\<close>

theorem kill_switch_blocks_until_released:
  assumes "risk_inv e" "ks_active (re_kill_switch e)" "\<And>ev. ev \<in> set evs \<Longrightarrow> \<not> unlocks ev"
  shows "\<exists>r. fst (assert_order_allowed now (run risk_step evs e) intent pn te oo pnl) = Inl (KillSwitchActiveError r)"
proof -
  from risk_sys.run_latched[OF assms] have "ks_active (re_kill_switch (run risk_step evs e))" .
  then show ?thesis by (auto simp: assert_order_allowed_def evaluate_order_def)
qed

text \<open>
  Recovery needs all of its prerequisites: in every state the engine can reach, \<open>recover\<close>
  succeeds exactly when an emergency shutdown is active, the kill switch is on and no breaker
  blocks; it then ends the shutdown and releases the kill switch, and otherwise raises and leaves
  both as they were.
\<close>

theorem recover_iff:
  assumes "risk_ok s" "e = run risk_step evs (RiskEngine_init s)"
  shows "(case fst (recover now e) of
      Inr st \<Rightarrow> es_active (re_shutdown_state e) \<and> ks_active (re_kill_switch e) \<and> (\<forall>b \<in> set (map snd (re_breakers e)). \<not> blocks now b)
        \<and> \<not> es_active st \<and> re_shutdown_state (snd (recover now e)) = st \<and> \<not> ks_active (re_kill_switch (snd (recover now e)))
    | Inl err \<Rightarrow> \<not> (es_active (re_shutdown_state e) \<and> ks_active (re_kill_switch e) \<and> (\<forall>b \<in> set (map snd (re_breakers e)). \<not> blocks now b))
        \<and> re_shutdown_state (snd (recover now e)) = re_shutdown_state e \<and> re_kill_switch (snd (recover now e)) = re_kill_switch e)
    \<and> risk_inv (snd (recover now e))"
proof -
  have inv: "risk_inv (snd (recover now e))"
    unfolding assms(2) by (intro risk_inv_recover risk_sys.run_inv risk_inv_init assms(1))
  show ?thesis
    using inv all_closed_spec[of now "re_breakers e"]
    by (auto simp: recover_def recovery_ready_def case_prod_unfold Let_def ks_deactivate_def)
qed

section \<open>Breaker life cycle\<close>

fun fail_times :: "datetime list \<Rightarrow> CircuitBreaker \<Rightarrow> CircuitBreaker" where
  "fail_times [] b = b"
| "fail_times (t # ts) b = fail_times ts (cb_record_failure t b)"

lemma fail_times_kept [simp]:
  "cb_threshold (fail_times ts b) = cb_threshold b" "cb_cooldown_seconds (fail_times ts b) = cb_cooldown_seconds b"
  "cb_failures (fail_times ts b) = cb_failures b + int (length ts)"
  by (induction ts arbitrary: b) (auto simp: cb_record_failure_def Let_def)

lemma fail_times_snoc: "fail_times (ts @ [t]) b = cb_record_failure t (fail_times ts b)"
  by (induction ts arbitrary: b) auto

text \<open>
  A breaker that has seen as many failures in a row as its threshold opens at the last of
  them, refuses until the cooldown has passed, and the first question after the cooldown closes it
  and forgets the failures.
\<close>

theorem breaker_opens_and_cools_down:
  assumes "breaker_inv b" "cb_threshold b \<le> int (length ts) + 1" "t0 \<le> t"
  shows "cb_is_open t (fail_times (ts @ [t0]) b) =
    (if t < t0 + seconds (cb_cooldown_seconds b) then (True, fail_times (ts @ [t0]) b)
     else (False, (fail_times (ts @ [t0]) b)\<lparr>cb_failures := 0, cb_opened_at := None\<rparr>))"
proof -
  have "cb_opened_at (fail_times (ts @ [t0]) b) = Some t0"
    using assms(1,2) by (simp add: fail_times_snoc cb_record_failure_def Let_def breaker_inv_def)
  then show ?thesis
    by (auto simp: cb_is_open_def cb_record_success_def fail_times_snoc)
qed

section \<open>Witnesses\<close>

definition default_risk_engine :: RiskEngine where
  "default_risk_engine = RiskEngine_init (rc_risk default_runtime_config)"

definition example_risk_intent :: RiskOrderIntent where
  "example_risk_intent = \<lparr>ro_symbol = ''BTC/USDT'', ro_side = ''buy'', ro_price = 50000, ro_quantity = 1/100\<rparr>"

theorem order_allowed_iff_witness:
  "\<exists>ev. fst (assert_order_allowed 0 default_risk_engine example_risk_intent 0 0 0 0) = Inr ev"
  by (subst order_allowed_iff)
    (auto simp: default_risk_engine_def RiskEngine_init_def default_config_ok default_runtime_config_def[THEN arg_cong[where f = rc_risk]]
      example_risk_intent_def within_limits_def notional_def CircuitBreaker_init_def blocks_def default_config_ok(4)[unfolded default_runtime_config_def, simplified])

theorem risk_score_bounds_witness:
  "\<exists>x. risk_score (rc_risk default_runtime_config) example_risk_intent 100 (-5) [] = Inr x \<and> 0 \<le> x \<and> x \<le> 100"
  by (rule risk_score_bounds) (simp_all add: default_config_ok example_risk_intent_def notional_def)

theorem kill_switch_blocks_until_released_witness:
  "\<exists>r. fst (assert_order_allowed 9 (run risk_step [Ev_success ''exchange_errors'', Ev_evaluate 5 example_risk_intent 0 0 0 0]
     (activate_kill_switch 0 ''manual'' default_risk_engine)) example_risk_intent 0 0 0 0) = Inl (KillSwitchActiveError r)"
proof (rule kill_switch_blocks_until_released)
  show "risk_inv (activate_kill_switch 0 ''manual'' default_risk_engine)"
    using risk_inv_step[OF risk_inv_init[OF default_config_ok(4)], of "Ev_activate 0 ''manual''"] by (simp add: default_risk_engine_def)
qed (auto simp: activate_kill_switch_def ks_activate_def)

theorem recover_iff_witness:
  "risk_inv (snd (recover 7 (run risk_step [Ev_shutdown 3 ''drill''] (RiskEngine_init (rc_risk default_runtime_config)))))"
  using recover_iff[OF default_config_ok(4) refl] by blast

theorem breaker_opens_and_cools_down_witness:
  "fst (cb_is_open 299 (fail_times ([0, 0] @ [0]) (CircuitBreaker_init ''exchange_errors'' 3 300)))"
  using breaker_opens_and_cools_down[of "CircuitBreaker_init ''exchange_errors'' 3 300" "[0, 0]" 0 299]
  by (simp add: CircuitBreaker_init_def breaker_inv_def seconds_def)

end
