(* ===== verification/Strategy.thy ===== *)
theory Strategy
  imports Prelude
begin

text \<open>
  The institutional strategy (\<open>engines/strategy/advanced.py\<close>): regime detection from the market
  microstructure, the dynamic spread, inventory skew, placement offset and neutralisation, and the
  decision that combines them.
\<close>

datatype MarketRegime = Regime_stable | Regime_trending | Regime_volatile | Regime_stressed

record MicrostructureSnapshot =
  mi_mid_price :: float
  mi_spread_bps :: float
  mi_realized_volatility :: float
  mi_orderbook_imbalance :: float
  mi_trade_imbalance :: float
  mi_top_of_book_depth :: float
  mi_depth_slope :: float
  mi_short_horizon_return_bps :: float

record InventoryProfile =
  ip_base_ratio :: float
  ip_target_base_ratio :: float
  ip_exposure_notional :: float
  ip_max_exposure_notional :: float

record StrategyDecision =
  sd_regime :: MarketRegime
  sd_bid_spread_bps :: float
  sd_ask_spread_bps :: float
  sd_bid_size_multiplier :: float
  sd_ask_size_multiplier :: float
  sd_quote_skew_bps :: float
  sd_placement_offset_bps :: float
  sd_neutralization_required :: bool
  sd_reduction_side :: "string option"

definition detect :: "MicrostructureSnapshot \<Rightarrow> MarketRegime" where
  "detect m =
     (if mi_realized_volatility m > 5/100 \<or> \<bar>mi_short_horizon_return_bps m\<bar> > 150 then Regime_stressed
      else if mi_realized_volatility m > 2/100 \<or> \<bar>mi_orderbook_imbalance m\<bar> > 6/10 then Regime_volatile
      else if \<bar>mi_short_horizon_return_bps m\<bar> > 35 \<or> \<bar>mi_trade_imbalance m\<bar> > 4/10 then Regime_trending
      else Regime_stable)"

fun regime_multiplier :: "MarketRegime \<Rightarrow> float" where
  "regime_multiplier Regime_stable = 85/100"
| "regime_multiplier Regime_trending = 11/10"
| "regime_multiplier Regime_volatile = 16/10"
| "regime_multiplier Regime_stressed = 25/10"

definition dynamic_spread :: "float \<Rightarrow> MicrostructureSnapshot \<Rightarrow> MarketRegime \<Rightarrow> float" where
  "dynamic_spread base m regime =
     (let volatility_component = mi_realized_volatility m * 10000;
          liquidity_component = max 0 (1 - min 1 (mi_top_of_book_depth m / 100000)) * base;
          imbalance_component = \<bar>mi_orderbook_imbalance m\<bar> * base
      in max 1 ((base + volatility_component + liquidity_component + imbalance_component) * regime_multiplier regime))"

definition inventory_aware_skew :: "InventoryProfile \<Rightarrow> float" where
  "inventory_aware_skew i =
     (let deviation = ip_base_ratio i - ip_target_base_ratio i;
          pressure = min 1 (\<bar>ip_exposure_notional i\<bar> / max (ip_max_exposure_notional i) 1)
      in deviation * 100 * (1 + pressure))"

definition placement_offset :: "MicrostructureSnapshot \<Rightarrow> MarketRegime \<Rightarrow> float" where
  "placement_offset m regime =
     (let stability_bonus = (if regime = Regime_stable then 2 else 0);
          adverse_selection_penalty = \<bar>mi_trade_imbalance m\<bar> * 8 + max 0 (- mi_depth_slope m) * 5
      in max (-5) (min 25 (adverse_selection_penalty - stability_bonus)))"

definition neutralization :: "InventoryProfile \<Rightarrow> bool \<times> string option" where
  "neutralization i =
     (let utilization = \<bar>ip_exposure_notional i\<bar> / max (ip_max_exposure_notional i) 1
      in if utilization < 7/10 then (False, None)
         else if ip_base_ratio i > ip_target_base_ratio i then (True, Some ''sell'')
         else (True, Some ''buy''))"

definition decide :: "float \<Rightarrow> MicrostructureSnapshot \<Rightarrow> InventoryProfile \<Rightarrow> StrategyDecision" where
  "decide base_spread m i =
     (let regime = detect m;
          spread = dynamic_spread base_spread m regime;
          skew = inventory_aware_skew i;
          offset = placement_offset m regime;
          (neutralize, reduction_side) = neutralization i;
          imbalance_adjustment = mi_orderbook_imbalance m * 5;
          bid = max 1 (spread / 2 + skew + imbalance_adjustment + offset);
          ask = max 1 (spread / 2 - skew - imbalance_adjustment + offset);
          (bid, ask) = (if regime = Regime_stable then (bid * (9/10), ask * (9/10)) else (bid, ask));
          (bid, ask) = (if regime \<in> {Regime_volatile, Regime_stressed} then (bid * (125/100), ask * (125/100)) else (bid, ask))
      in \<lparr>sd_regime = regime, sd_bid_spread_bps = bid, sd_ask_spread_bps = ask,
          sd_bid_size_multiplier = (if reduction_side \<noteq> Some ''sell'' then 1 else 4/10),
          sd_ask_size_multiplier = (if reduction_side \<noteq> Some ''buy'' then 1 else 4/10),
          sd_quote_skew_bps = skew, sd_placement_offset_bps = offset, sd_neutralization_required = neutralize, sd_reduction_side = reduction_side\<rparr>)"

section \<open>The decision\<close>

lemma decide_simps [simp]:
  "sd_regime (decide b m i) = detect m" "sd_reduction_side (decide b m i) = snd (neutralization i)"
  "sd_neutralization_required (decide b m i) = fst (neutralization i)"
  "sd_placement_offset_bps (decide b m i) = placement_offset m (detect m)"
  by (auto simp: decide_def Let_def case_prod_unfold)

lemma neutralization_iff:
  "fst (neutralization i) \<longleftrightarrow> 7/10 \<le> \<bar>ip_exposure_notional i\<bar> / max (ip_max_exposure_notional i) 1"
  "snd (neutralization i) = Some ''sell'' \<longleftrightarrow> fst (neutralization i) \<and> ip_target_base_ratio i < ip_base_ratio i"
  "snd (neutralization i) = Some ''buy'' \<longleftrightarrow> fst (neutralization i) \<and> ip_base_ratio i \<le> ip_target_base_ratio i"
  "snd (neutralization i) = None \<longleftrightarrow> \<not> fst (neutralization i)"
  by (auto simp: neutralization_def Let_def)

text \<open>
  Every decision quotes both sides at a positive distance (0.9 bps at least in a stable
  market, 1.25 in a volatile or stressed one, 1 otherwise) with a placement offset between -5 and
  25 bps; inventory is neutralised exactly from 70 percent utilisation on, on the side that reduces
  the deviation, and then only the opposite side is cut to 40 percent of its size.
\<close>

theorem strategy_decision_safe:
  "(case detect m of Regime_stable \<Rightarrow> 9/10 | Regime_trending \<Rightarrow> 1 | _ \<Rightarrow> 125/100) \<le> min (sd_bid_spread_bps (decide b m i)) (sd_ask_spread_bps (decide b m i))
   \<and> -5 \<le> sd_placement_offset_bps (decide b m i) \<and> sd_placement_offset_bps (decide b m i) \<le> 25
   \<and> (sd_neutralization_required (decide b m i) \<longleftrightarrow> 7/10 \<le> \<bar>ip_exposure_notional i\<bar> / max (ip_max_exposure_notional i) 1)
   \<and> sd_reduction_side (decide b m i) = (if \<not> sd_neutralization_required (decide b m i) then None
        else if ip_target_base_ratio i < ip_base_ratio i then Some ''sell'' else Some ''buy'')
   \<and> sd_bid_size_multiplier (decide b m i) = (if sd_reduction_side (decide b m i) = Some ''sell'' then 4/10 else 1)
   \<and> sd_ask_size_multiplier (decide b m i) = (if sd_reduction_side (decide b m i) = Some ''buy'' then 4/10 else 1)"
proof -
  have sizes: "sd_bid_size_multiplier (decide b m i) = (if snd (neutralization i) = Some ''sell'' then 4/10 else 1)"
    "sd_ask_size_multiplier (decide b m i) = (if snd (neutralization i) = Some ''buy'' then 4/10 else 1)"
    by (auto simp: decide_def Let_def case_prod_unfold)
  have spreads: "(case detect m of Regime_stable \<Rightarrow> 9/10 | Regime_trending \<Rightarrow> 1 | _ \<Rightarrow> 125/100) \<le> min (sd_bid_spread_bps (decide b m i)) (sd_ask_spread_bps (decide b m i))"
    by (cases "detect m") (auto simp: decide_def Let_def case_prod_unfold)
  have side: "snd (neutralization i) = (if \<not> fst (neutralization i) then None
        else if ip_target_base_ratio i < ip_base_ratio i then Some ''sell'' else Some ''buy'')"
    by (auto simp: neutralization_def Let_def)
  show ?thesis
    unfolding decide_simps
    by (intro conjI spreads sizes side neutralization_iff(1)) (auto simp: placement_offset_def Let_def)
qed

lemma dynamic_spread_ge_1: "1 \<le> dynamic_spread b m r"
  by (simp add: dynamic_spread_def Let_def)

text \<open>A calmer regime never quotes a wider spread than a more nervous one, for the same market.\<close>

lemma dynamic_spread_mono_regime:
  assumes "0 \<le> b" "0 \<le> mi_realized_volatility m" "regime_multiplier r \<le> regime_multiplier r'"
  shows "dynamic_spread b m r \<le> dynamic_spread b m r'"
proof -
  have "0 \<le> b + mi_realized_volatility m * 10000 + max 0 (1 - min 1 (mi_top_of_book_depth m / 100000)) * b + \<bar>mi_orderbook_imbalance m\<bar> * b"
    using assms(1,2) by (intro add_nonneg_nonneg mult_nonneg_nonneg) auto
  from mult_left_mono[OF assms(3) this] show ?thesis by (auto simp: dynamic_spread_def Let_def)
qed

end
