(* ===== verification/Backtest.thy ===== *)
theory Backtest
  imports Risk Strategy "HOL-Library.Sublist" "HOL-Library.Multiset"
begin

text \<open>
  \<open>simulation/backtesting.py\<close>: the replay of recorded events through the strategy and the risk engine,
  and \<open>stress/testing.py\<close>: the statistics of a stress run. The simulator's trades go to the real risk
  engine, whose clock is an argument (\<open>clock n\<close> is the time at the \<open>n\<close>th event). The lemmas
  give the accounting of a replay, its independence of the order of the input, and the drawdown in
  terms of the whole equity curve.
\<close>

section \<open>Model\<close>

datatype ReplayEventType = Replay_ticker | Replay_trade | Replay_orderbook | Replay_fill

record ReplayEvent =
  ev_timestamp :: datetime
  ev_event_type :: ReplayEventType
  ev_symbol :: string
  ev_price :: decimal
  ev_quantity :: decimal
  ev_spread_bps :: float
  ev_volatility :: float
  ev_imbalance :: float
  ev_depth :: float

record SimulationState =
  ss_cash :: decimal
  ss_inventory :: decimal
  ss_realized_pnl :: decimal
  ss_fees :: decimal
  ss_decisions :: "StrategyDecision list"
  ss_rejected_orders :: nat

definition mark_to_market :: "SimulationState \<Rightarrow> decimal \<Rightarrow> decimal" where
  "mark_to_market st price = ss_cash st + ss_inventory st * price"

record SimulationResult =
  sr_final_equity :: decimal
  sr_realized_pnl :: decimal
  sr_inventory :: decimal
  sr_fees :: decimal
  sr_max_drawdown :: decimal
  sr_decision_count :: nat
  sr_rejected_orders :: nat

definition replay :: "ReplayEvent list \<Rightarrow> ReplayEvent list" where
  "replay events = sort_key ev_timestamp events"

record StrategySimulator =
  sim_base_spread :: float
  sim_risk :: RiskEngine
  sim_fee_bps :: decimal

definition event_decision :: "StrategySimulator \<Rightarrow> decimal \<Rightarrow> ReplayEvent \<Rightarrow> SimulationState \<Rightarrow> StrategyDecision" where
  "event_decision sim max_inventory_notional event st =
     (let equity = mark_to_market st (ev_price event);
          total_notional = \<bar>ss_inventory st * ev_price event\<bar>;
          base_ratio = (if equity > 0 then total_notional / max equity 1 else 0)
      in decide (sim_base_spread sim)
           \<lparr>mi_mid_price = ev_price event, mi_spread_bps = ev_spread_bps event, mi_realized_volatility = ev_volatility event,
            mi_orderbook_imbalance = ev_imbalance event, mi_trade_imbalance = 0, mi_top_of_book_depth = ev_depth event,
            mi_depth_slope = 0, mi_short_horizon_return_bps = 0\<rparr>
           \<lparr>ip_base_ratio = base_ratio, ip_target_base_ratio = 1/2, ip_exposure_notional = total_notional,
            ip_max_exposure_notional = max_inventory_notional\<rparr>)"

definition book_trade_event :: "decimal \<Rightarrow> string \<Rightarrow> decimal \<Rightarrow> decimal \<Rightarrow> SimulationState \<Rightarrow> SimulationState" where
  "book_trade_event fee_bps side price quantity st =
     (let amount = price * quantity; fee = amount * fee_bps / 10000
      in if side = ''buy''
         then st\<lparr>ss_cash := ss_cash st - (amount + fee), ss_inventory := ss_inventory st + quantity, ss_fees := ss_fees st + fee\<rparr>
         else st\<lparr>ss_cash := ss_cash st + (amount - fee), ss_inventory := ss_inventory st - quantity,
                 ss_realized_pnl := ss_realized_pnl st + (amount - fee), ss_fees := ss_fees st + fee\<rparr>)"

text \<open>The body of the replay loop; the state is the simulation's, the risk engine and the equity curve.\<close>

definition replay_event :: "(nat \<Rightarrow> datetime) \<Rightarrow> decimal \<Rightarrow> ReplayEvent \<Rightarrow> SimulationState \<times> StrategySimulator \<times> decimal list
    \<Rightarrow> SimulationState \<times> StrategySimulator \<times> decimal list" where
  "replay_event clock max_inventory_notional event s =
     (case s of (st, sim, equity_curve) \<Rightarrow>
       (let total_notional = \<bar>ss_inventory st * ev_price event\<bar>;
            decision = event_decision sim max_inventory_notional event st;
            curve = equity_curve @ [mark_to_market st (ev_price event)];
            st = st\<lparr>ss_decisions := ss_decisions st @ [decision]\<rparr>
        in if ev_event_type event = Replay_trade then
             (let side = (if sd_reduction_side decision = Some ''sell'' then ''sell'' else ''buy'');
                  quantity = min (ev_quantity event) (1/100)
              in case assert_order_allowed (clock (length curve)) (sim_risk sim)
                        \<lparr>ro_symbol = ev_symbol event, ro_side = side, ro_price = ev_price event, ro_quantity = quantity\<rparr>
                        total_notional total_notional 0 (ss_realized_pnl st) of
                   (Inl _, risk) \<Rightarrow> (st\<lparr>ss_rejected_orders := ss_rejected_orders st + 1\<rparr>, sim\<lparr>sim_risk := risk\<rparr>, curve)
                 | (Inr _, risk) \<Rightarrow> (book_trade_event (sim_fee_bps sim) side (ev_price event) quantity st, sim\<lparr>sim_risk := risk\<rparr>, curve))
           else (st, sim, curve)))"

fun drawdown_loop :: "decimal list \<Rightarrow> decimal \<Rightarrow> decimal \<Rightarrow> decimal" where
  "drawdown_loop [] peak worst = worst"
| "drawdown_loop (equity # rest) peak worst =
     (let peak' = max peak equity
      in drawdown_loop rest peak' (if peak' > 0 then max worst ((peak' - equity) / peak') else worst))"

definition max_drawdown :: "decimal list \<Rightarrow> decimal" where
  "max_drawdown equity_curve = drawdown_loop equity_curve 0 0"

definition run_simulation :: "(nat \<Rightarrow> datetime) \<Rightarrow> StrategySimulator \<Rightarrow> ReplayEvent list \<Rightarrow> decimal \<Rightarrow> decimal \<Rightarrow> decimal \<Rightarrow> SimulationResult \<times> StrategySimulator" where
  "run_simulation clock sim events initial_cash initial_inventory max_inventory_notional =
     (let start = \<lparr>ss_cash = initial_cash, ss_inventory = initial_inventory, ss_realized_pnl = 0, ss_fees = 0, ss_decisions = [], ss_rejected_orders = 0\<rparr>;
          ordered = replay events;
          (st, sim', curve) = fold (replay_event clock max_inventory_notional) ordered (start, sim, []);
          final_price = (if ordered \<noteq> [] then ev_price (last ordered) else 0)
      in (\<lparr>sr_final_equity = mark_to_market st final_price, sr_realized_pnl = ss_realized_pnl st, sr_inventory = ss_inventory st,
           sr_fees = ss_fees st, sr_max_drawdown = max_drawdown curve, sr_decision_count = length (ss_decisions st),
           sr_rejected_orders = ss_rejected_orders st\<rparr>, sim'))"

subsection \<open>Stress runs\<close>

record StressResult =
  st_name :: string
  st_operations :: int
  st_errors :: int
  st_latency_p50_ms :: float
  st_latency_p95_ms :: float
  st_throughput_per_second :: float

definition median :: "float list \<Rightarrow> float" where
  "median xs = (let n = length xs in if odd n then xs ! (n div 2) else (xs ! (n div 2 - 1) + xs ! (n div 2)) / 2)"

text \<open>\<open>elapsed\<close> is positive, as both callers take the maximum with a nanosecond.\<close>

definition stress_result :: "string \<Rightarrow> int \<Rightarrow> int \<Rightarrow> float list \<Rightarrow> float \<Rightarrow> StressResult" where
  "stress_result name operations errors latencies elapsed =
     (let sorted_latencies = (if latencies = [] then [0] else sort latencies);
          n = length sorted_latencies
      in \<lparr>st_name = name, st_operations = operations, st_errors = errors, st_latency_p50_ms = median sorted_latencies,
          st_latency_p95_ms = sorted_latencies ! min (n - 1) (n * 95 div 100), st_throughput_per_second = of_int operations / elapsed\<rparr>)"

fun fail_breaker :: "datetime \<Rightarrow> string \<Rightarrow> nat \<Rightarrow> RiskEngine \<Rightarrow> unit res \<times> RiskEngine" where
  "fail_breaker now name 0 risk = (Inr (), risk)"
| "fail_breaker now name (Suc n) risk =
     (case record_failure now name risk of (Inl e, risk') \<Rightarrow> (Inl e, risk') | (Inr _, risk') \<Rightarrow> fail_breaker now name n risk')"

definition circuit_breaker_test :: "datetime \<Rightarrow> RiskEngine \<Rightarrow> string \<Rightarrow> nat \<Rightarrow> bool res" where
  "circuit_breaker_test now risk breaker_name failures =
     (case fail_breaker now breaker_name failures risk of
        (Inl e, _) \<Rightarrow> Inl e
      | (Inr _, risk') \<Rightarrow> (case dict_get (re_breakers risk') breaker_name of
           None \<Rightarrow> Inl (KeyError breaker_name)
         | Some b \<Rightarrow> Inr (fst (cb_is_open now b))))"

section \<open>Accounting\<close>

text \<open>What a replay executed: side, price and quantity of every trade that passed the risk engine.\<close>

type_synonym sim_fill = "string \<times> decimal \<times> decimal"

definition fill_amount :: "sim_fill \<Rightarrow> decimal" where
  "fill_amount f = (case f of (side, price, quantity) \<Rightarrow> price * quantity)"

definition signed_quantity :: "sim_fill \<Rightarrow> decimal" where
  "signed_quantity f = (case f of (side, price, quantity) \<Rightarrow> if side = ''buy'' then quantity else - quantity)"

definition signed_amount :: "sim_fill \<Rightarrow> decimal" where
  "signed_amount f = (if fst f = ''buy'' then fill_amount f else - fill_amount f)"

definition fill_fee :: "decimal \<Rightarrow> sim_fill \<Rightarrow> decimal" where
  "fill_fee fee_bps f = fill_amount f * fee_bps / 10000"

definition trade_of :: "ReplayEvent \<Rightarrow> decimal \<times> decimal" where
  "trade_of event = (ev_price event, min (ev_quantity event) (1/100))"

abbreviation is_trade :: "ReplayEvent \<Rightarrow> bool" where
  "is_trade event \<equiv> ev_event_type event = Replay_trade"

definition accounted :: "decimal \<Rightarrow> decimal \<Rightarrow> decimal \<Rightarrow> ReplayEvent list \<Rightarrow> sim_fill list \<Rightarrow> SimulationState \<Rightarrow> bool" where
  "accounted fee_bps cash0 inventory0 events fills st \<longleftrightarrow>
     ss_cash st = cash0 - (\<Sum>f \<leftarrow> fills. signed_amount f) - (\<Sum>f \<leftarrow> fills. fill_fee fee_bps f)
   \<and> ss_inventory st = inventory0 + (\<Sum>f \<leftarrow> fills. signed_quantity f)
   \<and> ss_fees st = (\<Sum>f \<leftarrow> fills. fill_fee fee_bps f)
   \<and> ss_realized_pnl st = (\<Sum>f \<leftarrow> filter (\<lambda>f. fst f \<noteq> ''buy'') fills. fill_amount f - fill_fee fee_bps f)
   \<and> subseq (map snd fills) (map trade_of (filter is_trade events))
   \<and> length fills + ss_rejected_orders st = length (filter is_trade events)
   \<and> length (ss_decisions st) = length events"

lemma accounted_book:
  assumes "accounted fee_bps c i events fills st" "is_trade event"
  shows "accounted fee_bps c i (events @ [event]) (fills @ [(side, trade_of event)])
    (book_trade_event fee_bps side (ev_price event) (min (ev_quantity event) (1/100)) (st\<lparr>ss_decisions := ss_decisions st @ [d]\<rparr>))"
  using assms
  by (auto simp: accounted_def book_trade_event_def Let_def signed_amount_def signed_quantity_def fill_amount_def fill_fee_def trade_of_def
      algebra_simps intro: list_emb_append_mono)

lemma accounted_skip:
  assumes "accounted fee_bps c i events fills st"
  shows "is_trade event \<Longrightarrow> accounted fee_bps c i (events @ [event]) fills (st\<lparr>ss_decisions := ss_decisions st @ [d], ss_rejected_orders := ss_rejected_orders st + 1\<rparr>)"
    "\<not> is_trade event \<Longrightarrow> accounted fee_bps c i (events @ [event]) fills (st\<lparr>ss_decisions := ss_decisions st @ [d]\<rparr>)"
  using assms by (auto simp: accounted_def intro: list_emb_append2)

lemma replay_event_accounts:
  assumes "accounted (sim_fee_bps sim) c i events fills st"
  shows "\<exists>fills' st' sim' curve'. replay_event clock m event (st, sim, curve) = (st', sim', curve')
    \<and> accounted (sim_fee_bps sim) c i (events @ [event]) fills' st' \<and> sim_fee_bps sim' = sim_fee_bps sim"
proof (cases "is_trade event")
  case True
  define d where "d = event_decision sim m event st"
  define side where "side = (if sd_reduction_side d = Some ''sell'' then ''sell'' else ''buy'')"
  define quantity where "quantity = min (ev_quantity event) (1/100)"
  obtain r risk where "assert_order_allowed (clock (Suc (length curve))) (sim_risk sim)
      \<lparr>ro_symbol = ev_symbol event, ro_side = side, ro_price = ev_price event, ro_quantity = quantity\<rparr>
      \<bar>ss_inventory st * ev_price event\<bar> \<bar>ss_inventory st * ev_price event\<bar> 0 (ss_realized_pnl st) = (r, risk)"
    by (cases "assert_order_allowed (clock (Suc (length curve))) (sim_risk sim)
      \<lparr>ro_symbol = ev_symbol event, ro_side = side, ro_price = ev_price event, ro_quantity = quantity\<rparr>
      \<bar>ss_inventory st * ev_price event\<bar> \<bar>ss_inventory st * ev_price event\<bar> 0 (ss_realized_pnl st)")
  then show ?thesis
    using True accounted_book[OF assms True, of side d] accounted_skip(1)[OF assms True, of d]
    by (cases r) (auto simp: replay_event_def Let_def d_def side_def quantity_def)
next
  case False
  then show ?thesis
    using accounted_skip(2)[OF assms False] by (auto simp: replay_event_def Let_def)
qed

lemma replay_accounts:
  assumes "accounted (sim_fee_bps sim) c i done fills st"
  shows "\<exists>fills' st' sim' curve'. fold (replay_event clock m) events (st, sim, curve) = (st', sim', curve')
    \<and> accounted (sim_fee_bps sim) c i (done @ events) fills' st'"
  using assms
proof (induction events arbitrary: "done" fills st sim curve)
  case (Cons event events)
  obtain fills1 st1 sim1 curve1 where 1: "replay_event clock m event (st, sim, curve) = (st1, sim1, curve1)"
    "accounted (sim_fee_bps sim) c i (done @ [event]) fills1 st1" "sim_fee_bps sim1 = sim_fee_bps sim"
    using replay_event_accounts[OF Cons.prems] by blast
  show ?case using Cons.IH[of sim1 "done @ [event]" fills1 st1 curve1] 1 by simp
qed auto

text \<open>
  The result of a backtest is the initial position plus the trades it executed: at most one per
  trade event, in time order, at the event's price and at most 0.01 of its quantity, the others
  counted as rejected. The cash pays every buy, every fee and receives every sale; the realised pnl is
  the sum of all sale proceeds; every event is one decision.
\<close>

theorem backtest_accounting:
  "\<exists>fills. let r = fst (run_simulation clock sim events cash0 inventory0 m); fee = fill_fee (sim_fee_bps sim);
       trades = filter is_trade (replay events); price = (if events = [] then 0 else ev_price (last (replay events)))
     in subseq (map snd fills) (map trade_of trades) \<and> length fills + sr_rejected_orders r = length trades
      \<and> sr_decision_count r = length events
      \<and> sr_inventory r = inventory0 + (\<Sum>f \<leftarrow> fills. signed_quantity f) \<and> sr_fees r = (\<Sum>f \<leftarrow> fills. fee f)
      \<and> sr_final_equity r = cash0 - (\<Sum>f \<leftarrow> fills. signed_amount f) - sr_fees r + sr_inventory r * price
      \<and> sr_realized_pnl r = (\<Sum>f \<leftarrow> filter (\<lambda>f. fst f \<noteq> ''buy'') fills. fill_amount f - fee f)"
proof -
  let ?start = "\<lparr>ss_cash = cash0, ss_inventory = inventory0, ss_realized_pnl = 0, ss_fees = 0, ss_decisions = [], ss_rejected_orders = 0\<rparr>"
  have "accounted (sim_fee_bps sim) cash0 inventory0 [] [] ?start" by (simp add: accounted_def)
  from replay_accounts[OF this, of clock m "replay events" "[]"] obtain fills st sim' curve where
    r: "fold (replay_event clock m) (replay events) (?start, sim, []) = (st, sim', curve)"
    "accounted (sim_fee_bps sim) cash0 inventory0 (replay events) fills st"
    by auto
  have "replay events = [] \<longleftrightarrow> events = []" "length (replay events) = length events"
    by (simp_all add: replay_def) (metis length_0_conv length_sort)
  then show ?thesis
    using r(2) by (intro exI[of _ fills]) (simp add: run_simulation_def r(1) accounted_def mark_to_market_def Let_def)
qed

text \<open>
  The order in which the events are given does not matter when their times differ.
\<close>

theorem backtest_order_irrelevant:
  assumes "mset events = mset events'" "distinct (map ev_timestamp events)"
  shows "run_simulation clock sim events cash0 inventory0 m = run_simulation clock sim events' cash0 inventory0 m"
proof -
  have "inj_on ev_timestamp (set events)" using assms(2) by (simp add: distinct_map)
  then have "replay events = replay events'"
    unfolding replay_def by (intro sort_key_inj_key_eq) (simp_all add: assms(1))
  then show ?thesis by (simp add: run_simulation_def)
qed

section \<open>Drawdown\<close>

text \<open>The highest equity up to a point of the curve (zero at least), and the fall from it.\<close>

definition running_peak :: "decimal \<Rightarrow> decimal list \<Rightarrow> nat \<Rightarrow> decimal" where
  "running_peak peak curve j = Max (insert peak (set (take (Suc j) curve)))"

definition falls :: "decimal \<Rightarrow> decimal list \<Rightarrow> decimal set" where
  "falls peak curve = (\<lambda>j. (running_peak peak curve j - curve ! j) / running_peak peak curve j) ` {j. j < length curve \<and> 0 < running_peak peak curve j}"

lemma running_peak_Cons:
  "running_peak peak (e # rest) 0 = max peak e"
  "running_peak peak (e # rest) (Suc j) = running_peak (max peak e) rest j"
proof -
  have "set (take (Suc j) rest) = {} \<Longrightarrow> running_peak peak (e # rest) (Suc j) = running_peak (max peak e) rest j"
    by (simp add: running_peak_def)
  moreover have "set (take (Suc j) rest) \<noteq> {} \<Longrightarrow> running_peak peak (e # rest) (Suc j) = running_peak (max peak e) rest j"
    by (simp add: running_peak_def Max_insert max.assoc)
  ultimately show "running_peak peak (e # rest) (Suc j) = running_peak (max peak e) rest j" by blast
qed (simp add: running_peak_def)

lemma falls_Cons:
  "falls peak (e # rest) = (if 0 < max peak e then {(max peak e - e) / max peak e} else {}) \<union> falls (max peak e) rest"
proof -
  have "{j. j < length (e # rest) \<and> 0 < running_peak peak (e # rest) j} =
      (if 0 < max peak e then {0} else {}) \<union> Suc ` {j. j < length rest \<and> 0 < running_peak (max peak e) rest j}"
    by (auto simp: running_peak_Cons less_Suc_eq_0_disj)
  then show ?thesis unfolding falls_def by (simp add: image_Un image_image running_peak_Cons)
qed

lemma finite_falls: "finite (falls peak curve)"
  by (simp add: falls_def)

lemma drawdown_loop_eq: "drawdown_loop curve peak worst = Max (insert worst (falls peak curve))"
proof (induction curve arbitrary: peak worst)
  case (Cons e rest)
  have "Max (insert worst (insert a S)) = Max (insert (max worst a) S)" if "finite S" for a and S :: "decimal set"
    using that by (cases "S = {}") (auto simp: max.assoc)
  then show ?case using Cons finite_falls[of "max peak e" rest] by (auto simp: Let_def falls_Cons)
qed (simp add: falls_def)

text \<open>
  C39. The drawdown of an equity curve is the largest fall from the highest equity so far, over all
  points of the curve at which that is positive, and zero if there is none.
\<close>

theorem max_drawdown_exact:
  "max_drawdown curve = Max (insert 0 ((\<lambda>j. (Max (insert 0 (set (take (Suc j) curve))) - curve ! j) / Max (insert 0 (set (take (Suc j) curve)))) `
     {j. j < length curve \<and> 0 < Max (insert 0 (set (take (Suc j) curve)))}))"
  unfolding max_drawdown_def drawdown_loop_eq falls_def running_peak_def ..

section \<open>Stress results\<close>

lemma median_le_p95:
  assumes "sorted xs" "xs \<noteq> []"
  shows "median xs \<le> xs ! min (length xs - 1) (length xs * 95 div 100)"
proof -
  let ?n = "length xs"
  have n: "0 < ?n" using assms(2) by simp
  have k: "?n div 2 \<le> min (?n - 1) (?n * 95 div 100)" "min (?n - 1) (?n * 95 div 100) < ?n" using n by linarith+
  have a: "xs ! (?n div 2) \<le> xs ! min (?n - 1) (?n * 95 div 100)" using assms(1) k by (intro sorted_nth_mono) auto
  have b: "xs ! (?n div 2 - 1) \<le> xs ! (?n div 2)" using assms(1) n by (intro sorted_nth_mono) auto
  show ?thesis using a b by (auto simp: median_def Let_def)
qed

text \<open>
  The 95th percentile of a stress run is one of its latencies (zero without any) and not below the
  median, whatever the number of samples is.
\<close>

theorem stress_percentiles:
  "st_latency_p95_ms (stress_result name ops errors latencies elapsed) \<in> (if latencies = [] then {0} else set latencies)
   \<and> st_latency_p50_ms (stress_result name ops errors latencies elapsed) \<le> st_latency_p95_ms (stress_result name ops errors latencies elapsed)"
proof -
  define xs where "xs = (if latencies = [] then [0] else sort latencies)"
  have xs: "sorted xs" "xs \<noteq> []" "set xs = (if latencies = [] then {0} else set latencies)"
    by (auto simp: xs_def) (metis length_0_conv length_sort)
  then have "min (length xs - 1) (length xs * 95 div 100) < length xs" by (intro le_less_trans[OF min.cobounded1]) simp
  then have "xs ! min (length xs - 1) (length xs * 95 div 100) \<in> set xs" by (rule nth_mem)
  then show ?thesis using median_le_p95[OF xs(1,2)] xs(3) by (simp add: stress_result_def Let_def xs_def[symmetric])
qed

section \<open>Witnesses\<close>

theorem backtest_order_irrelevant_witness:
  "run_simulation (\<lambda>_. 0) \<lparr>sim_base_spread = 10, sim_risk = default_risk_engine, sim_fee_bps = 1\<rparr>
     [\<lparr>ev_timestamp = 2, ev_event_type = Replay_ticker, ev_symbol = ''A'', ev_price = 1, ev_quantity = 0, ev_spread_bps = 10, ev_volatility = 0, ev_imbalance = 0, ev_depth = 0\<rparr>,
      \<lparr>ev_timestamp = 1, ev_event_type = Replay_trade, ev_symbol = ''A'', ev_price = 2, ev_quantity = 1, ev_spread_bps = 10, ev_volatility = 0, ev_imbalance = 0, ev_depth = 0\<rparr>] 100 0 50 =
   run_simulation (\<lambda>_. 0) \<lparr>sim_base_spread = 10, sim_risk = default_risk_engine, sim_fee_bps = 1\<rparr>
     [\<lparr>ev_timestamp = 1, ev_event_type = Replay_trade, ev_symbol = ''A'', ev_price = 2, ev_quantity = 1, ev_spread_bps = 10, ev_volatility = 0, ev_imbalance = 0, ev_depth = 0\<rparr>,
      \<lparr>ev_timestamp = 2, ev_event_type = Replay_ticker, ev_symbol = ''A'', ev_price = 1, ev_quantity = 0, ev_spread_bps = 10, ev_volatility = 0, ev_imbalance = 0, ev_depth = 0\<rparr>] 100 0 50"
  by (rule backtest_order_irrelevant) simp_all

end
