(* ===== verification/Canary.thy ===== *)
theory Canary
  imports Exec_Models
begin

text \<open>
  Staged launch control (\<open>production/canary.py\<close>): the controller decides, for the launch mode and
  the running totals, whether an order is accepted and whether it may be executed on a venue, and
  latches a shutdown the first time a limit is exceeded.
\<close>

datatype LaunchMode = Mode_read_only | Mode_shadow | Mode_paper | Mode_dry_run | Mode_canary | Mode_live

fun value_of_mode :: "LaunchMode \<Rightarrow> string" where
  "value_of_mode Mode_read_only = ''read_only''"
| "value_of_mode Mode_shadow = ''shadow''"
| "value_of_mode Mode_paper = ''paper''"
| "value_of_mode Mode_dry_run = ''dry_run''"
| "value_of_mode Mode_canary = ''canary''"
| "value_of_mode Mode_live = ''live''"

record CanaryPolicy =
  cp_max_position_notional :: decimal
  cp_max_daily_loss :: decimal
  cp_max_order_count :: int
  cp_max_inventory_notional :: decimal
  cp_max_order_notional :: decimal
  cp_allowed_order_types :: "ExecutionOrderType list"

record CanaryState =
  cs_mode :: LaunchMode
  cs_position_notional :: decimal
  cs_inventory_notional :: decimal
  cs_daily_pnl :: decimal
  cs_order_count :: int
  cs_trading_day :: int
  cs_kill_switch_active :: bool
  cs_shutdown_reason :: "string option"

record CanaryDecision =
  cd_accepted :: bool
  cd_execution_allowed :: bool
  cd_reason :: string
  cd_mode :: LaunchMode

record CanaryController =
  cc_policy :: CanaryPolicy
  cc_state :: CanaryState

definition CanaryState_init :: "int \<Rightarrow> LaunchMode \<Rightarrow> CanaryState" where
  "CanaryState_init today mode = \<lparr>cs_mode = mode, cs_position_notional = 0, cs_inventory_notional = 0, cs_daily_pnl = 0,
     cs_order_count = 0, cs_trading_day = today, cs_kill_switch_active = False, cs_shutdown_reason = None\<rparr>"

definition roll_day_if_needed :: "int \<Rightarrow> CanaryController \<Rightarrow> CanaryController" where
  "roll_day_if_needed today c =
     (if cs_trading_day (cc_state c) \<noteq> today
      then c\<lparr>cc_state := (cc_state c)\<lparr>cs_trading_day := today, cs_order_count := 0, cs_daily_pnl := 0\<rparr>\<rparr>
      else c)"

definition activate_shutdown :: "string \<Rightarrow> CanaryController \<Rightarrow> CanaryController" where
  "activate_shutdown reason c =
     c\<lparr>cc_state := (cc_state c)\<lparr>cs_kill_switch_active := True, cs_shutdown_reason := Some reason\<rparr>\<rparr>"

definition automatic_shutdown_reason :: "CanaryController \<Rightarrow> OrderIntent option \<Rightarrow> string option" where
  "automatic_shutdown_reason c intent =
     (let st = cc_state c; po = cc_policy c
      in if \<bar>cs_position_notional st\<bar> > cp_max_position_notional po then Some ''max_position_limit_exceeded''
         else if cs_inventory_notional st > cp_max_inventory_notional po then Some ''max_inventory_limit_exceeded''
         else if cs_daily_pnl st \<le> - \<bar>cp_max_daily_loss po\<bar> then Some ''max_daily_loss_exceeded''
         else if cs_order_count st \<ge> cp_max_order_count po then Some ''max_order_count_exceeded''
         else (case intent of
             None \<Rightarrow> None
           | Some i \<Rightarrow>
               if price_or_zero i * oi_quantity i > cp_max_order_notional po then Some ''max_order_notional_exceeded''
               else if oi_order_type i \<notin> set (cp_allowed_order_types po) then Some ''order_type_not_allowed_in_canary''
               else None))"

definition evaluate :: "int \<Rightarrow> CanaryController \<Rightarrow> OrderIntent option \<Rightarrow> CanaryDecision \<times> CanaryController" where
  "evaluate today c intent =
     (let c = roll_day_if_needed today c; mode = cs_mode (cc_state c)
      in if cs_kill_switch_active (cc_state c)
         then (\<lparr>cd_accepted = False, cd_execution_allowed = False,
                 cd_reason = (case cs_shutdown_reason (cc_state c) of None \<Rightarrow> ''kill_switch_active''
                    | Some r \<Rightarrow> if r = [] then ''kill_switch_active'' else r), cd_mode = mode\<rparr>, c)
         else (case automatic_shutdown_reason c intent of
             Some reason \<Rightarrow> (\<lparr>cd_accepted = False, cd_execution_allowed = False, cd_reason = reason, cd_mode = mode\<rparr>, activate_shutdown reason c)
           | None \<Rightarrow>
               if mode = Mode_read_only
               then (\<lparr>cd_accepted = False, cd_execution_allowed = False, cd_reason = ''read_only_mode'', cd_mode = mode\<rparr>, c)
               else if mode \<in> {Mode_shadow, Mode_paper, Mode_dry_run}
               then (\<lparr>cd_accepted = True, cd_execution_allowed = False, cd_reason = value_of_mode mode @ ''_no_external_execution'', cd_mode = mode\<rparr>, c)
               else (\<lparr>cd_accepted = True, cd_execution_allowed = True, cd_reason = ''execution_allowed'', cd_mode = mode\<rparr>, c)))"

definition canary_record_order :: "int \<Rightarrow> CanaryController \<Rightarrow> OrderIntent \<Rightarrow> CanaryDecision \<times> CanaryController" where
  "canary_record_order today c intent =
     (let (d, c) = evaluate today c (Some intent)
      in if cd_accepted d
         then let notional = price_or_zero intent * oi_quantity intent;
                  position = cs_position_notional (cc_state c) + (if oi_side intent = Side_buy then notional else - notional)
              in (d, c\<lparr>cc_state := (cc_state c)\<lparr>cs_order_count := cs_order_count (cc_state c) + 1,
                       cs_position_notional := position, cs_inventory_notional := \<bar>position\<bar>\<rparr>\<rparr>)
         else (d, c))"

definition reset_after_approval :: "LaunchMode \<Rightarrow> CanaryController \<Rightarrow> CanaryController" where
  "reset_after_approval mode c =
     c\<lparr>cc_state := (cc_state c)\<lparr>cs_mode := mode, cs_kill_switch_active := False, cs_shutdown_reason := None, cs_order_count := 0\<rparr>\<rparr>"

section \<open>Decisions\<close>

lemma evaluate_policy [simp]: "cc_policy (snd (evaluate today c intent)) = cc_policy c"
  by (auto simp: evaluate_def roll_day_if_needed_def activate_shutdown_def Let_def split: option.splits)

lemma evaluate_mode [simp]: "cs_mode (cc_state (snd (evaluate today c intent))) = cs_mode (cc_state c)"
  by (auto simp: evaluate_def roll_day_if_needed_def activate_shutdown_def Let_def split: option.splits)

lemma evaluate_position [simp]:
  "cs_position_notional (cc_state (snd (evaluate today c intent))) = cs_position_notional (cc_state c)"
  "cs_inventory_notional (cc_state (snd (evaluate today c intent))) = cs_inventory_notional (cc_state c)"
  by (auto simp: evaluate_def roll_day_if_needed_def activate_shutdown_def Let_def split: option.splits)

lemma evaluate_order_count:
  "cs_order_count (cc_state (snd (evaluate today c intent))) =
     (if cs_trading_day (cc_state c) \<noteq> today then 0 else cs_order_count (cc_state c))"
  by (auto simp: evaluate_def roll_day_if_needed_def activate_shutdown_def Let_def split: option.splits)

lemma roll_day_latch [simp]:
  "cs_kill_switch_active (cc_state (roll_day_if_needed today c)) = cs_kill_switch_active (cc_state c)"
  by (simp add: roll_day_if_needed_def)

lemma evaluate_accepted:
  "cd_accepted (fst (evaluate today c intent)) \<longleftrightarrow>
     \<not> cs_kill_switch_active (cc_state c) \<and> automatic_shutdown_reason (roll_day_if_needed today c) intent = None
     \<and> cs_mode (cc_state c) \<noteq> Mode_read_only"
  by (auto simp: evaluate_def Let_def roll_day_if_needed_def split: option.splits)

lemma automatic_shutdown_None:
  assumes "automatic_shutdown_reason c intent = None"
  shows "\<bar>cs_position_notional (cc_state c)\<bar> \<le> cp_max_position_notional (cc_policy c)"
    "cs_inventory_notional (cc_state c) \<le> cp_max_inventory_notional (cc_policy c)"
    "- \<bar>cp_max_daily_loss (cc_policy c)\<bar> < cs_daily_pnl (cc_state c)"
    "cs_order_count (cc_state c) < cp_max_order_count (cc_policy c)"
    "intent = Some i \<Longrightarrow> price_or_zero i * oi_quantity i \<le> cp_max_order_notional (cc_policy c)"
    "intent = Some i \<Longrightarrow> oi_order_type i \<in> set (cp_allowed_order_types (cc_policy c))"
  using assms by (auto simp: automatic_shutdown_reason_def Let_def split: if_splits option.splits)

lemma execution_allowed_facts:
  assumes "cd_execution_allowed (fst (evaluate today c (Some i)))"
  shows "cs_mode (cc_state c) \<in> {Mode_canary, Mode_live} \<and> \<not> cs_kill_switch_active (cc_state c)
    \<and> cd_accepted (fst (evaluate today c (Some i)))
    \<and> price_or_zero i * oi_quantity i \<le> cp_max_order_notional (cc_policy c)
    \<and> oi_order_type i \<in> set (cp_allowed_order_types (cc_policy c))
    \<and> \<bar>cs_position_notional (cc_state c)\<bar> \<le> cp_max_position_notional (cc_policy c)
    \<and> cs_inventory_notional (cc_state c) \<le> cp_max_inventory_notional (cc_policy c)"
proof -
  have acc: "cd_accepted (fst (evaluate today c (Some i)))" and mode: "cs_mode (cc_state c) \<in> {Mode_canary, Mode_live}"
    using assms by (cases "cs_mode (cc_state c)"; auto simp: evaluate_def roll_day_if_needed_def Let_def split: option.splits if_splits)+
  have n: "automatic_shutdown_reason (roll_day_if_needed today c) (Some i) = None" and k: "\<not> cs_kill_switch_active (cc_state c)"
    using acc by (auto simp: evaluate_accepted)
  have c: "cc_policy (roll_day_if_needed today c) = cc_policy c"
    "cs_position_notional (cc_state (roll_day_if_needed today c)) = cs_position_notional (cc_state c)"
    "cs_inventory_notional (cc_state (roll_day_if_needed today c)) = cs_inventory_notional (cc_state c)"
    by (simp_all add: roll_day_if_needed_def)
  from acc mode k automatic_shutdown_None[OF n] show ?thesis by (simp add: c)
qed

text \<open>
  Execution on a venue is authorised only in canary or live mode, only with the kill switch
  off, and only for an order of an allowed type whose notional, together with the position,
  inventory, daily result and order count kept by the controller, is inside every limit of the
  policy.
\<close>

theorem execution_allowed_sound:
  assumes "cd_execution_allowed (fst (evaluate today c (Some i)))"
  shows "cs_mode (cc_state c) \<in> {Mode_canary, Mode_live} \<and> \<not> cs_kill_switch_active (cc_state c)
    \<and> cd_accepted (fst (evaluate today c (Some i)))
    \<and> price_or_zero i * oi_quantity i \<le> cp_max_order_notional (cc_policy c)
    \<and> oi_order_type i \<in> set (cp_allowed_order_types (cc_policy c))
    \<and> \<bar>cs_position_notional (cc_state c)\<bar> \<le> cp_max_position_notional (cc_policy c)
    \<and> cs_inventory_notional (cc_state c) \<le> cp_max_inventory_notional (cc_policy c)"
  using assms by (rule execution_allowed_facts)

section \<open>The controller as a system of steps\<close>

datatype canary_event =
    Ca_evaluate int "OrderIntent option"
  | Ca_record int OrderIntent
  | Ca_shutdown string
  | Ca_reset LaunchMode

fun canary_step :: "canary_event \<Rightarrow> CanaryController \<Rightarrow> CanaryController" where
  "canary_step (Ca_evaluate today i) c = snd (evaluate today c i)"
| "canary_step (Ca_record today i) c = snd (canary_record_order today c i)"
| "canary_step (Ca_shutdown r) c = activate_shutdown r c"
| "canary_step (Ca_reset m) c = reset_after_approval m c"

fun approves :: "canary_event \<Rightarrow> bool" where
  "approves (Ca_reset m) = True"
| "approves _ = False"

text \<open>
  Inventory is the absolute position, and an open controller never holds more than one order's
  notional above the position limit.
\<close>

definition canary_inv :: "CanaryController \<Rightarrow> bool" where
  "canary_inv c \<longleftrightarrow> cs_inventory_notional (cc_state c) = \<bar>cs_position_notional (cc_state c)\<bar>
     \<and> 0 \<le> cp_max_order_notional (cc_policy c)
     \<and> \<bar>cs_position_notional (cc_state c)\<bar> \<le> max 0 (cp_max_position_notional (cc_policy c)) + cp_max_order_notional (cc_policy c)
     \<and> cs_order_count (cc_state c) \<le> max 0 (cp_max_order_count (cc_policy c))"

fun event_nonneg :: "canary_event \<Rightarrow> bool" where
  "event_nonneg (Ca_record today i) \<longleftrightarrow> 0 \<le> price_or_zero i * oi_quantity i"
| "event_nonneg _ \<longleftrightarrow> True"

lemma canary_inv_evaluate: "canary_inv c \<Longrightarrow> canary_inv (snd (evaluate today c i))"
  by (simp add: canary_inv_def evaluate_order_count)

lemma evaluate_accepted_state: "cd_accepted (fst (evaluate today c i)) \<Longrightarrow> snd (evaluate today c i) = roll_day_if_needed today c"
  by (auto simp: evaluate_def Let_def split: option.splits if_splits)

lemma canary_inv_record:
  assumes "canary_inv c" "0 \<le> price_or_zero i * oi_quantity i"
  shows "canary_inv (snd (canary_record_order today c i))"
proof (cases "cd_accepted (fst (evaluate today c (Some i)))")
  case False
  then show ?thesis using canary_inv_evaluate[OF assms(1)] by (simp add: canary_record_order_def case_prod_unfold Let_def)
next
  case True
  then have n: "automatic_shutdown_reason (roll_day_if_needed today c) (Some i) = None" by (simp add: evaluate_accepted)
  have st: "snd (evaluate today c (Some i)) = roll_day_if_needed today c" by (rule evaluate_accepted_state[OF True])
  show ?thesis
    using True assms automatic_shutdown_None(1,4)[OF n] automatic_shutdown_None(5)[OF n, of i]
    by (auto simp: canary_record_order_def case_prod_unfold Let_def st canary_inv_def roll_day_if_needed_def max_def abs_if split: if_splits)
qed

lemma canary_inv_step: "canary_inv c \<Longrightarrow> event_nonneg ev \<Longrightarrow> canary_inv (canary_step ev c)"
  by (cases ev) (auto simp: canary_inv_evaluate canary_inv_record, auto simp: canary_inv_def activate_shutdown_def reset_after_approval_def)

definition guarded_step :: "canary_event \<Rightarrow> CanaryController \<Rightarrow> CanaryController" where
  "guarded_step ev c = (if event_nonneg ev then canary_step ev c else c)"

lemma guarded_run: "\<forall>ev \<in> set evs. event_nonneg ev \<Longrightarrow> run guarded_step evs c = run canary_step evs c"
  by (induction evs arbitrary: c) (auto simp: guarded_step_def)

interpretation canary_sys: step_system guarded_step canary_inv
  by unfold_locales (simp add: guarded_step_def canary_inv_step)

interpretation canary_latch: latch_system canary_step "\<lambda>_. True" "\<lambda>c. cs_kill_switch_active (cc_state c)" approves
proof unfold_locales
  show "cs_kill_switch_active (cc_state c) \<Longrightarrow> \<not> approves ev \<Longrightarrow> cs_kill_switch_active (cc_state (canary_step ev c))" for ev c
    by (cases ev) (auto simp: canary_record_order_def evaluate_def activate_shutdown_def case_prod_unfold Let_def)
qed simp

text \<open>
  A canary shutdown is final until it is approved away: after it, no sequence of evaluations,
  recorded orders, day changes and further shutdowns makes the controller accept an order, unless
  \<open>reset_after_approval\<close> is among them.
\<close>

theorem canary_shutdown_is_final:
  assumes "cs_kill_switch_active (cc_state c)" "\<And>ev. ev \<in> set evs \<Longrightarrow> \<not> approves ev"
  shows "\<not> cd_accepted (fst (evaluate today (run canary_step evs c) intent))
    \<and> \<not> cd_execution_allowed (fst (evaluate today (run canary_step evs c) intent))"
  using canary_latch.run_latched[OF TrueI assms] by (auto simp: evaluate_def Let_def)

text \<open>
  The exposure recorded by the controller is bounded by its policy: starting from a fresh
  state, after any sequence of operations with orders of non-negative notional, the absolute
  position never exceeds the position limit by more than one order's limit, the inventory equals
  the absolute position, and the order count never exceeds its limit.
\<close>

theorem canary_exposure_bounded:
  assumes "0 \<le> cp_max_order_notional po" "0 \<le> cp_max_position_notional po" "0 \<le> cp_max_order_count po"
    and "\<forall>ev \<in> set evs. event_nonneg ev" and "c = run canary_step evs \<lparr>cc_policy = po, cc_state = CanaryState_init today mode\<rparr>"
  shows "\<bar>cs_position_notional (cc_state c)\<bar> \<le> cp_max_position_notional po + cp_max_order_notional po
    \<and> cs_inventory_notional (cc_state c) = \<bar>cs_position_notional (cc_state c)\<bar>
    \<and> cs_order_count (cc_state c) \<le> cp_max_order_count po"
proof -
  have po: "cc_policy (run canary_step evs c0) = cc_policy c0" for c0
  proof (induction evs arbitrary: c0)
    case (Cons ev evs)
    have "cc_policy (canary_step ev c0) = cc_policy c0"
      by (cases ev) (auto simp: activate_shutdown_def reset_after_approval_def canary_record_order_def case_prod_unfold Let_def)
    with Cons show ?case by simp
  qed simp
  have "canary_inv \<lparr>cc_policy = po, cc_state = CanaryState_init today mode\<rparr>"
    using assms(1-3) by (simp add: canary_inv_def CanaryState_init_def)
  from canary_sys.run_inv[OF this, of evs] have "canary_inv c"
    using assms(4,5) by (simp add: guarded_run)
  with po assms show ?thesis by (simp add: canary_inv_def)
qed

section \<open>Witnesses\<close>

definition example_policy :: CanaryPolicy where
  "example_policy = \<lparr>cp_max_position_notional = 2500, cp_max_daily_loss = 100, cp_max_order_count = 10, cp_max_inventory_notional = 2500,
     cp_max_order_notional = 1000, cp_allowed_order_types = [Type_limit, Type_post_only]\<rparr>"

definition example_intent :: OrderIntent where
  "example_intent = \<lparr>oi_venue = Venue_coinstore, oi_symbol = ''BTC/USDT'', oi_side = Side_buy, oi_order_type = Type_limit, oi_quantity = 1/100,
     oi_price = Some 50000, oi_client_order_id = ''a'', oi_time_in_force = TIF_gtc, oi_reduce_only = False, oi_metadata = []\<rparr>"

theorem execution_allowed_sound_witness:
  "price_or_zero example_intent * oi_quantity example_intent \<le> cp_max_order_notional example_policy"
  using execution_allowed_sound[of 1 "\<lparr>cc_policy = example_policy, cc_state = CanaryState_init 1 Mode_live\<rparr>" example_intent]
  by (simp add: evaluate_def automatic_shutdown_reason_def roll_day_if_needed_def CanaryState_init_def example_policy_def example_intent_def
      price_or_zero_def Let_def)

theorem canary_shutdown_is_final_witness:
  "\<not> cd_accepted (fst (evaluate 5 (run canary_step [Ca_evaluate 2 None, Ca_record 3 example_intent]
      (activate_shutdown ''drill'' \<lparr>cc_policy = example_policy, cc_state = CanaryState_init 1 Mode_live\<rparr>)) (Some example_intent)))"
  by (rule canary_shutdown_is_final[THEN conjunct1]) (auto simp: activate_shutdown_def)

theorem canary_exposure_bounded_witness:
  "\<bar>cs_position_notional (cc_state (run canary_step [Ca_record 1 example_intent] \<lparr>cc_policy = example_policy, cc_state = CanaryState_init 1 Mode_live\<rparr>))\<bar> \<le> 3500"
proof -
  have "\<forall>ev \<in> set [Ca_record 1 example_intent]. event_nonneg ev" by (simp add: example_intent_def price_or_zero_def)
  moreover have po: "cp_max_order_notional example_policy = 1000" "cp_max_position_notional example_policy = 2500" "cp_max_order_count example_policy = 10"
    by (simp_all add: example_policy_def)
  ultimately show ?thesis
    using canary_exposure_bounded[of example_policy "[Ca_record 1 example_intent]", OF _ _ _ _ refl, of 1 Mode_live] by (simp only: po) simp
qed

end
