(* ===== verification/Paper.thy ===== *)
theory Paper
  imports Db Reconciliation
begin

text \<open>
  \<open>execution/paper.py\<close>: the paper trading engine. Orders live in memory and are matched against
  order book snapshots; every change is written to the database. An operation is a state
  transformer on the engine (which holds its session) and keeps its mutations when it raises.
  An operation runs without being interleaved with another one, and reads the clock once.

  The lemmas show that fills respect the limit price and the remaining quantity, that the account
  is the sum of the fills, and that on every well-formed database each operation succeeds and
  leaves the database rows equal to the orders and fills in memory.
\<close>

section \<open>Model\<close>

record PaperOrder =
  pap_intent :: OrderIntent
  pap_status :: string
  pap_exchange_order_id :: string
  pap_filled_quantity :: decimal
  pap_average_price :: "decimal option"
  pap_created_at :: datetime
  pap_updated_at :: datetime

definition remaining_quantity :: "PaperOrder \<Rightarrow> decimal" where
  "remaining_quantity order = max 0 (oi_quantity (pap_intent order) - pap_filled_quantity order)"

abbreviation pap_id :: "PaperOrder \<Rightarrow> string" where
  "pap_id order \<equiv> oi_client_order_id (pap_intent order)"

record PaperFill =
  pf_trade_id :: string
  pf_client_order_id :: string
  pf_symbol :: string
  pf_side :: ExecutionSide
  pf_price :: decimal
  pf_quantity :: decimal
  pf_fee :: decimal
  pf_executed_at :: datetime

record PaperAccountState =
  pa_cash :: decimal
  pa_base_asset :: string
  pa_quote_asset :: string
  pa_balances :: "(string, decimal) dict"
  pa_realized_pnl :: decimal
  pa_fees :: decimal

record PaperExecutionEngine =
  pe_session :: session
  pe_account :: PaperAccountState
  pe_fee_bps :: decimal
  pe_open_orders :: "(string, PaperOrder) dict"
  pe_fills :: "PaperFill list"
  pe_last_mark_price :: decimal
  pe_exchange_account_id :: "uuid option"
  pe_trading_pair_ids :: "(string, uuid) dict"

definition PaperExecutionEngine_init ::
  "session \<Rightarrow> decimal \<Rightarrow> string \<Rightarrow> string \<Rightarrow> decimal \<Rightarrow> PaperExecutionEngine" where
  "PaperExecutionEngine_init session starting_cash base_asset quote_asset fee_bps =
     \<lparr>pe_session = session,
      pe_account = \<lparr>pa_cash = starting_cash, pa_base_asset = base_asset, pa_quote_asset = quote_asset,
        pa_balances = dict_set base_asset 0 [(quote_asset, starting_cash)], pa_realized_pnl = 0, pa_fees = 0\<rparr>,
      pe_fee_bps = fee_bps, pe_open_orders = [], pe_fills = [], pe_last_mark_price = 0,
      pe_exchange_account_id = None, pe_trading_pair_ids = []\<rparr>"

type_synonym 'a paper_op = "(PaperExecutionEngine, 'a) op"

definition on_session :: "(session, 'a) op \<Rightarrow> 'a paper_op" where
  "on_session = zoom pe_session (\<lambda>t s. s\<lparr>pe_session := t\<rparr>)"

definition fresh_uuid :: "uuid paper_op" where
  "fresh_uuid = on_session uuid4"

definition balance_of :: "PaperAccountState \<Rightarrow> string \<Rightarrow> decimal" where
  "balance_of account asset = dict_get_or (pa_balances account) asset 0"

definition base_quantity :: "PaperExecutionEngine \<Rightarrow> decimal" where
  "base_quantity s = balance_of (pe_account s) (pa_base_asset (pe_account s))"

definition unrealized_pnl :: "PaperExecutionEngine \<Rightarrow> decimal" where
  "unrealized_pnl s = base_quantity s * pe_last_mark_price s"

definition exposure_notional :: "PaperExecutionEngine \<Rightarrow> decimal" where
  "exposure_notional s = \<bar>base_quantity s * pe_last_mark_price s\<bar>"

subsection \<open>Persistence\<close>

definition is_paper_account :: "ExchangeAccountRow \<Rightarrow> bool" where
  "is_paper_account row \<longleftrightarrow> ea_exchange_name row = ''paper'' \<and> ea_account_alias row = ''paper'' \<and> ea_environment row = ''sandbox''"

text \<open>The time stamp of the paper account is never read.\<close>

definition ensure_exchange_account :: "uuid paper_op" where
  "ensure_exchange_account =
     bindm (reads pe_exchange_account_id) (\<lambda>known. case known of
       Some account_id \<Rightarrow> ret account_id
     | None \<Rightarrow>
         bindm (reads (\<lambda>s. filter is_paper_account (tbl_exchange_accounts (pe_session s)))) (\<lambda>rows.
         bindm (lift_res (scalar_one_or_none rows)) (\<lambda>found.
         bindm (case found of
             Some row \<Rightarrow> ret (ea_id row)
           | None \<Rightarrow> bindm fresh_uuid (\<lambda>u. seqm
               (modifies (\<lambda>s. s\<lparr>pe_session := (pe_session s)\<lparr>tbl_exchange_accounts := tbl_exchange_accounts (pe_session s) @
                  [ExchangeAccount_new u 0 ''paper'' ''paper'' ''sandbox'' ''paper'' ''paper'' None ''paper'' [] True]\<rparr>\<rparr>))
               (ret u))) (\<lambda>account_id.
         seqm (modifies (\<lambda>s. s\<lparr>pe_exchange_account_id := Some account_id\<rparr>)) (ret account_id)))))"

definition is_paper_pair :: "string \<Rightarrow> TradingPairRow \<Rightarrow> bool" where
  "is_paper_pair symbol row \<longleftrightarrow> tp_exchange_name row = ''paper'' \<and> tp_normalized_symbol row = symbol"

text \<open>\<open>base, quote = symbol.split("/", 1)\<close> fails on a symbol without a slash.\<close>

definition split_symbol :: "string \<Rightarrow> (string \<times> string) res" where
  "split_symbol symbol =
     (if CHR ''/'' \<in> set symbol
      then Inr (takeWhile (\<lambda>c. c \<noteq> CHR ''/'') symbol, tl (dropWhile (\<lambda>c. c \<noteq> CHR ''/'') symbol))
      else Inl (ValueError ''not enough values to unpack''))"

definition new_pair :: "uuid \<Rightarrow> string \<Rightarrow> string \<times> string \<Rightarrow> TradingPairRow" where
  "new_pair u symbol assets =
     \<lparr>tp_id = u, tp_exchange_name = ''paper'', tp_base_asset = fst assets, tp_quote_asset = snd assets,
      tp_normalized_symbol = symbol, tp_venue_symbol = remove_char (CHR ''/'') symbol,
      tp_price_precision = 8, tp_quantity_precision = 8, tp_min_order_size = Some (1 / 100000000),
      tp_min_notional = Some 0, tp_tick_size = Some (1 / 100000000), tp_lot_size = Some (1 / 100000000),
      tp_is_enabled = True\<rparr>"

definition ensure_trading_pair :: "string \<Rightarrow> uuid paper_op" where
  "ensure_trading_pair symbol =
     bindm (reads (\<lambda>s. dict_get (pe_trading_pair_ids s) symbol)) (\<lambda>known. case known of
       Some pair_id \<Rightarrow> ret pair_id
     | None \<Rightarrow>
         bindm (reads (\<lambda>s. filter (is_paper_pair symbol) (tbl_trading_pairs (pe_session s)))) (\<lambda>rows.
         bindm (lift_res (scalar_one_or_none rows)) (\<lambda>found.
         bindm (case found of
             Some row \<Rightarrow> ret (tp_id row)
           | None \<Rightarrow> bindm (lift_res (split_symbol symbol)) (\<lambda>assets. bindm fresh_uuid (\<lambda>u. seqm
               (modifies (\<lambda>s. s\<lparr>pe_session := (pe_session s)\<lparr>tbl_trading_pairs := tbl_trading_pairs (pe_session s) @ [new_pair u symbol assets]\<rparr>\<rparr>))
               (ret u)))) (\<lambda>pair_id.
         seqm (modifies (\<lambda>s. s\<lparr>pe_trading_pair_ids := dict_set symbol pair_id (pe_trading_pair_ids s)\<rparr>)) (ret pair_id)))))"

definition paper_status_map :: "(string, OrderStatus) dict" where
  "paper_status_map =
     [(''NEW'', OS_created), (''ACKNOWLEDGED'', OS_open), (''PARTIAL_FILL'', OS_partially_filled),
      (''FILLED'', OS_filled), (''CANCELLED'', OS_cancelled), (''REPLACED'', OS_cancelled)]"

definition paper_status :: "string \<Rightarrow> OrderStatus res" where
  "paper_status status = (case dict_get paper_status_map status of None \<Rightarrow> Inl (KeyError status) | Some x \<Rightarrow> Inr x)"

definition new_order_row :: "datetime \<Rightarrow> uuid \<Rightarrow> uuid \<Rightarrow> uuid \<Rightarrow> OrderStatus \<Rightarrow> PaperOrder \<Rightarrow> OrderRow" where
  "new_order_row now u account_id pair_id status order =
     \<lparr>or_id = u, or_client_order_id = pap_id order, or_exchange_order_id = Some (pap_exchange_order_id order),
      or_exchange_account_id = account_id, or_trading_pair_id = pair_id, or_side = oi_side (pap_intent order),
      or_order_type = Type_limit, or_status = status, or_price = oi_price (pap_intent order),
      or_quantity = oi_quantity (pap_intent order), or_filled_quantity = pap_filled_quantity order,
      or_average_fill_price = pap_average_price order, or_fee_amount = 0,
      or_metadata_json = dict_merge [(''mode'', MStr ''paper'')] (oi_metadata (pap_intent order)), or_metadata_raw = None,
      or_created_at = now, or_updated_at = now\<rparr>"

definition update_order_row :: "datetime \<Rightarrow> OrderStatus \<Rightarrow> PaperOrder \<Rightarrow> OrderRow \<Rightarrow> OrderRow" where
  "update_order_row now status order row =
     row\<lparr>or_status := status, or_price := oi_price (pap_intent order), or_quantity := oi_quantity (pap_intent order),
         or_filled_quantity := pap_filled_quantity order, or_average_fill_price := pap_average_price order,
         or_metadata_json := dict_merge (dict_merge (or_metadata_json row) [(''mode'', MStr ''paper'')]) (oi_metadata (pap_intent order)),
         or_updated_at := now\<rparr>"

definition order_rows :: "string \<Rightarrow> PaperExecutionEngine \<Rightarrow> OrderRow list" where
  "order_rows cid s = filter (\<lambda>row. or_client_order_id row = cid) (tbl_orders (pe_session s))"

definition persist_order :: "datetime \<Rightarrow> PaperOrder \<Rightarrow> unit paper_op" where
  "persist_order now order =
     bindm ensure_exchange_account (\<lambda>account_id.
     bindm (ensure_trading_pair (oi_symbol (pap_intent order))) (\<lambda>pair_id.
     bindm (reads (order_rows (pap_id order))) (\<lambda>rows.
     bindm (lift_res (scalar_one_or_none rows)) (\<lambda>found.
     bindm (lift_res (paper_status (pap_status order))) (\<lambda>status. case found of
       None \<Rightarrow> bindm fresh_uuid (\<lambda>u. modifies (\<lambda>s. s\<lparr>pe_session := (pe_session s)\<lparr>tbl_orders :=
           tbl_orders (pe_session s) @ [new_order_row now u account_id pair_id status order]\<rparr>\<rparr>))
     | Some row \<Rightarrow> modifies (\<lambda>s. s\<lparr>pe_session := (pe_session s)\<lparr>tbl_orders :=
           update_rows (\<lambda>row. or_client_order_id row = pap_id order) (update_order_row now status order) (tbl_orders (pe_session s))\<rparr>\<rparr>))))))"

definition persist_trade :: "PaperOrder \<Rightarrow> PaperFill \<Rightarrow> unit paper_op" where
  "persist_trade order fill =
     bindm ensure_exchange_account (\<lambda>account_id.
     bindm (ensure_trading_pair (pf_symbol fill)) (\<lambda>pair_id.
     bindm (reads (order_rows (pap_id order))) (\<lambda>rows.
     bindm (lift_res (scalar_one rows)) (\<lambda>order_row.
     bindm fresh_uuid (\<lambda>u.
     modifies (\<lambda>s. s\<lparr>pe_session := (pe_session s)\<lparr>tbl_trades := tbl_trades (pe_session s) @
       [\<lparr>tr_id = u, tr_order_id = or_id order_row, tr_exchange_trade_id = pf_trade_id fill,
         tr_exchange_account_id = account_id, tr_trading_pair_id = pair_id, tr_side = pf_side fill,
         tr_price = pf_price fill, tr_quantity = pf_quantity fill, tr_fee_amount = pf_fee fill,
         tr_fee_asset = Some (pa_quote_asset (pe_account s)), tr_traded_at = pf_executed_at fill,
         tr_metadata_json = [(''mode'', MStr ''paper'')], tr_metadata_raw = None\<rparr>]\<rparr>\<rparr>))))))"

definition position_key_of :: "PositionRow \<Rightarrow> uuid \<times> uuid \<times> string" where
  "position_key_of row = (po_exchange_account_id row, po_trading_pair_id row, po_asset row)"

definition mark_or_none :: "decimal \<Rightarrow> decimal option" where
  "mark_or_none m = (if m \<noteq> 0 then Some m else None)"

definition position_side :: "decimal \<Rightarrow> PositionSide" where
  "position_side q = (if q = 0 then PS_flat else if q > 0 then PS_long else PS_short)"

definition persist_position :: "string \<Rightarrow> unit paper_op" where
  "persist_position symbol =
     bindm ensure_exchange_account (\<lambda>account_id.
     bindm (ensure_trading_pair symbol) (\<lambda>pair_id.
     bindm (reads (\<lambda>s. (account_id, pair_id, pa_base_asset (pe_account s)))) (\<lambda>key.
     bindm (reads (\<lambda>s. filter (\<lambda>row. position_key_of row = key) (tbl_positions (pe_session s)))) (\<lambda>rows.
     bindm (lift_res (scalar_one_or_none rows)) (\<lambda>found. case found of
       None \<Rightarrow> bindm fresh_uuid (\<lambda>u. modifies (\<lambda>s. s\<lparr>pe_session := (pe_session s)\<lparr>tbl_positions := tbl_positions (pe_session s) @
           [\<lparr>po_id = u, po_exchange_account_id = account_id, po_trading_pair_id = pair_id,
             po_asset = pa_base_asset (pe_account s), po_side = position_side (base_quantity s),
             po_quantity = \<bar>base_quantity s\<bar>, po_average_entry_price = mark_or_none (pe_last_mark_price s),
             po_realized_pnl = pa_realized_pnl (pe_account s), po_unrealized_pnl = unrealized_pnl s,
             po_mark_price = mark_or_none (pe_last_mark_price s)\<rparr>]\<rparr>\<rparr>))
     | Some row \<Rightarrow> modifies (\<lambda>s. s\<lparr>pe_session := (pe_session s)\<lparr>tbl_positions :=
           update_rows (\<lambda>row. position_key_of row = key)
             (\<lambda>row. row\<lparr>po_side := position_side (base_quantity s), po_quantity := \<bar>base_quantity s\<bar>,
                po_realized_pnl := pa_realized_pnl (pe_account s), po_unrealized_pnl := unrealized_pnl s,
                po_mark_price := mark_or_none (pe_last_mark_price s)\<rparr>)
             (tbl_positions (pe_session s))\<rparr>\<rparr>))))))"

subsection \<open>Matching and orders\<close>

definition match_order :: "PaperOrder \<Rightarrow> OrderBookSnapshot \<Rightarrow> (decimal \<times> decimal) option" where
  "match_order order orderbook =
     (case oi_price (pap_intent order) of
        None \<Rightarrow> None
      | Some limit \<Rightarrow>
          if oi_order_type (pap_intent order) \<notin> {Type_limit, Type_post_only} then None
          else (let fillable =
                  (case oi_side (pap_intent order) of
                     Side_buy \<Rightarrow> filter (\<lambda>level. level_price level \<le> limit) (sort_key level_price (ob_asks orderbook))
                   | Side_sell \<Rightarrow> filter (\<lambda>level. level_price level \<ge> limit) (sort_key (\<lambda>level. - level_price level) (ob_bids orderbook)))
                in case fillable of
                     [] \<Rightarrow> None
                   | level # _ \<Rightarrow> Some (level_price level, min (remaining_quantity order) (level_size level))))"

text \<open>The account part of \<open>_apply_fill\<close>.\<close>

definition book_fill :: "ExecutionSide \<Rightarrow> decimal \<Rightarrow> decimal \<Rightarrow> decimal \<Rightarrow> PaperAccountState \<Rightarrow> PaperAccountState" where
  "book_fill side price quantity fee account =
     (let notional = price * quantity; base = pa_base_asset account; quote = pa_quote_asset account
      in case side of
           Side_buy \<Rightarrow>
             (let a1 = account\<lparr>pa_balances := dict_set base (balance_of account base + quantity) (pa_balances account)\<rparr>;
                  a2 = a1\<lparr>pa_balances := dict_set quote (balance_of a1 quote - notional - fee) (pa_balances a1)\<rparr>
              in a2\<lparr>pa_fees := pa_fees a2 + fee\<rparr>)
         | Side_sell \<Rightarrow>
             (let a1 = account\<lparr>pa_balances := dict_set base (balance_of account base - quantity) (pa_balances account)\<rparr>;
                  a2 = a1\<lparr>pa_balances := dict_set quote (balance_of a1 quote + notional - fee) (pa_balances a1)\<rparr>
              in a2\<lparr>pa_realized_pnl := pa_realized_pnl a2 + (notional - fee), pa_fees := pa_fees a2 + fee\<rparr>))"

definition fill_order :: "decimal \<Rightarrow> decimal \<Rightarrow> PaperOrder \<Rightarrow> PaperOrder" where
  "fill_order price quantity order =
     (let previous_filled = pap_filled_quantity order; filled = previous_filled + quantity;
          average = (case pap_average_price order of None \<Rightarrow> price | Some a \<Rightarrow> if a = 0 then price else a)
      in order\<lparr>pap_filled_quantity := filled,
               pap_average_price := Some (if previous_filled = 0 then price
                                          else (average * previous_filled + price * quantity) / filled)\<rparr>)"

definition put_order :: "PaperOrder \<Rightarrow> PaperExecutionEngine \<Rightarrow> PaperExecutionEngine" where
  "put_order order s = s\<lparr>pe_open_orders := dict_set (pap_id order) order (pe_open_orders s)\<rparr>"

definition drop_order :: "string \<Rightarrow> PaperExecutionEngine \<Rightarrow> PaperExecutionEngine" where
  "drop_order cid s = s\<lparr>pe_open_orders := dict_pop cid (pe_open_orders s)\<rparr>"

definition fill_fee :: "PaperExecutionEngine \<Rightarrow> decimal \<Rightarrow> decimal \<Rightarrow> decimal" where
  "fill_fee s price quantity = price * quantity * pe_fee_bps s / 10000"

definition apply_fill :: "datetime \<Rightarrow> PaperOrder \<Rightarrow> decimal \<Rightarrow> decimal \<Rightarrow> (PaperFill \<times> PaperOrder) paper_op" where
  "apply_fill now order price quantity =
     (let order' = fill_order price quantity order in
     bindm fresh_uuid (\<lambda>u.
     bindm (reads (\<lambda>s. \<lparr>pf_trade_id = ''paper-trade-'' @ str_nat u, pf_client_order_id = pap_id order,
         pf_symbol = oi_symbol (pap_intent order), pf_side = oi_side (pap_intent order), pf_price = price,
         pf_quantity = quantity, pf_fee = fill_fee s price quantity, pf_executed_at = now\<rparr>)) (\<lambda>fill.
     seqm (modifies (\<lambda>s. put_order order' (s\<lparr>pe_account := book_fill (oi_side (pap_intent order)) price quantity (pf_fee fill) (pe_account s),
                               pe_fills := pe_fills s @ [fill]\<rparr>))) (
     seqm (persist_trade order' fill) (
     seqm (persist_position (oi_symbol (pap_intent order))) (
     ret (fill, order')))))))"

text \<open>
  One iteration of the loop of \<open>simulate_fills\<close>: the fill, if any, and the order as it is left;
  \<open>settle_fill\<close> is what follows \<open>_apply_fill\<close> in the loop body.
\<close>

definition settle_fill :: "datetime \<Rightarrow> PaperFill \<Rightarrow> PaperOrder \<Rightarrow> (PaperFill option \<times> PaperOrder) paper_op" where
  "settle_fill now fill order1 =
     (if remaining_quantity order1 \<le> 0
      then (let order2 = order1\<lparr>pap_status := ''FILLED'', pap_updated_at := now\<rparr>
            in seqm (modifies (drop_order (pap_id order2))) (seqm (persist_order now order2) (ret (Some fill, order2))))
      else (let order2 = order1\<lparr>pap_status := ''PARTIAL_FILL'', pap_updated_at := now\<rparr>
            in seqm (modifies (put_order order2)) (seqm (persist_order now order2) (ret (Some fill, order2)))))"

definition simulate_order :: "datetime \<Rightarrow> string \<Rightarrow> OrderBookSnapshot \<Rightarrow> PaperOrder \<Rightarrow> (PaperFill option \<times> PaperOrder) paper_op" where
  "simulate_order now symbol orderbook order =
     (if oi_symbol (pap_intent order) \<noteq> symbol \<or> remaining_quantity order \<le> 0 then ret (None, order)
      else case match_order order orderbook of
        None \<Rightarrow> ret (None, order)
      | Some (fill_price, fill_qty) \<Rightarrow>
          if fill_qty \<le> 0 then ret (None, order)
          else bindm (apply_fill now order fill_price fill_qty) (\<lambda>(fill, order1). settle_fill now fill order1))"

definition mark_price :: "OrderBookSnapshot \<Rightarrow> PaperExecutionEngine \<Rightarrow> PaperExecutionEngine" where
  "mark_price orderbook s =
     (case (max_list (map level_price (ob_bids orderbook)), min_list_opt (map level_price (ob_asks orderbook))) of
        (Some bid, Some ask) \<Rightarrow> s\<lparr>pe_last_mark_price := (bid + ask) / 2\<rparr>
      | _ \<Rightarrow> s)"

definition simulate_orders :: "datetime \<Rightarrow> string \<Rightarrow> OrderBookSnapshot \<Rightarrow> (PaperFill option \<times> PaperOrder) list paper_op" where
  "simulate_orders now symbol orderbook =
     seqm (modifies (mark_price orderbook)) (
     bindm (reads (\<lambda>s. map snd (pe_open_orders s))) (\<lambda>orders.
     collect (simulate_order now symbol orderbook) orders))"

definition simulate_fills :: "datetime \<Rightarrow> string \<Rightarrow> OrderBookSnapshot \<Rightarrow> PaperFill list paper_op" where
  "simulate_fills now symbol orderbook =
     bindm (simulate_orders now symbol orderbook) (\<lambda>rs. ret (List.map_filter fst rs))"

definition place_order :: "datetime \<Rightarrow> OrderIntent \<Rightarrow> OrderBookSnapshot option \<Rightarrow> PaperOrder paper_op" where
  "place_order now intent orderbook =
     bindm fresh_uuid (\<lambda>u.
       let order = \<lparr>pap_intent = intent, pap_status = ''ACKNOWLEDGED'', pap_exchange_order_id = ''paper-'' @ str_nat u,
             pap_filled_quantity = 0, pap_average_price = None, pap_created_at = now, pap_updated_at = now\<rparr>
       in seqm (modifies (put_order order)) (
          seqm (persist_order now order) (
          case orderbook of
            None \<Rightarrow> ret order
          | Some ob \<Rightarrow> bindm (simulate_orders now (oi_symbol intent) ob) (\<lambda>rs.
              ret (case find (\<lambda>o'. pap_id o' = oi_client_order_id intent) (map snd rs) of None \<Rightarrow> order | Some o' \<Rightarrow> o')))))"

definition cancel_order :: "datetime \<Rightarrow> string \<Rightarrow> PaperOrder option paper_op" where
  "cancel_order now cid =
     bindm (reads (\<lambda>s. dict_get (pe_open_orders s) cid)) (\<lambda>found. case found of
       None \<Rightarrow> ret None
     | Some order \<Rightarrow>
         (let order' = order\<lparr>pap_status := ''CANCELLED'', pap_updated_at := now\<rparr>
          in seqm (modifies (drop_order cid)) (seqm (persist_order now order') (ret (Some order')))))"

definition replace_order :: "datetime \<Rightarrow> string \<Rightarrow> OrderIntent \<Rightarrow> OrderBookSnapshot option \<Rightarrow> PaperOrder paper_op" where
  "replace_order now cid replacement orderbook =
     seqm (cancel_order now cid) (place_order now replacement orderbook)"

subsection \<open>Reports\<close>

definition paper_balances :: "PaperExecutionEngine \<Rightarrow> BalanceRecord list" where
  "paper_balances s = map (\<lambda>(asset, total). \<lparr>br_asset = asset, br_total = total, br_available = total - 0, br_reserved = 0\<rparr>)
     (pa_balances (pe_account s))"

definition paper_positions :: "PaperExecutionEngine \<Rightarrow> PositionRecord list" where
  "paper_positions s = [\<lparr>pr_symbol = pa_base_asset (pe_account s) @ ''/'' @ pa_quote_asset (pe_account s),
     pr_asset = pa_base_asset (pe_account s), pr_quantity = base_quantity s,
     pr_notional = base_quantity s * pe_last_mark_price s\<rparr>]"

definition paper_orders :: "PaperExecutionEngine \<Rightarrow> OrderRecord list" where
  "paper_orders s = map (\<lambda>order. \<lparr>orr_client_order_id = pap_id order,
     orr_exchange_order_id = Some (pap_exchange_order_id order), orr_symbol = oi_symbol (pap_intent order),
     orr_status = pap_status order, orr_filled_quantity = pap_filled_quantity order,
     orr_remaining_quantity = remaining_quantity order\<rparr>) (map snd (pe_open_orders s))"

definition reconciliation_snapshot :: "PaperExecutionEngine \<Rightarrow> ReconciliationSnapshot" where
  "reconciliation_snapshot s =
     \<lparr>rs_balances = paper_balances s, rs_positions = paper_positions s, rs_orders = paper_orders s,
      rs_fills = map (\<lambda>fill. \<lparr>fr_trade_id = pf_trade_id fill, fr_order_id = pf_client_order_id fill,
         fr_symbol = pf_symbol fill, fr_quantity = pf_quantity fill, fr_price = pf_price fill, fr_fee = pf_fee fill\<rparr>) (pe_fills s),
      rs_pnl = Some \<lparr>pnl_realized = pa_realized_pnl (pe_account s), pnl_unrealized = unrealized_pnl s,
         pnl_fees = pa_fees (pe_account s)\<rparr>\<rparr>"

section \<open>The engine's memory\<close>

text \<open>Persistence touches the session and the cached row ids only.\<close>

definition mem :: "PaperExecutionEngine \<Rightarrow> PaperAccountState \<times> decimal \<times> (string, PaperOrder) dict \<times> PaperFill list \<times> decimal" where
  "mem s = (pe_account s, pe_fee_bps s, pe_open_orders s, pe_fills s, pe_last_mark_price s)"

lemma mem_updates [simp]:
  "mem (s\<lparr>pe_session := t\<rparr>) = mem s" "mem (s\<lparr>pe_exchange_account_id := a\<rparr>) = mem s"
  "mem (s\<lparr>pe_trading_pair_ids := p\<rparr>) = mem s"
  by (simp_all add: mem_def)

definition mem_only :: "(PaperExecutionEngine \<Rightarrow> bool) \<Rightarrow> bool" where
  "mem_only P \<longleftrightarrow> (\<forall>s t. mem s = mem t \<longrightarrow> P s \<longrightarrow> P t)"

lemma mem_onlyD: "mem_only P \<Longrightarrow> P s \<Longrightarrow> mem t = mem s \<Longrightarrow> P t"
  unfolding mem_only_def by metis

lemma keeps_mem [kept]:
  assumes "mem_only P" "\<And>s. mem (f s) = mem s"
  shows "keeps P (modifies f)"
  using assms by (auto intro!: keeps_modifies elim: mem_onlyD)

lemma keeps_fresh [kept]: "mem_only P \<Longrightarrow> keeps P fresh_uuid"
  unfolding fresh_uuid_def on_session_def by (rule keeps_zoom) (auto elim: mem_onlyD)

lemma keeps_ensure_account [kept]: "mem_only P \<Longrightarrow> keeps P ensure_exchange_account"
  unfolding ensure_exchange_account_def by (auto intro!: kept)

lemma keeps_ensure_pair [kept]: "mem_only P \<Longrightarrow> keeps P (ensure_trading_pair symbol)"
  unfolding ensure_trading_pair_def by (auto intro!: kept)

lemma keeps_persist_order [kept]: "mem_only P \<Longrightarrow> keeps P (persist_order now order)"
  unfolding persist_order_def by (auto intro!: kept)

lemma keeps_persist_trade [kept]: "mem_only P \<Longrightarrow> keeps P (persist_trade order fill)"
  unfolding persist_trade_def by (auto intro!: kept)

lemma keeps_persist_position [kept]: "mem_only P \<Longrightarrow> keeps P (persist_position symbol)"
  unfolding persist_position_def by (auto intro!: kept)

lemma apply_fill_returns:
  "apply_fill now order price quantity s = (Inr (f, order1), t) \<Longrightarrow> order1 = fill_order price quantity order"
  by (auto simp: apply_fill_def Let_def seqm_def elim!: bindm_InrE)

text \<open>A history of the engine: any sequence of its operations, whether they return or raise.\<close>

datatype paper_event =
    PPlace datetime OrderIntent "OrderBookSnapshot option"
  | PCancel datetime string
  | PReplace datetime string OrderIntent "OrderBookSnapshot option"
  | PSimulate datetime string OrderBookSnapshot

fun paper_step :: "paper_event \<Rightarrow> PaperExecutionEngine \<Rightarrow> PaperExecutionEngine" where
  "paper_step (PPlace now intent ob) s = snd (place_order now intent ob s)"
| "paper_step (PCancel now cid) s = snd (cancel_order now cid s)"
| "paper_step (PReplace now cid intent ob) s = snd (replace_order now cid intent ob s)"
| "paper_step (PSimulate now symbol ob) s = snd (simulate_fills now symbol ob s)"

fun event_intents :: "paper_event \<Rightarrow> OrderIntent set" where
  "event_intents (PPlace now intent ob) = {intent}"
| "event_intents (PReplace now cid intent ob) = {intent}"
| "event_intents _ = {}"

definition placed_intents :: "paper_event list \<Rightarrow> OrderIntent set" where
  "placed_intents es = \<Union> (event_intents ` set es)"

lemma placed_intents_simps [simp]:
  "placed_intents [] = {}" "placed_intents (e # es) = event_intents e \<union> placed_intents es"
  by (simp_all add: placed_intents_def)

text \<open>
  What is left of the operations once persistence is known to be invisible: four changes of the
  memory. An invariant that survives these survives every operation.
\<close>

locale memory_invariant =
  fixes P :: "PaperExecutionEngine \<Rightarrow> bool" and fills_ok :: "PaperOrder \<Rightarrow> bool" and admits :: "OrderIntent \<Rightarrow> bool"
  assumes mem: "mem_only P"
    and new: "P s \<Longrightarrow> admits (pap_intent order) \<Longrightarrow> pap_filled_quantity order = 0 \<Longrightarrow> P (put_order order s)"
    and gone: "P s \<Longrightarrow> P (drop_order cid s)"
    and mark: "P s \<Longrightarrow> P (s\<lparr>pe_last_mark_price := m\<rparr>)"
    and relabel: "P s \<Longrightarrow> fills_ok order \<Longrightarrow> P (put_order (order\<lparr>pap_status := st, pap_updated_at := t\<rparr>) s)"
    and fill: "P s \<Longrightarrow> fills_ok order \<Longrightarrow> match_order order ob = Some (price, quantity) \<Longrightarrow> 0 < quantity \<Longrightarrow>
       pf_client_order_id f = pap_id order \<Longrightarrow> pf_symbol f = oi_symbol (pap_intent order) \<Longrightarrow>
       pf_side f = oi_side (pap_intent order) \<Longrightarrow> pf_price f = price \<Longrightarrow> pf_quantity f = quantity \<Longrightarrow>
       pf_fee f = fill_fee s price quantity \<Longrightarrow>
       P (put_order (fill_order price quantity order)
           (s\<lparr>pe_account := book_fill (oi_side (pap_intent order)) price quantity (pf_fee f) (pe_account s),
              pe_fills := pe_fills s @ [f]\<rparr>))"
    and fills_ok_fill: "fills_ok order \<Longrightarrow> match_order order ob = Some (price, quantity) \<Longrightarrow> 0 < quantity \<Longrightarrow>
       fills_ok (fill_order price quantity order)"
    and fills_ok_open: "P s \<Longrightarrow> (k, order) \<in> set (pe_open_orders s) \<Longrightarrow> fills_ok order"
begin

lemma keeps_mark: "keeps P (modifies (mark_price ob))"
  by (rule keeps_modifies) (auto simp: mark_price_def mark split: option.splits)

lemma keeps_apply_fill:
  assumes "fills_ok order" "match_order order ob = Some (price, quantity)" "0 < quantity"
  shows "keeps P (apply_fill now order price quantity)"
proof (rule keepsI)
  fix s assume "P s"
  obtain u s1 where u: "fresh_uuid s = (Inr u, s1)" "mem s1 = mem s"
    by (auto simp: fresh_uuid_def on_session_def zoom_def uuid4_def)
  have s1: "P s1" using mem_onlyD[OF mem \<open>P s\<close> u(2)] .
  define f where "f = \<lparr>pf_trade_id = ''paper-trade-'' @ str_nat u, pf_client_order_id = pap_id order,
         pf_symbol = oi_symbol (pap_intent order), pf_side = oi_side (pap_intent order), pf_price = price,
         pf_quantity = quantity, pf_fee = fill_fee s1 price quantity, pf_executed_at = now\<rparr>"
  have "P (put_order (fill_order price quantity order)
           (s1\<lparr>pe_account := book_fill (oi_side (pap_intent order)) price quantity (pf_fee f) (pe_account s1),
              pe_fills := pe_fills s1 @ [f]\<rparr>))"
    by (rule fill[OF s1 assms]) (simp_all add: f_def)
  moreover have "keeps P (seqm (persist_trade (fill_order price quantity order) f)
      (seqm (persist_position (oi_symbol (pap_intent order))) (ret (f, fill_order price quantity order))))"
    by (intro kept mem)
  ultimately have "P (snd (seqm (persist_trade (fill_order price quantity order) f)
      (seqm (persist_position (oi_symbol (pap_intent order))) (ret (f, fill_order price quantity order)))
      (put_order (fill_order price quantity order)
           (s1\<lparr>pe_account := book_fill (oi_side (pap_intent order)) price quantity (pf_fee f) (pe_account s1),
              pe_fills := pe_fills s1 @ [f]\<rparr>))))"
    by (rule keepsD[rotated])
  then show "P (snd (apply_fill now order price quantity s))"
    by (simp add: apply_fill_def Let_def bindm_Inr[where m = fresh_uuid, OF u(1)] f_def)
qed

lemma keeps_settle_fill:
  assumes "fills_ok order1"
  shows "keeps P (settle_fill now f order1)"
  unfolding settle_fill_def Let_def using assms by (intro kept mem keeps_modifies gone relabel)

lemma keeps_simulate_order:
  assumes "fills_ok order"
  shows "keeps P (simulate_order now symbol ob order)"
proof -
  have "keeps P (bindm (apply_fill now order price quantity) (\<lambda>(fill, order1). settle_fill now fill order1))"
    if m: "match_order order ob = Some (price, quantity)" "0 < quantity" for price quantity
  proof (rule keeps_bind_result[OF keeps_apply_fill[OF assms m]])
    fix s x t assume "apply_fill now order price quantity s = (Inr x, t)"
    then have "snd x = fill_order price quantity order" by (cases x) (auto dest: apply_fill_returns)
    then show "keeps P (case x of (fill, order1) \<Rightarrow> settle_fill now fill order1)"
      using fills_ok_fill[OF assms m] by (cases x) (auto intro: keeps_settle_fill)
  qed
  then show ?thesis
    by (auto simp: simulate_order_def intro: keeps_ret split: option.split)
qed

lemma keeps_simulate_orders: "keeps P (simulate_orders now symbol ob)"
proof (rule keepsI)
  fix s assume "P s"
  then have m: "P (mark_price ob s)" using keepsD[OF keeps_mark, of s ob] by simp
  have "keeps P (collect (simulate_order now symbol ob) (map snd (pe_open_orders (mark_price ob s))))"
    by (rule keeps_collect, rule keeps_simulate_order) (use m fills_ok_open in force)
  from keepsD[OF this m] show "P (snd (simulate_orders now symbol ob s))"
    by (simp add: simulate_orders_def)
qed

lemma keeps_simulate_fills: "keeps P (simulate_fills now symbol ob)"
  unfolding simulate_fills_def by (intro kept keeps_simulate_orders)

lemma keeps_place_order: "admits intent \<Longrightarrow> keeps P (place_order now intent ob)"
  unfolding place_order_def Let_def
  by (intro kept mem keeps_simulate_orders keeps_modifies new) simp_all

lemma keeps_cancel_order: "keeps P (cancel_order now cid)"
  unfolding cancel_order_def Let_def by (intro kept mem keeps_modifies gone) simp_all

lemma keeps_replace_order: "admits r \<Longrightarrow> keeps P (replace_order now cid r ob)"
  unfolding replace_order_def by (intro kept keeps_cancel_order keeps_place_order)

lemma run_keeps:
  assumes "P s" "\<And>i. i \<in> placed_intents es \<Longrightarrow> admits i"
  shows "P (run paper_step es s)"
  using assms
proof (induction es arbitrary: s)
  case (Cons e es)
  have "P (paper_step e s)" using Cons.prems
    by (cases e) (auto intro!: keepsD[of P] keeps_place_order keeps_cancel_order keeps_replace_order keeps_simulate_fills)
  then show ?case using Cons by simp
qed simp

end

section \<open>Orders and fills\<close>

definition order_ok :: "PaperOrder \<Rightarrow> bool" where
  "order_ok order \<longleftrightarrow> 0 \<le> pap_filled_quantity order \<and>
     (pap_filled_quantity order = 0 \<or> pap_filled_quantity order \<le> oi_quantity (pap_intent order))"

text \<open>The fill price is the best opposite price of the book and respects the limit.\<close>

lemma match_order_SomeD:
  assumes "match_order order ob = Some (price, quantity)"
  shows "\<exists>limit. oi_price (pap_intent order) = Some limit \<and> quantity \<le> remaining_quantity order
    \<and> (case oi_side (pap_intent order) of
         Side_buy \<Rightarrow> price \<le> limit \<and> (\<forall>l \<in> set (ob_asks ob). price \<le> level_price l)
       | Side_sell \<Rightarrow> limit \<le> price \<and> (\<forall>l \<in> set (ob_bids ob). level_price l \<le> price))"
proof -
  obtain limit where l: "oi_price (pap_intent order) = Some limit"
    using assms by (auto simp: match_order_def split: option.splits)
  show ?thesis
  proof (cases "oi_side (pap_intent order)")
    case Side_buy
    let ?xs = "sort_key level_price (ob_asks ob)"
    obtain level rest where f: "filter (\<lambda>x. level_price x \<le> limit) ?xs = level # rest"
      and p: "price = level_price level" "quantity = min (remaining_quantity order) (level_size level)"
      using assms l Side_buy by (auto simp: match_order_def Let_def split: if_splits list.splits)
    have "level \<in> set (filter (\<lambda>x. level_price x \<le> limit) ?xs)" unfolding f by simp
    then have le: "level_price level \<le> limit" by simp
    have "sorted (map level_price (filter (\<lambda>x. level_price x \<le> limit) ?xs))" by (simp add: sorted_filter)
    then have "\<forall>l \<in> set (filter (\<lambda>x. level_price x \<le> limit) ?xs). level_price level \<le> level_price l" by (simp add: f)
    then have "level_price level \<le> level_price l" if "l \<in> set (ob_asks ob)" for l
      using that le by (cases "level_price l \<le> limit") auto
    with l p le Side_buy show ?thesis by auto
  next
    case Side_sell
    let ?xs = "sort_key (\<lambda>x. - level_price x) (ob_bids ob)"
    obtain level rest where f: "filter (\<lambda>x. limit \<le> level_price x) ?xs = level # rest"
      and p: "price = level_price level" "quantity = min (remaining_quantity order) (level_size level)"
      using assms l Side_sell by (auto simp: match_order_def Let_def split: if_splits list.splits)
    have "level \<in> set (filter (\<lambda>x. limit \<le> level_price x) ?xs)" unfolding f by simp
    then have le: "limit \<le> level_price level" by simp
    have "sorted (map (\<lambda>x. - level_price x) (filter (\<lambda>x. limit \<le> level_price x) ?xs))" by (simp add: sorted_filter)
    then have "\<forall>l \<in> set (filter (\<lambda>x. limit \<le> level_price x) ?xs). level_price l \<le> level_price level" by (simp add: f)
    then have "level_price l \<le> level_price level" if "l \<in> set (ob_bids ob)" for l
      using that le by (cases "limit \<le> level_price l") auto
    with l p le Side_sell show ?thesis by auto
  qed
qed

lemma fill_order_ok:
  assumes "order_ok order" "match_order order ob = Some (price, quantity)" "0 < quantity"
  shows "order_ok (fill_order price quantity order)"
proof -
  have "quantity \<le> remaining_quantity order" using match_order_SomeD[OF assms(2)] by blast
  then show ?thesis using assms(1,3) by (auto simp: order_ok_def fill_order_def Let_def remaining_quantity_def split: if_splits)
qed

lemma fill_order_intent [simp]: "pap_intent (fill_order p q order) = pap_intent order"
  by (simp add: fill_order_def Let_def)

text \<open>A fill that an intent allows.\<close>

definition allows :: "OrderIntent \<Rightarrow> PaperFill \<Rightarrow> bool" where
  "allows i f \<longleftrightarrow> pf_client_order_id f = oi_client_order_id i \<and> pf_symbol f = oi_symbol i \<and> pf_side f = oi_side i
     \<and> 0 < pf_quantity f \<and> pf_quantity f \<le> oi_quantity i
     \<and> (case oi_price i of None \<Rightarrow> False
        | Some limit \<Rightarrow> (case oi_side i of Side_buy \<Rightarrow> pf_price f \<le> limit | Side_sell \<Rightarrow> limit \<le> pf_price f))"

definition orders_inv :: "OrderIntent set \<Rightarrow> PaperExecutionEngine \<Rightarrow> bool" where
  "orders_inv I s \<longleftrightarrow> distinct (dict_keys (pe_open_orders s))
     \<and> (\<forall>(k, order) \<in> set (pe_open_orders s). pap_id order = k \<and> order_ok order \<and> pap_intent order \<in> I)
     \<and> (\<forall>f \<in> set (pe_fills s). \<exists>i \<in> I. allows i f)"

lemma orders_inv_put:
  "orders_inv I s \<Longrightarrow> order_ok order \<Longrightarrow> pap_intent order \<in> I \<Longrightarrow> orders_inv I (put_order order s)"
  unfolding orders_inv_def put_order_def by (auto simp: adict.wf_put dest!: dict_set_mem)

lemma match_allows:
  assumes "order_ok order" "match_order order ob = Some (price, quantity)" "0 < quantity"
    and "pf_client_order_id f = pap_id order" "pf_symbol f = oi_symbol (pap_intent order)"
    "pf_side f = oi_side (pap_intent order)" "pf_price f = price" "pf_quantity f = quantity"
  shows "allows (pap_intent order) f"
proof -
  have "quantity \<le> oi_quantity (pap_intent order)"
    using match_order_SomeD[OF assms(2)] assms(1,3)
    by (auto simp: remaining_quantity_def order_ok_def max_def split: if_splits)
  with match_order_SomeD[OF assms(2)] assms show ?thesis
    by (cases "oi_side (pap_intent order)") (auto simp: allows_def)
qed

interpretation ord: memory_invariant "orders_inv I" "\<lambda>order. order_ok order \<and> pap_intent order \<in> I" "\<lambda>i. i \<in> I" for I
proof
  show "mem_only (orders_inv I)" by (auto simp: mem_only_def mem_def orders_inv_def)
  show "orders_inv I (put_order order s)" if "orders_inv I s" "pap_intent order \<in> I" "pap_filled_quantity order = 0" for s order
    using that by (auto intro: orders_inv_put simp: order_ok_def)
  show "orders_inv I (drop_order cid s)" if "orders_inv I s" for s cid
    using that dict_pop_subset[of cid "pe_open_orders s"] unfolding orders_inv_def drop_order_def
    by (auto simp: adict.wf_pop)
  show "orders_inv I (put_order (order\<lparr>pap_status := st, pap_updated_at := t\<rparr>) s)"
    if "orders_inv I s" "order_ok order \<and> pap_intent order \<in> I" for s order st t
    using that by (auto intro!: orders_inv_put simp: order_ok_def)
  show "orders_inv I (put_order (fill_order price quantity order)
           (s\<lparr>pe_account := book_fill (oi_side (pap_intent order)) price quantity (pf_fee f) (pe_account s),
              pe_fills := pe_fills s @ [f]\<rparr>))"
    if "orders_inv I s" "order_ok order \<and> pap_intent order \<in> I" "match_order order ob = Some (price, quantity)" "0 < quantity"
      "pf_client_order_id f = pap_id order" "pf_symbol f = oi_symbol (pap_intent order)"
      "pf_side f = oi_side (pap_intent order)" "pf_price f = price" "pf_quantity f = quantity"
    for s order ob price quantity f
  proof (rule orders_inv_put)
    show "orders_inv I (s\<lparr>pe_account := book_fill (oi_side (pap_intent order)) price quantity (pf_fee f) (pe_account s),
              pe_fills := pe_fills s @ [f]\<rparr>)"
      using that match_allows[of order ob price quantity f] by (auto simp: orders_inv_def)
  qed (use that fill_order_ok in auto)
  show "order_ok (fill_order price quantity order) \<and> pap_intent (fill_order price quantity order) \<in> I"
    if "order_ok order \<and> pap_intent order \<in> I" "match_order order ob = Some (price, quantity)" "0 < quantity"
    for order ob price quantity
    using that fill_order_ok by auto
qed (auto simp: orders_inv_def)

section \<open>The account\<close>

fun fill_base :: "PaperFill \<Rightarrow> decimal" where
  "fill_base f = (case pf_side f of Side_buy \<Rightarrow> pf_quantity f | Side_sell \<Rightarrow> - pf_quantity f)"

fun fill_cash :: "PaperFill \<Rightarrow> decimal" where
  "fill_cash f = (case pf_side f of Side_buy \<Rightarrow> - (pf_price f * pf_quantity f) | Side_sell \<Rightarrow> pf_price f * pf_quantity f) - pf_fee f"

fun fill_proceeds :: "PaperFill \<Rightarrow> decimal" where
  "fill_proceeds f = (case pf_side f of Side_buy \<Rightarrow> 0 | Side_sell \<Rightarrow> pf_price f * pf_quantity f - pf_fee f)"

definition ledger_inv :: "decimal \<Rightarrow> PaperExecutionEngine \<Rightarrow> bool" where
  "ledger_inv cash s \<longleftrightarrow> (let a = pe_account s in
     pa_base_asset a \<noteq> pa_quote_asset a
     \<and> balance_of a (pa_base_asset a) = (\<Sum>f \<leftarrow> pe_fills s. fill_base f)
     \<and> balance_of a (pa_quote_asset a) = cash + (\<Sum>f \<leftarrow> pe_fills s. fill_cash f)
     \<and> pa_fees a = (\<Sum>f \<leftarrow> pe_fills s. pf_fee f)
     \<and> pa_realized_pnl a = (\<Sum>f \<leftarrow> pe_fills s. fill_proceeds f))"

lemma book_fill_account:
  assumes "pa_base_asset a \<noteq> pa_quote_asset a" "pf_side f = side" "pf_price f = price" "pf_quantity f = quantity" "pf_fee f = fee"
  defines "a' \<equiv> book_fill side price quantity fee a"
  shows "pa_base_asset a' = pa_base_asset a" "pa_quote_asset a' = pa_quote_asset a"
    "balance_of a' (pa_base_asset a) = balance_of a (pa_base_asset a) + fill_base f"
    "balance_of a' (pa_quote_asset a) = balance_of a (pa_quote_asset a) + fill_cash f"
    "pa_fees a' = pa_fees a + fee" "pa_realized_pnl a' = pa_realized_pnl a + fill_proceeds f"
  using assms(1-5) unfolding a'_def
  by (simp_all add: book_fill_def Let_def balance_of_def dict_get_or_def update_conv' split: ExecutionSide.split)

interpretation led: memory_invariant "ledger_inv cash" "\<lambda>_. True" "\<lambda>_. True" for cash
proof
  show "mem_only (ledger_inv cash)" by (auto simp: mem_only_def mem_def ledger_inv_def)
  show "ledger_inv cash (put_order (fill_order price quantity order)
           (s\<lparr>pe_account := book_fill (oi_side (pap_intent order)) price quantity (pf_fee f) (pe_account s),
              pe_fills := pe_fills s @ [f]\<rparr>))"
    if "ledger_inv cash s" "pf_side f = oi_side (pap_intent order)" "pf_price f = price" "pf_quantity f = quantity"
    for s order price quantity f
    using that book_fill_account[of "pe_account s" f _ price quantity "pf_fee f"]
    by (simp add: ledger_inv_def put_order_def Let_def del: fill_base.simps fill_cash.simps fill_proceeds.simps)
qed (auto simp: ledger_inv_def put_order_def drop_order_def)

interpretation ast: memory_invariant "\<lambda>s. pa_base_asset (pe_account s) = base \<and> pa_quote_asset (pe_account s) = quote"
  "\<lambda>_. True" "\<lambda>_. True" for base quote
  by unfold_locales
    (auto simp: mem_only_def mem_def put_order_def drop_order_def book_fill_def Let_def split: ExecutionSide.split)

section \<open>Properties\<close>

text \<open>
  C9. Over any history of placing, cancelling, replacing and matching against any order books
  (also one in which operations raise), every fill the engine has recorded belongs to an intent
  that was placed: same client order id, symbol and side, a positive quantity of at most the
  ordered one, and a price no worse than the limit; and no open order is filled beyond its quantity.
\<close>

theorem paper_fills_respect_limits:
  assumes "s = run paper_step es (PaperExecutionEngine_init session cash base quote fee_bps)"
  shows "(\<forall>f \<in> set (pe_fills s). \<exists>i \<in> placed_intents es. allows i f) \<and>
    (\<forall>(cid, order) \<in> set (pe_open_orders s). pap_id order = cid \<and> pap_intent order \<in> placed_intents es \<and>
       0 \<le> pap_filled_quantity order \<and>
       (pap_filled_quantity order = 0 \<or> pap_filled_quantity order \<le> oi_quantity (pap_intent order)))"
proof -
  have "orders_inv (placed_intents es) (PaperExecutionEngine_init session cash base quote fee_bps)"
    by (simp add: orders_inv_def PaperExecutionEngine_init_def)
  then have "orders_inv (placed_intents es) s"
    unfolding assms by (rule ord.run_keeps) simp
  then show ?thesis by (auto simp: orders_inv_def order_ok_def)
qed

text \<open>
  C18. The account is the sum of the fills: after any history the base balance is the signed filled
  quantity, the quote balance the starting cash plus the signed notionals less fees, and the fees
  are the fees of the fills. The engine's realised pnl is the total of sale proceeds, so realised
  plus unrealised pnl exceeds the change in equity by everything ever spent on purchases.
\<close>

theorem paper_account_is_sum_of_fills:
  assumes "s = run paper_step es (PaperExecutionEngine_init session cash base quote fee_bps)" "base \<noteq> quote"
  shows "base_quantity s = (\<Sum>f \<leftarrow> pe_fills s. fill_base f)
    \<and> balance_of (pe_account s) quote = cash + (\<Sum>f \<leftarrow> pe_fills s. fill_cash f)
    \<and> pa_fees (pe_account s) = (\<Sum>f \<leftarrow> pe_fills s. pf_fee f)
    \<and> pa_realized_pnl (pe_account s) + unrealized_pnl s =
        (balance_of (pe_account s) quote + base_quantity s * pe_last_mark_price s - cash)
        + (\<Sum>f \<leftarrow> filter (\<lambda>f. pf_side f = Side_buy) (pe_fills s). pf_price f * pf_quantity f + pf_fee f)"
proof -
  have "ledger_inv cash (PaperExecutionEngine_init session cash base quote fee_bps)"
    using assms(2) by (simp add: ledger_inv_def PaperExecutionEngine_init_def balance_of_def dict_get_or_def)
  then have L: "ledger_inv cash s" unfolding assms(1) by (rule led.run_keeps) simp
  have "pa_quote_asset (pe_account s) = quote"
    unfolding assms(1) using ast.run_keeps[where base = base and quote = quote and es = es]
    by (simp add: PaperExecutionEngine_init_def)
  moreover have "(\<Sum>f \<leftarrow> fs. fill_proceeds f) = (\<Sum>f \<leftarrow> fs. fill_cash f)
      + (\<Sum>f \<leftarrow> filter (\<lambda>f. pf_side f = Side_buy) fs. pf_price f * pf_quantity f + pf_fee f)" for fs
    by (induction fs) (auto split: ExecutionSide.split)
  ultimately show ?thesis
    using L by (simp add: ledger_inv_def Let_def base_quantity_def unrealized_pnl_def
        del: fill_base.simps fill_cash.simps fill_proceeds.simps)
qed

section \<open>Witnesses\<close>

definition example_paper_intent :: OrderIntent where
  "example_paper_intent = \<lparr>oi_venue = Venue_binance, oi_symbol = ''BTC/USDT'', oi_side = Side_buy, oi_order_type = Type_limit,
     oi_quantity = 3, oi_price = Some 100, oi_client_order_id = ''c1'', oi_time_in_force = TIF_gtc,
     oi_reduce_only = False, oi_metadata = []\<rparr>"

definition example_paper_book :: OrderBookSnapshot where
  "example_paper_book = \<lparr>ob_exchange = ''binance'', ob_symbol = ''BTC/USDT'',
     ob_bids = [\<lparr>level_price = 98, level_size = 2\<rparr>], ob_asks = [\<lparr>level_price = 99, level_size = 2\<rparr>],
     ob_source_timestamp = 0, ob_sequence = None\<rparr>"

definition example_paper_state :: PaperExecutionEngine where
  "example_paper_state = run paper_step [PPlace 0 example_paper_intent (Some example_paper_book)]
     (PaperExecutionEngine_init empty_session 1000 ''BTC'' ''USDT'' 10)"

lemma example_paper_fills:
  "map (\<lambda>f. (pf_price f, pf_quantity f, pf_fee f)) (pe_fills example_paper_state) = [(99, 2, 198 / 1000)]"
  by code_simp

theorem paper_fills_respect_limits_witness:
  "\<exists>f. pe_fills example_paper_state = [f] \<and> allows example_paper_intent f"
proof -
  obtain f where f: "pe_fills example_paper_state = [f]"
    using arg_cong[OF example_paper_fills, of length] by (auto simp: length_Suc_conv)
  have "placed_intents [PPlace 0 example_paper_intent (Some example_paper_book)] = {example_paper_intent}"
    by (simp add: placed_intents_def)
  with f paper_fills_respect_limits[OF example_paper_state_def, THEN conjunct1] show ?thesis by simp
qed

theorem paper_account_is_sum_of_fills_witness:
  "pa_fees (pe_account example_paper_state) = 198 / 1000"
  using paper_account_is_sum_of_fills[OF example_paper_state_def]
    arg_cong[OF example_paper_fills, of "\<lambda>fs. sum_list (map (\<lambda>(p, q, c). c) fs)"]
  by (simp add: comp_def)

end
