(* ===== verification/Paper_Db.thy ===== *)
theory Paper_Db
  imports Paper
begin

text \<open>
  The paper engine against its database: on rows that satisfy the schema's unique constraints every
  operation of the engine returns, and the orders and trades tables always show the orders and
  fills the engine has in memory.
\<close>

section \<open>The database follows the memory\<close>

text \<open>What the unique constraints of the schema guarantee of the rows the engine reads.\<close>

definition session_ok :: "session \<Rightarrow> bool" where
  "session_ok d \<longleftrightarrow> distinct (map or_client_order_id (tbl_orders d))
     \<and> length (filter is_paper_account (tbl_exchange_accounts d)) \<le> 1
     \<and> (\<forall>symbol. length (filter (is_paper_pair symbol) (tbl_trading_pairs d)) \<le> 1)
     \<and> distinct (map position_key_of (tbl_positions d))"

definition same_view :: "PaperExecutionEngine \<Rightarrow> PaperExecutionEngine \<Rightarrow> bool" where
  "same_view s t \<longleftrightarrow> mem t = mem s \<and> tbl_orders (pe_session t) = tbl_orders (pe_session s)
     \<and> tbl_trades (pe_session t) = tbl_trades (pe_session s)"

lemma same_view_refl: "same_view s s"
  by (simp add: same_view_def)

lemma same_view_trans: "same_view s t \<Longrightarrow> same_view t u \<Longrightarrow> same_view s u"
  by (simp add: same_view_def)

lemma at_most_one_row:
  "length rows \<le> 1 \<Longrightarrow> scalar_one_or_none rows = Inr (case rows of [] \<Rightarrow> None | r # _ \<Rightarrow> Some r)"
  by (cases rows rule: scalar_one_or_none.cases) auto

lemma fresh_uuid_run: "fresh_uuid s = (Inr (uuid_supply (pe_session s)), s\<lparr>pe_session := (pe_session s)\<lparr>uuid_supply := Suc (uuid_supply (pe_session s))\<rparr>\<rparr>)"
  by (simp add: fresh_uuid_def on_session_def zoom_def uuid4_def)

lemma bindm_fresh [simp]:
  "bindm fresh_uuid f s = f (uuid_supply (pe_session s)) (s\<lparr>pe_session := (pe_session s)\<lparr>uuid_supply := Suc (uuid_supply (pe_session s))\<rparr>\<rparr>)"
  by (simp add: bindm_def fresh_uuid_run)

lemma bindm_assoc: "bindm (bindm m f) g = bindm m (\<lambda>x. bindm (f x) g)"
  by (auto simp: bindm_def fun_eq_iff split: prod.splits sum.splits)

lemma ensure_account_returns:
  assumes "session_ok (pe_session s)"
  shows "\<exists>a t. ensure_exchange_account s = (Inr a, t) \<and> session_ok (pe_session t) \<and> same_view s t"
proof (cases "pe_exchange_account_id s")
  case (Some a)
  then show ?thesis using assms by (simp add: ensure_exchange_account_def same_view_refl)
next
  case None
  have "length (filter is_paper_account (tbl_exchange_accounts (pe_session s))) \<le> 1"
    using assms by (simp add: session_ok_def)
  then show ?thesis
  proof (cases "filter is_paper_account (tbl_exchange_accounts (pe_session s))")
    case Nil
    then show ?thesis
      using assms None
      by (simp add: ensure_exchange_account_def seqm_def bindm_assoc session_ok_def same_view_def is_paper_account_def)
  next
    case (Cons r rs)
    then have "rs = []" using \<open>length _ \<le> 1\<close> by simp
    then show ?thesis using assms None Cons by (simp add: ensure_exchange_account_def seqm_def same_view_def)
  qed
qed

lemma ensure_pair_returns:
  assumes "session_ok (pe_session s)" "CHR ''/'' \<in> set symbol"
  shows "\<exists>a t. ensure_trading_pair symbol s = (Inr a, t) \<and> session_ok (pe_session t) \<and> same_view s t"
proof (cases "dict_get (pe_trading_pair_ids s) symbol")
  case (Some a)
  then show ?thesis using assms by (simp add: ensure_trading_pair_def same_view_refl)
next
  case None
  have le: "length (filter (is_paper_pair sy) (tbl_trading_pairs (pe_session s))) \<le> 1" for sy
    using assms by (simp add: session_ok_def)
  then show ?thesis
  proof (cases "filter (is_paper_pair symbol) (tbl_trading_pairs (pe_session s))")
    case Nil
    then have "length (filter (is_paper_pair sy) (tbl_trading_pairs (pe_session s) @ [new_pair u symbol as])) \<le> 1" for sy u as
      using le[of sy] by (auto simp: is_paper_pair_def new_pair_def)
    then show ?thesis
      using assms None Nil
      by (simp add: ensure_trading_pair_def seqm_def bindm_assoc session_ok_def same_view_def split_symbol_def)
  next
    case (Cons r rs)
    then have "rs = []" using le[of symbol] by simp
    then show ?thesis using assms None Cons by (simp add: ensure_trading_pair_def seqm_def same_view_def)
  qed
qed

definition row_of :: "string \<Rightarrow> PaperExecutionEngine \<Rightarrow> OrderRow option" where
  "row_of cid s = find (\<lambda>r. or_client_order_id r = cid) (tbl_orders (pe_session s))"

text \<open>A row that shows an order as it is in memory.\<close>

definition row_matches :: "PaperOrder \<Rightarrow> OrderRow \<Rightarrow> bool" where
  "row_matches order row \<longleftrightarrow> or_client_order_id row = pap_id order \<and> or_price row = oi_price (pap_intent order)
     \<and> or_quantity row = oi_quantity (pap_intent order) \<and> or_filled_quantity row = pap_filled_quantity order
     \<and> or_average_fill_price row = pap_average_price order \<and> paper_status (pap_status order) = Inr (or_status row)"

lemma persist_order_returns:
  assumes "session_ok (pe_session s)" "CHR ''/'' \<in> set (oi_symbol (pap_intent order))"
    "paper_status (pap_status order) = Inr st"
  shows "\<exists>t. persist_order now order s = (Inr (), t) \<and> session_ok (pe_session t) \<and> mem t = mem s
    \<and> tbl_trades (pe_session t) = tbl_trades (pe_session s)
    \<and> (\<exists>row. row_of (pap_id order) t = Some row \<and> row_matches order row)
    \<and> (\<forall>cid. cid \<noteq> pap_id order \<longrightarrow> row_of cid t = row_of cid s)"
proof -
  obtain a s1 where 1: "ensure_exchange_account s = (Inr a, s1)" "session_ok (pe_session s1)" "same_view s s1"
    using ensure_account_returns[OF assms(1)] by blast
  obtain p s2 where 2: "ensure_trading_pair (oi_symbol (pap_intent order)) s1 = (Inr p, s2)"
      "session_ok (pe_session s2)" "same_view s1 s2"
    using ensure_pair_returns[OF 1(2) assms(2)] by blast
  have v: "same_view s s2" using 1(3) 2(3) by (rule same_view_trans)
  have d: "distinct (map or_client_order_id (tbl_orders (pe_session s2)))" using 2(2) by (simp add: session_ok_def)
  have rows: "scalar_one_or_none (order_rows (pap_id order) s2) = Inr (row_of (pap_id order) s2)"
    unfolding order_rows_def row_of_def by (rule scalar_one_or_none_key[OF d])
  have run: "persist_order now order s = (case row_of (pap_id order) s2 of
       None \<Rightarrow> bindm fresh_uuid (\<lambda>u. modifies (\<lambda>s. s\<lparr>pe_session := (pe_session s)\<lparr>tbl_orders :=
           tbl_orders (pe_session s) @ [new_order_row now u a p st order]\<rparr>\<rparr>))
     | Some row \<Rightarrow> modifies (\<lambda>s. s\<lparr>pe_session := (pe_session s)\<lparr>tbl_orders :=
           update_rows (\<lambda>row. or_client_order_id row = pap_id order) (update_order_row now st order) (tbl_orders (pe_session s))\<rparr>\<rparr>)) s2"
    by (simp add: persist_order_def bindm_Inr[where m = ensure_exchange_account, OF 1(1)]
        bindm_Inr[where m = "ensure_trading_pair (oi_symbol (pap_intent order))", OF 2(1)] rows assms(3))
  show ?thesis
  proof (cases "row_of (pap_id order) s2")
    case None
    then have "pap_id order \<notin> or_client_order_id ` set (tbl_orders (pe_session s2))"
      by (auto simp: row_of_def find_None_iff)
    then show ?thesis
      using v 2(2) None unfolding run
      by (auto simp: session_ok_def same_view_def row_of_def find_append row_matches_def new_order_row_def assms(3)
          split: option.split)
  next
    case (Some row)
    let ?f = "update_order_row now st order"
    have keys: "\<And>r. or_client_order_id (?f r) = or_client_order_id r" by (simp add: update_order_row_def)
    have "or_client_order_id row = pap_id order" using Some by (auto simp: row_of_def find_Some_iff)
    then have "row_matches order (?f row)" by (simp add: row_matches_def update_order_row_def assms(3))
    then show ?thesis
      using v 2(2) Some unfolding run
      by (auto simp: session_ok_def same_view_def row_of_def update_rows_keys[where key = or_client_order_id and f = ?f, OF keys]
          find_update_rows[where key = or_client_order_id and f = ?f, OF keys])
  qed
qed

definition trade_matches :: "PaperFill \<Rightarrow> TradeRow \<Rightarrow> bool" where
  "trade_matches f row \<longleftrightarrow> tr_exchange_trade_id row = pf_trade_id f \<and> tr_side row = pf_side f \<and> tr_price row = pf_price f
     \<and> tr_quantity row = pf_quantity f \<and> tr_fee_amount row = pf_fee f \<and> tr_traded_at row = pf_executed_at f"

lemma persist_trade_returns:
  assumes "session_ok (pe_session s)" "CHR ''/'' \<in> set (pf_symbol f)" "row_of (pap_id order) s = Some row"
  shows "\<exists>t tr. persist_trade order f s = (Inr (), t) \<and> session_ok (pe_session t) \<and> mem t = mem s
    \<and> tbl_orders (pe_session t) = tbl_orders (pe_session s)
    \<and> tbl_trades (pe_session t) = tbl_trades (pe_session s) @ [tr] \<and> trade_matches f tr"
proof -
  obtain a s1 where 1: "ensure_exchange_account s = (Inr a, s1)" "session_ok (pe_session s1)" "same_view s s1"
    using ensure_account_returns[OF assms(1)] by blast
  obtain p s2 where 2: "ensure_trading_pair (pf_symbol f) s1 = (Inr p, s2)"
      "session_ok (pe_session s2)" "same_view s1 s2"
    using ensure_pair_returns[OF 1(2) assms(2)] by blast
  have v: "same_view s s2" using 1(3) 2(3) by (rule same_view_trans)
  have "row \<in> set (tbl_orders (pe_session s2))" "or_client_order_id row = pap_id order"
    using assms(3) v by (auto simp: row_of_def find_Some_iff same_view_def)
  then have rows: "scalar_one (order_rows (pap_id order) s2) = Inr row"
    unfolding order_rows_def using 2(2) by (intro scalar_one_key) (auto simp: session_ok_def)
  show ?thesis
    using v 2(2)
    by (simp add: persist_trade_def bindm_Inr[where m = ensure_exchange_account, OF 1(1)]
        bindm_Inr[where m = "ensure_trading_pair (pf_symbol f)", OF 2(1)] rows trade_matches_def session_ok_def same_view_def)
qed

lemma persist_position_returns:
  assumes "session_ok (pe_session s)" "CHR ''/'' \<in> set symbol"
  shows "\<exists>t. persist_position symbol s = (Inr (), t) \<and> session_ok (pe_session t) \<and> same_view s t"
proof -
  obtain a s1 where 1: "ensure_exchange_account s = (Inr a, s1)" "session_ok (pe_session s1)" "same_view s s1"
    using ensure_account_returns[OF assms(1)] by blast
  obtain p s2 where 2: "ensure_trading_pair symbol s1 = (Inr p, s2)" "session_ok (pe_session s2)" "same_view s1 s2"
    using ensure_pair_returns[OF 1(2) assms(2)] by blast
  have v: "same_view s s2" using 1(3) 2(3) by (rule same_view_trans)
  define key where "key = (a, p, pa_base_asset (pe_account s2))"
  have rows: "scalar_one_or_none (filter (\<lambda>row. position_key_of row = key) (tbl_positions (pe_session s2)))
      = Inr (find (\<lambda>row. position_key_of row = key) (tbl_positions (pe_session s2)))"
    using 2(2) by (intro scalar_one_or_none_key) (simp add: session_ok_def)
  show ?thesis
  proof (cases "find (\<lambda>row. position_key_of row = key) (tbl_positions (pe_session s2))")
    case None
    then have "key \<notin> position_key_of ` set (tbl_positions (pe_session s2))" by (auto simp: find_None_iff)
    then show ?thesis
      using v 2(2) None rows
      by (simp add: persist_position_def bindm_Inr[where m = ensure_exchange_account, OF 1(1)]
          bindm_Inr[where m = "ensure_trading_pair symbol", OF 2(1)] key_def session_ok_def same_view_def)
        (simp add: position_key_of_def)
  next
    case (Some row)
    then show ?thesis
      using v 2(2) rows
      by (simp add: persist_position_def bindm_Inr[where m = ensure_exchange_account, OF 1(1)]
          bindm_Inr[where m = "ensure_trading_pair symbol", OF 2(1)] key_def session_ok_def same_view_def
          update_rows_keys position_key_of_def)
  qed
qed

section \<open>The mirror invariant\<close>

definition slashed :: "string \<Rightarrow> bool" where
  "slashed symbol \<longleftrightarrow> CHR ''/'' \<in> set symbol"

text \<open>
  \<open>rows_shown X\<close>: every open order outside \<open>X\<close> has its row; \<open>rows_final\<close>: a row without an open
  order is old or final; \<open>trades_shown n\<close>: the trades table is the old one (\<open>n\<close> rows) followed by
  one row per fill.
\<close>

definition is_shown :: "bool \<Rightarrow> string \<Rightarrow> PaperOrder \<Rightarrow> OrderRow option \<Rightarrow> bool" where
  "is_shown exact cid order found \<longleftrightarrow> pap_id order = cid \<and> slashed (oi_symbol (pap_intent order)) \<and>
     (\<exists>row. found = Some row \<and> (exact \<longrightarrow> row_matches order row))"

definition rows_shown :: "string set \<Rightarrow> PaperExecutionEngine \<Rightarrow> bool" where
  "rows_shown X s \<longleftrightarrow> (\<forall>cid order. dict_get (pe_open_orders s) cid = Some order \<longrightarrow>
     is_shown (cid \<notin> X) cid order (row_of cid s))"

definition rows_final :: "string set \<Rightarrow> OrderRow set \<Rightarrow> PaperExecutionEngine \<Rightarrow> bool" where
  "rows_final X old s \<longleftrightarrow> (\<forall>cid row. row_of cid s = Some row \<longrightarrow> dict_get (pe_open_orders s) cid = None \<longrightarrow>
     cid \<notin> X \<longrightarrow> row \<in> old \<or> or_status row \<in> {OS_filled, OS_cancelled})"

definition trades_shown :: "nat \<Rightarrow> PaperExecutionEngine \<Rightarrow> bool" where
  "trades_shown n s \<longleftrightarrow> n \<le> length (tbl_trades (pe_session s))
     \<and> list_all2 trade_matches (pe_fills s) (drop n (tbl_trades (pe_session s)))"

definition mirror :: "string set \<Rightarrow> OrderRow set \<Rightarrow> nat \<Rightarrow> PaperExecutionEngine \<Rightarrow> bool" where
  "mirror X old n s \<longleftrightarrow> session_ok (pe_session s) \<and> distinct (dict_keys (pe_open_orders s))
     \<and> rows_shown X s \<and> rows_final X old s \<and> trades_shown n s"

lemma rows_shownI:
  "(\<And>cid order. dict_get (pe_open_orders s) cid = Some order \<Longrightarrow> is_shown (cid \<notin> X) cid order (row_of cid s)) \<Longrightarrow> rows_shown X s"
  by (simp add: rows_shown_def)

lemma rows_shownD:
  "rows_shown X s \<Longrightarrow> dict_get (pe_open_orders s) cid = Some order \<Longrightarrow> is_shown (cid \<notin> X) cid order (row_of cid s)"
  by (simp add: rows_shown_def)

lemma rows_finalI:
  "(\<And>cid row. row_of cid s = Some row \<Longrightarrow> dict_get (pe_open_orders s) cid = None \<Longrightarrow> cid \<notin> X \<Longrightarrow>
     row \<in> old \<or> or_status row \<in> {OS_filled, OS_cancelled}) \<Longrightarrow> rows_final X old s"
  unfolding rows_final_def by blast

lemma rows_finalD:
  "rows_final X old s \<Longrightarrow> row_of cid s = Some row \<Longrightarrow> dict_get (pe_open_orders s) cid = None \<Longrightarrow> cid \<notin> X \<Longrightarrow>
     row \<in> old \<or> or_status row \<in> {OS_filled, OS_cancelled}"
  unfolding rows_final_def by blast

lemma put_order_simps [simp]:
  "pe_session (put_order order s) = pe_session s" "pe_fills (put_order order s) = pe_fills s"
  "pe_account (put_order order s) = pe_account s"
  "row_of cid (put_order order s) = row_of cid s"
  "dict_get (pe_open_orders (put_order order s)) k = (if k = pap_id order then Some order else dict_get (pe_open_orders s) k)"
  "distinct (dict_keys (pe_open_orders s)) \<Longrightarrow> distinct (dict_keys (pe_open_orders (put_order order s)))"
  by (simp_all add: put_order_def row_of_def update_conv' adict.wf_put)

lemma drop_order_simps [simp]:
  "pe_session (drop_order cid s) = pe_session s" "pe_fills (drop_order cid s) = pe_fills s"
  "row_of k (drop_order cid s) = row_of k s"
  "distinct (dict_keys (pe_open_orders s)) \<Longrightarrow>
     dict_get (pe_open_orders (drop_order cid s)) k = (if k = cid then None else dict_get (pe_open_orders s) k)"
  "distinct (dict_keys (pe_open_orders s)) \<Longrightarrow> distinct (dict_keys (pe_open_orders (drop_order cid s)))"
  by (simp_all add: drop_order_def row_of_def adict.get_pop adict.wf_pop)

lemma paper_status_values:
  "paper_status ''ACKNOWLEDGED'' = Inr OS_open" "paper_status ''PARTIAL_FILL'' = Inr OS_partially_filled"
  "paper_status ''FILLED'' = Inr OS_filled" "paper_status ''CANCELLED'' = Inr OS_cancelled"
  by (simp_all add: paper_status_def paper_status_map_def)

lemma mem_fields:
  "mem t = mem s \<Longrightarrow> pe_open_orders t = pe_open_orders s \<and> pe_fills t = pe_fills s \<and> pe_account t = pe_account s
     \<and> pe_fee_bps t = pe_fee_bps s"
  by (simp add: mem_def)

lemma mirror_view:
  assumes "mirror X old n s" "same_view s t" "session_ok (pe_session t)"
  shows "mirror X old n t"
  using assms mem_fields[of t s]
  by (simp add: mirror_def same_view_def row_of_def rows_shown_def rows_final_def trades_shown_def)

text \<open>Putting or dropping an order in memory and then persisting it restores the mirror.\<close>

lemma mirror_put_persist:
  assumes M: "mirror X old n s" and X: "X \<subseteq> {pap_id order}" and slash: "slashed (oi_symbol (pap_intent order))"
    and st: "paper_status (pap_status order) = Inr st"
  shows "\<exists>t. persist_order now order (put_order order s) = (Inr (), t) \<and> mirror {} old n t
    \<and> (\<forall>k. dict_get (pe_open_orders t) k = (if k = pap_id order then Some order else dict_get (pe_open_orders s) k))"
proof -
  let ?s = "put_order order s"
  have ok: "session_ok (pe_session ?s)" using M by (simp add: mirror_def)
  obtain t row where
    t: "persist_order now order ?s = (Inr (), t)" "session_ok (pe_session t)" "mem t = mem ?s"
      "tbl_trades (pe_session t) = tbl_trades (pe_session ?s)" "row_of (pap_id order) t = Some row" "row_matches order row"
    and rows: "\<And>cid. cid \<noteq> pap_id order \<Longrightarrow> row_of cid t = row_of cid ?s"
    using persist_order_returns[OF ok slash[unfolded slashed_def] st] by metis
  have o: "pe_open_orders t = pe_open_orders ?s" and f: "pe_fills t = pe_fills ?s" using mem_fields[OF t(3)] by simp_all
  have d: "distinct (dict_keys (pe_open_orders s))" using M by (simp add: mirror_def)
  have notX: "cid \<notin> X" if "cid \<noteq> pap_id order" for cid using X that by blast
  have "rows_shown {} t"
  proof (rule rows_shownI)
    fix cid o' assume "dict_get (pe_open_orders t) cid = Some o'"
    then show "is_shown (cid \<notin> {}) cid o' (row_of cid t)"
      using rows_shownD[of X s cid o'] M slash t(5,6) rows notX
      by (cases "cid = pap_id order") (simp_all add: o mirror_def is_shown_def del: map_of_eq_Some_iff)
  qed
  moreover have "rows_final {} old t"
  proof (rule rows_finalI)
    fix cid row assume r: "row_of cid t = Some row" and g: "dict_get (pe_open_orders t) cid = None"
    have "cid \<noteq> pap_id order" using g by (auto simp: o)
    then show "row \<in> old \<or> or_status row \<in> {OS_filled, OS_cancelled}"
      using rows_finalD[of X old s cid row] M r g rows notX by (simp add: o mirror_def)
  qed
  moreover have "trades_shown n t" using M t(4) f unfolding mirror_def trades_shown_def by simp
  ultimately show ?thesis using t(1,2) d by (simp add: mirror_def o)
qed

lemma mirror_drop_persist:
  assumes M: "mirror X old n s" and X: "X \<subseteq> {pap_id order}" and slash: "slashed (oi_symbol (pap_intent order))"
    and st: "paper_status (pap_status order) = Inr st" "st \<in> {OS_filled, OS_cancelled}"
  shows "\<exists>t. persist_order now order (drop_order (pap_id order) s) = (Inr (), t) \<and> mirror {} old n t
    \<and> (\<forall>k. dict_get (pe_open_orders t) k = (if k = pap_id order then None else dict_get (pe_open_orders s) k))
    \<and> (\<exists>row. row_of (pap_id order) t = Some row \<and> row_matches order row)"
proof -
  let ?s = "drop_order (pap_id order) s"
  have ok: "session_ok (pe_session ?s)" using M by (simp add: mirror_def)
  obtain t row where
    t: "persist_order now order ?s = (Inr (), t)" "session_ok (pe_session t)" "mem t = mem ?s"
      "tbl_trades (pe_session t) = tbl_trades (pe_session ?s)" "row_of (pap_id order) t = Some row" "row_matches order row"
    and rows: "\<And>cid. cid \<noteq> pap_id order \<Longrightarrow> row_of cid t = row_of cid ?s"
    using persist_order_returns[OF ok slash[unfolded slashed_def] st(1)] by metis
  have o: "pe_open_orders t = pe_open_orders ?s" and f: "pe_fills t = pe_fills ?s" using mem_fields[OF t(3)] by simp_all
  have d: "distinct (dict_keys (pe_open_orders s))" using M by (simp add: mirror_def)
  have fin: "or_status row = st" using t(6) st by (simp add: row_matches_def)
  have notX: "cid \<notin> X" if "cid \<noteq> pap_id order" for cid using X that by blast
  have get: "dict_get (pe_open_orders t) k = (if k = pap_id order then None else dict_get (pe_open_orders s) k)" for k
    unfolding o using d by (rule drop_order_simps)
  have "rows_shown {} t"
  proof (rule rows_shownI)
    fix cid o' assume g: "dict_get (pe_open_orders t) cid = Some o'"
    then have "cid \<noteq> pap_id order" "dict_get (pe_open_orders s) cid = Some o'" unfolding get by (auto split: if_splits)
    then show "is_shown (cid \<notin> {}) cid o' (row_of cid t)"
      using rows_shownD[of X s cid o'] M rows notX by (simp add: mirror_def)
  qed
  moreover have "rows_final {} old t"
  proof (rule rows_finalI)
    fix cid r assume r: "row_of cid t = Some r" and g: "dict_get (pe_open_orders t) cid = None"
    show "r \<in> old \<or> or_status r \<in> {OS_filled, OS_cancelled}"
    proof (cases "cid = pap_id order")
      case True
      then show ?thesis using r t(5) fin st(2) by simp
    next
      case False
      then show ?thesis using rows_finalD[of X old s cid r] M r g rows notX unfolding get by (simp add: mirror_def)
    qed
  qed
  moreover have "trades_shown n t" using M t(4) f unfolding mirror_def trades_shown_def by simp
  ultimately show ?thesis using t d by (simp add: mirror_def o)
qed

text \<open>The memory part of a fill, before its rows are written.\<close>

lemma mirror_mem_put:
  assumes M: "mirror {} old n s" and o: "dict_get (pe_open_orders s) (pap_id order) = Some order0"
    and i: "pap_intent order = pap_intent order0" and n: "trades_shown n (s\<lparr>pe_fills := fills\<rparr>)"
  shows "mirror {pap_id order} old n (put_order order (s\<lparr>pe_account := a, pe_fills := fills\<rparr>))"
proof -
  let ?t = "put_order order (s\<lparr>pe_account := a, pe_fills := fills\<rparr>)"
  have row: "row_of k ?t = row_of k s" for k by (simp add: row_of_def)
  have get: "dict_get (pe_open_orders ?t) k = (if k = pap_id order then Some order else dict_get (pe_open_orders s) k)" for k
    by simp
  have S: "rows_shown {} s" and F: "rows_final {} old s" using M by (simp_all add: mirror_def)
  have "rows_shown {pap_id order} ?t"
  proof (rule rows_shownI)
    fix cid o' assume g: "dict_get (pe_open_orders ?t) cid = Some o'"
    show "is_shown (cid \<notin> {pap_id order}) cid o' (row_of cid ?t)"
    proof (cases "cid = pap_id order")
      case True
      then show ?thesis using rows_shownD[OF S o] g i unfolding row get by (auto simp: is_shown_def)
    next
      case False
      then show ?thesis using rows_shownD[OF S, of cid o'] g unfolding row get by (simp del: map_of_eq_Some_iff)
    qed
  qed
  moreover have "rows_final {pap_id order} old ?t"
  proof (rule rows_finalI)
    fix cid r assume "row_of cid ?t = Some r" "dict_get (pe_open_orders ?t) cid = None" "cid \<notin> {pap_id order}"
    then show "r \<in> old \<or> or_status r \<in> {OS_filled, OS_cancelled}"
      using rows_finalD[OF F, of cid r] unfolding row get by simp
  qed
  moreover have "trades_shown n ?t" using n by (simp add: trades_shown_def)
  ultimately show ?thesis using M by (simp add: mirror_def)
qed

lemma mirror_mark: "mirror X old n s \<Longrightarrow> mirror X old n (mark_price ob s)"
  by (auto simp: mark_price_def mirror_def row_of_def rows_shown_def rows_final_def trades_shown_def split: option.splits)

lemma apply_fill_mirror:
  assumes M: "mirror {} old n s" and o: "dict_get (pe_open_orders s) (pap_id order) = Some order"
  shows "\<exists>f t. apply_fill now order price quantity s = (Inr (f, fill_order price quantity order), t)
    \<and> mirror {pap_id order} old n t
    \<and> (\<forall>k. k \<noteq> pap_id order \<longrightarrow> dict_get (pe_open_orders t) k = dict_get (pe_open_orders s) k)"
proof -
  let ?o = "fill_order price quantity order"
  define s1 where "s1 = s\<lparr>pe_session := (pe_session s)\<lparr>uuid_supply := Suc (uuid_supply (pe_session s))\<rparr>\<rparr>"
  define f where "f = \<lparr>pf_trade_id = ''paper-trade-'' @ str_nat (uuid_supply (pe_session s)), pf_client_order_id = pap_id order,
         pf_symbol = oi_symbol (pap_intent order), pf_side = oi_side (pap_intent order), pf_price = price,
         pf_quantity = quantity, pf_fee = fill_fee s1 price quantity, pf_executed_at = now\<rparr>"
  define s2 where "s2 = put_order ?o (s1\<lparr>pe_account := book_fill (oi_side (pap_intent order)) price quantity (pf_fee f) (pe_account s1),
                               pe_fills := pe_fills s1 @ [f]\<rparr>)"
  have M1: "mirror {} old n s1" using M by (rule mirror_view) (use M in \<open>auto simp: s1_def same_view_def mirror_def session_ok_def\<close>)
  have "is_shown True (pap_id order) order (row_of (pap_id order) s)"
    using rows_shownD[OF _ o, of "{}"] M by (simp add: mirror_def)
  then obtain row where slash: "slashed (oi_symbol (pap_intent order))" and "row_of (pap_id order) s = Some row"
    by (auto simp: is_shown_def)
  then have row: "row_of (pap_id order) s2 = Some row" by (simp add: s1_def s2_def put_order_def row_of_def)
  have "session_ok (pe_session s2)" using M1 by (simp add: s2_def put_order_def mirror_def)
  from persist_trade_returns[OF this, of f ?o row] row slash obtain s3 tr where
    3: "persist_trade ?o f s2 = (Inr (), s3)" "session_ok (pe_session s3)" "mem s3 = mem s2"
       "tbl_orders (pe_session s3) = tbl_orders (pe_session s2)"
       "tbl_trades (pe_session s3) = tbl_trades (pe_session s2) @ [tr]" "trade_matches f tr"
    by (auto simp: f_def slashed_def)
  from persist_position_returns[OF 3(2), of "oi_symbol (pap_intent order)"] slash obtain s4 where
    4: "persist_position (oi_symbol (pap_intent order)) s3 = (Inr (), s4)" "session_ok (pe_session s4)" "same_view s3 s4"
    by (auto simp: slashed_def)
  have "apply_fill now order price quantity s = (Inr (f, ?o), s4)"
    unfolding apply_fill_def Let_def bindm_fresh s1_def[symmetric] bindm_reads
    unfolding f_def[symmetric] seqm_modifies s2_def[symmetric]
    by (simp add: seqm_def bindm_def 3(1) 4(1))
  moreover have "mirror {pap_id order} old n s3"
  proof -
    have T1: "trades_shown n s1" using M1 by (simp add: mirror_def)
    have "mirror {pap_id ?o} old n (put_order ?o (s1\<lparr>pe_account := pe_account s2, pe_fills := pe_fills s1\<rparr>))"
      by (rule mirror_mem_put[OF M1]) (use o T1 in \<open>auto simp: s1_def trades_shown_def\<close>)
    moreover have "trades_shown n s3"
      using T1 3(5,6) mem_fields[OF 3(3)] by (simp add: trades_shown_def s2_def put_order_def list_all2_appendI)
    ultimately show ?thesis
      using 3(2,4) mem_fields[OF 3(3)]
      by (simp add: mirror_def rows_shown_def rows_final_def row_of_def s2_def put_order_def)
  qed
  then have "mirror {pap_id order} old n s4" using 4(3,2) by (rule mirror_view)
  moreover have "\<forall>k. k \<noteq> pap_id order \<longrightarrow> dict_get (pe_open_orders s4) k = dict_get (pe_open_orders s) k"
    using mem_fields[of s4 s3] mem_fields[OF 3(3)] 4(3)
    by (simp add: same_view_def s2_def s1_def put_order_def update_conv')
  ultimately show ?thesis by blast
qed

lemma settle_fill_mirror:
  assumes M: "mirror {pap_id order} old n s" and slash: "slashed (oi_symbol (pap_intent order))"
  shows "\<exists>r t. settle_fill now f order s = (Inr r, t) \<and> mirror {} old n t
    \<and> (\<forall>k. k \<noteq> pap_id order \<longrightarrow> dict_get (pe_open_orders t) k = dict_get (pe_open_orders s) k)"
proof (cases "remaining_quantity order \<le> 0")
  case True
  let ?o = "order\<lparr>pap_status := ''FILLED'', pap_updated_at := now\<rparr>"
  have "\<exists>t. persist_order now ?o (drop_order (pap_id ?o) s) = (Inr (), t) \<and> mirror {} old n t
    \<and> (\<forall>k. dict_get (pe_open_orders t) k = (if k = pap_id ?o then None else dict_get (pe_open_orders s) k))
    \<and> (\<exists>row. row_of (pap_id ?o) t = Some row \<and> row_matches ?o row)"
    by (rule mirror_drop_persist[OF M]) (use slash in \<open>auto simp: paper_status_values\<close>)
  then show ?thesis using True by (auto simp: settle_fill_def Let_def seqm_def bindm_def)
next
  case False
  let ?o = "order\<lparr>pap_status := ''PARTIAL_FILL'', pap_updated_at := now\<rparr>"
  have "\<exists>t. persist_order now ?o (put_order ?o s) = (Inr (), t) \<and> mirror {} old n t
    \<and> (\<forall>k. dict_get (pe_open_orders t) k = (if k = pap_id ?o then Some ?o else dict_get (pe_open_orders s) k))"
    by (rule mirror_put_persist[OF M]) (use slash in \<open>auto simp: paper_status_values\<close>)
  then show ?thesis using False by (auto simp: settle_fill_def Let_def seqm_def bindm_def)
qed

lemma simulate_order_mirror:
  assumes M: "mirror {} old n s" and o: "dict_get (pe_open_orders s) (pap_id order) = Some order"
  shows "\<exists>r t. simulate_order now symbol ob order s = (Inr r, t) \<and> mirror {} old n t
    \<and> (\<forall>k. k \<noteq> pap_id order \<longrightarrow> dict_get (pe_open_orders t) k = dict_get (pe_open_orders s) k)"
proof -
  have "\<exists>r t. bindm (apply_fill now order price quantity) (\<lambda>(fill, order1). settle_fill now fill order1) s = (Inr r, t)
    \<and> mirror {} old n t \<and> (\<forall>k. k \<noteq> pap_id order \<longrightarrow> dict_get (pe_open_orders t) k = dict_get (pe_open_orders s) k)"
    for price quantity
  proof -
    obtain f t where t: "apply_fill now order price quantity s = (Inr (f, fill_order price quantity order), t)"
      "mirror {pap_id order} old n t"
      "\<forall>k. k \<noteq> pap_id order \<longrightarrow> dict_get (pe_open_orders t) k = dict_get (pe_open_orders s) k"
      using apply_fill_mirror[OF M o] by blast
    have "is_shown True (pap_id order) order (row_of (pap_id order) s)"
      using rows_shownD[OF _ o, of "{}"] M by (simp add: mirror_def)
    then obtain r u where "settle_fill now f (fill_order price quantity order) t = (Inr r, u)" "mirror {} old n u"
      "\<forall>k. k \<noteq> pap_id order \<longrightarrow> dict_get (pe_open_orders u) k = dict_get (pe_open_orders t) k"
      using settle_fill_mirror[of "fill_order price quantity order" old n t now f] t(2) by (auto simp: is_shown_def)
    then show ?thesis using t by (simp add: bindm_def)
  qed
  then show ?thesis
    using M unfolding simulate_order_def by (auto split: option.split)
qed

lemma collect_mirror:
  assumes "mirror {} old n s" "distinct (map pap_id orders)"
    and "\<And>order. order \<in> set orders \<Longrightarrow> dict_get (pe_open_orders s) (pap_id order) = Some order"
  shows "\<exists>rs t. collect (simulate_order now symbol ob) orders s = (Inr rs, t) \<and> mirror {} old n t"
  using assms
proof (induction orders arbitrary: s)
  case (Cons order orders)
  obtain r t where t: "simulate_order now symbol ob order s = (Inr r, t)" "mirror {} old n t"
    "\<forall>k. k \<noteq> pap_id order \<longrightarrow> dict_get (pe_open_orders t) k = dict_get (pe_open_orders s) k"
    using simulate_order_mirror[OF Cons.prems(1) Cons.prems(3)[of order], of now symbol ob] by (meson list.set_intros(1))
  have "dict_get (pe_open_orders t) (pap_id o') = Some o'" if "o' \<in> set orders" for o'
  proof -
    have "pap_id o' \<noteq> pap_id order" using that Cons.prems(2) by (auto simp: image_iff)
    then show ?thesis using t(3) Cons.prems(3)[of o'] that by simp
  qed
  then show ?case using Cons.IH[OF t(2)] Cons.prems(2) t(1) by (auto simp: bindm_def)
qed simp

lemma simulate_orders_mirror:
  assumes "mirror {} old n s"
  shows "\<exists>rs t. simulate_orders now symbol ob s = (Inr rs, t) \<and> mirror {} old n t"
proof -
  let ?s = "mark_price ob s"
  have M: "mirror {} old n ?s" using assms by (rule mirror_mark)
  then have d: "distinct (dict_keys (pe_open_orders ?s))" and S: "rows_shown {} ?s" by (simp_all add: mirror_def)
  have g: "dict_get (pe_open_orders ?s) k = Some o'" if "(k, o') \<in> set (pe_open_orders ?s)" for k o'
    using that d by simp
  have id: "pap_id o' = k" if "(k, o') \<in> set (pe_open_orders ?s)" for k o'
    using rows_shownD[OF S g[OF that]] by (simp add: is_shown_def)
  have "map pap_id (map snd (pe_open_orders ?s)) = dict_keys (pe_open_orders ?s)"
    unfolding map_map by (rule map_cong) (use id in auto)
  then have "distinct (map pap_id (map snd (pe_open_orders ?s)))" using d by (simp only:)
  moreover have "dict_get (pe_open_orders ?s) (pap_id o') = Some o'" if "o' \<in> set (map snd (pe_open_orders ?s))" for o'
    using that g id by auto
  ultimately show ?thesis
    using collect_mirror[OF M, of "map snd (pe_open_orders ?s)" now symbol ob] by (simp add: simulate_orders_def)
qed

lemma place_order_mirror:
  assumes M: "mirror {} old n s" and slash: "slashed (oi_symbol intent)"
  shows "\<exists>r t. place_order now intent ob s = (Inr r, t) \<and> mirror {} old n t"
proof -
  let ?u = "uuid_supply (pe_session s)"
  let ?s = "s\<lparr>pe_session := (pe_session s)\<lparr>uuid_supply := Suc ?u\<rparr>\<rparr>"
  define order where "order = \<lparr>pap_intent = intent, pap_status = ''ACKNOWLEDGED'', pap_exchange_order_id = ''paper-'' @ str_nat ?u,
             pap_filled_quantity = 0, pap_average_price = None, pap_created_at = now, pap_updated_at = now\<rparr>"
  have "mirror {} old n ?s" using M by (rule mirror_view) (use M in \<open>auto simp: same_view_def mirror_def session_ok_def\<close>)
  then have "\<exists>t. persist_order now order (put_order order ?s) = (Inr (), t) \<and> mirror {} old n t
    \<and> (\<forall>k. dict_get (pe_open_orders t) k = (if k = pap_id order then Some order else dict_get (pe_open_orders ?s) k))"
    by (rule mirror_put_persist) (use slash in \<open>simp_all add: order_def paper_status_values\<close>)
  then obtain t where t: "persist_order now order (put_order order ?s) = (Inr (), t)" "mirror {} old n t" by blast
  have run: "place_order now intent ob s = (case ob of None \<Rightarrow> ret order
          | Some b \<Rightarrow> bindm (simulate_orders now (oi_symbol intent) b) (\<lambda>rs.
              ret (case find (\<lambda>o'. pap_id o' = oi_client_order_id intent) (map snd rs) of None \<Rightarrow> order | Some o' \<Rightarrow> o'))) t"
    unfolding place_order_def bindm_fresh Let_def order_def[symmetric] seqm_modifies
    by (simp add: seqm_def bindm_def t(1))
  show ?thesis
  proof (cases ob)
    case None
    then show ?thesis using t(2) unfolding run by simp
  next
    case (Some b)
    then show ?thesis
      using simulate_orders_mirror[OF t(2), of now "oi_symbol intent" b] unfolding run by (auto simp: bindm_def)
  qed
qed

lemma cancel_order_mirror:
  assumes M: "mirror {} old n s"
  shows "\<exists>r t. cancel_order now cid s = (Inr r, t) \<and> mirror {} old n t"
proof (cases "dict_get (pe_open_orders s) cid")
  case None
  then show ?thesis using M by (simp add: cancel_order_def)
next
  case (Some order)
  let ?o = "order\<lparr>pap_status := ''CANCELLED'', pap_updated_at := now\<rparr>"
  have "is_shown True cid order (row_of cid s)" using rows_shownD[OF _ Some, of "{}"] M by (simp add: mirror_def)
  then have id: "pap_id ?o = cid" and slash: "slashed (oi_symbol (pap_intent ?o))" by (simp_all add: is_shown_def)
  obtain t where "persist_order now ?o (drop_order (pap_id ?o) s) = (Inr (), t)" "mirror {} old n t"
    using mirror_drop_persist[OF M _ slash, of OS_cancelled now] by (auto simp: paper_status_values)
  then show ?thesis using Some id by (simp add: cancel_order_def Let_def seqm_def bindm_def)
qed

section \<open>Property\<close>

text \<open>An operation of the engine returns, as opposed to raising.\<close>

fun paper_returns :: "paper_event \<Rightarrow> PaperExecutionEngine \<Rightarrow> bool" where
  "paper_returns (PPlace now intent ob) s = (\<not> isl (fst (place_order now intent ob s)))"
| "paper_returns (PCancel now cid) s = (\<not> isl (fst (cancel_order now cid s)))"
| "paper_returns (PReplace now cid intent ob) s = (\<not> isl (fst (replace_order now cid intent ob s)))"
| "paper_returns (PSimulate now symbol ob) s = (\<not> isl (fst (simulate_fills now symbol ob s)))"

lemma paper_step_mirror:
  assumes M: "mirror {} old n s" and slash: "\<And>i. i \<in> event_intents e \<Longrightarrow> slashed (oi_symbol i)"
  shows "paper_returns e s \<and> mirror {} old n (paper_step e s)"
proof (cases e)
  case (PPlace now intent ob)
  then show ?thesis using place_order_mirror[OF M, of intent now ob] slash by auto
next
  case (PCancel now cid)
  then show ?thesis using cancel_order_mirror[OF M, of now cid] by auto
next
  case (PReplace now cid intent ob)
  obtain r t where "cancel_order now cid s = (Inr r, t)" "mirror {} old n t" using cancel_order_mirror[OF M] by blast
  then show ?thesis using place_order_mirror[of old n t intent now ob] slash PReplace
    by (auto simp: replace_order_def seqm_def bindm_def)
next
  case (PSimulate now symbol ob)
  then show ?thesis using simulate_orders_mirror[OF M, of now symbol ob] by (auto simp: simulate_fills_def bindm_def)
qed

lemma run_mirror:
  assumes "mirror {} old n s" "\<And>i. i \<in> placed_intents es \<Longrightarrow> slashed (oi_symbol i)"
  shows "mirror {} old n (run paper_step es s)"
  using assms
proof (induction es arbitrary: s)
  case (Cons e es)
  then show ?case using paper_step_mirror[of old n s e] by simp
qed simp



end
