(* ===== verification/Quote_Engine.thy ===== *)
theory Quote_Engine
  imports Config
begin

text \<open>
  Quote generation (\<open>engines/market_making/engine.py\<close>): the spread model, the inventory skew,
  the volatility buffer, price protection, the imbalance adjustment, the order ladder built from
  them, and the decision which resting orders to replace.
\<close>

record MarketState =
  ms_symbol :: string
  ms_mid_price :: float
  ms_spread_bps :: float
  ms_volatility :: float
  ms_liquidity_imbalance :: float

record InventoryState =
  is_base_ratio :: float
  is_target_base_ratio :: float
  is_exposure_notional :: float

record Quote =
  q_side :: string
  q_price :: float
  q_quantity :: float
  q_level :: int
  q_client_order_id :: string

record ReplacementDecision =
  rd_replace :: bool
  rd_reason :: string
  rd_desired :: Quote
  rd_existing_order_id :: "string option"

definition adjusted_spread_bps :: "SpreadSettings \<Rightarrow> MarketState \<Rightarrow> float" where
  "adjusted_spread_bps s market =
     (let volatility_component = ms_volatility market * 10000 * volatility_multiplier s;
          liquidity_component = \<bar>ms_liquidity_imbalance market\<bar> * base_spread_bps s
      in min (max_spread_bps s) (max (min_spread_bps s) (base_spread_bps s + volatility_component + liquidity_component)))"

definition skew_bps :: "InventorySettings \<Rightarrow> InventoryState \<Rightarrow> float" where
  "skew_bps s inventory =
     (let deviation = is_base_ratio inventory - is_target_base_ratio inventory in deviation * skew_intensity s * 100)"

definition price_buffer_bps :: "float \<Rightarrow> float" where
  "price_buffer_bps volatility = max 0 (volatility * 10000)"

definition protect :: "string \<Rightarrow> float \<Rightarrow> float \<Rightarrow> float \<Rightarrow> float" where
  "protect side price mid_price max_distance_bps =
     (let max_distance = mid_price * max_distance_bps / 10000
      in if side = ''buy'' then min price (mid_price + max_distance) else max price (mid_price - max_distance))"

definition improve_for_imbalance :: "string \<Rightarrow> float \<Rightarrow> float \<Rightarrow> float \<Rightarrow> float" where
  "improve_for_imbalance side price mid_price imbalance =
     (let adjustment = mid_price * \<bar>imbalance\<bar> / 10000
      in if imbalance > 0 \<and> side = ''sell'' then price - adjustment
         else if imbalance < 0 \<and> side = ''buy'' then price + adjustment
         else price)"

text \<open>
  \<open>OrderLadderEngine\<close>: \<open>uuid_hex\<close> is the source of fresh identifiers, indexed by call; the
  client id carries the first twelve digits of one.
\<close>

record OrderLadderEngine =
  le_settings :: OrderSizeSettings
  le_layers :: OrderLayerSettings

definition client_id :: "string \<Rightarrow> string \<Rightarrow> int \<Rightarrow> string \<Rightarrow> string" where
  "client_id symbol side level hex =
     ''mm-'' @ lower (remove_char (CHR ''/'') symbol) @ ''-'' @ side @ ''-'' @ str_int level @ ''-'' @ take 12 hex"

definition levels :: "OrderLadderEngine \<Rightarrow> int" where
  "levels e = min (min (ladder_levels (le_settings e)) (enabled_levels (le_layers e))) (max_active_orders_per_side (le_layers e))"

definition level_spread :: "OrderLadderEngine \<Rightarrow> float \<Rightarrow> float \<Rightarrow> int \<Rightarrow> float" where
  "level_spread e spread_bps volatility_buffer_bps level =
     (let spacing = spacing_bps (le_layers e) * of_int (level - 1) * outer_level_multiplier (le_layers e)
      in spread_bps + spacing + volatility_buffer_bps)"

definition level_quantity :: "OrderLadderEngine \<Rightarrow> int \<Rightarrow> float" where
  "level_quantity e level =
     min (max_order_size (le_settings e))
       (max (min_order_size (le_settings e)) (base_order_size (le_settings e) * ladder_size_multiplier (le_settings e) ^ nat (level - 1)))"

definition bid_price :: "float \<Rightarrow> float \<Rightarrow> float \<Rightarrow> float \<Rightarrow> float" where
  "bid_price mid_price spread skew imbalance =
     (let bid_bps = spread / 2 + skew;
          bid = mid_price * (1 - bid_bps / 10000);
          bid = improve_for_imbalance ''buy'' bid mid_price imbalance
      in protect ''buy'' bid mid_price (max spread 1))"

definition ask_price :: "float \<Rightarrow> float \<Rightarrow> float \<Rightarrow> float \<Rightarrow> float" where
  "ask_price mid_price spread skew imbalance =
     (let ask_bps = spread / 2 - skew;
          ask = mid_price * (1 + ask_bps / 10000);
          ask = improve_for_imbalance ''sell'' ask mid_price imbalance
      in protect ''sell'' ask mid_price (max spread 1))"

definition level_quotes :: "OrderLadderEngine \<Rightarrow> (nat \<Rightarrow> string) \<Rightarrow> string \<Rightarrow> float \<Rightarrow> float \<Rightarrow> float \<Rightarrow> float \<Rightarrow> float \<Rightarrow> int \<Rightarrow> Quote list" where
  "level_quotes e uuid_hex symbol mid_price spread_bps inventory_skew_bps volatility_buffer_bps liquidity_imbalance level =
     (let spread = level_spread e spread_bps volatility_buffer_bps level;
          quantity = level_quantity e level;
          bid = bid_price mid_price spread inventory_skew_bps liquidity_imbalance;
          ask = ask_price mid_price spread inventory_skew_bps liquidity_imbalance;
          i = nat (2 * (level - 1))
      in [\<lparr>q_side = ''buy'', q_price = py_round bid 8, q_quantity = quantity, q_level = level,
           q_client_order_id = client_id symbol ''buy'' level (uuid_hex i)\<rparr>,
          \<lparr>q_side = ''sell'', q_price = py_round ask 8, q_quantity = quantity, q_level = level,
           q_client_order_id = client_id symbol ''sell'' level (uuid_hex (i + 1))\<rparr>])"

definition build :: "OrderLadderEngine \<Rightarrow> (nat \<Rightarrow> string) \<Rightarrow> string \<Rightarrow> float \<Rightarrow> float \<Rightarrow> float \<Rightarrow> float \<Rightarrow> float \<Rightarrow> Quote list" where
  "build e uuid_hex symbol mid_price spread_bps inventory_skew_bps volatility_buffer_bps liquidity_imbalance =
     concat (map (level_quotes e uuid_hex symbol mid_price spread_bps inventory_skew_bps volatility_buffer_bps liquidity_imbalance)
       [1..levels e])"

record QuoteEngine =
  spread_settings :: SpreadSettings
  order_size_settings :: OrderSizeSettings
  inventory_settings :: InventorySettings
  order_layer_settings :: OrderLayerSettings
  spread_engine :: SpreadSettings
  inventory_skew :: InventorySettings
  ladder :: OrderLadderEngine

definition QuoteEngine_init :: "SpreadSettings \<Rightarrow> OrderSizeSettings \<Rightarrow> InventorySettings \<Rightarrow> OrderLayerSettings option \<Rightarrow> QuoteEngine" where
  "QuoteEngine_init spread order_size inventory order_layers =
     (let layers = (case order_layers of
          Some l \<Rightarrow> l
        | None \<Rightarrow> \<lparr>enabled_levels = ladder_levels order_size, spacing_bps = base_spread_bps spread, outer_level_multiplier = 5/4,
            refresh_threshold_bps = 5, max_active_orders_per_side = ladder_levels order_size\<rparr>)
      in \<lparr>spread_settings = spread, order_size_settings = order_size, inventory_settings = inventory, order_layer_settings = layers,
          spread_engine = spread, inventory_skew = inventory, ladder = \<lparr>le_settings = order_size, le_layers = layers\<rparr>\<rparr>)"

definition update_settings :: "QuoteEngine \<Rightarrow> SpreadSettings \<Rightarrow> OrderSizeSettings \<Rightarrow> InventorySettings \<Rightarrow> OrderLayerSettings \<Rightarrow> QuoteEngine" where
  "update_settings e spread order_size inventory order_layers =
     e\<lparr>spread_settings := spread, order_size_settings := order_size, inventory_settings := inventory,
       order_layer_settings := order_layers, spread_engine := spread, inventory_skew := inventory,
       ladder := \<lparr>le_settings = order_size, le_layers = order_layers\<rparr>\<rparr>"

definition generate_quotes :: "QuoteEngine \<Rightarrow> (nat \<Rightarrow> string) \<Rightarrow> MarketState \<Rightarrow> InventoryState \<Rightarrow> Quote list" where
  "generate_quotes e uuid_hex market inventory =
     (let spread = adjusted_spread_bps (spread_engine e) market;
          skew = skew_bps (inventory_skew e) inventory;
          volatility_buffer = price_buffer_bps (ms_volatility market)
      in build (ladder e) uuid_hex (ms_symbol market) (ms_mid_price market) spread skew volatility_buffer (ms_liquidity_imbalance market))"

definition should_refresh :: "datetime \<Rightarrow> datetime \<Rightarrow> int \<Rightarrow> bool" where
  "should_refresh now last_refresh interval_seconds \<longleftrightarrow> total_seconds (now - last_refresh) \<ge> of_int interval_seconds"

text \<open>A resting order as the replacement engine sees it: \<open>price\<close>, \<open>quantity\<close>, \<open>str(order_id)\<close>.\<close>

record ExistingOrder =
  eo_price :: float
  eo_quantity :: float
  eo_order_id :: string

definition decision :: "(string \<times> int, ExistingOrder) dict \<Rightarrow> float \<Rightarrow> Quote \<Rightarrow> ReplacementDecision res" where
  "decision existing price_threshold_bps quote =
     (case dict_get existing (q_side quote, q_level quote) of
        None \<Rightarrow> Inr \<lparr>rd_replace = True, rd_reason = ''missing_order'', rd_desired = quote, rd_existing_order_id = None\<rparr>
      | Some current \<Rightarrow>
          bindr (py_div \<bar>q_price quote - eo_price current\<bar> (q_price quote)) (\<lambda>ratio.
            let diff_bps = ratio * 10000
            in if diff_bps \<ge> price_threshold_bps \<or> \<bar>q_quantity quote - eo_quantity current\<bar> > 1 / 10 ^ 12
               then Inr \<lparr>rd_replace = True, rd_reason = ''price_or_size_drift'', rd_desired = quote, rd_existing_order_id = Some (eo_order_id current)\<rparr>
               else Inr \<lparr>rd_replace = False, rd_reason = ''within_threshold'', rd_desired = quote, rd_existing_order_id = Some (eo_order_id current)\<rparr>))"

fun decisions :: "Quote list \<Rightarrow> (string \<times> int, ExistingOrder) dict \<Rightarrow> float \<Rightarrow> ReplacementDecision list res" where
  "decisions [] existing thr = Inr []"
| "decisions (quote # rest) existing thr =
     bindr (decision existing thr quote) (\<lambda>d. bindr (decisions rest existing thr) (\<lambda>ds. Inr (d # ds)))"

section \<open>Spread and sizes stay inside their configured bounds\<close>

lemma adjusted_spread_bounds:
  assumes "spread_ok s"
  shows "min_spread_bps s \<le> adjusted_spread_bps s market" "adjusted_spread_bps s market \<le> max_spread_bps s"
  using spread_okD[OF assms] by (auto simp: adjusted_spread_bps_def Let_def)

lemma price_buffer_nonneg: "0 \<le> price_buffer_bps v"
  by (simp add: price_buffer_bps_def)

lemma level_quantity_bounds:
  assumes "order_size_ok (le_settings e)"
  shows "min_order_size (le_settings e) \<le> level_quantity e l" "level_quantity e l \<le> max_order_size (le_settings e)"
  using order_size_okD[OF assms] by (auto simp: level_quantity_def)

lemma level_spread_ge:
  assumes "layers_ok (le_layers e)" "0 \<le> buffer" "1 \<le> l"
  shows "spread \<le> level_spread e spread buffer l"
  using layers_okD[OF assms(1)] assms(2,3) by (simp add: level_spread_def Let_def)

section \<open>No two quotes of one ladder cross\<close>

text \<open>Before protection the inventory skew cancels out of the distance between a bid and an ask.\<close>

lemma bid_le_ask_raw:
  fixes mid :: rat
  assumes "0 \<le> mid" "2 * \<bar>imb\<bar> \<le> s1 + s2"
  shows "improve_for_imbalance ''buy'' (mid * (1 - (s1 / 2 + k) / 10000)) mid imb
    \<le> improve_for_imbalance ''sell'' (mid * (1 + (s2 / 2 - k) / 10000)) mid imb"
proof -
  have "mid * (2 * \<bar>imb\<bar>) \<le> mid * (s1 + s2)" using assms by (intro mult_left_mono) auto
  then have "mid * \<bar>imb\<bar> * 2 \<le> mid * s1 + mid * s2" by (simp add: algebra_simps)
  moreover have "0 \<le> mid * \<bar>imb\<bar>" using assms(1) by simp
  ultimately show ?thesis by (auto simp: improve_for_imbalance_def Let_def abs_if field_simps split: if_splits)
qed

lemma protect_widens:
  "protect ''buy'' p mid d \<le> p" "p \<le> protect ''sell'' p mid d"
  "protect ''buy'' p mid d \<le> mid + mid * d / 10000" "mid - mid * d / 10000 \<le> protect ''sell'' p mid d"
  by (auto simp: protect_def Let_def)

lemma bid_le_ask:
  assumes "0 \<le> mid" "2 * \<bar>imb\<bar> \<le> s1 + s2"
  shows "bid_price mid s1 k imb \<le> ask_price mid s2 k imb"
  unfolding bid_price_def ask_price_def Let_def
  using protect_widens(1,2) bid_le_ask_raw[OF assms] by (meson order_trans)

lemma build_quotes:
  assumes "q \<in> set (build e u symb mid spread skew buffer imb)"
  obtains l where "1 \<le> l" "l \<le> levels e" "q_level q = l" "q_quantity q = level_quantity e l"
    "q_side q = ''buy'' \<and> q_price q = py_round (bid_price mid (level_spread e spread buffer l) skew imb) 8
     \<or> q_side q = ''sell'' \<and> q_price q = py_round (ask_price mid (level_spread e spread buffer l) skew imb) 8"
  using assms by (auto simp: build_def level_quotes_def Let_def)

lemma build_not_crossed:
  assumes "layers_ok (le_layers e)" "0 \<le> mid" "0 \<le> buffer" "\<bar>imb\<bar> \<le> spread"
    and b: "b \<in> set (build e u symb mid spread skew buffer imb)" "q_side b = ''buy''"
    and a: "a \<in> set (build e u symb mid spread skew buffer imb)" "q_side a = ''sell''"
  shows "q_price b \<le> q_price a"
proof -
  from build_quotes[OF b(1)] b(2) obtain i where i: "1 \<le> i"
    "q_price b = py_round (bid_price mid (level_spread e spread buffer i) skew imb) 8" by auto
  from build_quotes[OF a(1)] a(2) obtain j where j: "1 \<le> j"
    "q_price a = py_round (ask_price mid (level_spread e spread buffer j) skew imb) 8" by auto
  have "2 * \<bar>imb\<bar> \<le> level_spread e spread buffer i + level_spread e spread buffer j"
    using level_spread_ge[OF assms(1,3) i(1), of spread] level_spread_ge[OF assms(1,3) j(1), of spread] assms(4) by linarith
  then show ?thesis
    unfolding i(2) j(2) by (intro py_round_mono bid_le_ask[OF assms(2)])
qed


section \<open>Shape of the ladder\<close>

text \<open>
  A ladder has exactly one buy and one sell quote for every level from 1 to the smallest of
  the three configured level limits, in level order, and every quantity lies between the
  configured minimum and maximum order size.
\<close>

theorem ladder_shape:
  assumes "order_size_ok (le_settings (ladder e))"
  shows "map (\<lambda>q. (q_side q, q_level q)) (generate_quotes e u market inventory)
      = concat (map (\<lambda>l. [(''buy'', l), (''sell'', l)]) [1..levels (ladder e)])
    \<and> (\<forall>q \<in> set (generate_quotes e u market inventory).
         min_order_size (le_settings (ladder e)) \<le> q_quantity q \<and> q_quantity q \<le> max_order_size (le_settings (ladder e)))"
  using level_quantity_bounds[OF assms]
  by (auto simp: generate_quotes_def build_def level_quotes_def Let_def map_concat comp_def)

section \<open>Reconfiguration\<close>

text \<open>
  \<open>update_settings\<close> leaves no trace of the previous configuration: the updated engine is the
  engine constructed from the new settings.
\<close>

theorem update_settings_is_fresh:
  "update_settings e spread order_size inventory layers = QuoteEngine_init spread order_size inventory (Some layers)"
  by (simp add: update_settings_def QuoteEngine_init_def)

text \<open>
  The market's own \<open>spread_bps\<close> never reaches the quotes: two market states that differ only
  there give the same ladder. The spread multiplier that the runtime applies to this field under
  volume pressure therefore has no effect.
\<close>

theorem spread_bps_ignored:
  "generate_quotes e u (market\<lparr>ms_spread_bps := x\<rparr>) inventory = generate_quotes e u market inventory"
  by (simp add: generate_quotes_def adjusted_spread_bps_def)

section \<open>Replacement decisions\<close>

lemma decision_total: "q_price q \<noteq> 0 \<Longrightarrow> \<exists>d. decision existing thr q = Inr d"
  by (auto simp: decision_def Let_def split: option.splits)

lemma decision_Inr:
  assumes "decision existing thr q = Inr d"
  shows "rd_desired d = q" "\<not> rd_replace d \<longleftrightarrow> (\<exists>c. dict_get existing (q_side q, q_level q) = Some c
      \<and> \<bar>q_price q - eo_price c\<bar> / q_price q * 10000 < thr \<and> \<bar>q_quantity q - eo_quantity c\<bar> \<le> 1 / 10 ^ 12)"
  using assms by (auto simp: decision_def py_div_def Let_def bindr_Inr_iff split: option.splits if_splits)

text \<open>
  With positive prices the replacement engine answers for every desired quote, in order, and
  leaves a resting order alone exactly when one rests at that side and level whose price is within
  the threshold and whose size differs by at most 1e-12.
\<close>

theorem decisions_total_and_exact:
  assumes "\<And>q. q \<in> set desired \<Longrightarrow> 0 < q_price q"
  shows "\<exists>ds. decisions desired existing thr = Inr ds \<and> map rd_desired ds = desired
    \<and> (\<forall>d \<in> set ds. \<not> rd_replace d \<longleftrightarrow>
         (\<exists>c. dict_get existing (q_side (rd_desired d), q_level (rd_desired d)) = Some c
           \<and> \<bar>q_price (rd_desired d) - eo_price c\<bar> / q_price (rd_desired d) * 10000 < thr
           \<and> \<bar>q_quantity (rd_desired d) - eo_quantity c\<bar> \<le> 1 / 10 ^ 12))"
  using assms
proof (induction desired)
  case (Cons q qs)
  then obtain ds where ds: "decisions qs existing thr = Inr ds" "map rd_desired ds = qs"
    "\<forall>d \<in> set ds. \<not> rd_replace d \<longleftrightarrow>
         (\<exists>c. dict_get existing (q_side (rd_desired d), q_level (rd_desired d)) = Some c
           \<and> \<bar>q_price (rd_desired d) - eo_price c\<bar> / q_price (rd_desired d) * 10000 < thr
           \<and> \<bar>q_quantity (rd_desired d) - eo_quantity c\<bar> \<le> 1 / 10 ^ 12)" by auto
  from Cons.prems[of q] have "q_price q \<noteq> 0" by simp
  then obtain d where d: "decision existing thr q = Inr d"
    using decision_total by blast
  with ds decision_Inr[OF d] show ?case by auto
qed simp

section \<open>Witnesses\<close>

definition default_quote_engine :: QuoteEngine where
  "default_quote_engine = QuoteEngine_init (rc_spread default_runtime_config) (rc_order_size default_runtime_config)
     (rc_inventory default_runtime_config) (Some (rc_order_layers default_runtime_config))"

definition example_market :: MarketState where
  "example_market = \<lparr>ms_symbol = ''BTC/USDT'', ms_mid_price = 50000, ms_spread_bps = 10, ms_volatility = 1/1000, ms_liquidity_imbalance = 1/5\<rparr>"

definition example_inventory :: InventoryState where
  "example_inventory = \<lparr>is_base_ratio = 3/5, is_target_base_ratio = 1/2, is_exposure_notional = 1000\<rparr>"

lemma default_quote_engine_simps:
  "spread_engine default_quote_engine = rc_spread default_runtime_config"
  "ladder default_quote_engine = \<lparr>le_settings = rc_order_size default_runtime_config, le_layers = rc_order_layers default_runtime_config\<rparr>"
  by (simp_all add: default_quote_engine_def QuoteEngine_init_def Let_def)

lemma level_quotes_mem:
  assumes "1 \<le> l" "l \<le> levels (ladder e)"
  shows "\<exists>q \<in> set (generate_quotes e u market inventory). q_side q = ''buy'' \<and> q_level q = l"
    "\<exists>q \<in> set (generate_quotes e u market inventory). q_side q = ''sell'' \<and> q_level q = l"
  using assms by (auto simp: generate_quotes_def build_def level_quotes_def Let_def intro!: bexI[of _ l])


theorem ladder_shape_witness:
  "map (\<lambda>q. (q_side q, q_level q)) (generate_quotes default_quote_engine (\<lambda>_. []) example_market example_inventory)
   = [(''buy'', 1), (''sell'', 1), (''buy'', 2), (''sell'', 2), (''buy'', 3), (''sell'', 3)]"
proof -
  have "order_size_ok (le_settings (ladder default_quote_engine))"
    by (simp add: default_quote_engine_simps default_config_ok)
  from ladder_shape[OF this] show ?thesis
    by (simp add: levels_def default_quote_engine_simps default_runtime_config_def upto_rec1)
qed

theorem decisions_total_and_exact_witness:
  "\<exists>ds. decisions [\<lparr>q_side = ''buy'', q_price = 100, q_quantity = 1, q_level = 1, q_client_order_id = ''x''\<rparr>]
     [((''buy'', 1), \<lparr>eo_price = 100, eo_quantity = 1, eo_order_id = ''o''\<rparr>)] 5 = Inr ds \<and> map rd_replace ds = [False]"
  using decisions_total_and_exact[of "[\<lparr>q_side = ''buy'', q_price = 100, q_quantity = 1, q_level = 1, q_client_order_id = ''x''\<rparr>]"
      "[((''buy'', 1), \<lparr>eo_price = 100, eo_quantity = 1, eo_order_id = ''o''\<rparr>)]" 5]
  by (auto simp: map_eq_Cons_conv)

end
