(* ===== verification/Volume.thy ===== *)
theory Volume
  imports Config
begin

text \<open>
  Volume targets (\<open>engines/volume/engine.py\<close>): progress of the hourly, daily and weekly windows,
  the urgency derived from it, the pressure signal that scales quotes, and the limiter that spaces
  pressure orders. Calendar arithmetic is on microseconds since the epoch; 1970-01-01 is a
  Thursday, weekday 3.
\<close>

record VolumeWindowProgress =
  vw_target_notional :: float
  vw_executed_notional :: float
  vw_remaining_notional :: float
  vw_progress_ratio :: float
  vw_window_seconds_remaining :: float

record ExecutionPressureSignal =
  ep_enabled :: bool
  ep_size_multiplier :: float
  ep_spread_multiplier :: float
  ep_urgency :: float
  ep_reason :: string

record VolumeProgressReport =
  vr_hourly :: VolumeWindowProgress
  vr_daily :: VolumeWindowProgress
  vr_weekly :: VolumeWindowProgress
  vr_participation_rate :: float
  vr_pressure :: ExecutionPressureSignal

record VolumeEngine =
  ve_settings :: VolumeSettings
  ve_last_pressure_order_at :: "datetime option"

definition VolumeEngine_init :: "VolumeSettings \<Rightarrow> VolumeEngine" where
  "VolumeEngine_init s = \<lparr>ve_settings = s, ve_last_pressure_order_at = None\<rparr>"

definition volume_update_settings :: "VolumeEngine \<Rightarrow> VolumeSettings \<Rightarrow> VolumeEngine" where
  "volume_update_settings e s = e\<lparr>ve_settings := s\<rparr>"

definition hour_us :: int where "hour_us = seconds 3600"
definition day_us :: int where "day_us = seconds 86400"

definition weekday :: "datetime \<Rightarrow> int" where
  "weekday t = (t div day_us + 3) mod 7"

definition seconds_until_next_hour :: "datetime \<Rightarrow> float" where
  "seconds_until_next_hour now = (let next_hour = now div hour_us * hour_us + hour_us in total_seconds (next_hour - now))"

definition seconds_until_next_day :: "datetime \<Rightarrow> float" where
  "seconds_until_next_day now = (let next_day = (now + day_us) div day_us * day_us in total_seconds (next_day - now))"

definition seconds_until_next_week :: "datetime \<Rightarrow> float" where
  "seconds_until_next_week now =
     (let start_today = now div day_us * day_us; days = 7 - weekday now in total_seconds (start_today + days * day_us - now))"

definition volume_window :: "float \<Rightarrow> float \<Rightarrow> float \<Rightarrow> VolumeWindowProgress" where
  "volume_window target executed remaining_seconds =
     \<lparr>vw_target_notional = target, vw_executed_notional = executed, vw_remaining_notional = max 0 (target - executed),
      vw_progress_ratio = (if target \<le> 0 then 1 else min 1 (executed / target)),
      vw_window_seconds_remaining = max 0 remaining_seconds\<rparr>"

definition target_window_seconds :: "VolumeWindowProgress \<Rightarrow> float" where
  "target_window_seconds w =
     (if vw_window_seconds_remaining w \<le> 3600 then 3600
      else if vw_window_seconds_remaining w \<le> 86400 then 86400 else 604800)"

definition urgency :: "VolumeWindowProgress \<Rightarrow> float" where
  "urgency w =
     (if vw_target_notional w \<le> 0 then 0
      else let elapsed_ratio = 1 - vw_window_seconds_remaining w / target_window_seconds w;
               expected_progress = min 1 (max 0 elapsed_ratio)
           in max 0 (expected_progress - vw_progress_ratio w))"

definition pressure_signal :: "VolumeSettings \<Rightarrow> VolumeWindowProgress \<Rightarrow> VolumeWindowProgress \<Rightarrow> VolumeWindowProgress \<Rightarrow> float \<Rightarrow> float \<Rightarrow> ExecutionPressureSignal" where
  "pressure_signal s hourly daily weekly participation_rate external_market_volume_notional =
     (let off = (\<lambda>reason. \<lparr>ep_enabled = False, ep_size_multiplier = 1, ep_spread_multiplier = 1, ep_urgency = 0, ep_reason = reason\<rparr>)
      in if \<not> volume_enabled s then off ''volume_engine_disabled''
         else if external_volume_required s \<and> external_market_volume_notional \<le> 0 then off ''external_volume_required''
         else if participation_rate \<ge> max_participation_rate s then off ''participation_limit_reached''
         else let u = max (max (urgency hourly) (urgency daily)) (urgency weekly)
              in if u < pressure_threshold s
                 then \<lparr>ep_enabled = True, ep_size_multiplier = 1, ep_spread_multiplier = 1, ep_urgency = u, ep_reason = ''on_target''\<rparr>
                 else \<lparr>ep_enabled = True, ep_size_multiplier = min (max_size_multiplier s) (1 + u),
                       ep_spread_multiplier = max (1/2) (1 - u * (1/4)), ep_urgency = u, ep_reason = ''behind_target''\<rparr>)"

definition progress :: "VolumeEngine \<Rightarrow> datetime \<Rightarrow> float \<Rightarrow> float \<Rightarrow> float \<Rightarrow> float \<Rightarrow> VolumeProgressReport" where
  "progress e now hourly_notional daily_notional weekly_notional external_market_volume_notional =
     (let s = ve_settings e;
          hourly = volume_window (hourly_target_notional s) hourly_notional (seconds_until_next_hour now);
          daily = volume_window (daily_target_notional s) daily_notional (seconds_until_next_day now);
          weekly = volume_window (weekly_target_notional s) weekly_notional (seconds_until_next_week now);
          participation = (if external_market_volume_notional \<le> 0 then 0 else daily_notional / external_market_volume_notional)
      in \<lparr>vr_hourly = hourly, vr_daily = daily, vr_weekly = weekly, vr_participation_rate = participation,
          vr_pressure = pressure_signal s hourly daily weekly participation external_market_volume_notional\<rparr>)"

definition can_apply_pressure_order :: "datetime \<Rightarrow> VolumeEngine \<Rightarrow> bool \<times> VolumeEngine" where
  "can_apply_pressure_order now e =
     (case ve_last_pressure_order_at e of
        None \<Rightarrow> (True, e\<lparr>ve_last_pressure_order_at := Some now\<rparr>)
      | Some t \<Rightarrow>
          if total_seconds (now - t) < of_int (min_seconds_between_pressure_orders (ve_settings e)) then (False, e)
          else (True, e\<lparr>ve_last_pressure_order_at := Some now\<rparr>))"

section \<open>Calendar\<close>

lemma total_seconds_less: "total_seconds d < of_int n \<longleftrightarrow> d < seconds n"
proof -
  have "total_seconds d < of_int n \<longleftrightarrow> (of_int d :: rat) < of_int (n * 1000000)" by (simp add: total_seconds_def field_simps)
  then show ?thesis by (simp only: of_int_less_iff seconds_def)
qed

lemma total_seconds_le: "total_seconds d \<le> of_int n \<longleftrightarrow> d \<le> seconds n"
proof -
  have "total_seconds d \<le> of_int n \<longleftrightarrow> (of_int d :: rat) \<le> of_int (n * 1000000)" by (simp add: total_seconds_def field_simps)
  then show ?thesis by (simp only: of_int_le_iff seconds_def)
qed

lemma total_seconds_pos: "0 < total_seconds d \<longleftrightarrow> 0 < d"
  by (simp add: total_seconds_def zero_less_divide_iff)

lemma next_boundary:
  fixes w t :: int
  assumes "0 < w"
  shows "0 < t div w * w + w - t" "t div w * w + w - t \<le> w"
proof -
  have "t div w * w + t mod w = t" by (rule div_mult_mod_eq)
  then have "t div w * w + w - t = w - t mod w" by linarith
  moreover have "0 \<le> t mod w" "t mod w < w" using assms by simp_all
  ultimately show "0 < t div w * w + w - t" "t div w * w + w - t \<le> w" by linarith+
qed

lemma weekday_range: "0 \<le> weekday t" "weekday t < 7"
  by (simp_all add: weekday_def)

text \<open>
  The distance to the end of the current hour, day and week is always positive and never
  longer than the window itself.
\<close>

theorem window_ends_ahead:
  "0 < seconds_until_next_hour now \<and> seconds_until_next_hour now \<le> 3600
   \<and> 0 < seconds_until_next_day now \<and> seconds_until_next_day now \<le> 86400
   \<and> 0 < seconds_until_next_week now \<and> seconds_until_next_week now \<le> 604800"
proof -
  have h: "0 < hour_us" and d: "0 < day_us" by (simp_all add: hour_us_def day_us_def seconds_def)
  note H = next_boundary[OF h, of now] and D = next_boundary[OF d, of now]
  have day: "(now + day_us) div day_us * day_us - now = now div day_us * day_us + day_us - now"
    using d by (simp add: algebra_simps)
  have "now div day_us * day_us + (7 - weekday now) * day_us - now = (now div day_us * day_us + day_us - now) + (6 - weekday now) * day_us"
    by (simp add: algebra_simps)
  moreover have "0 \<le> (6 - weekday now) * day_us" "(6 - weekday now) * day_us \<le> 6 * day_us"
    using weekday_range[of now] d by (auto intro: mult_right_mono)
  ultimately have W: "0 < now div day_us * day_us + (7 - weekday now) * day_us - now"
    "now div day_us * day_us + (7 - weekday now) * day_us - now \<le> 7 * day_us" using D by linarith+
  show ?thesis
    using H D W total_seconds_le[of _ 3600] total_seconds_le[of _ 86400] total_seconds_le[of _ 604800]
    by (simp add: seconds_until_next_hour_def seconds_until_next_day_def seconds_until_next_week_def total_seconds_pos Let_def day)
      (simp add: hour_us_def day_us_def seconds_def)
qed

section \<open>Pressure\<close>

lemma urgency_bounds: "0 \<le> vw_progress_ratio w \<Longrightarrow> 0 \<le> urgency w \<and> urgency w \<le> 1"
  by (auto simp: urgency_def Let_def)

lemma volume_window_progress: "0 \<le> executed \<Longrightarrow> 0 \<le> vw_progress_ratio (volume_window target executed r) \<and> vw_progress_ratio (volume_window target executed r) \<le> 1"
  by (auto simp: volume_window_def)

text \<open>
  The pressure signal stays in its bounds: for validated settings and non-negative executed
  volumes, sizes are multiplied by at least 1 and at most the configured maximum, spreads by at
  least 0.5 and at most 1, the urgency is a ratio, and a signal that is off changes nothing. At or
  above the participation limit it is off.
\<close>

theorem pressure_signal_bounded:
  assumes "volume_ok (ve_settings e)" "0 \<le> h" "0 \<le> d" "0 \<le> w" "r = progress e now h d w ext"
  shows "1 \<le> ep_size_multiplier (vr_pressure r) \<and> ep_size_multiplier (vr_pressure r) \<le> max_size_multiplier (ve_settings e)
    \<and> 1/2 \<le> ep_spread_multiplier (vr_pressure r) \<and> ep_spread_multiplier (vr_pressure r) \<le> 1
    \<and> 0 \<le> ep_urgency (vr_pressure r) \<and> ep_urgency (vr_pressure r) \<le> 1
    \<and> (ep_enabled (vr_pressure r) \<or> ep_size_multiplier (vr_pressure r) = 1 \<and> ep_spread_multiplier (vr_pressure r) = 1)
    \<and> (max_participation_rate (ve_settings e) \<le> vr_participation_rate r \<longrightarrow> \<not> ep_enabled (vr_pressure r))"
proof -
  let ?s = "ve_settings e"
  let ?h = "volume_window (hourly_target_notional ?s) h (seconds_until_next_hour now)"
  let ?d = "volume_window (daily_target_notional ?s) d (seconds_until_next_day now)"
  let ?w = "volume_window (weekly_target_notional ?s) w (seconds_until_next_week now)"
  define u where "u = max (max (urgency ?h) (urgency ?d)) (urgency ?w)"
  have u: "0 \<le> u" "u \<le> 1"
    using urgency_bounds[of ?h] urgency_bounds[of ?d] urgency_bounds[of ?w] volume_window_progress assms(2-4) by (auto simp: u_def)
  have "vr_pressure r = pressure_signal ?s ?h ?d ?w (vr_participation_rate r) ext"
    by (simp add: assms(5) progress_def Let_def)
  then show ?thesis
    using u volume_okD[OF assms(1)] by (auto simp: pressure_signal_def Let_def u_def[symmetric])
qed

text \<open>
  The urgency of a long window collapses near its end. The window length is guessed from the
  seconds that remain, so a daily (or weekly) target with nothing executed is 95.8 percent urgent
  with 3601 seconds left and not urgent at all one second later.
\<close>

theorem urgency_drops_in_last_hour:
  assumes "0 < target"
  shows "urgency (volume_window target 0 3601) = 82799 / 86400 \<and> urgency (volume_window target 0 3600) = 0"
  using assms by (simp add: urgency_def volume_window_def target_window_seconds_def)

section \<open>Spacing of pressure orders\<close>

text \<open>The moments, out of a sequence of requests, at which a pressure order was granted.\<close>

fun grants :: "datetime list \<Rightarrow> VolumeEngine \<Rightarrow> datetime list" where
  "grants [] e = []"
| "grants (t # ts) e = (let (ok, e') = can_apply_pressure_order t e in if ok then t # grants ts e' else grants ts e')"

lemma can_apply_spaced:
  assumes "fst (can_apply_pressure_order now e)" "ve_last_pressure_order_at e = Some t"
  shows "seconds (min_seconds_between_pressure_orders (ve_settings e)) \<le> now - t"
  using assms total_seconds_less[of "now - t" "min_seconds_between_pressure_orders (ve_settings e)"]
  by (auto simp: can_apply_pressure_order_def split: if_splits)

lemma can_apply_state:
  "snd (can_apply_pressure_order now e) = (if fst (can_apply_pressure_order now e) then e\<lparr>ve_last_pressure_order_at := Some now\<rparr> else e)"
  by (auto simp: can_apply_pressure_order_def split: option.splits)

lemma grants_spaced_from:
  "ve_last_pressure_order_at e = Some t \<Longrightarrow>
   successively (\<lambda>a b. seconds (min_seconds_between_pressure_orders (ve_settings e)) \<le> b - a) (t # grants ts e)"
proof (induction ts arbitrary: e t)
  case (Cons now ts)
  show ?case
  proof (cases "fst (can_apply_pressure_order now e)")
    case True
    have "successively (\<lambda>a b. seconds (min_seconds_between_pressure_orders (ve_settings e)) \<le> b - a)
        (now # grants ts (e\<lparr>ve_last_pressure_order_at := Some now\<rparr>))"
      using Cons.IH[of "e\<lparr>ve_last_pressure_order_at := Some now\<rparr>" now] by simp
    with True can_apply_spaced[OF True Cons.prems] show ?thesis
      by (simp add: case_prod_unfold Let_def can_apply_state)
  next
    case False
    with Cons show ?thesis by (simp add: case_prod_unfold Let_def can_apply_state)
  qed
qed simp

text \<open>
  Pressure orders are spaced: whatever the moments at which they are requested, two
  consecutive grants are at least \<open>min_seconds_between_pressure_orders\<close> apart.
\<close>

theorem pressure_orders_spaced:
  "successively (\<lambda>a b. seconds (min_seconds_between_pressure_orders (ve_settings e)) \<le> b - a) (grants ts e)"
proof (induction ts)
  case (Cons now ts)
  show ?case
    using grants_spaced_from[of "e\<lparr>ve_last_pressure_order_at := Some now\<rparr>" now ts] Cons
    by (simp add: case_prod_unfold Let_def can_apply_state)
qed simp

section \<open>Witnesses\<close>

definition example_volume_engine :: VolumeEngine where
  "example_volume_engine = VolumeEngine_init (rc_volume default_runtime_config)"

theorem pressure_signal_bounded_witness:
  "1 \<le> ep_size_multiplier (vr_pressure (progress example_volume_engine 0 10 20 30 0))"
  by (rule pressure_signal_bounded[OF _ _ _ _ refl, THEN conjunct1])
    (simp_all add: example_volume_engine_def VolumeEngine_init_def default_config_ok)

theorem urgency_drops_in_last_hour_witness:
  "urgency (volume_window 1000 0 3600) = 0"
  using urgency_drops_in_last_hour[of 1000] by simp

end
