(* ===== verification/Inventory.thy ===== *)
theory Inventory
  imports Config
begin

text \<open>
  Inventory accounting (\<open>engines/inventory/engine.py\<close>): exposures of the balances at their prices,
  the report with the skew of the base asset, and the distance to the target allocation.
\<close>

record AssetBalance =
  ab_asset :: string
  ab_total :: float
  ab_available :: float
  ab_reserved :: float
  ab_price :: float

record Exposure =
  ex_asset :: string
  ex_notional :: float
  ex_ratio :: float
  ex_alert :: bool

record InventoryReport =
  ir_total_notional :: float
  ir_exposures :: "Exposure list"
  ir_target_base_notional :: float
  ir_skew_bps :: float

definition exposures :: "InventorySettings \<Rightarrow> AssetBalance list \<Rightarrow> Exposure list" where
  "exposures s balances =
     (let total = (\<Sum>b \<leftarrow> balances. ab_total b * ab_price b)
      in if total \<le> 0
         then map (\<lambda>b. \<lparr>ex_asset = ab_asset b, ex_notional = 0, ex_ratio = 0, ex_alert = False\<rparr>) balances
         else map (\<lambda>b. let n = ab_total b * ab_price b
             in \<lparr>ex_asset = ab_asset b, ex_notional = n, ex_ratio = n / total,
                 ex_alert = (n \<ge> max_asset_exposure s * alert_threshold_ratio s)\<rparr>) balances)"

definition report :: "InventorySettings \<Rightarrow> AssetBalance list \<Rightarrow> string \<Rightarrow> InventoryReport" where
  "report s balances base_asset =
     (let es = exposures s balances;
          total = (\<Sum>x \<leftarrow> es. ex_notional x);
          base = (case find (\<lambda>x. ex_asset x = base_asset) es of
              Some x \<Rightarrow> x | None \<Rightarrow> \<lparr>ex_asset = base_asset, ex_notional = 0, ex_ratio = 0, ex_alert = False\<rparr>);
          skew = (ex_ratio base - cfg_target_base_ratio s) * skew_intensity s * 100
      in \<lparr>ir_total_notional = total, ir_exposures = es, ir_target_base_notional = total * cfg_target_base_ratio s, ir_skew_bps = skew\<rparr>)"

definition base_notional :: "InventoryReport \<Rightarrow> string \<Rightarrow> float" where
  "base_notional r base_asset =
     (case find (\<lambda>x. ex_asset x = base_asset) (ir_exposures r) of Some x \<Rightarrow> ex_notional x | None \<Rightarrow> 0)"

definition inventory_target_delta :: "InventorySettings \<Rightarrow> AssetBalance list \<Rightarrow> string \<Rightarrow> float" where
  "inventory_target_delta s balances base_asset =
     (let r = report s balances base_asset in ir_target_base_notional r - base_notional r base_asset)"

section \<open>Ratios and targets\<close>

lemma exposures_assets: "map ex_asset (exposures s balances) = map ab_asset balances"
  by (simp add: exposures_def Let_def comp_def)

lemma exposures_total:
  assumes "0 < (\<Sum>b \<leftarrow> balances. ab_total b * ab_price b)"
  shows "(\<Sum>x \<leftarrow> exposures s balances. ex_notional x) = (\<Sum>b \<leftarrow> balances. ab_total b * ab_price b)"
    "(\<Sum>x \<leftarrow> exposures s balances. ex_ratio x) = 1"
proof -
  have "(\<Sum>b \<leftarrow> balances. ab_total b * ab_price b / T) = (\<Sum>b \<leftarrow> balances. ab_total b * ab_price b) / T" for T :: rat
    by (induction balances) (auto simp: add_divide_distrib)
  then show "(\<Sum>x \<leftarrow> exposures s balances. ex_notional x) = (\<Sum>b \<leftarrow> balances. ab_total b * ab_price b)"
    "(\<Sum>x \<leftarrow> exposures s balances. ex_ratio x) = 1"
    using assms by (simp_all add: exposures_def Let_def comp_def)
qed

text \<open>
  With a positive portfolio value the exposures are a partition of it: one per balance, in
  order, with notionals that add up to the total and ratios that add up to 1; and trading the
  reported target delta would bring the base asset to exactly its target share.
\<close>

theorem inventory_is_a_partition:
  assumes "0 < (\<Sum>b \<leftarrow> balances. ab_total b * ab_price b)"
  shows "map ex_asset (exposures s balances) = map ab_asset balances
    \<and> ir_total_notional (report s balances base) = (\<Sum>b \<leftarrow> balances. ab_total b * ab_price b)
    \<and> (\<Sum>x \<leftarrow> exposures s balances. ex_ratio x) = 1
    \<and> (base_notional (report s balances base) base + inventory_target_delta s balances base)
        / ir_total_notional (report s balances base) = cfg_target_base_ratio s"
  using exposures_total[OF assms, of s] assms
  by (simp add: exposures_assets report_def inventory_target_delta_def Let_def)

theorem inventory_is_a_partition_witness:
  "ir_total_notional (report (rc_inventory default_runtime_config)
     [\<lparr>ab_asset = ''BTC'', ab_total = 1, ab_available = 1, ab_reserved = 0, ab_price = 50000\<rparr>,
      \<lparr>ab_asset = ''USDT'', ab_total = 50000, ab_available = 50000, ab_reserved = 0, ab_price = 1\<rparr>] ''BTC'') = 100000"
  using inventory_is_a_partition[of "[\<lparr>ab_asset = ''BTC'', ab_total = 1, ab_available = 1, ab_reserved = 0, ab_price = 50000\<rparr>,
      \<lparr>ab_asset = ''USDT'', ab_total = 50000, ab_available = 50000, ab_reserved = 0, ab_price = 1\<rparr>]"]
  by simp

end
