(* ===== verification/MM_Runtime.thy ===== *)
theory MM_Runtime
  imports Paper_Db Precision Quote_Engine Risk Volume Inventory Canary
begin

text \<open>
  \<open>engines/market_making/runtime.py\<close> with the metrics of \<open>observability/metrics.py\<close>: the runtime that
  ties the engines together. Its state holds the engines, the paper execution engine, the launch
  controller, the market state received so far and the trading switches; its operations are the
  tick, the market events, the control commands and the ladder synchronisation.

  What a step reads from outside is an argument (\<open>env\<close>): the clock (read once per step), the cached
  kill switch, fresh ids, and the answers of the Coinstore execution service. Calls to that service
  are logged in the state (\<open>mm_live_orders\<close>, \<open>mm_live_cancels\<close>), as are acknowledgements. Payloads of
  the bus are given by the entries the runtime reads from them. Redis subscriptions, background
  tasks and logging are not modelled.
\<close>

section \<open>Model\<close>

record RuntimeMetrics =
  rm_counters :: "(string, float) dict"
  rm_gauges :: "(string, float) dict"

definition increment :: "string \<Rightarrow> float \<Rightarrow> RuntimeMetrics \<Rightarrow> RuntimeMetrics" where
  "increment name v m = m\<lparr>rm_counters := dict_set name (dict_get_or (rm_counters m) name 0 + v) (rm_counters m)\<rparr>"

definition set_gauge :: "string \<Rightarrow> float \<Rightarrow> RuntimeMetrics \<Rightarrow> RuntimeMetrics" where
  "set_gauge name v m = m\<lparr>rm_gauges := dict_set name v (rm_gauges m)\<rparr>"

record Settings =
  TRADING_MODE :: LaunchMode
  MARKET_DATA_EXCHANGES :: "string list"
  MARKET_DATA_SYMBOLS :: "string list"
  RECONCILIATION_INTERVAL_SECONDS :: float
  PAPER_STARTING_CASH :: float
  PAPER_BASE_ASSET :: string
  PAPER_QUOTE_ASSET :: string
  MAX_CANARY_NOTIONAL :: float
  MAX_CANARY_POSITION :: float

text \<open>A bus payload by what the runtime reads of it; the order book as \<open>_orderbook_from_payload\<close> parses it.\<close>

record MarketPayload =
  mp_orderbook :: "OrderBookSnapshot res"
  mp_volume_24h :: "float option"
  mp_volume :: "float option"
  mp_spread_bps :: "float option"
  mp_imbalance_ratio :: "float option"
  mp_realized_volatility :: "float option"

record Ack =
  ack_command_id :: "string option"
  ack_event_type :: string
  ack_command_type :: string

record MarketMakerRuntime =
  mm_settings :: Settings
  mm_quote_engine :: QuoteEngine
  mm_metrics :: RuntimeMetrics
  mm_runtime_config :: RuntimeConfig
  mm_inventory_settings :: InventorySettings
  mm_risk_engine :: RiskEngine
  mm_volume_engine :: VolumeEngine
  mm_paper :: PaperExecutionEngine
  mm_mode :: LaunchMode
  mm_canary :: CanaryController
  trading_enabled :: bool
  quoting_enabled :: bool
  latest_ticker :: "(string, MarketPayload) dict"
  latest_orderbook :: "(string, OrderBookSnapshot) dict"
  latest_analytics :: "(string, MarketPayload) dict"
  latest_volume_progress :: "VolumeProgressReport option"
  last_reconciliation_at :: datetime
  lifecycle_cancelled_orders :: int
  lifecycle_stale_orders :: int
  lifecycle_replacements :: int
  lifecycle_reconciliation_actions :: int
  risk_rejection_timestamps :: "datetime list"
  mm_live_orders :: "OrderIntent list"
  mm_live_cancels :: "string list"
  mm_acks :: "Ack list"

type_synonym 'a mm_op = "(MarketMakerRuntime, 'a) op"

text \<open>The answers of the Coinstore service and the cached kill switch.\<close>

record live_service =
  lv_place :: "OrderIntent \<Rightarrow> unit res"
  lv_cancel_all :: "string \<Rightarrow> nat res"
  lv_balances :: "(string \<times> decimal) list res"
  lv_precision :: "string \<Rightarrow> SymbolPrecision res"
  lv_open_order_count :: int
  lv_reconcile :: "(nat \<times> nat \<times> nat) res"

datatype kill_switch_read = Kill_read_failed | Kill_state "(bool \<times> string option) option"

record env =
  env_now :: datetime
  env_kill_switch :: kill_switch_read
  env_hex :: "string \<Rightarrow> nat \<Rightarrow> string"
  env_live :: live_service
  env_market :: "(string \<times> MarketPayload) list"

definition MarketMakerRuntime_init :: "datetime \<Rightarrow> Settings \<Rightarrow> session \<Rightarrow> QuoteEngine \<Rightarrow> RuntimeConfig \<Rightarrow> MarketMakerRuntime" where
  "MarketMakerRuntime_init now settings session quote_engine cfg =
     \<lparr>mm_settings = settings, mm_quote_engine = quote_engine, mm_metrics = \<lparr>rm_counters = [], rm_gauges = []\<rparr>,
      mm_runtime_config = cfg, mm_inventory_settings = rc_inventory cfg, mm_risk_engine = RiskEngine_init (rc_risk cfg),
      mm_volume_engine = VolumeEngine_init (rc_volume cfg),
      mm_paper = PaperExecutionEngine_init session (PAPER_STARTING_CASH settings) (PAPER_BASE_ASSET settings) (PAPER_QUOTE_ASSET settings) 1,
      mm_mode = TRADING_MODE settings,
      mm_canary = \<lparr>cc_policy =
         \<lparr>cp_max_position_notional = min (max_position_notional (rc_risk cfg)) (MAX_CANARY_POSITION settings),
          cp_max_daily_loss = max_daily_loss (rc_risk cfg), cp_max_order_count = max_open_orders (rc_risk cfg),
          cp_max_inventory_notional = min (max_asset_exposure (rc_inventory cfg)) (MAX_CANARY_POSITION settings),
          cp_max_order_notional = min (max_order_notional (rc_risk cfg)) (MAX_CANARY_NOTIONAL settings),
          cp_allowed_order_types = [Type_limit, Type_post_only]\<rparr>,
         cc_state = CanaryState_init (now div day_us) (TRADING_MODE settings)\<rparr>,
      trading_enabled = cfg_trading_enabled (rc_strategy cfg), quoting_enabled = cfg_quoting_enabled (rc_strategy cfg),
      latest_ticker = [], latest_orderbook = [], latest_analytics = [], latest_volume_progress = None,
      last_reconciliation_at = now, lifecycle_cancelled_orders = 0, lifecycle_stale_orders = 0,
      lifecycle_replacements = 0, lifecycle_reconciliation_actions = 0, risk_rejection_timestamps = [],
      mm_live_orders = [], mm_live_cancels = [], mm_acks = []\<rparr>"

subsection \<open>Parts of the state\<close>

definition count :: "string \<Rightarrow> float \<Rightarrow> unit mm_op" where
  "count name v = modifies (\<lambda>s. s\<lparr>mm_metrics := increment name v (mm_metrics s)\<rparr>)"

definition gauge :: "string \<Rightarrow> float \<Rightarrow> unit mm_op" where
  "gauge name v = modifies (\<lambda>s. s\<lparr>mm_metrics := set_gauge name v (mm_metrics s)\<rparr>)"

definition on_paper :: "'a paper_op \<Rightarrow> 'a mm_op" where
  "on_paper = zoom mm_paper (\<lambda>p s. s\<lparr>mm_paper := p\<rparr>)"

definition shutdown_canary :: "string \<Rightarrow> unit mm_op" where
  "shutdown_canary reason = modifies (\<lambda>s. s\<lparr>mm_canary := activate_shutdown reason (mm_canary s)\<rparr>)"

definition evaluate_canary :: "env \<Rightarrow> OrderIntent \<Rightarrow> CanaryDecision mm_op" where
  "evaluate_canary env intent =
     (\<lambda>s. case evaluate (env_now env div day_us) (mm_canary s) (Some intent) of (d, c) \<Rightarrow> (Inr d, s\<lparr>mm_canary := c\<rparr>))"

definition assert_allowed :: "env \<Rightarrow> RiskOrderIntent \<Rightarrow> float \<Rightarrow> float \<Rightarrow> int \<Rightarrow> float \<Rightarrow> RiskEvaluation mm_op" where
  "assert_allowed env intent position_notional total_exposure open_orders daily_pnl =
     (\<lambda>s. case assert_order_allowed (env_now env) (mm_risk_engine s) intent position_notional total_exposure open_orders daily_pnl of
        (r, e) \<Rightarrow> (r, s\<lparr>mm_risk_engine := e\<rparr>))"

definition publish_ack :: "string option \<Rightarrow> string \<Rightarrow> string \<Rightarrow> unit mm_op" where
  "publish_ack command_id event_type command_type =
     modifies (\<lambda>s. s\<lparr>mm_acks := mm_acks s @ [\<lparr>ack_command_id = command_id, ack_event_type = event_type, ack_command_type = command_type\<rparr>]\<rparr>)"

definition key_for_symbol :: "string \<Rightarrow> (string, 'a) dict \<Rightarrow> string option" where
  "key_for_symbol symbol d = find (\<lambda>key. drop (length key - length ('':'' @ symbol)) key = '':'' @ symbol) (dict_keys d)"

subsection \<open>Market events\<close>

fun split_colon :: "string \<Rightarrow> string list" where
  "split_colon [] = [[]]"
| "split_colon (c # cs) = (if c = CHR '':'' then [] # split_colon cs else
     (case split_colon cs of [] \<Rightarrow> [[c]] | p # ps \<Rightarrow> (c # p) # ps))"

fun join_colon :: "string list \<Rightarrow> string" where
  "join_colon [] = []"
| "join_colon [p] = p"
| "join_colon (p # q # ps) = p @ '':'' @ join_colon (q # ps)"

definition ingest_market_event :: "env \<Rightarrow> string \<Rightarrow> MarketPayload \<Rightarrow> unit mm_op" where
  "ingest_market_event env channel payload =
     (let parts = split_colon channel
      in if length parts < 4 then ret ()
         else (let kind = parts ! 1; exchange = parts ! 2; symbol = join_colon (drop 3 parts);
                   key = exchange @ '':'' @ symbol
               in if kind = ''ticker'' then modifies (\<lambda>s. s\<lparr>latest_ticker := dict_set key payload (latest_ticker s)\<rparr>)
                  else if kind = ''orderbook'' then
                    bindm (lift_res (mp_orderbook payload)) (\<lambda>ob.
                    seqm (modifies (\<lambda>s. s\<lparr>latest_orderbook := dict_set key ob (latest_orderbook s)\<rparr>)) (
                    bindm (on_paper (simulate_fills (env_now env) symbol ob)) (\<lambda>fills.
                    seqm (count ''paper.fills'' (of_nat (length fills))) (
                    bindm (reads (\<lambda>s. pa_realized_pnl (pe_account (mm_paper s)))) (\<lambda>pnl. count ''paper.pnl'' pnl)))))
                  else if kind = ''analytics'' then modifies (\<lambda>s. s\<lparr>latest_analytics := dict_set key payload (latest_analytics s)\<rparr>)
                  else ret ()))"

definition load_latest_market_state :: "env \<Rightarrow> unit mm_op" where
  "load_latest_market_state env = loop (\<lambda>(channel, payload). ingest_market_event env channel payload) (env_market env)"

definition kill_switch_active :: "env \<Rightarrow> bool mm_op" where
  "kill_switch_active env =
     (case env_kill_switch env of
        Kill_read_failed \<Rightarrow>
          seqm (count ''risk.kill_switch_read_failures'' 1) (
          bindm (reads mm_mode) (\<lambda>mode.
          if mode \<in> {Mode_paper, Mode_shadow} then ret False
          else seqm (shutdown_canary ''kill_switch_state_unavailable'') (ret True)))
      | Kill_state (Some (True, reason)) \<Rightarrow>
          seqm (shutdown_canary (case reason of None \<Rightarrow> ''kill_switch_active'' | Some r \<Rightarrow> if r = [] then ''kill_switch_active'' else r))
            (ret True)
      | Kill_state _ \<Rightarrow> ret False)"

subsection \<open>The ladder of the paper engine\<close>

definition ladder_key :: "string \<Rightarrow> string \<Rightarrow> int \<Rightarrow> string" where
  "ladder_key symbol side level = symbol @ '':'' @ side @ '':'' @ str_int level"

fun truthy :: "meta_value \<Rightarrow> bool" where
  "truthy (MStr s) = (s \<noteq> [])"
| "truthy (MInt n) = (n \<noteq> 0)"
| "truthy (MBool b) = b"

fun str_meta :: "meta_value \<Rightarrow> string" where
  "str_meta (MStr s) = s"
| "str_meta (MInt n) = str_int n"
| "str_meta (MBool b) = (if b then ''True'' else ''False'')"

text \<open>\<open>int(level)\<close>; of texts, plain decimal literals are accepted.\<close>

fun int_meta :: "meta_value \<Rightarrow> int res" where
  "int_meta (MInt n) = Inr n"
| "int_meta (MBool b) = Inr (if b then 1 else 0)"
| "int_meta (MStr s) =
     (if is_digits s then Inr (digits_value s)
      else if s \<noteq> [] \<and> hd s = CHR ''-'' \<and> is_digits (tl s) then Inr (- digits_value (tl s))
      else Inl (ValueError ''invalid literal for int()''))"

definition meta_or :: "metadata \<Rightarrow> string \<Rightarrow> string \<Rightarrow> string" where
  "meta_or m k other = (case dict_get m k of Some v \<Rightarrow> if truthy v then str_meta v else other | None \<Rightarrow> other)"

definition order_ladder_key :: "PaperOrder \<Rightarrow> string option res" where
  "order_ladder_key order =
     (let metadata = oi_metadata (pap_intent order)
      in if (case dict_get metadata ''ladder_key'' of Some v \<Rightarrow> truthy v | None \<Rightarrow> False)
         then Inr (map_option str_meta (dict_get metadata ''ladder_key''))
         else (let side = meta_or metadata ''side'' (value_of_side (oi_side (pap_intent order)));
                   symbol = meta_or metadata ''symbol'' (oi_symbol (pap_intent order))
               in case dict_get metadata ''level'' of
                    None \<Rightarrow> Inr None
                  | Some level \<Rightarrow> bindr (int_meta level) (\<lambda>n. Inr (Some (ladder_key symbol side n)))))"

definition quote_drifted :: "MarketMakerRuntime \<Rightarrow> PaperOrder \<Rightarrow> Quote \<Rightarrow> bool" where
  "quote_drifted s order desired =
     (case oi_price (pap_intent order) of
        None \<Rightarrow> True
      | Some price \<Rightarrow>
          (let quantity = oi_quantity (pap_intent order);
               price_diff_bps = \<bar>q_price desired - price\<bar> / max \<bar>q_price desired\<bar> (1 / 10 ^ 12) * 10000;
               quantity_diff = \<bar>q_quantity desired - quantity\<bar>
           in price_diff_bps \<ge> refresh_threshold_bps (rc_order_layers (mm_runtime_config s)) \<or> quantity_diff > 1 / 10 ^ 12))"

definition order_lifecycle_metrics :: "datetime \<Rightarrow> MarketMakerRuntime \<Rightarrow> (string \<times> float) list \<times> MarketMakerRuntime" where
  "order_lifecycle_metrics now s =
     (let orders = map snd (pe_open_orders (mm_paper s));
          ages = map (\<lambda>order. total_seconds (now - pap_created_at order)) orders;
          cutoff = now - seconds 3600;
          recent = filter (\<lambda>t. t \<ge> cutoff) (risk_rejection_timestamps s);
          s' = s\<lparr>risk_rejection_timestamps := recent\<rparr>
      in ([(''open_orders_count'', of_nat (length orders)),
           (''active_buy_orders'', of_nat (length (filter (\<lambda>order. oi_side (pap_intent order) = Side_buy) orders))),
           (''active_sell_orders'', of_nat (length (filter (\<lambda>order. oi_side (pap_intent order) = Side_sell) orders))),
           (''average_order_age'', if ages = [] then 0 else py_round (sum_list ages / of_nat (length ages)) 3),
           (''stale_orders_count'', of_int (lifecycle_stale_orders s)),
           (''cancelled_orders_count'', of_int (lifecycle_cancelled_orders s)),
           (''replacement_count'', of_int (lifecycle_replacements s)),
           (''reconciliation_actions'', of_int (lifecycle_reconciliation_actions s)),
           (''risk_rejections_last_hour'', of_nat (length recent))], s'))"

definition update_lifecycle_gauges :: "env \<Rightarrow> unit mm_op" where
  "update_lifecycle_gauges env =
     bindm (\<lambda>s. case order_lifecycle_metrics (env_now env) s of (m, s') \<Rightarrow> (Inr m, s'))
       (loop (\<lambda>(key, v). gauge (''order_lifecycle.'' @ key) v))"

definition cancel_paper_lifecycle_order :: "env \<Rightarrow> string \<Rightarrow> unit mm_op" where
  "cancel_paper_lifecycle_order env cid =
     bindm (on_paper (cancel_order (env_now env) cid)) (\<lambda>cancelled. case cancelled of
       None \<Rightarrow> ret ()
     | Some _ \<Rightarrow> seqm (modifies (\<lambda>s. s\<lparr>lifecycle_cancelled_orders := lifecycle_cancelled_orders s + 1,
           lifecycle_reconciliation_actions := lifecycle_reconciliation_actions s + 1\<rparr>))
         (count ''order_lifecycle.cancelled_orders'' 1))"

text \<open>A \<open>for\<close> loop with local variables: the accumulator is threaded through.\<close>

fun fold_op :: "('x \<Rightarrow> 'acc \<Rightarrow> ('s, 'acc) op) \<Rightarrow> 'x list \<Rightarrow> 'acc \<Rightarrow> ('s, 'acc) op" where
  "fold_op f [] acc = ret acc"
| "fold_op f (x # xs) acc = bindm (f x acc) (fold_op f xs)"

type_synonym groups = "(string, (string \<times> PaperOrder) list) dict"

text \<open>First loop of \<open>_sync_paper_ladder\<close>: the symbol's open orders by ladder key.\<close>

definition group_order :: "env \<Rightarrow> string \<Rightarrow> string \<times> PaperOrder \<Rightarrow> groups \<Rightarrow> groups mm_op" where
  "group_order env symbol item existing_by_key =
     (case item of (cid, order) \<Rightarrow>
        if oi_symbol (pap_intent order) \<noteq> symbol then ret existing_by_key
        else bindm (lift_res (order_ladder_key order)) (\<lambda>key. case key of
            None \<Rightarrow> seqm (cancel_paper_lifecycle_order env cid) (ret existing_by_key)
          | Some k \<Rightarrow> ret (dict_set k (dict_get_or existing_by_key k [] @ [(cid, order)]) existing_by_key)))"

text \<open>Second loop, one ladder key: the newest order is kept, replaced or cancelled, older ones are cancelled.\<close>

definition sync_newest :: "env \<Rightarrow> Quote \<Rightarrow> string \<times> PaperOrder \<Rightarrow> Quote list \<Rightarrow> (string option \<times> Quote list) mm_op" where
  "sync_newest env desired_quote item to_place =
     (case item of (cid, order) \<Rightarrow>
        bindm (reads (\<lambda>s. max_order_age_seconds (rc_strategy (mm_runtime_config s)))) (\<lambda>max_age.
        bindm (reads (\<lambda>s. quote_drifted s order desired_quote)) (\<lambda>drifted.
        if total_seconds (env_now env - pap_created_at order) \<ge> max_age then
          seqm (cancel_paper_lifecycle_order env cid) (
          seqm (modifies (\<lambda>s. s\<lparr>lifecycle_stale_orders := lifecycle_stale_orders s + 1\<rparr>)) (
          ret (None, to_place @ [desired_quote])))
        else if drifted then
          seqm (cancel_paper_lifecycle_order env cid) (
          seqm (modifies (\<lambda>s. s\<lparr>lifecycle_replacements := lifecycle_replacements s + 1\<rparr>)) (
          ret (None, to_place @ [desired_quote])))
        else ret (Some cid, to_place))))"

definition sync_key :: "env \<Rightarrow> string \<times> (string \<times> PaperOrder) list \<Rightarrow> Quote list \<times> (string, Quote) dict \<Rightarrow> (Quote list \<times> (string, Quote) dict) mm_op" where
  "sync_key env item acc =
     (case (item, acc) of ((key, orders), (to_place, desired_by_key)) \<Rightarrow>
        (case dict_get desired_by_key key of
           None \<Rightarrow> seqm (loop (\<lambda>(cid, order). cancel_paper_lifecycle_order env cid) orders) (ret acc)
         | Some desired_quote \<Rightarrow>
             (case sort_key (\<lambda>(cid, order). - pap_created_at order) orders of
                [] \<Rightarrow> ret acc
              | newest # older \<Rightarrow>
                  bindm (sync_newest env desired_quote newest to_place) (\<lambda>(keep_client_id, to_place).
                  seqm (loop (\<lambda>(cid, order). cancel_paper_lifecycle_order env cid) older) (
                  if keep_client_id \<noteq> None \<and> keep_client_id \<noteq> Some [] then ret (to_place, dict_pop key desired_by_key)
                  else if desired_quote \<notin> set to_place then ret (to_place @ [desired_quote], dict_pop key desired_by_key)
                  else ret (to_place, desired_by_key))))))"

definition sync_paper_ladder :: "env \<Rightarrow> string \<Rightarrow> Quote list \<Rightarrow> Quote list mm_op" where
  "sync_paper_ladder env symbol desired =
     (let desired_by_key = dict_by (\<lambda>quote. ladder_key symbol (q_side quote) (q_level quote)) desired in
     bindm (reads (\<lambda>s. pe_open_orders (mm_paper s))) (\<lambda>open_orders.
     bindm (fold_op (group_order env symbol) open_orders []) (\<lambda>existing_by_key.
     bindm (fold_op (sync_key env) existing_by_key ([], desired_by_key)) (\<lambda>(to_place, desired_by_key).
     seqm (update_lifecycle_gauges env) (ret (to_place @ map snd desired_by_key))))))"

subsection \<open>Quoting\<close>

definition persist_risk_event :: "string \<Rightarrow> pyerr \<Rightarrow> unit mm_op" where
  "persist_risk_event symbol message = bindm (reads mm_mode) (\<lambda>mode. on_paper (bindm fresh_uuid (\<lambda>u.
     modifies (\<lambda>p. p\<lparr>pe_session := (pe_session p)\<lparr>tbl_risk_events := tbl_risk_events (pe_session p) @
       [\<lparr>re_id = u, re_severity = RS_high, re_event_type = ''PAPER_ORDER_REJECTED'', re_source_component = ''market-maker-engine'',
         re_message = Exception_message message, re_is_circuit_breaker_triggered = False, re_is_kill_switch_triggered = False,
         re_metadata_json = [(''symbol'', JStr symbol), (''mode'', JStr (value_of_mode mode))]\<rparr>]\<rparr>\<rparr>))))"

definition place_live_order :: "env \<Rightarrow> OrderIntent \<Rightarrow> unit mm_op" where
  "place_live_order env intent =
     seqm (modifies (\<lambda>s. s\<lparr>mm_live_orders := mm_live_orders s @ [intent]\<rparr>)) (
     seqm (lift_res (lv_place (env_live env) intent)) (count ''coinstore.orders_created'' 1))"

definition quote_intent :: "LaunchMode \<Rightarrow> string \<Rightarrow> Quote \<Rightarrow> OrderIntent" where
  "quote_intent mode symbol quote =
     \<lparr>oi_venue = (if mode \<in> {Mode_canary, Mode_live} then Venue_coinstore else Venue_binance), oi_symbol = symbol,
      oi_side = (if q_side quote = ''buy'' then Side_buy else Side_sell), oi_order_type = Type_limit,
      oi_quantity = q_quantity quote, oi_price = Some (q_price quote), oi_client_order_id = q_client_order_id quote,
      oi_time_in_force = TIF_gtc, oi_reduce_only = False,
      oi_metadata = [(''symbol'', MStr symbol), (''side'', MStr (q_side quote)), (''level'', MInt (q_level quote)),
        (''ladder_key'', MStr (ladder_key symbol (q_side quote) (q_level quote)))]\<rparr>"

text \<open>
  The loop body of \<open>_submit_quotes\<close>: the risk check, then \<open>route_intent\<close> (launch controller and
  placement), and \<open>reject_quote\<close> for the \<open>except\<close> branch.
\<close>

definition route_intent :: "env \<Rightarrow> LaunchMode \<Rightarrow> OrderBookSnapshot \<Rightarrow> OrderIntent \<Rightarrow> unit mm_op" where
  "route_intent env mode orderbook intent =
     bindm (evaluate_canary env intent) (\<lambda>decision.
     if \<not> cd_accepted decision then count ''market_maker.quote_rejections'' 1
     else if mode = Mode_paper then
       seqm (on_paper (place_order (env_now env) intent (Some orderbook))) (count ''paper.orders_created'' 1)
     else if cd_execution_allowed decision then place_live_order env intent
     else count ''market_maker.quote_rejections'' 1)"

definition reject_quote :: "env \<Rightarrow> string \<Rightarrow> pyerr \<Rightarrow> unit mm_op" where
  "reject_quote env symbol exc =
     seqm (count ''risk.rejections'' 1) (
     seqm (count ''market_maker.quote_rejections'' 1) (
     seqm (modifies (\<lambda>s. s\<lparr>risk_rejection_timestamps := risk_rejection_timestamps s @ [env_now env]\<rparr>)) (
     persist_risk_event symbol exc)))"

definition check_risk :: "env \<Rightarrow> string \<Rightarrow> Quote \<Rightarrow> RiskEvaluation mm_op" where
  "check_risk env symbol quote =
     bindm (reads mm_paper) (\<lambda>paper.
     assert_allowed env \<lparr>ro_symbol = symbol, ro_side = q_side quote, ro_price = q_price quote, ro_quantity = q_quantity quote\<rparr>
       (exposure_notional paper) (exposure_notional paper) (int (length (pe_open_orders paper))) (pa_realized_pnl (pe_account paper)))"

definition submit_quote :: "env \<Rightarrow> string \<Rightarrow> OrderBookSnapshot \<Rightarrow> Quote \<Rightarrow> unit mm_op" where
  "submit_quote env symbol orderbook quote =
     bindm (reads mm_mode) (\<lambda>mode.
     catch
       (bindm (check_risk env symbol quote) (\<lambda>_.
        seqm (count ''risk.approvals'' 1) (route_intent env mode orderbook (quote_intent mode symbol quote))))
       (reject_quote env symbol))"

definition submit_quotes :: "env \<Rightarrow> string \<Rightarrow> Quote list \<Rightarrow> OrderBookSnapshot \<Rightarrow> unit mm_op" where
  "submit_quotes env symbol quotes orderbook =
     bindm (reads trading_enabled) (\<lambda>enabled.
     if \<not> enabled then count ''market_maker.trading_disabled_blocks'' 1
     else bindm (reads mm_mode) (\<lambda>mode.
       bindm (if mode = Mode_paper then sync_paper_ladder env symbol quotes else ret quotes)
         (loop (submit_quote env symbol orderbook))))"

definition asset_balances :: "MarketMakerRuntime \<Rightarrow> float \<Rightarrow> AssetBalance list" where
  "asset_balances s mid =
     (let base_total = balance_of (pe_account (mm_paper s)) (PAPER_BASE_ASSET (mm_settings s));
          quote_total = balance_of (pe_account (mm_paper s)) (PAPER_QUOTE_ASSET (mm_settings s))
      in [\<lparr>ab_asset = PAPER_BASE_ASSET (mm_settings s), ab_total = base_total, ab_available = base_total, ab_reserved = 0, ab_price = mid\<rparr>,
          \<lparr>ab_asset = PAPER_QUOTE_ASSET (mm_settings s), ab_total = quote_total, ab_available = quote_total, ab_reserved = 0, ab_price = 1\<rparr>])"

definition volume_progress :: "env \<Rightarrow> string \<Rightarrow> float \<Rightarrow> VolumeProgressReport mm_op" where
  "volume_progress env symbol mid =
     (let now = env_now env; since_hour = now div hour_us * hour_us; since_day = now div day_us * day_us;
          since_week = since_day - weekday now * day_us;
          traded = (\<lambda>s since. \<Sum>t \<leftarrow> filter (\<lambda>t. tr_traded_at t \<ge> since) (tbl_trades (pe_session (mm_paper s))). tr_price t * tr_quantity t)
      in bindm (reads (\<lambda>s.
           let ticker = (case key_for_symbol symbol (latest_ticker s) of None \<Rightarrow> None | Some k \<Rightarrow> dict_get (latest_ticker s) k);
               volume = (case ticker of None \<Rightarrow> 0 | Some t \<Rightarrow>
                 (case mp_volume_24h t of Some v \<Rightarrow> if v \<noteq> 0 then v else (case mp_volume t of Some w \<Rightarrow> w | None \<Rightarrow> 0)
                  | None \<Rightarrow> (case mp_volume t of Some w \<Rightarrow> w | None \<Rightarrow> 0)))
           in progress (mm_volume_engine s) now (traded s since_hour) (traded s since_day) (traded s since_week) (volume * mid))) (\<lambda>report.
         seqm (modifies (\<lambda>s. s\<lparr>latest_volume_progress := Some report\<rparr>)) (
         seqm (gauge ''volume.hourly_progress_ratio'' (vw_progress_ratio (vr_hourly report))) (
         seqm (gauge ''volume.daily_progress_ratio'' (vw_progress_ratio (vr_daily report))) (
         seqm (gauge ''volume.weekly_progress_ratio'' (vw_progress_ratio (vr_weekly report))) (
         seqm (gauge ''volume.participation_rate'' (vr_participation_rate report)) (
         seqm (gauge ''volume.execution_urgency'' (ep_urgency (vr_pressure report))) (
         ret report))))))))"

definition pressed_quote :: "float \<Rightarrow> float \<Rightarrow> float \<Rightarrow> float \<Rightarrow> Quote \<Rightarrow> Quote" where
  "pressed_quote max_size multiplier best_bid best_ask quote =
     (let quantity = min max_size (q_quantity quote * multiplier);
          price = (if q_side quote = ''buy'' then min (q_price quote) (best_ask * (999999 / 1000000))
                   else max (q_price quote) (best_bid * (1000001 / 1000000)))
      in quote\<lparr>q_price := py_round price 8, q_quantity := quantity\<rparr>)"

definition apply_volume_pressure :: "env \<Rightarrow> Quote list \<Rightarrow> VolumeProgressReport \<Rightarrow> float \<Rightarrow> float \<Rightarrow> Quote list mm_op" where
  "apply_volume_pressure env quotes progress_report best_bid best_ask =
     (let signal = vr_pressure progress_report
      in if \<not> ep_enabled signal \<or> ep_size_multiplier signal = 1 then ret quotes
         else (\<lambda>s. case can_apply_pressure_order (env_now env) (mm_volume_engine s) of (ok, ve) \<Rightarrow>
           (Inr (if ok then map (pressed_quote (max_order_size (rc_order_size (mm_runtime_config s))) (ep_size_multiplier signal) best_bid best_ask) quotes
                 else quotes), s\<lparr>mm_volume_engine := ve\<rparr>)))"

definition persist_inventory :: "env \<Rightarrow> string \<Rightarrow> AssetBalance list \<Rightarrow> unit mm_op" where
  "persist_inventory env symbol balances =
     bindm (reads (\<lambda>s. PAPER_QUOTE_ASSET (mm_settings s))) (\<lambda>quote_asset.
     on_paper (bindm ensure_exchange_account (\<lambda>account_id.
       loop (\<lambda>b. bindm fresh_uuid (\<lambda>u. modifies (\<lambda>p. p\<lparr>pe_session := (pe_session p)\<lparr>tbl_inventory_snapshots := tbl_inventory_snapshots (pe_session p) @
         [\<lparr>is_id = u, is_exchange_account_id = account_id, is_asset = ab_asset b, is_total_balance = ab_total b,
           is_available_balance = ab_available b, is_reserved_balance = ab_reserved b, is_valuation_asset = quote_asset,
           is_valuation_price = Some (ab_price b), is_valuation_amount = Some (ab_total b * ab_price b),
           is_captured_at = env_now env, is_metadata_json = [(''symbol'', MStr symbol), (''mode'', MStr ''paper'')], is_metadata_raw = None\<rparr>]\<rparr>\<rparr>))) balances)))"

definition opt_or :: "float option \<Rightarrow> float" where
  "opt_or v = (case v of None \<Rightarrow> 0 | Some x \<Rightarrow> x)"

text \<open>\<open>_quote_symbol\<close> once the order book with its best prices is at hand, then the guards before it.\<close>

definition inventory_state :: "MarketMakerRuntime \<Rightarrow> AssetBalance list \<Rightarrow> InventoryState" where
  "inventory_state s balances =
     (let base_asset = PAPER_BASE_ASSET (mm_settings s);
          inventory_report = report (mm_inventory_settings s) balances base_asset
      in \<lparr>is_base_ratio = (case find (\<lambda>x. ex_asset x = base_asset) (ir_exposures inventory_report) of
              Some x \<Rightarrow> ex_ratio x | None \<Rightarrow> 0),
          is_target_base_ratio = cfg_target_base_ratio (mm_inventory_settings s),
          is_exposure_notional = exposure_notional (mm_paper s)\<rparr>)"

definition market_state :: "string \<Rightarrow> float \<Rightarrow> MarketPayload option \<Rightarrow> VolumeProgressReport \<Rightarrow> MarketState" where
  "market_state symbol mid analytics volume_report =
     (let read = (\<lambda>entry. case analytics of None \<Rightarrow> 0 | Some a \<Rightarrow> opt_or (entry a))
      in \<lparr>ms_symbol = symbol, ms_mid_price = mid,
          ms_spread_bps = max 1 (read mp_spread_bps * ep_spread_multiplier (vr_pressure volume_report)),
          ms_volatility = read mp_realized_volatility, ms_liquidity_imbalance = read mp_imbalance_ratio\<rparr>)"

definition quote_book :: "env \<Rightarrow> string \<Rightarrow> string \<Rightarrow> OrderBookSnapshot \<Rightarrow> float \<Rightarrow> float \<Rightarrow> unit mm_op" where
  "quote_book env symbol key orderbook bid ask =
     (let mid = (bid + ask) / 2 in
     bindm (reads (\<lambda>s. asset_balances s mid)) (\<lambda>balances.
     bindm (reads (\<lambda>s. inventory_state s balances)) (\<lambda>inventory.
     bindm (volume_progress env symbol mid) (\<lambda>volume_report.
     bindm (reads (\<lambda>s. generate_quotes (mm_quote_engine s) (env_hex env symbol)
         (market_state symbol mid (dict_get (latest_analytics s) key) volume_report) inventory)) (\<lambda>quotes0.
     bindm (apply_volume_pressure env quotes0 volume_report bid ask) (\<lambda>quotes.
     seqm (count ''market_maker.quote_refreshes'' 1) (
     seqm (count ''market_maker.quotes_generated'' (of_nat (length quotes))) (
     seqm (submit_quotes env symbol quotes orderbook) (
     persist_inventory env symbol balances)))))))))"

definition quote_symbol :: "env \<Rightarrow> string \<Rightarrow> unit mm_op" where
  "quote_symbol env symbol =
     bindm (reads (\<lambda>s. trading_enabled s \<and> quoting_enabled s \<and> cfg_quoting_enabled (rc_strategy (mm_runtime_config s)))) (\<lambda>enabled.
     if \<not> enabled then count ''market_maker.strategy_blocks'' 1
     else bindm (reads (\<lambda>s. key_for_symbol symbol (latest_orderbook s))) (\<lambda>orderbook_key. case orderbook_key of
         None \<Rightarrow> ret ()
       | Some key \<Rightarrow> bindm (reads (\<lambda>s. dict_get (latest_orderbook s) key)) (\<lambda>found. case found of
           None \<Rightarrow> ret ()
         | Some orderbook \<Rightarrow>
             (case max_list (map level_price (ob_bids orderbook)) of
                None \<Rightarrow> ret ()
              | Some bid \<Rightarrow>
                  (case min_list_opt (map level_price (ob_asks orderbook)) of
                     None \<Rightarrow> ret ()
                   | Some ask \<Rightarrow> quote_book env symbol key orderbook bid ask)))))"

end
