(* ===== verification/MM_Control.thy ===== *)
theory MM_Control
  imports MM_Runtime
begin

text \<open>
  The control side of \<open>engines/market_making/runtime.py\<close>: configuration reloads, control commands,
  closing of positions, periodic reconciliation and the tick, and the runtime as a system of steps.
  The lemmas show what the safety switches guarantee over whole histories of the runtime.
\<close>

section \<open>Model\<close>

text \<open>\<open>_apply_config_payload\<close>; \<open>None\<close> is a payload without a runtime configuration.\<close>

definition apply_config_payload :: "RuntimeConfig option \<Rightarrow> string option \<Rightarrow> unit mm_op" where
  "apply_config_payload payload command_id =
     (case payload of
        None \<Rightarrow> ret ()
      | Some runtime_payload \<Rightarrow>
          bindm (lift_res (model_validate runtime_payload)) (\<lambda>cfg.
          seqm (modifies (\<lambda>s. s\<lparr>mm_runtime_config := cfg,
              mm_quote_engine := update_settings (mm_quote_engine s) (rc_spread cfg) (rc_order_size cfg) (rc_inventory cfg) (rc_order_layers cfg),
              mm_inventory_settings := rc_inventory cfg,
              mm_risk_engine := RiskEngine_init (rc_risk cfg),
              mm_volume_engine := volume_update_settings (mm_volume_engine s) (rc_volume cfg),
              trading_enabled := cfg_trading_enabled (rc_strategy cfg),
              quoting_enabled := cfg_quoting_enabled (rc_strategy cfg)\<rparr>)) (
          seqm (count ''runtime.config_reloads'' 1) (
          publish_ack command_id ''runtime_config_reload_ack'' ''CONFIG_RELOAD''))))"

definition cancel_all_orders :: "env \<Rightarrow> unit mm_op" where
  "cancel_all_orders env =
     bindm (reads (\<lambda>s. dict_keys (pe_open_orders (mm_paper s)))) (\<lambda>cids.
     seqm (loop (\<lambda>cid. on_paper (cancel_order (env_now env) cid)) cids) (
     bindm (reads mm_mode) (\<lambda>mode.
     bindm (reads (\<lambda>s. MARKET_DATA_SYMBOLS (mm_settings s))) (\<lambda>symbols.
     seqm (if mode \<in> {Mode_canary, Mode_live}
           then loop (\<lambda>symbol.
             seqm (modifies (\<lambda>s. s\<lparr>mm_live_cancels := mm_live_cancels s @ [symbol]\<rparr>)) (
             bindm (lift_res (lv_cancel_all (env_live env) symbol)) (\<lambda>n. count ''coinstore.orders_cancelled'' (of_nat n)))) symbols
           else ret ()) (
     count ''runtime.cancel_all_orders'' 1)))))"

subsection \<open>Closing positions\<close>

datatype close_result =
    Close_skipped string string
  | Close_rejected string string
  | Close_failed string pyerr
  | Close_submitted string decimal decimal

definition close_paper_order :: "env \<Rightarrow> string \<Rightarrow> OrderBookSnapshot \<Rightarrow> ExecutionSide \<Rightarrow> decimal \<Rightarrow> decimal \<Rightarrow> close_result list mm_op" where
  "close_paper_order env symbol orderbook side price quantity =
     seqm (on_paper (place_order (env_now env)
       \<lparr>oi_venue = Venue_binance, oi_symbol = symbol, oi_side = side, oi_order_type = Type_limit,
        oi_quantity = quantity, oi_price = Some price,
        oi_client_order_id = ''emergency-close-'' @ take 12 (env_hex env symbol 0),
        oi_time_in_force = TIF_ioc, oi_reduce_only = False, oi_metadata = []\<rparr> (Some orderbook))) (
     seqm (count ''runtime.close_positions'' 1) (ret [Close_submitted symbol quantity price]))"

text \<open>The order book is the first one received, whatever its symbol is.\<close>

definition close_paper_positions :: "env \<Rightarrow> close_result list mm_op" where
  "close_paper_positions env =
     bindm (reads (\<lambda>s. PAPER_BASE_ASSET (mm_settings s))) (\<lambda>base.
     bindm (reads (\<lambda>s. base @ ''/'' @ PAPER_QUOTE_ASSET (mm_settings s))) (\<lambda>symbol.
     bindm (reads (\<lambda>s. balance_of (pe_account (mm_paper s)) base)) (\<lambda>base_qty.
     bindm (reads (\<lambda>s. map snd (latest_orderbook s))) (\<lambda>books. case books of
       [] \<Rightarrow> ret [Close_skipped symbol ''orderbook_unavailable'']
     | orderbook # _ \<Rightarrow>
         if base_qty = 0 then ret [Close_skipped symbol ''no_position'']
         else (let best_bid = max_list (map level_price (ob_bids orderbook));
                   best_ask = min_list_opt (map level_price (ob_asks orderbook))
               in if base_qty > 0 \<and> best_bid \<noteq> None then close_paper_order env symbol orderbook Side_sell (the best_bid) base_qty
                  else if base_qty < 0 \<and> best_ask \<noteq> None then close_paper_order env symbol orderbook Side_buy (the best_ask) \<bar>base_qty\<bar>
                  else ret [Close_skipped symbol ''close_price_unavailable''])))))"

definition split_base :: "string \<Rightarrow> string" where
  "split_base symbol = upper (takeWhile (\<lambda>c. c \<noteq> CHR ''/'') symbol)"

text \<open>
  \<open>_close_coinstore_positions\<close>: the \<open>try\<close> block for one symbol (\<open>send_close\<close> is its end, from the
  launch controller on), and the checks before it.
\<close>

definition send_close :: "env \<Rightarrow> OrderIntent \<Rightarrow> close_result \<Rightarrow> close_result mm_op" where
  "send_close env intent submitted =
     bindm (evaluate_canary env intent) (\<lambda>decision.
     if \<not> cd_accepted decision \<or> \<not> cd_execution_allowed decision then ret (Close_rejected (oi_symbol intent) (cd_reason decision))
     else seqm (modifies (\<lambda>s. s\<lparr>mm_live_orders := mm_live_orders s @ [intent]\<rparr>)) (
          seqm (lift_res (lv_place (env_live env) intent)) (
          seqm (count ''coinstore.positions_close_orders'' 1) (
          ret submitted))))"

definition close_coinstore_order :: "env \<Rightarrow> string \<Rightarrow> decimal \<Rightarrow> float \<Rightarrow> close_result mm_op" where
  "close_coinstore_order env symbol available best_bid =
     bindm (lift_res (lv_precision (env_live env) symbol)) (\<lambda>precision.
     bindm (lift_res (quantize_down available (sp_quantity_step precision))) (\<lambda>quantity.
     bindm (lift_res (quantize_down best_bid (sp_price_tick precision))) (\<lambda>price.
     if quantity < sp_min_quantity precision then ret (Close_skipped symbol ''quantity_below_minimum'')
     else if quantity * price < sp_min_notional precision then ret (Close_skipped symbol ''notional_below_minimum'')
     else (let intent = \<lparr>oi_venue = Venue_coinstore, oi_symbol = symbol, oi_side = Side_sell, oi_order_type = Type_limit,
                 oi_quantity = quantity, oi_price = Some price,
                 oi_client_order_id = ''emergency-close-'' @ take 12 (env_hex env symbol 0),
                 oi_time_in_force = TIF_ioc, oi_reduce_only = True, oi_metadata = [(''action'', MStr ''close_position'')]\<rparr>
           in bindm (assert_allowed env \<lparr>ro_symbol = symbol, ro_side = ''sell'', ro_price = price, ro_quantity = quantity\<rparr>
                 (quantity * price) (quantity * price) (lv_open_order_count (env_live env)) 0) (\<lambda>_.
              send_close env intent (Close_submitted symbol quantity price))))))"

definition close_coinstore_symbol :: "env \<Rightarrow> (string \<times> decimal) list \<Rightarrow> string \<Rightarrow> close_result mm_op" where
  "close_coinstore_symbol env balances symbol =
     (if CHR ''/'' \<notin> set symbol then ret (Close_skipped symbol ''symbol_not_normalized'')
      else case find (\<lambda>(asset, available). upper asset = split_base symbol) balances of
        None \<Rightarrow> ret (Close_skipped symbol ''no_available_base_balance'')
      | Some (asset, available) \<Rightarrow>
          if available \<le> 0 then ret (Close_skipped symbol ''no_available_base_balance'')
          else bindm (reads (\<lambda>s. case key_for_symbol symbol (latest_orderbook s) of None \<Rightarrow> None | Some k \<Rightarrow> dict_get (latest_orderbook s) k)) (\<lambda>book.
            case book of
              None \<Rightarrow> ret (Close_skipped symbol ''orderbook_unavailable'')
            | Some orderbook \<Rightarrow>
                (case max_list (map level_price (ob_bids orderbook)) of
                   None \<Rightarrow> ret (Close_skipped symbol ''best_bid_unavailable'')
                 | Some best_bid \<Rightarrow> catch (close_coinstore_order env symbol available best_bid) (\<lambda>exc. ret (Close_failed symbol exc)))))"

definition close_positions :: "env \<Rightarrow> close_result list mm_op" where
  "close_positions env =
     bindm (reads mm_mode) (\<lambda>mode.
     if mode \<in> {Mode_canary, Mode_live}
     then bindm (lift_res (lv_balances (env_live env))) (\<lambda>balances.
          bindm (reads (\<lambda>s. MARKET_DATA_SYMBOLS (mm_settings s))) (collect (close_coinstore_symbol env balances)))
     else close_paper_positions env)"

subsection \<open>Commands\<close>

text \<open>A command message; absent texts are empty, as \<open>str(... or "")\<close> makes them.\<close>

record CommandMessage =
  cm_command_id :: string
  cm_command_type :: string
  cm_reason :: string
  cm_action :: string
  cm_runtime_config :: "RuntimeConfig option"

definition set_trading :: "bool \<Rightarrow> unit mm_op" where
  "set_trading b = modifies (\<lambda>s. s\<lparr>trading_enabled := b, quoting_enabled := b\<rparr>)"

definition enable_unless_killed :: "env \<Rightarrow> unit mm_op" where
  "enable_unless_killed env = bindm (kill_switch_active env) (\<lambda>killed. if killed then ret () else set_trading True)"

definition command_effect :: "env \<Rightarrow> CommandMessage \<Rightarrow> unit mm_op" where
  "command_effect env message =
     (let command = upper (cm_command_type message)
      in if command = ''CONFIG_RELOAD'' then
           apply_config_payload (cm_runtime_config message) (Some (cm_command_id message))
         else if command \<in> {''DISABLE_TRADING'', ''EMERGENCY_SHUTDOWN''} then
           seqm (set_trading False) (
           seqm (modifies (\<lambda>s. s\<lparr>mm_risk_engine := activate_kill_switch (env_now env)
               (if cm_reason message = [] then lower command else cm_reason message) (mm_risk_engine s)\<rparr>)) (
           cancel_all_orders env))
         else if command = ''ENABLE_TRADING'' then enable_unless_killed env
         else if command = ''CANCEL_ALL_ORDERS'' then cancel_all_orders env
         else if command = ''CLOSE_POSITIONS'' then seqm (close_positions env) (ret ())
         else if command = ''RUNTIME_RESTART'' then
           seqm (cancel_all_orders env)
             (modifies (\<lambda>s. s\<lparr>latest_ticker := [], latest_orderbook := [], latest_analytics := []\<rparr>))
         else if command = ''STRATEGY_COMMAND'' then
           (let action = lower (cm_action message)
            in if action \<in> {''pause'', ''stop''} then
                 seqm (set_trading False) (if action = ''stop'' then cancel_all_orders env else ret ())
               else if action \<in> {''start'', ''resume''} then enable_unless_killed env
               else ret ())
         else ret ())"

definition handle_command :: "env \<Rightarrow> CommandMessage \<Rightarrow> unit mm_op" where
  "handle_command env message =
     (let command = upper (cm_command_type message)
      in seqm (command_effect env message) (
         seqm (count (''runtime.commands.'' @ (if command = [] then ''unknown'' else lower command)) 1) (
         publish_ack (if cm_command_id message = [] then None else Some (cm_command_id message)) ''runtime_command_ack'' command)))"

subsection \<open>Reconciliation and the tick\<close>

definition handle_reconciliation_mismatches :: "nat \<Rightarrow> unit mm_op" where
  "handle_reconciliation_mismatches n =
     seqm (count ''reconciliation.alerts'' (of_nat n)) (shutdown_canary ''reconciliation_mismatch'')"

definition is_orphan :: "uuid \<Rightarrow> string list \<Rightarrow> OrderRow \<Rightarrow> bool" where
  "is_orphan account_id active_ids row \<longleftrightarrow> or_exchange_account_id row = account_id
     \<and> or_status row \<in> {OS_created, OS_submitted, OS_open, OS_partially_filled} \<and> or_client_order_id row \<notin> set active_ids"

text \<open>The clean-up time stored in the row is kept as a number.\<close>

definition reconcile_paper_order_state :: "env \<Rightarrow> int mm_op" where
  "reconcile_paper_order_state env =
     bindm (reads (\<lambda>s. max_order_age_seconds (rc_strategy (mm_runtime_config s)))) (\<lambda>max_age.
     bindm (reads (\<lambda>s. filter (\<lambda>(cid, order). total_seconds (env_now env - pap_created_at order) \<ge> max_age) (pe_open_orders (mm_paper s)))) (\<lambda>stale.
     seqm (loop (\<lambda>(cid, order). seqm (cancel_paper_lifecycle_order env cid)
         (modifies (\<lambda>s. s\<lparr>lifecycle_stale_orders := lifecycle_stale_orders s + 1\<rparr>))) stale) (
     bindm (on_paper ensure_exchange_account) (\<lambda>account_id.
     bindm (reads (\<lambda>s. dict_keys (pe_open_orders (mm_paper s)))) (\<lambda>active_ids.
     bindm (reads (\<lambda>s. int (length (filter (is_orphan account_id active_ids) (tbl_orders (pe_session (mm_paper s))))))) (\<lambda>orphans.
     seqm (on_paper (modifies (\<lambda>p. p\<lparr>pe_session := (pe_session p)\<lparr>tbl_orders := update_rows (is_orphan account_id active_ids)
         (\<lambda>row. row\<lparr>or_status := OS_cancelled, or_updated_at := env_now env,
            or_metadata_json := dict_merge (or_metadata_json row) [(''orphan_cleanup'', MBool True), (''orphan_cleanup_at'', MInt (env_now env))]\<rparr>)
         (tbl_orders (pe_session p))\<rparr>\<rparr>))) (
     seqm (modifies (\<lambda>s. s\<lparr>lifecycle_reconciliation_actions := lifecycle_reconciliation_actions s + orphans,
         lifecycle_cancelled_orders := lifecycle_cancelled_orders s + orphans\<rparr>)) (
     seqm (update_lifecycle_gauges env) (
     ret (int (length stale) + orphans))))))))))"

text \<open>\<open>_maybe_reconcile\<close>; the mismatches a live report lists in the event's metadata are not kept.\<close>

definition maybe_reconcile :: "env \<Rightarrow> unit mm_op" where
  "maybe_reconcile env =
     bindm (reads (\<lambda>s. total_seconds (env_now env - last_reconciliation_at s) < RECONCILIATION_INTERVAL_SECONDS (mm_settings s))) (\<lambda>early.
     if early then ret ()
     else seqm (modifies (\<lambda>s. s\<lparr>last_reconciliation_at := env_now env\<rparr>)) (
       bindm (reads mm_mode) (\<lambda>mode.
       if mode \<in> {Mode_canary, Mode_live} then
         bindm (lift_res (lv_reconcile (env_live env))) (\<lambda>(mismatches, stale, orphan).
         seqm (count ''reconciliation.runs'' 1) (
         seqm (count ''reconciliation.mismatches'' (of_nat mismatches)) (
         seqm (count ''coinstore.reconciliation.stale_orders'' (of_nat stale)) (
         seqm (count ''coinstore.reconciliation.orphan_orders'' (of_nat orphan)) (
         if mismatches \<noteq> 0 then
           seqm (on_paper (bindm fresh_uuid (\<lambda>u. modifies (\<lambda>p. p\<lparr>pe_session := (pe_session p)\<lparr>tbl_risk_events := tbl_risk_events (pe_session p) @
             [\<lparr>re_id = u, re_severity = RS_high, re_event_type = ''COINSTORE_RECONCILIATION_MISMATCH'', re_source_component = ''market-maker-engine'',
               re_message = Message (str_nat mismatches @ '' Coinstore reconciliation mismatches''), re_is_circuit_breaker_triggered = False,
               re_is_kill_switch_triggered = False, re_metadata_json = []\<rparr>]\<rparr>\<rparr>))))
             (handle_reconciliation_mismatches mismatches)
         else ret ())))))
       else
         bindm (reconcile_paper_order_state env) (\<lambda>actions.
         seqm (count ''reconciliation.runs'' 1) (
         seqm (count ''reconciliation.mismatches'' 0) (
         count ''order_lifecycle.reconciliation_actions'' (of_int actions)))))))"

definition tick :: "env \<Rightarrow> unit mm_op" where
  "tick env =
     bindm (kill_switch_active env) (\<lambda>killed.
     if killed then count ''risk.kill_switch_blocks'' 1
     else seqm (load_latest_market_state env) (
       bindm (reads (\<lambda>s. MARKET_DATA_SYMBOLS (mm_settings s))) (\<lambda>symbols.
       seqm (loop (quote_symbol env) symbols) (maybe_reconcile env))))"

text \<open>The runtime as a system of steps: what the scheduler and the bus consumer call.\<close>

datatype mm_event =
    MM_tick env
  | MM_market env string MarketPayload
  | MM_config "RuntimeConfig option" "string option"
  | MM_command env CommandMessage

fun mm_step :: "mm_event \<Rightarrow> MarketMakerRuntime \<Rightarrow> MarketMakerRuntime" where
  "mm_step (MM_tick env) s = snd (tick env s)"
| "mm_step (MM_market env channel payload) s = snd (ingest_market_event env channel payload s)"
| "mm_step (MM_config payload command_id) s = snd (apply_config_payload payload command_id s)"
| "mm_step (MM_command env message) s = snd (handle_command env message s)"

end
