(* ===== verification/MM_Safety.thy ===== *)
theory MM_Safety
  imports MM_Control
begin

text \<open>
  What the runtime guarantees over whole histories. The locale \<open>runtime_invariant\<close> is the interface
  between the runtime and an invariant: it asks that the few primitive changes of the engines keep
  the invariant and concludes that every tick, market event, reload and command does. It is
  interpreted for the launch gate, for the emergency stop and for the invariants of the paper engine.
\<close>

section \<open>Lifting invariants to the runtime\<close>

text \<open>The engines an invariant may speak about; everything else is bookkeeping.\<close>

definition engines :: "MarketMakerRuntime \<Rightarrow> LaunchMode \<times> CanaryController \<times> RiskEngine \<times> PaperExecutionEngine \<times> OrderIntent list \<times> string list" where
  "engines s = (mm_mode s, mm_canary s, mm_risk_engine s, mm_paper s, mm_live_orders s, mm_live_cancels s)"

fun is_reload :: "mm_event \<Rightarrow> bool" where
  "is_reload (MM_config payload command_id) = (payload \<noteq> None)"
| "is_reload (MM_command env message) = (upper (cm_command_type message) = ''CONFIG_RELOAD'' \<and> cm_runtime_config message \<noteq> None)"
| "is_reload _ = False"

fun is_close :: "mm_event \<Rightarrow> bool" where
  "is_close (MM_command env message) = (upper (cm_command_type message) = ''CLOSE_POSITIONS'')"
| "is_close _ = False"

locale runtime_invariant =
  fixes P :: "MarketMakerRuntime \<Rightarrow> bool" and reloads :: bool and closes :: bool
  assumes frame: "P s \<Longrightarrow> engines s' = engines s \<Longrightarrow> P s'"
    and canary_stop: "P s \<Longrightarrow> P (s\<lparr>mm_canary := activate_shutdown r (mm_canary s)\<rparr>)"
    and kill: "P s \<Longrightarrow> P (s\<lparr>mm_risk_engine := activate_kill_switch t r (mm_risk_engine s)\<rparr>)"
    and db: "P s \<Longrightarrow> mem p = mem (mm_paper s) \<Longrightarrow> P (s\<lparr>mm_paper := p\<rparr>)"
    and matched: "P s \<Longrightarrow> P (s\<lparr>mm_paper := snd (simulate_fills t sy ob (mm_paper s))\<rparr>)"
    and cancelled: "P s \<Longrightarrow> P (s\<lparr>mm_paper := snd (cancel_order t cid (mm_paper s))\<rparr>)"
    and live_cancel: "P s \<Longrightarrow> mm_mode s \<in> {Mode_canary, Mode_live} \<Longrightarrow> P (s\<lparr>mm_live_cancels := mm_live_cancels s @ [sy]\<rparr>)"
    and submitted: "P s \<Longrightarrow> P (snd (submit_quote env sy ob q s))"
    and reloaded: "P s \<Longrightarrow> reloads \<Longrightarrow> P (s\<lparr>mm_risk_engine := RiskEngine_init rs\<rparr>)"
    and closed: "P s \<Longrightarrow> closes \<Longrightarrow> P (snd (close_positions env s))"
begin

lemma keeps_frame: "(\<And>s. engines (f s) = engines s) \<Longrightarrow> keeps P (modifies f)"
  by (rule keeps_modifies) (rule frame)

lemma keeps_count: "keeps P (count name v)"
  unfolding count_def by (rule keeps_frame) (simp add: engines_def)

lemma keeps_gauge: "keeps P (gauge name v)"
  unfolding gauge_def by (rule keeps_frame) (simp add: engines_def)

lemma keeps_ack: "keeps P (publish_ack a b c)"
  unfolding publish_ack_def by (rule keeps_frame) (simp add: engines_def)

lemma keeps_trading: "keeps P (set_trading b)"
  unfolding set_trading_def by (rule keeps_frame) (simp add: engines_def)

lemma keeps_stop: "keeps P (shutdown_canary r)"
  unfolding shutdown_canary_def by (rule keeps_modifies) (rule canary_stop)

lemmas keeps_basic = keeps_count keeps_gauge keeps_ack keeps_trading keeps_stop

lemma keeps_db:
  assumes "\<And>p0. keeps (\<lambda>p. mem p = p0) m"
  shows "keeps P (on_paper m)"
  unfolding on_paper_def
proof (rule keeps_zoom)
  fix s t r assume "P s" "m (mm_paper s) = (r, t)"
  then show "P (s\<lparr>mm_paper := t\<rparr>)" using keepsD[OF assms, of "mm_paper s" "mem (mm_paper s)"] db by simp
qed

lemma keeps_cancel: "keeps P (on_paper (cancel_order t cid))"
  unfolding on_paper_def by (rule keeps_zoom) (metis cancelled snd_conv)

lemma keeps_match: "keeps P (on_paper (simulate_fills t sy ob))"
  unfolding on_paper_def by (rule keeps_zoom) (metis matched snd_conv)

lemma keeps_lifecycle_cancel: "keeps P (cancel_paper_lifecycle_order env cid)"
  unfolding cancel_paper_lifecycle_order_def
  by (intro kept keeps_cancel keeps_basic keeps_frame) (simp_all add: engines_def)

lemma keeps_fold_op: "(\<And>x acc. x \<in> set xs \<Longrightarrow> keeps P (f x acc)) \<Longrightarrow> keeps P (fold_op f xs acc)"
  by (induction xs arbitrary: acc) (auto intro!: keeps_bind keeps_ret)

lemma keeps_gauges: "keeps P (update_lifecycle_gauges env)"
proof -
  have "keeps P (\<lambda>s. case order_lifecycle_metrics (env_now env) s of (m, s') \<Rightarrow> (Inr m, s'))"
    by (rule keepsI) (auto simp: order_lifecycle_metrics_def Let_def engines_def intro: frame)
  then show ?thesis
    unfolding update_lifecycle_gauges_def by (intro kept keeps_basic) (auto intro: keeps_basic)
qed

lemma keeps_group_order: "keeps P (group_order env symbol item acc)"
  unfolding group_order_def by (cases item) (auto intro!: kept keeps_lifecycle_cancel)

lemma keeps_sync_newest: "keeps P (sync_newest env q item to_place)"
  unfolding sync_newest_def
  by (cases item) (auto intro!: kept keeps_lifecycle_cancel keeps_frame simp: engines_def)

lemma keeps_sync_key: "keeps P (sync_key env item acc)"
  unfolding sync_key_def
  by (cases item; cases acc)
    (auto intro!: kept keeps_lifecycle_cancel keeps_sync_newest split: option.split list.split)

lemma keeps_sync: "keeps P (sync_paper_ladder env symbol desired)"
  unfolding sync_paper_ladder_def Let_def
  by (auto intro!: kept keeps_fold_op keeps_group_order keeps_sync_key keeps_gauges)

lemma keeps_submit_quotes: "keeps P (submit_quotes env symbol quotes ob)"
  unfolding submit_quotes_def
  by (auto intro!: kept keeps_sync keeps_basic keepsI[of P "submit_quote _ _ _ _"] submitted)

lemma keeps_volume: "keeps P (volume_progress env symbol mid)"
  unfolding volume_progress_def Let_def
  by (auto intro!: kept keeps_basic keeps_frame simp: engines_def)

lemma keeps_pressure: "keeps P (apply_volume_pressure env quotes r b a)"
proof (rule keepsI)
  fix s assume "P s"
  have "engines (snd (apply_volume_pressure env quotes r b a s)) = engines s"
    by (simp add: apply_volume_pressure_def Let_def engines_def split: prod.split)
  with \<open>P s\<close> show "P (snd (apply_volume_pressure env quotes r b a s))" by (rule frame)
qed

lemma keeps_persist_inventory: "keeps P (persist_inventory env symbol balances)"
  unfolding persist_inventory_def
  by (auto intro!: kept keeps_db simp: mem_only_def)

lemma keeps_quote_symbol: "keeps P (quote_symbol env symbol)"
  unfolding quote_symbol_def quote_book_def Let_def
  by (intro kept keeps_basic keeps_volume keeps_pressure keeps_submit_quotes keeps_persist_inventory)

lemma keeps_kill_read: "keeps P (kill_switch_active env)"
  unfolding kill_switch_active_def
  by (auto intro!: kept keeps_basic split: kill_switch_read.split option.split bool.split)

lemma keeps_ingest: "keeps P (ingest_market_event env channel payload)"
  unfolding ingest_market_event_def Let_def
  by (auto intro!: kept keeps_basic keeps_match keeps_frame simp: engines_def)

lemma keeps_load: "keeps P (load_latest_market_state env)"
  unfolding load_latest_market_state_def by (rule keeps_loop) (auto intro: keeps_ingest)

lemma keeps_cancel_all: "keeps P (cancel_all_orders env)"
proof -
  let ?step = "\<lambda>symbol. seqm (modifies (\<lambda>s. s\<lparr>mm_live_cancels := mm_live_cancels s @ [symbol]\<rparr>))
    (bindm (lift_res (lv_cancel_all (env_live env) symbol)) (\<lambda>n. count ''coinstore.orders_cancelled'' (of_nat n)))"
  define L where "L = (\<lambda>s. P s \<and> mm_mode s \<in> {Mode_canary, Mode_live})"
  have "keeps L (loop ?step xs)" for xs
    by (intro kept keeps_modifies) (auto simp: L_def count_def keeps_def engines_def intro: live_cancel frame)
  then have live: "P (snd (loop ?step xs s))" if "P s" "mm_mode s \<in> {Mode_canary, Mode_live}" for xs s
    using that keepsD[of L "loop ?step xs" s] by (simp add: L_def)
  have tail: "keeps P (bindm (reads mm_mode) (\<lambda>mode. bindm (reads (\<lambda>s. MARKET_DATA_SYMBOLS (mm_settings s))) (\<lambda>symbols.
     seqm (if mode \<in> {Mode_canary, Mode_live} then loop ?step symbols else ret ()) (count ''runtime.cancel_all_orders'' 1))))"
  proof (rule keepsI)
    fix s assume "P s"
    let ?m = "if mm_mode s \<in> {Mode_canary, Mode_live} then loop ?step (MARKET_DATA_SYMBOLS (mm_settings s)) else ret ()"
    have "P (snd (?m s))" using \<open>P s\<close> live by simp
    then have "P (snd (seqm ?m (count ''runtime.cancel_all_orders'' 1) s))"
      using keepsD[OF keeps_count] by (auto simp: seqm_def bindm_def split: prod.splits sum.splits)
    then show "P (snd (bindm (reads mm_mode) (\<lambda>mode. bindm (reads (\<lambda>s. MARKET_DATA_SYMBOLS (mm_settings s))) (\<lambda>symbols.
     seqm (if mode \<in> {Mode_canary, Mode_live} then loop ?step symbols else ret ()) (count ''runtime.cancel_all_orders'' 1))) s))"
      by (simp only: bindm_reads)
  qed
  show ?thesis
    unfolding cancel_all_orders_def
    by (rule keeps_bind[OF keeps_reads], rule keeps_seq[OF _ tail], rule keeps_loop, rule keeps_cancel)
qed

lemma keeps_reload: "reloads \<or> payload = None \<Longrightarrow> keeps P (apply_config_payload payload cid)"
proof (cases payload)
  case (Some cfg0)
  assume "reloads \<or> payload = None"
  then have "reloads" using Some by simp
  have "keeps P (modifies (\<lambda>s. s\<lparr>mm_runtime_config := cfg,
              mm_quote_engine := update_settings (mm_quote_engine s) (rc_spread cfg) (rc_order_size cfg) (rc_inventory cfg) (rc_order_layers cfg),
              mm_inventory_settings := rc_inventory cfg,
              mm_risk_engine := RiskEngine_init (rc_risk cfg),
              mm_volume_engine := volume_update_settings (mm_volume_engine s) (rc_volume cfg),
              trading_enabled := cfg_trading_enabled (rc_strategy cfg),
              quoting_enabled := cfg_quoting_enabled (rc_strategy cfg)\<rparr>))" for cfg
    by (rule keeps_modifies, rule frame, erule reloaded[OF _ \<open>reloads\<close>]) (simp add: engines_def)
  then show ?thesis unfolding apply_config_payload_def Some option.case by (intro kept keeps_basic)
qed (simp add: apply_config_payload_def keeps_ret)

lemma keeps_enable: "keeps P (enable_unless_killed env)"
  unfolding enable_unless_killed_def by (intro kept keeps_kill_read keeps_basic)

lemma keeps_command:
  assumes "reloads \<or> \<not> is_reload (MM_command env message)" "closes \<or> \<not> is_close (MM_command env message)"
  shows "keeps P (handle_command env message)"
proof -
  have c: "keeps P (close_positions env)" if "upper (cm_command_type message) = ''CLOSE_POSITIONS''"
    using assms(2) that closed by (auto intro: keepsI)
  have r: "keeps P (apply_config_payload (cm_runtime_config message) cid)"
    if "upper (cm_command_type message) = ''CONFIG_RELOAD''" for cid
    using assms(1) that by (intro keeps_reload) auto
  have k: "keeps P (modifies (\<lambda>s. s\<lparr>mm_risk_engine := activate_kill_switch t x (mm_risk_engine s)\<rparr>))" for t x
    by (rule keeps_modifies) (rule kill)
  have m: "keeps P (modifies (\<lambda>s. s\<lparr>latest_ticker := [], latest_orderbook := [], latest_analytics := []\<rparr>))"
    by (rule keeps_frame) (simp add: engines_def)
  have "keeps P (command_effect env message)"
    unfolding command_effect_def Let_def using c r
    by (auto intro!: keeps_ret keeps_seq k m keeps_cancel_all keeps_enable keeps_trading)
  then show ?thesis unfolding handle_command_def Let_def by (intro kept keeps_basic)
qed

lemma keeps_mismatch: "keeps P (handle_reconciliation_mismatches n)"
  unfolding handle_reconciliation_mismatches_def by (intro kept keeps_basic)

lemma keeps_reconcile_paper: "keeps P (reconcile_paper_order_state env)"
  unfolding reconcile_paper_order_state_def
  by (auto intro!: kept keeps_lifecycle_cancel keeps_gauges keeps_db keeps_frame simp: engines_def mem_only_def)

lemma keeps_maybe_reconcile: "keeps P (maybe_reconcile env)"
  unfolding maybe_reconcile_def
  by (auto intro!: kept keeps_basic keeps_mismatch keeps_reconcile_paper keeps_db keeps_frame
      simp: engines_def mem_only_def split: prod.split)

lemma keeps_tick: "keeps P (tick env)"
  unfolding tick_def by (intro kept keeps_kill_read keeps_basic keeps_load keeps_quote_symbol keeps_maybe_reconcile)

lemma mm_step_inv:
  assumes "P s" "reloads \<or> \<not> is_reload e" "closes \<or> \<not> is_close e"
  shows "P (mm_step e s)"
proof (cases e)
  case (MM_tick env)
  then show ?thesis using keepsD[OF keeps_tick assms(1)] by simp
next
  case (MM_market env channel payload)
  then show ?thesis using keepsD[OF keeps_ingest assms(1)] by simp
next
  case (MM_config payload cid)
  then show ?thesis using keepsD[OF keeps_reload assms(1)] assms(2) by simp
next
  case (MM_command env message)
  then show ?thesis using keepsD[OF keeps_command assms(1)] assms(2,3) by (simp del: is_reload.simps is_close.simps)
qed

lemma run_inv:
  assumes "P s" "reloads \<or> (\<forall>e \<in> set es. \<not> is_reload e)" "closes \<or> (\<forall>e \<in> set es. \<not> is_close e)"
  shows "P (run mm_step es s)"
  using assms by (induction es arbitrary: s) (auto intro: mm_step_inv)

end

section \<open>Submitting a quote\<close>

lemma keeps_bind_ctx:
  assumes "keeps P m" "\<And>s x t. P s \<Longrightarrow> m s = (Inr x, t) \<Longrightarrow> P t \<Longrightarrow> P (snd (f x t))"
  shows "keeps P (bindm m f)"
proof (rule keepsI)
  fix s assume "P s"
  obtain r t where m: "m s = (r, t)" by (cases "m s")
  then have "P t" using keepsD[OF assms(1) \<open>P s\<close>] by simp
  then show "P (snd (bindm m f s))" using assms(2)[OF \<open>P s\<close> _ \<open>P t\<close>] m by (cases r) (auto simp: bindm_def)
qed

lemma killed_assert:
  "ks_active (re_kill_switch e) \<Longrightarrow> \<exists>r. assert_order_allowed now e i a b c d = (Inl (KillSwitchActiveError r), e)"
  by (auto simp: assert_order_allowed_def evaluate_order_def)

lemma assert_keeps_kill_switch:
  "re_kill_switch (snd (assert_order_allowed now e i a b c d)) = re_kill_switch e"
  by (auto simp: assert_order_allowed_def evaluate_order_def Let_def split: prod.splits)

section \<open>The launch gate\<close>

text \<open>An order that may leave the process: canary or live mode, inside the launch policy.\<close>

definition gated :: "CanaryPolicy \<Rightarrow> LaunchMode \<Rightarrow> OrderIntent \<Rightarrow> bool" where
  "gated policy mode i \<longleftrightarrow> mode \<in> {Mode_canary, Mode_live}
     \<and> price_or_zero i * oi_quantity i \<le> cp_max_order_notional policy \<and> oi_order_type i \<in> set (cp_allowed_order_types policy)"

definition gate_inv :: "CanaryPolicy \<Rightarrow> LaunchMode \<Rightarrow> MarketMakerRuntime \<Rightarrow> bool" where
  "gate_inv policy mode s \<longleftrightarrow> mm_mode s = mode \<and> cs_mode (cc_state (mm_canary s)) = mode \<and> cc_policy (mm_canary s) = policy
     \<and> (\<forall>i \<in> set (mm_live_orders s). gated policy mode i) \<and> (mode \<notin> {Mode_canary, Mode_live} \<longrightarrow> mm_live_cancels s = [])"

lemma gate_frame: "gate_inv policy mode s \<Longrightarrow> engines t = engines s \<Longrightarrow> gate_inv policy mode t"
  by (simp add: gate_inv_def engines_def)

lemma gate_keeps_assert: "keeps (gate_inv policy mode) (assert_allowed env i a b c d)"
  by (rule keepsI) (auto simp: assert_allowed_def gate_inv_def split: prod.split)

lemma gate_keeps_canary: "keeps (gate_inv policy mode) (evaluate_canary env i)"
proof (rule keepsI)
  fix s assume g: "gate_inv policy mode s"
  have "snd (evaluate_canary env i s) = s\<lparr>mm_canary := snd (evaluate (env_now env div day_us) (mm_canary s) (Some i))\<rparr>"
    by (simp add: evaluate_canary_def split: prod.split)
  with g show "gate_inv policy mode (snd (evaluate_canary env i s))" by (simp add: gate_inv_def)
qed

lemma gate_keeps_paper: "keeps (gate_inv policy mode) (on_paper m)"
  unfolding on_paper_def by (rule keeps_zoom) (simp add: gate_inv_def)

lemma gate_keeps_count: "keeps (gate_inv policy mode) (count name v)"
  unfolding count_def by (rule keeps_modifies) (simp add: gate_inv_def)

text \<open>A decision of the controller that allows execution makes the intent a gated one.\<close>

lemma gate_decision:
  assumes "gate_inv policy mode s" "evaluate_canary env i s = (Inr d, t)" "cd_execution_allowed d"
  shows "gated policy mode i"
proof -
  have "d = fst (evaluate (env_now env div day_us) (mm_canary s) (Some i))"
    using assms(2) by (auto simp: evaluate_canary_def split: prod.splits)
  then show ?thesis
    using execution_allowed_facts[of "env_now env div day_us" "mm_canary s" i] assms(1,3) by (simp add: gate_inv_def gated_def)
qed

lemma gate_send:
  assumes "gate_inv policy mode s" "gated policy mode i"
  shows "gate_inv policy mode (s\<lparr>mm_live_orders := mm_live_orders s @ [i]\<rparr>)"
  using assms by (auto simp: gate_inv_def)

lemma gate_place_live: "gate_inv policy mode s \<Longrightarrow> gated policy mode i \<Longrightarrow> gate_inv policy mode (snd (place_live_order env i s))"
  using keepsD[of "gate_inv policy mode" "seqm (lift_res (lv_place (env_live env) i)) (count ''coinstore.orders_created'' 1)"]
  by (simp add: place_live_order_def gate_send keeps_seq keeps_lift gate_keeps_count)

lemma gate_route: "keeps (gate_inv policy mode) (route_intent env m ob i)"
  unfolding route_intent_def
proof (rule keeps_bind_ctx[OF gate_keeps_canary])
  fix s d t assume *: "gate_inv policy mode s" "evaluate_canary env i s = (Inr d, t)" "gate_inv policy mode t"
  have "gate_inv policy mode (snd (place_live_order env i t))" if "cd_execution_allowed d"
    using gate_place_live[OF *(3) gate_decision[OF *(1,2) that]] .
  then show "gate_inv policy mode (snd ((if \<not> cd_accepted d then count ''market_maker.quote_rejections'' 1
      else if m = Mode_paper then
        seqm (on_paper (place_order (env_now env) i (Some ob))) (count ''paper.orders_created'' 1)
      else if cd_execution_allowed d then place_live_order env i
      else count ''market_maker.quote_rejections'' 1) t))"
    using *(3) by (auto intro!: keepsD[of "gate_inv policy mode"] keeps_seq gate_keeps_count gate_keeps_paper)
qed

lemma gate_reject: "keeps (gate_inv policy mode) (reject_quote env sy e)"
proof -
  have "keeps (gate_inv policy mode) (modifies (\<lambda>s. s\<lparr>risk_rejection_timestamps := risk_rejection_timestamps s @ [env_now env]\<rparr>))"
    by (rule keeps_modifies) (simp add: gate_inv_def)
  then show ?thesis
    unfolding reject_quote_def persist_risk_event_def
    by (intro keeps_seq keeps_bind keeps_reads gate_keeps_count gate_keeps_paper)
qed

lemma gate_submit: "keeps (gate_inv policy mode) (submit_quote env sy ob q)"
  unfolding submit_quote_def check_risk_def
  by (intro keeps_bind keeps_reads keeps_catch keeps_seq gate_keeps_assert gate_keeps_count gate_route gate_reject)

lemma gate_send_close: "keeps (gate_inv policy mode) (send_close env i r)"
  unfolding send_close_def
proof (rule keeps_bind_ctx[OF gate_keeps_canary])
  fix s d t assume *: "gate_inv policy mode s" "evaluate_canary env i s = (Inr d, t)" "gate_inv policy mode t"
  let ?sent = "t\<lparr>mm_live_orders := mm_live_orders t @ [i]\<rparr>"
  have k: "keeps (gate_inv policy mode) (seqm (lift_res (lv_place (env_live env) i)) (
        seqm (count ''coinstore.positions_close_orders'' 1) (ret r)))"
    by (intro keeps_seq keeps_lift keeps_ret gate_keeps_count)
  have "gate_inv policy mode ?sent" if "cd_execution_allowed d"
    using gate_send[OF *(3) gate_decision[OF *(1,2) that]] .
  from keepsD[OF k this] show "gate_inv policy mode (snd ((if \<not> cd_accepted d \<or> \<not> cd_execution_allowed d then ret (Close_rejected (oi_symbol i) (cd_reason d))
      else seqm (modifies (\<lambda>s. s\<lparr>mm_live_orders := mm_live_orders s @ [i]\<rparr>)) (
          seqm (lift_res (lv_place (env_live env) i)) (
          seqm (count ''coinstore.positions_close_orders'' 1) (ret r)))) t))"
    using *(3) by simp
qed

lemma gate_close_symbol: "keeps (gate_inv policy mode) (close_coinstore_symbol env balances sy)"
proof -
  have "keeps (gate_inv policy mode) (close_coinstore_order env sy av bb)" for av bb
    unfolding close_coinstore_order_def Let_def
    by (intro keeps_bind keeps_if keeps_ret keeps_lift gate_keeps_assert gate_send_close)
  then show ?thesis
    unfolding close_coinstore_symbol_def
    by (auto intro!: keeps_ret keeps_bind keeps_reads keeps_catch split: option.split)
qed

lemma gate_close: "keeps (gate_inv policy mode) (close_positions env)"
proof -
  have "keeps (gate_inv policy mode) (close_paper_order env sy ob side p q)" for sy ob side p q
    unfolding close_paper_order_def by (intro keeps_seq keeps_ret gate_keeps_count gate_keeps_paper)
  then have "keeps (gate_inv policy mode) (close_paper_positions env)"
    unfolding close_paper_positions_def Let_def
    by (auto intro!: keeps_bind keeps_reads keeps_ret split: list.split)
  then show ?thesis
    unfolding close_positions_def
    by (intro keeps_bind keeps_if keeps_reads keeps_lift keeps_collect gate_close_symbol)
qed

interpretation gate: runtime_invariant "gate_inv policy mode" True True for policy mode
proof
  show "gate_inv policy mode (snd (submit_quote env sy ob q s))" if "gate_inv policy mode s" for s env sy ob q
    using gate_submit that by (rule keepsD)
  show "gate_inv policy mode (snd (close_positions env s))" if "gate_inv policy mode s" for s env
    using gate_close that by (rule keepsD)
qed (auto simp: gate_inv_def engines_def activate_shutdown_def)

section \<open>The emergency stop\<close>

text \<open>Stopped: the risk engine's kill switch is on, nothing is resting, and nothing has been sent or filled since.\<close>

definition stopped :: "OrderIntent list \<Rightarrow> PaperFill list \<Rightarrow> MarketMakerRuntime \<Rightarrow> bool" where
  "stopped sent fills s \<longleftrightarrow> ks_active (re_kill_switch (mm_risk_engine s)) \<and> mm_live_orders s = sent
     \<and> pe_open_orders (mm_paper s) = [] \<and> pe_fills (mm_paper s) = fills"

lemma stopped_assert:
  "stopped sent fills s \<Longrightarrow> \<exists>r. assert_allowed env i a b c d s = (Inl (KillSwitchActiveError r), s)"
  using killed_assert[of "mm_risk_engine s" "env_now env" i a b c d] by (auto simp: stopped_def assert_allowed_def)

lemma stopped_count: "keeps (stopped sent fills) (count name v)"
  unfolding count_def by (rule keeps_modifies) (simp add: stopped_def)

lemma stopped_reject: "keeps (stopped sent fills) (reject_quote env sy e)"
proof -
  have m: "keeps (stopped sent fills) (modifies (\<lambda>s. s\<lparr>risk_rejection_timestamps := risk_rejection_timestamps s @ [env_now env]\<rparr>))"
    by (rule keeps_modifies) (simp add: stopped_def)
  have "keeps (stopped sent fills) (persist_risk_event sy e)"
    by (rule keepsI) (auto simp: persist_risk_event_def on_paper_def zoom_def stopped_def split: prod.split)
  with m show ?thesis unfolding reject_quote_def by (intro keeps_seq stopped_count)
qed

lemma stopped_submit:
  assumes "stopped sent fills s"
  shows "stopped sent fills (snd (submit_quote env sy ob q s))"
proof -
  obtain r where "check_risk env sy q s = (Inl (KillSwitchActiveError r), s)"
    using stopped_assert[OF assms] by (fastforce simp: check_risk_def)
  then have "submit_quote env sy ob q s = reject_quote env sy (KillSwitchActiveError r) s"
    by (simp add: submit_quote_def catch_def bindm_Inl[where m = "check_risk env sy q"])
  then show ?thesis using keepsD[OF stopped_reject assms] by simp
qed

lemma simulate_nothing:
  assumes "pe_open_orders p = []"
  shows "pe_open_orders (snd (simulate_fills t sy ob p)) = [] \<and> pe_fills (snd (simulate_fills t sy ob p)) = pe_fills p"
proof -
  have "pe_open_orders (mark_price ob p) = []" "pe_fills (mark_price ob p) = pe_fills p"
    using assms by (auto simp: mark_price_def split: option.split)
  then show ?thesis by (simp add: simulate_fills_def simulate_orders_def bindm_def)
qed

lemma cancel_nothing: "pe_open_orders p = [] \<Longrightarrow> snd (cancel_order t cid p) = p"
  by (simp add: cancel_order_def)

interpretation stop: runtime_invariant "stopped sent fills" False False for sent fills
proof
  show "stopped sent fills (snd (submit_quote env sy ob q s))" if "stopped sent fills s" for s env sy ob q
    using that by (rule stopped_submit)
  show "stopped sent fills (s\<lparr>mm_paper := snd (simulate_fills t sy ob (mm_paper s))\<rparr>)" if "stopped sent fills s" for s t sy ob
    using that simulate_nothing[of "mm_paper s" t sy ob] by (simp add: stopped_def)
  show "stopped sent fills (s\<lparr>mm_paper := snd (cancel_order t cid (mm_paper s))\<rparr>)" if "stopped sent fills s" for s t cid
    using that cancel_nothing[of "mm_paper s" t cid] by (simp add: stopped_def)
qed (auto simp: stopped_def engines_def activate_kill_switch_def ks_activate_def mem_def)

lemma snd_seq_ret: "snd (seqm m (ret x) s) = snd (m s)"
  by (simp add: seqm_def bindm_def split: prod.split sum.split)

text \<open>Cancelling removes the order from the book, whether or not the database accepts the change.\<close>

lemma cancel_order_open: "pe_open_orders (snd (cancel_order t cid p)) = dict_pop cid (pe_open_orders p)"
proof (cases "dict_get (pe_open_orders p) cid")
  case None
  then have "cid \<notin> set (dict_keys (pe_open_orders p))" by (simp add: map_of_eq_None_iff)
  then show ?thesis using None by (simp add: cancel_order_def delete_id)
next
  case (Some order)
  have "keeps (\<lambda>q. pe_open_orders q = os) (persist_order t o')" for os o'
    by (rule keeps_persist_order) (auto simp: mem_only_def mem_def)
  then have "pe_open_orders (snd (persist_order t o' (drop_order cid p))) = pe_open_orders (drop_order cid p)" for o'
    using keepsD[of "\<lambda>q. pe_open_orders q = pe_open_orders (drop_order cid p)" "persist_order t o'" "drop_order cid p"] by simp
  moreover have "snd (cancel_order t cid p) =
      snd (persist_order t (order\<lparr>pap_status := ''CANCELLED'', pap_updated_at := t\<rparr>) (drop_order cid p))"
    using Some by (simp add: cancel_order_def Let_def snd_seq_ret)
  ultimately show ?thesis by (simp add: drop_order_def)
qed

lemma cancel_loop_open:
  "fst (loop (\<lambda>cid. on_paper (cancel_order t cid)) cids s) = Inr () \<Longrightarrow>
   pe_open_orders (mm_paper (snd (loop (\<lambda>cid. on_paper (cancel_order t cid)) cids s))) =
     fold dict_pop cids (pe_open_orders (mm_paper s))"
proof (induction cids arbitrary: s)
  case (Cons cid cids)
  obtain r p where rp: "cancel_order t cid (mm_paper s) = (r, p)" by (cases "cancel_order t cid (mm_paper s)")
  have "pe_open_orders p = dict_pop cid (pe_open_orders (mm_paper s))" using cancel_order_open[of t cid "mm_paper s"] rp by simp
  then show ?case
    using Cons rp by (cases r) (auto simp: seqm_def bindm_def on_paper_def zoom_def)
qed simp

lemma pop_all: "fold dict_pop (dict_keys d) d = []"
proof -
  have "dict_keys (fold dict_pop ks d) = filter (\<lambda>k. k \<notin> set ks) (dict_keys d)" for ks
  proof (induction ks arbitrary: d)
    case (Cons k ks)
    have "dict_keys (dict_pop k d) = filter (\<lambda>x. x \<noteq> k) (dict_keys d)" for d :: "('a, 'b) dict"
      by (induction d) auto
    then show ?case using Cons[of "dict_pop k d"] by (auto intro: filter_cong)
  qed simp
  from this[of "dict_keys d"] show ?thesis by (auto simp: filter_empty_conv)
qed

lemma cancel_all_keeps_risk: "keeps (\<lambda>s. mm_risk_engine s = e) (cancel_all_orders env)"
  unfolding cancel_all_orders_def on_paper_def count_def
  by (intro kept keeps_modifies keeps_zoom) simp_all

lemma cancel_all_empties:
  assumes "cancel_all_orders env s = (Inr (), t)"
  shows "pe_open_orders (mm_paper t) = []"
proof -
  let ?cids = "dict_keys (pe_open_orders (mm_paper s))"
  let ?loop = "loop (\<lambda>cid. on_paper (cancel_order (env_now env) cid)) ?cids"
  let ?rest = "bindm (reads mm_mode) (\<lambda>mode. bindm (reads (\<lambda>s. MARKET_DATA_SYMBOLS (mm_settings s))) (\<lambda>symbols.
     seqm (if mode \<in> {Mode_canary, Mode_live}
           then loop (\<lambda>symbol.
             seqm (modifies (\<lambda>s. s\<lparr>mm_live_cancels := mm_live_cancels s @ [symbol]\<rparr>)) (
             bindm (lift_res (lv_cancel_all (env_live env) symbol)) (\<lambda>n. count ''coinstore.orders_cancelled'' (of_nat n)))) symbols
           else ret ()) (count ''runtime.cancel_all_orders'' 1)))"
  have "seqm ?loop ?rest s = (Inr (), t)" using assms by (simp add: cancel_all_orders_def)
  then obtain u where u: "?loop s = (Inr (), u)" "?rest u = (Inr (), t)"
    unfolding seqm_def[of ?loop] by (elim bindm_InrE) auto
  have "pe_open_orders (mm_paper u) = fold dict_pop ?cids (pe_open_orders (mm_paper s))"
    using cancel_loop_open[of "env_now env" ?cids s] u(1) by simp
  then have e: "pe_open_orders (mm_paper u) = []" by (simp add: pop_all)
  have "keeps (\<lambda>s. pe_open_orders (mm_paper s) = []) ?rest"
    unfolding count_def by (intro kept keeps_modifies) simp_all
  from keepsD[OF this e] u(2) show ?thesis by simp
qed

definition is_stop_command :: "CommandMessage \<Rightarrow> bool" where
  "is_stop_command message \<longleftrightarrow> upper (cm_command_type message) \<in> {''DISABLE_TRADING'', ''EMERGENCY_SHUTDOWN''}"

lemma stop_command_stops:
  assumes "is_stop_command message" "handle_command env message s = (Inr (), t)"
  shows "stopped (mm_live_orders t) (pe_fills (mm_paper t)) t \<and> \<not> trading_enabled t"
proof -
  let ?c = "upper (cm_command_type message)"
  define k where "k = activate_kill_switch (env_now env) (if cm_reason message = [] then lower ?c else cm_reason message) (mm_risk_engine s)"
  define s1 where "s1 = s\<lparr>trading_enabled := False, quoting_enabled := False, mm_risk_engine := k\<rparr>"
  have eff: "command_effect env message s = cancel_all_orders env s1"
    using assms(1) by (auto simp: is_stop_command_def command_effect_def Let_def set_trading_def k_def s1_def)
  obtain x u where u: "command_effect env message s = (Inr x, u)"
    using assms(2) unfolding handle_command_def Let_def seqm_def by (elim bindm_InrE) auto
  have t: "engines t = engines u" "trading_enabled t = trading_enabled u"
    using assms(2) u by (auto simp: handle_command_def Let_def seqm_def bindm_def count_def publish_ack_def engines_def)
  have c: "cancel_all_orders env s1 = (Inr (), u)" using u eff by simp
  have "mm_risk_engine u = k" using keepsD[OF cancel_all_keeps_risk, of s1 k env] c by (simp add: s1_def)
  moreover have "keeps (\<lambda>s. \<not> trading_enabled s) (cancel_all_orders env)"
    unfolding cancel_all_orders_def on_paper_def count_def by (intro kept keeps_modifies keeps_zoom) simp_all
  from keepsD[OF this, of s1] c have "\<not> trading_enabled u" by (simp add: s1_def)
  ultimately show ?thesis
    using cancel_all_empties[OF c] t by (simp add: stopped_def engines_def k_def activate_kill_switch_def ks_activate_def)
qed

section \<open>The paper engine inside the runtime\<close>

text \<open>Every invariant of the paper engine's memory that admits all intents is one of the runtime.\<close>

locale paper_in_runtime = memory_invariant P fills_ok "\<lambda>_. True" for P fills_ok
begin

lemma keeps_on_paper: "keeps P m \<Longrightarrow> keeps (\<lambda>s. P (mm_paper s)) (on_paper m)"
  unfolding on_paper_def by (rule keeps_zoom) (auto dest: keepsD)

lemma keeps_untouched: "(\<And>s. mm_paper (f s) = mm_paper s) \<Longrightarrow> keeps (\<lambda>s. P (mm_paper s)) (modifies f)"
  by (rule keeps_modifies) simp

lemma keeps_counts: "keeps (\<lambda>s. P (mm_paper s)) (count name v)"
  unfolding count_def by (rule keeps_untouched) simp

lemma keeps_checks:
  "keeps (\<lambda>s. P (mm_paper s)) (assert_allowed env i a b c d)" "keeps (\<lambda>s. P (mm_paper s)) (evaluate_canary env oi)"
  by (auto intro!: keepsI simp: assert_allowed_def evaluate_canary_def split: prod.split)

lemma keeps_rejection: "keeps (\<lambda>s. P (mm_paper s)) (reject_quote env sy e)"
  unfolding reject_quote_def persist_risk_event_def
  by (intro keeps_seq keeps_bind keeps_reads keeps_counts keeps_untouched keeps_on_paper keeps_fresh keeps_mem mem) simp_all

lemma keeps_submission: "keeps (\<lambda>s. P (mm_paper s)) (submit_quote env sy ob q)"
  unfolding submit_quote_def check_risk_def route_intent_def place_live_order_def
  by (intro kept keeps_checks keeps_counts keeps_rejection keeps_on_paper keeps_place_order keeps_untouched TrueI) simp_all

lemma keeps_closing: "keeps (\<lambda>s. P (mm_paper s)) (close_positions env)"
proof -
  have "keeps (\<lambda>s. P (mm_paper s)) (close_paper_order env sy ob side p q)" for sy ob side p q
    unfolding close_paper_order_def by (intro kept keeps_counts keeps_on_paper keeps_place_order TrueI)
  then have "keeps (\<lambda>s. P (mm_paper s)) (close_paper_positions env)"
    unfolding close_paper_positions_def Let_def by (auto intro!: kept split: list.split)
  moreover have "keeps (\<lambda>s. P (mm_paper s)) (close_coinstore_order env sy av bb)" for sy av bb
    unfolding close_coinstore_order_def Let_def send_close_def
    by (intro kept keeps_checks keeps_counts keeps_untouched) simp_all
  then have "keeps (\<lambda>s. P (mm_paper s)) (close_coinstore_symbol env bal sy)" for bal sy
    unfolding close_coinstore_symbol_def by (auto intro!: kept split: option.split)
  ultimately show ?thesis unfolding close_positions_def by (intro kept)
qed

end

sublocale paper_in_runtime \<subseteq> rt: runtime_invariant "\<lambda>s. P (mm_paper s)" True True
proof
  show "P (mm_paper (snd (submit_quote env sy ob q s)))" if "P (mm_paper s)" for s env sy ob q
    using keepsD[OF keeps_submission] that by blast
  show "P (mm_paper (snd (close_positions env s)))" if "P (mm_paper s)" for s env
    using keepsD[OF keeps_closing] that by blast
  show "P (mm_paper (s\<lparr>mm_paper := snd (simulate_fills t sy ob (mm_paper s))\<rparr>))" if "P (mm_paper s)" for s t sy ob
    using keepsD[OF keeps_simulate_fills] that by simp
  show "P (mm_paper (s\<lparr>mm_paper := snd (cancel_order t cid (mm_paper s))\<rparr>))" if "P (mm_paper s)" for s t cid
    using keepsD[OF keeps_cancel_order] that by simp
  show "P (mm_paper (s\<lparr>mm_paper := p\<rparr>))" if "P (mm_paper s)" "mem p = mem (mm_paper s)" for s p
    using mem_onlyD[OF mem that] by simp
qed (simp_all add: engines_def)

interpretation run_led: paper_in_runtime "ledger_inv cash" "\<lambda>_. True" for cash ..

interpretation run_ord: paper_in_runtime "orders_inv UNIV" "\<lambda>order. order_ok order \<and> pap_intent order \<in> UNIV"
  using ord.memory_invariant_axioms[of UNIV] by (simp add: paper_in_runtime_def)

section \<open>Closing while stopped\<close>

definition submits_nothing :: "close_result mm_op \<Rightarrow> MarketMakerRuntime \<Rightarrow> bool" where
  "submits_nothing m s \<longleftrightarrow> snd (m s) = s \<and> (\<forall>sy q p. fst (m s) \<noteq> Inr (Close_submitted sy q p))"

lemma submits_nothing_ret: "(\<And>sy q p. r \<noteq> Close_submitted sy q p) \<Longrightarrow> submits_nothing (ret r) s"
  by (simp add: submits_nothing_def)

lemma submits_nothing_lift: "(\<And>x. submits_nothing (f x) s) \<Longrightarrow> submits_nothing (bindm (lift_res r) f) s"
  by (cases r) (simp_all add: submits_nothing_def)

lemma submits_nothing_reads: "submits_nothing (f (g s)) s \<Longrightarrow> submits_nothing (bindm (reads g) f) s"
  by (simp add: submits_nothing_def)

lemma submits_nothing_catch: "submits_nothing m s \<Longrightarrow> submits_nothing (catch m (\<lambda>e. ret (Close_failed sy e))) s"
  by (auto simp: submits_nothing_def catch_def split: prod.splits sum.splits)

lemma submits_nothing_assert:
  "ks_active (re_kill_switch (mm_risk_engine s)) \<Longrightarrow> submits_nothing (bindm (assert_allowed env i a b c d) f) s"
  using killed_assert[of "mm_risk_engine s" "env_now env" i a b c d]
  by (auto simp: submits_nothing_def bindm_def assert_allowed_def)

lemma submits_nothing_close:
  "ks_active (re_kill_switch (mm_risk_engine s)) \<Longrightarrow> submits_nothing (close_coinstore_order env sy av bb) s"
  unfolding close_coinstore_order_def Let_def
  by (intro submits_nothing_lift) (auto intro: submits_nothing_ret submits_nothing_assert)

section \<open>Properties\<close>

text \<open>
  C2. The launch gate: over any history of ticks, market events, reloads and commands, outside
  canary and live mode the runtime never calls the live execution service, neither to place nor to
  cancel; and in canary and live mode every order it has handed to the service is a limit or
  post-only order whose notional is at most the configured canary limit and the risk limit of the
  configuration the process was started with.
\<close>

theorem external_orders_gated:
  assumes "s = run mm_step es (MarketMakerRuntime_init now settings session quote_engine cfg)"
  shows "(TRADING_MODE settings \<notin> {Mode_canary, Mode_live} \<longrightarrow> mm_live_orders s = [] \<and> mm_live_cancels s = [])
    \<and> (\<forall>i \<in> set (mm_live_orders s). oi_order_type i \<in> {Type_limit, Type_post_only}
         \<and> price_or_zero i * oi_quantity i \<le> MAX_CANARY_NOTIONAL settings
         \<and> price_or_zero i * oi_quantity i \<le> max_order_notional (rc_risk cfg))"
proof -
  let ?i = "MarketMakerRuntime_init now settings session quote_engine cfg"
  have "gate_inv (cc_policy (mm_canary ?i)) (TRADING_MODE settings) ?i"
    by (simp add: gate_inv_def MarketMakerRuntime_init_def CanaryState_init_def)
  then have "gate_inv (cc_policy (mm_canary ?i)) (TRADING_MODE settings) s"
    unfolding assms by (rule gate.run_inv) simp_all
  then have g: "\<forall>i \<in> set (mm_live_orders s). gated (cc_policy (mm_canary ?i)) (TRADING_MODE settings) i"
    "TRADING_MODE settings \<notin> {Mode_canary, Mode_live} \<longrightarrow> mm_live_cancels s = []"
    by (simp_all add: gate_inv_def)
  have "mm_live_orders s = []" if "TRADING_MODE settings \<notin> {Mode_canary, Mode_live}"
    using g(1) that by (cases "mm_live_orders s") (auto simp: gated_def)
  then show ?thesis using g by (auto simp: gated_def MarketMakerRuntime_init_def)
qed

text \<open>
  C1. The emergency stop holds: once a \<open>DISABLE_TRADING\<close> or \<open>EMERGENCY_SHUTDOWN\<close> command has been
  handled, no sequence of ticks, market events and commands that contains no configuration reload
  and no \<open>CLOSE_POSITIONS\<close>, not even one with \<open>ENABLE_TRADING\<close>, places a paper order, gets a fill or
  sends an order to the venue: the risk engine's kill switch stays on and nothing in the command
  set switches it off.
\<close>

theorem emergency_stop_holds:
  assumes "is_stop_command message" "handle_command env message s = (Inr (), t)"
    and "\<forall>e \<in> set es. \<not> is_reload e \<and> \<not> is_close e"
  shows "let u = run mm_step es t in
     ks_active (re_kill_switch (mm_risk_engine u)) \<and> pe_open_orders (mm_paper u) = []
     \<and> pe_fills (mm_paper u) = pe_fills (mm_paper t) \<and> mm_live_orders u = mm_live_orders t"
proof -
  have "stopped (mm_live_orders t) (pe_fills (mm_paper t)) t" using stop_command_stops[OF assms(1,2)] by simp
  then have "stopped (mm_live_orders t) (pe_fills (mm_paper t)) (run mm_step es t)"
    by (rule stop.run_inv) (use assms(3) in auto)
  then show ?thesis by (simp add: stopped_def)
qed

text \<open>
  A configuration reload cancels the stop: whatever the state, a valid configuration with
  trading enabled leaves the runtime trading, with a fresh risk engine whose kill switch is off and
  whose breakers are closed.
\<close>

theorem reload_releases_emergency_stop:
  assumes "model_validate cfg = Inr cfg" "cfg_trading_enabled (rc_strategy cfg)"
  shows "let t = mm_step (MM_config (Some cfg) command_id) s in
     trading_enabled t \<and> \<not> ks_active (re_kill_switch (mm_risk_engine t)) \<and> mm_risk_engine t = RiskEngine_init (rc_risk cfg)"
  using assms by (simp add: apply_config_payload_def count_def publish_ack_def RiskEngine_init_def)

text \<open>
  In canary and live mode positions cannot be closed after an emergency stop: while the risk
  engine's kill switch is on, \<open>CLOSE_POSITIONS\<close> submits nothing, because every closing order is put
  to the risk engine first.
\<close>

theorem closing_fails_while_stopped:
  assumes "ks_active (re_kill_switch (mm_risk_engine s))" "mm_mode s \<in> {Mode_canary, Mode_live}"
    and "close_positions env s = (Inr results, t)"
  shows "mm_live_orders t = mm_live_orders s \<and> (\<forall>sy q p. Close_submitted sy q p \<notin> set results)"
proof -
  have sym: "submits_nothing (close_coinstore_symbol env bal sy) s" for bal sy
    unfolding close_coinstore_symbol_def
    by (auto intro!: submits_nothing_ret submits_nothing_reads submits_nothing_catch submits_nothing_close assms(1) split: option.split)
  have "snd (collect (close_coinstore_symbol env bal) sys s) = s \<and>
      (\<forall>rs. fst (collect (close_coinstore_symbol env bal) sys s) = Inr rs \<longrightarrow> (\<forall>sy q p. Close_submitted sy q p \<notin> set rs))"
    for bal sys
  proof (induction sys)
    case (Cons sy sys)
    show ?case using Cons sym[of bal sy] by (auto simp: submits_nothing_def bindm_def split: prod.splits sum.splits)
  qed simp
  moreover obtain bal where "collect (close_coinstore_symbol env bal) (MARKET_DATA_SYMBOLS (mm_settings s)) s = (Inr results, t)"
    using assms(2,3) by (cases "lv_balances (env_live env)") (auto simp: close_positions_def)
  ultimately show ?thesis by (metis fst_conv snd_conv)
qed

text \<open>
  C5. The runtime never corrupts the paper account: after any history of the runtime the base and
  quote balances are the starting cash and the signed sum of the fills, the fees are those of the
  fills, and no open order is filled beyond its quantity.
\<close>

theorem runtime_paper_account_sound:
  assumes "s = run mm_step es (MarketMakerRuntime_init now settings session quote_engine cfg)"
    and "PAPER_BASE_ASSET settings \<noteq> PAPER_QUOTE_ASSET settings"
  shows "ledger_inv (PAPER_STARTING_CASH settings) (mm_paper s)
    \<and> (\<forall>(cid, order) \<in> set (pe_open_orders (mm_paper s)). pap_id order = cid \<and> order_ok order)"
proof -
  let ?i = "MarketMakerRuntime_init now settings session quote_engine cfg"
  have "ledger_inv (PAPER_STARTING_CASH settings) (mm_paper ?i)" "orders_inv UNIV (mm_paper ?i)"
    using assms(2) by (simp_all add: MarketMakerRuntime_init_def ledger_inv_def orders_inv_def PaperExecutionEngine_init_def
        balance_of_def dict_get_or_def)
  then have "ledger_inv (PAPER_STARTING_CASH settings) (mm_paper s)" "orders_inv UNIV (mm_paper s)"
    using run_led.rt.run_inv[of _ ?i es] run_ord.rt.run_inv[of ?i es] by (simp_all add: assms(1))
  then show ?thesis by (auto simp: orders_inv_def)
qed

section \<open>Witnesses\<close>

definition example_settings :: "LaunchMode \<Rightarrow> Settings" where
  "example_settings mode = \<lparr>TRADING_MODE = mode, MARKET_DATA_EXCHANGES = [''binance''], MARKET_DATA_SYMBOLS = [''BTC/USDT''],
     RECONCILIATION_INTERVAL_SECONDS = 60, PAPER_STARTING_CASH = 100000, PAPER_BASE_ASSET = ''BTC'',
     PAPER_QUOTE_ASSET = ''USDT'', MAX_CANARY_NOTIONAL = 5000, MAX_CANARY_POSITION = 2500\<rparr>"

definition example_live_service :: live_service where
  "example_live_service = \<lparr>lv_place = (\<lambda>_. Inr ()), lv_cancel_all = (\<lambda>_. Inr 0), lv_balances = Inr [(''BTC'', 1)],
     lv_precision = (\<lambda>symbol. Inr \<lparr>sp_symbol = symbol, sp_venue_symbol = symbol, sp_price_tick = 1/100, sp_quantity_step = 1/1000,
       sp_min_quantity = 1/1000, sp_min_notional = 1, sp_price_precision = 2, sp_quantity_precision = 3\<rparr>),
     lv_open_order_count = 0, lv_reconcile = Inr (0, 0, 0)\<rparr>"

definition example_env :: env where
  "example_env = \<lparr>env_now = 0, env_kill_switch = Kill_state None, env_hex = (\<lambda>_ _. ''0123456789ab''),
     env_live = example_live_service,
     env_market = [(''marketdata:orderbook:binance:BTC/USDT'',
        \<lparr>mp_orderbook = Inr example_paper_book, mp_volume_24h = None, mp_volume = None, mp_spread_bps = None,
         mp_imbalance_ratio = None, mp_realized_volatility = None\<rparr>)]\<rparr>"

definition example_runtime :: "LaunchMode \<Rightarrow> MarketMakerRuntime" where
  "example_runtime mode = MarketMakerRuntime_init 0 (example_settings mode) empty_session default_quote_engine default_runtime_config"

definition example_command :: "string \<Rightarrow> CommandMessage" where
  "example_command c = \<lparr>cm_command_id = ''1'', cm_command_type = c, cm_reason = ''drill'', cm_action = [], cm_runtime_config = None\<rparr>"

theorem external_orders_gated_witness:
  "mm_live_orders (run mm_step [MM_tick example_env] (example_runtime Mode_paper)) = []"
  using external_orders_gated[of _ "[MM_tick example_env]" 0 "example_settings Mode_paper", OF refl]
  by (simp add: example_runtime_def example_settings_def)

lemma example_stop: "fst (handle_command example_env (example_command ''EMERGENCY_SHUTDOWN'') (example_runtime Mode_paper)) = Inr ()"
  by code_simp

theorem emergency_stop_holds_witness:
  "mm_live_orders (run mm_step [MM_command example_env (example_command ''ENABLE_TRADING''), MM_tick example_env]
     (snd (handle_command example_env (example_command ''EMERGENCY_SHUTDOWN'') (example_runtime Mode_paper)))) =
   mm_live_orders (snd (handle_command example_env (example_command ''EMERGENCY_SHUTDOWN'') (example_runtime Mode_paper)))"
proof -
  have s: "is_stop_command (example_command ''EMERGENCY_SHUTDOWN'')" by code_simp
  have r: "handle_command example_env (example_command ''EMERGENCY_SHUTDOWN'') (example_runtime Mode_paper) =
     (Inr (), snd (handle_command example_env (example_command ''EMERGENCY_SHUTDOWN'') (example_runtime Mode_paper)))"
    using example_stop by (metis prod.collapse)
  have e: "\<forall>e \<in> set [MM_command example_env (example_command ''ENABLE_TRADING''), MM_tick example_env]. \<not> is_reload e \<and> \<not> is_close e"
    by (simp add: example_command_def upper_def to_upper_def)
  show ?thesis using emergency_stop_holds[OF s r e] by (simp add: Let_def)
qed

theorem reload_releases_emergency_stop_witness:
  "trading_enabled (mm_step (MM_config (Some default_runtime_config) None)
     (snd (handle_command example_env (example_command ''EMERGENCY_SHUTDOWN'') (example_runtime Mode_paper))))"
proof -
  have "model_validate default_runtime_config = Inr default_runtime_config" "cfg_trading_enabled (rc_strategy default_runtime_config)"
    by code_simp+
  from reload_releases_emergency_stop[OF this] show ?thesis by (simp add: Let_def del: mm_step.simps)
qed

theorem closing_fails_while_stopped_witness:
  "mm_live_orders (snd (close_positions example_env
     (snd (handle_command example_env (example_command ''EMERGENCY_SHUTDOWN'') (example_runtime Mode_live))))) = []"
proof -
  let ?s = "snd (handle_command example_env (example_command ''EMERGENCY_SHUTDOWN'') (example_runtime Mode_live))"
  have k: "ks_active (re_kill_switch (mm_risk_engine ?s))" "mm_mode ?s \<in> {Mode_canary, Mode_live}" "mm_live_orders ?s = []"
    by code_simp+
  have "fst (close_positions example_env ?s) = Inr [Close_skipped ''BTC/USDT'' ''orderbook_unavailable'']" by code_simp
  then have "close_positions example_env ?s = (Inr [Close_skipped ''BTC/USDT'' ''orderbook_unavailable''], snd (close_positions example_env ?s))"
    by (metis prod.collapse)
  from closing_fails_while_stopped[OF k(1,2) this] k(3) show ?thesis by simp
qed

theorem runtime_paper_account_sound_witness:
  "ledger_inv 100000 (mm_paper (run mm_step [MM_tick example_env] (example_runtime Mode_paper)))"
  using runtime_paper_account_sound[of _ "[MM_tick example_env]" 0 "example_settings Mode_paper", OF refl]
  by (simp add: example_runtime_def example_settings_def)

end
