(* ===== verification/Market_Data.thy ===== *)
theory Market_Data
  imports Config Exec_Models Json
begin

text \<open>
  \<open>engines/market_data/engine.py\<close> with the market data types of \<open>exchanges/types.py\<close>: spread and
  depth metrics of an order book, and the trade statistics with their window of the last 1000
  prices per symbol. Volatility is computed over the reals, because the code takes logarithms and
  square roots. \<open>persist_ticker\<close> and \<open>distribute_orderbook\<close> only hand the value to the
  repository and the bus and are not modelled here.
\<close>

section \<open>Model\<close>

record TradeTick =
  tt_exchange :: string
  tt_symbol :: string
  tt_trade_id :: string
  tt_price :: float
  tt_quantity :: float
  tt_side :: string
  tt_traded_at :: datetime
  tt_metadata :: obj

record Kline =
  kl_exchange :: string
  kl_symbol :: string
  kl_interval :: string
  kl_open_time :: datetime
  kl_close_time :: datetime
  kl_open_price :: float
  kl_high_price :: float
  kl_low_price :: float
  kl_close_price :: float
  kl_volume :: float

record SpreadMetrics =
  sm_bid :: float
  sm_ask :: float
  sm_mid :: float
  sm_spread :: float
  sm_spread_bps :: float

record LiquidityAnalytics =
  top_of_book_depth :: float
  depth_1pct :: float
  depth_5pct :: float
  imbalance_ratio :: float
  imbalance_detected :: bool

record MarketStatistics =
  ms_last_price :: "float option"
  ms_trade_count :: nat
  ms_volume :: float
  realized_volatility :: real
  ms_high_price :: "float option"
  ms_low_price :: "float option"

record MarketDataEngine =
  md_liquidity_settings :: LiquiditySettings
  trade_prices :: "(string, float list) dict"

definition calculate_spread :: "OrderBookSnapshot \<Rightarrow> SpreadMetrics res" where
  "calculate_spread orderbook =
     (case (max_list (map level_price (ob_bids orderbook)), min_list_opt (map level_price (ob_asks orderbook))) of
        (Some bid, Some ask) \<Rightarrow>
          if bid \<le> 0 \<or> ask \<le> 0 \<or> ask < bid
          then Inl (ValueError ''orderbook top of book is invalid'')
          else (let mid = (bid + ask) / 2; spread = ask - bid
                in Inr \<lparr>sm_bid = bid, sm_ask = ask, sm_mid = mid, sm_spread = spread,
                        sm_spread_bps = (spread / mid) * 10000\<rparr>)
      | _ \<Rightarrow> Inl (ValueError ''orderbook requires at least one bid and one ask''))"

definition depth_within :: "OrderBookSnapshot \<Rightarrow> float \<Rightarrow> float \<Rightarrow> float" where
  "depth_within orderbook mid percent =
     (let min_bid = mid * (1 - percent); max_ask = mid * (1 + percent)
      in (\<Sum>level \<leftarrow> filter (\<lambda>level. level_price level \<ge> min_bid) (ob_bids orderbook). level_size level)
       + (\<Sum>level \<leftarrow> filter (\<lambda>level. level_price level \<le> max_ask) (ob_asks orderbook). level_size level))"

text \<open>\<open>xs[:n]\<close> of Python: a negative \<open>n\<close> counts from the end.\<close>

definition py_take :: "int \<Rightarrow> 'a list \<Rightarrow> 'a list" where
  "py_take n xs = (if 0 \<le> n then take (nat n) xs else take (length xs - nat (- n)) xs)"

definition liquidity_analytics :: "MarketDataEngine \<Rightarrow> OrderBookSnapshot \<Rightarrow> LiquidityAnalytics res" where
  "liquidity_analytics self orderbook = bindr (calculate_spread orderbook) (\<lambda>spread.
     let levels = depth_levels (md_liquidity_settings self);
         bid_depth = (\<Sum>level \<leftarrow> py_take levels (ob_bids orderbook). level_size level);
         ask_depth = (\<Sum>level \<leftarrow> py_take levels (ob_asks orderbook). level_size level);
         total = bid_depth + ask_depth;
         imbalance = (if total = 0 then 0 else (bid_depth - ask_depth) / total)
     in Inr \<lparr>top_of_book_depth = bid_depth + ask_depth,
             depth_1pct = depth_within orderbook (sm_mid spread) (1/100),
             depth_5pct = depth_within orderbook (sm_mid spread) (5/100),
             imbalance_ratio = imbalance,
             imbalance_detected = (\<bar>imbalance\<bar> \<ge> imbalance_threshold (md_liquidity_settings self))\<rparr>)"

text \<open>\<open>xs[-n:]\<close> for a positive \<open>n\<close>.\<close>

definition last_n :: "nat \<Rightarrow> 'a list \<Rightarrow> 'a list" where
  "last_n n xs = drop (length xs - n) xs"

definition log_returns :: "float list \<Rightarrow> real list" where
  "log_returns ps = map (\<lambda>(a, b). ln (of_rat (b / a))) (filter (\<lambda>(a, b). a > 0 \<and> b > 0) (zip ps (tl ps)))"

definition pstdev :: "real list \<Rightarrow> real" where
  "pstdev xs = (let n = real (length xs); mean = sum_list xs / n
                in sqrt ((\<Sum>x \<leftarrow> xs. (x - mean)\<^sup>2) / n))"

definition volatility_of :: "float list \<Rightarrow> real" where
  "volatility_of ps = (let returns = log_returns ps
     in if length returns > 1 then pstdev returns * sqrt (real (length returns)) else 0)"

definition positive_prices :: "TradeTick list \<Rightarrow> float list" where
  "positive_prices trades = filter (\<lambda>p. p > 0) (map tt_price trades)"

definition market_statistics ::
  "string \<Rightarrow> TradeTick list \<Rightarrow> Kline list \<Rightarrow> MarketDataEngine \<Rightarrow> MarketStatistics \<times> MarketDataEngine" where
  "market_statistics symbol trades klines self =
     (let prices = positive_prices trades;
          window = last_n 1000 (dict_get_or (trade_prices self) symbol [] @ prices);
          vol = volatility_of window;
          kline_prices = map kl_close_price klines;
          all_prices = prices @ kline_prices
      in (\<lparr>ms_last_price = (if prices \<noteq> [] then Some (last prices)
                            else if kline_prices \<noteq> [] then Some (last kline_prices) else None),
           ms_trade_count = length trades,
           ms_volume = (\<Sum>trade \<leftarrow> trades. tt_quantity trade),
           realized_volatility = vol,
           ms_high_price = max_list all_prices,
           ms_low_price = min_list_opt all_prices\<rparr>,
          self\<lparr>trade_prices := dict_set symbol window (trade_prices self)\<rparr>))"

section \<open>Order book metrics\<close>

text \<open>A book the metrics accept: both sides present, positive, not crossed.\<close>

definition book_ok :: "OrderBookSnapshot \<Rightarrow> bool" where
  "book_ok ob \<longleftrightarrow> ob_bids ob \<noteq> [] \<and> ob_asks ob \<noteq> [] \<and>
     (\<exists>b \<in> set (ob_bids ob). 0 < level_price b) \<and>
     (\<forall>b \<in> set (ob_bids ob). \<forall>a \<in> set (ob_asks ob). level_price b \<le> level_price a)"

lemma calculate_spread_Inr_iff:
  "calculate_spread ob = Inr m \<longleftrightarrow>
   (\<exists>bid ask. max_list (map level_price (ob_bids ob)) = Some bid \<and>
      min_list_opt (map level_price (ob_asks ob)) = Some ask \<and> 0 < bid \<and> bid \<le> ask \<and>
      m = \<lparr>sm_bid = bid, sm_ask = ask, sm_mid = (bid + ask) / 2, sm_spread = ask - bid,
           sm_spread_bps = ((ask - bid) / ((bid + ask) / 2)) * 10000\<rparr>)"
  by (auto simp: calculate_spread_def Let_def split: option.splits if_splits)

lemma calculate_spread_ok_iff: "(\<exists>m. calculate_spread ob = Inr m) \<longleftrightarrow> book_ok ob"
proof
  assume "\<exists>m. calculate_spread ob = Inr m"
  then obtain bid ask where b: "max_list (map level_price (ob_bids ob)) = Some bid"
    and a: "min_list_opt (map level_price (ob_asks ob)) = Some ask" and "0 < bid" "bid \<le> ask"
    by (auto simp: calculate_spread_Inr_iff)
  moreover have "level_price x \<le> bid" if "x \<in> set (ob_bids ob)" for x
    using max_list_SomeD(2)[OF b] that by auto
  moreover have "ask \<le> level_price x" if "x \<in> set (ob_asks ob)" for x
    using min_list_opt_SomeD(2)[OF a] that by auto
  moreover have "bid \<in> level_price ` set (ob_bids ob)" "ask \<in> level_price ` set (ob_asks ob)"
    using max_list_SomeD(1)[OF b] min_list_opt_SomeD(1)[OF a] by auto
  ultimately have "\<exists>b \<in> set (ob_bids ob). 0 < level_price b"
    "\<And>b a. b \<in> set (ob_bids ob) \<Longrightarrow> a \<in> set (ob_asks ob) \<Longrightarrow> level_price b \<le> level_price a"
    "ob_bids ob \<noteq> []" "ob_asks ob \<noteq> []"
    by (auto, meson order_trans)
  then show "book_ok ob" unfolding book_ok_def by blast
next
  assume ok: "book_ok ob"
  then obtain bid ask where b: "max_list (map level_price (ob_bids ob)) = Some bid"
    and a: "min_list_opt (map level_price (ob_asks ob)) = Some ask"
    unfolding book_ok_def by (metis max_list_None min_list_opt_None map_is_Nil_conv not_Some_eq)
  obtain x where "x \<in> set (ob_bids ob)" "0 < level_price x" using ok by (auto simp: book_ok_def)
  then have "0 < bid" using max_list_SomeD(2)[OF b, of "level_price x"] by force
  moreover have "bid \<le> ask"
    using max_list_SomeD(1)[OF b] min_list_opt_SomeD(1)[OF a] ok by (auto simp: book_ok_def)
  ultimately show "\<exists>m. calculate_spread ob = Inr m" using a b by (auto simp: calculate_spread_Inr_iff)
qed

lemma calculate_spread_bounds:
  assumes "calculate_spread ob = Inr m"
  shows "0 < sm_bid m" "sm_bid m \<le> sm_mid m" "sm_mid m \<le> sm_ask m" "0 \<le> sm_spread_bps m" "sm_spread_bps m < 20000"
  using assms by (auto simp: calculate_spread_Inr_iff field_simps)

lemma sum_list_prefix_le:
  "(\<And>x. x \<in> set xs \<Longrightarrow> 0 \<le> f x) \<Longrightarrow> (\<Sum>x \<leftarrow> take n xs. f x) \<le> (\<Sum>x \<leftarrow> xs. f x :: rat)"
  using sum_list_nonneg_map[of "drop n xs" f] append_take_drop_id[of n xs]
  by (metis add_increasing2 in_set_dropD map_append order_refl sum_list.append)

lemma py_take_set: "x \<in> set (py_take n xs) \<Longrightarrow> x \<in> set xs"
  by (auto simp: py_take_def split: if_splits dest: in_set_takeD)

lemma filter_sum_mono:
  assumes "\<And>x. x \<in> set xs \<Longrightarrow> 0 \<le> f x" "\<And>x. P x \<Longrightarrow> Q x"
  shows "(\<Sum>x \<leftarrow> filter P xs. f x) \<le> (\<Sum>x \<leftarrow> filter Q xs. f x :: rat)"
proof -
  have "filter P xs = filter P (filter Q xs)" using assms(2) by (auto intro: filter_cong)
  then show ?thesis using sum_list_filter_le[of "filter Q xs" f P] assms(1) by auto
qed

definition sizes_ok :: "OrderBookSnapshot \<Rightarrow> bool" where
  "sizes_ok ob \<longleftrightarrow> (\<forall>l \<in> set (ob_bids ob) \<union> set (ob_asks ob). 0 \<le> level_size l)"

lemma depth_within_mono:
  assumes "sizes_ok ob" "0 \<le> mid" "p \<le> q"
  shows "depth_within ob mid p \<le> depth_within ob mid q"
proof -
  have "mid * (1 - q) \<le> mid * (1 - p)" "mid * (1 + p) \<le> mid * (1 + q)"
    using assms(2,3) by (auto intro: mult_left_mono)
  then show ?thesis
    using assms(1) unfolding depth_within_def Let_def sizes_ok_def by (intro add_mono filter_sum_mono) auto
qed

lemma balance_bounds:
  assumes "0 \<le> a" "0 \<le> (b :: rat)"
  shows "\<bar>if a + b = 0 then 0 else (a - b) / (a + b)\<bar> \<le> 1"
proof (cases "a + b = 0")
  case False
  with assms have "0 < a + b" by linarith
  moreover have "\<bar>a - b\<bar> \<le> a + b" using assms by linarith
  ultimately show ?thesis by (simp add: abs_divide)
qed simp

section \<open>The price window\<close>

lemma last_n_last_n: "last_n n (last_n n xs @ ys) = last_n n (xs @ ys)"
  by (cases "length xs \<le> n") (simp_all add: last_n_def add.commute)

lemma last_n_length: "length (last_n n xs) \<le> n"
  by (simp add: last_n_def)

lemma last_n_set: "x \<in> set (last_n n xs) \<Longrightarrow> x \<in> set xs"
  by (auto simp: last_n_def dest: in_set_dropD)

definition stats_step :: "string \<times> TradeTick list \<times> Kline list \<Rightarrow> MarketDataEngine \<Rightarrow> MarketDataEngine" where
  "stats_step call self = (case call of (symbol, trades, klines) \<Rightarrow> snd (market_statistics symbol trades klines self))"

text \<open>All positive prices a symbol's calls have brought, oldest first.\<close>

definition price_history :: "string \<Rightarrow> (string \<times> TradeTick list \<times> Kline list) list \<Rightarrow> float list" where
  "price_history symbol calls = concat (map (\<lambda>(s, trades, klines). positive_prices trades)
     (filter (\<lambda>(s, trades, klines). s = symbol) calls))"

lemma price_history_Cons:
  "price_history symbol ((s, trades, klines) # calls) =
     (if s = symbol then positive_prices trades else []) @ price_history symbol calls"
  by (simp add: price_history_def)

lemma stats_step_window:
  "dict_get_or (trade_prices (stats_step (s, trades, klines) self)) symbol [] =
     (if s = symbol then last_n 1000 (dict_get_or (trade_prices self) symbol [] @ positive_prices trades)
      else dict_get_or (trade_prices self) symbol [])"
  by (simp add: stats_step_def market_statistics_def Let_def dict_get_or_def update_conv')

lemma run_stats_window:
  assumes "length (dict_get_or (trade_prices self) symbol []) \<le> 1000"
  shows "dict_get_or (trade_prices (run stats_step calls self)) symbol [] =
     last_n 1000 (dict_get_or (trade_prices self) symbol [] @ price_history symbol calls)"
  using assms
proof (induction calls arbitrary: self)
  case Nil
  then show ?case by (simp add: price_history_def last_n_def)
next
  case (Cons c calls)
  obtain s trades klines where c: "c = (s, trades, klines)" by (cases c)
  have "length (dict_get_or (trade_prices (stats_step c self)) symbol []) \<le> 1000"
    using Cons.prems by (simp add: c stats_step_window last_n_length)
  from Cons.IH[OF this] show ?case
    by (simp add: c stats_step_window price_history_Cons last_n_last_n)
qed

lemma pstdev_nonneg: "0 \<le> pstdev xs"
  unfolding pstdev_def Let_def
  by (intro real_sqrt_ge_zero divide_nonneg_nonneg sum_list_nonneg) auto

lemma volatility_nonneg: "0 \<le> volatility_of ps"
  by (simp add: volatility_of_def Let_def pstdev_nonneg)

section \<open>Properties\<close>

text \<open>
  The book metrics exist exactly for books with both sides present and a positive, uncrossed
  top; then the mid lies between bid and ask, the spread is between 0 and 20000 basis points, and,
  with non-negative sizes, the imbalance ratio is between -1 and 1 and the depth within 1 percent
  is at most the depth within 5 percent.
\<close>

theorem book_metrics_sound:
  assumes "sizes_ok ob"
  shows "(\<exists>m a. calculate_spread ob = Inr m \<and> liquidity_analytics e ob = Inr a
      \<and> 0 < sm_bid m \<and> sm_bid m \<le> sm_mid m \<and> sm_mid m \<le> sm_ask m
      \<and> 0 \<le> sm_spread_bps m \<and> sm_spread_bps m < 20000
      \<and> \<bar>imbalance_ratio a\<bar> \<le> 1 \<and> depth_1pct a \<le> depth_5pct a)
    \<longleftrightarrow> book_ok ob"
proof -
  have "\<bar>imbalance_ratio a\<bar> \<le> 1 \<and> depth_1pct a \<le> depth_5pct a"
    if "calculate_spread ob = Inr m" "liquidity_analytics e ob = Inr a" for m a
  proof -
    have nn: "0 \<le> (\<Sum>l \<leftarrow> py_take n (ob_bids ob). level_size l)" "0 \<le> (\<Sum>l \<leftarrow> py_take n (ob_asks ob). level_size l)" for n
      using assms by (auto simp: sizes_ok_def intro!: sum_list_nonneg_map dest: py_take_set)
    have "0 \<le> sm_mid m" using calculate_spread_bounds[OF that(1)] by linarith
    then show ?thesis
      using that depth_within_mono[OF assms, of "sm_mid m" "1/100" "5/100"] balance_bounds[OF nn]
      by (auto simp: liquidity_analytics_def Let_def)
  qed
  moreover have "\<exists>a. liquidity_analytics e ob = Inr a" if "calculate_spread ob = Inr m" for m
    using that by (simp add: liquidity_analytics_def Let_def)
  ultimately show ?thesis
    using calculate_spread_bounds calculate_spread_ok_iff[of ob] by metis
qed

text \<open>
  The price window: after any sequence of statistics calls, for any symbols in any order, the
  window the next volatility of a symbol is taken from is the last 1000 positive prices of that
  symbol's own trades, never more and never another symbol's, and the volatility is not negative.
\<close>

theorem price_window_refines_history:
  assumes "trade_prices self = []" "symbol \<in> fst ` set calls"
  shows "dict_get (trade_prices (run stats_step calls self)) symbol = Some (last_n 1000 (price_history symbol calls))
    \<and> length (last_n 1000 (price_history symbol calls)) \<le> 1000
    \<and> 0 \<le> realized_volatility (fst (market_statistics symbol trades klines (run stats_step calls self)))"
proof -
  have some: "\<exists>w. dict_get (trade_prices (run stats_step calls self)) symbol = Some w"
    using assms(2)
  proof (induction calls rule: rev_induct)
    case (snoc c calls)
    then show ?case
      by (cases c) (auto simp: stats_step_def market_statistics_def Let_def update_conv')
  qed simp
  have "dict_get_or (trade_prices (run stats_step calls self)) symbol [] = last_n 1000 (price_history symbol calls)"
    using assms(1) run_stats_window[of self symbol calls] by (simp add: dict_get_or_def)
  then show ?thesis
    using some by (auto simp: dict_get_or_def last_n_length market_statistics_def Let_def volatility_nonneg)
qed

definition example_book :: OrderBookSnapshot where
  "example_book = \<lparr>ob_exchange = ''binance'', ob_symbol = ''BTC/USDT'',
     ob_bids = [\<lparr>level_price = 99, level_size = 2\<rparr>], ob_asks = [\<lparr>level_price = 101, level_size = 1\<rparr>],
     ob_source_timestamp = 0, ob_sequence = None\<rparr>"

theorem book_metrics_sound_witness:
  "\<exists>m a. calculate_spread example_book = Inr m
      \<and> liquidity_analytics \<lparr>md_liquidity_settings = rc_liquidity default_runtime_config, trade_prices = []\<rparr> example_book = Inr a
      \<and> sm_spread_bps m < 20000 \<and> \<bar>imbalance_ratio a\<bar> \<le> 1"
proof -
  have "sizes_ok example_book" "book_ok example_book" by (simp_all add: sizes_ok_def book_ok_def example_book_def)
  then show ?thesis
    using book_metrics_sound[of example_book "\<lparr>md_liquidity_settings = rc_liquidity default_runtime_config, trade_prices = []\<rparr>"]
    by blast
qed

theorem price_window_refines_history_witness:
  "dict_get (trade_prices (run stats_step
      [(''A'', [\<lparr>tt_exchange = ''x'', tt_symbol = ''A'', tt_trade_id = ''1'', tt_price = 5, tt_quantity = 1, tt_side = ''buy'', tt_traded_at = 0, tt_metadata = []\<rparr>], [])]
      \<lparr>md_liquidity_settings = rc_liquidity default_runtime_config, trade_prices = []\<rparr>)) ''A'' = Some [5]"
  using price_window_refines_history[of "\<lparr>md_liquidity_settings = rc_liquidity default_runtime_config, trade_prices = []\<rparr>" "''A''"
      "[(''A'', [\<lparr>tt_exchange = ''x'', tt_symbol = ''A'', tt_trade_id = ''1'', tt_price = 5, tt_quantity = 1, tt_side = ''buy'', tt_traded_at = 0, tt_metadata = []\<rparr>], [])]"]
  by (simp add: price_history_def positive_prices_def last_n_def)

end
