(* ===== verification/Normalizer.thy ===== *)
theory Normalizer
  imports Connectors Market_Data Db
begin

text \<open>
  \<open>MarketDataNormalizer\<close> of \<open>engines/market_data/runtime.py\<close>: what a message of a venue means. A message is
  classified by its event name and its keys and turned into a ticker, a trade, an order book or a
  kline; a message of no known kind is dropped, an unreadable one raises. The clock, a fresh uuid and
  Python's printing of unknown values are arguments.
\<close>

section \<open>Values\<close>

record Ticker =
  tk_exchange :: string
  tk_symbol :: string
  tk_bid_price :: "float option"
  tk_bid_size :: "float option"
  tk_ask_price :: "float option"
  tk_ask_size :: "float option"
  tk_last_price :: "float option"
  tk_volume_24h :: "float option"
  tk_source_timestamp :: datetime

datatype market_event = Ev_ticker Ticker | Ev_trade TradeTick | Ev_orderbook OrderBookSnapshot | Ev_kline Kline

record reading =
  rd_now :: datetime
  rd_uuid :: string
  rd_printer :: printer

text \<open>\<open>token in text\<close> for some token of a list.\<close>

definition any_token :: "string list \<Rightarrow> string \<Rightarrow> bool" where
  "any_token tokens event \<longleftrightarrow> list_ex (\<lambda>token. contains_text token event) tokens"

definition some_key :: "string list \<Rightarrow> obj \<Rightarrow> bool" where
  "some_key ks payload \<longleftrightarrow> list_ex (has_key payload) ks"

text \<open>\<open>for item in value\<close>.\<close>

fun iterate :: "json \<Rightarrow> json list res" where
  "iterate (JList xs) = Inr xs"
| "iterate (JStr s) = Inr (map (\<lambda>c. JStr [c]) s)"
| "iterate (JDict d) = Inr (map (\<lambda>(k, v). JStr k) d)"
| "iterate _ = Inl (TypeError ''object is not iterable'')"

text \<open>\<open>_float\<close>; \<open>_timestamp\<close>, which takes numbers beyond ten billion as milliseconds; \<open>datetime\<close> ends with the year 9999.\<close>

definition float_opt :: "json \<Rightarrow> float option res" where
  "float_opt v = (if v = JNull \<or> v = JStr [] then Inr None else bindr (py_float v) (\<lambda>x. Inr (Some x)))"

definition fromtimestamp :: "float \<Rightarrow> datetime res" where
  "fromtimestamp x =
     (let t = round_half_even (x * 1000000)
      in if t < -62135596800000000 \<or> 253402300800000000 \<le> t then Inl (ValueError ''year is out of range'') else Inr t)"

definition message_time :: "json \<Rightarrow> datetime option res" where
  "message_time v =
     (if v = JNull then Inr None
      else bindr (py_float v) (\<lambda>number.
           bindr (fromtimestamp (if number > 10000000000 then number / 1000 else number)) (\<lambda>t. Inr (Some t))))"

definition time_or_now :: "reading \<Rightarrow> json \<Rightarrow> datetime res" where
  "time_or_now rd v = bindr (message_time v) (\<lambda>t. Inr (case t of Some x \<Rightarrow> x | None \<Rightarrow> rd_now rd))"

definition float_or_zero :: "json \<Rightarrow> float res" where
  "float_or_zero v = bindr (float_opt v) (\<lambda>x. Inr (case x of Some y \<Rightarrow> y | None \<Rightarrow> 0))"

definition float_level :: "json \<Rightarrow> OrderBookLevel res" where
  "float_level item =
     bindr (unpack_pair item) (\<lambda>(p, s).
     bindr (py_float p) (\<lambda>price.
     bindr (py_float s) (\<lambda>amount. Inr \<lparr>level_price = price, level_size = amount\<rparr>)))"

definition float_levels :: "json \<Rightarrow> OrderBookLevel list res" where
  "float_levels v = bindr (iterate v) (collect_res float_level)"

text \<open>\<open>d.get(k1) or ... or d.get(kn)\<close>.\<close>

fun get_any :: "obj \<Rightarrow> string list \<Rightarrow> json" where
  "get_any d [] = JNull"
| "get_any d [k] = jget d k"
| "get_any d (k # ks) = (if json_truthy (jget d k) then jget d k else get_any d ks)"

section \<open>Most venues\<close>

definition ticker :: "reading \<Rightarrow> ExecutionVenue \<Rightarrow> string \<Rightarrow> obj \<Rightarrow> Ticker res" where
  "ticker rd venue symbol payload =
     bindr (float_opt (get_any payload [''b'', ''bid'', ''best_bid'', ''bidPrice''])) (\<lambda>bid_price.
     bindr (float_opt (get_any payload [''B'', ''bidSize'', ''best_bid_size''])) (\<lambda>bid_size.
     bindr (float_opt (get_any payload [''a'', ''ask'', ''best_ask'', ''askPrice''])) (\<lambda>ask_price.
     bindr (float_opt (get_any payload [''A'', ''askSize'', ''best_ask_size''])) (\<lambda>ask_size.
     bindr (float_opt (get_any payload [''c'', ''last'', ''lastPrice'', ''price''])) (\<lambda>last_price.
     bindr (float_opt (get_any payload [''v'', ''volume'', ''baseVolume''])) (\<lambda>volume_24h.
     bindr (time_or_now rd (get_any payload [''E'', ''time'', ''ts''])) (\<lambda>source_timestamp.
     Inr \<lparr>tk_exchange = value_of_venue venue, tk_symbol = symbol, tk_bid_price = bid_price, tk_bid_size = bid_size,
          tk_ask_price = ask_price, tk_ask_size = ask_size, tk_last_price = last_price, tk_volume_24h = volume_24h,
          tk_source_timestamp = source_timestamp\<rparr>)))))))"

definition trade :: "reading \<Rightarrow> ExecutionVenue \<Rightarrow> string \<Rightarrow> obj \<Rightarrow> TradeTick res" where
  "trade rd venue symbol payload =
     bindr (float_or_zero (get_any payload [''p'', ''price'', ''trade_price''])) (\<lambda>price.
     bindr (float_or_zero (get_any payload [''q'', ''quantity'', ''size'', ''amount''])) (\<lambda>quantity.
     let side_raw = lower (py_str (rd_printer rd) (get_or payload [''side'', ''S'']
                      (JStr (if json_truthy (jget payload ''m'') then ''sell'' else ''buy''))))
     in bindr (time_or_now rd (get_any payload [''T'', ''time'', ''ts''])) (\<lambda>traded_at.
        Inr \<lparr>tt_exchange = value_of_venue venue, tt_symbol = symbol,
             tt_trade_id = py_str (rd_printer rd) (get_or payload [''t'', ''trade_id'', ''id''] (JStr (rd_uuid rd))),
             tt_price = price, tt_quantity = quantity, tt_side = (if side_raw \<in> {''sell'', ''s''} then ''sell'' else ''buy''),
             tt_traded_at = traded_at, tt_metadata = payload\<rparr>)))"

definition sequence_text :: "printer \<Rightarrow> json \<Rightarrow> string option" where
  "sequence_text printer v = (if v = JNull then None else Some (py_str printer v))"

definition orderbook :: "reading \<Rightarrow> ExecutionVenue \<Rightarrow> string \<Rightarrow> obj \<Rightarrow> OrderBookSnapshot res" where
  "orderbook rd venue symbol payload =
     bindr (float_levels (get_or payload [''b'', ''bids''] (JList []))) (\<lambda>bids.
     bindr (float_levels (get_or payload [''a'', ''asks''] (JList []))) (\<lambda>asks.
     bindr (time_or_now rd (get_any payload [''E'', ''time'', ''ts''])) (\<lambda>source_timestamp.
     Inr \<lparr>ob_exchange = value_of_venue venue, ob_symbol = symbol, ob_bids = bids, ob_asks = asks, ob_source_timestamp = source_timestamp,
          ob_sequence = sequence_text (rd_printer rd) (get_any payload [''u'', ''sequence'', ''lastUpdateId''])\<rparr>)))"

definition kline_object :: "obj \<Rightarrow> obj" where
  "kline_object payload = (case jget payload ''k'' of JDict d \<Rightarrow> d | _ \<Rightarrow> payload)"

definition kline :: "reading \<Rightarrow> ExecutionVenue \<Rightarrow> string \<Rightarrow> obj \<Rightarrow> Kline res" where
  "kline rd venue symbol payload =
     (let k = kline_object payload in
      bindr (time_or_now rd (get_any k [''t'', ''open_time''])) (\<lambda>open_time.
      bindr (time_or_now rd (get_any k [''T'', ''close_time''])) (\<lambda>close_time.
      bindr (py_float (get_or k [''o'', ''open''] (JInt 0))) (\<lambda>open_price.
      bindr (py_float (get_or k [''h'', ''high''] (JInt 0))) (\<lambda>high_price.
      bindr (py_float (get_or k [''l'', ''low''] (JInt 0))) (\<lambda>low_price.
      bindr (py_float (get_or k [''c'', ''close''] (JInt 0))) (\<lambda>close_price.
      bindr (py_float (get_or k [''v'', ''volume''] (JInt 0))) (\<lambda>volume.
      Inr \<lparr>kl_exchange = value_of_venue venue, kl_symbol = symbol,
           kl_interval = py_str (rd_printer rd) (get_or k [''i'', ''interval''] (JStr ''1m'')),
           kl_open_time = open_time, kl_close_time = close_time, kl_open_price = open_price, kl_high_price = high_price,
           kl_low_price = low_price, kl_close_price = close_price, kl_volume = volume\<rparr>))))))))"

definition has_scalar_ticker_fields :: "obj \<Rightarrow> bool" where
  "has_scalar_ticker_fields message \<longleftrightarrow>
     list_ex (\<lambda>key. jget message key \<noteq> JNull \<and> \<not> is_list (jget message key)) [''b'', ''a'', ''bid'', ''ask'', ''last'', ''lastPrice'']"

definition payload_of :: "obj \<Rightarrow> obj" where
  "payload_of message =
     (case jget message ''data'' of
        JDict d \<Rightarrow> d
      | _ \<Rightarrow> (case jget message ''result'' of JDict d \<Rightarrow> d | _ \<Rightarrow> message))"

section \<open>Coinstore\<close>

definition coinstore_ticker :: "reading \<Rightarrow> string \<Rightarrow> obj \<Rightarrow> Ticker res" where
  "coinstore_ticker rd symbol payload =
     bindr (float_opt (get_any payload [''bid'', ''bestBid'', ''best_bid'', ''bidPrice'', ''b''])) (\<lambda>bid_price.
     bindr (float_opt (get_any payload [''bidSize'', ''bid_size'', ''B''])) (\<lambda>bid_size.
     bindr (float_opt (get_any payload [''ask'', ''bestAsk'', ''best_ask'', ''askPrice'', ''a''])) (\<lambda>ask_price.
     bindr (float_opt (get_any payload [''askSize'', ''ask_size'', ''A''])) (\<lambda>ask_size.
     bindr (float_opt (get_any payload [''last'', ''lastPrice'', ''close'', ''price'', ''c''])) (\<lambda>last_price.
     bindr (float_opt (get_any payload [''volume'', ''volume24h'', ''baseVolume'', ''v''])) (\<lambda>volume_24h.
     bindr (time_or_now rd (get_any payload [''time'', ''ts'', ''E''])) (\<lambda>source_timestamp.
     Inr \<lparr>tk_exchange = ''coinstore'', tk_symbol = symbol, tk_bid_price = bid_price, tk_bid_size = bid_size,
          tk_ask_price = ask_price, tk_ask_size = ask_size, tk_last_price = last_price, tk_volume_24h = volume_24h,
          tk_source_timestamp = source_timestamp\<rparr>)))))))"

definition coinstore_trade :: "reading \<Rightarrow> string \<Rightarrow> obj \<Rightarrow> TradeTick res" where
  "coinstore_trade rd symbol payload =
     (let side_raw = lower (py_str (rd_printer rd) (get_or payload [''takerSide'', ''side'', ''S''] (JStr [])))
      in bindr (float_or_zero (get_any payload [''price'', ''p''])) (\<lambda>price.
         bindr (float_or_zero (get_any payload [''volume'', ''quantity'', ''size'', ''amount'', ''q''])) (\<lambda>quantity.
         bindr (time_or_now rd (get_any payload [''time'', ''ts'', ''T''])) (\<lambda>traded_at.
         Inr \<lparr>tt_exchange = ''coinstore'', tt_symbol = symbol,
              tt_trade_id = py_str (rd_printer rd) (get_or payload [''tradeId'', ''trade_id'', ''id''] (JStr (rd_uuid rd))),
              tt_price = price, tt_quantity = quantity, tt_side = (if side_raw \<in> {''sell'', ''s'', ''-1''} then ''sell'' else ''buy''),
              tt_traded_at = traded_at, tt_metadata = payload\<rparr>))))"

definition coinstore_orderbook :: "reading \<Rightarrow> string \<Rightarrow> obj \<Rightarrow> OrderBookSnapshot res" where
  "coinstore_orderbook rd symbol payload =
     bindr (float_levels (get_or payload [''bids'', ''b'', ''bid''] (JList []))) (\<lambda>bids.
     bindr (float_levels (get_or payload [''asks'', ''a'', ''ask''] (JList []))) (\<lambda>asks.
     bindr (time_or_now rd (get_any payload [''time'', ''ts'', ''E''])) (\<lambda>source_timestamp.
     Inr \<lparr>ob_exchange = ''coinstore'', ob_symbol = symbol, ob_bids = bids, ob_asks = asks, ob_source_timestamp = source_timestamp,
          ob_sequence = sequence_text (rd_printer rd) (get_any payload [''sequence'', ''seq'', ''u''])\<rparr>)))"

definition coinstore_kline :: "reading \<Rightarrow> string \<Rightarrow> obj \<Rightarrow> Kline res" where
  "coinstore_kline rd symbol payload =
     (let k = kline_object payload in
      bindr (time_or_now rd (get_any k [''open_time'', ''openTime'', ''t'', ''time'', ''ts''])) (\<lambda>open_time.
      bindr (time_or_now rd (get_any k [''close_time'', ''closeTime'', ''T'', ''time'', ''ts''])) (\<lambda>close_time.
      bindr (py_float (get_or k [''open'', ''o''] (JInt 0))) (\<lambda>open_price.
      bindr (py_float (get_or k [''high'', ''h''] (JInt 0))) (\<lambda>high_price.
      bindr (py_float (get_or k [''low'', ''l''] (JInt 0))) (\<lambda>low_price.
      bindr (py_float (get_or k [''close'', ''c'', ''price''] (JInt 0))) (\<lambda>close_price.
      bindr (py_float (get_or k [''volume'', ''v''] (JInt 0))) (\<lambda>volume.
      Inr \<lparr>kl_exchange = ''coinstore'', kl_symbol = symbol,
           kl_interval = py_str (rd_printer rd) (get_or k [''interval'', ''range''] (JStr ''1m'')),
           kl_open_time = open_time, kl_close_time = close_time, kl_open_price = open_price, kl_high_price = high_price,
           kl_low_price = low_price, kl_close_price = close_price, kl_volume = volume\<rparr>))))))))"

definition CONTROL_TOKENS :: "string list" where
  "CONTROL_TOKENS = [''ping'', ''pong'', ''heartbeat'', ''resp'', ''echo'', ''command.received'', ''sub.channel.success'', ''established'']"

definition is_coinstore_control_message :: "printer \<Rightarrow> obj \<Rightarrow> bool" where
  "is_coinstore_control_message printer message \<longleftrightarrow>
     list_ex (\<lambda>key. List.member CONTROL_TOKENS (lower (py_str printer (get_or message [key] (JStr [])))))
       [''T'', ''M'', ''op'', ''event'', ''type'']"

fun first_payload :: "obj \<Rightarrow> string list \<Rightarrow> obj" where
  "first_payload message [] = message"
| "first_payload message (key # ks) =
     (case jget message key of
        JDict d \<Rightarrow> dict_merge d (filter (\<lambda>(k, v). \<not> has_key d k) message)
      | JList (JDict d # _) \<Rightarrow> dict_merge d (filter (\<lambda>(k, v). k \<noteq> key) message)
      | _ \<Rightarrow> first_payload message ks)"

definition coinstore_payload :: "obj \<Rightarrow> obj" where
  "coinstore_payload message = first_payload message [''data'', ''result'', ''tick'', ''payload'', ''body'', ''D'']"

definition ends_with :: "string \<Rightarrow> string \<Rightarrow> bool" where
  "ends_with s t \<longleftrightarrow> length t \<le> length s \<and> drop (length s - length t) s = t"

text \<open>The loop over the quote assets: the first that ends the text, with something before it.\<close>

fun split_quote :: "string \<Rightarrow> string \<Rightarrow> string list \<Rightarrow> string" where
  "split_quote raw other [] = other"
| "split_quote raw other (quote # quotes) =
     (if ends_with raw quote \<and> length quote < length raw then take (length raw - length quote) raw @ ''/'' @ quote
      else split_quote raw other quotes)"

definition slashed_symbol :: "string \<Rightarrow> string" where
  "slashed_symbol s = map (\<lambda>c. if c = CHR ''-'' \<or> c = CHR ''_'' then CHR ''/'' else c) (upper s)"

definition coinstore_symbol :: "printer \<Rightarrow> obj \<Rightarrow> string \<Rightarrow> string" where
  "coinstore_symbol printer payload other =
     (let raw = slashed_symbol (takeWhile (\<lambda>c. c \<noteq> CHR ''@'') (py_str printer (get_or payload [''symbol'', ''currencyPair'', ''channel''] (JStr other))))
      in if CHR ''/'' \<in> set raw then raw
         else if raw \<noteq> [] \<and> raw = upper (remove_char (CHR ''/'') other) then other
         else split_quote raw other [''USDT'', ''USDC'', ''USD'', ''BTC'', ''ETH''])"

definition coinstore_is_orderbook :: "string \<Rightarrow> obj \<Rightarrow> bool" where
  "coinstore_is_orderbook event payload \<longleftrightarrow>
     any_token [''depth'', ''orderbook'', ''order_book'', ''snapshot_depth''] event \<or> some_key [''bids'', ''asks''] payload"

definition coinstore_is_trade :: "string \<Rightarrow> obj \<Rightarrow> bool" where
  "coinstore_is_trade event payload \<longleftrightarrow>
     any_token [''trade'', ''deal'', ''future_tick''] event \<or> has_key payload ''tradeId''
     \<or> has_key payload ''price'' \<and> some_key [''volume'', ''quantity'', ''size''] payload"

definition coinstore_is_ticker :: "string \<Rightarrow> obj \<Rightarrow> bool" where
  "coinstore_is_ticker event payload \<longleftrightarrow>
     any_token [''ticker'', ''indicator''] event
     \<or> some_key [''last'', ''lastPrice'', ''bid'', ''ask'', ''bestBid'', ''bestAsk'', ''close''] payload"

definition coinstore_is_kline :: "string \<Rightarrow> obj \<Rightarrow> bool" where
  "coinstore_is_kline event payload \<longleftrightarrow>
     any_token [''kline'', ''candle''] event \<or> list_all (has_key payload) [''open'', ''high'', ''low'', ''close'']"

definition coinstore_event :: "printer \<Rightarrow> obj \<Rightarrow> obj \<Rightarrow> string" where
  "coinstore_event printer message payload =
     lower (py_str printer (get_or message [''T'', ''type'', ''event'', ''channel'']
       (get_or payload [''T'', ''type'', ''event'', ''channel''] (JStr []))))"

definition normalize_coinstore :: "reading \<Rightarrow> string \<Rightarrow> obj \<Rightarrow> market_event option res" where
  "normalize_coinstore rd symbol message =
     (if is_coinstore_control_message (rd_printer rd) message then Inr None
      else
        (let payload = coinstore_payload message;
             event = coinstore_event (rd_printer rd) message payload;
             normalized_symbol = coinstore_symbol (rd_printer rd) payload symbol
         in if coinstore_is_orderbook event payload then bindr (coinstore_orderbook rd normalized_symbol payload) (\<lambda>x. Inr (Some (Ev_orderbook x)))
            else if coinstore_is_trade event payload then bindr (coinstore_trade rd normalized_symbol payload) (\<lambda>x. Inr (Some (Ev_trade x)))
            else if coinstore_is_ticker event payload then bindr (coinstore_ticker rd normalized_symbol payload) (\<lambda>x. Inr (Some (Ev_ticker x)))
            else if coinstore_is_kline event payload then bindr (coinstore_kline rd normalized_symbol payload) (\<lambda>x. Inr (Some (Ev_kline x)))
            else Inr None))"

definition normalize :: "reading \<Rightarrow> ExecutionVenue \<Rightarrow> string \<Rightarrow> obj \<Rightarrow> market_event option res" where
  "normalize rd venue symbol message =
     (if venue = Venue_coinstore then normalize_coinstore rd symbol message
      else
        (let event = lower (py_str (rd_printer rd) (get_or message [''e'', ''event'', ''channel'', ''type''] (JStr [])));
             payload = payload_of message
         in if any_token [''depth'', ''order_book'', ''level2''] event \<or> some_key [''bids'', ''asks''] payload
            then bindr (orderbook rd venue symbol payload) (\<lambda>x. Inr (Some (Ev_orderbook x)))
            else if any_token [''ticker'', ''tickers''] event \<or> has_scalar_ticker_fields message
            then bindr (ticker rd venue symbol payload) (\<lambda>x. Inr (Some (Ev_ticker x)))
            else if any_token [''trade'', ''match'', ''deals''] event
                    \<or> has_key payload ''price'' \<and> has_key payload ''quantity'' \<and> has_key payload ''trade_id''
            then bindr (trade rd venue symbol payload) (\<lambda>x. Inr (Some (Ev_trade x)))
            else if any_token [''kline'', ''candle'', ''candlestick''] event
            then bindr (kline rd venue symbol payload) (\<lambda>x. Inr (Some (Ev_kline x)))
            else Inr None))"

end
