(* ===== verification/MD_Runtime.thy ===== *)
theory MD_Runtime
  imports Normalizer MM_Runtime
begin

text \<open>
  \<open>MarketDataRuntime\<close> of \<open>engines/market_data/runtime.py\<close>: it starts a connector per venue, normalises
  every message the connectors hand over, publishes the results and writes every n-th of them to the
  database. The environment gives the clock and fresh ids of the n-th handled message, the outcome of a
  publication, what other writers of the database do between a query and an insertion, the effect of a
  rollback, and how pydantic reads a configuration. Connectors appear by their venue and connection
  state, tasks by whether they are done; log messages are not modelled.
\<close>

section \<open>State\<close>

record MarketDataSettings =
  ds_exchanges :: "string list"
  ds_symbols :: "string list"
  ds_streams :: "string list"
  ds_connect_on_start :: bool
  ds_persist_every :: int

datatype publication =
    Pub_ticker Ticker
  | Pub_trade TradeTick
  | Pub_statistics MarketStatistics
  | Pub_orderbook OrderBookSnapshot
  | Pub_book_metrics SpreadMetrics LiquidityAnalytics

record MarketDataRow =
  mk_exchange_name :: string
  mk_trading_pair_id :: uuid
  mk_data_type :: string
  mk_bid_price :: "float option"
  mk_bid_size :: "float option"
  mk_ask_price :: "float option"
  mk_ask_size :: "float option"
  mk_last_price :: "float option"
  mk_volume_24h :: "float option"
  mk_source_timestamp :: datetime
  mk_payload :: publication

record LiquidityMetricRow =
  lm_exchange_name :: string
  lm_trading_pair_id :: uuid
  lm_spread_bps :: float
  lm_top_of_book_depth :: float
  lm_depth_1pct :: float
  lm_depth_5pct :: float
  lm_imbalance_ratio :: float
  lm_captured_at :: datetime

record VolatilityMetricRow =
  vm_exchange_name :: string
  vm_trading_pair_id :: uuid
  vm_window_seconds :: int
  vm_realized_volatility :: real
  vm_high_price :: float
  vm_low_price :: float
  vm_open_price :: float
  vm_close_price :: float
  vm_captured_at :: datetime
  vm_interval :: string

record MarketDataRuntime =
  mr_settings :: MarketDataSettings
  mr_session :: "session option"
  mr_session_active :: bool
  mr_market_data :: "MarketDataRow list"
  mr_liquidity_metrics :: "LiquidityMetricRow list"
  mr_volatility_metrics :: "VolatilityMetricRow list"
  mr_published :: "(string \<times> publication) list"
  mr_acks :: "(string option \<times> string list) list"
  mr_engine :: MarketDataEngine
  mr_metrics :: RuntimeMetrics
  mr_connectors :: "(ExecutionVenue \<times> bool) list"
  mr_tasks :: "bool list"
  mr_listening :: bool
  mr_websocket_messages_received :: nat
  mr_handle_message_enter_count :: nat
  mr_normalization_attempt_count :: nat
  mr_normalization_success_count :: nat
  mr_redis_publish_count :: nat
  mr_redis_publish_success_count :: nat
  mr_raw_messages_logged :: nat
  mr_last_websocket_message_at :: "datetime option"
  mr_last_websocket_message_by_venue :: "(string, datetime) dict"
  mr_last_message_at :: "(string, datetime) dict"
  mr_active_subscriptions :: nat
  mr_reconnect_count :: nat
  mr_sequence_gaps :: nat
  mr_db_insert_count :: nat
  mr_market_data_rows_written :: nat
  mr_liquidity_rows_written :: nat
  mr_volatility_rows_written :: nat
  mr_last_publish_at :: "datetime option"
  mr_last_db_insert_at :: "datetime option"
  mr_persist_counter :: nat
  mr_started :: bool
  mr_pair_ids :: "(string \<times> string, uuid) dict"
  mr_pairs_validated :: bool
  mr_pairs_count :: nat

type_synonym 'a mr_op = "(MarketDataRuntime, 'a) op"

definition MarketDataRuntime_init :: "MarketDataSettings \<Rightarrow> session option \<Rightarrow> MarketDataEngine \<Rightarrow> RuntimeMetrics \<Rightarrow> MarketDataRuntime" where
  "MarketDataRuntime_init settings session engine metrics =
     \<lparr>mr_settings = settings, mr_session = session, mr_session_active = True, mr_market_data = [], mr_liquidity_metrics = [],
      mr_volatility_metrics = [], mr_published = [], mr_acks = [], mr_engine = engine, mr_metrics = metrics, mr_connectors = [],
      mr_tasks = [], mr_listening = False, mr_websocket_messages_received = 0, mr_handle_message_enter_count = 0,
      mr_normalization_attempt_count = 0, mr_normalization_success_count = 0, mr_redis_publish_count = 0,
      mr_redis_publish_success_count = 0, mr_raw_messages_logged = 0, mr_last_websocket_message_at = None,
      mr_last_websocket_message_by_venue = [], mr_last_message_at = [], mr_active_subscriptions = 0, mr_reconnect_count = 0,
      mr_sequence_gaps = 0, mr_db_insert_count = 0, mr_market_data_rows_written = 0, mr_liquidity_rows_written = 0,
      mr_volatility_rows_written = 0, mr_last_publish_at = None, mr_last_db_insert_at = None, mr_persist_counter = 0,
      mr_started = False, mr_pair_ids = [], mr_pairs_validated = False, mr_pairs_count = 0\<rparr>"

record md_env =
  me_reading :: "nat \<Rightarrow> reading"
  me_bus :: "nat \<Rightarrow> string \<Rightarrow> unit res"
  me_engine_bus :: bool
  me_others :: "session \<Rightarrow> session"
  me_rollback :: "session \<Rightarrow> session"
  me_pending_rollback :: "session \<Rightarrow> bool"
  me_read_config :: "obj \<Rightarrow> RuntimeConfig res"

definition now_of :: "md_env \<Rightarrow> MarketDataRuntime \<Rightarrow> datetime" where
  "now_of env s = rd_now (me_reading env (mr_handle_message_enter_count s))"

definition count_metric :: "string \<Rightarrow> unit mr_op" where
  "count_metric name = modifies (\<lambda>s. s\<lparr>mr_metrics := increment name 1 (mr_metrics s)\<rparr>)"

definition gauge_metric :: "string \<Rightarrow> (MarketDataRuntime \<Rightarrow> nat) \<Rightarrow> unit mr_op" where
  "gauge_metric name f = modifies (\<lambda>s. s\<lparr>mr_metrics := set_gauge name (of_nat (f s)) (mr_metrics s)\<rparr>)"

section \<open>Trading pairs\<close>

definition normalize_exchange :: "string \<Rightarrow> string res" where
  "normalize_exchange exchange =
     (let normalized = lower (strip exchange) in if normalized = [] then Inl (ValueError ''exchange name is required'') else Inr normalized)"

text \<open>\<open>s.split("/", 1)\<close> of a text that has a slash.\<close>

definition before_slash :: "string \<Rightarrow> string" where
  "before_slash s = takeWhile (\<lambda>c. c \<noteq> CHR ''/'') s"

definition after_slash :: "string \<Rightarrow> string" where
  "after_slash s = tl (dropWhile (\<lambda>c. c \<noteq> CHR ''/'') s)"

definition normalize_trading_symbol :: "string \<Rightarrow> string res" where
  "normalize_trading_symbol symbol =
     (let normalized = upper (strip symbol) in
      if CHR ''/'' \<notin> set normalized then Inl (ValueError ''configured trading symbol must use BASE/QUOTE format'')
      else
        (let base = strip (before_slash normalized); quote = strip (after_slash normalized)
         in if base = [] \<or> quote = [] then Inl (ValueError ''configured trading symbol must include base and quote assets'')
            else Inr (base @ ''/'' @ quote)))"

definition handle_session_rollback :: "unit mr_op" where
  "handle_session_rollback = modifies (\<lambda>s. s\<lparr>mr_pair_ids := [], mr_pairs_validated := False, mr_pairs_count := 0\<rparr>)"

definition rollback_session :: "md_env \<Rightarrow> unit mr_op" where
  "rollback_session env =
     seqm (modifies (\<lambda>s. s\<lparr>mr_session := map_option (me_rollback env) (mr_session s), mr_session_active := True\<rparr>)) handle_session_rollback"

definition md_pair_rows :: "MarketDataRuntime \<Rightarrow> TradingPairRow list" where
  "md_pair_rows s = (case mr_session s of None \<Rightarrow> [] | Some d \<Rightarrow> tbl_trading_pairs d)"

definition find_trading_pair :: "string \<Rightarrow> string \<Rightarrow> string \<Rightarrow> TradingPairRow option mr_op" where
  "find_trading_pair exchange normalized_symbol joined = reads (\<lambda>s.
     find (\<lambda>row. tp_exchange_name row = exchange \<and> (tp_venue_symbol row = joined \<or> tp_normalized_symbol row = normalized_symbol)) (md_pair_rows s))"

text \<open>The cached id, if its row is still there; otherwise the entry is dropped.\<close>

definition cached_pair :: "md_env \<Rightarrow> string \<times> string \<Rightarrow> uuid option mr_op" where
  "cached_pair env key =
     bindm (reads (\<lambda>s. dict_get (mr_pair_ids s) key)) (\<lambda>cached. case cached of
       None \<Rightarrow> ret None
     | Some cached_id \<Rightarrow>
         bindm (reads (\<lambda>s. case mr_session s of None \<Rightarrow> False | Some d \<Rightarrow> me_pending_rollback env d)) (\<lambda>pending.
         if pending then seqm (rollback_session env) (ret None)
         else bindm (reads (\<lambda>s. list_ex (\<lambda>row. tp_id row = cached_id) (md_pair_rows s))) (\<lambda>present.
              if present then ret (Some cached_id)
              else seqm (modifies (\<lambda>s. s\<lparr>mr_pair_ids := dict_pop key (mr_pair_ids s)\<rparr>)) (ret None))))"

definition new_pair_row :: "uuid \<Rightarrow> string \<Rightarrow> string \<Rightarrow> TradingPairRow" where
  "new_pair_row i exchange normalized_symbol =
     \<lparr>tp_id = i, tp_exchange_name = exchange, tp_base_asset = before_slash normalized_symbol, tp_quote_asset = after_slash normalized_symbol,
      tp_normalized_symbol = normalized_symbol, tp_venue_symbol = remove_char (CHR ''/'') normalized_symbol,
      tp_price_precision = 8, tp_quantity_precision = 8, tp_min_order_size = None, tp_min_notional = None, tp_tick_size = None,
      tp_lot_size = None, tp_is_enabled = True\<rparr>"

text \<open>The flush of a new row; \<open>uq_trading_pairs_exchange_symbol\<close> refuses a second row of the same venue symbol.\<close>

definition flush_pair :: "md_env \<Rightarrow> string \<Rightarrow> string \<Rightarrow> TradingPairRow mr_op" where
  "flush_pair env exchange normalized_symbol s =
     (case mr_session s of
        None \<Rightarrow> (Inl (AttributeError ''begin_nested''), s)
      | Some d0 \<Rightarrow>
          (let d = me_others env d0; row = new_pair_row (uuid_supply d) exchange normalized_symbol in
           if list_ex (\<lambda>r. tp_exchange_name r = tp_exchange_name row \<and> tp_venue_symbol r = tp_venue_symbol row) (tbl_trading_pairs d)
           then (Inl IntegrityError, s\<lparr>mr_session := Some d\<rparr>)
           else (Inr row, s\<lparr>mr_session := Some (d\<lparr>tbl_trading_pairs := tbl_trading_pairs d @ [row], uuid_supply := Suc (uuid_supply d)\<rparr>)\<rparr>)))"

definition insert_pair :: "md_env \<Rightarrow> string \<Rightarrow> string \<Rightarrow> TradingPairRow mr_op" where
  "insert_pair env exchange normalized_symbol =
     catch (flush_pair env exchange normalized_symbol)
       (\<lambda>e. if e = IntegrityError
            then seqm (modifies (\<lambda>s. s\<lparr>mr_pair_ids := dict_pop (exchange, normalized_symbol) (mr_pair_ids s)\<rparr>))
                   (bindm (find_trading_pair exchange normalized_symbol (remove_char (CHR ''/'') normalized_symbol)) (\<lambda>row.
                    case row of None \<Rightarrow> raise_err IntegrityError | Some r \<Rightarrow> ret r))
            else raise_err e)"

definition ensure_pair_row :: "md_env \<Rightarrow> string \<Rightarrow> string \<Rightarrow> uuid mr_op" where
  "ensure_pair_row env exchange normalized_symbol =
     bindm (find_trading_pair exchange normalized_symbol (remove_char (CHR ''/'') normalized_symbol)) (\<lambda>found.
     bindm (case found of Some row \<Rightarrow> ret row | None \<Rightarrow> insert_pair env exchange normalized_symbol) (\<lambda>row.
     seqm (modifies (\<lambda>s. s\<lparr>mr_pair_ids := dict_set (exchange, normalized_symbol) (tp_id row) (mr_pair_ids s)\<rparr>)) (ret (tp_id row))))"

definition md_ensure_trading_pair :: "md_env \<Rightarrow> string \<Rightarrow> string \<Rightarrow> uuid option mr_op" where
  "md_ensure_trading_pair env exchange symbol =
     bindm (reads mr_session) (\<lambda>session.
     if session = None then ret None
     else
       bindm (lift_res (normalize_exchange exchange)) (\<lambda>exchange_key.
       bindm (lift_res (normalize_trading_symbol symbol)) (\<lambda>normalized_symbol.
       bindm (reads mr_session_active) (\<lambda>active.
       seqm (if \<not> active then rollback_session env else ret ()) (
       bindm (cached_pair env (exchange_key, normalized_symbol)) (\<lambda>cached.
       case cached of
         Some cached_id \<Rightarrow> ret (Some cached_id)
       | None \<Rightarrow> bindm (ensure_pair_row env exchange_key normalized_symbol) (\<lambda>i. ret (Some i))))))))"

definition validate_configured_trading_pairs :: "md_env \<Rightarrow> unit mr_op" where
  "validate_configured_trading_pairs env =
     bindm (reads mr_session) (\<lambda>session.
     if session = None then ret ()
     else
       bindm (reads mr_settings) (\<lambda>settings.
       let wanted = List.product (ds_exchanges settings) (ds_symbols settings) in
       seqm (loop (\<lambda>(exchange, symbol). md_ensure_trading_pair env exchange symbol) wanted)
         (modifies (\<lambda>s. s\<lparr>mr_pairs_validated := True, mr_pairs_count := length wanted\<rparr>))))"

section \<open>Starting\<close>

definition venue_of_name :: "string \<Rightarrow> ExecutionVenue res" where
  "venue_of_name name =
     (case find (\<lambda>v. value_of_venue v = name) [Venue_coinstore, Venue_mexc, Venue_gate, Venue_bitmart, Venue_kucoin, Venue_binance] of
        None \<Rightarrow> Inl (ValueError ''not a valid ExecutionVenue'') | Some v \<Rightarrow> Inr v)"

definition kind_of_name :: "string \<Rightarrow> StreamKind res" where
  "kind_of_name name =
     (case find (\<lambda>k. value_of_kind k = name) [Kind_orderbook, Kind_trades, Kind_ticker, Kind_kline, Kind_user_data, Kind_balance_updates,
         Kind_order_updates, Kind_execution_reports] of
        None \<Rightarrow> Inl (ValueError ''not a valid StreamKind'') | Some k \<Rightarrow> Inr k)"

definition subscriptions :: "MarketDataSettings \<Rightarrow> ExecutionVenue \<Rightarrow> StreamSubscription list res" where
  "subscriptions settings venue =
     collect_res (\<lambda>(symbol, stream). bindr (kind_of_name stream) (\<lambda>kind.
       Inr \<lparr>su_venue = venue, su_symbol = Some symbol, su_kind = kind, su_interval = None, su_auth_stream_token = None\<rparr>))
       (List.product (ds_symbols settings) (ds_streams settings))"

definition start_command_listener :: "unit mr_op" where
  "start_command_listener = modifies (\<lambda>s. s\<lparr>mr_listening := True\<rparr>)"

definition start_connector :: "string \<Rightarrow> unit mr_op" where
  "start_connector exchange =
     bindm (lift_res (venue_of_name (lower exchange))) (\<lambda>venue.
     bindm (reads (\<lambda>s. subscriptions (mr_settings s) venue)) (\<lambda>subs.
     bindm (lift_res subs) (\<lambda>subs.
     modifies (\<lambda>s. s\<lparr>mr_active_subscriptions := mr_active_subscriptions s + length subs,
                      mr_connectors := mr_connectors s @ [(venue, False)], mr_tasks := mr_tasks s @ [False]\<rparr>))))"

definition ensure_started :: "md_env \<Rightarrow> unit mr_op" where
  "ensure_started env =
     bindm (reads mr_started) (\<lambda>started.
     if started then ret ()
     else
       seqm (validate_configured_trading_pairs env) (
       seqm (modifies (\<lambda>s. s\<lparr>mr_started := True\<rparr>)) (
       bindm (reads mr_settings) (\<lambda>settings.
       if \<not> ds_connect_on_start settings then start_command_listener
       else
         seqm start_command_listener (
         seqm (loop start_connector (ds_exchanges settings))
           (gauge_metric ''market_data.active_subscriptions'' mr_active_subscriptions))))))"

definition validate_health :: "unit mr_op" where
  "validate_health =
     bindm (reads id) (\<lambda>s.
     if \<not> ds_connect_on_start (mr_settings s) then ret ()
     else if mr_active_subscriptions s = 0 then raise_err (RuntimeError ''market data has no active subscriptions'')
     else if mr_tasks s = [] then raise_err (RuntimeError ''market data has no connector tasks'')
     else if list_ex id (mr_tasks s) then raise_err (RuntimeError ''market data connector tasks stopped'')
     else if \<not> list_ex snd (mr_connectors s) \<and> \<not> (list_ex Not (mr_tasks s) \<and> mr_websocket_messages_received s > 0)
     then raise_err (RuntimeError ''market data has no active websocket connections'')
     else if mr_websocket_messages_received s = 0 then raise_err (RuntimeError ''market data has not received any websocket messages'')
     else ret ())"

definition md_tick :: "md_env \<Rightarrow> unit mr_op" where
  "md_tick env =
     seqm (ensure_started env) (
     seqm (gauge_metric ''market_data.active_subscriptions'' mr_active_subscriptions) (
     seqm (gauge_metric ''market_data.sequence_gaps'' mr_sequence_gaps) (
     seqm (gauge_metric ''market_data.reconnect_count'' mr_reconnect_count) validate_health)))"

section \<open>Messages\<close>

definition publish :: "md_env \<Rightarrow> string \<Rightarrow> publication \<Rightarrow> unit mr_op" where
  "publish env channel payload =
     bindm (reads (\<lambda>s. me_bus env (mr_handle_message_enter_count s) channel)) (\<lambda>outcome.
     seqm (lift_res outcome) (
     seqm (modifies (\<lambda>s. s\<lparr>mr_published := mr_published s @ [(channel, payload)], mr_redis_publish_count := mr_redis_publish_count s + 1,
                            mr_redis_publish_success_count := mr_redis_publish_success_count s + 1, mr_last_publish_at := Some (now_of env s)\<rparr>))
       (count_metric ''market_data.redis_publish_success'')))"

definition distribute_orderbook :: "md_env \<Rightarrow> OrderBookSnapshot \<Rightarrow> unit mr_op" where
  "distribute_orderbook env book =
     (if me_engine_bus env
      then bindm (reads (\<lambda>s. me_bus env (mr_handle_message_enter_count s) ''engine.events.market-data'')) (\<lambda>outcome.
           seqm (lift_res outcome) (modifies (\<lambda>s. s\<lparr>mr_published := mr_published s @ [(''engine.events.market-data'', Pub_orderbook book)]\<rparr>)))
      else ret ())"

text \<open>\<open>max(levels, key=price)\<close> and \<open>min(levels, key=price)\<close>: the first of the extreme levels.\<close>

fun best_level :: "(float \<Rightarrow> float \<Rightarrow> bool) \<Rightarrow> OrderBookLevel list \<Rightarrow> OrderBookLevel option" where
  "best_level better [] = None"
| "best_level better (l # ls) = Some (fold (\<lambda>x best. if better (level_price x) (level_price best) then x else best) ls l)"

text \<open>The counter every \<open>_maybe_persist\<close> method shares; the row is written when it is a multiple of the period.\<close>

definition persist_due :: "bool mr_op" where
  "persist_due =
     seqm (modifies (\<lambda>s. s\<lparr>mr_persist_counter := mr_persist_counter s + 1\<rparr>)) (
     bindm (reads id) (\<lambda>s.
     if mr_session s = None then ret False
     else if ds_persist_every (mr_settings s) = 0 then raise_err ZeroDivisionError
     else ret (int (mr_persist_counter s) mod ds_persist_every (mr_settings s) = 0)))"

definition pair_id_for :: "md_env \<Rightarrow> string \<Rightarrow> string \<Rightarrow> uuid mr_op" where
  "pair_id_for env exchange symbol =
     bindm (md_ensure_trading_pair env exchange symbol) (\<lambda>pair_id. case pair_id of
       None \<Rightarrow> raise_err (RuntimeError ''trading pair id unavailable'')
     | Some i \<Rightarrow> ret i)"

definition insert_market_data :: "md_env \<Rightarrow> string \<Rightarrow> string \<Rightarrow> (uuid \<Rightarrow> MarketDataRow) \<Rightarrow> unit mr_op" where
  "insert_market_data env exchange symbol row =
     bindm (pair_id_for env exchange symbol) (\<lambda>pair_id.
     seqm (modifies (\<lambda>s. s\<lparr>mr_market_data := mr_market_data s @ [row pair_id], mr_db_insert_count := mr_db_insert_count s + 1,
                            mr_market_data_rows_written := mr_market_data_rows_written s + 1, mr_last_db_insert_at := Some (now_of env s)\<rparr>))
       (count_metric ''market_data.rows_written''))"

definition maybe_persist_ticker :: "md_env \<Rightarrow> Ticker \<Rightarrow> unit mr_op" where
  "maybe_persist_ticker env t =
     bindm persist_due (\<lambda>due.
     if \<not> due then ret ()
     else insert_market_data env (tk_exchange t) (tk_symbol t) (\<lambda>pair_id.
       \<lparr>mk_exchange_name = tk_exchange t, mk_trading_pair_id = pair_id, mk_data_type = ''ticker'', mk_bid_price = tk_bid_price t,
        mk_bid_size = tk_bid_size t, mk_ask_price = tk_ask_price t, mk_ask_size = tk_ask_size t, mk_last_price = tk_last_price t,
        mk_volume_24h = tk_volume_24h t, mk_source_timestamp = tk_source_timestamp t, mk_payload = Pub_ticker t\<rparr>))"

definition maybe_persist_orderbook :: "md_env \<Rightarrow> OrderBookSnapshot \<Rightarrow> SpreadMetrics \<Rightarrow> unit mr_op" where
  "maybe_persist_orderbook env book spread =
     bindm persist_due (\<lambda>due.
     if \<not> due then ret ()
     else
       (let best_bid = best_level (>) (ob_bids book); best_ask = best_level (<) (ob_asks book) in
        insert_market_data env (ob_exchange book) (ob_symbol book) (\<lambda>pair_id.
          \<lparr>mk_exchange_name = ob_exchange book, mk_trading_pair_id = pair_id, mk_data_type = ''order_book'',
           mk_bid_price = map_option level_price best_bid, mk_bid_size = map_option level_size best_bid,
           mk_ask_price = map_option level_price best_ask, mk_ask_size = map_option level_size best_ask,
           mk_last_price = Some (sm_mid spread), mk_volume_24h = None, mk_source_timestamp = ob_source_timestamp book,
           mk_payload = Pub_orderbook book\<rparr>)))"

definition maybe_persist_orderbook_metrics :: "md_env \<Rightarrow> OrderBookSnapshot \<Rightarrow> LiquidityAnalytics \<Rightarrow> SpreadMetrics \<Rightarrow> unit mr_op" where
  "maybe_persist_orderbook_metrics env book analytics spread =
     bindm persist_due (\<lambda>due.
     if \<not> due then ret ()
     else
       bindm (pair_id_for env (ob_exchange book) (ob_symbol book)) (\<lambda>pair_id.
       seqm (modifies (\<lambda>s. s\<lparr>mr_liquidity_metrics := mr_liquidity_metrics s @
           [\<lparr>lm_exchange_name = ob_exchange book, lm_trading_pair_id = pair_id, lm_spread_bps = sm_spread_bps spread,
             lm_top_of_book_depth = top_of_book_depth analytics, lm_depth_1pct = depth_1pct analytics, lm_depth_5pct = depth_5pct analytics,
             lm_imbalance_ratio = imbalance_ratio analytics, lm_captured_at = ob_source_timestamp book\<rparr>],
           mr_db_insert_count := mr_db_insert_count s + 1, mr_liquidity_rows_written := mr_liquidity_rows_written s + 1,
           mr_last_db_insert_at := Some (now_of env s)\<rparr>))
         (count_metric ''liquidity.rows_written'')))"

definition maybe_persist_volatility :: "md_env \<Rightarrow> Kline \<Rightarrow> real \<Rightarrow> unit mr_op" where
  "maybe_persist_volatility env k volatility =
     bindm persist_due (\<lambda>due.
     if \<not> due then ret ()
     else
       bindm (pair_id_for env (kl_exchange k) (kl_symbol k)) (\<lambda>pair_id.
       seqm (modifies (\<lambda>s. s\<lparr>mr_volatility_metrics := mr_volatility_metrics s @
           [\<lparr>vm_exchange_name = kl_exchange k, vm_trading_pair_id = pair_id, vm_window_seconds = 60, vm_realized_volatility = volatility,
             vm_high_price = kl_high_price k, vm_low_price = kl_low_price k, vm_open_price = kl_open_price k,
             vm_close_price = kl_close_price k, vm_captured_at = kl_close_time k, vm_interval = kl_interval k\<rparr>],
           mr_db_insert_count := mr_db_insert_count s + 1, mr_volatility_rows_written := mr_volatility_rows_written s + 1,
           mr_last_db_insert_at := Some (now_of env s)\<rparr>))
         (count_metric ''volatility.rows_written'')))"

definition engine_statistics :: "string \<Rightarrow> TradeTick list \<Rightarrow> Kline list \<Rightarrow> MarketStatistics mr_op" where
  "engine_statistics symbol trades klines s =
     (case market_statistics symbol trades klines (mr_engine s) of (stats, engine) \<Rightarrow> (Inr stats, s\<lparr>mr_engine := engine\<rparr>))"

definition channel_of :: "string \<Rightarrow> ExecutionVenue \<Rightarrow> string \<Rightarrow> string" where
  "channel_of kind venue symbol = ''marketdata:'' @ kind @ '':'' @ value_of_venue venue @ '':'' @ symbol"

fun handle_event :: "md_env \<Rightarrow> ExecutionVenue \<Rightarrow> string \<Rightarrow> market_event \<Rightarrow> unit mr_op" where
  "handle_event env venue symbol (Ev_ticker t) =
     seqm (publish env (channel_of ''ticker'' venue symbol) (Pub_ticker t)) (maybe_persist_ticker env t)"
| "handle_event env venue symbol (Ev_trade t) =
     seqm (publish env (channel_of ''trades'' venue symbol) (Pub_trade t)) (
     bindm (engine_statistics symbol [t] []) (\<lambda>stats.
     publish env (channel_of ''analytics'' venue symbol) (Pub_statistics stats)))"
| "handle_event env venue symbol (Ev_orderbook book) =
     bindm (reads (\<lambda>s. liquidity_analytics (mr_engine s) book)) (\<lambda>analytics.
     bindm (lift_res analytics) (\<lambda>analytics.
     bindm (lift_res (calculate_spread book)) (\<lambda>spread.
     seqm (distribute_orderbook env book) (
     seqm (publish env (channel_of ''orderbook'' venue symbol) (Pub_orderbook book)) (
     seqm (publish env (channel_of ''analytics'' venue symbol) (Pub_book_metrics spread analytics)) (
     seqm (maybe_persist_orderbook env book spread) (maybe_persist_orderbook_metrics env book analytics spread)))))))"
| "handle_event env venue symbol (Ev_kline k) =
     bindm (engine_statistics symbol [] [k]) (\<lambda>stats.
     seqm (publish env (channel_of ''analytics'' venue symbol) (Pub_statistics stats)) (
     maybe_persist_volatility env k (realized_volatility stats)))"

definition handle_message :: "md_env \<Rightarrow> ExecutionVenue \<Rightarrow> string \<Rightarrow> obj \<Rightarrow> unit mr_op" where
  "handle_message env venue symbol message =
     seqm (modifies (\<lambda>s. s\<lparr>mr_handle_message_enter_count := mr_handle_message_enter_count s + 1\<rparr>)) (
     seqm (count_metric ''market_data.runtime_handle_message_enter'') (
     seqm (modifies (\<lambda>s. s\<lparr>mr_normalization_attempt_count := mr_normalization_attempt_count s + 1\<rparr>)) (
     seqm (count_metric ''market_data.normalization_attempt'') (
     bindm (reads (\<lambda>s. normalize (me_reading env (mr_handle_message_enter_count s)) venue symbol message)) (\<lambda>normalized.
     case normalized of
       Inl e \<Rightarrow> count_metric ''market_data.normalization_errors''
     | Inr None \<Rightarrow> count_metric ''market_data.normalization_dropped''
     | Inr (Some event) \<Rightarrow>
         seqm (modifies (\<lambda>s. s\<lparr>mr_normalization_success_count := mr_normalization_success_count s + 1\<rparr>)) (
         seqm (count_metric ''market_data.normalization_success'') (
         seqm (modifies (\<lambda>s. s\<lparr>mr_last_message_at := dict_set (value_of_venue venue @ '':'' @ symbol) (now_of env s) (mr_last_message_at s)\<rparr>)) (
         seqm (count_metric ''market_data.messages'') (
         seqm (gauge_metric ''market_data.active_subscriptions'' mr_active_subscriptions)
           (handle_event env venue symbol event)))))))))) "

definition record_websocket_message :: "md_env \<Rightarrow> ExecutionVenue \<Rightarrow> unit mr_op" where
  "record_websocket_message env venue =
     seqm (modifies (\<lambda>s. s\<lparr>mr_websocket_messages_received := mr_websocket_messages_received s + 1,
             mr_last_websocket_message_at := Some (now_of env s),
             mr_last_websocket_message_by_venue := dict_set (value_of_venue venue) (now_of env s) (mr_last_websocket_message_by_venue s)\<rparr>)) (
     seqm (count_metric ''market_data.websocket_messages_received'')
       (modifies (\<lambda>s. if venue = Venue_coinstore \<and> mr_raw_messages_logged s < 20
                       then s\<lparr>mr_raw_messages_logged := mr_raw_messages_logged s + 1\<rparr> else s)))"

text \<open>The handler \<open>_run_connector\<close> gives to its connector.\<close>

definition connector_handler :: "md_env \<Rightarrow> ExecutionVenue \<Rightarrow> StreamSubscription list \<Rightarrow> obj \<Rightarrow> unit mr_op" where
  "connector_handler env venue subs message =
     seqm (record_websocket_message env venue)
       (loop (\<lambda>subscription. handle_message env (su_venue subscription) (text_or (su_symbol subscription) []) message) subs)"

definition connector_env :: "md_env \<Rightarrow> (nat \<Rightarrow> int) \<Rightarrow> ExecutionVenue \<Rightarrow> StreamSubscription list \<Rightarrow> MarketDataRuntime stream_env" where
  "connector_env env now_ms venue subs =
     \<lparr>se_now_ms = now_ms, se_printer = rd_printer (me_reading env 0), se_subscriptions = subs,
      se_handle = connector_handler env venue subs, se_recover_snapshot = None\<rparr>"

text \<open>Connectors only return once stopped, so the restart branch runs only when \<open>connect\<close> itself raises.\<close>

definition restart_connector :: "unit mr_op" where
  "restart_connector =
     seqm (modifies (\<lambda>s. s\<lparr>mr_reconnect_count := mr_reconnect_count s + 1\<rparr>)) (count_metric ''market_data.reconnect_count'')"

section \<open>Commands\<close>

definition reload_config :: "md_env \<Rightarrow> string option \<Rightarrow> obj \<Rightarrow> unit mr_op" where
  "reload_config env command_id runtime_payload =
     bindm (lift_res (bindr (me_read_config env runtime_payload) model_validate)) (\<lambda>config.
     seqm (modifies (\<lambda>s. s\<lparr>mr_engine := (mr_engine s)\<lparr>md_liquidity_settings := rc_liquidity config\<rparr>\<rparr>)) (
     seqm (count_metric ''runtime.config_reloads'')
       (modifies (\<lambda>s. s\<lparr>mr_acks := mr_acks s @ [(command_id, dict_keys runtime_payload)]\<rparr>))))"

definition runtime_payload_of :: "obj \<Rightarrow> json res" where
  "runtime_payload_of payload =
     (if json_truthy (jget payload ''runtime_config'') then Inr (jget payload ''runtime_config'')
      else bindr (as_dict (get_default payload ''payload'' (JDict []))) (\<lambda>d. Inr (jget d ''runtime_config'')))"

text \<open>One message of the command channels; \<open>data\<close> is its decoded text.\<close>

definition consume_runtime_command :: "md_env \<Rightarrow> json res \<Rightarrow> unit mr_op" where
  "consume_runtime_command env data =
     catch
       (bindm (lift_res (bindr data as_dict)) (\<lambda>payload.
        let command_id = py_str (rd_printer (me_reading env 0)) (get_or payload [''command_id''] (JStr [])) in
        bindm (lift_res (runtime_payload_of payload)) (\<lambda>runtime_payload.
        case runtime_payload of
          JDict d \<Rightarrow> reload_config env (if command_id = [] then None else Some command_id) d
        | _ \<Rightarrow> ret ())))
       (\<lambda>e. count_metric ''market_data.runtime_command_errors'')"

definition md_stop :: "unit mr_op" where
  "md_stop = modifies (\<lambda>s. s\<lparr>mr_listening := False, mr_tasks := map (\<lambda>_. True) (mr_tasks s)\<rparr>)"

definition ingest_fixture :: "md_env \<Rightarrow> ExecutionVenue \<Rightarrow> string \<Rightarrow> obj \<Rightarrow> unit mr_op" where
  "ingest_fixture = handle_message"

end
