(* ===== verification/MD_Safety.thy ===== *)
theory MD_Safety
  imports MD_Runtime
begin

text \<open>
  What the market data runtime guarantees: the readings of the normaliser, the accounting of messages,
  publications and rows, the uniqueness of trading pairs, and how messages flow from a connector through
  the handler to the bus.
\<close>

section \<open>The normaliser\<close>

lemma split_quote_slash: "CHR ''/'' \<in> set other \<Longrightarrow> CHR ''/'' \<in> set (split_quote raw other quotes)"
  by (induction quotes) auto

lemma slash_cases: "c \<in> set other \<Longrightarrow> c \<in> set split \<Longrightarrow> c \<in> set (if c \<in> set raw then raw else if P then other else split)"
  by simp



lemma py_float_decimal_text:
  assumes "decimal_places 28 x = Some n"
  shows "py_float (JStr (decimal_text x)) = Inr x"
proof -
  obtain a b where ab: "decimal_text x = (if x < 0 then ''-'' else []) @ point_text a b" "\<And>c. c \<in> set (a @ b) \<Longrightarrow> is_digit c"
    using decimal_text_point[OF assms] by metis
  have "CHR ''_'' \<notin> set (decimal_text x)" using ab(2)[of "CHR ''_''"] by (auto simp: ab(1) point_text_def is_digit_iff split: if_splits)
  moreover have "set (strip s) \<subseteq> set s" for s by (auto simp: strip_def dest!: set_dropWhileD)
  ultimately have "filter (\<lambda>c. c \<noteq> CHR ''_'') (strip (decimal_text x)) = strip (decimal_text x)" by (auto simp: filter_id_conv)
  then show ?thesis using parse_decimal_text[OF assms] by (auto simp: parse_decimal_def split: option.splits)
qed

definition finite_decimal :: "decimal \<Rightarrow> bool" where
  "finite_decimal x \<longleftrightarrow> decimal_places 28 x \<noteq> None"

definition venue_level :: "OrderBookLevel \<Rightarrow> json" where
  "venue_level l = JList [JStr (decimal_text (level_price l)), JStr (decimal_text (level_size l))]"

definition finite_level :: "OrderBookLevel \<Rightarrow> bool" where
  "finite_level l \<longleftrightarrow> finite_decimal (level_price l) \<and> finite_decimal (level_size l)"

lemma float_level_venue: "finite_level l \<Longrightarrow> float_level (venue_level l) = Inr l"
  by (auto simp: finite_level_def finite_decimal_def float_level_def venue_level_def py_float_decimal_text simp del: py_float.simps)

lemma float_levels_venue: "list_all finite_level ls \<Longrightarrow> float_levels (JList (map venue_level ls)) = Inr ls"
proof -
  assume "list_all finite_level ls"
  then have "collect_res float_level (map venue_level ls) = Inr ls" by (induction ls) (auto simp: float_level_venue)
  then show ?thesis by (simp add: float_levels_def)
qed

lemma timestamp_millis:
  assumes "10000000000 < ms" "ms < 253402300800000"
  shows "time_or_now rd (JInt ms) = Inr (ms * 1000)"
proof -
  have "(of_int ms :: rat) > 10000000000" using assms(1) by simp
  moreover have "round_half_even (of_int ms / 1000 * 1000000) = ms * 1000"
    using round_half_even_of_int[of "ms * 1000"] by (simp add: mult.commute)
  ultimately show ?thesis using assms
    by (simp add: time_or_now_def message_time_def fromtimestamp_def Let_def del: times_divide_eq_left)
qed

definition depth_message :: "int \<Rightarrow> int \<Rightarrow> OrderBookLevel list \<Rightarrow> OrderBookLevel list \<Rightarrow> obj" where
  "depth_message ms u bids asks =
     [(''e'', JStr ''depthUpdate''), (''E'', JInt ms), (''u'', JInt u), (''b'', JList (map venue_level bids)), (''a'', JList (map venue_level asks))]"

lemma depth_event: "any_token [''depth'', ''order_book'', ''level2''] (lower ''depthUpdate'')"
  by code_simp

text \<open>A depth message with the venue's decimal texts is read back exactly: every price and size, the order of the
  levels, the time in microseconds and the update id.\<close>

theorem depth_message_roundtrip:
  assumes "venue \<noteq> Venue_coinstore" "list_all finite_level (bids @ asks)" "u \<noteq> 0" "10000000000 < ms" "ms < 253402300800000"
  shows "normalize rd venue symbol (depth_message ms u bids asks) =
    Inr (Some (Ev_orderbook \<lparr>ob_exchange = value_of_venue venue, ob_symbol = symbol, ob_bids = bids, ob_asks = asks,
      ob_source_timestamp = ms * 1000, ob_sequence = Some (str_int u)\<rparr>))"
proof -
  let ?m = "depth_message ms u bids asks"
  have get: "jget ?m ''e'' = JStr ''depthUpdate''" "jget ?m ''E'' = JInt ms" "jget ?m ''u'' = JInt u"
    "jget ?m ''b'' = JList (map venue_level bids)" "jget ?m ''a'' = JList (map venue_level asks)"
    "jget ?m ''bids'' = JNull" "jget ?m ''asks'' = JNull" "jget ?m ''data'' = JNull" "jget ?m ''result'' = JNull"
    by (simp_all add: depth_message_def jget_def)
  have "get_or ?m [''b'', ''bids''] (JList []) = JList (map venue_level bids)"
    "get_or ?m [''a'', ''asks''] (JList []) = JList (map venue_level asks)"
    by (auto simp: depth_message_def jget_def)
  moreover have "float_levels (JList (map venue_level bids)) = Inr bids" "float_levels (JList (map venue_level asks)) = Inr asks"
    using assms(2) by (simp_all add: float_levels_venue)
  moreover have "time_or_now rd (get_any ?m [''E'', ''time'', ''ts'']) = Inr (ms * 1000)"
    using assms(4) timestamp_millis[OF assms(4,5)] by (simp add: get)
  moreover have "payload_of ?m = ?m" by (simp add: payload_of_def get)
  ultimately show ?thesis
    using assms(1,3) depth_event by (simp add: normalize_def orderbook_def get sequence_text_def Let_def)
qed

theorem depth_message_roundtrip_witness:
  "normalize \<lparr>rd_now = 0, rd_uuid = [], rd_printer = (\<lambda>_. [])\<rparr> Venue_binance ''BTC/USDT''
     (depth_message 1700000000123 160 [\<lparr>level_price = 5 / 2, level_size = 10\<rparr>] []) =
   Inr (Some (Ev_orderbook \<lparr>ob_exchange = ''binance'', ob_symbol = ''BTC/USDT'', ob_bids = [\<lparr>level_price = 5 / 2, level_size = 10\<rparr>],
     ob_asks = [], ob_source_timestamp = 1700000000123000, ob_sequence = Some (str_int 160)\<rparr>))"
proof -
  have "finite_level \<lparr>level_price = 5 / 2, level_size = 10\<rparr>" by code_simp
  then show ?thesis
    using depth_message_roundtrip[of Venue_binance "[\<lparr>level_price = 5 / 2, level_size = 10\<rparr>]" "[]" 160 1700000000123
        "\<lparr>rd_now = 0, rd_uuid = [], rd_printer = (\<lambda>_. [])\<rparr>" "''BTC/USDT''"] by simp
qed

section \<open>Trading pairs\<close>

text \<open>
  What the insertion of a pair keeps: an invariant that survives the flush of a new row, a rollback of the
  session and any change of the cache is kept by looking up, caching and creating a pair.
\<close>

locale pair_invariant =
  fixes P :: "MarketDataRuntime \<Rightarrow> bool" and env :: md_env
  assumes flush_kept: "keeps P (flush_pair env exchange symbol)"
    and rollback_kept: "P s \<Longrightarrow> P (s\<lparr>mr_session := map_option (me_rollback env) (mr_session s), mr_session_active := True\<rparr>)"
    and cache_kept: "P s \<Longrightarrow> P (s\<lparr>mr_pair_ids := ids\<rparr>)"
    and validated_kept: "P s \<Longrightarrow> P (s\<lparr>mr_pairs_validated := v, mr_pairs_count := c\<rparr>)"
begin

lemma keeps_rollback: "keeps P (rollback_session env)"
proof (rule keepsI)
  fix s assume "P s"
  from validated_kept[OF cache_kept[OF rollback_kept[OF this], where ids = "[]"], where v = False and c = 0]
  show "P (snd (rollback_session env s))" by (simp add: rollback_session_def handle_session_rollback_def)
qed

lemma keeps_cached: "keeps P (cached_pair env key)"
  unfolding cached_pair_def by (intro kept keeps_rollback keeps_modifies) (rule cache_kept)

lemma keeps_insert: "keeps P (insert_pair env exchange symbol)"
  unfolding insert_pair_def find_trading_pair_def by (intro kept flush_kept keeps_modifies) (rule cache_kept)

lemma keeps_ensure: "keeps P (md_ensure_trading_pair env exchange symbol)"
  unfolding md_ensure_trading_pair_def ensure_pair_row_def find_trading_pair_def
  by (intro kept keeps_rollback keeps_cached keeps_insert keeps_modifies) (rule cache_kept)

lemma keeps_pair_id: "keeps P (pair_id_for env exchange symbol)"
  unfolding pair_id_for_def by (intro kept keeps_ensure)

lemma keeps_validate_pairs: "keeps P (validate_configured_trading_pairs env)"
  unfolding validate_configured_trading_pairs_def Let_def
  by (intro kept keeps_modifies) (auto intro: keeps_ensure validated_kept)

end

text \<open>The constraint of the table, and what the runtime relies on: other writers and a rollback respect it.\<close>

definition pairs_unique :: "session \<Rightarrow> bool" where
  "pairs_unique d \<longleftrightarrow> distinct (map (\<lambda>row. (tp_exchange_name row, tp_venue_symbol row)) (tbl_trading_pairs d))"

definition session_unique :: "MarketDataRuntime \<Rightarrow> bool" where
  "session_unique s \<longleftrightarrow> (case mr_session s of None \<Rightarrow> True | Some d \<Rightarrow> pairs_unique d)"

definition respects_constraint :: "md_env \<Rightarrow> bool" where
  "respects_constraint env \<longleftrightarrow> (\<forall>d. pairs_unique d \<longrightarrow> pairs_unique (me_others env d) \<and> pairs_unique (me_rollback env d))"

lemma unique_pair_invariant:
  assumes "respects_constraint env"
  shows "pair_invariant session_unique env"
proof
  fix exchange symbol
  show "keeps session_unique (flush_pair env exchange symbol)"
  proof (rule keepsI)
    fix s assume "session_unique s"
    then show "session_unique (snd (flush_pair env exchange symbol s))"
      using assms by (auto simp: respects_constraint_def session_unique_def flush_pair_def Let_def pairs_unique_def list_ex_iff split: option.splits)
  qed
next
  fix s assume "session_unique s"
  then show "session_unique (s\<lparr>mr_session := map_option (me_rollback env) (mr_session s), mr_session_active := True\<rparr>)"
    using assms by (auto simp: respects_constraint_def session_unique_def split: option.splits)
qed (simp_all add: session_unique_def)

lemma find_pair_id: "find Q rows = Some row \<Longrightarrow> list_ex (\<lambda>r. tp_id r = tp_id row) rows"
  by (auto simp: find_Some_iff list_ex_iff intro: nth_mem)

lemma insert_pair_present:
  "insert_pair env exchange symbol s = (Inr row, s') \<Longrightarrow> list_ex (\<lambda>r. tp_id r = tp_id row) (md_pair_rows s')"
  by (auto simp: insert_pair_def catch_def flush_pair_def find_trading_pair_def seqm_def bindm_def md_pair_rows_def Let_def
      dest!: find_pair_id split: option.splits if_splits)

lemma ensure_row_present:
  assumes "ensure_pair_row env exchange symbol s = (Inr i, s')"
  shows "list_ex (\<lambda>r. tp_id r = i) (md_pair_rows s')"
proof -
  obtain found where f: "find_trading_pair exchange symbol (remove_char (CHR ''/'') symbol) s = (Inr found, s)"
    by (simp add: find_trading_pair_def)
  obtain row t where row: "(case found of Some row \<Rightarrow> ret row | None \<Rightarrow> insert_pair env exchange symbol) s = (Inr row, t)"
    and i: "i = tp_id row" "s' = t\<lparr>mr_pair_ids := dict_set (exchange, symbol) (tp_id row) (mr_pair_ids t)\<rparr>"
    using assms f by (auto simp: ensure_pair_row_def bindm_def seqm_def split: prod.splits sum.splits)
  have "list_ex (\<lambda>r. tp_id r = tp_id row) (md_pair_rows t)"
    using row f by (cases found) (auto simp: find_trading_pair_def dest: insert_pair_present find_pair_id)
  then show ?thesis by (simp add: i md_pair_rows_def)
qed

lemma cached_pair_present:
  "cached_pair env key s = (Inr (Some i), s') \<Longrightarrow> list_ex (\<lambda>r. tp_id r = i) (md_pair_rows s')"
  by (auto simp: cached_pair_def bindm_def seqm_def split: option.splits if_splits prod.splits sum.splits)

lemma ensure_present:
  assumes "md_ensure_trading_pair env exchange symbol s = (Inr (Some i), s')"
  shows "list_ex (\<lambda>r. tp_id r = i) (md_pair_rows s')"
proof -
  obtain e n t u cached where "cached_pair env (e, n) t = (Inr cached, u)"
    "(case cached of Some j \<Rightarrow> ret (Some j) | None \<Rightarrow> bindm (ensure_pair_row env e n) (\<lambda>i. ret (Some i))) u = (Inr (Some i), s')"
    using assms unfolding md_ensure_trading_pair_def seqm_def
    by (elim bindm_InrE) (auto split: if_splits elim!: bindm_InrE)
  then show ?thesis
    using cached_pair_present by (cases cached) (auto simp: bindm_def dest: ensure_row_present split: prod.splits sum.splits)
qed

text \<open>The id the runtime gets for a pair is that of a row of the table, found, cached or inserted, and no two rows share an
  exchange and a venue symbol, also when another writer inserts the pair between the query and the insertion or the session is rolled back.\<close>

theorem ensured_pair_present_and_unique:
  assumes "respects_constraint env" "session_unique s" "md_ensure_trading_pair env exchange symbol s = (Inr (Some i), s')"
  shows "list_ex (\<lambda>row. tp_id row = i) (md_pair_rows s') \<and> session_unique s'"
  using ensure_present[OF assms(3)] keepsD[OF pair_invariant.keeps_ensure[OF unique_pair_invariant[OF assms(1)]] assms(2), of exchange symbol] assms(3)
  by simp

section \<open>Accounting\<close>

definition metric :: "string \<Rightarrow> MarketDataRuntime \<Rightarrow> float" where
  "metric name s = dict_get_or (rm_counters (mr_metrics s)) name 0"

text \<open>Every row written and every publication is counted, every message was normalised, dropped or counted as an error.\<close>

definition rows_counted :: "MarketDataRuntime \<Rightarrow> bool" where
  "rows_counted s \<longleftrightarrow>
     mr_market_data_rows_written s = length (mr_market_data s) \<and> mr_liquidity_rows_written s = length (mr_liquidity_metrics s)
     \<and> mr_volatility_rows_written s = length (mr_volatility_metrics s)
     \<and> mr_db_insert_count s = length (mr_market_data s) + length (mr_liquidity_metrics s) + length (mr_volatility_metrics s)"

definition publications_counted :: "MarketDataRuntime \<Rightarrow> bool" where
  "publications_counted s \<longleftrightarrow> mr_redis_publish_success_count s = mr_redis_publish_count s
     \<and> mr_redis_publish_count s = length (filter (\<lambda>(channel, _). channel \<noteq> ''engine.events.market-data'') (mr_published s))"

definition messages_counted :: "nat \<Rightarrow> MarketDataRuntime \<Rightarrow> bool" where
  "messages_counted pending s \<longleftrightarrow> mr_handle_message_enter_count s = mr_normalization_attempt_count s
     \<and> of_nat (mr_normalization_attempt_count s) = of_nat (pending + mr_normalization_success_count s)
         + metric ''market_data.normalization_errors'' s + metric ''market_data.normalization_dropped'' s"

definition md_accounted :: "nat \<Rightarrow> MarketDataRuntime \<Rightarrow> bool" where
  "md_accounted pending s \<longleftrightarrow> rows_counted s \<and> publications_counted s \<and> messages_counted pending s"

lemmas accounted_defs = md_accounted_def rows_counted_def publications_counted_def messages_counted_def metric_def

lemma metric_increment:
  "dict_get_or (rm_counters (increment name v m)) other 0 = dict_get_or (rm_counters m) other 0 + (if name = other then v else 0)"
  by (simp add: increment_def dict_get_or_def adict.get_put)

lemma gauge_counters [simp]: "rm_counters (set_gauge name v m) = rm_counters m"
  by (simp add: set_gauge_def)

lemma md_keeps_count [kept]:
  "name \<notin> {''market_data.normalization_errors'', ''market_data.normalization_dropped''} \<Longrightarrow> keeps (md_accounted n) (count_metric name)"
  unfolding count_metric_def by (rule keeps_modifies) (simp add: accounted_defs metric_increment)

lemma md_keeps_gauge [kept]: "keeps (md_accounted n) (gauge_metric name f)"
  unfolding gauge_metric_def by (rule keeps_modifies) (simp add: accounted_defs)

lemma keeps_flush: "keeps (md_accounted n) (flush_pair env exchange symbol)"
  by (rule keepsI) (auto simp: flush_pair_def Let_def accounted_defs split: option.split)

interpretation accounting: pair_invariant "md_accounted n" env for n env
  by unfold_locales (simp_all add: keeps_flush accounted_defs)

declare accounting.keeps_pair_id [kept] accounting.keeps_ensure [kept]

lemma keeps_due [kept]: "keeps (md_accounted n) persist_due"
  unfolding persist_due_def by (intro kept keeps_modifies) (simp_all add: accounted_defs)

lemma keeps_publish [kept]: "channel \<noteq> ''engine.events.market-data'' \<Longrightarrow> keeps (md_accounted n) (publish env channel payload)"
  unfolding publish_def by (intro kept keeps_modifies) (simp_all add: accounted_defs)

lemma keeps_distribute [kept]: "keeps (md_accounted n) (distribute_orderbook env book)"
  unfolding distribute_orderbook_def by (intro kept keeps_modifies) (simp_all add: accounted_defs)

lemma keeps_statistics [kept]: "keeps (md_accounted n) (engine_statistics symbol trades klines)"
  by (rule keepsI) (simp add: engine_statistics_def accounted_defs split: prod.split)

lemma keeps_persist [kept]:
  "keeps (md_accounted n) (maybe_persist_ticker env t)" "keeps (md_accounted n) (maybe_persist_orderbook env book spread)"
  "keeps (md_accounted n) (maybe_persist_orderbook_metrics env book analytics spread)" "keeps (md_accounted n) (maybe_persist_volatility env k v)"
  unfolding maybe_persist_ticker_def maybe_persist_orderbook_def maybe_persist_orderbook_metrics_def maybe_persist_volatility_def
    insert_market_data_def Let_def
  by (intro kept keeps_modifies; simp add: accounted_defs)+

lemma keeps_event: "keeps (md_accounted n) (handle_event env venue symbol event)"
  by (cases event) (auto intro!: kept simp: channel_of_def)

text \<open>Before the outcome of a message is known one attempt is pending.\<close>

lemma handle_message_accounted: "keeps (md_accounted 0) (handle_message env venue symbol message)"
proof (rule keepsI)
  fix s assume s: "md_accounted 0 s"
  let ?n = "\<lambda>t :: MarketDataRuntime. normalize (me_reading env (mr_handle_message_enter_count t)) venue symbol message"
  let ?rest = "\<lambda>normalized. case normalized of
       Inl e \<Rightarrow> count_metric ''market_data.normalization_errors''
     | Inr None \<Rightarrow> count_metric ''market_data.normalization_dropped''
     | Inr (Some event) \<Rightarrow>
         seqm (modifies (\<lambda>s. s\<lparr>mr_normalization_success_count := mr_normalization_success_count s + 1\<rparr>)) (
         seqm (count_metric ''market_data.normalization_success'') (
         seqm (modifies (\<lambda>s. s\<lparr>mr_last_message_at := dict_set (value_of_venue venue @ '':'' @ symbol) (now_of env s) (mr_last_message_at s)\<rparr>)) (
         seqm (count_metric ''market_data.messages'') (
         seqm (gauge_metric ''market_data.active_subscriptions'' mr_active_subscriptions)
           (handle_event env venue symbol event)))))"
  define t where "t = s\<lparr>mr_handle_message_enter_count := mr_handle_message_enter_count s + 1,
      mr_normalization_attempt_count := mr_normalization_attempt_count s + 1,
      mr_metrics := increment ''market_data.normalization_attempt'' 1 (increment ''market_data.runtime_handle_message_enter'' 1 (mr_metrics s))\<rparr>"
  have t: "md_accounted 1 t" using s by (simp add: t_def accounted_defs metric_increment)
  have run: "handle_message env venue symbol message s = ?rest (?n t) t"
    by (simp add: handle_message_def seqm_def bindm_def count_metric_def t_def)
  show "md_accounted 0 (snd (handle_message env venue symbol message s))"
  proof (cases "?n t")
    case (Inl e)
    then show ?thesis unfolding run using t by (simp add: count_metric_def accounted_defs metric_increment)
  next
    case (Inr r)
    show ?thesis
    proof (cases r)
      case None
      then show ?thesis unfolding run using t Inr by (simp add: count_metric_def accounted_defs metric_increment)
    next
      case (Some event)
      have "md_accounted 0 (t\<lparr>mr_normalization_success_count := mr_normalization_success_count t + 1\<rparr>)"
        using t by (simp add: accounted_defs)
      moreover have "keeps (md_accounted 0) (seqm (count_metric ''market_data.normalization_success'') (
         seqm (modifies (\<lambda>s. s\<lparr>mr_last_message_at := dict_set (value_of_venue venue @ '':'' @ symbol) (now_of env s) (mr_last_message_at s)\<rparr>)) (
         seqm (count_metric ''market_data.messages'') (
         seqm (gauge_metric ''market_data.active_subscriptions'' mr_active_subscriptions)
           (handle_event env venue symbol event)))))"
        by (intro kept keeps_event keeps_modifies) (simp_all add: accounted_defs)
      ultimately show ?thesis unfolding run using Inr Some by (simp add: keepsD)
    qed
  qed
qed

lemma keeps_handler: "keeps (md_accounted 0) (connector_handler env venue subs message)"
  unfolding connector_handler_def record_websocket_message_def
  by (intro kept handle_message_accounted keeps_modifies) (simp_all add: accounted_defs)

lemma md_keeps_tick: "keeps (md_accounted 0) (md_tick env)"
  unfolding md_tick_def ensure_started_def validate_health_def validate_configured_trading_pairs_def start_command_listener_def
    start_connector_def Let_def
  by (intro kept keeps_modifies) (auto intro!: kept simp: accounted_defs)

lemma md_keeps_command: "keeps (md_accounted 0) (consume_runtime_command env data)"
proof -
  have "keeps (md_accounted 0) (reload_config env command_id d)" for command_id d
    unfolding reload_config_def by (intro kept keeps_modifies) (simp_all add: accounted_defs)
  then show ?thesis
    unfolding consume_runtime_command_def Let_def by (intro kept) (auto intro: kept split: json.split)
qed

lemma md_keeps_stop: "keeps (md_accounted 0) md_stop"
  unfolding md_stop_def by (rule keeps_modifies) (simp add: accounted_defs)

text \<open>The runtime as a step system: each operation may raise, the state it leaves is the next one's.\<close>

datatype md_event = Md_message ExecutionVenue "StreamSubscription list" obj | Md_tick | Md_command "json res" | Md_stop

fun md_step :: "md_env \<Rightarrow> md_event \<Rightarrow> MarketDataRuntime \<Rightarrow> MarketDataRuntime" where
  "md_step env (Md_message venue subs message) s = snd (connector_handler env venue subs message s)"
| "md_step env Md_tick s = snd (md_tick env s)"
| "md_step env (Md_command data) s = snd (consume_runtime_command env data s)"
| "md_step env Md_stop s = snd (md_stop s)"

interpretation market_data: step_system "md_step env" "md_accounted 0" for env
proof
  fix s e assume "md_accounted 0 s"
  then show "md_accounted 0 (md_step env e s)"
    using keepsD[OF keeps_handler] keepsD[OF md_keeps_tick] keepsD[OF md_keeps_command] keepsD[OF md_keeps_stop] by (cases e) simp_all
qed


section \<open>The period of the rows\<close>

text \<open>
  The order book and its metrics advance the same counter, the book first. With an even period the
  counter is odd whenever it is the book's turn.
\<close>

definition books_skipped :: "MarketDataRow list \<Rightarrow> MarketDataRuntime \<Rightarrow> bool" where
  "books_skipped rows s \<longleftrightarrow> mr_market_data s = rows \<and> ds_persist_every (mr_settings s) \<noteq> 0
     \<and> even (ds_persist_every (mr_settings s)) \<and> even (mr_persist_counter s)"

lemma keeps_skipped_modifies:
  "(\<And>s. mr_market_data (f s) = mr_market_data s) \<Longrightarrow> (\<And>s. mr_settings (f s) = mr_settings s)
   \<Longrightarrow> (\<And>s. mr_persist_counter (f s) = mr_persist_counter s) \<Longrightarrow> keeps (books_skipped rows) (modifies f)"
  by (rule keeps_modifies) (simp add: books_skipped_def)

lemma keeps_skipped_flush: "keeps (books_skipped rows) (flush_pair env exchange symbol)"
  by (rule keepsI) (auto simp: flush_pair_def Let_def books_skipped_def split: option.split)

interpretation skipping: pair_invariant "books_skipped rows" env for rows env
  by unfold_locales (simp_all add: keeps_skipped_flush books_skipped_def)

lemma due_eq:
  assumes "ds_persist_every (mr_settings s) \<noteq> 0"
  shows "persist_due s = (Inr (mr_session s \<noteq> None \<and> int (mr_persist_counter s + 1) mod ds_persist_every (mr_settings s) = 0),
    s\<lparr>mr_persist_counter := mr_persist_counter s + 1\<rparr>)"
  using assms by (simp add: persist_due_def seqm_def bindm_def)

lemma odd_not_due: "books_skipped rows s \<Longrightarrow> int (mr_persist_counter s + 1) mod ds_persist_every (mr_settings s) \<noteq> 0"
proof
  assume s: "books_skipped rows s" and "int (mr_persist_counter s + 1) mod ds_persist_every (mr_settings s) = 0"
  then have "ds_persist_every (mr_settings s) dvd int (mr_persist_counter s + 1)" by (simp add: mod_eq_0_iff_dvd)
  moreover have "(2 :: int) dvd ds_persist_every (mr_settings s)" using s by (simp add: books_skipped_def)
  ultimately have "(2 :: int) dvd int (mr_persist_counter s + 1)" by (rule dvd_trans[rotated])
  then show False using s by (simp add: books_skipped_def)
qed

lemma keeps_skipped_book:
  "keeps (books_skipped rows) (seqm (maybe_persist_orderbook env book spread) (maybe_persist_orderbook_metrics env book analytics spread))"
proof (rule keepsI)
  fix s assume s: "books_skipped rows s"
  define t where "t = s\<lparr>mr_persist_counter := mr_persist_counter s + 1\<rparr>"
  define u where "u = t\<lparr>mr_persist_counter := mr_persist_counter t + 1\<rparr>"
  have nz: "ds_persist_every (mr_settings s) \<noteq> 0" "ds_persist_every (mr_settings t) \<noteq> 0"
    using s by (simp_all add: books_skipped_def t_def)
  have u: "books_skipped rows u" using s by (simp add: books_skipped_def u_def t_def)
  have first: "maybe_persist_orderbook env book spread s = (Inr (), t)"
    using due_eq[OF nz(1)] odd_not_due[OF s] by (simp add: maybe_persist_orderbook_def bindm_def t_def)
  let ?store = "bindm (pair_id_for env (ob_exchange book) (ob_symbol book)) (\<lambda>pair_id.
       seqm (modifies (\<lambda>s. s\<lparr>mr_liquidity_metrics := mr_liquidity_metrics s @
           [\<lparr>lm_exchange_name = ob_exchange book, lm_trading_pair_id = pair_id, lm_spread_bps = sm_spread_bps spread,
             lm_top_of_book_depth = top_of_book_depth analytics, lm_depth_1pct = depth_1pct analytics, lm_depth_5pct = depth_5pct analytics,
             lm_imbalance_ratio = imbalance_ratio analytics, lm_captured_at = ob_source_timestamp book\<rparr>],
           mr_db_insert_count := mr_db_insert_count s + 1, mr_liquidity_rows_written := mr_liquidity_rows_written s + 1,
           mr_last_db_insert_at := Some (now_of env s)\<rparr>))
         (count_metric ''liquidity.rows_written''))"
  have "keeps (books_skipped rows) ?store"
    unfolding count_metric_def by (intro kept skipping.keeps_pair_id keeps_skipped_modifies) simp_all
  then have "books_skipped rows (snd (?store u))" using u by (rule keepsD)
  moreover have "maybe_persist_orderbook_metrics env book analytics spread t = (Inr (), u) \<or>
      maybe_persist_orderbook_metrics env book analytics spread t = ?store u"
    using due_eq[OF nz(2)] by (auto simp: maybe_persist_orderbook_metrics_def bindm_def u_def)
  ultimately show "books_skipped rows (snd (seqm (maybe_persist_orderbook env book spread)
      (maybe_persist_orderbook_metrics env book analytics spread) s))"
    using u first by (auto simp: seqm_def bindm_def[of "maybe_persist_orderbook env book spread"])
qed

lemma keeps_skipped_publish: "keeps (books_skipped rows) (publish env channel payload)"
  unfolding publish_def count_metric_def by (intro kept keeps_skipped_modifies) simp_all

lemma keeps_skipped_event: "keeps (books_skipped rows) (handle_event env venue symbol (Ev_orderbook book))"
proof -
  have "keeps (books_skipped rows) (distribute_orderbook env book)"
    unfolding distribute_orderbook_def by (intro kept keeps_skipped_modifies) simp_all
  then show ?thesis by (auto intro!: kept keeps_skipped_publish keeps_skipped_book)
qed

text \<open>Messages of an order book stream: every one of them is a book, or no event at all.\<close>

definition book_message :: "md_env \<Rightarrow> ExecutionVenue \<Rightarrow> string \<Rightarrow> obj \<Rightarrow> bool" where
  "book_message env venue symbol message \<longleftrightarrow>
     (\<forall>n event. normalize (me_reading env n) venue symbol message = Inr (Some event) \<longrightarrow> (\<exists>book. event = Ev_orderbook book))"

lemma keeps_skipped_message:
  assumes "book_message env venue symbol message"
  shows "keeps (books_skipped rows) (handle_message env venue symbol message)"
proof -
  have event: "keeps (books_skipped rows) (handle_event env venue symbol event)"
    if read: "normalize (me_reading env n) venue symbol message = Inr (Some event)" for n event
  proof -
    obtain book where "event = Ev_orderbook book" using assms read by (auto simp: book_message_def)
    then show ?thesis by (simp only: keeps_skipped_event)
  qed
  show ?thesis
    unfolding handle_message_def count_metric_def gauge_metric_def
    by (intro keeps_seq keeps_bind_result keeps_reads keeps_skipped_modifies)
      (auto intro!: keeps_seq keeps_skipped_modifies intro: event split: sum.split option.split)
qed

text \<open>With an even period of persistence a stream of order books never writes an order book: only its metrics are written.\<close>

theorem even_period_writes_no_books:
  assumes "even (ds_persist_every settings)" "ds_persist_every settings \<noteq> 0" "list_all (book_message env venue symbol) messages"
  shows "mr_market_data (run (\<lambda>message s. snd (handle_message env venue symbol message s)) messages
           (MarketDataRuntime_init settings session engine metrics)) = []"
proof -
  let ?step = "\<lambda>message s. snd (handle_message env venue symbol message s)"
  have "books_skipped rows (run ?step messages s)" if "books_skipped rows s" for rows s
    using assms(3) that by (induction messages arbitrary: s) (auto intro: keepsD[OF keeps_skipped_message])
  then have "books_skipped [] (run ?step messages (MarketDataRuntime_init settings session engine metrics))"
    using assms(1,2) by (simp add: books_skipped_def MarketDataRuntime_init_def)
  then show ?thesis by (simp add: books_skipped_def)
qed

section \<open>From the connector to the bus\<close>

lemma publish_ok:
  assumes "me_bus env (mr_handle_message_enter_count s) channel = Inr ()"
  shows "\<exists>t. publish env channel payload s = (Inr (), t) \<and> mr_published t = mr_published s @ [(channel, payload)]
    \<and> mr_handle_message_enter_count t = mr_handle_message_enter_count s"
  using assms by (simp add: publish_def count_metric_def seqm_def bindm_def)

lemma handle_message_event:
  assumes "normalize (me_reading env (mr_handle_message_enter_count s + 1)) venue symbol message = Inr (Some event)"
  shows "\<exists>t. handle_message env venue symbol message s = handle_event env venue symbol event t
    \<and> mr_published t = mr_published s \<and> mr_engine t = mr_engine s \<and> mr_handle_message_enter_count t = mr_handle_message_enter_count s + 1"
  using assms
  by (simp add: handle_message_def count_metric_def gauge_metric_def seqm_def bindm_def) (intro exI conjI, rule refl, simp_all)

definition trade_message :: "md_env \<Rightarrow> ExecutionVenue \<Rightarrow> obj \<Rightarrow> bool" where
  "trade_message env venue message \<longleftrightarrow> (\<forall>n symbol. \<exists>t. normalize (me_reading env n) venue symbol message = Inr (Some (Ev_trade t)))"

lemma handle_trade:
  assumes "trade_message env venue message" "\<And>n channel. me_bus env n channel = Inr ()"
  shows "\<exists>s'. handle_message env venue symbol message s = (Inr (), s')
    \<and> map fst (mr_published s') = map fst (mr_published s) @ [channel_of ''trades'' venue symbol, channel_of ''analytics'' venue symbol]"
proof -
  obtain t where "normalize (me_reading env (mr_handle_message_enter_count s + 1)) venue symbol message = Inr (Some (Ev_trade t))"
    using assms(1) by (auto simp: trade_message_def)
  from handle_message_event[OF this] obtain s1 where s1:
    "handle_message env venue symbol message s = handle_event env venue symbol (Ev_trade t) s1" "mr_published s1 = mr_published s" by blast
  obtain s2 where s2: "publish env (channel_of ''trades'' venue symbol) (Pub_trade t) s1 = (Inr (), s2)"
    "mr_published s2 = mr_published s1 @ [(channel_of ''trades'' venue symbol, Pub_trade t)]"
    using publish_ok[OF assms(2)] by blast
  obtain stats s3 where s3: "engine_statistics symbol [t] [] s2 = (Inr stats, s3)" "mr_published s3 = mr_published s2"
    by (cases "market_statistics symbol [t] [] (mr_engine s2)") (simp add: engine_statistics_def)
  obtain s4 where s4: "publish env (channel_of ''analytics'' venue symbol) (Pub_statistics stats) s3 = (Inr (), s4)"
    "mr_published s4 = mr_published s3 @ [(channel_of ''analytics'' venue symbol, Pub_statistics stats)]"
    using publish_ok[OF assms(2)] by blast
  show ?thesis using s1 s2 s3 s4 by (auto simp: seqm_def bindm_def)
qed

text \<open>A trade message is published once for every subscription of the connector, under the subscription's own symbol,
  whichever symbol and stream the message came from.\<close>

theorem trade_published_per_subscription:
  assumes "trade_message env venue message" "\<forall>n channel. me_bus env n channel = Inr ()" "list_all (\<lambda>sub. su_venue sub = venue) subs"
  shows "\<exists>s'. connector_handler env venue subs message s = (Inr (), s')
    \<and> map fst (mr_published s') = map fst (mr_published s)
      @ concat (map (\<lambda>sub. [channel_of ''trades'' venue (text_or (su_symbol sub) []), channel_of ''analytics'' venue (text_or (su_symbol sub) [])]) subs)"
proof -
  let ?one = "\<lambda>sub. handle_message env (su_venue sub) (text_or (su_symbol sub) []) message"
  have all: "\<exists>s'. loop ?one subs s = (Inr (), s') \<and> map fst (mr_published s') = map fst (mr_published s)
      @ concat (map (\<lambda>sub. [channel_of ''trades'' venue (text_or (su_symbol sub) []), channel_of ''analytics'' venue (text_or (su_symbol sub) [])]) subs)" for s
    using assms(3)
  proof (induction subs arbitrary: s)
    case (Cons sub subs)
    then have "su_venue sub = venue" by simp
    with handle_trade[OF assms(1), of "text_or (su_symbol sub) []" s] assms(2) obtain s1 where s1: "?one sub s = (Inr (), s1)"
      "map fst (mr_published s1) = map fst (mr_published s)
        @ [channel_of ''trades'' venue (text_or (su_symbol sub) []), channel_of ''analytics'' venue (text_or (su_symbol sub) [])]" by auto
    with Cons.IH[of s1] Cons.prems show ?case by (auto simp: seqm_def bindm_def)
  qed simp
  obtain s0 where s0: "record_websocket_message env venue s = (Inr (), s0)" "mr_published s0 = mr_published s"
    by (simp add: record_websocket_message_def count_metric_def seqm_def bindm_def)
  show ?thesis using all[of s0] by (simp add: connector_handler_def seqm_def bindm_def[of "record_websocket_message env venue"] s0)
qed

text \<open>A book the metrics refuse: the exception of \<open>calculate_spread\<close> leaves the handler.\<close>

lemma handle_bad_book:
  assumes "normalize (me_reading env (mr_handle_message_enter_count s + 1)) venue symbol message = Inr (Some (Ev_orderbook book))" "\<not> book_ok book"
  shows "\<exists>e s'. handle_message env venue symbol message s = (Inl (ValueError e), s') \<and> mr_published s' = mr_published s"
proof -
  obtain t where t: "handle_message env venue symbol message s = handle_event env venue symbol (Ev_orderbook book) t"
    "mr_published t = mr_published s"
    using handle_message_event[OF assms(1)] by blast
  have "\<exists>e. calculate_spread book = Inl (ValueError e)"
    using assms(2) calculate_spread_ok_iff[of book] by (auto simp: calculate_spread_def Let_def split: option.splits if_splits)
  then obtain e where "calculate_spread book = Inl (ValueError e)" by blast
  then show ?thesis using t by (simp add: bindm_def liquidity_analytics_def)
qed

text \<open>On an open socket every stream the codec knows is subscribed; the first message of a connector is never a gap.\<close>

definition known_stream :: "StreamSubscription \<Rightarrow> bool" where
  "known_stream sub \<longleftrightarrow> (\<forall>ms. \<exists>payload. subscribe_payload ms sub = Inr payload)"

lemma subscribe_all_ok:
  assumes "list_all known_stream (se_subscriptions env)" "\<And>n payload. cn_send conn n payload = Inr ()"
  shows "\<exists>n. subscribe_all env conn c = (Inr (), c\<lparr>wc_subscriptions_sent := n\<rparr>)"
proof -
  have one: "send_subscription env conn sub c = (Inr (), c\<lparr>wc_subscriptions_sent := wc_subscriptions_sent c + 1\<rparr>)"
    if known: "known_stream sub" for sub and c
  proof -
    obtain payload where "subscribe_payload (se_now_ms env (wc_subscriptions_sent c)) sub = Inr payload"
      using known by (auto simp: known_stream_def)
    then show ?thesis using assms(2) by (simp add: send_subscription_def bindm_def seqm_def)
  qed
  have "list_all known_stream subs \<Longrightarrow> \<exists>n. loop (send_subscription env conn) subs c = (Inr (), c\<lparr>wc_subscriptions_sent := n\<rparr>)" for subs
  proof (induction subs arbitrary: c)
    case Nil
    show ?case by (simp, rule exI[of _ "wc_subscriptions_sent c"]) simp
  next
    case (Cons sub subs)
    then show ?case using Cons.IH[of "c\<lparr>wc_subscriptions_sent := wc_subscriptions_sent c + 1\<rparr>"] by (auto simp: seqm_def bindm_def one)
  qed
  then show ?thesis using assms(1) by (simp add: subscribe_all_def)
qed

lemma first_message_no_gap:
  assumes "parse_sequence (wc_venue c) message = Inr (n, p)" "rc_sequences (wc_reconstructor c) = []"
  shows "\<exists>r. gap_detected env message c = (Inr False, c\<lparr>wc_reconstructor := r\<rparr>)"
proof -
  have same: "\<exists>r. c = c\<lparr>wc_reconstructor := r\<rparr>" by (rule exI[of _ "wc_reconstructor c"]) simp
  show ?thesis
  proof (cases n)
    case None
    then show ?thesis using assms same by (simp add: gap_detected_def bindm_def)
  next
    case (Some k)
    then have v: "validate_stream symbol n p c = (Inr True, c\<lparr>wc_reconstructor := snd (validate_key (wc_venue c, symbol) n p (wc_reconstructor c))\<rparr>)" for symbol
      using assms(2) by (simp add: validate_stream_def validate_key_def dict_get_or_def SequenceState_init_def validate_sequence_def)
    show ?thesis
      using assms Some v same by (cases "find is_book_stream (se_subscriptions env)") (auto simp: gap_detected_def bindm_def)
  qed
qed

text \<open>An order book message with an empty or crossed side, as depth updates often have, takes the connection down: the
  exception of the book metrics leaves the handler, the frames behind it are lost and the connector sleeps before it reconnects.\<close>

theorem one_sided_book_drops_connection:
  assumes "venue \<noteq> Venue_coinstore" "su_venue sub = venue" "list_all known_stream (sub # rest)"
    and "parse_sequence venue message = Inr (n, p)"
    and "normalize (me_reading env (mr_handle_message_enter_count h + 1)) venue (text_or (su_symbol sub) []) message = Inr (Some (Ev_orderbook book))"
    and "\<not> book_ok book"
  shows "let c = connect_step (connector_env env now_ms venue (sub # rest))
           (Ws_attempt (Inr \<lparr>cn_send = (\<lambda>_ _. Inr ()), cn_frames = Text_frame (Inr (JDict message)) # later, cn_closed = ending\<rparr>))
           (VenueWebSocketConnector_init venue max_delay h)
         in \<not> wc_connected c \<and> wc_slept c = [1] \<and> wc_messages_received c = 1 \<and> mr_published (wc_handler c) = mr_published h"
proof -
  let ?env = "connector_env env now_ms venue (sub # rest)"
  let ?conn = "\<lparr>cn_send = (\<lambda>_ _. Inr ()), cn_frames = Text_frame (Inr (JDict message)) # later, cn_closed = ending\<rparr>"
  define c0 where "c0 = (VenueWebSocketConnector_init venue max_delay h)\<lparr>wc_connection_attempts := 1, wc_connected := True\<rparr>"
  obtain k where sub: "subscribe_all ?env ?conn c0 = (Inr (), c0\<lparr>wc_subscriptions_sent := k\<rparr>)"
    using subscribe_all_ok[of ?env ?conn c0] assms(3) by (auto simp: connector_env_def)
  define c1 where "c1 = c0\<lparr>wc_subscriptions_sent := k, wc_delay := 1, wc_messages_received := 1, wc_raw_message_samples := [message]\<rparr>"
  have c1: "wc_venue c1 = venue" "rc_sequences (wc_reconstructor c1) = []" "wc_slept c1 = []" "wc_delay c1 = 1" "wc_handler c1 = h"
    "wc_messages_received c1 = 1"
    by (simp_all add: c1_def c0_def VenueWebSocketConnector_init_def)
  obtain r where gap: "gap_detected ?env message c1 = (Inr False, c1\<lparr>wc_reconstructor := r\<rparr>)"
    using first_message_no_gap[of c1 message n p ?env] assms(4) c1 by auto
  obtain h0 where h0: "record_websocket_message env venue h = (Inr (), h0)" "mr_published h0 = mr_published h"
    "mr_handle_message_enter_count h0 = mr_handle_message_enter_count h"
    using assms(1) by (simp add: record_websocket_message_def count_metric_def seqm_def bindm_def)
  obtain e h1 where h1: "connector_handler env venue (sub # rest) message h = (Inl e, h1)" "mr_published h1 = mr_published h"
    using handle_bad_book[of env h0 venue "text_or (su_symbol sub) []" message book] assms(2,5,6) h0
    by (auto simp: connector_handler_def seqm_def bindm_def)
  have dispatch: "\<exists>c2. dispatch_message ?env ?conn message c1 = (Inl e, c2) \<and> wc_slept c2 = [] \<and> wc_delay c2 = 1 \<and> wc_handler c2 = h1
      \<and> wc_messages_received c2 = 1"
    using c1 assms(1) gap h1(1)
    by (simp add: dispatch_message_def invoke_handler_def on_handler_def zoom_def seqm_def bindm_def connector_env_def)
  then obtain c2 where c2: "dispatch_message ?env ?conn message c1 = (Inl e, c2)" "wc_slept c2 = []" "wc_delay c2 = 1" "wc_handler c2 = h1"
    "wc_messages_received c2 = 1" by blast
  have "receive_frame ?env ?conn (Text_frame (Inr (JDict message))) (c0\<lparr>wc_subscriptions_sent := k, wc_delay := 1\<rparr>)
      = dispatch_message ?env ?conn message c1"
    by (simp add: receive_frame_def decode_frame_def capture_raw_sample_def seqm_def bindm_def c1_def c0_def VenueWebSocketConnector_init_def)
  then have "serve_connection ?env ?conn (c0\<lparr>wc_connected := False\<rparr>) = (Inl e, c2)"
    using c2(1) sub assms(1) by (simp add: serve_connection_def seqm_def bindm_def c0_def VenueWebSocketConnector_init_def)
  then show ?thesis
    using c2 h1(2) by (simp add: Let_def connect_once_def catch_def seqm_def bindm_def c0_def VenueWebSocketConnector_init_def)
qed

section \<open>Examples\<close>

definition example_reading :: "nat \<Rightarrow> reading" where
  "example_reading n = \<lparr>rd_now = 0, rd_uuid = ''id'', rd_printer = (\<lambda>_. [])\<rparr>"

definition md_example_env :: md_env where
  "md_example_env = \<lparr>me_reading = example_reading, me_bus = (\<lambda>_ _. Inr ()), me_engine_bus = False, me_others = id, me_rollback = id,
     me_pending_rollback = (\<lambda>_. False), me_read_config = (\<lambda>_. Inr default_runtime_config)\<rparr>"

definition md_example_runtime :: "int \<Rightarrow> MarketDataRuntime" where
  "md_example_runtime period =
     MarketDataRuntime_init \<lparr>ds_exchanges = [''gate''], ds_symbols = [''A/B''], ds_streams = [''orderbook''], ds_connect_on_start = True, ds_persist_every = period\<rparr>
       (Some empty_session) \<lparr>md_liquidity_settings = rc_liquidity default_runtime_config, trade_prices = []\<rparr> \<lparr>rm_counters = [], rm_gauges = []\<rparr>"

definition example_subscription :: "string \<Rightarrow> StreamKind \<Rightarrow> StreamSubscription" where
  "example_subscription symbol kind = \<lparr>su_venue = Venue_gate, su_symbol = Some symbol, su_kind = kind, su_interval = None, su_auth_stream_token = None\<rparr>"

theorem ensured_pair_present_and_unique_witness:
  "list_ex (\<lambda>row. tp_id row = 0) (md_pair_rows (snd (md_ensure_trading_pair md_example_env '' Gate'' ''a/b'' (md_example_runtime 2))))"
proof -
  have "respects_constraint md_example_env" by (simp add: respects_constraint_def md_example_env_def)
  moreover have "session_unique (md_example_runtime 2)" by (simp add: session_unique_def md_example_runtime_def MarketDataRuntime_init_def empty_session_def pairs_unique_def)
  moreover have n: "normalize_exchange '' Gate'' = Inr ''gate''" "normalize_trading_symbol ''a/b'' = Inr ''A/B''" by code_simp+
  moreover have "fst (md_ensure_trading_pair md_example_env '' Gate'' ''a/b'' (md_example_runtime 2)) = Inr (Some 0)"
    by (simp add: md_ensure_trading_pair_def ensure_pair_row_def insert_pair_def flush_pair_def find_trading_pair_def cached_pair_def catch_def
        seqm_def bindm_def n md_example_env_def md_example_runtime_def MarketDataRuntime_init_def md_pair_rows_def empty_session_def new_pair_row_def Let_def)
  ultimately show ?thesis
    using ensured_pair_present_and_unique[of md_example_env "md_example_runtime 2" "'' Gate''" "''a/b''" 0] prod.collapse by metis
qed

text \<open>A depth update with one side only.\<close>

definition one_sided_message :: obj where
  "one_sided_message = [(''event'', JStr ''depth''), (''bids'', JList [JList [JInt 10, JInt 1]]), (''asks'', JList [])]"

lemma one_sided_book:
  "normalize (example_reading n) Venue_gate symbol one_sided_message =
     Inr (Some (Ev_orderbook \<lparr>ob_exchange = ''gate'', ob_symbol = symbol, ob_bids = [\<lparr>level_price = 10, level_size = 1\<rparr>], ob_asks = [],
       ob_source_timestamp = 0, ob_sequence = None\<rparr>))"
  by (simp add: normalize_def one_sided_message_def payload_of_def jget_def some_key_def has_key_def orderbook_def float_levels_def float_level_def
      time_or_now_def message_time_def sequence_text_def example_reading_def)

theorem one_sided_book_drops_connection_witness:
  "let c = connect_step (connector_env md_example_env (\<lambda>_. 0) Venue_gate [example_subscription ''A/B'' Kind_orderbook])
           (Ws_attempt (Inr \<lparr>cn_send = (\<lambda>_ _. Inr ()), cn_frames = [Text_frame (Inr (JDict one_sided_message))], cn_closed = Inr ()\<rparr>))
           (VenueWebSocketConnector_init Venue_gate 30 (md_example_runtime 1))
   in \<not> wc_connected c \<and> wc_slept c = [1] \<and> wc_messages_received c = 1 \<and> mr_published (wc_handler c) = mr_published (md_example_runtime 1)"
proof (rule one_sided_book_drops_connection)
  show "list_all known_stream [example_subscription ''A/B'' Kind_orderbook]"
    by (simp add: known_stream_def example_subscription_def subscribe_payload_def gate_channel_def kind_entry_def Let_def)
  show "parse_sequence Venue_gate one_sided_message = Inr (None, None)"
    by (simp add: parse_sequence_def one_sided_message_def get_default_def jget_def int_or_none_def)
  show "normalize (me_reading md_example_env (mr_handle_message_enter_count (md_example_runtime 1) + 1)) Venue_gate
      (text_or (su_symbol (example_subscription ''A/B'' Kind_orderbook)) []) one_sided_message =
    Inr (Some (Ev_orderbook \<lparr>ob_exchange = ''gate'', ob_symbol = ''A/B'', ob_bids = [\<lparr>level_price = 10, level_size = 1\<rparr>], ob_asks = [],
       ob_source_timestamp = 0, ob_sequence = None\<rparr>))"
    by (simp add: md_example_env_def example_subscription_def one_sided_book)
qed (simp_all add: example_subscription_def book_ok_def)

theorem even_period_writes_no_books_witness:
  "mr_market_data (run (\<lambda>message s. snd (handle_message md_example_env Venue_gate ''A/B'' message s)) [one_sided_message, one_sided_message] (md_example_runtime 10)) = []"
  unfolding md_example_runtime_def
  by (rule even_period_writes_no_books) (simp_all add: book_message_def md_example_env_def one_sided_book)

definition example_trade :: obj where
  "example_trade = [(''event'', JStr ''trade''), (''price'', JInt 10), (''quantity'', JInt 2)]"

theorem trade_published_per_subscription_witness:
  "\<exists>s'. connector_handler md_example_env Venue_gate [example_subscription ''A/B'' Kind_trades, example_subscription ''C/D'' Kind_trades] example_trade (md_example_runtime 1) = (Inr (), s')
    \<and> map fst (mr_published s') = [''marketdata:trades:gate:A/B'', ''marketdata:analytics:gate:A/B'', ''marketdata:trades:gate:C/D'', ''marketdata:analytics:gate:C/D'']"
proof -
  have tokens: "\<not> any_token [''depth'', ''order_book'', ''level2''] (lower ''trade'')" "\<not> any_token [''ticker'', ''tickers''] (lower ''trade'')"
    "any_token [''trade'', ''match'', ''deals''] (lower ''trade'')"
    by code_simp+
  have "\<exists>t. normalize (example_reading n) Venue_gate symbol example_trade = Inr (Some (Ev_trade t))" for n symbol
    using tokens
    by (simp add: normalize_def example_trade_def payload_of_def jget_def some_key_def has_key_def has_scalar_ticker_fields_def trade_def
        float_or_zero_def float_opt_def time_or_now_def message_time_def example_reading_def Let_def)
  then have "trade_message md_example_env Venue_gate example_trade" by (simp add: trade_message_def md_example_env_def)
  moreover have "mr_published (md_example_runtime 1) = []" by (simp add: md_example_runtime_def MarketDataRuntime_init_def)
  ultimately show ?thesis
    using trade_published_per_subscription[of md_example_env Venue_gate example_trade
        "[example_subscription ''A/B'' Kind_trades, example_subscription ''C/D'' Kind_trades]" "md_example_runtime 1"]
    by (simp add: md_example_env_def example_subscription_def channel_of_def)
qed

end
