(* ===== verification/MM_Life.thy ===== *)
theory MM_Life
  imports MM_Safety MD_Safety
begin

text \<open>
  How the two engines live in their processes: starting, stopping and reporting of the market maker
  (\<open>ensure_started\<close>, \<open>stop\<close>, \<open>health\<close> of \<open>engines/market_making/runtime.py\<close>), the report of the market data
  runtime, and what runs between two ticks. A task is a flag that says whether it runs; the answers of
  Redis and of the Coinstore service to the calls made while starting and stopping are arguments.
\<close>

section \<open>Starting and stopping the market maker\<close>

text \<open>The state of \<open>MarketMakerRuntime\<close> that \<open>tick\<close> does not touch.\<close>

record MMProcess =
  mp_runtime :: MarketMakerRuntime
  mp_started :: bool
  mp_pubsub :: bool
  mp_consumer_running :: bool
  mp_coinstore :: bool
  mp_private_ws :: bool
  mp_private_running :: bool

type_synonym 'a mp_op = "(MMProcess, 'a) op"

definition MMProcess_init :: "MarketMakerRuntime \<Rightarrow> MMProcess" where
  "MMProcess_init m = \<lparr>mp_runtime = m, mp_started = False, mp_pubsub = False, mp_consumer_running = False, mp_coinstore = False,
     mp_private_ws = False, mp_private_running = False\<rparr>"

record start_env =
  sv_psubscribe :: "unit res"
  sv_client :: "unit res"
  sv_pubsub_close :: "unit res"
  sv_coinstore_close :: "unit res"

definition on_runtime :: "'a mm_op \<Rightarrow> 'a mp_op" where
  "on_runtime = zoom mp_runtime (\<lambda>m p. p\<lparr>mp_runtime := m\<rparr>)"

definition coinstore :: "unit mp_op" where
  "coinstore = modifies (\<lambda>p. p\<lparr>mp_coinstore := True\<rparr>)"

definition start_coinstore_private_stream :: "start_env \<Rightarrow> unit mp_op" where
  "start_coinstore_private_stream env =
     bindm (reads mp_private_running) (\<lambda>running.
     if running then ret ()
     else seqm coinstore (
       seqm (lift_res (sv_client env)) (
       modifies (\<lambda>p. p\<lparr>mp_private_ws := True, mp_private_running := True\<rparr>))))"

definition mm_ensure_started :: "start_env \<Rightarrow> unit mp_op" where
  "mm_ensure_started env =
     bindm (reads mp_started) (\<lambda>started.
     if started then ret ()
     else
       seqm (modifies (\<lambda>p. p\<lparr>mp_started := True\<rparr>)) (
       seqm (modifies (\<lambda>p. p\<lparr>mp_pubsub := True\<rparr>)) (
       seqm (lift_res (sv_psubscribe env)) (
       seqm (modifies (\<lambda>p. p\<lparr>mp_consumer_running := True\<rparr>)) (
       bindm (reads (\<lambda>p. mm_mode (mp_runtime p))) (\<lambda>mode.
       if mode = Mode_canary \<or> mode = Mode_live then start_coinstore_private_stream env else ret ()))))))"

definition mm_tick :: "start_env \<Rightarrow> env \<Rightarrow> unit mp_op" where
  "mm_tick senv env = seqm (mm_ensure_started senv) (on_runtime (tick env))"

definition mm_stop :: "start_env \<Rightarrow> unit mp_op" where
  "mm_stop env =
     seqm (modifies (\<lambda>p. p\<lparr>mp_consumer_running := False\<rparr>)) (
     bindm (reads mp_pubsub) (\<lambda>pubsub.
     seqm (if pubsub then lift_res (sv_pubsub_close env) else ret ()) (
     seqm (modifies (\<lambda>p. p\<lparr>mp_private_running := False\<rparr>)) (
     bindm (reads mp_coinstore) (\<lambda>coinstore.
     if coinstore then lift_res (sv_coinstore_close env) else ret ())))))"

text \<open>The consumer task handles what arrives on the bus between the ticks, if it runs.\<close>

datatype bus_event =
    Bus_market env string MarketPayload
  | Bus_config "RuntimeConfig option" "string option"
  | Bus_command env CommandMessage

fun mm_event_of :: "bus_event \<Rightarrow> mm_event" where
  "mm_event_of (Bus_market env channel payload) = MM_market env channel payload"
| "mm_event_of (Bus_config payload command_id) = MM_config payload command_id"
| "mm_event_of (Bus_command env message) = MM_command env message"

definition mm_background :: "bus_event list \<Rightarrow> MMProcess \<Rightarrow> MMProcess" where
  "mm_background es p = (if mp_consumer_running p then p\<lparr>mp_runtime := run mm_step (map mm_event_of es) (mp_runtime p)\<rparr> else p)"

section \<open>Reports\<close>

record MMHealth =
  mh_mode :: string
  mh_trading_enabled :: bool
  mh_quoting_enabled :: bool
  mh_runtime_config :: RuntimeConfig
  mh_volume_progress :: "VolumeProgressReport option"
  mh_known_tickers :: nat
  mh_known_orderbooks :: nat
  mh_latest_ticker :: "(string, MarketPayload) dict"
  mh_latest_orderbook :: "(string, OrderBookSnapshot) dict"
  mh_latest_analytics :: "(string, MarketPayload) dict"
  mh_open_paper_orders :: nat
  mh_order_lifecycle :: "(string \<times> float) list"
  mh_paper_fills :: nat
  mh_metrics :: RuntimeMetrics

text \<open>The report forgets risk rejections older than an hour, because \<open>_order_lifecycle_metrics\<close> does. The uptime of the
  metrics, a reading of the monotonic clock, is not kept.\<close>

definition mm_health :: "datetime \<Rightarrow> MMHealth mm_op" where
  "mm_health now s =
     (case order_lifecycle_metrics now s of (lifecycle, s') \<Rightarrow>
       (Inr \<lparr>mh_mode = value_of_mode (mm_mode s), mh_trading_enabled = trading_enabled s, mh_quoting_enabled = quoting_enabled s,
          mh_runtime_config = mm_runtime_config s, mh_volume_progress = latest_volume_progress s,
          mh_known_tickers = length (latest_ticker s), mh_known_orderbooks = length (latest_orderbook s),
          mh_latest_ticker = latest_ticker s, mh_latest_orderbook = latest_orderbook s, mh_latest_analytics = latest_analytics s,
          mh_open_paper_orders = length (pe_open_orders (mm_paper s)), mh_order_lifecycle = lifecycle,
          mh_paper_fills = length (pe_fills (mm_paper s)), mh_metrics = mm_metrics s\<rparr>, s'))"

record MDHealth =
  dh_active_subscriptions :: nat
  dh_websocket_messages_received :: nat
  dh_connector_callback_invoked :: nat
  dh_runtime_handle_message_enter :: nat
  dh_normalization_attempt :: nat
  dh_normalization_success :: nat
  dh_redis_publish_success :: nat
  dh_last_websocket_message_timestamp :: "datetime option"
  dh_last_websocket_message_by_venue :: "(string, datetime) dict"
  dh_last_message_timestamp :: "(string, datetime) dict"
  dh_reconnect_count :: nat
  dh_sequence_gaps :: nat
  dh_connector_tasks_total :: nat
  dh_connector_tasks_running :: nat
  dh_connector_tasks_failed :: nat
  dh_raw_message_samples :: "(string \<times> obj list) list"
  dh_redis_publish_count :: nat
  dh_last_publish_timestamp :: "datetime option"
  dh_db_insert_count :: nat
  dh_market_data_rows_written :: nat
  dh_liquidity_rows_written :: nat
  dh_volatility_rows_written :: nat
  dh_last_db_insert_timestamp :: "datetime option"
  dh_websocket_state :: string
  dh_configured_trading_pairs_validated :: bool
  dh_configured_trading_pairs_count :: nat
  dh_metrics :: RuntimeMetrics

text \<open>What the connectors say of themselves: venue, \<open>callback_invocations\<close> and \<open>raw_message_samples\<close>.\<close>

type_synonym connector_report = "string \<times> nat \<times> obj list"

definition raw_message_samples :: "connector_report list \<Rightarrow> (string \<times> obj list) list" where
  "raw_message_samples reports = fold (\<lambda>(venue, _, samples) d. if samples = [] then d else dict_set venue samples d) reports []"

definition md_health :: "connector_report list \<Rightarrow> MarketDataRuntime \<Rightarrow> MDHealth" where
  "md_health reports s =
     \<lparr>dh_active_subscriptions = mr_active_subscriptions s, dh_websocket_messages_received = mr_websocket_messages_received s,
      dh_connector_callback_invoked = sum_list (map (\<lambda>(_, callbacks, _). callbacks) reports),
      dh_runtime_handle_message_enter = mr_handle_message_enter_count s, dh_normalization_attempt = mr_normalization_attempt_count s,
      dh_normalization_success = mr_normalization_success_count s, dh_redis_publish_success = mr_redis_publish_success_count s,
      dh_last_websocket_message_timestamp = mr_last_websocket_message_at s,
      dh_last_websocket_message_by_venue = mr_last_websocket_message_by_venue s, dh_last_message_timestamp = mr_last_message_at s,
      dh_reconnect_count = mr_reconnect_count s, dh_sequence_gaps = mr_sequence_gaps s, dh_connector_tasks_total = length (mr_tasks s),
      dh_connector_tasks_running = length (filter Not (mr_tasks s)), dh_connector_tasks_failed = length (filter id (mr_tasks s)),
      dh_raw_message_samples = raw_message_samples reports, dh_redis_publish_count = mr_redis_publish_count s,
      dh_last_publish_timestamp = mr_last_publish_at s, dh_db_insert_count = mr_db_insert_count s,
      dh_market_data_rows_written = mr_market_data_rows_written s, dh_liquidity_rows_written = mr_liquidity_rows_written s,
      dh_volatility_rows_written = mr_volatility_rows_written s, dh_last_db_insert_timestamp = mr_last_db_insert_at s,
      dh_websocket_state = (if mr_tasks s \<noteq> [] \<and> list_all Not (mr_tasks s) then ''active'' else ''disabled''),
      dh_configured_trading_pairs_validated = mr_pairs_validated s, dh_configured_trading_pairs_count = mr_pairs_count s,
      dh_metrics = mr_metrics s\<rparr>"

text \<open>Between its ticks the market data runtime handles the connectors' messages and commands.\<close>

datatype md_background_event = Bg_message ExecutionVenue "StreamSubscription list" obj | Bg_command "json res"

fun md_event_of :: "md_background_event \<Rightarrow> md_event" where
  "md_event_of (Bg_message venue subs message) = Md_message venue subs message"
| "md_event_of (Bg_command data) = Md_command data"

section \<open>A failed start\<close>

text \<open>
  A start that fails at the subscription is never made good: \<open>started\<close> is set before, so every later tick goes on
  without it, the consumer never runs and nothing of the bus is ever handled.
\<close>

lemma mm_tick_started:
  assumes "mp_started p"
  shows "mm_tick senv env p = (fst (tick env (mp_runtime p)), p\<lparr>mp_runtime := snd (tick env (mp_runtime p))\<rparr>)"
  using assms by (simp add: mm_tick_def mm_ensure_started_def on_runtime_def zoom_def seqm_def bindm_def split: prod.split)

definition life_step :: "start_env \<times> env \<times> bus_event list \<Rightarrow> MMProcess \<Rightarrow> MMProcess" where
  "life_step = (\<lambda>(senv, env, es) p. mm_background es (snd (mm_tick senv env p)))"

definition deaf :: "MMProcess \<Rightarrow> bool" where
  "deaf p \<longleftrightarrow> mp_started p \<and> \<not> mp_consumer_running p"

interpretation deafness: step_system life_step deaf
proof
  fix e p assume "deaf p"
  then show "deaf (life_step e p)"
    by (cases e) (simp add: life_step_def deaf_def mm_tick_started mm_background_def)
qed

lemma life_step_deaf: "deaf p \<Longrightarrow> mp_runtime (life_step (senv, env, es) p) = mm_step (MM_tick env) (mp_runtime p)"
  by (simp add: life_step_def deaf_def mm_tick_started mm_background_def)

lemma run_deaf: "deaf p \<Longrightarrow> mp_runtime (run life_step es p) = run mm_step (map (\<lambda>(_, env, _). MM_tick env) es) (mp_runtime p)"
proof (induction es arbitrary: p)
  case (Cons e es)
  obtain senv env bus where e: "e = (senv, env, bus)" by (cases e)
  have "deaf (life_step e p)" using Cons.prems by (rule deafness.step_inv)
  then show ?case using Cons by (simp add: e life_step_deaf)
qed simp

text \<open>
  When the first subscription fails the market maker is deaf for the rest of the process: whatever arrives on the bus,
  the runtime does the same as if only the ticks had happened, so that no command to stop is ever carried out.
\<close>

theorem failed_start_deafens:
  assumes "sv_psubscribe senv = Inl e" "\<not> mp_started p" "\<not> mp_consumer_running p"
  shows "fst (mm_tick senv env p) = Inl e
    \<and> mp_runtime (run life_step es (snd (mm_tick senv env p))) = run mm_step (map (\<lambda>(_, env, _). MM_tick env) es) (mp_runtime p)"
proof -
  have "mm_tick senv env p = (Inl e, p\<lparr>mp_started := True, mp_pubsub := True\<rparr>)"
    using assms by (simp add: mm_tick_def mm_ensure_started_def seqm_def bindm_def)
  moreover have "deaf (p\<lparr>mp_started := True, mp_pubsub := True\<rparr>)" using assms(3) by (simp add: deaf_def)
  ultimately show ?thesis using run_deaf[of "p\<lparr>mp_started := True, mp_pubsub := True\<rparr>" es] by simp
qed

definition example_start_env :: "unit res \<Rightarrow> start_env" where
  "example_start_env r = \<lparr>sv_psubscribe = r, sv_client = Inr (), sv_pubsub_close = Inr (), sv_coinstore_close = Inr ()\<rparr>"

theorem failed_start_deafens_witness:
  "mp_runtime (run life_step [(example_start_env (Inr ()), example_env,
        [Bus_command example_env \<lparr>cm_command_id = [], cm_command_type = ''EMERGENCY_SHUTDOWN'', cm_reason = [], cm_action = [], cm_runtime_config = None\<rparr>])]
      (snd (mm_tick (example_start_env (Inl (RuntimeError ''redis''))) example_env (MMProcess_init (example_runtime Mode_paper)))))
   = run mm_step [MM_tick example_env] (example_runtime Mode_paper)"
proof -
  have "sv_psubscribe (example_start_env (Inl (RuntimeError ''redis''))) = Inl (RuntimeError ''redis'')" by (simp add: example_start_env_def)
  from failed_start_deafens[OF this, of "MMProcess_init (example_runtime Mode_paper)" example_env
      "[(example_start_env (Inr ()), example_env,
         [Bus_command example_env \<lparr>cm_command_id = [], cm_command_type = ''EMERGENCY_SHUTDOWN'', cm_reason = [], cm_action = [], cm_runtime_config = None\<rparr>])]"]
  show ?thesis by (simp add: MMProcess_init_def)
qed

end
