(* ===== verification/Daemon.thy ===== *)
theory Daemon
  imports MM_Life
begin

text \<open>
  \<open>engines/runtime.py\<close>: the process that supervises an engine. It starts the engine, ticks it, commits what the tick
  has written, reports to a file and to Redis, rolls back and waits after an error, and shuts down when it is told to.

  The state is the record \<open>EngineDaemon\<close>. The tables as the database has them committed are kept beside the session's view
  of them, which is in the engine's runtime. One turn of the loop takes as argument what its calls answer
  (\<open>turn\<close>); the time of a snapshot and of its text, which \<open>fromisoformat\<close> reads back, are the same. The main task is never cancelled.
\<close>

section \<open>The engine and its tables\<close>

datatype engine_runtime = Market_data MarketDataRuntime | Market_maker MMProcess

record database_tables =
  dt_session :: "session option"
  dt_market_data :: "MarketDataRow list"
  dt_liquidity_metrics :: "LiquidityMetricRow list"
  dt_volatility_metrics :: "VolatilityMetricRow list"

definition without_supply :: "session \<Rightarrow> session" where
  "without_supply d = d\<lparr>uuid_supply := 0\<rparr>"

text \<open>What the session of an engine shows, without the supply of fresh identifiers.\<close>

fun tables_of :: "engine_runtime \<Rightarrow> database_tables" where
  "tables_of (Market_data r) = \<lparr>dt_session = map_option without_supply (mr_session r), dt_market_data = mr_market_data r,
     dt_liquidity_metrics = mr_liquidity_metrics r, dt_volatility_metrics = mr_volatility_metrics r\<rparr>"
| "tables_of (Market_maker p) = \<lparr>dt_session = Some (without_supply (pe_session (mm_paper (mp_runtime p)))), dt_market_data = [],
     dt_liquidity_metrics = [], dt_volatility_metrics = []\<rparr>"

text \<open>\<open>session.rollback()\<close>: the session shows the committed tables again. Fresh identifiers stay used.\<close>

definition restored :: "nat \<Rightarrow> session \<Rightarrow> session" where
  "restored supply t = t\<lparr>uuid_supply := supply\<rparr>"

fun session_rollback :: "database_tables \<Rightarrow> engine_runtime \<Rightarrow> engine_runtime" where
  "session_rollback t (Market_data r) =
     (let supply = (case mr_session r of None \<Rightarrow> 0 | Some d \<Rightarrow> uuid_supply d)
      in Market_data (r\<lparr>mr_session := map_option (restored supply) (dt_session t), mr_session_active := True, mr_market_data := dt_market_data t,
           mr_liquidity_metrics := dt_liquidity_metrics t, mr_volatility_metrics := dt_volatility_metrics t\<rparr>))"
| "session_rollback t (Market_maker p) =
     (let paper = mm_paper (mp_runtime p);
          session = (case dt_session t of None \<Rightarrow> pe_session paper | Some d \<Rightarrow> restored (uuid_supply (pe_session paper)) d)
      in Market_maker (p\<lparr>mp_runtime := (mp_runtime p)\<lparr>mm_paper := paper\<lparr>pe_session := session\<rparr>\<rparr>\<rparr>))"

text \<open>\<open>getattr(self.runtime, "handle_session_rollback", None)\<close>: only the market data runtime has the method.\<close>

fun rollback_handler :: "engine_runtime \<Rightarrow> engine_runtime" where
  "rollback_handler (Market_data r) = Market_data (snd (handle_session_rollback r))"
| "rollback_handler (Market_maker p) = Market_maker p"

section \<open>State\<close>

record EngineHealthSnapshot =
  hs_component_name :: string
  hs_status :: string
  hs_started_at :: datetime
  hs_last_heartbeat_at :: datetime
  hs_uptime_seconds :: float
  hs_loop_iterations :: nat
  hs_consecutive_errors :: nat
  hs_last_error :: "pyerr option"

datatype runtime_health = No_health | MM_report MMHealth | MD_report MDHealth

record Heartbeat =
  hb_key :: string
  hb_snapshot :: EngineHealthSnapshot
  hb_redis_ok :: bool
  hb_database_ok :: bool
  hb_runtime :: runtime_health
  hb_expires :: int

record EngineDaemon =
  ed_component_name :: string
  ed_heartbeat_interval_seconds :: float
  ed_started_at :: datetime
  ed_last_heartbeat_at :: datetime
  ed_loop_iterations :: nat
  ed_consecutive_errors :: nat
  ed_last_error :: "pyerr option"
  ed_shutdown_event :: bool
  ed_redis :: bool
  ed_database :: bool
  ed_session :: bool
  ed_runtime :: "engine_runtime option"
  ed_committed :: database_tables
  ed_health_file :: "EngineHealthSnapshot option"
  ed_health_log :: "EngineHealthSnapshot list"
  ed_heartbeats :: "Heartbeat list"
  ed_waits :: "float list"

type_synonym 'a ed_op = "(EngineDaemon, 'a) op"

definition EngineDaemon_init :: "datetime \<Rightarrow> string \<Rightarrow> float \<Rightarrow> database_tables \<Rightarrow> EngineDaemon" where
  "EngineDaemon_init now component_name interval tables =
     \<lparr>ed_component_name = component_name, ed_heartbeat_interval_seconds = interval, ed_started_at = now, ed_last_heartbeat_at = now,
      ed_loop_iterations = 0, ed_consecutive_errors = 0, ed_last_error = None, ed_shutdown_event = False, ed_redis = False,
      ed_database = False, ed_session = False, ed_runtime = None, ed_committed = tables, ed_health_file = None, ed_health_log = [],
      ed_heartbeats = [], ed_waits = []\<rparr>"

text \<open>What one turn of the loop meets: the clock, the answers of its calls in order, what happens on the bus and the streams while it
  waits, and whether a signal has come by the end of the wait.\<close>

record turn =
  tn_now :: datetime
  tn_redis_health :: "bool res"
  tn_database_health :: "bool res"
  tn_start :: start_env
  tn_mm :: env
  tn_md :: md_env
  tn_commit :: "unit res"
  tn_heartbeat :: "unit res"
  tn_write :: "unit res"
  tn_rollback :: "unit res"
  tn_error_write :: "unit res"
  tn_database_after :: "bool res"
  tn_error_heartbeat :: "unit res"
  tn_connectors :: "connector_report list"
  tn_bus :: "bus_event list"
  tn_streams :: "md_background_event list"
  tn_signal :: bool

section \<open>Reports\<close>

definition snapshot :: "datetime \<Rightarrow> string \<Rightarrow> EngineHealthSnapshot ed_op" where
  "snapshot now status =
     seqm (modifies (\<lambda>d. d\<lparr>ed_last_heartbeat_at := now\<rparr>))
       (reads (\<lambda>d. \<lparr>hs_component_name = ed_component_name d, hs_status = status, hs_started_at = ed_started_at d, hs_last_heartbeat_at = now,
          hs_uptime_seconds = total_seconds (now - ed_started_at d), hs_loop_iterations = ed_loop_iterations d,
          hs_consecutive_errors = ed_consecutive_errors d, hs_last_error = ed_last_error d\<rparr>))"

text \<open>The temporary file replaces the health file, so a write that fails leaves the old one.\<close>

definition write_health :: "unit res \<Rightarrow> datetime \<Rightarrow> string \<Rightarrow> unit ed_op" where
  "write_health written now status =
     bindm (snapshot now status) (\<lambda>h.
     seqm (lift_res written) (modifies (\<lambda>d. d\<lparr>ed_health_file := Some h, ed_health_log := ed_health_log d @ [h]\<rparr>)))"

fun runtime_health_of :: "turn \<Rightarrow> engine_runtime \<Rightarrow> runtime_health \<times> engine_runtime" where
  "runtime_health_of tn (Market_data r) = (MD_report (md_health (tn_connectors tn) r), Market_data r)"
| "runtime_health_of tn (Market_maker p) =
     (case mm_health (tn_now tn) (mp_runtime p) of (Inl _, m) \<Rightarrow> (No_health, Market_maker (p\<lparr>mp_runtime := m\<rparr>))
      | (Inr h, m) \<Rightarrow> (MM_report h, Market_maker (p\<lparr>mp_runtime := m\<rparr>)))"

definition runtime_health :: "turn \<Rightarrow> runtime_health ed_op" where
  "runtime_health tn d =
     (case ed_runtime d of None \<Rightarrow> (Inr No_health, d)
      | Some r \<Rightarrow> (case runtime_health_of tn r of (h, r') \<Rightarrow> (Inr h, d\<lparr>ed_runtime := Some r'\<rparr>)))"

definition publish_heartbeat :: "turn \<Rightarrow> unit res \<Rightarrow> bool \<Rightarrow> bool \<Rightarrow> string \<Rightarrow> unit ed_op" where
  "publish_heartbeat tn answer redis_ok database_ok status =
     bindm (reads ed_redis) (\<lambda>redis.
     if \<not> redis then ret ()
     else
       bindm (runtime_health tn) (\<lambda>health.
       bindm (snapshot (tn_now tn) status) (\<lambda>h.
       seqm (lift_res answer)
         (modifies (\<lambda>d. d\<lparr>ed_heartbeats := ed_heartbeats d @
            [\<lparr>hb_key = ''engine:health:'' @ ed_component_name d, hb_snapshot = h, hb_redis_ok = redis_ok, hb_database_ok = database_ok,
              hb_runtime = health, hb_expires = max 120 \<lfloor>ed_heartbeat_interval_seconds d * 3\<rfloor>\<rparr>]\<rparr>)))))"

section \<open>One turn\<close>

fun engine_tick :: "turn \<Rightarrow> engine_runtime \<Rightarrow> unit res \<times> engine_runtime" where
  "engine_tick tn (Market_data r) = (case md_tick (tn_md tn) r of (x, r') \<Rightarrow> (x, Market_data r'))"
| "engine_tick tn (Market_maker p) = (case mm_tick (tn_start tn) (tn_mm tn) p of (x, p') \<Rightarrow> (x, Market_maker p'))"

definition runtime_tick :: "turn \<Rightarrow> unit ed_op" where
  "runtime_tick tn d =
     (case ed_runtime d of None \<Rightarrow> (Inr (), d) | Some r \<Rightarrow> (case engine_tick tn r of (x, r') \<Rightarrow> (x, d\<lparr>ed_runtime := Some r'\<rparr>)))"

definition commit :: "unit res \<Rightarrow> unit ed_op" where
  "commit answer =
     seqm (lift_res answer) (modifies (\<lambda>d. case ed_runtime d of None \<Rightarrow> d | Some r \<Rightarrow> d\<lparr>ed_committed := tables_of r\<rparr>))"

definition service_tick :: "turn \<Rightarrow> unit ed_op" where
  "service_tick tn =
     seqm (modifies (\<lambda>d. d\<lparr>ed_loop_iterations := ed_loop_iterations d + 1\<rparr>)) (
     bindm (reads id) (\<lambda>d.
     if \<not> ed_redis d then raise_err (RuntimeError ''Redis manager is not initialized'')
     else
       bindm (lift_res (tn_redis_health tn)) (\<lambda>redis_ok.
       bindm (if ed_database d then lift_res (tn_database_health tn) else ret True) (\<lambda>database_ok.
       if \<not> redis_ok \<or> \<not> database_ok then raise_err (RuntimeError ''dependency health failed'')
       else
         seqm (runtime_tick tn) (
         seqm (if ed_session d then commit (tn_commit tn) else ret ()) (
         publish_heartbeat tn (tn_heartbeat tn) redis_ok database_ok ''healthy''))))))"

definition daemon_rollback :: "turn \<Rightarrow> unit ed_op" where
  "daemon_rollback tn =
     bindm (reads id) (\<lambda>d.
     seqm (if ed_session d
           then seqm (lift_res (tn_rollback tn)) (modifies (\<lambda>d. d\<lparr>ed_runtime := map_option (session_rollback (ed_committed d)) (ed_runtime d)\<rparr>))
           else ret ())
       (modifies (\<lambda>d. d\<lparr>ed_runtime := map_option rollback_handler (ed_runtime d)\<rparr>)))"

definition database_ok_after_error :: "turn \<Rightarrow> bool ed_op" where
  "database_ok_after_error tn =
     bindm (reads ed_database) (\<lambda>database. if \<not> database then ret False else catch (lift_res (tn_database_after tn)) (\<lambda>_. ret False))"

fun engine_background :: "turn \<Rightarrow> engine_runtime \<Rightarrow> engine_runtime" where
  "engine_background tn (Market_data r) = Market_data (run (md_step (tn_md tn)) (map md_event_of (tn_streams tn)) r)"
| "engine_background tn (Market_maker p) = Market_maker (mm_background (tn_bus tn) p)"

definition wait_for_shutdown :: "turn \<Rightarrow> float \<Rightarrow> unit ed_op" where
  "wait_for_shutdown tn timeout =
     modifies (\<lambda>d. d\<lparr>ed_waits := ed_waits d @ [timeout], ed_runtime := map_option (engine_background tn) (ed_runtime d),
       ed_shutdown_event := (ed_shutdown_event d \<or> tn_signal tn)\<rparr>)"

definition healthy_turn :: "turn \<Rightarrow> unit ed_op" where
  "healthy_turn tn =
     seqm (service_tick tn) (
     seqm (modifies (\<lambda>d. d\<lparr>ed_consecutive_errors := 0, ed_last_error := None\<rparr>)) (
     seqm (write_health (tn_write tn) (tn_now tn) ''healthy'') (
     bindm (reads ed_heartbeat_interval_seconds) (wait_for_shutdown tn))))"

definition error_turn :: "turn \<Rightarrow> pyerr \<Rightarrow> unit ed_op" where
  "error_turn tn e =
     seqm (daemon_rollback tn) (
     seqm (modifies (\<lambda>d. d\<lparr>ed_consecutive_errors := ed_consecutive_errors d + 1, ed_last_error := Some e\<rparr>)) (
     seqm (write_health (tn_error_write tn) (tn_now tn) ''degraded'') (
     bindm (reads ed_redis) (\<lambda>redis_ok.
     bindm (database_ok_after_error tn) (\<lambda>database_ok.
     seqm (publish_heartbeat tn (tn_error_heartbeat tn) redis_ok database_ok ''degraded'') (
     bindm (reads ed_consecutive_errors) (\<lambda>n. wait_for_shutdown tn (min 30 (max 1 (of_nat n))))))))))"

definition daemon_turn :: "turn \<Rightarrow> unit ed_op" where
  "daemon_turn tn = catch (healthy_turn tn) (error_turn tn)"

section \<open>The loop and the life of the process\<close>

text \<open>\<open>None\<close>: the given turns are used up and the daemon still runs.\<close>

fun daemon_loop :: "turn list \<Rightarrow> EngineDaemon \<Rightarrow> unit res option \<times> EngineDaemon" where
  "daemon_loop tns d =
     (if ed_shutdown_event d then (Some (Inr ()), d)
      else case tns of
        [] \<Rightarrow> (None, d)
      | tn # tns \<Rightarrow> (case daemon_turn tn d of (Inl e, d') \<Rightarrow> (Some (Inl e), d') | (Inr _, d') \<Rightarrow> daemon_loop tns d'))"

record shutdown_env =
  sh_now :: datetime
  sh_write_stopping :: "unit res"
  sh_start :: start_env
  sh_session_close :: "unit res"
  sh_redis_close :: "unit res"
  sh_database_close :: "unit res"
  sh_write_stopped :: "unit res"

definition stop_runtime :: "shutdown_env \<Rightarrow> unit ed_op" where
  "stop_runtime sh d =
     (case ed_runtime d of None \<Rightarrow> (Inr (), d)
      | Some (Market_data r) \<Rightarrow> (case md_stop r of (x, r') \<Rightarrow> (x, d\<lparr>ed_runtime := Some (Market_data r')\<rparr>))
      | Some (Market_maker p) \<Rightarrow> (case mm_stop (sh_start sh) p of (x, p') \<Rightarrow> (x, d\<lparr>ed_runtime := Some (Market_maker p')\<rparr>)))"

definition shutdown :: "shutdown_env \<Rightarrow> unit ed_op" where
  "shutdown sh =
     seqm (write_health (sh_write_stopping sh) (sh_now sh) ''stopping'') (
     seqm (stop_runtime sh) (
     bindm (reads id) (\<lambda>d.
     seqm (if ed_session d then lift_res (sh_session_close sh) else ret ()) (
     seqm (if ed_redis d then lift_res (sh_redis_close sh) else ret ()) (
     seqm (if ed_database d then lift_res (sh_database_close sh) else ret ()) (
     write_health (sh_write_stopped sh) (sh_now sh) ''stopped''))))))"

record boot_env =
  bo_now :: datetime
  bo_session :: session
  bo_config :: "RuntimeConfig res"
  bo_settings :: Settings
  bo_market_data_settings :: MarketDataSettings
  bo_mkdir :: "unit res"
  bo_write :: "unit res"

text \<open>\<open>_initialize_dependencies\<close>: a configuration that cannot be read is replaced by the defaults.\<close>

definition initialize_dependencies :: "boot_env \<Rightarrow> unit ed_op" where
  "initialize_dependencies bo =
     seqm (modifies (\<lambda>d. d\<lparr>ed_redis := True, ed_database := True, ed_session := True\<rparr>)) (
     let config = (case bo_config bo of Inr c \<Rightarrow> c | Inl _ \<Rightarrow> default_runtime_config) in
     bindm (reads ed_component_name) (\<lambda>name.
     if name = ''market-data-engine'' then
       modifies (\<lambda>d. d\<lparr>ed_runtime := Some (Market_data (MarketDataRuntime_init (bo_market_data_settings bo) (Some (bo_session bo))
         \<lparr>md_liquidity_settings = rc_liquidity config, trade_prices = []\<rparr> \<lparr>rm_counters = [], rm_gauges = []\<rparr>))\<rparr>)
     else if name = ''market-maker-engine'' then
       modifies (\<lambda>d. d\<lparr>ed_runtime := Some (Market_maker (MMProcess_init (MarketMakerRuntime_init (bo_now bo) (bo_settings bo) (bo_session bo)
         (QuoteEngine_init (rc_spread config) (rc_order_size config) (rc_inventory config) (Some (rc_order_layers config))) config)))\<rparr>)
     else raise_err (ValueError ''Unsupported engine component'')))"

definition daemon_boot :: "boot_env \<Rightarrow> unit ed_op" where
  "daemon_boot bo =
     seqm (lift_res (bo_mkdir bo)) (
     seqm (initialize_dependencies bo) (
     write_health (bo_write bo) (bo_now bo) ''starting''))"

text \<open>The shutdown is in a \<open>finally\<close> around the loop, so what it raises replaces the outcome of the loop; the boot is not.\<close>

definition daemon_run :: "boot_env \<Rightarrow> turn list \<Rightarrow> shutdown_env \<Rightarrow> EngineDaemon \<Rightarrow> unit res option \<times> EngineDaemon" where
  "daemon_run bo tns sh d =
     (case daemon_boot bo d of
        (Inl e, d1) \<Rightarrow> (Some (Inl e), d1)
      | (Inr _, d1) \<Rightarrow> (case daemon_loop tns d1 of
          (None, d2) \<Rightarrow> (None, d2)
        | (Some r, d2) \<Rightarrow> (case shutdown sh d2 of (Inl e, d3) \<Rightarrow> (Some (Inl e), d3) | (Inr _, d3) \<Rightarrow> (Some r, d3))))"

definition stop_daemon :: "unit ed_op" where
  "stop_daemon = modifies (\<lambda>d. d\<lparr>ed_shutdown_event := True\<rparr>)"

definition read_health :: "datetime \<Rightarrow> float \<Rightarrow> EngineHealthSnapshot res \<Rightarrow> EngineHealthSnapshot res" where
  "read_health now max_age_seconds file =
     bindr file (\<lambda>h.
     let age = total_seconds (now - hs_last_heartbeat_at h)
     in if hs_status h \<noteq> ''healthy'' then Inl (RuntimeError ''health status'')
        else if age > max_age_seconds then Inl (RuntimeError ''heartbeat is stale'')
        else Inr h)"

end
