(* ===== verification/Daemon_Safety.thy ===== *)
theory Daemon_Safety
  imports Daemon
begin

text \<open>
  What the supervision of an engine guarantees: ticks reach the database whole or not at all, the reports follow the life of the
  process, waits are bounded, the paper account survives rollbacks; and what it does not: an outage of Redis ends the
  process, and the market maker keeps identifiers of rows that were rolled back.
\<close>

section \<open>Runs of effects\<close>

lemma seqm_run: "seqm m n s = (case m s of (Inl e, t) \<Rightarrow> (Inl e, t) | (Inr _, t) \<Rightarrow> n t)"
  by (simp add: seqm_def bindm_def)

section \<open>Tables\<close>

fun is_maker :: "engine_runtime \<Rightarrow> bool" where
  "is_maker (Market_data _) = False"
| "is_maker (Market_maker _) = True"

definition tables_fit :: "bool \<Rightarrow> database_tables \<Rightarrow> bool" where
  "tables_fit maker t \<longleftrightarrow> map_option without_supply (dt_session t) = dt_session t
     \<and> (maker \<longrightarrow> dt_session t \<noteq> None \<and> dt_market_data t = [] \<and> dt_liquidity_metrics t = [] \<and> dt_volatility_metrics t = [])"

lemma tables_of_fit: "tables_fit (is_maker r) (tables_of r)"
  by (cases r) (auto simp: tables_fit_def without_supply_def option.map_comp comp_def intro!: option.map_cong)

lemma session_rollback_tables: "tables_fit (is_maker r) t \<Longrightarrow> tables_of (session_rollback t r) = t"
  by (cases r; cases "dt_session t") (auto simp: tables_fit_def without_supply_def restored_def Let_def option.map_comp comp_def intro!: database_tables.equality)

lemma rollback_handler_tables [simp]: "tables_of (rollback_handler r) = tables_of r" "is_maker (rollback_handler r) = is_maker r"
  by (cases r; simp add: handle_session_rollback_def)+

lemma session_rollback_maker [simp]: "is_maker (session_rollback t r) = is_maker r"
  by (cases r) (simp_all add: Let_def)

lemma engine_kind [simp]:
  "is_maker (snd (engine_tick tn r)) = is_maker r" "is_maker (engine_background tn r) = is_maker r" "is_maker (snd (runtime_health_of tn r)) = is_maker r"
  by (cases r; simp split: prod.split sum.split)+

lemma health_tables [simp]: "tables_of (snd (runtime_health_of tn r)) = tables_of r"
  by (cases r) (simp_all add: mm_health_def order_lifecycle_metrics_def Let_def split: prod.split sum.split)

text \<open>A daemon whose parts are all there.\<close>

definition ready :: "EngineDaemon \<Rightarrow> bool" where
  "ready d \<longleftrightarrow> ed_redis d \<and> ed_database d \<and> ed_session d
     \<and> (\<exists>r. ed_runtime d = Some r \<and> tables_fit (is_maker r) (ed_committed d))"

section \<open>The parts of a turn\<close>

lemma write_health_cases:
  obtains h where "write_health w now status d = (w, case w of Inl _ \<Rightarrow> d\<lparr>ed_last_heartbeat_at := now\<rparr>
      | Inr _ \<Rightarrow> d\<lparr>ed_last_heartbeat_at := now, ed_health_file := Some h, ed_health_log := ed_health_log d @ [h]\<rparr>)"
    "hs_status h = status" "hs_last_heartbeat_at h = now"
  by (rule that[of "\<lparr>hs_component_name = ed_component_name d, hs_status = status, hs_started_at = ed_started_at d, hs_last_heartbeat_at = now,
          hs_uptime_seconds = total_seconds (now - ed_started_at d), hs_loop_iterations = ed_loop_iterations d,
          hs_consecutive_errors = ed_consecutive_errors d, hs_last_error = ed_last_error d\<rparr>"])
    (cases w; simp add: write_health_def snapshot_def seqm_run bindm_def)+

lemma heartbeats_same [simp]: "d\<lparr>ed_heartbeats := ed_heartbeats d\<rparr> = d"
  by (rule EngineDaemon.equality) simp_all

lemma publish_heartbeat_run:
  assumes "ed_redis d" "ed_runtime d = Some r" "runtime_health_of tn r = (health, r')"
  shows "\<exists>hb. publish_heartbeat tn a redis_ok database_ok status d =
    (a, d\<lparr>ed_runtime := Some r', ed_last_heartbeat_at := tn_now tn, ed_heartbeats := (case a of Inl _ \<Rightarrow> ed_heartbeats d | Inr _ \<Rightarrow> ed_heartbeats d @ [hb])\<rparr>)"
  using assms by (cases a) (simp_all add: publish_heartbeat_def runtime_health_def snapshot_def seqm_run bindm_def, blast)

lemma publish_heartbeat_cases:
  assumes "ed_redis d" "ed_runtime d = Some r"
  obtains hbs where "publish_heartbeat tn a redis_ok database_ok status d =
    (a, d\<lparr>ed_runtime := Some (snd (runtime_health_of tn r)), ed_last_heartbeat_at := tn_now tn, ed_heartbeats := hbs\<rparr>)"
  using publish_heartbeat_run[OF assms, of tn "fst (runtime_health_of tn r)" "snd (runtime_health_of tn r)" a redis_ok database_ok status] by auto

text \<open>What a part of a turn changes.\<close>

definition moved :: "EngineDaemon \<Rightarrow> EngineDaemon \<Rightarrow> bool" where
  "moved d d' \<longleftrightarrow> ed_component_name d' = ed_component_name d \<and> ed_heartbeat_interval_seconds d' = ed_heartbeat_interval_seconds d
     \<and> ed_started_at d' = ed_started_at d \<and> ed_consecutive_errors d' = ed_consecutive_errors d \<and> ed_last_error d' = ed_last_error d
     \<and> ed_shutdown_event d' = ed_shutdown_event d \<and> ed_redis d' = ed_redis d \<and> ed_database d' = ed_database d \<and> ed_session d' = ed_session d
     \<and> ed_health_file d' = ed_health_file d \<and> ed_health_log d' = ed_health_log d \<and> ed_waits d' = ed_waits d"

definition tick_lands :: "turn \<Rightarrow> engine_runtime \<Rightarrow> bool" where
  "tick_lands tn r \<longleftrightarrow> tn_redis_health tn = Inr True \<and> tn_database_health tn = Inr True \<and> fst (engine_tick tn r) = Inr () \<and> tn_commit tn = Inr ()"

lemma service_tick_cases:
  assumes "ready d" "ed_runtime d = Some r"
  obtains x d' r' where "service_tick tn d = (x, d')" "moved d d'" "ed_runtime d' = Some r'" "is_maker r' = is_maker r"
    "ed_committed d' = (if tick_lands tn r then tables_of (snd (engine_tick tn r)) else ed_committed d)"
    "x = Inr () \<longleftrightarrow> tick_lands tn r \<and> tn_heartbeat tn = Inr ()" "x = Inr () \<longrightarrow> tables_of r' = ed_committed d'"
proof -
  let ?d = "d\<lparr>ed_loop_iterations := ed_loop_iterations d + 1\<rparr>"
  let ?healthy = "tn_redis_health tn = Inr True \<and> tn_database_health tn = Inr True"
  obtain y r1 where tick: "engine_tick tn r = (y, r1)" by (cases "engine_tick tn r")
  have r1: "is_maker r1 = is_maker r" using engine_kind(1)[of tn r] tick by simp
  consider "\<not> ?healthy" | (failed) e where "?healthy" "y = Inl e" | (commit) e where "?healthy" "y = Inr ()" "tn_commit tn = Inl e"
    | (lands) "?healthy" "y = Inr ()" "tn_commit tn = Inr ()"
    by (cases y; cases "tn_commit tn") auto
  then show thesis
  proof cases
    case 1
    have "ed_redis d" "ed_database d" using assms by (simp_all add: ready_def)
    then obtain e where "service_tick tn d = (Inl e, ?d)"
      using 1 by (cases "tn_redis_health tn"; cases "tn_database_health tn") (simp_all add: service_tick_def)
    moreover have "moved d ?d" by (simp add: moved_def)
    moreover have "\<not> tick_lands tn r" using 1 by (auto simp: tick_lands_def)
    ultimately show ?thesis by (intro that[of "Inl e" ?d r]) (use assms(2) in simp_all)
  next
    case (failed e)
    have "service_tick tn d = (Inl e, ?d\<lparr>ed_runtime := Some r1\<rparr>)"
      using failed assms tick by (simp add: service_tick_def ready_def runtime_tick_def seqm_run)
    moreover have "moved d (?d\<lparr>ed_runtime := Some r1\<rparr>)" by (simp add: moved_def)
    ultimately show ?thesis by (rule that[of _ _ r1]) (use failed tick r1 in \<open>simp_all add: tick_lands_def\<close>)
  next
    case (commit e)
    have "service_tick tn d = (Inl e, ?d\<lparr>ed_runtime := Some r1\<rparr>)"
      using commit assms tick by (simp add: service_tick_def ready_def runtime_tick_def seqm_run commit_def)
    moreover have "moved d (?d\<lparr>ed_runtime := Some r1\<rparr>)" by (simp add: moved_def)
    ultimately show ?thesis by (rule that[of _ _ r1]) (use commit tick r1 in \<open>simp_all add: tick_lands_def\<close>)
  next
    case lands
    let ?t = "?d\<lparr>ed_runtime := Some r1, ed_committed := tables_of r1\<rparr>"
    obtain hbs where hbs: "publish_heartbeat tn (tn_heartbeat tn) True True ''healthy'' ?t =
        (tn_heartbeat tn, ?t\<lparr>ed_runtime := Some (snd (runtime_health_of tn r1)), ed_last_heartbeat_at := tn_now tn, ed_heartbeats := hbs\<rparr>)"
      by (rule publish_heartbeat_cases[of ?t r1]) (use assms in \<open>simp_all add: ready_def\<close>)
    let ?u = "?t\<lparr>ed_runtime := Some (snd (runtime_health_of tn r1)), ed_last_heartbeat_at := tn_now tn, ed_heartbeats := hbs\<rparr>"
    have "service_tick tn d = (tn_heartbeat tn, ?u)"
      using lands assms tick hbs by (simp add: service_tick_def ready_def runtime_tick_def seqm_run commit_def)
    moreover have "moved d ?u" by (simp add: moved_def)
    ultimately show ?thesis by (rule that[of _ _ "snd (runtime_health_of tn r1)"]) (use lands tick r1 in \<open>simp_all add: tick_lands_def\<close>)
  qed
qed

text \<open>What a turn leaves: \<open>logged\<close> are the statuses it has written and \<open>waited\<close> its wait, both in order.\<close>

definition went :: "EngineDaemon \<Rightarrow> EngineDaemon \<Rightarrow> string list \<Rightarrow> float list \<Rightarrow> bool" where
  "went d d' logged waited \<longleftrightarrow> ed_component_name d' = ed_component_name d \<and> ed_heartbeat_interval_seconds d' = ed_heartbeat_interval_seconds d
     \<and> ed_redis d' = ed_redis d \<and> ed_database d' = ed_database d \<and> ed_session d' = ed_session d
     \<and> (\<exists>hs. ed_health_log d' = ed_health_log d @ hs \<and> map hs_status hs = logged
          \<and> ed_health_file d' = (if hs = [] then ed_health_file d else Some (last hs)))
     \<and> ed_waits d' = ed_waits d @ waited"

lemma moved_went: "moved d d' \<Longrightarrow> went d d' [] []"
  by (simp add: moved_def went_def)

lemma went_trans:
  assumes "went d d1 a b" "went d1 d2 a' b'"
  shows "went d d2 (a @ a') (b @ b')"
proof -
  obtain hs hs' where "ed_health_log d1 = ed_health_log d @ hs" "map hs_status hs = a" "ed_health_file d1 = (if hs = [] then ed_health_file d else Some (last hs))"
    "ed_health_log d2 = ed_health_log d1 @ hs'" "map hs_status hs' = a'" "ed_health_file d2 = (if hs' = [] then ed_health_file d1 else Some (last hs'))"
    using assms by (auto simp: went_def)
  then show ?thesis using assms unfolding went_def by (intro conjI exI[of _ "hs @ hs'"]) simp_all
qed

lemma write_health_went:
  obtains d' where "write_health w now status d = (w, d')" "went d d' (if w = Inr () then [status] else []) []"
    "ed_runtime d' = ed_runtime d" "ed_committed d' = ed_committed d" "ed_consecutive_errors d' = ed_consecutive_errors d"
    "ed_shutdown_event d' = ed_shutdown_event d"
proof -
  obtain h where h: "write_health w now status d = (w, case w of Inl _ \<Rightarrow> d\<lparr>ed_last_heartbeat_at := now\<rparr>
      | Inr _ \<Rightarrow> d\<lparr>ed_last_heartbeat_at := now, ed_health_file := Some h, ed_health_log := ed_health_log d @ [h]\<rparr>)" "hs_status h = status"
    by (rule write_health_cases)
  show ?thesis by (rule that[OF h(1)]) (cases w; simp add: went_def h(2))+
qed

lemma error_turn_cases:
  assumes "ready d" "ed_runtime d = Some r"
  obtains x d' r' logged waited where "error_turn tn e d = (x, d')" "went d d' logged waited" "ed_committed d' = ed_committed d"
    "ed_runtime d' = Some r'" "is_maker r' = is_maker r" "set logged \<subseteq> {''degraded''}"
    "x = Inr () \<longleftrightarrow> tn_rollback tn = Inr () \<and> tn_error_write tn = Inr () \<and> tn_error_heartbeat tn = Inr ()"
    "x = Inr () \<longrightarrow> logged = [''degraded''] \<and> waited = [min 30 (of_nat (ed_consecutive_errors d + 1))]
       \<and> ed_consecutive_errors d' = ed_consecutive_errors d + 1 \<and> (\<exists>s. r' = engine_background tn s \<and> tables_of s = ed_committed d)
       \<and> ed_shutdown_event d' = (ed_shutdown_event d \<or> tn_signal tn)"
    "x \<noteq> Inr () \<longrightarrow> waited = []"
proof (cases "tn_rollback tn")
  case (Inl e')
  have "error_turn tn e d = (Inl e', d)"
    using Inl assms by (simp add: error_turn_def daemon_rollback_def ready_def seqm_run)
  moreover have "went d d [] []" by (simp add: went_def)
  ultimately show ?thesis by (rule that) (use Inl assms in simp_all)
next
  case (Inr u)
  define s where "s = rollback_handler (session_rollback (ed_committed d) r)"
  define d1 where "d1 = d\<lparr>ed_runtime := Some s, ed_consecutive_errors := ed_consecutive_errors d + 1, ed_last_error := Some e\<rparr>"
  have s: "tables_of s = ed_committed d" "is_maker s = is_maker r"
    using assms by (auto simp: s_def ready_def session_rollback_tables)
  have d1: "ed_redis d1" "ed_database d1" "ed_runtime d1 = Some s" using assms by (simp_all add: d1_def ready_def)
  have w1: "went d d1 [] []" by (simp add: went_def d1_def)
  obtain d2 where d2: "write_health (tn_error_write tn) (tn_now tn) ''degraded'' d1 = (tn_error_write tn, d2)"
    "went d1 d2 (if tn_error_write tn = Inr () then [''degraded''] else []) []" "ed_runtime d2 = ed_runtime d1"
    "ed_committed d2 = ed_committed d1" "ed_consecutive_errors d2 = ed_consecutive_errors d1" "ed_shutdown_event d2 = ed_shutdown_event d1"
    by (rule write_health_went)
  have w2: "went d d2 (if tn_error_write tn = Inr () then [''degraded''] else []) []" using went_trans[OF w1 d2(2)] by simp
  let ?rest = "bindm (reads ed_redis) (\<lambda>redis_ok. bindm (database_ok_after_error tn) (\<lambda>database_ok.
     seqm (publish_heartbeat tn (tn_error_heartbeat tn) redis_ok database_ok ''degraded'') (
     bindm (reads ed_consecutive_errors) (\<lambda>n. wait_for_shutdown tn (min 30 (max 1 (of_nat n)))))))"
  have run: "error_turn tn e d = (case tn_error_write tn of Inl e \<Rightarrow> (Inl e, d2) | Inr _ \<Rightarrow> ?rest d2)"
    using Inr assms d2(1) unfolding s_def d1_def
    by (simp add: error_turn_def daemon_rollback_def ready_def seqm_run)
  show ?thesis
  proof (cases "tn_error_write tn")
    case (Inl e')
    show ?thesis by (rule that[of "Inl e'" d2 "[]" "[]" s]) (use w2 Inl run d2 d1 s in \<open>simp_all add: d1_def\<close>)
  next
    case (Inr u')
    have "ed_redis d2" "ed_database d2" "ed_runtime d2 = Some s" using d2(2,3) d1 by (simp_all add: went_def)
    then have "\<exists>ok. database_ok_after_error tn d2 = (Inr ok, d2)"
      by (cases "tn_database_after tn") (auto simp: database_ok_after_error_def catch_def intro: exI[of _ False])
    then obtain ok where ok: "database_ok_after_error tn d2 = (Inr ok, d2)" by blast
    obtain hbs where hbs: "publish_heartbeat tn (tn_error_heartbeat tn) True ok ''degraded'' d2 =
      (tn_error_heartbeat tn, d2\<lparr>ed_runtime := Some (snd (runtime_health_of tn s)), ed_last_heartbeat_at := tn_now tn, ed_heartbeats := hbs\<rparr>)"
      by (rule publish_heartbeat_cases[OF \<open>ed_redis d2\<close> \<open>ed_runtime d2 = Some s\<close>])
    define d3 where "d3 = d2\<lparr>ed_runtime := Some (snd (runtime_health_of tn s)), ed_last_heartbeat_at := tn_now tn, ed_heartbeats := hbs\<rparr>"
    have w3: "went d d3 [''degraded''] []" using w2 Inr by (simp add: d3_def went_def)
    show ?thesis
    proof (cases "tn_error_heartbeat tn")
      case (Inl e')
      have "error_turn tn e d = (Inl e', d3)" using run Inr hbs ok Inl \<open>ed_redis d2\<close> by (simp add: seqm_run bindm_def d3_def)
      then show ?thesis using w3 by (rule that[where r' = "snd (runtime_health_of tn s)"]) (use Inl d2 s in \<open>simp_all add: d3_def d1_def\<close>)
    next
      case (Inr u'')
      let ?n = "min 30 (of_nat (ed_consecutive_errors d + 1)) :: float"
      let ?d4 = "d3\<lparr>ed_waits := ed_waits d3 @ [?n], ed_runtime := map_option (engine_background tn) (ed_runtime d3),
          ed_shutdown_event := (ed_shutdown_event d3 \<or> tn_signal tn)\<rparr>"
      have "ed_consecutive_errors d3 = ed_consecutive_errors d + 1" using d2 by (simp add: d3_def d1_def)
      then have "error_turn tn e d = (Inr (), ?d4)"
        using run \<open>tn_error_write tn = Inr u'\<close> hbs ok Inr \<open>ed_redis d2\<close>
        by (simp add: seqm_run bindm_def d3_def[symmetric] wait_for_shutdown_def del: of_nat_Suc)
      moreover have "went d ?d4 [''degraded''] [?n]" using w3 by (simp add: went_def)
      ultimately show ?thesis
        by (rule that[where r' = "engine_background tn (snd (runtime_health_of tn s))"]) (use Inr \<open>tn_error_write tn = Inr u'\<close> \<open>tn_rollback tn = Inr u\<close> d2 s in \<open>auto simp: d3_def d1_def\<close>)
    qed
  qed
qed

text \<open>The number of the wait after a failed turn.\<close>

definition error_number :: "turn \<Rightarrow> engine_runtime \<Rightarrow> EngineDaemon \<Rightarrow> nat" where
  "error_number tn r d = (if tick_lands tn r \<and> tn_heartbeat tn = Inr () then 1 else ed_consecutive_errors d + 1)"

definition turn_succeeds :: "turn \<Rightarrow> engine_runtime \<Rightarrow> bool" where
  "turn_succeeds tn r \<longleftrightarrow> tick_lands tn r \<and> tn_heartbeat tn = Inr () \<and> tn_write tn = Inr ()"

definition recovers :: "turn \<Rightarrow> bool" where
  "recovers tn \<longleftrightarrow> tn_rollback tn = Inr () \<and> tn_error_write tn = Inr () \<and> tn_error_heartbeat tn = Inr ()"

lemma daemon_turn_cases:
  assumes "ready d" "ed_runtime d = Some r"
  obtains x d' r' logged waited where "daemon_turn tn d = (x, d')" "went d d' logged waited"
    "ed_committed d' = (if tick_lands tn r then tables_of (snd (engine_tick tn r)) else ed_committed d)"
    "ed_runtime d' = Some r'" "is_maker r' = is_maker r" "set logged \<subseteq> {''healthy'', ''degraded''}"
    "x = Inr () \<longleftrightarrow> turn_succeeds tn r \<or> recovers tn"
    "x = Inr () \<longrightarrow> (\<exists>s. r' = engine_background tn s \<and> tables_of s = ed_committed d') \<and> ed_shutdown_event d' = (ed_shutdown_event d \<or> tn_signal tn)
       \<and> (if turn_succeeds tn r then logged = [''healthy''] \<and> waited = [ed_heartbeat_interval_seconds d] \<and> ed_consecutive_errors d' = 0
          else logged = [''degraded''] \<and> waited = [min 30 (of_nat (error_number tn r d))] \<and> ed_consecutive_errors d' = error_number tn r d)"
    "x \<noteq> Inr () \<longrightarrow> waited = [] \<and> set logged \<subseteq> {''degraded''}"
proof -
  note outcome = that
  obtain y d1 r1 where d1: "service_tick tn d = (y, d1)" "moved d d1" "ed_runtime d1 = Some r1" "is_maker r1 = is_maker r"
    "ed_committed d1 = (if tick_lands tn r then tables_of (snd (engine_tick tn r)) else ed_committed d)"
    "y = Inr () \<longleftrightarrow> tick_lands tn r \<and> tn_heartbeat tn = Inr ()" "y = Inr () \<longrightarrow> tables_of r1 = ed_committed d1"
    by (rule service_tick_cases[OF assms])
  have fit: "tables_fit (is_maker r) (ed_committed d1)"
    using assms d1(5) tables_of_fit[of "snd (engine_tick tn r)"] by (auto simp: ready_def)
  have failing: thesis if h: "healthy_turn tn d = (Inl e, d2)" "went d d2 [] []" "ed_committed d2 = ed_committed d1" "ed_runtime d2 = Some r1"
    "ed_consecutive_errors d2 + 1 = error_number tn r d" "ed_shutdown_event d2 = ed_shutdown_event d" "\<not> turn_succeeds tn r" for e d2
  proof -
    have r2: "ready d2" using h(2,3,4) assms d1(4) fit by (auto simp: ready_def went_def)
    obtain x d' r' logged waited where e: "error_turn tn e d2 = (x, d')" "went d2 d' logged waited" "ed_committed d' = ed_committed d2"
      "ed_runtime d' = Some r'" "is_maker r' = is_maker r1" "set logged \<subseteq> {''degraded''}"
      "x = Inr () \<longleftrightarrow> tn_rollback tn = Inr () \<and> tn_error_write tn = Inr () \<and> tn_error_heartbeat tn = Inr ()"
      "x = Inr () \<longrightarrow> logged = [''degraded''] \<and> waited = [min 30 (of_nat (ed_consecutive_errors d2 + 1))]
         \<and> ed_consecutive_errors d' = ed_consecutive_errors d2 + 1 \<and> (\<exists>s. r' = engine_background tn s \<and> tables_of s = ed_committed d2)
         \<and> ed_shutdown_event d' = (ed_shutdown_event d2 \<or> tn_signal tn)"
      "x \<noteq> Inr () \<longrightarrow> waited = []"
      by (rule error_turn_cases[OF r2 h(4)])
    have 1: "daemon_turn tn d = (x, d')" using h(1) e(1) by (simp add: daemon_turn_def catch_def)
    have 2: "went d d' logged waited" using went_trans[OF h(2) e(2)] by simp
    have 3: "x = Inr () \<longrightarrow> (\<exists>s. r' = engine_background tn s \<and> tables_of s = ed_committed d') \<and> ed_shutdown_event d' = (ed_shutdown_event d \<or> tn_signal tn)
       \<and> (if turn_succeeds tn r then logged = [''healthy''] \<and> waited = [ed_heartbeat_interval_seconds d] \<and> ed_consecutive_errors d' = 0
          else logged = [''degraded''] \<and> waited = [min 30 (of_nat (error_number tn r d))] \<and> ed_consecutive_errors d' = error_number tn r d)"
      using e(8)[unfolded h(5)] e(3) h(3,6,7) by simp
    show thesis
      by (rule outcome[OF 1 2 _ e(4) _ _ _ 3]) (use e(3,5,6,7,9) h(3,7) d1(4,5) in \<open>auto simp: recovers_def\<close>)
  qed
  show thesis
  proof (cases y)
    case (Inl e)
    show thesis
      by (rule failing[of e d1]) (use Inl d1 moved_went[OF d1(2)] in \<open>auto simp: healthy_turn_def seqm_run error_number_def turn_succeeds_def moved_def\<close>)
  next
    case (Inr u)
    let ?d = "d1\<lparr>ed_consecutive_errors := 0, ed_last_error := None\<rparr>"
    obtain d2 where d2: "write_health (tn_write tn) (tn_now tn) ''healthy'' ?d = (tn_write tn, d2)"
      "went ?d d2 (if tn_write tn = Inr () then [''healthy''] else []) []" "ed_runtime d2 = ed_runtime ?d"
      "ed_committed d2 = ed_committed ?d" "ed_consecutive_errors d2 = ed_consecutive_errors ?d" "ed_shutdown_event d2 = ed_shutdown_event ?d"
      by (rule write_health_went)
    have "went d ?d [] []" using moved_went[OF d1(2)] by (simp add: went_def)
    then have w: "went d d2 (if tn_write tn = Inr () then [''healthy''] else []) []" using went_trans[OF _ d2(2)] by fastforce
    have run: "healthy_turn tn d = (case tn_write tn of Inl e \<Rightarrow> (Inl e, d2)
        | Inr _ \<Rightarrow> wait_for_shutdown tn (ed_heartbeat_interval_seconds d2) d2)"
      using d1(1) d2(1) Inr by (simp add: healthy_turn_def seqm_run split: sum.split)
    show thesis
    proof (cases "tn_write tn")
      case (Inl e)
      show thesis
        by (rule failing[of e d2]) (use Inl Inr run w d1 d2 in \<open>simp_all add: error_number_def turn_succeeds_def moved_def\<close>)
    next
      case (Inr u')
      let ?d3 = "d2\<lparr>ed_waits := ed_waits d2 @ [ed_heartbeat_interval_seconds d2], ed_runtime := map_option (engine_background tn) (ed_runtime d2),
          ed_shutdown_event := (ed_shutdown_event d2 \<or> tn_signal tn)\<rparr>"
      have "daemon_turn tn d = (Inr (), ?d3)" using run Inr by (simp add: daemon_turn_def catch_def wait_for_shutdown_def)
      moreover have "went d ?d3 [''healthy''] [ed_heartbeat_interval_seconds d]" using w Inr by (simp add: went_def)
      moreover have "turn_succeeds tn r" using Inr \<open>y = Inr u\<close> d1(6) by (simp add: turn_succeeds_def)
      ultimately show thesis
        by (intro outcome[of "Inr ()" ?d3 "[''healthy'']" "[ed_heartbeat_interval_seconds d]" "engine_background tn r1"])
          (use d1 d2 \<open>y = Inr u\<close> in \<open>auto simp: moved_def\<close>)
    qed
  qed
qed

section \<open>Ticks reach the database whole\<close>

lemma daemon_turn_effect:
  assumes "ready d" "ed_runtime d = Some r" "daemon_turn tn d = (x, d')"
  shows "ed_committed d' = (if tick_lands tn r then tables_of (snd (engine_tick tn r)) else ed_committed d)"
    and "\<exists>r'. ed_runtime d' = Some r' \<and> is_maker r' = is_maker r"
    and "x = Inr () \<longrightarrow> (\<exists>s. ed_runtime d' = Some (engine_background tn s) \<and> tables_of s = ed_committed d')
          \<and> ed_shutdown_event d' = (ed_shutdown_event d \<or> tn_signal tn)"
    and "x = Inr () \<longleftrightarrow> turn_succeeds tn r \<or> recovers tn"
    and "x = Inr () \<Longrightarrow> turn_succeeds tn r \<Longrightarrow> went d d' [''healthy''] [ed_heartbeat_interval_seconds d] \<and> ed_consecutive_errors d' = 0"
    and "x = Inr () \<Longrightarrow> \<not> turn_succeeds tn r \<Longrightarrow> went d d' [''degraded''] [min 30 (of_nat (error_number tn r d))]
          \<and> ed_consecutive_errors d' = error_number tn r d"
    and "x \<noteq> Inr () \<Longrightarrow> \<exists>logged. went d d' logged [] \<and> set logged \<subseteq> {''degraded''}"
  by (rule daemon_turn_cases[OF assms(1,2), of tn]; use assms(3) in \<open>fastforce split: if_splits\<close>)+

text \<open>
  C22. A turn of the daemon is all or nothing for the database: the committed tables become those the engine shows after its whole tick
  exactly when Redis and the database are healthy and the tick and the commit succeed, and stay as they were otherwise. A turn the daemon
  survives leaves the engine's session in agreement with the committed tables, up to what arrives while it waits.
\<close>

theorem turn_commits_whole_ticks:
  assumes "ready d" "ed_runtime d = Some r" "daemon_turn tn d = (x, d')"
  shows "ed_committed d' = (if tn_redis_health tn = Inr True \<and> tn_database_health tn = Inr True \<and> fst (engine_tick tn r) = Inr () \<and> tn_commit tn = Inr ()
      then tables_of (snd (engine_tick tn r)) else ed_committed d)
    \<and> (x = Inr () \<longrightarrow> (\<exists>s. ed_runtime d' = Some (engine_background tn s) \<and> tables_of s = ed_committed d'))"
  using daemon_turn_effect(1,3)[OF assms] by (simp add: tick_lands_def)

section \<open>Runs\<close>

lemma daemon_turn_went:
  assumes "ready d" "daemon_turn tn d = (x, d')"
  obtains logged waited where "went d d' logged waited" "set logged \<subseteq> {''healthy'', ''degraded''}"
    "\<forall>w \<in> set waited. w = ed_heartbeat_interval_seconds d \<or> 1 \<le> w \<and> w \<le> 30"
proof -
  obtain r where r: "ed_runtime d = Some r" using assms(1) by (auto simp: ready_def)
  have n: "1 \<le> (of_nat (error_number tn r d) :: float)" by (simp add: error_number_def)
  consider "x = Inr ()" "turn_succeeds tn r" | "x = Inr ()" "\<not> turn_succeeds tn r" | "x \<noteq> Inr ()" by blast
  then show thesis
  proof cases
    case 1
    then show thesis using daemon_turn_effect(5)[OF assms(1) r assms(2)] by (intro that) auto
  next
    case 2
    then show thesis using daemon_turn_effect(6)[OF assms(1) r assms(2)] n by (intro that) auto
  next
    case 3
    then obtain logged where "went d d' logged []" "set logged \<subseteq> {''degraded''}" using daemon_turn_effect(7)[OF assms(1) r assms(2)] by blast
    then show thesis by (intro that) auto
  qed
qed

lemma daemon_turn_ready:
  assumes "ready d" "daemon_turn tn d = (x, d')"
  shows "ready d'"
proof -
  obtain r where r: "ed_runtime d = Some r" "tables_fit (is_maker r) (ed_committed d)" using assms(1) by (auto simp: ready_def)
  obtain logged waited where "went d d' logged waited" by (rule daemon_turn_went[OF assms])
  moreover obtain r' where "ed_runtime d' = Some r'" "is_maker r' = is_maker r" using daemon_turn_effect(2)[OF assms(1) r(1) assms(2)] by blast
  moreover have "tables_fit (is_maker r) (ed_committed d')"
    using daemon_turn_effect(1)[OF assms(1) r(1) assms(2)] r(2) tables_of_fit[of "snd (engine_tick tn r)"] by simp
  ultimately show ?thesis using assms(1) by (simp add: ready_def went_def)
qed

interpretation daemon: step_system "\<lambda>tn d. snd (daemon_turn tn d)" ready
  by unfold_locales (rule daemon_turn_ready, assumption, rule prod.collapse[symmetric])

lemma daemon_loop_Nil: "daemon_loop [] d = (if ed_shutdown_event d then Some (Inr ()) else None, d)"
  by simp

lemma daemon_loop_Cons: "daemon_loop (tn # tns) d = (if ed_shutdown_event d then (Some (Inr ()), d)
    else case daemon_turn tn d of (Inl e, d') \<Rightarrow> (Some (Inl e), d') | (Inr _, d') \<Rightarrow> daemon_loop tns d')"
  by simp

declare daemon_loop.simps [simp del]

text \<open>A loop is a run of turns: of all the given ones while it goes on, of a part of them when it has ended.\<close>

lemma daemon_loop_run:
  obtains n where "snd (daemon_loop tns d) = run (\<lambda>tn d. snd (daemon_turn tn d)) (take n tns) d"
proof -
  have "\<exists>n. snd (daemon_loop tns d) = run (\<lambda>tn d. snd (daemon_turn tn d)) (take n tns) d"
  proof (induction tns arbitrary: d)
    case Nil
    show ?case by (simp add: daemon_loop_Nil)
  next
    case (Cons tn tns)
    obtain x d' where x: "daemon_turn tn d = (x, d')" by (cases "daemon_turn tn d")
    obtain n where "snd (daemon_loop tns d') = run (\<lambda>tn d. snd (daemon_turn tn d)) (take n tns) d'" using Cons by blast
    then have "snd (daemon_loop (tn # tns) d) = run (\<lambda>tn d. snd (daemon_turn tn d)) (take (if ed_shutdown_event d then 0 else if isl x then 1 else Suc n) (tn # tns)) d"
      by (cases x) (simp_all add: daemon_loop_Cons x)
    then show ?case by blast
  qed
  then show thesis using that by blast
qed

section \<open>The market maker under supervision\<close>

text \<open>Every invariant of the market maker's steps that does not look at the tables holds over the life of its daemon, rollbacks included.\<close>

definition maker :: "(MarketMakerRuntime \<Rightarrow> bool) \<Rightarrow> EngineDaemon \<Rightarrow> bool" where
  "maker P d \<longleftrightarrow> (\<forall>p. ed_runtime d = Some (Market_maker p) \<longrightarrow> P (mp_runtime p))"

lemma maker_frame: "ed_runtime d' = ed_runtime d \<Longrightarrow> maker P d \<Longrightarrow> maker P d'"
  by (simp add: maker_def)

lemma keeps_maker_frame: "(\<And>d. ed_runtime (f d) = ed_runtime d) \<Longrightarrow> keeps (maker P) (modifies f)"
  by (rule keeps_modifies) (rule maker_frame)

lemma keeps_maker_map:
  assumes "\<And>p. P (mp_runtime p) \<Longrightarrow> (\<exists>q. g (Market_maker p) = Market_maker q \<and> P (mp_runtime q))" "\<And>r. is_maker (g r) = is_maker r"
  shows "maker P d \<Longrightarrow> ed_runtime d' = map_option g (ed_runtime d) \<Longrightarrow> maker P d'"
  using assms(1) assms(2) by (auto simp: maker_def) (metis is_maker.elims(2) is_maker.simps(2) engine_runtime.inject(2))

lemma ensure_started_runtime [simp]: "mp_runtime (snd (mm_ensure_started senv p)) = mp_runtime p"
  by (cases "sv_psubscribe senv"; cases "sv_client senv")
    (simp_all add: mm_ensure_started_def start_coinstore_private_stream_def coinstore_def seqm_run bindm_def)

definition quiet :: "bool \<Rightarrow> bool \<Rightarrow> bus_event list \<Rightarrow> bool" where
  "quiet reloads closes es \<longleftrightarrow> (reloads \<or> (\<forall>e \<in> set es. \<not> is_reload (mm_event_of e))) \<and> (closes \<or> (\<forall>e \<in> set es. \<not> is_close (mm_event_of e)))"

context runtime_invariant
begin

lemma maker_tick: "P (mp_runtime p) \<Longrightarrow> P (mp_runtime (snd (mm_tick senv env p)))"
proof -
  assume "P (mp_runtime p)"
  moreover obtain x q where q: "mm_ensure_started senv p = (x, q)" by (cases "mm_ensure_started senv p")
  ultimately have "P (mp_runtime q)" using ensure_started_runtime[of senv p] by simp
  then have "P (mp_runtime (q\<lparr>mp_runtime := snd (tick env (mp_runtime q))\<rparr>))" using keepsD[OF keeps_tick] by simp
  then show ?thesis using q \<open>P (mp_runtime q)\<close>
    by (cases x) (simp_all add: mm_tick_def seqm_run on_runtime_def zoom_def case_prod_beta)
qed

lemma maker_rollback: "P m \<Longrightarrow> P (m\<lparr>mm_paper := (mm_paper m)\<lparr>pe_session := t\<rparr>\<rparr>)"
  by (rule db) simp_all

lemma maker_background: "quiet reloads closes es \<Longrightarrow> P (mp_runtime p) \<Longrightarrow> P (mp_runtime (mm_background es p))"
  by (auto simp: mm_background_def quiet_def intro!: run_inv)

lemma maker_health: "P m \<Longrightarrow> P (snd (mm_health now m))"
  by (rule frame) (auto simp: mm_health_def order_lifecycle_metrics_def Let_def engines_def)

lemma keeps_maker_runtime_tick: "keeps (maker P) (runtime_tick tn)"
proof (rule keepsI)
  fix d assume d: "maker P d"
  show "maker P (snd (runtime_tick tn d))"
  proof (cases "ed_runtime d")
    case (Some r)
    then show ?thesis using d maker_tick[of _ "tn_start tn" "tn_mm tn"]
      by (cases r) (auto simp: runtime_tick_def maker_def case_prod_beta)
  qed (use d in \<open>simp add: runtime_tick_def\<close>)
qed

lemma keeps_maker_health: "keeps (maker P) (runtime_health tn)"
proof (rule keepsI)
  fix d assume d: "maker P d"
  show "maker P (snd (runtime_health tn d))"
  proof (cases "ed_runtime d")
    case (Some r)
    then show ?thesis using d maker_health[of _ "tn_now tn"]
      by (cases r) (auto simp: runtime_health_def maker_def case_prod_beta split: sum.split)
  qed (use d in \<open>simp add: runtime_health_def\<close>)
qed

lemma keeps_maker_publish: "keeps (maker P) (publish_heartbeat tn a x y st)"
  unfolding publish_heartbeat_def snapshot_def by (intro kept keeps_maker_health keeps_maker_frame) simp_all

lemma keeps_maker_write: "keeps (maker P) (write_health w now st)"
  unfolding write_health_def snapshot_def by (intro kept keeps_maker_frame) simp_all

lemma keeps_maker_rollback: "keeps (maker P) (daemon_rollback tn)"
proof -
  have "keeps (maker P) (modifies (\<lambda>d. d\<lparr>ed_runtime := map_option (session_rollback (ed_committed d)) (ed_runtime d)\<rparr>))"
    by (rule keeps_modifies, erule keeps_maker_map[where g = "session_rollback (ed_committed d)" for d, rotated 2]) (simp_all add: Let_def maker_rollback)
  moreover have "keeps (maker P) (modifies (\<lambda>d. d\<lparr>ed_runtime := map_option rollback_handler (ed_runtime d)\<rparr>))"
    by (rule keeps_modifies, erule keeps_maker_map[where g = rollback_handler, rotated 2]) simp_all
  ultimately show ?thesis unfolding daemon_rollback_def by (intro kept)
qed

lemma keeps_maker_wait: "quiet reloads closes (tn_bus tn) \<Longrightarrow> keeps (maker P) (wait_for_shutdown tn w)"
  unfolding wait_for_shutdown_def
  by (rule keeps_modifies, erule keeps_maker_map[where g = "engine_background tn", rotated 2]) (simp_all add: maker_background)

lemma keeps_maker_turn:
  assumes "quiet reloads closes (tn_bus tn)"
  shows "keeps (maker P) (daemon_turn tn)"
  unfolding daemon_turn_def healthy_turn_def error_turn_def service_tick_def commit_def database_ok_after_error_def
  by (intro kept keeps_maker_wait[OF assms] keeps_maker_rollback keeps_maker_write keeps_maker_publish keeps_maker_runtime_tick keeps_maker_frame)
    (simp_all split: option.split)

lemma maker_turns:
  assumes "maker P d" "\<forall>tn \<in> set tns. quiet reloads closes (tn_bus tn)"
  shows "maker P (run (\<lambda>tn d. snd (daemon_turn tn d)) tns d)"
  using assms by (induction tns arbitrary: d) (auto intro: keepsD[OF keeps_maker_turn])

lemma maker_loop:
  assumes "maker P d" "\<forall>tn \<in> set tns. quiet reloads closes (tn_bus tn)"
  shows "maker P (snd (daemon_loop tns d))"
proof -
  obtain n where "snd (daemon_loop tns d) = run (\<lambda>tn d. snd (daemon_turn tn d)) (take n tns) d" by (rule daemon_loop_run)
  then show ?thesis using assms(2) by (auto intro!: maker_turns[OF assms(1)] dest: in_set_takeD)
qed

end

section \<open>The life of a daemon\<close>

definition fresh_tables :: "session \<Rightarrow> database_tables" where
  "fresh_tables d = \<lparr>dt_session = Some (without_supply d), dt_market_data = [], dt_liquidity_metrics = [], dt_volatility_metrics = []\<rparr>"

lemma boot_cases:
  assumes "daemon_boot bo (EngineDaemon_init now name interval (fresh_tables (bo_session bo))) = (Inr u, d)"
  shows "ready d" "map hs_status (ed_health_log d) = [''starting'']" "ed_health_file d = Some (last (ed_health_log d))" "ed_waits d = []" "ed_heartbeat_interval_seconds d = interval"
    and "name = ''market-maker-engine'' \<longrightarrow> ed_runtime d = Some (Market_maker (MMProcess_init (MarketMakerRuntime_init (bo_now bo) (bo_settings bo) (bo_session bo)
         (let config = (case bo_config bo of Inr c \<Rightarrow> c | Inl _ \<Rightarrow> default_runtime_config)
          in QuoteEngine_init (rc_spread config) (rc_order_size config) (rc_inventory config) (Some (rc_order_layers config)))
         (case bo_config bo of Inr c \<Rightarrow> c | Inl _ \<Rightarrow> default_runtime_config))))"
  using assms
  by (auto simp: daemon_boot_def initialize_dependencies_def write_health_def snapshot_def seqm_run bindm_def EngineDaemon_init_def fresh_tables_def
      ready_def tables_fit_def without_supply_def split: sum.splits if_splits)

lemma daemon_loop_went:
  assumes "ready d" "daemon_loop tns d = (x, d')"
  obtains logged waited where "went d d' logged waited" "set logged \<subseteq> {''healthy'', ''degraded''}"
    "\<forall>w \<in> set waited. w = ed_heartbeat_interval_seconds d \<or> 1 \<le> w \<and> w \<le> 30"
proof -
  have "\<exists>logged waited. went d d' logged waited \<and> set logged \<subseteq> {''healthy'', ''degraded''}
    \<and> (\<forall>w \<in> set waited. w = ed_heartbeat_interval_seconds d \<or> 1 \<le> w \<and> w \<le> 30)"
    using assms
  proof (induction tns arbitrary: d)
    case Nil
    then show ?case by (intro exI[of _ "[]"]) (simp add: daemon_loop_Nil went_def)
  next
    case (Cons tn tns)
    obtain y d1 where y: "daemon_turn tn d = (y, d1)" by (cases "daemon_turn tn d")
    obtain l w where w: "went d d1 l w" "set l \<subseteq> {''healthy'', ''degraded''}" "\<forall>w \<in> set w. w = ed_heartbeat_interval_seconds d \<or> 1 \<le> w \<and> w \<le> 30"
      by (rule daemon_turn_went[OF Cons.prems(1) y])
    have "ed_heartbeat_interval_seconds d1 = ed_heartbeat_interval_seconds d" using w(1) by (simp add: went_def)
    consider "d' = d" | "d' = d1" | "daemon_loop tns d1 = (x, d')"
      using Cons.prems(2) y by (cases y) (auto simp: daemon_loop_Cons split: if_splits)
    then show ?case
    proof cases
      case 1
      then show ?thesis by (intro exI[of _ "[]"]) (simp add: went_def)
    next
      case 2
      then show ?thesis using w by blast
    next
      case 3
      then obtain l' w' where "went d1 d' l' w'" "set l' \<subseteq> {''healthy'', ''degraded''}"
        "\<forall>w \<in> set w'. w = ed_heartbeat_interval_seconds d1 \<or> 1 \<le> w \<and> w \<le> 30"
        using Cons.IH[OF daemon_turn_ready[OF Cons.prems(1) y]] by blast
      then show ?thesis using went_trans[OF w(1)] w(2,3) \<open>ed_heartbeat_interval_seconds d1 = ed_heartbeat_interval_seconds d\<close>
        by (intro exI[of _ "l @ l'"] exI[of _ "w @ w'"]) auto
    qed
  qed
  then show thesis using that by blast
qed

lemma stop_runtime_went: "stop_runtime sh d = (x, d') \<Longrightarrow> went d d' [] []"
  by (auto simp: stop_runtime_def went_def split: option.splits engine_runtime.splits prod.splits)

lemma shutdown_went:
  assumes "shutdown sh d = (x, d')"
  obtains logged where "went d d' logged []" "logged = [] \<or> logged = [''stopping''] \<or> logged = [''stopping'', ''stopped'']"
    "x = Inr () \<longrightarrow> logged = [''stopping'', ''stopped'']" "sh_write_stopping sh = Inr () \<longrightarrow> logged \<noteq> []"
proof -
  obtain d1 where d1: "write_health (sh_write_stopping sh) (sh_now sh) ''stopping'' d = (sh_write_stopping sh, d1)"
    "went d d1 (if sh_write_stopping sh = Inr () then [''stopping''] else []) []" by (rule write_health_went)
  show thesis
  proof (cases "sh_write_stopping sh")
    case (Inl e)
    have "x = Inl e" "d' = d1" using assms d1 Inl by (simp_all add: shutdown_def seqm_run)
    then show thesis by (intro that[of "[]"]) (use Inl d1 in simp_all)
  next
    case (Inr u)
    obtain y d2 where y: "stop_runtime sh d1 = (y, d2)" by (cases "stop_runtime sh d1")
    have w: "went d d2 [''stopping''] []" using went_trans[OF d1(2) stop_runtime_went[OF y]] Inr by simp
    obtain d3 where d3: "write_health (sh_write_stopped sh) (sh_now sh) ''stopped'' d2 = (sh_write_stopped sh, d3)"
      "went d2 d3 (if sh_write_stopped sh = Inr () then [''stopped''] else []) []" by (rule write_health_went)
    let ?rest = "seqm (if ed_session d2 then lift_res (sh_session_close sh) else ret ()) (
     seqm (if ed_redis d2 then lift_res (sh_redis_close sh) else ret ()) (
     seqm (if ed_database d2 then lift_res (sh_database_close sh) else ret ()) (
     write_health (sh_write_stopped sh) (sh_now sh) ''stopped'')))"
    have "shutdown sh d = (case y of Inl e \<Rightarrow> (Inl e, d2) | Inr _ \<Rightarrow> ?rest d2)"
      using d1(1) Inr y by (cases y) (simp_all add: shutdown_def seqm_run)
    moreover have "(\<exists>e. ?rest d2 = (Inl e, d2)) \<or> ?rest d2 = (sh_write_stopped sh, d3)"
      using d3(1) by (cases "sh_session_close sh"; cases "sh_redis_close sh"; cases "sh_database_close sh") (simp_all add: seqm_run)
    ultimately consider e where "x = Inl e" "d' = d2" | "x = sh_write_stopped sh" "d' = d3" using assms by (cases y) auto
    then show thesis
    proof cases
      case 1
      then show thesis using that[of "[''stopping'']"] w by simp
    next
      case 2
      then show thesis using that[of "[''stopping''] @ (if sh_write_stopped sh = Inr () then [''stopped''] else [])"] went_trans[OF w d3(2)] by (auto split: if_splits)
    qed
  qed
qed

text \<open>The statuses a process may report after one another.\<close>

inductive follows :: "string \<Rightarrow> string \<Rightarrow> bool" where
  running: "s \<in> {''starting'', ''healthy'', ''degraded''} \<Longrightarrow> t \<in> {''healthy'', ''degraded'', ''stopping''} \<Longrightarrow> follows s t"
| stopping: "follows ''stopping'' ''stopped''"

inductive_simps follows_stopping: "follows ''stopping'' t"
inductive_simps follows_stopped: "follows ''stopped'' t"
inductive_simps follows_running: "follows s ''healthy''"

lemma life_word:
  assumes "set logged \<subseteq> {''healthy'', ''degraded''}"
    "final = [] \<or> final = [''stopping''] \<or> final = [''stopping'', ''stopped'']" "s \<in> {''starting'', ''healthy'', ''degraded''}"
  shows "successively follows (s # logged @ final)"
  using assms(1,3)
proof (induction logged arbitrary: s)
  case Nil
  then show ?case using assms(2) by (auto intro: follows.intros)
next
  case (Cons t logged)
  then have "successively follows (t # logged @ final)" by auto
  moreover have "follows s t" using Cons.prems by (intro follows.running) auto
  ultimately show ?case by simp
qed

lemma daemon_run_log:
  assumes "daemon_run bo tns sh (EngineDaemon_init now name interval (fresh_tables (bo_session bo))) = (res, d)"
    "daemon_boot bo (EngineDaemon_init now name interval (fresh_tables (bo_session bo))) = (Inr u, d1)"
  obtains logged waited final where "map hs_status (ed_health_log d) = ''starting'' # logged @ final" "set logged \<subseteq> {''healthy'', ''degraded''}"
    "final = [] \<or> final = [''stopping''] \<or> final = [''stopping'', ''stopped'']" "ed_waits d = waited"
    "\<forall>w \<in> set waited. w = interval \<or> 1 \<le> w \<and> w \<le> 30" "ed_health_file d = Some (last (ed_health_log d))"
    "res = Some (Inr ()) \<longrightarrow> final = [''stopping'', ''stopped'']" "res \<noteq> None \<and> sh_write_stopping sh = Inr () \<longrightarrow> final \<noteq> []"
proof -
  note b = boot_cases[OF assms(2)]
  obtain x d2 where d2: "daemon_loop tns d1 = (x, d2)" by (cases "daemon_loop tns d1")
  obtain logged waited where l: "went d1 d2 logged waited" "set logged \<subseteq> {''healthy'', ''degraded''}"
    "\<forall>w \<in> set waited. w = ed_heartbeat_interval_seconds d1 \<or> 1 \<le> w \<and> w \<le> 30"
    by (rule daemon_loop_went[OF b(1) d2])
  have shown: "ed_health_file t = Some (last (ed_health_log t))" if "went d1 t a c" for t a c
    using that b(2,3) by (auto simp: went_def)
  have log: "map hs_status (ed_health_log t) = ''starting'' # a" "ed_waits t = c" if "went d1 t a c" for t a c
    using that b(2,4) by (auto simp: went_def)
  show thesis
  proof (cases x)
    case None
    then have "res = None" "d = d2" using assms d2 by (simp_all add: daemon_run_def)
    then show thesis by (intro that[of logged "[]" waited]) (use l log[OF l(1)] shown[OF l(1)] b(5) in simp_all)
  next
    case (Some r)
    obtain y d3 where d3: "shutdown sh d2 = (y, d3)" by (cases "shutdown sh d2")
    obtain final where f: "went d2 d3 final []" "final = [] \<or> final = [''stopping''] \<or> final = [''stopping'', ''stopped'']"
      "y = Inr () \<longrightarrow> final = [''stopping'', ''stopped'']" "sh_write_stopping sh = Inr () \<longrightarrow> final \<noteq> []"
      by (rule shutdown_went[OF d3])
    have w: "went d1 d3 (logged @ final) waited" using went_trans[OF l(1) f(1)] by simp
    have "d = d3" "res = Some (Inr ()) \<longrightarrow> y = Inr ()" using assms d2 d3 Some by (auto simp: daemon_run_def split: sum.splits)
    then show thesis by (intro that[of logged final waited]) (use l f log[OF w] shown[OF w] b(5) in \<open>simp_all\<close>)
  qed
qed


text \<open>
  The health command never takes a process that has ended for a healthy one: once the shutdown could write its first status, the health
  file is refused whatever its age, however the process ended.
\<close>

theorem ended_daemon_never_healthy:
  assumes "daemon_run bo tns sh (EngineDaemon_init now name interval (fresh_tables (bo_session bo))) = (Some r, d)"
    "daemon_boot bo (EngineDaemon_init now name interval (fresh_tables (bo_session bo))) = (Inr (), d1)" "sh_write_stopping sh = Inr ()"
  shows "\<exists>h. ed_health_file d = Some h \<and> (\<forall>later max_age. isl (read_health later max_age (Inr h)))"
proof -
  obtain logged waited final where l: "map hs_status (ed_health_log d) = ''starting'' # logged @ final" "set logged \<subseteq> {''healthy'', ''degraded''}"
    "final = [] \<or> final = [''stopping''] \<or> final = [''stopping'', ''stopped'']" "ed_waits d = waited"
    "\<forall>w \<in> set waited. w = interval \<or> 1 \<le> w \<and> w \<le> 30" "ed_health_file d = Some (last (ed_health_log d))"
    "Some r = Some (Inr ()) \<longrightarrow> final = [''stopping'', ''stopped'']" "Some r \<noteq> None \<and> sh_write_stopping sh = Inr () \<longrightarrow> final \<noteq> []"
    by (rule daemon_run_log[OF assms(1,2)])
  have "ed_health_log d \<noteq> []" using l(1) by auto
  then have "hs_status (last (ed_health_log d)) = last (''starting'' # logged @ final)" using l(1) by (metis last_map)
  then have "hs_status (last (ed_health_log d)) \<in> {''stopping'', ''stopped''}" using l(3,8) assms(3) by auto
  then show ?thesis using l(6) by (auto simp: read_health_def Let_def)
qed

section \<open>Outages\<close>

text \<open>
  An outage of Redis ends the process at once: the failed health check is caught, but the handler reports it to Redis, so that the
  second failure leaves the loop. The tables are rolled back and nothing is retried: the wait after an error is never reached.
\<close>

theorem redis_outage_ends_daemon:
  assumes "ready d" "\<not> ed_shutdown_event d" "tn_redis_health tn = Inl e" "tn_error_heartbeat tn = Inl e'"
    "tn_rollback tn = Inr ()" "tn_error_write tn = Inr ()"
  shows "\<exists>d'. daemon_loop (tn # tns) d = (Some (Inl e'), d') \<and> ed_waits d' = ed_waits d \<and> ed_committed d' = ed_committed d
    \<and> ed_loop_iterations d' = ed_loop_iterations d + 1"
proof -
  obtain r where r: "ed_runtime d = Some r" "ed_redis d" "ed_database d" "ed_session d" using assms(1) by (auto simp: ready_def)
  let ?s = "rollback_handler (session_rollback (ed_committed d) r)"
  let ?d = "d\<lparr>ed_loop_iterations := ed_loop_iterations d + 1\<rparr>"
  let ?d1 = "?d\<lparr>ed_runtime := Some ?s, ed_consecutive_errors := ed_consecutive_errors d + 1, ed_last_error := Some e\<rparr>"
  have h: "healthy_turn tn d = (Inl e, ?d)" using assms(3) r by (simp add: healthy_turn_def service_tick_def seqm_run)
  obtain h where w: "write_health (Inr ()) (tn_now tn) ''degraded'' ?d1 = (Inr (),
      ?d1\<lparr>ed_last_heartbeat_at := tn_now tn, ed_health_file := Some h, ed_health_log := ed_health_log ?d1 @ [h]\<rparr>)"
    by (rule write_health_cases[of "Inr ()" "tn_now tn" "''degraded''" ?d1]) simp
  let ?d2 = "?d1\<lparr>ed_last_heartbeat_at := tn_now tn, ed_health_file := Some h, ed_health_log := ed_health_log ?d1 @ [h]\<rparr>"
  have ok: "\<exists>ok. database_ok_after_error tn ?d2 = (Inr ok, ?d2)"
    using r by (cases "tn_database_after tn") (auto simp: database_ok_after_error_def catch_def intro: exI[of _ False])
  then obtain ok where ok: "database_ok_after_error tn ?d2 = (Inr ok, ?d2)" by blast
  obtain hbs where hb: "publish_heartbeat tn (Inl e') True ok ''degraded'' ?d2 = (Inl e',
      ?d2\<lparr>ed_runtime := Some (snd (runtime_health_of tn ?s)), ed_last_heartbeat_at := tn_now tn, ed_heartbeats := hbs\<rparr>)"
    by (rule publish_heartbeat_cases[of ?d2 ?s]) (use r in simp_all)
  have "error_turn tn e ?d = (Inl e', ?d2\<lparr>ed_runtime := Some (snd (runtime_health_of tn ?s)), ed_last_heartbeat_at := tn_now tn, ed_heartbeats := hbs\<rparr>)"
    using assms(4,5,6) r w ok hb by (simp add: error_turn_def daemon_rollback_def seqm_run bindm_def)
  then show ?thesis using h assms(2) by (simp add: daemon_loop_Cons daemon_turn_def catch_def)
qed

text \<open>
  The market maker keeps the identifier of its exchange account over a rollback that removes the account's row: a turn whose tick created the
  account and whose commit failed leaves the engine writing for an account that the tables do not have.
\<close>

theorem rollback_leaves_unknown_account:
  assumes "ready d" "ed_runtime d = Some (Market_maker p)" "daemon_turn tn d = (Inr (), d')" "tn_commit tn = Inl e" "tn_bus tn = []"
    "fst (mm_tick (tn_start tn) (tn_mm tn) p) = Inr ()" "tn_redis_health tn = Inr True" "tn_database_health tn = Inr True"
    "pe_exchange_account_id (mm_paper (mp_runtime (snd (mm_tick (tn_start tn) (tn_mm tn) p)))) = Some u"
    "\<forall>s. dt_session (ed_committed d) = Some s \<longrightarrow> \<not> list_ex (\<lambda>row. ea_id row = u) (tbl_exchange_accounts s)"
  shows "\<exists>q. ed_runtime d' = Some (Market_maker q) \<and> pe_exchange_account_id (mm_paper (mp_runtime q)) = Some u
    \<and> \<not> list_ex (\<lambda>row. ea_id row = u) (tbl_exchange_accounts (pe_session (mm_paper (mp_runtime q))))"
proof -
  have r: "ed_redis d" "ed_database d" "ed_session d" "tables_fit True (ed_committed d)" using assms(1,2) by (auto simp: ready_def)
  obtain q where q: "mm_tick (tn_start tn) (tn_mm tn) p = (Inr (), q)" using assms(6) by (metis prod.collapse)
  let ?d = "d\<lparr>ed_loop_iterations := ed_loop_iterations d + 1, ed_runtime := Some (Market_maker q)\<rparr>"
  have h: "healthy_turn tn d = (Inl e, ?d)"
    using assms(2,4,7,8) r q by (simp add: healthy_turn_def service_tick_def runtime_tick_def commit_def seqm_run)
  have ready: "ready ?d" using assms(1) r by (simp add: ready_def)
  obtain s where s: "dt_session (ed_committed d) = Some s" using r(4) by (auto simp: tables_fit_def)
  have e: "error_turn tn e ?d = (Inr (), d')" using assms(3) h by (simp add: daemon_turn_def catch_def)
  define P where "P = (\<lambda>d :: EngineDaemon. \<exists>q. ed_runtime d = Some (Market_maker q) \<and> pe_exchange_account_id (mm_paper (mp_runtime q)) = Some u
    \<and> tbl_exchange_accounts (pe_session (mm_paper (mp_runtime q))) = tbl_exchange_accounts s)"
  have health: "keeps P (runtime_health tn)"
  proof (rule keepsI)
    fix d1 assume "P d1"
    then show "P (snd (runtime_health tn d1))"
      by (auto simp: P_def runtime_health_def mm_health_def order_lifecycle_metrics_def Let_def)
  qed
  have frame: "keeps P (modifies f)" if "\<And>d. ed_runtime (f d) = ed_runtime d" for f
    by (rule keeps_modifies) (simp add: that P_def)
  have rest: "keeps P (seqm (modifies (\<lambda>d. d\<lparr>ed_consecutive_errors := ed_consecutive_errors d + 1, ed_last_error := Some e\<rparr>)) (
     seqm (write_health (tn_error_write tn) (tn_now tn) ''degraded'') (
     bindm (reads ed_redis) (\<lambda>redis_ok.
     bindm (database_ok_after_error tn) (\<lambda>database_ok.
     seqm (publish_heartbeat tn (tn_error_heartbeat tn) redis_ok database_ok ''degraded'') (
     bindm (reads ed_consecutive_errors) (\<lambda>n. wait_for_shutdown tn (min 30 (max 1 (of_nat n))))))))))"
    (is "keeps P ?rest")
    unfolding write_health_def snapshot_def database_ok_after_error_def publish_heartbeat_def wait_for_shutdown_def
    by (intro kept frame health keeps_modifies) (auto simp: P_def mm_background_def assms(5))
  let ?d1 = "?d\<lparr>ed_runtime := Some (rollback_handler (session_rollback (ed_committed d) (Market_maker q)))\<rparr>"
  have "tn_rollback tn = Inr ()" by (rule error_turn_cases[OF ready, of "Market_maker q" tn e]) (use e in simp_all)
  then have run: "error_turn tn e ?d = ?rest ?d1" using r by (simp add: error_turn_def daemon_rollback_def seqm_run)
  have "P ?d1" using assms(9) q s by (simp add: P_def Let_def restored_def)
  from keepsD[OF rest this] have "P d'" unfolding run[symmetric] e by simp
  then show ?thesis using assms(10) s by (auto simp: P_def)
qed

text \<open>
  C8. The market maker is as sound under supervision as by itself: over the whole life of its process, with failing ticks, rollbacks, outages and
  whatever arrives on the bus, its paper account is the sum of its fills, no order is filled beyond its quantity, and orders leave
  the process only in canary and live mode and within the limits.
\<close>

theorem supervised_market_maker_sound:
  assumes "daemon_run bo tns sh (EngineDaemon_init now ''market-maker-engine'' interval (fresh_tables (bo_session bo))) = (res, d)"
    "ed_runtime d = Some (Market_maker p)" "PAPER_BASE_ASSET (bo_settings bo) \<noteq> PAPER_QUOTE_ASSET (bo_settings bo)"
  shows "ledger_inv (PAPER_STARTING_CASH (bo_settings bo)) (mm_paper (mp_runtime p))
    \<and> (\<forall>(cid, order) \<in> set (pe_open_orders (mm_paper (mp_runtime p))). pap_id order = cid \<and> order_ok order)
    \<and> (TRADING_MODE (bo_settings bo) \<notin> {Mode_canary, Mode_live} \<longrightarrow> mm_live_orders (mp_runtime p) = [])
    \<and> (\<forall>i \<in> set (mm_live_orders (mp_runtime p)). price_or_zero i * oi_quantity i \<le> MAX_CANARY_NOTIONAL (bo_settings bo))"
proof -
  let ?d = "EngineDaemon_init now ''market-maker-engine'' interval (fresh_tables (bo_session bo))"
  let ?config = "case bo_config bo of Inr c \<Rightarrow> c | Inl _ \<Rightarrow> default_runtime_config"
  let ?i = "MarketMakerRuntime_init (bo_now bo) (bo_settings bo) (bo_session bo)
         (let config = ?config in QuoteEngine_init (rc_spread config) (rc_order_size config) (rc_inventory config) (Some (rc_order_layers config))) ?config"
  let ?policy = "cc_policy (mm_canary ?i)" and ?mode = "TRADING_MODE (bo_settings bo)"
  have life: "maker P d" if "runtime_invariant P True True" "P ?i" for P
  proof -
    obtain x d1 where d1: "daemon_boot bo ?d = (x, d1)" by (cases "daemon_boot bo ?d")
    have boot: "maker P d1"
    proof (cases x)
      case (Inl e)
      then have "ed_runtime d1 = None \<or> ed_runtime d1 = Some (Market_maker (MMProcess_init ?i))"
        using d1 by (auto simp: daemon_boot_def initialize_dependencies_def write_health_def snapshot_def seqm_run bindm_def EngineDaemon_init_def Let_def
            split: sum.splits)
      then show ?thesis using that(2) by (auto simp: maker_def MMProcess_init_def)
    next
      case (Inr u)
      then show ?thesis using boot_cases(6)[OF d1[unfolded Inr]] that(2) by (simp add: maker_def MMProcess_init_def)
    qed
    have loop: "maker P (snd (daemon_loop tns d1))"
      by (rule runtime_invariant.maker_loop[OF that(1) boot]) (simp add: quiet_def)
    have stop: "maker P (snd (shutdown sh d2))" if "maker P d2" for d2
    proof -
      have "keeps (maker P) (stop_runtime sh)"
        by (rule keepsI) (auto simp: stop_runtime_def maker_def mm_stop_def seqm_run bindm_def split: option.splits engine_runtime.splits prod.splits sum.splits)
      then have "keeps (maker P) (shutdown sh)"
        unfolding shutdown_def by (intro kept runtime_invariant.keeps_maker_write[OF \<open>runtime_invariant P True True\<close>])
      then show ?thesis using that by (rule keepsD)
    qed
    obtain y d2 where d2: "daemon_loop tns d1 = (y, d2)" by (cases "daemon_loop tns d1")
    show ?thesis
      using assms(1) d1 d2 boot loop stop[of d2] by (cases x; cases y) (auto simp: daemon_run_def split: prod.splits sum.splits)
  qed
  have "gate_inv ?policy ?mode ?i" "ledger_inv (PAPER_STARTING_CASH (bo_settings bo)) (mm_paper ?i)" "orders_inv UNIV (mm_paper ?i)"
    using assms(3) by (simp_all add: gate_inv_def MarketMakerRuntime_init_def CanaryState_init_def ledger_inv_def orders_inv_def
        PaperExecutionEngine_init_def balance_of_def dict_get_or_def)
  then have "gate_inv ?policy ?mode (mp_runtime p)" "ledger_inv (PAPER_STARTING_CASH (bo_settings bo)) (mm_paper (mp_runtime p))"
    "orders_inv UNIV (mm_paper (mp_runtime p))"
    using life[OF gate.runtime_invariant_axioms[of ?policy ?mode]] life[OF run_led.rt.runtime_invariant_axioms] life[OF run_ord.rt.runtime_invariant_axioms]
      assms(2) by (auto simp: maker_def)
  moreover have "mm_live_orders (mp_runtime p) = []" if "?mode \<notin> {Mode_canary, Mode_live}"
    using \<open>gate_inv ?policy ?mode (mp_runtime p)\<close> that by (cases "mm_live_orders (mp_runtime p)") (auto simp: gate_inv_def gated_def)
  ultimately show ?thesis by (auto simp: gate_inv_def gated_def orders_inv_def MarketMakerRuntime_init_def)
qed

section \<open>Examples\<close>

definition example_boot :: boot_env where
  "example_boot = \<lparr>bo_now = 0, bo_session = empty_session, bo_config = Inl (RuntimeError ''no table''), bo_settings = example_settings Mode_paper,
     bo_market_data_settings = \<lparr>ds_exchanges = [''gate''], ds_symbols = [''A/B''], ds_streams = [''orderbook''], ds_connect_on_start = True, ds_persist_every = 1\<rparr>,
     bo_mkdir = Inr (), bo_write = Inr ()\<rparr>"

definition example_turn :: "bool res \<Rightarrow> unit res \<Rightarrow> turn" where
  "example_turn redis answer = \<lparr>tn_now = 0, tn_redis_health = redis, tn_database_health = Inr True, tn_start = example_start_env (Inr ()),
     tn_mm = example_env\<lparr>env_kill_switch := Kill_state (Some (True, None))\<rparr>, tn_md = md_example_env, tn_commit = answer, tn_heartbeat = Inr (),
     tn_write = Inr (), tn_rollback = Inr (), tn_error_write = Inr (), tn_database_after = Inr True,
     tn_error_heartbeat = (case redis of Inl e \<Rightarrow> Inl e | Inr _ \<Rightarrow> Inr ()), tn_connectors = [], tn_bus = [], tn_streams = [], tn_signal = True\<rparr>"

definition example_shutdown :: shutdown_env where
  "example_shutdown = \<lparr>sh_now = 0, sh_write_stopping = Inr (), sh_start = example_start_env (Inr ()), sh_session_close = Inr (), sh_redis_close = Inr (),
     sh_database_close = Inr (), sh_write_stopped = Inr ()\<rparr>"

definition example_daemon :: EngineDaemon where
  "example_daemon = EngineDaemon_init 0 ''market-maker-engine'' 60 (fresh_tables (bo_session example_boot))"

lemma example_boots: "fst (daemon_boot example_boot example_daemon) = Inr ()"
  by (simp add: daemon_boot_def initialize_dependencies_def write_health_def snapshot_def seqm_run bindm_def example_boot_def example_daemon_def EngineDaemon_init_def)

lemma example_booted: "daemon_boot example_boot example_daemon = (Inr (), snd (daemon_boot example_boot example_daemon))"
  using example_boots by (metis prod.collapse)

lemmas example_ready = boot_cases[OF example_booted[unfolded example_daemon_def], folded example_daemon_def]

lemma blocked_tick: "fst (tick (example_env\<lparr>env_kill_switch := Kill_state (Some (True, None))\<rparr>) m) = Inr ()"
  "mm_paper (snd (tick (example_env\<lparr>env_kill_switch := Kill_state (Some (True, None))\<rparr>) m)) = mm_paper m"
  by (simp_all add: tick_def kill_switch_active_def shutdown_canary_def count_def seqm_run bindm_def)

lemma example_starts: "mm_mode (mp_runtime p) = Mode_paper \<Longrightarrow> \<not> mp_started p \<Longrightarrow>
    mm_tick (example_start_env (Inr ())) env p = (fst (tick env (mp_runtime p)),
      p\<lparr>mp_runtime := snd (tick env (mp_runtime p)), mp_started := True, mp_pubsub := True, mp_consumer_running := True\<rparr>)"
  by (simp add: mm_tick_def mm_ensure_started_def example_start_env_def seqm_run bindm_def on_runtime_def zoom_def case_prod_beta)

theorem turn_commits_whole_ticks_witness:
  "\<exists>r. ed_runtime (snd (daemon_boot example_boot example_daemon)) = Some r \<and>
     ed_committed (snd (daemon_turn (example_turn (Inr False) (Inr ())) (snd (daemon_boot example_boot example_daemon)))) =
       ed_committed (snd (daemon_boot example_boot example_daemon)) \<and>
     ed_committed (snd (daemon_turn (example_turn (Inr True) (Inr ())) (snd (daemon_boot example_boot example_daemon)))) =
       (if fst (engine_tick (example_turn (Inr True) (Inr ())) r) = Inr () then tables_of (snd (engine_tick (example_turn (Inr True) (Inr ())) r))
        else ed_committed (snd (daemon_boot example_boot example_daemon)))"
proof -
  obtain r where r: "ed_runtime (snd (daemon_boot example_boot example_daemon)) = Some r" using example_ready(1) by (auto simp: ready_def)
  show ?thesis
    using r turn_commits_whole_ticks[OF example_ready(1) r prod.collapse[symmetric], of "example_turn (Inr False) (Inr ())"]
      turn_commits_whole_ticks[OF example_ready(1) r prod.collapse[symmetric], of "example_turn (Inr True) (Inr ())"]
    by (simp add: example_turn_def)
qed


lemma example_run_ends:
  "\<exists>r d. daemon_run example_boot [example_turn (Inr True) (Inr ())] example_shutdown example_daemon = (Some r, d)"
proof -
  let ?d = "snd (daemon_boot example_boot example_daemon)"
  obtain r where r: "ed_runtime ?d = Some r" using example_ready(1) by (auto simp: ready_def)
  obtain x d' where t: "daemon_turn (example_turn (Inr True) (Inr ())) ?d = (x, d')" by (cases "daemon_turn (example_turn (Inr True) (Inr ())) ?d")
  have "x = Inr () \<longrightarrow> ed_shutdown_event d'" using daemon_turn_effect(3)[OF example_ready(1) r t] by (simp add: example_turn_def)
  then have "\<exists>y d2. daemon_loop [example_turn (Inr True) (Inr ())] ?d = (Some y, d2)"
    using t by (cases x) (simp_all add: daemon_loop_Cons daemon_loop_Nil)
  then obtain y d2 where "daemon_loop [example_turn (Inr True) (Inr ())] ?d = (Some y, d2)" by blast
  then show ?thesis by (subst daemon_run_def, subst example_booted) (simp split: prod.split sum.split)
qed

theorem ended_daemon_never_healthy_witness:
  "\<exists>h. ed_health_file (snd (daemon_run example_boot [example_turn (Inr True) (Inr ())] example_shutdown example_daemon)) = Some h
     \<and> isl (read_health 5 180 (Inr h))"
proof -
  obtain r d where d: "daemon_run example_boot [example_turn (Inr True) (Inr ())] example_shutdown example_daemon = (Some r, d)"
    using example_run_ends by blast
  have "sh_write_stopping example_shutdown = Inr ()" by (simp add: example_shutdown_def)
  from ended_daemon_never_healthy[OF d[unfolded example_daemon_def] example_booted[unfolded example_daemon_def] this] d show ?thesis
    by (auto simp: example_daemon_def)
qed

theorem redis_outage_ends_daemon_witness:
  "fst (daemon_loop [example_turn (Inl (RuntimeError ''redis'')) (Inr ()), example_turn (Inr True) (Inr ())]
      (snd (daemon_boot example_boot example_daemon))) = Some (Inl (RuntimeError ''redis''))"
proof -
  have "\<not> ed_shutdown_event (snd (daemon_boot example_boot example_daemon))"
    by (simp add: daemon_boot_def initialize_dependencies_def write_health_def snapshot_def seqm_run bindm_def example_boot_def example_daemon_def EngineDaemon_init_def)
  from redis_outage_ends_daemon[OF example_ready(1) this, of "example_turn (Inl (RuntimeError ''redis'')) (Inr ())" "RuntimeError ''redis''" "RuntimeError ''redis''"
      "[example_turn (Inr True) (Inr ())]"]
  show ?thesis by (auto simp: example_turn_def)
qed

theorem supervised_market_maker_sound_witness:
  "\<exists>p. ed_runtime (snd (daemon_run example_boot [] example_shutdown example_daemon)) = Some (Market_maker p)
     \<and> mm_live_orders (mp_runtime p) = []"
proof -
  have "snd (daemon_run example_boot [] example_shutdown example_daemon) = snd (daemon_boot example_boot example_daemon)"
    by (subst daemon_run_def, subst example_booted)
      (simp add: daemon_loop_Nil, simp add: daemon_boot_def initialize_dependencies_def write_health_def snapshot_def seqm_run bindm_def example_boot_def
        example_daemon_def EngineDaemon_init_def)
  moreover obtain p where p: "ed_runtime (snd (daemon_boot example_boot example_daemon)) = Some (Market_maker p)" using example_ready(6) by simp
  ultimately show ?thesis
    using supervised_market_maker_sound[OF prod.collapse[symmetric], of example_boot "[]" example_shutdown 0 60 p]
    by (auto simp: example_daemon_def[symmetric]) (simp_all add: example_boot_def example_settings_def)
qed

definition example_unsaved :: EngineDaemon where
  "example_unsaved = (snd (daemon_boot example_boot example_daemon))\<lparr>ed_runtime :=
     Some (Market_maker (MMProcess_init ((example_runtime Mode_paper)\<lparr>mm_paper := example_paper_state\<rparr>)))\<rparr>"

lemma example_account: "pe_exchange_account_id example_paper_state = Some 1"
  by code_simp

theorem rollback_leaves_unknown_account_witness:
  "\<exists>q. ed_runtime (snd (daemon_turn (example_turn (Inr True) (Inl IntegrityError)) example_unsaved)) = Some (Market_maker q)
     \<and> pe_exchange_account_id (mm_paper (mp_runtime q)) = Some 1
     \<and> \<not> list_ex (\<lambda>row. ea_id row = 1) (tbl_exchange_accounts (pe_session (mm_paper (mp_runtime q))))"
proof -
  let ?tn = "example_turn (Inr True) (Inl IntegrityError)"
  let ?p = "MMProcess_init ((example_runtime Mode_paper)\<lparr>mm_paper := example_paper_state\<rparr>)"
  have c: "ed_committed example_unsaved = fresh_tables empty_session"
    by (simp add: example_unsaved_def daemon_boot_def initialize_dependencies_def write_health_def snapshot_def seqm_run bindm_def example_boot_def
        example_daemon_def EngineDaemon_init_def)
  have r: "ready example_unsaved" using example_ready(1) c
    by (simp add: ready_def example_unsaved_def tables_fit_def fresh_tables_def without_supply_def)
  have rt: "ed_runtime example_unsaved = Some (Market_maker ?p)" by (simp add: example_unsaved_def)
  have paper: "mm_mode (mp_runtime ?p) = Mode_paper" "\<not> mp_started ?p"
    by (simp_all add: MMProcess_init_def example_runtime_def MarketMakerRuntime_init_def example_settings_def)
  have tick: "fst (mm_tick (tn_start ?tn) (tn_mm ?tn) ?p) = Inr ()"
    "pe_exchange_account_id (mm_paper (mp_runtime (snd (mm_tick (tn_start ?tn) (tn_mm ?tn) ?p)))) = Some 1"
    unfolding example_turn_def turn.simps example_starts[OF paper] by (simp_all add: blocked_tick MMProcess_init_def example_account)
  obtain x d where t: "daemon_turn ?tn example_unsaved = (x, d)" by (cases "daemon_turn ?tn example_unsaved")
  have "recovers ?tn" by (simp add: recovers_def example_turn_def)
  then have "x = Inr ()" using daemon_turn_effect(4)[OF r rt t] by simp
  from rollback_leaves_unknown_account[OF r rt t[unfolded this] _ _ tick(1) _ _ tick(2)] t show ?thesis
    by (auto simp: c example_turn_def fresh_tables_def without_supply_def empty_session_def)
qed

end
