(* ===== verification/Migrations.thy ===== *)
theory Migrations
  imports Venue_Spec Effects
begin

text \<open>
  The runners of \<open>db/migrations.py\<close> and \<open>db/seeds.py\<close> and the command line around them (\<open>cli/database.py\<close>): splitting SQL files into statements
  and applying the new files of a directory in one transaction.

  What a statement does to the data is an argument, as are the files of a directory and the outcome of the commit; the two tables of names are
  part of the state, the record \<open>sql_database\<close>. A failed transaction leaves the database as it was. Texts are ASCII.
\<close>

section \<open>Statements\<close>

definition is_line_break :: "char \<Rightarrow> bool" where
  "is_line_break c \<longleftrightarrow> (of_char c :: nat) \<in> {10, 11, 12, 13, 28, 29, 30}"

text \<open>\<open>str.splitlines()\<close>: a carriage return and the line feed after it are one break.\<close>

function lines_of :: "string \<Rightarrow> string \<Rightarrow> string list" where
  "lines_of line [] = (if line = [] then [] else [line])"
| "lines_of line (c # s) =
     (if c = CHR 0x0D \<and> s \<noteq> [] \<and> hd s = CHR 0x0A then line # lines_of [] (tl s)
      else if is_line_break c then line # lines_of [] s
      else lines_of (line @ [c]) s)"
  by pat_completeness auto
termination by (relation "measure (\<lambda>(line, s). length s)") auto

definition splitlines :: "string \<Rightarrow> string list" where
  "splitlines s = lines_of [] s"

definition line_feed :: string where "line_feed = [CHR 0x0A]"

definition has_suffix :: "string \<Rightarrow> string \<Rightarrow> bool" where
  "has_suffix s suffix \<longleftrightarrow> length suffix \<le> length s \<and> drop (length s - length suffix) s = suffix"

fun split_line :: "string \<Rightarrow> string list \<times> string list \<times> bool \<Rightarrow> string list \<times> string list \<times> bool" where
  "split_line line (statements, current, in_function) =
     (let stripped = strip line;
          in_function = (if contains_text ''$$'' stripped then \<not> in_function else in_function);
          current = current @ [line]
      in if has_suffix stripped '';'' \<and> \<not> in_function
         then let statement = strip (join_with line_feed current) in (if statement \<noteq> [] then statements @ [statement] else statements, [], in_function)
         else (statements, current, in_function))"

definition split_sql :: "string \<Rightarrow> string list" where
  "split_sql sql =
     (case fold split_line (splitlines sql) ([], [], False) of (statements, current, _) \<Rightarrow>
       let trailing = strip (join_with line_feed current) in if trailing \<noteq> [] then statements @ [trailing] else statements)"

section \<open>The runners\<close>

record 'd sql_database =
  sd_data :: 'd
  sd_migrations :: "string list"
  sd_seeds :: "string list"

record 'd sql_env =
  sq_execute :: "string \<Rightarrow> 'd \<Rightarrow> 'd res"
  sq_has_table :: "string \<Rightarrow> 'd \<Rightarrow> bool"
  sq_commit :: "unit res"

definition INITIAL_MIGRATION :: string where "INITIAL_MIGRATION = ''0001_initial_schema.sql''"

definition INITIAL_SCHEMA_TABLES :: "string list" where
  "INITIAL_SCHEMA_TABLES = [''roles'', ''permissions'', ''user_roles'', ''role_permissions'', ''bot_configs'', ''exchange_accounts'', ''trading_pairs'', ''orders'', ''trades'',
     ''inventory_snapshots'', ''audit_logs'']"

definition execute_sql :: "'d sql_env \<Rightarrow> string \<Rightarrow> ('d sql_database, unit) op" where
  "execute_sql env statement s = (case sq_execute env statement (sd_data s) of Inl e \<Rightarrow> (Inl e, s) | Inr d \<Rightarrow> (Inr (), s\<lparr>sd_data := d\<rparr>))"

text \<open>\<open>INSERT\<close> into the table of names, whose column is the primary key.\<close>

definition insert_name :: "('s \<Rightarrow> string list) \<Rightarrow> (string list \<Rightarrow> 's \<Rightarrow> 's) \<Rightarrow> string \<Rightarrow> ('s, unit) op" where
  "insert_name names put name =
     bindm (reads names) (\<lambda>known. if name \<in> set known then raise_err IntegrityError else modifies (put (known @ [name])))"

abbreviation put_migrations :: "string list \<Rightarrow> 'd sql_database \<Rightarrow> 'd sql_database" where "put_migrations ns s \<equiv> s\<lparr>sd_migrations := ns\<rparr>"
abbreviation put_seeds :: "string list \<Rightarrow> 'd sql_database \<Rightarrow> 'd sql_database" where "put_seeds ns s \<equiv> s\<lparr>sd_seeds := ns\<rparr>"

type_synonym sql_directory = "(string \<times> string res) list"

text \<open>\<open>sorted(path.glob("*.sql"))\<close>.\<close>

definition sql_files :: "sql_directory \<Rightarrow> sql_directory" where
  "sql_files directory = sort_key fst (filter (\<lambda>(name, _). has_suffix name ''.sql'') directory)"

fun apply_new :: "'d sql_env \<Rightarrow> ('d sql_database \<Rightarrow> string list) \<Rightarrow> (string list \<Rightarrow> 'd sql_database \<Rightarrow> 'd sql_database) \<Rightarrow> string list \<Rightarrow> sql_directory
    \<Rightarrow> ('d sql_database, string list) op" where
  "apply_new env names put existing [] = ret []"
| "apply_new env names put existing ((name, content) # files) =
     (if name \<in> set existing then apply_new env names put existing files
      else
        bindm (lift_res content) (\<lambda>sql.
        seqm (loop (execute_sql env) (split_sql sql)) (
        seqm (insert_name names put name) (
        bindm (apply_new env names put existing files) (\<lambda>applied. ret (name # applied))))))"

definition in_transaction :: "'d sql_env \<Rightarrow> ('d sql_database, 'a) op \<Rightarrow> ('d sql_database, 'a) op" where
  "in_transaction env body s =
     (case body s of
        (Inl e, _) \<Rightarrow> (Inl e, s)
      | (Inr x, t) \<Rightarrow> (case sq_commit env of Inl e \<Rightarrow> (Inl e, s) | Inr _ \<Rightarrow> (Inr x, t)))"

definition initial_schema_exists :: "'d sql_env \<Rightarrow> 'd sql_database \<Rightarrow> bool" where
  "initial_schema_exists env s \<longleftrightarrow> list_all (\<lambda>table. sq_has_table env table (sd_data s)) INITIAL_SCHEMA_TABLES"

definition migrate :: "'d sql_env \<Rightarrow> sql_directory \<Rightarrow> ('d sql_database, string list) op" where
  "migrate env directory = in_transaction env (
     bindm (reads sd_migrations) (\<lambda>existing.
     bindm (reads (initial_schema_exists env)) (\<lambda>present.
     if INITIAL_MIGRATION \<notin> set existing \<and> present
     then seqm (insert_name sd_migrations put_migrations INITIAL_MIGRATION)
            (apply_new env sd_migrations put_migrations (existing @ [INITIAL_MIGRATION]) (sql_files directory))
     else apply_new env sd_migrations put_migrations existing (sql_files directory))))"

definition seed :: "'d sql_env \<Rightarrow> sql_directory \<Rightarrow> ('d sql_database, string list) op" where
  "seed env directory = in_transaction env (
     bindm (reads sd_seeds) (\<lambda>existing. apply_new env sd_seeds put_seeds existing (sql_files directory)))"

text \<open>\<open>cli/database.py\<close>: the names that each runner has applied are printed.\<close>

datatype database_action = Action_migrate | Action_seed | Action_all

definition run_database :: "'d sql_env \<Rightarrow> sql_directory \<Rightarrow> sql_directory \<Rightarrow> database_action \<Rightarrow> ('d sql_database, string list list) op" where
  "run_database env migrations seeds action =
     bindm (if action \<in> {Action_migrate, Action_all} then bindm (migrate env migrations) (\<lambda>applied. ret [applied]) else ret []) (\<lambda>printed.
     bindm (if action \<in> {Action_seed, Action_all} then bindm (seed env seeds) (\<lambda>applied. ret [applied]) else ret []) (\<lambda>more_printed.
     ret (printed @ more_printed)))"

section \<open>Splitting keeps the text\<close>

abbreviation visible :: "string \<Rightarrow> string" where "visible s \<equiv> filter (\<lambda>c. \<not> is_space c) s"

lemma visible_dropWhile: "visible (dropWhile is_space s) = visible s"
  by (induction s) auto

lemma visible_strip: "visible (strip s) = visible s"
proof -
  have "visible (rev t) = rev (visible t)" for t by (simp add: rev_filter)
  then show ?thesis by (simp add: strip_def visible_dropWhile)
qed

lemma visible_join: "visible (join_with line_feed xs) = concat (map visible xs)"
proof -
  have "visible line_feed = []" by (simp add: line_feed_def is_space_def)
  then show ?thesis by (induction line_feed xs rule: join_with.induct) simp_all
qed

lemma line_break_space: "is_line_break c \<Longrightarrow> is_space c"
  by (auto simp: is_line_break_def is_space_def)

lemma visible_lines: "concat (map visible (lines_of line s)) = visible line @ visible s"
proof (induction line s rule: lines_of.induct)
  case (2 line c s)
  have "is_space (CHR 0x0D)" "is_space (CHR 0x0A)" by (simp_all add: is_space_def)
  then show ?case using 2 line_break_space[of c] by (cases s) auto
qed simp

lemma visible_split:
  assumes "fold split_line ls (sts, cur, f) = (sts', cur', f')"
  shows "concat (map visible sts') @ concat (map visible cur') = concat (map visible sts) @ concat (map visible cur) @ concat (map visible ls)"
  using assms
proof (induction ls arbitrary: sts cur f)
  case (Cons l ls)
  obtain sts1 cur1 f1 where step: "split_line l (sts, cur, f) = (sts1, cur1, f1)" by (metis prod.exhaust)
  have "visible (strip (join_with line_feed (cur @ [l]))) = concat (map visible cur) @ visible l" by (simp add: visible_strip visible_join)
  then have "concat (map visible sts1) @ concat (map visible cur1) = concat (map visible sts) @ concat (map visible cur) @ visible l"
    using step by (auto simp: Let_def split: if_splits)
  moreover have "fold split_line ls (sts1, cur1, f1) = (sts', cur', f')" using Cons.prems step by (simp del: split_line.simps)
  ultimately show ?case using Cons.IH by force
qed simp

text \<open>Splitting a file into statements loses, repeats and reorders nothing but white space.\<close>

theorem split_sql_keeps_text: "visible (concat (split_sql sql)) = visible sql"
proof -
  obtain sts cur f where run: "fold split_line (splitlines sql) ([], [], False) = (sts, cur, f)" by (metis prod.exhaust)
  have "concat (map visible sts) @ concat (map visible cur) = visible sql"
    using visible_split[OF run] visible_lines[of "[]" sql] by (simp add: splitlines_def)
  moreover have trailing: "visible (strip (join_with line_feed cur)) = concat (map visible cur)" by (simp add: visible_strip visible_join)
  ultimately show ?thesis
  proof (cases "strip (join_with line_feed cur) = []")
    case True
    then have none: "concat (map visible cur) = []" using trailing by simp
    have "concat (map visible sts) = visible sql" using \<open>concat (map visible sts) @ concat (map visible cur) = visible sql\<close> unfolding none by simp
    then show ?thesis using True by (simp add: split_sql_def run filter_concat)
  qed (simp add: split_sql_def run filter_concat Let_def)
qed

text \<open>
  A line is looked at once for a dollar quote: a body that opens and closes on one line leaves the splitter inside a function, and the
  statements after it, up to the next line with a dollar quote, become one.
\<close>

theorem one_line_body_swallows: "split_sql (''DO $$ BEGIN END $$;'' @ line_feed @ ''SELECT 1;'' @ line_feed @ ''SELECT 2;'')
    = [''DO $$ BEGIN END $$;'' @ line_feed @ ''SELECT 1;'' @ line_feed @ ''SELECT 2;'']"
  by code_simp

section \<open>What a run does\<close>

text \<open>Executing statements one after another.\<close>

fun execute_all :: "'d sql_env \<Rightarrow> string list \<Rightarrow> 'd \<Rightarrow> 'd res" where
  "execute_all env [] d = Inr d"
| "execute_all env (st # sts) d = bindr (sq_execute env st d) (execute_all env sts)"

definition statements_of :: "string res \<Rightarrow> string list" where
  "statements_of content = (case content of Inl _ \<Rightarrow> [] | Inr sql \<Rightarrow> split_sql sql)"

lemma execute_all_append: "execute_all env (xs @ ys) d = bindr (execute_all env xs d) (execute_all env ys)"
  by (induction xs arbitrary: d) (auto simp: split: sum.split, metis bindr.simps(1) bindr.simps(2) sum.exhaust)

lemma loop_execute: "loop (execute_sql env) sts s = (r, t) \<Longrightarrow>
   (case r of Inl e \<Rightarrow> execute_all env sts (sd_data s) = Inl e | Inr _ \<Rightarrow> \<exists>d. execute_all env sts (sd_data s) = Inr d \<and> t = s\<lparr>sd_data := d\<rparr>)"
proof (induction sts arbitrary: s)
  case (Cons st sts)
  show ?case
  proof (cases "sq_execute env st (sd_data s)")
    case (Inl e)
    then show ?thesis using Cons.prems by (auto simp: seqm_def bindm_def execute_sql_def)
  next
    case (Inr d)
    then have "execute_sql env st s = (Inr (), s\<lparr>sd_data := d\<rparr>)" by (simp add: execute_sql_def)
    then have "loop (execute_sql env) sts (s\<lparr>sd_data := d\<rparr>) = (r, t)" using Cons.prems by (simp add: seqm_def bindm_def)
    from Cons.IH[OF this] show ?thesis using Inr by (auto split: sum.splits)
  qed
qed auto

locale name_table =
  fixes names :: "'d sql_database \<Rightarrow> string list" and put :: "string list \<Rightarrow> 'd sql_database \<Rightarrow> 'd sql_database"
  assumes names_put: "names (put ns s) = ns"
    and data_put: "sd_data (put ns s) = sd_data s"
    and names_data: "names (s\<lparr>sd_data := d\<rparr>) = names s"
begin

lemma apply_new_run:
  assumes "distinct (map fst files)" "set existing \<subseteq> set (names s)" "\<forall>f \<in> set files. fst f \<in> set (names s) \<longrightarrow> fst f \<in> set existing"
    "apply_new env names put existing files s = (Inr applied, t)"
  shows "applied = filter (\<lambda>n. n \<notin> set existing) (map fst files) \<and> names t = names s @ applied
    \<and> execute_all env (concat (map (statements_of \<circ> snd) (filter (\<lambda>f. fst f \<notin> set existing) files))) (sd_data s) = Inr (sd_data t)"
  using assms
proof (induction files arbitrary: s applied)
  case (Cons f files)
  obtain name content where f: "f = (name, content)" by (cases f)
  show ?case
  proof (cases "name \<in> set existing")
    case True
    then show ?thesis using Cons.IH[of s applied] Cons.prems by (simp add: f)
  next
    case False
    let ?rest = "bindm (apply_new env names put existing files) (\<lambda>ns. ret (name # ns))"
    obtain sql where sql: "content = Inr sql" using Cons.prems(4) False by (cases content) (auto simp: f bindm_def)
    have "seqm (loop (execute_sql env) (split_sql sql)) (seqm (insert_name names put name) ?rest) s = (Inr applied, t)"
      using Cons.prems(4) False by (simp add: f sql)
    then obtain s1 where s1: "loop (execute_sql env) (split_sql sql) s = (Inr (), s1)" "seqm (insert_name names put name) ?rest s1 = (Inr applied, t)"
      by (subst (asm) seqm_def) (elim bindm_InrE, simp)
    obtain d where d: "execute_all env (split_sql sql) (sd_data s) = Inr d" "s1 = s\<lparr>sd_data := d\<rparr>" using loop_execute[OF s1(1)] by auto
    have fresh: "name \<notin> set (names s)" using Cons.prems(3) False by (auto simp: f)
    let ?s2 = "put (names s @ [name]) s1"
    have "insert_name names put name s1 = (Inr (), ?s2)" using fresh by (simp add: insert_name_def d(2) names_data)
    then have "?rest ?s2 = (Inr applied, t)" using s1(2) by (simp add: seqm_def bindm_def)
    then obtain ns where ns: "apply_new env names put existing files ?s2 = (Inr ns, t)" "applied = name # ns" by (elim bindm_InrE) auto
    have s2: "names ?s2 = names s @ [name]" "sd_data ?s2 = d" by (simp_all add: names_put data_put d(2))
    have "ns = filter (\<lambda>n. n \<notin> set existing) (map fst files) \<and> names t = names ?s2 @ ns
      \<and> execute_all env (concat (map (statements_of \<circ> snd) (filter (\<lambda>f. fst f \<notin> set existing) files))) (sd_data ?s2) = Inr (sd_data t)"
      using Cons.prems(1-3) by (intro Cons.IH[OF _ _ _ ns(1)]) (auto simp: s2 f)
    moreover have "statements_of (Inr sql) = split_sql sql" by (simp add: statements_of_def)
    ultimately show ?thesis using False d(1) by (simp add: ns(2) s2 f sql execute_all_append comp_def)
  qed
qed simp

end

interpretation migration_names: name_table sd_migrations "\<lambda>ns s. s\<lparr>sd_migrations := ns\<rparr>"
  by unfold_locales simp_all

interpretation seed_names: name_table sd_seeds "\<lambda>ns s. s\<lparr>sd_seeds := ns\<rparr>"
  by unfold_locales simp_all

definition adopted :: "'d sql_env \<Rightarrow> 'd sql_database \<Rightarrow> string list" where
  "adopted env s = (if INITIAL_MIGRATION \<notin> set (sd_migrations s) \<and> initial_schema_exists env s then [INITIAL_MIGRATION] else [])"

definition new_files :: "string list \<Rightarrow> sql_directory \<Rightarrow> sql_directory" where
  "new_files existing directory = filter (\<lambda>f. fst f \<notin> set existing) (sql_files directory)"

lemma sql_files_names:
  assumes "distinct (map fst directory)"
  shows "distinct (map fst (sql_files directory))" "sorted (map fst (new_files existing directory))"
proof -
  have "distinct (map fst (filter P directory))" for P using assms by (rule distinct_map_filter)
  then show "distinct (map fst (sql_files directory))" by (simp add: sql_files_def distinct_map)
  have "sorted (map fst (sql_files directory))" by (simp add: sql_files_def)
  then show "sorted (map fst (new_files existing directory))" unfolding new_files_def by (rule sorted_filter)
qed

lemma in_transaction_cases:
  obtains e where "in_transaction env body s = (Inl e, s)"
  | x t where "body s = (Inr x, t)" "in_transaction env body s = (Inr x, t)" "sq_commit env = Inr ()"
  by (cases "body s"; cases "fst (body s)"; cases "sq_commit env") (auto simp: in_transaction_def)

definition migrate_body :: "'d sql_env \<Rightarrow> sql_directory \<Rightarrow> ('d sql_database, string list) op" where
  "migrate_body env directory s = apply_new env sd_migrations put_migrations (sd_migrations s @ adopted env s) (sql_files directory)
     (s\<lparr>sd_migrations := sd_migrations s @ adopted env s\<rparr>)"

lemma migrate_eq: "migrate env directory = in_transaction env (migrate_body env directory)"
  unfolding migrate_def
  by (rule arg_cong[where f = "in_transaction env"], rule ext) (simp add: migrate_body_def adopted_def insert_name_def seqm_def bindm_def)

lemma filter_names: "filter (\<lambda>n. n \<notin> S) (map fst fs) = map fst (filter (\<lambda>f. fst f \<notin> S) fs)"
  by (induction fs) auto

text \<open>
  C33. A run of the migrations applies exactly the new files of the directory, in the order of their names, executes exactly their statements one after
  another and records their names; an existing schema is adopted as the first migration. A run that fails leaves the database as it was.
\<close>

theorem migrate_applies_new_files:
  assumes "distinct (map fst directory)"
  shows "case migrate env directory s of
      (Inl e, t) \<Rightarrow> t = s
    | (Inr applied, t) \<Rightarrow> (let new = new_files (sd_migrations s @ adopted env s) directory in
        applied = map fst new \<and> sorted applied \<and> sd_migrations t = sd_migrations s @ adopted env s @ applied
        \<and> execute_all env (concat (map (statements_of \<circ> snd) new)) (sd_data s) = Inr (sd_data t))"
proof (cases rule: in_transaction_cases[of env "migrate_body env directory" s])
  case (2 applied t)
  from migration_names.apply_new_run[OF sql_files_names(1)[OF assms] _ _ 2(1)[unfolded migrate_body_def]]
  have "applied = map fst (new_files (sd_migrations s @ adopted env s) directory) \<and> sd_migrations t = (sd_migrations s @ adopted env s) @ applied
    \<and> execute_all env (concat (map (statements_of \<circ> snd) (new_files (sd_migrations s @ adopted env s) directory))) (sd_data s) = Inr (sd_data t)"
    by (simp add: filter_names new_files_def del: set_append)
  then show ?thesis using sql_files_names(2)[OF assms] by (simp add: migrate_eq 2(2))
qed (simp add: migrate_eq)

text \<open>A run of the seeds applies exactly the new files of its directory, in the order of their names; one that fails leaves the database as it was.\<close>

theorem seed_applies_new_files:
  assumes "distinct (map fst directory)"
  shows "case seed env directory s of
      (Inl e, t) \<Rightarrow> t = s
    | (Inr applied, t) \<Rightarrow> (let new = new_files (sd_seeds s) directory in
        applied = map fst new \<and> sorted applied \<and> sd_seeds t = sd_seeds s @ applied
        \<and> execute_all env (concat (map (statements_of \<circ> snd) new)) (sd_data s) = Inr (sd_data t))"
proof (cases rule: in_transaction_cases[of env "bindm (reads sd_seeds) (\<lambda>existing. apply_new env sd_seeds put_seeds existing (sql_files directory))" s])
  case (2 applied t)
  from seed_names.apply_new_run[OF sql_files_names(1)[OF assms] _ _ 2(1)[unfolded bindm_reads]]
  have "applied = map fst (new_files (sd_seeds s) directory) \<and> sd_seeds t = sd_seeds s @ applied
    \<and> execute_all env (concat (map (statements_of \<circ> snd) (new_files (sd_seeds s) directory))) (sd_data s) = Inr (sd_data t)"
    by (simp add: filter_names new_files_def)
  then show ?thesis using sql_files_names(2)[OF assms] by (simp add: seed_def 2(2))
qed (simp add: seed_def)

text \<open>Running the migrations of a directory that has the initial one again applies nothing and changes nothing.\<close>

theorem migrate_again:
  assumes "distinct (map fst directory)" "INITIAL_MIGRATION \<in> set (map fst directory)" "migrate env directory s = (Inr applied, t)"
  shows "migrate env directory t = (Inr [], t)"
proof -
  obtain commit: "sq_commit env = Inr ()" "migrate_body env directory s = (Inr applied, t)"
    using assms(3) by (cases rule: in_transaction_cases[of env "migrate_body env directory" s]) (auto simp: migrate_eq)
  from migration_names.apply_new_run[OF sql_files_names(1)[OF assms(1)] _ _ commit(2)[unfolded migrate_body_def]]
  have t: "sd_migrations t = sd_migrations s @ adopted env s @ map fst (new_files (sd_migrations s @ adopted env s) directory)"
    by (simp add: filter_names new_files_def del: set_append)
  then have known: "n \<in> set (sd_migrations t)" if "n \<in> set (map fst (sql_files directory))" for n using that by (auto simp: new_files_def)
  have "INITIAL_MIGRATION \<in> set (map fst (sql_files directory))" using assms(2) by (force simp: sql_files_def INITIAL_MIGRATION_def has_suffix_def)
  then have "adopted env t = []" using known by (simp add: adopted_def)
  moreover have "apply_new env sd_migrations put_migrations (sd_migrations t) fs t = (Inr [], t)" if "set (map fst fs) \<subseteq> set (sd_migrations t)" for fs
    using that by (induction fs) auto
  ultimately have "migrate_body env directory t = (Inr [], t)" using known by (simp add: migrate_body_def subset_eq)
  then show ?thesis using commit(1) by (simp add: migrate_eq in_transaction_def)
qed

section \<open>Instances\<close>

definition logging_sql :: "string list sql_env" where
  "logging_sql = \<lparr>sq_execute = (\<lambda>st d. Inr (d @ [st])), sq_has_table = (\<lambda>_ _. False), sq_commit = Inr ()\<rparr>"

definition example_directory :: sql_directory where
  "example_directory = [(''0002.sql'', Inr ''b;''), (''0001_initial_schema.sql'', Inr ''a;''), (''notes.txt'', Inr ''c;'')]"

lemma example_migrate: "migrate logging_sql example_directory \<lparr>sd_data = [], sd_migrations = [], sd_seeds = []\<rparr>
   = (Inr [''0001_initial_schema.sql'', ''0002.sql''], \<lparr>sd_data = [''a;'', ''b;''], sd_migrations = [''0001_initial_schema.sql'', ''0002.sql''], sd_seeds = []\<rparr>)"
  by code_simp

theorem migrate_applies_new_files_witness:
  "case migrate logging_sql example_directory \<lparr>sd_data = [], sd_migrations = [], sd_seeds = []\<rparr> of (Inl e, t) \<Rightarrow> False | (Inr applied, t) \<Rightarrow> sorted applied \<and> sd_data t = [''a;'', ''b;'']"
proof -
  have "distinct (map fst example_directory)" by (simp add: example_directory_def)
  from migrate_applies_new_files[OF this, where env = logging_sql and s = "\<lparr>sd_data = [], sd_migrations = [], sd_seeds = []\<rparr>"] show ?thesis
    unfolding example_migrate prod.case sum.case Let_def by (elim conjE) (intro conjI, assumption, simp)
qed

theorem migrate_again_witness:
  "migrate logging_sql example_directory \<lparr>sd_data = [''a;'', ''b;''], sd_migrations = [''0001_initial_schema.sql'', ''0002.sql''], sd_seeds = []\<rparr>
   = (Inr [], \<lparr>sd_data = [''a;'', ''b;''], sd_migrations = [''0001_initial_schema.sql'', ''0002.sql''], sd_seeds = []\<rparr>)"
  by (rule migrate_again[OF _ _ example_migrate]) (simp_all add: example_directory_def INITIAL_MIGRATION_def)

theorem seed_applies_new_files_witness:
  "case seed logging_sql example_directory \<lparr>sd_data = [], sd_migrations = [], sd_seeds = [''0002.sql'']\<rparr> of (Inl e, t) \<Rightarrow> False | (Inr applied, t) \<Rightarrow> sorted applied \<and> sd_data t = [''a;'']"
proof -
  have run: "seed logging_sql example_directory \<lparr>sd_data = [], sd_migrations = [], sd_seeds = [''0002.sql'']\<rparr>
     = (Inr [''0001_initial_schema.sql''], \<lparr>sd_data = [''a;''], sd_migrations = [], sd_seeds = [''0002.sql'', ''0001_initial_schema.sql'']\<rparr>)" by code_simp
  have "distinct (map fst example_directory)" by (simp add: example_directory_def)
  from seed_applies_new_files[OF this, where env = logging_sql and s = "\<lparr>sd_data = [], sd_migrations = [], sd_seeds = [''0002.sql'']\<rparr>"] show ?thesis
    unfolding run prod.case sum.case Let_def by (elim conjE) (intro conjI, assumption, simp)
qed

end
