(* ===== verification/Env_Check.thy ===== *)
theory Env_Check
  imports Migrations Access
begin

text \<open>
  The validation of a deployment's environment, \<open>scripts/validate_env.py\<close>, and the validators of \<open>core/config.py\<close> that read the same variables when
  the processes start.

  The contents of files, the process environment, JSON parsing (\<open>json.loads\<close>, with the text of its error) and the answers of the health endpoints are
  arguments. Texts are ASCII.
\<close>

type_synonym json_loads = "string \<Rightarrow> string + json"

section \<open>Environment files\<close>

datatype env_fault = File_not_found | Bad_line nat | Empty_key nat | Fault pyerr

definition strip_of :: "char \<Rightarrow> string \<Rightarrow> string" where
  "strip_of c s = rev (dropWhile (\<lambda>x. x = c) (rev (dropWhile (\<lambda>x. x = c) s)))"

fun env_lines :: "nat \<Rightarrow> string list \<Rightarrow> (string, string) dict \<Rightarrow> env_fault + (string, string) dict" where
  "env_lines n [] values = Inr values"
| "env_lines n (raw_line # raw_lines) values =
     (let line = strip raw_line in
      if line = [] \<or> hd line = CHR ''#'' then env_lines (Suc n) raw_lines values
      else if CHR ''='' \<notin> set line then Inl (Bad_line n)
      else let key = strip (takeWhile (\<lambda>c. c \<noteq> CHR ''='') line);
               v = strip_of CHR 0x27 (strip_of CHR 0x22 (strip (tl (dropWhile (\<lambda>c. c \<noteq> CHR ''='') line))))
           in if key = [] then Inl (Empty_key n) else env_lines (Suc n) raw_lines (dict_set key v values))"

definition parse_env_file :: "string option \<Rightarrow> env_fault + (string, string) dict" where
  "parse_env_file content = (case content of None \<Rightarrow> Inl File_not_found | Some s \<Rightarrow> env_lines 1 (splitlines s) [])"

definition merged_environment :: "(string, string) dict \<Rightarrow> string option option \<Rightarrow> env_fault + (string, string) dict" where
  "merged_environment environ env_file =
     (case env_file of
        None \<Rightarrow> Inr environ
      | Some content \<Rightarrow> (case parse_env_file content of Inl e \<Rightarrow> Inl e | Inr values \<Rightarrow> Inr (fold (\<lambda>(k, v). dict_set k v) values environ)))"

section \<open>Checks of the variables\<close>

definition REQUIRED_KEYS :: "string list" where
  "REQUIRED_KEYS = [''DATABASE_URL'', ''REDIS_URL'', ''REDIS_PASSWORD'', ''JWT_SECRET'', ''TELEGRAM_BOT_TOKEN'', ''TELEGRAM_CHAT_ID'', ''EXCHANGE_API_KEYS'', ''EXCHANGE_API_SECRETS'',
     ''POSTGRES_DB'', ''POSTGRES_USER'', ''POSTGRES_PASSWORD'', ''MARKET_DATA_EXCHANGES'', ''MARKET_DATA_SYMBOLS'', ''SERVER_IP'', ''SERVER_PORT'', ''LOG_LEVEL'', ''APP_ENV'']"

definition ALLOWED_APP_ENVS :: "string list" where "ALLOWED_APP_ENVS = [''development'', ''staging'', ''production'', ''test'']"
definition ALLOWED_LOG_LEVELS :: "string list" where "ALLOWED_LOG_LEVELS = [''TRACE'', ''DEBUG'', ''INFO'', ''WARNING'', ''WARN'', ''ERROR'', ''CRITICAL'']"

text \<open>The three patterns: the first two ignore case; \<open>$\<close> also matches before a last line feed.\<close>

definition has_words :: "string \<Rightarrow> string \<Rightarrow> string \<Rightarrow> bool" where
  "has_words first second s \<longleftrightarrow> list_ex (\<lambda>sep. contains_text (first @ sep @ second) (lower s)) [[], ''-'', ''_'', '' '']"

definition is_placeholder :: "string \<Rightarrow> bool" where
  "is_placeholder s \<longleftrightarrow> take 2 s = ''${'' \<and> 4 \<le> length s \<and> last s = CHR ''}''
     \<and> list_all (\<lambda>c. (CHR ''A'' \<le> c \<and> c \<le> CHR ''Z'') \<or> is_digit c \<or> c = CHR ''_'') (butlast (drop 2 s))"

definition is_template_value :: "string \<Rightarrow> bool" where
  "is_template_value s \<longleftrightarrow> has_words ''change'' ''me'' s \<or> has_words ''sample'' ''value'' s \<or> is_placeholder s
     \<or> (s \<noteq> [] \<and> last s = CHR 0x0A \<and> is_placeholder (butlast s))"

definition comma_list :: "string list \<Rightarrow> string" where
  "comma_list xs = join_with '', '' xs"

fun blank_text :: "json \<Rightarrow> bool" where
  "blank_text (JStr s) \<longleftrightarrow> strip s = []"
| "blank_text _ \<longleftrightarrow> True"

definition parse_json_object :: "json_loads \<Rightarrow> string \<Rightarrow> string \<Rightarrow> string + obj" where
  "parse_json_object loads name v =
     (case loads v of
        Inl exc \<Rightarrow> Inl (name @ '' must be a valid JSON object: '' @ exc)
      | Inr (JDict d) \<Rightarrow>
          if d = [] then Inl (name @ '' must be a non-empty JSON object keyed by exchange/account alias'')
          else if list_ex (\<lambda>key. strip key = []) (dict_keys d) then Inl (name @ '' contains empty or non-string keys'')
          else let bad_values = map fst (filter (\<lambda>(key, item). blank_text item) d)
               in if bad_values \<noteq> [] then Inl (name @ '' contains empty or non-string values for keys: '' @ comma_list bad_values)
                  else Inr d
      | Inr _ \<Rightarrow> Inl (name @ '' must be a non-empty JSON object keyed by exchange/account alias''))"

definition env_get :: "(string, string) dict \<Rightarrow> string \<Rightarrow> string \<Rightarrow> string" where
  "env_get values key other = dict_get_or values key other"

definition required_errors :: "bool \<Rightarrow> (string, string) dict \<Rightarrow> string list" where
  "required_errors allow_template_values values = concat (map (\<lambda>key.
     let v = env_get values key [] in
     if v = [] then [''Missing required environment variable: '' @ key]
     else if \<not> allow_template_values \<and> is_template_value v then [key @ '' contains a template value''] else []) REQUIRED_KEYS)"

definition choice_error :: "string \<Rightarrow> string \<Rightarrow> string list \<Rightarrow> string list" where
  "choice_error name v allowed =
     (if v \<noteq> [] \<and> v \<notin> set allowed then [name @ '' must be one of: '' @ comma_list (sort allowed)] else [])"

definition port_errors :: "string \<Rightarrow> string list" where
  "port_errors v =
     (case parse_int v of
        None \<Rightarrow> [''SERVER_PORT must be an integer'']
      | Some port \<Rightarrow> if 1 \<le> port \<and> port \<le> 65535 then [] else [''SERVER_PORT must be between 1 and 65535''])"

definition missing_aliases :: "obj \<Rightarrow> obj \<Rightarrow> string list" where
  "missing_aliases a b = sort (filter (\<lambda>k. k \<notin> set (dict_keys b)) (remdups (dict_keys a)))"

definition alias_errors :: "obj \<Rightarrow> obj \<Rightarrow> string list" where
  "alias_errors api_keys api_secrets =
     (if set (dict_keys api_keys) = set (dict_keys api_secrets) then []
      else (let missing_secrets = missing_aliases api_keys api_secrets; missing_keys = missing_aliases api_secrets api_keys in
        (if missing_secrets \<noteq> [] then [''EXCHANGE_API_SECRETS missing aliases: '' @ comma_list missing_secrets] else [])
        @ (if missing_keys \<noteq> [] then [''EXCHANGE_API_KEYS missing aliases: '' @ comma_list missing_keys] else [])))"

definition credential_errors :: "json_loads \<Rightarrow> string \<Rightarrow> string \<Rightarrow> string list" where
  "credential_errors loads keys_value secrets_value =
     (let api_keys = parse_json_object loads ''EXCHANGE_API_KEYS'' keys_value; api_secrets = parse_json_object loads ''EXCHANGE_API_SECRETS'' secrets_value in
      (case api_keys of Inl key_error \<Rightarrow> [key_error] | Inr _ \<Rightarrow> []) @ (case api_secrets of Inl secret_error \<Rightarrow> [secret_error] | Inr _ \<Rightarrow> [])
      @ (case (api_keys, api_secrets) of (Inr a, Inr b) \<Rightarrow> alias_errors a b | _ \<Rightarrow> []))"

definition validate_environment :: "json_loads \<Rightarrow> (string, string) dict \<Rightarrow> bool \<Rightarrow> string list" where
  "validate_environment loads values allow_template_values =
     (let jwt_secret = env_get values ''JWT_SECRET'' [];
          keys_value = env_get values ''EXCHANGE_API_KEYS'' ''{}''; secrets_value = env_get values ''EXCHANGE_API_SECRETS'' ''{}'';
          errors = required_errors allow_template_values values
            @ choice_error ''APP_ENV'' (env_get values ''APP_ENV'' []) ALLOWED_APP_ENVS
            @ choice_error ''LOG_LEVEL'' (upper (env_get values ''LOG_LEVEL'' [])) ALLOWED_LOG_LEVELS
            @ port_errors (env_get values ''SERVER_PORT'' [])
            @ (if jwt_secret \<noteq> [] \<and> \<not> allow_template_values \<and> length jwt_secret < 32 then [''JWT_SECRET must be at least 32 characters''] else [])
      in if allow_template_values \<and> (is_template_value keys_value \<or> is_template_value secrets_value) then errors
         else errors @ credential_errors loads keys_value secrets_value)"

section \<open>Checks of a release\<close>

definition REQUIRED_JWT_ROLES :: "string list" where
  "REQUIRED_JWT_ROLES = [''platform_admin'', ''risk_manager'', ''trader_operator'', ''incident_responder'']"

definition REQUIRED_JWT_PERMISSIONS :: "string list" where
  "REQUIRED_JWT_PERMISSIONS = [''operations:read'', ''config:write'', ''risk:write'', ''incident:write'']"

definition REQUIRED_OPENAPI_PATHS :: "string list" where
  "REQUIRED_OPENAPI_PATHS = [''/operations/runtime-config'', ''/operations/runtime-events'', ''/admin/strategy/command'', ''/operations/volume'', ''/admin/coinstore/accounts'',
     ''/admin/coinstore/health'', ''/admin/coinstore/balance-sync'', ''/admin/emergency/cancel-all-orders'', ''/admin/emergency/close-positions'', ''/admin/emergency/shutdown'']"

text \<open>The names in the directory of the migrations, if there is one, and the text of a file, if it exists.\<close>

record repository =
  rf_migrations :: "string list option"
  rf_text :: "string \<Rightarrow> string option"

definition file_text :: "repository \<Rightarrow> string \<Rightarrow> string" where
  "file_text repo path = (case rf_text repo path of None \<Rightarrow> [] | Some s \<Rightarrow> s)"

definition validate_release_files :: "repository \<Rightarrow> string list" where
  "validate_release_files repo =
     (let migrations = (case rf_migrations repo of None \<Rightarrow> [] | Some names \<Rightarrow> sort (filter (\<lambda>name. has_suffix name ''.sql'') names));
          schema_text = file_text repo ''database/schema.sql'';
          migration_text = file_text repo ''database/migrations/0002_runtime_events_and_rbac.sql'';
          openapi_text = file_text repo ''api/openapi.yaml'';
          compose_text = file_text repo ''docker-compose.yml'' in
      (if ''0001_initial_schema.sql'' \<notin> set migrations then [''Missing database/migrations/0001_initial_schema.sql''] else [])
      @ (if ''0002_runtime_events_and_rbac.sql'' \<notin> set migrations then [''Missing database/migrations/0002_runtime_events_and_rbac.sql''] else [])
      @ (if migrations \<noteq> [] \<and> migrations \<noteq> sort migrations then [''Database migrations are not lexicographically ordered''] else [])
      @ (if \<not> contains_text ''CREATE TABLE runtime_events'' schema_text then [''runtime_events table is missing from database/schema.sql''] else [])
      @ (if \<not> contains_text ''CREATE TABLE IF NOT EXISTS runtime_events'' migration_text
         then [''runtime_events migration is missing from 0002_runtime_events_and_rbac.sql''] else [])
      @ map (\<lambda>permission. ''RBAC migration missing permission '' @ permission)
          (filter (\<lambda>permission. \<not> contains_text permission migration_text) [''operations:read'', ''trading:write'', ''incident:write'', ''exchange:write''])
      @ map (\<lambda>path. ''OpenAPI contract missing '' @ path) (filter (\<lambda>path. \<not> contains_text path openapi_text) REQUIRED_OPENAPI_PATHS)
      @ (if contains_text ''redis-server'' compose_text \<and> \<not> contains_text ''appendonly'' compose_text
         then [''docker-compose Redis service does not enable appendonly persistence''] else []))"

definition claims_or_empty :: "obj \<Rightarrow> string \<Rightarrow> string list res" where
  "claims_or_empty payload key = (if json_truthy (jget payload key) then json_set (jget payload key) else Inr [])"

definition validate_jwt_claims :: "obj \<Rightarrow> string list res" where
  "validate_jwt_claims payload =
     bindr (claims_or_empty payload ''roles'') (\<lambda>roles.
     bindr (claims_or_empty payload ''permissions'') (\<lambda>permissions.
     Inr ((if \<not> intersects roles REQUIRED_JWT_ROLES then [''JWT roles must include at least one of: '' @ comma_list (sort REQUIRED_JWT_ROLES)] else [])
       @ (if \<not> intersects permissions REQUIRED_JWT_PERMISSIONS
          then [''JWT permissions must include at least one of: '' @ comma_list (sort REQUIRED_JWT_PERMISSIONS)] else [])
       @ (if \<not> has_key payload ''exp'' then [''JWT claims should include exp''] else []))))"

datatype url_answer = Status int | Url_error string | Url_fault pyerr

fun endpoint_errors :: "(string \<Rightarrow> url_answer) \<Rightarrow> string list \<Rightarrow> string list res" where
  "endpoint_errors urlopen [] = Inr []"
| "endpoint_errors urlopen (url # urls) =
     (case urlopen url of
        Url_fault e \<Rightarrow> Inl e
      | Url_error exc \<Rightarrow> bindr (endpoint_errors urlopen urls) (\<lambda>errors. Inr ((url @ '' failed: '' @ exc) # errors))
      | Status code \<Rightarrow> bindr (endpoint_errors urlopen urls) (\<lambda>errors.
          Inr (if code \<ge> 400 then (url @ '' returned HTTP '' @ str_int code) # errors else errors)))"

definition validate_health_endpoints :: "(string \<Rightarrow> url_answer) \<Rightarrow> string \<Rightarrow> string list res" where
  "validate_health_endpoints urlopen api_base_url =
     (let base = rev (dropWhile (\<lambda>c. c = CHR ''/'') (rev api_base_url)) in endpoint_errors urlopen [base @ ''/health'', base @ ''/ready''])"

section \<open>The script\<close>

record env_args =
  eg_env_file :: "string option option"
  eg_allow_template_values :: bool
  eg_release_checks :: bool
  eg_jwt_claims :: "(env_fault + json) option"
  eg_api_base_url :: "string option"

record script_env =
  sv_loads :: json_loads
  sv_environ :: "(string, string) dict"
  sv_repository :: repository
  sv_urlopen :: "string \<Rightarrow> url_answer"

definition requested :: "bool \<Rightarrow> (env_fault + string list) \<Rightarrow> env_fault + string list" where
  "requested wanted check = (if wanted then check else Inr [])"

definition as_fault :: "'a res \<Rightarrow> env_fault + 'a" where
  "as_fault r = (case r of Inl e \<Rightarrow> Inl (Fault e) | Inr x \<Rightarrow> Inr x)"

fun both :: "env_fault + string list \<Rightarrow> env_fault + string list \<Rightarrow> env_fault + string list" where
  "both (Inl e) _ = Inl e"
| "both (Inr xs) (Inl e) = Inl e"
| "both (Inr xs) (Inr ys) = Inr (xs @ ys)"

definition claims_check :: "env_fault + json \<Rightarrow> env_fault + string list" where
  "claims_check found =
     (case found of Inl e \<Rightarrow> Inl e | Inr v \<Rightarrow> as_fault (bindr (as_dict v) validate_jwt_claims))"

definition script_errors :: "script_env \<Rightarrow> env_args \<Rightarrow> env_fault + string list" where
  "script_errors env args =
     both (case merged_environment (sv_environ env) (eg_env_file args) of
             Inl e \<Rightarrow> Inl e | Inr values \<Rightarrow> Inr (validate_environment (sv_loads env) values (eg_allow_template_values args)))
     (both (requested (eg_release_checks args) (Inr (validate_release_files (sv_repository env))))
     (both (case eg_jwt_claims args of None \<Rightarrow> Inr [] | Some found \<Rightarrow> claims_check found)
       (case eg_api_base_url args of None \<Rightarrow> Inr [] | Some url \<Rightarrow> requested (url \<noteq> []) (as_fault (validate_health_endpoints (sv_urlopen env) url)))))"

definition validate_env_main :: "script_env \<Rightarrow> env_args \<Rightarrow> int" where
  "validate_env_main env args = (case script_errors env args of Inl _ \<Rightarrow> 2 | Inr errors \<Rightarrow> if errors \<noteq> [] then 1 else 0)"

section \<open>The settings of the processes\<close>

definition stripped_items :: "printer \<Rightarrow> json list \<Rightarrow> string list" where
  "stripped_items printer xs = filter (\<lambda>item. item \<noteq> []) (map (\<lambda>x. strip (py_str printer x)) xs)"

text \<open>A text that is a JSON text is read again; the number of times is bounded by the length of the first text.\<close>

definition unquoted :: "string \<Rightarrow> string" where
  "unquoted s = (if 2 \<le> length s \<and> hd s = last s \<and> (hd s = CHR 0x27 \<or> hd s = CHR 0x22) then strip (butlast (tl s)) else s)"

definition plain_list :: "json_loads \<Rightarrow> printer \<Rightarrow> string \<Rightarrow> string list res" where
  "plain_list loads printer stripped =
     (let s = unquoted stripped in
      if take 1 s = ''['' then
        (case loads s of
           Inl exc \<Rightarrow> Inl (ValueError exc)
         | Inr (JList xs) \<Rightarrow> Inr (stripped_items printer xs)
         | Inr _ \<Rightarrow> Inl (ValueError ''expected a JSON array''))
      else Inr (csv s))"

fun parse_text_list :: "nat \<Rightarrow> json_loads \<Rightarrow> printer \<Rightarrow> string \<Rightarrow> string list res" where
  "parse_text_list 0 loads printer s = Inl (RuntimeError ''maximum recursion depth exceeded'')"
| "parse_text_list (Suc n) loads printer s =
     (let stripped = strip s in
      case loads stripped of
        Inr (JList xs) \<Rightarrow> Inr (stripped_items printer xs)
      | Inr (JStr t) \<Rightarrow> parse_text_list n loads printer t
      | _ \<Rightarrow> plain_list loads printer stripped)"

fun parse_string_lists :: "json_loads \<Rightarrow> printer \<Rightarrow> json \<Rightarrow> string list res" where
  "parse_string_lists loads printer (JList xs) = Inr (stripped_items printer xs)"
| "parse_string_lists loads printer (JStr s) = parse_text_list (Suc (length s)) loads printer s"
| "parse_string_lists loads printer _ = Inl (ValueError ''expected list, JSON array string, or comma-separated string'')"

fun parse_exchange_maps :: "json_loads \<Rightarrow> printer \<Rightarrow> json \<Rightarrow> obj res" where
  "parse_exchange_maps loads printer (JDict d) = Inr d"
| "parse_exchange_maps loads printer (JStr s) =
     (case loads s of
        Inl exc \<Rightarrow> Inl (ValueError exc)
      | Inr (JDict d) \<Rightarrow> Inr (map (\<lambda>(k, v). (k, JStr (py_str printer v))) d)
      | Inr _ \<Rightarrow> Inl (ValueError ''exchange credential values must be JSON objects''))"
| "parse_exchange_maps loads printer _ = Inl (ValueError ''exchange credential values must be JSON objects'')"

section \<open>What an accepted environment is\<close>

definition credentials_ok :: "obj \<Rightarrow> bool" where
  "credentials_ok d \<longleftrightarrow> d \<noteq> [] \<and> list_all (\<lambda>(key, item). strip key \<noteq> [] \<and> \<not> blank_text item) d"

definition json_object :: "string + json \<Rightarrow> obj option" where
  "json_object v = (case v of Inr (JDict d) \<Rightarrow> Some d | _ \<Rightarrow> None)"

definition environment_ok :: "json_loads \<Rightarrow> (string, string) dict \<Rightarrow> bool" where
  "environment_ok loads values \<longleftrightarrow>
     (let get = (\<lambda>key. env_get values key []) in
      list_all (\<lambda>key. get key \<noteq> [] \<and> \<not> is_template_value (get key)) REQUIRED_KEYS
      \<and> get ''APP_ENV'' \<in> set ALLOWED_APP_ENVS \<and> upper (get ''LOG_LEVEL'') \<in> set ALLOWED_LOG_LEVELS
      \<and> (case parse_int (get ''SERVER_PORT'') of None \<Rightarrow> False | Some port \<Rightarrow> 1 \<le> port \<and> port \<le> 65535)
      \<and> 32 \<le> length (get ''JWT_SECRET'')
      \<and> (case (json_object (loads (get ''EXCHANGE_API_KEYS'')), json_object (loads (get ''EXCHANGE_API_SECRETS''))) of
           (Some api_keys, Some api_secrets) \<Rightarrow>
             credentials_ok api_keys \<and> credentials_ok api_secrets \<and> set (dict_keys api_keys) = set (dict_keys api_secrets)
         | _ \<Rightarrow> False))"

lemma json_object_iff: "json_object v = Some d \<longleftrightarrow> v = Inr (JDict d)"
  by (auto simp: json_object_def split: sum.split json.split)

lemma parse_json_object_iff: "parse_json_object loads name v = Inr d \<longleftrightarrow> json_object (loads v) = Some d \<and> credentials_ok d"
proof (cases "loads v")
  case (Inr x)
  then show ?thesis
    by (cases x) (auto simp: json_object_def parse_json_object_def credentials_ok_def Let_def list_ex_iff list_all_iff filter_empty_conv split: prod.splits)
qed (simp add: parse_json_object_def json_object_def)

lemma alias_errors_iff: "alias_errors a b = [] \<longleftrightarrow> set (dict_keys a) = set (dict_keys b)"
proof -
  have "missing_aliases x y = [] \<longleftrightarrow> set (dict_keys x) \<subseteq> set (dict_keys y)" for x y
  proof -
    have "missing_aliases x y = [] \<longleftrightarrow> set (missing_aliases x y) = {}" by simp
    also have "\<dots> \<longleftrightarrow> set (dict_keys x) \<subseteq> set (dict_keys y)" unfolding missing_aliases_def by (auto simp: subset_eq)
    finally show ?thesis .
  qed
  then show ?thesis by (auto simp: alias_errors_def Let_def)
qed

lemma credential_errors_iff:
  "credential_errors loads k s = [] \<longleftrightarrow>
     (case (json_object (loads k), json_object (loads s)) of (Some a, Some b) \<Rightarrow> credentials_ok a \<and> credentials_ok b \<and> set (dict_keys a) = set (dict_keys b) | _ \<Rightarrow> False)"
proof -
  have refused: "json_object (loads v) \<noteq> Some d \<or> \<not> credentials_ok d" if "parse_json_object loads name v = Inl e" for name v e d
    using that parse_json_object_iff[of loads name v d] by auto
  show ?thesis
  proof (cases "parse_json_object loads ''EXCHANGE_API_KEYS'' k")
    case (Inl e)
    then show ?thesis using refused[OF Inl] by (auto simp: credential_errors_def split: option.split)
  next
    case (Inr a)
    then have a: "json_object (loads k) = Some a" "credentials_ok a" by (simp_all add: parse_json_object_iff)
    show ?thesis
    proof (cases "parse_json_object loads ''EXCHANGE_API_SECRETS'' s")
      case (Inl e)
      then show ?thesis using refused[OF Inl] a \<open>parse_json_object loads _ k = Inr a\<close> by (auto simp: credential_errors_def split: option.split)
    next
      case (Inr b)
      then have "json_object (loads s) = Some b" "credentials_ok b" by (simp_all add: parse_json_object_iff)
      then show ?thesis using a Inr \<open>parse_json_object loads _ k = Inr a\<close> by (simp add: credential_errors_def alias_errors_iff)
    qed
  qed
qed

lemma env_get_present: "env_get values key [] \<noteq> [] \<Longrightarrow> env_get values key x = env_get values key []"
  by (simp add: env_get_def dict_get_or_def split: option.splits)

lemma required_errors_iff:
  "required_errors False values = [] \<longleftrightarrow> list_all (\<lambda>key. env_get values key [] \<noteq> [] \<and> \<not> is_template_value (env_get values key [])) REQUIRED_KEYS"
proof -
  have "(let v = env_get values key [] in if v = [] then [m] else if \<not> False \<and> is_template_value v then [m'] else []) = []
    \<longleftrightarrow> env_get values key [] \<noteq> [] \<and> \<not> is_template_value (env_get values key [])" for key and m m' :: string
    by (simp add: Let_def)
  then show ?thesis unfolding required_errors_def concat_eq_Nil_conv list_all_iff set_map ball_simps by blast
qed

lemma text_value: "\<not> blank_text v \<Longrightarrow> JStr (py_str printer v) = v"
  by (cases v) auto

lemma environment_decided: "validate_environment loads values False = [] \<longleftrightarrow> environment_ok loads values"
proof (cases "list_all (\<lambda>key. env_get values key [] \<noteq> [] \<and> \<not> is_template_value (env_get values key [])) REQUIRED_KEYS")
  case True
  then have set_keys: "env_get values key [] \<noteq> []" if "key \<in> {''APP_ENV'', ''LOG_LEVEL'', ''JWT_SECRET'', ''EXCHANGE_API_KEYS'', ''EXCHANGE_API_SECRETS''}" for key
    using that by (auto simp: REQUIRED_KEYS_def)
  then have "upper (env_get values ''LOG_LEVEL'' []) \<noteq> []" by (simp add: upper_def)
  moreover note env_get_present[OF set_keys[of "''EXCHANGE_API_KEYS''"], of "''{}''"] env_get_present[OF set_keys[of "''EXCHANGE_API_SECRETS''"], of "''{}''"]
  ultimately show ?thesis using True set_keys[of "''APP_ENV''"] set_keys[of "''JWT_SECRET''"]
    by (auto simp: validate_environment_def environment_ok_def Let_def required_errors_iff credential_errors_iff choice_error_def port_errors_def not_less split: option.split)
next
  case False
  then have "required_errors False values \<noteq> []" using required_errors_iff by blast
  then show ?thesis using False by (simp add: validate_environment_def environment_ok_def Let_def)
qed

text \<open>
  C29. Without template values allowed, the validation accepts an environment exactly when every required variable is set and no template, the environment
  and the log level are known, the port is a port, the secret has 32 characters, and the keys and secrets of the exchanges are objects of
  non-blank texts with the same aliases.
\<close>

theorem environment_accepted_iff: "validate_environment loads values False = [] \<longleftrightarrow> environment_ok loads values"
  by (rule environment_decided)

text \<open>
  The settings of the processes can be read from an accepted environment: the keys and the secrets of the exchanges load, as they are written, with the
  same aliases and no blank value.
\<close>

theorem accepted_environment_loads:
  assumes "validate_environment loads values False = []"
  shows "\<exists>api_keys api_secrets. parse_exchange_maps loads printer (JStr (env_get values ''EXCHANGE_API_KEYS'' [])) = Inr api_keys
    \<and> parse_exchange_maps loads printer (JStr (env_get values ''EXCHANGE_API_SECRETS'' [])) = Inr api_secrets
    \<and> loads (env_get values ''EXCHANGE_API_KEYS'' []) = Inr (JDict api_keys) \<and> loads (env_get values ''EXCHANGE_API_SECRETS'' []) = Inr (JDict api_secrets)
    \<and> set (dict_keys api_keys) = set (dict_keys api_secrets) \<and> credentials_ok api_keys \<and> credentials_ok api_secrets"
proof -
  have same: "map (\<lambda>(k, v). (k, JStr (py_str printer v))) d = d" if "credentials_ok d" for d
    using that by (intro map_idI) (auto simp: credentials_ok_def list_all_iff text_value)
  have "environment_ok loads values" using assms by (simp only: environment_decided)
  then have "case (json_object (loads (env_get values ''EXCHANGE_API_KEYS'' [])), json_object (loads (env_get values ''EXCHANGE_API_SECRETS'' []))) of
      (Some a, Some b) \<Rightarrow> credentials_ok a \<and> credentials_ok b \<and> set (dict_keys a) = set (dict_keys b) | _ \<Rightarrow> False"
    unfolding environment_ok_def Let_def by blast
  then obtain a b where "loads (env_get values ''EXCHANGE_API_KEYS'' []) = Inr (JDict a)" "loads (env_get values ''EXCHANGE_API_SECRETS'' []) = Inr (JDict b)"
    "credentials_ok a" "credentials_ok b" "set (dict_keys a) = set (dict_keys b)"
    by (auto simp: json_object_iff split: option.splits)
  then show ?thesis using same by (intro exI[of _ a] exI[of _ b]) simp
qed

section \<open>Environment files read back\<close>

definition env_text :: "(string \<times> string) list \<Rightarrow> string" where
  "env_text entries = concat (map (\<lambda>(k, v). k @ ''='' @ v @ line_feed) entries)"

definition env_entry_ok :: "string \<times> string \<Rightarrow> bool" where
  "env_entry_ok p = (case p of (k, v) \<Rightarrow>
     k \<noteq> [] \<and> hd k \<noteq> CHR ''#'' \<and> CHR ''='' \<notin> set k \<and> list_all (\<lambda>c. \<not> is_space c) k
     \<and> list_all (\<lambda>c. \<not> is_line_break c) v \<and> strip v = v \<and> strip_of CHR 0x22 v = v \<and> strip_of CHR 0x27 v = v)"

lemma lines_of_line: "list_all (\<lambda>c. \<not> is_line_break c) w \<Longrightarrow> lines_of l (w @ line_feed @ rest) = (l @ w) # lines_of [] rest"
proof (induction w arbitrary: l)
  case Nil
  then show ?case by (simp add: line_feed_def is_line_break_def)
next
  case (Cons c w)
  then have "c \<noteq> CHR 0x0D" by (auto simp: is_line_break_def)
  then show ?case using Cons by simp
qed

lemma strip_ends: "strip s \<noteq> [] \<Longrightarrow> \<not> is_space (last (strip s))"
  unfolding strip_def by (simp add: last_rev hd_dropWhile)

lemma strip_same: "\<not> is_space (hd s) \<Longrightarrow> \<not> is_space (last s) \<Longrightarrow> strip s = s"
proof -
  assume "\<not> is_space (hd s)" "\<not> is_space (last s)"
  then have "dropWhile is_space s = s" "dropWhile is_space (rev s) = rev s" by (simp_all add: dropWhile_eq_self_iff hd_rev)
  then show "strip s = s" by (simp add: strip_def)
qed

lemma env_line_read:
  assumes "env_entry_ok (k, v)"
  shows "env_lines n ((k @ ''='' @ v) # ls) values = env_lines (Suc n) ls (dict_set k v values)"
proof -
  have k: "k \<noteq> []" "hd k \<noteq> CHR ''#''" "CHR ''='' \<notin> set k" "\<not> list_ex is_space k" and v: "strip v = v" "strip_of CHR 0x22 v = v" "strip_of CHR 0x27 v = v"
    using assms by (auto simp: env_entry_ok_def list_all_iff list_ex_iff)
  let ?line = "k @ ''='' @ v"
  have "\<not> is_space (hd ?line)" using k(1,4) by (cases k) auto
  moreover have "\<not> is_space (last ?line)" using strip_ends[of v] v(1) by (cases "v = []") (auto simp: is_space_def)
  ultimately have line: "strip ?line = ?line" by (rule strip_same)
  have cut: "takeWhile (\<lambda>c. c \<noteq> CHR ''='') ?line = k" "dropWhile (\<lambda>c. c \<noteq> CHR ''='') ?line = ''='' @ v"
    using k(3) by (induction k) auto
  have "hd ?line = hd k" using k(1) by simp
  then show ?thesis unfolding env_lines.simps Let_def line cut using k(1,2) v strip_plain[OF k(4)] by simp
qed

lemma env_lines_read: "list_all env_entry_ok entries \<Longrightarrow> env_lines n (lines_of [] (env_text entries)) values = Inr (fold (\<lambda>(k, v). dict_set k v) entries values)"
proof (induction entries arbitrary: n "values")
  case (Cons p entries)
  obtain k v where p: "p = (k, v)" by (cases p)
  have "list_all (\<lambda>c. \<not> is_line_break c) (k @ ''='' @ v)" using Cons.prems line_break_space by (auto simp: p env_entry_ok_def list_all_iff is_line_break_def)
  then have "lines_of [] (env_text (p # entries)) = (k @ ''='' @ v) # lines_of [] (env_text entries)"
    using lines_of_line[of "k @ ''='' @ v" "[]" "env_text entries"] by (simp add: env_text_def p)
  then show ?case using Cons env_line_read[of k v] by (simp add: p)
qed (simp add: env_text_def)

text \<open>
  A written environment file reads back: a file with one line per variable is read as these variables, of several values of a name the last, and a
  variable of the file takes precedence over the process environment.
\<close>

theorem env_file_reads_back:
  assumes "list_all env_entry_ok entries"
  shows "parse_env_file (Some (env_text entries)) = Inr (fold (\<lambda>(k, v). dict_set k v) entries [])
    \<and> merged_environment environ (Some (Some (env_text entries))) = Inr (fold (\<lambda>(k, v). dict_set k v) (fold (\<lambda>(k, v). dict_set k v) entries []) environ)"
  using env_lines_read[OF assms] by (simp add: parse_env_file_def merged_environment_def splitlines_def)

text \<open>The names of the migrations are sorted before their order is checked: the check never reports anything.\<close>

theorem migration_order_never_reported: "''Database migrations are not lexicographically ordered'' \<notin> set (validate_release_files repo)"
proof -
  have "sort (sort xs) = sort xs" for xs :: "string list" by (simp add: sorted_sort_id)
  then show ?thesis by (auto simp: validate_release_files_def Let_def split: option.splits)
qed

section \<open>Instances\<close>

definition example_loads :: json_loads where
  "example_loads s = (if s = ''{k}'' then Inr (JDict [(''coinstore'', JStr ''key'')]) else if s = ''{s}'' then Inr (JDict [(''coinstore'', JStr ''secret'')]) else Inl ''Expecting value'')"

definition example_values :: "(string, string) dict" where
  "example_values = map (\<lambda>key. (key, ''x'')) [''DATABASE_URL'', ''REDIS_URL'', ''REDIS_PASSWORD'', ''TELEGRAM_BOT_TOKEN'', ''TELEGRAM_CHAT_ID'', ''POSTGRES_DB'', ''POSTGRES_USER'',
       ''POSTGRES_PASSWORD'', ''MARKET_DATA_EXCHANGES'', ''MARKET_DATA_SYMBOLS'', ''SERVER_IP'']
     @ [(''JWT_SECRET'', replicate 32 CHR ''a''), (''EXCHANGE_API_KEYS'', ''{k}''), (''EXCHANGE_API_SECRETS'', ''{s}''), (''SERVER_PORT'', ''8000''), (''LOG_LEVEL'', ''info''),
        (''APP_ENV'', ''production'')]"

lemma example_values_accepted: "validate_environment example_loads example_values False = []"
  by code_simp

theorem accepted_environment_loads_witness:
  "\<exists>api_keys api_secrets. parse_exchange_maps example_loads (\<lambda>_. []) (JStr ''{k}'') = Inr api_keys \<and> parse_exchange_maps example_loads (\<lambda>_. []) (JStr ''{s}'') = Inr api_secrets
     \<and> set (dict_keys api_keys) = set (dict_keys api_secrets)"
proof -
  have "env_get example_values ''EXCHANGE_API_KEYS'' [] = ''{k}''" "env_get example_values ''EXCHANGE_API_SECRETS'' [] = ''{s}''" by code_simp+
  then show ?thesis using accepted_environment_loads[OF example_values_accepted, of "\<lambda>_. []"] by metis
qed

theorem env_file_reads_back_witness:
  "parse_env_file (Some (env_text [(''LOG_LEVEL'', ''INFO''), (''APP_ENV'', ''test''), (''LOG_LEVEL'', ''DEBUG'')])) = Inr [(''LOG_LEVEL'', ''DEBUG''), (''APP_ENV'', ''test'')]"
proof -
  have "list_all env_entry_ok [(''LOG_LEVEL'', ''INFO''), (''APP_ENV'', ''test''), (''LOG_LEVEL'', ''DEBUG'')]" by code_simp
  from env_file_reads_back[OF this] show ?thesis by simp
qed

end
