(* ===== verification/Hardening.thy ===== *)
theory Hardening
  imports Prelude "HOL-Library.Word"
begin

unbundle bit_operations_syntax

text \<open>
  \<open>security/hardening.py\<close> without the audit chain: secret rotation, one-time passwords, the address
  allowlist, the request limiter and the role based authorisation. \<open>HMAC\<close> is an argument of the
  definitions that call it (\<open>hmac_sha1\<close>), the environment and the clock too; the allowlist gets
  its networks and the client address already parsed. The Vault client is not modelled.
\<close>

section \<open>Model\<close>

subsection \<open>Secrets\<close>

datatype SecretScope = Scope_exchange | Scope_alerting | Scope_jwt | Scope_database

record SecretRecord =
  sr_key :: string
  sr_value :: string
  sr_version :: string
  sr_scope :: SecretScope

definition env_get_secret :: "(string, string) dict \<Rightarrow> string \<Rightarrow> SecretScope \<Rightarrow> SecretRecord res" where
  "env_get_secret environ key scope =
     (case dict_get environ key of
        None \<Rightarrow> Inl (KeyError key)
      | Some v \<Rightarrow> Inr \<lparr>sr_key = key, sr_value = v, sr_version = dict_get_or environ (key @ ''_VERSION'') ''env'', sr_scope = scope\<rparr>)"

definition observe :: "SecretRecord \<Rightarrow> (string, string) dict \<Rightarrow> bool \<times> (string, string) dict" where
  "observe secret active_versions =
     (let previous = dict_get active_versions (sr_key secret)
      in (previous \<noteq> None \<and> previous \<noteq> Some (sr_version secret), dict_set (sr_key secret) (sr_version secret) active_versions))"

subsection \<open>One-time passwords\<close>

type_synonym bytes = "8 word list"

text \<open>\<open>base64.b32decode\<close>: trailing \<open>=\<close> are stripped, five bits per character, whole bytes are kept.\<close>

definition b32_value :: "char \<Rightarrow> nat option" where
  "b32_value c = (let n = of_char c :: nat in if 65 \<le> n \<and> n \<le> 90 then Some (n - 65) else if 50 \<le> n \<and> n \<le> 55 then Some (n - 24) else None)"

definition five_bits :: "nat \<Rightarrow> bool list" where
  "five_bits n = map (\<lambda>i. odd (n div 2 ^ i)) [4, 3, 2, 1, 0]"

definition byte_of_bits :: "bool list \<Rightarrow> 8 word" where
  "byte_of_bits bs = fold (\<lambda>b acc. 2 * acc + of_bool b) bs 0"

function bytes_of_bits :: "bool list \<Rightarrow> bytes" where
  "bytes_of_bits bs = (if length bs < 8 then [] else byte_of_bits (take 8 bs) # bytes_of_bits (drop 8 bs))"
  by auto
termination by (relation "measure length") auto

declare bytes_of_bits.simps [simp del]

definition b32decode :: "string \<Rightarrow> bytes res" where
  "b32decode s =
     (let t = rev (dropWhile (\<lambda>c. c = CHR ''='') (rev s)); padchars = length s - length t
      in if length s mod 8 \<noteq> 0 then Inl (ValueError ''Incorrect padding'')
         else if \<exists>c \<in> set t. b32_value c = None then Inl (ValueError ''Non-base32 digit found'')
         else if padchars \<notin> {0, 1, 3, 4, 6} then Inl (ValueError ''Incorrect padding'')
         else Inr (bytes_of_bits (concat (map (\<lambda>c. five_bits (the (b32_value c))) t))))"

text \<open>\<open>struct.pack(">Q", n)\<close> and \<open>struct.unpack(">I", bs)\<close>.\<close>

definition pack_Q :: "int \<Rightarrow> bytes res" where
  "pack_Q n = (if 0 \<le> n \<and> n < 2 ^ 64 then Inr (map (\<lambda>i. word_of_int (n div 256 ^ i)) [7, 6, 5, 4, 3, 2, 1, 0]) else Inl (StructError ''>Q''))"

fun unpack_I :: "bytes \<Rightarrow> 32 word res" where
  "unpack_I [a, b, c, d] = Inr (push_bit 24 (ucast a) OR push_bit 16 (ucast b) OR push_bit 8 (ucast c) OR ucast d)"
| "unpack_I _ = Inl (StructError ''>I'')"

text \<open>\<open>hmac.compare_digest\<close> on texts: equality, for ASCII texts only.\<close>

definition is_ascii :: "string \<Rightarrow> bool" where
  "is_ascii s \<longleftrightarrow> (\<forall>c \<in> set s. (of_char c :: nat) < 128)"

definition compare_digest :: "string \<Rightarrow> string \<Rightarrow> bool res" where
  "compare_digest a b = (if is_ascii a \<and> is_ascii b then Inr (a = b)
     else Inl (TypeError ''comparing strings with non-ASCII characters is not supported''))"

record TotpMfaVerifier =
  tv_window :: int
  tv_digits :: nat
  tv_interval :: int

type_synonym hmac = "bytes \<Rightarrow> bytes \<Rightarrow> bytes"

text \<open>The part of \<open>generate\<close> after the digest, and \<open>generate\<close>; \<open>int(a / b)\<close> truncates.\<close>

definition totp_code :: "nat \<Rightarrow> bytes \<Rightarrow> string res" where
  "totp_code digits digest =
     (if digest = [] then Inl (IndexError ''index out of range'')
      else (let off = unat (last digest AND 0x0F)
            in bindr (unpack_I (take 4 (drop off digest))) (\<lambda>w.
               let binary = unat (w AND 0x7FFFFFFF) in Inr (zfill digits (str_nat (binary mod 10 ^ digits))))))"

definition totp_counter :: "TotpMfaVerifier \<Rightarrow> int \<Rightarrow> int res" where
  "totp_counter v at_time = bindr (py_div (of_int at_time) (of_int (tv_interval v))) (\<lambda>q. Inr (round_down q))"

definition totp_generate :: "hmac \<Rightarrow> TotpMfaVerifier \<Rightarrow> string \<Rightarrow> int \<Rightarrow> string res" where
  "totp_generate hmac_sha1 v secret_base32 at_time =
     bindr (b32decode (upper secret_base32 @ replicate ((8 - length secret_base32 mod 8) mod 8) CHR ''='')) (\<lambda>key.
     bindr (totp_counter v at_time) (\<lambda>counter.
     bindr (pack_Q counter) (\<lambda>message.
     totp_code (tv_digits v) (hmac_sha1 key message))))"

fun verify_offsets :: "hmac \<Rightarrow> TotpMfaVerifier \<Rightarrow> string \<Rightarrow> string \<Rightarrow> int \<Rightarrow> int list \<Rightarrow> bool res" where
  "verify_offsets h v secret code at_time [] = Inr False"
| "verify_offsets h v secret code at_time (k # ks) =
     bindr (totp_generate h v secret (at_time + k * tv_interval v)) (\<lambda>g.
     bindr (compare_digest g code) (\<lambda>eq. if eq then Inr True else verify_offsets h v secret code at_time ks))"

definition totp_verify :: "hmac \<Rightarrow> TotpMfaVerifier \<Rightarrow> string \<Rightarrow> string \<Rightarrow> int \<Rightarrow> bool res" where
  "totp_verify h v secret code at_time = verify_offsets h v secret code at_time [- tv_window v .. tv_window v]"

subsection \<open>Address allowlist\<close>

text \<open>A parsed network and address: the version (4 or 6), the number and the prefix length.\<close>

record ip_address =
  ip_version :: nat
  ip_number :: nat

record ip_network =
  net_address :: ip_address
  net_prefixlen :: nat

definition ip_bits :: "nat \<Rightarrow> nat" where
  "ip_bits version = (if version = 4 then 32 else 128)"

definition in_network :: "ip_address \<Rightarrow> ip_network \<Rightarrow> bool" where
  "in_network ip network \<longleftrightarrow> ip_version ip = ip_version (net_address network) \<and>
     (let host = 2 ^ (ip_bits (ip_version ip) - net_prefixlen network)
      in ip_number ip div host * host = ip_number (net_address network))"

definition allowlist_dispatch :: "ip_network list \<Rightarrow> ip_address res option \<Rightarrow> 'a res \<Rightarrow> 'a res" where
  "allowlist_dispatch networks client call_next =
     (if networks \<noteq> [] then
        (case client of
           None \<Rightarrow> Inl (HTTPException 403 ''client address unavailable'')
         | Some host \<Rightarrow> bindr host (\<lambda>ip.
             if \<not> (\<exists>network \<in> set networks. in_network ip network) then Inl (HTTPException 403 ''ip not allowed'') else call_next))
      else call_next)"

subsection \<open>Request limiter\<close>

record InMemoryRateLimit =
  rl_limit :: int
  rl_window_seconds :: int
  rl_buckets :: "(string \<times> int, int) dict"

definition InMemoryRateLimit_init :: "int \<Rightarrow> int \<Rightarrow> InMemoryRateLimit" where
  "InMemoryRateLimit_init limit window_seconds = \<lparr>rl_limit = limit, rl_window_seconds = window_seconds, rl_buckets = []\<rparr>"

record http_request =
  hr_authorization :: "string option"
  hr_client_host :: "string option"

definition request_identity :: "http_request \<Rightarrow> string" where
  "request_identity request =
     (case hr_authorization request of
        Some (c # cs) \<Rightarrow> c # cs
      | _ \<Rightarrow> (case hr_client_host request of Some host \<Rightarrow> host | None \<Rightarrow> ''anonymous''))"

text \<open>\<open>dispatch\<close> up to \<open>call_next\<close>: the request goes on when the result is \<open>Inr ()\<close>.\<close>

definition limit_dispatch :: "datetime \<Rightarrow> http_request \<Rightarrow> InMemoryRateLimit \<Rightarrow> unit res \<times> InMemoryRateLimit" where
  "limit_dispatch now request self =
     (case py_div (total_seconds now) (of_int (rl_window_seconds self)) of
        Inl e \<Rightarrow> (Inl e, self)
      | Inr q \<Rightarrow>
          (let key = (request_identity request, \<lfloor>q\<rfloor>);
               buckets = dict_set key (dict_get_or (rl_buckets self) key 0 + 1) (rl_buckets self);
               self' = self\<lparr>rl_buckets := buckets\<rparr>
           in if dict_get_or buckets key 0 > rl_limit self then (Inl (HTTPException 429 ''rate limit exceeded''), self')
              else (Inr (), self')))"

subsection \<open>Authorisation\<close>

record RbacPolicy =
  rp_role :: string
  rp_resource :: string
  rp_action :: string
  rp_requires_mfa :: bool

fun authorize :: "RbacPolicy list \<Rightarrow> string list \<Rightarrow> string \<Rightarrow> string \<Rightarrow> bool \<Rightarrow> bool" where
  "authorize [] roles resource action mfa_verified = False"
| "authorize (policy # policies) roles resource action mfa_verified =
     (if rp_role policy \<in> set roles \<and> rp_resource policy = resource \<and> rp_action policy = action
      then (if rp_requires_mfa policy \<and> \<not> mfa_verified then False else True)
      else authorize policies roles resource action mfa_verified)"

section \<open>One-time passwords are accepted in their window\<close>

lemma totp_counter_eq: "0 \<le> a \<Longrightarrow> 0 < tv_interval v \<Longrightarrow> totp_counter v a = Inr (a div tv_interval v)"
  by (simp add: totp_counter_def round_down_def floor_divide_of_int_eq)

lemma str_nat_ascii: "is_ascii (str_nat n)"
proof (induction n rule: str_nat.induct)
  case (1 n)
  have "n mod 10 < 80" by (rule less_trans[of _ 10]) simp_all
  then show ?case using 1 by (simp add: str_nat.simps[of n] is_ascii_def)
qed

lemma zfill_ascii: "is_ascii s \<Longrightarrow> is_ascii (zfill n s)"
  by (auto simp: is_ascii_def zfill_def)

lemma length_4E:
  assumes "length xs = 4"
  obtains a b c d where "xs = [a, b, c, d]"
  using assms by (auto simp: numeral_eq_Suc length_Suc_conv)

lemma totp_code_total:
  assumes "length digest = 20"
  shows "\<exists>code. totp_code d digest = Inr code \<and> is_ascii code"
proof -
  let ?o = "unat (last digest AND 0x0F)"
  have "last digest AND 0x0F \<le> 0x0F" by (rule word_and_le1)
  then have "?o < 16" by (simp add: word_le_nat_alt)
  then have "length (take 4 (drop ?o digest)) = 4" using assms by simp
  then obtain a b c e where "take 4 (drop ?o digest) = [a, b, c, e]" by (rule length_4E)
  moreover have "digest \<noteq> []" using assms by auto
  ultimately show ?thesis by (simp add: totp_code_def Let_def zfill_ascii str_nat_ascii)
qed

lemma totp_generate_total:
  assumes "\<And>k m. length (h k m) = 20" "0 < tv_interval v" "0 \<le> a" "a < 2 ^ 64"
    and "b32decode (upper secret @ replicate ((8 - length secret mod 8) mod 8) CHR ''='') = Inr key"
  shows "\<exists>code. totp_generate h v secret a = Inr code \<and> is_ascii code"
proof -
  have "a div tv_interval v \<le> a" using zdiv_mono2[of a 1 "tv_interval v"] assms(2,3) by simp
  then have "\<exists>message. pack_Q (a div tv_interval v) = Inr message"
    using assms(2-4) by (auto simp: pack_Q_def pos_imp_zdiv_nonneg_iff)
  then show ?thesis
    using assms totp_code_total[OF assms(1)] by (auto simp: totp_generate_def totp_counter_eq)
qed

lemma totp_generate_counter:
  assumes "0 < tv_interval v" "0 \<le> a" "0 \<le> b" "a div tv_interval v = b div tv_interval v"
  shows "totp_generate h v secret a = totp_generate h v secret b"
  using assms by (simp add: totp_generate_def totp_counter_eq)

lemma verify_offsets_True:
  "verify_offsets h v secret code t ks = Inr True \<Longrightarrow> \<exists>k \<in> set ks. totp_generate h v secret (t + k * tv_interval v) = Inr code"
  by (induction ks) (auto simp: bindr_Inr_iff compare_digest_def split: if_splits)

lemma verify_offsets_found:
  assumes "\<And>k. k \<in> set ks \<Longrightarrow> \<exists>c. totp_generate h v secret (t + k * tv_interval v) = Inr c \<and> is_ascii c"
    and "k \<in> set ks" "totp_generate h v secret (t + k * tv_interval v) = Inr code"
  shows "verify_offsets h v secret code t ks = Inr True"
proof -
  have "is_ascii code" using assms by fastforce
  then show ?thesis
    using assms by (induction ks) (auto simp: compare_digest_def, fastforce+)
qed

lemma div_shift_bound:
  fixes a b w i :: int
  assumes "0 < i" "a \<le> b + w * i"
  shows "a div i - b div i \<le> w"
proof -
  have "a div i \<le> (b + w * i) div i" by (rule zdiv_mono1[OF assms(2,1)])
  then show ?thesis using assms(1) by simp
qed

text \<open>
  A one-time password is accepted exactly in its window: the verifier says yes if and only if
  the code is the one of a time at most \<open>window\<close> intervals away, and a code generated at any moment
  within \<open>window * interval\<close> seconds of now, before or after, is accepted.
\<close>

theorem totp_accepts_in_window:
  assumes "\<And>k m. length (hmac_sha1 k m) = 20" "0 < tv_interval v" "0 \<le> tv_window v"
    and "tv_window v * tv_interval v \<le> t" "t + tv_window v * tv_interval v < 2 ^ 64"
  shows "(totp_verify hmac_sha1 v secret code t = Inr True
      \<longleftrightarrow> (\<exists>k \<in> {- tv_window v .. tv_window v}. totp_generate hmac_sha1 v secret (t + k * tv_interval v) = Inr code))
    \<and> (\<forall>t0. \<bar>t - t0\<bar> \<le> tv_window v * tv_interval v \<longrightarrow> totp_generate hmac_sha1 v secret t0 = Inr code
         \<longrightarrow> totp_verify hmac_sha1 v secret code t = Inr True)"
proof -
  let ?i = "tv_interval v" and ?w = "tv_window v" and ?gen = "totp_generate hmac_sha1 v secret"
  let ?key = "b32decode (upper secret @ replicate ((8 - length secret mod 8) mod 8) CHR ''='')"
  have range: "0 \<le> t + k * ?i" "t + k * ?i < 2 ^ 64" if "k \<in> {- ?w .. ?w}" for k
  proof -
    have "- ?w * ?i \<le> k * ?i" "k * ?i \<le> ?w * ?i"
      using that assms(2) mult_right_mono[of "- ?w" k ?i] mult_right_mono[of k ?w ?i] by auto
    then show "0 \<le> t + k * ?i" "t + k * ?i < 2 ^ 64" using assms(4,5) by linarith+
  qed
  have found: "totp_verify hmac_sha1 v secret code t = Inr True"
    if k: "k \<in> {- ?w .. ?w}" "?gen (t + k * ?i) = Inr code" for k
  proof -
    obtain key where "?key = Inr key" using k(2) by (auto simp: totp_generate_def bindr_Inr_iff)
    then show ?thesis
      unfolding totp_verify_def
      by (intro verify_offsets_found[OF _ _ k(2)] totp_generate_total assms range) (use k(1) in auto)
  qed
  have near: "totp_verify hmac_sha1 v secret code t = Inr True"
    if t0: "\<bar>t - t0\<bar> \<le> ?w * ?i" "?gen t0 = Inr code" for t0
  proof (rule found)
    let ?k = "t0 div ?i - t div ?i"
    have "t0 div ?i - t div ?i \<le> ?w" "t div ?i - t0 div ?i \<le> ?w"
      using t0(1) assms(2) by (auto intro!: div_shift_bound)
    then show k: "?k \<in> {- ?w .. ?w}" by simp
    have "0 \<le> t0" using t0(1) assms(4) by linarith
    moreover have "(t + ?k * ?i) div ?i = t0 div ?i" using assms(2) by simp
    ultimately show "?gen (t + ?k * ?i) = Inr code"
      using totp_generate_counter[OF assms(2) range(1)[OF k], of t0 hmac_sha1 secret] t0(2) by simp
  qed
  have "\<exists>k \<in> {- ?w .. ?w}. ?gen (t + k * ?i) = Inr code" if "totp_verify hmac_sha1 v secret code t = Inr True"
    using verify_offsets_True[OF that[unfolded totp_verify_def]] by simp
  then show ?thesis using found near by blast
qed

section \<open>The request limiter counts exactly\<close>

definition limit_step :: "datetime \<times> http_request \<Rightarrow> InMemoryRateLimit \<Rightarrow> InMemoryRateLimit" where
  "limit_step e self = snd (limit_dispatch (fst e) (snd e) self)"

text \<open>The bucket a request is counted in, and how many earlier requests were counted there.\<close>

definition bucket_of :: "int \<Rightarrow> datetime \<times> http_request \<Rightarrow> string \<times> int" where
  "bucket_of window e = (request_identity (snd e), \<lfloor>total_seconds (fst e) / of_int window\<rfloor>)"

definition bucket_count :: "int \<Rightarrow> (datetime \<times> http_request) list \<Rightarrow> string \<times> int \<Rightarrow> int" where
  "bucket_count window es key = int (length (filter (\<lambda>e. bucket_of window e = key) es))"

lemma limit_step_fields [simp]:
  "rl_limit (limit_step e self) = rl_limit self" "rl_window_seconds (limit_step e self) = rl_window_seconds self"
  by (simp_all add: limit_step_def limit_dispatch_def py_div_def Let_def)

lemma limit_run:
  assumes "rl_window_seconds self \<noteq> 0"
  shows "rl_limit (run limit_step es self) = rl_limit self \<and> rl_window_seconds (run limit_step es self) = rl_window_seconds self
    \<and> dict_get_or (rl_buckets (run limit_step es self)) key 0 =
      dict_get_or (rl_buckets self) key 0 + bucket_count (rl_window_seconds self) es key"
  using assms
proof (induction es arbitrary: self)
  case (Cons e es)
  have "dict_get_or (rl_buckets (limit_step e self)) key 0 =
      dict_get_or (rl_buckets self) key 0 + bucket_count (rl_window_seconds self) [e] key"
    using Cons.prems
    by (simp add: limit_step_def limit_dispatch_def bucket_count_def bucket_of_def Let_def dict_get_or_def update_conv')
  then show ?case using Cons.IH[of "limit_step e self"] Cons.prems by (simp add: bucket_count_def)
qed (simp add: bucket_count_def)

text \<open>
  The limiter is exact: in any history of requests, a request is let through if and only if
  fewer than \<open>limit\<close> requests of the same identity came before it in the same window; otherwise it
  is answered with status 429.
\<close>

theorem request_limit_exact:
  assumes "window_seconds \<noteq> 0"
  shows "fst (limit_dispatch now request (run limit_step es (InMemoryRateLimit_init limit window_seconds))) =
    (if bucket_count window_seconds es (bucket_of window_seconds (now, request)) < limit then Inr ()
     else Inl (HTTPException 429 ''rate limit exceeded''))"
  using limit_run[of "InMemoryRateLimit_init limit window_seconds" es "bucket_of window_seconds (now, request)"] assms
  by (simp add: limit_dispatch_def InMemoryRateLimit_init_def bucket_of_def Let_def dict_get_or_def update_conv')

section \<open>Authorisation\<close>

text \<open>The first policy that names the action decides.\<close>

lemma authorize_iff:
  "authorize policies roles resource action mfa \<longleftrightarrow>
   (case find (\<lambda>p. rp_role p \<in> set roles \<and> rp_resource p = resource \<and> rp_action p = action) policies of
      None \<Rightarrow> False | Some p \<Rightarrow> rp_requires_mfa p \<longrightarrow> mfa)"
  by (induction policies) auto

section \<open>Witnesses\<close>

definition example_totp :: TotpMfaVerifier where
  "example_totp = \<lparr>tv_window = 1, tv_digits = 6, tv_interval = 30\<rparr>"

definition example_hmac :: hmac where
  "example_hmac key message = take 20 (rev message @ replicate 20 0)"

theorem totp_accepts_in_window_witness:
  "totp_verify example_hmac example_totp ''JBSWY3DP'' ''808771'' 1700000030 = Inr True"
proof -
  have len: "length (example_hmac k m) = 20" for k m by (simp add: example_hmac_def)
  have "\<exists>key. b32decode (upper ''JBSWY3DP'') = Inr key" by (simp add: b32decode_def b32_value_def upper_def to_upper_def)
  moreover have "pack_Q 56666666 = Inr [0, 0, 0, 0, 3, 96, 170, 42]" by (simp add: pack_Q_def)
  moreover have "totp_code 6 (example_hmac key [0, 0, 0, 0, 3, 96, 170, 42]) = Inr ''808771''" for key
  proof -
    have "unpack_I [42, 170, 96, 3] = Inr 715808771" by simp
    moreover have "str_nat 808771 = ''808771''" by (simp add: str_nat_numeral char_of_def bit_0)
    ultimately show ?thesis by (simp add: totp_code_def example_hmac_def zfill_def)
  qed
  ultimately have "totp_generate example_hmac example_totp ''JBSWY3DP'' 1700000000 = Inr ''808771''"
    by (auto simp: totp_generate_def totp_counter_eq example_totp_def)
  then show ?thesis
    by (rule totp_accepts_in_window[OF len, THEN conjunct2, rule_format, rotated -1]) (simp_all add: example_totp_def)
qed

theorem request_limit_exact_witness:
  "fst (limit_dispatch 2000000 \<lparr>hr_authorization = None, hr_client_host = Some ''10.0.0.1''\<rparr>
     (run limit_step [(1000000, \<lparr>hr_authorization = None, hr_client_host = Some ''10.0.0.1''\<rparr>)] (InMemoryRateLimit_init 1 60)))
   = Inl (HTTPException 429 ''rate limit exceeded'')"
proof -
  have "bucket_count 60 [(1000000, \<lparr>hr_authorization = None, hr_client_host = Some ''10.0.0.1''\<rparr>)]
      (bucket_of 60 (2000000, \<lparr>hr_authorization = None, hr_client_host = Some ''10.0.0.1''\<rparr>)) = 1"
    by (simp add: bucket_count_def bucket_of_def request_identity_def total_seconds_def)
  then show ?thesis by (subst request_limit_exact) simp_all
qed

end
