(* ===== verification/Json_Safe.thy ===== *)
theory Json_Safe
  imports Prelude
begin

text \<open>
  \<open>_json_safe\<close> of \<open>db/models.py\<close>, through which every value of a JSON column goes (\<open>PortableJSON\<close>), and its copies in
  \<open>engines/market_data/runtime.py\<close> and \<open>engines/market_data/engine.py\<close>. A value is a Python value by the cases the code distinguishes; Python's
  \<open>str\<close> and \<open>isoformat\<close> are arguments.
\<close>

section \<open>Values\<close>

datatype pyvalue =
    P_none | P_bool bool | P_int int | P_float float | P_str string
  | P_datetime datetime | P_date int | P_decimal decimal | P_uuid nat
  | P_dataclass "(string \<times> pyvalue) list"
  | P_dict "(pyvalue \<times> pyvalue) list"
  | P_list "pyvalue list" | P_tuple "pyvalue list" | P_set "pyvalue list"
  | P_object string

record value_texts =
  vt_str :: "pyvalue \<Rightarrow> string"
  vt_isoformat :: "pyvalue \<Rightarrow> string"

text \<open>A dict comprehension: of equal keys the last value, at the place of the first.\<close>

definition built_dict :: "(string \<times> pyvalue) list \<Rightarrow> pyvalue" where
  "built_dict items = P_dict (map (\<lambda>(k, v). (P_str k, v)) (fold (\<lambda>(k, v). dict_set k v) items []))"

fun key_text :: "value_texts \<Rightarrow> pyvalue \<Rightarrow> string" where
  "key_text vt (P_str s) = s"
| "key_text vt k = vt_str vt k"

fun json_safe :: "value_texts \<Rightarrow> pyvalue \<Rightarrow> pyvalue" where
  "json_safe vt (P_datetime t) = P_str (vt_isoformat vt (P_datetime t))"
| "json_safe vt (P_date t) = P_str (vt_isoformat vt (P_date t))"
| "json_safe vt (P_decimal x) = P_str (vt_str vt (P_decimal x))"
| "json_safe vt (P_uuid u) = P_str (vt_str vt (P_uuid u))"
| "json_safe vt (P_dataclass entries) = built_dict (map (\<lambda>(k, v). (k, json_safe vt v)) entries)"
| "json_safe vt (P_dict items) = built_dict (map (\<lambda>(k, v). (key_text vt k, json_safe vt v)) items)"
| "json_safe vt (P_list xs) = P_list (map (json_safe vt) xs)"
| "json_safe vt (P_tuple xs) = P_list (map (json_safe vt) xs)"
| "json_safe vt (P_set xs) = P_list (map (json_safe vt) xs)"
| "json_safe vt v = v"

text \<open>The copies of the market data engine: no dates, identifiers, sets or data classes.\<close>

fun md_json_safe :: "value_texts \<Rightarrow> pyvalue \<Rightarrow> pyvalue" where
  "md_json_safe vt (P_datetime t) = P_str (vt_isoformat vt (P_datetime t))"
| "md_json_safe vt (P_decimal x) = P_str (vt_str vt (P_decimal x))"
| "md_json_safe vt (P_dict items) = built_dict (map (\<lambda>(k, v). (key_text vt k, md_json_safe vt v)) items)"
| "md_json_safe vt (P_list xs) = P_list (map (md_json_safe vt) xs)"
| "md_json_safe vt (P_tuple xs) = P_list (map (md_json_safe vt) xs)"
| "md_json_safe vt v = v"

section \<open>Plain values\<close>

text \<open>What \<open>json.dumps\<close> accepts: texts as keys, each once, and no other types.\<close>

fun plain :: "pyvalue \<Rightarrow> bool" where
  "plain (P_dict items) \<longleftrightarrow> distinct (map fst items) \<and> list_all (\<lambda>(k, v). (\<exists>s. k = P_str s) \<and> plain v) items"
| "plain (P_list xs) \<longleftrightarrow> list_all plain xs"
| "plain v \<longleftrightarrow> v = P_none \<or> (\<exists>b. v = P_bool b) \<or> (\<exists>n. v = P_int n) \<or> (\<exists>x. v = P_float x) \<or> (\<exists>s. v = P_str s)"

text \<open>Values built from the types the code names.\<close>

fun known_types :: "pyvalue \<Rightarrow> bool" where
  "known_types (P_dataclass entries) \<longleftrightarrow> list_all (\<lambda>(k, v). known_types v) entries"
| "known_types (P_dict items) \<longleftrightarrow> list_all (\<lambda>(k, v). known_types v) items"
| "known_types (P_list xs) \<longleftrightarrow> list_all known_types xs"
| "known_types (P_tuple xs) \<longleftrightarrow> list_all known_types xs"
| "known_types (P_set xs) \<longleftrightarrow> list_all known_types xs"
| "known_types (P_object _) \<longleftrightarrow> False"
| "known_types _ \<longleftrightarrow> True"

fun market_types :: "pyvalue \<Rightarrow> bool" where
  "market_types (P_dict items) \<longleftrightarrow> list_all (\<lambda>(k, v). market_types v) items"
| "market_types (P_list xs) \<longleftrightarrow> list_all market_types xs"
| "market_types (P_tuple xs) \<longleftrightarrow> list_all market_types xs"
| "market_types (P_set _) \<longleftrightarrow> False"
| "market_types (P_dataclass _) \<longleftrightarrow> False"
| "market_types (P_date _) \<longleftrightarrow> False"
| "market_types (P_uuid _) \<longleftrightarrow> False"
| "market_types (P_object _) \<longleftrightarrow> False"
| "market_types _ \<longleftrightarrow> True"

lemma fold_update_values: "set (map snd (fold (\<lambda>(k, v). dict_set k v) items d)) \<subseteq> set (map snd d) \<union> set (map snd items)"
proof (induction items arbitrary: d)
  case (Cons p items)
  obtain k v where p: "p = (k, v)" by (cases p)
  have "set (map snd (dict_set k v d)) \<subseteq> set (map snd d) \<union> {v}" by (induction d) auto
  then have "set (map snd (dict_set k v d)) \<union> set (map snd items) \<subseteq> set (map snd d) \<union> set (map snd (p # items))" by (auto simp: p)
  with Cons.IH[of "dict_set k v d"] show ?case unfolding fold.simps p comp_def prod.case by (rule subset_trans)
qed simp

lemma fold_update_distinct: "distinct (map fst d) \<Longrightarrow> distinct (map fst (fold (\<lambda>(k, v). dict_set k v) items d))"
  by (induction items arbitrary: d) (auto simp: distinct_update)

lemma built_plain:
  assumes "\<forall>(k, v) \<in> set items. plain v"
  shows "plain (built_dict items)"
proof -
  let ?d = "fold (\<lambda>(k, v). dict_set k v) items []"
  have "distinct (map fst ?d)" by (rule fold_update_distinct) simp
  then have "distinct (map fst (map (\<lambda>(k, v). (P_str k, v)) ?d))" by (simp add: distinct_map inj_on_def case_prod_beta comp_def)
  moreover have "plain v" if "(k, v) \<in> set ?d" for k v
  proof -
    have "v \<in> set (map snd items)" using fold_update_values[of items "[]"] that by force
    then show ?thesis using assms by auto
  qed
  ultimately show ?thesis by (auto simp: built_dict_def list_all_iff)
qed

lemma fold_fresh: "distinct (map fst (d @ kvs)) \<Longrightarrow> fold (\<lambda>(k, v). dict_set k v) kvs d = d @ kvs" for kvs :: "(string \<times> pyvalue) list"
proof (induction kvs arbitrary: d)
  case (Cons p kvs)
  obtain k v where p: "p = (k, v)" by (cases p)
  then have "k \<notin> set (map fst d)" using Cons.prems by auto
  then have "dict_set k v d = d @ [(k, v)]" by (induction d) auto
  then show ?case using Cons.IH[of "d @ [(k, v)]"] Cons.prems by (simp add: p)
qed simp

lemma built_again:
  assumes "distinct (map fst items)" "\<forall>(k, v) \<in> set items. \<exists>s. k = P_str s"
  shows "built_dict (map (\<lambda>(k, v). (key_text vt k, v)) items) = P_dict items"
proof -
  let ?texts = "map (\<lambda>(k, v). (key_text vt k, v)) items"
  have "map fst items = map P_str (map (key_text vt \<circ> fst) items)" using assms(2) by auto
  then have "distinct (map P_str (map (key_text vt \<circ> fst) items))" using assms(1) by metis
  then have "distinct (map (key_text vt \<circ> fst) items)" by (simp only: distinct_map[of P_str])
  then have "distinct (map fst ?texts)" by (simp add: comp_def case_prod_beta)
  then have "fold (\<lambda>(k, v). dict_set k v) ?texts [] = ?texts" using fold_fresh[of "[]" ?texts] by simp
  moreover have "map (\<lambda>(k, v). (P_str k, v)) ?texts = items" using assms(2) by (auto intro!: map_idI)
  ultimately show ?thesis by (simp only: built_dict_def)
qed

lemma plain_same: "plain v \<Longrightarrow> json_safe vt v = v"
proof (induction v rule: plain.induct)
  case (1 items)
  have "map (\<lambda>(k, v). (key_text vt k, json_safe vt v)) items = map (\<lambda>(k, v). (key_text vt k, v)) items"
    using 1 by (auto simp: list_all_iff)
  moreover have "distinct (map fst items)" "\<forall>(k, v) \<in> set items. \<exists>s. k = P_str s" using 1(2) by (auto simp: list_all_iff)
  ultimately show ?case unfolding json_safe.simps by (simp only: built_again)
next
  case (2 xs)
  then show ?case by (auto simp: list_all_iff intro!: map_idI)
qed auto

lemma known_plain: "known_types v \<Longrightarrow> plain (json_safe vt v)"
proof (induction vt v rule: json_safe.induct)
  case (5 vt entries)
  then have "\<forall>(k, v) \<in> set (map (\<lambda>(k, v). (k, json_safe vt v)) entries). plain v" by (fastforce simp: list_all_iff)
  then show ?case unfolding json_safe.simps by (rule built_plain)
next
  case (6 vt items)
  then have "\<forall>(k, v) \<in> set (map (\<lambda>(k, v). (key_text vt k, json_safe vt v)) items). plain v" by (fastforce simp: list_all_iff)
  then show ?case unfolding json_safe.simps by (rule built_plain)
qed (auto simp: list_all_iff)

text \<open>
  Every value of the types the code names becomes one that can be written as JSON, and making a value safe once is enough: a safe value is left as it is.
\<close>

theorem json_safe_plain:
  assumes "known_types v"
  shows "plain (json_safe vt v) \<and> json_safe vt (json_safe vt v) = json_safe vt v"
  using known_plain[OF assms] plain_same by blast

text \<open>On values without dates, identifiers, sets and data classes the copies of the market data engine do the same.\<close>

theorem json_safe_copies_agree: "market_types v \<Longrightarrow> md_json_safe vt v = json_safe vt v"
proof (induction vt v rule: md_json_safe.induct)
  case (3 vt items)
  then have "map (\<lambda>(k, v). (key_text vt k, md_json_safe vt v)) items = map (\<lambda>(k, v). (key_text vt k, json_safe vt v)) items"
    by (fastforce simp: list_all_iff)
  then show ?case by (simp only: md_json_safe.simps json_safe.simps)
qed (auto simp: list_all_iff)

section \<open>Instances\<close>

definition example_vt :: value_texts where
  "example_vt = \<lparr>vt_str = (\<lambda>_. ''1''), vt_isoformat = (\<lambda>_. ''1970-01-01'')\<rparr>"

theorem json_safe_plain_witness:
  "plain (json_safe example_vt (P_dict [(P_int 1, P_set [P_decimal 2]), (P_str ''1'', P_datetime 0)]))
   \<and> json_safe example_vt (P_dict [(P_int 1, P_set [P_decimal 2]), (P_str ''1'', P_datetime 0)]) = P_dict [(P_str ''1'', P_str ''1970-01-01'')]"
  using json_safe_plain[of "P_dict [(P_int 1, P_set [P_decimal 2]), (P_str ''1'', P_datetime 0)]" example_vt] by (simp add: built_dict_def example_vt_def)

theorem json_safe_copies_agree_witness:
  "md_json_safe example_vt (P_dict [(P_str ''t'', P_datetime 0)]) = json_safe example_vt (P_dict [(P_str ''t'', P_datetime 0)])
   \<and> md_json_safe example_vt (P_uuid 1) \<noteq> json_safe example_vt (P_uuid 1)"
  using json_safe_copies_agree[of "P_dict [(P_str ''t'', P_datetime 0)]" example_vt] by simp

end
