(* ===== verification/Liquidity.thy ===== *)
theory Liquidity
  imports Exec_Models
begin

text \<open>
  \<open>engines/liquidity/shaping.py\<close>: the band builder, the depth shaper, the synthetic book and the
  engine that composes them. The lemmas show that a shaped ladder is one bid and one ask per
  level around the mid price and never crosses itself, and give the depth figures it reports.
\<close>

section \<open>Model\<close>

record LiquidityBand =
  lb_level :: int
  min_distance_bps :: float
  max_distance_bps :: float
  lb_target_depth :: float
  size_multiplier :: float

record ShapedOrder =
  so_side :: string
  so_level :: int
  distance_bps :: float
  so_price :: float
  so_quantity :: float

record LiquidityShape =
  ls_orders :: "ShapedOrder list"
  concentration_ratio :: float
  ls_target_depth :: float

record SyntheticDepth =
  sd_bid_depth :: float
  sd_ask_depth :: float
  sd_imbalance :: float

text \<open>\<open>LiquidityBandBuilder.build_bands\<close>; \<open>range(1, levels + 1)\<close> is empty for \<open>levels < 1\<close>.\<close>

definition spacing_multiplier :: "float \<Rightarrow> float" where
  "spacing_multiplier volatility = 1 + min 2 (volatility * 25)"

definition build_band :: "int \<Rightarrow> float \<Rightarrow> float \<Rightarrow> float \<Rightarrow> int \<Rightarrow> LiquidityBand" where
  "build_band levels base_distance_bps target_depth volatility level =
     (let min_distance = base_distance_bps * of_int level * spacing_multiplier volatility;
          max_distance = min_distance + base_distance_bps * spacing_multiplier volatility;
          depth = target_depth / of_int levels
      in \<lparr>lb_level = level, min_distance_bps = min_distance, max_distance_bps = max_distance,
          lb_target_depth = depth, size_multiplier = 1 + (of_int level - 1) * (2/10)\<rparr>)"

definition build_bands :: "int \<Rightarrow> float \<Rightarrow> float \<Rightarrow> float \<Rightarrow> LiquidityBand list" where
  "build_bands levels base_distance_bps target_depth volatility =
     map (build_band levels base_distance_bps target_depth volatility) [1..levels]"

text \<open>\<open>DepthShaper.shape\<close>, the two orders of one band, then the loop over the bands.\<close>

definition band_distance :: "LiquidityBand \<Rightarrow> float" where
  "band_distance band = (min_distance_bps band + max_distance_bps band) / 2"

definition shape_bid :: "float \<Rightarrow> float \<Rightarrow> float \<Rightarrow> float \<Rightarrow> LiquidityBand \<Rightarrow> ShapedOrder" where
  "shape_bid mid_price base_quantity inventory_skew_bps imbalance band =
     (let bid_distance = max 1 (band_distance band + inventory_skew_bps + max 0 imbalance * 10);
          bid_qty = base_quantity * size_multiplier band * (if imbalance < - (5/10) then 75/100 else 1);
          bid_price = mid_price * (1 - bid_distance / 10000)
      in \<lparr>so_side = ''buy'', so_level = lb_level band, distance_bps = bid_distance,
          so_price = py_round bid_price 8, so_quantity = bid_qty\<rparr>)"

definition shape_ask :: "float \<Rightarrow> float \<Rightarrow> float \<Rightarrow> float \<Rightarrow> LiquidityBand \<Rightarrow> ShapedOrder" where
  "shape_ask mid_price base_quantity inventory_skew_bps imbalance band =
     (let ask_distance = max 1 (band_distance band - inventory_skew_bps + max 0 (- imbalance) * 10);
          ask_qty = base_quantity * size_multiplier band * (if imbalance > 5/10 then 75/100 else 1);
          ask_price = mid_price * (1 + ask_distance / 10000)
      in \<lparr>so_side = ''sell'', so_level = lb_level band, distance_bps = ask_distance,
          so_price = py_round ask_price 8, so_quantity = ask_qty\<rparr>)"

definition shape :: "float \<Rightarrow> float \<Rightarrow> LiquidityBand list \<Rightarrow> float \<Rightarrow> float \<Rightarrow> LiquidityShape" where
  "shape mid_price base_quantity bands inventory_skew_bps imbalance =
     (let total_depth = (\<Sum>band \<leftarrow> bands. lb_target_depth band);
          near_depth = (\<Sum>band \<leftarrow> filter (\<lambda>band. lb_level band = 1) bands. lb_target_depth band);
          orders = concat (map (\<lambda>band.
            [shape_bid mid_price base_quantity inventory_skew_bps imbalance band,
             shape_ask mid_price base_quantity inventory_skew_bps imbalance band]) bands);
          concentration = (if total_depth = 0 then 0 else near_depth / total_depth)
      in \<lparr>ls_orders = orders, concentration_ratio = concentration, ls_target_depth = total_depth\<rparr>)"

definition side_depth :: "string \<Rightarrow> ShapedOrder list \<Rightarrow> float" where
  "side_depth side orders = (\<Sum>order \<leftarrow> filter (\<lambda>order. so_side order = side) orders. so_quantity order)"

definition synthetic_depth :: "LiquidityShape \<Rightarrow> SyntheticDepth" where
  "synthetic_depth s =
     (let bid_depth = side_depth ''buy'' (ls_orders s);
          ask_depth = side_depth ''sell'' (ls_orders s)
      in \<lparr>sd_bid_depth = bid_depth, sd_ask_depth = ask_depth,
          sd_imbalance = (if bid_depth + ask_depth = 0 then 0
                          else (bid_depth - ask_depth) / (bid_depth + ask_depth))\<rparr>)"

record LiquidityShapingEngine =
  lse_levels :: int
  lse_base_distance_bps :: float
  lse_target_depth :: float

definition build_shape ::
  "LiquidityShapingEngine \<Rightarrow> float \<Rightarrow> float \<Rightarrow> float \<Rightarrow> float \<Rightarrow> float \<Rightarrow> LiquidityShape \<times> SyntheticDepth" where
  "build_shape self mid_price base_quantity volatility inventory_skew_bps imbalance =
     (let bands = build_bands (lse_levels self) (lse_base_distance_bps self) (lse_target_depth self) volatility;
          s = shape mid_price base_quantity bands inventory_skew_bps imbalance
      in (s, synthetic_depth s))"

section \<open>Prices\<close>

lemma shape_orders:
  "ls_orders (shape m q bands skew i) = concat (map (\<lambda>b. [shape_bid m q skew i b, shape_ask m q skew i b]) bands)"
  by (simp add: shape_def Let_def)

lemma shape_bid_price_le:
  assumes "0 \<le> m"
  shows "so_price (shape_bid m q skew i b) \<le> py_round (m * (9999 / 10000)) 8"
proof -
  define d where "d = max 1 (band_distance b + skew + max 0 i * 10)"
  have "1 \<le> d" by (simp add: d_def)
  then have "1 - d / 10000 \<le> 9999 / 10000" by simp
  then have "m * (1 - d / 10000) \<le> m * (9999 / 10000)" using assms by (rule mult_left_mono)
  then show ?thesis unfolding shape_bid_def d_def[symmetric] Let_def by (simp add: py_round_mono)
qed

lemma shape_ask_price_ge:
  assumes "0 \<le> m"
  shows "py_round (m * (10001 / 10000)) 8 \<le> so_price (shape_ask m q skew i b)"
proof -
  define d where "d = max 1 (band_distance b - skew + max 0 (- i) * 10)"
  have "1 \<le> d" by (simp add: d_def)
  then have "10001 / 10000 \<le> 1 + d / 10000" by simp
  then have "m * (10001 / 10000) \<le> m * (1 + d / 10000)" using assms by (rule mult_left_mono)
  then show ?thesis unfolding shape_ask_def d_def[symmetric] Let_def by (simp add: py_round_mono)
qed

lemma shape_bid_side [simp]: "so_side (shape_bid m q skew i b) = ''buy''"
  by (simp add: shape_bid_def Let_def)

lemma shape_ask_side [simp]: "so_side (shape_ask m q skew i b) = ''sell''"
  by (simp add: shape_ask_def Let_def)

lemma shape_buy_cases:
  "order \<in> set (ls_orders (shape m q bands skew i)) \<Longrightarrow> so_side order = ''buy'' \<Longrightarrow>
   \<exists>b \<in> set bands. order = shape_bid m q skew i b"
  by (auto simp: shape_orders)

lemma shape_sell_cases:
  "order \<in> set (ls_orders (shape m q bands skew i)) \<Longrightarrow> so_side order = ''sell'' \<Longrightarrow>
   \<exists>b \<in> set bands. order = shape_ask m q skew i b"
  by (auto simp: shape_orders)

section \<open>Depth\<close>

lemma side_depth_buy:
  "side_depth ''buy'' (ls_orders (shape m q bands skew i)) =
   q * (if i < - (5/10) then 75/100 else 1) * (\<Sum>b \<leftarrow> bands. size_multiplier b)"
proof -
  have "side_depth ''buy'' (ls_orders (shape m q bands skew i)) =
        (\<Sum>b \<leftarrow> bands. so_quantity (shape_bid m q skew i b))"
    by (induction bands) (simp_all add: shape_orders side_depth_def)
  also have "\<dots> = (\<Sum>b \<leftarrow> bands. q * (if i < - (5/10) then 75/100 else 1) * size_multiplier b)"
    by (simp add: shape_bid_def Let_def mult_ac cong: if_cong)
  finally show ?thesis by (simp only: sum_list_const_mult)
qed

lemma side_depth_sell:
  "side_depth ''sell'' (ls_orders (shape m q bands skew i)) =
   q * (if i > 5/10 then 75/100 else 1) * (\<Sum>b \<leftarrow> bands. size_multiplier b)"
proof -
  have "side_depth ''sell'' (ls_orders (shape m q bands skew i)) =
        (\<Sum>b \<leftarrow> bands. so_quantity (shape_ask m q skew i b))"
    by (induction bands) (simp_all add: shape_orders side_depth_def)
  also have "\<dots> = (\<Sum>b \<leftarrow> bands. q * (if i > 5/10 then 75/100 else 1) * size_multiplier b)"
    by (simp add: shape_ask_def Let_def mult_ac cong: if_cong)
  finally show ?thesis by (simp only: sum_list_const_mult)
qed

lemma size_multipliers_pos:
  assumes "1 \<le> levels"
  shows "0 < (\<Sum>b \<leftarrow> build_bands levels base depth vol. size_multiplier b)"
proof -
  let ?f = "\<lambda>l::int. 1 + (of_int l - 1) * (2/10) :: rat"
  have ge: "1 \<le> ?f l" if "l \<in> set [1..levels]" for l using that by simp
  have "(\<Sum>l \<leftarrow> [1..levels]. 1) \<le> (\<Sum>l \<leftarrow> [1..levels]. ?f l)"
    by (intro sum_list_mono) (use ge in auto)
  moreover have "(\<Sum>l \<leftarrow> [1..levels]. 1 :: rat) = of_int levels"
    using assms by (simp add: sum_list_triv)
  ultimately have "(\<Sum>l \<leftarrow> [1..levels]. ?f l) \<ge> of_int levels" by simp
  moreover have "(1 :: rat) \<le> of_int levels" using assms by simp
  ultimately show ?thesis by (simp add: build_bands_def build_band_def Let_def comp_def)
qed

lemma build_bands_depth:
  "1 \<le> levels \<Longrightarrow> (\<Sum>b \<leftarrow> build_bands levels base depth vol. lb_target_depth b) = depth"
  by (simp add: build_bands_def build_band_def Let_def comp_def sum_list_triv)

lemma build_bands_near:
  assumes "1 \<le> levels"
  shows "(\<Sum>b \<leftarrow> filter (\<lambda>b. lb_level b = 1) (build_bands levels base depth vol). lb_target_depth b)
         = depth / of_int levels"
proof -
  have "[1..levels] = 1 # [2..levels]" using assms by (subst upto_rec1) auto
  moreover have "filter (\<lambda>l. l = 1) [2..levels] = []" by (auto simp: filter_empty_conv)
  ultimately show ?thesis
    by (simp add: build_bands_def filter_map comp_def build_band_def Let_def)
qed

section \<open>Properties\<close>

text \<open>
  A shaped ladder has one bid and one ask per level, and whatever the volatility, the inventory
  skew and the imbalance are, every bid is at most one basis point below the mid price (rounded)
  and every ask at least one basis point above it, so the ladder never crosses itself.
\<close>

theorem shaped_ladder_never_crosses:
  assumes "0 \<le> mid_price" "1 \<le> lse_levels e"
    and "build_shape e mid_price base_quantity volatility skew imbalance = (s, d)"
  shows "length (ls_orders s) = 2 * nat (lse_levels e) \<and>
    (\<forall>bid \<in> set (ls_orders s). so_side bid = ''buy'' \<longrightarrow>
       so_price bid \<le> py_round (mid_price * (9999 / 10000)) 8 \<and>
       (\<forall>ask \<in> set (ls_orders s). so_side ask = ''sell'' \<longrightarrow>
          py_round (mid_price * (10001 / 10000)) 8 \<le> so_price ask \<and> so_price bid \<le> so_price ask))"
proof -
  let ?bands = "build_bands (lse_levels e) (lse_base_distance_bps e) (lse_target_depth e) volatility"
  have s: "s = shape mid_price base_quantity ?bands skew imbalance"
    using assms(3) by (simp add: build_shape_def Let_def)
  have len: "length (ls_orders s) = 2 * nat (lse_levels e)"
    by (simp add: s shape_orders length_concat comp_def sum_list_triv build_bands_def)
  have bid: "so_price bid \<le> py_round (mid_price * (9999 / 10000)) 8"
    if "bid \<in> set (ls_orders s)" "so_side bid = ''buy''" for bid
    using shape_buy_cases[OF that[unfolded s]] shape_bid_price_le[OF assms(1)] by metis
  have ask: "py_round (mid_price * (10001 / 10000)) 8 \<le> so_price ask"
    if "ask \<in> set (ls_orders s)" "so_side ask = ''sell''" for ask
    using shape_sell_cases[OF that[unfolded s]] shape_ask_price_ge[OF assms(1)] by metis
  have "py_round (mid_price * (9999 / 10000)) 8 \<le> py_round (mid_price * (10001 / 10000)) 8"
    using assms(1) by (intro py_round_mono mult_left_mono) auto
  then show ?thesis using len bid ask by (meson order_trans)
qed

theorem shaped_ladder_never_crosses_witness:
  "length (ls_orders (fst (build_shape \<lparr>lse_levels = 3, lse_base_distance_bps = 10, lse_target_depth = 300\<rparr>
      100 1 (1/100) 0 0))) = 6"
  using shaped_ladder_never_crosses[of 100 "\<lparr>lse_levels = 3, lse_base_distance_bps = 10, lse_target_depth = 300\<rparr>"
      1 "1/100" 0 0, OF _ _ prod.collapse[symmetric]]
  by simp

text \<open>
  The figures reported with a shape: the target depth is the configured one, the share at the
  first level is one over the number of levels, and the synthetic imbalance depends only on the
  side that was cut to three quarters: one seventh towards the bids when the market imbalance
  exceeds one half, one seventh towards the asks when it is below minus one half, else balanced.
\<close>

theorem shape_figures:
  assumes "1 \<le> lse_levels e" "0 < base_quantity" "0 < lse_target_depth e"
    and "build_shape e mid_price base_quantity volatility skew imbalance = (s, d)"
  shows "ls_target_depth s = lse_target_depth e \<and>
         concentration_ratio s = 1 / of_int (lse_levels e) \<and>
         sd_imbalance d = (if imbalance > 5/10 then 1/7 else if imbalance < - (5/10) then - (1/7) else 0)"
proof -
  let ?bands = "build_bands (lse_levels e) (lse_base_distance_bps e) (lse_target_depth e) volatility"
  have s: "s = shape mid_price base_quantity ?bands skew imbalance" and d: "d = synthetic_depth s"
    using assms(4) by (auto simp: build_shape_def Let_def)
  define w where "w = base_quantity * (\<Sum>b \<leftarrow> ?bands. size_multiplier b)"
  have w: "0 < w" using assms(2) size_multipliers_pos[OF assms(1)] by (simp add: w_def)
  have "side_depth ''buy'' (ls_orders s) = (if imbalance < - (5/10) then 75/100 else 1) * w"
    and "side_depth ''sell'' (ls_orders s) = (if imbalance > 5/10 then 75/100 else 1) * w"
    by (simp_all add: s side_depth_buy side_depth_sell w_def)
  then have "sd_imbalance d = (if imbalance > 5/10 then 1/7 else if imbalance < - (5/10) then - (1/7) else 0)"
    using w by (simp add: d synthetic_depth_def Let_def)
  then show ?thesis
    using assms(1,3) by (simp add: s shape_def Let_def build_bands_depth build_bands_near)
qed

theorem shape_figures_witness:
  "sd_imbalance (snd (build_shape \<lparr>lse_levels = 3, lse_base_distance_bps = 10, lse_target_depth = 300\<rparr>
      100 1 (1/100) 0 (8/10))) = 1/7"
  using shape_figures[of "\<lparr>lse_levels = 3, lse_base_distance_bps = 10, lse_target_depth = 300\<rparr>" 1
      100 "1/100" 0 "8/10", OF _ _ _ prod.collapse[symmetric]]
  by simp

end
