(* ===== verification/MM_Bus.thy ===== *)
theory MM_Bus
  imports Control_Safety MM_Safety
begin

text \<open>
  The bus between the control routes and the market maker: how \<open>engines/market_making/runtime.py\<close> reads the messages of Redis
  (\<open>_consume_bus_events\<close>, the reading part of \<open>_handle_command\<close>, \<open>_apply_config_payload\<close> and \<open>_kill_switch_active\<close>), and
  what follows for the whole: an accepted emergency stop ends trading, an active kill switch blocks every tick, a
  change of the configuration is applied twice.
  How pydantic reads a configuration and how a market message is read are arguments.
\<close>

section \<open>Reading messages\<close>

record bus_env =
  bu_printer :: printer
  bu_read_config :: "obj \<Rightarrow> RuntimeConfig"
  bu_read_market :: "json \<Rightarrow> MarketPayload"

text \<open>\<open>payload.get("runtime_config") or payload.get("payload", {}).get("runtime_config")\<close>, if it is a dict.\<close>

definition config_in_payload :: "bus_env \<Rightarrow> obj \<Rightarrow> RuntimeConfig option res" where
  "config_in_payload b payload =
     bindr (if json_truthy (jget payload ''runtime_config'') then Inr (jget payload ''runtime_config'')
            else (case dict_get payload ''payload'' of
                None \<Rightarrow> Inr JNull
              | Some v \<Rightarrow> bindr (as_dict v) (\<lambda>d. Inr (jget d ''runtime_config'')))) (\<lambda>v.
     Inr (case v of JDict d \<Rightarrow> Some (bu_read_config b d) | _ \<Rightarrow> None))"

definition text_or_empty :: "printer \<Rightarrow> obj \<Rightarrow> string \<Rightarrow> string" where
  "text_or_empty printer d key = py_str printer (get_or d [key] (JStr []))"

definition command_message :: "bus_env \<Rightarrow> obj \<Rightarrow> CommandMessage res" where
  "command_message b message =
     (let payload = (case jget message ''payload'' of JDict d \<Rightarrow> d | _ \<Rightarrow> []);
          command = text_or_empty (bu_printer b) message ''command_type''
      in bindr (if upper command = ''CONFIG_RELOAD'' then config_in_payload b payload else Inr None) (\<lambda>config.
         Inr \<lparr>cm_command_id = text_or_empty (bu_printer b) message ''command_id'', cm_command_type = command,
              cm_reason = text_or_empty (bu_printer b) payload ''reason'', cm_action = text_or_empty (bu_printer b) payload ''action'',
              cm_runtime_config = config\<rparr>))"

text \<open>One message of the subscription, with what \<open>json.loads\<close> makes of its data.\<close>

definition bus_message :: "bus_env \<Rightarrow> env \<Rightarrow> string \<Rightarrow> json res \<Rightarrow> unit mm_op" where
  "bus_message b env channel data =
     catch (bindm (lift_res data) (\<lambda>payload.
       if take (length ''marketdata:'') channel = ''marketdata:'' then ingest_market_event env channel (bu_read_market b payload)
       else if take (length ''runtime.config.'') channel = ''runtime.config.'' then
         bindm (lift_res (as_dict payload)) (\<lambda>d.
         bindm (lift_res (config_in_payload b d)) (\<lambda>config.
         apply_config_payload config (Some (text_or_empty (bu_printer b) d ''command_id''))))
       else if channel = MARKET_MAKER_COMMAND_CHANNEL then
         bindm (lift_res (as_dict payload)) (\<lambda>d.
         bindm (lift_res (command_message b d)) (handle_command env))
       else ret ()))
     (\<lambda>exc. count ''market_maker.bus_consumer_errors'' 1)"

text \<open>The channels the runtime subscribes to: \<open>marketdata:*\<close>, \<open>runtime.config.*\<close> and its command channel.\<close>

definition subscribed :: "string \<Rightarrow> bool" where
  "subscribed channel \<longleftrightarrow> take (length ''marketdata:'') channel = ''marketdata:'' \<or> take (length ''runtime.config.'') channel = ''runtime.config.''
     \<or> channel = MARKET_MAKER_COMMAND_CHANNEL"

text \<open>What reading the cached state gives: \<open>isinstance(state, dict) and state.get("active")\<close>.\<close>

definition read_state :: "printer \<Rightarrow> json option \<Rightarrow> kill_switch_read" where
  "read_state printer state =
     (case state of
        Some (JDict d) \<Rightarrow> Kill_state (Some (json_truthy (jget d ''active''), Some (text_or_empty printer d ''reason'')))
      | _ \<Rightarrow> Kill_state None)"

section \<open>From a request to the runtime\<close>

lemma upper_stop: "upper ''DISABLE_TRADING'' = ''DISABLE_TRADING''" "upper ''EMERGENCY_SHUTDOWN'' = ''EMERGENCY_SHUTDOWN''"
  by (simp_all add: upper_def to_upper_def)

lemma stop_message_read:
  assumes "jget event ''command_type'' = JStr ct" "ct = ''DISABLE_TRADING'' \<or> ct = ''EMERGENCY_SHUTDOWN''"
  shows "\<exists>message. command_message b event = Inr message \<and> is_stop_command message"
  using assms by (auto simp: command_message_def Let_def text_or_empty_def is_stop_command_def upper_stop)

lemma bus_command:
  assumes "command_message b event = Inr message" "handle_command env message m = (Inr (), m')"
  shows "bus_message b env MARKET_MAKER_COMMAND_CHANNEL (Inr (JDict event)) m = (Inr (), m')"
  using assms by (simp add: bus_message_def MARKET_MAKER_COMMAND_CHANNEL_def catch_def)

lemma stop_request_published:
  assumes "control renv cr request s = (True, t)" "request = Disable_trading rq \<or> request = Shutdown rq"
  shows "\<exists>event ct. Redis_publish MARKET_MAKER_COMMAND_CHANNEL (JDict event) \<in> set (drop (length (st_redis s)) (st_redis t))
    \<and> jget event ''command_type'' = JStr ct \<and> (ct = ''DISABLE_TRADING'' \<or> ct = ''EMERGENCY_SHUTDOWN'')"
proof -
  obtain ct action event_type where parts: "emergency_command request = Some (ct, action, event_type, rq)" "ct = ''DISABLE_TRADING'' \<or> ct = ''EMERGENCY_SHUTDOWN''"
    using assms(2) by auto
  from emergency_recorded[OF parts(1) assms(1)] obtain actor payload before event
    where sent: "command_sent (rt_api renv) actor ct payload MARKET_MAKER_COMMAND_CHANNEL action (st_redis s @ before) event t"
    unfolding command_recorded_def prod.case by blast
  from sent[unfolded command_sent_def, THEN conjunct1] sent[unfolded command_sent_def, THEN conjunct2, THEN conjunct1]
  show ?thesis using parts(2) by (intro exI[of _ event] exI[of _ ct]) simp
qed

text \<open>
  C4. An emergency stop that the API has answered with success ends trading: it has published a message which, once the market maker's
  bus consumer has handled it, leaves no open paper order, and after which no history of ticks, market events and commands
  without a configuration reload or \<open>CLOSE_POSITIONS\<close> places a paper order, gets a fill or sends an order to the venue.
\<close>

theorem accepted_stop_ends_trading:
  assumes "control renv cr request s = (True, t)" "request = Disable_trading rq \<or> request = Shutdown rq"
  shows "\<exists>event. Redis_publish MARKET_MAKER_COMMAND_CHANNEL (JDict event) \<in> set (drop (length (st_redis s)) (st_redis t))
    \<and> (\<forall>b. \<exists>message. command_message b event = Inr message
         \<and> (\<forall>env m m' es. handle_command env message m = (Inr (), m') \<and> list_all (\<lambda>e. \<not> is_reload e \<and> \<not> is_close e) es \<longrightarrow>
              snd (bus_message b env MARKET_MAKER_COMMAND_CHANNEL (Inr (JDict event)) m) = m'
              \<and> stopped (mm_live_orders m') (pe_fills (mm_paper m')) (run mm_step es m')))"
proof -
  obtain event ct where event: "Redis_publish MARKET_MAKER_COMMAND_CHANNEL (JDict event) \<in> set (drop (length (st_redis s)) (st_redis t))"
    "jget event ''command_type'' = JStr ct" "ct = ''DISABLE_TRADING'' \<or> ct = ''EMERGENCY_SHUTDOWN''"
    using stop_request_published[OF assms] by blast
  have "stopped (mm_live_orders m') (pe_fills (mm_paper m')) (run mm_step es m')"
    if "is_stop_command message" "handle_command env message m = (Inr (), m')" "list_all (\<lambda>e. \<not> is_reload e \<and> \<not> is_close e) es" for env message m m' es
    by (rule stop.run_inv) (use stop_command_stops[OF that(1,2)] that(3) in \<open>auto simp: list_all_iff\<close>)
  then have "\<exists>message. command_message b event = Inr message \<and> (\<forall>env m m' es. handle_command env message m = (Inr (), m')
      \<and> list_all (\<lambda>e. \<not> is_reload e \<and> \<not> is_close e) es \<longrightarrow> snd (bus_message b env MARKET_MAKER_COMMAND_CHANNEL (Inr (JDict event)) m) = m'
      \<and> stopped (mm_live_orders m') (pe_fills (mm_paper m')) (run mm_step es m'))" for b
    using stop_message_read[OF event(2,3), of b] bus_command by fastforce
  then show ?thesis using event(1) by blast
qed

text \<open>
  C19. While the kill switch is on in Redis every tick of the market maker is blocked: as long as no one with the right to do so has released
  it, whatever requests the API handles, a tick that reads the stored state changes neither the paper engine nor the orders sent, and
  shuts the launch controller down.
\<close>

theorem active_switch_blocks_ticks:
  assumes "switch_on s" "list_all (\<lambda>(env, cr, request). \<not> releases env cr request) requests"
    "env_kill_switch env = read_state printer (kill_switch_of (st_redis (run (\<lambda>(env, cr, request) s. snd (control env cr request s)) requests s)))"
  shows "mm_paper (snd (tick env m)) = mm_paper m \<and> mm_live_orders (snd (tick env m)) = mm_live_orders m
    \<and> mm_live_cancels (snd (tick env m)) = mm_live_cancels m \<and> cs_kill_switch_active (cc_state (mm_canary (snd (tick env m))))"
proof -
  let ?s = "run (\<lambda>(env, cr, request) s. snd (control env cr request s)) requests s"
  have "switch_on ?s" using assms(1,2) by (intro kill_switch.run_latched) (auto simp: list_all_iff)
  then obtain state where "kill_switch_of (st_redis ?s) = Some (JDict state)" "jget state ''active'' = JBool True" by (auto simp: switch_on_def)
  then have "env_kill_switch env = Kill_state (Some (True, Some (text_or_empty printer state ''reason'')))"
    using assms(3) by (simp add: read_state_def)
  then show ?thesis
    by (simp add: tick_def kill_switch_active_def shutdown_canary_def count_def bindm_def seqm_def activate_shutdown_def)
qed

section \<open>Configuration changes\<close>

definition delivered :: "redis_command list \<Rightarrow> (string \<times> json) list" where
  "delivered cs = List.map_filter (\<lambda>c. case c of Redis_publish channel v \<Rightarrow> if subscribed channel then Some (channel, v) else None | _ \<Rightarrow> None) cs"

lemma delivered_config:
  assumes "domain \<noteq> []"
  shows "delivered (announce_config env command_id domain config runtime event) =
    [(RUNTIME_CONFIG_UPDATED_CHANNEL, JDict event), (domain_channel domain, JDict event), (MARKET_MAKER_COMMAND_CHANNEL, reload_command env command_id event)]"
  by (simp add: delivered_def announce_config_def map_filter_simps subscribed_def RUNTIME_CONFIG_UPDATED_CHANNEL_def RUNTIME_EVENTS_CHANNEL_def
      MARKET_MAKER_COMMAND_CHANNEL_def MARKET_DATA_COMMAND_CHANNEL_def domain_channel_def)

definition reload_acks :: "MarketMakerRuntime \<Rightarrow> nat" where
  "reload_acks m = length (filter (\<lambda>a. ack_event_type a = ''runtime_config_reload_ack'') (mm_acks m))"

lemma reload_applied:
  assumes "model_validate cfg = Inr cfg"
  shows "\<exists>u. apply_config_payload (Some cfg) cid m = (Inr (), u) \<and> reload_acks u = Suc (reload_acks m)
    \<and> mm_risk_engine u = RiskEngine_init (rc_risk cfg)"
  using assms by (simp add: apply_config_payload_def count_def publish_ack_def reload_acks_def)

lemma config_message_applied:
  assumes "jget d ''runtime_config'' = JDict runtime" "runtime \<noteq> []" "bu_read_config b runtime = cfg" "model_validate cfg = Inr cfg"
    "take (length ''runtime.config.'') channel = ''runtime.config.''"
  shows "reload_acks (snd (bus_message b env channel (Inr (JDict d)) m)) = Suc (reload_acks m)
    \<and> mm_risk_engine (snd (bus_message b env channel (Inr (JDict d)) m)) = RiskEngine_init (rc_risk cfg)"
proof -
  have "take (length ''marketdata:'') channel \<noteq> ''marketdata:''"
    using assms(5) by (cases channel) auto
  then have "bus_message b env channel (Inr (JDict d)) =
      catch (apply_config_payload (Some cfg) (Some (text_or_empty (bu_printer b) d ''command_id''))) (\<lambda>exc. count ''market_maker.bus_consumer_errors'' 1)"
    using assms by (simp add: bus_message_def config_in_payload_def fun_eq_iff catch_def)
  moreover obtain u where "apply_config_payload (Some cfg) (Some (text_or_empty (bu_printer b) d ''command_id'')) m = (Inr (), u)"
      "reload_acks u = Suc (reload_acks m)" "mm_risk_engine u = RiskEngine_init (rc_risk cfg)"
    using reload_applied[OF assms(4)] by blast
  ultimately show ?thesis by (simp add: catch_def)
qed

lemma reload_command_applied:
  assumes "jget event ''runtime_config'' = JDict runtime" "runtime \<noteq> []" "bu_read_config b runtime = cfg" "model_validate cfg = Inr cfg"
  shows "reload_acks (snd (bus_message b env MARKET_MAKER_COMMAND_CHANNEL (Inr (reload_command aenv command_id event)) m)) = Suc (reload_acks m)
    \<and> mm_risk_engine (snd (bus_message b env MARKET_MAKER_COMMAND_CHANNEL (Inr (reload_command aenv command_id event)) m)) = RiskEngine_init (rc_risk cfg)"
proof -
  let ?d = "[(''command_id'', JStr command_id), (''command_type'', JStr ''CONFIG_RELOAD''), (''payload'', JDict event), (''published_at'', JFloat (av_time aenv))]"
  have up: "upper ''CONFIG_RELOAD'' = ''CONFIG_RELOAD''" by (simp add: upper_def to_upper_def)
  obtain message where message: "command_message b ?d = Inr message" "cm_command_type message = ''CONFIG_RELOAD''" "cm_runtime_config message = Some cfg"
    using assms by (simp add: command_message_def Let_def text_or_empty_def jget_def[of ?d] up config_in_payload_def)
  have "bus_message b env MARKET_MAKER_COMMAND_CHANNEL (Inr (reload_command aenv command_id event)) m =
      catch (handle_command env message) (\<lambda>exc. count ''market_maker.bus_consumer_errors'' 1) m"
    using message(1) by (simp add: bus_message_def reload_command_def MARKET_MAKER_COMMAND_CHANNEL_def catch_def)
  moreover have "command_effect env message = apply_config_payload (Some cfg) (Some (cm_command_id message))"
    using message(2,3) up by (simp add: command_effect_def Let_def)
  moreover obtain u where "apply_config_payload (Some cfg) (Some (cm_command_id message)) m = (Inr (), u)" "reload_acks u = Suc (reload_acks m)"
      "mm_risk_engine u = RiskEngine_init (rc_risk cfg)"
    using reload_applied[OF assms(4)] by blast
  ultimately show ?thesis
    by (simp add: handle_command_def Let_def catch_def seqm_def bindm_def count_def publish_ack_def reload_acks_def)
qed

text \<open>
  A change of the configuration is announced on three channels that the market maker listens to, and each of the messages reloads it:
  three times the risk engine is thrown away, and with it its kill switch and its breakers.
\<close>

theorem config_change_applied_three_times:
  assumes "domain \<noteq> []" "jget event ''runtime_config'' = JDict runtime" "runtime \<noteq> []" "bu_read_config b runtime = cfg" "model_validate cfg = Inr cfg"
  shows "let m' = fold (\<lambda>(channel, v) m. snd (bus_message b env channel (Inr v) m)) (delivered (announce_config aenv command_id domain config runtime event)) m
    in reload_acks m' = reload_acks m + 3 \<and> mm_risk_engine m' = RiskEngine_init (rc_risk cfg)"
proof -
  have "take (length ''runtime.config.'') RUNTIME_CONFIG_UPDATED_CHANNEL = ''runtime.config.''"
    "take (length ''runtime.config.'') (domain_channel domain) = ''runtime.config.''"
    by (simp_all add: RUNTIME_CONFIG_UPDATED_CHANNEL_def domain_channel_def)
  note first = config_message_applied[OF assms(2-5) this(1)] and second = config_message_applied[OF assms(2-5) this(2)]
  show ?thesis
    unfolding delivered_config[OF assms(1)] Let_def using first second reload_command_applied[OF assms(2-5)] by simp
qed

section \<open>Instances\<close>

theorem accepted_stop_ends_trading_witness:
  "\<exists>event. Redis_publish MARKET_MAKER_COMMAND_CHANNEL (JDict event)
     \<in> set (st_redis (snd (control example_route_env (Some ''risk_manager'') (Disable_trading example_stop_request) (store_init empty_session))))"
proof -
  obtain t where t: "control example_route_env (Some ''risk_manager'') (Disable_trading example_stop_request) (store_init empty_session) = (True, t)"
    using example_stop_accepted by blast
  show ?thesis using accepted_stop_ends_trading[OF t] t by (auto dest: in_set_dropD)
qed

theorem active_switch_blocks_ticks_witness:
  "let s = snd (control example_route_env (Some ''risk_manager'') (Disable_trading example_stop_request) (store_init empty_session));
       env = example_env\<lparr>env_kill_switch := read_state (\<lambda>_. []) (kill_switch_of (st_redis s))\<rparr>
   in mm_paper (snd (tick env (example_runtime Mode_paper))) = mm_paper (example_runtime Mode_paper)"
proof -
  let ?s = "snd (control example_route_env (Some ''risk_manager'') (Disable_trading example_stop_request) (store_init empty_session))"
  have "switch_on ?s"
    using emergency_stop_switch_on[OF example_granted(1) example_stop_valid(1)] example_stop_valid(2) by blast
  from active_switch_blocks_ticks[OF this, of "[]" "example_env\<lparr>env_kill_switch := read_state (\<lambda>_. []) (kill_switch_of (st_redis ?s))\<rparr>" "\<lambda>_. []" "example_runtime Mode_paper"]
  show ?thesis by (simp add: Let_def)
qed

end
