(* ===== verification/MM_Ladder.thy ===== *)
theory MM_Ladder
  imports MM_Runtime
begin

text \<open>
  The synchronisation of the paper ladder (\<open>_sync_paper_ladder\<close> of \<open>engines/market_making/runtime.py\<close>):
  which resting orders survive it, and which quotes it asks to place.
\<close>

section \<open>What cancelling does to the book\<close>

text \<open>The open orders without those in \<open>C\<close>, and the same configuration.\<close>

definition trims :: "string set \<Rightarrow> MarketMakerRuntime \<Rightarrow> MarketMakerRuntime \<Rightarrow> bool" where
  "trims C s t \<longleftrightarrow> pe_open_orders (mm_paper t) = filter (\<lambda>(cid, order). cid \<notin> C) (pe_open_orders (mm_paper s))
     \<and> mm_runtime_config t = mm_runtime_config s"

lemma trims_refl: "trims {} s s"
  by (simp add: trims_def)

lemma trims_trans: "trims A s t \<Longrightarrow> trims B t u \<Longrightarrow> trims (A \<union> B) s u"
  by (auto simp: trims_def split: prod.splits intro!: filter_cong)

lemma dict_pop_filter: "dict_pop k d = filter (\<lambda>(k', v). k' \<noteq> k) d"
  by (induction d) auto

lemma keeps_open_persist: "pe_open_orders (snd (persist_order t o' p)) = pe_open_orders p"
  using keepsD[OF keeps_persist_order[of "\<lambda>q. pe_open_orders q = pe_open_orders p"], of p] by (simp add: mem_only_def mem_def)

lemma cancel_order_pops: "pe_open_orders (snd (cancel_order now cid p)) = dict_pop cid (pe_open_orders p)"
proof (cases "dict_get (pe_open_orders p) cid")
  case None
  then have "cid \<notin> set (dict_keys (pe_open_orders p))" by (simp add: map_of_eq_None_iff)
  then show ?thesis using None by (simp add: cancel_order_def delete_id)
next
  case (Some order)
  have "snd (seqm m (ret x) s) = snd (m s)" for m :: "unit paper_op" and x :: "PaperOrder option" and s
    by (simp add: seqm_def bindm_def split: prod.split sum.split)
  then show ?thesis using Some by (simp add: cancel_order_def Let_def keeps_open_persist drop_order_def)
qed

lemma lifecycle_cancel_trims: "trims {cid} s (snd (cancel_paper_lifecycle_order env cid s))"
proof -
  obtain r p where rp: "cancel_order (env_now env) cid (mm_paper s) = (r, p)" by (cases "cancel_order (env_now env) cid (mm_paper s)")
  have "pe_open_orders p = filter (\<lambda>(c, order). c \<noteq> cid) (pe_open_orders (mm_paper s))"
    using cancel_order_pops[of "env_now env" cid "mm_paper s"] rp by (simp add: dict_pop_filter)
  then show ?thesis
    using rp by (cases r) (auto simp: trims_def cancel_paper_lifecycle_order_def on_paper_def zoom_def bindm_def count_def split: option.split)
qed

lemma cancel_loop_trims:
  "loop (\<lambda>(cid, order). cancel_paper_lifecycle_order env cid) orders s = (Inr (), t) \<Longrightarrow> trims (fst ` set orders) s t"
proof (induction orders arbitrary: s)
  case (Cons item orders)
  obtain cid order where i: "item = (cid, order)" by (cases item)
  obtain u where u: "cancel_paper_lifecycle_order env cid s = (Inr (), u)"
    "loop (\<lambda>(cid, order). cancel_paper_lifecycle_order env cid) orders u = (Inr (), t)"
    using Cons.prems by (auto simp: i seqm_def elim!: bindm_InrE)
  have "trims {cid} s u" using lifecycle_cancel_trims[of cid s env] u(1) by simp
  from trims_trans[OF this Cons.IH[OF u(2)]] show ?case by (simp add: i)
qed (simp add: trims_refl)

section \<open>One ladder key\<close>

text \<open>A resting order that may stay: young enough, and at the desired price and size.\<close>

definition good :: "env \<Rightarrow> MarketMakerRuntime \<Rightarrow> Quote \<Rightarrow> PaperOrder \<Rightarrow> bool" where
  "good env s q order \<longleftrightarrow> total_seconds (env_now env - pap_created_at order) < max_order_age_seconds (rc_strategy (mm_runtime_config s))
     \<and> \<not> quote_drifted s order q"

lemma good_config: "mm_runtime_config t = mm_runtime_config s \<Longrightarrow> good env t q order = good env s q order"
  unfolding good_def quote_drifted_def by (simp cong: option.case_cong)

lemma sync_newest_cases:
  assumes "sync_newest env q (cid, order) to_place s = (Inr (keep, to_place'), t)"
  shows "(good env s q order \<and> keep = Some cid \<and> to_place' = to_place \<and> t = s) \<or>
         (\<not> good env s q order \<and> keep = None \<and> to_place' = to_place @ [q] \<and> trims {cid} s t)"
proof (cases "good env s q order")
  case True
  then show ?thesis using assms by (auto simp: sync_newest_def good_def)
next
  case False
  have "trims {cid} s t" if "seqm (cancel_paper_lifecycle_order env cid) (seqm (modifies f) (ret x)) s = (Inr y, t)"
    "\<And>s. mm_paper (f s) = mm_paper s \<and> mm_runtime_config (f s) = mm_runtime_config s"
    for f :: "MarketMakerRuntime \<Rightarrow> MarketMakerRuntime" and x y :: "string option \<times> Quote list"
    using that lifecycle_cancel_trims[of cid s env]
    by (auto simp: seqm_def bindm_def trims_def split: prod.splits sum.splits)
  moreover have "keep = None \<and> to_place' = to_place @ [q]"
    using False assms by (auto simp: sync_newest_def good_def seqm_def elim!: bindm_InrE split: if_splits)
  ultimately show ?thesis
    using False assms by (auto simp: sync_newest_def good_def split: if_splits)
qed

text \<open>What is left of the orders of a key: nothing, or one good order.\<close>

definition settled :: "env \<Rightarrow> MarketMakerRuntime \<Rightarrow> Quote option \<Rightarrow> string set \<Rightarrow> (string \<times> PaperOrder) list \<Rightarrow> bool" where
  "settled env s desired C orders \<longleftrightarrow>
     fst ` set orders \<subseteq> C \<or>
     (\<exists>cid order q. desired = Some q \<and> (cid, order) \<in> set orders \<and> good env s q order \<and> fst ` set orders - C = {cid})"

lemma sync_key_effect:
  assumes "sync_key env (key, orders) (to_place, des) s = (Inr (to_place', des'), t)" "distinct (map fst orders)"
  shows "\<exists>C. trims C s t \<and> C \<subseteq> fst ` set orders \<and> settled env s (dict_get des key) C orders"
    and "set to_place' \<subseteq> set to_place \<union> set_option (dict_get des key)" "des' = des \<or> des' = dict_pop key des"
proof -
  let ?cancel = "\<lambda>(cid, order). cancel_paper_lifecycle_order env cid"
  let ?sorted = "sort_key (\<lambda>(cid, order). - pap_created_at order) orders"
  have "(\<exists>C. trims C s t \<and> C \<subseteq> fst ` set orders \<and> settled env s (dict_get des key) C orders) \<and>
    set to_place' \<subseteq> set to_place \<union> set_option (dict_get des key) \<and> (des' = des \<or> des' = dict_pop key des)"
  proof (cases "dict_get des key")
    case None
    then have "loop ?cancel orders s = (Inr (), t)" "to_place' = to_place" "des' = des"
      using assms(1) by (auto simp: sync_key_def seqm_def elim!: bindm_InrE)
    then show ?thesis using None cancel_loop_trims[of env orders s t] by (auto simp: settled_def)
  next
    case (Some q)
    show ?thesis
    proof (cases ?sorted)
      case Nil
      then have "orders = []" by (metis length_0_conv length_sort)
      then show ?thesis using assms(1) Some Nil by (auto simp: sync_key_def settled_def trims_refl intro!: exI[of _ "{}"])
    next
      case (Cons newest older)
      obtain cid order where n: "newest = (cid, order)" by (cases newest)
      have set: "set orders = insert (cid, order) (set older)" by (metis Cons n list.simps(15) set_sort)
      have dist: "cid \<notin> fst ` set older"
      proof -
        have "distinct (map fst ?sorted)" using assms(2) by (simp add: distinct_map)
        then show ?thesis by (simp add: Cons n)
      qed
      obtain keep tp u where 1: "sync_newest env q (cid, order) to_place s = (Inr (keep, tp), u)"
        and 2: "loop ?cancel older u = (Inr (), t)"
        and 3: "to_place' = (if keep \<noteq> None \<and> keep \<noteq> Some [] then tp else if q \<notin> set tp then tp @ [q] else tp)"
        and 4: "des' = des \<or> des' = dict_pop key des"
        using assms(1) Some Cons n by (auto simp: sync_key_def seqm_def elim!: bindm_InrE split: if_splits)
      have T: "trims (fst ` set older) u t" by (rule cancel_loop_trims[OF 2])
      from sync_newest_cases[OF 1] show ?thesis
      proof (elim disjE conjE)
        assume g: "good env s q order" "keep = Some cid" "tp = to_place" "u = s"
        have "settled env s (Some q) (fst ` set older) orders"
          unfolding settled_def set using g(1) dist by auto
        then show ?thesis using T g 3 4 Some by (auto simp: set intro!: exI[of _ "fst ` set older"])
      next
        assume g: "keep = None" "tp = to_place @ [q]" "trims {cid} s u"
        have "trims ({cid} \<union> fst ` set older) s t" using trims_trans[OF g(3) T] .
        then show ?thesis using g 3 4 Some by (auto simp: set settled_def intro!: exI[of _ "insert cid (fst ` set older)"])
      qed
    qed
  qed
  then show "\<exists>C. trims C s t \<and> C \<subseteq> fst ` set orders \<and> settled env s (dict_get des key) C orders"
    "set to_place' \<subseteq> set to_place \<union> set_option (dict_get des key)" "des' = des \<or> des' = dict_pop key des" by blast+
qed

section \<open>All keys\<close>

text \<open>The groups of the first loop: for every key the items of the symbol with that key, in book order.\<close>

definition keyed :: "string \<Rightarrow> string \<Rightarrow> string \<times> PaperOrder \<Rightarrow> bool" where
  "keyed symbol key item \<longleftrightarrow> oi_symbol (pap_intent (snd item)) = symbol \<and> order_ladder_key (snd item) = Inr (Some key)"

definition unkeyed :: "string \<Rightarrow> string \<times> PaperOrder \<Rightarrow> bool" where
  "unkeyed symbol item \<longleftrightarrow> oi_symbol (pap_intent (snd item)) = symbol \<and> order_ladder_key (snd item) = Inr None"

lemma group_orders_effect:
  assumes "fold_op (group_order env symbol) items groups s = (Inr groups', t)" "distinct (dict_keys groups)"
  shows "trims (fst ` set (filter (unkeyed symbol) items)) s t \<and> distinct (dict_keys groups')
    \<and> (\<forall>key. dict_get_or groups' key [] = dict_get_or groups key [] @ filter (keyed symbol key) items)
    \<and> (\<forall>item \<in> set items. oi_symbol (pap_intent (snd item)) = symbol \<longrightarrow> (\<exists>k. order_ladder_key (snd item) = Inr k))"
  using assms
proof (induction items arbitrary: groups s)
  case (Cons item items)
  obtain cid order where i: "item = (cid, order)" by (cases item)
  obtain g u where u: "group_order env symbol item groups s = (Inr g, u)"
    "fold_op (group_order env symbol) items g u = (Inr groups', t)"
    using Cons.prems(1) by (auto elim!: bindm_InrE)
  have step: "trims (if unkeyed symbol item then {cid} else {}) s u \<and> distinct (dict_keys g)
    \<and> (\<forall>key. dict_get_or g key [] = dict_get_or groups key [] @ (if keyed symbol key item then [item] else []))
    \<and> (oi_symbol (pap_intent order) = symbol \<longrightarrow> (\<exists>k. order_ladder_key order = Inr k))"
  proof (cases "oi_symbol (pap_intent order) = symbol")
    case False
    then show ?thesis using u(1) Cons.prems(2) by (auto simp: group_order_def i keyed_def unkeyed_def trims_refl)
  next
    case True
    show ?thesis
    proof (cases "order_ladder_key order")
      case (Inl e)
      then show ?thesis using u(1) True by (simp add: group_order_def i)
    next
      case (Inr k)
      show ?thesis
      proof (cases k)
        case None
        then have "cancel_paper_lifecycle_order env cid s = (Inr (), u)" "g = groups"
          using u(1) True Inr by (auto simp: group_order_def i seqm_def elim!: bindm_InrE)
        then show ?thesis
          using lifecycle_cancel_trims[of cid s env] True Inr None Cons.prems(2) by (auto simp: i keyed_def unkeyed_def)
      next
        case (Some key)
        then have "u = s" "g = dict_set key (dict_get_or groups key [] @ [(cid, order)]) groups"
          using u(1) True Inr by (auto simp: group_order_def i)
        then show ?thesis
          using True Inr Some Cons.prems(2)
          by (auto simp: i keyed_def unkeyed_def trims_refl dict_get_or_def update_conv' adict.wf_put)
      qed
    qed
  qed
  from Cons.IH[OF u(2)] step
  have IH: "trims (fst ` set (filter (unkeyed symbol) items)) u t" "distinct (dict_keys groups')"
    "\<forall>key. dict_get_or groups' key [] = dict_get_or g key [] @ filter (keyed symbol key) items"
    "\<forall>item \<in> set items. oi_symbol (pap_intent (snd item)) = symbol \<longrightarrow> (\<exists>k. order_ladder_key (snd item) = Inr k)"
    by blast+
  have "trims ((if unkeyed symbol item then {cid} else {}) \<union> fst ` set (filter (unkeyed symbol) items)) s t"
    using step IH(1) by (blast intro: trims_trans)
  then show ?case using IH step by (auto simp: i)
qed (simp add: trims_refl)

lemma fold_sync_effect:
  assumes "fold_op (sync_key env) groups (to_place, des) s = (Inr (to_place', des'), t)"
    and "distinct (dict_keys groups)" "distinct (dict_keys des)" "\<And>key orders. (key, orders) \<in> set groups \<Longrightarrow> distinct (map fst orders)"
  shows "\<exists>C. trims C s t
     \<and> (\<forall>(key, orders) \<in> set groups. \<exists>D \<subseteq> C. settled env s (dict_get des key) D orders)
     \<and> set to_place' \<union> set (map snd des') \<subseteq> set to_place \<union> set (map snd des)"
  using assms
proof (induction groups arbitrary: to_place des s)
  case (Cons grp groups)
  obtain key orders where g: "grp = (key, orders)" by (cases grp)
  obtain tp d u where u: "sync_key env (key, orders) (to_place, des) s = (Inr (tp, d), u)"
    "fold_op (sync_key env) groups (tp, d) u = (Inr (to_place', des'), t)"
    using Cons.prems(1) by (auto simp: g elim!: bindm_InrE)
  have dist: "distinct (map fst orders)" using Cons.prems(4)[of key orders] by (simp add: g)
  obtain C where C: "trims C s u" "C \<subseteq> fst ` set orders" "settled env s (dict_get des key) C orders"
    using sync_key_effect(1)[OF u(1) dist] by blast
  have d: "d = des \<or> d = dict_pop key des" by (rule sync_key_effect(3)[OF u(1) dist])
  then have dd: "distinct (dict_keys d)" "set (map snd d) \<subseteq> set (map snd des)"
    using Cons.prems(3) dict_pop_subset[of key des] by (auto simp: adict.wf_pop)
  have tp: "set tp \<subseteq> set to_place \<union> set (map snd des)"
  proof -
    have "set_option (dict_get des key) \<subseteq> set (map snd des)"
      by (cases "dict_get des key") (auto dest!: map_of_SomeD intro: rev_image_eqI)
    then show ?thesis using sync_key_effect(2)[OF u(1) dist] by blast
  qed
  have same: "dict_get d k = dict_get des k" if "k \<noteq> key" for k
    using d that adict.get_pop[OF Cons.prems(3)] by auto
  obtain D where D: "trims D u t"
    "\<forall>(k, os) \<in> set groups. \<exists>E \<subseteq> D. settled env u (dict_get d k) E os"
    "set to_place' \<union> set (map snd des') \<subseteq> set tp \<union> set (map snd d)"
  proof -
    have d1: "distinct (dict_keys groups)" using Cons.prems(2) by (simp add: g)
    have d2: "distinct (map fst os)" if "(k, os) \<in> set groups" for k os using Cons.prems(4)[of k os] that by simp
    show thesis using Cons.IH[OF u(2) d1 dd(1) d2] that by meson
  qed
  have cfg: "mm_runtime_config u = mm_runtime_config s" using C(1) by (simp add: trims_def)
  have "settled env s (dict_get des k) E os" if "(k, os) \<in> set groups" "settled env u (dict_get d k) E os" for k os E
  proof -
    have "k \<noteq> key" using that(1) Cons.prems(2) by (force simp: g)
    then show ?thesis using that(2) same[of k] by (simp add: settled_def good_config[OF cfg])
  qed
  note lift = this
  have rest: "\<forall>(k, os) \<in> set groups. \<exists>E \<subseteq> C \<union> D. settled env s (dict_get des k) E os"
  proof clarify
    fix k os assume m: "(k, os) \<in> set groups"
    from D(2) m obtain E where "E \<subseteq> D" "settled env u (dict_get d k) E os" by auto
    with lift[OF m] show "\<exists>E \<subseteq> C \<union> D. settled env s (dict_get des k) E os" by (meson le_supI2)
  qed
  show ?case
  proof (intro exI[of _ "C \<union> D"] conjI)
    show "trims (C \<union> D) s t" using C(1) D(1) by (rule trims_trans)
    show "\<forall>(key, orders) \<in> set (grp # groups). \<exists>D' \<subseteq> C \<union> D. settled env s (dict_get des key) D' orders"
      using rest C(3) by (auto simp: g)
    show "set to_place' \<union> set (map snd des') \<subseteq> set to_place \<union> set (map snd des)" using D(3) tp dd(2) by blast
  qed
qed (auto intro!: exI[of _ "{}"] simp: trims_refl)

lemma keyed_in_group:
  assumes "\<forall>key. dict_get_or groups key [] = filter (keyed symbol key) items" "item \<in> set items" "keyed symbol key item"
  shows "(key, filter (keyed symbol key) items) \<in> set groups"
proof (cases "dict_get groups key")
  case None
  then have "filter (keyed symbol key) items = []" using assms(1)[rule_format, of key] by (simp add: dict_get_or_def)
  then show ?thesis using assms(2,3) by (auto simp: filter_empty_conv)
next
  case (Some os)
  then have "os = filter (keyed symbol key) items" using assms(1)[rule_format, of key] by (simp add: dict_get_or_def)
  then show ?thesis using Some by (simp add: map_of_SomeD)
qed

lemma gauges_keep: "snd (update_lifecycle_gauges env s) = t \<Longrightarrow> trims {} s t"
proof -
  let ?P = "\<lambda>t. trims {} s t"
  have "keeps ?P (\<lambda>s. case order_lifecycle_metrics (env_now env) s of (m, s') \<Rightarrow> (Inr m, s'))"
    by (rule keepsI) (simp add: order_lifecycle_metrics_def Let_def trims_def)
  moreover have "keeps ?P (gauge name v)" for name v
    unfolding gauge_def by (rule keeps_modifies) (simp add: trims_def)
  ultimately have "keeps ?P (update_lifecycle_gauges env)"
    unfolding update_lifecycle_gauges_def by (intro keeps_bind keeps_loop) auto
  from keepsD[OF this trims_refl] show "snd (update_lifecycle_gauges env s) = t \<Longrightarrow> trims {} s t" by simp
qed

section \<open>Properties\<close>

definition quote_key :: "string \<Rightarrow> Quote \<Rightarrow> string" where
  "quote_key symbol q = ladder_key symbol (q_side q) (q_level q)"

text \<open>What a synchronisation that returns leaves behind.\<close>

lemma sync_settles:
  assumes "sync_paper_ladder env symbol desired s = (Inr quotes, t)" "distinct (dict_keys (pe_open_orders (mm_paper s)))"
  shows "set (pe_open_orders (mm_paper t)) \<subseteq> set (pe_open_orders (mm_paper s)) \<and> set quotes \<subseteq> set desired
    \<and> (\<forall>(cid, order) \<in> set (pe_open_orders (mm_paper t)). oi_symbol (pap_intent order) = symbol \<longrightarrow>
         (\<exists>q \<in> set desired. order_ladder_key order = Inr (Some (quote_key symbol q)) \<and> good env s q order))
    \<and> (\<forall>(cid1, order1) \<in> set (pe_open_orders (mm_paper t)). \<forall>(cid2, order2) \<in> set (pe_open_orders (mm_paper t)).
         oi_symbol (pap_intent order1) = symbol \<longrightarrow> oi_symbol (pap_intent order2) = symbol \<longrightarrow>
         order_ladder_key order1 = order_ladder_key order2 \<longrightarrow> cid1 = cid2)"
proof -
  let ?des = "dict_by (quote_key symbol) desired" and ?items = "pe_open_orders (mm_paper s)"
  obtain groups u tp des v w where 1: "fold_op (group_order env symbol) ?items [] s = (Inr groups, u)"
    and 2: "fold_op (sync_key env) groups ([], ?des) u = (Inr (tp, des), v)"
    and 3: "update_lifecycle_gauges env v = (Inr w, t)" and q: "quotes = tp @ map snd des"
    using assms(1) unfolding sync_paper_ladder_def Let_def quote_key_def[symmetric, abs_def] seqm_def
    by (auto elim!: bindm_InrE)
  note G = group_orders_effect[OF 1]
  have G1: "trims (fst ` set (filter (unkeyed symbol) ?items)) s u" and G2: "distinct (dict_keys groups)"
    and G3: "\<forall>key. dict_get_or groups key [] = filter (keyed symbol key) ?items"
    and G4: "\<forall>item \<in> set ?items. oi_symbol (pap_intent (snd item)) = symbol \<longrightarrow> (\<exists>k. order_ladder_key (snd item) = Inr k)"
    using G by (auto simp: dict_get_or_def)
  have group: "orders = filter (keyed symbol key) ?items" if "(key, orders) \<in> set groups" for key orders
    using that G2 G3[rule_format, of key] by (simp add: dict_get_or_def)
  have "distinct (map fst orders)" if "(key, orders) \<in> set groups" for key orders
    using group[OF that] assms(2) by (simp add: distinct_map_filter)
  then obtain C where C: "trims C u v" "\<forall>(key, orders) \<in> set groups. \<exists>D \<subseteq> C. settled env u (dict_get ?des key) D orders"
    "set tp \<union> set (map snd des) \<subseteq> set (map snd ?des)"
    using fold_sync_effect[OF 2 G2 dict_by_distinct] by auto
  have T: "trims (fst ` set (filter (unkeyed symbol) ?items) \<union> C \<union> {}) s t"
    by (rule trims_trans[OF trims_trans[OF G1 C(1)]], rule gauges_keep[of env]) (simp add: 3)
  have left: "(cid, order) \<in> set ?items \<and> cid \<notin> C \<and> \<not> unkeyed symbol (cid, order)"
    if "(cid, order) \<in> set (pe_open_orders (mm_paper t))" for cid order
    using that T by (force simp: trims_def)
  have cfg: "mm_runtime_config u = mm_runtime_config s" using G1 by (simp add: trims_def)
  have good_left: "\<exists>k q. order_ladder_key order = Inr (Some k) \<and> dict_get ?des k = Some q \<and> good env s q order
      \<and> (\<forall>c o'. (c, o') \<in> set (pe_open_orders (mm_paper t)) \<longrightarrow> keyed symbol k (c, o') \<longrightarrow> c = cid)"
    if m: "(cid, order) \<in> set (pe_open_orders (mm_paper t))" and sy: "oi_symbol (pap_intent order) = symbol" for cid order
  proof -
    obtain k where k: "order_ladder_key order = Inr (Some k)"
      using left[OF m] G4 sy by (fastforce simp: unkeyed_def)
    let ?os = "filter (keyed symbol k) ?items"
    have kd: "keyed symbol k (cid, order)" using k sy by (simp add: keyed_def)
    have in_os: "(cid, order) \<in> set ?os" using left[OF m] kd by simp
    have "(k, ?os) \<in> set groups" using keyed_in_group[OF G3 _ kd] left[OF m] by simp
    with C(2) obtain D where D: "D \<subseteq> C" "settled env u (dict_get ?des k) D ?os" by auto
    have mem: "cid \<in> fst ` set ?os - D" using in_os left[OF m] D(1) by force
    then have "\<not> fst ` set ?os \<subseteq> D" by blast
    then obtain c0 o0 q where q: "dict_get ?des k = Some q" "(c0, o0) \<in> set ?os" "good env u q o0" "fst ` set ?os - D = {c0}"
      using D(2) unfolding settled_def by meson
    have cid: "cid = c0" using mem unfolding q(4) by simp
    have "c = c0" if "(c, o') \<in> set (pe_open_orders (mm_paper t))" "keyed symbol k (c, o')" for c o'
    proof -
      have "c \<in> fst ` set ?os - D" using left[OF that(1)] that(2) D(1) by force
      then show ?thesis unfolding q(4) by simp
    qed
    moreover have "order = o0" using in_os q(2) cid assms(2) by (auto dest: eq_key_imp_eq_value)
    ultimately show ?thesis using k q(1,3) good_config[OF cfg] cid by metis
  qed
  have desired_of: "q \<in> set desired \<and> quote_key symbol q = k" if "dict_get ?des k = Some q" for k q
  proof -
    have "k \<in> quote_key symbol ` set desired" "q = last (filter (\<lambda>i. quote_key symbol i = k) desired)"
      using that by (auto simp: dict_by_get split: if_splits)
    then have "filter (\<lambda>i. quote_key symbol i = k) desired \<noteq> []" by (auto simp: filter_empty_conv)
    from last_in_set[OF this] \<open>q = _\<close> show ?thesis by simp
  qed
  have "set (map snd ?des) \<subseteq> set desired"
    using desired_of dict_by_distinct[of "quote_key symbol" desired] by (auto simp: map_of_eq_Some_iff)
  then have "set quotes \<subseteq> set desired" using C(3) unfolding q set_append by (meson subset_trans)
  moreover have "set (pe_open_orders (mm_paper t)) \<subseteq> set ?items" using left by auto
  moreover have "\<exists>q \<in> set desired. order_ladder_key order = Inr (Some (quote_key symbol q)) \<and> good env s q order"
    if "(cid, order) \<in> set (pe_open_orders (mm_paper t))" "oi_symbol (pap_intent order) = symbol" for cid order
  proof -
    note lo = good_left[OF that]
    obtain k q where kq: "order_ladder_key order = Inr (Some k)" "dict_get ?des k = Some q" "good env s q order"
      using lo by meson
    show ?thesis using kq desired_of[OF kq(2)] by metis
  qed
  moreover have "cid1 = cid2"
    if "(cid1, order1) \<in> set (pe_open_orders (mm_paper t))" "(cid2, order2) \<in> set (pe_open_orders (mm_paper t))"
      "oi_symbol (pap_intent order1) = symbol" "oi_symbol (pap_intent order2) = symbol"
      "order_ladder_key order1 = order_ladder_key order2" for cid1 order1 cid2 order2
  proof -
    note lo = good_left[OF that(1,3)]
    obtain k where k: "order_ladder_key order1 = Inr (Some k)"
      "\<forall>c o'. (c, o') \<in> set (pe_open_orders (mm_paper t)) \<longrightarrow> keyed symbol k (c, o') \<longrightarrow> c = cid1"
      using lo by meson
    have "keyed symbol k (cid2, order2)" using that(4,5) k(1) by (simp add: keyed_def)
    then show ?thesis using k(2) that(2) by metis
  qed
  ultimately show ?thesis by (intro conjI) (simp_all, (intro ballI, clarify, blast)+)
qed

section \<open>The synchronisation returns\<close>

text \<open>
  While the stored paper orders mirror the ones in memory no cancellation raises, so the loops of
  the synchronisation run to their end when every order of the symbol has a readable ladder key.
\<close>

abbreviation mirrored :: "OrderRow set \<Rightarrow> nat \<Rightarrow> MarketMakerRuntime \<Rightarrow> bool" where
  "mirrored old n s \<equiv> mirror {} old n (mm_paper s)"

lemma total_loop:
  "(\<And>x. x \<in> set xs \<Longrightarrow> total P (f x) (\<lambda>_. P)) \<Longrightarrow> total P (loop f xs) (\<lambda>_. P)"
  by (induction xs) (auto intro!: total_seq[where Q = P] total_ret)

lemma total_fold_op:
  "(\<And>x acc. x \<in> set xs \<Longrightarrow> total P (f x acc) (\<lambda>_. P)) \<Longrightarrow> total P (fold_op f xs acc) (\<lambda>_. P)"
  by (induction xs arbitrary: acc) (auto intro!: total_bind[where Q = "\<lambda>_. P"] total_ret)

lemma total_lifecycle_cancel:
  "total (mirrored old n) (cancel_paper_lifecycle_order env cid) (\<lambda>_. mirrored old n)"
proof (rule totalI)
  fix s assume "mirrored old n s"
  then obtain r p where "cancel_order (env_now env) cid (mm_paper s) = (Inr r, p)" "mirror {} old n p"
    using cancel_order_mirror by blast
  then show "\<exists>x t. cancel_paper_lifecycle_order env cid s = (Inr x, t) \<and> mirrored old n t"
    by (cases r) (simp_all add: cancel_paper_lifecycle_order_def on_paper_def zoom_def bindm_def seqm_def count_def)
qed

lemma total_cancel_loop:
  "total (mirrored old n) (loop (\<lambda>(cid, order). cancel_paper_lifecycle_order env cid) orders) (\<lambda>_. mirrored old n)"
  by (rule total_loop) (auto simp: total_lifecycle_cancel)

lemma total_group_order:
  assumes "oi_symbol (pap_intent order) = symbol \<Longrightarrow> \<exists>key. order_ladder_key order = Inr key"
  shows "total (mirrored old n) (group_order env symbol (cid, order) acc) (\<lambda>_. mirrored old n)"
proof (cases "oi_symbol (pap_intent order) = symbol")
  case True
  then obtain key where key: "order_ladder_key order = Inr key" using assms by blast
  have "total (mirrored old n) (seqm (cancel_paper_lifecycle_order env cid) (ret acc)) (\<lambda>_. mirrored old n)"
    by (rule total_seq[OF total_lifecycle_cancel]) (simp add: total_ret)
  then show ?thesis
    using True key by (cases key) (simp_all add: group_order_def total_def)
qed (simp add: group_order_def total_ret)

lemma total_sync_newest:
  "total (mirrored old n) (sync_newest env q item to_place) (\<lambda>_. mirrored old n)"
  unfolding sync_newest_def
  by (cases item) (auto intro!: total_bind[OF total_reads[where Q = "\<lambda>_. mirrored old n"]]
    total_seq[OF total_lifecycle_cancel] total_seq[OF total_modifies[where Q = "\<lambda>_. mirrored old n"]] total_ret)

lemma total_sync_key: "total (mirrored old n) (sync_key env item acc) (\<lambda>_. mirrored old n)"
  unfolding sync_key_def
  by (auto intro!: total_seq[OF total_cancel_loop] total_bind[OF total_sync_newest] total_ret
    split: prod.split option.split list.split)

lemma gauges_paper: "mm_paper (snd (update_lifecycle_gauges env s)) = mm_paper s"
proof -
  have "mm_paper (snd (loop (\<lambda>(key, v). gauge (''order_lifecycle.'' @ key) v) xs s)) = mm_paper s" for xs s
    by (induction xs arbitrary: s) (auto simp: seqm_def bindm_def gauge_def)
  moreover obtain m t where t: "order_lifecycle_metrics (env_now env) s = (m, t)"
    by (cases "order_lifecycle_metrics (env_now env) s")
  moreover have "mm_paper t = mm_paper s" using t by (auto simp: order_lifecycle_metrics_def Let_def)
  ultimately show ?thesis by (simp add: update_lifecycle_gauges_def bindm_def)
qed

lemma gauges_return: "\<exists>t. update_lifecycle_gauges env s = (Inr (), t)"
proof -
  have "\<exists>t. loop (\<lambda>(key, v). gauge (''order_lifecycle.'' @ key) v) xs s = (Inr (), t)" for xs s
    by (induction xs arbitrary: s) (auto simp: seqm_def bindm_def gauge_def)
  then show ?thesis by (simp add: update_lifecycle_gauges_def bindm_def split: prod.split)
qed

lemma lifecycle_cancel_returns:
  assumes "mirror {} old n (mm_paper s)"
  shows "\<exists>t. cancel_paper_lifecycle_order env cid s = (Inr (), t)"
  using cancel_order_mirror[OF assms, of "env_now env" cid]
  by (auto simp: cancel_paper_lifecycle_order_def on_paper_def zoom_def bindm_def seqm_def count_def split: option.split)

lemma sync_returns:
  assumes "mirrored old n s"
    and "\<And>cid order. (cid, order) \<in> set (pe_open_orders (mm_paper s)) \<Longrightarrow> oi_symbol (pap_intent order) = symbol \<Longrightarrow>
      \<exists>key. order_ladder_key order = Inr key"
  shows "\<exists>quotes t. sync_paper_ladder env symbol desired s = (Inr quotes, t) \<and> mirrored old n t"
proof -
  let ?des = "dict_by (\<lambda>quote. ladder_key symbol (q_side quote) (q_level quote)) desired"
  have "total (mirrored old n) (fold_op (group_order env symbol) (pe_open_orders (mm_paper s)) []) (\<lambda>_. mirrored old n)"
    by (rule total_fold_op) (auto intro!: total_group_order assms(2))
  then obtain groups u where 1: "fold_op (group_order env symbol) (pe_open_orders (mm_paper s)) [] s = (Inr groups, u)" "mirrored old n u"
    using assms(1) by (rule totalE)
  have "total (mirrored old n) (fold_op (sync_key env) groups ([], ?des)) (\<lambda>_. mirrored old n)"
    by (rule total_fold_op) (rule total_sync_key)
  then obtain acc v where 2: "fold_op (sync_key env) groups ([], ?des) u = (Inr acc, v)" "mirrored old n v"
    using 1(2) by (rule totalE)
  obtain t where t: "update_lifecycle_gauges env v = (Inr (), t)" using gauges_return by blast
  have "mirrored old n t" using gauges_paper[of env v] t 2(2) by simp
  then show ?thesis
    using 1(1) 2(1) t by (cases acc) (simp add: sync_paper_ladder_def bindm_def seqm_def)
qed

text \<open>
  C13. The ladder converges: while the stored orders mirror the ones in memory and every resting
  order of the symbol has a readable ladder key, the synchronisation of the symbol returns and keeps
  the mirror. Every order still resting was resting before, and each resting order of the symbol
  sits at a desired ladder level, is younger than the maximum age and has not drifted from the
  desired quote of its level; no two of them share a level. Only desired quotes are returned for
  placement.
\<close>

theorem ladder_sync_converges:
  assumes "mirror {} old n (mm_paper s)"
    and "\<forall>(cid, order) \<in> set (pe_open_orders (mm_paper s)). oi_symbol (pap_intent order) = symbol \<longrightarrow>
      (\<exists>key. order_ladder_key order = Inr key)"
  shows "\<exists>quotes t. sync_paper_ladder env symbol desired s = (Inr quotes, t) \<and> mirror {} old n (mm_paper t)
    \<and> set (pe_open_orders (mm_paper t)) \<subseteq> set (pe_open_orders (mm_paper s)) \<and> set quotes \<subseteq> set desired
    \<and> (\<forall>(cid, order) \<in> set (pe_open_orders (mm_paper t)). oi_symbol (pap_intent order) = symbol \<longrightarrow>
         (\<exists>q \<in> set desired. order_ladder_key order = Inr (Some (quote_key symbol q)) \<and> good env s q order))
    \<and> (\<forall>(cid1, order1) \<in> set (pe_open_orders (mm_paper t)). \<forall>(cid2, order2) \<in> set (pe_open_orders (mm_paper t)).
         oi_symbol (pap_intent order1) = symbol \<longrightarrow> oi_symbol (pap_intent order2) = symbol \<longrightarrow>
         order_ladder_key order1 = order_ladder_key order2 \<longrightarrow> cid1 = cid2)"
proof -
  obtain quotes t where t: "sync_paper_ladder env symbol desired s = (Inr quotes, t)" "mirrored old n t"
    using sync_returns[OF assms(1), of symbol env desired] assms(2) by fast
  have "distinct (dict_keys (pe_open_orders (mm_paper s)))" using assms(1) by (simp add: mirror_def)
  from conjI[OF t(1) conjI[OF t(2) sync_settles[OF t(1) this]]] show ?thesis by (intro exI)
qed

lemma sync_newest_replaces:
  assumes "mirror {} old n (mm_paper s)" "\<not> good env s q order"
  shows "\<exists>t. sync_newest env q (cid, order) [] s = (Inr (None, [q]), t)"
  using lifecycle_cancel_returns[OF assms(1), of env cid] assms(2)
  by (auto simp: sync_newest_def good_def seqm_def bindm_def)

text \<open>
  An order that has to be replaced is replaced twice: when the only resting order of a symbol
  sits at the desired level but is too old or has drifted, the synchronisation cancels it and
  returns the desired quote two times, so that the same client order id is submitted twice.
\<close>

theorem replaced_quote_returned_twice:
  assumes "mirror {} old n (mm_paper s)" "pe_open_orders (mm_paper s) = [(cid, order)]"
    and "oi_symbol (pap_intent order) = symbol" "order_ladder_key order = Inr (Some (quote_key symbol q))"
    and "\<not> good env s q order"
  shows "fst (sync_paper_ladder env symbol [q] s) = Inr [q, q]"
proof -
  let ?k = "quote_key symbol q"
  obtain t where t: "sync_newest env q (cid, order) [] s = (Inr (None, [q]), t)"
    using sync_newest_replaces[OF assms(1,5)] by blast
  have des: "dict_by (quote_key symbol) [q] = [(?k, q)]" by (simp add: dict_by_def)
  have groups: "fold_op (group_order env symbol) [(cid, order)] [] s = (Inr [(?k, [(cid, order)])], s)"
    using assms(3,4) by (simp add: group_order_def dict_get_or_def bindm_def)
  have sync: "fold_op (sync_key env) [(?k, [(cid, order)])] ([], [(?k, q)]) s = (Inr ([q], [(?k, q)]), t)"
    using t by (simp add: sync_key_def bindm_def seqm_def)
  obtain u where "update_lifecycle_gauges env t = (Inr (), u)" using gauges_return by blast
  then show ?thesis
    using groups sync
    by (simp add: sync_paper_ladder_def quote_key_def[symmetric, abs_def] des assms(2) bindm_def seqm_def)
qed

section \<open>Witnesses\<close>

definition ladder_quote :: Quote where
  "ladder_quote = \<lparr>q_side = ''buy'', q_price = 50, q_quantity = 1, q_level = 1, q_client_order_id = ''mm-1''\<rparr>"

definition ladder_runtime :: MarketMakerRuntime where
  "ladder_runtime = (let s = MarketMakerRuntime_init 0
       \<lparr>TRADING_MODE = Mode_paper, MARKET_DATA_EXCHANGES = [''binance''], MARKET_DATA_SYMBOLS = [''BTC/USDT''],
        RECONCILIATION_INTERVAL_SECONDS = 60, PAPER_STARTING_CASH = 100000, PAPER_BASE_ASSET = ''BTC'',
        PAPER_QUOTE_ASSET = ''USDT'', MAX_CANARY_NOTIONAL = 5000, MAX_CANARY_POSITION = 2500\<rparr>
       empty_session default_quote_engine default_runtime_config
     in s\<lparr>mm_paper := run paper_step [PPlace 0 (quote_intent Mode_paper ''BTC/USDT'' ladder_quote) None] (mm_paper s)\<rparr>)"

definition ladder_env :: "datetime \<Rightarrow> env" where
  "ladder_env now = \<lparr>env_now = now, env_kill_switch = Kill_state None, env_hex = (\<lambda>_ _. ''0123456789ab''),
     env_live = \<lparr>lv_place = (\<lambda>_. Inr ()), lv_cancel_all = (\<lambda>_. Inr 0), lv_balances = Inr [],
       lv_precision = (\<lambda>_. Inl (KeyError ''symbol'')), lv_open_order_count = 0, lv_reconcile = Inr (0, 0, 0)\<rparr>,
     env_market = []\<rparr>"

lemma ladder_runtime_mirror: "mirror {} {} 0 (mm_paper ladder_runtime)"
proof -
  have init: "mm_paper ladder_runtime = run paper_step [PPlace 0 (quote_intent Mode_paper ''BTC/USDT'' ladder_quote) None]
      (PaperExecutionEngine_init empty_session 100000 ''BTC'' ''USDT'' 1)"
    by (simp add: ladder_runtime_def Let_def MarketMakerRuntime_init_def)
  have "mirror {} {} 0 (PaperExecutionEngine_init empty_session 100000 ''BTC'' ''USDT'' 1)"
    by (simp add: mirror_def session_ok_def empty_session_def rows_shown_def rows_final_def trades_shown_def row_of_def PaperExecutionEngine_init_def)
  then show ?thesis unfolding init by (rule run_mirror) (simp add: quote_intent_def slashed_def)
qed

lemma ladder_runtime_orders:
  "map fst (pe_open_orders (mm_paper ladder_runtime)) = [''mm-1'']"
  "map (pap_created_at \<circ> snd) (pe_open_orders (mm_paper ladder_runtime)) = [0]"
  "map (oi_symbol \<circ> pap_intent \<circ> snd) (pe_open_orders (mm_paper ladder_runtime)) = [''BTC/USDT'']"
  by code_simp+

lemma ladder_runtime_keys:
  "map (order_ladder_key \<circ> snd) (pe_open_orders (mm_paper ladder_runtime)) = [Inr (Some (quote_key ''BTC/USDT'' ladder_quote))]"
  by code_simp

lemma ladder_runtime_order:
  "\<exists>order. pe_open_orders (mm_paper ladder_runtime) = [(''mm-1'', order)] \<and> oi_symbol (pap_intent order) = ''BTC/USDT''
     \<and> order_ladder_key order = Inr (Some (quote_key ''BTC/USDT'' ladder_quote)) \<and> pap_created_at order = 0"
proof -
  obtain item where i: "pe_open_orders (mm_paper ladder_runtime) = [item]"
    using ladder_runtime_orders(1) by (auto simp: map_eq_Cons_conv)
  show ?thesis
    using ladder_runtime_orders ladder_runtime_keys unfolding i by (cases item) simp
qed

theorem replaced_quote_returned_twice_witness:
  "fst (sync_paper_ladder (ladder_env (seconds 61)) ''BTC/USDT'' [ladder_quote] ladder_runtime) = Inr [ladder_quote, ladder_quote]"
proof -
  obtain order where o: "pe_open_orders (mm_paper ladder_runtime) = [(''mm-1'', order)]" "oi_symbol (pap_intent order) = ''BTC/USDT''"
     "order_ladder_key order = Inr (Some (quote_key ''BTC/USDT'' ladder_quote))" "pap_created_at order = 0"
    using ladder_runtime_order by blast
  have "max_order_age_seconds (rc_strategy (mm_runtime_config ladder_runtime)) = 60" by code_simp
  then have "\<not> good (ladder_env (seconds 61)) ladder_runtime ladder_quote order"
    by (simp add: good_def o(4) ladder_env_def seconds_def total_seconds_def)
  from replaced_quote_returned_twice[OF ladder_runtime_mirror o(1-3) this] show ?thesis .
qed

theorem ladder_sync_converges_witness:
  "\<exists>quotes t. sync_paper_ladder (ladder_env (seconds 61)) ''BTC/USDT'' [ladder_quote] ladder_runtime = (Inr quotes, t)
     \<and> mirror {} {} 0 (mm_paper t) \<and> set (pe_open_orders (mm_paper t)) \<subseteq> set (pe_open_orders (mm_paper ladder_runtime))"
proof -
  obtain order where o: "pe_open_orders (mm_paper ladder_runtime) = [(''mm-1'', order)]"
     "order_ladder_key order = Inr (Some (quote_key ''BTC/USDT'' ladder_quote))"
    using ladder_runtime_order by blast
  have "\<forall>(cid, order) \<in> set (pe_open_orders (mm_paper ladder_runtime)). oi_symbol (pap_intent order) = ''BTC/USDT'' \<longrightarrow>
      (\<exists>key. order_ladder_key order = Inr key)"
    by (simp add: o)
  from ladder_sync_converges[OF ladder_runtime_mirror this, of "ladder_env (seconds 61)" "[ladder_quote]"]
  show ?thesis by meson
qed

end
