(* ===== verification/Redis_Store.thy ===== *)
theory Redis_Store
  imports Store Access
begin

text \<open>
  The helpers of \<open>redis/manager.py\<close>: cached documents, publications, locks, request counters and login sessions in Redis.

  The server is a parameter, the record \<open>redis_server\<close>, with what its commands are documented to do as \<open>documented\<close>. A command is
  answered, lost before the server has executed it, or executed with its answer lost; the latter two raise. Clients and server share one
  clock, in milliseconds. The texts of JSON documents are arguments (\<open>json_codec\<close>).
\<close>

section \<open>The server\<close>

record 'r redis_server =
  srv_get :: "int \<Rightarrow> string \<Rightarrow> 'r \<Rightarrow> string option"
  srv_set :: "int \<Rightarrow> string \<Rightarrow> string \<Rightarrow> bool \<Rightarrow> int option \<Rightarrow> ('r, bool) op"
  srv_delete :: "int \<Rightarrow> string \<Rightarrow> ('r, int) op"
  srv_incr :: "int \<Rightarrow> string \<Rightarrow> ('r, int) op"
  srv_expire :: "int \<Rightarrow> string \<Rightarrow> int \<Rightarrow> ('r, unit) op"
  srv_publish :: "string \<Rightarrow> string \<Rightarrow> ('r, int) op"

text \<open>Two states that answer every later \<open>GET\<close> the same, but for some keys.\<close>

definition unchanged_but :: "'r redis_server \<Rightarrow> int \<Rightarrow> string set \<Rightarrow> 'r \<Rightarrow> 'r \<Rightarrow> bool" where
  "unchanged_but srv now keys r r' \<longleftrightarrow> (\<forall>t \<ge> now. \<forall>k. k \<notin> keys \<longrightarrow> srv_get srv t k r' = srv_get srv t k r)"

definition lives :: "int option \<Rightarrow> int \<Rightarrow> int \<Rightarrow> bool" where
  "lives px now t = (case px of None \<Rightarrow> True | Some d \<Rightarrow> t < now + d)"

text \<open>A value stays until it expires; \<open>SET\<close> with \<open>NX\<close> and \<open>PX\<close>.\<close>

definition values_lapse :: "'r redis_server \<Rightarrow> bool" where
  "values_lapse srv \<longleftrightarrow> (\<forall>r t t' k. t \<le> t' \<longrightarrow> srv_get srv t' k r = srv_get srv t k r \<or> srv_get srv t' k r = None)"

definition set_documented :: "'r redis_server \<Rightarrow> bool" where
  "set_documented srv \<longleftrightarrow> (\<forall>now k v nx px r.
     (if \<exists>d. px = Some d \<and> d \<le> 0 then \<exists>e. srv_set srv now k v nx px r = (Inl e, r)
      else if nx \<and> srv_get srv now k r \<noteq> None then srv_set srv now k v nx px r = (Inr False, r)
      else \<exists>r'. srv_set srv now k v nx px r = (Inr True, r') \<and> unchanged_but srv now {k} r r'
        \<and> (\<forall>t \<ge> now. srv_get srv t k r' = (if lives px now t then Some v else None))))"

text \<open>\<open>DEL\<close>, \<open>INCR\<close>, which keeps the time to live, \<open>EXPIRE\<close> and \<open>PUBLISH\<close>.\<close>

definition delete_documented :: "'r redis_server \<Rightarrow> bool" where
  "delete_documented srv \<longleftrightarrow> (\<forall>now k r. \<exists>r'. srv_delete srv now k r = (Inr (if srv_get srv now k r = None then 0 else 1), r')
     \<and> unchanged_but srv now {k} r r' \<and> (\<forall>t \<ge> now. srv_get srv t k r' = None))"

definition incr_documented :: "'r redis_server \<Rightarrow> bool" where
  "incr_documented srv \<longleftrightarrow> (\<forall>now k r.
     (case srv_get srv now k r of
        None \<Rightarrow> \<exists>r'. srv_incr srv now k r = (Inr 1, r') \<and> unchanged_but srv now {k} r r' \<and> (\<forall>t \<ge> now. srv_get srv t k r' = Some (str_int 1))
      | Some v \<Rightarrow>
         (case parse_int v of
            None \<Rightarrow> \<exists>e. srv_incr srv now k r = (Inl e, r)
          | Some n \<Rightarrow> \<exists>r'. srv_incr srv now k r = (Inr (n + 1), r') \<and> unchanged_but srv now {k} r r'
              \<and> (\<forall>t \<ge> now. srv_get srv t k r' = map_option (\<lambda>_. str_int (n + 1)) (srv_get srv t k r)))))"

definition expire_documented :: "'r redis_server \<Rightarrow> bool" where
  "expire_documented srv \<longleftrightarrow> (\<forall>now k seconds r. \<exists>r'. srv_expire srv now k seconds r = (Inr (), r') \<and> unchanged_but srv now {k} r r'
     \<and> (\<forall>t \<ge> now. srv_get srv t k r' = (if t < now + 1000 * seconds then srv_get srv now k r else None)))"

definition publish_documented :: "'r redis_server \<Rightarrow> bool" where
  "publish_documented srv \<longleftrightarrow> (\<forall>channel message r. \<exists>n r'. srv_publish srv channel message r = (Inr n, r') \<and> (\<forall>now. unchanged_but srv now {} r r'))"

definition documented :: "'r redis_server \<Rightarrow> bool" where
  "documented srv \<longleftrightarrow> values_lapse srv \<and> set_documented srv \<and> delete_documented srv \<and> incr_documented srv \<and> expire_documented srv \<and> publish_documented srv"

section \<open>Calls\<close>

datatype delivery = Answered | Request_lost | Answer_lost

record redis_call =
  rc_now :: int
  rc_delivery :: "nat \<Rightarrow> delivery"

definition sends :: "redis_call \<Rightarrow> nat \<Rightarrow> ('r, 'a) op \<Rightarrow> ('r, 'a) op" where
  "sends call i command r =
     (case rc_delivery call i of
        Answered \<Rightarrow> command r
      | Request_lost \<Rightarrow> (Inl (TransportError ''redis''), r)
      | Answer_lost \<Rightarrow> (Inl (TransportError ''redis''), snd (command r)))"

record json_codec =
  jc_dumps :: "json \<Rightarrow> string"
  jc_loads :: "string \<Rightarrow> json res"

section \<open>Cached documents and publications\<close>

definition cache_set_json :: "'r redis_server \<Rightarrow> json_codec \<Rightarrow> redis_call \<Rightarrow> nat \<Rightarrow> string \<Rightarrow> json \<Rightarrow> int option \<Rightarrow> ('r, unit) op" where
  "cache_set_json srv codec call i key value ttl_seconds =
     bindm (sends call i (srv_set srv (rc_now call) key (jc_dumps codec value) False (map_option (\<lambda>n. 1000 * n) ttl_seconds))) (\<lambda>_. ret ())"

definition cache_get_json :: "'r redis_server \<Rightarrow> json_codec \<Rightarrow> redis_call \<Rightarrow> string \<Rightarrow> ('r, json option) op" where
  "cache_get_json srv codec call key =
     bindm (sends call 0 (reads (srv_get srv (rc_now call) key))) (\<lambda>value.
     case value of None \<Rightarrow> ret None | Some v \<Rightarrow> bindm (lift_res (jc_loads codec v)) (\<lambda>x. ret (Some x)))"

definition cache_delete :: "'r redis_server \<Rightarrow> redis_call \<Rightarrow> string \<Rightarrow> ('r, unit) op" where
  "cache_delete srv call key = bindm (sends call 0 (srv_delete srv (rc_now call) key)) (\<lambda>_. ret ())"

definition pubsub_publish :: "'r redis_server \<Rightarrow> json_codec \<Rightarrow> redis_call \<Rightarrow> nat \<Rightarrow> string \<Rightarrow> json \<Rightarrow> ('r, int) op" where
  "pubsub_publish srv codec call i channel payload = sends call i (srv_publish srv channel (jc_dumps codec payload))"

definition publish_event :: "'r redis_server \<Rightarrow> json_codec \<Rightarrow> redis_call \<Rightarrow> string \<Rightarrow> string \<Rightarrow> obj \<Rightarrow> ('r, int) op" where
  "publish_event srv codec call engine event_type payload =
     (let event = JDict [(''engine'', JStr engine), (''event_type'', JStr event_type), (''payload'', JDict payload),
            (''published_at'', JFloat (of_int (rc_now call) / 1000))] in
     seqm (cache_set_json srv codec call 0 (''engine:last_event:'' @ engine) event (Some 86400))
       (pubsub_publish srv codec call 1 (''engine.events.'' @ engine) event))"

definition publish_command :: "'r redis_server \<Rightarrow> json_codec \<Rightarrow> redis_call \<Rightarrow> string \<Rightarrow> string \<Rightarrow> obj \<Rightarrow> ('r, int) op" where
  "publish_command srv codec call engine command_type payload =
     pubsub_publish srv codec call 0 (''engine.commands.'' @ engine)
       (JDict [(''engine'', JStr engine), (''command_type'', JStr command_type), (''payload'', JDict payload),
          (''published_at'', JFloat (of_int (rc_now call) / 1000))])"

section \<open>Locks\<close>

text \<open>\<open>RELEASE_SCRIPT\<close>, which the server runs as one step.\<close>

definition release_script :: "'r redis_server \<Rightarrow> int \<Rightarrow> string \<Rightarrow> string \<Rightarrow> ('r, int) op" where
  "release_script srv now key token =
     bindm (reads (srv_get srv now key)) (\<lambda>value. if value = Some token then srv_delete srv now key else ret 0)"

definition lock_acquire :: "'r redis_server \<Rightarrow> redis_call \<Rightarrow> uuid \<Rightarrow> string \<Rightarrow> int \<Rightarrow> ('r, string option) op" where
  "lock_acquire srv call fresh key ttl_ms =
     (let token = uuid_text fresh in
     bindm (sends call 0 (srv_set srv (rc_now call) key token True (Some ttl_ms))) (\<lambda>acquired.
     ret (if acquired then Some token else None)))"

definition lock_release :: "'r redis_server \<Rightarrow> redis_call \<Rightarrow> string \<Rightarrow> string \<Rightarrow> ('r, bool) op" where
  "lock_release srv call key token = bindm (sends call 0 (release_script srv (rc_now call) key token)) (\<lambda>n. ret (n \<noteq> 0))"

section \<open>Request counters\<close>

definition rate_bucket :: "string \<Rightarrow> int \<Rightarrow> int \<Rightarrow> string" where
  "rate_bucket key window_seconds now = ''rate:'' @ key @ '':'' @ str_int (now div (1000 * window_seconds))"

definition rate_allow :: "'r redis_server \<Rightarrow> redis_call \<Rightarrow> string \<Rightarrow> int \<Rightarrow> int \<Rightarrow> ('r, bool \<times> int) op" where
  "rate_allow srv call key limit window_seconds =
     (if window_seconds = 0 then raise_err ZeroDivisionError
      else let bucket = rate_bucket key window_seconds (rc_now call) in
      bindm (sends call 0 (srv_incr srv (rc_now call) bucket)) (\<lambda>n.
      seqm (if n = 1 then sends call 1 (srv_expire srv (rc_now call) bucket window_seconds) else ret ())
        (ret (n \<le> limit, max 0 (limit - n)))))"

section \<open>Login sessions\<close>

definition session_create :: "'r redis_server \<Rightarrow> json_codec \<Rightarrow> redis_call \<Rightarrow> string \<Rightarrow> obj \<Rightarrow> int \<Rightarrow> ('r, unit) op" where
  "session_create srv codec call session_id payload ttl_seconds =
     bindm (sends call 0 (srv_set srv (rc_now call) (''session:'' @ session_id) (jc_dumps codec (JDict payload)) False (Some (1000 * ttl_seconds)))) (\<lambda>_. ret ())"

definition session_get :: "'r redis_server \<Rightarrow> json_codec \<Rightarrow> redis_call \<Rightarrow> string \<Rightarrow> ('r, json option) op" where
  "session_get srv codec call session_id =
     bindm (sends call 0 (reads (srv_get srv (rc_now call) (''session:'' @ session_id)))) (\<lambda>data.
     case data of None \<Rightarrow> ret None | Some v \<Rightarrow> bindm (lift_res (jc_loads codec v)) (\<lambda>x. ret (Some x)))"

definition session_revoke :: "'r redis_server \<Rightarrow> redis_call \<Rightarrow> string \<Rightarrow> ('r, unit) op" where
  "session_revoke srv call session_id = bindm (sends call 0 (srv_delete srv (rc_now call) (''session:'' @ session_id))) (\<lambda>_. ret ())"

section \<open>Mutual exclusion\<close>

text \<open>A history of lock requests; a grant is a token that was handed out, until its holder asks to release it.\<close>

datatype lock_request = Acquire string int | Release string string

record grant =
  gr_key :: string
  gr_token :: string
  gr_until :: int

record 'r lock_world =
  lw_server :: 'r
  lw_uuid :: uuid
  lw_grants :: "grant list"

fun lock_step :: "'r redis_server \<Rightarrow> redis_call \<times> lock_request \<Rightarrow> 'r lock_world \<Rightarrow> 'r lock_world" where
  "lock_step srv (call, Acquire key ttl_ms) w =
     (case lock_acquire srv call (lw_uuid w) key ttl_ms (lw_server w) of
        (Inr (Some token), r) \<Rightarrow> w\<lparr>lw_server := r, lw_uuid := Suc (lw_uuid w),
            lw_grants := \<lparr>gr_key = key, gr_token = token, gr_until = rc_now call + ttl_ms\<rparr> # lw_grants w\<rparr>
      | (_, r) \<Rightarrow> w\<lparr>lw_server := r, lw_uuid := Suc (lw_uuid w)\<rparr>)"
| "lock_step srv (call, Release key token) w =
     w\<lparr>lw_server := snd (lock_release srv call key token (lw_server w)), lw_grants := filter (\<lambda>g. \<not> (gr_key g = key \<and> gr_token g = token)) (lw_grants w)\<rparr>"

definition holders :: "int \<Rightarrow> string \<Rightarrow> 'r lock_world \<Rightarrow> grant list" where
  "holders now key w = filter (\<lambda>g. gr_key g = key \<and> now < gr_until g) (lw_grants w)"

text \<open>Times that do not go backwards.\<close>

fun in_order :: "int \<Rightarrow> (redis_call \<times> 'q) list \<Rightarrow> bool" where
  "in_order now [] = True"
| "in_order now ((call, q) # calls) = (now \<le> rc_now call \<and> in_order (rc_now call) calls)"

fun last_time :: "int \<Rightarrow> (redis_call \<times> 'q) list \<Rightarrow> int" where
  "last_time now [] = now"
| "last_time now ((call, q) # calls) = last_time (rc_now call) calls"

definition locks_ok :: "'r redis_server \<Rightarrow> int \<Rightarrow> 'r lock_world \<Rightarrow> bool" where
  "locks_ok srv now w \<longleftrightarrow> (\<forall>t \<ge> now. \<forall>key. length (holders t key w) \<le> 1
     \<and> (\<forall>g \<in> set (holders t key w). srv_get srv t key (lw_server w) = Some (gr_token g)))"

lemma unchanged_refl [simp]: "unchanged_but srv now keys r r"
  by (simp add: unchanged_but_def)

lemma locks_okD:
  assumes "locks_ok srv now w" "now \<le> t" "g \<in> set (lw_grants w)" "t < gr_until g"
  shows "srv_get srv t (gr_key g) (lw_server w) = Some (gr_token g)"
  using assms unfolding locks_ok_def holders_def by auto

text \<open>A request keeps the grants apart when it leaves the keys of the running grants alone.\<close>

lemma locks_ok_same:
  assumes "locks_ok srv now w" "now \<le> now'" "unchanged_but srv now' {k} (lw_server w) (lw_server w')" "\<exists>P. lw_grants w' = filter P (lw_grants w)"
    "\<And>t g. now' \<le> t \<Longrightarrow> g \<in> set (holders t k w') \<Longrightarrow> srv_get srv t k (lw_server w') = Some (gr_token g)"
  shows "locks_ok srv now' w'"
  unfolding locks_ok_def
proof (intro allI impI conjI ballI)
  fix t key assume t: "now' \<le> t"
  obtain P where P: "lw_grants w' = filter P (lw_grants w)" using assms(4) by blast
  have "holders t key w' = filter P (holders t key w)" by (simp add: holders_def P conj_commute conj_left_commute)
  moreover have ok: "length (holders t key w) \<le> 1" "\<forall>g \<in> set (holders t key w). srv_get srv t key (lw_server w) = Some (gr_token g)"
    using assms(1,2) t unfolding locks_ok_def by auto
  ultimately show "length (holders t key w') \<le> 1" by (metis length_filter_le order_trans)
  fix g assume g: "g \<in> set (holders t key w')"
  show "srv_get srv t key (lw_server w') = Some (gr_token g)"
  proof (cases "key = k")
    case False
    then have "srv_get srv t key (lw_server w') = srv_get srv t key (lw_server w)" using assms(3) t by (simp add: unchanged_but_def)
    then show ?thesis using ok(2) g \<open>holders t key w' = filter P (holders t key w)\<close> by simp
  qed (use assms(5)[OF t] g in simp)
qed

lemma no_holder_when_free:
  assumes "locks_ok srv now w" "now \<le> t0" "t0 \<le> t" "srv_get srv t0 key (lw_server w) = None"
  shows "holders t key w = []"
proof (rule ccontr)
  assume "holders t key w \<noteq> []"
  then obtain g where "g \<in> set (lw_grants w)" "gr_key g = key" "t < gr_until g" unfolding holders_def by (metis (mono_tags, lifting) filter_empty_conv)
  then show False using locks_okD[OF assms(1,2)] assms(3,4) by fastforce
qed

lemma set_cases:
  assumes "set_documented srv"
  obtains (refused) e where "srv_set srv now k v nx px r = (Inl e, r)"
  | (present) "nx" "srv_get srv now k r \<noteq> None" "srv_set srv now k v nx px r = (Inr False, r)"
  | (stored) r' where "srv_set srv now k v nx px r = (Inr True, r')" "nx \<longrightarrow> srv_get srv now k r = None" "unchanged_but srv now {k} r r'"
      "\<And>t. now \<le> t \<Longrightarrow> srv_get srv t k r' = (if lives px now t then Some v else None)"
  using assms unfolding set_documented_def by (smt (verit, best))

lemma sends_cases:
  obtains (answered) "sends call i m r = m r" | (request_lost) "sends call i m r = (Inl (TransportError ''redis''), r)"
  | (answer_lost) "sends call i m r = (Inl (TransportError ''redis''), snd (m r))"
  by (cases "rc_delivery call i") (auto simp: sends_def)

lemma acquire_cases:
  assumes "set_documented srv"
  obtains (no) x where "lock_acquire srv call u key ttl r = (x, r)" "\<And>token. x \<noteq> Inr (Some token)"
  | (stored) x r' where "lock_acquire srv call u key ttl r = (x, r')" "\<And>token. x = Inr (Some token) \<Longrightarrow> token = uuid_text u"
      "srv_get srv (rc_now call) key r = None" "unchanged_but srv (rc_now call) {key} r r'"
      "\<And>t. rc_now call \<le> t \<Longrightarrow> t < rc_now call + ttl \<Longrightarrow> srv_get srv t key r' = Some (uuid_text u)"
proof -
  let ?m = "srv_set srv (rc_now call) key (uuid_text u) True (Some ttl)"
  show thesis
    by (rule set_cases[OF assms, of "rc_now call" key "uuid_text u" True "Some ttl" r]; rule sends_cases[of call 0 ?m r])
      (auto simp: lock_acquire_def Let_def bindm_def lives_def intro: no stored)
qed

lemma release_cases:
  assumes "delete_documented srv"
  obtains (no) x where "lock_release srv call key token r = (x, r)"
  | (deleted) x r' where "lock_release srv call key token r = (x, r')" "srv_get srv (rc_now call) key r = Some token" "unchanged_but srv (rc_now call) {key} r r'"
proof -
  let ?m = "release_script srv (rc_now call) key token"
  obtain n r' where "srv_delete srv (rc_now call) key r = (Inr n, r')" "unchanged_but srv (rc_now call) {key} r r'"
    using assms unfolding delete_documented_def by blast
  note del = this
  show thesis
    by (cases "srv_get srv (rc_now call) key r = Some token"; rule sends_cases[of call 0 ?m r])
      (use del in \<open>auto simp: lock_release_def release_script_def bindm_def intro: no deleted\<close>)
qed

lemma lock_step_ok:
  assumes "documented srv" "locks_ok srv now w" "now \<le> rc_now call"
  shows "locks_ok srv (rc_now call) (lock_step srv (call, q) w)"
proof (cases q)
  case (Acquire key ttl)
  have free: "holders t key w = []" if "srv_get srv (rc_now call) key (lw_server w) = None" "rc_now call \<le> t" for t
    using no_holder_when_free[OF assms(2,3) that(2,1)] .
  have "set_documented srv" using assms(1) by (simp add: documented_def)
  then show ?thesis
  proof (cases rule: acquire_cases[of srv call "lw_uuid w" key ttl "lw_server w"])
    case (no x)
    then have "lock_step srv (call, q) w = w\<lparr>lw_uuid := Suc (lw_uuid w)\<rparr>" by (auto simp: Acquire split: sum.split option.split)
    then show ?thesis using assms(2,3) by (auto simp: locks_ok_def holders_def)
  next
    case (stored x r')
    show ?thesis
    proof (cases "\<exists>token. x = Inr (Some token)")
      case True
      then have token: "x = Inr (Some (uuid_text (lw_uuid w)))" using stored(2) by blast
      let ?g = "\<lparr>gr_key = key, gr_token = uuid_text (lw_uuid w), gr_until = rc_now call + ttl\<rparr>"
      have w': "lock_step srv (call, q) w = w\<lparr>lw_server := r', lw_uuid := Suc (lw_uuid w), lw_grants := ?g # lw_grants w\<rparr>"
        using token stored(1) by (simp add: Acquire)
      have held: "holders t k (lock_step srv (call, q) w) = (if k = key then (if t < rc_now call + ttl then [?g] else []) else holders t k w)" if "rc_now call \<le> t" for t k
        using free[OF stored(3) that] by (simp add: w' holders_def)
      show ?thesis unfolding locks_ok_def
      proof (intro allI impI)
        fix t k assume t: "rc_now call \<le> t"
        show "length (holders t k (lock_step srv (call, q) w)) \<le> 1
          \<and> (\<forall>g \<in> set (holders t k (lock_step srv (call, q) w)). srv_get srv t k (lw_server (lock_step srv (call, q) w)) = Some (gr_token g))"
        proof (cases "k = key")
          case True
          then show ?thesis unfolding held[OF t] using stored(5)[OF t] by (simp add: w')
        next
          case False
          then have "srv_get srv t k r' = srv_get srv t k (lw_server w)" using stored(4) t by (simp add: unchanged_but_def)
          moreover have "length (holders t k w) \<le> 1 \<and> (\<forall>g \<in> set (holders t k w). srv_get srv t k (lw_server w) = Some (gr_token g))"
            using assms(2,3) t unfolding locks_ok_def by simp
          ultimately show ?thesis unfolding held[OF t] using False by (simp add: w')
        qed
      qed
    next
      case False
      then have "lock_step srv (call, q) w = w\<lparr>lw_server := r', lw_uuid := Suc (lw_uuid w)\<rparr>"
        using stored(1) by (auto simp: Acquire split: sum.split option.split)
      then show ?thesis using stored(4) free[OF stored(3)]
        by (intro locks_ok_same[OF assms(2,3), of key]) (auto simp: holders_def intro: exI[of _ "\<lambda>_. True"])
    qed
  qed
next
  case (Release key token)
  let ?keep = "\<lambda>g. \<not> (gr_key g = key \<and> gr_token g = token)"
  have "delete_documented srv" using assms(1) by (simp add: documented_def)
  then show ?thesis
  proof (cases rule: release_cases[of srv call key token "lw_server w"])
    case (no x)
    then have "lock_step srv (call, q) w = w\<lparr>lw_grants := filter ?keep (lw_grants w)\<rparr>" by (simp add: Release)
    then show ?thesis using assms(2,3) by (intro locks_ok_same[OF assms(2,3), of key]) (auto simp: holders_def intro: locks_okD[OF assms(2)])
  next
    case (deleted x r')
    then have w': "lock_step srv (call, q) w = w\<lparr>lw_server := r', lw_grants := filter ?keep (lw_grants w)\<rparr>" by (simp add: Release)
    have "holders t key (lock_step srv (call, q) w) = []" if "rc_now call \<le> t" for t
      using that deleted(2) locks_okD[OF assms(2,3)] by (fastforce simp: w' holders_def filter_empty_conv)
    then show ?thesis using deleted(3) by (intro locks_ok_same[OF assms(2,3), of key]) (auto simp: w')
  qed
qed

lemma lock_run_ok: "documented srv \<Longrightarrow> locks_ok srv now w \<Longrightarrow> in_order now calls \<Longrightarrow> locks_ok srv (last_time now calls) (run (lock_step srv) calls w)"
proof (induction calls arbitrary: now w)
  case (Cons p calls)
  obtain call q where p: "p = (call, q)" by (cases p)
  then have "now \<le> rc_now call" "in_order (rc_now call) calls" using Cons.prems(3) by simp_all
  then show ?case unfolding p run_Cons last_time.simps using Cons.prems(1) Cons.IH[OF Cons.prems(1) lock_step_ok[OF Cons.prems(1,2)]] by blast
qed simp

text \<open>
  C26. Locks exclude each other: after any requests to acquire and release locks, lost requests and lost answers included, no key has two holders whose time
  has not run out, and the server keeps the holder's token, so that it grants the lock to nobody else and a stale release does not end it.
\<close>

theorem lock_mutual_exclusion:
  assumes "documented srv" "in_order now calls" "last_time now calls \<le> t" "lw_grants w = []"
  shows "length (holders t key (run (lock_step srv) calls w)) \<le> 1
    \<and> (\<forall>g \<in> set (holders t key (run (lock_step srv) calls w)). srv_get srv t key (lw_server (run (lock_step srv) calls w)) = Some (gr_token g)
         \<and> (\<forall>call u ttl. rc_now call = t \<longrightarrow> (\<forall>token. fst (lock_acquire srv call u key ttl (lw_server (run (lock_step srv) calls w))) \<noteq> Inr (Some token))))"
proof -
  let ?w = "run (lock_step srv) calls w"
  have start: "locks_ok srv now w" using assms(4) by (simp add: locks_ok_def holders_def)
  note ok = lock_run_ok[OF assms(1) start assms(2)]
  have "set_documented srv" using assms(1) by (simp add: documented_def)
  have "fst (lock_acquire srv call u key ttl (lw_server ?w)) \<noteq> Inr (Some token)" if "srv_get srv t key (lw_server ?w) \<noteq> None" "rc_now call = t" for call u ttl token
    using that by (cases rule: acquire_cases[OF \<open>set_documented srv\<close>, of call u key ttl "lw_server ?w"]) auto
  then show ?thesis using ok assms(3) unfolding locks_ok_def by (metis option.distinct(1))
qed

section \<open>Requests per window\<close>

lemma parse_int_str: "parse_int (str_int (int n)) = Some (int n)"
proof -
  have digits: "is_digit c" if "c \<in> set (str_nat n)" for c using that by (rule str_nat_digits)
  have "is_digit c \<Longrightarrow> \<not> is_space c" for c by (auto simp: is_digit_iff is_space_def)
  then have "\<not> list_ex is_space (str_nat n)" using digits by (auto simp: list_ex_iff)
  then have "strip (str_nat n) = str_nat n" by (rule strip_plain)
  moreover have "split_sign (str_nat n) = (1, str_nat n)"
  proof (cases "str_nat n")
    case (Cons c cs)
    then have "is_digit c" using digits by simp
    then show ?thesis unfolding Cons by (cases "c = CHR ''-'' \<or> c = CHR ''+''") (auto simp: is_digit_iff)
  qed simp
  ultimately show ?thesis using digits by (simp add: parse_int_def str_int_def is_digits_iff digits_value_str_nat)
qed

lemma str_int_inj: "str_int a = str_int b \<Longrightarrow> a = b"
proof -
  have sign: "str_nat n = CHR ''-'' # cs \<Longrightarrow> False" for n cs using str_nat_digits[of "CHR ''-''" n] by (simp add: is_digit_iff)
  have same: "str_nat m = str_nat n \<Longrightarrow> m = n" for m n by (metis digits_value_str_nat of_nat_eq_iff)
  assume eq: "str_int a = str_int b"
  show "a = b"
  proof (cases "a < 0")
    case True
    then have "b < 0" using eq sign[of "nat b"] by (auto simp: str_int_def split: if_splits dest: sym)
    then show ?thesis using True eq same[of "nat (- a)" "nat (- b)"] by (simp add: str_int_def)
  next
    case False
    then have "\<not> b < 0" using eq sign[of "nat a"] by (auto simp: str_int_def split: if_splits)
    then show ?thesis using False eq same[of "nat a" "nat b"] by (simp add: str_int_def)
  qed
qed

lemma rate_bucket_inj:
  assumes "rate_bucket k w t = rate_bucket k' w' t'"
  shows "k = k' \<and> t div (1000 * w) = t' div (1000 * w')"
proof -
  have colon: "takeWhile (\<lambda>c. c \<noteq> CHR '':'') (rev (str_int n)) = rev (str_int n)" for n
    using str_nat_digits[of "CHR '':''"] by (auto simp: str_int_def takeWhile_eq_all_conv is_digit_iff)
  have shown: "rev (rate_bucket k w t) = rev (str_int (t div (1000 * w))) @ CHR '':'' # rev k @ rev ''rate:''" for k w t by (simp add: rate_bucket_def)
  have "takeWhile (\<lambda>c. c \<noteq> CHR '':'') (rev (rate_bucket k w t)) = rev (str_int (t div (1000 * w)))" for k w t
    unfolding shown using colon by (simp add: takeWhile_tail)
  from this[of k w t] this[of k' w' t'] assms have "t div (1000 * w) = t' div (1000 * w')" using str_int_inj by simp
  then show ?thesis using assms by (simp add: rate_bucket_def)
qed

record 'r rate_world =
  rw_server :: 'r
  rw_granted :: "(string \<times> int) list"

definition rate_step :: "'r redis_server \<Rightarrow> redis_call \<times> string \<times> int \<times> int \<Rightarrow> 'r rate_world \<Rightarrow> 'r rate_world" where
  "rate_step srv p w =
     (case p of (call, key, limit, window_seconds) \<Rightarrow>
       (case rate_allow srv call key limit window_seconds (rw_server w) of
          (Inr (True, _), r) \<Rightarrow> w\<lparr>rw_server := r, rw_granted := (key, rc_now call) # rw_granted w\<rparr>
        | (_, r) \<Rightarrow> w\<lparr>rw_server := r\<rparr>))"

definition granted_in :: "string \<Rightarrow> int \<Rightarrow> int \<Rightarrow> 'r rate_world \<Rightarrow> nat" where
  "granted_in key window_seconds n w = length (filter (\<lambda>(k, t). k = key \<and> t div (1000 * window_seconds) = n) (rw_granted w))"

text \<open>The counter of a window: absent before the first request, afterwards the number of requests that reached the server.\<close>

definition counter_is :: "'r redis_server \<Rightarrow> int \<Rightarrow> int \<Rightarrow> int \<Rightarrow> string \<Rightarrow> nat \<Rightarrow> 'r \<Rightarrow> bool" where
  "counter_is srv now period n bucket m r \<longleftrightarrow>
     (\<forall>t \<ge> now. t div period = n \<longrightarrow> srv_get srv t bucket r = (if m = 0 then None else Some (str_int (int m))))"

lemma unchanged_trans: "unchanged_but srv now keys r r1 \<Longrightarrow> unchanged_but srv now keys r1 r2 \<Longrightarrow> unchanged_but srv now keys r r2"
  by (simp add: unchanged_but_def)

lemma unchanged_bind:
  assumes "unchanged_but srv now keys r (snd (m r))" "\<And>x r1. m r = (Inr x, r1) \<Longrightarrow> unchanged_but srv now keys r1 (snd (f x r1))"
  shows "unchanged_but srv now keys r (snd (bindm m f r))"
  using assms by (auto simp: bindm_def split: prod.split sum.split intro: unchanged_trans)

lemma unchanged_sends: "unchanged_but srv now keys r (snd (m r)) \<Longrightarrow> unchanged_but srv now keys r (snd (sends call i m r))"
  by (rule sends_cases[of call i m r]) simp_all

lemma unchanged_commands:
  assumes "documented srv"
  shows "unchanged_but srv now {k} r (snd (srv_incr srv now k r))" "unchanged_but srv now {k} r (snd (srv_expire srv now k n r))"
proof -
  show "unchanged_but srv now {k} r (snd (srv_incr srv now k r))"
    using assms unfolding documented_def incr_documented_def
    by (elim conjE allE[of _ now] allE[of _ k] allE[of _ r]) (auto split: option.splits)
  obtain r' where "srv_expire srv now k n r = (Inr (), r')" "unchanged_but srv now {k} r r'"
    using assms unfolding documented_def expire_documented_def by metis
  then show "unchanged_but srv now {k} r (snd (srv_expire srv now k n r))" by simp
qed

lemma allow_elsewhere:
  assumes "documented srv"
  shows "unchanged_but srv (rc_now call) {rate_bucket key window (rc_now call)} r (snd (rate_allow srv call key limit window r))"
  unfolding rate_allow_def Let_def seqm_def
  by (auto intro!: unchanged_bind unchanged_sends unchanged_commands[OF assms])

lemma window_end: "0 < p \<Longrightarrow> t div p = n \<Longrightarrow> now div p = n \<Longrightarrow> t < now + p" for t :: int
  by (smt (verit, best) div_mult_mod_eq pos_mod_bound pos_mod_sign)

lemma counted:
  assumes "documented srv" "counter_is srv now p n bucket m r" "now \<le> now'" "now' div p = n"
  obtains r1 where "srv_incr srv now' bucket r = (Inr (int m + 1), r1)" "counter_is srv now' p n bucket (Suc m) r1"
proof -
  have incr: "incr_documented srv" using assms(1) by (simp add: documented_def)
  show ?thesis
  proof (cases "m = 0")
    case True
    then have "srv_get srv now' bucket r = None" using assms(2-4) by (simp add: counter_is_def)
    with incr[unfolded incr_documented_def, rule_format, of now' bucket r] obtain r1
      where "srv_incr srv now' bucket r = (Inr 1, r1)" "\<forall>t \<ge> now'. srv_get srv t bucket r1 = Some (str_int 1)" by auto
    then show ?thesis using True that[of r1] by (simp add: counter_is_def)
  next
    case False
    then have get: "srv_get srv now' bucket r = Some (str_int (int m))" using assms(2-4) by (simp add: counter_is_def)
    from incr[unfolded incr_documented_def, rule_format, of now' bucket r] get parse_int_str[of m] obtain r1
      where "srv_incr srv now' bucket r = (Inr (int m + 1), r1)" "\<forall>t \<ge> now'. srv_get srv t bucket r1 = map_option (\<lambda>_. str_int (int m + 1)) (srv_get srv t bucket r)"
      by auto
    then show ?thesis using False assms(2,3) that[of r1] by (simp add: counter_is_def add.commute)
  qed
qed

lemma expired_later:
  assumes "documented srv" "counter_is srv now p n bucket (Suc m) r" "now div p = n" "p = 1000 * window" "0 < window"
  shows "counter_is srv now p n bucket (Suc m) (snd (srv_expire srv now bucket window r))"
proof -
  obtain r' where r': "srv_expire srv now bucket window r = (Inr (), r')"
    "\<forall>t \<ge> now. srv_get srv t bucket r' = (if t < now + 1000 * window then srv_get srv now bucket r else None)"
    using assms(1) unfolding documented_def expire_documented_def by metis
  have "t < now + 1000 * window" if "t div p = n" for t using window_end[OF _ that assms(3)] assms(4,5) by simp
  then show ?thesis using r' assms(2,3) by (simp add: counter_is_def)
qed

lemma allow_here:
  assumes "documented srv" "counter_is srv now p n (rate_bucket key window (rc_now call)) m r" "now \<le> rc_now call" "rc_now call div p = n" "p = 1000 * window" "0 < window"
    "rate_allow srv call key limit window r = (x, r')"
  shows "\<exists>m' \<ge> m. counter_is srv (rc_now call) p n (rate_bucket key window (rc_now call)) m' r' \<and> (\<forall>left. x = Inr (True, left) \<longrightarrow> m' = Suc m \<and> int m' \<le> limit)"
proof -
  let ?b = "rate_bucket key window (rc_now call)"
  obtain r1 where r1: "srv_incr srv (rc_now call) ?b r = (Inr (int m + 1), r1)" "counter_is srv (rc_now call) p n ?b (Suc m) r1"
    using counted[OF assms(1-4)] .
  note r2 = expired_later[OF assms(1) r1(2) assms(4,5,6)]
  have same: "counter_is srv (rc_now call) p n ?b m r" using assms(2,3) by (simp add: counter_is_def)
  show ?thesis
  proof (cases rule: sends_cases[of call 0 "srv_incr srv (rc_now call) ?b" r])
    case request_lost
    then have "r' = r" "\<forall>left. x \<noteq> Inr (True, left)" using assms(6,7) by (auto simp: rate_allow_def Let_def bindm_def)
    then show ?thesis using same by blast
  next
    case answer_lost
    then have "r' = r1" "\<forall>left. x \<noteq> Inr (True, left)" using assms(6,7) r1(1) by (auto simp: rate_allow_def Let_def bindm_def)
    then show ?thesis using r1(2) by (intro exI[of _ "Suc m"]) simp
  next
    case answered
    then have rest: "seqm (if int m + 1 = 1 then sends call 1 (srv_expire srv (rc_now call) ?b window) else ret ()) (ret (int m + 1 \<le> limit, max 0 (limit - (int m + 1)))) r1 = (x, r')"
      using assms(6,7) r1(1) by (simp add: rate_allow_def Let_def bindm_def)
    then have "r' = r1 \<or> r' = snd (srv_expire srv (rc_now call) ?b window r1)"
      by (cases rule: sends_cases[of call 1 "srv_expire srv (rc_now call) ?b window" r1]) (auto simp: seqm_def bindm_def split: if_splits prod.splits sum.splits)
    moreover have "int m + 1 \<le> limit" if "x = Inr (True, left)" for left
      using rest that by (auto simp: seqm_def bindm_def split: if_splits prod.splits sum.splits)
    ultimately show ?thesis using r1(2) r2 by (intro exI[of _ "Suc m"]) auto
  qed
qed

definition windows_ok :: "'r redis_server \<Rightarrow> string \<Rightarrow> int \<Rightarrow> int \<Rightarrow> int \<Rightarrow> int \<Rightarrow> 'r rate_world \<Rightarrow> bool" where
  "windows_ok srv key limit window n now w \<longleftrightarrow> (\<exists>m. counter_is srv now (1000 * window) n (rate_bucket key window (n * (1000 * window))) m (rw_server w)
     \<and> granted_in key window n w \<le> m \<and> int (granted_in key window n w) \<le> max 0 limit)"

lemma rate_step_ok:
  assumes "documented srv" "windows_ok srv key limit window n now w" "now \<le> rc_now call" "0 < window" "k = key \<longrightarrow> l = limit \<and> wd = window"
  shows "windows_ok srv key limit window n (rc_now call) (rate_step srv (call, k, l, wd) w)"
proof -
  let ?p = "1000 * window" and ?b = "rate_bucket key window (n * (1000 * window))"
  obtain m where m: "counter_is srv now ?p n ?b m (rw_server w)" "granted_in key window n w \<le> m" "int (granted_in key window n w) \<le> max 0 limit"
    using assms(2) unfolding windows_ok_def by blast
  obtain x r' where run: "rate_allow srv call k l wd (rw_server w) = (x, r')" by (meson surj_pair)
  let ?w = "rate_step srv (call, k, l, wd) w"
  have server: "rw_server ?w = r'" using run by (auto simp: rate_step_def split: sum.split prod.split bool.split)
  have granted: "granted_in key window n ?w = granted_in key window n w + (if (\<exists>left. x = Inr (True, left)) \<and> k = key \<and> rc_now call div ?p = n then 1 else 0)"
    using run by (auto simp: rate_step_def granted_in_def split: sum.split prod.split bool.split)
  show ?thesis
  proof (cases "k = key \<and> rc_now call div ?p = n")
    case True
    have "?p \<noteq> 0" using assms(4) by simp
    then have "n * ?p div ?p = n" by (rule nonzero_mult_div_cancel_right)
    then have b: "rate_bucket key window (rc_now call) = ?b" using True unfolding rate_bucket_def by simp
    have "rate_allow srv call key limit window (rw_server w) = (x, r')" using run True assms(5) by simp
    from allow_here[OF assms(1) m(1)[folded b] assms(3) conjunct2[OF True] refl assms(4) this] obtain m'
      where "m \<le> m'" "counter_is srv (rc_now call) ?p n ?b m' r'" "\<forall>left. x = Inr (True, left) \<longrightarrow> m' = Suc m \<and> int m' \<le> limit"
      unfolding b by blast
    then show ?thesis using m(2,3) unfolding windows_ok_def server granted by (intro exI[of _ m']) auto
  next
    case False
    have "?b \<noteq> rate_bucket k wd (rc_now call)"
      using rate_bucket_inj[of key window "n * ?p" k wd "rc_now call"] False assms(4,5) by auto
    then have "srv_get srv t ?b r' = srv_get srv t ?b (rw_server w)" if "rc_now call \<le> t" for t
      using allow_elsewhere[OF assms(1), of call k wd "rw_server w" l] run that by (simp add: unchanged_but_def)
    then have "counter_is srv (rc_now call) ?p n ?b m r'" using m(1) assms(3) by (simp add: counter_is_def)
    then show ?thesis using m(2,3) False unfolding windows_ok_def server granted by auto
  qed
qed

lemma rate_run_ok:
  assumes "documented srv" "0 < window"
  shows "windows_ok srv key limit window n now w \<Longrightarrow> in_order now calls \<Longrightarrow> \<forall>(call, k, l, wd) \<in> set calls. k = key \<longrightarrow> l = limit \<and> wd = window \<Longrightarrow>
    windows_ok srv key limit window n (last_time now calls) (run (rate_step srv) calls w)"
proof (induction calls arbitrary: now w)
  case (Cons p calls)
  obtain call k l wd where p: "p = (call, k, l, wd)" by (metis prod.exhaust)
  have now: "now \<le> rc_now call" "in_order (rc_now call) calls" "k = key \<longrightarrow> l = limit \<and> wd = window" using Cons.prems(2,3) by (auto simp: p)
  show ?case unfolding p run_Cons last_time.simps using Cons.prems(3) by (intro Cons.IH rate_step_ok[OF assms(1) Cons.prems(1) now(1) assms(2) now(3)] now(2)) simp
qed simp

text \<open>
  The request counter lets at most the limit through in any window, over any history of requests for any keys, lost requests and answers included: the
  buckets of different keys and windows never share a name, and a bucket outlives its window.
\<close>

theorem rate_limit_per_window:
  assumes "documented srv" "in_order now calls" "0 < window" "\<forall>(call, k, l, wd) \<in> set calls. k = key \<longrightarrow> l = limit \<and> wd = window"
    "rw_granted w = []" "srv_get srv now (rate_bucket key window (n * (1000 * window))) (rw_server w) = None"
  shows "int (granted_in key window n (run (rate_step srv) calls w)) \<le> max 0 limit"
proof -
  have "srv_get srv t (rate_bucket key window (n * (1000 * window))) (rw_server w) = None" if "now \<le> t" for t
    using assms(1,6) that unfolding documented_def values_lapse_def by metis
  then have "windows_ok srv key limit window n now w" unfolding windows_ok_def using assms(5) by (intro exI[of _ 0]) (simp add: counter_is_def granted_in_def)
  from rate_run_ok[OF assms(1,3) this assms(2,4)] show ?thesis unfolding windows_ok_def by blast
qed

section \<open>Sessions\<close>

text \<open>
  A created session reads back as its payload until its time has run out or it is revoked, and is gone from then on.
\<close>

theorem session_reads_back:
  assumes "documented srv" "jc_loads codec (jc_dumps codec (JDict payload)) = Inr (JDict payload)" "0 < ttl"
    "session_create srv codec call u payload ttl r = (Inr (), r')" "rc_now call \<le> rc_now later" "\<forall>i. rc_delivery later i = Answered"
  shows "session_get srv codec later u r' = (Inr (if rc_now later < rc_now call + 1000 * ttl then Some (JDict payload) else None), r')
    \<and> (\<exists>r''. session_revoke srv later u r' = (Inr (), r'') \<and> (\<forall>call'. rc_now later \<le> rc_now call' \<longrightarrow> (\<forall>i. rc_delivery call' i = Answered) \<longrightarrow>
          session_get srv codec call' u r'' = (Inr None, r'')))"
proof -
  let ?k = "''session:'' @ u"
  have sent: "sends call 0 m r = m r" if "sends call 0 m r = (Inr y, r1)" for m and y :: bool and r1
    using that by (cases rule: sends_cases[of call 0 m r]) auto
  let ?set = "srv_set srv (rc_now call) ?k (jc_dumps codec (JDict payload)) False (Some (1000 * ttl))"
  obtain y where y: "sends call 0 ?set r = (Inr y, r')" using assms(4) unfolding session_create_def by (elim bindm_InrE) auto
  then have stored: "?set r = (Inr y, r')" using sent by metis
  have doc: "set_documented srv" using assms(1) by (simp add: documented_def)
  have get: "srv_get srv t ?k r' = (if t < rc_now call + 1000 * ttl then Some (jc_dumps codec (JDict payload)) else None)" if "rc_now call \<le> t" for t
    using that stored by (cases rule: set_cases[OF doc, of "rc_now call" ?k "jc_dumps codec (JDict payload)" False "Some (1000 * ttl)" r]) (auto simp: lives_def)
  obtain n r'' where del: "srv_delete srv (rc_now later) ?k r' = (Inr n, r'')" "\<forall>t \<ge> rc_now later. srv_get srv t ?k r'' = None"
    using assms(1) unfolding documented_def delete_documented_def by metis
  have "session_get srv codec later u r' = (Inr (if rc_now later < rc_now call + 1000 * ttl then Some (JDict payload) else None), r')"
    using get[OF assms(5)] assms(2,6) by (simp add: session_get_def sends_def bindm_def)
  moreover have "session_revoke srv later u r' = (Inr (), r'')" using del(1) assms(6) by (simp add: session_revoke_def sends_def bindm_def)
  moreover have "session_get srv codec call' u r'' = (Inr None, r'')" if "rc_now later \<le> rc_now call'" "\<forall>i. rc_delivery call' i = Answered" for call'
    using del(2) that by (simp add: session_get_def sends_def bindm_def)
  ultimately show ?thesis by blast
qed

section \<open>Instances\<close>

text \<open>A server that behaves as documented.\<close>

type_synonym memory = "string \<Rightarrow> (string \<times> int option) option"

definition mem_get :: "int \<Rightarrow> string \<Rightarrow> memory \<Rightarrow> string option" where
  "mem_get t k r = (case r k of None \<Rightarrow> None | Some (v, e) \<Rightarrow> if (case e of None \<Rightarrow> True | Some x \<Rightarrow> t < x) then Some v else None)"

definition memory_server :: "memory redis_server" where
  "memory_server = \<lparr>srv_get = mem_get,
     srv_set = (\<lambda>now k v nx px r. if (case px of None \<Rightarrow> False | Some d \<Rightarrow> d \<le> 0) then (Inl (ValueError ''px''), r)
       else if nx \<and> mem_get now k r \<noteq> None then (Inr False, r) else (Inr True, r(k := Some (v, map_option (\<lambda>d. now + d) px)))),
     srv_delete = (\<lambda>now k r. (Inr (if mem_get now k r = None then 0 else 1), r(k := None))),
     srv_incr = (\<lambda>now k r. case mem_get now k r of
         None \<Rightarrow> (Inr 1, r(k := Some (str_int 1, None)))
       | Some v \<Rightarrow> (case parse_int v of None \<Rightarrow> (Inl (ValueError v), r) | Some n \<Rightarrow> (Inr (n + 1), r(k := map_option (\<lambda>(_, e). (str_int (n + 1), e)) (r k))))),
     srv_expire = (\<lambda>now k n r. (Inr (), case mem_get now k r of None \<Rightarrow> r | Some v \<Rightarrow> r(k := Some (v, Some (now + 1000 * n))))),
     srv_publish = (\<lambda>_ _ r. (Inr 0, r))\<rparr>"

lemma mem_get_upd: "mem_get t k (r(k := Some (v, e))) = (if (case e of None \<Rightarrow> True | Some x \<Rightarrow> t < x) then Some v else None)"
  "mem_get t k (r(k := None)) = None" "k' \<noteq> k \<Longrightarrow> mem_get t k' (r(k := y)) = mem_get t k' r"
  by (simp_all add: mem_get_def)

lemma mem_lapse: "t \<le> t' \<Longrightarrow> mem_get t' k r = mem_get t k r \<or> mem_get t' k r = None"
  by (auto simp: mem_get_def split: option.splits)

lemma memory_documented: "documented memory_server"
  unfolding documented_def
proof (intro conjI)
  show "values_lapse memory_server" using mem_lapse by (simp add: values_lapse_def memory_server_def)
  show "set_documented memory_server"
    by (auto simp: set_documented_def memory_server_def unchanged_but_def mem_get_upd lives_def split: option.splits)
  show "delete_documented memory_server" by (simp add: delete_documented_def memory_server_def unchanged_but_def mem_get_upd)
  show "incr_documented memory_server"
    by (auto simp: incr_documented_def memory_server_def unchanged_but_def mem_get_upd split: option.split) (auto simp: mem_get_def split: option.splits)
  show "expire_documented memory_server"
    unfolding expire_documented_def
  proof (intro allI)
    fix now k n r
    show "\<exists>r'. srv_expire memory_server now k n r = (Inr (), r') \<and> unchanged_but memory_server now {k} r r'
       \<and> (\<forall>t \<ge> now. srv_get memory_server t k r' = (if t < now + 1000 * n then srv_get memory_server now k r else None))"
      by (cases "mem_get now k r") (use mem_lapse[of now _ k r] in \<open>auto simp: memory_server_def unchanged_but_def mem_get_upd\<close>)
  qed
  show "publish_documented memory_server" by (simp add: publish_documented_def memory_server_def)
qed

definition at_time :: "int \<Rightarrow> redis_call" where
  "at_time t = \<lparr>rc_now = t, rc_delivery = (\<lambda>_. Answered)\<rparr>"

definition example_locks :: "(redis_call \<times> lock_request) list" where
  "example_locks = [(at_time 0, Acquire ''job'' 1000), (at_time 400, Acquire ''job'' 1000), (at_time 1000, Acquire ''job'' 1000), (at_time 1100, Release ''job'' (uuid_text 0))]"

theorem lock_mutual_exclusion_witness:
  "length (holders 1200 ''job'' (run (lock_step memory_server) example_locks \<lparr>lw_server = (\<lambda>_. None), lw_uuid = 0, lw_grants = []\<rparr>)) \<le> 1
   \<and> uuid_text 0 \<noteq> uuid_text 2
   \<and> holders 1200 ''job'' (run (lock_step memory_server) example_locks \<lparr>lw_server = (\<lambda>_. None), lw_uuid = 0, lw_grants = []\<rparr>)
      = [\<lparr>gr_key = ''job'', gr_token = uuid_text 2, gr_until = 2000\<rparr>]"
proof -
  let ?w = "\<lparr>lw_server = (\<lambda>_. None), lw_uuid = 0, lw_grants = []\<rparr> :: memory lock_world"
  have apart: "uuid_text 0 \<noteq> uuid_text 2" by code_simp
  have "in_order 0 example_locks" "last_time 0 example_locks \<le> 1200" by (simp_all add: example_locks_def at_time_def)
  from lock_mutual_exclusion[OF memory_documented this, of ?w "''job''"] have bound: "length (holders 1200 ''job'' (run (lock_step memory_server) example_locks ?w)) \<le> 1" by simp
  let ?g0 = "\<lparr>gr_key = ''job'', gr_token = uuid_text 0, gr_until = 1000\<rparr>" and ?g2 = "\<lparr>gr_key = ''job'', gr_token = uuid_text 2, gr_until = 2000\<rparr>"
  let ?s0 = "\<lambda>k. if k = ''job'' then Some (uuid_text 0, Some 1000) else None" and ?s2 = "\<lambda>k. if k = ''job'' then Some (uuid_text 2, Some 2000) else None"
  note eval = lock_acquire_def lock_release_def release_script_def sends_def memory_server_def mem_get_def at_time_def Let_def
  have one: "lock_step memory_server (at_time 0, Acquire ''job'' 1000) ?w = \<lparr>lw_server = ?s0, lw_uuid = 1, lw_grants = [?g0]\<rparr>"
    by (simp add: eval bindm_def fun_eq_iff)
  have two: "lock_step memory_server (at_time 400, Acquire ''job'' 1000) \<lparr>lw_server = ?s0, lw_uuid = 1, lw_grants = [?g0]\<rparr> = \<lparr>lw_server = ?s0, lw_uuid = 2, lw_grants = [?g0]\<rparr>"
    by (simp add: eval bindm_def)
  have three: "lock_step memory_server (at_time 1000, Acquire ''job'' 1000) \<lparr>lw_server = ?s0, lw_uuid = 2, lw_grants = [?g0]\<rparr> = \<lparr>lw_server = ?s2, lw_uuid = 3, lw_grants = [?g2, ?g0]\<rparr>"
    by (simp add: eval bindm_def fun_eq_iff)
  have four: "lock_step memory_server (at_time 1100, Release ''job'' (uuid_text 0)) \<lparr>lw_server = ?s2, lw_uuid = 3, lw_grants = [?g2, ?g0]\<rparr> = \<lparr>lw_server = ?s2, lw_uuid = 3, lw_grants = [?g2]\<rparr>"
    using apart by (simp add: eval bindm_def)
  have "run (lock_step memory_server) example_locks ?w = \<lparr>lw_server = ?s2, lw_uuid = 3, lw_grants = [?g2]\<rparr>"
    unfolding example_locks_def run_Cons one two three four by simp
  then show ?thesis using bound apart by (simp add: holders_def)
qed

definition example_requests :: "(redis_call \<times> string \<times> int \<times> int) list" where
  "example_requests = [(at_time 0, ''api'', 1, 1), (at_time 10, ''api'', 1, 1), (at_time 20, ''ops'', 5, 60), (at_time 1000, ''api'', 1, 1)]"

theorem rate_limit_per_window_witness:
  "int (granted_in ''api'' 1 0 (run (rate_step memory_server) example_requests \<lparr>rw_server = (\<lambda>_. None), rw_granted = []\<rparr>)) \<le> 1
   \<and> rw_granted (rate_step memory_server (at_time 0, ''api'', 1, 1) \<lparr>rw_server = (\<lambda>_. None), rw_granted = []\<rparr>) = [(''api'', 0)]"
proof -
  have "in_order 0 example_requests" by (simp add: example_requests_def at_time_def)
  from rate_limit_per_window[OF memory_documented this, of 1 "''api''" 1 "\<lparr>rw_server = (\<lambda>_. None), rw_granted = []\<rparr>" 0]
  have "int (granted_in ''api'' 1 0 (run (rate_step memory_server) example_requests \<lparr>rw_server = (\<lambda>_. None), rw_granted = []\<rparr>)) \<le> max 0 1"
    by (simp only: example_requests_def) (simp add: memory_server_def mem_get_def)
  moreover have "rw_granted (rate_step memory_server (at_time 0, ''api'', 1, 1) \<lparr>rw_server = (\<lambda>_. None), rw_granted = []\<rparr>) = [(''api'', 0)]"
    by (simp add: at_time_def memory_server_def mem_get_def rate_step_def rate_allow_def sends_def bindm_def seqm_def Let_def)
  ultimately show ?thesis by simp
qed

theorem session_reads_back_witness:
  "session_get memory_server \<lparr>jc_dumps = (\<lambda>_. ''{}''), jc_loads = (\<lambda>_. Inr (JDict []))\<rparr> (at_time 500) ''u''
     (snd (session_create memory_server \<lparr>jc_dumps = (\<lambda>_. ''{}''), jc_loads = (\<lambda>_. Inr (JDict []))\<rparr> (at_time 0) ''u'' [] 1 (\<lambda>_. None)))
   = (Inr (Some (JDict [])), snd (session_create memory_server \<lparr>jc_dumps = (\<lambda>_. ''{}''), jc_loads = (\<lambda>_. Inr (JDict []))\<rparr> (at_time 0) ''u'' [] 1 (\<lambda>_. None)))"
proof -
  let ?codec = "\<lparr>jc_dumps = (\<lambda>_. ''{}''), jc_loads = (\<lambda>_. Inr (JDict []))\<rparr>"
  have run: "session_create memory_server ?codec (at_time 0) ''u'' [] 1 (\<lambda>_. None) = (Inr (), snd (session_create memory_server ?codec (at_time 0) ''u'' [] 1 (\<lambda>_. None)))"
    by (simp add: session_create_def at_time_def sends_def bindm_def memory_server_def)
  from session_reads_back[OF memory_documented _ _ run, of "at_time 500"] show ?thesis by (simp add: at_time_def)
qed

end
