(* ===== verification/Market_Link.thy ===== *)
theory Market_Link
  imports Redis_Store MD_Safety MM_Safety Private_Stream
begin

text \<open>
  How market data and the private stream reach the market maker: the payload of an order book as \<open>MarketDataRuntime._publish\<close> caches it and
  \<open>MarketMakerRuntime._orderbook_from_payload\<close> reads it back, and the handler \<open>_run_coinstore_private_stream\<close> gives to the private stream.

  Printing and parsing of times are arguments (\<open>time_texts\<close>); the sequence of a book is a text or missing. The counters of
  \<open>_publish\<close> are in \<open>MD_Runtime\<close>.
\<close>

section \<open>Order books on the bus\<close>

record time_texts =
  tt_str :: "datetime \<Rightarrow> string"
  tt_fromisoformat :: "string \<Rightarrow> datetime res"

text \<open>\<open>asdict(payload)\<close>, with times as \<open>json.dumps(..., default=str)\<close> writes them.\<close>

definition level_payload :: "OrderBookLevel \<Rightarrow> json" where
  "level_payload l = JDict [(''price'', JFloat (level_price l)), (''size'', JFloat (level_size l))]"

definition book_payload :: "time_texts \<Rightarrow> OrderBookSnapshot \<Rightarrow> obj" where
  "book_payload tt book =
     [(''exchange'', JStr (ob_exchange book)), (''symbol'', JStr (ob_symbol book)), (''bids'', JList (map level_payload (ob_bids book))),
      (''asks'', JList (map level_payload (ob_asks book))), (''source_timestamp'', JStr (tt_str tt (ob_source_timestamp book))),
      (''sequence'', case ob_sequence book of None \<Rightarrow> JNull | Some s \<Rightarrow> JStr s)]"

definition item_of :: "obj \<Rightarrow> string \<Rightarrow> json res" where
  "item_of d k = (case dict_get d k of None \<Rightarrow> Inl (KeyError k) | Some v \<Rightarrow> Inr v)"

definition level_from :: "json \<Rightarrow> OrderBookLevel res" where
  "level_from item =
     bindr (as_dict item) (\<lambda>d.
     bindr (bindr (item_of d ''price'') py_float) (\<lambda>price.
     bindr (bindr (item_of d ''size'') py_float) (\<lambda>size_value.
     Inr \<lparr>level_price = price, level_size = size_value\<rparr>)))"

definition levels_from :: "obj \<Rightarrow> string \<Rightarrow> OrderBookLevel list res" where
  "levels_from payload k =
     (case dict_get payload k of
        None \<Rightarrow> Inr []
      | Some (JList xs) \<Rightarrow> collect_res level_from xs
      | Some _ \<Rightarrow> Inl (TypeError ''object is not iterable''))"

definition time_from :: "time_texts \<Rightarrow> json \<Rightarrow> datetime res" where
  "time_from tt v = (case v of JStr s \<Rightarrow> tt_fromisoformat tt s | _ \<Rightarrow> Inl (TypeError ''fromisoformat: argument must be str''))"

definition orderbook_from_payload :: "time_texts \<Rightarrow> printer \<Rightarrow> obj \<Rightarrow> OrderBookSnapshot res" where
  "orderbook_from_payload tt printer payload =
     bindr (item_of payload ''exchange'') (\<lambda>exchange.
     bindr (item_of payload ''symbol'') (\<lambda>symbol.
     bindr (levels_from payload ''bids'') (\<lambda>bids.
     bindr (levels_from payload ''asks'') (\<lambda>asks.
     bindr (bindr (item_of payload ''source_timestamp'') (time_from tt)) (\<lambda>t.
     Inr \<lparr>ob_exchange = py_str printer exchange, ob_symbol = py_str printer symbol, ob_bids = bids, ob_asks = asks, ob_source_timestamp = t,
       ob_sequence = (case jget payload ''sequence'' of JStr s \<Rightarrow> Some s | _ \<Rightarrow> None)\<rparr>)))))"

text \<open>\<open>_publish\<close>: the cache for five minutes, then the channel.\<close>

definition publish_latest :: "'r redis_server \<Rightarrow> json_codec \<Rightarrow> redis_call \<Rightarrow> string \<Rightarrow> obj \<Rightarrow> ('r, int) op" where
  "publish_latest srv codec call channel payload =
     seqm (cache_set_json srv codec call 0 (''latest:'' @ channel) (JDict payload) (Some 300)) (pubsub_publish srv codec call 1 channel (JDict payload))"

text \<open>\<open>_optional_cache_get_json\<close>: a failed read counts as a miss.\<close>

definition optional_cache_get_json :: "'r redis_server \<Rightarrow> json_codec \<Rightarrow> redis_call \<Rightarrow> string \<Rightarrow> 'r \<Rightarrow> json option" where
  "optional_cache_get_json srv codec call key r = (case fst (cache_get_json srv codec call key r) of Inl _ \<Rightarrow> None | Inr v \<Rightarrow> v)"

text \<open>What a pass of \<open>_load_latest_market_state\<close> ingests of one book.\<close>

definition load_latest_book :: "'r redis_server \<Rightarrow> json_codec \<Rightarrow> time_texts \<Rightarrow> printer \<Rightarrow> redis_call \<Rightarrow> ExecutionVenue \<Rightarrow> string \<Rightarrow> env \<Rightarrow> 'r \<Rightarrow> unit mm_op" where
  "load_latest_book srv codec tt printer call venue symbol env r =
     (case optional_cache_get_json srv codec call (''latest:'' @ channel_of ''orderbook'' venue symbol) r of
        Some (JDict payload) \<Rightarrow>
          ingest_market_event env (channel_of ''orderbook'' venue symbol)
            \<lparr>mp_orderbook = orderbook_from_payload tt printer payload, mp_volume_24h = None, mp_volume = None, mp_spread_bps = None, mp_imbalance_ratio = None,
             mp_realized_volatility = None\<rparr>
      | _ \<Rightarrow> ret ())"

lemma levels_read: "collect_res level_from (map level_payload ls) = Inr ls"
  by (induction ls) (auto simp: level_from_def level_payload_def item_of_def)

lemma book_read:
  assumes "tt_fromisoformat tt (tt_str tt (ob_source_timestamp book)) = Inr (ob_source_timestamp book)"
  shows "orderbook_from_payload tt printer (book_payload tt book) = Inr book"
  using assms by (simp add: orderbook_from_payload_def book_payload_def item_of_def levels_from_def levels_read time_from_def jget_def split: option.split)

lemma split_colon_nonempty [simp]: "split_colon s \<noteq> []"
  by (cases s) (auto split: list.split)

lemma split_colon_head: "CHR '':'' \<notin> set v \<Longrightarrow> split_colon (v @ CHR '':'' # s) = v # split_colon s"
  by (induction v) (auto split: list.split)

lemma join_split_colon: "join_colon (split_colon s) = s"
proof (induction s)
  case (Cons c s)
  obtain p ps where parts: "split_colon s = p # ps" by (cases "split_colon s") auto
  then show ?case using Cons by (cases ps) auto
qed simp

lemma channel_parts: "split_colon (channel_of kind venue symbol) = [''marketdata'', kind, value_of_venue venue] @ split_colon symbol" if "CHR '':'' \<notin> set kind"
proof -
  have "CHR '':'' \<notin> set (value_of_venue venue)" by (cases venue) simp_all
  moreover have "channel_of kind venue symbol = ''marketdata'' @ CHR '':'' # kind @ CHR '':'' # value_of_venue venue @ CHR '':'' # symbol" by (simp add: channel_of_def)
  ultimately show ?thesis using that by (simp only:) (subst split_colon_head, simp, subst split_colon_head, simp, subst split_colon_head, simp_all)
qed

lemma ingest_book:
  assumes "mp_orderbook payload = Inr book"
  shows "dict_get (latest_orderbook (snd (ingest_market_event env (channel_of ''orderbook'' venue symbol) payload m))) (value_of_venue venue @ '':'' @ symbol) = Some book"
proof -
  let ?key = "value_of_venue venue @ '':'' @ symbol" and ?P = "\<lambda>m. dict_get (latest_orderbook m) (value_of_venue venue @ '':'' @ symbol) = Some book"
  let ?rest = "bindm (on_paper (simulate_fills (env_now env) symbol book)) (\<lambda>fills. seqm (MM_Runtime.count ''paper.fills'' (of_nat (length fills)))
     (bindm (reads (\<lambda>s. pa_realized_pnl (pe_account (mm_paper s)))) (\<lambda>pnl. MM_Runtime.count ''paper.pnl'' pnl)))"
  let ?m = "m\<lparr>latest_orderbook := dict_set ?key book (latest_orderbook m)\<rparr>"
  have parts: "split_colon (channel_of ''orderbook'' venue symbol) = [''marketdata'', ''orderbook'', value_of_venue venue] @ split_colon symbol" by (rule channel_parts) simp
  have "Suc 0 \<le> length (split_colon symbol)" by (cases "split_colon symbol") simp_all
  then have "ingest_market_event env (channel_of ''orderbook'' venue symbol) payload m = ?rest ?m"
    using assms by (simp add: ingest_market_event_def parts join_split_colon Let_def)
  moreover have "keeps ?P ?rest"
    unfolding MM_Runtime.count_def on_paper_def by (intro kept keeps_zoom keeps_modifies) simp_all
  moreover have "?P ?m" by (simp add: adict.get_put)
  ultimately show ?thesis using keepsD[of ?P ?rest ?m] by simp
qed

lemma cached_document:
  assumes "documented srv" "jc_loads codec (jc_dumps codec v) = Inr v" "0 < ttl" "cache_set_json srv codec call i key v (Some ttl) r = (Inr (), r1)"
    "rc_now call \<le> rc_now later" "rc_delivery later 0 = Answered" "unchanged_but srv (rc_now call) {} r1 r'"
  shows "cache_get_json srv codec later key r' = (Inr (if rc_now later < rc_now call + 1000 * ttl then Some v else None), r')"
proof -
  let ?set = "srv_set srv (rc_now call) key (jc_dumps codec v) False (Some (1000 * ttl))"
  obtain y where y: "sends call i ?set r = (Inr y, r1)" using assms(4) unfolding cache_set_json_def option.map by (elim bindm_InrE) auto
  then have stored: "?set r = (Inr y, r1)" by (cases rule: sends_cases[of call i ?set r]) auto
  have doc: "set_documented srv" using assms(1) by (simp add: documented_def)
  have "srv_get srv t key r1 = (if t < rc_now call + 1000 * ttl then Some (jc_dumps codec v) else None)" if "rc_now call \<le> t" for t
    using that stored by (cases rule: set_cases[OF doc, of "rc_now call" key "jc_dumps codec v" False "Some (1000 * ttl)" r]) (auto simp: lives_def)
  then have "srv_get srv (rc_now later) key r' = (if rc_now later < rc_now call + 1000 * ttl then Some (jc_dumps codec v) else None)"
    using assms(5,7) by (simp add: unchanged_but_def)
  then show ?thesis using assms(2,6) by (simp add: cache_get_json_def sends_def bindm_def)
qed


section \<open>The private stream\<close>

record maker_stream =
  ks_service :: CoinstoreExecutionService
  ks_metrics :: RuntimeMetrics

definition on_stream_service :: "'a cs_op \<Rightarrow> (maker_stream, 'a) op" where
  "on_stream_service m = zoom ks_service (\<lambda>service s. s\<lparr>ks_service := service\<rparr>) m"

definition count_updates :: "message_counts \<Rightarrow> RuntimeMetrics \<Rightarrow> RuntimeMetrics" where
  "count_updates counts m =
     increment ''coinstore.private_balance_updates'' (of_int (mc_balances counts)) (
     increment ''coinstore.private_fill_updates'' (of_int (mc_fills counts)) (
     increment ''coinstore.private_trade_updates'' (of_int (mc_trades counts)) (
     increment ''coinstore.private_order_updates'' (of_int (mc_orders counts)) m)))"

definition private_stream_handler :: "coinstore_env \<Rightarrow> obj \<Rightarrow> (maker_stream, unit) op" where
  "private_stream_handler env message =
     bindm (on_stream_service (handle_private_message env message)) (\<lambda>counts. modifies (\<lambda>s. s\<lparr>ks_metrics := count_updates counts (ks_metrics s)\<rparr>))"

definition maker_private_env :: "(nat \<Rightarrow> int) \<Rightarrow> coinstore_env \<Rightarrow> maker_stream private_env" where
  "maker_private_env clock env = \<lparr>pv_time_ms = clock, pv_crypto = he_crypto (ce_http env), pv_printer = he_printer (ce_http env),
     pv_handle = private_stream_handler env\<rparr>"

definition coinstore_open_order_count :: "int cs_op" where
  "coinstore_open_order_count =
     bindm account (\<lambda>a.
     reads (\<lambda>s. int (length (filter (\<lambda>row. or_exchange_account_id row = ea_id a \<and> or_status row \<in> {OS_open, OS_submitted, OS_partially_filled, OS_created})
       (tbl_orders (cs_session s))))))"

text \<open>Trades and fills are counted together.\<close>

definition counts_paired :: "message_counts \<Rightarrow> bool" where
  "counts_paired counts \<longleftrightarrow> mc_trades counts = mc_fills counts"

definition counter_of :: "string \<Rightarrow> maker_stream \<Rightarrow> float" where
  "counter_of name s = dict_get_or (rm_counters (ks_metrics s)) name 0"

lemma payload_paired: "handle_payload env payload counts s = (Inr counts', t) \<Longrightarrow> counts_paired counts \<Longrightarrow> counts_paired counts'"
  unfolding handle_payload_def Let_def counts_paired_def
  by (auto simp: seqm_def elim!: bindm_InrE split: if_splits option.splits)

lemma payloads_paired: "handle_payloads env payloads counts s = (Inr counts', t) \<Longrightarrow> counts_paired counts \<Longrightarrow> counts_paired counts'"
proof (induction payloads arbitrary: counts s)
  case (Cons p ps)
  obtain c s1 where "handle_payload env p counts s = (Inr c, s1)" "handle_payloads env ps c s1 = (Inr counts', t)" using Cons.prems(1) by (auto elim: bindm_InrE)
  then show ?case using Cons.IH payload_paired Cons.prems(2) by blast
qed simp

definition paired_inv :: "maker_stream \<Rightarrow> bool" where
  "paired_inv s \<longleftrightarrow> rows_unique (ks_service s) \<and> counter_of ''coinstore.private_trade_updates'' s = counter_of ''coinstore.private_fill_updates'' s"

lemma handler_inv: "keeps paired_inv (private_stream_handler env message)"
proof (rule keepsI)
  fix s assume inv: "paired_inv s"
  obtain r t where run: "private_stream_handler env message s = (r, t)" by (meson surj_pair)
  obtain x service where msg: "handle_private_message env message (ks_service s) = (x, service)" by (meson surj_pair)
  have "keeps rows_unique (handle_private_message env message)" unfolding handle_private_message_def by (rule unique.message_kept)
  then have unique: "rows_unique service" using keepsD[of rows_unique "handle_private_message env message" "ks_service s"] msg inv by (simp add: paired_inv_def)
  have "paired_inv t"
  proof (cases x)
    case (Inl e)
    then have "t = s\<lparr>ks_service := service\<rparr>" using run msg by (simp add: private_stream_handler_def on_stream_service_def zoom_def bindm_def)
    then show ?thesis using unique inv by (simp add: paired_inv_def counter_of_def)
  next
    case (Inr counts)
    then have t: "t = s\<lparr>ks_service := service, ks_metrics := count_updates counts (ks_metrics s)\<rparr>"
      using run msg by (simp add: private_stream_handler_def on_stream_service_def zoom_def bindm_def)
    have "counts_paired counts" using msg[unfolded Inr handle_private_message_def] by (rule payloads_paired) (simp add: counts_paired_def)
    then show ?thesis using unique inv by (simp add: t paired_inv_def counter_of_def count_updates_def metric_increment counts_paired_def)
  qed
  then show "paired_inv (snd (private_stream_handler env message s))" using run by simp
qed

text \<open>
  Whatever arrives on the private stream the market maker runs, over any number of connections, broken ones and failing messages included: the stored
  orders and trades keep unique keys, and the metrics count as many trade updates as fill updates.
\<close>

theorem maker_stream_sound:
  assumes "distinct (map or_client_order_id (tbl_orders d))" "distinct (map trade_key (tbl_trades d))"
  shows "let s = pw_handler (run (private_run (maker_private_env clock env)) events (CoinstorePrivateWebSocketClient_init credentials max_delay
      \<lparr>ks_service = CoinstoreExecutionService_init d, ks_metrics = \<lparr>rm_counters = [], rm_gauges = []\<rparr>\<rparr>))
    in rows_unique (ks_service s) \<and> counter_of ''coinstore.private_trade_updates'' s = counter_of ''coinstore.private_fill_updates'' s"
proof -
  have "keeps paired_inv (pv_handle (maker_private_env clock env) m)" for m by (simp add: maker_private_env_def handler_inv)
  then have "paired_inv (pw_handler c) \<Longrightarrow> paired_inv (pw_handler (run (private_run (maker_private_env clock env)) events c))" for c
    by (induction events arbitrary: c) (auto intro: keeps_private_run_handler simp del: private_run.simps)
  moreover have "paired_inv \<lparr>ks_service = CoinstoreExecutionService_init d, ks_metrics = \<lparr>rm_counters = [], rm_gauges = []\<rparr>\<rparr>"
    using assms by (simp add: paired_inv_def counter_of_def dict_get_or_def rows_unique_def CoinstoreExecutionService_init_def)
  ultimately show ?thesis by (simp add: Let_def paired_inv_def CoinstorePrivateWebSocketClient_init_def)
qed

section \<open>Instances\<close>

definition example_link_book :: OrderBookSnapshot where
  "example_link_book = \<lparr>ob_exchange = ''coinstore'', ob_symbol = ''SOAR/USDT'', ob_bids = [\<lparr>level_price = 1, level_size = 5\<rparr>], ob_asks = [\<lparr>level_price = 2, level_size = 5\<rparr>],
     ob_source_timestamp = 0, ob_sequence = Some ''7''\<rparr>"

definition example_texts :: time_texts where
  "example_texts = \<lparr>tt_str = (\<lambda>_. ''1970-01-01 00:00:00+00:00''), tt_fromisoformat = (\<lambda>_. Inr 0)\<rparr>"

definition example_codec :: json_codec where
  "example_codec = \<lparr>jc_dumps = (\<lambda>_. ''{}''), jc_loads = (\<lambda>_. Inr (JDict (book_payload example_texts example_link_book)))\<rparr>"


theorem maker_stream_sound_witness:
  "rows_unique (ks_service (pw_handler (run (private_run (maker_private_env (\<lambda>n. int n) example_cs_env))
     [Ws_attempt (Inr \<lparr>cn_send = (\<lambda>_ _. Inr ()), cn_frames = [Text_frame (Inr (JDict [(''orderId'', JStr ''7'')]))], cn_closed = Inr ()\<rparr>)]
     (CoinstorePrivateWebSocketClient_init \<lparr>ec_api_key = ''key'', ec_api_secret = ''secret'', ec_passphrase = None, ec_memo = None\<rparr> 30
       \<lparr>ks_service = CoinstoreExecutionService_init example_cs_session, ks_metrics = \<lparr>rm_counters = [], rm_gauges = []\<rparr>\<rparr>))))"
  using maker_stream_sound[of example_cs_session "\<lambda>n. int n" example_cs_env
    "[Ws_attempt (Inr \<lparr>cn_send = (\<lambda>_ _. Inr ()), cn_frames = [Text_frame (Inr (JDict [(''orderId'', JStr ''7'')]))], cn_closed = Inr ()\<rparr>)]"
    "\<lparr>ec_api_key = ''key'', ec_api_secret = ''secret'', ec_passphrase = None, ec_memo = None\<rparr>" 30]
  unfolding Let_def by (simp add: example_cs_session_def empty_session_def del: private_run.simps)

end
