(* ===== verification/Ops_Api.thy ===== *)
theory Ops_Api
  imports Accounts_Api Volume Canary
begin

text \<open>
  The pages of the operations in \<open>api/routes.py\<close>: what is shown of the tables and of the health snapshots in Redis, and the
  socket that announces changes. A page is an operation on the record \<open>store\<close>; the socket's state is the record \<open>ops_stream\<close>.

  The times of the last change of a position and of a risk event are columns the rows here do not keep: they are read through
  an argument. Where the code goes through an entry of a snapshot, the entry is an object or missing. The results of the
  health queries, after their retries, the clock, what the socket does with a message and the validation of pydantic are arguments.
\<close>

section \<open>Environment\<close>

record ops_env =
  oe_account :: account_env
  oe_updated_at :: "uuid \<Rightarrow> datetime"
  oe_occurred_at :: "uuid \<Rightarrow> datetime"
  oe_database_health :: "bool res"
  oe_redis_health :: "bool res"
  oe_perf_counter :: "nat \<Rightarrow> float"
  oe_adapter_settings :: adapter_settings
  oe_volume_settings :: "obj \<Rightarrow> VolumeSettings res"
  oe_max_canary_notional :: float
  oe_max_canary_position :: float
  oe_trading_mode :: LaunchMode
  oe_send :: "nat \<Rightarrow> unit res"

abbreviation oe_api :: "ops_env \<Rightarrow> api_env" where "oe_api env \<equiv> ac_api (oe_account env)"
abbreviation oe_route :: "ops_env \<Rightarrow> route_env" where "oe_route env \<equiv> ac_route (oe_account env)"

text \<open>A page without a session: only the check of the token comes first.\<close>

definition page :: "ops_env \<Rightarrow> string option \<Rightarrow> (obj \<Rightarrow> 'a st_op) \<Rightarrow> 'a st_op" where
  "page env credentials handler =
     bindm (lift_res (require_operations_access (rt_jwt (oe_route env)) (av_now (oe_api env)) credentials)) handler"

section \<open>Values\<close>

fun value_of_risk_severity :: "RiskSeverity \<Rightarrow> string" where
  "value_of_risk_severity RS_low = ''low''"
| "value_of_risk_severity RS_medium = ''medium''"
| "value_of_risk_severity RS_high = ''high''"
| "value_of_risk_severity RS_critical = ''critical''"

fun value_of_position_side :: "PositionSide \<Rightarrow> string" where
  "value_of_position_side PS_long = ''long''"
| "value_of_position_side PS_short = ''short''"
| "value_of_position_side PS_flat = ''flat''"

definition loads_reply :: "redis_reply \<Rightarrow> json res" where
  "loads_reply r = (case r of Text_reply _ parsed \<Rightarrow> parsed | _ \<Rightarrow> Inr JNull)"

text \<open>\<open>value or {}\<close>, then \<open>get\<close>.\<close>

definition or_dict :: "json \<Rightarrow> obj res" where
  "or_dict v = (if \<not> json_truthy v then Inr [] else case v of JDict d \<Rightarrow> Inr d | _ \<Rightarrow> Inl (AttributeError ''get''))"

definition json_float :: "json \<Rightarrow> float res" where
  "json_float v = (if v = JNull then Inr 0 else py_float v)"

definition int_counter :: "json \<Rightarrow> int" where
  "int_counter v =
     (case (if json_truthy v then py_float v else Inr 0) of
        Inr x \<Rightarrow> round_down x
      | Inl _ \<Rightarrow> 0)"

text \<open>The health snapshot of an engine as the pages read it.\<close>

definition engine_health :: "ops_env \<Rightarrow> string \<Rightarrow> obj st_op" where
  "engine_health env engine =
     bindm (redis (oe_api env) (Redis_get (''engine:health:'' @ engine))) (\<lambda>reply.
     bindm (lift_res (loads_reply reply)) (\<lambda>v. lift_res (or_dict v)))"

definition health_counters :: "obj \<Rightarrow> obj res" where
  "health_counters health =
     bindr (or_dict (jget health ''runtime'')) (\<lambda>runtime.
     bindr (or_dict (jget runtime ''metrics'')) (\<lambda>metrics. or_dict (jget metrics ''counters'')))"

section \<open>Rows\<close>

definition pair_map :: "(uuid, string) dict st_op" where
  "pair_map = reads (\<lambda>s. fold (\<lambda>row. dict_set (tp_id row) (tp_normalized_symbol row)) (tbl_trading_pairs (st_session s)) [])"

definition pair_symbol :: "(uuid, string) dict \<Rightarrow> uuid \<Rightarrow> json" where
  "pair_symbol pairs u = JStr (dict_get_or pairs u (uuid_text u))"

definition order_payload_row :: "api_env \<Rightarrow> (uuid, string) dict \<Rightarrow> OrderRow \<Rightarrow> obj" where
  "order_payload_row env pairs row =
     [(''id'', JStr (uuid_text (or_id row))), (''client_order_id'', JStr (or_client_order_id row)), (''exchange_order_id'', opt_str (or_exchange_order_id row)),
      (''symbol'', pair_symbol pairs (or_trading_pair_id row)), (''side'', JStr (value_of_side (or_side row))), (''type'', JStr (value_of_type (or_order_type row))),
      (''status'', JStr (value_of_order_status (or_status row))), (''price'', JFloat (float_or_zero (or_price row))), (''quantity'', JFloat (or_quantity row)),
      (''filled_quantity'', JFloat (or_filled_quantity row)), (''created_at'', iso env (Some (or_created_at row))), (''updated_at'', iso env (Some (or_updated_at row)))]"

definition trade_payload_row :: "api_env \<Rightarrow> (uuid, string) dict \<Rightarrow> TradeRow \<Rightarrow> obj" where
  "trade_payload_row env pairs row =
     [(''id'', JStr (uuid_text (tr_id row))), (''trade_id'', JStr (tr_exchange_trade_id row)), (''symbol'', pair_symbol pairs (tr_trading_pair_id row)),
      (''side'', JStr (value_of_side (tr_side row))), (''price'', JFloat (tr_price row)), (''quantity'', JFloat (tr_quantity row)), (''fee'', JFloat (tr_fee_amount row)),
      (''fee_asset'', opt_str (tr_fee_asset row)), (''traded_at'', iso env (Some (tr_traded_at row)))]"

definition position_payload_row :: "ops_env \<Rightarrow> (uuid, string) dict \<Rightarrow> PositionRow \<Rightarrow> obj" where
  "position_payload_row env pairs row =
     [(''id'', JStr (uuid_text (po_id row))), (''symbol'', pair_symbol pairs (po_trading_pair_id row)), (''asset'', JStr (po_asset row)),
      (''side'', JStr (value_of_position_side (po_side row))), (''quantity'', JFloat (po_quantity row)),
      (''notional'', JFloat (po_quantity row * float_or_zero (po_mark_price row))), (''realized_pnl'', JFloat (po_realized_pnl row)),
      (''unrealized_pnl'', JFloat (po_unrealized_pnl row)), (''mark_price'', JFloat (float_or_zero (po_mark_price row))),
      (''updated_at'', iso (oe_api env) (Some (oe_updated_at env (po_id row))))]"

definition inventory_payload_row :: "api_env \<Rightarrow> InventorySnapshotRow \<Rightarrow> obj" where
  "inventory_payload_row env row =
     [(''id'', JStr (uuid_text (is_id row))), (''asset'', JStr (is_asset row)), (''total_balance'', JFloat (is_total_balance row)),
      (''available_balance'', JFloat (is_available_balance row)), (''reserved_balance'', JFloat (is_reserved_balance row)),
      (''valuation_asset'', JStr (is_valuation_asset row)), (''valuation_price'', JFloat (float_or_zero (is_valuation_price row))),
      (''valuation_amount'', JFloat (float_or_zero (is_valuation_amount row))), (''captured_at'', iso env (Some (is_captured_at row)))]"

definition risk_payload_row :: "ops_env \<Rightarrow> RiskEventRow \<Rightarrow> obj" where
  "risk_payload_row env row =
     [(''id'', JStr (uuid_text (re_id row))), (''severity'', JStr (value_of_risk_severity (re_severity row))), (''event_type'', JStr (re_event_type row)),
      (''source_component'', JStr (re_source_component row)),
      (''message'', JStr (case re_message row of Message m \<Rightarrow> m | Exception_message e \<Rightarrow> ac_exc_text (oe_account env) e)),
      (''occurred_at'', iso (oe_api env) (Some (oe_occurred_at env (re_id row))))]"

definition opt_uuid :: "uuid option \<Rightarrow> json" where
  "opt_uuid u = (case u of None \<Rightarrow> JNull | Some u \<Rightarrow> JStr (uuid_text u))"

definition opt_obj :: "obj option \<Rightarrow> json" where
  "opt_obj d = (case d of None \<Rightarrow> JNull | Some d \<Rightarrow> JDict d)"

definition audit_payload_row :: "api_env \<Rightarrow> AuditLogRow \<Rightarrow> obj" where
  "audit_payload_row env row =
     [(''id'', JStr (uuid_text (al_id row))), (''actor_user_id'', opt_uuid (al_actor_user_id row)), (''actor_service'', JStr (al_actor_service row)),
      (''action'', JStr (al_action row)), (''resource_type'', JStr (al_resource_type row)), (''resource_id'', opt_uuid (al_resource_id row)),
      (''metadata'', JDict (al_metadata_json row)), (''before_state'', opt_obj (al_before_state row)), (''after_state'', opt_obj (al_after_state row)),
      (''occurred_at'', iso env (Some (al_occurred_at row)))]"

definition runtime_event_payload_row :: "api_env \<Rightarrow> RuntimeEventRow \<Rightarrow> obj" where
  "runtime_event_payload_row env row =
     [(''id'', JStr (uuid_text (ev_id row))), (''event_type'', JStr (ev_event_type row)), (''source_component'', JStr (ev_source_component row)),
      (''status'', JStr (ev_status row)), (''command_id'', opt_str (ev_command_id row)), (''config_domain'', opt_str (ev_config_domain row)),
      (''config_version'', case ev_config_version row of None \<Rightarrow> JNull | Some n \<Rightarrow> JInt n), (''correlation_id'', opt_str (ev_correlation_id row)),
      (''payload'', JDict (ev_payload row)), (''metadata'', JDict (ev_metadata_json row)), (''acknowledged_at'', iso env (ev_acknowledged_at row)),
      (''created_at'', iso env (Some (ev_created_at row)))]"

definition items :: "('a \<Rightarrow> obj) \<Rightarrow> 'a list \<Rightarrow> obj" where
  "items show_row rows = [(''items'', JList (map (\<lambda>row. JDict (show_row row)) rows))]"

section \<open>Pages of the tables\<close>

definition orders_page :: "ops_env \<Rightarrow> nat \<Rightarrow> obj list st_op" where
  "orders_page env limit =
     bindm pair_map (\<lambda>pairs. reads (\<lambda>s. map (order_payload_row (oe_api env) pairs) (newest_first limit or_created_at (tbl_orders (st_session s)))))"

definition trades_page :: "ops_env \<Rightarrow> nat \<Rightarrow> obj list st_op" where
  "trades_page env limit =
     bindm pair_map (\<lambda>pairs. reads (\<lambda>s. map (trade_payload_row (oe_api env) pairs) (newest_first limit tr_traded_at (tbl_trades (st_session s)))))"

definition positions_page :: "ops_env \<Rightarrow> obj list st_op" where
  "positions_page env =
     bindm pair_map (\<lambda>pairs. reads (\<lambda>s. map (position_payload_row env pairs)
       (sort_key (\<lambda>row. - oe_updated_at env (po_id row)) (tbl_positions (st_session s)))))"

definition inventory_page :: "ops_env \<Rightarrow> nat \<Rightarrow> obj st_op" where
  "inventory_page env limit =
     bindm (reads (\<lambda>s. newest_first limit is_captured_at (tbl_inventory_snapshots (st_session s)))) (\<lambda>rows.
     let exposure = sum_list (map (\<lambda>row. float_or_zero (is_valuation_amount row)) rows)
     in ret (items (inventory_payload_row (oe_api env)) rows @ [(''exposure_notional'', JFloat exposure), (''total_notional'', JFloat exposure)]))"

definition pnl_page :: "obj st_op" where
  "pnl_page =
     reads (\<lambda>s. let realized = sum_list (map po_realized_pnl (tbl_positions (st_session s)));
                   unrealized = sum_list (map po_unrealized_pnl (tbl_positions (st_session s)))
               in [(''realized'', JFloat realized), (''unrealized'', JFloat unrealized), (''total'', JFloat (realized + unrealized))])"

definition risk_events_page :: "ops_env \<Rightarrow> nat \<Rightarrow> obj list st_op" where
  "risk_events_page env limit =
     reads (\<lambda>s. map (risk_payload_row env) (newest_first limit (\<lambda>row. oe_occurred_at env (re_id row)) (tbl_risk_events (st_session s))))"

definition listed :: "obj list \<Rightarrow> obj" where
  "listed rows = [(''items'', JList (map JDict rows))]"

definition operations_orders :: "ops_env \<Rightarrow> string option \<Rightarrow> nat \<Rightarrow> obj st_op" where
  "operations_orders env credentials limit = guarded (oe_route env) require_operations_access credentials (\<lambda>_.
     bindm (orders_page env limit) (\<lambda>rows. ret (listed rows)))"

definition operations_trades :: "ops_env \<Rightarrow> string option \<Rightarrow> nat \<Rightarrow> obj st_op" where
  "operations_trades env credentials limit = guarded (oe_route env) require_operations_access credentials (\<lambda>_.
     bindm (trades_page env limit) (\<lambda>rows. ret (listed rows)))"

definition operations_positions :: "ops_env \<Rightarrow> string option \<Rightarrow> obj st_op" where
  "operations_positions env credentials = guarded (oe_route env) require_operations_access credentials (\<lambda>_.
     bindm (positions_page env) (\<lambda>rows. ret (listed rows)))"

definition operations_inventory :: "ops_env \<Rightarrow> string option \<Rightarrow> nat \<Rightarrow> obj st_op" where
  "operations_inventory env credentials limit = guarded (oe_route env) require_operations_access credentials (\<lambda>_. inventory_page env limit)"

definition operations_pnl :: "ops_env \<Rightarrow> string option \<Rightarrow> obj st_op" where
  "operations_pnl env credentials = guarded (oe_route env) require_operations_access credentials (\<lambda>_. pnl_page)"

definition operations_risk_events :: "ops_env \<Rightarrow> string option \<Rightarrow> nat \<Rightarrow> obj st_op" where
  "operations_risk_events env credentials limit = guarded (oe_route env) require_operations_access credentials (\<lambda>_.
     bindm (risk_events_page env limit) (\<lambda>rows. ret (listed rows)))"

definition operations_audit_logs :: "ops_env \<Rightarrow> string option \<Rightarrow> nat \<Rightarrow> obj st_op" where
  "operations_audit_logs env credentials limit = guarded (oe_route env) require_operations_access credentials (\<lambda>_.
     reads (\<lambda>s. items (audit_payload_row (oe_api env)) (newest_first limit al_occurred_at (st_audit_logs s))))"

definition operations_runtime_events :: "ops_env \<Rightarrow> string option \<Rightarrow> nat \<Rightarrow> obj st_op" where
  "operations_runtime_events env credentials limit = guarded (oe_route env) require_operations_access credentials (\<lambda>_.
     bindm (recent_events limit) (\<lambda>rows. ret (items (runtime_event_payload_row (oe_api env)) rows)))"

section \<open>Pages of the health\<close>

definition health_text :: "bool res \<Rightarrow> string" where
  "health_text r = (case r of Inr _ \<Rightarrow> ''healthy'' | Inl e \<Rightarrow> ''unhealthy:'' @ class_name e)"

definition health :: "ops_env \<Rightarrow> obj" where
  "health env =
     (let dependencies = [(''database'', health_text (oe_database_health env)), (''redis'', health_text (oe_redis_health env))]
      in [(''status'', JStr (if list_all (\<lambda>d. snd d = ''healthy'') dependencies then ''ok'' else ''degraded'')),
          (''dependencies'', JDict (map (\<lambda>(name, value). (name, JStr value)) dependencies))])"

definition ready :: "ops_env \<Rightarrow> obj" where
  "ready env = health env"

definition version :: obj where
  "version = [(''version'', JStr ''0.2.0'')]"

text \<open>The text after the first occurrence of a prefix, the whole text if there is none: \<open>split(token, 1)[-1]\<close>.\<close>

fun after_first :: "string \<Rightarrow> string \<Rightarrow> string option" where
  "after_first token [] = (if token = [] then Some [] else None)"
| "after_first token (c # cs) = (if take (length token) (c # cs) = token then Some (drop (length token) (c # cs)) else after_first token cs)"

definition engine_name :: "string \<Rightarrow> string" where
  "engine_name key = (case after_first ''engine:health:'' key of None \<Rightarrow> key | Some name \<Rightarrow> name)"

definition engines_page :: "ops_env \<Rightarrow> obj st_op" where
  "engines_page env =
     bindm (redis (oe_api env) (Redis_scan ''engine:health:*'')) (\<lambda>reply.
     let keys = (case reply of Keys_reply ks \<Rightarrow> ks | _ \<Rightarrow> []) in
     bindm (collect (\<lambda>key. bindm (redis (oe_api env) (Redis_get key)) (\<lambda>value. ret (engine_name key, value))) keys) (\<lambda>found.
     let engines = fold (\<lambda>(name, value). dict_set name value) found [] in
     collect (\<lambda>(name, value). bindm (lift_res (loads_reply value)) (\<lambda>v. ret (name, v))) engines))"

definition operations_engines :: "ops_env \<Rightarrow> string option \<Rightarrow> obj st_op" where
  "operations_engines env credentials = page env credentials (\<lambda>_. bindm (engines_page env) (\<lambda>engines. ret [(''engines'', JDict engines)]))"

definition operations_infrastructure :: "ops_env \<Rightarrow> string option \<Rightarrow> obj st_op" where
  "operations_infrastructure env credentials = page env credentials (\<lambda>_.
     bindm (lift_res (oe_database_health env)) (\<lambda>database_ok.
     bindm (lift_res (oe_redis_health env)) (\<lambda>redis_ok.
     let clock = oe_perf_counter env; word = (\<lambda>b. JStr (if b then ''healthy'' else ''unhealthy'')) in
     ret [(''database'', word database_ok), (''redis'', word redis_ok), (''database_latency_ms'', JFloat (py_round ((clock 1 - clock 0) * 1000) 3)),
          (''redis_latency_ms'', JFloat (py_round ((clock 3 - clock 2) * 1000) 3))])))"

record exchange_view =
  xv_exchange :: string
  xv_status :: string
  xv_symbols :: "string list"
  xv_last_message_timestamp :: json
  xv_websocket_state :: json
  xv_active_subscriptions :: int

definition exchange_view_payload :: "exchange_view \<Rightarrow> obj" where
  "exchange_view_payload v =
     [(''exchange'', JStr (xv_exchange v)), (''status'', JStr (xv_status v)), (''symbols'', JList (map JStr (xv_symbols v))),
      (''last_message_timestamp'', xv_last_message_timestamp v), (''websocket_state'', xv_websocket_state v),
      (''active_subscriptions'', JInt (xv_active_subscriptions v))]"

definition view_message :: "json \<Rightarrow> int \<Rightarrow> string \<times> json \<Rightarrow> (string, exchange_view) dict \<Rightarrow> (string, exchange_view) dict" where
  "view_message state active message views =
     (case message of (key, timestamp) \<Rightarrow>
       let exchange = takeWhile (\<lambda>c. c \<noteq> CHR '':'') key;
           old = dict_get_or views exchange \<lparr>xv_exchange = exchange, xv_status = ''connected'', xv_symbols = [], xv_last_message_timestamp = timestamp,
             xv_websocket_state = state, xv_active_subscriptions = active\<rparr>;
           symbols = (if CHR '':'' \<in> set key then xv_symbols old @ [tl (dropWhile (\<lambda>c. c \<noteq> CHR '':'') key)] else xv_symbols old)
       in dict_set exchange (old\<lparr>xv_symbols := symbols, xv_last_message_timestamp := timestamp\<rparr>) views)"

definition exchanges_page :: "ops_env \<Rightarrow> obj st_op" where
  "exchanges_page env =
     bindm (engine_health env ''market-data-engine'') (\<lambda>data_health.
     bindm (lift_res (or_dict (jget data_health ''runtime''))) (\<lambda>runtime.
     bindm (lift_res (or_dict (jget runtime ''last_message_timestamp''))) (\<lambda>last_messages.
     bindm (lift_res (py_int (get_or runtime [''active_subscriptions''] (JInt 0)))) (\<lambda>active.
     let state = get_or runtime [''websocket_state''] (JStr ''unknown'');
         views = fold (view_message state active) last_messages [];
         views = fold (\<lambda>(name, _) d. if dict_get d name = None then dict_set name \<lparr>xv_exchange = name, xv_status = ''configured_no_messages'',
           xv_symbols = [], xv_last_message_timestamp = JNull, xv_websocket_state = state, xv_active_subscriptions = active\<rparr> d else d) supported_exchanges views
     in ret [(''exchanges'', JDict (map (\<lambda>(name, v). (name, JDict (exchange_view_payload v))) views))]))))"

definition operations_exchanges :: "ops_env \<Rightarrow> string option \<Rightarrow> obj st_op" where
  "operations_exchanges env credentials = page env credentials (\<lambda>_. exchanges_page env)"

definition reconciliation_page :: "ops_env \<Rightarrow> obj st_op" where
  "reconciliation_page env =
     bindm (engine_health env ''market-maker-engine'') (\<lambda>maker_health.
     bindm (lift_res (health_counters maker_health)) (\<lambda>counters.
     let counter = (\<lambda>name. lift_res (py_int (get_or counters [name] (JInt 0)))) in
     bindm (counter ''reconciliation.mismatches'') (\<lambda>mismatches.
     bindm (counter ''reconciliation.alerts'') (\<lambda>alerts.
     bindm (counter ''reconciliation.runs'') (\<lambda>runs.
     ret [(''status'', JStr (if runs > 0 \<and> mismatches = 0 then ''ok'' else if runs > 0 then ''warning'' else ''not_running'')), (''runs'', JInt runs),
          (''mismatch_count'', JInt mismatches), (''alert_count'', JInt alerts), (''mismatches'', JList [])])))))"

definition operations_reconciliation :: "ops_env \<Rightarrow> string option \<Rightarrow> obj st_op" where
  "operations_reconciliation env credentials = page env credentials (\<lambda>_. reconciliation_page env)"

definition operations_canary_limits :: "ops_env \<Rightarrow> string option \<Rightarrow> obj st_op" where
  "operations_canary_limits env credentials = page env credentials (\<lambda>_.
     ret [(''max_canary_notional'', JFloat (oe_max_canary_notional env)), (''max_canary_position'', JFloat (oe_max_canary_position env)),
          (''trading_mode'', JStr (value_of_mode (oe_trading_mode env)))])"

definition coinstore_health :: "ops_env \<Rightarrow> string option \<Rightarrow> obj st_op" where
  "coinstore_health env credentials = page env credentials (\<lambda>actor.
     bindm (lift_res (create_adapter (ac_monotonic (oe_account env)) ''coinstore'' (oe_adapter_settings env) (Some ''coinstore''))) (\<lambda>adapter.
     let answer = fst (on_rest (rest_health (ac_rest (oe_account env))) adapter);
         clock = oe_perf_counter env in
     bindm (engine_health env ''market-data-engine'') (\<lambda>data_health.
     bindm (lift_res (or_dict (jget data_health ''runtime''))) (\<lambda>runtime.
     bindm (lift_res (or_dict (jget runtime ''last_message_timestamp''))) (\<lambda>last_messages.
     let keys = filter (\<lambda>key. take 10 key = ''coinstore:'') (dict_keys last_messages);
         state = (if has_key runtime ''websocket_state'' then jget runtime ''websocket_state'' else JStr ''no_messages'') in
     bindm (lift_res (get_exchange_definition ''coinstore'')) (\<lambda>definition.
     ret [(''rest'', JDict [(''status'', JStr (case answer of Inr _ \<Rightarrow> ''healthy'' | Inl _ \<Rightarrow> ''unhealthy'')),
             (''latency_ms'', JFloat (py_round ((clock 1 - clock 0) * 1000) 3)),
             (''error'', case answer of Inr _ \<Rightarrow> JNull | Inl e \<Rightarrow> JStr (class_name e @ '': '' @ ac_exc_text (oe_account env) e))]),
          (''websocket'', JDict [(''status'', if keys \<noteq> [] then JStr ''healthy'' else state), (''last_message_keys'', JList (map JStr keys))]),
          (''rate_limit'', JDict [(''requests'', JInt (rr_requests (xd_rate_limit definition))), (''window_seconds'', JInt (rr_window_seconds (xd_rate_limit definition)))]),
          (''actor'', jget actor ''sub'')]))))))"

section \<open>Volume\<close>

text \<open>\<open>now.replace(minute=0, ...)\<close>, \<open>now.replace(hour=0, ...)\<close> and the Monday before.\<close>

definition since_hour :: "datetime \<Rightarrow> datetime" where "since_hour now = now div hour_us * hour_us"
definition since_day :: "datetime \<Rightarrow> datetime" where "since_day now = now div day_us * day_us"
definition since_week :: "datetime \<Rightarrow> datetime" where "since_week now = since_day now - weekday now * day_us"

definition executed_since :: "datetime \<Rightarrow> TradeRow list \<Rightarrow> float" where
  "executed_since start rows = sum_list (map (\<lambda>row. tr_price row * tr_quantity row) (filter (\<lambda>row. tr_traded_at row \<ge> start) rows))"

definition ticker_volume :: "obj \<Rightarrow> float res" where
  "ticker_volume latest =
     bindr (json_float (jget latest ''volume_24h'')) (\<lambda>volume.
     bindr (json_float (get_or latest [''last_price'', ''bid_price'', ''ask_price''] (JInt 0))) (\<lambda>price. Inr (volume * price)))"

definition volume_window_payload :: "VolumeWindowProgress \<Rightarrow> obj" where
  "volume_window_payload w =
     [(''target_notional'', JFloat (vw_target_notional w)), (''executed_notional'', JFloat (vw_executed_notional w)),
      (''remaining_notional'', JFloat (vw_remaining_notional w)), (''progress_ratio'', JFloat (vw_progress_ratio w)),
      (''window_seconds_remaining'', JFloat (vw_window_seconds_remaining w))]"

definition pressure_payload :: "ExecutionPressureSignal \<Rightarrow> obj" where
  "pressure_payload p =
     [(''enabled'', JBool (ep_enabled p)), (''size_multiplier'', JFloat (ep_size_multiplier p)), (''spread_multiplier'', JFloat (ep_spread_multiplier p)),
      (''urgency'', JFloat (ep_urgency p)), (''reason'', JStr (ep_reason p))]"

definition external_volume :: "ops_env \<Rightarrow> float st_op" where
  "external_volume env =
     bindm (engine_health env ''market-data-engine'') (\<lambda>data_health.
     bindm (lift_res (or_dict (jget data_health ''runtime''))) (\<lambda>runtime.
     bindm (lift_res (or_dict (jget runtime ''last_message_timestamp''))) (\<lambda>last_messages.
     bindm (collect (\<lambda>key.
       bindm (redis (oe_api env) (Redis_get (''latest:marketdata:ticker:'' @ key))) (\<lambda>reply.
       bindm (lift_res (loads_reply reply)) (\<lambda>v.
       bindm (lift_res (or_dict v)) (\<lambda>latest. lift_res (ticker_volume latest))))) (dict_keys last_messages)) (\<lambda>volumes.
     ret (sum_list volumes)))))"

definition volume_progress_payload :: "ops_env \<Rightarrow> obj \<Rightarrow> obj st_op" where
  "volume_progress_payload env config_payload =
     (let now = av_now (oe_api env) in
     bindm (lift_res (oe_volume_settings env config_payload)) (\<lambda>settings.
     bindm (reads (\<lambda>s. tbl_trades (st_session s))) (\<lambda>rows.
     bindm (external_volume env) (\<lambda>external.
     let outcome = progress (VolumeEngine_init settings) now (executed_since (since_hour now) rows) (executed_since (since_day now) rows)
           (executed_since (since_week now) rows) external
     in ret [(''settings'', JDict config_payload), (''hourly'', JDict (volume_window_payload (vr_hourly outcome))),
          (''daily'', JDict (volume_window_payload (vr_daily outcome))), (''weekly'', JDict (volume_window_payload (vr_weekly outcome))),
          (''participation_rate'', JFloat (vr_participation_rate outcome)), (''pressure'', JDict (pressure_payload (vr_pressure outcome))),
          (''external_market_volume_notional'', JFloat external)]))))"

definition operations_volume :: "ops_env \<Rightarrow> string option \<Rightarrow> obj st_op" where
  "operations_volume env credentials = guarded (oe_route env) require_operations_access credentials (\<lambda>_.
     bindm (runtime_config (rt_cfg (oe_route env))) (\<lambda>config.
     bindm (lift_res (as_dict (jget config ''volume''))) (volume_progress_payload env)))"

section \<open>Balance rows\<close>

record balance_row =
  br_asset :: string
  br_available :: float
  br_reserved :: float
  br_total :: float

definition balance_list :: "json \<Rightarrow> json" where
  "balance_list raw =
     (let payload = (case raw of JDict d \<Rightarrow> get_or d [''data'', ''balances'', ''result''] raw | _ \<Rightarrow> raw)
      in case payload of JDict d \<Rightarrow> get_or d [''list'', ''items'', ''accounts''] (JList []) | _ \<Rightarrow> payload)"

definition parse_balance_item :: "printer \<Rightarrow> json \<Rightarrow> balance_row option res" where
  "parse_balance_item printer item =
     (case item of
        JDict d \<Rightarrow>
          (let asset = upper (py_str printer (get_or d [''asset'', ''currency'', ''coin''] (JStr [])))
           in if asset = [] then Inr None
              else
                bindr (json_float (get_or d [''available'', ''free'', ''normal''] (JInt 0))) (\<lambda>available.
                bindr (json_float (get_or d [''reserved'', ''locked'', ''freeze''] (JInt 0))) (\<lambda>reserved.
                bindr (json_float (get_or d [''total''] (JFloat (available + reserved)))) (\<lambda>total.
                Inr (Some \<lparr>br_asset = asset, br_available = available, br_reserved = reserved, br_total = total\<rparr>)))))
      | _ \<Rightarrow> Inr None)"

fun parse_balance_items :: "printer \<Rightarrow> json list \<Rightarrow> balance_row list res" where
  "parse_balance_items printer [] = Inr []"
| "parse_balance_items printer (item # more_items) =
     bindr (parse_balance_item printer item) (\<lambda>row.
     bindr (parse_balance_items printer more_items) (\<lambda>rows. Inr (case row of None \<Rightarrow> rows | Some r \<Rightarrow> r # rows)))"

definition parse_balance_rows :: "printer \<Rightarrow> json \<Rightarrow> balance_row list res" where
  "parse_balance_rows printer raw =
     (case balance_list raw of
        JList xs \<Rightarrow> parse_balance_items printer xs
      | _ \<Rightarrow> Inl (HTTPException 502 ''coinstore balance response format is unsupported''))"

section \<open>The socket\<close>

record ops_stream =
  os_store :: store
  os_orders :: "json list"
  os_trades :: "json list"
  os_risk_events :: "json list"
  os_risk_approvals :: int
  os_risk_rejections :: int
  os_reconciliation_runs :: int
  os_reconnect_count :: int
  os_sent :: "obj list"
  os_open :: bool

type_synonym 'a os_op = "(ops_stream, 'a) op"

definition ops_stream_init :: "store \<Rightarrow> ops_stream" where
  "ops_stream_init s = \<lparr>os_store = s, os_orders = [], os_trades = [], os_risk_events = [], os_risk_approvals = 0, os_risk_rejections = 0,
     os_reconciliation_runs = 0, os_reconnect_count = 0, os_sent = [], os_open = True\<rparr>"

definition on_store :: "'a st_op \<Rightarrow> 'a os_op" where
  "on_store m = zoom os_store (\<lambda>d s. s\<lparr>os_store := d\<rparr>) m"

definition stream_message :: "string \<Rightarrow> obj \<Rightarrow> obj" where
  "stream_message kind payload = [(''type'', JStr kind), (''payload'', JDict payload)]"

definition send_text :: "ops_env \<Rightarrow> string \<Rightarrow> obj \<Rightarrow> unit os_op" where
  "send_text env kind payload s =
     (case oe_send env (length (os_sent s)) of
        Inl e \<Rightarrow> (Inl e, s)
      | Inr _ \<Rightarrow> (Inr (), s\<lparr>os_sent := os_sent s @ [stream_message kind payload]\<rparr>))"

text \<open>A counter is announced when it has grown since it was last announced.\<close>

definition announce_counter :: "ops_env \<Rightarrow> string \<Rightarrow> (ops_stream \<Rightarrow> int) \<Rightarrow> (int \<Rightarrow> ops_stream \<Rightarrow> ops_stream) \<Rightarrow> int \<Rightarrow> obj os_op \<Rightarrow> unit os_op" where
  "announce_counter env kind get put value payload =
     bindm (reads get) (\<lambda>old.
     if value > old then seqm (bindm payload (send_text env kind)) (modifies (put value)) else ret ())"

text \<open>New rows are announced one by one, then the whole list.\<close>

definition announce_rows :: "ops_env \<Rightarrow> string \<Rightarrow> string \<Rightarrow> (ops_stream \<Rightarrow> json list) \<Rightarrow> (json \<Rightarrow> ops_stream \<Rightarrow> ops_stream) \<Rightarrow> obj list \<Rightarrow> unit os_op" where
  "announce_rows env kind list_kind known add rows =
     bindm (reads known) (\<lambda>ids.
     let new = filter (\<lambda>row. jget row ''id'' \<notin> set ids) rows
     in if new = [] then ret ()
        else seqm (loop (\<lambda>row. seqm (send_text env kind row) (modifies (add (jget row ''id'')))) new) (send_text env list_kind (listed rows)))"

definition announce_risk_events :: "ops_env \<Rightarrow> obj list \<Rightarrow> unit os_op" where
  "announce_risk_events env rows =
     bindm (reads os_risk_events) (\<lambda>ids.
     case find (\<lambda>row. jget row ''id'' \<notin> set ids) rows of
       None \<Rightarrow> ret ()
     | Some row \<Rightarrow> seqm (send_text env ''risk_events'' (listed rows)) (modifies (\<lambda>s. s\<lparr>os_risk_events := jget row ''id'' # os_risk_events s\<rparr>)))"

definition send_status :: "ops_env \<Rightarrow> unit os_op" where
  "send_status env =
     bindm (on_store (engines_page env)) (\<lambda>engines.
     seqm (send_text env ''engine_health'' [(''engines'', JDict engines)]) (
     bindm (on_store (exchanges_page env)) (send_text env ''exchange_connectivity'')))"

definition send_counters :: "ops_env \<Rightarrow> unit os_op" where
  "send_counters env =
     bindm (on_store (engine_health env ''market-maker-engine'')) (\<lambda>maker_health.
     bindm (on_store (engine_health env ''market-data-engine'')) (\<lambda>data_health.
     bindm (lift_res (health_counters maker_health)) (\<lambda>counters.
     bindm (lift_res (health_counters data_health)) (\<lambda>data_counters.
     let approvals = int_counter (jget counters ''risk.approvals''); rejections = int_counter (jget counters ''risk.rejections'');
         runs = int_counter (jget counters ''reconciliation.runs''); reconnects = int_counter (jget data_counters ''market_data.reconnect_count'');
         counted = (\<lambda>n. ret [(''count'', JInt n)]) in
     seqm (announce_counter env ''risk_approved'' os_risk_approvals (\<lambda>n s. s\<lparr>os_risk_approvals := n\<rparr>) approvals (counted approvals)) (
     seqm (announce_counter env ''risk_rejected'' os_risk_rejections (\<lambda>n s. s\<lparr>os_risk_rejections := n\<rparr>) rejections (counted rejections)) (
     seqm (announce_counter env ''reconciliation_completed'' os_reconciliation_runs (\<lambda>n s. s\<lparr>os_reconciliation_runs := n\<rparr>) runs (on_store (reconciliation_page env)))
       (announce_counter env ''websocket_reconnected'' os_reconnect_count (\<lambda>n s. s\<lparr>os_reconnect_count := n\<rparr>) reconnects (counted reconnects))))))))"

definition send_orders :: "ops_env \<Rightarrow> unit os_op" where
  "send_orders env = bindm (on_store (orders_page env 50))
     (announce_rows env ''order_created'' ''orders'' os_orders (\<lambda>u s. s\<lparr>os_orders := u # os_orders s\<rparr>))"

definition send_trades :: "ops_env \<Rightarrow> unit os_op" where
  "send_trades env = bindm (on_store (trades_page env 50))
     (announce_rows env ''order_filled'' ''trades'' os_trades (\<lambda>u s. s\<lparr>os_trades := u # os_trades s\<rparr>))"

definition send_risk_events :: "ops_env \<Rightarrow> unit os_op" where
  "send_risk_events env = bindm (on_store (risk_events_page env 50)) (announce_risk_events env)"

definition send_portfolio :: "ops_env \<Rightarrow> unit os_op" where
  "send_portfolio env =
     bindm (on_store (positions_page env)) (\<lambda>positions.
     bindm (on_store (inventory_page env 100)) (\<lambda>inventory.
     bindm (on_store pnl_page) (\<lambda>pnl.
     seqm (send_text env ''positions'' (listed positions)) (
     seqm (send_text env ''inventory'' inventory)
       (send_text env ''pnl'' pnl)))))"

definition send_operation_events :: "ops_env \<Rightarrow> unit os_op" where
  "send_operation_events env =
     seqm (send_status env) (seqm (send_counters env) (seqm (send_orders env) (seqm (send_trades env) (seqm (send_risk_events env) (send_portfolio env)))))"

text \<open>A pass of the loop in its session; what other processes wrote since the last pass is in the tables. Any exception ends the socket.\<close>

definition stream_round :: "ops_env \<times> session \<Rightarrow> ops_stream \<Rightarrow> ops_stream" where
  "stream_round pass s =
     (case pass of (env, tables) \<Rightarrow>
       if \<not> os_open s then s
       else let before = (os_store s)\<lparr>st_session := tables\<rparr>
            in case bindm (send_operation_events env) (\<lambda>_. lift_res (av_commit (oe_api env)))
                   (s\<lparr>os_store := before\<lparr>st_actor_service := Some ''operations-ws''\<rparr>\<rparr>) of
                 (Inl e, t) \<Rightarrow> t\<lparr>os_store := rolled_back before (os_store t), os_open := False\<rparr>
               | (Inr _, t) \<Rightarrow> t\<lparr>os_store := (os_store t)\<lparr>st_actor_service := st_actor_service before\<rparr>\<rparr>)"

definition operations_stream :: "jwt \<Rightarrow> datetime \<Rightarrow> string option \<Rightarrow> (ops_env \<times> session) list \<Rightarrow> store \<Rightarrow> ops_stream option" where
  "operations_stream j now token rounds s =
     (case operations_stream_access j now token of
        Inr (Some _) \<Rightarrow> Some (run stream_round rounds (ops_stream_init s))
      | _ \<Rightarrow> None)"

end
