(* ===== verification/Ops_Safety.thy ===== *)
theory Ops_Safety
  imports Ops_Api Control_Safety Accounts_Safety
begin

text \<open>
  What the operations socket announces: of orders and trades exactly those that were among the fifty newest at some pass, each once,
  while the list of risk events is sent again for every event in it; and that the shown volumes are nested.
\<close>

section \<open>Announcements\<close>

definition payload_id :: "obj \<Rightarrow> json" where
  "payload_id message = (case jget message ''payload'' of JDict d \<Rightarrow> jget d ''id'' | _ \<Rightarrow> JNull)"

definition announced :: "string \<Rightarrow> ops_stream \<Rightarrow> json list" where
  "announced kind s = map payload_id (filter (\<lambda>m. jget m ''type'' = JStr kind) (os_sent s))"

lemma message_type [simp]: "jget (stream_message kind payload) ''type'' = JStr kind" "payload_id (stream_message kind payload) = jget payload ''id''"
  by (simp_all add: stream_message_def jget_def payload_id_def)

lemma announced_snoc: "announced kind (s\<lparr>os_sent := os_sent s @ [stream_message k p]\<rparr>) = announced kind s @ (if k = kind then [jget p ''id''] else [])"
  by (simp add: announced_def)

definition at_tables :: "session \<Rightarrow> ops_stream \<Rightarrow> bool" where
  "at_tables d s \<longleftrightarrow> st_session (os_store s) = d"

lemma stream_round_cases:
  assumes "os_open s" "send_operation_events env (s\<lparr>os_store := ((os_store s)\<lparr>st_session := d\<rparr>)\<lparr>st_actor_service := Some ''operations-ws''\<rparr>\<rparr>) = (r, t)"
  shows "(\<exists>x. stream_round (env, d) s = t\<lparr>os_store := x, os_open := False\<rparr>) \<or> (\<exists>x. r = Inr () \<and> stream_round (env, d) s = t\<lparr>os_store := x\<rparr>)"
proof (cases r)
  case (Inl e)
  note run = bindm_Inl[where m = "send_operation_events env", OF assms(2)[unfolded Inl]]
  show ?thesis using assms(1) by (simp add: stream_round_def Let_def run) blast
next
  case (Inr u)
  note run = bindm_Inr[where m = "send_operation_events env", OF assms(2)[unfolded Inr]]
  show ?thesis using assms(1) Inr by (cases "av_commit (oe_api env)") (simp_all add: stream_round_def Let_def run, blast+)
qed

text \<open>What the socket keeps of one kind of rows: the identifiers it has announced, newest first.\<close>

locale row_announcer =
  fixes kind list_kind :: string and known :: "ops_stream \<Rightarrow> json list" and add :: "json \<Rightarrow> ops_stream \<Rightarrow> ops_stream"
  assumes known_add: "known (add u s) = u # known s"
    and sent_add: "os_sent (add u s) = os_sent s"
    and known_sent: "known (s\<lparr>os_sent := xs\<rparr>) = known s"
    and known_store: "known (s\<lparr>os_store := d\<rparr>) = known s"
    and known_others: "known (s\<lparr>os_risk_approvals := n\<rparr>) = known s" "known (s\<lparr>os_risk_rejections := n\<rparr>) = known s"
      "known (s\<lparr>os_reconciliation_runs := n\<rparr>) = known s" "known (s\<lparr>os_reconnect_count := n\<rparr>) = known s" "known (s\<lparr>os_risk_events := us\<rparr>) = known s"
      "known (s\<lparr>os_open := b\<rparr>) = known s"
    and kinds: "list_kind \<noteq> kind" "kind \<in> {''order_created'', ''order_filled''}"
begin

definition recorded :: "(json list \<Rightarrow> bool) \<Rightarrow> ops_stream \<Rightarrow> bool" where
  "recorded R s \<longleftrightarrow> announced kind s = rev (known s) \<and> R (known s)"

lemma recorded_send: "k \<noteq> kind \<Longrightarrow> keeps (recorded R) (send_text env k p)"
  by (rule keepsI) (auto simp: send_text_def recorded_def announced_snoc known_sent split: sum.split)

lemma recorded_store: "keeps (recorded R) (on_store m)"
  unfolding on_store_def by (rule keeps_zoom) (simp add: recorded_def announced_def known_store)

lemma recorded_modifies: "(\<And>s. known (f s) = known s \<and> os_sent (f s) = os_sent s) \<Longrightarrow> keeps (recorded R) (modifies f)"
  by (rule keeps_modifies) (simp add: recorded_def announced_def)

lemma recorded_counter:
  assumes "k \<noteq> kind" "\<And>n s. known (put n s) = known s \<and> os_sent (put n s) = os_sent s" "keeps (recorded R) payload"
  shows "keeps (recorded R) (announce_counter env k get put value payload)"
  unfolding announce_counter_def using assms by (intro kept recorded_send recorded_modifies) auto

lemma recorded_rows_other:
  assumes "k \<noteq> kind" "k' \<noteq> kind" "\<And>u s. known (add' u s) = known s \<and> os_sent (add' u s) = os_sent s"
  shows "keeps (recorded R) (announce_rows env k k' known' add' rows)"
  unfolding announce_rows_def Let_def using assms by (intro kept recorded_send recorded_modifies) auto

lemma recorded_parts:
  "keeps (recorded R) (send_status env)" "keeps (recorded R) (send_counters env)" "keeps (recorded R) (send_risk_events env)" "keeps (recorded R) (send_portfolio env)"
proof -
  have "k \<noteq> kind" if "k \<in> {''engine_health'', ''exchange_connectivity'', ''risk_approved'', ''risk_rejected'', ''reconciliation_completed'', ''websocket_reconnected'',
      ''risk_events'', ''positions'', ''inventory'', ''pnl''}" for k
    using that kinds(2) by auto
  then show "keeps (recorded R) (send_status env)" "keeps (recorded R) (send_counters env)" "keeps (recorded R) (send_risk_events env)"
    "keeps (recorded R) (send_portfolio env)"
    unfolding send_status_def send_counters_def send_risk_events_def send_portfolio_def announce_risk_events_def Let_def
    by (intro kept recorded_store recorded_send recorded_counter recorded_modifies; simp add: known_others)+
qed

lemma announce_new:
  assumes "recorded R s" "distinct (map (\<lambda>row. jget row ''id'') rows)" "\<forall>row \<in> set rows. jget row ''id'' \<notin> set (known s)"
    "\<And>ids row. R ids \<Longrightarrow> row \<in> set rows \<Longrightarrow> jget row ''id'' \<notin> set ids \<Longrightarrow> R (jget row ''id'' # ids)"
    "loop (\<lambda>row. seqm (send_text env kind row) (modifies (add (jget row ''id'')))) rows s = (r, t)"
  shows "recorded R t \<and> set (known s) \<subseteq> set (known t) \<and> (r = Inr () \<longrightarrow> (\<lambda>row. jget row ''id'') ` set rows \<subseteq> set (known t))"
  using assms
proof (induction rows arbitrary: s)
  case (Cons row rows)
  let ?f = "\<lambda>row. seqm (send_text env kind row) (modifies (add (jget row ''id'')))"
  let ?s = "add (jget row ''id'') (s\<lparr>os_sent := os_sent s @ [stream_message kind row]\<rparr>)"
  show ?case
  proof (cases "oe_send env (length (os_sent s))")
    case (Inl e)
    then have "r = Inl e" "t = s" using Cons.prems(5) by (auto simp: seqm_def bindm_def send_text_def)
    then show ?thesis using Cons.prems(1) by simp
  next
    case (Inr u)
    then have "?f row s = (Inr (), ?s)" by (simp add: seqm_def bindm_def send_text_def)
    then have "loop ?f (row # rows) s = loop ?f rows ?s" by (subst loop.simps, subst seqm_def) (rule bindm_Inr)
    then have rest: "loop ?f rows ?s = (r, t)" by (rule trans[OF sym Cons.prems(5)])
    have "recorded R ?s" using Cons.prems(1,3,4) by (simp add: recorded_def known_add known_sent announced_def sent_add)
    moreover have "\<forall>row' \<in> set rows. jget row' ''id'' \<notin> set (known ?s)" using Cons.prems(2,3) by (auto simp: known_add known_sent image_iff)
    ultimately have "recorded R t \<and> set (known ?s) \<subseteq> set (known t) \<and> (r = Inr () \<longrightarrow> (\<lambda>row. jget row ''id'') ` set rows \<subseteq> set (known t))"
      using Cons.prems(2,4) by (intro Cons.IH[OF _ _ _ _ rest]) auto
    then show ?thesis by (auto simp: known_add known_sent)
  qed
qed simp

lemma announce_rows_run:
  assumes "recorded R s" "distinct (map (\<lambda>row. jget row ''id'') rows)"
    "\<And>ids row. R ids \<Longrightarrow> row \<in> set rows \<Longrightarrow> jget row ''id'' \<notin> set ids \<Longrightarrow> R (jget row ''id'' # ids)"
    "announce_rows env kind list_kind known add rows s = (r, t)"
  shows "recorded R t \<and> (r = Inr () \<longrightarrow> (\<lambda>row. jget row ''id'') ` set rows \<subseteq> set (known t))"
proof -
  let ?new = "filter (\<lambda>row. jget row ''id'' \<notin> set (known s)) rows"
  let ?loop = "loop (\<lambda>row. seqm (send_text env kind row) (modifies (add (jget row ''id'')))) ?new"
  obtain q u where q: "?loop s = (q, u)" by (meson surj_pair)
  have new: "distinct (map (\<lambda>row. jget row ''id'') ?new)" using assms(2) by (simp add: distinct_map_filter)
  have *: "recorded R u \<and> set (known s) \<subseteq> set (known u) \<and> (q = Inr () \<longrightarrow> (\<lambda>row. jget row ''id'') ` set ?new \<subseteq> set (known u))"
    using assms(3) by (intro announce_new[OF assms(1) new _ _ q]) auto
  show ?thesis
  proof (cases "?new = [] \<or> (\<exists>e. q = Inl e)")
    case True
    then show ?thesis using assms(1,4) q * by (auto simp: announce_rows_def seqm_def bindm_def filter_empty_conv split: if_splits)
  next
    case False
    then have run: "announce_rows env kind list_kind known add rows s = send_text env list_kind (listed rows) u"
      using q by (cases q) (auto simp: announce_rows_def seqm_def bindm_def)
    have "recorded R t" using keepsD[OF recorded_send[OF kinds(1)], of R u env] * run assms(4) by (metis snd_conv)
    moreover have "known t = known u" using run assms(4) by (auto simp: send_text_def known_sent split: sum.splits)
    moreover have "q = Inr ()" using False by (cases q) auto
    ultimately show ?thesis using * by auto
  qed
qed

text \<open>A pass with the announcement of these rows in the middle.\<close>

lemma pass_run:
  fixes pre own post :: "unit os_op"
  assumes pre: "keeps P pre" "keeps (recorded R) pre" and post: "\<And>Q. keeps (recorded Q) post"
    and own: "\<And>s r t. P s \<Longrightarrow> recorded R s \<Longrightarrow> own s = (r, t) \<Longrightarrow> recorded R t \<and> (r = Inr () \<longrightarrow> S \<subseteq> set (known t))"
    and s: "P s" "recorded R s" "seqm pre (seqm own post) s = (r, t)"
  shows "recorded R t \<and> (r = Inr () \<longrightarrow> S \<subseteq> set (known t))"
proof -
  obtain r1 s1 where s1: "pre s = (r1, s1)" by (meson surj_pair)
  have P1: "P s1" "recorded R s1" using keepsD[OF pre(1) s(1)] keepsD[OF pre(2) s(2)] s1 by simp_all
  obtain r2 s2 where s2: "own s1 = (r2, s2)" by (meson surj_pair)
  note middle = own[OF P1 s2]
  obtain r3 s3 where s3: "post s2 = (r3, s3)" by (meson surj_pair)
  have "recorded Q s2 \<Longrightarrow> recorded Q s3" for Q using keepsD[OF post, of Q s2] s3 by simp
  from this[of R] this[of "\<lambda>ids. R ids \<and> S \<subseteq> set ids"] show ?thesis
    using s(3) s1 s2 s3 P1(2) middle by (cases r1; cases r2) (auto simp: seqm_def bindm_def recorded_def)
qed

lemma own_run:
  assumes "\<exists>rows. on_store listing s = (Inr rows, s) \<and> map (\<lambda>row. jget row ''id'') rows = shown" "distinct shown" "recorded R s"
    "\<And>ids u. R ids \<Longrightarrow> u \<in> set shown \<Longrightarrow> u \<notin> set ids \<Longrightarrow> R (u # ids)"
    "bindm (on_store listing) (announce_rows env kind list_kind known add) s = (r, t)"
  shows "recorded R t \<and> (r = Inr () \<longrightarrow> set shown \<subseteq> set (known t))"
proof -
  obtain rows where rows: "on_store listing s = (Inr rows, s)" "map (\<lambda>row. jget row ''id'') rows = shown" using assms(1) by blast
  have "announce_rows env kind list_kind known add rows s = (r, t)" using assms(5) unfolding bindm_Inr[where m = "on_store listing", OF rows(1)] .
  then show ?thesis using announce_rows_run[OF assms(3)] assms(2,4) rows(2) by fastforce
qed

text \<open>The pass as the socket makes it, in its session.\<close>

lemma round_run:
  assumes pass: "\<And>R s r t. at_tables d s \<Longrightarrow> recorded R s \<Longrightarrow> (\<And>ids u. R ids \<Longrightarrow> u \<in> S \<Longrightarrow> u \<notin> set ids \<Longrightarrow> R (u # ids)) \<Longrightarrow>
      send_operation_events env s = (r, t) \<Longrightarrow> recorded R t \<and> (r = Inr () \<longrightarrow> S \<subseteq> set (known t))"
    and s: "recorded distinct s"
  shows "recorded distinct (stream_round (env, d) s) \<and> set (known s) \<subseteq> set (known (stream_round (env, d) s))
    \<and> set (known (stream_round (env, d) s)) \<subseteq> set (known s) \<union> S \<and> (os_open (stream_round (env, d) s) \<longrightarrow> os_open s \<and> S \<subseteq> set (known (stream_round (env, d) s)))"
proof (cases "os_open s")
  case True
  let ?before = "(os_store s)\<lparr>st_session := d\<rparr>"
  let ?s = "s\<lparr>os_store := ?before\<lparr>st_actor_service := Some ''operations-ws''\<rparr>\<rparr>"
  let ?R = "\<lambda>ids. distinct ids \<and> set (known s) \<subseteq> set ids \<and> set ids \<subseteq> set (known s) \<union> S"
  obtain r t where run: "send_operation_events env ?s = (r, t)" by (meson surj_pair)
  have "recorded ?R ?s" using s by (simp add: recorded_def known_store announced_def)
  then have t: "recorded ?R t \<and> (r = Inr () \<longrightarrow> S \<subseteq> set (known t))" by (intro pass[OF _ _ _ run]) (auto simp: at_tables_def)
  then have parts: "distinct (known t)" "set (known s) \<subseteq> set (known t)" "set (known t) \<subseteq> set (known s) \<union> S" "announced kind t = rev (known t)"
    by (simp_all add: recorded_def)
  consider x where "stream_round (env, d) s = t\<lparr>os_store := x, os_open := False\<rparr>" | x where "r = Inr ()" "stream_round (env, d) s = t\<lparr>os_store := x\<rparr>"
    using stream_round_cases[OF True run] by blast
  then show ?thesis
  proof cases
    case 1
    show ?thesis unfolding 1 using parts by (simp add: recorded_def announced_def known_store known_others)
  next
    case 2
    show ?thesis unfolding 2(2) using parts t 2(1) True by (simp add: recorded_def announced_def known_store)
  qed
qed (use s in \<open>auto simp: stream_round_def\<close>)

lemma rounds_run:
  assumes "\<And>p s. p \<in> set rounds \<Longrightarrow> recorded distinct s \<Longrightarrow> recorded distinct (stream_round p s) \<and> set (known s) \<subseteq> set (known (stream_round p s))
      \<and> set (known (stream_round p s)) \<subseteq> set (known s) \<union> visible p \<and> (os_open (stream_round p s) \<longrightarrow> os_open s \<and> visible p \<subseteq> set (known (stream_round p s)))"
    and "recorded distinct s"
  shows "recorded distinct (run stream_round rounds s) \<and> set (known (run stream_round rounds s)) \<subseteq> set (known s) \<union> \<Union> (visible ` set rounds)
    \<and> (os_open (run stream_round rounds s) \<longrightarrow> os_open s \<and> set (known s) \<union> \<Union> (visible ` set rounds) \<subseteq> set (known (run stream_round rounds s)))"
  using assms
proof (induction rounds arbitrary: s)
  case (Cons p rounds)
  have step: "recorded distinct (stream_round p s) \<and> set (known s) \<subseteq> set (known (stream_round p s))
      \<and> set (known (stream_round p s)) \<subseteq> set (known s) \<union> visible p \<and> (os_open (stream_round p s) \<longrightarrow> os_open s \<and> visible p \<subseteq> set (known (stream_round p s)))"
    by (rule Cons.prems(1)[OF list.set_intros(1) Cons.prems(2)])
  have "recorded distinct (run stream_round rounds (stream_round p s))
    \<and> set (known (run stream_round rounds (stream_round p s))) \<subseteq> set (known (stream_round p s)) \<union> \<Union> (visible ` set rounds)
    \<and> (os_open (run stream_round rounds (stream_round p s)) \<longrightarrow> os_open (stream_round p s)
        \<and> set (known (stream_round p s)) \<union> \<Union> (visible ` set rounds) \<subseteq> set (known (run stream_round rounds (stream_round p s))))"
    using Cons.prems(1) step by (intro Cons.IH) auto
  then show ?case using step by auto
qed simp

end

interpretation order_rows: row_announcer "''order_created''" "''orders''" os_orders "\<lambda>u s. s\<lparr>os_orders := u # os_orders s\<rparr>"
  by unfold_locales simp_all

interpretation trade_rows: row_announcer "''order_filled''" "''trades''" os_trades "\<lambda>u s. s\<lparr>os_trades := u # os_trades s\<rparr>"
  by unfold_locales simp_all

section \<open>One pass\<close>

text \<open>What a table shows on the socket's lists.\<close>

definition shown_ids :: "('r \<Rightarrow> uuid) \<Rightarrow> ('r \<Rightarrow> datetime) \<Rightarrow> 'r list \<Rightarrow> json list" where
  "shown_ids u time rows = map (\<lambda>row. JStr (uuid_text (u row))) (newest_first 50 time rows)"

definition keys_ok :: "('r \<Rightarrow> uuid) \<Rightarrow> 'r list \<Rightarrow> bool" where
  "keys_ok u rows \<longleftrightarrow> distinct (map u rows) \<and> list_all (\<lambda>row. u row < 2 ^ 128) rows"

lemma uuid_text_inj: "inj_on uuid_text {u. u < 2 ^ 128}"
  by (rule inj_onI) (metis mem_Collect_eq option.inject uuid_text_roundtrip)

lemma texts_distinct:
  assumes "keys_ok u rows"
  shows "distinct (map (\<lambda>row. JStr (uuid_text (u row))) rows)"
proof -
  have "inj_on (\<lambda>v. JStr (uuid_text v)) (u ` set rows)"
    using assms inj_onD[OF uuid_text_inj] unfolding keys_ok_def list_all_iff inj_on_def by blast
  then have "distinct (map (\<lambda>v. JStr (uuid_text v)) (map u rows))" using assms unfolding keys_ok_def distinct_map[of "\<lambda>v. JStr (uuid_text v)"] by simp
  then show ?thesis by (simp add: o_def)
qed

lemma shown_distinct:
  assumes "keys_ok u rows"
  shows "distinct (shown_ids u time rows)"
proof -
  have "keys_ok u (newest_first 50 time rows)"
    using assms by (auto simp: keys_ok_def newest_first_def list_all_iff distinct_map take_map[symmetric] inj_on_def dest: in_set_takeD intro: distinct_take)
  then show ?thesis unfolding shown_ids_def by (rule texts_distinct)
qed

text \<open>The pages do not change the tables.\<close>

lemma tables_redis: "keeps (\<lambda>s. st_session s = d) (redis env c)"
  unfolding redis_def by (intro kept keeps_modifies) simp

lemma tables_pages:
  "keeps (\<lambda>s. st_session s = d) (engine_health env e)" "keeps (\<lambda>s. st_session s = d) (engines_page env)" "keeps (\<lambda>s. st_session s = d) (exchanges_page env)"
  "keeps (\<lambda>s. st_session s = d) (reconciliation_page env)" "keeps (\<lambda>s. st_session s = d) (orders_page env n)" "keeps (\<lambda>s. st_session s = d) (trades_page env n)"
  "keeps (\<lambda>s. st_session s = d) (risk_events_page env n)" "keeps (\<lambda>s. st_session s = d) (positions_page env)" "keeps (\<lambda>s. st_session s = d) (inventory_page env n)"
  "keeps (\<lambda>s. st_session s = d) pnl_page"
  unfolding engine_health_def engines_page_def exchanges_page_def reconciliation_page_def orders_page_def trades_page_def risk_events_page_def
    positions_page_def inventory_page_def pnl_page_def pair_map_def Let_def
  by (intro kept tables_redis | auto intro!: kept tables_redis split: prod.split)+

lemma keeps_conj: "keeps P m \<Longrightarrow> keeps Q m \<Longrightarrow> keeps (\<lambda>s. P s \<and> Q s) m"
  by (simp add: keeps_def)

lemma tables_store: "keeps (\<lambda>s. st_session s = d) m \<Longrightarrow> keeps (at_tables d) (on_store m)"
  unfolding on_store_def by (rule keeps_zoom) (auto simp: at_tables_def keeps_def)

lemma tables_send: "keeps (at_tables d) (send_text env k p)"
  by (rule keepsI) (simp add: send_text_def at_tables_def split: sum.split)

lemma tables_modifies: "(\<And>s. os_store (f s) = os_store s) \<Longrightarrow> keeps (at_tables d) (modifies f)"
  by (rule keeps_modifies) (simp add: at_tables_def)

lemma tables_parts:
  "keeps (at_tables d) (send_status env)" "keeps (at_tables d) (send_counters env)" "keeps (at_tables d) (send_orders env)"
  "keeps (at_tables d) (send_trades env)" "keeps (at_tables d) (send_risk_events env)" "keeps (at_tables d) (send_portfolio env)"
  unfolding send_status_def send_counters_def send_orders_def send_trades_def send_risk_events_def send_portfolio_def announce_rows_def
    announce_risk_events_def announce_counter_def Let_def
  by (intro kept tables_store tables_pages tables_send tables_modifies; simp)+

lemma recorded_across:
  "keeps (order_rows.recorded R) (send_trades env)" "keeps (trade_rows.recorded R) (send_orders env)"
  unfolding send_orders_def send_trades_def
  by (intro kept order_rows.recorded_store order_rows.recorded_rows_other trade_rows.recorded_store trade_rows.recorded_rows_other; simp)+

lemma orders_shown: "at_tables d s \<Longrightarrow> \<exists>rows. on_store (orders_page env 50) s = (Inr rows, s) \<and> map (\<lambda>row. jget row ''id'') rows = shown_ids or_id or_created_at (tbl_orders d)"
  by (simp add: on_store_def zoom_def orders_page_def pair_map_def at_tables_def shown_ids_def order_payload_row_def jget_def o_def)

lemma trades_shown: "at_tables d s \<Longrightarrow> \<exists>rows. on_store (trades_page env 50) s = (Inr rows, s) \<and> map (\<lambda>row. jget row ''id'') rows = shown_ids tr_id tr_traded_at (tbl_trades d)"
  by (simp add: on_store_def zoom_def trades_page_def pair_map_def at_tables_def shown_ids_def trade_payload_row_def jget_def o_def)

lemma order_pass:
  assumes "keys_ok or_id (tbl_orders d)" "at_tables d s" "order_rows.recorded R s"
    "\<And>ids u. R ids \<Longrightarrow> u \<in> set (shown_ids or_id or_created_at (tbl_orders d)) \<Longrightarrow> u \<notin> set ids \<Longrightarrow> R (u # ids)"
    "send_operation_events env s = (r, t)"
  shows "order_rows.recorded R t \<and> (r = Inr () \<longrightarrow> set (shown_ids or_id or_created_at (tbl_orders d)) \<subseteq> set (os_orders t))"
proof (rule order_rows.pass_run[where P = "at_tables d" and s = s])
  show "seqm (seqm (send_status env) (send_counters env)) (seqm (send_orders env) (seqm (send_trades env) (seqm (send_risk_events env) (send_portfolio env)))) s = (r, t)"
    using assms(5) by (simp only: send_operation_events_def seqm_assoc)
  show "order_rows.recorded R t' \<and> (r' = Inr () \<longrightarrow> set (shown_ids or_id or_created_at (tbl_orders d)) \<subseteq> set (os_orders t'))"
    if "at_tables d s'" "order_rows.recorded R s'" "send_orders env s' = (r', t')" for s' r' t'
    using order_rows.own_run[OF orders_shown[OF that(1)] shown_distinct[OF assms(1)] that(2) assms(4) that(3)[unfolded send_orders_def]] .
qed (intro kept tables_parts order_rows.recorded_parts recorded_across assms(2,3))+

lemma trade_pass:
  assumes "keys_ok tr_id (tbl_trades d)" "at_tables d s" "trade_rows.recorded R s"
    "\<And>ids u. R ids \<Longrightarrow> u \<in> set (shown_ids tr_id tr_traded_at (tbl_trades d)) \<Longrightarrow> u \<notin> set ids \<Longrightarrow> R (u # ids)"
    "send_operation_events env s = (r, t)"
  shows "trade_rows.recorded R t \<and> (r = Inr () \<longrightarrow> set (shown_ids tr_id tr_traded_at (tbl_trades d)) \<subseteq> set (os_trades t))"
proof (rule trade_rows.pass_run[where P = "at_tables d" and s = s])
  show "seqm (seqm (send_status env) (seqm (send_counters env) (send_orders env))) (seqm (send_trades env) (seqm (send_risk_events env) (send_portfolio env))) s = (r, t)"
    using assms(5) by (simp only: send_operation_events_def seqm_assoc)
  show "trade_rows.recorded R t' \<and> (r' = Inr () \<longrightarrow> set (shown_ids tr_id tr_traded_at (tbl_trades d)) \<subseteq> set (os_trades t'))"
    if "at_tables d s'" "trade_rows.recorded R s'" "send_trades env s' = (r', t')" for s' r' t'
    using trade_rows.own_run[OF trades_shown[OF that(1)] shown_distinct[OF assms(1)] that(2) assms(4) that(3)[unfolded send_trades_def]] .
qed (intro kept tables_parts trade_rows.recorded_parts recorded_across assms(2,3))+

text \<open>
  C32. The operations socket announces of the orders and of the trades exactly those that are among the fifty newest at one of its passes, and
  each of them once: a socket that is still open has announced all of them, one that was cut has announced no others and none twice.
\<close>

theorem socket_announces_exactly:
  assumes "\<forall>(env, d) \<in> set rounds. keys_ok or_id (tbl_orders d) \<and> keys_ok tr_id (tbl_trades d)"
  shows "let t = run stream_round rounds (ops_stream_init s) in distinct (announced ''order_created'' t) \<and> distinct (announced ''order_filled'' t)
    \<and> set (announced ''order_created'' t) \<subseteq> (\<Union>(env, d) \<in> set rounds. set (shown_ids or_id or_created_at (tbl_orders d)))
    \<and> set (announced ''order_filled'' t) \<subseteq> (\<Union>(env, d) \<in> set rounds. set (shown_ids tr_id tr_traded_at (tbl_trades d)))
    \<and> (os_open t \<longrightarrow> set (announced ''order_created'' t) = (\<Union>(env, d) \<in> set rounds. set (shown_ids or_id or_created_at (tbl_orders d)))
      \<and> set (announced ''order_filled'' t) = (\<Union>(env, d) \<in> set rounds. set (shown_ids tr_id tr_traded_at (tbl_trades d))))"
proof -
  define t where "t = run stream_round rounds (ops_stream_init s)"
  have start: "order_rows.recorded distinct (ops_stream_init s)" "trade_rows.recorded distinct (ops_stream_init s)"
    by (simp_all add: order_rows.recorded_def trade_rows.recorded_def announced_def ops_stream_init_def)
  have keys: "keys_ok or_id (tbl_orders (snd p))" "keys_ok tr_id (tbl_trades (snd p))" if "p \<in> set rounds" for p using assms(1) that by (auto simp: case_prod_beta)
  have orders: "order_rows.recorded distinct t \<and> set (os_orders t) \<subseteq> set (os_orders (ops_stream_init s)) \<union> (\<Union>p \<in> set rounds. set (shown_ids or_id or_created_at (tbl_orders (snd p))))
    \<and> (os_open t \<longrightarrow> os_open (ops_stream_init s) \<and> set (os_orders (ops_stream_init s)) \<union> (\<Union>p \<in> set rounds. set (shown_ids or_id or_created_at (tbl_orders (snd p)))) \<subseteq> set (os_orders t))"
    unfolding t_def
  proof (rule order_rows.rounds_run[OF _ start(1)])
    fix p s assume p: "p \<in> set rounds" and s: "order_rows.recorded distinct s"
    show "order_rows.recorded distinct (stream_round p s) \<and> set (os_orders s) \<subseteq> set (os_orders (stream_round p s))
      \<and> set (os_orders (stream_round p s)) \<subseteq> set (os_orders s) \<union> set (shown_ids or_id or_created_at (tbl_orders (snd p)))
      \<and> (os_open (stream_round p s) \<longrightarrow> os_open s \<and> set (shown_ids or_id or_created_at (tbl_orders (snd p))) \<subseteq> set (os_orders (stream_round p s)))"
      by (subst (1 2 3 4 5) prod.collapse[symmetric, of p], rule order_rows.round_run[OF _ s]) (rule order_pass[OF keys(1)[OF p]]; assumption)
  qed
  have trades: "trade_rows.recorded distinct t \<and> set (os_trades t) \<subseteq> set (os_trades (ops_stream_init s)) \<union> (\<Union>p \<in> set rounds. set (shown_ids tr_id tr_traded_at (tbl_trades (snd p))))
    \<and> (os_open t \<longrightarrow> os_open (ops_stream_init s) \<and> set (os_trades (ops_stream_init s)) \<union> (\<Union>p \<in> set rounds. set (shown_ids tr_id tr_traded_at (tbl_trades (snd p)))) \<subseteq> set (os_trades t))"
    unfolding t_def
  proof (rule trade_rows.rounds_run[OF _ start(2)])
    fix p s assume p: "p \<in> set rounds" and s: "trade_rows.recorded distinct s"
    show "trade_rows.recorded distinct (stream_round p s) \<and> set (os_trades s) \<subseteq> set (os_trades (stream_round p s))
      \<and> set (os_trades (stream_round p s)) \<subseteq> set (os_trades s) \<union> set (shown_ids tr_id tr_traded_at (tbl_trades (snd p)))
      \<and> (os_open (stream_round p s) \<longrightarrow> os_open s \<and> set (shown_ids tr_id tr_traded_at (tbl_trades (snd p))) \<subseteq> set (os_trades (stream_round p s)))"
      by (subst (1 2 3 4 5) prod.collapse[symmetric, of p], rule trade_rows.round_run[OF _ s]) (rule trade_pass[OF keys(2)[OF p]]; assumption)
  qed
  show ?thesis unfolding t_def[symmetric] Let_def using orders trades by (auto simp: order_rows.recorded_def trade_rows.recorded_def ops_stream_init_def case_prod_beta)
qed

section \<open>Risk events\<close>

definition sent_count :: "string \<Rightarrow> ops_stream \<Rightarrow> nat" where
  "sent_count kind s = length (filter (\<lambda>m. jget m ''type'' = JStr kind) (os_sent s))"

definition risk_is :: "json list \<Rightarrow> ops_stream \<Rightarrow> bool" where
  "risk_is K s \<longleftrightarrow> os_risk_events s = K \<and> sent_count ''risk_events'' s = length K"

lemma risk_send: "k \<noteq> ''risk_events'' \<Longrightarrow> keeps (risk_is K) (send_text env k p)"
  by (rule keepsI) (auto simp: send_text_def risk_is_def sent_count_def split: sum.split)

lemma risk_store: "keeps (risk_is K) (on_store m)"
  unfolding on_store_def by (rule keeps_zoom) (simp add: risk_is_def sent_count_def)

lemma risk_modifies: "(\<And>s. os_risk_events (f s) = os_risk_events s \<and> os_sent (f s) = os_sent s) \<Longrightarrow> keeps (risk_is K) (modifies f)"
  by (rule keeps_modifies) (simp add: risk_is_def sent_count_def)

lemma risk_parts:
  "keeps (risk_is K) (send_status env)" "keeps (risk_is K) (send_counters env)" "keeps (risk_is K) (send_orders env)" "keeps (risk_is K) (send_trades env)"
  "keeps (risk_is K) (send_portfolio env)"
  unfolding send_status_def send_counters_def send_orders_def send_trades_def send_portfolio_def announce_rows_def announce_counter_def Let_def
  by (intro kept risk_store risk_send risk_modifies; simp)+

definition risk_ids :: "session \<Rightarrow> json set" where
  "risk_ids d = (\<lambda>row. JStr (uuid_text (re_id row))) ` set (tbl_risk_events d)"

lemma send_risk_events_run:
  assumes "risk_is K s" "at_tables d s" "length (tbl_risk_events d) \<le> 50" "send_risk_events env s = (Inr (), t)"
  shows "(risk_ids d \<subseteq> set K \<and> risk_is K t) \<or> (\<exists>u \<in> risk_ids d - set K. risk_is (u # K) t)"
proof -
  let ?rows = "map (risk_payload_row env) (newest_first 50 (\<lambda>row. oe_occurred_at env (re_id row)) (tbl_risk_events d))"
  have ids: "(\<lambda>row. jget row ''id'') ` set ?rows = risk_ids d"
    using assms(3) by (auto simp: newest_first_def risk_ids_def risk_payload_row_def jget_def image_iff)
  have "announce_risk_events env ?rows s = (Inr (), t)"
    using assms(2,4) by (simp add: send_risk_events_def risk_events_page_def on_store_def zoom_def bindm_def at_tables_def)
  moreover have K: "os_risk_events s = K" using assms(1) by (simp add: risk_is_def)
  moreover have "?rows ! i \<in> set ?rows" if "i < length ?rows" for i using that by (rule nth_mem)
  ultimately show ?thesis
  proof (cases "find (\<lambda>row. jget row ''id'' \<notin> set K) ?rows")
    case None
    then have "risk_ids d \<subseteq> set K" unfolding ids[symmetric] by (auto simp: find_None_iff)
    moreover have "t = s" using \<open>announce_risk_events env ?rows s = (Inr (), t)\<close> None K by (simp add: announce_risk_events_def)
    ultimately show ?thesis using assms(1) by simp
  next
    case (Some row)
    then have "jget row ''id'' \<in> risk_ids d - set K" unfolding ids[symmetric] by (auto simp: find_Some_iff)
    moreover have "risk_is (jget row ''id'' # K) t" using \<open>announce_risk_events env ?rows s = (Inr (), t)\<close> Some assms(1) K
      by (auto simp: announce_risk_events_def seqm_def bindm_def send_text_def risk_is_def sent_count_def split: sum.splits)
    ultimately show ?thesis by blast
  qed
qed

lemma risk_pass:
  assumes "risk_is K s" "at_tables d s" "length (tbl_risk_events d) \<le> 50" "send_operation_events env s = (Inr (), t)"
  shows "(risk_ids d \<subseteq> set K \<and> risk_is K t) \<or> (\<exists>u \<in> risk_ids d - set K. risk_is (u # K) t)"
proof -
  let ?pre = "seqm (send_status env) (seqm (send_counters env) (seqm (send_orders env) (send_trades env)))"
  have "seqm ?pre (seqm (send_risk_events env) (send_portfolio env)) s = (Inr (), t)" using assms(4) by (simp only: send_operation_events_def seqm_assoc)
  then obtain s1 where s1: "?pre s = (Inr (), s1)" "seqm (send_risk_events env) (send_portfolio env) s1 = (Inr (), t)" by (rule seqm_InrE) simp
  from s1(2) obtain s2 where s2: "send_risk_events env s1 = (Inr (), s2)" "send_portfolio env s2 = (Inr (), t)" by (rule seqm_InrE) simp
  have "keeps (risk_is K) (seqm (send_status env) (seqm (send_counters env) (seqm (send_orders env) (send_trades env))))"
    "keeps (at_tables d) (seqm (send_status env) (seqm (send_counters env) (seqm (send_orders env) (send_trades env))))"
    by (intro kept risk_parts tables_parts)+
  from keepsD[OF this(1) assms(1)] keepsD[OF this(2) assms(2)] have "risk_is K s1" "at_tables d s1" using s1(1) by simp_all
  then have "(risk_ids d \<subseteq> set K \<and> risk_is K s2) \<or> (\<exists>u \<in> risk_ids d - set K. risk_is (u # K) s2)" using assms(3) s2(1) by (rule send_risk_events_run)
  moreover have "risk_is L s2 \<Longrightarrow> risk_is L t" for L using keepsD[OF risk_parts(5), of L s2 env] s2(2) by simp
  ultimately show ?thesis by blast
qed

text \<open>
  The list of risk events is sent again and again: with unchanged tables an open socket sends the same list at every pass until it has sent it
  once for each event in it, because a pass marks only one of the new events as seen.
\<close>

theorem risk_list_repeated:
  assumes "keys_ok re_id (tbl_risk_events d)" "length (tbl_risk_events d) \<le> 50" "\<forall>p \<in> set rounds. snd p = d"
    "os_open (run stream_round rounds (ops_stream_init s))"
  shows "sent_count ''risk_events'' (run stream_round rounds (ops_stream_init s)) = min (length rounds) (length (tbl_risk_events d))"
proof -
  have "distinct (map (\<lambda>row. JStr (uuid_text (re_id row))) (tbl_risk_events d))" using assms(1) by (rule texts_distinct)
  then have card: "card (risk_ids d) = length (tbl_risk_events d)" "finite (risk_ids d)" using distinct_card by (fastforce simp: risk_ids_def)+
  have open_before: "os_open (stream_round p t) \<Longrightarrow> os_open t" for p t by (rule ccontr) (simp add: stream_round_def case_prod_beta)
  have stays: "os_open (run stream_round ps t) \<Longrightarrow> os_open t" for ps t by (induction ps arbitrary: t) (auto dest: open_before)
  have step: "\<exists>L. risk_is L (stream_round p t) \<and> distinct L \<and> set L \<subseteq> risk_ids d \<and> length L = min (Suc (length K)) (card (risk_ids d))"
    if "p \<in> set rounds" "risk_is K t" "distinct K" "set K \<subseteq> risk_ids d" "os_open (stream_round p t)" for p t K
  proof -
    note now = that
    have p: "p = (fst p, d)" using assms(3) now(1) by (metis prod.collapse)
    let ?s = "t\<lparr>os_store := ((os_store t)\<lparr>st_session := d\<rparr>)\<lparr>st_actor_service := Some ''operations-ws''\<rparr>\<rparr>"
    obtain r u where run: "send_operation_events (fst p) ?s = (r, u)" by (meson surj_pair)
    obtain x where x: "r = Inr ()" "stream_round p t = u\<lparr>os_store := x\<rparr>"
      using stream_round_cases[OF open_before[OF now(5)] run] p now(5) by auto
    consider "risk_ids d \<subseteq> set K" "risk_is K u" | v where "v \<in> risk_ids d - set K" "risk_is (v # K) u"
      using risk_pass[OF _ _ assms(2) run[unfolded x(1)], of K] now(2) by (auto simp: risk_is_def sent_count_def at_tables_def)
    moreover have same: "risk_is L (stream_round p t) = risk_is L u" for L by (simp add: x(2) risk_is_def sent_count_def)
    ultimately show ?thesis
    proof cases
      case 1
      then have "length K = card (risk_ids d)" using now(3,4) distinct_card by (metis subset_antisym)
      then show ?thesis using 1(2) now(3,4) same by (intro exI[of _ K]) simp
    next
      case 2
      then have L: "distinct (v # K)" "set (v # K) \<subseteq> risk_ids d" using now(3,4) by auto
      then have "length (v # K) \<le> card (risk_ids d)" using card_mono[OF card(2) L(2)] distinct_card by metis
      then show ?thesis using L 2(2) same by (intro exI[of _ "v # K"]) simp
    qed
  qed
  have "\<exists>L. risk_is L (run stream_round ps t) \<and> length L = min (length K + length ps) (card (risk_ids d))"
    if "set ps \<subseteq> set rounds" "risk_is K t" "distinct K" "set K \<subseteq> risk_ids d" "os_open (run stream_round ps t)" for ps t K
    using that
  proof (induction ps arbitrary: t K)
    case Nil
    then show ?case using card_mono[OF card(2) Nil.prems(4)] by (auto simp: distinct_card)
  next
    case (Cons p ps)
    obtain L where "risk_is L (stream_round p t)" "distinct L" "set L \<subseteq> risk_ids d" "length L = min (Suc (length K)) (card (risk_ids d))"
      using step[where p = p and K = K and t = t] Cons.prems stays[of ps "stream_round p t"] by auto
    then show ?case using Cons.IH[where t = "stream_round p t" and K = L] Cons.prems by fastforce
  qed
  from this[where ps = rounds and K = "[]" and t = "ops_stream_init s"] assms(4) card(1) show ?thesis
    by (auto simp: risk_is_def ops_stream_init_def sent_count_def)
qed

section \<open>Volumes\<close>

lemma executed_since_mono:
  assumes "start' \<le> start" "\<forall>row \<in> set rows. 0 \<le> tr_price row * tr_quantity row"
  shows "0 \<le> executed_since start rows \<and> executed_since start rows \<le> executed_since start' rows"
  using assms(2) by (induction rows) (use assms(1) in \<open>auto simp: executed_since_def\<close>)

lemma windows_nested: "since_week now \<le> since_day now" "since_day now \<le> since_hour now" "since_hour now \<le> now" "now - since_week now < 7 * day_us"
proof -
  have week: "0 \<le> weekday now" "weekday now \<le> 6" by (simp_all add: weekday_def)
  have day: "since_day now \<le> now" "now - since_day now < day_us" by (simp_all add: since_day_def day_us_def seconds_def minus_div_mult_eq_mod div_times_less_eq_dividend)
  have "since_day now = (now div day_us * 24) * hour_us" by (simp add: since_day_def day_us_def seconds_def hour_us_def seconds_def)
  also have "\<dots> \<le> now div hour_us * hour_us"
    using day(1) by (intro mult_right_mono) (auto simp: hour_us_def seconds_def day_us_def seconds_def since_day_def)
  finally show "since_day now \<le> since_hour now" by (simp add: since_hour_def)
  show "since_week now \<le> since_day now" using week by (simp add: since_week_def day_us_def seconds_def)
  show "since_hour now \<le> now" by (simp add: since_hour_def hour_us_def seconds_def div_times_less_eq_dividend)
  have "weekday now * day_us \<le> 6 * day_us" using week by (simp add: day_us_def seconds_def)
  then show "now - since_week now < 7 * day_us" using day unfolding since_week_def by linarith
qed

text \<open>
  The windows of the volume page are nested: what it shows for the hour is at most what it shows for the day, and that at most what it shows for
  the week, which begins less than seven days ago; a trade before then counts in no window.
\<close>

theorem volume_windows_nested:
  assumes "\<forall>row \<in> set rows. 0 \<le> tr_price row * tr_quantity row"
  shows "0 \<le> executed_since (since_hour now) rows \<and> executed_since (since_hour now) rows \<le> executed_since (since_day now) rows
    \<and> executed_since (since_day now) rows \<le> executed_since (since_week now) rows \<and> since_hour now \<le> now
    \<and> executed_since (since_week now) rows \<le> executed_since (now - 7 * day_us) rows"
  using executed_since_mono[OF windows_nested(2) assms] executed_since_mono[OF windows_nested(1) assms] windows_nested(3)
    executed_since_mono[OF _ assms, of "now - 7 * day_us" "since_week now"] windows_nested(4)[of now] by simp

section \<open>Instances\<close>

text \<open>While no engine reports and every message can be sent, the socket stays open.\<close>

definition quiet :: "ops_env \<Rightarrow> bool" where
  "quiet env \<longleftrightarrow> av_redis (oe_api env) = (\<lambda>_ _. Inr Nil_reply) \<and> av_commit (oe_api env) = Inr () \<and> oe_send env = (\<lambda>_. Inr ())"

lemma redis_quiet: "quiet env \<Longrightarrow> redis (oe_api env) c = (\<lambda>s. (Inr Nil_reply, s\<lparr>st_redis := st_redis s @ [c]\<rparr>))"
  by (rule ext) (simp add: redis_def quiet_def seqm_def bindm_def)

lemma engine_health_quiet: "quiet env \<Longrightarrow> \<exists>t. engine_health env e s = (Inr [], t)"
  by (simp add: engine_health_def redis_quiet bindm_def loads_reply_def or_dict_def)

lemma succeeds_after_health: "quiet env \<Longrightarrow> succeeds (f []) \<Longrightarrow> succeeds (bindm (engine_health env e) f)"
  unfolding succeeds_def by (metis bindm_Inr engine_health_quiet)

lemma succeeds_value: "succeeds (lift_res (Inr x))"
  by (simp add: succeeds_def)

lemma bind_value: "bindm (lift_res (Inr x)) f = f x"
  by (rule ext) (simp add: bindm_def)

lemma succeeds_on_store: "succeeds m \<Longrightarrow> succeeds (on_store m)"
  by (simp add: succeeds_def on_store_def zoom_def case_prod_beta) (metis fst_conv)

lemma succeeds_after_health_store: "quiet env \<Longrightarrow> succeeds (f []) \<Longrightarrow> succeeds (bindm (on_store (engine_health env e)) f)"
  unfolding succeeds_def
proof
  fix s :: ops_stream assume env: "quiet env" and f: "\<forall>s. \<exists>x t. f [] s = (Inr x, t)"
  obtain t where "engine_health env e (os_store s) = (Inr [], t)" using engine_health_quiet[OF env] by blast
  then have "on_store (engine_health env e) s = (Inr [], s\<lparr>os_store := t\<rparr>)" by (simp add: on_store_def zoom_def)
  note bindm_Inr[where m = "on_store (engine_health env e)" and f = f, OF this]
  then show "\<exists>x t. bindm (on_store (engine_health env e)) f s = (Inr x, t)" by (rule ssubst) (use f in simp)
qed

lemma succeeds_send: "quiet env \<Longrightarrow> succeeds (send_text env k p)"
  by (simp add: succeeds_def send_text_def quiet_def)

lemma succeeds_loop: "(\<And>x. succeeds (f x)) \<Longrightarrow> succeeds (loop f xs)"
  by (induction xs) (auto simp: seqm_def intro!: succeeds_bind succeeds_basic)

lemma succeeds_pages: "succeeds (orders_page env n)" "succeeds (trades_page env n)" "succeeds (positions_page env)" "succeeds (inventory_page env n)"
  "succeeds (risk_events_page env n)" "succeeds pnl_page"
  by (auto simp: orders_page_def trades_page_def positions_page_def inventory_page_def risk_events_page_def pnl_page_def pair_map_def Let_def
      intro!: succeeds_bind succeeds_basic)

lemma succeeds_health_pages:
  assumes "quiet env"
  shows "succeeds (engines_page env)" "succeeds (exchanges_page env)" "succeeds (reconciliation_page env)"
  by (simp add: succeeds_def engines_page_def redis_quiet[OF assms] bindm_def Let_def)
    (auto simp: exchanges_page_def reconciliation_page_def Let_def health_counters_def or_dict_def jget_def bind_value
      intro!: succeeds_after_health[OF assms], simp_all add: succeeds_def)

lemma succeeds_counter: "quiet env \<Longrightarrow> succeeds payload \<Longrightarrow> succeeds (announce_counter env kind get put value payload)"
  unfolding announce_counter_def seqm_def by (auto intro!: succeeds_bind succeeds_basic succeeds_send)

lemma succeeds_announce_rows: "quiet env \<Longrightarrow> succeeds (announce_rows env kind list_kind known add rows)"
  unfolding announce_rows_def seqm_def Let_def by (auto intro!: succeeds_bind succeeds_basic succeeds_send succeeds_loop)

lemma succeeds_announce_risk: "quiet env \<Longrightarrow> succeeds (announce_risk_events env rows)"
  unfolding announce_risk_events_def seqm_def by (auto intro!: succeeds_bind succeeds_basic succeeds_send split: option.split)

lemma succeeds_counters:
  assumes "quiet env"
  shows "succeeds (send_counters env)"
  unfolding send_counters_def
  by (rule succeeds_after_health_store[OF assms], rule succeeds_after_health_store[OF assms])
    (auto simp: health_counters_def or_dict_def jget_def seqm_def Let_def
      intro!: succeeds_bind succeeds_counter[OF assms] succeeds_basic succeeds_value succeeds_on_store succeeds_health_pages[OF assms])

lemma succeeds_pass:
  assumes "quiet env"
  shows "succeeds (send_operation_events env)"
  unfolding send_operation_events_def send_status_def send_orders_def send_trades_def send_risk_events_def send_portfolio_def seqm_def
  by (intro succeeds_bind succeeds_counters[OF assms] succeeds_on_store succeeds_pages succeeds_health_pages[OF assms] succeeds_send[OF assms]
      succeeds_announce_rows[OF assms] succeeds_announce_risk[OF assms])

lemma open_send: "keeps os_open (send_text env k p)"
  by (rule keepsI) (auto simp: send_text_def split: sum.split)

lemma open_store: "keeps os_open (on_store m)"
  unfolding on_store_def by (rule keeps_zoom) simp

lemma open_modifies: "(\<And>s. os_open (f s) = os_open s) \<Longrightarrow> keeps os_open (modifies f)"
  by (rule keeps_modifies) simp

lemma open_parts:
  "keeps os_open (send_status env)" "keeps os_open (send_counters env)" "keeps os_open (send_orders env)" "keeps os_open (send_trades env)"
  "keeps os_open (send_risk_events env)" "keeps os_open (send_portfolio env)"
  unfolding send_status_def send_counters_def send_orders_def send_trades_def send_risk_events_def send_portfolio_def announce_rows_def announce_counter_def
    announce_risk_events_def Let_def
  by (intro kept open_store open_send open_modifies; simp)+

lemma quiet_stays_open:
  assumes "\<forall>p \<in> set rounds. quiet (fst p)"
  shows "os_open s \<Longrightarrow> os_open (run stream_round rounds s)"
  using assms
proof (induction rounds arbitrary: s)
  case (Cons p rounds)
  obtain env d where p: "p = (env, d)" by (cases p)
  let ?s = "s\<lparr>os_store := ((os_store s)\<lparr>st_session := d\<rparr>)\<lparr>st_actor_service := Some ''operations-ws''\<rparr>\<rparr>"
  have env: "quiet env" using Cons.prems(2) p by simp
  obtain u t where run: "send_operation_events env ?s = (Inr u, t)" using succeeds_pass[OF env] unfolding succeeds_def by blast
  have "keeps os_open (send_operation_events env)" unfolding send_operation_events_def
    by (intro kept open_parts)
  from keepsD[OF this, of ?s] run Cons.prems(1) have "os_open t" by simp
  then have "os_open (stream_round p s)"
    using Cons.prems(1) env by (simp add: p stream_round_def Let_def quiet_def bindm_Inr[where m = "send_operation_events env", OF run])
  then show ?case using Cons by simp
qed simp

definition example_ops_env :: ops_env where
  "example_ops_env = \<lparr>oe_account = example_account_env, oe_updated_at = (\<lambda>_. 0), oe_occurred_at = (\<lambda>u. int u), oe_database_health = Inr True, oe_redis_health = Inr True,
     oe_perf_counter = of_nat, oe_adapter_settings = \<lparr>as_api_keys = [], as_api_secrets = [], as_max_reconnect_delay_seconds = 30\<rparr>,
     oe_volume_settings = (\<lambda>_. Inl (ValueError ''settings'')), oe_max_canary_notional = 10, oe_max_canary_position = 1, oe_trading_mode = Mode_paper, oe_send = (\<lambda>_. Inr ())\<rparr>"

definition example_order_row :: OrderRow where
  "example_order_row = \<lparr>or_id = 7, or_client_order_id = ''c-7'', or_exchange_order_id = None, or_exchange_account_id = 1, or_trading_pair_id = 2, or_side = Side_buy,
     or_order_type = Type_limit, or_status = OS_open, or_price = Some 2, or_quantity = 3, or_filled_quantity = 0, or_average_fill_price = None, or_fee_amount = 0,
     or_metadata_json = [], or_metadata_raw = None, or_created_at = 5, or_updated_at = 5\<rparr>"

definition example_risk_row :: "uuid \<Rightarrow> RiskEventRow" where
  "example_risk_row u = \<lparr>re_id = u, re_severity = RS_high, re_event_type = ''ALERT'', re_source_component = ''risk'', re_message = Message ''m'',
     re_is_circuit_breaker_triggered = False, re_is_kill_switch_triggered = False, re_metadata_json = []\<rparr>"

definition example_tables :: session where
  "example_tables = empty_session\<lparr>tbl_orders := [example_order_row], tbl_risk_events := [example_risk_row 1, example_risk_row 2]\<rparr>"

lemma example_quiet: "quiet example_ops_env"
  by (simp add: quiet_def example_ops_env_def example_account_env_def example_route_env_def example_api_env_def)

lemma example_open: "os_open (run stream_round [(example_ops_env, example_tables), (example_ops_env, example_tables), (example_ops_env, example_tables)] (ops_stream_init (store_init empty_session)))"
  using example_quiet by (intro quiet_stays_open) (auto simp: ops_stream_init_def)

theorem socket_announces_exactly_witness:
  "let t = run stream_round [(example_ops_env, example_tables), (example_ops_env, example_tables), (example_ops_env, example_tables)] (ops_stream_init (store_init empty_session))
   in set (announced ''order_created'' t) = {JStr (uuid_text 7)} \<and> distinct (announced ''order_created'' t) \<and> announced ''order_filled'' t = []"
  using socket_announces_exactly[of "[(example_ops_env, example_tables), (example_ops_env, example_tables), (example_ops_env, example_tables)]" "store_init empty_session"] example_open
  unfolding Let_def by (simp add: keys_ok_def example_tables_def empty_session_def example_order_row_def shown_ids_def newest_first_def)

theorem risk_list_repeated_witness:
  "sent_count ''risk_events'' (run stream_round [(example_ops_env, example_tables), (example_ops_env, example_tables), (example_ops_env, example_tables)]
     (ops_stream_init (store_init empty_session))) = 2"
  using risk_list_repeated[of example_tables "[(example_ops_env, example_tables), (example_ops_env, example_tables), (example_ops_env, example_tables)]" "store_init empty_session"] example_open
  by (simp add: keys_ok_def example_tables_def empty_session_def example_risk_row_def)

definition example_trade_row :: "datetime \<Rightarrow> TradeRow" where
  "example_trade_row t = \<lparr>tr_id = 1, tr_order_id = 7, tr_exchange_trade_id = ''t-1'', tr_exchange_account_id = 1, tr_trading_pair_id = 2, tr_side = Side_buy, tr_price = 2,
     tr_quantity = 3, tr_fee_amount = 0, tr_fee_asset = None, tr_traded_at = t, tr_metadata_json = [], tr_metadata_raw = None\<rparr>"

theorem volume_windows_nested_witness:
  "executed_since (since_hour 0) [example_trade_row (- 1), example_trade_row 0] = 6
   \<and> executed_since (since_hour 0) [example_trade_row (- 1), example_trade_row 0] \<le> executed_since (since_day 0) [example_trade_row (- 1), example_trade_row 0]
   \<and> executed_since (since_week 0) [example_trade_row (- 1), example_trade_row 0] = 12"
  using volume_windows_nested[of "[example_trade_row (- 1), example_trade_row 0]" 0]
  by (simp add: example_trade_row_def executed_since_def since_week_def since_day_def since_hour_def weekday_def day_us_def seconds_def)

end
