(* ===== verification/Sliding.thy ===== *)
theory Sliding
  imports Prelude
begin

text \<open>
  Sliding windows kept as queues: a new item is appended and outdated ones are dropped from the
  front. \<open>slide\<close> is that step and, on items that arrive in time order, keeps exactly the items of
  the last \<open>w\<close> microseconds. The locale \<open>keyed_windows\<close> is the contract of a table with one queue
  per key, proved once for every component that keeps such a table.
\<close>

definition slide :: "int \<Rightarrow> ('a \<Rightarrow> datetime) \<Rightarrow> 'a \<Rightarrow> 'a list \<Rightarrow> 'a list" where
  "slide w tm x q = dropWhile (\<lambda>y. tm y < tm x - w) (q @ [x])"

lemma dropWhile_sorted_filter:
  "sorted (map tm xs) \<Longrightarrow> dropWhile (\<lambda>y. tm y < c) xs = filter (\<lambda>y. c \<le> tm y) xs"
proof (induction xs)
  case (Cons a xs)
  then have "c \<le> tm a \<Longrightarrow> filter (\<lambda>y. c \<le> tm y) xs = xs" by (auto simp: filter_id_conv)
  with Cons show ?case by auto
qed simp

lemma fold_slide:
  assumes "sorted (map tm (xs @ [x]))"
  shows "fold (slide w tm) (xs @ [x]) [] = filter (\<lambda>y. tm x - w \<le> tm y) (xs @ [x])"
  using assms
proof (induction xs arbitrary: x rule: rev_induct)
  case Nil
  then show ?case by (simp add: slide_def)
next
  case (snoc z zs)
  have "sorted (map tm (zs @ [z]))" "tm z \<le> tm x" using snoc.prems by (auto simp: sorted_append)
  then have IH: "fold (slide w tm) (zs @ [z]) [] = filter (\<lambda>y. tm z - w \<le> tm y) (zs @ [z])"
    by (intro snoc.IH)
  let ?q = "filter (\<lambda>y. tm z - w \<le> tm y) (zs @ [z])"
  have "sorted (map tm ((zs @ [z]) @ [x]))" using snoc.prems by simp
  then have "sorted (map tm (?q @ [x]))" by (auto simp: sorted_append sorted_filter)
  then have "slide w tm x ?q = filter (\<lambda>y. tm x - w \<le> tm y) (?q @ [x])"
    unfolding slide_def by (rule dropWhile_sorted_filter)
  also have "\<dots> = filter (\<lambda>y. tm x - w \<le> tm y) ((zs @ [z]) @ [x])"
    using \<open>tm z \<le> tm x\<close> by (auto intro!: filter_cong)
  finally show ?case using IH by (simp only: fold_append fold.simps comp_def id_def append_assoc)
qed

text \<open>
  A step system whose events note timed items under keys: \<open>items e\<close> is what event \<open>e\<close> notes. Every
  other event leaves the windows alone.
\<close>

definition noted :: "('e \<Rightarrow> ('k \<times> 'a) list) \<Rightarrow> 'k \<Rightarrow> 'e list \<Rightarrow> 'a list" where
  "noted items k es = map snd (filter (\<lambda>n. fst n = k) (concat (map items es)))"

locale keyed_windows =
  fixes step :: "'e \<Rightarrow> 's \<Rightarrow> 's" and items :: "'e \<Rightarrow> ('k \<times> 'a) list" and win :: "'k \<Rightarrow> 's \<Rightarrow> 'a list"
    and width :: "'s \<Rightarrow> int" and tm :: "'a \<Rightarrow> datetime"
  assumes win_step: "win k (step e s) = fold (slide (width s) tm) (map snd (filter (\<lambda>n. fst n = k) (items e))) (win k s)"
    and width_step: "width (step e s) = width s"
begin

lemma width_run: "width (run step es s) = width s"
  by (induction es arbitrary: s) (auto simp: width_step)

lemma win_run: "win k (run step es s) = fold (slide (width s) tm) (noted items k es) (win k s)"
  by (induction es arbitrary: s) (simp_all add: win_step width_step noted_def)

lemma win_exact:
  assumes "win k s = []" "sorted (map tm (noted items k es @ [x]))"
  shows "slide (width s) tm x (win k (run step es s)) = filter (\<lambda>y. tm x - width s \<le> tm y) (noted items k es @ [x])"
  using fold_slide[OF assms(2), of "width s"] by (simp add: win_run assms(1))

end

end
