(* ===== verification/Stream_Safety.thy ===== *)
theory Stream_Safety
  imports Connectors Reconnect
begin

text \<open>
  What the public streams guarantee: the reconstructed book shows the last size of every price
  (a refinement of finite maps by the two dictionaries), the accepted sequence numbers increase,
  the reconnection delays double up to their bound; and how a lost message silences a stream.
\<close>

section \<open>One side of a book\<close>

definition set_level :: "decimal \<times> decimal \<Rightarrow> (decimal \<rightharpoonup> decimal) \<Rightarrow> (decimal \<rightharpoonup> decimal)" where
  "set_level level m = m(fst level := (if snd level = 0 then None else Some (snd level)))"

interpretation side: refinement put_level "\<lambda>d. distinct (dict_keys d)" set_level dict_get
proof
  fix d :: level_dict and l
  assume "distinct (dict_keys d)"
  then show "distinct (dict_keys (put_level l d))"
    by (cases l) (simp add: put_level_def distinct_update distinct_delete)
next
  fix d :: level_dict and l
  assume "distinct (dict_keys d)"
  then show "dict_get (put_level l d) = set_level l (dict_get d)"
    by (cases l) (simp add: put_level_def set_level_def update_conv' delete_conv')
qed

text \<open>The size a list of levels ends with at a price; the zero sizes are not shown.\<close>

definition last_size :: "(decimal \<times> decimal) list \<Rightarrow> decimal \<Rightarrow> decimal option" where
  "last_size levels price = dict_get (rev levels) price"

definition shown :: "decimal option \<Rightarrow> decimal option" where
  "shown q = (case q of None \<Rightarrow> None | Some x \<Rightarrow> if x > 0 then Some x else None)"

definition side_ok :: "level_dict \<Rightarrow> (decimal \<times> decimal) list \<Rightarrow> bool" where
  "side_ok d levels \<longleftrightarrow> distinct (dict_keys d) \<and> (\<forall>p. shown (dict_get d p) = shown (last_size levels p))"

lemma last_size_snoc: "last_size (ls @ [l]) p = (if fst l = p then Some (snd l) else last_size ls p)"
  by (cases l) (auto simp: last_size_def)

lemma side_ok_put: "side_ok d ls \<Longrightarrow> side_ok (put_level l d) (ls @ [l])"
  using side.step_inv[of d l] side.sim[of d l]
  by (auto simp: side_ok_def last_size_snoc set_level_def shown_def)

lemma level_table_props:
  "distinct (dict_keys (level_table ls))" "dict_get (level_table ls) p = last_size ls p"
proof -
  have *: "distinct (dict_keys d) \<Longrightarrow> distinct (dict_keys (fold (\<lambda>(price, size). dict_set price size) ls d))
      \<and> dict_get (fold (\<lambda>(price, size). dict_set price size) ls d) p = (dict_get d ++ dict_get (rev ls)) p" for d
  proof (induction ls arbitrary: d)
    case (Cons l ls)
    then show ?case using Cons.IH[of "dict_set (fst l) (snd l) d"]
      by (cases l) (simp add: distinct_update update_conv' map_add_def split: option.split)
  qed simp
  show "distinct (dict_keys (level_table ls))" "dict_get (level_table ls) p = last_size ls p"
    using *[of "[]"] by (auto simp: level_table_def last_size_def)
qed

lemma side_ok_table: "side_ok (level_table ls) ls"
  by (simp add: side_ok_def level_table_props)

lemma side_ok_apply:
  "apply_levels printer items d = (Inr (), d') \<Longrightarrow> side_ok d ls
   \<Longrightarrow> \<exists>ls'. collect_res (decimal_level printer) items = Inr ls' \<and> side_ok d' (ls @ ls')"
proof (induction items arbitrary: d ls)
  case (Cons item items)
  then obtain l where l: "decimal_level printer item = Inr l" "apply_levels printer items (put_level l d) = (Inr (), d')"
    by (auto split: sum.splits)
  from Cons.IH[OF l(2) side_ok_put[OF Cons.prems(2)]]
  obtain ls' where "collect_res (decimal_level printer) items = Inr ls'" "side_ok d' ((ls @ [l]) @ ls')" by blast
  with l show ?case by auto
qed simp

section \<open>Snapshots\<close>

text \<open>The levels of a side: strictly ordered, and exactly the positive last sizes.\<close>

definition shows_levels :: "(decimal \<Rightarrow> decimal \<Rightarrow> bool) \<Rightarrow> OrderBookLevel list \<Rightarrow> (decimal \<times> decimal) list \<Rightarrow> bool" where
  "shows_levels better shown_levels levels \<longleftrightarrow>
     sorted_wrt (\<lambda>a b. better (level_price a) (level_price b)) shown_levels
     \<and> (\<forall>p q. \<lparr>level_price = p, level_size = q\<rparr> \<in> set shown_levels \<longleftrightarrow> last_size levels p = Some q \<and> q > 0)"

lemma sorted_book_levels:
  assumes "distinct (dict_keys d)" "inj f" "\<And>p q. f p < f q \<longleftrightarrow> better p q"
  shows "sorted_wrt (\<lambda>a b. better (level_price a) (level_price b)) (book_levels (sort_key (\<lambda>(p, q). f p) d))"
proof -
  let ?k = "\<lambda>(p, q). f p" and ?xs = "sort_key (\<lambda>(p, q). f p) d"
  have "sorted (map ?k ?xs)" by simp
  moreover have "distinct (map ?k ?xs)"
  proof -
    have "map ?k d = map f (map fst d)" by (auto simp: case_prod_beta)
    then have "distinct (map ?k d)" using assms(1,2) by (metis distinct_map inj_on_subset subset_UNIV)
    then show ?thesis by (auto simp: distinct_map distinct_sort)
  qed
  ultimately have "sorted_wrt (<) (map ?k ?xs)" using strict_sorted_iff by blast
  then have "sorted_wrt (\<lambda>x y. better (fst x) (fst y)) ?xs"
    by (simp add: sorted_wrt_map case_prod_beta assms(3))
  then have "sorted_wrt (\<lambda>x y. better (fst x) (fst y)) (filter (\<lambda>(p, q). q > 0) ?xs)"
    by (rule sorted_wrt_filter)
  then show ?thesis by (simp add: book_levels_def sorted_wrt_map case_prod_beta)
qed

lemma book_levels_mem:
  assumes "distinct (dict_keys d)" "set xs = set d"
  shows "\<lparr>level_price = p, level_size = q\<rparr> \<in> set (book_levels xs) \<longleftrightarrow> shown (dict_get d p) = Some q"
proof -
  have "\<lparr>level_price = p, level_size = q\<rparr> \<in> set (book_levels xs) \<longleftrightarrow> (p, q) \<in> set d \<and> q > 0"
    using assms(2) by (auto simp: book_levels_def image_iff)
  also have "\<dots> \<longleftrightarrow> dict_get d p = Some q \<and> q > 0" using assms(1) by (simp add: map_of_eq_Some_iff)
  finally show ?thesis by (auto simp: shown_def split: option.splits)
qed

lemma shown_Some: "shown x = Some q \<longleftrightarrow> x = Some q \<and> q > 0"
  by (auto simp: shown_def split: option.splits)

lemma snapshot_shows:
  assumes "side_ok (rb_bids book) bl" "side_ok (rb_asks book) al"
  shows "shows_levels (>) (ob_bids (book_snapshot now venue symbol book)) bl"
    "shows_levels (<) (ob_asks (book_snapshot now venue symbol book)) al"
proof -
  have fst_eq: "fst = (\<lambda>(p, q). p)" by auto
  show "shows_levels (>) (ob_bids (book_snapshot now venue symbol book)) bl"
    using assms sorted_book_levels[of "rb_bids book" uminus "(>)"] book_levels_mem[of "rb_bids book"]
    by (auto simp: shows_levels_def book_snapshot_def side_ok_def shown_Some inj_def)
  show "shows_levels (<) (ob_asks (book_snapshot now venue symbol book)) al"
    using assms sorted_book_levels[of "rb_asks book" id "(<)"] book_levels_mem[of "rb_asks book"]
    by (auto simp: shows_levels_def book_snapshot_def side_ok_def shown_Some fst_eq)
qed

section \<open>A book through its deltas\<close>

record delta =
  dl_bids :: "json list"
  dl_asks :: "json list"
  dl_sequence :: "int option"
  dl_previous :: "int option"

definition feed :: "printer \<Rightarrow> datetime \<Rightarrow> ExecutionVenue \<Rightarrow> string \<Rightarrow> delta list \<Rightarrow> (bool \<times> OrderBookSnapshot option) list rc_op" where
  "feed printer now venue symbol = collect (\<lambda>d. apply_delta printer now venue symbol (dl_bids d) (dl_asks d) (dl_sequence d) (dl_previous d))"

definition tracked :: "book_key \<Rightarrow> (decimal \<times> decimal) list \<Rightarrow> (decimal \<times> decimal) list \<Rightarrow> OrderBookReconstructor \<Rightarrow> bool" where
  "tracked key bl al s \<longleftrightarrow> (\<exists>book. dict_get (rc_books s) key = Some book \<and> side_ok (rb_bids book) bl \<and> side_ok (rb_asks book) al)"

lemma update_book_InrE:
  assumes "update_book key f s = (Inr x, s')"
  obtains book book' where "dict_get (rc_books s) key = Some book" "f book = (Inr x, book')"
    "dict_get (rc_books s') key = Some book'"
  using assms by (auto simp: update_book_def adict.get_put split: option.splits prod.splits)

lemma write_delta_tracked:
  assumes "tracked (venue, symbol) bl al s" "write_delta printer now venue symbol bids asks sequence s = (Inr snap, s')"
  shows "\<exists>bl' al'. collect_res (decimal_level printer) bids = Inr bl' \<and> collect_res (decimal_level printer) asks = Inr al'
    \<and> tracked (venue, symbol) (bl @ bl') (al @ al') s'
    \<and> shows_levels (>) (ob_bids snap) (bl @ bl') \<and> shows_levels (<) (ob_asks snap) (al @ al')"
proof -
  obtain book where book: "dict_get (rc_books s) (venue, symbol) = Some book" "side_ok (rb_bids book) bl" "side_ok (rb_asks book) al"
    using assms(1) by (auto simp: tracked_def)
  from assms(2) obtain t1 t2 where
    1: "update_book (venue, symbol) (\<lambda>book. case apply_levels printer bids (rb_bids book) of (r, d) \<Rightarrow> (r, book\<lparr>rb_bids := d\<rparr>)) s = (Inr (), t1)"
    and 2: "update_book (venue, symbol) (\<lambda>book. case apply_levels printer asks (rb_asks book) of (r, d) \<Rightarrow> (r, book\<lparr>rb_asks := d\<rparr>)) t1 = (Inr (), t2)"
    and 3: "update_book (venue, symbol) (\<lambda>book. let book = book\<lparr>rb_sequence := sequence\<rparr>
       in (Inr (book_snapshot now (value_of_venue venue) symbol book), book)) t2 = (Inr snap, s')"
    unfolding seqm_def write_delta_def Let_def by (elim bindm_InrE) simp
  obtain d1 where d1: "apply_levels printer bids (rb_bids book) = (Inr (), d1)"
    "dict_get (rc_books t1) (venue, symbol) = Some (book\<lparr>rb_bids := d1\<rparr>)"
    using 1 book(1) by (elim update_book_InrE) (auto split: prod.splits)
  obtain d2 where d2: "apply_levels printer asks (rb_asks book) = (Inr (), d2)"
    "dict_get (rc_books t2) (venue, symbol) = Some (book\<lparr>rb_bids := d1, rb_asks := d2\<rparr>)"
    using 2 d1(2) by (elim update_book_InrE) (auto split: prod.splits)
  let ?b = "book\<lparr>rb_bids := d1, rb_asks := d2, rb_sequence := sequence\<rparr>"
  have fin: "dict_get (rc_books s') (venue, symbol) = Some ?b" "snap = book_snapshot now (value_of_venue venue) symbol ?b"
    using 3 d2(2) by (auto simp: Let_def elim!: update_book_InrE)
  obtain bl' al' where dec: "collect_res (decimal_level printer) bids = Inr bl'" "side_ok d1 (bl @ bl')"
    "collect_res (decimal_level printer) asks = Inr al'" "side_ok d2 (al @ al')"
    using side_ok_apply[OF d1(1) book(2)] side_ok_apply[OF d2(1) book(3)] by blast
  then have "tracked (venue, symbol) (bl @ bl') (al @ al') s'" using fin(1) by (simp add: tracked_def)
  then show ?thesis
    using dec fin(2) snapshot_shows[of ?b "bl @ bl'" "al @ al'" now "value_of_venue venue" symbol] by auto
qed

lemma delta_tracked:
  assumes "tracked (venue, symbol) bl al s"
    and "apply_delta printer now venue symbol bids asks sequence previous s = (Inr (True, out), s')"
  shows "\<exists>bl' al' snap. collect_res (decimal_level printer) bids = Inr bl' \<and> collect_res (decimal_level printer) asks = Inr al'
    \<and> tracked (venue, symbol) (bl @ bl') (al @ al') s' \<and> out = Some snap
    \<and> shows_levels (>) (ob_bids snap) (bl @ bl') \<and> shows_levels (<) (ob_asks snap) (al @ al')"
proof -
  have keep: "tracked (venue, symbol) bl al t" if "validate_key key a b s = (r, t)" for t key a b r
    using that assms(1) by (auto simp: validate_key_def Let_def tracked_def split: prod.splits)
  obtain t snap where "tracked (venue, symbol) bl al t"
    "write_delta printer now venue symbol bids asks sequence t = (Inr snap, s')" "out = Some snap"
    using assms(2) keep unfolding apply_delta_def by (elim bindm_InrE) (fastforce split: if_splits elim: bindm_InrE)
  then show ?thesis using write_delta_tracked by blast
qed

lemma collect_res_append:
  "collect_res f xs = Inr ys \<Longrightarrow> collect_res f zs = Inr ws \<Longrightarrow> collect_res f (xs @ zs) = Inr (ys @ ws)"
  by (induction xs arbitrary: ys) (auto simp: bindr_Inr_iff)

lemma feed_tracked:
  assumes "tracked (venue, symbol) bl al s" "feed printer now venue symbol deltas s = (Inr outs, s')" "deltas \<noteq> []"
    and "list_all fst outs"
  shows "\<exists>bl' al' snap. collect_res (decimal_level printer) (concat (map dl_bids deltas)) = Inr bl'
    \<and> collect_res (decimal_level printer) (concat (map dl_asks deltas)) = Inr al' \<and> last outs = (True, Some snap)
    \<and> shows_levels (>) (ob_bids snap) (bl @ bl') \<and> shows_levels (<) (ob_asks snap) (al @ al')"
  using assms
proof (induction deltas arbitrary: bl al s outs)
  case (Cons d ds)
  obtain valid out s1 outs' where step:
    "apply_delta printer now venue symbol (dl_bids d) (dl_asks d) (dl_sequence d) (dl_previous d) s = (Inr (valid, out), s1)"
    "feed printer now venue symbol ds s1 = (Inr outs', s')" "outs = (valid, out) # outs'"
    using Cons.prems(2) unfolding feed_def collect.simps by (elim bindm_InrE) (auto simp: feed_def)
  then have "valid" "list_all fst outs'" using Cons.prems(4) by auto
  then obtain bl' al' snap where one: "collect_res (decimal_level printer) (dl_bids d) = Inr bl'"
    "collect_res (decimal_level printer) (dl_asks d) = Inr al'" "tracked (venue, symbol) (bl @ bl') (al @ al') s1"
    "out = Some snap" "shows_levels (>) (ob_bids snap) (bl @ bl')" "shows_levels (<) (ob_asks snap) (al @ al')"
    using delta_tracked[OF Cons.prems(1), of printer now "dl_bids d" "dl_asks d" "dl_sequence d" "dl_previous d" out s1] step(1) by auto
  show ?case
  proof (cases "ds = []")
    case True
    then have "outs' = []" using step(2) by (simp add: feed_def)
    then show ?thesis using one step(3) \<open>valid\<close> True by auto
  next
    case False
    from Cons.IH[OF one(3) step(2) False \<open>list_all fst outs'\<close>]
    obtain bl2 al2 snap2 where two: "collect_res (decimal_level printer) (concat (map dl_bids ds)) = Inr bl2"
      "collect_res (decimal_level printer) (concat (map dl_asks ds)) = Inr al2" "last outs' = (True, Some snap2)"
      "shows_levels (>) (ob_bids snap2) ((bl @ bl') @ bl2)" "shows_levels (<) (ob_asks snap2) ((al @ al') @ al2)"
      by blast
    have "outs' \<noteq> []" using False step(2) by (cases ds) (auto simp: feed_def bindm_def split: prod.splits sum.splits)
    then show ?thesis
      using two collect_res_append[OF one(1) two(1)] collect_res_append[OF one(2) two(2)] step(3) by auto
  qed
qed simp

lemma snapshot_tracked:
  assumes "apply_snapshot printer now venue symbol bids asks sequence s = (Inr snap, s')"
  shows "\<exists>bl al. collect_res (decimal_level printer) bids = Inr bl \<and> collect_res (decimal_level printer) asks = Inr al
    \<and> tracked (venue, symbol) bl al s'"
  using assms unfolding apply_snapshot_def
  by (elim bindm_InrE) (auto simp: Let_def tracked_def adict.get_put side_ok_table)

text \<open>C15. After a snapshot and any accepted deltas the published book lists, best price first and without repetition,
  exactly the prices whose last reported size is positive, with that size.\<close>

theorem reconstructed_book_exact:
  assumes "apply_snapshot printer now venue symbol bids asks sequence s = (Inr snap0, s0)"
    and "feed printer now venue symbol deltas s0 = (Inr outs, s1)" "deltas \<noteq> []" "list_all fst outs"
  shows "\<exists>bid_levels ask_levels snap.
      collect_res (decimal_level printer) (bids @ concat (map dl_bids deltas)) = Inr bid_levels
    \<and> collect_res (decimal_level printer) (asks @ concat (map dl_asks deltas)) = Inr ask_levels
    \<and> last outs = (True, Some snap)
    \<and> shows_levels (>) (ob_bids snap) bid_levels \<and> shows_levels (<) (ob_asks snap) ask_levels"
proof -
  obtain bl al where 0: "collect_res (decimal_level printer) bids = Inr bl" "collect_res (decimal_level printer) asks = Inr al"
    "tracked (venue, symbol) bl al s0"
    using snapshot_tracked[OF assms(1)] by blast
  from feed_tracked[OF 0(3) assms(2,3,4)] obtain bl' al' snap where
    "collect_res (decimal_level printer) (concat (map dl_bids deltas)) = Inr bl'"
    "collect_res (decimal_level printer) (concat (map dl_asks deltas)) = Inr al'" "last outs = (True, Some snap)"
    "shows_levels (>) (ob_bids snap) (bl @ bl')" "shows_levels (<) (ob_asks snap) (al @ al')" by blast
  then show ?thesis using collect_res_append 0(1,2) by blast
qed

section \<open>Sequence numbers\<close>

text \<open>The answers of \<open>validate\<close> to a series of messages (sequence, previous).\<close>

fun validate_all :: "(int \<times> int option) list \<Rightarrow> SequenceState \<Rightarrow> bool list \<times> SequenceState" where
  "validate_all [] st = ([], st)"
| "validate_all ((n, previous) # ms) st =
     (case validate_sequence (Some n) previous st of (valid, st1) \<Rightarrow>
       (case validate_all ms st1 of (valids, st2) \<Rightarrow> (valid # valids, st2)))"

definition accepted :: "(int \<times> int option) list \<Rightarrow> SequenceState \<Rightarrow> (int \<times> int option) list" where
  "accepted ms st = map fst (filter snd (zip ms (fst (validate_all ms st))))"

lemma accepted_Cons:
  "accepted ((n, previous) # ms) st =
     (case validate_sequence (Some n) previous st of (valid, st') \<Rightarrow> (if valid then [(n, previous)] else []) @ accepted ms st')"
  by (simp add: accepted_def split: prod.splits)

lemma validate_cases:
  "validate_sequence (Some n) previous st =
     (if last_sequence st = None \<or> (previous = None \<or> previous = last_sequence st) \<and> the (last_sequence st) < n
      then (True, st\<lparr>last_sequence := Some n\<rparr>) else (False, st\<lparr>gaps_detected := gaps_detected st + 1\<rparr>))"
  by (auto simp: validate_sequence_def Let_def split: option.splits)

text \<open>Increasing numbers, each chained to the one before.\<close>

fun chained :: "int option \<Rightarrow> (int \<times> int option) list \<Rightarrow> bool" where
  "chained l [] \<longleftrightarrow> True"
| "chained l ((n, previous) # ms) \<longleftrightarrow> (case l of None \<Rightarrow> True | Some k \<Rightarrow> k < n \<and> (previous = None \<or> previous = Some k)) \<and> chained (Some n) ms"

text \<open>Over any series of messages the accepted sequence numbers increase, each accepted message follows the one accepted before
  it, the remembered number is the last accepted one, and every refusal is counted as a gap.\<close>

theorem accepted_sequences_chained:
  "chained (last_sequence st) (accepted ms st)
   \<and> last_sequence (snd (validate_all ms st)) = (if accepted ms st = [] then last_sequence st else Some (fst (last (accepted ms st))))
   \<and> gaps_detected (snd (validate_all ms st)) + length (accepted ms st) = gaps_detected st + length ms"
proof (induction ms arbitrary: st)
  case Nil
  show ?case by (simp add: accepted_def)
next
  case (Cons m ms)
  obtain n previous where m: "m = (n, previous)" by (cases m)
  obtain valid st1 where v: "validate_sequence (Some n) previous st = (valid, st1)" by (cases "validate_sequence (Some n) previous st")
  obtain valids st2 where r: "validate_all ms st1 = (valids, st2)" by (cases "validate_all ms st1")
  show ?case
  proof (cases valid)
    case True
    then have st1: "last_sequence st1 = Some n" "gaps_detected st1 = gaps_detected st"
      "case last_sequence st of None \<Rightarrow> True | Some k \<Rightarrow> k < n \<and> (previous = None \<or> previous = Some k)"
      using v by (auto simp: validate_cases split: if_splits option.splits)
    with True Cons.IH[of st1] show ?thesis by (simp add: m accepted_Cons v r)
  next
    case False
    then have "last_sequence st1 = last_sequence st" "gaps_detected st1 = gaps_detected st + 1" using v by (auto simp: validate_cases split: if_splits)
    with False Cons.IH[of st1] show ?thesis by (simp add: m accepted_Cons v r)
  qed
qed

text \<open>
  Venues number the changes: a message carries its first and last change, the first being one more
  than the last of the message before. Taken as \<open>previous_sequence\<close> it never matches.
\<close>

fun contiguous :: "int \<Rightarrow> (int \<times> int option) list \<Rightarrow> bool" where
  "contiguous k [] \<longleftrightarrow> True"
| "contiguous k ((n, first) # ms) \<longleftrightarrow> first = Some (k + 1) \<and> k < n \<and> contiguous n ms"

lemma contiguous_refused:
  "contiguous k ms \<Longrightarrow> last_sequence st = Some l \<Longrightarrow> l \<le> k \<Longrightarrow> accepted ms st = []"
proof (induction k ms arbitrary: st rule: contiguous.induct)
  case (2 k n first ms)
  let ?st = "st\<lparr>gaps_detected := gaps_detected st + 1\<rparr>"
  have v: "validate_sequence (Some n) first st = (False, ?st)" using 2(2-4) by (simp add: validate_cases)
  have "accepted ms ?st = []" using 2 by simp
  then show ?case by (simp add: accepted_Cons v)
qed (simp add: accepted_def)

text \<open>Of a contiguous stream only the first message is accepted.\<close>

theorem contiguous_stream_refused_after_first:
  "contiguous k (m # ms) \<Longrightarrow> last_sequence st = None \<Longrightarrow> accepted (m # ms) st = [m]"
  using contiguous_refused[of "fst m" ms "st\<lparr>last_sequence := Some (fst m)\<rparr>" "fst m"]
  by (cases m) (simp add: accepted_Cons validate_cases)

theorem contiguous_stream_refused_after_first_witness:
  "accepted [(10, Some 8), (13, Some 11), (14, Some 14)] (SequenceState_init None) = [(10, Some 8)]"
  using contiguous_stream_refused_after_first[of 7 "(10, Some 8)" "[(13, Some 11), (14, Some 14)]" "SequenceState_init None"]
  by (simp add: SequenceState_init_def)

section \<open>A lost message\<close>

text \<open>A stream that waits for the successor of \<open>l\<close>, and frames that are none.\<close>

definition waits_for :: "'h stream_env \<Rightarrow> int \<Rightarrow> 'h \<Rightarrow> nat \<Rightarrow> ExecutionVenue \<Rightarrow> 'h VenueWebSocketConnector \<Rightarrow> bool" where
  "waits_for env l h k venue c \<longleftrightarrow>
     wc_venue c = venue \<and> wc_handler c = h \<and> wc_callback_invocations c = k
     \<and> (\<exists>subscription st. find is_book_stream (se_subscriptions env) = Some subscription
         \<and> dict_get (rc_sequences (wc_reconstructor c)) (venue, text_or (su_symbol subscription) []) = Some st
         \<and> last_sequence st = Some l)"

definition stale_frame :: "'h stream_env \<Rightarrow> ExecutionVenue \<Rightarrow> int \<Rightarrow> frame \<Rightarrow> bool" where
  "stale_frame env venue l raw \<longleftrightarrow>
     (case decode_frame raw of
        Inr (JDict message) \<Rightarrow>
          \<not> (venue = Venue_coinstore \<and> coinstore_established (se_printer env) message)
          \<and> (case parse_sequence venue message of
               Inr (Some n, Some p) \<Rightarrow> p \<noteq> l \<or> n \<le> l
             | Inr (Some n, None) \<Rightarrow> n \<le> l
             | Inr (None, p) \<Rightarrow> False
             | Inl e \<Rightarrow> True)
      | _ \<Rightarrow> True)"

fun stale_event :: "'h stream_env \<Rightarrow> ExecutionVenue \<Rightarrow> int \<Rightarrow> ws_event \<Rightarrow> bool" where
  "stale_event env venue l (Ws_attempt (Inr conn)) \<longleftrightarrow> list_all (stale_frame env venue l) (cn_frames conn)"
| "stale_event env venue l _ \<longleftrightarrow> True"

lemma keeps_modifies_waits:
  "(\<And>c. wc_venue (f c) = wc_venue c) \<Longrightarrow> (\<And>c. wc_handler (f c) = wc_handler c)
   \<Longrightarrow> (\<And>c. wc_callback_invocations (f c) = wc_callback_invocations c)
   \<Longrightarrow> (\<And>c. wc_reconstructor (f c) = wc_reconstructor c) \<Longrightarrow> keeps (waits_for env l h k venue) (modifies f)"
  by (rule keeps_modifies) (simp add: waits_for_def)

lemma keeps_subscribe_waits: "keeps (waits_for env l h k venue) (subscribe_all env conn)"
  unfolding subscribe_all_def send_subscription_def by (intro kept keeps_modifies_waits) simp_all

lemma gap_detected_stale:
  assumes "waits_for env l h k venue c" "se_recover_snapshot env = None"
    and "case parse_sequence venue message of
           Inr (Some n, Some p) \<Rightarrow> p \<noteq> l \<or> n \<le> l | Inr (Some n, None) \<Rightarrow> n \<le> l | Inr (None, p) \<Rightarrow> False | Inl e \<Rightarrow> True"
  shows "\<exists>r c'. gap_detected env message c = (r, c') \<and> r \<noteq> Inr False \<and> waits_for env l h k venue c'"
proof -
  obtain sub st where s: "wc_venue c = venue" "find is_book_stream (se_subscriptions env) = Some sub"
    "dict_get (rc_sequences (wc_reconstructor c)) (venue, text_or (su_symbol sub) []) = Some st" "last_sequence st = Some l"
    using assms(1) by (auto simp: waits_for_def)
  show ?thesis
  proof (cases "parse_sequence venue message")
    case (Inl e)
    then show ?thesis using assms(1) s(1) by (simp add: gap_detected_def bindm_def)
  next
    case (Inr sp)
    then obtain n p where sp: "sp = (Some n, p)" "(p \<noteq> None \<and> p \<noteq> Some l) \<or> n \<le> l"
      using assms(3) by (cases sp) (auto split: option.splits)
    let ?st = "st\<lparr>gaps_detected := gaps_detected st + 1\<rparr>" and ?key = "(venue, text_or (su_symbol sub) [])"
    have v: "validate_sequence (Some n) p st = (False, ?st)" using sp(2) s(4) by (auto simp: validate_cases)
    let ?c = "c\<lparr>wc_reconstructor := (wc_reconstructor c)\<lparr>rc_sequences := dict_set ?key ?st (rc_sequences (wc_reconstructor c))\<rparr>\<rparr>"
    have "validate_stream (text_or (su_symbol sub) []) (Some n) p c = (Inr False, ?c)"
      using s v by (simp add: validate_stream_def validate_key_def dict_get_or_def)
    then have "gap_detected env message c = (Inr True, ?c)"
      using Inr s assms(2) sp(1) by (simp add: gap_detected_def bindm_def seqm_def)
    moreover have "waits_for env l h k venue ?c"
      using assms(1) s by (auto simp: waits_for_def adict.get_put)
    ultimately show ?thesis by simp
  qed
qed

lemma keeps_dispatch_stale:
  assumes "se_recover_snapshot env = None"
    and "\<not> (venue = Venue_coinstore \<and> coinstore_established (se_printer env) message)"
    and "case parse_sequence venue message of
           Inr (Some n, Some p) \<Rightarrow> p \<noteq> l \<or> n \<le> l | Inr (Some n, None) \<Rightarrow> n \<le> l | Inr (None, p) \<Rightarrow> False | Inl e \<Rightarrow> True"
  shows "keeps (waits_for env l h k venue) (dispatch_message env conn message)"
proof (rule keepsI)
  fix c assume c: "waits_for env l h k venue c"
  then have "wc_venue c = venue" by (simp add: waits_for_def)
  moreover obtain r c' where "gap_detected env message c = (r, c')" "r \<noteq> Inr False" "waits_for env l h k venue c'"
    using gap_detected_stale[OF c assms(1,3)] by blast
  ultimately show "waits_for env l h k venue (snd (dispatch_message env conn message c))"
    using assms(2) keepsD[OF keeps_subscribe_waits, of env l h k venue c' conn]
    by (cases r) (auto simp: dispatch_message_def bindm_def)
qed

lemma keeps_receive_stale:
  assumes "se_recover_snapshot env = None" "stale_frame env venue l raw"
  shows "keeps (waits_for env l h k venue) (receive_frame env conn raw)"
proof (cases "decode_frame raw")
  case (Inl e)
  then show ?thesis by (simp add: receive_frame_def keeps_def bindm_def)
next
  case (Inr decoded)
  show ?thesis
  proof (cases decoded)
    case (JDict message)
    let ?P = "waits_for env l h k venue"
    have "keeps ?P (dispatch_message env conn message)"
      using assms Inr JDict by (intro keeps_dispatch_stale) (simp_all add: stale_frame_def)
    moreover have "keeps ?P (capture_raw_sample message)"
      unfolding capture_raw_sample_def by (rule keeps_modifies_waits) auto
    moreover have "keeps ?P (modifies (\<lambda>c. c\<lparr>wc_messages_received := wc_messages_received c + 1\<rparr>))"
      by (rule keeps_modifies_waits) simp_all
    moreover have "receive_frame env conn raw = seqm (modifies (\<lambda>c. c\<lparr>wc_messages_received := wc_messages_received c + 1\<rparr>))
        (seqm (capture_raw_sample message) (dispatch_message env conn message))"
      by (simp add: receive_frame_def Inr JDict fun_eq_iff bindm_def seqm_def)
    ultimately show ?thesis by (simp add: keeps_seq)
  qed (simp_all add: receive_frame_def keeps_def bindm_def seqm_def Inr waits_for_def)
qed

lemma refused_connection:
  "connect_once env (Inl e) c =
     (Inr (), c\<lparr>wc_connection_attempts := wc_connection_attempts c + 1, wc_connected := False, wc_slept := wc_slept c @ [wc_delay c],
       wc_delay := min (wc_max_reconnect_delay_seconds c) (wc_delay c * 2)\<rparr>)"
  by (simp add: connect_once_def catch_def seqm_def bindm_def)

lemma bindm_lift_fun: "bindm (lift_res (Inr x)) f = f x"
  by (simp add: fun_eq_iff)

lemma connect_step_stale:
  assumes "se_recover_snapshot env = None" "stale_event env venue l e" "waits_for env l h k venue c"
  shows "waits_for env l h k venue (connect_step env e c)"
proof (cases e)
  case Ws_stop
  then show ?thesis using assms(3) by (simp add: stop_connector_def waits_for_def)
next
  case (Ws_attempt attempt)
  let ?P = "waits_for env l h k venue"
  have "keeps ?P (connect_once env attempt)"
  proof (cases attempt)
    case (Inl x)
    then show ?thesis by (auto simp: keeps_def refused_connection waits_for_def)
  next
    case (Inr conn)
    have "keeps ?P (serve_connection env conn)"
      using assms(1,2) Ws_attempt Inr unfolding serve_connection_def
      by (intro kept keeps_subscribe_waits keeps_modifies_waits keeps_receive_stale) (auto simp: list_all_iff)
    then show ?thesis unfolding connect_once_def
      by (intro keeps_catch keeps_seq keeps_modifies_waits) (simp_all add: Inr bindm_lift_fun)
  qed
  then show ?thesis using assms(3) Ws_attempt by (simp add: keeps_def)
qed

text \<open>Once a message was lost, no later message reaches the handler, over any number of connections, if it
  is numbered as following another than the last accepted one and there is no snapshot recovery.\<close>

theorem lost_message_silences_stream:
  assumes "se_recover_snapshot env = None" "waits_for env l h k venue c" "list_all (stale_event env venue l) events"
  shows "wc_handler (run (connect_step env) events c) = h \<and> wc_callback_invocations (run (connect_step env) events c) = k"
proof -
  have "waits_for env l h k venue (run (connect_step env) events c)"
    using assms(2,3) by (induction events arbitrary: c) (auto intro: connect_step_stale[OF assms(1)])
  then show ?thesis by (simp add: waits_for_def)
qed

section \<open>Reconnection\<close>

definition stream_at :: "'h VenueWebSocketConnector \<Rightarrow> 'h VenueWebSocketConnector \<Rightarrow> bool" where
  "stream_at s c \<longleftrightarrow> wc_max_reconnect_delay_seconds c = wc_max_reconnect_delay_seconds s \<and> wc_slept c = wc_slept s
     \<and> wc_delay c \<in> {wc_delay s, 1} \<and> length (wc_raw_message_samples c) \<le> max 20 (length (wc_raw_message_samples s))"

lemma keeps_modifies_at: "(\<And>c. stream_at s c \<Longrightarrow> stream_at s (f c)) \<Longrightarrow> keeps (stream_at s) (modifies f)"
  by (rule keeps_modifies)

lemma keeps_on_handler_at: "keeps (stream_at s) (on_handler m)"
  unfolding on_handler_def by (rule keeps_zoom) (simp add: stream_at_def)

lemma keeps_subscribe_at: "keeps (stream_at s) (subscribe_all env conn)"
  unfolding subscribe_all_def send_subscription_def by (intro kept keeps_modifies_at) (simp add: stream_at_def)

lemma keeps_invoke_at: "keeps (stream_at s) (invoke_handler env message)"
  unfolding invoke_handler_def by (intro kept keeps_modifies_at keeps_on_handler_at) (simp add: stream_at_def)

lemma keeps_gap_at: "keeps (stream_at s) (gap_detected env message)"
proof -
  have "keeps (stream_at s) (validate_stream symbol sequence previous)" for symbol sequence previous
    by (auto simp: keeps_def validate_stream_def stream_at_def split: prod.splits)
  then show ?thesis
    unfolding gap_detected_def by (auto intro!: kept keeps_on_handler_at split: prod.splits)
qed

lemma keeps_receive_at: "keeps (stream_at s) (receive_frame env conn raw)"
  unfolding receive_frame_def dispatch_message_def capture_raw_sample_def
  by (intro kept keeps_modifies_at keeps_subscribe_at keeps_invoke_at keeps_gap_at) (auto simp: stream_at_def)

lemma keeps_serve_at: "keeps (stream_at s) (serve_connection env conn)"
  unfolding serve_connection_def
  by (intro kept keeps_modifies_at keeps_subscribe_at keeps_receive_at) (auto simp: stream_at_def)

lemma connect_once_at:
  "stream_at c (snd (connect_once env attempt c)) \<or> (\<exists>u. stream_at c u \<and> snd (connect_once env attempt c) = u\<lparr>wc_connected := False, wc_slept := wc_slept u @ [wc_delay u],
    wc_delay := min (wc_max_reconnect_delay_seconds u) (wc_delay u * 2)\<rparr>)"
  unfolding connect_once_def
proof (rule catch_modifies)
  show "keeps (stream_at c) (seqm (modifies (\<lambda>c. c\<lparr>wc_connection_attempts := wc_connection_attempts c + 1\<rparr>))
      (bindm (lift_res attempt) (serve_connection env)))"
    by (intro kept keeps_modifies_at keeps_serve_at) (simp add: stream_at_def)
qed (simp add: stream_at_def)

interpretation delays: reconnector "connect_step env" "\<lambda>e. \<exists>x. e = Ws_attempt (Inl x)" "\<lambda>c. \<not> wc_stopped c"
  wc_delay wc_max_reconnect_delay_seconds wc_slept for env
proof
  fix e and c :: "'a VenueWebSocketConnector"
  let ?c = "connect_step env e c"
  show "wc_slept ?c = wc_slept c \<and> wc_delay ?c \<in> {wc_delay c, 1}
      \<or> (\<exists>d \<in> {wc_delay c, 1}. wc_slept ?c = wc_slept c @ [d] \<and> wc_delay ?c = min (wc_max_reconnect_delay_seconds c) (d * 2))"
    by (cases e) (use connect_once_at[of c env] in \<open>force simp: stop_connector_def stream_at_def\<close>)+
  show "wc_max_reconnect_delay_seconds ?c = wc_max_reconnect_delay_seconds c"
    by (cases e) (use connect_once_at[of c env] in \<open>force simp: stop_connector_def stream_at_def\<close>)+
qed (auto simp: refused_connection)

definition stream_inv :: "'h VenueWebSocketConnector \<Rightarrow> bool" where
  "stream_inv c \<longleftrightarrow> 1 \<le> wc_max_reconnect_delay_seconds c \<and> 1 \<le> wc_delay c \<and> wc_delay c \<le> wc_max_reconnect_delay_seconds c
     \<and> list_all (\<lambda>d. 1 \<le> d \<and> d \<le> wc_max_reconnect_delay_seconds c) (wc_slept c) \<and> length (wc_raw_message_samples c) \<le> 20"

lemma stream_inv_delays: "stream_inv c \<longleftrightarrow> delays.delays_ok c \<and> length (wc_raw_message_samples c) \<le> 20"
  by (auto simp: stream_inv_def delays.delays_ok_def)

interpretation stream: step_system "connect_step env" stream_inv for env
proof
  fix c :: "'a VenueWebSocketConnector" and e
  assume "stream_inv c"
  moreover have "length (wc_raw_message_samples (connect_step env e c)) \<le> max 20 (length (wc_raw_message_samples c))"
    by (cases e) (use connect_once_at[of c env] in \<open>force simp: stop_connector_def stream_at_def\<close>)+
  ultimately show "stream_inv (connect_step env e c)"
    using delays.step_delays_ok[of c env e] by (simp add: stream_inv_delays)
qed

text \<open>Whatever the venue does, the connector waits between one second and its maximum before it tries again, and
  keeps at most twenty raw messages.\<close>

theorem reconnect_delays_bounded:
  assumes "1 \<le> max_delay"
  shows "stream_inv (run (connect_step env) events (VenueWebSocketConnector_init venue max_delay h))"
  using assms by (intro stream.run_inv) (simp add: stream_inv_def VenueWebSocketConnector_init_def)

text \<open>While the venue refuses connections the delays are 1, 2, 4, ... seconds up to the maximum.\<close>

theorem reconnect_delays_double:
  assumes "1 \<le> max_delay"
  shows "wc_slept (run (connect_step env) (map (\<lambda>e. Ws_attempt (Inl e)) errors) (VenueWebSocketConnector_init venue max_delay h))
       = map (\<lambda>i. min max_delay (2 ^ i)) [0..<length errors]"
  using delays.run_doubles[of "VenueWebSocketConnector_init venue max_delay h" 0 "map (\<lambda>e. Ws_attempt (Inl e)) errors" env] assms
  by (simp add: VenueWebSocketConnector_init_def list_all_iff)

theorem reconnect_delays_double_witness:
  "wc_slept (run (connect_step \<lparr>se_now_ms = (\<lambda>_. 0), se_printer = (\<lambda>_. []), se_subscriptions = [], se_handle = (\<lambda>_. ret ()),
       se_recover_snapshot = None\<rparr>) (map (\<lambda>e. Ws_attempt (Inl e)) (replicate 7 (TransportError ''refused'')))
       (VenueWebSocketConnector_init Venue_gate 30 ())) = [1, 2, 4, 8, 16, 30, 30]"
  by (subst reconnect_delays_double) (simp_all add: upt_rec numeral_eq_Suc)

theorem lost_message_silences_stream_witness:
  "let env = \<lparr>se_now_ms = (\<lambda>_. 0), se_printer = (\<lambda>_. []),
         se_subscriptions = [\<lparr>su_venue = Venue_binance, su_symbol = Some ''A/B'', su_kind = Kind_orderbook, su_interval = None, su_auth_stream_token = None\<rparr>],
         se_handle = (\<lambda>m. modifies (\<lambda>ms. m # ms)), se_recover_snapshot = None\<rparr>;
       c = (VenueWebSocketConnector_init Venue_binance 30 [])\<lparr>wc_reconstructor :=
         \<lparr>rc_books = [], rc_sequences = [((Venue_binance, ''A/B''), SequenceState_init (Some 100))]\<rparr>\<rparr>;
       frame = (\<lambda>n. Text_frame (Inr (JDict [(''pu'', JInt (n - 1)), (''u'', JInt n)])));
       events = map (\<lambda>fs. Ws_attempt (Inr \<lparr>cn_send = (\<lambda>_ _. Inr ()), cn_frames = fs, cn_closed = Inr ()\<rparr>))
         [map frame [102, 103, 104], map frame [105]]
   in wc_handler (run (connect_step env) events c) = [] \<and> wc_callback_invocations (run (connect_step env) events c) = 0"
  unfolding Let_def
  by (rule lost_message_silences_stream[where l = 100 and venue = Venue_binance])
    (simp_all add: waits_for_def VenueWebSocketConnector_init_def is_book_stream_def SequenceState_init_def
      stale_frame_def decode_frame_def parse_sequence_def jget_def int_or_none_def)

theorem reconnect_delays_bounded_witness:
  "stream_inv (run (connect_step \<lparr>se_now_ms = (\<lambda>_. 0), se_printer = (\<lambda>_. []), se_subscriptions = [], se_handle = (\<lambda>_. ret ()),
       se_recover_snapshot = None\<rparr>) [Ws_attempt (Inl (TransportError ''refused'')), Ws_stop] (VenueWebSocketConnector_init Venue_gate 30 ()))"
  by (rule reconnect_delays_bounded) simp

theorem reconstructed_book_exact_witness:
  "let s = \<lparr>rc_books = [], rc_sequences = []\<rparr>; printer = (\<lambda>_. []);
       level = (\<lambda>p q. JList [JInt p, JInt q]);
       s0 = snd (apply_snapshot printer 0 Venue_gate ''A/B'' [level 10 2, level 9 4] [level 11 1] (Some 5) s);
       deltas = [\<lparr>dl_bids = [level 10 0, level 8 6], dl_asks = [level 11 3], dl_sequence = Some 6, dl_previous = Some 5\<rparr>]
   in \<exists>snap. last (projr (fst (feed printer 0 Venue_gate ''A/B'' deltas s0))) = (True, Some snap)
      \<and> shows_levels (>) (ob_bids snap) [(10, 2), (9, 4), (10, 0), (8, 6)] \<and> shows_levels (<) (ob_asks snap) [(11, 1), (11, 3)]"
proof -
  let ?level = "\<lambda>p q. JList [JInt p, JInt q]" and ?printer = "\<lambda>_. []"
  let ?s = "\<lparr>rc_books = [], rc_sequences = []\<rparr>"
  let ?snap = "apply_snapshot ?printer 0 Venue_gate ''A/B'' [?level 10 2, ?level 9 4] [?level 11 1] (Some 5) ?s"
  let ?deltas = "[\<lparr>dl_bids = [?level 10 0, ?level 8 6], dl_asks = [?level 11 3], dl_sequence = Some 6, dl_previous = Some 5\<rparr>]"
  let ?feed = "feed ?printer 0 Venue_gate ''A/B'' ?deltas (snd ?snap)"
  have l: "decimal_level ?printer (?level 10 2) = Inr (10, 2)" "decimal_level ?printer (?level 9 4) = Inr (9, 4)"
    "decimal_level ?printer (?level 11 1) = Inr (11, 1)" "decimal_level ?printer (?level 10 0) = Inr (10, 0)"
    "decimal_level ?printer (?level 8 6) = Inr (8, 6)" "decimal_level ?printer (?level 11 3) = Inr (11, 3)"
    by code_simp+
  have snap: "\<exists>x. ?snap = (Inr x, snd ?snap)" by (simp add: apply_snapshot_def l bindm_def seqm_def Let_def)
  have feed: "\<exists>x. ?feed = (Inr [(True, x)], snd ?feed)"
    by (simp add: feed_def apply_delta_def write_delta_def apply_snapshot_def l bindm_def seqm_def validate_key_def
        validate_sequence_def SequenceState_init_def dict_get_or_def update_book_def put_level_def level_table_def Let_def)
  obtain x y where xy: "?snap = (Inr x, snd ?snap)" "?feed = (Inr [(True, y)], snd ?feed)" using snap feed by blast
  from reconstructed_book_exact[OF xy] show ?thesis
    unfolding Let_def by (subst xy(2)) (auto simp: l)
qed

end
