(* ===== verification/Stress.thy ===== *)
theory Stress
  imports Backtest Effects
begin

text \<open>
  The loops of \<open>stress/testing.py\<close>: an operation is run so many times, its failures are counted and its time is taken; the statistics are
  in \<open>Backtest\<close>. The readings of the clock are an argument, in the order they are taken. The handlers that \<open>asyncio.gather\<close> starts
  run one after another; all of them run, and the first failure is the group's.
\<close>

section \<open>The loops\<close>

fun stress_loop :: "(nat \<Rightarrow> ('s, unit) op) \<Rightarrow> (nat \<Rightarrow> float) \<Rightarrow> nat list \<Rightarrow> 's \<Rightarrow> (int \<times> float list) \<times> 's" where
  "stress_loop operation perf_counter [] s = ((0, []), s)"
| "stress_loop operation perf_counter (i # rest) s =
     (case operation i s of (r, t) \<Rightarrow>
       (case stress_loop operation perf_counter rest t of ((errors, latencies), u) \<Rightarrow>
         ((case r of Inl _ \<Rightarrow> errors + 1 | Inr _ \<Rightarrow> errors, (perf_counter (2 * i + 2) - perf_counter (2 * i + 1)) * 1000 # latencies), u)))"

definition timed_run :: "string \<Rightarrow> int \<Rightarrow> (nat \<Rightarrow> ('s, unit) op) \<Rightarrow> (nat \<Rightarrow> float) \<Rightarrow> 's \<Rightarrow> StressResult \<times> 's" where
  "timed_run name n operation perf_counter s =
     (case stress_loop operation perf_counter [0..<nat n] s of ((errors, latencies), t) \<Rightarrow>
       (stress_result name n errors latencies (max (perf_counter (2 * nat n + 1) - perf_counter 0) (1 / 1000000000)), t))"

definition high_frequency_orders :: "string \<Rightarrow> int \<Rightarrow> (nat \<Rightarrow> ('s, unit) op) \<Rightarrow> (nat \<Rightarrow> float) \<Rightarrow> 's \<Rightarrow> StressResult \<times> 's" where
  "high_frequency_orders name n operation = timed_run name n operation"

definition exchange_disconnect :: "('s, unit) op \<Rightarrow> int \<Rightarrow> (nat \<Rightarrow> float) \<Rightarrow> 's \<Rightarrow> StressResult \<times> 's" where
  "exchange_disconnect reconnect_operation attempts = high_frequency_orders ''exchange_disconnect'' attempts (\<lambda>_. reconnect_operation)"

definition latency_test :: "('s, unit) op \<Rightarrow> int \<Rightarrow> (nat \<Rightarrow> float) \<Rightarrow> 's \<Rightarrow> StressResult \<times> 's" where
  "latency_test operation samples = high_frequency_orders ''latency'' samples (\<lambda>_. operation)"

fun gather :: "('s, unit) op list \<Rightarrow> ('s, unit) op" where
  "gather [] s = (Inr (), s)"
| "gather (m # ms) s = (case m s of (r, t) \<Rightarrow> (case gather ms t of (r', u) \<Rightarrow> (case r of Inl e \<Rightarrow> (Inl e, u) | Inr _ \<Rightarrow> (r', u))))"

text \<open>A message of a burst, by its sequence; its sides are empty.\<close>

definition orderbook_burst :: "(nat \<Rightarrow> ('s, unit) op) \<Rightarrow> int \<Rightarrow> nat \<Rightarrow> (nat \<Rightarrow> float) \<Rightarrow> 's \<Rightarrow> StressResult \<times> 's" where
  "orderbook_burst handler bursts messages_per_burst =
     high_frequency_orders ''orderbook_burst'' bursts (\<lambda>i. gather (map (\<lambda>item. handler (i * messages_per_burst + item)) [0..<messages_per_burst]))"

definition evaluate_once :: "(nat \<Rightarrow> datetime) \<Rightarrow> RiskOrderIntent \<Rightarrow> nat \<Rightarrow> (RiskEngine, unit) op" where
  "evaluate_once clock intent i risk = (case evaluate_order (clock i) risk intent 0 0 0 0 of (r, risk') \<Rightarrow> (bindr r (\<lambda>_. Inr ()), risk'))"

definition risk_trigger_test :: "(nat \<Rightarrow> datetime) \<Rightarrow> RiskEngine \<Rightarrow> RiskOrderIntent \<Rightarrow> int \<Rightarrow> (nat \<Rightarrow> float) \<Rightarrow> StressResult \<times> RiskEngine" where
  "risk_trigger_test clock risk intent iterations perf_counter = timed_run ''risk_trigger'' iterations (evaluate_once clock intent) perf_counter risk"

section \<open>What they report\<close>

fun outcomes :: "(nat \<Rightarrow> ('s, unit) op) \<Rightarrow> nat list \<Rightarrow> 's \<Rightarrow> unit res list" where
  "outcomes operation [] s = []"
| "outcomes operation (i # rest) s = fst (operation i s) # outcomes operation rest (snd (operation i s))"

definition failed :: "unit res \<Rightarrow> bool" where
  "failed r \<longleftrightarrow> (case r of Inl _ \<Rightarrow> True | Inr _ \<Rightarrow> False)"

lemma stress_loop_eq: "stress_loop operation clock is s =
    ((int (length (filter failed (outcomes operation is s))), map (\<lambda>i. (clock (2 * i + 2) - clock (2 * i + 1)) * 1000) is), fold (\<lambda>i s. snd (operation i s)) is s)"
proof (induction "is" arbitrary: s)
  case (Cons i rest)
  show ?case using Cons[of "snd (operation i s)"] by (cases "operation i s") (auto simp: failed_def split: sum.split)
qed simp

text \<open>
  A stress run runs the operation as often as asked, whatever fails, counts exactly the failures, and reports a throughput of the operations over the
  time taken.
\<close>

theorem stress_run_exact:
  "case high_frequency_orders name n operation clock s of (result, t) \<Rightarrow>
     st_operations result = n \<and> st_errors result = int (length (filter failed (outcomes operation [0..<nat n] s)))
     \<and> t = fold (\<lambda>i s. snd (operation i s)) [0..<nat n] s
     \<and> st_throughput_per_second result = of_int n / max (clock (2 * nat n + 1) - clock 0) (1 / 1000000000)"
  by (simp add: high_frequency_orders_def timed_run_def stress_loop_eq stress_result_def Let_def)

lemma gather_runs_all: "snd (gather ms s) = fold (\<lambda>m s. snd (m s)) ms s"
  by (induction ms arbitrary: s) (auto split: prod.split sum.split, (metis snd_conv)+)

text \<open>While the kill switch is on, every iteration of the risk test is an error and the risk engine stays as it was.\<close>

theorem risk_trigger_under_kill_switch:
  assumes "ks_active (re_kill_switch risk)" "0 \<le> n"
  shows "st_errors (fst (risk_trigger_test clock risk intent n perf_counter)) = n \<and> snd (risk_trigger_test clock risk intent n perf_counter) = risk"
proof -
  obtain e where once: "evaluate_once clock intent i risk = (Inl e, risk)" for i using assms(1) by (simp add: evaluate_once_def evaluate_order_def)
  have "outcomes (evaluate_once clock intent) xs risk = replicate (length xs) (Inl e)" "fold (\<lambda>i s. snd (evaluate_once clock intent i s)) xs risk = risk" for xs
    by (induction xs) (simp_all add: once)
  then show ?thesis using assms(2) by (simp add: risk_trigger_test_def timed_run_def stress_loop_eq stress_result_def Let_def failed_def)
qed

theorem risk_trigger_under_kill_switch_witness:
  "st_errors (fst (risk_trigger_test (\<lambda>_. 0) (activate_kill_switch 0 ''stop'' default_risk_engine) example_risk_intent 5 (\<lambda>n. of_nat n))) = 5"
  using risk_trigger_under_kill_switch[of "activate_kill_switch 0 ''stop'' default_risk_engine" 5 "\<lambda>_. 0" example_risk_intent "\<lambda>n. of_nat n"]
  by (simp add: activate_kill_switch_def ks_activate_def)

end
