(* ===== verification/Surveillance.thy ===== *)
theory Surveillance
  imports Sliding Exec_Models
begin

text \<open>
  \<open>surveillance/anti_manipulation.py\<close>: the engine's tables (open orders, order times, cancel times,
  recent fills), the three recording operations with their detectors, and the alerts they raise.
  The lemmas characterise when each alert is raised over whole histories of events.
\<close>

section \<open>Model\<close>

datatype ManipulationSeverity = MSev_warning | MSev_critical | MSev_emergency

record SurveillanceOrder =
  svo_account_id :: string
  svo_symbol :: string
  svo_side :: ExecutionSide
  svo_price :: decimal
  svo_quantity :: decimal
  svo_client_order_id :: string
  svo_created_at :: datetime

record SurveillanceFill =
  svf_account_id :: string
  svf_counterparty_account_id :: "string option"
  svf_symbol :: string
  svf_side :: ExecutionSide
  svf_price :: decimal
  svf_quantity :: decimal
  svf_client_order_id :: string
  svf_trade_id :: string
  svf_executed_at :: datetime

record CancelEvent =
  ce_account_id :: string
  ce_symbol :: string
  ce_client_order_id :: string
  ce_cancelled_at :: datetime

text \<open>Evidence values; \<open>EvDecimal d\<close> stands for the text \<open>str(d)\<close>.\<close>

datatype evidence = EvInt int | EvStr string | EvDecimal decimal

record ManipulationAlert =
  alert_type :: string
  ma_severity :: ManipulationSeverity
  ma_symbol :: string
  ma_message :: string
  ma_evidence :: "(string, evidence) dict"

type_synonym account_key = "string \<times> string"

record AntiManipulationEngine =
  cancel_window :: int
  max_cancels :: int
  max_orders_per_second :: int
  abnormal_fill_notional :: decimal
  open_orders :: "(string, SurveillanceOrder) dict"
  cancels :: "(account_key, datetime list) dict"
  order_times :: "(account_key, datetime list) dict"
  recent_fills :: "(account_key, SurveillanceFill list) dict"

definition AntiManipulationEngine_init :: "int \<Rightarrow> int \<Rightarrow> int \<Rightarrow> decimal \<Rightarrow> AntiManipulationEngine" where
  "AntiManipulationEngine_init cancel_window_seconds max_cancels_per_window orders_per_second fill_notional =
     \<lparr>cancel_window = seconds cancel_window_seconds, max_cancels = max_cancels_per_window,
      max_orders_per_second = orders_per_second, abnormal_fill_notional = fill_notional,
      open_orders = [], cancels = [], order_times = [], recent_fills = []\<rparr>"

definition trim_times :: "datetime list \<Rightarrow> datetime \<Rightarrow> datetime list" where
  "trim_times values cutoff = dropWhile (\<lambda>t. t < cutoff) values"

text \<open>\<open>_detect_self_trade\<close> stops at the first match, \<open>_detect_cross_account_collision\<close> lists all.\<close>

definition collides :: "SurveillanceOrder \<Rightarrow> SurveillanceOrder \<Rightarrow> bool" where
  "collides order existing \<longleftrightarrow> svo_symbol existing = svo_symbol order
     \<and> svo_side existing = opposite (svo_side order) \<and> svo_price existing = svo_price order"

definition detect_self_trade :: "AntiManipulationEngine \<Rightarrow> SurveillanceOrder \<Rightarrow> ManipulationAlert list" where
  "detect_self_trade self order =
     (case find (\<lambda>existing. svo_account_id existing = svo_account_id order \<and> collides order existing)
             (map snd (open_orders self)) of
        None \<Rightarrow> []
      | Some existing \<Rightarrow>
          [\<lparr>alert_type = ''self_trade_prevention'', ma_severity = MSev_emergency, ma_symbol = svo_symbol order,
            ma_message = ''opposing same-account orders would cross'',
            ma_evidence = [(''new_order'', EvStr (svo_client_order_id order)),
                           (''existing_order'', EvStr (svo_client_order_id existing))]\<rparr>])"

definition detect_cross_account_collision :: "AntiManipulationEngine \<Rightarrow> SurveillanceOrder \<Rightarrow> ManipulationAlert list" where
  "detect_cross_account_collision self order =
     map (\<lambda>existing.
        \<lparr>alert_type = ''cross_account_collision'', ma_severity = MSev_critical, ma_symbol = svo_symbol order,
         ma_message = ''managed accounts have crossing orders'',
         ma_evidence = [(''new_account'', EvStr (svo_account_id order)),
                        (''existing_account'', EvStr (svo_account_id existing)),
                        (''price'', EvDecimal (svo_price order))]\<rparr>)
       (filter (\<lambda>existing. svo_account_id existing \<noteq> svo_account_id order \<and> collides order existing)
          (map snd (open_orders self)))"

definition detect_abnormal_execution_cluster :: "SurveillanceFill \<Rightarrow> SurveillanceFill list \<Rightarrow> ManipulationAlert list" where
  "detect_abnormal_execution_cluster fill fills =
     (let same_price = filter (\<lambda>item. svf_price item = svf_price fill \<and> svf_side item = svf_side fill) fills
      in if length same_price \<ge> 20
         then [\<lparr>alert_type = ''abnormal_execution'', ma_severity = MSev_warning, ma_symbol = svf_symbol fill,
                ma_message = ''clustered executions at identical price and side'',
                ma_evidence = [(''count'', EvInt (int (length same_price))), (''price'', EvDecimal (svf_price fill))]\<rparr>]
         else [])"

definition sv_record_order :: "SurveillanceOrder \<Rightarrow> AntiManipulationEngine \<Rightarrow> ManipulationAlert list \<times> AntiManipulationEngine" where
  "sv_record_order order self =
     (let now = svo_created_at order;
          key = (svo_account_id order, svo_symbol order);
          times = trim_times (dict_get_or (order_times self) key [] @ [now]) (now - seconds 1);
          self1 = self\<lparr>order_times := dict_set key times (order_times self)\<rparr>;
          spam = (if int (length times) > max_orders_per_second self
                  then [\<lparr>alert_type = ''order_spam'', ma_severity = MSev_critical, ma_symbol = svo_symbol order,
                         ma_message = ''order submission rate exceeded'',
                         ma_evidence = [(''account_id'', EvStr (svo_account_id order)),
                                        (''orders_last_second'', EvInt (int (length times)))]\<rparr>]
                  else []);
          alerts = spam @ detect_self_trade self1 order @ detect_cross_account_collision self1 order
      in (alerts, self1\<lparr>open_orders := dict_set (svo_client_order_id order) order (open_orders self1)\<rparr>))"

definition sv_record_cancel :: "CancelEvent \<Rightarrow> AntiManipulationEngine \<Rightarrow> ManipulationAlert list \<times> AntiManipulationEngine" where
  "sv_record_cancel event self =
     (let self1 = self\<lparr>open_orders := dict_pop (ce_client_order_id event) (open_orders self)\<rparr>;
          key = (ce_account_id event, ce_symbol event);
          times = trim_times (dict_get_or (cancels self1) key [] @ [ce_cancelled_at event])
                    (ce_cancelled_at event - cancel_window self1);
          self2 = self1\<lparr>cancels := dict_set key times (cancels self1)\<rparr>
      in (if int (length times) > max_cancels self2
          then [\<lparr>alert_type = ''excessive_cancel'', ma_severity = MSev_critical, ma_symbol = ce_symbol event,
                 ma_message = ''cancel rate exceeded'',
                 ma_evidence = [(''account_id'', EvStr (ce_account_id event)),
                                (''cancels'', EvInt (int (length times))),
                                (''window_seconds'', EvDecimal (total_seconds (cancel_window self2)))]\<rparr>]
          else [], self2))"

definition sv_record_fill :: "SurveillanceFill \<Rightarrow> AntiManipulationEngine \<Rightarrow> ManipulationAlert list \<times> AntiManipulationEngine" where
  "sv_record_fill fill self =
     (let notional = svf_price fill * svf_quantity fill;
          large = (if notional \<ge> abnormal_fill_notional self
                   then [\<lparr>alert_type = ''abnormal_fill'', ma_severity = MSev_warning, ma_symbol = svf_symbol fill,
                          ma_message = ''large fill detected'',
                          ma_evidence = [(''notional'', EvDecimal notional), (''trade_id'', EvStr (svf_trade_id fill))]\<rparr>]
                   else []);
          wash = (if svf_counterparty_account_id fill \<noteq> None \<and> svf_counterparty_account_id fill \<noteq> Some []
                     \<and> svf_counterparty_account_id fill = Some (svf_account_id fill)
                  then [\<lparr>alert_type = ''wash_trade'', ma_severity = MSev_emergency, ma_symbol = svf_symbol fill,
                         ma_message = ''same-account execution detected'',
                         ma_evidence = [(''trade_id'', EvStr (svf_trade_id fill)), (''account_id'', EvStr (svf_account_id fill))]\<rparr>]
                  else []);
          key = (svf_account_id fill, svf_symbol fill);
          fills = dropWhile (\<lambda>f. svf_executed_at f < svf_executed_at fill - seconds 300)
                    (dict_get_or (recent_fills self) key [] @ [fill])
      in (large @ wash @ detect_abnormal_execution_cluster fill fills,
          self\<lparr>recent_fills := dict_set key fills (recent_fills self)\<rparr>))"

section \<open>Windows\<close>

text \<open>What an engine has seen, as one event stream, and what each event notes in which table.\<close>

datatype sv_event = SvOrder SurveillanceOrder | SvCancel CancelEvent | SvFill SurveillanceFill

fun sv_step :: "sv_event \<Rightarrow> AntiManipulationEngine \<Rightarrow> AntiManipulationEngine" where
  "sv_step (SvOrder order) self = snd (sv_record_order order self)"
| "sv_step (SvCancel event) self = snd (sv_record_cancel event self)"
| "sv_step (SvFill fill) self = snd (sv_record_fill fill self)"

fun order_note :: "sv_event \<Rightarrow> (account_key \<times> datetime) list" where
  "order_note (SvOrder order) = [((svo_account_id order, svo_symbol order), svo_created_at order)]"
| "order_note _ = []"

fun cancel_note :: "sv_event \<Rightarrow> (account_key \<times> datetime) list" where
  "cancel_note (SvCancel e) = [((ce_account_id e, ce_symbol e), ce_cancelled_at e)]"
| "cancel_note _ = []"

fun fill_note :: "sv_event \<Rightarrow> (account_key \<times> SurveillanceFill) list" where
  "fill_note (SvFill f) = [((svf_account_id f, svf_symbol f), f)]"
| "fill_note _ = []"

lemmas sv_record_defs = sv_record_order_def sv_record_cancel_def sv_record_fill_def Let_def
  slide_def trim_times_def dict_get_or_def update_conv'

lemma sv_step_settings [simp]:
  "cancel_window (sv_step e s) = cancel_window s" "max_cancels (sv_step e s) = max_cancels s"
  "max_orders_per_second (sv_step e s) = max_orders_per_second s"
  "abnormal_fill_notional (sv_step e s) = abnormal_fill_notional s"
  by (cases e; simp add: sv_record_defs)+

text \<open>The three tables are keyed windows: of one second, of the cancel window, of five minutes.\<close>

interpretation orders_w: keyed_windows sv_step order_note "\<lambda>k s. dict_get_or (order_times s) k []" "\<lambda>s. seconds 1" id
  by (unfold_locales; (case_tac e)?; simp add: sv_record_defs)

interpretation cancels_w: keyed_windows sv_step cancel_note "\<lambda>k s. dict_get_or (cancels s) k []" cancel_window id
  by (unfold_locales; (case_tac e)?; simp add: sv_record_defs)

interpretation fills_w: keyed_windows sv_step fill_note "\<lambda>k s. dict_get_or (recent_fills s) k []" "\<lambda>s. seconds 300" svf_executed_at
  by (unfold_locales; (case_tac e)?; simp add: sv_record_defs)

section \<open>Open orders\<close>

text \<open>The order that is live under a client id after a history: the last one recorded and not cancelled.\<close>

fun touch :: "string \<Rightarrow> sv_event \<Rightarrow> SurveillanceOrder option \<Rightarrow> SurveillanceOrder option" where
  "touch cid (SvOrder order) live = (if svo_client_order_id order = cid then Some order else live)"
| "touch cid (SvCancel event) live = (if ce_client_order_id event = cid then None else live)"
| "touch cid (SvFill fill) live = live"

definition live_order :: "string \<Rightarrow> sv_event list \<Rightarrow> SurveillanceOrder option" where
  "live_order cid es = fold (touch cid) es None"

lemma sv_step_open_orders:
  assumes "distinct (dict_keys (open_orders s))"
  shows "distinct (dict_keys (open_orders (sv_step e s))) \<and>
         dict_get (open_orders (sv_step e s)) cid = touch cid e (dict_get (open_orders s) cid)"
  using assms by (cases e) (auto simp: sv_record_defs adict.wf_put adict.wf_pop adict.get_pop)

lemma run_open_orders:
  "distinct (dict_keys (open_orders s)) \<Longrightarrow>
   distinct (dict_keys (open_orders (run sv_step es s))) \<and>
   dict_get (open_orders (run sv_step es s)) cid = fold (touch cid) es (dict_get (open_orders s) cid)"
  by (induction es arbitrary: s) (simp_all add: sv_step_open_orders)

lemma open_orders_live:
  assumes "open_orders s = []"
  shows "existing \<in> set (map snd (open_orders (run sv_step es s))) \<longleftrightarrow> (\<exists>cid. live_order cid es = Some existing)"
proof -
  have d: "distinct (dict_keys (open_orders (run sv_step es s)))"
    and g: "\<And>cid. dict_get (open_orders (run sv_step es s)) cid = live_order cid es"
    using run_open_orders[of s es] assms by (auto simp: live_order_def)
  have "existing \<in> set (map snd (open_orders (run sv_step es s))) \<longleftrightarrow>
        (\<exists>cid. dict_get (open_orders (run sv_step es s)) cid = Some existing)"
    using d by (force simp: map_of_eq_Some_iff)
  then show ?thesis by (simp add: g)
qed

lemma detect_self_trade_types:
  "alert_type ` set (detect_self_trade s order) =
   (if \<exists>existing \<in> set (map snd (open_orders s)). svo_account_id existing = svo_account_id order \<and> collides order existing
    then {''self_trade_prevention''} else {})"
proof (cases "find (\<lambda>existing. svo_account_id existing = svo_account_id order \<and> collides order existing) (map snd (open_orders s))")
  case None
  then have "\<not> (\<exists>existing \<in> set (map snd (open_orders s)). svo_account_id existing = svo_account_id order \<and> collides order existing)"
    unfolding find_None_iff by blast
  with None show ?thesis by (simp add: detect_self_trade_def)
next
  case (Some e)
  then have "e \<in> set (map snd (open_orders s))" "svo_account_id e = svo_account_id order \<and> collides order e"
    unfolding find_Some_iff by auto
  then have "\<exists>existing \<in> set (map snd (open_orders s)). svo_account_id existing = svo_account_id order \<and> collides order existing"
    by blast
  with Some show ?thesis by (simp add: detect_self_trade_def)
qed

lemma image_const_filter: "f ` set (map g (filter P xs)) = (if \<exists>x \<in> set xs. P x then {c} else {})"
  if "\<And>x. f (g x) = c"
  using that by (auto simp: image_iff)

lemma detect_cross_account_types:
  "alert_type ` set (detect_cross_account_collision s order) =
   (if \<exists>existing \<in> set (map snd (open_orders s)). svo_account_id existing \<noteq> svo_account_id order \<and> collides order existing
    then {''cross_account_collision''} else {})"
  unfolding detect_cross_account_collision_def by (rule image_const_filter) simp

lemma record_order_types:
  "alert_type ` set (fst (sv_record_order order s)) =
     (if max_orders_per_second s < int (length (trim_times (dict_get_or (order_times s)
           (svo_account_id order, svo_symbol order) [] @ [svo_created_at order]) (svo_created_at order - seconds 1)))
      then {''order_spam''} else {})
     \<union> alert_type ` set (detect_self_trade s order) \<union> alert_type ` set (detect_cross_account_collision s order)"
  by (simp add: sv_record_order_def Let_def image_Un detect_self_trade_def detect_cross_account_collision_def Un_assoc)

lemma record_order_reports:
  "''order_spam'' \<in> alert_type ` set (fst (sv_record_order order s)) \<longleftrightarrow>
     max_orders_per_second s < int (length (trim_times (dict_get_or (order_times s)
       (svo_account_id order, svo_symbol order) [] @ [svo_created_at order]) (svo_created_at order - seconds 1)))"
  "''self_trade_prevention'' \<in> alert_type ` set (fst (sv_record_order order s)) \<longleftrightarrow>
     (\<exists>existing \<in> set (map snd (open_orders s)). svo_account_id existing = svo_account_id order \<and> collides order existing)"
  "''cross_account_collision'' \<in> alert_type ` set (fst (sv_record_order order s)) \<longleftrightarrow>
     (\<exists>existing \<in> set (map snd (open_orders s)). svo_account_id existing \<noteq> svo_account_id order \<and> collides order existing)"
  unfolding record_order_types detect_self_trade_types detect_cross_account_types by (simp_all only: Un_iff split: if_split) simp_all

lemma record_cancel_reports:
  "''excessive_cancel'' \<in> alert_type ` set (fst (sv_record_cancel event s)) \<longleftrightarrow>
     max_cancels s < int (length (trim_times (dict_get_or (cancels s)
       (ce_account_id event, ce_symbol event) [] @ [ce_cancelled_at event]) (ce_cancelled_at event - cancel_window s)))"
  unfolding sv_record_cancel_def Let_def fst_conv by (simp add: image_iff split: if_split)

section \<open>Properties\<close>

lemma run_settings [simp]:
  "max_cancels (run sv_step es s) = max_cancels s"
  "max_orders_per_second (run sv_step es s) = max_orders_per_second s"
  "cancel_window (run sv_step es s) = cancel_window s"
  by (induction es arbitrary: s) simp_all

text \<open>
  The rate alerts are exact over whole histories: on an engine that has processed any mix of
  orders, cancels and fills, a new order raises \<open>order_spam\<close> if and only if the account's orders in
  that symbol within the last second, this one included, exceed the limit, and a cancel raises
  \<open>excessive_cancel\<close> if and only if the cancels within the cancel window exceed theirs. (The
  timestamps of an account's orders, and of its cancels, must not decrease.)
\<close>

theorem rate_alerts_exact:
  assumes "sorted (noted order_note (svo_account_id order, svo_symbol order) es @ [svo_created_at order])"
    and "sorted (noted cancel_note (ce_account_id event, ce_symbol event) es @ [ce_cancelled_at event])"
    and "s = run sv_step es (AntiManipulationEngine_init cw mc mo nf)"
  shows "(''order_spam'' \<in> alert_type ` set (fst (sv_record_order order s)) \<longleftrightarrow>
       mo < int (length (filter (\<lambda>t. svo_created_at order - seconds 1 \<le> t)
              (noted order_note (svo_account_id order, svo_symbol order) es @ [svo_created_at order]))))
    \<and> (''excessive_cancel'' \<in> alert_type ` set (fst (sv_record_cancel event s)) \<longleftrightarrow>
       mc < int (length (filter (\<lambda>t. ce_cancelled_at event - seconds cw \<le> t)
              (noted cancel_note (ce_account_id event, ce_symbol event) es @ [ce_cancelled_at event]))))"
proof -
  let ?i = "AntiManipulationEngine_init cw mc mo nf"
  have o: "dropWhile (\<lambda>t. t < svo_created_at order - seconds 1)
        (dict_get_or (order_times s) (svo_account_id order, svo_symbol order) [] @ [svo_created_at order]) =
      filter (\<lambda>t. svo_created_at order - seconds 1 \<le> t)
        (noted order_note (svo_account_id order, svo_symbol order) es @ [svo_created_at order])"
    using orders_w.win_exact[of ?i "(svo_account_id order, svo_symbol order)" es "svo_created_at order"] assms(1)
    by (simp add: assms(3) slide_def AntiManipulationEngine_init_def dict_get_or_def)
  have c: "dropWhile (\<lambda>t. t < ce_cancelled_at event - seconds cw)
        (dict_get_or (cancels s) (ce_account_id event, ce_symbol event) [] @ [ce_cancelled_at event]) =
      filter (\<lambda>t. ce_cancelled_at event - seconds cw \<le> t)
        (noted cancel_note (ce_account_id event, ce_symbol event) es @ [ce_cancelled_at event])"
    using cancels_w.win_exact[of ?i "(ce_account_id event, ce_symbol event)" es "ce_cancelled_at event"] assms(2)
    by (simp add: assms(3) slide_def AntiManipulationEngine_init_def dict_get_or_def)
  have lim: "max_orders_per_second s = mo" "max_cancels s = mc" "cancel_window s = seconds cw"
    by (simp_all add: assms(3) AntiManipulationEngine_init_def)
  show ?thesis
    unfolding record_order_reports record_cancel_reports trim_times_def lim o c by blast
qed

text \<open>
  A new order is reported as a self trade if and only if the same account has a live order
  (recorded and not cancelled since; fills do not close an order) of the same symbol on the
  opposite side at exactly the same price, and as a cross-account collision if and only if another
  account has one. Orders that cross at a different price are therefore never reported.
\<close>

theorem collision_alerts_iff:
  "(''self_trade_prevention'' \<in> alert_type ` set (fst (sv_record_order order (run sv_step es (AntiManipulationEngine_init cw mc mo nf)))) \<longleftrightarrow>
     (\<exists>cid existing. live_order cid es = Some existing \<and> svo_account_id existing = svo_account_id order \<and> collides order existing))
   \<and> (''cross_account_collision'' \<in> alert_type ` set (fst (sv_record_order order (run sv_step es (AntiManipulationEngine_init cw mc mo nf)))) \<longleftrightarrow>
     (\<exists>cid existing. live_order cid es = Some existing \<and> svo_account_id existing \<noteq> svo_account_id order \<and> collides order existing))"
proof -
  let ?s = "run sv_step es (AntiManipulationEngine_init cw mc mo nf)"
  have live: "existing \<in> set (map snd (open_orders ?s)) \<longleftrightarrow> (\<exists>cid. live_order cid es = Some existing)" for existing
    by (rule open_orders_live) (simp add: AntiManipulationEngine_init_def)
  show ?thesis
    unfolding record_order_reports Bex_def live by blast
qed

definition example_sv_order :: "ExecutionSide \<Rightarrow> decimal \<Rightarrow> string \<Rightarrow> datetime \<Rightarrow> SurveillanceOrder" where
  "example_sv_order side price cid t = \<lparr>svo_account_id = ''main'', svo_symbol = ''BTC/USDT'', svo_side = side,
     svo_price = price, svo_quantity = 1, svo_client_order_id = cid, svo_created_at = t\<rparr>"

theorem rate_alerts_exact_witness:
  "''order_spam'' \<in> alert_type ` set (fst (sv_record_order (example_sv_order Side_buy 5 ''c'' 900000)
     (run sv_step [SvOrder (example_sv_order Side_buy 5 ''a'' 0), SvOrder (example_sv_order Side_buy 5 ''b'' 500000)]
        (AntiManipulationEngine_init 60 100 2 1000000))))"
  using rate_alerts_exact[of "example_sv_order Side_buy 5 ''c'' 900000"
      "[SvOrder (example_sv_order Side_buy 5 ''a'' 0), SvOrder (example_sv_order Side_buy 5 ''b'' 500000)]"
      "\<lparr>ce_account_id = ''main'', ce_symbol = ''BTC/USDT'', ce_client_order_id = ''a'', ce_cancelled_at = 1\<rparr>"
      _ 60 100 2 1000000, OF _ _ refl]
  by (simp add: noted_def example_sv_order_def seconds_def)

end
