(* ===== verification/Spec2Isabelle.thy ===== *)
theory Spec2Isabelle
  imports Access Accounts_Api Accounts_Safety Alerts Audit_Chain Backtest Canary Client_Safety Coinstore Coinstore_Checks
    Coinstore_Safety Config Config_Safety Config_Store Connectors Control_Api Control_Safety Daemon Daemon_Safety Db
    Effects Env_Check Exec_Client Exec_Models Hardening Inventory Json Json_Safe Liquidity MD_Runtime
    MD_Safety MM_Bus MM_Control MM_Ladder MM_Life MM_Runtime MM_Safety Market_Data Market_Link Migrations
    Normalizer Ops_Api Ops_Safety Paper Paper_Db Precision Prelude Private_Stream Quote_Engine Rate_Limit
    Reconciliation Reconnect Redis_Store Rest_Client Risk Sliding Store Strategy Stream_Safety Stress
    Surveillance Venue_Spec Volume
begin

text \<open>
  A verification development for the market making bot \<open>mmbot\<close> (\<open>src/src/mmbot\<close>).

  \<^bold>\<open>The program.\<close> The bot quotes two-sided ladders of limit orders. On every tick the market maker
  runtime (\<open>engines/market_making/runtime.py\<close>) reads the latest ticker and order book, lets the
  inventory, volume and quote engines decide which quotes to show, puts every quote to the risk engine
  and the launch controller, and hands the accepted ones to the paper engine (in paper mode) or to the
  Coinstore service (in canary and live mode). Commands of the operators and configuration reloads
  arrive between ticks. The paper engine matches orders against the book, keeps an account and mirrors
  it in the database. The Coinstore service validates an order, checks it against the open orders in
  the database, sends it through the REST client, which signs, rate limits, retries and parses, and
  stores what it hears back from answers and from the private stream. Around this stand the
  public market streams with their normalisation, the surveillance of the own order flow, the strategy and liquidity engines, the analytics of market
  data, the reconciliation of books, the alert router and the security layer.

  \<^bold>\<open>Theories and sources.\<close>
  \<^item> \<open>Prelude\<close>, \<open>Effects\<close>, \<open>Sliding\<close>, \<open>Json\<close>: vocabulary. Numbers and times, the exceptions as the type
    \<open>pyerr\<close>, dictionaries in insertion order, Python's rounding; operations with state and exceptions
    (\<open>op\<close>) with the rule set \<open>kept\<close> for invariants; sliding windows; dynamic values with \<open>get\<close>, \<open>or\<close> chains and
    number parsing. The locales \<open>step_system\<close>, \<open>latch_system\<close> and \<open>refinement\<close> are the shared interfaces.
  \<^item> \<open>Exec_Models\<close>, \<open>Precision\<close>, \<open>Config\<close>, \<open>Db\<close>: \<open>execution/models.py\<close>, \<open>execution/status.py\<close>,
    \<open>execution/precision.py\<close>, \<open>core/config.py\<close>, \<open>db/models.py\<close>.
  \<^item> \<open>Quote_Engine\<close>, \<open>Risk\<close>, \<open>Canary\<close>, \<open>Volume\<close>, \<open>Inventory\<close>, \<open>Strategy\<close>, \<open>Liquidity\<close>, \<open>Market_Data\<close>, \<open>Surveillance\<close>,
    \<open>Reconciliation\<close>: one engine each (\<open>engines/market_making/engine.py\<close>, \<open>engines/risk/engine.py\<close>,
    \<open>production/canary.py\<close>, \<open>engines/volume/engine.py\<close>, \<open>engines/inventory/engine.py\<close>,
    \<open>engines/strategy/advanced.py\<close>, \<open>engines/liquidity/shaping.py\<close>, \<open>engines/market_data/engine.py\<close>,
    \<open>surveillance/anti_manipulation.py\<close>, \<open>reconciliation/engine.py\<close>).
  \<^item> \<open>Paper\<close>, \<open>Paper_Db\<close>: \<open>execution/paper.py\<close> and its rows.
  \<^item> \<open>MM_Runtime\<close>, \<open>MM_Control\<close>, \<open>MM_Safety\<close>, \<open>MM_Ladder\<close>: \<open>engines/market_making/runtime.py\<close>; the state is the
    record \<open>MarketMakerRuntime\<close>, a tick, a market event, a command and a reload are the events of \<open>mm_step\<close>.
  \<^item> \<open>Rate_Limit\<close>, \<open>Venue_Spec\<close>, \<open>Exec_Client\<close>, \<open>Client_Safety\<close>: \<open>exchanges/rate_limit.py\<close>, \<open>execution/specs.py\<close>,
    \<open>execution/signing.py\<close>, \<open>execution/errors.py\<close>, \<open>execution/client.py\<close>; the state is the record \<open>client\<close>.
  \<^item> \<open>Coinstore_Checks\<close>, \<open>Coinstore\<close>, \<open>Coinstore_Safety\<close>: \<open>execution/coinstore_validation.py\<close>,
    \<open>execution/coinstore_safety.py\<close>, \<open>execution/coinstore_reconciliation.py\<close>, \<open>execution/coinstore.py\<close>; the
    state is the record \<open>CoinstoreExecutionService\<close>, its operations are the events of \<open>cs_step\<close>.
  \<^item> \<open>Connectors\<close>, \<open>Stream_Safety\<close>: \<open>websocket/connectors.py\<close>; the state is the record \<open>VenueWebSocketConnector\<close>
    with the handler's state inside, an attempt to connect and a stop are the events of \<open>connect_step\<close>.
  \<^item> \<open>Normalizer\<close>, \<open>MD_Runtime\<close>, \<open>MD_Safety\<close>: \<open>engines/market_data/runtime.py\<close>; the state is the record
    \<open>MarketDataRuntime\<close>, its handler is what a connector calls, its operations are the events of \<open>md_step\<close>.
  \<^item> \<open>Reconnect\<close>, \<open>Private_Stream\<close>: the reconnection both kinds of streams share, as a locale, and
    \<open>execution/coinstore_ws.py\<close>; the state is the record \<open>CoinstorePrivateWebSocketClient\<close>.
  \<^item> \<open>Store\<close>, \<open>Config_Store\<close>, \<open>Config_Safety\<close>: the tables of the API, its Redis commands and sessions (\<open>db/session.py\<close>,
    \<open>db/repositories.py\<close>) as the record \<open>store\<close>; \<open>runtime/config_service.py\<close>, \<open>runtime/events.py\<close>.
  \<^item> \<open>Access\<close>, \<open>Control_Api\<close>, \<open>Control_Safety\<close>: \<open>core/security.py\<close>, \<open>cli/auth.py\<close> and the control routes of
    \<open>api/routes.py\<close>; \<open>control\<close> is one request. \<open>MM_Bus\<close>: the market maker's side of the bus.
  \<^item> \<open>Rest_Client\<close>: \<open>exchanges/registry.py\<close>, \<open>exchanges/auth.py\<close>, \<open>exchanges/client.py\<close>, \<open>exchanges/adapters.py\<close>.
  \<^item> \<open>Accounts_Api\<close>, \<open>Accounts_Safety\<close>: \<open>security/secrets.py\<close>, \<open>api/schemas.py\<close> and the account routes of \<open>api/routes.py\<close>; \<open>serve\<close>
    is one request on the record \<open>store\<close>.
  \<^item> \<open>Ops_Api\<close>, \<open>Ops_Safety\<close>: the pages of the operations and the socket of \<open>api/routes.py\<close>; the socket's state is the record
    \<open>ops_stream\<close>, \<open>stream_round\<close> is one pass of its loop.
  \<^item> \<open>Redis_Store\<close>: \<open>redis/manager.py\<close>; the server's state is a parameter, \<open>documented\<close> its behaviour.
  \<^item> \<open>Migrations\<close>, \<open>Env_Check\<close>: \<open>db/migrations.py\<close>, \<open>db/seeds.py\<close>, \<open>cli/database.py\<close>; \<open>scripts/validate_env.py\<close> and the validators
    of \<open>core/config.py\<close>.
  \<^item> \<open>MM_Life\<close>, \<open>Daemon\<close>, \<open>Daemon_Safety\<close>: start, stop and health of the two runtimes and \<open>engines/runtime.py\<close>; the state is the
    record \<open>EngineDaemon\<close> around a service, \<open>daemon_turn\<close> is one pass of its loop.
  \<^item> \<open>Market_Link\<close>: how the published books and the private stream reach the market maker (\<open>engines/market_making/runtime.py\<close>
    with \<open>redis/manager.py\<close> and \<open>execution/coinstore_ws.py\<close>). \<open>Json_Safe\<close>: \<open>_json_safe\<close> of \<open>db/models.py\<close> and its copies.
  \<^item> \<open>Backtest\<close>, \<open>Stress\<close>: \<open>simulation/backtesting.py\<close> and \<open>stress/testing.py\<close>.
  \<^item> \<open>Hardening\<close>, \<open>Audit_Chain\<close>, \<open>Alerts\<close>: \<open>security/hardening.py\<close>, \<open>alerts/delivery.py\<close>.

  \<^bold>\<open>What the theorems show.\<close>
  \<^item> Stopping: after an emergency stop nothing is placed over any history without a reload
    (\<open>MM_Safety\<close>); the kill switch, the breakers and the canary shutdown hold until they are lifted
    (\<open>Risk\<close>, \<open>Canary\<close>).
  \<^item> Orders that leave the process: only in canary and live mode, within the limits (\<open>MM_Safety\<close>); only
    validated and safe for the account, exactly the order that was asked for, at most three times, and
    at least once when the rate limit allows (\<open>Coinstore_Safety\<close>); with exactly printed decimals
    (\<open>Client_Safety\<close>, \<open>Precision\<close>).
  \<^item> Books: the paper account is the sum of its fills, fills respect limits, the database mirrors the
    memory (\<open>Paper\<close>, \<open>Paper_Db\<close>, \<open>MM_Ladder\<close>); the live tables have one row per order and per trade and a
    fill is booked once (\<open>Coinstore_Safety\<close>); reconciliation is silent exactly on agreeing snapshots.
  \<^item> Decisions: ladders never cross themselves, gates decide exactly by their limits, windows hold
    exactly the recent items, scores and multipliers stay in their ranges.
  \<^item> Market data: reconstructed books show exactly the last positive sizes, sequence numbers are chained,
    delays are bounded (\<open>Stream_Safety\<close>); messages are read back exactly, every message, row and
    publication is counted, trading pairs are unique (\<open>MD_Safety\<close>); a published book is the book the market
    maker reads (\<open>Market_Link\<close>).
  \<^item> Control: a stop that the API accepted ends trading (\<open>MM_Bus\<close>), only the right rights release the kill
    switch, a failed request leaves the tables as they were (\<open>Control_Safety\<close>), configuration changes are versioned,
    audited and announced (\<open>Config_Safety\<close>), a check passes exactly the tokens with its rights (\<open>Access\<close>).
  \<^item> Accounts: keys and references stay consistent, stored keys read back, lists show only masks (\<open>Accounts_Safety\<close>).
    Operations: the socket announces exactly the rows that were among the newest at a pass, each once (\<open>Ops_Safety\<close>).
    Redis: locks exclude each other and request counters bound every window whatever messages are lost (\<open>Redis_Store\<close>).
    Deployment: migrations apply exactly the new files once and in order (\<open>Migrations\<close>), the validation accepts exactly the
    complete environments (\<open>Env_Check\<close>).
  \<^item> Supervision: a turn of the daemon commits whole ticks, the market maker stays sound under rollbacks and restarts, the health
    snapshots follow the daemon's life (\<open>Daemon_Safety\<close>).
  \<^item> Security: one-time passwords, the token bucket's rate, tamper evidence of the audit log, alert
    routing.
  \<^item> Defects of the code are theorems too: an order is refused three times, the balance parser never
    returns a balance and the live reconciliation therefore always raises, payloads of the private
    stream are processed twice, a replaced quote is submitted twice, a truncated audit log verifies, a
    lost message silences a stream, a one-sided book drops the connection.

  \<^bold>\<open>Modelling decisions.\<close> \<open>float\<close> and \<open>Decimal\<close> values are exact rationals: rounding of floating point
  operations and the 28 digits of the decimal context are not modelled, \<open>nan\<close> and infinities are not
  values. An operation reads the clock once; times are microseconds. Coroutines run to completion one
  after another, as in one event loop whose handlers do not interleave; the database session is
  reliable and flushed at once, fresh uuids come from a supply. What the code calls in other packages
  is an argument: the venue's answers, transport errors and the retry decorator (\<open>http_env\<close>, with its
  documented behaviour \<open>tenacity\<close>), hash functions (\<open>crypto\<close>, \<open>hmac\<close>), decryption, Python's printing of
  floats and containers (\<open>printer\<close>), the texts of uuids. The runtime takes the answers of the
  Coinstore service as an argument (\<open>live_service\<close>); the service has its own theories. The only fuel is
  in \<open>decimal_places\<close>, which looks for at most 28 decimal places, the precision of the decimal context; the
  work list of \<open>unpack\<close> and all other loops are proved to end.

  \<^bold>\<open>Not modelled.\<close> Password hashing, the coding of tokens and encryption are calls of third-party packages and
  arguments where they are needed. What SQL statements do is an argument; the FastAPI application, the entry points of the engines and
  the logging set-up only wire the parts together.
\<close>

end
